(* ===== verification/Knaic_Prelude.thy ===== *)
theory Knaic_Prelude
  imports Main
begin

text \<open>
  Shared vocabulary of the development: the JavaScript values the code manipulates (strings,
  plain objects, optional fields, JSON), the outcome of an awaited call, the HTTP requests the
  API bindings build, the three fields every Kubernetes row carries, and the list lemmas
  about "the rows of one slot" that the caches share.

  Conventions: a JavaScript string is its UTF-8 byte sequence (\<open>string\<close>, so ASCII text is
  itself); a number the code uses as a count is an \<open>int\<close>; \<open>T | undefined\<close> and a field a
  backend may leave out are \<open>'a option\<close>; \<open>Record<string, T>\<close> is an association list in
  insertion order, the order \<open>Object.entries\<close> lists it in.
\<close>

named_theorems rows_simps
  \<comment> \<open>the rows of a slot after a filter, an append or a map\<close>
named_theorems lookup_simps
  \<comment> \<open>looking a key up after an update of a keyed list\<close>
named_theorems text_simps
  \<comment> \<open>facts on the JavaScript string operations\<close>

subsection \<open>Values\<close>

type_synonym 'v js_map = "(string \<times> 'v) list"

datatype json =
    JNull
  | JBool bool
  | JNum int int
  | JStr string
  | JArr "json list"
  | JObj "(string \<times> json) list"

text \<open>A number is the decimal \<open>m * 10 ^ e\<close> its literal spells (\<open>JNum m e\<close>); an integer has \<open>e = 0\<close>.\<close>

abbreviation jint :: "int \<Rightarrow> json" where
  "jint n \<equiv> JNum n 0"

text \<open>An object literal some of whose fields may be \<open>undefined\<close>: JSON leaves those out.\<close>

fun jobj :: "(string \<times> json option) list \<Rightarrow> json" where
  "jobj fs = JObj [(k, v). (k, Some v) \<leftarrow> fs]"

text \<open>The value at a path of property names.\<close>

fun json_at :: "string list \<Rightarrow> json \<Rightarrow> json option" where
  "json_at [] j = Some j"
| "json_at (k # ks) (JObj fs) = (case map_of fs k of Some j \<Rightarrow> json_at ks j | None \<Rightarrow> None)"
| "json_at (k # ks) j = None"

text \<open>\<open>a ?? b\<close> with a definite and with an optional right-hand side, and \<open>a || b\<close> on strings.\<close>

definition nullish :: "'a option \<Rightarrow> 'a \<Rightarrow> 'a" where
  "nullish a b = (case a of Some x \<Rightarrow> x | None \<Rightarrow> b)"

definition nullish_opt :: "'a option \<Rightarrow> 'a option \<Rightarrow> 'a option" where
  "nullish_opt a b = (case a of Some x \<Rightarrow> Some x | None \<Rightarrow> b)"

definition or_str :: "string \<Rightarrow> string \<Rightarrow> string" where
  "or_str a b = (if a = [] then b else a)"

lemma nullish_simps [simp]:
  "nullish (Some x) b = x" "nullish None b = b"
  "nullish_opt (Some x) c = Some x" "nullish_opt None c = c"
  by (simp_all add: nullish_def nullish_opt_def)

lemma or_str_simps [simp]:
  "or_str [] b = b" "or_str (c # cs) b = c # cs" "or_str a b = [] \<longleftrightarrow> a = [] \<and> b = []"
  by (auto simp: or_str_def)

text \<open>A string option read as a condition: \<open>undefined\<close> and the empty string are falsy.\<close>

definition truthy_str :: "string option \<Rightarrow> bool" where
  "truthy_str v \<longleftrightarrow> (case v of None \<Rightarrow> False | Some s \<Rightarrow> s \<noteq> [])"

lemma truthy_str_simps [simp]:
  "truthy_str None = False" "truthy_str (Some s) = (s \<noteq> [])"
  by (simp_all add: truthy_str_def)

text \<open>\<open>m[k] = v\<close> on a plain object: an existing key keeps its place.\<close>

fun js_put :: "string \<Rightarrow> 'v \<Rightarrow> 'v js_map \<Rightarrow> 'v js_map" where
  "js_put k v [] = [(k, v)]"
| "js_put k v ((k', v') # m) = (if k' = k then (k, v) # m else (k', v') # js_put k v m)"

lemma map_of_js_put [lookup_simps]: "map_of (js_put k v m) = (map_of m)(k \<mapsto> v)"
  by (induction k v m rule: js_put.induct) auto

lemma keys_js_put: "fst ` set (js_put k v m) = insert k (fst ` set m)"
  by (induction k v m rule: js_put.induct) auto

lemma distinct_js_put: "distinct (map fst m) \<Longrightarrow> distinct (map fst (js_put k v m))"
proof (induction k v m rule: js_put.induct)
  case (2 k v k' v' m)
  then show ?case
    using keys_js_put [of k v m] by (auto simp: image_iff)
qed simp

subsection \<open>Awaited calls and requests\<close>

text \<open>
  What an awaited promise does: reject with an error (\<open>Inl\<close>) or resolve (\<open>Inr\<close>). An
  \<open>ApiError\<close> carries the HTTP status; any other exception is an \<open>Error\<close> with its message.
\<close>

datatype js_error = ApiError int string | JsError string

fun js_message :: "js_error \<Rightarrow> string" where
  "js_message (ApiError _ m) = m"
| "js_message (JsError m) = m"

type_synonym 'r promise = "js_error + 'r"

datatype http_method = GET | POST | PUT | PATCH | DELETE

datatype body = NoBody | JsonBody json | YamlBody string

record http_request =
  rq_method :: http_method
  rq_path :: string
  rq_body :: body

text \<open>The backend: what each request the client sends is answered with.\<close>

type_synonym 'r backend = "http_request \<Rightarrow> 'r promise"

text \<open>The fields every namespaced row has; the row types of the stores extend it.\<close>

record k8s_obj =
  obj_id :: string
  obj_name :: string
  obj_namespace :: string

definition names_obj :: "string \<Rightarrow> string \<Rightarrow> 'a k8s_obj_scheme \<Rightarrow> bool" where
  "names_obj ns name x \<longleftrightarrow> obj_namespace x = ns \<and> obj_name x = name"

subsection \<open>The rows of one slot\<close>

definition rows :: "('a \<Rightarrow> 'k) \<Rightarrow> 'k \<Rightarrow> 'a list \<Rightarrow> 'a list" where
  "rows slot k xs = filter (\<lambda>x. slot x = k) xs"

lemma rows_Nil [rows_simps, simp]: "rows slot k [] = []"
  by (simp add: rows_def)

lemma rows_append [rows_simps]: "rows slot k (xs @ ys) = rows slot k xs @ rows slot k ys"
  by (simp add: rows_def)

lemma rows_Cons [rows_simps]:
  "rows slot k (x # xs) = (if slot x = k then x # rows slot k xs else rows slot k xs)"
  by (simp add: rows_def)

lemma rows_drop_own [rows_simps]: "rows slot k (filter (\<lambda>x. slot x \<noteq> k) xs) = []"
  by (simp add: rows_def)

lemma rows_drop_other [rows_simps]:
  "k' \<noteq> k \<Longrightarrow> rows slot k' (filter (\<lambda>x. slot x \<noteq> k) xs) = rows slot k' xs"
  by (auto simp: rows_def intro!: filter_cong)

lemma rows_all [rows_simps]: "(\<And>x. x \<in> set xs \<Longrightarrow> slot x = k) \<Longrightarrow> rows slot k xs = xs"
  by (simp add: rows_def)

lemma rows_none [rows_simps]: "(\<And>x. x \<in> set xs \<Longrightarrow> slot x \<noteq> k) \<Longrightarrow> rows slot k xs = []"
  by (simp add: rows_def)

lemma rows_map_same [rows_simps]:
  "(\<And>x. x \<in> set xs \<Longrightarrow> slot (f x) = slot x) \<Longrightarrow> rows slot k (map f xs) = map f (rows slot k xs)"
  by (induction xs) (auto simp: rows_def)

lemma in_rows: "x \<in> set (rows slot k xs) \<longleftrightarrow> x \<in> set xs \<and> slot x = k"
  by (auto simp: rows_def)

lemma set_by_rows: "x \<in> set xs \<longleftrightarrow> x \<in> set (rows slot (slot x) xs)"
  by (simp add: in_rows)

text \<open>The rows of every slot determine which rows there are.\<close>

lemma set_eq_of_rows:
  assumes "\<And>k. rows slot k xs = rows slot k ys"
  shows "set xs = set ys"
proof (intro set_eqI)
  fix x
  show "x \<in> set xs \<longleftrightarrow> x \<in> set ys"
    using assms [of "slot x"] set_by_rows [of x xs slot] set_by_rows [of x ys slot] by simp
qed

subsection \<open>Finding, replacing and dropping by key\<close>

text \<open>
  \<open>xs.find(x => key(x) === k)\<close>, \<open>xs.map(x => key(x) === k ? f(x) : x)\<close> and
  \<open>xs.filter(x => key(x) !== k)\<close>.
\<close>

definition find_key :: "('a \<Rightarrow> 'k) \<Rightarrow> 'k \<Rightarrow> 'a list \<Rightarrow> 'a option" where
  "find_key key k xs = find (\<lambda>x. key x = k) xs"

definition map_where :: "('a \<Rightarrow> bool) \<Rightarrow> ('a \<Rightarrow> 'a) \<Rightarrow> 'a list \<Rightarrow> 'a list" where
  "map_where p f xs = map (\<lambda>x. if p x then f x else x) xs"

definition drop_where :: "('a \<Rightarrow> bool) \<Rightarrow> 'a list \<Rightarrow> 'a list" where
  "drop_where p xs = filter (\<lambda>x. \<not> p x) xs"

lemma map_where_simps [simp]:
  "map_where p f [] = []" "map_where p f (x # xs) = (if p x then f x else x) # map_where p f xs"
  by (simp_all add: map_where_def)

lemma drop_where_simps [simp]:
  "drop_where p [] = []" "drop_where p (x # xs) = (if p x then drop_where p xs else x # drop_where p xs)"
  by (simp_all add: drop_where_def)

lemma length_map_where [simp]: "length (map_where p f xs) = length xs"
  by (simp add: map_where_def)

lemma in_map_where: "y \<in> set (map_where p f xs) \<longleftrightarrow> (\<exists>x \<in> set xs. y = (if p x then f x else x))"
  by (auto simp: map_where_def)

lemma in_drop_where [simp]: "x \<in> set (drop_where p xs) \<longleftrightarrow> x \<in> set xs \<and> \<not> p x"
  by (simp add: drop_where_def)

lemma ball_map_where: "(\<forall>y \<in> set (map_where p f xs). P y) \<longleftrightarrow> (\<forall>x \<in> set xs. if p x then P (f x) else P x)"
  by (auto simp: map_where_def)

lemma map_where_id: "(\<And>x. x \<in> set xs \<Longrightarrow> \<not> p x) \<Longrightarrow> map_where p f xs = xs"
  by (induction xs) auto

lemma drop_where_id: "(\<And>x. x \<in> set xs \<Longrightarrow> \<not> p x) \<Longrightarrow> drop_where p xs = xs"
  by (simp add: drop_where_def)

lemma find_key_simps [simp]:
  "find_key key k [] = None"
  "find_key key k (x # xs) = (if key x = k then Some x else find_key key k xs)"
  by (simp_all add: find_key_def)

lemma find_key_append [lookup_simps]:
  "find_key key k (xs @ ys) = (case find_key key k xs of Some x \<Rightarrow> Some x | None \<Rightarrow> find_key key k ys)"
  by (induction xs) auto

lemma find_key_Some: "find_key key k xs = Some x \<Longrightarrow> x \<in> set xs \<and> key x = k"
  by (induction xs) (auto split: if_splits)

lemma find_key_None: "find_key key k xs = None \<longleftrightarrow> k \<notin> key ` set xs"
  by (induction xs) auto

lemma find_key_drop [lookup_simps]:
  "find_key key k (drop_where (\<lambda>x. key x = k') xs) = (if k = k' then None else find_key key k xs)"
  by (induction xs) auto

lemma find_key_map [lookup_simps]:
  "(\<And>x. key (f x) = key x) \<Longrightarrow>
   find_key key k (map_where (\<lambda>x. key x = k') f xs) =
     (if k = k' then map_option f (find_key key k xs) else find_key key k xs)"
  by (induction xs) auto

lemma keys_drop: "key ` set (drop_where (\<lambda>x. key x = k) xs) = key ` set xs - {k}"
  by auto

lemma keys_map_where [simp]:
  "(\<And>x. p x \<Longrightarrow> key (f x) = key x) \<Longrightarrow> map key (map_where p f xs) = map key xs"
  by (induction xs) auto

lemma distinct_keys_drop:
  "distinct (map key xs) \<Longrightarrow> distinct (map key (drop_where p xs))"
  by (auto simp: drop_where_def distinct_map_filter)

lemma unique_key:
  "distinct (map key xs) \<Longrightarrow> x \<in> set xs \<Longrightarrow> find_key key (key x) xs = Some x"
  by (induction xs) (auto simp: image_iff)

end
