(* ===== verification/Store.thy ===== *)
theory Store
  imports Knaic_Prelude
begin

text \<open>
  \<open>frontend/src/data/store.ts\<close>: the observable cell every data module builds on. A listener is
  a callback, modelled by its identity; \<open>set\<close> returns the callbacks it calls, in the order of
  the listener set (a JavaScript \<open>Set\<close> iterates in insertion order). The component theories
  keep the cell's content only: \<open>store.set(prev => f(prev))\<close> is \<open>f\<close> on that content
  (\<open>set_updater_state\<close>).
\<close>

record 'a cell =
  cell_state :: 'a
  cell_listeners :: "nat list"

datatype 'a updater = Value 'a | Updater "'a \<Rightarrow> 'a"

definition createStore :: "'a \<Rightarrow> 'a cell" where
  "createStore initial = \<lparr>cell_state = initial, cell_listeners = []\<rparr>"

definition store_get :: "'a cell \<Rightarrow> 'a" where
  "store_get s = cell_state s"

definition store_set :: "'a updater \<Rightarrow> 'a cell \<Rightarrow> nat list \<times> 'a cell" where
  "store_set u s =
     (let s' = s\<lparr>cell_state := (case u of Value v \<Rightarrow> v | Updater f \<Rightarrow> f (cell_state s))\<rparr>
      in (cell_listeners s', s'))"

definition store_subscribe :: "nat \<Rightarrow> 'a cell \<Rightarrow> 'a cell" where
  "store_subscribe l s =
     (if l \<in> set (cell_listeners s) then s else s\<lparr>cell_listeners := cell_listeners s @ [l]\<rparr>)"

text \<open>The function \<open>subscribe\<close> returns: it tells whether the listener was there.\<close>

definition store_unsubscribe :: "nat \<Rightarrow> 'a cell \<Rightarrow> bool \<times> 'a cell" where
  "store_unsubscribe l s =
     (l \<in> set (cell_listeners s), s\<lparr>cell_listeners := remove1 l (cell_listeners s)\<rparr>)"

definition uid :: "string \<Rightarrow> string \<Rightarrow> string" where
  "uid draw pre = pre @ ''-'' @ draw"

datatype 'a store_op = OpSet "'a updater" | OpSubscribe nat | OpUnsubscribe nat

fun store_step :: "nat list \<times> 'a cell \<Rightarrow> 'a store_op \<Rightarrow> nat list \<times> 'a cell" where
  "store_step (calls, s) (OpSet u) = (let (ls, s') = store_set u s in (calls @ ls, s'))"
| "store_step (calls, s) (OpSubscribe l) = (calls, store_subscribe l s)"
| "store_step (calls, s) (OpUnsubscribe l) = (calls, snd (store_unsubscribe l s))"

definition store_run :: "'a store_op list \<Rightarrow> 'a cell \<Rightarrow> nat list \<times> 'a cell" where
  "store_run ops s = foldl store_step ([], s) ops"

text \<open>
  What a client relies on, stated over the history of operations: a listener is subscribed when
  its latest subscription has not been undone, and it owes one call to every \<open>set\<close> made while
  it was subscribed.
\<close>

fun calls_owed :: "nat \<Rightarrow> bool \<Rightarrow> 'a store_op list \<Rightarrow> nat" where
  "calls_owed l on [] = 0"
| "calls_owed l on (OpSet u # ops) = (if on then 1 else 0) + calls_owed l on ops"
| "calls_owed l on (OpSubscribe k # ops) = calls_owed l (on \<or> k = l) ops"
| "calls_owed l on (OpUnsubscribe k # ops) = calls_owed l (on \<and> k \<noteq> l) ops"

fun final_value :: "'a \<Rightarrow> 'a store_op list \<Rightarrow> 'a" where
  "final_value v [] = v"
| "final_value v (OpSet u # ops) = final_value (case u of Value w \<Rightarrow> w | Updater f \<Rightarrow> f v) ops"
| "final_value v (OpSubscribe k # ops) = final_value v ops"
| "final_value v (OpUnsubscribe k # ops) = final_value v ops"

lemma set_updater_state: "cell_state (snd (store_set (Updater f) s)) = f (cell_state s)"
  by (simp add: store_set_def)

lemma count_distinct: "distinct ls \<Longrightarrow> count_list ls l = (if l \<in> set ls then 1 else 0)"
  by (induction ls) auto

lemma subscribe_facts [simp]:
  "l \<in> set (cell_listeners (store_subscribe k s)) \<longleftrightarrow> l \<in> set (cell_listeners s) \<or> k = l"
  "distinct (cell_listeners s) \<Longrightarrow> distinct (cell_listeners (store_subscribe k s))"
  "cell_state (store_subscribe k s) = cell_state s"
  by (auto simp: store_subscribe_def)

lemma unsubscribe_facts [simp]:
  "distinct (cell_listeners s) \<Longrightarrow>
   l \<in> set (cell_listeners (snd (store_unsubscribe k s))) \<longleftrightarrow> l \<in> set (cell_listeners s) \<and> k \<noteq> l"
  "distinct (cell_listeners s) \<Longrightarrow> distinct (cell_listeners (snd (store_unsubscribe k s)))"
  "cell_state (snd (store_unsubscribe k s)) = cell_state s"
  by (auto simp: store_unsubscribe_def)

lemma store_run_general:
  "distinct (cell_listeners s) \<Longrightarrow>
   (let (calls', s') = foldl store_step (calls, s) ops
    in count_list calls' l = count_list calls l + calls_owed l (l \<in> set (cell_listeners s)) ops
       \<and> cell_state s' = final_value (cell_state s) ops \<and> distinct (cell_listeners s'))"
proof (induction ops arbitrary: calls s)
  case (Cons op ops)
  show ?case
  proof (cases op)
    case (OpSet u)
    then show ?thesis
      using Cons.IH [of "s\<lparr>cell_state := (case u of Value v \<Rightarrow> v | Updater f \<Rightarrow> f (cell_state s))\<rparr>"
          "calls @ cell_listeners s"] Cons.prems
      by (simp add: store_set_def Let_def count_distinct split: prod.splits)
  next
    case (OpSubscribe k)
    then show ?thesis
      using Cons.IH [of "store_subscribe k s" calls] Cons.prems
      by simp
  next
    case (OpUnsubscribe k)
    then show ?thesis
      using Cons.IH [of "snd (store_unsubscribe k s)" calls] Cons.prems
      by simp
  qed
qed simp

text \<open>
  The observable store: after any sequence of operations on a fresh store, its content is what
  the successive \<open>set\<close> calls make of the initial value, and each listener has been called exactly
  once for every \<open>set\<close> that happened while it was subscribed.
\<close>

theorem store_observers:
  "cell_state (snd (store_run ops (createStore v))) = final_value v ops \<and>
   count_list (fst (store_run ops (createStore v))) l = calls_owed l False ops"
  using store_run_general [of "createStore v" "[]" ops l]
  by (simp add: store_run_def createStore_def case_prod_unfold Let_def)

end
