(* ===== verification/Interfaces.thy ===== *)
theory Interfaces
  imports Knaic_Prelude
begin

text \<open>
  The contracts the stores share, as locales. \<open>slot_cache\<close>: a list of rows, each belonging to
  a slot (a namespace, a scope), in which one fetch replaces a slot. \<open>keyed_store\<close>: rows with
  a key, inserted or replaced by key and removed by key. \<open>single_flight\<close>: a loader that
  guards its fetch with a flag. Each is interpreted on the model's own operations in the theory
  of the store that provides them.
\<close>

subsection \<open>Replacing the rows of one slot\<close>

text \<open>The abstract view of a cached list: what each slot holds.\<close>

definition view :: "('a \<Rightarrow> 'k) \<Rightarrow> 'a list \<Rightarrow> 'k \<Rightarrow> 'a list" where
  "view slot xs k = rows slot k xs"

fun replay :: "('k \<Rightarrow> 'a list \<Rightarrow> 'a list \<Rightarrow> 'a list) \<Rightarrow> ('k \<times> 'a list) list \<Rightarrow> 'a list \<Rightarrow> 'a list" where
  "replay merge [] xs = xs"
| "replay merge ((k, new) # es) xs = replay merge es (merge k new xs)"

fun last_load :: "('k \<times> 'a list) list \<Rightarrow> 'k \<Rightarrow> 'a list option" where
  "last_load [] k = None"
| "last_load ((k', new) # es) k =
     (case last_load es k of Some r \<Rightarrow> Some r | None \<Rightarrow> if k' = k then Some new else None)"

lemma last_load_map:
  "last_load (map (\<lambda>(k, new). (k, f new)) es) k = map_option f (last_load es k)"
  by (induction es) (auto split: option.splits)

definition own_rows :: "('a \<Rightarrow> 'k) \<Rightarrow> 'k \<Rightarrow> 'a list \<Rightarrow> bool" where
  "own_rows slot k new \<longleftrightarrow> (\<forall>x \<in> set new. slot x = k)"

lemma own_rows_map: "(\<And>x. slot (f x) = slot x) \<Longrightarrow> own_rows slot k (map f xs) = own_rows slot k xs"
  by (auto simp: own_rows_def)

locale slot_cache =
  fixes slot :: "'a \<Rightarrow> 'k"
    and merge :: "'k \<Rightarrow> 'a list \<Rightarrow> 'a list \<Rightarrow> 'a list"
  assumes merge_own: "own_rows slot k new \<Longrightarrow> rows slot k (merge k new old) = new"
    and merge_frame: "own_rows slot k new \<Longrightarrow> k' \<noteq> k \<Longrightarrow>
      rows slot k' (merge k new old) = rows slot k' old"
begin

lemma merge_refines: "own_rows slot k new \<Longrightarrow> view slot (merge k new old) = (view slot old)(k := new)"
  by (auto simp: fun_eq_iff view_def merge_own merge_frame)

lemma merge_members:
  assumes "own_rows slot k new"
  shows "x \<in> set (merge k new old) \<longleftrightarrow> (if slot x = k then x \<in> set new else x \<in> set old)"
proof (cases "slot x = k")
  case True
  then show ?thesis
    using set_by_rows [of x "merge k new old" slot] merge_own [OF assms, of old] by simp
next
  case False
  then show ?thesis
    using set_by_rows [of x "merge k new old" slot] set_by_rows [of x old slot]
      merge_frame [OF assms False, of old] by simp
qed

lemma merge_latest_wins:
  "own_rows slot k new \<Longrightarrow> own_rows slot k newer \<Longrightarrow>
   view slot (merge k newer (merge k new old)) = view slot (merge k newer old)"
  by (simp add: merge_refines)

lemma merge_commute:
  "own_rows slot k new \<Longrightarrow> own_rows slot k' new' \<Longrightarrow> k \<noteq> k' \<Longrightarrow>
   view slot (merge k new (merge k' new' old)) = view slot (merge k' new' (merge k new old))"
  by (simp add: merge_refines fun_upd_twist)

lemma merge_invariant:
  "own_rows slot k new \<Longrightarrow> \<forall>x \<in> set old. P x \<Longrightarrow> \<forall>x \<in> set new. P x \<Longrightarrow>
   \<forall>x \<in> set (merge k new old). P x"
  by (auto simp: merge_members split: if_splits)

lemma view_replay:
  "\<forall>(k, new) \<in> set es. own_rows slot k new \<Longrightarrow>
   view slot (replay merge es old) k =
     (case last_load es k of Some new \<Rightarrow> new | None \<Rightarrow> view slot old k)"
proof (induction es arbitrary: old)
  case (Cons e es)
  obtain k0 new where e: "e = (k0, new)" by (cases e)
  from Cons show ?case
    by (auto simp: e merge_refines split: option.splits)
qed simp

end

subsection \<open>Rows with a key\<close>

definition lookup :: "('a \<Rightarrow> 'k) \<Rightarrow> 'a list \<Rightarrow> 'k \<Rightarrow> 'a option" where
  "lookup key xs k = find_key key k xs"

definition keys_ok :: "('a \<Rightarrow> 'k) \<Rightarrow> 'a list \<Rightarrow> bool" where
  "keys_ok key xs \<longleftrightarrow> distinct (map key xs)"

lemma keys_okI: "distinct (map key xs) \<Longrightarrow> keys_ok key xs"
  by (simp add: keys_ok_def)

locale keyed_store =
  fixes key :: "'a \<Rightarrow> 'k"
    and upsert :: "'a \<Rightarrow> 'a list \<Rightarrow> 'a list"
    and remove :: "'k \<Rightarrow> 'a list \<Rightarrow> 'a list"
  assumes find_upsert: "keys_ok key xs \<Longrightarrow>
      find_key key k (upsert x xs) = (if k = key x then Some x else find_key key k xs)"
    and find_remove: "keys_ok key xs \<Longrightarrow>
      find_key key k (remove k' xs) = (if k = k' then None else find_key key k xs)"
    and keys_upsert: "keys_ok key xs \<Longrightarrow> keys_ok key (upsert x xs)"
    and keys_remove: "keys_ok key xs \<Longrightarrow> keys_ok key (remove k xs)"
begin

lemma upsert_refines: "keys_ok key xs \<Longrightarrow> lookup key (upsert x xs) = (lookup key xs)(key x \<mapsto> x)"
  by (auto simp: fun_eq_iff lookup_def find_upsert)

lemma remove_refines: "keys_ok key xs \<Longrightarrow> lookup key (remove k xs) = (lookup key xs)(k := None)"
  by (auto simp: fun_eq_iff lookup_def find_remove)

lemma upsert_then_remove:
  "keys_ok key xs \<Longrightarrow> lookup key (remove (key x) (upsert x xs)) = lookup key (remove (key x) xs)"
  by (simp add: remove_refines upsert_refines keys_upsert)

lemma upsert_overwrites:
  "keys_ok key xs \<Longrightarrow> key x = key y \<Longrightarrow> lookup key (upsert y (upsert x xs)) = lookup key (upsert y xs)"
  by (simp add: upsert_refines keys_upsert)

lemma upsert_refines_ok:
  "keys_ok key xs \<Longrightarrow>
   keys_ok key (upsert x xs) \<and> lookup key (upsert x xs) = (lookup key xs)(key x \<mapsto> x)"
  by (simp add: keys_upsert upsert_refines)

lemma remove_refines_ok:
  "keys_ok key xs \<Longrightarrow>
   keys_ok key (remove k xs) \<and> lookup key (remove k xs) = (lookup key xs)(k := None)"
  by (simp add: keys_remove remove_refines)

end

text \<open>
  Removal by key is the same code everywhere; insertion comes as "prepend, dropping an equal key"
  and as "replace in place, or prepend".
\<close>

definition remove_key :: "('a \<Rightarrow> 'k) \<Rightarrow> 'k \<Rightarrow> 'a list \<Rightarrow> 'a list" where
  "remove_key key k xs = drop_where (\<lambda>x. key x = k) xs"

definition prepend_unique :: "('a \<Rightarrow> 'k) \<Rightarrow> 'a \<Rightarrow> 'a list \<Rightarrow> 'a list" where
  "prepend_unique key x xs = x # drop_where (\<lambda>y. key y = key x) xs"

lemma find_remove_key [lookup_simps]:
  "find_key key k (remove_key key k' xs) = (if k = k' then None else find_key key k xs)"
  by (simp add: remove_key_def lookup_simps)

lemma keys_ok_drop: "keys_ok key xs \<Longrightarrow> keys_ok key (drop_where p xs)"
  by (simp add: keys_ok_def distinct_keys_drop)

lemma keys_ok_remove_key: "keys_ok key xs \<Longrightarrow> keys_ok key (remove_key key k xs)"
  by (simp add: remove_key_def keys_ok_drop)

lemma keys_ok_prepend: "keys_ok key xs \<Longrightarrow> keys_ok key (prepend_unique key x xs)"
  using distinct_keys_drop [of key xs "\<lambda>y. key y = key x"]
  by (auto simp: keys_ok_def prepend_unique_def)

lemma find_prepend:
  "find_key key k (prepend_unique key x xs) = (if k = key x then Some x else find_key key k xs)"
  by (auto simp: prepend_unique_def lookup_simps)

interpretation prepend_store: keyed_store key "prepend_unique key" "remove_key key"
  for key :: "'a \<Rightarrow> 'k"
  by unfold_locales (simp_all add: find_prepend find_remove_key keys_ok_prepend keys_ok_remove_key)

subsection \<open>A guarded fetch\<close>

datatype 'r flight = Ensure | Arrive 'r | Reject

locale single_flight =
  fixes ensure :: "'s \<Rightarrow> 's"
    and arrive :: "'r \<Rightarrow> 's \<Rightarrow> 's"
    and reject :: "'s \<Rightarrow> 's"
    and flag :: "'s \<Rightarrow> bool"
    and pending :: "'s \<Rightarrow> nat"
  assumes ensure_held: "flag s \<Longrightarrow> ensure s = s"
    and ensure_free: "\<not> flag s \<Longrightarrow> flag (ensure s) \<and> pending (ensure s) = Suc (pending s)"
    and arrive_settles: "0 < pending s \<Longrightarrow>
      flag (arrive r s) = flag s \<and> pending (arrive r s) = pending s - 1"
    and reject_settles: "0 < pending s \<Longrightarrow> \<not> flag (reject s) \<and> pending (reject s) = pending s - 1"
begin

text \<open>One event; a response can only come while a fetch is pending.\<close>

fun flight_step :: "'s \<Rightarrow> 'r flight \<Rightarrow> 's" where
  "flight_step s Ensure = ensure s"
| "flight_step s (Arrive r) = (if 0 < pending s then arrive r s else s)"
| "flight_step s Reject = (if 0 < pending s then reject s else s)"

definition flight_ok :: "'s \<Rightarrow> bool" where
  "flight_ok s \<longleftrightarrow> pending s \<le> 1 \<and> (pending s = 1 \<longrightarrow> flag s)"

lemma flight_step_ok: "flight_ok s \<Longrightarrow> flight_ok (flight_step s e)"
  using ensure_held [of s] ensure_free [of s] arrive_settles [of s] reject_settles [of s]
  by (cases e; cases "flag s") (auto simp: flight_ok_def)

lemma flight_run_ok: "flight_ok s \<Longrightarrow> flight_ok (foldl flight_step s es)"
  by (induction es arbitrary: s) (auto simp: flight_step_ok)

lemma at_most_one_fetch: "flight_ok s \<Longrightarrow> pending (foldl flight_step s es) \<le> 1"
  using flight_run_ok [of s es] by (simp add: flight_ok_def)

lemma ensure_idempotent: "ensure (ensure s) = ensure s"
  by (cases "flag s") (simp_all add: ensure_held ensure_free)

lemma failed_fetch_retries:
  "0 < pending s \<Longrightarrow> pending (ensure (reject s)) = pending s"
  using reject_settles [of s] ensure_free [of "reject s"] by simp

lemma loaded_stays_quiet: "flag s \<Longrightarrow> 0 < pending s \<Longrightarrow> ensure (arrive r s) = arrive r s"
  by (simp add: ensure_held arrive_settles)

end

end
