(* ===== verification/Event_Loop.thy ===== *)
theory Event_Loop
  imports Interfaces
begin

text \<open>
  The browser's side of the stores: the fetches a module has in flight behind its \<open>loaded\<close> set,
  and the timers \<open>window.setTimeout\<close> registers. A timer's callback is a value of the module's own
  timer datatype; \<open>elapse\<close> lets the clock reach a time and runs the callbacks due, in due order,
  ties first registered first. No callback of the modelled modules registers another timer.
\<close>

subsection \<open>Guarded fetches, by key\<close>

record loader =
  loaded :: "string set"
  in_flight :: "(string \<times> http_request list) list"

text \<open>The keys of the \<open>loaded\<close> set: \<open>`${kind}:${ns}`\<close>.\<close>

definition load_key :: "string \<Rightarrow> string \<Rightarrow> string" where
  "load_key kind ns = kind @ '':'' @ ns"

lemma load_key_inj [simp]: "load_key kind ns = load_key kind ns' \<longleftrightarrow> ns = ns'"
  by (simp add: load_key_def)

definition fetches :: "string \<Rightarrow> 'm loader_scheme \<Rightarrow> nat" where
  "fetches key s = length (filter (\<lambda>e. fst e = key) (in_flight s))"

fun drop_first :: "('a \<Rightarrow> bool) \<Rightarrow> 'a list \<Rightarrow> 'a list" where
  "drop_first p [] = []"
| "drop_first p (x # xs) = (if p x then xs else x # drop_first p xs)"

definition land :: "string \<Rightarrow> 'm loader_scheme \<Rightarrow> 'm loader_scheme" where
  "land key s = s\<lparr>in_flight := drop_first (\<lambda>e. fst e = key) (in_flight s)\<rparr>"

text \<open>
  \<open>if (loaded.has(key)) return; loaded.add(key); fn().catch(() => loaded.delete(key))\<close>,
  the fetch itself being the requests \<open>fn\<close> sends.
\<close>

definition start_once :: "string \<Rightarrow> http_request list \<Rightarrow> 'm loader_scheme \<Rightarrow> 'm loader_scheme" where
  "start_once key reqs s =
     (if key \<in> loaded s then s
      else s\<lparr>loaded := insert key (loaded s), in_flight := in_flight s @ [(key, reqs)]\<rparr>)"

definition fetch_failed :: "string \<Rightarrow> 'm loader_scheme \<Rightarrow> 'm loader_scheme" where
  "fetch_failed key s = (land key s)\<lparr>loaded := loaded s - {key}\<rparr>"

definition forget :: "string \<Rightarrow> 'm loader_scheme \<Rightarrow> 'm loader_scheme" where
  "forget key s = s\<lparr>loaded := loaded s - {key}\<rparr>"

text \<open>A request sent without a guard, under the key its answer is told by.\<close>

definition send_request :: "string \<Rightarrow> http_request \<Rightarrow> 'm loader_scheme \<Rightarrow> 'm loader_scheme" where
  "send_request key req s = s\<lparr>in_flight := in_flight s @ [(key, [req])]\<rparr>"

lemma loaded_land [simp]: "loaded (land key s) = loaded s"
  by (simp add: land_def)

lemma filter_drop_first: "filter p (drop_first p xs) = tl (filter p xs)"
  by (induction xs) auto

lemma filter_drop_first_other:
  "(\<And>x. q x \<Longrightarrow> \<not> p x) \<Longrightarrow> filter q (drop_first p xs) = filter q xs"
  by (induction xs) auto

lemma fetches_land: "fetches key (land key s) = fetches key s - 1"
  by (simp add: fetches_def land_def filter_drop_first)

lemma fetches_land_other: "k \<noteq> key \<Longrightarrow> fetches k (land key s) = fetches k s"
  using filter_drop_first_other [of "\<lambda>e. fst e = k" "\<lambda>e. fst e = key" "in_flight s"]
  by (auto simp: fetches_def land_def)

lemma start_once_held: "key \<in> loaded s \<Longrightarrow> start_once key reqs s = s"
  by (simp add: start_once_def)

lemma start_once_free:
  "key \<notin> loaded s \<Longrightarrow> key \<in> loaded (start_once key reqs s) \<and>
     fetches key (start_once key reqs s) = Suc (fetches key s)"
  by (simp add: start_once_def fetches_def)

lemma fetches_update [simp]:
  "fetches k (s\<lparr>loaded := l\<rparr>) = fetches k s"
  by (simp add: fetches_def)

interpretation once_flight: single_flight "start_once key reqs" "\<lambda>_. land key" "fetch_failed key"
    "\<lambda>s. key \<in> loaded s" "fetches key"
  for key reqs
  by unfold_locales
    (simp_all add: start_once_held start_once_free fetches_land fetch_failed_def)

text \<open>In API mode every writer awaits its request and then reloads what it changed.\<close>

definition then_reload :: "'r backend \<Rightarrow> http_request \<Rightarrow> ('s \<Rightarrow> 's) \<Rightarrow> 's \<Rightarrow> unit promise \<times> 's" where
  "then_reload send req reload s =
     (case send req of Inl e \<Rightarrow> (Inl e, s) | Inr _ \<Rightarrow> (Inr (), reload s))"

subsection \<open>Guarded fetches, by one boolean\<close>

text \<open>
  \<open>if (loaded) return; loaded = true; fetch.catch(() => { loaded = false; })\<close>
\<close>

record flag_loader =
  is_loaded :: bool
  pending_fetches :: "http_request list"

definition start_flag :: "http_request \<Rightarrow> 'm flag_loader_scheme \<Rightarrow> 'm flag_loader_scheme" where
  "start_flag req s =
     (if is_loaded s then s
      else s\<lparr>is_loaded := True, pending_fetches := pending_fetches s @ [req]\<rparr>)"

definition land_flag :: "'m flag_loader_scheme \<Rightarrow> 'm flag_loader_scheme" where
  "land_flag s = s\<lparr>pending_fetches := tl (pending_fetches s)\<rparr>"

definition flag_failed :: "'m flag_loader_scheme \<Rightarrow> 'm flag_loader_scheme" where
  "flag_failed s = (land_flag s)\<lparr>is_loaded := False\<rparr>"

interpretation flag_flight: single_flight "start_flag req" "\<lambda>_. land_flag" flag_failed is_loaded
    "\<lambda>s. length (pending_fetches s)"
  for req
  by unfold_locales (simp_all add: start_flag_def land_flag_def flag_failed_def)

subsection \<open>Timers\<close>

record 'e timed = loader +
  now :: nat
  timers :: "(nat \<times> 'e) list"

definition setTimeout :: "'e \<Rightarrow> nat \<Rightarrow> ('e, 'm) timed_scheme \<Rightarrow> ('e, 'm) timed_scheme" where
  "setTimeout e delay s = s\<lparr>timers := timers s @ [(now s + delay, e)]\<rparr>"

definition due :: "nat \<Rightarrow> ('e, 'm) timed_scheme \<Rightarrow> 'e list" where
  "due t s = map snd (sort_key fst (filter (\<lambda>e. fst e \<le> t) (timers s)))"

definition elapse ::
  "('e \<Rightarrow> ('e, 'm) timed_scheme \<Rightarrow> ('e, 'm) timed_scheme) \<Rightarrow> nat \<Rightarrow>
     ('e, 'm) timed_scheme \<Rightarrow> ('e, 'm) timed_scheme" where
  "elapse run t s =
     fold run (due t s) (s\<lparr>timers := filter (\<lambda>e. \<not> fst e \<le> t) (timers s), now := t\<rparr>)"

lemma due_none: "(\<And>e. e \<in> set (timers s) \<Longrightarrow> t < fst e) \<Longrightarrow> due t s = []"
  using filter_False [of "timers s" "\<lambda>e. fst e \<le> t"] by (simp add: due_def not_le)

lemma elapse_none:
  "(\<And>e. e \<in> set (timers s) \<Longrightarrow> t < fst e) \<Longrightarrow> elapse run t s = s\<lparr>now := t\<rparr>"
  using filter_True [of "timers s" "\<lambda>e. \<not> fst e \<le> t"]
  by (simp add: elapse_def due_none not_le)

text \<open>With one timer, the one callback runs once its time has come.\<close>

lemma elapse_one:
  "timers s = [(d, e)] \<Longrightarrow> d \<le> t \<Longrightarrow> elapse run t s = run e (s\<lparr>timers := [], now := t\<rparr>)"
  by (simp add: elapse_def due_def)

text \<open>A property every callback keeps is kept by the passing of time.\<close>

lemma fold_invariant:
  "(\<And>e s. e \<in> set es \<Longrightarrow> P s \<Longrightarrow> P (run e s)) \<Longrightarrow> P s \<Longrightarrow> P (fold run es s)"
  by (induction es arbitrary: s) auto

lemma set_due: "set (due t s) = {e. \<exists>d \<le> t. (d, e) \<in> set (timers s)}"
  by (force simp: due_def)

lemma elapse_invariant:
  "(\<And>e s. P s \<Longrightarrow> P (run e s)) \<Longrightarrow> (\<And>s ts n. P s \<Longrightarrow> P (s\<lparr>timers := ts, now := n\<rparr>)) \<Longrightarrow>
   P s \<Longrightarrow> P (elapse run t s)"
  unfolding elapse_def by (rule fold_invariant) auto

subsection \<open>Rows a timer settles\<close>

text \<open>
  A store whose rows a callback updates one by one: \<open>eff e r\<close> is what callback \<open>e\<close> makes of row
  \<open>r\<close>. A row is awaited when it is settled, or a pending timer will hit it.
\<close>

definition awaited ::
  "('e \<Rightarrow> 'r \<Rightarrow> bool) \<Rightarrow> ('r \<Rightarrow> bool) \<Rightarrow> (nat \<times> 'e) list \<Rightarrow> 'r \<Rightarrow> bool" where
  "awaited hits settled ts r \<longleftrightarrow> settled r \<or> (\<exists>(d, e) \<in> set ts. hits e r)"

lemma awaited_mono: "awaited hits settled ts r \<Longrightarrow> set ts \<subseteq> set ts' \<Longrightarrow> awaited hits settled ts' r"
  by (auto simp: awaited_def)

lemma awaited_settled [intro]: "settled r \<Longrightarrow> awaited hits settled ts r"
  by (simp add: awaited_def)

lemma awaited_timer [intro]: "(d, e) \<in> set ts \<Longrightarrow> hits e r \<Longrightarrow> awaited hits settled ts r"
  by (auto simp: awaited_def)

locale settling =
  fixes eff :: "'e \<Rightarrow> 'r \<Rightarrow> 'r"
    and hits :: "'e \<Rightarrow> 'r \<Rightarrow> bool"
    and settled :: "'r \<Rightarrow> bool"
  assumes eff_miss: "\<not> hits e r \<Longrightarrow> eff e r = r"
    and eff_hit: "hits e r \<Longrightarrow> settled (eff e r)"
    and hits_eff: "hits e' (eff e r) = hits e' r"
begin

lemma settled_eff: "settled r \<Longrightarrow> settled (eff e r)"
  using eff_miss [of e r] eff_hit [of e r] by (cases "hits e r") auto

lemma settled_fold: "settled r \<Longrightarrow> settled (fold eff es r)"
  by (induction es arbitrary: r) (simp_all add: settled_eff)

lemma settle_hit: "e \<in> set es \<Longrightarrow> hits e r \<Longrightarrow> settled (fold eff es r)"
  by (induction es arbitrary: r) (auto simp: hits_eff settled_fold eff_hit)

lemma settle_miss: "(\<And>e. e \<in> set es \<Longrightarrow> \<not> hits e r) \<Longrightarrow> fold eff es r = r"
  by (induction es arbitrary: r) (simp_all add: eff_miss)

lemma hits_fold [simp]: "hits e (fold eff es r) = hits e r"
  by (induction es arbitrary: r) (simp_all add: hits_eff)

lemma awaited_elapse:
  assumes "awaited hits settled (timers s) r"
  shows "awaited hits settled (filter (\<lambda>e. \<not> fst e \<le> t) (timers s)) (fold eff (due t s) r)"
proof (cases "settled r")
  case True
  then show ?thesis by (blast intro: settled_fold)
next
  case False
  with assms obtain d e where de: "(d, e) \<in> set (timers s)" "hits e r"
    by (auto simp: awaited_def)
  show ?thesis
  proof (cases "d \<le> t")
    case True
    with de have "e \<in> set (due t s)" by (auto simp: set_due)
    with de show ?thesis by (blast intro: settle_hit)
  next
    case False
    with de show ?thesis by (intro awaited_timer [of d e]) simp_all
  qed
qed

lemma awaited_all_due:
  assumes "awaited hits settled (timers s) r" "\<forall>e \<in> set (timers s). fst e \<le> t"
  shows "settled (fold eff (due t s) r)"
proof -
  have "filter (\<lambda>e. \<not> fst e \<le> t) (timers s) = []"
    using assms(2) by (simp add: filter_empty_conv)
  then show ?thesis
    using awaited_elapse [OF assms(1), of t] by (simp add: awaited_def)
qed

end

end
