(* ===== verification/Js_Text.thy ===== *)
theory Js_Text
  imports Knaic_Prelude
begin

text \<open>
  The JavaScript string operations the code calls, on byte strings: \<open>startsWith\<close>,
  \<open>includes\<close>, \<open>split\<close> and \<open>join\<close> on one character, \<open>replace\<close> of a prefix, stripping a
  trailing run, \<open>toLowerCase\<close> (ASCII), and an integer in a template literal.
\<close>

fun startsWith :: "string \<Rightarrow> string \<Rightarrow> bool" where
  "startsWith s [] = True"
| "startsWith [] (c # p) = False"
| "startsWith (d # s) (c # p) = (d = c \<and> startsWith s p)"

lemma startsWith_append [text_simps, simp]: "startsWith (p @ s) p"
  by (induction p) auto

lemma startsWith_iff: "startsWith s p \<longleftrightarrow> (\<exists>t. s = p @ t)"
  by (induction s p rule: startsWith.induct) auto

lemma startsWith_drop: "startsWith s p \<Longrightarrow> p @ drop (length p) s = s"
  by (auto simp: startsWith_iff)

text \<open>\<open>s.includes(p)\<close>.\<close>

fun str_includes :: "string \<Rightarrow> string \<Rightarrow> bool" where
  "str_includes [] p = (p = [])"
| "str_includes (c # s) p = (startsWith (c # s) p \<or> str_includes s p)"

lemma str_includes_iff: "str_includes s p \<longleftrightarrow> (\<exists>a b. s = a @ p @ b)"
proof (induction s)
  case Nil
  then show ?case by auto
next
  case (Cons c s)
  show ?case
  proof
    assume "str_includes (c # s) p"
    then consider "startsWith (c # s) p" | "str_includes s p" by auto
    then show "\<exists>a b. c # s = a @ p @ b"
    proof cases
      case 1
      then obtain t where "c # s = [] @ p @ t" by (auto simp: startsWith_iff)
      then show ?thesis by blast
    next
      case 2
      with Cons.IH obtain a b where "c # s = (c # a) @ p @ b" by auto
      then show ?thesis by blast
    qed
  next
    assume "\<exists>a b. c # s = a @ p @ b"
    then obtain a b where ab: "c # s = a @ p @ b" by blast
    show "str_includes (c # s) p"
    proof (cases a)
      case Nil
      with ab have "startsWith (c # s) p" by (auto simp: startsWith_iff)
      then show ?thesis by simp
    next
      case (Cons d a')
      with ab have "\<exists>a b. s = a @ p @ b" by auto
      with Cons.IH show ?thesis by simp
    qed
  qed
qed

text \<open>U+2014, the dash of several messages.\<close>

definition em_dash :: string where
  "em_dash = [CHR 0xE2, CHR 0x80, CHR 0x94]"

text \<open>The newline the manifests are joined with.\<close>

definition nl :: string where
  "nl = [CHR 0x0A]"

text \<open>\<open>s.split(c)\<close> and \<open>xs.join(sep)\<close>.\<close>

fun split_on :: "char \<Rightarrow> string \<Rightarrow> string list" where
  "split_on c [] = [[]]"
| "split_on c (d # s) =
     (if d = c then [] # split_on c s
      else (case split_on c s of [] \<Rightarrow> [[d]] | w # ws \<Rightarrow> (d # w) # ws))"

fun join :: "string \<Rightarrow> string list \<Rightarrow> string" where
  "join sep [] = []"
| "join sep [w] = w"
| "join sep (w # ws) = w @ sep @ join sep ws"

lemma split_on_nonempty [text_simps, simp]: "split_on c s \<noteq> []"
  by (induction s) (auto split: list.splits)

lemma join_Cons: "ws \<noteq> [] \<Longrightarrow> join sep (w # ws) = w @ sep @ join sep ws"
  by (cases ws) auto

lemma join_split_on: "join [c] (split_on c s) = s"
proof (induction s)
  case (Cons d s)
  obtain w ws where w: "split_on c s = w # ws"
    by (cases "split_on c s") auto
  with Cons.IH show ?case
    by (cases ws) auto
qed simp

lemma split_on_free [text_simps]: "c \<notin> set w \<Longrightarrow> split_on c w = [w]"
  by (induction w) auto

lemma split_on_append [text_simps]:
  "c \<notin> set w \<Longrightarrow> split_on c (w @ c # s) = w # split_on c s"
  by (induction w) auto

lemma split_on_join:
  "ws \<noteq> [] \<Longrightarrow> (\<And>w. w \<in> set ws \<Longrightarrow> c \<notin> set w) \<Longrightarrow> split_on c (join [c] ws) = ws"
  by (induction "[c]" ws rule: join.induct) (auto simp: text_simps)

lemma split_on_segments: "w \<in> set (split_on c s) \<Longrightarrow> c \<notin> set w"
proof (induction s arbitrary: w)
  case (Cons d s)
  obtain v vs where v: "split_on c s = v # vs"
    by (cases "split_on c s") auto
  from Cons.IH [of v] v have cv: "c \<notin> set v" by simp
  from Cons.prems v consider "d = c" "w = []" | "d = c" "w \<in> set (split_on c s)"
    | "d \<noteq> c" "w = d # v" | "d \<noteq> c" "w \<in> set vs"
    by (auto split: if_splits)
  then show ?case
    using Cons.IH v cv by cases auto
qed simp

text \<open>\<open>s.replace(p, '')\<close> for a literal \<open>p\<close>: the first occurrence goes.\<close>

fun remove_first :: "string \<Rightarrow> string \<Rightarrow> string" where
  "remove_first p [] = []"
| "remove_first p (c # s) =
     (if startsWith (c # s) p then drop (length p) (c # s) else c # remove_first p s)"

lemma remove_first_prefix [text_simps, simp]: "remove_first p (p @ s) = s"
proof (cases "p @ s")
  case (Cons c t)
  then have "remove_first p (p @ s) = drop (length p) (p @ s)"
    by (metis remove_first.simps(2) startsWith_append)
  then show ?thesis by simp
qed simp

lemma remove_first_absent: "\<not> str_includes s p \<Longrightarrow> remove_first p s = s"
  by (induction s) auto

text \<open>\<open>s.replace(/c+$/, '')\<close>: a trailing run of one character goes.\<close>

definition strip_trailing :: "char \<Rightarrow> string \<Rightarrow> string" where
  "strip_trailing c s = rev (dropWhile (\<lambda>d. d = c) (rev s))"

lemma strip_trailing_last: "strip_trailing c s \<noteq> [] \<Longrightarrow> last (strip_trailing c s) \<noteq> c"
  unfolding strip_trailing_def
  by (metis (full_types) hd_dropWhile last_rev rev_is_Nil_conv)

lemma strip_trailing_id: "s = [] \<or> last s \<noteq> c \<Longrightarrow> strip_trailing c s = s"
  unfolding strip_trailing_def by (cases s rule: rev_cases) auto

lemma strip_trailing_idem [simp]: "strip_trailing c (strip_trailing c s) = strip_trailing c s"
  using strip_trailing_last strip_trailing_id by blast

lemma strip_trailing_split: "\<exists>n. s = strip_trailing c s @ replicate n c"
proof -
  have "rev s = takeWhile (\<lambda>d. d = c) (rev s) @ dropWhile (\<lambda>d. d = c) (rev s)" by simp
  moreover have "takeWhile (\<lambda>d. d = c) (rev s) =
      replicate (length (takeWhile (\<lambda>d. d = c) (rev s))) c"
    by (metis (full_types) replicate_length_same set_takeWhileD)
  ultimately have "s = rev (dropWhile (\<lambda>d. d = c) (rev s)) @
      rev (replicate (length (takeWhile (\<lambda>d. d = c) (rev s))) c)"
    by (metis rev_append rev_rev_ident)
  then show ?thesis unfolding strip_trailing_def by auto
qed

text \<open>\<open>s.replace(/c$/, '')\<close>: one trailing character goes.\<close>

definition strip_one :: "char \<Rightarrow> string \<Rightarrow> string" where
  "strip_one c s = (if s \<noteq> [] \<and> last s = c then butlast s else s)"

lemma strip_one_snoc [text_simps, simp]: "strip_one c (s @ [c]) = s"
  by (simp add: strip_one_def)

lemma strip_one_id [text_simps]: "s = [] \<or> last s \<noteq> c \<Longrightarrow> strip_one c s = s"
  by (auto simp: strip_one_def)

text \<open>
  White space as \<open>\s\<close> and \<open>trim()\<close> see it: six ASCII characters, and the wide ones by their UTF-8
  bytes (no-break space, U+1680, U+2000 to U+200A, the two separators, U+202F, U+205F, U+3000 and
  the byte order mark). \<open>ws_width\<close> is the number of bytes of the white space character a string
  starts with.
\<close>

definition is_space :: "char \<Rightarrow> bool" where
  "is_space c \<longleftrightarrow> c \<in> {CHR 0x20, CHR 0x09, CHR 0x0A, CHR 0x0B, CHR 0x0C, CHR 0x0D}"

definition wide_spaces :: "string list" where
  "wide_spaces =
     [CHR 0xC2, CHR 0xA0] # [CHR 0xE1, CHR 0x9A, CHR 0x80] # [CHR 0xE2, CHR 0x81, CHR 0x9F]
     # [CHR 0xE3, CHR 0x80, CHR 0x80] # [CHR 0xEF, CHR 0xBB, CHR 0xBF]
     # map (\<lambda>c. [CHR 0xE2, CHR 0x80, c])
         [CHR 0x80, CHR 0x81, CHR 0x82, CHR 0x83, CHR 0x84, CHR 0x85, CHR 0x86, CHR 0x87, CHR 0x88,
          CHR 0x89, CHR 0x8A, CHR 0xA8, CHR 0xA9, CHR 0xAF]"

definition ws_width :: "string \<Rightarrow> nat" where
  "ws_width s = (case s of [] \<Rightarrow> 0 | c # _ \<Rightarrow>
     if is_space c then 1
     else (case find (startsWith s) wide_spaces of Some w \<Rightarrow> length w | None \<Rightarrow> 0))"

lemma ws_width_Nil [simp]: "ws_width [] = 0"
  by (simp add: ws_width_def)

function skip_ws :: "string \<Rightarrow> string" where
  "skip_ws s = (if ws_width s = 0 then s else skip_ws (drop (ws_width s) s))"
  by auto
termination
proof (relation "measure length")
  fix s :: string assume "ws_width s \<noteq> 0"
  then have "s \<noteq> []" by auto
  with \<open>ws_width s \<noteq> 0\<close> show "(drop (ws_width s) s, s) \<in> measure length" by simp
qed simp

declare skip_ws.simps [simp del]

fun trim_end :: "string \<Rightarrow> string" where
  "trim_end [] = []"
| "trim_end (c # s) = (if skip_ws (c # s) = [] then [] else c # trim_end s)"

definition trim :: "string \<Rightarrow> string" where
  "trim s = trim_end (skip_ws s)"

text \<open>A visible ASCII character is never white space.\<close>

definition visible :: "char \<Rightarrow> bool" where
  "visible c \<longleftrightarrow> 0x20 < (of_char c :: nat) \<and> (of_char c :: nat) < 0x80"

lemma visible_Char [simp]:
  "visible (Char b0 b1 b2 b3 b4 b5 b6 b7) \<longleftrightarrow> \<not> b7 \<and> (b6 \<or> (b5 \<and> (b0 \<or> b1 \<or> b2 \<or> b3 \<or> b4)))"
  by (cases b0; cases b1; cases b2; cases b3; cases b4; cases b5; cases b6; cases b7; simp add: visible_def)

lemma not_space_visible: "visible c \<Longrightarrow> \<not> is_space c"
  by (auto simp: visible_def is_space_def)

lemma startsWith_hd: "startsWith (c # s) (d # t) \<Longrightarrow> c = d"
  by simp

lemma ws_width_visible [simp]:
  assumes "visible c"
  shows "ws_width (c # s) = 0"
proof -
  have "\<not> startsWith (c # s) w" if "w \<in> set wide_spaces" for w
    using that assms by (auto simp: wide_spaces_def visible_def)
  then have "find (startsWith (c # s)) wide_spaces = None"
    by (auto simp: find_None_iff)
  then show ?thesis
    using not_space_visible [OF assms] by (simp add: ws_width_def)
qed

lemma ws_width_space [simp]: "ws_width (CHR '' '' # s) = 1" "ws_width (CHR 0x0A # s) = 1"
  by (simp_all add: ws_width_def is_space_def)

lemma skip_ws_visible [text_simps, simp]: "visible c \<Longrightarrow> skip_ws (c # s) = c # s"
  by (subst skip_ws.simps) simp

lemma skip_ws_space [text_simps, simp]:
  "skip_ws (CHR '' '' # s) = skip_ws s" "skip_ws (CHR 0x0A # s) = skip_ws s" "skip_ws [] = []"
  by (subst skip_ws.simps; simp)+

lemma trim_end_visible: "\<forall>c \<in> set s. visible c \<Longrightarrow> trim_end s = s"
  by (induction s) simp_all

lemma trim_visible [text_simps]: "\<forall>c \<in> set s. visible c \<Longrightarrow> trim s = s"
  by (cases s) (simp_all add: trim_def trim_end_visible)

lemma ws_width_invisible:
  assumes "c \<in> set (take (ws_width s) s)"
  shows "\<not> visible c"
proof (cases s)
  case (Cons d t)
  show ?thesis
  proof (cases "is_space d")
    case True
    then show ?thesis using assms not_space_visible [of d] by (auto simp: Cons ws_width_def)
  next
    case False
    then obtain w where w: "find (startsWith s) wide_spaces = Some w" "ws_width s = length w"
      using assms by (auto simp: Cons ws_width_def split: option.splits)
    then have m: "w \<in> set wide_spaces" "startsWith s w"
      by (auto simp: find_Some_iff)
    then have "take (length w) s = w" by (auto simp: startsWith_iff)
    then have "c \<in> set w" using assms w(2) by simp
    then show ?thesis using m(1) by (auto simp: wide_spaces_def)
  qed
qed (use assms in simp)

lemma skip_ws_keeps_visible: "visible d \<Longrightarrow> skip_ws (s @ d # r) \<noteq> []"
proof (induction "length s" arbitrary: s rule: less_induct)
  case less
  let ?w = "ws_width (s @ d # r)"
  show ?case
  proof (cases "?w = 0")
    case True
    then show ?thesis by (subst skip_ws.simps) simp
  next
    case False
    have "?w \<le> length s"
    proof (rule ccontr)
      assume "\<not> ?w \<le> length s"
      then have "d \<in> set (take ?w (s @ d # r))" by (cases "?w - length s") auto
      then show False using ws_width_invisible less.prems by blast
    qed
    then have d: "drop ?w (s @ d # r) = drop ?w s @ d # r" by simp
    have "length (drop ?w s) < length s" using False \<open>?w \<le> length s\<close> by simp
    from less.hyps [OF this less.prems] have "skip_ws (drop ?w (s @ d # r)) \<noteq> []" by (simp only: d) simp
    then show ?thesis using False by (subst skip_ws.simps) simp
  qed
qed

lemma skip_ws_ends_visible: "visible d \<Longrightarrow> skip_ws (s @ [d]) \<noteq> []"
  by (rule skip_ws_keeps_visible)

lemma trim_end_keeps: "visible d \<Longrightarrow> trim_end (p @ d # r) = p @ d # trim_end r"
proof (induction p)
  case (Cons c p)
  then show ?case using skip_ws_keeps_visible [of d "c # p" r] by simp
qed simp

lemma trim_end_snoc: "visible d \<Longrightarrow> trim_end (s @ [d]) = s @ [d]"
proof (induction s)
  case (Cons c s)
  then show ?case using skip_ws_ends_visible [of d "c # s"] by simp
qed simp

lemma trim_bracketed [text_simps]: "visible c \<Longrightarrow> visible d \<Longrightarrow> trim (c # s @ [d]) = c # s @ [d]"
  using trim_end_snoc [of d "c # s"] by (simp add: trim_def)

text \<open>The characters a Kubernetes object name is made of (RFC 1123 subdomains).\<close>

definition dns_char :: "char \<Rightarrow> bool" where
  "dns_char c \<longleftrightarrow> c \<in> set ''abcdefghijklmnopqrstuvwxyz0123456789-.''"

definition dns_name :: "string \<Rightarrow> bool" where
  "dns_name s \<longleftrightarrow> s \<noteq> [] \<and> (\<forall>c \<in> set s. dns_char c)"

lemma dns_visible: "dns_char c \<Longrightarrow> visible c"
  by (auto simp: dns_char_def visible_def)

lemma dns_char_not: "dns_char c \<Longrightarrow> c \<notin> set ''#:/%=&?+,{}[] ''"
  "dns_char c \<Longrightarrow> c \<noteq> CHR 0x0A" "dns_char c \<Longrightarrow> c \<noteq> CHR 0x22" "dns_char c \<Longrightarrow> c \<noteq> CHR 0x27"
  "dns_char c \<Longrightarrow> c \<noteq> CHR 0x0D"
  by (auto simp: dns_char_def)

text \<open>\<open>s.toLowerCase()\<close> on ASCII letters; other bytes are left alone.\<close>

definition upper_letters :: string where
  "upper_letters = ''ABCDEFGHIJKLMNOPQRSTUVWXYZ''"

definition lower_letters :: string where
  "lower_letters = ''abcdefghijklmnopqrstuvwxyz''"

definition lower_char :: "char \<Rightarrow> char" where
  "lower_char c = (case map_of (zip upper_letters lower_letters) c of Some d \<Rightarrow> d | None \<Rightarrow> c)"

definition toLowerCase :: "string \<Rightarrow> string" where
  "toLowerCase = map lower_char"

text \<open>An integer in a template literal: decimal digits, a minus sign when negative.\<close>

definition digit_char :: "nat \<Rightarrow> char" where
  "digit_char d = ''0123456789'' ! d"

fun show_nat :: "nat \<Rightarrow> string" where
  "show_nat n = (if n < 10 then [digit_char n] else show_nat (n div 10) @ [digit_char (n mod 10)])"

declare show_nat.simps [simp del]

definition show_int :: "int \<Rightarrow> string" where
  "show_int i = (if i < 0 then CHR ''-'' # show_nat (nat (- i)) else show_nat (nat i))"

lemma digit_char_lt: "d < 10 \<Longrightarrow> digit_char d \<in> set ''0123456789''"
  unfolding digit_char_def by (rule nth_mem) simp

lemma show_nat_digits: "set (show_nat n) \<subseteq> set ''0123456789''"
proof (induction n rule: show_nat.induct)
  case (1 n)
  show ?case
  proof (cases "n < 10")
    case True
    then show ?thesis by (subst show_nat.simps) (use digit_char_lt [of n] in simp)
  next
    case False
    with 1 have "set (show_nat (n div 10)) \<subseteq> set ''0123456789''" by simp
    moreover have "digit_char (n mod 10) \<in> set ''0123456789''" by (rule digit_char_lt) simp
    ultimately show ?thesis using False by (subst show_nat.simps) simp
  qed
qed

lemma show_nat_nonempty [simp]: "show_nat n \<noteq> []"
  by (subst show_nat.simps) simp

text \<open>Reading the digits back: two numbers never print alike.\<close>

definition digit_val :: "char \<Rightarrow> nat" where
  "digit_val c = (case map_of (zip ''0123456789'' [0..<10]) c of Some d \<Rightarrow> d | None \<Rightarrow> 0)"

definition read_nat :: "string \<Rightarrow> nat" where
  "read_nat s = foldl (\<lambda>n c. 10 * n + digit_val c) 0 s"

lemma digit_val_char: "d < 10 \<Longrightarrow> digit_val (digit_char d) = d"
proof -
  have "\<forall>d \<in> set [0..<10]. digit_val (digit_char d) = d"
    by (simp add: upt_conv_Cons digit_val_def digit_char_def)
  then show "d < 10 \<Longrightarrow> digit_val (digit_char d) = d" by simp
qed

lemma read_show_nat [text_simps, simp]: "read_nat (show_nat n) = n"
proof (induction n rule: show_nat.induct)
  case (1 n)
  show ?case
  proof (cases "n < 10")
    case True
    then show ?thesis
      by (subst show_nat.simps) (simp add: read_nat_def digit_val_char)
  next
    case False
    with 1 have "read_nat (show_nat (n div 10)) = n div 10" by simp
    with False show ?thesis
      by (subst show_nat.simps) (simp add: read_nat_def digit_val_char)
  qed
qed

lemma show_nat_inj: "show_nat m = show_nat n \<longleftrightarrow> m = n"
  by (metis read_show_nat)

lemma minus_not_digit: "CHR ''-'' \<notin> set (show_nat n)"
  using show_nat_digits [of n] by auto

lemma show_int_inj: "show_int i = show_int j \<longleftrightarrow> i = j"
proof
  assume eq: "show_int i = show_int j"
  have "i < 0 \<longleftrightarrow> j < 0"
    using eq minus_not_digit [of "nat i"] minus_not_digit [of "nat j"]
    by (auto simp: show_int_def split: if_splits) (metis list.set_intros(1))+
  with eq show "i = j"
    by (auto simp: show_int_def show_nat_inj split: if_splits)
qed simp

end
