(* ===== verification/Js_Json.thy ===== *)
theory Js_Json
  imports Js_Text
begin

text \<open>
  \<open>JSON.stringify\<close> and \<open>JSON.parse\<close> on the JSON values of the prelude, and the round trip
  between them. A string is escaped as ECMAScript prescribes; \<open>\u\<close> escapes are read to UTF-8
  (surrogate pairs combined). The parser recurses on fuel; \<open>parse\<close> gives it the length of the
  text, which is enough (\<open>parse_stringify\<close>).
\<close>

subsection \<open>Printing\<close>

abbreviation quote :: char where "quote \<equiv> CHR 0x22"
abbreviation backslash :: char where "backslash \<equiv> CHR 0x5C"

definition hex_digit :: "nat \<Rightarrow> char" where
  "hex_digit d = ''0123456789abcdef'' ! d"

definition byte :: "char \<Rightarrow> nat" where
  "byte c = of_char c"

definition esc_char :: "char \<Rightarrow> string" where
  "esc_char c =
     (if c = quote then [backslash, quote]
      else if c = backslash then [backslash, backslash]
      else if c = CHR 0x08 then [backslash, CHR ''b'']
      else if c = CHR 0x0C then [backslash, CHR ''f'']
      else if c = CHR 0x0A then [backslash, CHR ''n'']
      else if c = CHR 0x0D then [backslash, CHR ''r'']
      else if c = CHR 0x09 then [backslash, CHR ''t'']
      else if byte c < 32 then [backslash, CHR ''u'', CHR ''0'', CHR ''0'',
        hex_digit (byte c div 16), hex_digit (byte c mod 16)]
      else [c])"

definition show_decimal :: "int \<Rightarrow> int \<Rightarrow> string" where
  "show_decimal m e =
     (if 0 \<le> e then show_int (m * 10 ^ nat e)
      else (let k = nat (- e); ds = show_nat (nat (abs m));
                padded = replicate (Suc k - length ds) (CHR ''0'') @ ds
            in (if m < 0 then ''-'' else []) @ take (length padded - k) padded @ ''.'' @
               drop (length padded - k) padded))"

fun stringify :: "json \<Rightarrow> string" where
  "stringify JNull = ''null''"
| "stringify (JBool b) = (if b then ''true'' else ''false'')"
| "stringify (JNum m e) = show_decimal m e"
| "stringify (JStr s) = quote # concat (map esc_char s) @ [quote]"
| "stringify (JArr js) = ''['' @ join '','' (map stringify js) @ '']''"
| "stringify (JObj fs) =
     ''{'' @ join '','' (map (\<lambda>(k, v). (quote # concat (map esc_char k) @ [quote]) @ '':'' @ stringify v) fs)
       @ ''}''"

subsection \<open>Parsing\<close>

definition hex_val :: "char \<Rightarrow> nat option" where
  "hex_val c = map_of (zip ''0123456789abcdefABCDEF'' ([0..<16] @ [10..<16])) c"

definition hex4 :: "char \<Rightarrow> char \<Rightarrow> char \<Rightarrow> char \<Rightarrow> nat option" where
  "hex4 a b c d =
     (case (hex_val a, hex_val b, hex_val c, hex_val d) of
        (Some w, Some x, Some y, Some z) \<Rightarrow> Some (w * 4096 + x * 256 + y * 16 + z)
      | _ \<Rightarrow> None)"

definition utf8 :: "nat \<Rightarrow> string" where
  "utf8 n =
     (if n < 128 then [char_of n]
      else if n < 2048 then [char_of (192 + n div 64), char_of (128 + n mod 64)]
      else if n < 65536 then
        [char_of (224 + n div 4096), char_of (128 + n div 64 mod 64), char_of (128 + n mod 64)]
      else [char_of (240 + n div 262144), char_of (128 + n div 4096 mod 64),
            char_of (128 + n div 64 mod 64), char_of (128 + n mod 64)])"

definition simple_escape :: "char \<Rightarrow> char option" where
  "simple_escape c = map_of
     [(quote, quote), (backslash, backslash), (CHR ''/'', CHR ''/''), (CHR ''b'', CHR 0x08),
      (CHR ''f'', CHR 0x0C), (CHR ''n'', CHR 0x0A), (CHR ''r'', CHR 0x0D), (CHR ''t'', CHR 0x09)] c"

definition prepend :: "string \<Rightarrow> (string \<times> string) option \<Rightarrow> (string \<times> string) option" where
  "prepend p r = map_option (\<lambda>(s, rest). (p @ s, rest)) r"

definition is_high :: "nat \<Rightarrow> bool" where "is_high u \<longleftrightarrow> 0xD800 \<le> u \<and> u < 0xDC00"
definition is_low :: "nat \<Rightarrow> bool" where "is_low u \<longleftrightarrow> 0xDC00 \<le> u \<and> u < 0xE000"

text \<open>A low surrogate escaped right here, for the high one before it.\<close>

definition low_after :: "string \<Rightarrow> (nat \<times> string) option" where
  "low_after t =
     (case t of
        s1 # s2 # b1 # b2 # b3 # b4 # u \<Rightarrow>
          if s1 = backslash \<and> s2 = CHR ''u'' then
            (case hex4 b1 b2 b3 b4 of
               Some l \<Rightarrow> if is_low l then Some (l, u) else None
             | None \<Rightarrow> None)
          else None
      | _ \<Rightarrow> None)"

definition escape_u :: "string \<Rightarrow> (string \<times> string) option" where
  "escape_u t =
     (case t of
        a1 # a2 # a3 # a4 # t1 \<Rightarrow>
          (case hex4 a1 a2 a3 a4 of
             None \<Rightarrow> None
           | Some u \<Rightarrow>
               if is_high u then
                 (case low_after t1 of
                    Some (l, t2) \<Rightarrow> Some (utf8 (0x10000 + (u - 0xD800) * 1024 + (l - 0xDC00)), t2)
                  | None \<Rightarrow> Some (utf8 u, t1))
               else Some (utf8 u, t1))
      | _ \<Rightarrow> None)"

text \<open>The contents of a string up to its closing quote, and what follows it.\<close>

fun parse_chars :: "nat \<Rightarrow> string \<Rightarrow> (string \<times> string) option" where
  "parse_chars 0 s = None"
| "parse_chars (Suc n) [] = None"
| "parse_chars (Suc n) (c # s) =
     (if c = quote then Some ([], s)
      else if c = backslash then
        (case s of
           [] \<Rightarrow> None
         | e # t \<Rightarrow>
             if e = CHR ''u'' then
               (case escape_u t of None \<Rightarrow> None | Some (w, t1) \<Rightarrow> prepend w (parse_chars n t1))
             else (case simple_escape e of None \<Rightarrow> None | Some d \<Rightarrow> prepend [d] (parse_chars n t)))
      else if byte c < 32 then None
      else prepend [c] (parse_chars n s))"

definition is_digit :: "char \<Rightarrow> bool" where
  "is_digit c \<longleftrightarrow> c \<in> set ''0123456789''"

definition parse_exp :: "string \<Rightarrow> (int \<times> string) option" where
  "parse_exp s =
     (case s of
        c # t \<Rightarrow>
          if c = CHR ''e'' \<or> c = CHR ''E'' then
            (let (neg, t') = (case t of [] \<Rightarrow> (False, t)
                                | d # u \<Rightarrow> if d = CHR ''-'' then (True, u)
                                          else if d = CHR ''+'' then (False, u) else (False, t));
                 ds = takeWhile is_digit t'
             in if ds = [] then None
                else Some ((if neg then - int (read_nat ds) else int (read_nat ds)), dropWhile is_digit t'))
          else Some (0, s)
      | [] \<Rightarrow> Some (0, s))"

definition parse_frac :: "string \<Rightarrow> (string \<times> string) option" where
  "parse_frac s =
     (case s of
        c # u \<Rightarrow>
          if c = CHR ''.'' then
            (if takeWhile is_digit u = [] then None else Some (takeWhile is_digit u, dropWhile is_digit u))
          else Some ([], s)
      | [] \<Rightarrow> Some ([], s))"

definition parse_unsigned :: "string \<Rightarrow> ((int \<times> int) \<times> string) option" where
  "parse_unsigned s =
     (let ds = takeWhile is_digit s
      in if ds = [] \<or> (1 < length ds \<and> hd ds = CHR ''0'') then None
         else
           (case parse_frac (dropWhile is_digit s) of
              None \<Rightarrow> None
            | Some (fs, t) \<Rightarrow>
                (case parse_exp t of
                   None \<Rightarrow> None
                 | Some (e, rest) \<Rightarrow> Some ((int (read_nat (ds @ fs)), e - int (length fs)), rest))))"

definition parse_number :: "string \<Rightarrow> (json \<times> string) option" where
  "parse_number s =
     (if startsWith s ''-'' then map_option (\<lambda>((m, e), r). (JNum (- m) e, r)) (parse_unsigned (tl s))
      else map_option (\<lambda>((m, e), r). (JNum m e, r)) (parse_unsigned s))"

abbreviation is_json_space :: "char \<Rightarrow> bool" where
  "is_json_space c \<equiv> c = CHR 0x20 \<or> c = CHR 0x09 \<or> c = CHR 0x0A \<or> c = CHR 0x0D"

definition skip :: "string \<Rightarrow> string" where
  "skip s = dropWhile is_json_space s"

definition parse_word :: "string \<Rightarrow> json \<Rightarrow> string \<Rightarrow> (json \<times> string) option" where
  "parse_word w j s = (if startsWith s w then Some (j, drop (length w) s) else None)"

text \<open>
  A value; the elements of an array after its first bracket or comma; the members of an object
  after its first brace or comma.
\<close>

fun parse_value :: "nat \<Rightarrow> string \<Rightarrow> (json \<times> string) option"
  and parse_items :: "nat \<Rightarrow> string \<Rightarrow> (json list \<times> string) option"
  and parse_members :: "nat \<Rightarrow> string \<Rightarrow> ((string \<times> json) list \<times> string) option" where
  "parse_value 0 s = None"
| "parse_value (Suc n) s =
     (case skip s of
        [] \<Rightarrow> None
      | c # t \<Rightarrow>
          if c = CHR ''n'' then parse_word ''null'' JNull (c # t)
          else if c = CHR ''t'' then parse_word ''true'' (JBool True) (c # t)
          else if c = CHR ''f'' then parse_word ''false'' (JBool False) (c # t)
          else if c = quote then map_option (\<lambda>(w, r). (JStr w, r)) (parse_chars (length t) t)
          else if c = CHR ''['' then
            (case skip t of
               [] \<Rightarrow> None
             | d # u \<Rightarrow> if d = CHR '']'' then Some (JArr [], u)
                       else map_option (\<lambda>(js, r). (JArr js, r)) (parse_items n t))
          else if c = CHR ''{'' then
            (case skip t of
               [] \<Rightarrow> None
             | d # u \<Rightarrow> if d = CHR ''}'' then Some (JObj [], u)
                       else map_option (\<lambda>(fs, r). (JObj fs, r)) (parse_members n t))
          else parse_number (c # t))"
| "parse_items 0 s = None"
| "parse_items (Suc n) s =
     (case parse_value n s of
        None \<Rightarrow> None
      | Some (j, t) \<Rightarrow>
          (case skip t of
             [] \<Rightarrow> None
           | c # u \<Rightarrow> if c = CHR '']'' then Some ([j], u)
                     else if c = CHR '','' then map_option (\<lambda>(js, r). (j # js, r)) (parse_items n u)
                     else None))"
| "parse_members 0 s = None"
| "parse_members (Suc n) s =
     (case skip s of
        [] \<Rightarrow> None
      | c # t \<Rightarrow>
          if c \<noteq> quote then None
          else
            (case parse_chars (length t) t of
               None \<Rightarrow> None
             | Some (k, u) \<Rightarrow>
                 (case skip u of
                    [] \<Rightarrow> None
                  | c2 # u2 \<Rightarrow>
                      if c2 \<noteq> CHR '':'' then None
                      else
                        (case parse_value n u2 of
                           None \<Rightarrow> None
                         | Some (v, w) \<Rightarrow>
                             (case skip w of
                                [] \<Rightarrow> None
                              | c3 # u3 \<Rightarrow>
                                  if c3 = CHR ''}'' then Some ([(k, v)], u3)
                                  else if c3 = CHR '','' then
                                    map_option (\<lambda>(fs, r). ((k, v) # fs, r)) (parse_members n u3)
                                  else None)))))"

declare parse_value.simps [simp del] parse_items.simps [simp del] parse_members.simps [simp del]

text \<open>A repeated key overwrites the earlier one, at any depth.\<close>

fun last_keys :: "json \<Rightarrow> json" where
  "last_keys (JArr js) = JArr (map last_keys js)"
| "last_keys (JObj fs) = JObj (fold (\<lambda>(k, v). js_put k v) (map (\<lambda>(k, v). (k, last_keys v)) fs) [])"
| "last_keys j = j"

text \<open>\<open>JSON.parse\<close>: a value and nothing after it, or the exception.\<close>

definition parse :: "string \<Rightarrow> json option" where
  "parse s = (case parse_value (Suc (length s)) s of
     Some (j, rest) \<Rightarrow> if skip rest = [] then Some (last_keys j) else None
   | None \<Rightarrow> None)"

subsection \<open>The round trip\<close>

lemma byte_char_of [simp]: "n < 256 \<Longrightarrow> byte (char_of n) = n"
  by (simp add: byte_def)

lemma char_of_byte [simp]: "char_of (byte c) = c"
  by (simp add: byte_def)

lemma hex_val_digit: "d < 16 \<Longrightarrow> hex_val (hex_digit d) = Some d"
proof -
  have "\<forall>d \<in> set [0..<16]. hex_val (hex_digit d) = Some d"
    by (simp add: upt_conv_Cons hex_val_def hex_digit_def)
  then show "d < 16 \<Longrightarrow> hex_val (hex_digit d) = Some d" by simp
qed

lemma hex4_low: "b < 32 \<Longrightarrow> hex4 (CHR ''0'') (CHR ''0'') (hex_digit (b div 16)) (hex_digit (b mod 16)) = Some b"
proof -
  assume b: "b < 32"
  have z: "hex_val (CHR ''0'') = Some 0" by (simp add: hex_val_def upt_conv_Cons)
  have "b div 16 < 16" "b mod 16 < 16" using b by auto
  then show ?thesis by (simp add: hex4_def z hex_val_digit)
qed

lemma utf8_ascii: "b < 128 \<Longrightarrow> utf8 b = [char_of b]"
  by (simp add: utf8_def)

text \<open>Past an escape of a control character nothing combines with it.\<close>

lemma parse_chars_u:
  assumes "hex4 a1 a2 a3 a4 = Some u" and "\<not> is_high u"
  shows "parse_chars (Suc n) (backslash # CHR ''u'' # a1 # a2 # a3 # a4 # t) =
    prepend (utf8 u) (parse_chars n t)"
  using assms by (simp add: escape_u_def)

lemma parse_chars_esc:
  "parse_chars (Suc n) (esc_char c @ t) = prepend [c] (parse_chars n t)"
proof -
  consider "c \<in> {quote, backslash, CHR 0x08, CHR 0x0C, CHR 0x0A, CHR 0x0D, CHR 0x09}"
    | "c \<notin> {quote, backslash, CHR 0x08, CHR 0x0C, CHR 0x0A, CHR 0x0D, CHR 0x09}" "byte c < 32"
    | "c \<notin> {quote, backslash, CHR 0x08, CHR 0x0C, CHR 0x0A, CHR 0x0D, CHR 0x09}" "\<not> byte c < 32"
    by blast
  then show ?thesis
  proof cases
    case 1
    then show ?thesis by (auto simp: esc_char_def simple_escape_def)
  next
    case 2
    then have "\<not> is_high (byte c)" by (simp add: is_high_def)
    from parse_chars_u [OF hex4_low [OF 2(2)] this] 2 show ?thesis
      by (simp add: esc_char_def utf8_ascii)
  next
    case 3
    then show ?thesis by (simp add: esc_char_def)
  qed
qed

lemma parse_chars_string:
  "length s < n \<Longrightarrow> parse_chars n (concat (map esc_char s) @ quote # rest) = Some (s, rest)"
proof (induction s arbitrary: n)
  case Nil
  then show ?case by (cases n) auto
next
  case (Cons c s)
  then obtain m where "n = Suc m" "length s < m" by (cases n) auto
  with Cons.IH [of m] show ?case by (simp add: parse_chars_esc prepend_def)
qed

lemma esc_char_nonempty: "1 \<le> length (esc_char c)"
  by (simp add: esc_char_def)

lemma length_esc: "length s \<le> length (concat (map esc_char s))"
proof (induction s)
  case (Cons c s)
  then show ?case using esc_char_nonempty [of c] by simp
qed simp

lemma parse_quoted:
  "parse_chars (length (concat (map esc_char s) @ quote # rest)) (concat (map esc_char s) @ quote # rest)
     = Some (s, rest)"
  by (rule parse_chars_string) (use length_esc [of s] in simp)

text \<open>The values the round trip covers: integers, and objects without a repeated key.\<close>

fun wf_json :: "json \<Rightarrow> bool" where
  "wf_json (JNum m e) = (e = 0)"
| "wf_json (JArr js) = (\<forall>j \<in> set js. wf_json j)"
| "wf_json (JObj fs) = (distinct (map fst fs) \<and> (\<forall>f \<in> set fs. wf_json (snd f)))"
| "wf_json j = True"

text \<open>What may follow a number without becoming part of it.\<close>

definition ends_number :: "string \<Rightarrow> bool" where
  "ends_number s \<longleftrightarrow> s = [] \<or> hd s \<in> {CHR '','', CHR '']'', CHR ''}''}"

lemma ends_number_simps [simp]:
  "ends_number []" "ends_number (CHR '','' # s)" "ends_number (CHR '']'' # s)" "ends_number (CHR ''}'' # s)"
  by (simp_all add: ends_number_def)

lemma is_digit_show_nat: "c \<in> set (show_nat n) \<Longrightarrow> is_digit c"
  using show_nat_digits [of n] unfolding is_digit_def by blast

lemma ends_number_takeWhile: "ends_number s \<Longrightarrow> takeWhile is_digit s = [] \<and> dropWhile is_digit s = s"
  by (cases s) (auto simp: ends_number_def is_digit_def)

lemma takeWhile_digits:
  assumes "ends_number rest"
  shows "takeWhile is_digit (show_nat n @ rest) = show_nat n"
    and "dropWhile is_digit (show_nat n @ rest) = rest"
  using ends_number_takeWhile [OF assms] takeWhile_append2 [of "show_nat n" is_digit rest, OF is_digit_show_nat]
    dropWhile_append2 [of "show_nat n" is_digit rest, OF is_digit_show_nat]
  by simp_all

lemma show_nat_no_leading_zero: "1 < length (show_nat n) \<Longrightarrow> hd (show_nat n) \<noteq> CHR ''0''"
proof (induction n rule: show_nat.induct)
  case (1 n)
  show ?case
  proof (cases "n < 10")
    case True
    then show ?thesis using "1.prems" by (subst (asm) show_nat.simps) simp
  next
    case False
    note n = False
    have hd: "hd (show_nat n) = hd (show_nat (n div 10))"
      using n by (subst show_nat.simps) simp
    show ?thesis
    proof (cases "n div 10 < 10")
      case True
      then have "show_nat (n div 10) = [digit_char (n div 10)]" by (subst show_nat.simps) simp
      moreover have "digit_char (n div 10) \<noteq> CHR ''0''"
      proof
        assume "digit_char (n div 10) = CHR ''0''"
        then have "digit_val (digit_char (n div 10)) = digit_val (digit_char 0)"
          by (simp add: digit_char_def)
        with True n show False by (simp add: digit_val_char)
      qed
      ultimately show ?thesis using hd by simp
    next
      case False
      then have "1 < length (show_nat (n div 10))" by (subst show_nat.simps) (simp add: Suc_lessI)
      with 1 n hd show ?thesis by simp
    qed
  qed
qed

lemma hd_show_nat: "\<exists>c t. show_nat n = c # t \<and> is_digit c"
  using show_nat_digits [of n] show_nat_nonempty [of n]
  by (cases "show_nat n") (auto simp: is_digit_def)

lemma parse_unsigned_nat:
  assumes "ends_number rest"
  shows "parse_unsigned (show_nat n @ rest) = Some ((int n, 0), rest)"
proof -
  have "parse_exp rest = Some (0, rest)" "parse_frac rest = Some ([], rest)"
    using assms by (cases rest; auto simp: parse_exp_def parse_frac_def ends_number_def)+
  moreover have "\<not> (show_nat n = [] \<or> (1 < length (show_nat n) \<and> hd (show_nat n) = CHR ''0''))"
    using show_nat_no_leading_zero [of n] by auto
  ultimately show ?thesis
    by (simp add: parse_unsigned_def Let_def takeWhile_digits [OF assms])
qed

lemma hd_show_int: "\<exists>c t. show_int m = c # t \<and> (is_digit c \<or> c = CHR ''-'')"
  using hd_show_nat [of "nat m"] by (cases "m < 0") (auto simp: show_int_def)

lemma parse_number_int:
  assumes "ends_number rest"
  shows "parse_number (show_int m @ rest) = Some (jint m, rest)"
proof (cases "m < 0")
  case True
  then show ?thesis
    by (simp add: parse_number_def show_int_def parse_unsigned_nat [OF assms])
next
  case False
  obtain c t where "show_nat (nat m) = c # t" "is_digit c" using hd_show_nat by blast
  then have "\<not> startsWith (show_nat (nat m) @ rest) ''-''" by (auto simp: is_digit_def)
  with False show ?thesis
    by (simp add: parse_number_def show_int_def parse_unsigned_nat [OF assms])
qed

text \<open>Reading back values, elements and members.\<close>

definition reads_back :: "json \<Rightarrow> bool" where
  "reads_back j \<longleftrightarrow> (\<forall>n rest. length (stringify j) < n \<longrightarrow> ends_number rest \<longrightarrow>
     parse_value n (stringify j @ rest) = Some (j, rest))"

lemma reads_backD:
  "reads_back j \<Longrightarrow> length (stringify j) < n \<Longrightarrow> ends_number rest \<Longrightarrow>
   parse_value n (stringify j @ rest) = Some (j, rest)"
  by (simp add: reads_back_def)

lemma skip_here [simp]: "\<not> is_json_space c \<Longrightarrow> skip (c # t) = c # t"
  by (simp add: skip_def)

lemma stringify_head:
  "wf_json j \<Longrightarrow> \<exists>c t. stringify j = c # t \<and> \<not> is_json_space c \<and> c \<noteq> CHR '']''"
proof (cases j)
  case (JNum m e)
  obtain c t where "show_nat (nat m) = c # t" "is_digit c" using hd_show_nat by blast
  moreover assume "wf_json j"
  ultimately show ?thesis using JNum
    by (auto simp: show_decimal_def show_int_def is_digit_def)
qed auto

lemma stringify_pos: "wf_json j \<Longrightarrow> 0 < length (stringify j)"
  using stringify_head [of j] by auto

lemma parse_items_join:
  "(\<And>j. j \<in> set js \<Longrightarrow> reads_back j \<and> wf_json j) \<Longrightarrow> js \<noteq> [] \<Longrightarrow>
   length (join '','' (map stringify js)) + 1 < n \<Longrightarrow>
   parse_items n (join '','' (map stringify js) @ CHR '']'' # rest) = Some (js, rest)"
proof (induction js arbitrary: n)
  case (Cons j js)
  from Cons.prems obtain m where n: "n = Suc m" by (cases n) auto
  have j: "reads_back j" "0 < length (stringify j)" using Cons.prems(1) [of j] stringify_pos by auto
  show ?case
  proof (cases "js = []")
    case True
    with Cons.prems n j show ?thesis
      by (simp add: parse_items.simps reads_backD)
  next
    case False
    then have split: "join '','' (map stringify (j # js)) = stringify j @ '','' @ join '','' (map stringify js)"
      by (simp add: join_Cons)
    have "parse_items m (join '','' (map stringify js) @ CHR '']'' # rest) = Some (js, rest)"
      using Cons.prems False n j(2) split by (intro Cons.IH) auto
    moreover have "parse_value m (stringify j @ CHR '','' # join '','' (map stringify js) @ CHR '']'' # rest)
        = Some (j, CHR '','' # join '','' (map stringify js) @ CHR '']'' # rest)"
      using Cons.prems n j split by (intro reads_backD) auto
    ultimately show ?thesis
      unfolding n split by (simp add: parse_items.simps)
  qed
qed simp

definition member_text :: "string \<times> json \<Rightarrow> string" where
  "member_text f = (quote # concat (map esc_char (fst f)) @ [quote]) @ '':'' @ stringify (snd f)"

lemma stringify_obj: "stringify (JObj fs) = ''{'' @ join '','' (map member_text fs) @ ''}''"
proof -
  have "map (\<lambda>(k, v). (quote # concat (map esc_char k) @ [quote]) @ '':'' @ stringify v) fs = map member_text fs"
    by (auto simp: member_text_def)
  then show ?thesis by (simp only: stringify.simps)
qed

lemma parse_member:
  assumes "reads_back v" and "length (stringify v) < m" and "ends_number rest"
  shows "parse_members (Suc m) (member_text (k, v) @ rest) =
    (case skip rest of
       [] \<Rightarrow> None
     | c # u \<Rightarrow> if c = CHR ''}'' then Some ([(k, v)], u)
               else if c = CHR '','' then map_option (\<lambda>(fs, r). ((k, v) # fs, r)) (parse_members m u)
               else None)"
  using parse_quoted [of k "'':'' @ stringify v @ rest"] reads_backD [OF assms]
  by (simp add: parse_members.simps member_text_def)

lemma parse_members_join:
  "(\<And>f. f \<in> set fs \<Longrightarrow> reads_back (snd f)) \<Longrightarrow> fs \<noteq> [] \<Longrightarrow>
   length (join '','' (map member_text fs)) + 1 < n \<Longrightarrow>
   parse_members n (join '','' (map member_text fs) @ CHR ''}'' # rest) = Some (fs, rest)"
proof (induction fs arbitrary: n)
  case (Cons f fs)
  from Cons.prems obtain m where n: "n = Suc m" by (cases n) auto
  obtain k v where f: "f = (k, v)" by (cases f)
  have v: "reads_back v" using Cons.prems(1) [of f] f by simp
  have len: "length (stringify v) < length (member_text (k, v))" by (simp add: member_text_def)
  show ?case
  proof (cases "fs = []")
    case True
    with Cons.prems n f v len show ?thesis
      by (simp add: parse_member)
  next
    case False
    then have split: "join '','' (map member_text (f # fs)) = member_text f @ '','' @ join '','' (map member_text fs)"
      by (simp add: join_Cons)
    have "parse_members m (join '','' (map member_text fs) @ CHR ''}'' # rest) = Some (fs, rest)"
      using Cons.prems False n split len f by (intro Cons.IH) auto
    then show ?thesis
      using Cons.prems n f v len unfolding split by (simp add: parse_member)
  qed
qed simp

lemma reads_back_arr: "(\<And>j. j \<in> set js \<Longrightarrow> reads_back j \<and> wf_json j) \<Longrightarrow> reads_back (JArr js)"
proof (unfold reads_back_def, intro allI impI)
  fix n rest
  assume js: "\<And>j. j \<in> set js \<Longrightarrow> (\<forall>n rest. length (stringify j) < n \<longrightarrow> ends_number rest \<longrightarrow>
      parse_value n (stringify j @ rest) = Some (j, rest)) \<and> wf_json j"
    and n: "length (stringify (JArr js)) < n"
  obtain m where m: "n = Suc m" using n by (cases n) auto
  show "parse_value n (stringify (JArr js) @ rest) = Some (JArr js, rest)"
  proof (cases js)
    case Nil
    then show ?thesis by (simp add: m parse_value.simps)
  next
    case (Cons j js')
    obtain c t where ct: "join '','' (map stringify js) = c # t" "\<not> is_json_space c" "c \<noteq> CHR '']''"
      using Cons js [of j] stringify_head [of j] by (cases js') auto
    have "parse_items m (join '','' (map stringify js) @ CHR '']'' # rest) = Some (js, rest)"
      by (rule parse_items_join) (use js n m Cons in \<open>auto simp: reads_back_def\<close>)
    with ct show ?thesis by (simp add: m parse_value.simps)
  qed
qed

lemma reads_back_obj: "(\<And>f. f \<in> set fs \<Longrightarrow> reads_back (snd f)) \<Longrightarrow> reads_back (JObj fs)"
proof (unfold reads_back_def [of "JObj fs"], intro allI impI)
  fix n rest
  assume fs: "\<And>f. f \<in> set fs \<Longrightarrow> reads_back (snd f)" and n: "length (stringify (JObj fs)) < n"
  obtain m where m: "n = Suc m" using n by (cases n) auto
  show "parse_value n (stringify (JObj fs) @ rest) = Some (JObj fs, rest)"
  proof (cases fs)
    case Nil
    then show ?thesis by (simp add: m parse_value.simps)
  next
    case (Cons f fs')
    obtain t where t: "join '','' (map member_text fs) = quote # t"
      using Cons by (cases fs') (auto simp: member_text_def)
    have "parse_members m (join '','' (map member_text fs) @ CHR ''}'' # rest) = Some (fs, rest)"
      by (rule parse_members_join) (use fs n m Cons in \<open>auto simp: stringify_obj simp del: stringify.simps\<close>)
    with t show ?thesis
      by (simp add: m parse_value.simps stringify_obj del: stringify.simps)
  qed
qed

lemma wf_reads_back: "wf_json j \<Longrightarrow> reads_back j"
proof (induction j)
  case (JNum m e)
  show ?case
  proof (unfold reads_back_def, intro allI impI)
    fix n rest
    assume n: "length (stringify (JNum m e)) < n" and rest: "ends_number rest"
    obtain k where k: "n = Suc k" using n by (cases n) auto
    obtain c t where ct: "show_int m = c # t" "is_digit c \<or> c = CHR ''-''"
      using hd_show_int by blast
    then have "\<not> is_json_space c" "c \<notin> {CHR ''n'', CHR ''t'', CHR ''f'', quote, CHR ''['', CHR ''{''}"
      by (auto simp: is_digit_def)
    then show "parse_value n (stringify (JNum m e) @ rest) = Some (JNum m e, rest)"
      using parse_number_int [OF rest, of m] JNum ct by (simp add: k parse_value.simps show_decimal_def)
  qed
next
  case (JStr s)
  show ?case
  proof (unfold reads_back_def, intro allI impI)
    fix n rest
    assume n: "length (stringify (JStr s)) < n"
    obtain k where k: "n = Suc k" using n by (cases n) auto
    show "parse_value n (stringify (JStr s) @ rest) = Some (JStr s, rest)"
      using parse_quoted [of s rest] by (simp add: k parse_value.simps)
  qed
next
  case (JArr js)
  then show ?case by (intro reads_back_arr) auto
next
  case (JObj fs)
  show ?case
  proof (rule reads_back_obj)
    fix f
    assume f: "f \<in> set fs"
    then have "wf_json (snd f)" using JObj.prems by simp
    then show "reads_back (snd f)" using JObj.IH [OF f, of "snd f"] by (cases f) auto
  qed
next
  case (JBool b)
  have "parse_value (Suc k) (stringify (JBool b) @ rest) = Some (JBool b, rest)" for k rest
    by (simp add: parse_value.simps parse_word_def)
  then show ?case unfolding reads_back_def by (metis not_less0 old.nat.exhaust)
next
  case JNull
  have "parse_value (Suc k) (stringify JNull @ rest) = Some (JNull, rest)" for k rest
    by (simp add: parse_value.simps parse_word_def)
  then show ?case unfolding reads_back_def by (metis not_less0 old.nat.exhaust)
qed

lemma js_put_absent: "k \<notin> fst ` set m \<Longrightarrow> js_put k v m = m @ [(k, v)]"
  by (induction k v m rule: js_put.induct) auto

lemma fold_js_put:
  "distinct (map fst (m @ fs)) \<Longrightarrow> fold (\<lambda>(k, v). js_put k v) fs m = m @ fs"
  by (induction fs arbitrary: m) (auto simp: js_put_absent)

lemma last_keys_wf: "wf_json j \<Longrightarrow> last_keys j = j"
proof (induction j)
  case (JArr js)
  then show ?case by (simp add: map_idI)
next
  case (JObj fs)
  have "map (\<lambda>(k, v). (k, last_keys v)) fs = fs"
    using JObj by (intro map_idI) (auto simp: snds.simps)
  then show ?case using JObj.prems fold_js_put [of "[]" fs] by simp
qed simp_all

text \<open>The round trip.\<close>

lemma parse_stringify: "wf_json j \<Longrightarrow> parse (stringify j) = Some j"
  using reads_backD [OF wf_reads_back, of j "Suc (length (stringify j))" "[]"]
  by (simp add: parse_def last_keys_wf skip_def)

end
