(* ===== verification/Url_Encoding.thy ===== *)
theory Url_Encoding
  imports Js_Json
begin

text \<open>
  \<open>encodeURIComponent\<close> and \<open>URLSearchParams\<close> on byte strings, the server's decoding of a path
  segment, and what makes the encoding safe: it decodes back, and no delimiter of a URL occurs
  in it.
\<close>

definition hex_upper :: "nat \<Rightarrow> char" where
  "hex_upper d = ''0123456789ABCDEF'' ! d"

definition pct_byte :: "char \<Rightarrow> string" where
  "pct_byte c = [CHR ''%'', hex_upper (byte c div 16), hex_upper (byte c mod 16)]"

definition unreserved :: "char \<Rightarrow> bool" where
  "unreserved c \<longleftrightarrow> c \<in> set upper_letters \<or> c \<in> set lower_letters \<or> c \<in> set ''0123456789''
     \<or> c \<in> set [CHR ''-'', CHR ''_'', CHR ''.'', CHR ''!'', CHR ''~'', CHR ''*'', CHR 0x27, CHR ''('', CHR '')'']"

definition encodeURIComponent :: "string \<Rightarrow> string" where
  "encodeURIComponent s = concat (map (\<lambda>c. if unreserved c then [c] else pct_byte c) s)"

text \<open>Reading a percent-encoded segment, as an HTTP router does.\<close>

fun pct_decode :: "string \<Rightarrow> string" where
  "pct_decode [] = []"
| "pct_decode [c] = [c]"
| "pct_decode [c, d] = [c, d]"
| "pct_decode (c # d # e # s) =
     (if c = CHR ''%'' then
        (case (hex_val d, hex_val e) of
           (Some x, Some y) \<Rightarrow> char_of (16 * x + y) # pct_decode s
         | _ \<Rightarrow> c # pct_decode (d # e # s))
      else c # pct_decode (d # e # s))"

lemma pct_decode_plain: "c \<noteq> CHR ''%'' \<Longrightarrow> pct_decode (c # s) = c # pct_decode s"
  by (cases s rule: pct_decode.cases) auto

lemma byte_lt: "byte c < 256"
  unfolding byte_def by (rule nat_of_char_less_256)

lemma hex_val_upper: "d < 16 \<Longrightarrow> hex_val (hex_upper d) = Some d"
proof -
  have "\<forall>d \<in> set [0..<16]. hex_val (hex_upper d) = Some d"
    by (simp add: upt_conv_Cons hex_val_def hex_upper_def)
  then show "d < 16 \<Longrightarrow> hex_val (hex_upper d) = Some d" by simp
qed

lemma pct_decode_byte: "pct_decode (pct_byte c @ s) = c # pct_decode s"
proof -
  have "byte c div 16 < 16" "byte c mod 16 < 16" using byte_lt [of c] by auto
  then show ?thesis by (simp add: pct_byte_def hex_val_upper)
qed

lemma pct_not_unreserved: "unreserved c \<Longrightarrow> c \<noteq> CHR ''%''"
  by (auto simp: unreserved_def upper_letters_def lower_letters_def)

lemma decode_encode: "pct_decode (encodeURIComponent s) = s"
  unfolding encodeURIComponent_def
proof (induction s)
  case (Cons c s)
  then show ?case
    by (simp add: pct_decode_byte pct_decode_plain pct_not_unreserved)
qed simp

lemma encode_inj: "encodeURIComponent s = encodeURIComponent t \<longleftrightarrow> s = t"
  by (metis decode_encode)

lemma hex_upper_unreserved: "d < 16 \<Longrightarrow> unreserved (hex_upper d)"
proof -
  have "\<forall>d \<in> set [0..<16]. unreserved (hex_upper d)"
    by (simp add: upt_conv_Cons unreserved_def hex_upper_def upper_letters_def lower_letters_def)
  then show "d < 16 \<Longrightarrow> unreserved (hex_upper d)" by simp
qed

lemma encode_chars: "c \<in> set (encodeURIComponent s) \<Longrightarrow> unreserved c \<or> c = CHR ''%''"
proof (induction s)
  case (Cons d s)
  have "byte d div 16 < 16" "byte d mod 16 < 16" using byte_lt [of d] by auto
  with Cons show ?case
    by (auto simp: encodeURIComponent_def pct_byte_def hex_upper_unreserved split: if_splits)
qed (simp add: encodeURIComponent_def)

text \<open>No delimiter of a URL survives in an encoded component.\<close>

definition delimiter :: "char \<Rightarrow> bool" where
  "delimiter c \<longleftrightarrow> c \<in> {CHR ''/'', CHR ''?'', CHR ''#'', CHR ''&'', CHR ''='', CHR ''+'', CHR '':'',
     CHR '' '', CHR ''@'', CHR '';'', CHR '',''}"

lemma encode_no_delimiter: "delimiter c \<Longrightarrow> c \<notin> set (encodeURIComponent s)"
  using encode_chars [of c s]
  by (auto simp: delimiter_def unreserved_def upper_letters_def lower_letters_def)

lemma encode_no_slash [simp]: "CHR ''/'' \<notin> set (encodeURIComponent s)"
  by (rule encode_no_delimiter) (simp add: delimiter_def)

lemma encode_plain: "\<forall>c \<in> set s. unreserved c \<Longrightarrow> encodeURIComponent s = s"
  by (induction s) (simp_all add: encodeURIComponent_def)

text \<open>
  \<open>new URLSearchParams(...)\<close>: the entries in order; \<open>set\<close> appends a new key; the text is
  form-urlencoded.
\<close>

definition form_byte :: "char \<Rightarrow> string" where
  "form_byte c =
     (if c = CHR 0x20 then ''+''
      else if c \<in> set upper_letters \<or> c \<in> set lower_letters \<or> c \<in> set ''0123456789''
        \<or> c \<in> set ''*-._'' then [c]
      else pct_byte c)"

definition form_encode :: "string \<Rightarrow> string" where
  "form_encode s = concat (map form_byte s)"

definition search_params :: "(string \<times> string) list \<Rightarrow> string" where
  "search_params ps = join ''&'' (map (\<lambda>(k, v). form_encode k @ ''='' @ form_encode v) ps)"

text \<open>Reading a query string back.\<close>

fun plus_to_space :: "string \<Rightarrow> string" where
  "plus_to_space [] = []"
| "plus_to_space (c # s) = (if c = CHR ''+'' then CHR 0x20 else c) # plus_to_space s"

definition form_decode :: "string \<Rightarrow> string" where
  "form_decode s = pct_decode (plus_to_space s)"

lemma plus_to_space_append: "plus_to_space (s @ t) = plus_to_space s @ plus_to_space t"
  by (induction s) auto

lemma hex_upper_not_plus: "d < 16 \<Longrightarrow> hex_upper d \<noteq> CHR ''+''"
  using hex_upper_unreserved [of d]
  by (auto simp: unreserved_def upper_letters_def lower_letters_def)

lemma plus_to_space_pct: "plus_to_space (pct_byte c) = pct_byte c"
proof -
  have "byte c div 16 < 16" "byte c mod 16 < 16" using byte_lt [of c] by auto
  then show ?thesis by (simp add: pct_byte_def hex_upper_not_plus)
qed

lemma form_byte_cases:
  "c = CHR 0x20 \<or> (form_byte c = [c] \<and> c \<noteq> CHR ''+'' \<and> c \<noteq> CHR ''%'') \<or> form_byte c = pct_byte c"
  by (cases "c = CHR ''+'' \<or> c = CHR ''%''")
    (auto simp: form_byte_def upper_letters_def lower_letters_def)

lemma form_decode_byte: "form_decode (form_byte c @ s) = c # form_decode s"
proof -
  consider "c = CHR 0x20" | "form_byte c = [c]" "c \<noteq> CHR ''+''" "c \<noteq> CHR ''%''" | "form_byte c = pct_byte c"
    using form_byte_cases [of c] by blast
  then show ?thesis
  proof cases
    case 1
    then show ?thesis by (simp add: form_decode_def form_byte_def pct_decode_plain)
  next
    case 2
    then show ?thesis by (simp add: form_decode_def pct_decode_plain)
  next
    case 3
    then show ?thesis
      by (simp add: form_decode_def plus_to_space_append plus_to_space_pct pct_decode_byte)
  qed
qed

lemma form_decode_encode: "form_decode (form_encode s) = s"
  unfolding form_encode_def
proof (induction s)
  case Nil
  then show ?case by (simp add: form_decode_def)
next
  case (Cons c s)
  then show ?case by (simp add: form_decode_byte)
qed

lemma form_byte_chars: "d \<in> set (form_byte c) \<Longrightarrow> d \<noteq> CHR ''&'' \<and> d \<noteq> CHR ''=''"
proof -
  assume d: "d \<in> set (form_byte c)"
  have h: "unreserved (hex_upper (byte c div 16))" "unreserved (hex_upper (byte c mod 16))"
    using byte_lt [of c] by (auto intro!: hex_upper_unreserved)
  then have "d \<in> set (pct_byte c) \<Longrightarrow> unreserved d \<or> d = CHR ''%''" by (auto simp: pct_byte_def)
  with d show ?thesis
    by (auto simp: form_byte_def unreserved_def upper_letters_def lower_letters_def split: if_splits)
qed

lemma form_encode_chars: "CHR ''&'' \<notin> set (form_encode s)" "CHR ''='' \<notin> set (form_encode s)"
  using form_byte_chars by (auto simp: form_encode_def)

text \<open>Empty parts are skipped; a value is all that follows the first \<open>=\<close>.\<close>

definition read_pair :: "string \<Rightarrow> string \<times> string" where
  "read_pair kv =
     (form_decode (takeWhile (\<lambda>c. c \<noteq> CHR ''='') kv),
      form_decode (drop 1 (dropWhile (\<lambda>c. c \<noteq> CHR ''='') kv)))"

definition read_params :: "string \<Rightarrow> (string \<times> string) list" where
  "read_params q = map read_pair (filter (\<lambda>kv. kv \<noteq> []) (split_on (CHR ''&'') q))"

lemma read_pair_encoded: "read_pair (form_encode k @ CHR ''='' # form_encode v) = (k, v)"
proof -
  have "c \<noteq> CHR ''=''" if "c \<in> set (form_encode k)" for c
    using that form_encode_chars(2) [of k] by metis
  then show ?thesis by (simp add: read_pair_def form_decode_encode)
qed

lemma read_search_params: "read_params (search_params ps) = ps"
proof (cases "ps = []")
  case False
  let ?t = "\<lambda>(k, v). form_encode k @ ''='' @ form_encode v"
  have "split_on (CHR ''&'') (search_params ps) = map ?t ps"
    unfolding search_params_def
    by (rule split_on_join) (use False form_encode_chars in auto)
  moreover have "filter (\<lambda>kv. kv \<noteq> []) (map ?t ps) = map ?t ps"
    by (rule filter_True) auto
  ultimately show ?thesis
    by (auto simp: read_params_def read_pair_encoded intro!: map_idI)
qed (simp add: search_params_def read_params_def)

end
