(* ===== verification/Api_Client.thy ===== *)
theory Api_Client
  imports Url_Encoding
begin

text \<open>
  \<open>frontend/src/api/client.ts\<close>: how the base URL and the two mode flags are resolved, the bearer
  token and the 401 handler, and the fetch wrapper every binding goes through; and the generic
  resource bindings of \<open>frontend/src/api/k8sres.ts\<close> (log streaming is in its own theory).

  A call of the wrapper is modelled in two halves: the request it hands to \<open>fetch\<close>, and what it
  does with the response. \<open>fetch\<close> itself, the network and the backend are the argument that
  yields the response (\<open>Inl\<close>: \<open>fetch\<close> rejects).
\<close>

subsection \<open>Configuration\<close>

text \<open>The two sources of the base URL: the build-time variable and the window override.\<close>

definition apiDisabled :: "string option \<Rightarrow> string option \<Rightarrow> bool" where
  "apiDisabled rawEnvBase rawWinBase \<longleftrightarrow> rawEnvBase = Some ''disabled'' \<or> rawWinBase = Some ''disabled''"

definition apiBaseUrl :: "string option \<Rightarrow> string option \<Rightarrow> string" where
  "apiBaseUrl rawEnvBase rawWinBase =
     (let envBase = (if apiDisabled rawEnvBase rawWinBase then None else rawEnvBase);
          winBase = (if apiDisabled rawEnvBase rawWinBase then None else rawWinBase)
      in strip_trailing (CHR ''/'') (nullish (nullish_opt envBase winBase) ''''))"

definition apiEnabled :: "string option \<Rightarrow> string option \<Rightarrow> bool" where
  "apiEnabled rawEnvBase rawWinBase \<longleftrightarrow> \<not> apiDisabled rawEnvBase rawWinBase"

datatype flag = FlagBool bool | FlagString string

definition truthy :: "flag option \<Rightarrow> bool" where
  "truthy v \<longleftrightarrow> v = Some (FlagBool True) \<or> v = Some (FlagString ''1'') \<or> v = Some (FlagString ''true'')
     \<or> v = Some (FlagString ''on'')"

definition syntheticMode :: "string option \<Rightarrow> string option \<Rightarrow> string option \<Rightarrow> flag option \<Rightarrow> bool" where
  "syntheticMode rawEnvBase rawWinBase rawEnvSynthetic rawWinSynthetic \<longleftrightarrow>
     \<not> apiEnabled rawEnvBase rawWinBase \<or> truthy (map_option FlagString rawEnvSynthetic)
       \<or> truthy rawWinSynthetic"

subsection \<open>Client state\<close>

record client =
  bearerToken :: "string option"
  unauthorizedHandler :: bool
  handler_calls :: nat

definition setBearerToken :: "string option \<Rightarrow> client \<Rightarrow> client" where
  "setBearerToken token c = c\<lparr>bearerToken := token\<rparr>"

definition setUnauthorizedHandler :: "bool \<Rightarrow> client \<Rightarrow> client" where
  "setUnauthorizedHandler h c = c\<lparr>unauthorizedHandler := h\<rparr>"

definition call_handler :: "client \<Rightarrow> client" where
  "call_handler c = (if unauthorizedHandler c then c\<lparr>handler_calls := Suc (handler_calls c)\<rparr> else c)"

definition authHeaders :: "client \<Rightarrow> string js_map \<Rightarrow> string js_map" where
  "authHeaders c extra =
     (if truthy_str (bearerToken c)
      then js_put ''Authorization'' (''Bearer '' @ nullish (bearerToken c) '''') extra else extra)"

subsection \<open>Requests and responses\<close>

record fetch_init =
  fi_url :: string
  fi_method :: http_method
  fi_headers :: "string js_map"
  fi_body :: "string option"

record response =
  rs_status :: int
  rs_text :: string

definition rs_ok :: "response \<Rightarrow> bool" where
  "rs_ok r \<longleftrightarrow> 200 \<le> rs_status r \<and> rs_status r \<le> 299"

text \<open>
  \<open>request\<close>, first half: JSON content type exactly when there is a body, the token added.
\<close>

definition request_init :: "string \<Rightarrow> client \<Rightarrow> http_method \<Rightarrow> string \<Rightarrow> json option \<Rightarrow> fetch_init" where
  "request_init base c method path payload =
     \<lparr>fi_url = base @ path,
      fi_method = method,
      fi_headers = authHeaders c (if payload \<noteq> None then [(''Content-Type'', ''application/json'')] else []),
      fi_body = map_option stringify payload\<rparr>"

text \<open>
  The YAML writers hand their headers to \<open>fetchWithAuth\<close>, whose \<open>Headers\<close> object lower-cases
  the names before the token is added.
\<close>

definition yaml_init :: "string \<Rightarrow> client \<Rightarrow> http_method \<Rightarrow> string \<Rightarrow> string \<Rightarrow> fetch_init" where
  "yaml_init base c method path yaml =
     \<lparr>fi_url = base @ path, fi_method = method,
      fi_headers = authHeaders c [(''content-type'', ''application/x-yaml'')],
      fi_body = Some yaml\<rparr>"

text \<open>\<open>String(v)\<close> of a JSON value.\<close>

fun js_String :: "json \<Rightarrow> string" where
  "js_String JNull = ''null''"
| "js_String (JBool b) = (if b then ''true'' else ''false'')"
| "js_String (JNum m e) = show_decimal m e"
| "js_String (JStr s) = s"
| "js_String (JArr js) = join '','' (map (\<lambda>j. if j = JNull then [] else js_String j) js)"
| "js_String (JObj fs) = ''[object Object]''"

text \<open>The text of a response read as JSON, or kept as text; nothing when it is empty.\<close>

definition parsed_body :: "string \<Rightarrow> json option" where
  "parsed_body text =
     (if text = [] then None else Some (case parse text of Some j \<Rightarrow> j | None \<Rightarrow> JStr text))"

definition error_message :: "json option \<Rightarrow> int \<Rightarrow> string" where
  "error_message parsed status =
     (case parsed of
        Some (JObj fs) \<Rightarrow>
          (case map_of fs ''error'' of Some e \<Rightarrow> js_String e | None \<Rightarrow> ''HTTP '' @ show_int status)
      | _ \<Rightarrow> ''HTTP '' @ show_int status)"

text \<open>
  \<open>request\<close>, second half. \<open>Inr None\<close> is \<open>undefined\<close>.
\<close>

definition request_result ::
  "bool \<Rightarrow> js_error + response \<Rightarrow> client \<Rightarrow> (js_error + json option) \<times> client" where
  "request_result skipUnauthorizedHandler r c =
     (case r of
        Inl e \<Rightarrow> (Inl e, c)
      | Inr res \<Rightarrow>
          if rs_status res = 204 then (Inr None, c)
          else
            (let parsed = parsed_body (rs_text res)
             in if \<not> rs_ok res then
                  (Inl (ApiError (rs_status res) (error_message parsed (rs_status res))),
                   if rs_status res = 401 \<and> \<not> skipUnauthorizedHandler then call_handler c else c)
                else (Inr parsed, c)))"

text \<open>\<open>fetchWithAuth\<close>: the raw response, the handler called on a 401.\<close>

definition fetchWithAuth :: "js_error + response \<Rightarrow> client \<Rightarrow> (js_error + response) \<times> client" where
  "fetchWithAuth r c =
     (case r of Inl e \<Rightarrow> (Inl e, c)
      | Inr res \<Rightarrow> (Inr res, if rs_status res = 401 then call_handler c else c))"

definition requestText :: "js_error + response \<Rightarrow> client \<Rightarrow> (js_error + string) \<times> client" where
  "requestText r c =
     (case fetchWithAuth r c of
        (Inl e, c') \<Rightarrow> (Inl e, c')
      | (Inr res, c') \<Rightarrow>
          (if rs_ok res then Inr (rs_text res)
           else Inl (ApiError (rs_status res) (''HTTP '' @ show_int (rs_status res))), c'))"

subsection \<open>Generic resource bindings\<close>

datatype slug =
    Deployments | Statefulsets | Pods | Services | Configmaps | Secrets | Pvcs | Gateways
  | Httproutes | Inferenceservices | Llminferenceservices | Llminferenceserviceconfigs
  | Servingruntimes | Notebooks | Trainjobs | Trainingruntimes

fun slug_text :: "slug \<Rightarrow> string" where
  "slug_text Deployments = ''deployments''"
| "slug_text Statefulsets = ''statefulsets''"
| "slug_text Pods = ''pods''"
| "slug_text Services = ''services''"
| "slug_text Configmaps = ''configmaps''"
| "slug_text Secrets = ''secrets''"
| "slug_text Pvcs = ''pvcs''"
| "slug_text Gateways = ''gateways''"
| "slug_text Httproutes = ''httproutes''"
| "slug_text Inferenceservices = ''inferenceservices''"
| "slug_text Llminferenceservices = ''llminferenceservices''"
| "slug_text Llminferenceserviceconfigs = ''llminferenceserviceconfigs''"
| "slug_text Servingruntimes = ''servingruntimes''"
| "slug_text Notebooks = ''notebooks''"
| "slug_text Trainjobs = ''trainjobs''"
| "slug_text Trainingruntimes = ''trainingruntimes''"

datatype cluster_slug =
    Gatewayclasses | Clusterservingruntimes | Clusterstoragecontainers | Clustertrainingruntimes
  | Localmodelnodegroups | Localmodelcaches

fun cluster_slug_text :: "cluster_slug \<Rightarrow> string" where
  "cluster_slug_text Gatewayclasses = ''gatewayclasses''"
| "cluster_slug_text Clusterservingruntimes = ''clusterservingruntimes''"
| "cluster_slug_text Clusterstoragecontainers = ''clusterstoragecontainers''"
| "cluster_slug_text Clustertrainingruntimes = ''clustertrainingruntimes''"
| "cluster_slug_text Localmodelnodegroups = ''localmodelnodegroups''"
| "cluster_slug_text Localmodelcaches = ''localmodelcaches''"

definition get_request :: "string \<Rightarrow> http_request" where
  "get_request path = \<lparr>rq_method = GET, rq_path = path, rq_body = NoBody\<rparr>"

definition bare_request :: "http_method \<Rightarrow> string \<Rightarrow> http_request" where
  "bare_request m path = \<lparr>rq_method = m, rq_path = path, rq_body = NoBody\<rparr>"

definition json_request :: "http_method \<Rightarrow> string \<Rightarrow> json \<Rightarrow> http_request" where
  "json_request m path j = \<lparr>rq_method = m, rq_path = path, rq_body = JsonBody j\<rparr>"

definition yaml_request :: "http_method \<Rightarrow> string \<Rightarrow> string \<Rightarrow> http_request" where
  "yaml_request m path y = \<lparr>rq_method = m, rq_path = path, rq_body = YamlBody y\<rparr>"

lemmas request_defs = get_request_def bare_request_def json_request_def yaml_request_def

definition listNamespaced :: "slug \<Rightarrow> string \<Rightarrow> http_request" where
  "listNamespaced slug ns =
     get_request (''/api/v1/namespaces/'' @ encodeURIComponent ns @ ''/'' @ slug_text slug)"

definition getNamespaced :: "slug \<Rightarrow> string \<Rightarrow> string \<Rightarrow> http_request" where
  "getNamespaced slug ns name =
     get_request (''/api/v1/namespaces/'' @ encodeURIComponent ns @ ''/'' @ slug_text slug @ ''/''
       @ encodeURIComponent name)"

definition fetchYaml :: "slug + cluster_slug \<Rightarrow> string option \<Rightarrow> string \<Rightarrow> http_request" where
  "fetchYaml slug ns name =
     (let st = (case slug of Inl s \<Rightarrow> slug_text s | Inr s \<Rightarrow> cluster_slug_text s)
      in get_request
          (if truthy_str ns
           then ''/api/v1/namespaces/'' @ encodeURIComponent (nullish ns '''') @ ''/'' @ st @ ''/''
             @ encodeURIComponent name @ ''/yaml''
           else ''/api/v1/cluster/'' @ st @ ''/'' @ encodeURIComponent name @ ''/yaml''))"

definition createNamespaced :: "slug \<Rightarrow> string \<Rightarrow> json \<Rightarrow> http_request" where
  "createNamespaced slug ns obj =
     json_request POST (''/api/v1/namespaces/'' @ encodeURIComponent ns @ ''/'' @ slug_text slug) obj"

definition updateNamespaced :: "slug \<Rightarrow> string \<Rightarrow> string \<Rightarrow> json \<Rightarrow> http_request" where
  "updateNamespaced slug ns name obj =
     json_request PUT (''/api/v1/namespaces/'' @ encodeURIComponent ns @ ''/'' @ slug_text slug @ ''/''
       @ encodeURIComponent name) obj"

definition updateNamespacedYaml :: "slug \<Rightarrow> string \<Rightarrow> string \<Rightarrow> string \<Rightarrow> http_request" where
  "updateNamespacedYaml slug ns name yaml =
     yaml_request PUT (''/api/v1/namespaces/'' @ encodeURIComponent ns @ ''/'' @ slug_text slug @ ''/''
       @ encodeURIComponent name) yaml"

definition deleteNamespaced :: "slug \<Rightarrow> string \<Rightarrow> string \<Rightarrow> http_request" where
  "deleteNamespaced slug ns name =
     bare_request DELETE (''/api/v1/namespaces/'' @ encodeURIComponent ns @ ''/'' @ slug_text slug @ ''/''
       @ encodeURIComponent name)"

definition listCluster :: "cluster_slug \<Rightarrow> http_request" where
  "listCluster slug = get_request (''/api/v1/cluster/'' @ cluster_slug_text slug)"

definition createCluster :: "cluster_slug \<Rightarrow> json \<Rightarrow> http_request" where
  "createCluster slug obj = json_request POST (''/api/v1/cluster/'' @ cluster_slug_text slug) obj"

definition deleteCluster :: "cluster_slug \<Rightarrow> string \<Rightarrow> http_request" where
  "deleteCluster slug name =
     bare_request DELETE (''/api/v1/cluster/'' @ cluster_slug_text slug @ ''/'' @ encodeURIComponent name)"

definition createNamespacedYaml :: "slug \<Rightarrow> string \<Rightarrow> string \<Rightarrow> http_request" where
  "createNamespacedYaml slug ns yaml =
     yaml_request POST (''/api/v1/namespaces/'' @ encodeURIComponent ns @ ''/'' @ slug_text slug) yaml"

definition createClusterYaml :: "cluster_slug \<Rightarrow> string \<Rightarrow> http_request" where
  "createClusterYaml slug yaml = yaml_request POST (''/api/v1/cluster/'' @ cluster_slug_text slug) yaml"

definition updateClusterYaml :: "cluster_slug \<Rightarrow> string \<Rightarrow> string \<Rightarrow> http_request" where
  "updateClusterYaml slug name yaml =
     yaml_request PUT (''/api/v1/cluster/'' @ cluster_slug_text slug @ ''/'' @ encodeURIComponent name) yaml"

text \<open>
  The response half of the YAML writers (\<open>postYaml\<close>, \<open>updateNamespacedYaml\<close>,
  \<open>updateClusterYaml\<close> repeat it): \<open>fetchWithAuth\<close>, then the body read as \<open>request\<close> reads it,
  with no case of its own for a 204.
\<close>

definition postYaml_result :: "js_error + response \<Rightarrow> client \<Rightarrow> (js_error + json option) \<times> client" where
  "postYaml_result r c =
     (case fetchWithAuth r c of
        (Inl e, c') \<Rightarrow> (Inl e, c')
      | (Inr res, c') \<Rightarrow>
          (let parsed = parsed_body (rs_text res)
           in (if \<not> rs_ok res then Inl (ApiError (rs_status res) (error_message parsed (rs_status res)))
               else Inr parsed, c')))"

subsection \<open>What the bindings guarantee\<close>

lemma slug_text_inj: "slug_text s = slug_text t \<longleftrightarrow> s = t"
  by (cases s; cases t) simp_all

lemma slug_no_slash [simp]: "CHR ''/'' \<notin> set (slug_text s)"
  by (cases s) simp_all

lemma cluster_slug_no_slash [simp]: "CHR ''/'' \<notin> set (cluster_slug_text s)"
  by (cases s) simp_all

lemma pct_decode_no_pct: "CHR ''%'' \<notin> set s \<Longrightarrow> pct_decode s = s"
  by (induction s) (auto simp: pct_decode_plain)

lemma slug_decode [simp]: "pct_decode (slug_text s) = slug_text s"
  by (rule pct_decode_no_pct) (cases s; simp)

lemma cluster_slug_decode [simp]: "pct_decode (cluster_slug_text s) = cluster_slug_text s"
  by (rule pct_decode_no_pct) (cases s; simp)

text \<open>What a router sees: the path split at its slashes, each segment decoded.\<close>

definition route_segments :: "string \<Rightarrow> string list" where
  "route_segments path = map pct_decode (split_on (CHR ''/'') path)"

lemma route_fixed [text_simps]:
  "CHR ''/'' \<notin> set w \<Longrightarrow> route_segments (w @ CHR ''/'' # s) = pct_decode w # route_segments s"
  by (simp add: route_segments_def split_on_append)

lemma route_last [text_simps]: "CHR ''/'' \<notin> set w \<Longrightarrow> route_segments w = [pct_decode w]"
  by (simp add: route_segments_def split_on_free)

lemma route_encoded [text_simps, simp]:
  "route_segments (encodeURIComponent ns @ CHR ''/'' # s) = ns # route_segments s"
  "route_segments (encodeURIComponent ns) = [ns]"
  by (simp_all add: route_fixed route_last decode_encode)

lemma route_slug [text_simps, simp]:
  "route_segments (slug_text sl @ CHR ''/'' # s) = slug_text sl # route_segments s"
  "route_segments (slug_text sl) = [slug_text sl]"
  "route_segments (cluster_slug_text cs @ CHR ''/'' # s) = cluster_slug_text cs # route_segments s"
  "route_segments (cluster_slug_text cs) = [cluster_slug_text cs]"
  by (simp_all add: route_fixed route_last)

lemma route_slash [text_simps, simp]: "route_segments (CHR ''/'' # s) = [] # route_segments s"
  by (simp add: route_segments_def)

fun push_char :: "char \<Rightarrow> string list \<Rightarrow> string list" where
  "push_char c [] = [[c]]"
| "push_char c (w # ws) = (c # w) # ws"

lemma route_char [text_simps, simp]:
  "c \<noteq> CHR ''/'' \<Longrightarrow> c \<noteq> CHR ''%'' \<Longrightarrow> route_segments (c # s) = push_char c (route_segments s)"
  using split_on_nonempty [of "CHR ''/''" s]
  by (cases "split_on (CHR ''/'') s") (simp_all add: route_segments_def pct_decode_plain)

lemma route_empty [text_simps, simp]: "route_segments [] = [[]]"
  by (simp add: route_segments_def)

lemmas namespaced_bindings = listNamespaced_def getNamespaced_def createNamespaced_def
  updateNamespaced_def updateNamespacedYaml_def deleteNamespaced_def createNamespacedYaml_def

lemmas cluster_bindings = listCluster_def createCluster_def deleteCluster_def createClusterYaml_def
  updateClusterYaml_def

text \<open>A binding's request on its way to \<open>fetch\<close>: its path under the base URL, its body written out.\<close>

definition on_wire :: "string \<Rightarrow> client \<Rightarrow> http_request \<Rightarrow> fetch_init" where
  "on_wire base c r =
     (case rq_body r of
        NoBody \<Rightarrow> request_init base c (rq_method r) (rq_path r) None
      | JsonBody j \<Rightarrow> request_init base c (rq_method r) (rq_path r) (Some j)
      | YamlBody y \<Rightarrow> yaml_init base c (rq_method r) (rq_path r) y)"

lemma header_auth [simp]:
  "map_of (authHeaders c hs) ''Authorization'' =
     (if truthy_str (bearerToken c) then Some (''Bearer '' @ nullish (bearerToken c) '''')
      else map_of hs ''Authorization'')"
  by (simp add: authHeaders_def lookup_simps)

lemma header_other [simp]:
  "h \<noteq> ''Authorization'' \<Longrightarrow> map_of (authHeaders c hs) h = map_of hs h"
  by (simp add: authHeaders_def lookup_simps)

lemma strip_trailing_ends: "strip_trailing c s = [] \<or> last (strip_trailing c s) \<noteq> c"
  using strip_trailing_last by blast

subsection \<open>Properties\<close>

text \<open>
  Names never change where a request goes: for every namespace and object name, whatever
  characters they hold, the path each namespaced and cluster binding builds splits at its slashes
  into exactly the fixed segments, the resource type, and the namespace and name themselves.
\<close>

theorem resource_routes:
  "route_segments (rq_path (listNamespaced slug ns)) = ['''', ''api'', ''v1'', ''namespaces'', ns, slug_text slug] \<and>
   route_segments (rq_path (createNamespaced slug ns obj)) = ['''', ''api'', ''v1'', ''namespaces'', ns, slug_text slug] \<and>
   route_segments (rq_path (createNamespacedYaml slug ns y)) = ['''', ''api'', ''v1'', ''namespaces'', ns, slug_text slug] \<and>
   route_segments (rq_path (getNamespaced slug ns name)) = ['''', ''api'', ''v1'', ''namespaces'', ns, slug_text slug, name] \<and>
   route_segments (rq_path (updateNamespaced slug ns name obj)) = ['''', ''api'', ''v1'', ''namespaces'', ns, slug_text slug, name] \<and>
   route_segments (rq_path (updateNamespacedYaml slug ns name y)) = ['''', ''api'', ''v1'', ''namespaces'', ns, slug_text slug, name] \<and>
   route_segments (rq_path (deleteNamespaced slug ns name)) = ['''', ''api'', ''v1'', ''namespaces'', ns, slug_text slug, name] \<and>
   route_segments (rq_path (fetchYaml (Inl slug) (Some (x # xs)) name)) =
     ['''', ''api'', ''v1'', ''namespaces'', x # xs, slug_text slug, name, ''yaml''] \<and>
   route_segments (rq_path (fetchYaml (Inr cs) None name)) = ['''', ''api'', ''v1'', ''cluster'', cluster_slug_text cs, name, ''yaml''] \<and>
   route_segments (rq_path (deleteCluster cs name)) = ['''', ''api'', ''v1'', ''cluster'', cluster_slug_text cs, name] \<and>
   route_segments (rq_path (updateClusterYaml cs name y)) = ['''', ''api'', ''v1'', ''cluster'', cluster_slug_text cs, name]"
  by (simp_all add: namespaced_bindings cluster_bindings fetchYaml_def request_defs route_last)

text \<open>
  A request keeps its payload and its identity: what the wrapper hands to \<open>fetch\<close> for a JSON
  request goes to the base URL followed by the path, has a JSON content type exactly when it has a
  body, carries the bearer token exactly when one is set, and its body text parses back to the
  payload.
\<close>

theorem request_faithful:
  assumes "payload = None \<or> (\<exists>j. payload = Some j \<and> wf_json j)"
  shows "let i = request_init base c method path payload
    in fi_url i = base @ path \<and> fi_method i = method \<and>
       map_option parse (fi_body i) = map_option Some payload \<and>
       (map_of (fi_headers i) ''Content-Type'' = Some ''application/json'' \<longleftrightarrow> payload \<noteq> None) \<and>
       map_of (fi_headers i) ''Authorization'' =
         (if truthy_str (bearerToken c) then Some (''Bearer '' @ nullish (bearerToken c) '''') else None)"
  using assms by (auto simp: request_init_def Let_def parse_stringify)

theorem request_faithful_witness:
  "map_option parse (fi_body (request_init ''/x'' \<lparr>bearerToken = Some ''t'', unauthorizedHandler = True, handler_calls = 0\<rparr>
      POST ''/y'' (Some (JObj [(''name'', JStr ''a'')])))) = Some (Some (JObj [(''name'', JStr ''a'')]))"
  using request_faithful [of "Some (JObj [(''name'', JStr ''a'')])" "''/x''"
      "\<lparr>bearerToken = Some ''t'', unauthorizedHandler = True, handler_calls = 0\<rparr>" POST "''/y''"]
  by (simp add: Let_def)

text \<open>
  C19. How a call ends: it resolves exactly on a 2xx status and then with the body the text spells
  (nothing for a 204 or an empty text); any other status rejects with an error carrying it; the
  401 handler runs exactly once when it is set, the status is 401 and the caller did not ask to
  skip it, and never otherwise. The token is never touched.
\<close>

theorem request_outcome:
  "case request_result skip401 (Inr res) c of (r, c') \<Rightarrow>
     (case r of
        Inr v \<Rightarrow> rs_ok res \<and> v = (if rs_status res = 204 then None else parsed_body (rs_text res))
      | Inl e \<Rightarrow> \<not> rs_ok res \<and> (\<exists>m. e = ApiError (rs_status res) m)) \<and>
     handler_calls c' = handler_calls c +
       (if unauthorizedHandler c \<and> rs_status res = 401 \<and> \<not> skip401 then 1 else 0) \<and>
     bearerToken c' = bearerToken c"
  by (auto simp: request_result_def rs_ok_def call_handler_def Let_def)

text \<open>
  The wrappers agree: for the same response a YAML writer and a JSON call resolve or reject
  alike and with the same error, and run the 401 handler alike.
\<close>

theorem wrappers_agree:
  "case (request_result False (Inr res) c, postYaml_result (Inr res) c) of ((r, c1), (y, c2)) \<Rightarrow>
     c1 = c2 \<and> (isl r \<longleftrightarrow> isl y) \<and> (isl r \<longrightarrow> projl r = projl y)
       \<and> (rs_status res \<noteq> 204 \<longrightarrow> r = y)"
  by (auto simp: request_result_def postYaml_result_def fetchWithAuth_def rs_ok_def Let_def)

theorem wrappers_agree_witness:
  "fst (postYaml_result (Inr \<lparr>rs_status = 500, rs_text = []\<rparr>) \<lparr>bearerToken = None, unauthorizedHandler = True, handler_calls = 0\<rparr>)
     = Inl (ApiError 500 (''HTTP '' @ show_int 500))"
  using wrappers_agree [of "\<lparr>rs_status = 500, rs_text = []\<rparr>" "\<lparr>bearerToken = None, unauthorizedHandler = True, handler_calls = 0\<rparr>"]
  by (simp add: request_result_def parsed_body_def rs_ok_def error_message_def call_handler_def
      case_prod_unfold Let_def)

text \<open>
  The base URL can be prefixed to any path: it never ends in a slash and is the configured
  value (the build-time one when both are set) less its trailing slashes; switching the API off
  empties it and always puts the client in synthetic mode.
\<close>

theorem base_url_resolution:
  "if apiEnabled env win
   then (\<exists>n. nullish env (nullish win []) = apiBaseUrl env win @ replicate n (CHR ''/'')) \<and>
        (apiBaseUrl env win = [] \<or> last (apiBaseUrl env win) \<noteq> CHR ''/'')
   else apiBaseUrl env win = [] \<and> syntheticMode env win es ws"
  using strip_trailing_split [of "nullish env (nullish win [])" "CHR ''/''"]
    strip_trailing_ends [of "CHR ''/''" "nullish env (nullish win [])"]
  by (cases env; cases win)
    (auto simp: apiBaseUrl_def apiEnabled_def apiDisabled_def syntheticMode_def strip_trailing_def)

theorem base_url_resolution_witness:
  "apiBaseUrl (Some ''http://x//'') None = ''http://x''"
proof -
  have "apiBaseUrl (Some ''http://x//'') None = [] \<or> last (apiBaseUrl (Some ''http://x//'') None) \<noteq> CHR ''/''"
    using base_url_resolution [of "Some ''http://x//''" None "None" "None"]
    by (simp add: apiEnabled_def apiDisabled_def)
  then show ?thesis
    by (simp add: apiBaseUrl_def apiDisabled_def strip_trailing_def)
qed

end
