(* ===== verification/Workloads.thy ===== *)
theory Workloads
  imports Event_Loop Api_Client Store
begin

text \<open>
  \<open>frontend/src/data/workloads.ts\<close>: deployments, pods, stateful sets and volume claims. The module
  state is the content of its four stores, its \<open>loaded\<close> set and the fetches behind it, and the
  timers of the prototype mode. \<open>api\<close> is the constant \<open>apiEnabled\<close>; \<open>send\<close> is the backend; the
  draw of \<open>uid\<close> and today's date are arguments. A function that awaits the backend changes no
  local state before the answer, so it is one step, taken when the answer arrives; a load is two
  (\<open>ensure...\<close>, and \<open>..._arrived\<close> or \<open>fetch_failed\<close>).
\<close>

subsection \<open>Rows\<close>

datatype workload_status = WRunning | WProgressing | WFailed

datatype pod_status = PodRunning | PodPending | PodFailed | CrashLoopBackOff

datatype pvc_status = PvcBound | PvcPending | PvcFailed

record Deployment = k8s_obj +
  dep_image :: string
  dep_replicas :: int
  dep_readyReplicas :: int
  dep_status :: workload_status
  dep_createdAt :: string
  dep_labels :: "string js_map option"

record Pod = k8s_obj +
  pod_node :: string
  pod_ip :: string
  pod_status :: pod_status
  pod_restarts :: int
  pod_age :: string
  pod_containers :: "string list option"
  pod_ownerRef :: "string option"

record StatefulSet = k8s_obj +
  ss_image :: string
  ss_replicas :: int
  ss_readyReplicas :: int
  ss_status :: workload_status
  ss_createdAt :: string
  ss_serviceName :: string

record PVC = k8s_obj +
  pvc_status :: pvc_status
  pvc_storageClass :: string
  pvc_capacity :: string
  pvc_accessMode :: string
  pvc_volumeName :: string
  pvc_createdAt :: string

datatype wl_timer =
    DeploymentReady string string int
  | StatefulSetReady string string int
  | PvcReady string string

record workloads = "wl_timer timed" +
  deployments :: "Deployment list"
  pods :: "Pod list"
  statefulSets :: "StatefulSet list"
  pvcs :: "PVC list"

subsection \<open>Seeds of the prototype mode\<close>

text \<open>\<open>draw n\<close> is the random part of the \<open>n\<close>-th \<open>uid\<close> the module evaluates.\<close>

definition deploymentsInitial :: "(nat \<Rightarrow> string) \<Rightarrow> string \<Rightarrow> Deployment list" where
  "deploymentsInitial draw today =
    [\<lparr>obj_id = uid (draw 0) ''dep'', obj_name = ''qwen3-5-7b'', obj_namespace = ''team-ml'',
      dep_image = ''vllm/vllm-openai:v0.7.2'', dep_replicas = 2, dep_readyReplicas = 2,
      dep_status = WRunning, dep_createdAt = today,
      dep_labels = Some [(''app'', ''qwen3-5-7b''), (''serving.kserve.io/inferenceservice'', ''qwen3-5-7b'')]\<rparr>,
     \<lparr>obj_id = uid (draw 1) ''dep'', obj_name = ''bge-embed'', obj_namespace = ''team-ml'',
      dep_image = ''ghcr.io/huggingface/text-embeddings-inference:1.5.1'', dep_replicas = 1,
      dep_readyReplicas = 1, dep_status = WRunning, dep_createdAt = today,
      dep_labels = Some [(''app'', ''bge-embed'')]\<rparr>,
     \<lparr>obj_id = uid (draw 2) ''dep'', obj_name = ''helpdesk-agent'', obj_namespace = ''team-ml'',
      dep_image = ''registry.knaic.local/team-ml/helpdesk-agent:v0.3.2'', dep_replicas = 3,
      dep_readyReplicas = 2, dep_status = WProgressing, dep_createdAt = today,
      dep_labels = Some [(''app'', ''helpdesk-agent'')]\<rparr>,
     \<lparr>obj_id = uid (draw 3) ''dep'', obj_name = ''sd3-frontend'', obj_namespace = ''team-vision'',
      dep_image = ''registry.knaic.local/team-vision/sd3-frontend:v1.4.0'', dep_replicas = 1,
      dep_readyReplicas = 0, dep_status = WFailed, dep_createdAt = today,
      dep_labels = Some [(''app'', ''sd3-frontend'')]\<rparr>]"

definition podsInitial :: "(nat \<Rightarrow> string) \<Rightarrow> Pod list" where
  "podsInitial draw =
    [\<lparr>obj_id = uid (draw 4) ''pod'', obj_name = ''qwen3-5-7b-7f9b8c-abcde'', obj_namespace = ''team-ml'',
      pod_node = ''gpu-node-01'', pod_ip = ''10.244.1.12'', pod_status = PodRunning, pod_restarts = 0,
      pod_age = ''3d'', pod_containers = Some [''kserve-container'', ''queue-proxy''],
      pod_ownerRef = Some ''Deployment/qwen3-5-7b''\<rparr>,
     \<lparr>obj_id = uid (draw 5) ''pod'', obj_name = ''qwen3-5-7b-7f9b8c-fghij'', obj_namespace = ''team-ml'',
      pod_node = ''gpu-node-02'', pod_ip = ''10.244.2.15'', pod_status = PodRunning, pod_restarts = 0,
      pod_age = ''3d'', pod_containers = Some [''kserve-container'', ''queue-proxy''],
      pod_ownerRef = Some ''Deployment/qwen3-5-7b''\<rparr>,
     \<lparr>obj_id = uid (draw 6) ''pod'', obj_name = ''bge-embed-7ddf4-klmno'', obj_namespace = ''team-ml'',
      pod_node = ''cpu-node-01'', pod_ip = ''10.244.3.7'', pod_status = PodRunning, pod_restarts = 1,
      pod_age = ''12h'', pod_containers = Some [''main''], pod_ownerRef = Some ''Deployment/bge-embed''\<rparr>,
     \<lparr>obj_id = uid (draw 7) ''pod'', obj_name = ''helpdesk-agent-6b57-xyzab'', obj_namespace = ''team-ml'',
      pod_node = ''cpu-node-02'', pod_ip = ''10.244.4.9'', pod_status = CrashLoopBackOff, pod_restarts = 7,
      pod_age = ''4m'', pod_containers = Some [''agent''], pod_ownerRef = Some ''Deployment/helpdesk-agent''\<rparr>,
     \<lparr>obj_id = uid (draw 8) ''pod'', obj_name = ''sd3-frontend-55b-zzzzz'', obj_namespace = ''team-vision'',
      pod_node = ''cpu-node-03'', pod_ip = ''10.244.5.22'', pod_status = PodPending, pod_restarts = 0,
      pod_age = ''2m'', pod_containers = Some [''frontend''], pod_ownerRef = Some ''Deployment/sd3-frontend''\<rparr>]"

definition statefulSetsInitial :: "(nat \<Rightarrow> string) \<Rightarrow> string \<Rightarrow> StatefulSet list" where
  "statefulSetsInitial draw today =
    [\<lparr>obj_id = uid (draw 9) ''ss'', obj_name = ''postgres-knaic'', obj_namespace = ''knaic-system'',
      ss_image = ''postgres:16.4'', ss_replicas = 1, ss_readyReplicas = 1, ss_status = WRunning,
      ss_createdAt = today, ss_serviceName = ''postgres-knaic''\<rparr>,
     \<lparr>obj_id = uid (draw 10) ''ss'', obj_name = ''prometheus-k8s'', obj_namespace = ''knaic-system'',
      ss_image = ''prom/prometheus:v2.55.0'', ss_replicas = 2, ss_readyReplicas = 2, ss_status = WRunning,
      ss_createdAt = today, ss_serviceName = ''prometheus-k8s''\<rparr>,
     \<lparr>obj_id = uid (draw 11) ''ss'', obj_name = ''vllm-qwen-72b'', obj_namespace = ''team-llm'',
      ss_image = ''vllm/vllm-openai:v0.7.2'', ss_replicas = 4, ss_readyReplicas = 3, ss_status = WProgressing,
      ss_createdAt = today, ss_serviceName = ''vllm-qwen-72b''\<rparr>]"

definition pvcsInitial :: "(nat \<Rightarrow> string) \<Rightarrow> string \<Rightarrow> PVC list" where
  "pvcsInitial draw today =
    [\<lparr>obj_id = uid (draw 12) ''pvc'', obj_name = ''qwen3-5-7b-cache'', obj_namespace = ''team-ml'',
      pvc_status = PvcBound, pvc_storageClass = ''nvme-premium'', pvc_capacity = ''200Gi'',
      pvc_accessMode = ''RWO'', pvc_volumeName = ''pvc-2ad1c'', pvc_createdAt = today\<rparr>,
     \<lparr>obj_id = uid (draw 13) ''pvc'', obj_name = ''helpdesk-agent-data'', obj_namespace = ''team-ml'',
      pvc_status = PvcBound, pvc_storageClass = ''standard'', pvc_capacity = ''50Gi'',
      pvc_accessMode = ''RWO'', pvc_volumeName = ''pvc-47af1'', pvc_createdAt = today\<rparr>,
     \<lparr>obj_id = uid (draw 14) ''pvc'', obj_name = ''notebook-alice-home'', obj_namespace = ''team-ml'',
      pvc_status = PvcBound, pvc_storageClass = ''standard'', pvc_capacity = ''20Gi'',
      pvc_accessMode = ''RWO'', pvc_volumeName = ''pvc-9c23b'', pvc_createdAt = today\<rparr>,
     \<lparr>obj_id = uid (draw 15) ''pvc'', obj_name = ''sd3-assets'', obj_namespace = ''team-vision'',
      pvc_status = PvcPending, pvc_storageClass = ''standard'', pvc_capacity = ''100Gi'',
      pvc_accessMode = ''RWX'', pvc_volumeName = '''', pvc_createdAt = today\<rparr>]"

definition workloads_init :: "(nat \<Rightarrow> string) \<Rightarrow> string \<Rightarrow> workloads" where
  "workloads_init draw today =
     \<lparr>loaded = {}, in_flight = [], now = 0, timers = [],
      deployments = deploymentsInitial draw today, pods = podsInitial draw,
      statefulSets = statefulSetsInitial draw today, pvcs = pvcsInitial draw today\<rparr>"

subsection \<open>Loading a namespace\<close>

text \<open>
  \<open>loadInto\<close>: the namespace's rows are replaced by what the backend lists, completed by
  \<open>ensureId\<close>; rows of other namespaces stay.
\<close>

definition loadInto ::
  "('a k8s_obj_scheme \<Rightarrow> 'a k8s_obj_scheme) \<Rightarrow> string \<Rightarrow> 'a k8s_obj_scheme list \<Rightarrow>
     'a k8s_obj_scheme list \<Rightarrow> 'a k8s_obj_scheme list" where
  "loadInto ensureId ns listed prev =
     (let remote = map ensureId listed
      in filter (\<lambda>p. obj_namespace p \<noteq> ns) prev @ remote)"

definition ensureDepId :: "Deployment \<Rightarrow> Deployment" where
  "ensureDepId d = d\<lparr>
     obj_id := or_str (obj_id d) (''dep-'' @ obj_namespace d @ ''-'' @ obj_name d),
     dep_labels := Some (nullish (dep_labels d) [])\<rparr>"

definition ensurePodId :: "Pod \<Rightarrow> Pod" where
  "ensurePodId p = p\<lparr>
     obj_id := or_str (obj_id p) (''pod-'' @ obj_namespace p @ ''-'' @ obj_name p),
     pod_containers := Some (nullish (pod_containers p) [])\<rparr>"

definition ensureSsId :: "StatefulSet \<Rightarrow> StatefulSet" where
  "ensureSsId s = s\<lparr>obj_id := or_str (obj_id s) (''ss-'' @ obj_namespace s @ ''-'' @ obj_name s)\<rparr>"

definition ensurePvcId :: "PVC \<Rightarrow> PVC" where
  "ensurePvcId v = v\<lparr>obj_id := or_str (obj_id v) (''pvc-'' @ obj_namespace v @ ''-'' @ obj_name v)\<rparr>"

text \<open>\<open>once\<close> is the guarded fetch of \<open>Event_Loop\<close>; the requests are those \<open>fn\<close> sends.\<close>

definition once :: "string \<Rightarrow> http_request list \<Rightarrow> 'm loader_scheme \<Rightarrow> 'm loader_scheme" where
  "once key fn s = start_once key fn s"

definition ensureDeploymentsLoaded :: "bool \<Rightarrow> string \<Rightarrow> workloads \<Rightarrow> workloads" where
  "ensureDeploymentsLoaded api ns s =
     (if \<not> api then s else once (load_key ''dep'' ns) [listNamespaced Deployments ns] s)"

definition ensurePodsLoaded :: "bool \<Rightarrow> string \<Rightarrow> workloads \<Rightarrow> workloads" where
  "ensurePodsLoaded api ns s =
     (if \<not> api then s else once (load_key ''pod'' ns) [listNamespaced Pods ns] s)"

definition ensureStatefulSetsLoaded :: "bool \<Rightarrow> string \<Rightarrow> workloads \<Rightarrow> workloads" where
  "ensureStatefulSetsLoaded api ns s =
     (if \<not> api then s else once (load_key ''ss'' ns) [listNamespaced Statefulsets ns] s)"

definition ensurePvcsLoaded :: "bool \<Rightarrow> string \<Rightarrow> workloads \<Rightarrow> workloads" where
  "ensurePvcsLoaded api ns s =
     (if \<not> api then s else once (load_key ''pvc'' ns) [listNamespaced Pvcs ns] s)"

text \<open>The continuations of the four loads.\<close>

definition deployments_arrived :: "string \<Rightarrow> Deployment list \<Rightarrow> workloads \<Rightarrow> workloads" where
  "deployments_arrived ns listed s =
     land (load_key ''dep'' ns) (s\<lparr>deployments := loadInto ensureDepId ns listed (deployments s)\<rparr>)"

definition pods_arrived :: "string \<Rightarrow> Pod list \<Rightarrow> workloads \<Rightarrow> workloads" where
  "pods_arrived ns listed s =
     land (load_key ''pod'' ns) (s\<lparr>pods := loadInto ensurePodId ns listed (pods s)\<rparr>)"

definition statefulSets_arrived :: "string \<Rightarrow> StatefulSet list \<Rightarrow> workloads \<Rightarrow> workloads" where
  "statefulSets_arrived ns listed s =
     land (load_key ''ss'' ns) (s\<lparr>statefulSets := loadInto ensureSsId ns listed (statefulSets s)\<rparr>)"

definition pvcs_arrived :: "string \<Rightarrow> PVC list \<Rightarrow> workloads \<Rightarrow> workloads" where
  "pvcs_arrived ns listed s =
     land (load_key ''pvc'' ns) (s\<lparr>pvcs := loadInto ensurePvcId ns listed (pvcs s)\<rparr>)"

definition reloadDeployments :: "bool \<Rightarrow> string \<Rightarrow> workloads \<Rightarrow> workloads" where
  "reloadDeployments api ns s = ensureDeploymentsLoaded api ns (forget (load_key ''dep'' ns) s)"

definition reloadPods :: "bool \<Rightarrow> string \<Rightarrow> workloads \<Rightarrow> workloads" where
  "reloadPods api ns s = ensurePodsLoaded api ns (forget (load_key ''pod'' ns) s)"

definition reloadStatefulSets :: "bool \<Rightarrow> string \<Rightarrow> workloads \<Rightarrow> workloads" where
  "reloadStatefulSets api ns s = ensureStatefulSetsLoaded api ns (forget (load_key ''ss'' ns) s)"

definition reloadPvcs :: "bool \<Rightarrow> string \<Rightarrow> workloads \<Rightarrow> workloads" where
  "reloadPvcs api ns s = ensurePvcsLoaded api ns (forget (load_key ''pvc'' ns) s)"

subsection \<open>Objects sent to the cluster\<close>

definition deploymentObject :: "string \<Rightarrow> string \<Rightarrow> string \<Rightarrow> int \<Rightarrow> json" where
  "deploymentObject ns name img replicas =
    JObj [
      (''apiVersion'', JStr ''apps/v1''),
      (''kind'', JStr ''Deployment''),
      (''metadata'', JObj [(''name'', JStr name), (''namespace'', JStr ns),
        (''labels'', JObj [(''app'', JStr name)])]),
      (''spec'', JObj [
        (''replicas'', jint replicas),
        (''selector'', JObj [(''matchLabels'', JObj [(''app'', JStr name)])]),
        (''template'', JObj [
          (''metadata'', JObj [(''labels'', JObj [(''app'', JStr name)])]),
          (''spec'', JObj [(''containers'', JArr [JObj [(''name'', JStr ''main''), (''image'', JStr img)]])])])])]"

definition statefulSetObject :: "string \<Rightarrow> string \<Rightarrow> string \<Rightarrow> int \<Rightarrow> json" where
  "statefulSetObject ns name img replicas =
    JObj [
      (''apiVersion'', JStr ''apps/v1''),
      (''kind'', JStr ''StatefulSet''),
      (''metadata'', JObj [(''name'', JStr name), (''namespace'', JStr ns),
        (''labels'', JObj [(''app'', JStr name)])]),
      (''spec'', JObj [
        (''replicas'', jint replicas),
        (''serviceName'', JStr name),
        (''selector'', JObj [(''matchLabels'', JObj [(''app'', JStr name)])]),
        (''template'', JObj [
          (''metadata'', JObj [(''labels'', JObj [(''app'', JStr name)])]),
          (''spec'', JObj [(''containers'', JArr [JObj [(''name'', JStr ''main''), (''image'', JStr img)]])])])])]"

definition pvcObject :: "string \<Rightarrow> string \<Rightarrow> string \<Rightarrow> string \<Rightarrow> string \<Rightarrow> json" where
  "pvcObject ns name storageClass capacity accessMode =
    JObj [
      (''apiVersion'', JStr ''v1''),
      (''kind'', JStr ''PersistentVolumeClaim''),
      (''metadata'', JObj [(''name'', JStr name), (''namespace'', JStr ns)]),
      (''spec'', JObj [
        (''accessModes'', JArr [JStr
          (if accessMode = ''RWO'' then ''ReadWriteOnce''
           else if accessMode = ''RWX'' then ''ReadWriteMany'' else accessMode)]),
        (''storageClassName'', JStr storageClass),
        (''resources'', JObj [(''requests'', JObj [(''storage'', JStr capacity)])])])]"

subsection \<open>Creating, updating, deleting\<close>

text \<open>Each awaits the backend first, and changes nothing when the call rejects.\<close>

definition deleteWorkload ::
  "bool \<Rightarrow> 'r backend \<Rightarrow> slug \<Rightarrow> string \<Rightarrow> string \<Rightarrow> workloads \<Rightarrow> unit promise \<times> workloads" where
  "deleteWorkload api send slug ns name s =
     (let cleared = (case slug of
            Deployments \<Rightarrow> s\<lparr>deployments := drop_where (names_obj ns name) (deployments s)\<rparr>
          | Pods \<Rightarrow> s\<lparr>pods := drop_where (names_obj ns name) (pods s)\<rparr>
          | Statefulsets \<Rightarrow> s\<lparr>statefulSets := drop_where (names_obj ns name) (statefulSets s)\<rparr>
          | Pvcs \<Rightarrow> s\<lparr>pvcs := drop_where (names_obj ns name) (pvcs s)\<rparr>
          | _ \<Rightarrow> s)
      in if api then
           (case send (deleteNamespaced slug ns name) of Inl e \<Rightarrow> (Inl e, s) | Inr _ \<Rightarrow> (Inr (), cleared))
         else (Inr (), cleared))"

definition fetchResourceYaml ::
  "bool \<Rightarrow> string backend \<Rightarrow> slug \<Rightarrow> string \<Rightarrow> string \<Rightarrow> string promise" where
  "fetchResourceYaml api send slug ns name =
     (if api then send (fetchYaml (Inl slug) (Some ns) name)
      else Inr (''# Prototype mode '' @ em_dash @ '' no real YAML available.
# kind: '' @ slug_text slug @ ''
metadata:
  name: '' @ name @ ''
  namespace: '' @ ns @ ''
''))"

datatype owner_kind = OwnerDeployment | OwnerStatefulSet

fun owner_text :: "owner_kind \<Rightarrow> string" where
  "owner_text OwnerDeployment = ''Deployment''"
| "owner_text OwnerStatefulSet = ''StatefulSet''"

definition findPodForOwner :: "string \<Rightarrow> owner_kind \<Rightarrow> string \<Rightarrow> workloads \<Rightarrow> Pod option" where
  "findPodForOwner ns kind name s =
     find (\<lambda>p. obj_namespace p = ns \<and> pod_ownerRef p = Some (owner_text kind @ ''/'' @ name)) (pods s)"

definition createDeployment ::
  "bool \<Rightarrow> 'r backend \<Rightarrow> string \<Rightarrow> string \<Rightarrow> string \<Rightarrow> string \<Rightarrow> string \<Rightarrow> int \<Rightarrow>
     workloads \<Rightarrow> unit promise \<times> workloads" where
  "createDeployment api send draw today ns name img replicas s =
     (if api then
        (case send (createNamespaced Deployments ns (deploymentObject ns name img replicas)) of
           Inl e \<Rightarrow> (Inl e, s)
         | Inr _ \<Rightarrow> (Inr (), reloadDeployments api ns s))
      else
        (Inr (), setTimeout (DeploymentReady ns name replicas) 1200
          (s\<lparr>deployments :=
              \<lparr>obj_id = uid draw ''dep'', obj_name = name, obj_namespace = ns, dep_image = img,
               dep_replicas = replicas, dep_readyReplicas = 0, dep_status = WProgressing,
               dep_createdAt = today, dep_labels = Some [(''app'', name)]\<rparr> # deployments s\<rparr>)))"

definition updateDeployment ::
  "bool \<Rightarrow> 'r backend \<Rightarrow> string \<Rightarrow> Deployment \<Rightarrow> string \<Rightarrow> int \<Rightarrow> workloads \<Rightarrow>
     unit promise \<times> workloads" where
  "updateDeployment api send ns current img replicas s =
     (if api then
        (case send (updateNamespaced Deployments ns (obj_name current)
                (deploymentObject ns (obj_name current) img replicas)) of
           Inl e \<Rightarrow> (Inl e, s)
         | Inr _ \<Rightarrow> (Inr (), reloadDeployments api ns s))
      else
        (Inr (), s\<lparr>deployments := map_where (\<lambda>d. obj_id d = obj_id current)
            (\<lambda>d. d\<lparr>dep_image := img, dep_replicas := replicas,
                   dep_readyReplicas := min (dep_readyReplicas d) replicas\<rparr>) (deployments s)\<rparr>))"

definition createStatefulSet ::
  "bool \<Rightarrow> 'r backend \<Rightarrow> string \<Rightarrow> string \<Rightarrow> string \<Rightarrow> string \<Rightarrow> string \<Rightarrow> int \<Rightarrow>
     workloads \<Rightarrow> unit promise \<times> workloads" where
  "createStatefulSet api send draw today ns name img replicas s =
     (if api then
        (case send (createNamespaced Statefulsets ns (statefulSetObject ns name img replicas)) of
           Inl e \<Rightarrow> (Inl e, s)
         | Inr _ \<Rightarrow> (Inr (), reloadStatefulSets api ns s))
      else
        (Inr (), setTimeout (StatefulSetReady ns name replicas) 1500
          (s\<lparr>statefulSets :=
              \<lparr>obj_id = uid draw ''ss'', obj_name = name, obj_namespace = ns, ss_image = img,
               ss_replicas = replicas, ss_readyReplicas = 0, ss_status = WProgressing,
               ss_createdAt = today, ss_serviceName = name\<rparr> # statefulSets s\<rparr>)))"

definition createPVC ::
  "bool \<Rightarrow> 'r backend \<Rightarrow> string \<Rightarrow> string \<Rightarrow> string \<Rightarrow> string \<Rightarrow> string \<Rightarrow> string \<Rightarrow> string \<Rightarrow>
     workloads \<Rightarrow> unit promise \<times> workloads" where
  "createPVC api send draw today ns name storageClass capacity accessMode s =
     (if api then
        (case send (createNamespaced Pvcs ns (pvcObject ns name storageClass capacity accessMode)) of
           Inl e \<Rightarrow> (Inl e, s)
         | Inr _ \<Rightarrow> (Inr (), reloadPvcs api ns s))
      else
        (Inr (), setTimeout (PvcReady ns name) 1200
          (s\<lparr>pvcs :=
              \<lparr>obj_id = uid draw ''pvc'', obj_name = name, obj_namespace = ns, pvc_status = PvcPending,
               pvc_storageClass = storageClass, pvc_capacity = capacity, pvc_accessMode = accessMode,
               pvc_volumeName = '''', pvc_createdAt = today\<rparr> # pvcs s\<rparr>)))"

text \<open>The callbacks of the three timers.\<close>

fun wl_run :: "wl_timer \<Rightarrow> workloads \<Rightarrow> workloads" where
  "wl_run (DeploymentReady ns name replicas) s =
     s\<lparr>deployments := map_where (names_obj ns name)
         (\<lambda>d. d\<lparr>dep_readyReplicas := replicas, dep_status := WRunning\<rparr>) (deployments s)\<rparr>"
| "wl_run (StatefulSetReady ns name replicas) s =
     s\<lparr>statefulSets := map_where (names_obj ns name)
         (\<lambda>d. d\<lparr>ss_readyReplicas := replicas, ss_status := WRunning\<rparr>) (statefulSets s)\<rparr>"
| "wl_run (PvcReady ns name) s =
     s\<lparr>pvcs := map_where (names_obj ns name)
         (\<lambda>p. p\<lparr>pvc_status := PvcBound, pvc_volumeName := ''pvc-'' @ name\<rparr>) (pvcs s)\<rparr>"

definition wl_elapse :: "nat \<Rightarrow> workloads \<Rightarrow> workloads" where
  "wl_elapse t s = elapse wl_run t s"

subsection \<open>The cache interface\<close>

text \<open>What \<open>loadInto\<close> relies on: completing a row keeps the namespace it belongs to.\<close>

definition keeps_namespace :: "('a k8s_obj_scheme \<Rightarrow> 'a k8s_obj_scheme) \<Rightarrow> bool" where
  "keeps_namespace f \<longleftrightarrow> (\<forall>x. obj_namespace (f x) = obj_namespace x)"

lemma ensure_keep [simp]:
  "keeps_namespace ensureDepId" "keeps_namespace ensurePodId" "keeps_namespace ensureSsId"
  "keeps_namespace ensurePvcId"
  by (simp_all add: keeps_namespace_def ensureDepId_def ensurePodId_def ensureSsId_def ensurePvcId_def)

text \<open>The merge step of every load, over rows already completed.\<close>

definition put_slot :: "('a \<Rightarrow> 'k) \<Rightarrow> 'k \<Rightarrow> 'a list \<Rightarrow> 'a list \<Rightarrow> 'a list" where
  "put_slot slot k new prev = filter (\<lambda>p. slot p \<noteq> k) prev @ new"

interpretation ns_cache: slot_cache slot "put_slot slot" for slot :: "'a \<Rightarrow> 'k"
proof unfold_locales
  fix k and new old :: "'a list"
  show "own_rows slot k new \<Longrightarrow> rows slot k (put_slot slot k new old) = new"
    by (simp add: put_slot_def own_rows_def rows_simps)
  fix k'
  show "own_rows slot k new \<Longrightarrow> k' \<noteq> k \<Longrightarrow> rows slot k' (put_slot slot k new old) = rows slot k' old"
    using rows_none [of new slot k'] by (simp add: put_slot_def own_rows_def rows_append rows_drop_other)
qed

lemma loadInto_put: "loadInto f ns listed prev = put_slot obj_namespace ns (map f listed) prev"
  by (simp add: loadInto_def put_slot_def Let_def)

lemma replay_loadInto:
  "replay (loadInto f) es prev =
     replay (put_slot obj_namespace) (map (\<lambda>(ns, listed). (ns, map f listed)) es) prev"
  by (induction es arbitrary: prev) (auto simp: loadInto_put)

lemma own_rows_ensure:
  "keeps_namespace f \<Longrightarrow> own_rows obj_namespace ns (map f xs) = own_rows obj_namespace ns xs"
  by (simp add: own_rows_def keeps_namespace_def)

lemma load_history:
  assumes "keeps_namespace f" "\<forall>(ns, listed) \<in> set es. own_rows obj_namespace ns listed"
  shows "view obj_namespace (replay (loadInto f) es prev) ns =
    (case last_load es ns of Some listed \<Rightarrow> map f listed | None \<Rightarrow> view obj_namespace prev ns)"
proof -
  have "\<forall>(ns, new) \<in> set (map (\<lambda>(ns, listed). (ns, map f listed)) es). own_rows obj_namespace ns new"
    using assms by (auto simp: own_rows_ensure)
  then show ?thesis
    by (simp only: replay_loadInto ns_cache.view_replay last_load_map) (auto split: option.splits)
qed

text \<open>A history of answers to the deployment listing.\<close>

fun deployment_loads :: "(string \<times> Deployment list) list \<Rightarrow> workloads \<Rightarrow> workloads" where
  "deployment_loads [] s = s"
| "deployment_loads ((ns, listed) # es) s = deployment_loads es (deployments_arrived ns listed s)"

lemma deployment_loads_fields:
  "deployments (deployment_loads es s) = replay (loadInto ensureDepId) es (deployments s)"
  "pods (deployment_loads es s) = pods s" "statefulSets (deployment_loads es s) = statefulSets s"
  "pvcs (deployment_loads es s) = pvcs s"
  by (induction es s rule: deployment_loads.induct) (simp_all add: deployments_arrived_def land_def)

text \<open>One key's history: a page asks, the listing arrives, or it fails.\<close>

fun deployment_flight :: "bool \<Rightarrow> string \<Rightarrow> workloads \<Rightarrow> Deployment list flight \<Rightarrow> workloads" where
  "deployment_flight api ns s Ensure = ensureDeploymentsLoaded api ns s"
| "deployment_flight api ns s (Arrive listed) =
     (if 0 < fetches (load_key ''dep'' ns) s then deployments_arrived ns listed s else s)"
| "deployment_flight api ns s Reject =
     (if 0 < fetches (load_key ''dep'' ns) s then fetch_failed (load_key ''dep'' ns) s else s)"

lemma fetches_deployments [simp]: "fetches k (s\<lparr>deployments := xs\<rparr>) = fetches k s"
  by (simp add: fetches_def)

interpretation dep_flight: single_flight "ensureDeploymentsLoaded True ns" "deployments_arrived ns"
    "fetch_failed (load_key ''dep'' ns)" "\<lambda>s. (load_key ''dep'' ns) \<in> loaded s" "fetches (load_key ''dep'' ns)"
  for ns
  by unfold_locales
    (simp_all add: ensureDeploymentsLoaded_def once_def start_once_held start_once_free
      deployments_arrived_def fetches_land fetch_failed_def)

lemma deployment_flight_step: "deployment_flight True ns s e = dep_flight.flight_step ns s e"
  by (cases e) simp_all

lemma deployment_flight_run:
  "foldl (deployment_flight True ns) s es = foldl (dep_flight.flight_step ns) s es"
  by (induction es arbitrary: s) (simp_all add: deployment_flight_step)

subsection \<open>The prototype mode as a state machine\<close>

fun dep_hits :: "wl_timer \<Rightarrow> Deployment \<Rightarrow> bool" where
  "dep_hits (DeploymentReady ns name n) d = names_obj ns name d"
| "dep_hits e d = False"

fun ss_hits :: "wl_timer \<Rightarrow> StatefulSet \<Rightarrow> bool" where
  "ss_hits (StatefulSetReady ns name n) d = names_obj ns name d"
| "ss_hits e d = False"

fun pvc_hits :: "wl_timer \<Rightarrow> PVC \<Rightarrow> bool" where
  "pvc_hits (PvcReady ns name) p = names_obj ns name p"
| "pvc_hits e p = False"

fun dep_eff :: "wl_timer \<Rightarrow> Deployment \<Rightarrow> Deployment" where
  "dep_eff (DeploymentReady ns name n) d =
     (if names_obj ns name d then d\<lparr>dep_readyReplicas := n, dep_status := WRunning\<rparr> else d)"
| "dep_eff e d = d"

fun ss_eff :: "wl_timer \<Rightarrow> StatefulSet \<Rightarrow> StatefulSet" where
  "ss_eff (StatefulSetReady ns name n) d =
     (if names_obj ns name d then d\<lparr>ss_readyReplicas := n, ss_status := WRunning\<rparr> else d)"
| "ss_eff e d = d"

fun pvc_eff :: "wl_timer \<Rightarrow> PVC \<Rightarrow> PVC" where
  "pvc_eff (PvcReady ns name) p =
     (if names_obj ns name p then p\<lparr>pvc_status := PvcBound, pvc_volumeName := ''pvc-'' @ name\<rparr> else p)"
| "pvc_eff e p = p"

text \<open>Settled rows; those with an id of the seed never wait for a timer.\<close>

definition dep_settled :: "string set \<Rightarrow> Deployment \<Rightarrow> bool" where
  "dep_settled ids d \<longleftrightarrow> dep_status d \<noteq> WProgressing \<or> obj_id d \<in> ids"

definition ss_settled :: "string set \<Rightarrow> StatefulSet \<Rightarrow> bool" where
  "ss_settled ids d \<longleftrightarrow> ss_status d \<noteq> WProgressing \<or> obj_id d \<in> ids"

definition pvc_settled :: "string set \<Rightarrow> PVC \<Rightarrow> bool" where
  "pvc_settled ids p \<longleftrightarrow> pvc_status p \<noteq> PvcPending \<or> obj_id p \<in> ids"

interpretation dep_timers: settling dep_eff dep_hits "dep_settled ids" for ids
proof unfold_locales
  fix e e' d
  show "\<not> dep_hits e d \<Longrightarrow> dep_eff e d = d" by (cases e) simp_all
  show "dep_hits e d \<Longrightarrow> dep_settled ids (dep_eff e d)" by (cases e) (simp_all add: dep_settled_def)
  show "dep_hits e' (dep_eff e d) = dep_hits e' d" by (cases e; cases e') (simp_all add: names_obj_def)
qed

interpretation ss_timers: settling ss_eff ss_hits "ss_settled ids" for ids
proof unfold_locales
  fix e e' d
  show "\<not> ss_hits e d \<Longrightarrow> ss_eff e d = d" by (cases e) simp_all
  show "ss_hits e d \<Longrightarrow> ss_settled ids (ss_eff e d)" by (cases e) (simp_all add: ss_settled_def)
  show "ss_hits e' (ss_eff e d) = ss_hits e' d" by (cases e; cases e') (simp_all add: names_obj_def)
qed

interpretation pvc_timers: settling pvc_eff pvc_hits "pvc_settled ids" for ids
proof unfold_locales
  fix e e' d
  show "\<not> pvc_hits e d \<Longrightarrow> pvc_eff e d = d" by (cases e) simp_all
  show "pvc_hits e d \<Longrightarrow> pvc_settled ids (pvc_eff e d)" by (cases e) (simp_all add: pvc_settled_def)
  show "pvc_hits e' (pvc_eff e d) = pvc_hits e' d" by (cases e; cases e') (simp_all add: names_obj_def)
qed

lemma wl_run_fields:
  "deployments (wl_run e s) = map (dep_eff e) (deployments s)"
  "statefulSets (wl_run e s) = map (ss_eff e) (statefulSets s)"
  "pvcs (wl_run e s) = map (pvc_eff e) (pvcs s)"
  "pods (wl_run e s) = pods s" "timers (wl_run e s) = timers s" "now (wl_run e s) = now s"
  by (cases e; simp add: map_where_def map_idI)+

lemma wl_fold_fields:
  "deployments (fold wl_run es s) = map (fold dep_eff es) (deployments s)"
  "statefulSets (fold wl_run es s) = map (fold ss_eff es) (statefulSets s)"
  "pvcs (fold wl_run es s) = map (fold pvc_eff es) (pvcs s)"
  "timers (fold wl_run es s) = timers s"
  by (induction es arbitrary: s) (simp_all add: wl_run_fields)

lemma wl_elapse_fields:
  "deployments (wl_elapse t s) = map (fold dep_eff (due t s)) (deployments s)"
  "statefulSets (wl_elapse t s) = map (fold ss_eff (due t s)) (statefulSets s)"
  "pvcs (wl_elapse t s) = map (fold pvc_eff (due t s)) (pvcs s)"
  "timers (wl_elapse t s) = filter (\<lambda>e. \<not> fst e \<le> t) (timers s)"
  by (simp_all add: wl_elapse_def elapse_def wl_fold_fields)

inductive wl_step :: "workloads \<Rightarrow> workloads \<Rightarrow> bool" where
  "wl_step s (snd (createDeployment False (send :: unit backend) draw today ns name img n s))"
| "wl_step s (snd (updateDeployment False (send :: unit backend) ns d img n s))"
| "wl_step s (snd (createStatefulSet False (send :: unit backend) draw today ns name img n s))"
| "wl_step s (snd (createPVC False (send :: unit backend) draw today ns name cls cap mode s))"
| "wl_step s (snd (deleteWorkload False (send :: unit backend) slug ns name s))"
| "now s \<le> t \<Longrightarrow> wl_step s (wl_elapse t s)"

inductive wl_reach :: "(nat \<Rightarrow> string) \<Rightarrow> string \<Rightarrow> workloads \<Rightarrow> bool" for draw today where
  "wl_reach draw today (workloads_init draw today)"
| "wl_reach draw today s \<Longrightarrow> wl_step s s' \<Longrightarrow> wl_reach draw today s'"

inductive_cases wl_stepE: "wl_step s s'"

definition seed_ids :: "(nat \<Rightarrow> string) \<Rightarrow> string \<Rightarrow> string set" where
  "seed_ids draw today =
     set (map obj_id (deploymentsInitial draw today) @ map obj_id (statefulSetsInitial draw today)
       @ map obj_id (pvcsInitial draw today))"

definition wl_awaited :: "string set \<Rightarrow> workloads \<Rightarrow> bool" where
  "wl_awaited ids s \<longleftrightarrow>
     (\<forall>d \<in> set (deployments s). awaited dep_hits (dep_settled ids) (timers s) d) \<and>
     (\<forall>d \<in> set (statefulSets s). awaited ss_hits (ss_settled ids) (timers s) d) \<and>
     (\<forall>p \<in> set (pvcs s). awaited pvc_hits (pvc_settled ids) (timers s) p)"

lemma wl_awaited_init: "wl_awaited (seed_ids draw today) (workloads_init draw today)"
  unfolding wl_awaited_def workloads_init_def
  by (auto intro!: awaited_settled simp: seed_ids_def dep_settled_def ss_settled_def pvc_settled_def)

lemma awaited_dep_cong:
  "names_obj (obj_namespace d) (obj_name d) d' \<Longrightarrow> dep_status d' = dep_status d \<Longrightarrow> obj_id d' = obj_id d \<Longrightarrow>
   awaited dep_hits (dep_settled ids) ts d' = awaited dep_hits (dep_settled ids) ts d"
proof -
  assume a: "names_obj (obj_namespace d) (obj_name d) d'" "dep_status d' = dep_status d" "obj_id d' = obj_id d"
  have "dep_hits e d' = dep_hits e d" for e
    using a(1) by (cases e) (auto simp: names_obj_def)
  with a show ?thesis by (simp add: awaited_def dep_settled_def)
qed

lemma wl_awaited_step: "wl_step s s' \<Longrightarrow> wl_awaited ids s \<Longrightarrow> wl_awaited ids s'"
proof (induction rule: wl_step.induct)
  case (1 s send draw today ns name img n)
  then show ?case
    by (auto simp: wl_awaited_def createDeployment_def setTimeout_def names_obj_def
        intro: awaited_mono awaited_timer [of "now s + 1200" "DeploymentReady ns name n"])
next
  case (2 s send ns d img n)
  have "awaited dep_hits (dep_settled ids) (timers s)
      (x\<lparr>dep_image := img, dep_replicas := n, dep_readyReplicas := min (dep_readyReplicas x) n\<rparr>)"
    if "x \<in> set (deployments s)" for x
    using 2 that awaited_dep_cong [of x "x\<lparr>dep_image := img, dep_replicas := n,
      dep_readyReplicas := min (dep_readyReplicas x) n\<rparr>" ids "timers s"]
    by (simp add: wl_awaited_def names_obj_def)
  with 2 show ?case
    by (auto simp: wl_awaited_def updateDeployment_def in_map_where)
next
  case (3 s send draw today ns name img n)
  then show ?case
    by (auto simp: wl_awaited_def createStatefulSet_def setTimeout_def names_obj_def
        intro: awaited_mono awaited_timer [of "now s + 1500" "StatefulSetReady ns name n"])
next
  case (4 s send draw today ns name cls cap mode)
  then show ?case
    by (auto simp: wl_awaited_def createPVC_def setTimeout_def names_obj_def
        intro: awaited_mono awaited_timer [of "now s + 1200" "PvcReady ns name"])
next
  case (5 s send slug ns name)
  then show ?case
    by (cases slug) (auto simp: wl_awaited_def deleteWorkload_def)
next
  case (6 s t)
  then show ?case
    by (auto simp: wl_awaited_def wl_elapse_fields
        intro!: dep_timers.awaited_elapse ss_timers.awaited_elapse pvc_timers.awaited_elapse)
qed

lemma wl_reach_awaited: "wl_reach draw today s \<Longrightarrow> wl_awaited (seed_ids draw today) s"
  by (induction rule: wl_reach.induct) (auto intro: wl_awaited_init wl_awaited_step)

lemmas wl_reads = wl_elapse_fields createDeployment_def setTimeout_def

lemma dep_eff_names [simp]: "names_obj ns name (dep_eff e d) = names_obj ns name d"
  by (cases e) (simp_all add: names_obj_def)

lemma dep_fold_ready:
  "names_obj ns name d \<Longrightarrow> (\<And>r. DeploymentReady ns name r \<in> set es \<Longrightarrow> r = n) \<Longrightarrow>
   DeploymentReady ns name n \<in> set es \<or> dep_readyReplicas d = n \<Longrightarrow>
   dep_readyReplicas (fold dep_eff es d) = n"
proof (induction es arbitrary: d)
  case (Cons e es)
  have "DeploymentReady ns name n \<in> set es \<or> dep_readyReplicas (dep_eff e d) = n"
    using Cons.prems by (cases e) (auto simp: names_obj_def)
  then show ?case
    using Cons.IH [of "dep_eff e d"] Cons.prems(1, 2) by simp
qed simp

lemma dep_fold_frame:
  "obj_name (fold dep_eff es d) = obj_name d" "obj_namespace (fold dep_eff es d) = obj_namespace d"
  "obj_id (fold dep_eff es d) = obj_id d" "dep_replicas (fold dep_eff es d) = dep_replicas d"
proof (induction es arbitrary: d)
  case (Cons e es)
  { case 1 show ?case by (cases e) (simp_all add: Cons.IH) }
  { case 2 show ?case by (cases e) (simp_all add: Cons.IH) }
  { case 3 show ?case by (cases e) (simp_all add: Cons.IH) }
  { case 4 show ?case by (cases e) (simp_all add: Cons.IH) }
qed simp_all

lemma dep_eff_running: "dep_status d = WRunning \<Longrightarrow> dep_status (dep_eff e d) = WRunning"
  by (cases e) simp_all

lemma dep_fold_stays_running: "dep_status d = WRunning \<Longrightarrow> dep_status (fold dep_eff es d) = WRunning"
  by (induction es arbitrary: d) (simp_all add: dep_eff_running)

lemma dep_fold_running:
  "names_obj ns name d \<Longrightarrow> DeploymentReady ns name n \<in> set es \<Longrightarrow>
   dep_status (fold dep_eff es d) = WRunning"
  by (induction es arbitrary: d) (auto simp: dep_fold_stays_running)

subsection \<open>Properties\<close>

text \<open>
  C3. Loading deployments implements a map from namespaces to their rows: after any history of
  answers, each listing rows of the namespace it was asked for, a namespace shows exactly its
  latest listing (completed), and what it held before when it was never loaded; the other three
  stores are untouched.
\<close>

theorem deployments_load_history:
  assumes "\<forall>(ns, listed) \<in> set es. own_rows obj_namespace ns listed"
  shows "view obj_namespace (deployments (deployment_loads es s)) ns =
      (case last_load es ns of Some listed \<Rightarrow> map ensureDepId listed
       | None \<Rightarrow> view obj_namespace (deployments s) ns) \<and>
    pods (deployment_loads es s) = pods s \<and>
    statefulSets (deployment_loads es s) = statefulSets s \<and> pvcs (deployment_loads es s) = pvcs s"
  by (simp add: deployment_loads_fields load_history [OF _ assms])

definition sample_deployment :: "string \<Rightarrow> string \<Rightarrow> Deployment" where
  "sample_deployment ns name =
     \<lparr>obj_id = '''', obj_name = name, obj_namespace = ns, dep_image = ''nginx'', dep_replicas = 1,
      dep_readyReplicas = 1, dep_status = WRunning, dep_createdAt = '''', dep_labels = None\<rparr>"

theorem deployments_load_history_witness:
  "view obj_namespace (deployments (deployment_loads
      [(''team-ml'', [sample_deployment ''team-ml'' ''a'']), (''team-llm'', []), (''team-ml'', [])]
      (workloads_init (\<lambda>_. ''seed'') ''2025-01-01''))) ''team-ml'' = []"
  using deployments_load_history [of "[(''team-ml'', [sample_deployment ''team-ml'' ''a'']), (''team-llm'', []),
    (''team-ml'', [])]" "workloads_init (\<lambda>_. ''seed'') ''2025-01-01''" "''team-ml''"]
  by (simp add: own_rows_def sample_deployment_def)

text \<open>
  Loading guards its fetch: whatever the interleaving of pages asking for a namespace's
  deployments with answers and failures, at most one listing of that namespace is in flight; and
  when the listing fails, the next page that asks starts it again.
\<close>

theorem deployments_single_flight:
  "fetches (load_key ''dep'' ns) (foldl (deployment_flight True ns) (workloads_init draw today) es) \<le> 1 \<and>
   (let s = foldl (deployment_flight True ns) (workloads_init draw today) (es @ [Ensure, Reject, Ensure])
    in fetches (load_key ''dep'' ns) s \<le> 1 \<and> (load_key ''dep'' ns) \<in> loaded s)"
proof -
  have init: "dep_flight.flight_ok ns (workloads_init draw today)"
    by (simp add: dep_flight.flight_ok_def workloads_init_def fetches_def)
  have "(load_key ''dep'' ns) \<in> loaded (ensureDeploymentsLoaded True ns s)" for s
    by (simp add: ensureDeploymentsLoaded_def once_def start_once_def)
  then show ?thesis
    using dep_flight.at_most_one_fetch [OF init] by (simp only: deployment_flight_run Let_def) simp
qed


definition sample_claim_state :: workloads where
  "sample_claim_state =
     snd (createPVC False (\<lambda>_. Inr () :: unit promise) ''a1b2c3'' ''2025-01-01'' ''team-ml'' ''data''
       ''standard'' ''5Gi'' ''RWO'' (workloads_init (\<lambda>_. ''seed'') ''2025-01-01''))"

lemma sample_reach: "wl_reach (\<lambda>_. ''seed'') ''2025-01-01'' sample_claim_state"
  unfolding sample_claim_state_def
  by (rule wl_reach.intros(2) [OF wl_reach.intros(1) wl_step.intros(4)])

lemma sample_claim_pvcs:
  "pvcs sample_claim_state =
     \<lparr>obj_id = ''pvc-a1b2c3'', obj_name = ''data'', obj_namespace = ''team-ml'', pvc_status = PvcPending,
      pvc_storageClass = ''standard'', pvc_capacity = ''5Gi'', pvc_accessMode = ''RWO'',
      pvc_volumeName = '''', pvc_createdAt = ''2025-01-01''\<rparr> # pvcsInitial (\<lambda>_. ''seed'') ''2025-01-01''"
  by (simp add: sample_claim_state_def createPVC_def setTimeout_def workloads_init_def uid_def)

lemma sample_claim_unseeded: "''pvc-a1b2c3'' \<notin> seed_ids (\<lambda>_. ''seed'') ''2025-01-01''"
  by (simp add: seed_ids_def deploymentsInitial_def statefulSetsInitial_def pvcsInitial_def uid_def)


text \<open>
  Prototype rollouts come to an end: once the clock has passed every pending timer of a
  reachable state, every deployment and stateful set that was created is out of Progressing and
  every created claim is out of Pending.
\<close>

theorem rollouts_settle:
  assumes "wl_reach draw today s" "\<forall>e \<in> set (timers s). fst e \<le> t"
  shows "(\<forall>d \<in> set (deployments (wl_elapse t s)). dep_status d \<noteq> WProgressing \<or> obj_id d \<in> seed_ids draw today) \<and>
    (\<forall>d \<in> set (statefulSets (wl_elapse t s)). ss_status d \<noteq> WProgressing \<or> obj_id d \<in> seed_ids draw today) \<and>
    (\<forall>p \<in> set (pvcs (wl_elapse t s)). pvc_status p \<noteq> PvcPending \<or> obj_id p \<in> seed_ids draw today)"
proof -
  note due = assms(2)
  have "\<forall>d \<in> set (deployments s). dep_settled (seed_ids draw today) (fold dep_eff (due t s) d)"
    "\<forall>d \<in> set (statefulSets s). ss_settled (seed_ids draw today) (fold ss_eff (due t s) d)"
    "\<forall>p \<in> set (pvcs s). pvc_settled (seed_ids draw today) (fold pvc_eff (due t s) p)"
    using wl_reach_awaited [OF assms(1)] unfolding wl_awaited_def
    by (blast intro: dep_timers.awaited_all_due [OF _ due] ss_timers.awaited_all_due [OF _ due]
        pvc_timers.awaited_all_due [OF _ due])+
  then show ?thesis
    by (simp add: wl_elapse_fields dep_settled_def ss_settled_def pvc_settled_def)
qed

theorem rollouts_settle_witness:
  "filter (\<lambda>p. pvc_status p = PvcPending \<and> obj_id p \<notin> seed_ids (\<lambda>_. ''seed'') ''2025-01-01'')
     (pvcs (wl_elapse 1200 sample_claim_state)) = []"
proof -
  have "\<forall>e \<in> set (timers sample_claim_state). fst e \<le> 1200"
    by (simp add: sample_claim_state_def createPVC_def setTimeout_def workloads_init_def)
  then show ?thesis
    using rollouts_settle [OF sample_reach, of 1200] by (auto simp: filter_empty_conv)
qed

text \<open>
  C38. Creating a deployment in prototype mode brings it up: unless a rollout of the same name with
  another size is pending, 1200 milliseconds later the new row is there, Running, with as many
  ready replicas as it asked for, and so is every row of that name.
\<close>

theorem created_deployment_comes_up:
  assumes "\<And>d r. (d, DeploymentReady ns name r) \<in> set (timers s) \<Longrightarrow> r = n" "now s + 1200 \<le> t"
  shows "let s' = wl_elapse t (snd (createDeployment False send draw today ns name img n s))
    in (\<exists>d \<in> set (deployments s'). obj_id d = uid draw ''dep'' \<and> names_obj ns name d \<and> dep_replicas d = n) \<and>
       (\<forall>d \<in> set (deployments s'). names_obj ns name d \<longrightarrow>
          dep_status d = WRunning \<and> dep_readyReplicas d = n)"
proof -
  let ?s = "snd (createDeployment False send draw today ns name img n s)"
  have due_new: "DeploymentReady ns name n \<in> set (due t ?s)"
    using assms(2) by (auto simp: set_due createDeployment_def setTimeout_def)
  have due_only: "r = n" if "DeploymentReady ns name r \<in> set (due t ?s)" for r
    using that assms(1) by (auto simp: set_due createDeployment_def setTimeout_def)
  have up: "dep_status (fold dep_eff (due t ?s) d) = WRunning \<and>
      dep_readyReplicas (fold dep_eff (due t ?s) d) = n" if "names_obj ns name d" for d
    using dep_fold_running [OF that due_new] dep_fold_ready [OF that due_only] due_new by blast
  have row: "\<exists>d \<in> set (deployments ?s). obj_id d = uid draw ''dep'' \<and> names_obj ns name d \<and> dep_replicas d = n"
    by (simp add: createDeployment_def setTimeout_def names_obj_def)
  then show ?thesis
    using up by (auto simp: Let_def wl_elapse_fields names_obj_def dep_fold_frame)
qed

theorem created_deployment_comes_up_witness:
  "\<exists>d \<in> set (deployments (wl_elapse 1300 (snd (createDeployment False (\<lambda>_. Inr () :: unit promise) ''abc'' ''2025-01-01''
      ''team-ml'' ''web'' ''nginx'' 3 (workloads_init (\<lambda>_. ''seed'') ''2025-01-01''))))).
     names_obj ''team-ml'' ''web'' d \<and> dep_readyReplicas d = 3"
proof -
  have "(d, DeploymentReady ''team-ml'' ''web'' r) \<in> set (timers (workloads_init (\<lambda>_. ''seed'') ''2025-01-01'')) \<Longrightarrow> r = 3" for d r
    by (simp add: workloads_init_def)
  moreover have "now (workloads_init (\<lambda>_. ''seed'') ''2025-01-01'') + 1200 \<le> 1300"
    by (simp add: workloads_init_def)
  ultimately show ?thesis
    using created_deployment_comes_up [of "''team-ml''" "''web''" "workloads_init (\<lambda>_. ''seed'') ''2025-01-01''" 3 1300]
    unfolding Let_def by blast
qed

definition wl_objects :: "workloads \<Rightarrow> slug \<Rightarrow> (string \<times> string) set" where
  "wl_objects s slug = (case slug of
      Deployments \<Rightarrow> (\<lambda>d. (obj_namespace d, obj_name d)) ` set (deployments s)
    | Pods \<Rightarrow> (\<lambda>d. (obj_namespace d, obj_name d)) ` set (pods s)
    | Statefulsets \<Rightarrow> (\<lambda>d. (obj_namespace d, obj_name d)) ` set (statefulSets s)
    | Pvcs \<Rightarrow> (\<lambda>d. (obj_namespace d, obj_name d)) ` set (pvcs s)
    | _ \<Rightarrow> {})"

lemma drop_names:
  "(\<lambda>d. (obj_namespace d, obj_name d)) ` set (drop_where (names_obj ns name) xs) =
   (\<lambda>d. (obj_namespace d, obj_name d)) ` set xs - {(ns, name)}"
  by (auto simp: names_obj_def)

text \<open>
  Deleting is exact and all or nothing: in API mode a rejected call leaves every store as it
  was and hands the error on; otherwise the object named is gone from the store of its kind, every
  other object of that kind and every row of the other kinds stays.
\<close>

theorem delete_workload_exact:
  "case deleteWorkload api send slug ns name s of
     (Inl e, s') \<Rightarrow> api \<and> send (deleteNamespaced slug ns name) = Inl e \<and> s' = s
   | (Inr _, s') \<Rightarrow>
       (api \<longrightarrow> (\<exists>r. send (deleteNamespaced slug ns name) = Inr r)) \<and>
       wl_objects s' = (wl_objects s)(slug := wl_objects s slug - {(ns, name)}) \<and>
       set (deployments s') \<subseteq> set (deployments s) \<and> set (pods s') \<subseteq> set (pods s) \<and>
       set (statefulSets s') \<subseteq> set (statefulSets s) \<and> set (pvcs s') \<subseteq> set (pvcs s)"
proof (cases "api \<and> (\<exists>e. send (deleteNamespaced slug ns name) = Inl e)")
  case True
  then show ?thesis by (auto simp: deleteWorkload_def)
next
  case False
  then have ok: "api \<longrightarrow> (\<exists>r. send (deleteNamespaced slug ns name) = Inr r)"
    by (cases "send (deleteNamespaced slug ns name)") auto
  define s' where "s' = snd (deleteWorkload api send slug ns name s)"
  have s': "deleteWorkload api send slug ns name s = (Inr (), s')"
    using ok by (auto simp: s'_def deleteWorkload_def Let_def)
  have eq: "s' = snd (deleteWorkload False send slug ns name s)"
    using ok by (auto simp: s'_def deleteWorkload_def Let_def)
  have "wl_objects s' k = ((wl_objects s)(slug := wl_objects s slug - {(ns, name)})) k" for k
    by (cases slug; cases k; simp add: eq deleteWorkload_def wl_objects_def drop_names)
  moreover have "set (deployments s') \<subseteq> set (deployments s) \<and> set (pods s') \<subseteq> set (pods s) \<and>
       set (statefulSets s') \<subseteq> set (statefulSets s) \<and> set (pvcs s') \<subseteq> set (pvcs s)"
    by (cases slug; auto simp: eq deleteWorkload_def)
  ultimately show ?thesis
    using s' ok by (simp add: fun_eq_iff)
qed

theorem delete_workload_exact_witness:
  "case deleteWorkload True (\<lambda>_. Inl (ApiError 403 ''forbidden'') :: unit promise) Pods ''team-ml'' ''x''
     (workloads_init (\<lambda>_. ''seed'') ''2025-01-01'') of (r, s') \<Rightarrow> s' = workloads_init (\<lambda>_. ''seed'') ''2025-01-01''"
  using delete_workload_exact [of True "\<lambda>_. Inl (ApiError 403 ''forbidden'') :: unit promise" Pods "''team-ml''" "''x''"
     "workloads_init (\<lambda>_. ''seed'') ''2025-01-01''"]
  by (simp add: deleteWorkload_def)

end
