(* ===== verification/Cluster_Resources.thy ===== *)
theory Cluster_Resources
  imports Workloads
begin

text \<open>
  \<open>frontend/src/data/clusterResources.ts\<close>: services, config maps, secrets, gateways and HTTP
  routes. As in \<open>Workloads\<close>: five stores with one \<open>loaded\<close> set; gateways and routes are loaded
  under one key by two listings. A created object is posted as the YAML the user edited; in
  prototype mode its name is read off that text by \<open>extractName\<close>. The builders at the end write
  the manifests the detail pages show.
\<close>

subsection \<open>Rows\<close>

datatype service_type = ClusterIP | NodePort | LoadBalancer

fun service_type_text :: "service_type \<Rightarrow> string" where
  "service_type_text ClusterIP = ''ClusterIP''"
| "service_type_text NodePort = ''NodePort''"
| "service_type_text LoadBalancer = ''LoadBalancer''"

datatype protocol = TCP | UDP

fun protocol_text :: "protocol \<Rightarrow> string" where
  "protocol_text TCP = ''TCP''"
| "protocol_text UDP = ''UDP''"

record service_port =
  sp_name :: "string option"
  sp_port :: int
  sp_targetPort :: int
  sp_protocol :: protocol

record K8sService = k8s_obj +
  svc_type :: service_type
  svc_clusterIP :: string
  svc_ports :: "service_port list"
  svc_selector :: "string js_map"
  svc_createdAt :: string

record ConfigMap = k8s_obj +
  cm_data :: "string js_map"
  cm_createdAt :: string

datatype secret_type = Opaque | Tls | DockerConfigJson | ServiceAccountToken

fun secret_type_text :: "secret_type \<Rightarrow> string" where
  "secret_type_text Opaque = ''Opaque''"
| "secret_type_text Tls = ''kubernetes.io/tls''"
| "secret_type_text DockerConfigJson = ''kubernetes.io/dockerconfigjson''"
| "secret_type_text ServiceAccountToken = ''kubernetes.io/service-account-token''"

record Secret = k8s_obj +
  sec_type :: secret_type
  sec_keys :: "string list"
  sec_createdAt :: string

datatype listener_protocol = HTTP | HTTPS

fun listener_protocol_text :: "listener_protocol \<Rightarrow> string" where
  "listener_protocol_text HTTP = ''HTTP''"
| "listener_protocol_text HTTPS = ''HTTPS''"

record gw_listener =
  ls_name :: string
  ls_port :: int
  ls_protocol :: listener_protocol
  ls_hostname :: "string option"

datatype gateway_status = GwAccepted | GwPending | GwFailed

record Gateway = k8s_obj +
  gw_className :: string
  gw_listeners :: "gw_listener list"
  gw_addresses :: "string list"
  gw_status :: gateway_status
  gw_createdAt :: string

record route_rule =
  rr_pathPrefix :: string
  rr_backendService :: string
  rr_port :: int

record HTTPRoute = k8s_obj +
  hr_parentGateway :: string
  hr_hostnames :: "string list"
  hr_rules :: "route_rule list"
  hr_createdAt :: string

record cluster_resources = loader +
  k8sServices :: "K8sService list"
  configMaps :: "ConfigMap list"
  secrets :: "Secret list"
  gateways :: "Gateway list"
  httpRoutes :: "HTTPRoute list"

subsection \<open>Seeds of the prototype mode\<close>

definition http_port :: "int \<Rightarrow> service_port" where
  "http_port target = \<lparr>sp_name = Some ''http'', sp_port = 80, sp_targetPort = target, sp_protocol = TCP\<rparr>"

definition servicesInit :: "(nat \<Rightarrow> string) \<Rightarrow> string \<Rightarrow> K8sService list" where
  "servicesInit draw today =
    [\<lparr>obj_id = uid (draw 0) ''svc'', obj_name = ''qwen3-5-7b'', obj_namespace = ''team-ml'',
      svc_type = ClusterIP, svc_clusterIP = ''10.96.34.11'', svc_ports = [http_port 8080],
      svc_selector = [(''serving.kserve.io/inferenceservice'', ''qwen3-5-7b'')], svc_createdAt = today\<rparr>,
     \<lparr>obj_id = uid (draw 1) ''svc'', obj_name = ''bge-embed'', obj_namespace = ''team-ml'',
      svc_type = ClusterIP, svc_clusterIP = ''10.96.34.22'', svc_ports = [http_port 8080],
      svc_selector = [(''app'', ''bge-embed'')], svc_createdAt = today\<rparr>,
     \<lparr>obj_id = uid (draw 2) ''svc'', obj_name = ''helpdesk-agent'', obj_namespace = ''team-ml'',
      svc_type = LoadBalancer, svc_clusterIP = ''10.96.34.45'', svc_ports = [http_port 3000],
      svc_selector = [(''app'', ''helpdesk-agent'')], svc_createdAt = today\<rparr>,
     \<lparr>obj_id = uid (draw 3) ''svc'', obj_name = ''sd3-frontend'', obj_namespace = ''team-vision'',
      svc_type = ClusterIP, svc_clusterIP = ''10.96.40.8'', svc_ports = [http_port 8000],
      svc_selector = [(''app'', ''sd3-frontend'')], svc_createdAt = today\<rparr>]"

text \<open>The ellipsis of the seeded texts is U+2026.\<close>

definition ellipsis :: string where
  "ellipsis = [CHR 0xE2, CHR 0x80, CHR 0xA6]"

definition configMapsInit :: "(nat \<Rightarrow> string) \<Rightarrow> string \<Rightarrow> ConfigMap list" where
  "configMapsInit draw today =
    [\<lparr>obj_id = uid (draw 4) ''cm'', obj_name = ''helpdesk-prompts'', obj_namespace = ''team-ml'',
      cm_data =
       [(''system.txt'', ''You are a helpful internal helpdesk assistant'' @ ellipsis),
        (''few_shots.json'', ''[{\"q\":\"how to reset password\",\"a\":\"'' @ ellipsis @ ''\"}]'')],
      cm_createdAt = today\<rparr>,
     \<lparr>obj_id = uid (draw 5) ''cm'', obj_name = ''vllm-extra-config'', obj_namespace = ''team-ml'',
      cm_data = [(''chat-template.jinja'', ''{% for m in messages %}'' @ ellipsis @ ''{% endfor %}'')],
      cm_createdAt = today\<rparr>,
     \<lparr>obj_id = uid (draw 6) ''cm'', obj_name = ''sd3-config'', obj_namespace = ''team-vision'',
      cm_data = [(''config.yaml'', ''guidance_scale: 7.5
steps: 28
'')], cm_createdAt = today\<rparr>]"

definition secretsInit :: "(nat \<Rightarrow> string) \<Rightarrow> string \<Rightarrow> Secret list" where
  "secretsInit draw today =
    [\<lparr>obj_id = uid (draw 7) ''sec'', obj_name = ''hf-pull-token'', obj_namespace = ''team-ml'',
      sec_type = Opaque, sec_keys = [''HF_TOKEN''], sec_createdAt = today\<rparr>,
     \<lparr>obj_id = uid (draw 8) ''sec'', obj_name = ''registry-pull'', obj_namespace = ''team-ml'',
      sec_type = DockerConfigJson, sec_keys = [''.dockerconfigjson''], sec_createdAt = today\<rparr>,
     \<lparr>obj_id = uid (draw 9) ''sec'', obj_name = ''helpdesk-tls'', obj_namespace = ''team-ml'',
      sec_type = Tls, sec_keys = [''tls.crt'', ''tls.key''], sec_createdAt = today\<rparr>,
     \<lparr>obj_id = uid (draw 10) ''sec'', obj_name = ''team-vision-sa-token'', obj_namespace = ''team-vision'',
      sec_type = ServiceAccountToken, sec_keys = [''token'', ''ca.crt''], sec_createdAt = today\<rparr>]"

definition gatewaysInit :: "(nat \<Rightarrow> string) \<Rightarrow> string \<Rightarrow> Gateway list" where
  "gatewaysInit draw today =
    [\<lparr>obj_id = uid (draw 11) ''gw'', obj_name = ''knaic-edge'', obj_namespace = ''knaic-system'',
      gw_className = ''envoy'',
      gw_listeners =
       [\<lparr>ls_name = ''http'', ls_port = 80, ls_protocol = HTTP, ls_hostname = None\<rparr>,
        \<lparr>ls_name = ''https'', ls_port = 443, ls_protocol = HTTPS, ls_hostname = Some ''*.knaic.example.com''\<rparr>],
      gw_addresses = [''203.0.113.45''], gw_status = GwAccepted, gw_createdAt = today\<rparr>,
     \<lparr>obj_id = uid (draw 12) ''gw'', obj_name = ''team-ml-ingress'', obj_namespace = ''team-ml'',
      gw_className = ''envoy'',
      gw_listeners = [\<lparr>ls_name = ''http'', ls_port = 80, ls_protocol = HTTP, ls_hostname = None\<rparr>],
      gw_addresses = [''10.96.200.3''], gw_status = GwAccepted, gw_createdAt = today\<rparr>]"

definition routesInit :: "(nat \<Rightarrow> string) \<Rightarrow> string \<Rightarrow> HTTPRoute list" where
  "routesInit draw today =
    [\<lparr>obj_id = uid (draw 13) ''hr'', obj_name = ''qwen-route'', obj_namespace = ''team-ml'',
      hr_parentGateway = ''team-ml-ingress'', hr_hostnames = [''qwen.team-ml.knaic.example.com''],
      hr_rules = [\<lparr>rr_pathPrefix = ''/v1'', rr_backendService = ''qwen3-5-7b'', rr_port = 80\<rparr>],
      hr_createdAt = today\<rparr>,
     \<lparr>obj_id = uid (draw 14) ''hr'', obj_name = ''helpdesk-route'', obj_namespace = ''team-ml'',
      hr_parentGateway = ''team-ml-ingress'', hr_hostnames = [''helpdesk.team-ml.knaic.example.com''],
      hr_rules = [\<lparr>rr_pathPrefix = ''/'', rr_backendService = ''helpdesk-agent'', rr_port = 80\<rparr>],
      hr_createdAt = today\<rparr>]"

definition cluster_init :: "(nat \<Rightarrow> string) \<Rightarrow> string \<Rightarrow> cluster_resources" where
  "cluster_init draw today =
     \<lparr>loaded = {}, in_flight = [], k8sServices = servicesInit draw today,
      configMaps = configMapsInit draw today, secrets = secretsInit draw today,
      gateways = gatewaysInit draw today, httpRoutes = routesInit draw today\<rparr>"

subsection \<open>Loading\<close>

definition cr_loadInto ::
  "('a k8s_obj_scheme \<Rightarrow> 'a k8s_obj_scheme) \<Rightarrow> string \<Rightarrow> 'a k8s_obj_scheme list \<Rightarrow>
     'a k8s_obj_scheme list \<Rightarrow> 'a k8s_obj_scheme list" where
  "cr_loadInto ensure ns listed prev =
     (let remote = map ensure listed in filter (\<lambda>x. obj_namespace x \<noteq> ns) prev @ remote)"

text \<open>The completion each loader passes: \<open>id || `${prefix}-${namespace}-${name}`\<close>.\<close>

definition ensure_id :: "string \<Rightarrow> 'a k8s_obj_scheme \<Rightarrow> 'a k8s_obj_scheme" where
  "ensure_id prefix x =
     x\<lparr>obj_id := or_str (obj_id x) (prefix @ ''-'' @ obj_namespace x @ ''-'' @ obj_name x)\<rparr>"

definition cr_once :: "bool \<Rightarrow> string \<Rightarrow> http_request list \<Rightarrow> cluster_resources \<Rightarrow> cluster_resources" where
  "cr_once api key fn s = (if \<not> api \<or> key \<in> loaded s then s else start_once key fn s)"

definition ensureServicesLoaded :: "bool \<Rightarrow> string \<Rightarrow> cluster_resources \<Rightarrow> cluster_resources" where
  "ensureServicesLoaded api ns s = cr_once api (load_key ''svc'' ns) [listNamespaced Services ns] s"

definition ensureConfigMapsLoaded :: "bool \<Rightarrow> string \<Rightarrow> cluster_resources \<Rightarrow> cluster_resources" where
  "ensureConfigMapsLoaded api ns s = cr_once api (load_key ''cm'' ns) [listNamespaced Configmaps ns] s"

definition ensureSecretsLoaded :: "bool \<Rightarrow> string \<Rightarrow> cluster_resources \<Rightarrow> cluster_resources" where
  "ensureSecretsLoaded api ns s = cr_once api (load_key ''secret'' ns) [listNamespaced Secrets ns] s"

definition ensureGatewaysLoaded :: "bool \<Rightarrow> string \<Rightarrow> cluster_resources \<Rightarrow> cluster_resources" where
  "ensureGatewaysLoaded api ns s =
     cr_once api (load_key ''gateways'' ns) [listNamespaced Gateways ns, listNamespaced Httproutes ns] s"

definition services_arrived :: "string \<Rightarrow> K8sService list \<Rightarrow> cluster_resources \<Rightarrow> cluster_resources" where
  "services_arrived ns listed s =
     land (load_key ''svc'' ns)
       (s\<lparr>k8sServices := cr_loadInto (ensure_id ''svc'') ns listed (k8sServices s)\<rparr>)"

definition configMaps_arrived :: "string \<Rightarrow> ConfigMap list \<Rightarrow> cluster_resources \<Rightarrow> cluster_resources" where
  "configMaps_arrived ns listed s =
     land (load_key ''cm'' ns)
       (s\<lparr>configMaps := cr_loadInto (ensure_id ''cm'') ns listed (configMaps s)\<rparr>)"

definition secrets_arrived :: "string \<Rightarrow> Secret list \<Rightarrow> cluster_resources \<Rightarrow> cluster_resources" where
  "secrets_arrived ns listed s =
     land (load_key ''secret'' ns)
       (s\<lparr>secrets := cr_loadInto (ensure_id ''sec'') ns listed (secrets s)\<rparr>)"

text \<open>
  The two listings of \<open>ensureGatewaysLoaded\<close> merge on their own, in either order; the awaited
  \<open>Promise.all\<close> lands when both have.
\<close>

definition gateways_listed :: "string \<Rightarrow> Gateway list \<Rightarrow> cluster_resources \<Rightarrow> cluster_resources" where
  "gateways_listed ns listed s = s\<lparr>gateways := cr_loadInto (ensure_id ''gw'') ns listed (gateways s)\<rparr>"

definition routes_listed :: "string \<Rightarrow> HTTPRoute list \<Rightarrow> cluster_resources \<Rightarrow> cluster_resources" where
  "routes_listed ns listed s = s\<lparr>httpRoutes := cr_loadInto (ensure_id ''hr'') ns listed (httpRoutes s)\<rparr>"

definition gateways_landed :: "string \<Rightarrow> cluster_resources \<Rightarrow> cluster_resources" where
  "gateways_landed ns s = land (load_key ''gateways'' ns) s"

definition reloadServices :: "bool \<Rightarrow> string \<Rightarrow> cluster_resources \<Rightarrow> cluster_resources" where
  "reloadServices api ns s = ensureServicesLoaded api ns (forget (load_key ''svc'' ns) s)"

definition reloadConfigMaps :: "bool \<Rightarrow> string \<Rightarrow> cluster_resources \<Rightarrow> cluster_resources" where
  "reloadConfigMaps api ns s = ensureConfigMapsLoaded api ns (forget (load_key ''cm'' ns) s)"

definition reloadSecrets :: "bool \<Rightarrow> string \<Rightarrow> cluster_resources \<Rightarrow> cluster_resources" where
  "reloadSecrets api ns s = ensureSecretsLoaded api ns (forget (load_key ''secret'' ns) s)"

definition reloadGateways :: "bool \<Rightarrow> string \<Rightarrow> cluster_resources \<Rightarrow> cluster_resources" where
  "reloadGateways api ns s = ensureGatewaysLoaded api ns (forget (load_key ''gateways'' ns) s)"

subsection \<open>Deleting and reading\<close>

definition clear_resource :: "slug \<Rightarrow> string \<Rightarrow> string \<Rightarrow> cluster_resources \<Rightarrow> cluster_resources" where
  "clear_resource slug ns name s = (case slug of
      Services \<Rightarrow> s\<lparr>k8sServices := drop_where (names_obj ns name) (k8sServices s)\<rparr>
    | Configmaps \<Rightarrow> s\<lparr>configMaps := drop_where (names_obj ns name) (configMaps s)\<rparr>
    | Secrets \<Rightarrow> s\<lparr>secrets := drop_where (names_obj ns name) (secrets s)\<rparr>
    | Gateways \<Rightarrow> s\<lparr>gateways := drop_where (names_obj ns name) (gateways s)\<rparr>
    | Httproutes \<Rightarrow> s\<lparr>httpRoutes := drop_where (names_obj ns name) (httpRoutes s)\<rparr>
    | _ \<Rightarrow> s)"

definition deleteClusterResource ::
  "bool \<Rightarrow> 'r backend \<Rightarrow> slug \<Rightarrow> string \<Rightarrow> string \<Rightarrow> cluster_resources \<Rightarrow> unit promise \<times> cluster_resources" where
  "deleteClusterResource api send slug ns name s =
     (if api then
        (case send (deleteNamespaced slug ns name) of
           Inl e \<Rightarrow> (Inl e, s) | Inr _ \<Rightarrow> (Inr (), clear_resource slug ns name s))
      else (Inr (), clear_resource slug ns name s))"

definition fetchClusterResourceYaml ::
  "bool \<Rightarrow> string backend \<Rightarrow> slug \<Rightarrow> string \<Rightarrow> string \<Rightarrow> string \<Rightarrow> string promise" where
  "fetchClusterResourceYaml api send slug ns name fallback =
     (if \<not> api then Inr fallback else send (fetchYaml (Inl slug) (Some ns) name))"

subsection \<open>Reading a manifest's name\<close>

text \<open>\<open>raw.replace(/#.*$/, '')\<close>: a dot matches no line terminator.\<close>

definition has_terminator :: "string \<Rightarrow> bool" where
  "has_terminator s \<longleftrightarrow> CHR 0x0A \<in> set s \<or> CHR 0x0D \<in> set s
     \<or> str_includes s [CHR 0xE2, CHR 0x80, CHR 0xA8] \<or> str_includes s [CHR 0xE2, CHR 0x80, CHR 0xA9]"

fun strip_comment :: "string \<Rightarrow> string" where
  "strip_comment [] = []"
| "strip_comment (c # s) =
     (if c = CHR ''#'' \<and> \<not> has_terminator s then [] else c # strip_comment s)"

text \<open>\<open>/^key\s*:/\<close>, with what follows the colon.\<close>

definition after_key :: "string \<Rightarrow> string \<Rightarrow> string option" where
  "after_key key line =
     (if startsWith line key then
        (case skip_ws (drop (length key) line) of
           [] \<Rightarrow> None | c # rest \<Rightarrow> if c = CHR '':'' then Some rest else None)
      else None)"

fun name_run :: "string \<Rightarrow> string" where
  "name_run [] = []"
| "name_run (c # s) =
     (if c = CHR 0x27 \<or> c = CHR 0x22 \<or> ws_width (c # s) \<noteq> 0 then [] else c # name_run s)"

text \<open>\<open>/^\s+name\s*:\s*['"]?([^'"\s]+)/\<close>.\<close>

definition name_match :: "string \<Rightarrow> string option" where
  "name_match line =
     (if ws_width line = 0 then None
      else (case after_key ''name'' (skip_ws line) of
          None \<Rightarrow> None
        | Some t \<Rightarrow>
            (let u = skip_ws t;
                 v = (case u of [] \<Rightarrow> [] | c # u' \<Rightarrow> if c = CHR 0x27 \<or> c = CHR 0x22 then u' else u)
             in if name_run v = [] then None else Some (name_run v))))"

fun scan_name :: "bool \<Rightarrow> string list \<Rightarrow> string option" where
  "scan_name inMeta [] = None"
| "scan_name inMeta (raw # lines) =
     (let line = strip_comment raw
      in if after_key ''metadata'' line \<noteq> None then scan_name True lines
         else
           (let inMeta' = (inMeta \<and> \<not> (line \<noteq> [] \<and> ws_width line = 0 \<and> \<not> startsWith line ''metadata''))
            in case (if inMeta' then name_match line else None) of
                 Some m \<Rightarrow> Some m
               | None \<Rightarrow> scan_name inMeta' lines))"

definition extractName :: "string \<Rightarrow> string option" where
  "extractName yaml = scan_name False (split_on (CHR 0x0A) yaml)"

lemma strip_comment_clean: "CHR ''#'' \<notin> set s \<Longrightarrow> strip_comment s = s"
  by (induction s) auto

lemma name_run_dns: "\<forall>c \<in> set s. dns_char c \<Longrightarrow> name_run s = s"
proof (induction s)
  case (Cons c s)
  then show ?case using dns_char_not [of c] dns_visible [of c] by simp
qed simp

lemma after_key_other [simp]: "c \<noteq> d \<Longrightarrow> after_key (d # key) (c # s) = None"
  by (simp add: after_key_def)

lemma name_match_dns: "dns_name name \<Longrightarrow> name_match (''  name: '' @ name) = Some name"
proof -
  assume "dns_name name"
  then obtain c t where name: "name = c # t" and c: "dns_char c" and run: "name_run name = name"
    using name_run_dns [of name] by (cases name) (auto simp: dns_name_def)
  then show ?thesis
    using dns_char_not [of c] dns_visible [of c] by (simp add: name_match_def after_key_def Let_def)
qed

lemma strip_comment_cons: "c \<noteq> CHR ''#'' \<Longrightarrow> strip_comment (c # s) = c # strip_comment s"
  by simp

text \<open>
  A manifest that starts with its apiVersion, kind and metadata, the name first: \<open>extractName\<close>
  finds that name whatever follows.
\<close>

lemma extract_header:
  assumes "dns_name name" "CHR 0x0A \<notin> set a" "CHR 0x0A \<notin> set k"
  shows "extractName ((''apiVersion: '' @ a) @ CHR 0x0A # (''kind: '' @ k) @ CHR 0x0A # ''metadata:'' @ CHR 0x0A #
    (''  name: '' @ name) @ CHR 0x0A # rest) = Some name"
proof -
  have nl: "CHR 0x0A \<notin> set name" and h: "CHR ''#'' \<notin> set name"
    using assms(1) dns_char_not(1, 2) by (auto simp: dns_name_def)
  have lines: "split_on (CHR 0x0A) ((''apiVersion: '' @ a) @ CHR 0x0A # (''kind: '' @ k) @ CHR 0x0A # ''metadata:'' @
      CHR 0x0A # (''  name: '' @ name) @ CHR 0x0A # rest) =
    (''apiVersion: '' @ a) # (''kind: '' @ k) # ''metadata:'' # (''  name: '' @ name) # split_on (CHR 0x0A) rest"
    using assms nl by (subst split_on_append; simp)+
  have "strip_comment (''  name: '' @ name) = ''  name: '' @ name"
    using h by (intro strip_comment_clean) simp
  then show ?thesis
    unfolding extractName_def lines
    using name_match_dns [OF assms(1)] by (simp add: after_key_def Let_def)
qed

subsection \<open>Creating\<close>

text \<open>
  \<open>stamp\<close> is \<open>Date.now().toString(36)\<close>, \<open>draw\<close> the random part of the new row's id.
\<close>

definition createClusterResource ::
  "bool \<Rightarrow> 'r backend \<Rightarrow> string \<Rightarrow> string \<Rightarrow> string \<Rightarrow> slug \<Rightarrow> string \<Rightarrow> string \<Rightarrow>
     cluster_resources \<Rightarrow> unit promise \<times> cluster_resources" where
  "createClusterResource api send draw stamp created slug ns yaml s =
     (if api then
        (case send (createNamespacedYaml slug ns yaml) of
           Inl e \<Rightarrow> (Inl e, s)
         | Inr _ \<Rightarrow> (Inr (), (case slug of
               Services \<Rightarrow> reloadServices api ns s
             | Configmaps \<Rightarrow> reloadConfigMaps api ns s
             | Secrets \<Rightarrow> reloadSecrets api ns s
             | Gateways \<Rightarrow> reloadGateways api ns s
             | Httproutes \<Rightarrow> reloadGateways api ns s
             | _ \<Rightarrow> s)))
      else
        (let name = nullish (extractName yaml) (''new-'' @ stamp)
         in (Inr (), (case slug of
               Services \<Rightarrow> s\<lparr>k8sServices :=
                 \<lparr>obj_id = uid draw ''svc'', obj_name = name, obj_namespace = ns, svc_type = ClusterIP,
                  svc_clusterIP = ''10.96.0.0'', svc_ports = [], svc_selector = [],
                  svc_createdAt = created\<rparr> # k8sServices s\<rparr>
             | Configmaps \<Rightarrow> s\<lparr>configMaps :=
                 \<lparr>obj_id = uid draw ''cm'', obj_name = name, obj_namespace = ns, cm_data = [],
                  cm_createdAt = created\<rparr> # configMaps s\<rparr>
             | Secrets \<Rightarrow> s\<lparr>secrets :=
                 \<lparr>obj_id = uid draw ''sec'', obj_name = name, obj_namespace = ns, sec_type = Opaque,
                  sec_keys = [], sec_createdAt = created\<rparr> # secrets s\<rparr>
             | Gateways \<Rightarrow> s\<lparr>gateways :=
                 \<lparr>obj_id = uid draw ''gw'', obj_name = name, obj_namespace = ns, gw_className = ''envoy'',
                  gw_listeners = [], gw_addresses = [], gw_status = GwPending,
                  gw_createdAt = created\<rparr> # gateways s\<rparr>
             | Httproutes \<Rightarrow> s\<lparr>httpRoutes :=
                 \<lparr>obj_id = uid draw ''hr'', obj_name = name, obj_namespace = ns, hr_parentGateway = '''',
                  hr_hostnames = [], hr_rules = [], hr_createdAt = created\<rparr> # httpRoutes s\<rparr>
             | _ \<Rightarrow> s))))"

subsection \<open>Templates\<close>

definition configMapTemplate :: "string \<Rightarrow> string" where
  "configMapTemplate ns = ''apiVersion: v1
kind: ConfigMap
metadata:
  name: example-config
  namespace: '' @ ns @ ''
data:
  app.properties: |
    key=value
''"

definition secretTemplate :: "string \<Rightarrow> string" where
  "secretTemplate ns = ''apiVersion: v1
kind: Secret
metadata:
  name: example-secret
  namespace: '' @ ns @ ''
type: Opaque
stringData:
  username: admin
  password: changeme
''"

definition serviceTemplate :: "string \<Rightarrow> string" where
  "serviceTemplate ns = ''apiVersion: v1
kind: Service
metadata:
  name: example-service
  namespace: '' @ ns @ ''
spec:
  type: ClusterIP
  selector:
    app: example
  ports:
    - name: http
      port: 80
      targetPort: 8080
      protocol: TCP
''"

definition gatewayTemplate :: "string \<Rightarrow> string" where
  "gatewayTemplate ns = ''apiVersion: gateway.networking.k8s.io/v1
kind: Gateway
metadata:
  name: example-gateway
  namespace: '' @ ns @ ''
spec:
  gatewayClassName: envoy
  listeners:
    - name: http
      port: 80
      protocol: HTTP
''"

definition httpRouteTemplate :: "string \<Rightarrow> string" where
  "httpRouteTemplate ns = ''apiVersion: gateway.networking.k8s.io/v1
kind: HTTPRoute
metadata:
  name: example-route
  namespace: '' @ ns @ ''
spec:
  parentRefs:
    - name: example-gateway
  hostnames:
    - example.'' @ ns @ ''.knaic.example.com
  rules:
    - matches:
        - path:
            type: PathPrefix
            value: /
      backendRefs:
        - name: example-service
          port: 80
''"

subsection \<open>Manifests shown for an object\<close>

definition buildServiceYaml :: "K8sService \<Rightarrow> string" where
  "buildServiceYaml s = ''apiVersion: v1
kind: Service
metadata:
  name: '' @ obj_name s @ ''
  namespace: '' @ obj_namespace s @ ''
spec:
  type: '' @ service_type_text (svc_type s) @ ''
  clusterIP: '' @ svc_clusterIP s @ ''
  selector:
'' @ join nl (map (\<lambda>(k, v). ''    '' @ k @ '': '' @ v) (svc_selector s)) @ ''
  ports:
'' @ join nl (map (\<lambda>p. ''    - name: '' @ nullish (sp_name p) ''port'' @ ''
      port: '' @ show_int (sp_port p) @ ''
      targetPort: '' @ show_int (sp_targetPort p) @ ''
      protocol: '' @ protocol_text (sp_protocol p)) (svc_ports s)) @ ''
''"

definition buildConfigMapYaml :: "ConfigMap \<Rightarrow> string" where
  "buildConfigMapYaml c = ''apiVersion: v1
kind: ConfigMap
metadata:
  name: '' @ obj_name c @ ''
  namespace: '' @ obj_namespace c @ ''
data:
'' @ join nl (map (\<lambda>(k, v). ''  '' @ k @ '': |
'' @ join nl (map (\<lambda>l. ''    '' @ l) (split_on (CHR 0x0A) v))) (cm_data c)) @ ''
''"

definition buildSecretYaml :: "Secret \<Rightarrow> string" where
  "buildSecretYaml s = ''apiVersion: v1
kind: Secret
metadata:
  name: '' @ obj_name s @ ''
  namespace: '' @ obj_namespace s @ ''
type: '' @ secret_type_text (sec_type s) @ ''
data:
'' @ join nl (map (\<lambda>k. ''  '' @ k @ '': <redacted>'') (sec_keys s)) @ ''
''"

definition buildGatewayYaml :: "Gateway \<Rightarrow> string" where
  "buildGatewayYaml g = ''apiVersion: gateway.networking.k8s.io/v1
kind: Gateway
metadata:
  name: '' @ obj_name g @ ''
  namespace: '' @ obj_namespace g @ ''
spec:
  gatewayClassName: '' @ gw_className g @ ''
  listeners:
'' @ join nl (map (\<lambda>l. ''    - name: '' @ ls_name l @ ''
      port: '' @ show_int (ls_port l) @ ''
      protocol: '' @ listener_protocol_text (ls_protocol l) @
        (if truthy_str (ls_hostname l) then ''
      hostname: '' @ nullish (ls_hostname l) '''' else '''')) (gw_listeners g)) @ ''
''"

definition buildHTTPRouteYaml :: "HTTPRoute \<Rightarrow> string" where
  "buildHTTPRouteYaml r = ''apiVersion: gateway.networking.k8s.io/v1
kind: HTTPRoute
metadata:
  name: '' @ obj_name r @ ''
  namespace: '' @ obj_namespace r @ ''
spec:
  parentRefs:
    - name: '' @ hr_parentGateway r @ ''
  hostnames:
'' @ join nl (map (\<lambda>h. ''    - '' @ h) (hr_hostnames r)) @ ''
  rules:
'' @ join nl (map (\<lambda>rule. ''    - matches:
        - path:
            type: PathPrefix
            value: '' @ rr_pathPrefix rule @ ''
      backendRefs:
        - name: '' @ rr_backendService rule @ ''
          port: '' @ show_int (rr_port rule)) (hr_rules r)) @ ''
''"

text \<open>The builders of the container pages take the fields of a workload row.\<close>

definition label_lines :: "string \<Rightarrow> string js_map \<Rightarrow> string" where
  "label_lines indent labels = join nl (map (\<lambda>(k, v). indent @ k @ '': '' @ v) labels)"

definition buildDeploymentYaml :: "string \<Rightarrow> string \<Rightarrow> string \<Rightarrow> int \<Rightarrow> string js_map \<Rightarrow> string" where
  "buildDeploymentYaml name ns img replicas labels = ''apiVersion: apps/v1
kind: Deployment
metadata:
  name: '' @ name @ ''
  namespace: '' @ ns @ ''
  labels:
'' @ label_lines ''    '' labels @ ''
spec:
  replicas: '' @ show_int replicas @ ''
  selector:
    matchLabels:
'' @ label_lines ''      '' labels @ ''
  template:
    metadata:
      labels:
'' @ label_lines ''        '' labels @ ''
    spec:
      containers:
        - name: main
          image: '' @ img @ ''
''"

definition buildStatefulSetYaml :: "string \<Rightarrow> string \<Rightarrow> string \<Rightarrow> int \<Rightarrow> string \<Rightarrow> string" where
  "buildStatefulSetYaml name ns img replicas serviceName = ''apiVersion: apps/v1
kind: StatefulSet
metadata:
  name: '' @ name @ ''
  namespace: '' @ ns @ ''
spec:
  replicas: '' @ show_int replicas @ ''
  serviceName: '' @ serviceName @ ''
  selector:
    matchLabels:
      app: '' @ name @ ''
  template:
    metadata:
      labels:
        app: '' @ name @ ''
    spec:
      containers:
        - name: main
          image: '' @ img @ ''
''"

definition buildPodYaml :: "string \<Rightarrow> string \<Rightarrow> string \<Rightarrow> string list \<Rightarrow> string" where
  "buildPodYaml name ns node containers = ''apiVersion: v1
kind: Pod
metadata:
  name: '' @ name @ ''
  namespace: '' @ ns @ ''
spec:
  nodeName: '' @ node @ ''
  containers:
'' @ join nl (map (\<lambda>c. ''    - name: '' @ c @ ''
      image: <resolved at runtime>'') containers) @ ''
''"

definition buildPVCYaml :: "string \<Rightarrow> string \<Rightarrow> string \<Rightarrow> string \<Rightarrow> string \<Rightarrow> string" where
  "buildPVCYaml name ns storageClass capacity accessMode = ''apiVersion: v1
kind: PersistentVolumeClaim
metadata:
  name: '' @ name @ ''
  namespace: '' @ ns @ ''
spec:
  accessModes:
    - '' @ (if accessMode = ''RWO'' then ''ReadWriteOnce''
            else if accessMode = ''RWX'' then ''ReadWriteMany'' else accessMode) @ ''
  storageClassName: '' @ storageClass @ ''
  resources:
    requests:
      storage: '' @ capacity @ ''
''"

subsection \<open>What the manifests and stores guarantee\<close>

lemma extract_v1:
  "dns_name name \<Longrightarrow> CHR 0x0A \<notin> set k \<Longrightarrow> extractName (''apiVersion: v1
kind: '' @ k @ ''
metadata:
  name: '' @ name @ ''
'' @ rest) = Some name"
  using extract_header [of name "''v1''" k rest] by simp

lemma extract_apps:
  "dns_name name \<Longrightarrow> CHR 0x0A \<notin> set k \<Longrightarrow> extractName (''apiVersion: apps/v1
kind: '' @ k @ ''
metadata:
  name: '' @ name @ ''
'' @ rest) = Some name"
  using extract_header [of name "''apps/v1''" k rest] by simp

lemma extract_gateway:
  "dns_name name \<Longrightarrow> CHR 0x0A \<notin> set k \<Longrightarrow> extractName (''apiVersion: gateway.networking.k8s.io/v1
kind: '' @ k @ ''
metadata:
  name: '' @ name @ ''
'' @ rest) = Some name"
  using extract_header [of name "''gateway.networking.k8s.io/v1''" k rest] by simp

text \<open>The objects a state holds of a kind, by namespace and name.\<close>

definition cr_objects :: "cluster_resources \<Rightarrow> slug \<Rightarrow> (string \<times> string) list" where
  "cr_objects s slug = (case slug of
      Services \<Rightarrow> map (\<lambda>x. (obj_namespace x, obj_name x)) (k8sServices s)
    | Configmaps \<Rightarrow> map (\<lambda>x. (obj_namespace x, obj_name x)) (configMaps s)
    | Secrets \<Rightarrow> map (\<lambda>x. (obj_namespace x, obj_name x)) (secrets s)
    | Gateways \<Rightarrow> map (\<lambda>x. (obj_namespace x, obj_name x)) (gateways s)
    | Httproutes \<Rightarrow> map (\<lambda>x. (obj_namespace x, obj_name x)) (httpRoutes s)
    | _ \<Rightarrow> [])"

definition cr_kind :: "slug \<Rightarrow> bool" where
  "cr_kind slug \<longleftrightarrow> slug \<in> {Services, Configmaps, Secrets, Gateways, Httproutes}"

text \<open>The key under which a kind is loaded.\<close>

fun cr_key :: "slug \<Rightarrow> string \<Rightarrow> string" where
  "cr_key Services ns = load_key ''svc'' ns"
| "cr_key Configmaps ns = load_key ''cm'' ns"
| "cr_key Secrets ns = load_key ''secret'' ns"
| "cr_key slug ns = load_key ''gateways'' ns"

lemma cr_load_put: "cr_loadInto f ns listed prev = put_slot obj_namespace ns (map f listed) prev"
  by (simp add: cr_loadInto_def put_slot_def Let_def)

lemma cr_start: "cr_once True key fn (forget key s) = start_once key fn (forget key s)"
  by (simp add: cr_once_def forget_def)

lemma start_forgotten:
  "fetches key (start_once key fn (forget key s)) = Suc (fetches key s) \<and>
   key \<in> loaded (start_once key fn (forget key s))"
  using start_once_free [of key "forget key s" fn] by (simp add: forget_def)

lemmas reload_defs = reloadServices_def reloadConfigMaps_def reloadSecrets_def reloadGateways_def
  ensureServicesLoaded_def ensureConfigMapsLoaded_def ensureSecretsLoaded_def ensureGatewaysLoaded_def

lemma start_objects [simp]: "cr_objects (start_once key fn (forget k s)) slug = cr_objects s slug"
  by (cases slug) (simp_all add: cr_objects_def start_once_def forget_def)

subsection \<open>Properties\<close>

lemmas header_service = extract_v1 [where k = "''Service''", simplified]
lemmas header_configmap = extract_v1 [where k = "''ConfigMap''", simplified]
lemmas header_secret = extract_v1 [where k = "''Secret''", simplified]
lemmas header_pod = extract_v1 [where k = "''Pod''", simplified]
lemmas header_pvc = extract_v1 [where k = "''PersistentVolumeClaim''", simplified]
lemmas header_deployment = extract_apps [where k = "''Deployment''", simplified]
lemmas header_statefulset = extract_apps [where k = "''StatefulSet''", simplified]
lemmas header_gateway = extract_gateway [where k = "''Gateway''", simplified]
lemmas header_route = extract_gateway [where k = "''HTTPRoute''", simplified]

lemma built_names:
  assumes "dns_name n"
  shows "extractName (buildServiceYaml (s\<lparr>obj_name := n\<rparr>)) = Some n"
    "extractName (buildConfigMapYaml (c\<lparr>obj_name := n\<rparr>)) = Some n"
    "extractName (buildSecretYaml (x\<lparr>obj_name := n\<rparr>)) = Some n"
    "extractName (buildGatewayYaml (g\<lparr>obj_name := n\<rparr>)) = Some n"
    "extractName (buildHTTPRouteYaml (r\<lparr>obj_name := n\<rparr>)) = Some n"
    "extractName (buildDeploymentYaml n ns img k labels) = Some n"
    "extractName (buildStatefulSetYaml n ns img k svc) = Some n"
    "extractName (buildPodYaml n ns node cs) = Some n"
    "extractName (buildPVCYaml n ns cls cap mode) = Some n"
  by (use assms in \<open>simp add: buildServiceYaml_def header_service\<close>)
    (use assms in \<open>simp_all add: buildConfigMapYaml_def header_configmap buildSecretYaml_def header_secret
      buildGatewayYaml_def header_gateway buildHTTPRouteYaml_def header_route
      buildDeploymentYaml_def header_deployment buildStatefulSetYaml_def header_statefulset
      buildPodYaml_def header_pod buildPVCYaml_def header_pvc\<close>)

lemma template_names:
  "extractName (configMapTemplate ns) = Some ''example-config''"
  "extractName (secretTemplate ns) = Some ''example-secret''"
  "extractName (serviceTemplate ns) = Some ''example-service''"
  "extractName (gatewayTemplate ns) = Some ''example-gateway''"
  "extractName (httpRouteTemplate ns) = Some ''example-route''"
proof -
  have dns: "dns_name ''example-config''" "dns_name ''example-secret''" "dns_name ''example-service''"
    "dns_name ''example-gateway''" "dns_name ''example-route''"
    by (simp_all add: dns_name_def dns_char_def)
  show "extractName (configMapTemplate ns) = Some ''example-config''"
    using header_configmap [OF dns(1)] by (simp add: configMapTemplate_def)
  show "extractName (secretTemplate ns) = Some ''example-secret''"
    using header_secret [OF dns(2)] by (simp add: secretTemplate_def)
  show "extractName (serviceTemplate ns) = Some ''example-service''"
    using header_service [OF dns(3)] by (simp add: serviceTemplate_def)
  show "extractName (gatewayTemplate ns) = Some ''example-gateway''"
    using header_gateway [OF dns(4)] by (simp add: gatewayTemplate_def)
  show "extractName (httpRouteTemplate ns) = Some ''example-route''"
    using header_route [OF dns(5)] by (simp add: httpRouteTemplate_def)
qed

text \<open>
  C18. Every manifest the module writes names its object where \<open>extractName\<close> looks for it: for each
  of the nine builders, whatever the other fields hold, the name read back from the text is the
  object's, for every name Kubernetes admits; and each editor template yields its example name.
\<close>

theorem manifests_name_their_object:
  assumes "dns_name n"
  shows "extractName (buildServiceYaml (s\<lparr>obj_name := n\<rparr>)) = Some n \<and>
    extractName (buildConfigMapYaml (c\<lparr>obj_name := n\<rparr>)) = Some n \<and>
    extractName (buildSecretYaml (x\<lparr>obj_name := n\<rparr>)) = Some n \<and>
    extractName (buildGatewayYaml (g\<lparr>obj_name := n\<rparr>)) = Some n \<and>
    extractName (buildHTTPRouteYaml (r\<lparr>obj_name := n\<rparr>)) = Some n \<and>
    extractName (buildDeploymentYaml n ns img k labels) = Some n \<and>
    extractName (buildStatefulSetYaml n ns img k svc) = Some n \<and>
    extractName (buildPodYaml n ns node cs) = Some n \<and>
    extractName (buildPVCYaml n ns cls cap mode) = Some n \<and>
    extractName (configMapTemplate ns) = Some ''example-config'' \<and>
    extractName (secretTemplate ns) = Some ''example-secret'' \<and>
    extractName (serviceTemplate ns) = Some ''example-service'' \<and>
    extractName (gatewayTemplate ns) = Some ''example-gateway'' \<and>
    extractName (httpRouteTemplate ns) = Some ''example-route''"
  by (intro conjI template_names built_names [OF assms])

theorem manifests_name_their_object_witness:
  "extractName (buildPodYaml ''vllm-0.a'' ''name: x'' ''node-1'' [''main'']) = Some ''vllm-0.a''"
proof -
  have "dns_name ''vllm-0.a''" by (simp add: dns_name_def dns_char_def)
  from manifests_name_their_object [OF this] show ?thesis by blast
qed

text \<open>
  Creating from YAML: in API mode a rejected call changes nothing, and an accepted one keeps
  every row and has one more listing of that kind's namespace in flight; in prototype mode exactly
  one row is added, at the top of the store of that kind, named as the manifest says (or by the time
  stamp when it names nothing), and no other store changes.
\<close>

theorem create_resource_effect:
  assumes "cr_kind slug"
  shows "case createClusterResource api send draw stamp created slug ns yaml s of
     (Inl e, s') \<Rightarrow> api \<and> send (createNamespacedYaml slug ns yaml) = Inl e \<and> s' = s
   | (Inr _, s') \<Rightarrow>
       if api then cr_objects s' = cr_objects s \<and> cr_key slug ns \<in> loaded s' \<and>
         fetches (cr_key slug ns) s' = Suc (fetches (cr_key slug ns) s)
       else loaded s' = loaded s \<and> in_flight s' = in_flight s \<and> cr_objects s' = (cr_objects s)
         (slug := (ns, nullish (extractName yaml) (''new-'' @ stamp)) # cr_objects s slug)"
proof (cases api)
  case True
  have "cr_objects s' = cr_objects s \<and> cr_key slug ns \<in> loaded s' \<and>
      fetches (cr_key slug ns) s' = Suc (fetches (cr_key slug ns) s)"
    if "createClusterResource True send draw stamp created slug ns yaml s = (Inr u, s')" for u s'
    using that assms
    by (auto simp: createClusterResource_def reload_defs cr_start start_forgotten cr_kind_def fun_eq_iff
        split: sum.splits)
  moreover have "send (createNamespacedYaml slug ns yaml) = Inl e \<and> s' = s"
    if "createClusterResource True send draw stamp created slug ns yaml s = (Inl e, s')" for e s'
    using that by (auto simp: createClusterResource_def split: sum.splits)
  ultimately show ?thesis
    using True by (auto split: prod.splits sum.splits)
next
  case False
  define s' where "s' = snd (createClusterResource False send draw stamp created slug ns yaml s)"
  have run: "createClusterResource False send draw stamp created slug ns yaml s = (Inr (), s')"
    by (simp add: s'_def createClusterResource_def Let_def)
  have "cr_objects s' k = ((cr_objects s)
      (slug := (ns, nullish (extractName yaml) (''new-'' @ stamp)) # cr_objects s slug)) k" for k
    using assms by (auto simp: s'_def createClusterResource_def cr_objects_def cr_kind_def Let_def split: slug.splits)
  moreover have "loaded s' = loaded s \<and> in_flight s' = in_flight s"
    using assms by (auto simp: s'_def createClusterResource_def cr_kind_def Let_def)
  ultimately show ?thesis
    using False run by (simp add: fun_eq_iff)
qed

theorem create_resource_effect_witness:
  "cr_objects (snd (createClusterResource False (\<lambda>_. Inr () :: unit promise) ''abc'' ''m1x'' ''2025-01-01''
     Configmaps ''team-llm'' (configMapTemplate ''team-llm'') (cluster_init (\<lambda>_. ''seed'') ''2025-01-01''))) Configmaps
   = (''team-llm'', ''example-config'') # cr_objects (cluster_init (\<lambda>_. ''seed'') ''2025-01-01'') Configmaps"
proof -
  have "cr_kind Configmaps" by (simp add: cr_kind_def)
  from create_resource_effect [OF this, where api = False and send = "\<lambda>_. Inr () :: unit promise"
      and draw = "''abc''" and stamp = "''m1x''" and created = "''2025-01-01''" and ns = "''team-llm''"
      and yaml = "configMapTemplate ''team-llm''" and s = "cluster_init (\<lambda>_. ''seed'') ''2025-01-01''"]
  show ?thesis
    by (simp add: case_prod_unfold template_names split: sum.splits)
qed

text \<open>
  Gateways and routes are loaded by two listings that may answer in either order: the outcome
  is the same state, in which the namespace shows exactly the two listings (completed with ids), the
  other namespaces what they showed before, and the services, config maps and secrets are untouched.
\<close>

theorem gateways_parallel_load:
  assumes "own_rows obj_namespace ns gs" "own_rows obj_namespace ns rs"
  shows "gateways_listed ns gs (routes_listed ns rs s) = routes_listed ns rs (gateways_listed ns gs s) \<and>
    view obj_namespace (gateways (gateways_listed ns gs (routes_listed ns rs s))) =
      (view obj_namespace (gateways s))(ns := map (ensure_id ''gw'') gs) \<and>
    view obj_namespace (httpRoutes (gateways_listed ns gs (routes_listed ns rs s))) =
      (view obj_namespace (httpRoutes s))(ns := map (ensure_id ''hr'') rs) \<and>
    cr_objects (gateways_listed ns gs (routes_listed ns rs s)) Secrets = cr_objects s Secrets"
proof -
  have own: "own_rows obj_namespace ns (map (ensure_id ''gw'') gs)" "own_rows obj_namespace ns (map (ensure_id ''hr'') rs)"
    using assms by (auto simp: own_rows_def ensure_id_def)
  show ?thesis
    using ns_cache.merge_refines [OF own(1), of "gateways s"] ns_cache.merge_refines [OF own(2), of "httpRoutes s"]
    by (simp add: gateways_listed_def routes_listed_def cr_load_put cr_objects_def)
qed

definition sample_gateway :: Gateway where
  "sample_gateway = \<lparr>obj_id = '''', obj_name = ''edge'', obj_namespace = ''team-ml'', gw_className = ''envoy'',
     gw_listeners = [], gw_addresses = [], gw_status = GwPending, gw_createdAt = ''''\<rparr>"

theorem gateways_parallel_load_witness:
  "view obj_namespace (gateways (gateways_listed ''team-ml'' [sample_gateway]
      (routes_listed ''team-ml'' [] (cluster_init (\<lambda>_. ''seed'') ''2025-01-01'')))) ''team-ml''
   = [sample_gateway\<lparr>obj_id := ''gw-team-ml-edge''\<rparr>]"
proof -
  have "own_rows obj_namespace ''team-ml'' [sample_gateway]" "own_rows obj_namespace ''team-ml'' ([] :: HTTPRoute list)"
    by (simp_all add: own_rows_def sample_gateway_def)
  from gateways_parallel_load [OF this]
  have "view obj_namespace (gateways (gateways_listed ''team-ml'' [sample_gateway]
      (routes_listed ''team-ml'' [] (cluster_init (\<lambda>_. ''seed'') ''2025-01-01'')))) =
    (view obj_namespace (gateways (cluster_init (\<lambda>_. ''seed'') ''2025-01-01'')))
      (''team-ml'' := map (ensure_id ''gw'') [sample_gateway])"
    by blast
  then show ?thesis by (simp only: fun_upd_same) (simp add: sample_gateway_def ensure_id_def)
qed

end
