(* ===== verification/Api_Inference.thy ===== *)
theory Api_Inference
  imports Api_Client
begin

text \<open>
  \<open>frontend/src/api/inference.ts\<close>: the requests of the inference pages, the two data types they
  send, and the listings, which swallow a failed call. The log stream's path is here; the stream
  itself is the one of \<open>k8sres.ts\<close>.
\<close>

subsection \<open>Requests\<close>

record capabilities =
  cap_add :: "string list option"
  cap_drop :: "string list option"

record RuntimeSecurityContext =
  sc_allowPrivilegeEscalation :: "bool option"
  sc_capabilities :: "capabilities option"
  sc_privileged :: "bool option"
  sc_runAsNonRoot :: "bool option"
  sc_runAsUser :: "int option"
  sc_seccompProfile :: "string option option"

text \<open>\<open>seccompProfile?: { type?: string }\<close>: \<open>Some None\<close> is a profile without a type.\<close>

datatype service_kind = InferenceServiceKind | LLMInferenceServiceKind

fun kind_text :: "service_kind \<Rightarrow> string" where
  "kind_text InferenceServiceKind = ''InferenceService''"
| "kind_text LLMInferenceServiceKind = ''LLMInferenceService''"

record CreateServiceRequest =
  sr_name :: string
  sr_kind :: service_kind
  sr_runtime :: "string option"
  sr_modelUri :: string
  sr_replicas :: int
  sr_baseConfigs :: "string list option"
  sr_modelName :: "string option"
  sr_containerImage :: "string option"
  sr_deploymentMode :: "string option"
  sr_cpuRequest :: string
  sr_cpuLimit :: "string option"
  sr_memoryRequest :: string
  sr_memoryLimit :: "string option"
  sr_gpuValues :: "int js_map option"
  sr_env :: "(string \<times> string) list option"
  sr_command :: "string list option"
  sr_args :: "string list option"

record CreateRuntimeRequest =
  cr_name :: string
  cr_image :: string
  cr_runtime :: "string option"
  cr_supportedModelFormats :: "string list option"
  cr_args :: "string list option"
  cr_securityContext :: "RuntimeSecurityContext option"
  cr_cpuRequest :: "string option"
  cr_cpuLimit :: "string option"
  cr_memoryRequest :: "string option"
  cr_memoryLimit :: "string option"
  cr_gpuValues :: "int js_map option"
  cr_gpuLimit :: "int option"

text \<open>
  A request object as \<open>JSON.stringify\<close> takes it. The members come in the order the interface
  declares them; which order a page fills them in does not matter to the backend.
\<close>

definition jstrs :: "string list \<Rightarrow> json" where
  "jstrs xs = JArr (map JStr xs)"

definition jcounts :: "int js_map \<Rightarrow> json" where
  "jcounts m = JObj (map (\<lambda>(k, v). (k, jint v)) m)"

definition service_request_json :: "CreateServiceRequest \<Rightarrow> json" where
  "service_request_json r = jobj
    [(''name'', Some (JStr (sr_name r))),
     (''kind'', Some (JStr (kind_text (sr_kind r)))),
     (''runtime'', map_option JStr (sr_runtime r)),
     (''modelUri'', Some (JStr (sr_modelUri r))),
     (''replicas'', Some (jint (sr_replicas r))),
     (''baseConfigs'', map_option jstrs (sr_baseConfigs r)),
     (''modelName'', map_option JStr (sr_modelName r)),
     (''containerImage'', map_option JStr (sr_containerImage r)),
     (''deploymentMode'', map_option JStr (sr_deploymentMode r)),
     (''cpuRequest'', Some (JStr (sr_cpuRequest r))),
     (''cpuLimit'', map_option JStr (sr_cpuLimit r)),
     (''memoryRequest'', Some (JStr (sr_memoryRequest r))),
     (''memoryLimit'', map_option JStr (sr_memoryLimit r)),
     (''gpuValues'', map_option jcounts (sr_gpuValues r)),
     (''env'', map_option
        (\<lambda>es. JArr (map (\<lambda>(n, v). JObj [(''name'', JStr n), (''value'', JStr v)]) es)) (sr_env r)),
     (''command'', map_option jstrs (sr_command r)),
     (''args'', map_option jstrs (sr_args r))]"

definition security_context_json :: "RuntimeSecurityContext \<Rightarrow> json" where
  "security_context_json c = jobj
    [(''allowPrivilegeEscalation'', map_option JBool (sc_allowPrivilegeEscalation c)),
     (''capabilities'', map_option
        (\<lambda>k. jobj [(''add'', map_option jstrs (cap_add k)), (''drop'', map_option jstrs (cap_drop k))])
        (sc_capabilities c)),
     (''privileged'', map_option JBool (sc_privileged c)),
     (''runAsNonRoot'', map_option JBool (sc_runAsNonRoot c)),
     (''runAsUser'', map_option jint (sc_runAsUser c)),
     (''seccompProfile'', map_option (\<lambda>t. jobj [(''type'', map_option JStr t)]) (sc_seccompProfile c))]"

definition runtime_request_json :: "CreateRuntimeRequest \<Rightarrow> json" where
  "runtime_request_json r = jobj
    [(''name'', Some (JStr (cr_name r))),
     (''image'', Some (JStr (cr_image r))),
     (''runtime'', map_option JStr (cr_runtime r)),
     (''supportedModelFormats'', map_option jstrs (cr_supportedModelFormats r)),
     (''args'', map_option jstrs (cr_args r)),
     (''securityContext'', map_option security_context_json (cr_securityContext r)),
     (''cpuRequest'', map_option JStr (cr_cpuRequest r)),
     (''cpuLimit'', map_option JStr (cr_cpuLimit r)),
     (''memoryRequest'', map_option JStr (cr_memoryRequest r)),
     (''memoryLimit'', map_option JStr (cr_memoryLimit r)),
     (''gpuValues'', map_option jcounts (cr_gpuValues r)),
     (''gpuLimit'', map_option jint (cr_gpuLimit r))]"

datatype rate_unit = PerSecond | PerMinute | PerHour | PerDay

fun rate_unit_text :: "rate_unit \<Rightarrow> string" where
  "rate_unit_text PerSecond = ''Second''"
| "rate_unit_text PerMinute = ''Minute''"
| "rate_unit_text PerHour = ''Hour''"
| "rate_unit_text PerDay = ''Day''"

text \<open>
  The type requires the unit; the form that fills it may leave it undefined, and then it is not sent.
\<close>

record RateLimitConfigDTO =
  rl_requests :: int
  rl_unit :: "rate_unit option"
  rl_clientHeader :: "string option"
  rl_countTokens :: "bool option"

record CreateAIGatewayRouteRequest =
  ag_gatewayNamespace :: "string option"
  ag_gatewayName :: "string option"
  ag_hostnames :: "string list option"
  ag_modelHeader :: "string option"
  ag_servicePort :: "int option"
  ag_rateLimit :: "RateLimitConfigDTO option"

definition gateway_route_json :: "CreateAIGatewayRouteRequest \<Rightarrow> json" where
  "gateway_route_json r = jobj
    [(''gatewayNamespace'', map_option JStr (ag_gatewayNamespace r)),
     (''gatewayName'', map_option JStr (ag_gatewayName r)),
     (''hostnames'', map_option jstrs (ag_hostnames r)),
     (''modelHeader'', map_option JStr (ag_modelHeader r)),
     (''servicePort'', map_option jint (ag_servicePort r)),
     (''rateLimit'', map_option
        (\<lambda>l. jobj
          [(''requests'', Some (jint (rl_requests l))),
           (''unit'', map_option (\<lambda>u. JStr (rate_unit_text u)) (rl_unit l)),
           (''clientHeader'', map_option JStr (rl_clientHeader l)),
           (''countTokens'', map_option JBool (rl_countTokens l))]) (ag_rateLimit r))]"

subsection \<open>Bindings\<close>

definition inference_path :: "string \<Rightarrow> string \<Rightarrow> string" where
  "inference_path ns rest = ''/api/v1/namespaces/'' @ encodeURIComponent ns @ ''/inference/'' @ rest"

definition listLLMConfigs :: http_request where
  "listLLMConfigs = get_request ''/api/v1/inference/llm-configs''"

definition listDeploymentModes :: http_request where
  "listDeploymentModes = get_request ''/api/v1/inference/deployment-modes''"

definition fetchGatewayConfig :: http_request where
  "fetchGatewayConfig = get_request ''/api/v1/inference/gateway''"

definition fetchServiceRouteStatus :: "string \<Rightarrow> string \<Rightarrow> http_request" where
  "fetchServiceRouteStatus ns name =
     get_request (inference_path ns (''services/'' @ encodeURIComponent name @ ''/route-status''))"

definition createAIGatewayRoute :: "string \<Rightarrow> string \<Rightarrow> CreateAIGatewayRouteRequest \<Rightarrow> http_request" where
  "createAIGatewayRoute ns svcName req =
     json_request POST (inference_path ns (''services/'' @ encodeURIComponent svcName @ ''/gateway-route''))
       (gateway_route_json req)"

definition api_createInferenceService :: "string \<Rightarrow> CreateServiceRequest \<Rightarrow> http_request" where
  "api_createInferenceService ns req =
     json_request POST (inference_path ns ''services'') (service_request_json req)"

definition api_updateInferenceService :: "string \<Rightarrow> string \<Rightarrow> CreateServiceRequest \<Rightarrow> http_request" where
  "api_updateInferenceService ns name req =
     json_request PUT (inference_path ns (''services/'' @ encodeURIComponent name)) (service_request_json req)"

definition api_createServingRuntime :: "string \<Rightarrow> CreateRuntimeRequest \<Rightarrow> http_request" where
  "api_createServingRuntime ns req =
     json_request POST (inference_path ns ''runtimes'') (runtime_request_json req)"

definition api_updateServingRuntime :: "string \<Rightarrow> string \<Rightarrow> CreateRuntimeRequest \<Rightarrow> http_request" where
  "api_updateServingRuntime ns name req =
     json_request PUT (inference_path ns (''runtimes/'' @ encodeURIComponent name)) (runtime_request_json req)"

text \<open>
  The listings catch a rejection and resolve with no rows: what the two (one) answers make of the
  awaited result.
\<close>

definition caught :: "'a list promise \<Rightarrow> 'a list" where
  "caught r = (case r of Inl e \<Rightarrow> [] | Inr xs \<Rightarrow> xs)"

definition listInferenceServices :: "'a list promise \<Rightarrow> 'a list promise \<Rightarrow> 'a list promise" where
  "listInferenceServices classic llm = Inr (caught classic @ caught llm)"

definition listServingRuntimes :: "'a list promise \<Rightarrow> 'a list promise" where
  "listServingRuntimes r = Inr (caught r)"

text \<open>The parameters of the log endpoints, in the order they are set.\<close>

record log_options =
  lo_container :: "string option"
  lo_follow :: "bool option"
  lo_tailLines :: "int option"
  lo_previous :: "bool option"

definition log_params :: "log_options \<Rightarrow> (string \<times> string) list" where
  "log_params opts =
     (if truthy_str (lo_container opts) then [(''container'', nullish (lo_container opts) '''')] else []) @
     (if lo_follow opts = Some True then [(''follow'', ''true'')] else []) @
     (case lo_tailLines opts of Some n \<Rightarrow> [(''tailLines'', show_int n)] | None \<Rightarrow> []) @
     (if lo_previous opts = Some True then [(''previous'', ''true'')] else [])"

definition podLogsPath :: "string \<Rightarrow> string \<Rightarrow> log_options \<Rightarrow> string" where
  "podLogsPath ns name opts =
     ''/api/v1/namespaces/'' @ encodeURIComponent ns @ ''/pods/'' @ encodeURIComponent name @ ''/logs?'' @
       search_params (log_params opts)"

definition inferenceLogsPath :: "string \<Rightarrow> string \<Rightarrow> service_kind \<Rightarrow> log_options \<Rightarrow> string" where
  "inferenceLogsPath ns name kind opts =
     inference_path ns (''services/'' @ encodeURIComponent name @ ''/logs?'' @
       search_params ((''kind'', kind_text kind) # log_params opts))"

definition listInferenceServicePods :: "string \<Rightarrow> string \<Rightarrow> service_kind \<Rightarrow> http_request" where
  "listInferenceServicePods ns name kind =
     get_request (inference_path ns (''services/'' @ encodeURIComponent name @ ''/pods?kind='' @
       encodeURIComponent (kind_text kind)))"

end
