(* ===== verification/Inference.thy ===== *)
theory Inference
  imports Api_Inference Workloads
begin

text \<open>
  \<open>frontend/src/data/inference.ts\<close>: serving runtimes and inference services, the LLM base
  configurations and deployment modes loaded once for the cluster, the classification of a service
  as OpenAI compatible with its base URL, and the two manifest builders.
\<close>

subsection \<open>Rows\<close>

record resources =
  res_cpu :: string
  res_memory :: string
  res_gpu :: int

record ServingRuntime = k8s_obj +
  rt_runtime :: string
  rt_image :: string
  rt_supportedModelFormats :: "string list option"
  rt_defaultArgs :: "string list option"
  rt_resources :: "resources option"
  rt_cpuRequest :: "string option"
  rt_cpuLimit :: "string option"
  rt_memoryRequest :: "string option"
  rt_memoryLimit :: "string option"
  rt_gpuValues :: "int js_map option"
  rt_securityContext :: "RuntimeSecurityContext option"
  rt_createdAt :: string
  rt_builtin :: "bool option"

datatype service_status = SvReady | SvProgressing | SvFailed | SvStopped

record InferenceService = k8s_obj +
  is_kind :: service_kind
  is_runtime :: "string option"
  is_modelUri :: string
  is_minReplicas :: int
  is_maxReplicas :: int
  is_resources :: "resources option"
  is_cpuRequest :: "string option"
  is_cpuLimit :: "string option"
  is_memoryRequest :: "string option"
  is_memoryLimit :: "string option"
  is_gpuProfileId :: "string option"
  is_gpuValues :: "int js_map option"
  is_baseConfigs :: "string list option"
  is_modelName :: "string option"
  is_containerImage :: "string option"
  is_env :: "(string \<times> string) list option"
  is_command :: "string list option"
  is_args :: "string list option"
  is_endpoint :: "string option"
  is_status :: service_status
  is_stopped :: "bool option"
  is_deploymentMode :: "string option"
  is_createdAt :: string

record LLMConfigRef =
  lc_name :: string
  lc_namespace :: string

record DeploymentModesInfo =
  dm_modes :: "string list"
  dm_default :: string

record inference = loader +
  runtimes :: "ServingRuntime list"
  services :: "InferenceService list"
  llmConfigs :: "LLMConfigRef list"
  llm_loader :: flag_loader
  deploymentModes :: DeploymentModesInfo
  modes_loader :: flag_loader

subsection \<open>OpenAI compatibility\<close>

definition defaultServingRuntimeArgs :: "string list js_map" where
  "defaultServingRuntimeArgs =
    [(''vllm'', [''--port'', ''8080'', ''--served-model-name'', ''{{.Name}}'', ''{{.Namespace}}/{{.Name}}'',
        ''--model'', ''/mnt/models'']),
     (''sglang'', [''--port'', ''8080'', ''--served-model-name'', ''{{.Name}}'', ''--model-path'', ''/mnt/models''])]"

definition defaultArgsForRuntimeFamily :: "string \<Rightarrow> string list" where
  "defaultArgsForRuntimeFamily runtime = nullish (map_of defaultServingRuntimeArgs runtime) []"

definition openAICompatibleRuntimes :: "string list" where
  "openAICompatibleRuntimes = [''vllm'', ''sglang'', ''tgi'', ''llamacpp'', ''llama-cpp'', ''lmdeploy'']"

definition matchesOpenAIFamily :: "string option \<Rightarrow> bool" where
  "matchesOpenAIFamily value \<longleftrightarrow>
     truthy_str value \<and>
     list_ex (\<lambda>f. str_includes (toLowerCase (nullish value '''')) f) openAICompatibleRuntimes"

definition isOpenAICompatibleService :: "InferenceService \<Rightarrow> ServingRuntime list \<Rightarrow> bool" where
  "isOpenAICompatibleService svc rts \<longleftrightarrow>
     (if is_kind svc = LLMInferenceServiceKind then True
      else if matchesOpenAIFamily (is_runtime svc) then True
      else if matchesOpenAIFamily (is_containerImage svc) then True
      else (case find (\<lambda>r. obj_namespace r = obj_namespace svc \<and> Some (obj_name r) = is_runtime svc) rts of
          None \<Rightarrow> False
        | Some sr \<Rightarrow> matchesOpenAIFamily (Some (rt_runtime sr)) \<or> matchesOpenAIFamily (Some (rt_image sr))))"

text \<open>\<open>/\/v\d+(\b|$)/.test(s)\<close>: the word boundary falls after the last digit of the run.\<close>

definition word_char :: "char \<Rightarrow> bool" where
  "word_char c \<longleftrightarrow> c \<in> set (''0123456789_'' @ upper_letters @ lower_letters)"

definition version_at :: "string \<Rightarrow> bool" where
  "version_at s \<longleftrightarrow> startsWith s ''/v'' \<and> takeWhile is_digit (drop 2 s) \<noteq> [] \<and>
     (case dropWhile is_digit (drop 2 s) of [] \<Rightarrow> True | c # _ \<Rightarrow> \<not> word_char c)"

fun has_version :: "string \<Rightarrow> bool" where
  "has_version [] = False"
| "has_version (c # s) = (version_at (c # s) \<or> has_version s)"

definition openAIBaseURL :: "string option \<Rightarrow> string" where
  "openAIBaseURL endpoint =
     (if \<not> truthy_str endpoint then ''''
      else (let trimmed = strip_trailing (CHR ''/'') (nullish endpoint '''')
            in if has_version trimmed then trimmed else trimmed @ ''/v1''))"

subsection \<open>Seeds and defaults\<close>

definition defaultRuntimeSecurityContext :: RuntimeSecurityContext where
  "defaultRuntimeSecurityContext =
    \<lparr>sc_allowPrivilegeEscalation = Some False,
     sc_capabilities = Some \<lparr>cap_add = Some [], cap_drop = Some [''ALL'']\<rparr>,
     sc_privileged = Some False, sc_runAsNonRoot = Some True, sc_runAsUser = Some 1000,
     sc_seccompProfile = Some (Some ''RuntimeDefault'')\<rparr>"

definition seed_runtime :: "string \<Rightarrow> string \<Rightarrow> string \<Rightarrow> string \<Rightarrow> ServingRuntime" where
  "seed_runtime draw today family img =
    \<lparr>obj_id = uid draw ''sr'', obj_name = family, obj_namespace = ''team-ml'', rt_runtime = family,
     rt_image = img, rt_supportedModelFormats = Some [''huggingface'', ''safetensors''],
     rt_defaultArgs = Some (defaultArgsForRuntimeFamily family),
     rt_resources = Some \<lparr>res_cpu = ''8'', res_memory = ''64Gi'', res_gpu = 1\<rparr>,
     rt_cpuRequest = None, rt_cpuLimit = None, rt_memoryRequest = None, rt_memoryLimit = None,
     rt_gpuValues = None, rt_securityContext = Some defaultRuntimeSecurityContext,
     rt_createdAt = today, rt_builtin = Some True\<rparr>"

definition runtimesInitial :: "(nat \<Rightarrow> string) \<Rightarrow> string \<Rightarrow> ServingRuntime list" where
  "runtimesInitial draw today =
    [seed_runtime (draw 0) today ''vllm'' ''vllm/vllm-openai:v0.7.2'',
     seed_runtime (draw 1) today ''sglang'' ''lmsysorg/sglang:v0.4.1'']"

text \<open>A row with only the fields every construction of the module gives.\<close>

definition bare_service ::
  "string \<Rightarrow> string \<Rightarrow> string \<Rightarrow> service_kind \<Rightarrow> string option \<Rightarrow> string \<Rightarrow> int \<Rightarrow> int \<Rightarrow> resources \<Rightarrow>
     string \<Rightarrow> service_status \<Rightarrow> string \<Rightarrow> InferenceService" where
  "bare_service i name ns kind runtime uri mn mx res endpoint status today =
    \<lparr>obj_id = i, obj_name = name, obj_namespace = ns, is_kind = kind, is_runtime = runtime,
     is_modelUri = uri, is_minReplicas = mn, is_maxReplicas = mx, is_resources = Some res,
     is_cpuRequest = None, is_cpuLimit = None, is_memoryRequest = None, is_memoryLimit = None,
     is_gpuProfileId = None, is_gpuValues = None, is_baseConfigs = None, is_modelName = None,
     is_containerImage = None, is_env = None, is_command = None, is_args = None,
     is_endpoint = Some endpoint, is_status = status, is_stopped = None, is_deploymentMode = None,
     is_createdAt = today\<rparr>"

definition servicesInitial :: "(nat \<Rightarrow> string) \<Rightarrow> string \<Rightarrow> InferenceService list" where
  "servicesInitial draw today =
    [bare_service (uid (draw 2) ''is'') ''qwen3-5-7b'' ''team-ml'' LLMInferenceServiceKind (Some ''vllm'')
       ''hf://Qwen/Qwen3.5-7B-Instruct'' 1 4 \<lparr>res_cpu = ''8'', res_memory = ''64Gi'', res_gpu = 1\<rparr>
       ''http://qwen3-5-7b.team-ml.svc.cluster.local/v1'' SvReady today,
     bare_service (uid (draw 3) ''is'') ''bge-embed'' ''team-ml'' InferenceServiceKind (Some ''custom'')
       ''hf://BAAI/bge-large-en-v1.5'' 1 2 \<lparr>res_cpu = ''4'', res_memory = ''16Gi'', res_gpu = 0\<rparr>
       ''http://bge-embed.team-ml.svc.cluster.local/v1'' SvReady today,
     bare_service (uid (draw 4) ''is'') ''qwen-72b-lws'' ''team-llm'' LLMInferenceServiceKind (Some ''vllm'')
       ''hf://Qwen/Qwen3.5-72B-Instruct'' 1 1 \<lparr>res_cpu = ''32'', res_memory = ''512Gi'', res_gpu = 8\<rparr>
       ''http://qwen-72b-lws.team-llm.svc.cluster.local/v1'' SvProgressing today]"

definition no_resources :: resources where
  "no_resources = \<lparr>res_cpu = '''', res_memory = '''', res_gpu = 0\<rparr>"

definition fillRuntimeDefaults :: "ServingRuntime \<Rightarrow> ServingRuntime" where
  "fillRuntimeDefaults r =
     (let cpu = nullish (map_option res_cpu (rt_resources r)) '''';
          memory = nullish (map_option res_memory (rt_resources r)) ''''
      in r\<lparr>obj_id := or_str (obj_id r) (''sr-'' @ obj_namespace r @ ''-'' @ obj_name r),
           rt_supportedModelFormats := Some (nullish (rt_supportedModelFormats r) []),
           rt_defaultArgs := Some (nullish (rt_defaultArgs r) []),
           rt_resources := Some (nullish (rt_resources r) no_resources),
           rt_cpuRequest := Some (nullish (rt_cpuRequest r) cpu),
           rt_cpuLimit := Some (nullish (rt_cpuLimit r) cpu),
           rt_memoryRequest := Some (nullish (rt_memoryRequest r) memory),
           rt_memoryLimit := Some (nullish (rt_memoryLimit r) memory),
           rt_securityContext := Some (nullish (rt_securityContext r) defaultRuntimeSecurityContext),
           rt_builtin := Some (nullish (rt_builtin r) False)\<rparr>)"

definition fillServiceDefaults :: "InferenceService \<Rightarrow> InferenceService" where
  "fillServiceDefaults s =
     s\<lparr>obj_id := or_str (obj_id s) (''is-'' @ obj_namespace s @ ''-'' @ obj_name s),
       is_resources := Some (nullish (is_resources s) no_resources)\<rparr>"

definition fallbackDeploymentModes :: DeploymentModesInfo where
  "fallbackDeploymentModes = \<lparr>dm_modes = [''Standard'', ''RawDeployment''], dm_default = ''Standard''\<rparr>"

definition inference_init :: "(nat \<Rightarrow> string) \<Rightarrow> string \<Rightarrow> inference" where
  "inference_init draw today =
    \<lparr>loaded = {}, in_flight = [], runtimes = runtimesInitial draw today,
     services = servicesInitial draw today, llmConfigs = [],
     llm_loader = \<lparr>is_loaded = False, pending_fetches = []\<rparr>,
     deploymentModes = fallbackDeploymentModes,
     modes_loader = \<lparr>is_loaded = False, pending_fetches = []\<rparr>\<rparr>"

subsection \<open>Loading\<close>

definition ensureLLMConfigsLoaded :: "bool \<Rightarrow> inference \<Rightarrow> inference" where
  "ensureLLMConfigsLoaded api s =
     (if \<not> api then s else s\<lparr>llm_loader := start_flag listLLMConfigs (llm_loader s)\<rparr>)"

definition llmConfigs_arrived :: "LLMConfigRef list \<Rightarrow> inference \<Rightarrow> inference" where
  "llmConfigs_arrived items s = s\<lparr>llmConfigs := items, llm_loader := land_flag (llm_loader s)\<rparr>"

definition llmConfigs_failed :: "inference \<Rightarrow> inference" where
  "llmConfigs_failed s = s\<lparr>llm_loader := flag_failed (llm_loader s)\<rparr>"

definition reloadLLMConfigs :: "bool \<Rightarrow> inference \<Rightarrow> inference" where
  "reloadLLMConfigs api s =
     ensureLLMConfigsLoaded api (s\<lparr>llm_loader := (llm_loader s)\<lparr>is_loaded := False\<rparr>\<rparr>)"

definition ensureDeploymentModesLoaded :: "bool \<Rightarrow> inference \<Rightarrow> inference" where
  "ensureDeploymentModesLoaded api s =
     (if \<not> api then s else s\<lparr>modes_loader := start_flag listDeploymentModes (modes_loader s)\<rparr>)"

definition modes_arrived :: "DeploymentModesInfo \<Rightarrow> inference \<Rightarrow> inference" where
  "modes_arrived info s = s\<lparr>deploymentModes := info, modes_loader := land_flag (modes_loader s)\<rparr>"

definition modes_failed :: "inference \<Rightarrow> inference" where
  "modes_failed s = s\<lparr>modes_loader := flag_failed (modes_loader s)\<rparr>"

definition ensureRuntimesLoaded :: "bool \<Rightarrow> string \<Rightarrow> inference \<Rightarrow> inference" where
  "ensureRuntimesLoaded api ns s =
     (if \<not> api then s else start_once (load_key ''sr'' ns) [listNamespaced Servingruntimes ns] s)"

definition rt_is_builtin :: "ServingRuntime \<Rightarrow> bool" where
  "rt_is_builtin r \<longleftrightarrow> rt_builtin r = Some True"

text \<open>\<open>answer\<close> is what the listing's request is answered with; its rejection is caught.\<close>

definition merge_runtimes :: "string \<Rightarrow> ServingRuntime list \<Rightarrow> ServingRuntime list \<Rightarrow> ServingRuntime list" where
  "merge_runtimes ns items prev =
     filter (\<lambda>r. obj_namespace r \<noteq> ns \<or> rt_is_builtin r) prev @ map fillRuntimeDefaults items"

definition runtimes_answered :: "string \<Rightarrow> ServingRuntime list promise \<Rightarrow> inference \<Rightarrow> inference" where
  "runtimes_answered ns answer s =
     (case listServingRuntimes answer of
        Inl e \<Rightarrow> fetch_failed (load_key ''sr'' ns) s
      | Inr items \<Rightarrow> land (load_key ''sr'' ns) (s\<lparr>runtimes := merge_runtimes ns items (runtimes s)\<rparr>))"

definition ensureInferenceServicesLoaded :: "bool \<Rightarrow> string \<Rightarrow> inference \<Rightarrow> inference" where
  "ensureInferenceServicesLoaded api ns s =
     (if \<not> api then s
      else start_once (load_key ''is'' ns)
        [listNamespaced Inferenceservices ns, listNamespaced Llminferenceservices ns] s)"

definition services_answered ::
  "string \<Rightarrow> InferenceService list promise \<Rightarrow> InferenceService list promise \<Rightarrow> inference \<Rightarrow> inference" where
  "services_answered ns classic llm s =
     (case listInferenceServices classic llm of
        Inl e \<Rightarrow> fetch_failed (load_key ''is'' ns) s
      | Inr items \<Rightarrow> land (load_key ''is'' ns)
          (s\<lparr>services := filter (\<lambda>x. obj_namespace x \<noteq> ns) (services s) @ map fillServiceDefaults items\<rparr>))"

definition reloadRuntimes :: "bool \<Rightarrow> string \<Rightarrow> inference \<Rightarrow> inference" where
  "reloadRuntimes api ns s = ensureRuntimesLoaded api ns (forget (load_key ''sr'' ns) s)"

definition reloadInferenceServices :: "bool \<Rightarrow> string \<Rightarrow> inference \<Rightarrow> inference" where
  "reloadInferenceServices api ns s =
     ensureInferenceServicesLoaded api ns (forget (load_key ''is'' ns) s)"

subsection \<open>Writing services\<close>

definition createInferenceService ::
  "bool \<Rightarrow> 'r backend \<Rightarrow> string \<Rightarrow> string \<Rightarrow> CreateServiceRequest \<Rightarrow> inference \<Rightarrow> unit promise \<times> inference" where
  "createInferenceService api send today ns req s =
     (if api then then_reload send (api_createInferenceService ns req) (reloadInferenceServices api ns) s
      else (Inr (), s\<lparr>services := fillServiceDefaults
        (bare_service (''is-'' @ ns @ ''-'' @ sr_name req) (sr_name req) ns (sr_kind req) (sr_runtime req)
          (sr_modelUri req) (sr_replicas req) (sr_replicas req)
          \<lparr>res_cpu = sr_cpuRequest req, res_memory = sr_memoryRequest req, res_gpu = 0\<rparr>
          '''' SvProgressing today) # services s\<rparr>))"

text \<open>
  The updater of \<open>updateInferenceService\<close> reads \<open>s.resources.gpu\<close> when the request names no
  GPU count: on a row without resources that throws, before the store is assigned.
\<close>

definition requested_gpu :: "CreateServiceRequest \<Rightarrow> int option" where
  "requested_gpu req = Option.bind (sr_gpuValues req) (\<lambda>m. map_of m ''nvidia.com/gpu'')"

definition apply_service_update :: "string \<Rightarrow> CreateServiceRequest \<Rightarrow> InferenceService \<Rightarrow> InferenceService" where
  "apply_service_update name req x =
     fillServiceDefaults (x\<lparr>
       obj_name := name,
       is_kind := sr_kind req,
       is_runtime := nullish_opt (sr_runtime req) (is_runtime x),
       is_modelUri := sr_modelUri req,
       is_minReplicas := sr_replicas req,
       is_maxReplicas := sr_replicas req,
       is_resources := Some \<lparr>res_cpu = sr_cpuRequest req, res_memory = sr_memoryRequest req,
         res_gpu = nullish (requested_gpu req) (res_gpu (nullish (is_resources x) no_resources))\<rparr>,
       is_cpuRequest := Some (sr_cpuRequest req),
       is_cpuLimit := sr_cpuLimit req,
       is_memoryRequest := Some (sr_memoryRequest req),
       is_memoryLimit := sr_memoryLimit req,
       is_gpuValues := sr_gpuValues req,
       is_baseConfigs := sr_baseConfigs req,
       is_modelName := sr_modelName req,
       is_containerImage := sr_containerImage req,
       is_env := sr_env req,
       is_command := sr_command req,
       is_args := sr_args req,
       is_deploymentMode := sr_deploymentMode req,
       is_status := SvProgressing\<rparr>)"

definition updateInferenceService ::
  "bool \<Rightarrow> 'r backend \<Rightarrow> string \<Rightarrow> string \<Rightarrow> CreateServiceRequest \<Rightarrow> inference \<Rightarrow> unit promise \<times> inference" where
  "updateInferenceService api send ns name req s =
     (if api then then_reload send (api_updateInferenceService ns name req) (reloadInferenceServices api ns) s
      else if list_ex (\<lambda>x. names_obj ns name x \<and> requested_gpu req = None \<and> is_resources x = None) (services s)
      then (Inl (JsError ''TypeError''), s)
      else (Inr (), s\<lparr>services := map_where (names_obj ns name) (apply_service_update name req) (services s)\<rparr>))"

definition service_slug :: "string \<Rightarrow> slug" where
  "service_slug kind = (if kind = ''LLMInferenceService'' then Llminferenceservices else Inferenceservices)"

definition deleteInferenceService ::
  "bool \<Rightarrow> 'r backend \<Rightarrow> string \<Rightarrow> string \<Rightarrow> string \<Rightarrow> inference \<Rightarrow> unit promise \<times> inference" where
  "deleteInferenceService api send ns name kind s =
     (if api then then_reload send (deleteNamespaced (service_slug kind) ns name) (reloadInferenceServices api ns) s
      else (Inr (), s\<lparr>services := drop_where (names_obj ns name) (services s)\<rparr>))"

definition setInferenceServiceStopped ::
  "bool \<Rightarrow> 'r backend \<Rightarrow> string \<Rightarrow> string \<Rightarrow> string \<Rightarrow> bool \<Rightarrow> inference \<Rightarrow> unit promise \<times> inference" where
  "setInferenceServiceStopped api send ns name kind stopped s =
     (if api then
        then_reload send
          (bare_request POST (inference_path ns (''services/'' @ encodeURIComponent name @ ''/'' @
             (if stopped then ''stop'' else ''start'') @ ''?kind='' @ encodeURIComponent kind)))
          (reloadInferenceServices api ns) s
      else (Inr (), s\<lparr>services := map_where (names_obj ns name)
        (\<lambda>x. x\<lparr>is_stopped := Some stopped, is_status := if stopped then SvStopped else SvProgressing\<rparr>)
        (services s)\<rparr>))"

definition fetchInferenceServiceYaml ::
  "bool \<Rightarrow> string backend \<Rightarrow> string \<Rightarrow> string \<Rightarrow> string \<Rightarrow> string promise" where
  "fetchInferenceServiceYaml api send ns name kind =
     (if \<not> api then Inr '''' else send (fetchYaml (Inl (service_slug kind)) (Some ns) name))"

definition yaml_unavailable :: js_error where
  "yaml_unavailable = JsError (''API not configured '' @ em_dash @ '' cannot update YAML'')"

definition updateInferenceServiceYaml ::
  "bool \<Rightarrow> 'r backend \<Rightarrow> string \<Rightarrow> string \<Rightarrow> string \<Rightarrow> string \<Rightarrow> inference \<Rightarrow> unit promise \<times> inference" where
  "updateInferenceServiceYaml api send ns name kind yaml s =
     (if \<not> api then (Inl yaml_unavailable, s)
      else then_reload send (updateNamespacedYaml (service_slug kind) ns name yaml) (reloadInferenceServices api ns) s)"

subsection \<open>Writing runtimes\<close>

definition apply_runtime_update :: "CreateRuntimeRequest \<Rightarrow> ServingRuntime \<Rightarrow> ServingRuntime" where
  "apply_runtime_update req r =
     (let old = nullish (rt_resources r) no_resources
      in r\<lparr>
       rt_runtime := nullish (cr_runtime req) (rt_runtime r),
       rt_image := cr_image req,
       rt_supportedModelFormats := nullish_opt (cr_supportedModelFormats req) (rt_supportedModelFormats r),
       rt_defaultArgs := nullish_opt (cr_args req) (rt_defaultArgs r),
       rt_cpuRequest := nullish_opt (cr_cpuRequest req) (rt_cpuRequest r),
       rt_cpuLimit := nullish_opt (cr_cpuLimit req) (rt_cpuLimit r),
       rt_memoryRequest := nullish_opt (cr_memoryRequest req) (rt_memoryRequest r),
       rt_memoryLimit := nullish_opt (cr_memoryLimit req) (rt_memoryLimit r),
       rt_securityContext :=
         Some (nullish (nullish_opt (cr_securityContext req) (rt_securityContext r)) defaultRuntimeSecurityContext),
       rt_resources := Some
         \<lparr>res_cpu = nullish (nullish_opt (cr_cpuLimit req) (cr_cpuRequest req)) (res_cpu old),
          res_memory = nullish (nullish_opt (cr_memoryLimit req) (cr_memoryRequest req)) (res_memory old),
          res_gpu = nullish (cr_gpuLimit req) (res_gpu old)\<rparr>,
       rt_gpuValues := nullish_opt (cr_gpuValues req) (rt_gpuValues r)\<rparr>)"

text \<open>Whether the update reads the row's resources (and throws when it has none).\<close>

definition reads_resources :: "CreateRuntimeRequest \<Rightarrow> bool" where
  "reads_resources req \<longleftrightarrow>
     (cr_cpuLimit req = None \<and> cr_cpuRequest req = None) \<or>
     (cr_memoryLimit req = None \<and> cr_memoryRequest req = None) \<or> cr_gpuLimit req = None"

definition updateServingRuntime ::
  "bool \<Rightarrow> 'r backend \<Rightarrow> string \<Rightarrow> string \<Rightarrow> CreateRuntimeRequest \<Rightarrow> inference \<Rightarrow> unit promise \<times> inference" where
  "updateServingRuntime api send ns name req s =
     (if api then then_reload send (api_updateServingRuntime ns name req) (reloadRuntimes api ns) s
      else if list_ex (\<lambda>r. names_obj ns name r \<and> rt_resources r = None \<and> reads_resources req) (runtimes s)
      then (Inl (JsError ''TypeError''), s)
      else (Inr (), s\<lparr>runtimes := map_where (names_obj ns name) (apply_runtime_update req) (runtimes s)\<rparr>))"

definition createServingRuntime ::
  "bool \<Rightarrow> 'r backend \<Rightarrow> string \<Rightarrow> string \<Rightarrow> CreateRuntimeRequest \<Rightarrow> inference \<Rightarrow> unit promise \<times> inference" where
  "createServingRuntime api send today ns req s =
     (if api then then_reload send (api_createServingRuntime ns req) (reloadRuntimes api ns) s
      else (Inr (), s\<lparr>runtimes := fillRuntimeDefaults
        \<lparr>obj_id = ''sr-'' @ ns @ ''-'' @ cr_name req, obj_name = cr_name req, obj_namespace = ns,
         rt_runtime = nullish (cr_runtime req) ''custom'', rt_image = cr_image req,
         rt_supportedModelFormats = Some (nullish (cr_supportedModelFormats req) [''huggingface'']),
         rt_defaultArgs = Some (nullish (cr_args req) []),
         rt_resources = Some \<lparr>res_cpu = nullish (cr_cpuRequest req) '''',
           res_memory = nullish (cr_memoryRequest req) '''', res_gpu = nullish (cr_gpuLimit req) 0\<rparr>,
         rt_cpuRequest = cr_cpuRequest req, rt_cpuLimit = cr_cpuLimit req,
         rt_memoryRequest = cr_memoryRequest req, rt_memoryLimit = cr_memoryLimit req,
         rt_gpuValues = None,
         rt_securityContext = Some (nullish (cr_securityContext req) defaultRuntimeSecurityContext),
         rt_createdAt = today, rt_builtin = Some False\<rparr> # runtimes s\<rparr>))"

definition deleteServingRuntime ::
  "bool \<Rightarrow> 'r backend \<Rightarrow> string \<Rightarrow> string \<Rightarrow> inference \<Rightarrow> unit promise \<times> inference" where
  "deleteServingRuntime api send ns name s =
     (if api then then_reload send (deleteNamespaced Servingruntimes ns name) (reloadRuntimes api ns) s
      else (Inr (), s\<lparr>runtimes := drop_where (names_obj ns name) (runtimes s)\<rparr>))"

definition fetchServingRuntimeYaml :: "bool \<Rightarrow> string backend \<Rightarrow> string \<Rightarrow> string \<Rightarrow> string promise" where
  "fetchServingRuntimeYaml api send ns name =
     (if \<not> api then Inr '''' else send (fetchYaml (Inl Servingruntimes) (Some ns) name))"

definition updateServingRuntimeYaml ::
  "bool \<Rightarrow> 'r backend \<Rightarrow> string \<Rightarrow> string \<Rightarrow> string \<Rightarrow> inference \<Rightarrow> unit promise \<times> inference" where
  "updateServingRuntimeYaml api send ns name yaml s =
     (if \<not> api then (Inl yaml_unavailable, s)
      else then_reload send (updateNamespacedYaml Servingruntimes ns name yaml) (reloadRuntimes api ns) s)"

subsection \<open>Manifests\<close>

definition bool_text :: "bool \<Rightarrow> string" where
  "bool_text b = (if b then ''true'' else ''false'')"

definition dash_items :: "string list \<Rightarrow> string" where
  "dash_items vs = join nl (map (\<lambda>v. ''            - '' @ v) vs)"

text \<open>The builder reads \<open>supportedModelFormats\<close>, \<open>defaultArgs\<close> and \<open>resources\<close> without a guard:
  \<open>None\<close> is the exception a row without them raises.\<close>

definition buildServingRuntimeYaml :: "ServingRuntime \<Rightarrow> string option" where
  "buildServingRuntimeYaml sr =
     (case (rt_supportedModelFormats sr, rt_defaultArgs sr, rt_resources sr) of
        (Some formats, Some args, Some res) \<Rightarrow>
          (let sc = nullish (rt_securityContext sr) defaultRuntimeSecurityContext;
               drop = nullish (Option.bind (sc_capabilities sc) cap_drop) [];
               add = nullish (Option.bind (sc_capabilities sc) cap_add) [];
               capabilitiesYaml =
                 (if drop \<noteq> [] \<or> add \<noteq> [] then ''
        capabilities:'' @
                    (if drop \<noteq> [] then ''
          drop:
'' @ dash_items drop else '''') @
                    (if add \<noteq> [] then ''
          add:
'' @ dash_items add else '''')
                  else '''');
               securityContextYaml = ''      securityContext:
        allowPrivilegeEscalation: '' @ bool_text (nullish (sc_allowPrivilegeEscalation sc) False) @ capabilitiesYaml @ ''
        privileged: '' @ bool_text (nullish (sc_privileged sc) False) @ ''
        runAsNonRoot: '' @ bool_text (nullish (sc_runAsNonRoot sc) True) @ ''
        runAsUser: '' @ show_int (nullish (sc_runAsUser sc) 1000) @ ''
        seccompProfile:
          type: '' @ nullish (Option.bind (sc_seccompProfile sc) id) ''RuntimeDefault''
           in Some (''apiVersion: serving.kserve.io/v1alpha1
kind: ServingRuntime
metadata:
  name: '' @ obj_name sr @ ''
  namespace: '' @ obj_namespace sr @ ''
spec:
  supportedModelFormats:
'' @ join nl (map (\<lambda>f. ''    - name: '' @ f @ ''
      autoSelect: true'') formats) @ ''
  containers:
    - name: kserve-container
      image: '' @ rt_image sr @ ''
      args:
'' @ join nl (map (\<lambda>a. ''        - \"'' @ a @ ''\"'') args) @ ''
      resources:
        limits:
          cpu: \"'' @ res_cpu res @ ''\"
          memory: '' @ res_memory res @ ''
          nvidia.com/gpu: '' @ show_int (res_gpu res) @ ''
'' @ securityContextYaml @ ''
''))
      | _ \<Rightarrow> None)"

definition quoted_items :: "string list \<Rightarrow> string" where
  "quoted_items vs = join nl (map (\<lambda>v. ''        - \"'' @ v @ ''\"'') vs)"

definition buildInferenceServiceYaml :: "InferenceService \<Rightarrow> string option" where
  "buildInferenceServiceYaml x =
     (case is_resources x of
        None \<Rightarrow> None
      | Some res \<Rightarrow>
          (let apiVersion = (if is_kind x = LLMInferenceServiceKind then ''serving.kserve.io/v1alpha1''
                             else ''serving.kserve.io/v1beta1'');
               cpuLim = nullish (is_cpuLimit x) (res_cpu res);
               memLim = nullish (is_memoryLimit x) (res_memory res);
               gpuEntries = (case is_gpuValues x of Some m \<Rightarrow> m
                 | None \<Rightarrow> if res_gpu res > 0 then [(''nvidia.com/gpu'', res_gpu res)] else []);
               gpuYaml = join nl (map (\<lambda>(k, v). ''          '' @ k @ '': '' @ show_int v) gpuEntries);
               envYaml = (if nullish (is_env x) [] \<noteq> [] then ''
      env:
'' @ join nl (map (\<lambda>(n, v). ''        - name: '' @ n @ ''
          value: \"'' @ v @ ''\"'') (nullish (is_env x) [])) else '''');
               commandYaml = (if nullish (is_command x) [] \<noteq> [] then ''
      command:
'' @ quoted_items (nullish (is_command x) []) else '''');
               argsYaml = (if nullish (is_args x) [] \<noteq> [] then ''
      args:
'' @ quoted_items (nullish (is_args x) []) else '''')
           in Some (''apiVersion: '' @ apiVersion @ ''
kind: '' @ kind_text (is_kind x) @ ''
metadata:
  name: '' @ obj_name x @ ''
  namespace: '' @ obj_namespace x @ ''
spec:
  predictor:
    minReplicas: '' @ show_int (is_minReplicas x) @ ''
    maxReplicas: '' @ show_int (is_maxReplicas x) @ ''
    model:
      modelFormat:
        name: huggingface
      runtime: '' @ nullish (is_runtime x) ''undefined'' @ ''
      storageUri: '' @ is_modelUri x @ ''
      resources:
        requests:
          cpu: \"'' @ res_cpu res @ ''\"
          memory: '' @ res_memory res @ ''
        limits:
          cpu: \"'' @ cpuLim @ ''\"
          memory: '' @ memLim @ (if gpuYaml \<noteq> '''' then nl @ gpuYaml else '''') @ envYaml @ commandYaml @ argsYaml @ ''
'')))"

subsection \<open>Base URLs\<close>

lemma has_version_append: "version_at t \<Longrightarrow> has_version (s @ t)"
proof (induction s)
  case Nil
  then show ?case by (cases t) (simp_all add: version_at_def)
qed simp

lemma v1_versioned: "has_version (s @ ''/v1'')"
  by (rule has_version_append) (simp add: version_at_def is_digit_def)

lemma v1_no_slash: "strip_trailing (CHR ''/'') (s @ ''/v1'') = s @ ''/v1''"
  by (rule strip_trailing_id) simp

lemma openAIBaseURL_cases:
  "endpoint \<noteq> [] \<Longrightarrow> openAIBaseURL (Some endpoint) =
     (let t = strip_trailing (CHR ''/'') endpoint in if has_version t then t else t @ ''/v1'')"
  by (simp add: openAIBaseURL_def)

text \<open>
  The OpenAI base URL of a service: empty exactly when the service reports no endpoint;
  otherwise it never ends in a slash, always holds a version segment, is the endpoint less its
  trailing slashes with at most the segment added, and computing it again changes nothing.
\<close>

theorem openai_base_url:
  "if endpoint = None \<or> endpoint = Some [] then openAIBaseURL endpoint = []
   else has_version (openAIBaseURL endpoint) \<and>
     strip_trailing (CHR ''/'') (openAIBaseURL endpoint) = openAIBaseURL endpoint \<and>
     openAIBaseURL (Some (openAIBaseURL endpoint)) = openAIBaseURL endpoint \<and>
     openAIBaseURL endpoint \<in> {strip_trailing (CHR ''/'') (nullish endpoint []),
       strip_trailing (CHR ''/'') (nullish endpoint []) @ ''/v1''}"
proof (cases "truthy_str endpoint")
  case True
  then obtain e where e: "endpoint = Some e" "e \<noteq> []" by (cases endpoint) auto
  let ?t = "strip_trailing (CHR ''/'') e"
  show ?thesis
  proof (cases "has_version ?t")
    case True
    then have "?t \<noteq> []" by auto
    with True e show ?thesis by (simp add: openAIBaseURL_cases Let_def)
  next
    case False
    with e show ?thesis by (simp add: openAIBaseURL_cases Let_def v1_versioned v1_no_slash)
  qed
next
  case False
  then show ?thesis by (cases endpoint) (auto simp: openAIBaseURL_def)
qed

text \<open>A host name that looks like a version segment keeps the segment from being added.\<close>

lemma takeWhile_show_nat: "takeWhile is_digit (show_nat n @ CHR ''.'' # s) = show_nat n"
  "dropWhile is_digit (show_nat n @ CHR ''.'' # s) = CHR ''.'' # s"
proof -
  have "\<not> is_digit CHR ''.''" by (simp add: is_digit_def)
  then show "takeWhile is_digit (show_nat n @ CHR ''.'' # s) = show_nat n"
    "dropWhile is_digit (show_nat n @ CHR ''.'' # s) = CHR ''.'' # s"
    by (simp_all add: takeWhile_append2 dropWhile_append2 is_digit_show_nat)
qed

text \<open>
  A service published under a host such as \<open>v1.models.example\<close> gets no version segment: the
  check for one also matches the start of the host name, so the base URL handed to the playground
  is the bare endpoint.
\<close>

theorem versioned_host_left_bare:
  assumes "last host \<noteq> CHR ''/''" "host \<noteq> []"
  shows "openAIBaseURL (Some (''http://v'' @ show_nat n @ ''.'' @ host)) = ''http://v'' @ show_nat n @ ''.'' @ host"
proof -
  let ?e = "''http://v'' @ show_nat n @ ''.'' @ host"
  have trimmed: "strip_trailing (CHR ''/'') ?e = ?e"
    using assms by (intro strip_trailing_id) simp
  have "version_at (''/v'' @ show_nat n @ ''.'' @ host)"
    by (simp add: version_at_def takeWhile_show_nat word_char_def upper_letters_def lower_letters_def)
  then have "has_version (''http:/'' @ (''/v'' @ show_nat n @ ''.'' @ host))"
    by (rule has_version_append)
  then have "has_version ?e" by simp
  then show ?thesis
    using openAIBaseURL_cases [of ?e] trimmed by (simp add: Let_def)
qed

theorem versioned_host_left_bare_witness:
  "openAIBaseURL (Some (''http://v'' @ show_nat 1 @ ''.'' @ ''models.example'')) = ''http://v'' @ show_nat 1 @ ''.models.example''"
  using versioned_host_left_bare [of "''models.example''" 1] by simp

subsection \<open>Loading runtimes and services\<close>

text \<open>A runtime's slot: its namespace, and whether it is one of the built-in rows a load keeps.\<close>

definition rt_slot :: "ServingRuntime \<Rightarrow> string \<times> bool" where
  "rt_slot r = (obj_namespace r, rt_is_builtin r)"

lemma rt_slot_fill: "rt_slot (fillRuntimeDefaults r) = rt_slot r"
  by (cases "rt_builtin r") (simp_all add: rt_slot_def rt_is_builtin_def fillRuntimeDefaults_def Let_def)

lemma merge_runtimes_put:
  "merge_runtimes ns items prev = put_slot rt_slot (ns, False) (map fillRuntimeDefaults items) prev"
  by (auto simp: merge_runtimes_def put_slot_def rt_slot_def intro!: filter_cong)

text \<open>
  C23. Loading runtimes replaces the namespace's own rows and nothing else: with an answer that
  lists rows of that namespace, none marked built-in, the namespace's own rows become that
  listing, while its built-in rows and every row of another namespace stay as they were.
\<close>

theorem runtimes_load_refines:
  assumes "\<forall>r \<in> set items. obj_namespace r = ns \<and> \<not> rt_is_builtin r"
  shows "view rt_slot (runtimes (runtimes_answered ns (Inr items) s)) =
    (view rt_slot (runtimes s))((ns, False) := map fillRuntimeDefaults items)"
proof -
  have own: "own_rows rt_slot (ns, False) (map fillRuntimeDefaults items)"
    using assms
    by (simp add: own_rows_def rt_slot_fill) (simp add: rt_slot_def)
  show ?thesis
    using ns_cache.merge_refines [OF own, of "runtimes s"]
    by (simp add: runtimes_answered_def listServingRuntimes_def caught_def land_def merge_runtimes_put)
qed

theorem runtimes_load_refines_witness:
  "rows rt_slot (''team-ml'', True) (runtimes (runtimes_answered ''team-ml'' (Inr []) (inference_init (\<lambda>_. ''seed'') ''d'')))
    = runtimesInitial (\<lambda>_. ''seed'') ''d''"
proof -
  have none: "\<forall>r \<in> set ([] :: ServingRuntime list). obj_namespace r = ''team-ml'' \<and> \<not> rt_is_builtin r" by simp
  have "view rt_slot (runtimes (runtimes_answered ''team-ml'' (Inr []) (inference_init (\<lambda>_. ''seed'') ''d''))) (''team-ml'', True)
    = view rt_slot (runtimes (inference_init (\<lambda>_. ''seed'') ''d'')) (''team-ml'', True)"
    by (simp add: runtimes_load_refines [OF none])
  moreover have "rt_slot (seed_runtime draw today family img) = (''team-ml'', True)" for draw today family img
    by (simp add: rt_slot_def rt_is_builtin_def seed_runtime_def)
  ultimately show ?thesis
    by (simp add: view_def inference_init_def runtimesInitial_def rows_def)
qed

text \<open>
  A failed listing of services is taken for an empty one: both calls are caught, so when both
  are rejected the namespace's services disappear from the store, the namespace counts as loaded
  and the next page that asks sends nothing.
\<close>

theorem failed_listing_empties:
  assumes "load_key ''is'' ns \<in> loaded s"
  shows "let s' = services_answered ns (Inl e) (Inl e') s
    in view obj_namespace (services s') = (view obj_namespace (services s))(ns := []) \<and>
       load_key ''is'' ns \<in> loaded s' \<and> ensureInferenceServicesLoaded True ns s' = s'"
  using assms ns_cache.merge_refines [of obj_namespace ns "[]" "services s"]
  by (simp add: services_answered_def listInferenceServices_def caught_def land_def own_rows_def put_slot_def
      ensureInferenceServicesLoaded_def start_once_def Let_def)

theorem failed_listing_empties_witness:
  "view obj_namespace (services (services_answered ''team-ml'' (Inl (JsError ''offline'')) (Inl (JsError ''offline''))
     (ensureInferenceServicesLoaded True ''team-ml'' (inference_init (\<lambda>_. ''seed'') ''d'')))) ''team-ml'' = []"
proof -
  have "load_key ''is'' ''team-ml'' \<in> loaded (ensureInferenceServicesLoaded True ''team-ml'' (inference_init (\<lambda>_. ''seed'') ''d''))"
    by (simp add: ensureInferenceServicesLoaded_def start_once_def)
  from failed_listing_empties [OF this] show ?thesis by (simp add: Let_def)
qed

text \<open>
  Every runtime the store gains is complete: after filling, no field the pages read is missing,
  requests and limits fall back to the row's resources, and filling again changes nothing.
\<close>

theorem runtime_defaults_complete:
  "rt_resources (fillRuntimeDefaults r) \<noteq> None \<and> rt_defaultArgs (fillRuntimeDefaults r) \<noteq> None \<and>
   rt_supportedModelFormats (fillRuntimeDefaults r) \<noteq> None \<and> obj_id (fillRuntimeDefaults r) \<noteq> [] \<and>
   rt_cpuLimit (fillRuntimeDefaults r) = Some (nullish (rt_cpuLimit r) (nullish (map_option res_cpu (rt_resources r)) '''')) \<and>
   buildServingRuntimeYaml (fillRuntimeDefaults r) \<noteq> None \<and>
   fillRuntimeDefaults (fillRuntimeDefaults r) = fillRuntimeDefaults r"
  by (simp add: fillRuntimeDefaults_def buildServingRuntimeYaml_def or_str_def Let_def)

end
