(* ===== verification/Training.thy ===== *)
theory Training
  imports Inference
begin

text \<open>
  \<open>frontend/src/api/training.ts\<close> and \<open>frontend/src/data/training.ts\<close>: training runtimes, merged
  from the cluster's and the namespace's, training jobs, completed by their MLflow runs, and
  \<open>trainingRuntimeObject\<close>, which turns the runtime form into a ClusterTrainingRuntime whose
  replicated jobs run one after the other.
\<close>

subsection \<open>Requests\<close>

record RuntimePreJob =
  pj_name :: string
  pj_image :: string
  pj_command :: "string list option"
  pj_args :: "string list option"
  pj_env :: "(string \<times> string) list option"

record CreateTrainingRuntimeRequest =
  tr_req_name :: string
  tr_req_framework :: string
  tr_req_image :: string
  tr_req_numNodes :: int
  tr_req_command :: "string list option"
  tr_req_args :: "string list option"
  tr_req_env :: "(string \<times> string) list option"
  tr_req_cpuRequest :: "string option"
  tr_req_cpuLimit :: "string option"
  tr_req_memoryRequest :: "string option"
  tr_req_memoryLimit :: "string option"
  tr_req_gpuValues :: "int js_map option"
  tr_req_preJobs :: "RuntimePreJob list option"
  tr_req_cluster :: "bool option"

record CreateJobRequest =
  tj_req_name :: string
  tj_req_runtime :: string
  tj_req_numNodes :: int
  tj_req_command :: "string list option"
  tj_req_args :: "string list option"
  tj_req_env :: "(string \<times> string) list option"
  tj_req_cpuRequest :: string
  tj_req_cpuLimit :: "string option"
  tj_req_memoryRequest :: string
  tj_req_memoryLimit :: "string option"
  tj_req_gpuValues :: "int js_map option"
  tj_req_modelUri :: "string option"
  tj_req_datasetUri :: "string option"
  tj_req_mlflowTrackingUri :: "string option"
  tj_req_mlflowExperiment :: "string option"

text \<open>A loss or accuracy is a decimal, as in \<open>JNum\<close>.\<close>

record MLflowSample =
  ml_step :: int
  ml_loss :: "int \<times> int"
  ml_accuracy :: "(int \<times> int) option"

datatype run_source = FromMlflow | Synthetic

record MLflowRun =
  run_trackingUri :: string
  run_experiment :: string
  run_runId :: string
  run_samples :: "MLflowSample list"
  run_source :: "run_source option"

definition env_json :: "(string \<times> string) list \<Rightarrow> json" where
  "env_json es = JArr (map (\<lambda>(n, v). JObj [(''name'', JStr n), (''value'', JStr v)]) es)"

definition pre_job_json :: "RuntimePreJob \<Rightarrow> json" where
  "pre_job_json p = jobj
    [(''name'', Some (JStr (pj_name p))), (''image'', Some (JStr (pj_image p))),
     (''command'', map_option jstrs (pj_command p)), (''args'', map_option jstrs (pj_args p)),
     (''env'', map_option env_json (pj_env p))]"

definition training_runtime_request_json :: "CreateTrainingRuntimeRequest \<Rightarrow> json" where
  "training_runtime_request_json r = jobj
    [(''name'', Some (JStr (tr_req_name r))), (''framework'', Some (JStr (tr_req_framework r))),
     (''image'', Some (JStr (tr_req_image r))), (''numNodes'', Some (jint (tr_req_numNodes r))),
     (''command'', map_option jstrs (tr_req_command r)), (''args'', map_option jstrs (tr_req_args r)),
     (''env'', map_option env_json (tr_req_env r)),
     (''cpuRequest'', map_option JStr (tr_req_cpuRequest r)),
     (''cpuLimit'', map_option JStr (tr_req_cpuLimit r)),
     (''memoryRequest'', map_option JStr (tr_req_memoryRequest r)),
     (''memoryLimit'', map_option JStr (tr_req_memoryLimit r)),
     (''gpuValues'', map_option jcounts (tr_req_gpuValues r)),
     (''preJobs'', map_option (\<lambda>ps. JArr (map pre_job_json ps)) (tr_req_preJobs r)),
     (''cluster'', map_option JBool (tr_req_cluster r))]"

definition job_request_json :: "CreateJobRequest \<Rightarrow> json" where
  "job_request_json r = jobj
    [(''name'', Some (JStr (tj_req_name r))), (''runtime'', Some (JStr (tj_req_runtime r))),
     (''numNodes'', Some (jint (tj_req_numNodes r))),
     (''command'', map_option jstrs (tj_req_command r)), (''args'', map_option jstrs (tj_req_args r)),
     (''env'', map_option env_json (tj_req_env r)),
     (''cpuRequest'', Some (JStr (tj_req_cpuRequest r))), (''cpuLimit'', map_option JStr (tj_req_cpuLimit r)),
     (''memoryRequest'', Some (JStr (tj_req_memoryRequest r))),
     (''memoryLimit'', map_option JStr (tj_req_memoryLimit r)),
     (''gpuValues'', map_option jcounts (tj_req_gpuValues r)),
     (''modelUri'', map_option JStr (tj_req_modelUri r)), (''datasetUri'', map_option JStr (tj_req_datasetUri r)),
     (''mlflowTrackingUri'', map_option JStr (tj_req_mlflowTrackingUri r)),
     (''mlflowExperiment'', map_option JStr (tj_req_mlflowExperiment r))]"

definition training_path :: "string \<Rightarrow> string \<Rightarrow> string" where
  "training_path ns rest = ''/api/v1/namespaces/'' @ encodeURIComponent ns @ ''/training/'' @ rest"

definition listTrainingRuntimes :: "'a list promise \<Rightarrow> 'a list promise" where
  "listTrainingRuntimes r = Inr (caught r)"

definition listTrainJobs :: "'a list promise \<Rightarrow> 'a list promise" where
  "listTrainJobs r = Inr (caught r)"

definition api_createTrainingRuntime :: "string \<Rightarrow> CreateTrainingRuntimeRequest \<Rightarrow> http_request" where
  "api_createTrainingRuntime ns req =
     json_request POST (training_path ns ''runtimes'') (training_runtime_request_json req)"

definition api_createTrainJob :: "string \<Rightarrow> CreateJobRequest \<Rightarrow> http_request" where
  "api_createTrainJob ns req = json_request POST (training_path ns ''jobs'') (job_request_json req)"

definition fetchMLflowRun :: "string \<Rightarrow> string \<Rightarrow> http_request" where
  "fetchMLflowRun ns name =
     get_request (training_path ns (''jobs/'' @ encodeURIComponent name @ ''/mlflow''))"

subsection \<open>Rows\<close>

record TrainingRuntime = k8s_obj +
  tr_framework :: string
  tr_image :: string
  tr_numNodes :: int
  tr_resourcesPerNode :: "resources option"
  tr_createdAt :: string
  tr_builtin :: "bool option"

datatype job_status = JobPending | JobRunning | JobSucceeded | JobFailed

record TrainJob = k8s_obj +
  tj_runtime :: string
  tj_numNodes :: int
  tj_command :: "string list option"
  tj_args :: "string list option"
  tj_env :: "(string \<times> string) list option"
  tj_status :: "job_status option"
  tj_progress :: "int option"
  tj_startTime :: string
  tj_duration :: "string option"
  tj_modelUri :: "string option"
  tj_datasetUri :: "string option"
  tj_cpu :: "string option"
  tj_cpuLimit :: "string option"
  tj_memory :: "string option"
  tj_memoryLimit :: "string option"
  tj_gpuProfileId :: "string option"
  tj_gpuValues :: "int js_map option"
  tj_mlflow :: "MLflowRun option"

record training = loader +
  trainingRuntimes :: "TrainingRuntime list"
  trainJobs :: "TrainJob list"

definition seed_training_runtime ::
  "string \<Rightarrow> string \<Rightarrow> string \<Rightarrow> string \<Rightarrow> string \<Rightarrow> int \<Rightarrow> resources \<Rightarrow> TrainingRuntime" where
  "seed_training_runtime draw today name framework img nodes res =
    \<lparr>obj_id = uid draw ''tr'', obj_name = name, obj_namespace = ''knaic-system'', tr_framework = framework,
     tr_image = img, tr_numNodes = nodes, tr_resourcesPerNode = Some res, tr_createdAt = today,
     tr_builtin = Some True\<rparr>"

definition trainingRuntimesInitial :: "(nat \<Rightarrow> string) \<Rightarrow> string \<Rightarrow> TrainingRuntime list" where
  "trainingRuntimesInitial draw today =
    [seed_training_runtime (draw 0) today ''torch-distributed'' ''torch''
       ''ghcr.io/kubeflow/trainer/torch-runtime:2.4.0'' 1 \<lparr>res_cpu = ''16'', res_memory = ''128Gi'', res_gpu = 2\<rparr>,
     seed_training_runtime (draw 1) today ''deepspeed-runtime'' ''deepspeed''
       ''ghcr.io/kubeflow/trainer/deepspeed-runtime:0.15.1'' 2 \<lparr>res_cpu = ''32'', res_memory = ''256Gi'', res_gpu = 4\<rparr>,
     seed_training_runtime (draw 2) today ''mpi-runtime'' ''mpi''
       ''ghcr.io/kubeflow/trainer/mpi-runtime:5.0.3'' 4 \<lparr>res_cpu = ''16'', res_memory = ''64Gi'', res_gpu = 1\<rparr>,
     seed_training_runtime (draw 3) today ''tensorflow-runtime'' ''tensorflow''
       ''ghcr.io/kubeflow/trainer/tf-runtime:2.17.0'' 1 \<lparr>res_cpu = ''8'', res_memory = ''64Gi'', res_gpu = 1\<rparr>]"

definition fillTrainingRuntimeDefaults :: "TrainingRuntime \<Rightarrow> TrainingRuntime" where
  "fillTrainingRuntimeDefaults r =
     r\<lparr>obj_id := or_str (obj_id r) (''tr-'' @ obj_namespace r @ ''-'' @ obj_name r),
       tr_resourcesPerNode := Some (nullish (tr_resourcesPerNode r) no_resources),
       tr_builtin := Some (nullish (tr_builtin r) False)\<rparr>"

definition fillJobDefaults :: "TrainJob \<Rightarrow> TrainJob" where
  "fillJobDefaults j =
     j\<lparr>obj_id := or_str (obj_id j) (''tj-'' @ obj_namespace j @ ''-'' @ obj_name j),
       tj_command := Some (nullish (tj_command j) []),
       tj_status := Some (nullish (tj_status j) JobPending),
       tj_progress := Some (nullish (tj_progress j) 0),
       tj_duration := Some (nullish (tj_duration j) ''''),
       tj_cpu := Some (nullish (tj_cpu j) ''''),
       tj_memory := Some (nullish (tj_memory j) '''')\<rparr>"

subsection \<open>Loading\<close>

definition ensureTrainingRuntimesLoaded :: "bool \<Rightarrow> string \<Rightarrow> training \<Rightarrow> training" where
  "ensureTrainingRuntimesLoaded api ns s =
     (if \<not> api then s
      else start_once (load_key ''tr'' ns)
        [listNamespaced Trainingruntimes ns, listCluster Clustertrainingruntimes] s)"

definition tr_is_builtin :: "TrainingRuntime \<Rightarrow> bool" where
  "tr_is_builtin r \<longleftrightarrow> tr_builtin r = Some True"

definition merge_training_runtimes ::
  "string \<Rightarrow> TrainingRuntime list \<Rightarrow> TrainingRuntime list \<Rightarrow> TrainingRuntime list \<Rightarrow> TrainingRuntime list" where
  "merge_training_runtimes ns namespaced cluster prev =
     (let builtin = (if 0 < length cluster
            then map (\<lambda>r. fillTrainingRuntimeDefaults
                   (r\<lparr>obj_namespace := ''knaic-system'', tr_builtin := Some True\<rparr>)) cluster
            else filter tr_is_builtin prev)
      in filter (\<lambda>r. obj_namespace r \<noteq> ns \<and> \<not> tr_is_builtin r) prev @ builtin
           @ map fillTrainingRuntimeDefaults namespaced)"

definition training_runtimes_answered ::
  "string \<Rightarrow> TrainingRuntime list promise \<Rightarrow> TrainingRuntime list promise \<Rightarrow> training \<Rightarrow> training" where
  "training_runtimes_answered ns namespaced cluster s =
     (case listTrainingRuntimes namespaced of
        Inl e \<Rightarrow> fetch_failed (load_key ''tr'' ns) s
      | Inr items \<Rightarrow> land (load_key ''tr'' ns)
          (s\<lparr>trainingRuntimes := merge_training_runtimes ns items (caught cluster) (trainingRuntimes s)\<rparr>))"

definition reloadTrainingRuntimes :: "bool \<Rightarrow> string \<Rightarrow> training \<Rightarrow> training" where
  "reloadTrainingRuntimes api ns s = ensureTrainingRuntimesLoaded api ns (forget (load_key ''tr'' ns) s)"

definition ensureTrainJobsLoaded :: "bool \<Rightarrow> string \<Rightarrow> training \<Rightarrow> training" where
  "ensureTrainJobsLoaded api ns s =
     (if \<not> api then s else start_once (load_key ''tj'' ns) [listNamespaced Trainjobs ns] s)"

text \<open>
  One listed job: its run is fetched when it has one, and kept as listed when that fails.
  \<open>send\<close> answers the \<open>fetchMLflowRun\<close> requests, all settled before the store is assigned.
\<close>

definition with_run :: "MLflowRun backend \<Rightarrow> string \<Rightarrow> TrainJob \<Rightarrow> TrainJob" where
  "with_run send ns item =
     (let job = fillJobDefaults item
      in case tj_mlflow job of None \<Rightarrow> job
         | Some _ \<Rightarrow> (case send (fetchMLflowRun ns (obj_name job)) of
               Inl e \<Rightarrow> job | Inr run \<Rightarrow> job\<lparr>tj_mlflow := Some run\<rparr>))"

definition train_jobs_answered ::
  "MLflowRun backend \<Rightarrow> string \<Rightarrow> TrainJob list promise \<Rightarrow> training \<Rightarrow> training" where
  "train_jobs_answered send ns answer s =
     (case listTrainJobs answer of
        Inl e \<Rightarrow> fetch_failed (load_key ''tj'' ns) s
      | Inr items \<Rightarrow> land (load_key ''tj'' ns)
          (s\<lparr>trainJobs := filter (\<lambda>j. obj_namespace j \<noteq> ns) (trainJobs s) @ map (with_run send ns) items\<rparr>))"

definition reloadTrainJobs :: "bool \<Rightarrow> string \<Rightarrow> training \<Rightarrow> training" where
  "reloadTrainJobs api ns s = ensureTrainJobsLoaded api ns (forget (load_key ''tj'' ns) s)"

subsection \<open>The runtime object\<close>

text \<open>\<open>if (x?.length) obj.k = x\<close>.\<close>

definition when_filled :: "string \<Rightarrow> ('a list \<Rightarrow> json) \<Rightarrow> 'a list option \<Rightarrow> (string \<times> json) list" where
  "when_filled k enc x = (if nullish x [] = [] then [] else [(k, enc (nullish x []))])"

definition when_truthy :: "string \<Rightarrow> string option \<Rightarrow> (string \<times> json) list" where
  "when_truthy k x = (if truthy_str x then [(k, JStr (nullish x ''''))] else [])"

definition with_gpus :: "int js_map \<Rightarrow> (string \<times> json) list \<Rightarrow> (string \<times> json) list" where
  "with_gpus gpus m = fold (\<lambda>(k, v). js_put k (jint v)) gpus m"

definition resource_requests :: "CreateTrainingRuntimeRequest \<Rightarrow> json" where
  "resource_requests req = JObj (with_gpus (nullish (tr_req_gpuValues req) [])
     (when_truthy ''cpu'' (tr_req_cpuRequest req) @ when_truthy ''memory'' (tr_req_memoryRequest req)))"

definition resource_limits :: "CreateTrainingRuntimeRequest \<Rightarrow> json" where
  "resource_limits req = JObj (with_gpus (nullish (tr_req_gpuValues req) [])
     (when_truthy ''cpu'' (nullish_opt (tr_req_cpuLimit req) (tr_req_cpuRequest req)) @
      when_truthy ''memory'' (nullish_opt (tr_req_memoryLimit req) (tr_req_memoryRequest req))))"

definition ancestor_step :: string where
  "ancestor_step = ''trainer.kubeflow.org/trainjob-ancestor-step''"

text \<open>A replicated job, with its dependency when an earlier step has a (non-empty) name.\<close>

definition replicated_job :: "string \<Rightarrow> string \<Rightarrow> json \<Rightarrow> string option \<Rightarrow> json" where
  "replicated_job name step container lastStep = JObj
     ([(''name'', JStr name),
       (''template'', JObj
         [(''metadata'', JObj [(''labels'', JObj [(ancestor_step, JStr step)])]),
          (''spec'', JObj [(''template'', JObj [(''spec'', JObj [(''containers'', JArr [container])])])])])] @
      (if truthy_str lastStep
       then [(''dependsOn'', JArr [JObj [(''name'', JStr (nullish lastStep '''')), (''status'', JStr ''Complete'')]])]
       else []))"

definition pre_container :: "RuntimePreJob \<Rightarrow> json" where
  "pre_container p = JObj ([(''name'', JStr (pj_name p)), (''image'', JStr (pj_image p))] @
     when_filled ''command'' jstrs (pj_command p) @ when_filled ''args'' jstrs (pj_args p) @
     when_filled ''env'' env_json (pj_env p))"

fun pre_jobs :: "RuntimePreJob list \<Rightarrow> string option \<Rightarrow> json list \<times> string option" where
  "pre_jobs [] lastStep = ([], lastStep)"
| "pre_jobs (p # ps) lastStep =
     (let (js, l) = pre_jobs ps (Some (pj_name p))
      in (replicated_job (pj_name p) (pj_name p) (pre_container p) lastStep # js, l))"

definition trainer_container :: "CreateTrainingRuntimeRequest \<Rightarrow> json" where
  "trainer_container req = JObj ([(''name'', JStr ''node''), (''image'', JStr (tr_req_image req))] @
     when_filled ''command'' jstrs (tr_req_command req) @ when_filled ''args'' jstrs (tr_req_args req) @
     when_filled ''env'' env_json (tr_req_env req) @
     [(''resources'', JObj [(''requests'', resource_requests req), (''limits'', resource_limits req)])])"

definition replicatedJobs :: "CreateTrainingRuntimeRequest \<Rightarrow> json list" where
  "replicatedJobs req =
     (let (js, lastStep) = pre_jobs (nullish (tr_req_preJobs req) []) None
      in js @ [replicated_job ''node'' ''trainer'' (trainer_container req) lastStep])"

definition trainingRuntimeObject :: "CreateTrainingRuntimeRequest \<Rightarrow> json" where
  "trainingRuntimeObject req = JObj
    [(''apiVersion'', JStr ''trainer.kubeflow.org/v1alpha1''),
     (''kind'', JStr ''ClusterTrainingRuntime''),
     (''metadata'', JObj
       [(''name'', JStr (tr_req_name req)),
        (''labels'', JObj [(''knaic.io/managed'', JStr ''true''), (''knaic.io/component'', JStr ''training''),
          (''knaic.io/framework'', JStr (tr_req_framework req))])]),
     (''spec'', JObj
       [(''mlPolicy'', JObj (js_put (or_str (tr_req_framework req) ''torch'') (JObj [])
          [(''numNodes'', jint (if tr_req_numNodes req = 0 then 1 else tr_req_numNodes req))])),
        (''template'', JObj [(''spec'', JObj [(''replicatedJobs'', JArr (replicatedJobs req))])])])]"

subsection \<open>Writing\<close>

definition createTrainingRuntime ::
  "bool \<Rightarrow> 'r backend \<Rightarrow> string \<Rightarrow> string \<Rightarrow> string \<Rightarrow> CreateTrainingRuntimeRequest \<Rightarrow> training \<Rightarrow>
     unit promise \<times> training" where
  "createTrainingRuntime api send draw today ns req s =
     (if api then
        then_reload send
          (if tr_req_cluster req = Some True
           then createCluster Clustertrainingruntimes (trainingRuntimeObject req)
           else api_createTrainingRuntime ns req)
          (reloadTrainingRuntimes api ns) s
      else
        (let gpuTotal = sum_list (map snd (nullish (tr_req_gpuValues req) []))
         in (Inr (), s\<lparr>trainingRuntimes :=
           \<lparr>obj_id = uid draw ''tr'', obj_name = tr_req_name req,
            obj_namespace = (if tr_req_cluster req = Some True then ''knaic-system'' else ns),
            tr_framework = tr_req_framework req, tr_image = tr_req_image req, tr_numNodes = tr_req_numNodes req,
            tr_resourcesPerNode = Some
              \<lparr>res_cpu = nullish (nullish_opt (tr_req_cpuLimit req) (tr_req_cpuRequest req)) '''',
               res_memory = nullish (nullish_opt (tr_req_memoryLimit req) (tr_req_memoryRequest req)) '''',
               res_gpu = gpuTotal\<rparr>,
            tr_createdAt = today, tr_builtin = Some False\<rparr> # trainingRuntimes s\<rparr>)))"

definition deleteTrainingRuntime ::
  "bool \<Rightarrow> 'r backend \<Rightarrow> string \<Rightarrow> TrainingRuntime \<Rightarrow> training \<Rightarrow> unit promise \<times> training" where
  "deleteTrainingRuntime api send ns runtime s =
     (let cleared = s\<lparr>trainingRuntimes := drop_where (\<lambda>r. obj_id r = obj_id runtime) (trainingRuntimes s)\<rparr>;
          req = (if tr_is_builtin runtime then deleteCluster Clustertrainingruntimes (obj_name runtime)
                 else deleteNamespaced Trainingruntimes ns (obj_name runtime))
      in if api then (case send req of Inl e \<Rightarrow> (Inl e, s) | Inr _ \<Rightarrow> (Inr (), cleared))
         else (Inr (), cleared))"

definition createTrainJob ::
  "bool \<Rightarrow> 'r backend \<Rightarrow> string \<Rightarrow> string \<Rightarrow> string \<Rightarrow> CreateJobRequest \<Rightarrow> training \<Rightarrow> unit promise \<times> training" where
  "createTrainJob api send draw startTime ns req s =
     (if api then then_reload send (api_createTrainJob ns req) (reloadTrainJobs api ns) s
      else (Inr (), s\<lparr>trainJobs :=
        \<lparr>obj_id = uid draw ''tj'', obj_name = tj_req_name req, obj_namespace = ns,
         tj_runtime = tj_req_runtime req, tj_numNodes = tj_req_numNodes req,
         tj_command = Some (nullish (tj_req_command req) []), tj_args = tj_req_args req, tj_env = tj_req_env req,
         tj_status = Some JobRunning, tj_progress = Some 1, tj_startTime = startTime,
         tj_duration = Some ''00h 00m'', tj_modelUri = tj_req_modelUri req, tj_datasetUri = tj_req_datasetUri req,
         tj_cpu = Some (tj_req_cpuRequest req), tj_cpuLimit = tj_req_cpuLimit req,
         tj_memory = Some (tj_req_memoryRequest req), tj_memoryLimit = tj_req_memoryLimit req,
         tj_gpuProfileId = None, tj_gpuValues = tj_req_gpuValues req, tj_mlflow = None\<rparr> # trainJobs s\<rparr>))"

definition deleteTrainJob ::
  "bool \<Rightarrow> 'r backend \<Rightarrow> string \<Rightarrow> TrainJob \<Rightarrow> training \<Rightarrow> unit promise \<times> training" where
  "deleteTrainJob api send ns job s =
     (let cleared = s\<lparr>trainJobs := drop_where (\<lambda>j. obj_id j = obj_id job) (trainJobs s)\<rparr>
      in if api then
           (case send (deleteNamespaced Trainjobs ns (obj_name job)) of
              Inl e \<Rightarrow> (Inl e, s) | Inr _ \<Rightarrow> (Inr (), cleared))
         else (Inr (), cleared))"

subsection \<open>The order of the replicated jobs\<close>

definition depends_on :: "json \<Rightarrow> json option" where
  "depends_on j = (case json_at [''dependsOn''] j of Some (JArr [d]) \<Rightarrow> json_at [''name''] d | _ \<Rightarrow> None)"

lemma replicated_name [simp]: "json_at [''name''] (replicated_job name step c l) = Some (JStr name)"
  by (simp add: replicated_job_def)

lemma replicated_depends [simp]:
  "depends_on (replicated_job name step c l) = (if truthy_str l then Some (JStr (nullish l [])) else None)"
  by (simp add: replicated_job_def depends_on_def)

lemma pre_jobs_names: "map (json_at [''name'']) (fst (pre_jobs ps l)) = map (\<lambda>p. Some (JStr (pj_name p))) ps"
  by (induction ps arbitrary: l) (simp_all add: case_prod_unfold Let_def)

lemma pre_jobs_last:
  "\<forall>p \<in> set ps. pj_name p \<noteq> [] \<Longrightarrow>
   snd (pre_jobs ps l) = (if ps = [] then l else Some (pj_name (last ps)))"
  by (induction ps arbitrary: l) (simp_all add: case_prod_unfold Let_def)

text \<open>What each step waits for: nothing, then the step before it.\<close>

fun step_deps :: "string option \<Rightarrow> string list \<Rightarrow> json option list" where
  "step_deps l [] = []"
| "step_deps l (n # ns) = map_option JStr l # step_deps (Some n) ns"

lemma step_deps_snoc: "step_deps l (ns @ [n]) = step_deps l ns @ [map_option JStr (if ns = [] then l else Some (last ns))]"
  by (induction ns arbitrary: l) auto

lemma pre_jobs_deps:
  "\<forall>p \<in> set ps. pj_name p \<noteq> [] \<Longrightarrow> l \<noteq> Some [] \<Longrightarrow>
   map depends_on (fst (pre_jobs ps l)) = step_deps l (map pj_name ps)"
proof (induction ps arbitrary: l)
  case (Cons p ps)
  then show ?case
    using Cons.IH [of "Some (pj_name p)"] by (cases l) (simp_all add: case_prod_unfold Let_def)
qed simp

lemma step_deps_chain: "step_deps None (n # ns) = None # map (\<lambda>m. Some (JStr m)) (butlast (n # ns))"
proof -
  have "step_deps (Some m) ns = map (\<lambda>m. Some (JStr m)) (butlast (m # ns))" for m
    by (induction ns arbitrary: m) auto
  then show ?thesis by simp
qed

subsection \<open>Properties\<close>

text \<open>
  A training runtime's steps run one after the other: when every pre-job has a name, the
  replicated jobs are the pre-jobs in the order given and then the trainer node; the first waits
  for nothing, and each later one waits for exactly the step before it.
\<close>

theorem training_steps_chain:
  assumes "\<forall>p \<in> set (nullish (tr_req_preJobs req) []). pj_name p \<noteq> []"
  shows "let names = map pj_name (nullish (tr_req_preJobs req) []) @ [''node'']
    in map (json_at [''name'']) (replicatedJobs req) = map (\<lambda>n. Some (JStr n)) names \<and>
       map depends_on (replicatedJobs req) = None # map (\<lambda>n. Some (JStr n)) (butlast names)"
proof -
  define ps where "ps = nullish (tr_req_preJobs req) []"
  have named: "\<forall>p \<in> set ps. pj_name p \<noteq> []" using assms by (simp add: ps_def)
  obtain js l where run: "pre_jobs ps None = (js, l)" by (cases "pre_jobs ps None")
  have l: "l = (if ps = [] then None else Some (pj_name (last ps)))"
    using pre_jobs_last [OF named, of None] run by simp
  have l': "(if truthy_str l then Some (JStr (nullish l [])) else None) = map_option JStr l"
    using l named by (cases "ps = []") simp_all
  have jobs: "replicatedJobs req = js @ [replicated_job ''node'' ''trainer'' (trainer_container req) l]"
    by (simp add: replicatedJobs_def run flip: ps_def)
  have "map depends_on (replicatedJobs req) = step_deps None (map pj_name ps) @ [map_option JStr l]"
    using pre_jobs_deps [OF named, of None] run l' by (simp add: jobs)
  also have "\<dots> = step_deps None (map pj_name ps @ [''node''])"
    by (simp add: step_deps_snoc l last_map)
  also have "\<dots> = None # map (\<lambda>n. Some (JStr n)) (butlast (map pj_name ps @ [''node'']))"
    using step_deps_chain by (cases "map pj_name ps @ [''node'']") auto
  finally show ?thesis
    using pre_jobs_names [of ps None] run by (simp add: jobs Let_def flip: ps_def)
qed

definition sample_runtime_request :: CreateTrainingRuntimeRequest where
  "sample_runtime_request =
    \<lparr>tr_req_name = ''sft'', tr_req_framework = ''torch'', tr_req_image = ''img'', tr_req_numNodes = 2,
     tr_req_command = None, tr_req_args = None, tr_req_env = None, tr_req_cpuRequest = Some ''4'',
     tr_req_cpuLimit = None, tr_req_memoryRequest = None, tr_req_memoryLimit = None,
     tr_req_gpuValues = Some [(''nvidia.com/gpu'', 1)],
     tr_req_preJobs = Some
       [\<lparr>pj_name = ''fetch'', pj_image = ''a'', pj_command = None, pj_args = None, pj_env = None\<rparr>,
        \<lparr>pj_name = ''tokenize'', pj_image = ''b'', pj_command = None, pj_args = None, pj_env = None\<rparr>],
     tr_req_cluster = Some True\<rparr>"

theorem training_steps_chain_witness:
  "map depends_on (replicatedJobs sample_runtime_request) = [None, Some (JStr ''fetch''), Some (JStr ''tokenize'')]"
  using training_steps_chain [of sample_runtime_request] by (simp add: sample_runtime_request_def)

lemma map_of_with_gpus:
  "distinct (map fst gpus) \<Longrightarrow> map_of (with_gpus gpus m) k =
     (case map_of gpus k of Some v \<Rightarrow> Some (jint v) | None \<Rightarrow> map_of m k)"
proof (induction gpus arbitrary: m)
  case (Cons g gpus)
  obtain k' v where g: "g = (k', v)" by (cases g)
  have "map_of gpus k' = None" using Cons.prems by (simp add: g map_of_eq_None_iff)
  then show ?case
    using Cons.IH [of "js_put k' (jint v) m"] Cons.prems
    by (simp add: g with_gpus_def lookup_simps split: option.splits)
qed (simp add: with_gpus_def)

text \<open>
  Every resource a training runtime requests is also limited: whenever a limit is not the empty
  text, each key of the trainer's requests occurs among its limits, and accelerators (distinct keys)
  occur in both with the same count.
\<close>

theorem requests_are_limited:
  assumes "tr_req_cpuLimit req \<noteq> Some []" "tr_req_memoryLimit req \<noteq> Some []"
    "distinct (map fst (nullish (tr_req_gpuValues req) []))"
  shows "(json_at [k] (resource_requests req) \<noteq> None \<longrightarrow> json_at [k] (resource_limits req) \<noteq> None) \<and>
    (case map_of (nullish (tr_req_gpuValues req) []) k of
       Some v \<Rightarrow> json_at [k] (resource_requests req) = Some (jint v) \<and> json_at [k] (resource_limits req) = Some (jint v)
     | None \<Rightarrow> True)"
proof -
  have cpu: "map_of (when_truthy ''cpu'' (tr_req_cpuRequest req) @ when_truthy ''memory'' (tr_req_memoryRequest req)) k \<noteq> None \<Longrightarrow>
    map_of (when_truthy ''cpu'' (nullish_opt (tr_req_cpuLimit req) (tr_req_cpuRequest req)) @
      when_truthy ''memory'' (nullish_opt (tr_req_memoryLimit req) (tr_req_memoryRequest req))) k \<noteq> None"
    using assms(1, 2)
    by (cases "tr_req_cpuLimit req"; cases "tr_req_memoryLimit req")
      (auto simp: when_truthy_def split: if_splits)
  then show ?thesis
    unfolding resource_requests_def resource_limits_def
    using assms(3) by (auto simp: map_of_with_gpus split: option.splits)
qed

theorem requests_are_limited_witness:
  "json_at [''nvidia.com/gpu''] (resource_limits sample_runtime_request) = Some (jint 1)"
proof -
  have "tr_req_cpuLimit sample_runtime_request \<noteq> Some []" "tr_req_memoryLimit sample_runtime_request \<noteq> Some []"
    "distinct (map fst (nullish (tr_req_gpuValues sample_runtime_request) []))"
    by (simp_all add: sample_runtime_request_def)
  from requests_are_limited [OF this, of "''nvidia.com/gpu''"] show ?thesis
    by (simp add: sample_runtime_request_def)
qed

text \<open>The slot of a training runtime: the cluster's, or its namespace's.\<close>

definition tr_slot :: "TrainingRuntime \<Rightarrow> string option" where
  "tr_slot r = (if tr_is_builtin r then None else Some (obj_namespace r))"

definition cluster_runtime :: "TrainingRuntime \<Rightarrow> TrainingRuntime" where
  "cluster_runtime r = fillTrainingRuntimeDefaults (r\<lparr>obj_namespace := ''knaic-system'', tr_builtin := Some True\<rparr>)"

lemma tr_slot_fill [simp]: "tr_slot (fillTrainingRuntimeDefaults r) = tr_slot r"
  by (cases "tr_builtin r") (simp_all add: tr_slot_def tr_is_builtin_def fillTrainingRuntimeDefaults_def)

lemma tr_slot_cluster [simp]: "tr_slot (cluster_runtime r) = None"
  by (simp add: tr_slot_def tr_is_builtin_def cluster_runtime_def fillTrainingRuntimeDefaults_def)

lemma rows_other_slots:
  "rows slot k (filter (\<lambda>r. slot r \<noteq> a \<and> slot r \<noteq> b) xs) = (if k = a \<or> k = b then [] else rows slot k xs)"
  by (auto simp: rows_def filter_empty_conv intro!: filter_cong)

lemma rows_one_slot: "rows slot k (rows slot a xs) = (if k = a then rows slot a xs else [])"
  by (auto simp: rows_def filter_empty_conv)

lemma rows_uniform: "(\<And>x. x \<in> set xs \<Longrightarrow> slot x = a) \<Longrightarrow> rows slot k xs = (if k = a then xs else [])"
  by (auto intro: rows_all rows_none)

lemma merge_training_slots:
  "merge_training_runtimes ns items cluster prev =
     filter (\<lambda>r. tr_slot r \<noteq> Some ns \<and> tr_slot r \<noteq> None) prev @
     (if cluster = [] then rows tr_slot None prev else map cluster_runtime cluster) @
     map fillTrainingRuntimeDefaults items"
proof -
  have "filter (\<lambda>r. obj_namespace r \<noteq> ns \<and> \<not> tr_is_builtin r) prev =
      filter (\<lambda>r. tr_slot r \<noteq> Some ns \<and> tr_slot r \<noteq> None) prev"
    by (intro filter_cong) (auto simp: tr_slot_def)
  moreover have "filter tr_is_builtin prev = rows tr_slot None prev"
    unfolding rows_def by (intro filter_cong) (auto simp: tr_slot_def)
  moreover have "map (\<lambda>r. fillTrainingRuntimeDefaults (r\<lparr>obj_namespace := ''knaic-system'', tr_builtin := Some True\<rparr>)) cluster
      = map cluster_runtime cluster"
    by (simp add: cluster_runtime_def)
  ultimately show ?thesis
    by (simp add: merge_training_runtimes_def Let_def)
qed

text \<open>
  Loading training runtimes keeps the two sources apart: the namespace's own rows become its
  listing (of rows of that namespace, none built-in); the cluster's rows become the cluster's
  listing, or stay when that is empty or its call failed; no other namespace's row changes.
\<close>

theorem training_runtimes_refine:
  assumes "\<forall>r \<in> set items. obj_namespace r = ns \<and> \<not> tr_is_builtin r"
  shows "view tr_slot (trainingRuntimes (training_runtimes_answered ns (Inr items) cluster s)) =
    (view tr_slot (trainingRuntimes s))
      (None := (if caught cluster = [] then view tr_slot (trainingRuntimes s) None else map cluster_runtime (caught cluster)),
       Some ns := map fillTrainingRuntimeDefaults items)"
proof -
  have own: "rows tr_slot k (map fillTrainingRuntimeDefaults items) =
      (if k = Some ns then map fillTrainingRuntimeDefaults items else [])" for k
  proof (rule rows_uniform)
    fix x assume "x \<in> set (map fillTrainingRuntimeDefaults items)"
    then obtain r where "x = fillTrainingRuntimeDefaults r" "r \<in> set items" by auto
    with assms show "tr_slot x = Some ns" by (simp only: tr_slot_fill) (simp add: tr_slot_def)
  qed
  have cl: "rows tr_slot k (map cluster_runtime c) = (if k = None then map cluster_runtime c else [])" for k c
    by (rule rows_uniform) auto
  note other = rows_other_slots [of tr_slot _ "Some ns" None, simplified]
  show ?thesis
    by (auto simp: fun_eq_iff view_def training_runtimes_answered_def listTrainingRuntimes_def caught_def [of "Inr items"]
        land_def merge_training_slots rows_append other rows_one_slot own cl)
qed

theorem training_runtimes_refine_witness:
  "view tr_slot (trainingRuntimes (training_runtimes_answered ''team-ml'' (Inr []) (Inl (JsError ''offline''))
     \<lparr>loaded = {}, in_flight = [], trainingRuntimes = trainingRuntimesInitial show_nat ''d'', trainJobs = []\<rparr>)) None
   = view tr_slot (trainingRuntimesInitial show_nat ''d'') None"
proof -
  have none: "\<forall>r \<in> set ([] :: TrainingRuntime list). obj_namespace r = ''team-ml'' \<and> \<not> tr_is_builtin r" by simp
  show ?thesis by (simp add: training_runtimes_refine [OF none] caught_def)
qed

end
