(* ===== verification/Components.thy ===== *)
theory Components
  imports Event_Loop Api_Client Store
begin

text \<open>
  \<open>frontend/src/api/components.ts\<close> and \<open>frontend/src/data/components.ts\<close>: the catalogue of
  installable components, their install, uninstall and reconcile operations (optimistic in API mode,
  simulated by timers in prototype mode), the per-row status refresh with its spinner set, and the
  image registry settings. An operation that changes a row before it awaits is two steps: the start,
  and its answer.
\<close>

subsection \<open>Rows\<close>

datatype component_category =
    CatInference | CatTraining | CatGPU | CatNetworking | CatObservability | CatNotebook | CatScheduling
  | CatExperiment

fun category_text :: "component_category \<Rightarrow> string" where
  "category_text CatInference = ''Inference''"
| "category_text CatTraining = ''Training''"
| "category_text CatGPU = ''GPU''"
| "category_text CatNetworking = ''Networking''"
| "category_text CatObservability = ''Observability''"
| "category_text CatNotebook = ''Notebook''"
| "category_text CatScheduling = ''Scheduling''"
| "category_text CatExperiment = ''Experiment''"

datatype component_status = CsNotInstalled | CsInstalling | CsInstalled | CsFailed | CsUnmanaged

datatype image_sync = SyncSynced | SyncPending | SyncFailed

datatype manager = ByOLM | ByManual | ByKnaic

record ComponentItem =
  co_name :: string
  co_displayName :: string
  co_description :: string
  co_category :: component_category
  co_versions :: "string list"
  co_selectedVersion :: string
  co_status :: component_status
  co_namespace :: string
  co_images :: "string list"
  co_imageSync :: image_sync
  co_notes :: "string option"
  co_managedBy :: "manager option"
  co_builtin :: bool
  co_embedded :: "bool option"
  co_lastError :: "string option"

record RegistryConfig =
  rg_endpoint :: string
  rg_username :: string
  rg_project :: string
  rg_useBuiltin :: bool
  rg_totalImages :: int
  rg_syncedImages :: int
  rg_diskUsageGi :: int
  rg_capacityGi :: int
  rg_lastSyncedAt :: "string option"

datatype component_timer = ImagesSynced string | InstallDone string | ReconcileDone string

record components = "component_timer timed" +
  catalog :: "ComponentItem list"
  statusLoading :: "string set"
  didInitialLoad :: bool
  registry :: RegistryConfig
  registry_loader :: flag_loader

definition seed_component ::
  "string \<Rightarrow> string \<Rightarrow> string \<Rightarrow> component_category \<Rightarrow> string list \<Rightarrow> string \<Rightarrow> component_status \<Rightarrow>
     string \<Rightarrow> string list \<Rightarrow> image_sync \<Rightarrow> string option \<Rightarrow> manager option \<Rightarrow> ComponentItem" where
  "seed_component name display desc cat versions sel status ns images sync notes manager =
    \<lparr>co_name = name, co_displayName = display, co_description = desc, co_category = cat,
     co_versions = versions, co_selectedVersion = sel, co_status = status, co_namespace = ns,
     co_images = images, co_imageSync = sync, co_notes = notes, co_managedBy = manager,
     co_builtin = True, co_embedded = None, co_lastError = None\<rparr>"

definition seedCatalog :: "ComponentItem list" where
  "seedCatalog =
    [seed_component ''kserve'' ''KServe''
       ''Standard model inference platform on Kubernetes with LLMInferenceService support.''
       CatInference [''v0.13.0'', ''v0.14.0'', ''v0.15.1''] ''v0.14.0'' CsInstalled
       ''knaic-system'' [''kserve/kserve-controller:v0.14.0'', ''kserve/models-web-app:v0.14.0''] SyncSynced
       None (Some ByKnaic),
     seed_component ''hami'' ''HAMi''
       (''Heterogeneous AI computing virtualization '' @ em_dash @ '' GPU/NPU sharing scheduler.'')
       CatGPU [''v2.3.11'', ''v2.4.0''] ''v2.4.0'' CsInstalled
       ''knaic-system'' [''projecthami/hami:v2.4.0'', ''projecthami/hami-scheduler:v2.4.0''] SyncSynced
       None (Some ByKnaic),
     seed_component ''nvidia-device-plugin'' ''NVIDIA GPU Device Plugin''
       ''Exposes NVIDIA GPUs as schedulable resources on each node.''
       CatGPU [''v0.14.5'', ''v0.15.0'', ''v0.17.0''] ''v0.17.0'' CsUnmanaged
       ''kube-system'' [''nvcr.io/nvidia/k8s-device-plugin:v0.17.0''] SyncSynced
       (Some (''Detected at runtime '' @ em_dash @ '' installed via NVIDIA GPU Operator (OLM).'')) (Some ByOLM),
     seed_component ''kf-notebook-controller'' ''Kubeflow Notebook Controller''
       ''Creates and manages Jupyter notebook servers as Kubernetes resources.''
       CatNotebook [''v1.9.0'', ''v1.10.0''] ''v1.10.0'' CsNotInstalled
       ''knaic-system'' [''ghcr.io/kubeflow/kubeflow/notebook-controller:v1.10.0''] SyncPending
       None None,
     seed_component ''kf-trainer-v2'' ''Kubeflow Trainer v2''
       ''Next-generation Kubernetes training operator for LLM fine-tuning.''
       CatTraining [''v2.0.0-rc.0'', ''v2.0.0''] ''v2.0.0'' CsInstalled
       ''knaic-system'' [''kubeflow/trainer-controller-manager:v2.0.0''] SyncSynced
       None (Some ByKnaic),
     seed_component ''envoy-gateway'' ''Envoy Gateway''
       ''Kubernetes-native Envoy Gateway implementation.''
       CatNetworking [''v1.2.1'', ''v1.3.0''] ''v1.3.0'' CsInstalled
       ''knaic-system'' [''envoyproxy/gateway:v1.3.0''] SyncSynced
       None (Some ByKnaic),
     seed_component ''envoy-ai-gateway'' ''Envoy AI Gateway''
       ''LLM-aware routing, rate limiting and token quota on top of Envoy Gateway.''
       CatNetworking [''v0.2.0'', ''v0.3.0''] ''v0.3.0'' CsNotInstalled
       ''knaic-system'' [''envoyproxy/ai-gateway:v0.3.0''] SyncPending
       None None,
     seed_component ''lws'' ''LeaderWorkerSet (LWS)''
       ''Multi-host inference / training group scheduling primitive.''
       CatInference [''v0.4.1'', ''v0.5.0''] ''v0.5.0'' CsInstalled
       ''knaic-system'' [''registry.k8s.io/lws/lws:v0.5.0''] SyncSynced
       None (Some ByKnaic),
     seed_component ''jobset'' ''JobSet''
       ''Groups multiple Jobs into a single logical unit for distributed workloads.''
       CatScheduling [''v0.6.0'', ''v0.7.2''] ''v0.7.2'' CsInstalled
       ''knaic-system'' [''registry.k8s.io/jobset/jobset:v0.7.2''] SyncSynced
       None (Some ByKnaic),
     seed_component ''prometheus'' ''Prometheus''
       (''Metrics collection and storage '' @ em_dash @ '' powers the monitoring dashboards.'')
       CatObservability [''v2.54.0'', ''v2.55.0'', ''v3.0.0''] ''v2.55.0'' CsInstalled
       ''knaic-system'' [''prom/prometheus:v2.55.0'', ''prom/node-exporter:v1.8.2''] SyncSynced
       None (Some ByKnaic),
     seed_component ''mlflow'' ''MLflow''
       ''Experiment tracking and model registry. Used by TrainJobs to report metrics.''
       CatExperiment [''v2.16.2'', ''v2.17.1'', ''v2.18.0''] ''v2.18.0'' CsInstalled
       ''knaic-system'' [''ghcr.io/mlflow/mlflow:v2.18.0''] SyncSynced
       None (Some ByKnaic)]"

definition registry_seed :: RegistryConfig where
  "registry_seed =
    \<lparr>rg_endpoint = ''registry.knaic.local'', rg_username = ''knaic'', rg_project = ''components'',
     rg_useBuiltin = True, rg_totalImages = 24, rg_syncedImages = 22, rg_diskUsageGi = 178,
     rg_capacityGi = 512, rg_lastSyncedAt = None\<rparr>"

definition components_init :: components where
  "components_init =
    \<lparr>loaded = {}, in_flight = [], now = 0, timers = [], catalog = seedCatalog, statusLoading = {},
     didInitialLoad = False, registry = registry_seed,
     registry_loader = \<lparr>is_loaded = False, pending_fetches = []\<rparr>\<rparr>"

subsection \<open>Bindings\<close>

text \<open>The component's name goes into most paths as it is.\<close>

definition listComponents :: http_request where
  "listComponents = get_request ''/api/v1/components''"

definition patchComponent :: "string \<Rightarrow> string \<Rightarrow> http_request" where
  "patchComponent name selectedVersion =
     json_request PATCH (''/api/v1/components/'' @ name) (JObj [(''selectedVersion'', JStr selectedVersion)])"

definition installComponentApi :: "string \<Rightarrow> http_request" where
  "installComponentApi name = bare_request POST (''/api/v1/components/'' @ name @ ''/install'')"

definition uninstallComponentApi :: "string \<Rightarrow> http_request" where
  "uninstallComponentApi name = bare_request POST (''/api/v1/components/'' @ name @ ''/uninstall'')"

definition reconcileComponentApi :: "string \<Rightarrow> http_request" where
  "reconcileComponentApi name = bare_request POST (''/api/v1/components/'' @ name @ ''/reconcile'')"

definition fetchComponentStatus :: "string \<Rightarrow> http_request" where
  "fetchComponentStatus name = get_request (''/api/v1/components/status?name='' @ encodeURIComponent name)"

definition import_request_json :: "ComponentItem \<Rightarrow> json" where
  "import_request_json item = JObj
    [(''name'', JStr (co_name item)), (''displayName'', JStr (co_displayName item)),
     (''description'', JStr (co_description item)), (''category'', JStr (category_text (co_category item))),
     (''version'', JStr (co_selectedVersion item)), (''namespace'', JStr (co_namespace item)),
     (''images'', JArr (map JStr (co_images item)))]"

definition importComponent :: "json \<Rightarrow> http_request" where
  "importComponent req = json_request POST ''/api/v1/components'' req"

definition deleteComponent :: "string \<Rightarrow> http_request" where
  "deleteComponent name = bare_request DELETE (''/api/v1/components/'' @ name)"

definition getRegistry :: http_request where
  "getRegistry = get_request ''/api/v1/registry''"

text \<open>\<open>Partial<RegistryConfig>\<close>: the fields given.\<close>

record registry_patch =
  rp_endpoint :: "string option"
  rp_username :: "string option"
  rp_project :: "string option"
  rp_useBuiltin :: "bool option"
  rp_totalImages :: "int option"
  rp_syncedImages :: "int option"
  rp_diskUsageGi :: "int option"
  rp_capacityGi :: "int option"
  rp_lastSyncedAt :: "string option"

definition registry_patch_json :: "registry_patch \<Rightarrow> json" where
  "registry_patch_json p = jobj
    [(''endpoint'', map_option JStr (rp_endpoint p)), (''username'', map_option JStr (rp_username p)),
     (''project'', map_option JStr (rp_project p)), (''useBuiltin'', map_option JBool (rp_useBuiltin p)),
     (''totalImages'', map_option jint (rp_totalImages p)), (''syncedImages'', map_option jint (rp_syncedImages p)),
     (''diskUsageGi'', map_option jint (rp_diskUsageGi p)), (''capacityGi'', map_option jint (rp_capacityGi p)),
     (''lastSyncedAt'', map_option JStr (rp_lastSyncedAt p))]"

definition patchRegistry :: "registry_patch \<Rightarrow> http_request" where
  "patchRegistry p = json_request PATCH ''/api/v1/registry'' (registry_patch_json p)"

definition syncRegistry :: http_request where
  "syncRegistry = bare_request POST ''/api/v1/registry/sync''"

subsection \<open>Loading and refreshing\<close>

definition set_component :: "string \<Rightarrow> (ComponentItem \<Rightarrow> ComponentItem) \<Rightarrow> components \<Rightarrow> components" where
  "set_component name f s = s\<lparr>catalog := map_where (\<lambda>c. co_name c = name) f (catalog s)\<rparr>"

definition replaceOne :: "ComponentItem \<Rightarrow> components \<Rightarrow> components" where
  "replaceOne updated s = set_component (co_name updated) (\<lambda>_. updated) s"

definition markStatusLoading :: "string \<Rightarrow> bool \<Rightarrow> components \<Rightarrow> components" where
  "markStatusLoading name loading s =
     s\<lparr>statusLoading := if loading then insert name (statusLoading s) else statusLoading s - {name}\<rparr>"

definition refreshStatus :: "bool \<Rightarrow> string \<Rightarrow> components \<Rightarrow> components" where
  "refreshStatus api name s =
     (if \<not> api then s
      else send_request (load_key ''status'' name) (fetchComponentStatus name) (markStatusLoading name True s))"

definition status_answered :: "string \<Rightarrow> ComponentItem promise \<Rightarrow> components \<Rightarrow> components" where
  "status_answered name answer s =
     markStatusLoading name False
       (case answer of
          Inl e \<Rightarrow> land (load_key ''status'' name) s
        | Inr updated \<Rightarrow> replaceOne updated (land (load_key ''status'' name) s))"

definition refreshAllStatuses :: "bool \<Rightarrow> string list \<Rightarrow> components \<Rightarrow> components" where
  "refreshAllStatuses api names s = (if \<not> api then s else fold (refreshStatus api) names s)"

definition loadFromApi :: "bool \<Rightarrow> components \<Rightarrow> components" where
  "loadFromApi api s = (if \<not> api then s else send_request ''load'' listComponents s)"

definition components_arrived :: "ComponentItem list \<Rightarrow> components \<Rightarrow> components" where
  "components_arrived items s =
     refreshAllStatuses True (map co_name items)
       (land ''load'' (s\<lparr>catalog := items, didInitialLoad := True\<rparr>))"

definition components_failed :: "components \<Rightarrow> components" where
  "components_failed s = land ''load'' s"

definition ensureInitialLoad :: "bool \<Rightarrow> components \<Rightarrow> components" where
  "ensureInitialLoad api s = (if didInitialLoad s \<or> \<not> api then s else loadFromApi api s)"

subsection \<open>Operations\<close>

text \<open>\<open>Partial<ComponentItem>\<close>: the fields given replace the row's.\<close>

record component_patch =
  cp_name :: "string option"
  cp_displayName :: "string option"
  cp_description :: "string option"
  cp_category :: "component_category option"
  cp_versions :: "(string list) option"
  cp_selectedVersion :: "string option"
  cp_status :: "component_status option"
  cp_namespace :: "string option"
  cp_images :: "(string list) option"
  cp_imageSync :: "image_sync option"
  cp_notes :: "string option"
  cp_managedBy :: "manager option"
  cp_builtin :: "bool option"
  cp_embedded :: "bool option"
  cp_lastError :: "string option"

definition no_patch :: component_patch where
  "no_patch = \<lparr>cp_name = None, cp_displayName = None, cp_description = None, cp_category = None, cp_versions = None, cp_selectedVersion = None, cp_status = None, cp_namespace = None, cp_images = None, cp_imageSync = None, cp_notes = None, cp_managedBy = None, cp_builtin = None, cp_embedded = None, cp_lastError = None\<rparr>"

definition apply_patch :: "component_patch \<Rightarrow> ComponentItem \<Rightarrow> ComponentItem" where
  "apply_patch p c =
    \<lparr>co_name = nullish (cp_name p) (co_name c),
     co_displayName = nullish (cp_displayName p) (co_displayName c),
     co_description = nullish (cp_description p) (co_description c),
     co_category = nullish (cp_category p) (co_category c),
     co_versions = nullish (cp_versions p) (co_versions c),
     co_selectedVersion = nullish (cp_selectedVersion p) (co_selectedVersion c),
     co_status = nullish (cp_status p) (co_status c),
     co_namespace = nullish (cp_namespace p) (co_namespace c),
     co_images = nullish (cp_images p) (co_images c),
     co_imageSync = nullish (cp_imageSync p) (co_imageSync c),
     co_notes = nullish_opt (cp_notes p) (co_notes c),
     co_managedBy = nullish_opt (cp_managedBy p) (co_managedBy c),
     co_builtin = nullish (cp_builtin p) (co_builtin c),
     co_embedded = nullish_opt (cp_embedded p) (co_embedded c),
     co_lastError = nullish_opt (cp_lastError p) (co_lastError c)\<rparr>"

definition updateComponent :: "bool \<Rightarrow> string \<Rightarrow> component_patch \<Rightarrow> components \<Rightarrow> components" where
  "updateComponent api name patch s =
     (let s' = set_component name (apply_patch patch) s
      in if api \<and> truthy_str (cp_selectedVersion patch)
         then send_request (load_key ''patch'' name) (patchComponent name (nullish (cp_selectedVersion patch) '''')) s'
         else s')"

definition patch_answered :: "string \<Rightarrow> ComponentItem promise \<Rightarrow> components \<Rightarrow> components" where
  "patch_answered name answer s =
     (case answer of Inl e \<Rightarrow> land (load_key ''patch'' name) s
      | Inr updated \<Rightarrow> replaceOne updated (land (load_key ''patch'' name) s))"

definition installComponent :: "bool \<Rightarrow> string \<Rightarrow> components \<Rightarrow> components" where
  "installComponent api name s =
     (if api then
        send_request (load_key ''install'' name) (installComponentApi name)
          (set_component name (\<lambda>c. c\<lparr>co_status := CsInstalling\<rparr>) s)
      else
        setTimeout (InstallDone name) 2500 (setTimeout (ImagesSynced name) 1200
          (set_component name (\<lambda>c. c\<lparr>co_status := CsInstalling, co_imageSync := SyncPending,
             co_managedBy := Some ByKnaic\<rparr>) s)))"

definition mark_failed :: "string \<Rightarrow> js_error \<Rightarrow> components \<Rightarrow> components" where
  "mark_failed name e s =
     set_component name (\<lambda>c. c\<lparr>co_status := CsFailed, co_lastError := Some (js_message e)\<rparr>) s"

definition install_answered :: "string \<Rightarrow> ComponentItem promise \<Rightarrow> components \<Rightarrow> unit promise \<times> components" where
  "install_answered name answer s =
     (case answer of
        Inl e \<Rightarrow> (Inl e, mark_failed name e (land (load_key ''install'' name) s))
      | Inr updated \<Rightarrow> (Inr (), replaceOne updated (land (load_key ''install'' name) s)))"

definition uninstallComponent ::
  "bool \<Rightarrow> ComponentItem backend \<Rightarrow> string \<Rightarrow> components \<Rightarrow> unit promise \<times> components" where
  "uninstallComponent api send name s =
     (if api then
        (case send (uninstallComponentApi name) of
           Inl e \<Rightarrow> (Inl e, mark_failed name e s)
         | Inr updated \<Rightarrow> (Inr (), replaceOne updated s))
      else (Inr (), set_component name (\<lambda>c. c\<lparr>co_status := CsNotInstalled, co_imageSync := SyncPending\<rparr>) s))"

definition reconcileComponent :: "bool \<Rightarrow> string \<Rightarrow> components \<Rightarrow> components" where
  "reconcileComponent api name s =
     (let s' = set_component name (\<lambda>c. c\<lparr>co_status := CsInstalling\<rparr>) s
      in if api then send_request (load_key ''reconcile'' name) (reconcileComponentApi name) s'
         else setTimeout (ReconcileDone name) 1500 s')"

definition reconcile_answered :: "string \<Rightarrow> ComponentItem promise \<Rightarrow> components \<Rightarrow> unit promise \<times> components" where
  "reconcile_answered name answer s =
     (case answer of
        Inl e \<Rightarrow> (Inl e, land (load_key ''reconcile'' name) s)
      | Inr updated \<Rightarrow> (Inr (), replaceOne updated (land (load_key ''reconcile'' name) s)))"

text \<open>The item comes without \<open>builtin\<close>; that field of the argument is ignored.\<close>

definition addImportedComponent ::
  "bool \<Rightarrow> ComponentItem backend \<Rightarrow> ComponentItem \<Rightarrow> components \<Rightarrow> unit promise \<times> components" where
  "addImportedComponent api send item s =
     (if api then
        (case send (importComponent (import_request_json item)) of
           Inl e \<Rightarrow> (Inl e, s)
         | Inr created \<Rightarrow> (Inr (), s\<lparr>catalog := catalog s @ [created]\<rparr>))
      else (Inr (), s\<lparr>catalog := catalog s @ [item\<lparr>co_builtin := False\<rparr>]\<rparr>))"

definition removeComponent ::
  "bool \<Rightarrow> 'r backend \<Rightarrow> string \<Rightarrow> components \<Rightarrow> unit promise \<times> components" where
  "removeComponent api send name s =
     (let s' = s\<lparr>catalog := drop_where (\<lambda>c. co_name c = name) (catalog s)\<rparr>
      in if api then (case send (deleteComponent name) of Inl e \<Rightarrow> (Inl e, s) | Inr _ \<Rightarrow> (Inr (), s'))
         else (Inr (), s'))"

fun component_run :: "component_timer \<Rightarrow> components \<Rightarrow> components" where
  "component_run (ImagesSynced name) s = set_component name (\<lambda>c. c\<lparr>co_imageSync := SyncSynced\<rparr>) s"
| "component_run (InstallDone name) s = set_component name (\<lambda>c. c\<lparr>co_status := CsInstalled\<rparr>) s"
| "component_run (ReconcileDone name) s = set_component name (\<lambda>c. c\<lparr>co_status := CsInstalled\<rparr>) s"

definition components_elapse :: "nat \<Rightarrow> components \<Rightarrow> components" where
  "components_elapse t s = elapse component_run t s"

subsection \<open>Registry\<close>

definition ensureRegistryLoaded :: "bool \<Rightarrow> components \<Rightarrow> components" where
  "ensureRegistryLoaded api s =
     (if \<not> api then s else s\<lparr>registry_loader := start_flag getRegistry (registry_loader s)\<rparr>)"

definition registry_arrived :: "RegistryConfig \<Rightarrow> components \<Rightarrow> components" where
  "registry_arrived cfg s = s\<lparr>registry := cfg, registry_loader := land_flag (registry_loader s)\<rparr>"

definition registry_failed :: "components \<Rightarrow> components" where
  "registry_failed s = s\<lparr>registry_loader := flag_failed (registry_loader s)\<rparr>"

definition syncAllImages :: "bool \<Rightarrow> RegistryConfig backend \<Rightarrow> components \<Rightarrow> unit promise \<times> components" where
  "syncAllImages api send s =
     (if api then (case send syncRegistry of Inl e \<Rightarrow> (Inl e, s) | Inr cfg \<Rightarrow> (Inr (), s\<lparr>registry := cfg\<rparr>))
      else (Inr (), s\<lparr>registry := (registry s)\<lparr>rg_syncedImages := rg_totalImages (registry s)\<rparr>\<rparr>))"

definition apply_registry_patch :: "registry_patch \<Rightarrow> RegistryConfig \<Rightarrow> RegistryConfig" where
  "apply_registry_patch p r =
    \<lparr>rg_endpoint = nullish (rp_endpoint p) (rg_endpoint r),
     rg_username = nullish (rp_username p) (rg_username r),
     rg_project = nullish (rp_project p) (rg_project r),
     rg_useBuiltin = nullish (rp_useBuiltin p) (rg_useBuiltin r),
     rg_totalImages = nullish (rp_totalImages p) (rg_totalImages r),
     rg_syncedImages = nullish (rp_syncedImages p) (rg_syncedImages r),
     rg_diskUsageGi = nullish (rp_diskUsageGi p) (rg_diskUsageGi r),
     rg_capacityGi = nullish (rp_capacityGi p) (rg_capacityGi r),
     rg_lastSyncedAt = nullish_opt (rp_lastSyncedAt p) (rg_lastSyncedAt r)\<rparr>"

definition updateRegistry ::
  "bool \<Rightarrow> RegistryConfig backend \<Rightarrow> registry_patch \<Rightarrow> components \<Rightarrow> unit promise \<times> components" where
  "updateRegistry api send p s =
     (if api then (case send (patchRegistry p) of Inl e \<Rightarrow> (Inl e, s) | Inr cfg \<Rightarrow> (Inr (), s\<lparr>registry := cfg\<rparr>))
      else (Inr (), s\<lparr>registry := apply_registry_patch p (registry s)\<rparr>))"

definition sampleImportedChart :: "string \<Rightarrow> string \<Rightarrow> ComponentItem" where
  "sampleImportedChart name version =
    \<lparr>co_name = name, co_displayName = name, co_description = ''Imported Helm chart.'',
     co_category = CatInference, co_versions = [version], co_selectedVersion = version,
     co_status = CsNotInstalled, co_namespace = ''knaic-system'',
     co_images = [''registry.example.com/'' @ name @ '':'' @ version], co_imageSync = SyncPending,
     co_notes = None, co_managedBy = None, co_builtin = False, co_embedded = None, co_lastError = None\<rparr>"

subsection \<open>Callbacks, row by row\<close>

fun co_hits :: "component_timer \<Rightarrow> ComponentItem \<Rightarrow> bool" where
  "co_hits (ImagesSynced name) c = False"
| "co_hits (InstallDone name) c = (co_name c = name)"
| "co_hits (ReconcileDone name) c = (co_name c = name)"

fun co_eff :: "component_timer \<Rightarrow> ComponentItem \<Rightarrow> ComponentItem" where
  "co_eff (ImagesSynced name) c = (if co_name c = name then c\<lparr>co_imageSync := SyncSynced\<rparr> else c)"
| "co_eff (InstallDone name) c = (if co_name c = name then c\<lparr>co_status := CsInstalled\<rparr> else c)"
| "co_eff (ReconcileDone name) c = (if co_name c = name then c\<lparr>co_status := CsInstalled\<rparr> else c)"

definition co_status_eff :: "component_timer \<Rightarrow> ComponentItem \<Rightarrow> ComponentItem" where
  "co_status_eff e c = (co_eff e c)\<lparr>co_imageSync := co_imageSync c\<rparr>"

definition co_settled :: "ComponentItem \<Rightarrow> bool" where
  "co_settled c \<longleftrightarrow> co_status c \<noteq> CsInstalling"

text \<open>Callbacks act on the status as a settling family; the image flag runs beside it.\<close>

interpretation co_timers: settling co_status_eff co_hits co_settled
proof unfold_locales
  fix e e' c
  show "\<not> co_hits e c \<Longrightarrow> co_status_eff e c = c" by (cases e) (simp_all add: co_status_eff_def)
  show "co_hits e c \<Longrightarrow> co_settled (co_status_eff e c)"
    by (cases e) (simp_all add: co_status_eff_def co_settled_def)
  show "co_hits e' (co_status_eff e c) = co_hits e' c"
    by (cases e; cases e') (simp_all add: co_status_eff_def)
qed

lemma co_eff_frame [simp]: "co_name (co_eff e c) = co_name c" "co_hits e' (co_eff e c) = co_hits e' c"
  by (cases e; simp) (cases e; cases e'; simp)

lemma co_fold_name [simp]: "co_name (fold co_eff es c) = co_name c"
  by (induction es arbitrary: c) simp_all

lemma co_status_fold: "co_status (fold co_eff es c) = co_status (fold co_status_eff es c')"
  if "co_status c = co_status c'" "co_name c = co_name c'" for c c'
  using that
proof (induction es arbitrary: c c')
  case (Cons e es)
  have "co_status (co_eff e c) = co_status (co_status_eff e c')" "co_name (co_eff e c) = co_name (co_status_eff e c')"
    using Cons.prems by (cases e; simp add: co_status_eff_def)+
  then show ?case using Cons.IH by simp
qed simp

lemma component_run_fields:
  "catalog (component_run e s) = map (co_eff e) (catalog s)" "timers (component_run e s) = timers s"
  "statusLoading (component_run e s) = statusLoading s" "registry (component_run e s) = registry s"
  by (cases e; simp add: set_component_def map_where_def)+

lemma component_fold_fields:
  "catalog (fold component_run es s) = map (fold co_eff es) (catalog s)"
  "timers (fold component_run es s) = timers s"
  by (induction es arbitrary: s) (simp_all add: component_run_fields)

lemma components_elapse_fields:
  "catalog (components_elapse t s) = map (fold co_eff (due t s)) (catalog s)"
  "timers (components_elapse t s) = filter (\<lambda>e. \<not> fst e \<le> t) (timers s)"
  by (simp_all add: components_elapse_def elapse_def component_fold_fields)

lemma awaited_co: "awaited co_hits co_settled ts c' = awaited co_hits co_settled ts c"
  if "co_status c' = co_status c" "co_name c' = co_name c"
proof -
  have "co_hits e c' = co_hits e c" for e using that by (cases e) simp_all
  with that show ?thesis by (simp add: awaited_def co_settled_def)
qed

lemma awaited_co_elapse:
  assumes "awaited co_hits co_settled (timers s) c"
  shows "awaited co_hits co_settled (filter (\<lambda>e. \<not> fst e \<le> t) (timers s)) (fold co_eff (due t s) c)"
proof -
  have "co_name (fold co_status_eff es c) = co_name c" for es
    by (induction es arbitrary: c) (simp_all add: co_status_eff_def)
  then show ?thesis
    using co_timers.awaited_elapse [OF assms, of t] co_status_fold [of c c "due t s"]
    by (subst awaited_co [of _ "fold co_status_eff (due t s) c"]) simp_all
qed

subsection \<open>The prototype mode as a state machine\<close>

text \<open>
  A page patches a row with anything but a status, and imports charts that are not being
  installed (\<open>sampleImportedChart\<close> is not).
\<close>

inductive component_step :: "components \<Rightarrow> components \<Rightarrow> bool" where
  "component_step s (installComponent False name s)"
| "component_step s (snd (uninstallComponent False send name s))"
| "component_step s (reconcileComponent False name s)"
| "cp_status patch = None \<Longrightarrow> cp_name patch = None \<Longrightarrow> component_step s (updateComponent False name patch s)"
| "co_status item \<noteq> CsInstalling \<Longrightarrow> component_step s (snd (addImportedComponent False send item s))"
| "component_step s (snd (removeComponent False (send :: unit backend) name s))"
| "now s \<le> t \<Longrightarrow> component_step s (components_elapse t s)"

inductive component_reach :: "components \<Rightarrow> bool" where
  "component_reach components_init"
| "component_reach s \<Longrightarrow> component_step s s' \<Longrightarrow> component_reach s'"

inductive_cases component_stepE: "component_step s s'"

definition components_awaited :: "components \<Rightarrow> bool" where
  "components_awaited s \<longleftrightarrow> (\<forall>c \<in> set (catalog s). awaited co_hits co_settled (timers s) c)"

lemma components_awaited_init: "components_awaited components_init"
  unfolding components_awaited_def components_init_def seedCatalog_def
  by (auto intro!: awaited_settled simp: co_settled_def seed_component_def)

lemma components_awaited_set:
  assumes "components_awaited s" "set (timers s) \<subseteq> set ts"
    and "\<And>c. c \<in> set (catalog s) \<Longrightarrow> co_name c = name \<Longrightarrow> awaited co_hits co_settled ts (f c)"
  shows "\<forall>c \<in> set (map_where (\<lambda>c. co_name c = name) f (catalog s)). awaited co_hits co_settled ts c"
proof -
  have "awaited co_hits co_settled ts c" if "c \<in> set (catalog s)" for c
    using assms(1) that by (intro awaited_mono [OF _ assms(2)]) (simp add: components_awaited_def)
  then show ?thesis using assms(3) by (auto simp: in_map_where)
qed

lemma components_awaited_step: "component_step s s' \<Longrightarrow> components_awaited s \<Longrightarrow> components_awaited s'"
proof (induction rule: component_step.induct)
  case (1 s name)
  let ?ts = "timers s @ [(now s + 1200, ImagesSynced name), (now s + 2500, InstallDone name)]"
  have "(now s + 2500, InstallDone name) \<in> set ?ts" by simp
  then have "awaited co_hits co_settled ?ts c" if "co_name c = name" for c
    using that by (blast intro: awaited_timer co_hits.simps(2) [THEN iffD2])
  then show ?case
    by (simp add: components_awaited_def installComponent_def setTimeout_def set_component_def)
      (rule components_awaited_set [OF 1]; auto)
next
  case (2 s send name)
  show ?case
    by (simp add: components_awaited_def uninstallComponent_def set_component_def)
      (rule components_awaited_set [OF 2]; simp add: awaited_settled co_settled_def)
next
  case (3 s name)
  let ?ts = "timers s @ [(now s + 1500, ReconcileDone name)]"
  have "(now s + 1500, ReconcileDone name) \<in> set ?ts" by simp
  then have "awaited co_hits co_settled ?ts c" if "co_name c = name" for c
    using that by (blast intro: awaited_timer co_hits.simps(3) [THEN iffD2])
  then show ?case
    by (simp add: components_awaited_def reconcileComponent_def setTimeout_def set_component_def)
      (rule components_awaited_set [OF 3]; auto)
next
  case (4 patch s name)
  have "awaited co_hits co_settled (timers s) (apply_patch patch c)" if "c \<in> set (catalog s)" for c
    using 4 that awaited_co [of "apply_patch patch c" c] by (simp add: components_awaited_def apply_patch_def)
  then show ?case
    by (simp add: components_awaited_def updateComponent_def set_component_def)
      (rule components_awaited_set [OF 4(3)]; simp)
next
  case (5 item s send)
  then show ?case
    by (auto simp: components_awaited_def addImportedComponent_def co_settled_def)
next
  case (6 s send name)
  then show ?case by (simp add: components_awaited_def removeComponent_def Let_def)
next
  case (7 s t)
  then show ?case
    by (auto simp: components_awaited_def components_elapse_fields intro: awaited_co_elapse)
qed

lemma component_reach_awaited: "component_reach s \<Longrightarrow> components_awaited s"
  by (induction rule: component_reach.induct) (auto intro: components_awaited_init components_awaited_step)

subsection \<open>Properties\<close>

text \<open>
  C32. In prototype mode a component is Installing only while a timer will end it: in every state
  reachable by installing, uninstalling, reconciling, patching, importing and removing components
  while time passes, each Installing row has a pending install or reconcile callback of its name,
  and once the clock passes every pending timer no row is Installing.
\<close>

theorem installing_is_awaited:
  assumes "component_reach s"
  shows "(\<forall>c \<in> set (catalog s). co_status c = CsInstalling \<longrightarrow>
      (\<exists>t. (t, InstallDone (co_name c)) \<in> set (timers s) \<or> (t, ReconcileDone (co_name c)) \<in> set (timers s))) \<and>
    (\<forall>t. (\<forall>e \<in> set (timers s). fst e \<le> t) \<longrightarrow>
      (\<forall>c \<in> set (catalog (components_elapse t s)). co_status c \<noteq> CsInstalling))"
proof -
  have aw: "awaited co_hits co_settled (timers s) c" if "c \<in> set (catalog s)" for c
    using component_reach_awaited [OF assms] that by (simp add: components_awaited_def)
  have timer: "\<exists>t. (t, InstallDone (co_name c)) \<in> set ts \<or> (t, ReconcileDone (co_name c)) \<in> set ts"
    if "(t, e) \<in> set ts" "co_hits e c" for t e ts c
    using that by (cases e) auto
  have "\<exists>t. (t, InstallDone (co_name c)) \<in> set (timers s) \<or> (t, ReconcileDone (co_name c)) \<in> set (timers s)"
    if "c \<in> set (catalog s)" "co_status c = CsInstalling" for c
    using aw [OF that(1)] that(2) unfolding awaited_def co_settled_def by (blast dest: timer)
  moreover have "co_status (fold co_eff (due t s) c) \<noteq> CsInstalling"
    if "\<forall>e \<in> set (timers s). fst e \<le> t" "c \<in> set (catalog s)" for t c
    using co_timers.awaited_all_due [OF aw [OF that(2)] that(1)] co_status_fold [of c c "due t s"]
    by (simp add: co_settled_def)
  ultimately show ?thesis
    by (auto simp: components_elapse_fields)
qed

theorem installing_is_awaited_witness:
  "filter (\<lambda>c. co_status c = CsInstalling)
     (catalog (components_elapse 2500 (installComponent False ''envoy-ai-gateway'' components_init))) = []"
proof -
  have "component_reach (installComponent False ''envoy-ai-gateway'' components_init)"
    by (rule component_reach.intros(2) [OF component_reach.intros(1) component_step.intros(1)])
  moreover have "\<forall>e \<in> set (timers (installComponent False ''envoy-ai-gateway'' components_init)). fst e \<le> 2500"
    by (simp add: installComponent_def setTimeout_def set_component_def components_init_def)
  ultimately show ?thesis
    using installing_is_awaited by (auto simp: filter_empty_conv)
qed

text \<open>A row's way through an install that nothing else interferes with.\<close>

lemma elapse_two:
  "timers s = [(a, e), (b, f)] \<Longrightarrow> a \<le> t \<Longrightarrow> t < b \<Longrightarrow> due t s = [e]"
  "timers s = [(a, e), (b, f)] \<Longrightarrow> a \<le> b \<Longrightarrow> b \<le> t \<Longrightarrow> due t s = [e, f]"
  by (simp_all add: due_def)

text \<open>
  An install in prototype mode runs through its stages: with no timer pending, 1200 ms after
  the click the component's images are synced while it is still Installing, and from 2500 ms on it is
  Installed, synced and managed by knaic; no other row changes at any time.
\<close>

theorem install_stages:
  assumes "timers s = []" "t < 2500"
  shows "catalog (components_elapse (now s + 2500 + t) (installComponent False name s)) =
      map_where (\<lambda>c. co_name c = name)
        (\<lambda>c. c\<lparr>co_status := CsInstalled, co_imageSync := SyncSynced, co_managedBy := Some ByKnaic\<rparr>) (catalog s) \<and>
    catalog (components_elapse (now s + t) (installComponent False name s)) =
      map_where (\<lambda>c. co_name c = name)
        (\<lambda>c. c\<lparr>co_status := CsInstalling, co_imageSync := (if t < 1200 then SyncPending else SyncSynced),
               co_managedBy := Some ByKnaic\<rparr>) (catalog s)"
proof -
  let ?s = "installComponent False name s"
  have ts: "timers ?s = [(now s + 1200, ImagesSynced name), (now s + 2500, InstallDone name)]"
    using assms(1) by (simp add: installComponent_def setTimeout_def set_component_def)
  have cat: "catalog ?s = map_where (\<lambda>c. co_name c = name)
      (\<lambda>c. c\<lparr>co_status := CsInstalling, co_imageSync := SyncPending, co_managedBy := Some ByKnaic\<rparr>) (catalog s)"
    by (simp add: installComponent_def setTimeout_def set_component_def)
  have late: "due (now s + 2500 + t) ?s = [ImagesSynced name, InstallDone name]"
    by (rule elapse_two(2) [OF ts]) simp_all
  have early: "due (now s + t) ?s = (if t < 1200 then [] else [ImagesSynced name])"
  proof (cases "t < 1200")
    case True
    then have "due (now s + t) ?s = []" by (intro due_none) (auto simp: ts)
    with True show ?thesis by simp
  qed (use elapse_two(1) [OF ts, of "now s + t"] assms(2) in simp)
  show ?thesis
    by (simp add: components_elapse_fields late early cat map_where_def)
qed

theorem install_stages_witness:
  "map co_status (catalog (components_elapse 2500 (installComponent False ''mlflow''
     (components_init\<lparr>catalog := [sampleImportedChart ''mlflow'' ''v1'']\<rparr>)))) = [CsInstalled]"
  using install_stages [of "components_init\<lparr>catalog := [sampleImportedChart ''mlflow'' ''v1'']\<rparr>" 0 "''mlflow''"]
  by (simp add: components_init_def sampleImportedChart_def)

text \<open>
  An uninstall does not stop a running install: when it comes before the install's 2500 ms are
  over, the component is back to Installed at the end of them.
\<close>

theorem uninstall_overtaken:
  assumes "timers s = []" "k < 2500" "c \<in> set (catalog s)" "co_name c = name"
  shows "\<exists>c' \<in> set (catalog (components_elapse (now s + 2500)
      (snd (uninstallComponent False send name (components_elapse (now s + k) (installComponent False name s)))))).
    co_name c' = name \<and> co_status c' = CsInstalled"
proof -
  let ?s1 = "components_elapse (now s + k) (installComponent False name s)"
  let ?s2 = "snd (uninstallComponent False send name ?s1)"
  have ts: "(now s + 2500, InstallDone name) \<in> set (timers ?s2)"
    using assms by (simp add: uninstallComponent_def set_component_def components_elapse_fields
        installComponent_def setTimeout_def)
  then have hit: "InstallDone name \<in> set (due (now s + 2500) ?s2)"
    by (auto simp: set_due)
  have "map co_name (catalog ?s2) = map co_name (catalog s)"
    by (simp add: uninstallComponent_def set_component_def components_elapse_fields
        installComponent_def setTimeout_def map_where_def comp_def if_distrib cong: if_cong)
  then have "set (map co_name (catalog ?s2)) = set (map co_name (catalog s))" by simp
  then have "name \<in> co_name ` set (catalog ?s2)"
    using assms(3, 4) by auto
  then obtain d where d: "d \<in> set (catalog ?s2)" "co_name d = name" by auto
  have running: "co_status x = CsInstalled \<Longrightarrow> co_status (fold co_eff es x) = CsInstalled" for es x
  proof (induction es arbitrary: x)
    case (Cons e es)
    then have "co_status (co_eff e x) = CsInstalled" by (cases e) simp_all
    then show ?case using Cons.IH by simp
  qed simp
  have "co_name x = name \<Longrightarrow> InstallDone name \<in> set es \<Longrightarrow> co_status (fold co_eff es x) = CsInstalled" for es x
    by (induction es arbitrary: x) (auto simp: running)
  then show ?thesis
    using d hit by (auto simp: components_elapse_fields [of "now s + 2500" ?s2])
qed

theorem uninstall_overtaken_witness:
  "\<exists>c' \<in> set (catalog (components_elapse 2500 (snd (uninstallComponent False (\<lambda>_. Inl (JsError '''')) ''mlflow''
     (components_elapse 2000 (installComponent False ''mlflow''
       (components_init\<lparr>catalog := [sampleImportedChart ''mlflow'' ''v1'']\<rparr>))))))). co_status c' = CsInstalled"
proof -
  let ?s = "components_init\<lparr>catalog := [sampleImportedChart ''mlflow'' ''v1'']\<rparr>"
  have "timers ?s = []" "(2000 :: nat) < 2500" "sampleImportedChart ''mlflow'' ''v1'' \<in> set (catalog ?s)"
    "co_name (sampleImportedChart ''mlflow'' ''v1'') = ''mlflow''" and n: "now ?s = 0"
    by (simp_all add: components_init_def sampleImportedChart_def)
  from uninstall_overtaken [OF this(1-4), of "\<lambda>_. Inl (JsError '''')"] show ?thesis
    unfolding n by auto
qed

text \<open>
  Install against the API, both outcomes: the row reads Installing while the request is out;
  when it succeeds every row of the returned name is the server's; when it is rejected the row reads
  Failed with the error's message, and the error reaches the caller. A rejected reconcile hands the
  error on as well, but leaves the row reading Installing.
\<close>

theorem api_install_outcomes:
  assumes "c \<in> set (catalog s)" "co_name c = name"
  shows "(\<forall>d \<in> set (catalog (installComponent True name s)). co_name d = name \<longrightarrow> co_status d = CsInstalling) \<and>
    (case install_answered name answer (installComponent True name s) of (r, s') \<Rightarrow>
       (case answer of
          Inl e \<Rightarrow> r = Inl e \<and> (\<forall>d \<in> set (catalog s'). co_name d = name \<longrightarrow>
            co_status d = CsFailed \<and> co_lastError d = Some (js_message e))
        | Inr updated \<Rightarrow> r = Inr () \<and> (\<forall>d \<in> set (catalog s'). co_name d = co_name updated \<longrightarrow> d = updated))) \<and>
    (case reconcile_answered name (Inl err) (reconcileComponent True name s) of (r, s') \<Rightarrow>
       r = Inl err \<and> (\<exists>d \<in> set (catalog s'). co_name d = name \<and> co_status d = CsInstalling))"
proof -
  have "c\<lparr>co_status := CsInstalling\<rparr> \<in> set (catalog (reconcileComponent True name s))"
    using assms by (auto simp: reconcileComponent_def send_request_def set_component_def in_map_where)
  then have "\<exists>d \<in> set (catalog (reconcileComponent True name s)). co_name d = name \<and> co_status d = CsInstalling"
    using assms(2) by (intro bexI [of _ "c\<lparr>co_status := CsInstalling\<rparr>"]) simp_all
  then show ?thesis
    by (simp add: installComponent_def install_answered_def mark_failed_def replaceOne_def set_component_def
        send_request_def land_def ball_map_where reconcile_answered_def split: sum.splits)
qed

theorem api_install_outcomes_witness:
  "fst (install_answered ''mlflow'' (Inl (ApiError 500 ''boom''))
     (installComponent True ''mlflow'' (components_init\<lparr>catalog := [sampleImportedChart ''mlflow'' ''v1'']\<rparr>)))
   = Inl (ApiError 500 ''boom'')"
proof -
  let ?s = "components_init\<lparr>catalog := [sampleImportedChart ''mlflow'' ''v1'']\<rparr>"
  have "sampleImportedChart ''mlflow'' ''v1'' \<in> set (catalog ?s)" "co_name (sampleImportedChart ''mlflow'' ''v1'') = ''mlflow''"
    by (simp_all add: sampleImportedChart_def)
  from api_install_outcomes [OF this, where answer = "Inl (ApiError 500 ''boom'')" and err = "JsError []"] show ?thesis
    by (simp add: case_prod_unfold)
qed

end
