(* ===== verification/Models.thy ===== *)
theory Models
  imports Workloads
begin

text \<open>
  \<open>frontend/src/api/models.ts\<close> and \<open>frontend/src/data/models.ts\<close>: the model catalogue, cached per
  scope and namespace, importing a model from a hub's web address, registering an upload, patching
  and deleting, and the readings of a model URI (its scheme, its public web page).
\<close>

subsection \<open>Rows\<close>

datatype model_scope = Public | Private

fun scope_text :: "model_scope \<Rightarrow> string" where
  "scope_text Public = ''public''"
| "scope_text Private = ''private''"

datatype model_scheme = Hf | Modelscope | S3 | Oci | Gitlab | Pvc | Git

datatype derived_kind = Finetune | Quantization | Adapter | NoKind

fun derived_text :: "derived_kind \<Rightarrow> string" where
  "derived_text Finetune = ''finetune''"
| "derived_text Quantization = ''quantization''"
| "derived_text Adapter = ''adapter''"
| "derived_text NoKind = ''''"

text \<open>A size is a decimal, as in \<open>JNum\<close>.\<close>

record ModelItem =
  m_id :: string
  m_name :: string
  m_owner :: string
  m_scope :: model_scope
  m_namespace :: "string option"
  m_uri :: string
  m_scheme :: model_scheme
  m_tags :: "string list option"
  m_modelType :: string
  m_sizeGB :: "(int \<times> int) option"
  m_downloads :: "int option"
  m_createdAt :: "string option"
  m_updatedAt :: "string option"
  m_readme :: "string option"
  m_collectionId :: "string option"
  m_parentModelId :: "string option"
  m_derivedKind :: "derived_kind option"
  m_sourceUrl :: "string option"

record models = loader +
  model_items :: "ModelItem list"

definition seed_model ::
  "string \<Rightarrow> string \<Rightarrow> string \<Rightarrow> string \<Rightarrow> model_scope \<Rightarrow> string option \<Rightarrow> string \<Rightarrow> model_scheme \<Rightarrow>
     string list \<Rightarrow> string \<Rightarrow> int \<times> int \<Rightarrow> int \<Rightarrow> string \<Rightarrow> ModelItem" where
  "seed_model i today name owner scope ns uri scheme tags type gb downloads readme =
    \<lparr>m_id = i, m_name = name, m_owner = owner, m_scope = scope, m_namespace = ns, m_uri = uri,
     m_scheme = scheme, m_tags = Some tags, m_modelType = type, m_sizeGB = Some gb,
     m_downloads = Some downloads, m_createdAt = Some today, m_updatedAt = Some today,
     m_readme = Some readme, m_collectionId = None, m_parentModelId = None, m_derivedKind = None,
     m_sourceUrl = None\<rparr>"

definition models_initial :: "(nat \<Rightarrow> string) \<Rightarrow> string \<Rightarrow> ModelItem list" where
  "models_initial draw today =
    [seed_model (uid (draw 0) ''m'') today ''Qwen/Qwen3.5-7B-Instruct'' ''Qwen'' Public None
       ''hf-mirror://Qwen/Qwen3.5-7B-Instruct'' Hf [''chat'', ''instruct'', ''text-generation''] ''llm'' (152, -1) 4219
       ''# Qwen3.5 7B Instruct

Qwen3.5 is the next-generation Qwen model series. The 7B instruct variant is tuned for
conversational and tool-use scenarios.

## Quick start
```bash
vllm serve Qwen/Qwen3.5-7B-Instruct --max-model-len 32768
```

## License
Apache-2.0'',
     seed_model (uid (draw 1) ''m'') today ''Qwen/Qwen3.5-72B-Instruct'' ''Qwen'' Public None
       ''hf-mirror://Qwen/Qwen3.5-72B-Instruct'' Hf [''chat'', ''instruct'', ''flagship''] ''llm'' (146, 0) 812
       ''# Qwen3.5 72B Instruct

Flagship instruct model. Requires multi-GPU deployment.'',
     seed_model (uid (draw 2) ''m'') today ''meta-llama/Llama-3.3-8B-Instruct'' ''meta-llama'' Public None
       ''hf-mirror://meta-llama/Llama-3.3-8B-Instruct'' Hf [''chat'', ''instruct''] ''llm'' (168, -1) 3120
       ''# Llama 3.3 8B Instruct'',
     seed_model (uid (draw 3) ''m'') today ''BAAI/bge-large-en-v1.5'' ''BAAI'' Public None
       ''hf-mirror://BAAI/bge-large-en-v1.5'' Hf [''embedding'', ''retrieval''] ''embedding'' (13, -1) 980
       ''# BGE Large EN v1.5

General-purpose English embedding model.'',
     seed_model (uid (draw 4) ''m'') today ''stabilityai/stable-diffusion-3-medium'' ''stabilityai'' Public None
       ''hf-mirror://stabilityai/stable-diffusion-3-medium'' Hf [''image'', ''diffusion''] ''diffusion'' (14, 0) 1022
       ''# Stable Diffusion 3 Medium'',
     seed_model (uid (draw 5) ''m'') today ''team-ml/finetuned-qwen-helpdesk'' ''alice'' Private (Some ''team-ml'')
       ''s3://knaic-models/team-ml/finetuned-qwen-helpdesk/'' S3 [''internal'', ''helpdesk'', ''lora''] ''llm'' (25, -2) 12
       ''# Helpdesk LoRA adapter

LoRA rank-64 adapter fine-tuned on internal helpdesk tickets.'',
     seed_model (uid (draw 6) ''m'') today ''team-ml/triage-classifier'' ''bob'' Private (Some ''team-ml'')
       ''oci://registry.knaic.local/team-ml/triage-classifier:v3'' Oci [''classifier'', ''triage''] ''classifier'' (4, -1) 5
       ''# Triage classifier

DistilBERT-based classifier trained on 120k tickets.'']"

subsection \<open>Requests\<close>

definition listModels :: "model_scope \<Rightarrow> string option \<Rightarrow> http_request" where
  "listModels scope ns =
     get_request (''/api/v1/models?'' @ search_params
       ((''scope'', scope_text scope) #
        (if scope = Private \<and> truthy_str ns then [(''namespace'', nullish ns '''')] else [])))"

record CreateModelRequest =
  cm_name :: string
  cm_owner :: "string option"
  cm_scope :: model_scope
  cm_namespace :: "string option"
  cm_uri :: string
  cm_tags :: "string list option"
  cm_modelType :: "string option"
  cm_sizeGB :: "(int \<times> int) option"
  cm_readme :: "string option"
  cm_collectionId :: "string option"
  cm_parentModelId :: "string option"
  cm_derivedKind :: "derived_kind option"
  cm_sourceUrl :: "string option"

definition jdecimal :: "int \<times> int \<Rightarrow> json" where
  "jdecimal d = JNum (fst d) (snd d)"

definition jtags :: "string list \<Rightarrow> json" where
  "jtags ts = JArr (map JStr ts)"

definition create_model_json :: "CreateModelRequest \<Rightarrow> json" where
  "create_model_json r = jobj
    [(''name'', Some (JStr (cm_name r))), (''owner'', map_option JStr (cm_owner r)),
     (''scope'', Some (JStr (scope_text (cm_scope r)))), (''namespace'', map_option JStr (cm_namespace r)),
     (''uri'', Some (JStr (cm_uri r))), (''tags'', map_option jtags (cm_tags r)),
     (''modelType'', map_option JStr (cm_modelType r)), (''sizeGB'', map_option jdecimal (cm_sizeGB r)),
     (''readme'', map_option JStr (cm_readme r)), (''collectionId'', map_option JStr (cm_collectionId r)),
     (''parentModelId'', map_option JStr (cm_parentModelId r)),
     (''derivedKind'', map_option (\<lambda>k. JStr (derived_text k)) (cm_derivedKind r)),
     (''sourceUrl'', map_option JStr (cm_sourceUrl r))]"

definition createModel :: "CreateModelRequest \<Rightarrow> http_request" where
  "createModel req = json_request POST ''/api/v1/models'' (create_model_json req)"

definition importModel :: "string \<Rightarrow> model_scope \<Rightarrow> string option \<Rightarrow> http_request" where
  "importModel url scope ns = json_request POST ''/api/v1/models/import''
     (jobj [(''url'', Some (JStr url)), (''scope'', Some (JStr (scope_text scope))),
            (''namespace'', map_option JStr ns)])"

record UploadModelRequest =
  um_name :: string
  um_scope :: model_scope
  um_namespace :: "string option"
  um_targetUri :: string
  um_modelType :: "string option"
  um_sizeGB :: "(int \<times> int) option"
  um_tags :: "string list option"
  um_readme :: "string option"

definition uploadModel :: "UploadModelRequest \<Rightarrow> http_request" where
  "uploadModel r = json_request POST ''/api/v1/models/upload'' (jobj
    [(''name'', Some (JStr (um_name r))), (''scope'', Some (JStr (scope_text (um_scope r)))),
     (''namespace'', map_option JStr (um_namespace r)), (''targetUri'', Some (JStr (um_targetUri r))),
     (''modelType'', map_option JStr (um_modelType r)), (''sizeGB'', map_option jdecimal (um_sizeGB r)),
     (''tags'', map_option jtags (um_tags r)), (''readme'', map_option JStr (um_readme r))])"

record PatchModelRequest =
  pm_readme :: "string option"
  pm_tags :: "string list option"
  pm_incDownloads :: "int option"
  pm_collectionId :: "string option"
  pm_parentModelId :: "string option"
  pm_derivedKind :: "derived_kind option"
  pm_sourceUrl :: "string option"

definition patch_model_json :: "PatchModelRequest \<Rightarrow> json" where
  "patch_model_json p = jobj
    [(''readme'', map_option JStr (pm_readme p)), (''tags'', map_option jtags (pm_tags p)),
     (''incDownloads'', map_option jint (pm_incDownloads p)),
     (''collectionId'', map_option JStr (pm_collectionId p)),
     (''parentModelId'', map_option JStr (pm_parentModelId p)),
     (''derivedKind'', map_option (\<lambda>k. JStr (derived_text k)) (pm_derivedKind p)),
     (''sourceUrl'', map_option JStr (pm_sourceUrl p))]"

definition patchModel :: "string \<Rightarrow> PatchModelRequest \<Rightarrow> http_request" where
  "patchModel i patch =
     json_request PATCH (''/api/v1/models/'' @ encodeURIComponent i) (patch_model_json patch)"

definition api_deleteModel :: "string \<Rightarrow> http_request" where
  "api_deleteModel i = bare_request DELETE (''/api/v1/models/'' @ encodeURIComponent i)"

definition getModelTree :: "string \<Rightarrow> http_request" where
  "getModelTree i = get_request (''/api/v1/models/'' @ encodeURIComponent i @ ''/tree'')"

definition listInferenceServicesUsingModel :: "string \<Rightarrow> string option \<Rightarrow> http_request" where
  "listInferenceServicesUsingModel i ns =
     get_request (''/api/v1/models/'' @ encodeURIComponent i @ ''/inference-services'' @
       (if truthy_str ns then ''?namespace='' @ encodeURIComponent (nullish ns '''') else ''''))"

subsection \<open>Reading a URI\<close>

text \<open>The alternatives of the scheme pattern, in order; each must be followed by \<open>://\<close>.\<close>

definition uri_schemes :: "(string \<times> model_scheme) list" where
  "uri_schemes =
    [(''hf'', Hf), (''hf-mirror'', Hf), (''hf-local'', Hf), (''modelscope'', Modelscope), (''s3'', S3),
     (''oci'', Oci), (''gitlab'', Gitlab), (''pvc'', Pvc), (''git'', Git)]"

definition parseUri :: "string \<Rightarrow> model_scheme option" where
  "parseUri uri = map_option snd (find (\<lambda>(p, _). startsWith uri (p @ ''://'')) uri_schemes)"

definition publicSourceURL :: "string \<Rightarrow> string option \<Rightarrow> string" where
  "publicSourceURL uri sourceUrl =
     (if truthy_str sourceUrl then nullish sourceUrl ''''
      else if startsWith uri ''hf://'' then ''https://huggingface.co/'' @ drop (length ''hf://'') uri
      else if startsWith uri ''hf-mirror://'' then ''https://hf-mirror.com/'' @ drop (length ''hf-mirror://'') uri
      else if startsWith uri ''modelscope://''
        then ''https://www.modelscope.cn/models/'' @ drop (length ''modelscope://'') uri
      else '''')"

definition isPublicSource :: "string \<Rightarrow> bool" where
  "isPublicSource uri \<longleftrightarrow>
     startsWith uri ''hf://'' \<or> startsWith uri ''hf-mirror://'' \<or> startsWith uri ''modelscope://'' \<or>
     startsWith uri ''http://'' \<or> startsWith uri ''https://''"

subsection \<open>Loading\<close>

definition fillModelDefaults :: "string \<Rightarrow> ModelItem \<Rightarrow> ModelItem" where
  "fillModelDefaults today m = m\<lparr>
     m_tags := Some (nullish (m_tags m) []),
     m_downloads := Some (nullish (m_downloads m) 0),
     m_sizeGB := Some (nullish (m_sizeGB m) (0, 0)),
     m_createdAt := Some (nullish (nullish_opt (m_createdAt m) (m_updatedAt m)) today),
     m_updatedAt := Some (nullish (nullish_opt (m_updatedAt m) (m_createdAt m)) today),
     m_readme := Some (nullish (m_readme m) '''')\<rparr>"

definition models_key :: "model_scope \<Rightarrow> string option \<Rightarrow> string" where
  "models_key scope ns = load_key (scope_text scope) (nullish ns '''')"

definition ensureModelsLoaded :: "bool \<Rightarrow> model_scope \<Rightarrow> string option \<Rightarrow> models \<Rightarrow> models" where
  "ensureModelsLoaded api scope ns s =
     (if \<not> api then s else start_once (models_key scope ns) [listModels scope ns] s)"

definition purge_slot :: "model_scope \<Rightarrow> string option \<Rightarrow> ModelItem list \<Rightarrow> ModelItem list" where
  "purge_slot scope ns prev = filter (\<lambda>m.
     if m_scope m \<noteq> scope then True
     else if scope = Private \<and> m_namespace m \<noteq> ns then True
     else False) prev"

definition models_arrived ::
  "string \<Rightarrow> model_scope \<Rightarrow> string option \<Rightarrow> ModelItem list \<Rightarrow> models \<Rightarrow> models" where
  "models_arrived today scope ns items s =
     land (models_key scope ns)
       (s\<lparr>model_items := map (fillModelDefaults today) items @ purge_slot scope ns (model_items s)\<rparr>)"

definition reloadModels :: "bool \<Rightarrow> model_scope \<Rightarrow> string option \<Rightarrow> models \<Rightarrow> models" where
  "reloadModels api scope ns s = ensureModelsLoaded api scope ns (forget (models_key scope ns) s)"

subsection \<open>Adding\<close>

text \<open>
  A created item as the server returns it is completed and put first; \<open>created_item\<close> is the answer.
\<close>

definition prepend_created ::
  "string \<Rightarrow> ModelItem promise \<Rightarrow> models \<Rightarrow> ModelItem promise \<times> models" where
  "prepend_created today answer s =
     (case answer of
        Inl e \<Rightarrow> (Inl e, s)
      | Inr created \<Rightarrow>
          (let filled = fillModelDefaults today created
           in (Inr filled, s\<lparr>model_items := filled # model_items s\<rparr>)))"

text \<open>The argument of \<open>addModel\<close> has no id, dates or downloads; those fields of \<open>m\<close> are ignored.\<close>

definition addModel ::
  "bool \<Rightarrow> ModelItem backend \<Rightarrow> string \<Rightarrow> string \<Rightarrow> ModelItem \<Rightarrow> models \<Rightarrow> ModelItem promise \<times> models" where
  "addModel api send draw today m s =
     (if api then
        prepend_created today (send (createModel
          \<lparr>cm_name = m_name m, cm_owner = Some (m_owner m), cm_scope = m_scope m, cm_namespace = m_namespace m,
           cm_uri = m_uri m, cm_tags = m_tags m, cm_modelType = Some (m_modelType m), cm_sizeGB = m_sizeGB m,
           cm_readme = m_readme m, cm_collectionId = None, cm_parentModelId = None, cm_derivedKind = None,
           cm_sourceUrl = None\<rparr>)) s
      else
        (let item = m\<lparr>m_id := uid draw ''m'', m_createdAt := Some today, m_updatedAt := Some today,
                      m_downloads := Some 0\<rparr>
         in (Inr item, s\<lparr>model_items := item # model_items s\<rparr>)))"

definition new_model ::
  "string \<Rightarrow> string \<Rightarrow> model_scope \<Rightarrow> string option \<Rightarrow> string \<Rightarrow> model_scheme \<Rightarrow> string list \<Rightarrow> string \<Rightarrow>
     int \<times> int \<Rightarrow> string \<Rightarrow> ModelItem" where
  "new_model name owner scope ns uri scheme tags type gb readme =
    \<lparr>m_id = '''', m_name = name, m_owner = owner, m_scope = scope, m_namespace = ns, m_uri = uri,
     m_scheme = scheme, m_tags = Some tags, m_modelType = type, m_sizeGB = Some gb, m_downloads = None,
     m_createdAt = None, m_updatedAt = None, m_readme = Some readme, m_collectionId = None,
     m_parentModelId = None, m_derivedKind = None, m_sourceUrl = None\<rparr>"

definition hf_site :: string where
  "hf_site = ''https://huggingface.co/''"

definition ms_site :: string where
  "ms_site = ''https://www.modelscope.cn/''"

text \<open>The URI and the name read off a web address.\<close>

definition import_target :: "string \<Rightarrow> (string \<times> string) option" where
  "import_target url =
     (let trimmed = strip_one (CHR ''/'') url
      in if startsWith trimmed hf_site then
           (let name = remove_first hf_site trimmed in Some (''hf://'' @ name, name))
         else if startsWith trimmed ms_site then
           (let name = remove_first ms_site (remove_first (ms_site @ ''models/'') trimmed)
            in Some (''modelscope://'' @ name, name))
         else None)"

definition importModelFromURL ::
  "bool \<Rightarrow> ModelItem backend \<Rightarrow> string \<Rightarrow> string \<Rightarrow> string \<Rightarrow> model_scope \<Rightarrow> string option \<Rightarrow> models \<Rightarrow>
     ModelItem promise \<times> models" where
  "importModelFromURL api send draw today url scope ns s =
     (if api then prepend_created today (send (importModel url scope ns)) s
      else (case import_target url of
          None \<Rightarrow> (Inl (JsError ''URL must be from huggingface.co or modelscope.cn''), s)
        | Some (uri, name) \<Rightarrow>
            addModel False send draw today
              (new_model name (hd (split_on (CHR ''/'') name)) scope (if scope = Private then ns else None) uri
                (if startsWith uri ''hf://'' \<or> startsWith uri ''hf-mirror://'' then Hf else Modelscope)
                [''imported''] ''llm'' (0, 0) (''# '' @ name @ ''

Imported from '' @ url @ ''.'')) s))"

definition uploadModelMeta ::
  "bool \<Rightarrow> ModelItem backend \<Rightarrow> string \<Rightarrow> string \<Rightarrow> UploadModelRequest \<Rightarrow> models \<Rightarrow> ModelItem promise \<times> models" where
  "uploadModelMeta api send draw today req s =
     (if api then prepend_created today (send (uploadModel req)) s
      else addModel False send draw today
        (new_model (um_name req) '''' (um_scope req) (if um_scope req = Private then um_namespace req else None)
          (um_targetUri req) (nullish (parseUri (um_targetUri req)) S3) (nullish (um_tags req) [] @ [''uploaded''])
          (nullish (um_modelType req) ''llm'') (nullish (um_sizeGB req) (0, 0))
          (nullish (um_readme req) (''# '' @ um_name req @ ''

Uploaded to '' @ um_targetUri req @ ''.''))) s)"

subsection \<open>Patching and deleting\<close>

text \<open>\<open>Partial<ModelItem>\<close>: the fields given.\<close>

record model_patch =
  mp_id :: "string option"
  mp_name :: "string option"
  mp_owner :: "string option"
  mp_scope :: "model_scope option"
  mp_namespace :: "string option"
  mp_uri :: "string option"
  mp_scheme :: "model_scheme option"
  mp_tags :: "string list option"
  mp_modelType :: "string option"
  mp_sizeGB :: "(int \<times> int) option"
  mp_downloads :: "int option"
  mp_createdAt :: "string option"
  mp_readme :: "string option"
  mp_collectionId :: "string option"
  mp_parentModelId :: "string option"
  mp_derivedKind :: "derived_kind option"
  mp_sourceUrl :: "string option"

definition apply_model_patch :: "model_patch \<Rightarrow> string \<Rightarrow> ModelItem \<Rightarrow> ModelItem" where
  "apply_model_patch p today m = m\<lparr>
     m_id := nullish (mp_id p) (m_id m),
     m_name := nullish (mp_name p) (m_name m),
     m_owner := nullish (mp_owner p) (m_owner m),
     m_scope := nullish (mp_scope p) (m_scope m),
     m_namespace := nullish_opt (mp_namespace p) (m_namespace m),
     m_uri := nullish (mp_uri p) (m_uri m),
     m_scheme := nullish (mp_scheme p) (m_scheme m),
     m_tags := nullish_opt (mp_tags p) (m_tags m),
     m_modelType := nullish (mp_modelType p) (m_modelType m),
     m_sizeGB := nullish_opt (mp_sizeGB p) (m_sizeGB m),
     m_downloads := nullish_opt (mp_downloads p) (m_downloads m),
     m_createdAt := nullish_opt (mp_createdAt p) (m_createdAt m),
     m_readme := nullish_opt (mp_readme p) (m_readme m),
     m_collectionId := nullish_opt (mp_collectionId p) (m_collectionId m),
     m_parentModelId := nullish_opt (mp_parentModelId p) (m_parentModelId m),
     m_derivedKind := nullish_opt (mp_derivedKind p) (m_derivedKind m),
     m_sourceUrl := nullish_opt (mp_sourceUrl p) (m_sourceUrl m),
     m_updatedAt := Some today\<rparr>"

text \<open>
  What \<open>updateModel\<close> sends: the difference to the downloads the store shows. A stored row always
  has a count (\<open>fillModelDefaults\<close>, \<open>addModel\<close>).
\<close>

definition api_patch :: "string \<Rightarrow> model_patch \<Rightarrow> ModelItem list \<Rightarrow> PatchModelRequest" where
  "api_patch i p ms =
    \<lparr>pm_readme = mp_readme p, pm_tags = mp_tags p,
     pm_incDownloads =
       (case (mp_downloads p, find_key m_id i ms) of
          (Some d, Some current) \<Rightarrow> Some (d - nullish (m_downloads current) 0)
        | _ \<Rightarrow> None),
     pm_collectionId = None, pm_parentModelId = None, pm_derivedKind = None, pm_sourceUrl = None\<rparr>"

definition empty_patch :: "PatchModelRequest \<Rightarrow> bool" where
  "empty_patch p \<longleftrightarrow> pm_readme p = None \<and> pm_tags p = None \<and> pm_incDownloads p = None"

definition updateModel ::
  "bool \<Rightarrow> ModelItem backend \<Rightarrow> string \<Rightarrow> string \<Rightarrow> model_patch \<Rightarrow> models \<Rightarrow> unit promise \<times> models" where
  "updateModel api send today i patch s =
     (if api then
        (if empty_patch (api_patch i patch (model_items s)) then (Inr (), s)
         else (case send (patchModel i (api_patch i patch (model_items s))) of
             Inl e \<Rightarrow> (Inl e, s)
           | Inr updated \<Rightarrow> (Inr (), s\<lparr>model_items :=
               map_where (\<lambda>m. m_id m = i) (\<lambda>_. fillModelDefaults today updated) (model_items s)\<rparr>)))
      else (Inr (), s\<lparr>model_items :=
        map_where (\<lambda>m. m_id m = i) (apply_model_patch patch today) (model_items s)\<rparr>))"

definition deleteModel :: "bool \<Rightarrow> 'r backend \<Rightarrow> string \<Rightarrow> models \<Rightarrow> unit promise \<times> models" where
  "deleteModel api send i s =
     (let cleared = s\<lparr>model_items := drop_where (\<lambda>m. m_id m = i) (model_items s)\<rparr>
      in if api then (case send (api_deleteModel i) of Inl e \<Rightarrow> (Inl e, s) | Inr _ \<Rightarrow> (Inr (), cleared))
         else (Inr (), cleared))"

subsection \<open>The cache interface\<close>

text \<open>The slot of a row: the whole public scope, or one namespace of the private one.\<close>

definition model_slot :: "ModelItem \<Rightarrow> string option option" where
  "model_slot m = (if m_scope m = Public then None else Some (m_namespace m))"

fun slot_of :: "model_scope \<Rightarrow> string option \<Rightarrow> string option option" where
  "slot_of Public ns = None"
| "slot_of Private ns = Some ns"

definition put_front :: "('a \<Rightarrow> 'k) \<Rightarrow> 'k \<Rightarrow> 'a list \<Rightarrow> 'a list \<Rightarrow> 'a list" where
  "put_front slot k new prev = new @ filter (\<lambda>x. slot x \<noteq> k) prev"

interpretation front_cache: slot_cache slot "put_front slot" for slot :: "'a \<Rightarrow> 'k"
proof unfold_locales
  fix k and new old :: "'a list"
  show "own_rows slot k new \<Longrightarrow> rows slot k (put_front slot k new old) = new"
    by (simp add: put_front_def own_rows_def rows_simps)
  fix k'
  show "own_rows slot k new \<Longrightarrow> k' \<noteq> k \<Longrightarrow> rows slot k' (put_front slot k new old) = rows slot k' old"
    using rows_none [of new slot k'] by (simp add: put_front_def own_rows_def rows_append rows_drop_other)
qed

lemma purge_slot_other: "purge_slot scope ns prev = filter (\<lambda>m. model_slot m \<noteq> slot_of scope ns) prev"
  unfolding purge_slot_def
  by (cases scope; intro filter_cong; auto simp: model_slot_def intro: model_scope.exhaust)

lemma model_slot_fill [simp]: "model_slot (fillModelDefaults today m) = model_slot m"
  by (simp add: model_slot_def fillModelDefaults_def)

lemma models_arrived_put:
  "model_items (models_arrived today scope ns items s) =
     put_front model_slot (slot_of scope ns) (map (fillModelDefaults today) items) (model_items s)"
  by (simp add: models_arrived_def land_def purge_slot_other put_front_def)

text \<open>A history of answered listings.\<close>

fun model_loads :: "string \<Rightarrow> ((model_scope \<times> string option) \<times> ModelItem list) list \<Rightarrow> models \<Rightarrow> models" where
  "model_loads today [] s = s"
| "model_loads today (((scope, ns), items) # es) s = model_loads today es (models_arrived today scope ns items s)"

definition slot_loads ::
  "string \<Rightarrow> ((model_scope \<times> string option) \<times> ModelItem list) list \<Rightarrow>
     (string option option \<times> ModelItem list) list" where
  "slot_loads today = map (\<lambda>((scope, ns), items). (slot_of scope ns, map (fillModelDefaults today) items))"

lemma model_loads_replay:
  "model_items (model_loads today es s) = replay (put_front model_slot) (slot_loads today es) (model_items s)"
  by (induction today es s rule: model_loads.induct) (simp_all add: slot_loads_def models_arrived_put)

subsection \<open>Importing\<close>

lemma import_hf:
  "name \<noteq> [] \<Longrightarrow> last name \<noteq> CHR ''/'' \<Longrightarrow> import_target (hf_site @ name) = Some (''hf://'' @ name, name)"
  "import_target (hf_site @ name @ ''/'') = Some (''hf://'' @ name, name)"
proof -
  show "name \<noteq> [] \<Longrightarrow> last name \<noteq> CHR ''/'' \<Longrightarrow> import_target (hf_site @ name) = Some (''hf://'' @ name, name)"
    using strip_one_id [of "hf_site @ name" "CHR ''/''"] by (simp add: import_target_def Let_def)
  have "strip_one (CHR ''/'') (hf_site @ name @ ''/'') = hf_site @ name"
    using strip_one_snoc [of "CHR ''/''" "hf_site @ name"] by simp
  then show "import_target (hf_site @ name @ ''/'') = Some (''hf://'' @ name, name)"
    by (simp add: import_target_def Let_def)
qed

lemma import_ms:
  assumes "name \<noteq> []" "last name \<noteq> CHR ''/''" "\<not> str_includes name ms_site"
  shows "import_target (ms_site @ ''models/'' @ name) = Some (''modelscope://'' @ name, name)"
proof -
  have strip: "strip_one (CHR ''/'') (ms_site @ ''models/'' @ name) = ms_site @ ''models/'' @ name"
    using assms by (intro strip_one_id) simp
  have first: "remove_first (ms_site @ ''models/'') (ms_site @ ''models/'' @ name) = name"
    using remove_first_prefix [of "ms_site @ ''models/''" name] by simp
  have "\<not> startsWith (ms_site @ ''models/'' @ name) hf_site"
    by (simp add: ms_site_def hf_site_def)
  then show ?thesis
    unfolding import_target_def strip first Let_def
    by (simp add: remove_first_absent [OF assms(3)])
qed

lemma publicSourceURL_hf: "publicSourceURL (''hf://'' @ name) None = hf_site @ name"
  by (simp add: publicSourceURL_def hf_site_def)

lemma publicSourceURL_ms: "publicSourceURL (''modelscope://'' @ name) None = ms_site @ ''models/'' @ name"
  by (simp add: publicSourceURL_def ms_site_def)

lemma parse_written:
  "parseUri (''hf://'' @ r) = Some Hf" "parseUri (''hf-mirror://'' @ r) = Some Hf"
  "parseUri (''modelscope://'' @ r) = Some Modelscope" "parseUri (''s3://'' @ r) = Some S3"
  "parseUri (''oci://'' @ r) = Some Oci"
  by (simp_all add: parseUri_def uri_schemes_def)

subsection \<open>Schemes stay true to URIs\<close>

definition scheme_ok :: "ModelItem \<Rightarrow> bool" where
  "scheme_ok m \<longleftrightarrow> m_scheme m = nullish (parseUri (m_uri m)) S3"

text \<open>What the catalogue pages do in prototype mode; a patch names neither URI nor scheme.\<close>

inductive models_step :: "models \<Rightarrow> models \<Rightarrow> bool" where
  "models_step s (snd (importModelFromURL False send draw today url scope ns s))"
| "models_step s (snd (uploadModelMeta False send draw today req s))"
| "mp_uri p = None \<Longrightarrow> mp_scheme p = None \<Longrightarrow> models_step s (snd (updateModel False send today i p s))"
| "models_step s (snd (deleteModel False (send :: unit backend) i s))"

inductive models_reach :: "(nat \<Rightarrow> string) \<Rightarrow> string \<Rightarrow> models \<Rightarrow> bool" for draw today where
  "models_reach draw today \<lparr>loaded = {}, in_flight = [], model_items = models_initial draw today\<rparr>"
| "models_reach draw today s \<Longrightarrow> models_step s s' \<Longrightarrow> models_reach draw today s'"

inductive_cases models_stepE: "models_step s s'"

lemma addModel_items:
  "model_items (snd (addModel False send draw today m s)) =
     m\<lparr>m_id := uid draw ''m'', m_createdAt := Some today, m_updatedAt := Some today, m_downloads := Some 0\<rparr>
       # model_items s"
  by (simp add: addModel_def Let_def)

lemma import_target_scheme:
  "import_target url = Some (uri, name) \<Longrightarrow>
   parseUri uri = Some (if startsWith uri ''hf://'' \<or> startsWith uri ''hf-mirror://'' then Hf else Modelscope)"
  by (auto simp: import_target_def Let_def parse_written [simplified] split: if_splits)

lemma scheme_ok_step: "models_step s s' \<Longrightarrow> \<forall>m \<in> set (model_items s). scheme_ok m \<Longrightarrow> \<forall>m \<in> set (model_items s'). scheme_ok m"
proof (induction rule: models_step.induct)
  case (1 s send draw today url scope ns)
  then show ?case
    using import_target_scheme
    by (auto simp: importModelFromURL_def addModel_items scheme_ok_def new_model_def split: option.splits)
next
  case (2 s send draw today req)
  then show ?case by (simp add: uploadModelMeta_def addModel_items scheme_ok_def new_model_def)
next
  case (3 p s send today i)
  then show ?case by (simp add: updateModel_def ball_map_where scheme_ok_def apply_model_patch_def)
next
  case (4 s send i)
  then show ?case by (simp add: deleteModel_def Let_def)
qed

lemma scheme_ok_seed: "\<forall>m \<in> set (models_initial draw today). scheme_ok m"
  unfolding models_initial_def scheme_ok_def seed_model_def parseUri_def uri_schemes_def by simp

subsection \<open>Properties\<close>

text \<open>
  The model cache refines a map from slots (the public scope, and each namespace of the private
  one) to rows: after any history of answered listings, each listing models of the slot it was asked
  for, a slot shows exactly its latest listing, completed, or what it held before.
\<close>

theorem models_load_history:
  assumes "\<forall>((scope, ns), items) \<in> set es. own_rows model_slot (slot_of scope ns) items"
  shows "view model_slot (model_items (model_loads today es s)) k =
    (case last_load (slot_loads today es) k of Some items \<Rightarrow> items
     | None \<Rightarrow> view model_slot (model_items s) k)"
proof -
  have "\<forall>(k, new) \<in> set (slot_loads today es). own_rows model_slot k new"
    using assms by (fastforce simp: slot_loads_def own_rows_def)
  then show ?thesis
    by (simp add: model_loads_replay front_cache.view_replay)
qed

theorem models_load_history_witness:
  "view model_slot (model_items (model_loads ''d'' [((Private, Some ''team-ml''), []), ((Public, None), [])]
     \<lparr>loaded = {}, in_flight = [], model_items = models_initial show_nat ''d''\<rparr>)) (Some (Some ''team-ml'')) = []"
proof -
  have "\<forall>((scope, ns), items) \<in> set [((Private, Some ''team-ml''), [] :: ModelItem list), ((Public, None), [])].
      own_rows model_slot (slot_of scope ns) items"
    by (simp add: own_rows_def)
  from models_load_history [OF this] show ?thesis by (simp add: slot_loads_def)
qed

text \<open>
  Importing from a hub and opening the model upstream are inverse: in prototype mode the web
  address of a model on either hub, whatever its path holds, becomes a model on top of the
  catalogue whose public page is that same address, and a trailing slash makes no difference on
  the Hugging Face form; its source counts as public. An address of another site is refused and
  changes nothing.
\<close>

theorem import_round_trip:
  assumes "name \<noteq> []" "last name \<noteq> CHR ''/''" "\<not> str_includes name ms_site"
    and "url = hf_site @ name \<or> url = ms_site @ ''models/'' @ name"
  shows "(case importModelFromURL False send draw today url scope ns s of
      (Inr m, s') \<Rightarrow> model_items s' = m # model_items s \<and> m_name m = name \<and>
        publicSourceURL (m_uri m) (m_sourceUrl m) = url \<and> isPublicSource (m_uri m) \<and>
        m_scope m = scope \<and> (scope = Public \<longrightarrow> m_namespace m = None)
    | (Inl e, s') \<Rightarrow> False) \<and>
    import_target (hf_site @ name @ ''/'') = import_target (hf_site @ name) \<and>
    (\<forall>other. import_target other = None \<longrightarrow> snd (importModelFromURL False send draw today other scope ns s) = s \<and>
       isl (fst (importModelFromURL False send draw today other scope ns s)))"
proof -
  have "(case importModelFromURL False send draw today url scope ns s of
      (Inr m, s') \<Rightarrow> model_items s' = m # model_items s \<and> m_name m = name \<and>
        publicSourceURL (m_uri m) (m_sourceUrl m) = url \<and> isPublicSource (m_uri m) \<and>
        m_scope m = scope \<and> (scope = Public \<longrightarrow> m_namespace m = None)
    | (Inl e, s') \<Rightarrow> False)"
    using assms(4)
  proof
    assume "url = hf_site @ name"
    then show ?thesis
      using import_hf(1) [OF assms(1, 2)] publicSourceURL_hf [of name]
      by (simp add: importModelFromURL_def addModel_def new_model_def Let_def isPublicSource_def)
  next
    assume "url = ms_site @ ''models/'' @ name"
    then show ?thesis
      using import_ms [OF assms(1, 2, 3)] publicSourceURL_ms [of name]
      by (simp add: importModelFromURL_def addModel_def new_model_def Let_def isPublicSource_def)
  qed
  then show ?thesis
    using import_hf [of name] assms(1, 2) by (simp add: importModelFromURL_def)
qed

theorem import_round_trip_witness:
  "import_target (hf_site @ ''Qwen/Qwen3-8B?x=1'' @ ''/'') = import_target (hf_site @ ''Qwen/Qwen3-8B?x=1'')"
proof -
  have "''Qwen/Qwen3-8B?x=1'' \<noteq> []" "last ''Qwen/Qwen3-8B?x=1'' \<noteq> CHR ''/''"
    "\<not> str_includes ''Qwen/Qwen3-8B?x=1'' ms_site"
    "hf_site @ ''Qwen/Qwen3-8B?x=1'' = hf_site @ ''Qwen/Qwen3-8B?x=1'' \<or>
      hf_site @ ''Qwen/Qwen3-8B?x=1'' = ms_site @ ''models/'' @ ''Qwen/Qwen3-8B?x=1''"
    by (simp_all add: ms_site_def)
  from import_round_trip [OF this] show ?thesis by blast
qed



end
