(* ===== verification/Users_Rbac.thy ===== *)
theory Users_Rbac
  imports Workloads
begin

text \<open>
  \<open>frontend/src/data/users.ts\<close> and the users, namespaces, roles and bindings half of
  \<open>frontend/src/api/admin.ts\<close>: the platform's users with their namespace memberships, and the
  RBAC roles and bindings of each namespace. The store of roles, seen through the identity of a
  role (namespace, kind, name), is a finite map that saving and removing update at one key.
\<close>

subsection \<open>Rows\<close>

datatype NamespaceRole = RoleAdmin | RoleEditor | RoleViewer

fun role_text :: "NamespaceRole \<Rightarrow> string" where
  "role_text RoleAdmin = ''admin''"
| "role_text RoleEditor = ''editor''"
| "role_text RoleViewer = ''viewer''"

record UserRecord =
  u_id :: string
  u_name :: string
  u_email :: string
  u_oidcSub :: string
  u_firstSeen :: string
  u_lastSeen :: string
  u_isPlatformAdmin :: bool
  u_memberships :: "NamespaceRole js_map option"

datatype role_kind = KRole | KClusterRole

fun role_kind_text :: "role_kind \<Rightarrow> string" where
  "role_kind_text KRole = ''Role''"
| "role_kind_text KClusterRole = ''ClusterRole''"

record role_rule =
  rule_apiGroups :: "string list"
  rule_resources :: "string list"
  rule_verbs :: "string list"

record Role =
  role_id :: string
  role_name :: string
  role_namespace :: string
  role_kind :: role_kind
  role_rules :: "role_rule list"

datatype subject_kind = SubjectUser | SubjectGroup

fun subject_text :: "subject_kind \<Rightarrow> string" where
  "subject_text SubjectUser = ''User''"
| "subject_text SubjectGroup = ''Group''"

record RoleBinding =
  rb_id :: string
  rb_name :: string
  rb_namespace :: string
  rb_roleRef :: "role_kind \<times> string"
  rb_subjects :: "(subject_kind \<times> string) list"

record rbac = loader +
  user_rows :: "UserRecord list"
  role_rows :: "Role list"
  binding_rows :: "RoleBinding list"

definition seed_user ::
  "string \<Rightarrow> string \<Rightarrow> string \<Rightarrow> string \<Rightarrow> bool \<Rightarrow> NamespaceRole js_map \<Rightarrow> UserRecord" where
  "seed_user i name seen latest padmin ms =
     \<lparr>u_id = i, u_name = name, u_email = name @ ''@example.com'', u_oidcSub = ''oidc|dex|'' @ name,
      u_firstSeen = seen, u_lastSeen = latest, u_isPlatformAdmin = padmin, u_memberships = Some ms\<rparr>"

definition usersInitial :: "(nat \<Rightarrow> string) \<Rightarrow> string \<Rightarrow> UserRecord list" where
  "usersInitial draw today =
    [seed_user (uid (draw 0) ''u'') ''alice'' ''2025-12-01'' today True
       [(''team-ml'', RoleAdmin), (''team-vision'', RoleEditor), (''team-llm'', RoleViewer)],
     seed_user (uid (draw 1) ''u'') ''bob'' ''2026-01-14'' today False [(''team-ml'', RoleEditor)],
     seed_user (uid (draw 2) ''u'') ''carol'' ''2026-02-03'' today False
       [(''team-vision'', RoleAdmin), (''team-llm'', RoleEditor)],
     seed_user (uid (draw 3) ''u'') ''dave'' ''2026-03-22'' today False [(''team-llm'', RoleViewer)]]"

definition seed_role :: "string \<Rightarrow> string \<Rightarrow> role_rule list \<Rightarrow> Role" where
  "seed_role i name rules =
     \<lparr>role_id = i, role_name = name, role_namespace = ''team-ml'', role_kind = KRole, role_rules = rules\<rparr>"

definition rolesInitial :: "(nat \<Rightarrow> string) \<Rightarrow> Role list" where
  "rolesInitial draw =
    [seed_role (uid (draw 4) ''r'') ''namespace-admin''
       [\<lparr>rule_apiGroups = [''*''], rule_resources = [''*''], rule_verbs = [''*'']\<rparr>],
     seed_role (uid (draw 5) ''r'') ''ml-engineer''
       [\<lparr>rule_apiGroups = ['''', ''apps''], rule_resources = [''pods'', ''deployments'', ''services''],
         rule_verbs = [''get'', ''list'', ''watch'', ''create'', ''update'']\<rparr>,
        \<lparr>rule_apiGroups = [''serving.kserve.io''], rule_resources = [''inferenceservices'', ''servingruntimes''],
         rule_verbs = [''*'']\<rparr>,
        \<lparr>rule_apiGroups = [''kubeflow.org''], rule_resources = [''notebooks''], rule_verbs = [''*'']\<rparr>,
        \<lparr>rule_apiGroups = [''trainer.kubeflow.org''], rule_resources = [''trainjobs''], rule_verbs = [''*'']\<rparr>],
     seed_role (uid (draw 6) ''r'') ''viewer''
       [\<lparr>rule_apiGroups = [''*''], rule_resources = [''*''], rule_verbs = [''get'', ''list'', ''watch'']\<rparr>]]"

definition bindingsInitial :: "(nat \<Rightarrow> string) \<Rightarrow> RoleBinding list" where
  "bindingsInitial draw =
    [\<lparr>rb_id = uid (draw 7) ''rb'', rb_name = ''alice-admin'', rb_namespace = ''team-ml'',
      rb_roleRef = (KRole, ''namespace-admin''), rb_subjects = [(SubjectUser, ''alice'')]\<rparr>,
     \<lparr>rb_id = uid (draw 8) ''rb'', rb_name = ''ml-engineers'', rb_namespace = ''team-ml'',
      rb_roleRef = (KRole, ''ml-engineer''), rb_subjects = [(SubjectUser, ''bob''), (SubjectUser, ''carol'')]\<rparr>]"

definition rbac_init :: "(nat \<Rightarrow> string) \<Rightarrow> string \<Rightarrow> rbac" where
  "rbac_init draw today =
     \<lparr>loaded = {}, in_flight = [], user_rows = usersInitial draw today,
      role_rows = rolesInitial draw, binding_rows = bindingsInitial draw\<rparr>"

subsection \<open>Requests\<close>

definition listUsers :: http_request where
  "listUsers = get_request ''/api/v1/admin/users''"

definition memberships_json :: "NamespaceRole js_map \<Rightarrow> json" where
  "memberships_json ms = JObj (map (\<lambda>(ns, r). (ns, JStr (role_text r))) ms)"

definition patchUser :: "string \<Rightarrow> bool \<Rightarrow> NamespaceRole js_map \<Rightarrow> http_request" where
  "patchUser i padmin ms = json_request PATCH (''/api/v1/admin/users/'' @ encodeURIComponent i)
     (JObj [(''isPlatformAdmin'', JBool padmin), (''memberships'', memberships_json ms)])"

record Quota =
  quota_cpu :: int
  quota_memory :: int
  quota_gpu :: int
  quota_pods :: int

definition quota_json :: "Quota \<Rightarrow> json" where
  "quota_json q = JObj [(''cpu'', jint (quota_cpu q)), (''memory'', jint (quota_memory q)),
     (''gpu'', jint (quota_gpu q)), (''pods'', jint (quota_pods q))]"

definition listNamespaces :: http_request where
  "listNamespaces = get_request ''/api/v1/admin/namespaces''"

definition listMyNamespaces :: http_request where
  "listMyNamespaces = get_request ''/api/v1/namespaces''"

definition createNamespace :: "string \<Rightarrow> string js_map option \<Rightarrow> Quota \<Rightarrow> http_request" where
  "createNamespace name labels quota = json_request POST ''/api/v1/admin/namespaces'' (jobj
     [(''name'', Some (JStr name)),
      (''labels'', map_option (\<lambda>m. JObj (map (\<lambda>(k, v). (k, JStr v)) m)) labels),
      (''quota'', Some (quota_json quota))])"

definition admin_namespace :: "string \<Rightarrow> string" where
  "admin_namespace ns = ''/api/v1/admin/namespaces/'' @ encodeURIComponent ns"

definition updateNamespaceQuota :: "string \<Rightarrow> Quota \<Rightarrow> http_request" where
  "updateNamespaceQuota name quota =
     json_request PATCH (admin_namespace name @ ''/quota'') (quota_json quota)"

definition deleteNamespace :: "string \<Rightarrow> http_request" where
  "deleteNamespace name = bare_request DELETE (admin_namespace name)"

text \<open>
  What a page saves, \<open>Omit<Role, 'id' | 'namespace'> & { namespace?: string }\<close>; the body is
  \<open>{ ...role, namespace }\<close>, so the namespace asked for wins.
\<close>

record role_input =
  ri_name :: string
  ri_kind :: role_kind
  ri_rules :: "role_rule list"
  ri_namespace :: "string option"

definition strs :: "string list \<Rightarrow> json" where
  "strs xs = JArr (map JStr xs)"

definition rule_json :: "role_rule \<Rightarrow> json" where
  "rule_json r = JObj [(''apiGroups'', strs (rule_apiGroups r)), (''resources'', strs (rule_resources r)),
     (''verbs'', strs (rule_verbs r))]"

definition listRoles :: "string \<Rightarrow> http_request" where
  "listRoles ns = get_request (admin_namespace ns @ ''/roles'')"

definition upsertRole :: "string \<Rightarrow> role_input \<Rightarrow> http_request" where
  "upsertRole ns role = json_request POST (admin_namespace ns @ ''/roles'') (JObj
     [(''name'', JStr (ri_name role)), (''kind'', JStr (role_kind_text (ri_kind role))),
      (''rules'', JArr (map rule_json (ri_rules role))), (''namespace'', JStr ns)])"

definition deleteRole :: "string \<Rightarrow> role_kind \<Rightarrow> string \<Rightarrow> http_request" where
  "deleteRole ns kind name = bare_request DELETE
     (admin_namespace ns @ ''/roles/'' @ encodeURIComponent (role_kind_text kind) @ ''/'' @ encodeURIComponent name)"

record binding_input =
  bi_name :: string
  bi_roleRef :: "role_kind \<times> string"
  bi_subjects :: "(subject_kind \<times> string) list"
  bi_namespace :: "string option"

definition listRoleBindings :: "string \<Rightarrow> http_request" where
  "listRoleBindings ns = get_request (admin_namespace ns @ ''/rolebindings'')"

definition upsertRoleBinding :: "string \<Rightarrow> binding_input \<Rightarrow> http_request" where
  "upsertRoleBinding ns b = json_request POST (admin_namespace ns @ ''/rolebindings'') (JObj
     [(''name'', JStr (bi_name b)),
      (''roleRef'', JObj [(''kind'', JStr (role_kind_text (fst (bi_roleRef b)))), (''name'', JStr (snd (bi_roleRef b)))]),
      (''subjects'', JArr (map (\<lambda>(k, n). JObj [(''kind'', JStr (subject_text k)), (''name'', JStr n)]) (bi_subjects b))),
      (''namespace'', JStr ns)])"

definition deleteRoleBinding :: "string \<Rightarrow> string \<Rightarrow> http_request" where
  "deleteRoleBinding ns name =
     bare_request DELETE (admin_namespace ns @ ''/rolebindings/'' @ encodeURIComponent name)"

subsection \<open>Users\<close>

definition normalizeUser :: "UserRecord \<Rightarrow> UserRecord" where
  "normalizeUser u = u\<lparr>u_firstSeen := take 10 (u_firstSeen u), u_lastSeen := take 10 (u_lastSeen u),
     u_memberships := Some (nullish (u_memberships u) [])\<rparr>"

definition ensureUsersLoaded :: "bool \<Rightarrow> rbac \<Rightarrow> rbac" where
  "ensureUsersLoaded api s = (if \<not> api then s else start_once ''users'' [listUsers] s)"

definition users_arrived :: "UserRecord list \<Rightarrow> rbac \<Rightarrow> rbac" where
  "users_arrived us s = land ''users'' (s\<lparr>user_rows := map normalizeUser us\<rparr>)"

definition reloadUsers :: "bool \<Rightarrow> rbac \<Rightarrow> rbac" where
  "reloadUsers api s = ensureUsersLoaded api (forget ''users'' s)"

definition updateUser ::
  "bool \<Rightarrow> UserRecord backend \<Rightarrow> string \<Rightarrow> bool \<Rightarrow> NamespaceRole js_map \<Rightarrow> rbac \<Rightarrow> unit promise \<times> rbac" where
  "updateUser api send i padmin ms s =
     (if api then
        (case send (patchUser i padmin ms) of
           Inl e \<Rightarrow> (Inl e, s)
         | Inr updated \<Rightarrow> (Inr (), s\<lparr>user_rows :=
             map_where (\<lambda>u. u_id u = i) (\<lambda>_. normalizeUser updated) (user_rows s)\<rparr>))
      else (Inr (), s\<lparr>user_rows := map_where (\<lambda>u. u_id u = i)
        (\<lambda>u. u\<lparr>u_isPlatformAdmin := padmin, u_memberships := Some ms\<rparr>) (user_rows s)\<rparr>))"

subsection \<open>Roles and bindings\<close>

definition ensureRolesLoaded :: "bool \<Rightarrow> string \<Rightarrow> rbac \<Rightarrow> rbac" where
  "ensureRolesLoaded api ns s =
     (if \<not> api then s else start_once (load_key ''roles'' ns) [listRoles ns] s)"

definition roles_arrived :: "string \<Rightarrow> Role list \<Rightarrow> rbac \<Rightarrow> rbac" where
  "roles_arrived ns rs s =
     land (load_key ''roles'' ns) (s\<lparr>role_rows := filter (\<lambda>r. role_namespace r \<noteq> ns) (role_rows s) @ rs\<rparr>)"

definition reloadRoles :: "bool \<Rightarrow> string \<Rightarrow> rbac \<Rightarrow> rbac" where
  "reloadRoles api ns s = ensureRolesLoaded api ns (forget (load_key ''roles'' ns) s)"

definition ensureBindingsLoaded :: "bool \<Rightarrow> string \<Rightarrow> rbac \<Rightarrow> rbac" where
  "ensureBindingsLoaded api ns s =
     (if \<not> api then s else start_once (load_key ''bindings'' ns) [listRoleBindings ns] s)"

definition bindings_arrived :: "string \<Rightarrow> RoleBinding list \<Rightarrow> rbac \<Rightarrow> rbac" where
  "bindings_arrived ns bs s =
     land (load_key ''bindings'' ns)
       (s\<lparr>binding_rows := filter (\<lambda>b. rb_namespace b \<noteq> ns) (binding_rows s) @ bs\<rparr>)"

definition reloadBindings :: "bool \<Rightarrow> string \<Rightarrow> rbac \<Rightarrow> rbac" where
  "reloadBindings api ns s = ensureBindingsLoaded api ns (forget (load_key ''bindings'' ns) s)"

text \<open>
  Saving in prototype mode: the first row with the identity is looked up; every row with its id is
  overwritten, or a new row is put first.
\<close>

definition save_row ::
  "('a \<Rightarrow> 'k) \<Rightarrow> ('a \<Rightarrow> 'i) \<Rightarrow> 'k \<Rightarrow> ('a \<Rightarrow> 'a) \<Rightarrow> 'a \<Rightarrow> 'a list \<Rightarrow> 'a list" where
  "save_row ident idf k change fresh xs =
     (case find_key ident k xs of
        Some existing \<Rightarrow> map_where (\<lambda>x. idf x = idf existing) change xs
      | None \<Rightarrow> fresh # xs)"

definition role_ident :: "Role \<Rightarrow> string \<times> role_kind \<times> string" where
  "role_ident r = (role_namespace r, role_kind r, role_name r)"

definition change_role :: "string \<Rightarrow> role_input \<Rightarrow> Role \<Rightarrow> Role" where
  "change_role ns role r = r\<lparr>role_name := ri_name role, role_kind := ri_kind role,
     role_rules := ri_rules role, role_namespace := ns\<rparr>"

definition fresh_role :: "string \<Rightarrow> string \<Rightarrow> role_input \<Rightarrow> Role" where
  "fresh_role i ns role =
     \<lparr>role_id = i, role_name = ri_name role, role_namespace = nullish (ri_namespace role) ns,
      role_kind = ri_kind role, role_rules = ri_rules role\<rparr>"

definition saveRole ::
  "bool \<Rightarrow> Role backend \<Rightarrow> string \<Rightarrow> string \<Rightarrow> role_input \<Rightarrow> rbac \<Rightarrow> unit promise \<times> rbac" where
  "saveRole api send draw ns role s =
     (if api then
        (case send (upsertRole ns role) of
           Inl e \<Rightarrow> (Inl e, s)
         | Inr saved \<Rightarrow> (Inr (), s\<lparr>role_rows :=
             saved # filter (\<lambda>r. role_id r \<noteq> role_id saved) (role_rows s)\<rparr>))
      else (Inr (), s\<lparr>role_rows :=
        save_row role_ident role_id (ns, ri_kind role, ri_name role) (change_role ns role)
          (fresh_role (uid draw ''r'') ns role) (role_rows s)\<rparr>))"

definition removeRole ::
  "bool \<Rightarrow> 'r backend \<Rightarrow> string \<Rightarrow> role_kind \<Rightarrow> string \<Rightarrow> string option \<Rightarrow> rbac \<Rightarrow> unit promise \<times> rbac" where
  "removeRole api send ns kind name i s =
     (let cleared = s\<lparr>role_rows := filter (\<lambda>r.
            if truthy_str i then role_id r \<noteq> nullish i ''''
            else \<not> (role_namespace r = ns \<and> role_kind r = kind \<and> role_name r = name)) (role_rows s)\<rparr>
      in if api then (case send (deleteRole ns kind name) of Inl e \<Rightarrow> (Inl e, s) | Inr _ \<Rightarrow> (Inr (), cleared))
         else (Inr (), cleared))"

definition binding_ident :: "RoleBinding \<Rightarrow> string \<times> string" where
  "binding_ident b = (rb_namespace b, rb_name b)"

definition change_binding :: "string \<Rightarrow> binding_input \<Rightarrow> RoleBinding \<Rightarrow> RoleBinding" where
  "change_binding ns bi b = b\<lparr>rb_name := bi_name bi, rb_roleRef := bi_roleRef bi,
     rb_subjects := bi_subjects bi, rb_namespace := ns\<rparr>"

definition fresh_binding :: "string \<Rightarrow> string \<Rightarrow> binding_input \<Rightarrow> RoleBinding" where
  "fresh_binding i ns bi =
     \<lparr>rb_id = i, rb_name = bi_name bi, rb_namespace = nullish (bi_namespace bi) ns,
      rb_roleRef = bi_roleRef bi, rb_subjects = bi_subjects bi\<rparr>"

definition saveBinding ::
  "bool \<Rightarrow> RoleBinding backend \<Rightarrow> string \<Rightarrow> string \<Rightarrow> binding_input \<Rightarrow> rbac \<Rightarrow> unit promise \<times> rbac" where
  "saveBinding api send draw ns bi s =
     (if api then
        (case send (upsertRoleBinding ns bi) of
           Inl e \<Rightarrow> (Inl e, s)
         | Inr saved \<Rightarrow> (Inr (), s\<lparr>binding_rows :=
             saved # filter (\<lambda>b. rb_id b \<noteq> rb_id saved) (binding_rows s)\<rparr>))
      else (Inr (), s\<lparr>binding_rows :=
        save_row binding_ident rb_id (ns, bi_name bi) (change_binding ns bi)
          (fresh_binding (uid draw ''rb'') ns bi) (binding_rows s)\<rparr>))"

definition removeBinding ::
  "bool \<Rightarrow> 'r backend \<Rightarrow> string \<Rightarrow> string \<Rightarrow> string option \<Rightarrow> rbac \<Rightarrow> unit promise \<times> rbac" where
  "removeBinding api send ns name i s =
     (let cleared = s\<lparr>binding_rows := filter (\<lambda>b.
            if truthy_str i then rb_id b \<noteq> nullish i ''''
            else \<not> (rb_namespace b = ns \<and> rb_name b = name)) (binding_rows s)\<rparr>
      in if api then (case send (deleteRoleBinding ns name) of Inl e \<Rightarrow> (Inl e, s) | Inr _ \<Rightarrow> (Inr (), cleared))
         else (Inr (), cleared))"

subsection \<open>The stores as maps from identities\<close>

text \<open>
  The contract of a store saved by identity and carrying ids of its own: \<open>change\<close> overwrites the
  content of a row and \<open>fresh\<close> makes one, both under the identity of what is saved.
\<close>

definition named_ok :: "('a \<Rightarrow> 'k) \<Rightarrow> ('a \<Rightarrow> 'i) \<Rightarrow> 'a list \<Rightarrow> bool" where
  "named_ok ident idf xs \<longleftrightarrow> keys_ok ident xs \<and> keys_ok idf xs"

definition table :: "('a \<Rightarrow> 'k) \<Rightarrow> ('a \<Rightarrow> 'c) \<Rightarrow> 'a list \<Rightarrow> 'k \<Rightarrow> 'c option" where
  "table ident content xs k = map_option content (find_key ident k xs)"

lemma same_row:
  assumes "named_ok ident idf xs" "x \<in> set xs" "e \<in> set xs"
  shows "idf x = idf e \<longleftrightarrow> ident x = ident e"
proof -
  have d: "distinct (map ident xs)" "distinct (map idf xs)"
    using assms(1) by (simp_all add: named_ok_def keys_ok_def)
  show ?thesis
    using unique_key [OF d(1)] unique_key [OF d(2)] assms(2,3) by (metis option.inject)
qed

locale named_store =
  fixes ident :: "'a \<Rightarrow> 'k" and idf :: "'a \<Rightarrow> 'i" and content :: "'a \<Rightarrow> 'c"
    and name_of :: "'v \<Rightarrow> 'k" and saved :: "'v \<Rightarrow> 'c"
    and change :: "'v \<Rightarrow> 'a \<Rightarrow> 'a" and fresh :: "'i \<Rightarrow> 'v \<Rightarrow> 'a"
  assumes change_laws: "idf (change v x) = idf x" "ident (change v x) = name_of v" "content (change v x) = saved v"
    and fresh_laws: "idf (fresh i v) = i" "ident (fresh i v) = name_of v" "content (fresh i v) = saved v"
begin

lemma change_is_named:
  assumes "named_ok ident idf xs" "find_key ident (name_of v) xs = Some e"
  shows "map_where (\<lambda>x. idf x = idf e) (change v) xs = map_where (\<lambda>x. ident x = name_of v) (change v) xs"
proof -
  have e: "e \<in> set xs" "ident e = name_of v" using find_key_Some [OF assms(2)] by simp_all
  have "idf x = idf e \<longleftrightarrow> ident x = name_of v" if "x \<in> set xs" for x
    using same_row [OF assms(1) that e(1)] e(2) by simp
  then show ?thesis unfolding map_where_def by (intro map_cong) auto
qed

lemma save_row_rows:
  assumes "named_ok ident idf xs"
  shows "save_row ident idf (name_of v) (change v) (fresh i v) xs =
    (if name_of v \<in> ident ` set xs then map_where (\<lambda>x. ident x = name_of v) (change v) xs
     else fresh i v # xs)"
  using change_is_named [OF assms] find_key_None [of ident "name_of v" xs]
  by (auto simp: save_row_def split: option.splits)

lemma save_row_ok:
  assumes "named_ok ident idf xs" "i \<notin> idf ` set xs"
  shows "named_ok ident idf (save_row ident idf (name_of v) (change v) (fresh i v) xs)"
proof -
  have "map ident (map_where (\<lambda>x. ident x = name_of v) (change v) xs) = map ident xs"
    "map idf (map_where (\<lambda>x. ident x = name_of v) (change v) xs) = map idf xs"
    by (simp_all add: map_where_def change_laws)
  then show ?thesis
    using assms by (simp add: save_row_rows named_ok_def keys_ok_def fresh_laws)
qed

lemma save_row_table:
  assumes "named_ok ident idf xs"
  shows "table ident content (save_row ident idf (name_of v) (change v) (fresh i v) xs) =
    (table ident content xs)(name_of v \<mapsto> saved v)"
proof
  fix k
  have "find_key ident k (map_where (\<lambda>x. ident x = name_of v) (change v) xs) =
    map_option (\<lambda>x. if ident x = name_of v then change v x else x) (find_key ident k xs)"
    unfolding map_where_def by (induction xs) (auto simp: change_laws)
  then show "table ident content (save_row ident idf (name_of v) (change v) (fresh i v) xs) k =
    ((table ident content xs)(name_of v \<mapsto> saved v)) k"
    using find_key_Some [of ident k xs] find_key_None [of ident k xs]
    by (auto simp: save_row_rows [OF assms] table_def fresh_laws change_laws option.map_comp
          split: option.splits)
qed

end

lemma remove_ident_table:
  "table ident content (filter (\<lambda>x. \<not> ident x = k) xs) = (table ident content xs)(k := None)"
  using find_remove_key [of ident _ k xs] by (auto simp: table_def fun_eq_iff remove_key_def drop_where_def)

lemma remove_ident_ok: "named_ok ident idf xs \<Longrightarrow> named_ok ident idf (filter p xs)"
  using keys_ok_drop [of ident xs "\<lambda>x. \<not> p x"] keys_ok_drop [of idf xs "\<lambda>x. \<not> p x"]
  by (simp add: named_ok_def drop_where_def)

text \<open>Removing by the id of the row that has the identity is removing by identity.\<close>

lemma remove_by_id:
  assumes "named_ok ident idf xs" "find_key ident k xs = Some e"
  shows "filter (\<lambda>x. idf x \<noteq> idf e) xs = filter (\<lambda>x. \<not> ident x = k) xs"
proof -
  have e: "e \<in> set xs" "ident e = k" using find_key_Some [OF assms(2)] by simp_all
  have "idf x = idf e \<longleftrightarrow> ident x = k" if "x \<in> set xs" for x
    using same_row [OF assms(1) that e(1)] e(2) by simp
  then show ?thesis by (intro filter_cong) auto
qed

definition role_saved :: "string \<Rightarrow> role_input \<Rightarrow> role_input" where
  "role_saved ns role = role\<lparr>ri_namespace := Some ns\<rparr>"

interpretation role_store: named_store role_ident role_id role_rules
  "\<lambda>(ns, role). (ns, ri_kind role, ri_name role)" "\<lambda>(ns, role). ri_rules role"
  "\<lambda>(ns, role). change_role ns role" "\<lambda>i (ns, role). fresh_role i ns (role_saved ns role)"
  by unfold_locales (auto simp: role_ident_def change_role_def fresh_role_def role_saved_def)

definition binding_saved :: "string \<Rightarrow> binding_input \<Rightarrow> binding_input" where
  "binding_saved ns b = b\<lparr>bi_namespace := Some ns\<rparr>"

interpretation binding_store: named_store binding_ident rb_id "\<lambda>b. (rb_roleRef b, rb_subjects b)"
  "\<lambda>(ns, b). (ns, bi_name b)" "\<lambda>(ns, b). (bi_roleRef b, bi_subjects b)"
  "\<lambda>(ns, b). change_binding ns b" "\<lambda>i (ns, b). fresh_binding i ns (binding_saved ns b)"
  by unfold_locales (auto simp: binding_ident_def change_binding_def fresh_binding_def binding_saved_def)

definition roles_ok :: "Role list \<Rightarrow> bool" where
  "roles_ok rs \<longleftrightarrow> named_ok role_ident role_id rs"

definition role_table :: "Role list \<Rightarrow> string \<times> role_kind \<times> string \<Rightarrow> role_rule list option" where
  "role_table = table role_ident role_rules"

definition bindings_ok :: "RoleBinding list \<Rightarrow> bool" where
  "bindings_ok bs \<longleftrightarrow> named_ok binding_ident rb_id bs"

definition binding_table ::
  "RoleBinding list \<Rightarrow> string \<times> string \<Rightarrow> ((role_kind \<times> string) \<times> (subject_kind \<times> string) list) option" where
  "binding_table = table binding_ident (\<lambda>b. (rb_roleRef b, rb_subjects b))"

lemma saved_same_namespace:
  "nullish (ri_namespace role) ns = ns \<Longrightarrow> fresh_role i ns role = fresh_role i ns (role_saved ns role)"
  "nullish (bi_namespace b) ns = ns \<Longrightarrow> fresh_binding i ns b = fresh_binding i ns (binding_saved ns b)"
  by (simp_all add: fresh_role_def role_saved_def fresh_binding_def binding_saved_def)

lemma removeRole_rows:
  "role_rows (snd (removeRole False send ns kind name None s)) =
     filter (\<lambda>r. \<not> role_ident r = (ns, kind, name)) (role_rows s)"
  by (auto simp: removeRole_def role_ident_def intro: filter_cong)

lemma removeBinding_rows:
  "binding_rows (snd (removeBinding False send ns name None s)) =
     filter (\<lambda>b. \<not> binding_ident b = (ns, name)) (binding_rows s)"
  by (auto simp: removeBinding_def binding_ident_def intro: filter_cong)

lemma removeRole_by_id:
  assumes "roles_ok (role_rows s)" "find_key role_ident (ns, kind, name) (role_rows s) = Some e" "role_id e \<noteq> []"
  shows "snd (removeRole False send ns kind name (Some (role_id e)) s) =
    snd (removeRole False send ns kind name None s)"
  using remove_by_id [of role_ident role_id "role_rows s" "(ns, kind, name)" e] assms
  by (auto simp: removeRole_def roles_ok_def role_ident_def)

text \<open>
  In prototype mode the roles store is a map from a role's namespace, kind and name to its
  rules: saving sets that key and keeps every other, keeping ids and identities unique, and
  removing clears it again, by identity or by the id of the row that has it.
\<close>

theorem roles_store_refines:
  assumes "roles_ok (role_rows s)" "uid draw ''r'' \<notin> role_id ` set (role_rows s)"
    and "nullish (ri_namespace role) ns = ns"
    and "s' = snd (saveRole False send draw ns role s)"
  shows "roles_ok (role_rows s')
    \<and> role_table (role_rows s') =
        (role_table (role_rows s))((ns, ri_kind role, ri_name role) \<mapsto> ri_rules role)
    \<and> roles_ok (role_rows (snd (removeRole False send ns kind name None s')))
    \<and> role_table (role_rows (snd (removeRole False send ns kind name None s'))) =
        (role_table (role_rows s'))((ns, kind, name) := None)"
proof -
  have rows: "role_rows s' = save_row role_ident role_id (ns, ri_kind role, ri_name role)
      (change_role ns role) (fresh_role (uid draw ''r'') ns (role_saved ns role)) (role_rows s)"
    using assms(4) saved_same_namespace(1) [OF assms(3)] by (simp add: saveRole_def)
  have ok: "named_ok role_ident role_id (role_rows s)" using assms(1) by (simp add: roles_ok_def)
  show ?thesis
    using role_store.save_row_ok [OF ok assms(2), of "(ns, role)"]
      role_store.save_row_table [OF ok, of "(ns, role)"]
    by (simp add: rows roles_ok_def role_table_def removeRole_rows remove_ident_table remove_ident_ok)
qed

theorem roles_store_refines_witness:
  "roles_ok (role_rows (snd (saveRole False (\<lambda>_. Inl (JsError '''')) ''new'' ''team-ml''
      \<lparr>ri_name = ''viewer'', ri_kind = KRole, ri_rules = [], ri_namespace = None\<rparr>
      (rbac_init (\<lambda>n. replicate n CHR ''x'') ''2026-01-01'')))) \<and>
   role_table (role_rows (snd (saveRole False (\<lambda>_. Inl (JsError '''')) ''new'' ''team-ml''
      \<lparr>ri_name = ''viewer'', ri_kind = KRole, ri_rules = [], ri_namespace = None\<rparr>
      (rbac_init (\<lambda>n. replicate n CHR ''x'') ''2026-01-01'')))) (''team-ml'', KRole, ''viewer'') = Some []"
proof -
  let ?s = "rbac_init (\<lambda>n. replicate n CHR ''x'') ''2026-01-01''"
  have "roles_ok (role_rows ?s)" "uid ''new'' ''r'' \<notin> role_id ` set (role_rows ?s)"
    by (simp_all add: roles_ok_def named_ok_def keys_ok_def rbac_init_def rolesInitial_def seed_role_def
        uid_def role_ident_def eval_nat_numeral)
  from roles_store_refines [where send = "\<lambda>_. Inl (JsError '''')", OF this _ refl]
  show ?thesis by simp
qed

lemma bindings_store_refines:
  assumes "bindings_ok (binding_rows s)" "uid draw ''rb'' \<notin> rb_id ` set (binding_rows s)"
    and "nullish (bi_namespace b) ns = ns"
    and "s' = snd (saveBinding False send draw ns b s)"
  shows "bindings_ok (binding_rows s')
    \<and> binding_table (binding_rows s') =
        (binding_table (binding_rows s))((ns, bi_name b) \<mapsto> (bi_roleRef b, bi_subjects b))
    \<and> bindings_ok (binding_rows (snd (removeBinding False send ns name None s')))
    \<and> binding_table (binding_rows (snd (removeBinding False send ns name None s'))) =
        (binding_table (binding_rows s'))((ns, name) := None)"
proof -
  have rows: "binding_rows s' = save_row binding_ident rb_id (ns, bi_name b)
      (change_binding ns b) (fresh_binding (uid draw ''rb'') ns (binding_saved ns b)) (binding_rows s)"
    using assms(4) saved_same_namespace(2) [OF assms(3)] by (simp add: saveBinding_def)
  have ok: "named_ok binding_ident rb_id (binding_rows s)" using assms(1) by (simp add: bindings_ok_def)
  show ?thesis
    using binding_store.save_row_ok [OF ok assms(2), of "(ns, b)"]
      binding_store.save_row_table [OF ok, of "(ns, b)"]
    by (simp add: rows bindings_ok_def binding_table_def removeBinding_rows remove_ident_table remove_ident_ok)
qed

end
