(* ===== verification/Notebooks.thy ===== *)
theory Notebooks
  imports Workloads Api_Inference
begin

text \<open>
  \<open>frontend/src/data/notebooks.ts\<close> and \<open>frontend/src/api/notebooks.ts\<close>: notebook servers, listed per
  namespace, created, started, stopped and deleted. In prototype mode a command marks the rows
  Progressing at once and a timer settles them: 1.2 s after a start or a stop, 1.5 s after a
  creation. A start or a stop is addressed by namespace and name, a creation's timer by id.
\<close>

subsection \<open>Rows\<close>

datatype volume_kind = VolNew | VolExisting | VolNone

fun volume_text :: "volume_kind \<Rightarrow> string" where
  "volume_text VolNew = ''new''"
| "volume_text VolExisting = ''existing''"
| "volume_text VolNone = ''none''"

record NotebookVolume =
  vol_kind :: volume_kind
  vol_pvcName :: "string option"
  vol_storageClass :: "string option"
  vol_capacity :: "string option"
  vol_mountPath :: "string option"

datatype notebook_status = NbRunning | NbStopped | NbProgressing | NbFailed

record Notebook = k8s_obj +
  nb_image :: string
  nb_cpu :: string
  nb_cpuLimit :: "string option"
  nb_memory :: string
  nb_memoryLimit :: "string option"
  nb_gpu :: int
  nb_gpuProfileId :: "string option"
  nb_gpuValues :: "int js_map option"
  nb_volume :: "NotebookVolume option"
  nb_sharedMemory :: "string option"
  nb_status :: notebook_status
  nb_url :: string
  nb_createdAt :: string
  nb_owner :: string

datatype nb_timer = CreatedRuns string | StartDone string string | StopDone string string

record notebooks = "nb_timer timed" +
  notebook_rows :: "Notebook list"

definition plain_volume :: "volume_kind \<Rightarrow> string option \<Rightarrow> string option \<Rightarrow> NotebookVolume" where
  "plain_volume kind pvc mount =
     \<lparr>vol_kind = kind, vol_pvcName = pvc, vol_storageClass = None, vol_capacity = None, vol_mountPath = mount\<rparr>"

definition seed_notebook ::
  "string \<Rightarrow> string \<Rightarrow> string \<Rightarrow> string \<Rightarrow> string \<Rightarrow> string \<Rightarrow> string \<Rightarrow> bool \<Rightarrow> string \<Rightarrow> string \<Rightarrow>
     notebook_status \<Rightarrow> string \<Rightarrow> Notebook" where
  "seed_notebook i today name ns img cpu mem gpu claim shm status owner =
     \<lparr>obj_id = i, obj_name = name, obj_namespace = ns, nb_image = img, nb_cpu = cpu, nb_cpuLimit = Some cpu,
      nb_memory = mem, nb_memoryLimit = Some mem, nb_gpu = (if gpu then 1 else 0), nb_gpuProfileId = None,
      nb_gpuValues = (if gpu then Some [(''nvidia.com/gpu'', 1)] else None),
      nb_volume = Some (plain_volume VolExisting (Some claim) (Some ''/home/jovyan'')),
      nb_sharedMemory = Some shm, nb_status = status,
      nb_url = ''/notebook/'' @ ns @ ''/'' @ name, nb_createdAt = today, nb_owner = owner\<rparr>"

definition notebooksInitial :: "(nat \<Rightarrow> string) \<Rightarrow> string \<Rightarrow> Notebook list" where
  "notebooksInitial draw today =
    [seed_notebook (uid (draw 0) ''nb'') today ''alice-research'' ''team-ml''
       ''kubeflownotebookswg/jupyter-pytorch-cuda-full:v1.10.0'' ''4'' ''16Gi'' True ''notebook-alice-home'' ''2Gi''
       NbRunning ''alice'',
     seed_notebook (uid (draw 1) ''nb'') today ''bob-eval'' ''team-ml''
       ''kubeflownotebookswg/jupyter-scipy:v1.10.0'' ''2'' ''8Gi'' False ''notebook-bob-home'' ''512Mi''
       NbStopped ''bob'',
     seed_notebook (uid (draw 2) ''nb'') today ''carol-vision'' ''team-vision''
       ''kubeflownotebookswg/jupyter-pytorch-cuda-full:v1.10.0'' ''4'' ''16Gi'' True ''notebook-carol-home'' ''2Gi''
       NbProgressing ''carol'']"

definition notebooks_init :: "(nat \<Rightarrow> string) \<Rightarrow> string \<Rightarrow> notebooks" where
  "notebooks_init draw today =
     \<lparr>loaded = {}, in_flight = [], now = 0, timers = [], notebook_rows = notebooksInitial draw today\<rparr>"

subsection \<open>Requests\<close>

record CreateNotebookRequest =
  cn_name :: string
  cn_image :: string
  cn_cpuRequest :: string
  cn_cpuLimit :: "string option"
  cn_memoryRequest :: string
  cn_memoryLimit :: "string option"
  cn_gpuValues :: "int js_map option"
  cn_sharedMemory :: "string option"
  cn_volume :: NotebookVolume
  cn_env :: "(string \<times> string) list option"
  cn_owner :: "string option"

definition volume_json :: "NotebookVolume \<Rightarrow> json" where
  "volume_json v = jobj
    [(''kind'', Some (JStr (volume_text (vol_kind v)))), (''pvcName'', map_option JStr (vol_pvcName v)),
     (''storageClass'', map_option JStr (vol_storageClass v)), (''capacity'', map_option JStr (vol_capacity v)),
     (''mountPath'', map_option JStr (vol_mountPath v))]"

definition notebook_request_json :: "CreateNotebookRequest \<Rightarrow> json" where
  "notebook_request_json r = jobj
    [(''name'', Some (JStr (cn_name r))), (''image'', Some (JStr (cn_image r))),
     (''cpuRequest'', Some (JStr (cn_cpuRequest r))), (''cpuLimit'', map_option JStr (cn_cpuLimit r)),
     (''memoryRequest'', Some (JStr (cn_memoryRequest r))), (''memoryLimit'', map_option JStr (cn_memoryLimit r)),
     (''gpuValues'', map_option jcounts (cn_gpuValues r)), (''sharedMemory'', map_option JStr (cn_sharedMemory r)),
     (''volume'', Some (volume_json (cn_volume r))),
     (''env'', map_option (\<lambda>es. JArr (map (\<lambda>(n, v). JObj [(''name'', JStr n), (''value'', JStr v)]) es)) (cn_env r)),
     (''owner'', map_option JStr (cn_owner r))]"

definition notebook_path :: "string \<Rightarrow> string" where
  "notebook_path ns = ''/api/v1/namespaces/'' @ encodeURIComponent ns @ ''/notebook''"

definition api_createNotebook :: "string \<Rightarrow> CreateNotebookRequest \<Rightarrow> http_request" where
  "api_createNotebook ns req = json_request POST (notebook_path ns) (notebook_request_json req)"

definition api_stopNotebook :: "string \<Rightarrow> string \<Rightarrow> http_request" where
  "api_stopNotebook ns name =
     bare_request POST (notebook_path ns @ ''/'' @ encodeURIComponent name @ ''/stop'')"

definition api_startNotebook :: "string \<Rightarrow> string \<Rightarrow> http_request" where
  "api_startNotebook ns name =
     bare_request POST (notebook_path ns @ ''/'' @ encodeURIComponent name @ ''/start'')"

text \<open>A failed listing is an empty one.\<close>

definition listNotebooks :: "Notebook list promise \<Rightarrow> Notebook list promise" where
  "listNotebooks r = Inr (caught r)"

subsection \<open>Operations\<close>

definition ensureNbDefaults :: "Notebook \<Rightarrow> Notebook" where
  "ensureNbDefaults n = n\<lparr>
     obj_id := or_str (obj_id n) (''nb-'' @ obj_namespace n @ ''-'' @ obj_name n),
     nb_cpuLimit := Some (nullish (nb_cpuLimit n) (nb_cpu n)),
     nb_memoryLimit := Some (nullish (nb_memoryLimit n) (nb_memory n)),
     nb_volume := Some (nullish (nb_volume n) (plain_volume VolNone None None)),
     nb_sharedMemory := Some (nullish (nb_sharedMemory n) '''')\<rparr>"

definition ensureNotebooksLoaded :: "bool \<Rightarrow> string \<Rightarrow> notebooks \<Rightarrow> notebooks" where
  "ensureNotebooksLoaded api ns s =
     (if \<not> api then s
      else start_once (load_key ''nb'' ns) [listNamespaced Notebooks ns] s)"

text \<open>The answer, what \<open>listNotebooks\<close> made of it.\<close>

definition notebooks_answered :: "string \<Rightarrow> Notebook list promise \<Rightarrow> notebooks \<Rightarrow> notebooks" where
  "notebooks_answered ns answer s =
     (case listNotebooks answer of
        Inl e \<Rightarrow> fetch_failed (load_key ''nb'' ns) s
      | Inr items \<Rightarrow> land (load_key ''nb'' ns) (s\<lparr>notebook_rows :=
          filter (\<lambda>n. obj_namespace n \<noteq> ns) (notebook_rows s) @ map ensureNbDefaults items\<rparr>))"

definition reloadNotebooks :: "bool \<Rightarrow> string \<Rightarrow> notebooks \<Rightarrow> notebooks" where
  "reloadNotebooks api ns s = ensureNotebooksLoaded api ns (forget (load_key ''nb'' ns) s)"

definition new_notebook :: "string \<Rightarrow> string \<Rightarrow> CreateNotebookRequest \<Rightarrow> Notebook" where
  "new_notebook today ns req = ensureNbDefaults
     \<lparr>obj_id = ''nb-'' @ ns @ ''-'' @ cn_name req, obj_name = cn_name req, obj_namespace = ns,
      nb_image = cn_image req, nb_cpu = cn_cpuRequest req, nb_cpuLimit = cn_cpuLimit req,
      nb_memory = cn_memoryRequest req, nb_memoryLimit = cn_memoryLimit req,
      nb_gpu = sum_list (map snd (nullish (cn_gpuValues req) [])), nb_gpuProfileId = None,
      nb_gpuValues = cn_gpuValues req,
      nb_volume = Some (plain_volume (vol_kind (cn_volume req)) (vol_pvcName (cn_volume req))
        (vol_mountPath (cn_volume req))),
      nb_sharedMemory = Some (nullish (cn_sharedMemory req) ''2Gi''), nb_status = NbProgressing,
      nb_url = ''/notebook/'' @ ns @ ''/'' @ cn_name req, nb_createdAt = today,
      nb_owner = nullish (cn_owner req) ''me''\<rparr>"

definition createNotebook ::
  "bool \<Rightarrow> 'r backend \<Rightarrow> string \<Rightarrow> string \<Rightarrow> CreateNotebookRequest \<Rightarrow> notebooks \<Rightarrow> unit promise \<times> notebooks" where
  "createNotebook api send today ns req s =
     (if api then then_reload send (api_createNotebook ns req) (reloadNotebooks api ns) s
      else (Inr (), setTimeout (CreatedRuns (obj_id (new_notebook today ns req))) 1500
             (s\<lparr>notebook_rows := new_notebook today ns req # notebook_rows s\<rparr>)))"

definition set_status :: "notebook_status \<Rightarrow> Notebook \<Rightarrow> Notebook" where
  "set_status st n = n\<lparr>nb_status := st\<rparr>"

definition startNotebook ::
  "bool \<Rightarrow> 'r backend \<Rightarrow> string \<Rightarrow> string \<Rightarrow> notebooks \<Rightarrow> unit promise \<times> notebooks" where
  "startNotebook api send ns name s =
     (if api then then_reload send (api_startNotebook ns name) (reloadNotebooks api ns) s
      else (Inr (), setTimeout (StartDone ns name) 1200
             (s\<lparr>notebook_rows := map_where (names_obj ns name) (set_status NbProgressing) (notebook_rows s)\<rparr>)))"

definition stopNotebook ::
  "bool \<Rightarrow> 'r backend \<Rightarrow> string \<Rightarrow> string \<Rightarrow> notebooks \<Rightarrow> unit promise \<times> notebooks" where
  "stopNotebook api send ns name s =
     (if api then then_reload send (api_stopNotebook ns name) (reloadNotebooks api ns) s
      else (Inr (), setTimeout (StopDone ns name) 1200
             (s\<lparr>notebook_rows := map_where (names_obj ns name) (set_status NbProgressing) (notebook_rows s)\<rparr>)))"

definition deleteNotebook ::
  "bool \<Rightarrow> 'r backend \<Rightarrow> string \<Rightarrow> string \<Rightarrow> notebooks \<Rightarrow> unit promise \<times> notebooks" where
  "deleteNotebook api send ns name s =
     (if api then then_reload send (deleteNamespaced Notebooks ns name) (reloadNotebooks api ns) s
      else (Inr (), s\<lparr>notebook_rows := drop_where (names_obj ns name) (notebook_rows s)\<rparr>))"

text \<open>What each callback does when it runs.\<close>

fun nb_hits :: "nb_timer \<Rightarrow> Notebook \<Rightarrow> bool" where
  "nb_hits (CreatedRuns i) n = (obj_id n = i)"
| "nb_hits (StartDone ns name) n = names_obj ns name n"
| "nb_hits (StopDone ns name) n = names_obj ns name n"

fun nb_target :: "nb_timer \<Rightarrow> notebook_status" where
  "nb_target (StopDone ns name) = NbStopped"
| "nb_target _ = NbRunning"

definition nb_run :: "nb_timer \<Rightarrow> notebooks \<Rightarrow> notebooks" where
  "nb_run e s = s\<lparr>notebook_rows := map_where (nb_hits e) (set_status (nb_target e)) (notebook_rows s)\<rparr>"

definition nb_elapse :: "nat \<Rightarrow> notebooks \<Rightarrow> notebooks" where
  "nb_elapse t s = elapse nb_run t s"

subsection \<open>What the timers do to each row\<close>

definition nb_eff :: "nb_timer \<Rightarrow> Notebook \<Rightarrow> Notebook" where
  "nb_eff e n = (if nb_hits e n then set_status (nb_target e) n else n)"

text \<open>Ids exempt from the promise: the seeded rows, one of which is Progressing from the start.\<close>

definition nb_settled :: "string set \<Rightarrow> Notebook \<Rightarrow> bool" where
  "nb_settled ids n \<longleftrightarrow> nb_status n \<noteq> NbProgressing \<or> obj_id n \<in> ids"

lemma nb_hits_status [simp]: "nb_hits e (set_status st n) = nb_hits e n"
  by (cases e) (simp_all add: set_status_def names_obj_def)

lemma set_status_fields [simp]:
  "nb_status (set_status st n) = st" "obj_id (set_status st n) = obj_id n"
  "obj_name (set_status st n) = obj_name n" "obj_namespace (set_status st n) = obj_namespace n"
  by (simp_all add: set_status_def)

lemma nb_target_settles [simp]: "nb_target e \<noteq> NbProgressing"
  by (cases e) simp_all

interpretation nb_timers: settling nb_eff nb_hits "nb_settled ids" for ids
  by unfold_locales (simp_all add: nb_eff_def nb_settled_def)

lemma nb_run_rows: "notebook_rows (nb_run e s) = map (nb_eff e) (notebook_rows s)"
  by (simp add: nb_run_def map_where_def nb_eff_def)

lemma nb_fold_rows:
  "notebook_rows (fold nb_run es s) = map (fold nb_eff es) (notebook_rows s)"
  "timers (fold nb_run es s) = timers s" "now (fold nb_run es s) = now s"
  by (induction es arbitrary: s) (simp_all add: nb_run_rows, simp_all add: nb_run_def)

lemma nb_elapse_rows:
  "notebook_rows (nb_elapse t s) = map (fold nb_eff (due t s)) (notebook_rows s)"
  "timers (nb_elapse t s) = filter (\<lambda>e. \<not> fst e \<le> t) (timers s)" "now (nb_elapse t s) = t"
  by (simp_all add: nb_elapse_def elapse_def nb_fold_rows)

inductive nb_step :: "notebooks \<Rightarrow> notebooks \<Rightarrow> bool" where
  "nb_step s (snd (createNotebook False (send :: unit backend) today ns req s))"
| "nb_step s (snd (startNotebook False (send :: unit backend) ns name s))"
| "nb_step s (snd (stopNotebook False (send :: unit backend) ns name s))"
| "nb_step s (snd (deleteNotebook False (send :: unit backend) ns name s))"
| "now s \<le> t \<Longrightarrow> nb_step s (nb_elapse t s)"

inductive nb_reach :: "(nat \<Rightarrow> string) \<Rightarrow> string \<Rightarrow> notebooks \<Rightarrow> bool" for draw today where
  "nb_reach draw today (notebooks_init draw today)"
| "nb_reach draw today s \<Longrightarrow> nb_step s s' \<Longrightarrow> nb_reach draw today s'"

definition nb_seed_ids :: "(nat \<Rightarrow> string) \<Rightarrow> string \<Rightarrow> string set" where
  "nb_seed_ids draw today = set (map obj_id (notebooksInitial draw today))"

definition is_creation :: "nb_timer \<Rightarrow> bool" where
  "is_creation e \<longleftrightarrow> (case e of CreatedRuns i \<Rightarrow> True | _ \<Rightarrow> False)"

lemma is_creation_simps [simp]:
  "is_creation (CreatedRuns i)" "\<not> is_creation (StartDone ns name)" "\<not> is_creation (StopDone ns name)"
  by (simp_all add: is_creation_def)

text \<open>The invariant: every row is awaited, and each timer is due within its own delay.\<close>

definition nb_inv :: "string set \<Rightarrow> notebooks \<Rightarrow> bool" where
  "nb_inv ids s \<longleftrightarrow>
     (\<forall>n \<in> set (notebook_rows s). awaited nb_hits (nb_settled ids) (timers s) n) \<and>
     (\<forall>(d, e) \<in> set (timers s). d \<le> now s + (if is_creation e then 1500 else 1200))"

lemma nb_inv_command:
  assumes "nb_inv ids s" "e = StartDone ns name \<or> e = StopDone ns name"
  shows "nb_inv ids (setTimeout e 1200
    (s\<lparr>notebook_rows := map_where (names_obj ns name) (set_status NbProgressing) (notebook_rows s)\<rparr>))"
proof -
  let ?ts = "timers s @ [(now s + 1200, e)]"
  have "awaited nb_hits (nb_settled ids) ?ts (set_status NbProgressing n)" if "names_obj ns name n" for n
    using that assms(2) by (intro awaited_timer [of "now s + 1200" e]) auto
  moreover have "awaited nb_hits (nb_settled ids) ?ts n"
    if "awaited nb_hits (nb_settled ids) (timers s) n" for n
    using that by (rule awaited_mono) auto
  ultimately show ?thesis
    using assms(1) by (auto simp: nb_inv_def setTimeout_def ball_map_where)
qed

lemma nb_inv_step: "nb_step s s' \<Longrightarrow> nb_inv ids s \<Longrightarrow> nb_inv ids s'"
proof (induction rule: nb_step.induct)
  case (1 s send today ns req)
  then show ?case
    by (auto simp: nb_inv_def createNotebook_def setTimeout_def is_creation_def
        intro: awaited_mono awaited_timer [of "now s + 1500"])
next
  case (2 s send ns name)
  then show ?case using nb_inv_command by (simp add: startNotebook_def)
next
  case (3 s send ns name)
  then show ?case using nb_inv_command by (simp add: stopNotebook_def)
next
  case (4 s send ns name)
  then show ?case by (auto simp: nb_inv_def deleteNotebook_def)
next
  case (5 s t)
  then show ?case
    by (fastforce simp: nb_inv_def nb_elapse_rows intro!: nb_timers.awaited_elapse)
qed

lemma nb_reach_inv: "nb_reach draw today s \<Longrightarrow> nb_inv (nb_seed_ids draw today) s"
proof (induction rule: nb_reach.induct)
  case 1
  show ?case
    by (auto simp: nb_inv_def notebooks_init_def nb_seed_ids_def nb_settled_def intro!: awaited_settled)
qed (rule nb_inv_step)

text \<open>Of timers registered in time order the last registered runs last.\<close>

lemma insort_last: "f a \<le> f x \<Longrightarrow> insort_key f a (ys @ [x]) = insort_key f a ys @ [x]"
  by (induction ys) auto

lemma sort_last: "(\<And>y. y \<in> set xs \<Longrightarrow> f y \<le> f x) \<Longrightarrow> sort_key f (xs @ [x]) = sort_key f xs @ [x]"
  by (induction xs) (simp_all add: insort_last)

lemma due_latest:
  assumes "timers s' = timers s @ [(t, e)]"
  shows "due t s' = due t s @ [e]"
  using sort_last [of "filter (\<lambda>e. fst e \<le> t) (timers s)" fst "(t, e)"]
  by (simp add: due_def assms)

lemma nb_eff_fields [simp]:
  "obj_name (nb_eff e n) = obj_name n" "obj_namespace (nb_eff e n) = obj_namespace n"
  "obj_id (nb_eff e n) = obj_id n"
  by (simp_all add: nb_eff_def)

lemma nb_fold_fields [simp]:
  "obj_name (fold nb_eff es n) = obj_name n" "obj_namespace (fold nb_eff es n) = obj_namespace n"
  "obj_id (fold nb_eff es n) = obj_id n"
  by (induction es arbitrary: n) simp_all

lemma nb_command_after:
  assumes "nb_inv ids s" "e = StartDone ns name \<or> e = StopDone ns name"
    and "\<forall>(d, c) \<in> set (timers s). \<not> (is_creation c \<and> now s + 1200 < d)"
    and "s' = setTimeout e 1200
      (s\<lparr>notebook_rows := map_where (names_obj ns name) (set_status NbProgressing) (notebook_rows s)\<rparr>)"
    and "n \<in> set (notebook_rows (nb_elapse (now s + 1200) s'))" "names_obj ns name n"
  shows "nb_status n = nb_target e \<and> timers (nb_elapse (now s + 1200) s') = []"
proof -
  have ts: "timers s' = timers s @ [(now s + 1200, e)]" "now s' = now s"
    by (simp_all add: assms(4) setTimeout_def)
  obtain m where m: "n = fold nb_eff (due (now s + 1200) s') m"
    using assms(5) by (auto simp: nb_elapse_rows)
  have "nb_hits e (fold nb_eff (due (now s + 1200) s) m)"
    using assms(2,6) m by (auto simp: names_obj_def)
  then have "nb_status n = nb_target e"
    by (simp add: m due_latest [OF ts(1)] nb_eff_def)
  moreover have "d \<le> now s + 1200" if "(d, c) \<in> set (timers s)" for d c
    using that assms(1,3) unfolding nb_inv_def by (cases "is_creation c") fastforce+
  then have "\<forall>x \<in> set (timers s'). fst x \<le> now s + 1200" by (auto simp: ts)
  ultimately show ?thesis
    by (simp add: nb_elapse_rows filter_empty_conv)
qed

subsection \<open>Properties\<close>

text \<open>
  C31. In prototype mode every notebook settles within 1.5 seconds: from any state reached by
  creating, starting, stopping and deleting notebooks while time passes, once that long has gone
  by no notebook is Progressing but the seeded one, and no timer is pending.
\<close>

theorem notebooks_settle:
  assumes "nb_reach draw today s" "now s + 1500 \<le> t"
  shows "(\<forall>n \<in> set (notebook_rows (nb_elapse t s)).
      nb_status n \<noteq> NbProgressing \<or> obj_id n \<in> nb_seed_ids draw today) \<and>
    timers (nb_elapse t s) = []"
proof -
  note inv = nb_reach_inv [OF assms(1)]
  have all_due: "\<forall>e \<in> set (timers s). fst e \<le> t"
    using inv assms(2) by (fastforce simp: nb_inv_def split: if_splits)
  have "\<forall>n \<in> set (notebook_rows s). nb_settled (nb_seed_ids draw today) (fold nb_eff (due t s) n)"
    using inv by (blast intro: nb_timers.awaited_all_due [OF _ all_due] dest: nb_inv_def [THEN iffD1])
  then show ?thesis
    using all_due by (auto simp: nb_elapse_rows nb_settled_def filter_empty_conv)
qed

definition sample_request :: CreateNotebookRequest where
  "sample_request =
     \<lparr>cn_name = ''eval'', cn_image = ''jupyter'', cn_cpuRequest = ''1'', cn_cpuLimit = None,
      cn_memoryRequest = ''2Gi'', cn_memoryLimit = None, cn_gpuValues = None, cn_sharedMemory = None,
      cn_volume = plain_volume VolNone None None, cn_env = None, cn_owner = None\<rparr>"

definition sample_notebooks :: notebooks where
  "sample_notebooks = snd (createNotebook False (\<lambda>_. Inr () :: unit promise) ''2026-01-01'' ''team-ml''
     sample_request (notebooks_init (\<lambda>_. ''seed'') ''2026-01-01''))"

lemma sample_notebooks_reach: "nb_reach (\<lambda>_. ''seed'') ''2026-01-01'' sample_notebooks"
  unfolding sample_notebooks_def by (rule nb_reach.intros(2) [OF nb_reach.intros(1) nb_step.intros(1)])

lemma sample_notebooks_now: "now sample_notebooks = 0" "timers sample_notebooks = [(1500, CreatedRuns ''nb-team-ml-eval'')]"
  by (simp_all add: sample_notebooks_def createNotebook_def setTimeout_def notebooks_init_def
      new_notebook_def ensureNbDefaults_def sample_request_def)

theorem notebooks_settle_witness: "timers (nb_elapse 1500 sample_notebooks) = []"
  using notebooks_settle [OF sample_notebooks_reach, of 1500] by (simp add: sample_notebooks_now)

text \<open>
  The last command wins: starting or stopping a notebook in prototype mode, with no creation
  still to finish after it, leaves every notebook of that name Running, respectively Stopped, 1.2
  seconds later, whatever commands were given before, and nothing is pending then that could
  change it.
\<close>

theorem last_command_wins:
  assumes "nb_reach draw today s"
    and "\<forall>(d, c) \<in> set (timers s). \<not> (is_creation c \<and> now s + 1200 < d)"
  shows "(let s' = nb_elapse (now s + 1200) (snd (stopNotebook False send ns name s))
     in \<forall>n \<in> set (notebook_rows s'). names_obj ns name n \<longrightarrow> nb_status n = NbStopped \<and> timers s' = []) \<and>
    (let s' = nb_elapse (now s + 1200) (snd (startNotebook False send ns name s))
     in \<forall>n \<in> set (notebook_rows s'). names_obj ns name n \<longrightarrow> nb_status n = NbRunning \<and> timers s' = [])"
  using nb_command_after [OF nb_reach_inv [OF assms(1)] _ assms(2) refl, of "StopDone ns name"]
    nb_command_after [OF nb_reach_inv [OF assms(1)] _ assms(2) refl, of "StartDone ns name"]
  by (simp add: stopNotebook_def startNotebook_def)

theorem last_command_wins_witness:
  "\<exists>s'. nb_reach (\<lambda>_. ''seed'') ''2026-01-01'' s' \<and> timers s' = [] \<and>
     filter (\<lambda>n. nb_status n \<noteq> NbStopped) (filter (names_obj ''team-ml'' ''alice-research'') (notebook_rows s')) = []"
proof -
  let ?s = "notebooks_init (\<lambda>_. ''seed'') ''2026-01-01''"
  let ?stop = "snd (stopNotebook False (\<lambda>_. Inr () :: unit promise) ''team-ml'' ''alice-research'' ?s)"
  have "nb_reach (\<lambda>_. ''seed'') ''2026-01-01'' (nb_elapse 1200 ?stop)"
    by (intro nb_reach.intros(2) [OF nb_reach.intros(2) [OF nb_reach.intros(1) nb_step.intros(3)] nb_step.intros(5)])
      (simp add: stopNotebook_def setTimeout_def notebooks_init_def)
  moreover have "timers (nb_elapse 1200 ?stop) = []"
    by (simp add: nb_elapse_rows stopNotebook_def setTimeout_def notebooks_init_def)
  moreover have "now ?s = 0" "timers ?s = []" by (simp_all add: notebooks_init_def)
  ultimately show ?thesis
    using last_command_wins [OF nb_reach.intros(1) [of "\<lambda>_. ''seed''" "''2026-01-01''"],
        where send = "\<lambda>_. Inr () :: unit promise" and ns = "''team-ml''" and name = "''alice-research''"]
    by (intro exI [of _ "nb_elapse 1200 ?stop"]) (simp add: Let_def filter_empty_conv)
qed

text \<open>
  A stop given within 300 ms of a creation is undone: the creation's timer fires after the
  stop's, is addressed by id and is not cancelled, so the notebook ends Running.
\<close>

theorem stop_overtaken_by_creation:
  assumes "timers s = []" "delay < 300" "1500 \<le> later"
    and "created = snd (createNotebook False send today ns req s)"
    and "stopped = snd (stopNotebook False send ns (cn_name req) (nb_elapse (now s + delay) created))"
    and "s' = nb_elapse (now s + later) stopped"
  shows "obj_name (hd (notebook_rows s')) = cn_name req \<and> obj_namespace (hd (notebook_rows s')) = ns \<and>
    nb_status (hd (notebook_rows s')) = NbRunning \<and> timers s' = []"
proof -
  let ?nb = "new_notebook today ns req"
  have c: "timers created = [(now s + 1500, CreatedRuns (obj_id ?nb))]" "now created = now s"
    "notebook_rows created = ?nb # notebook_rows s"
    using assms(1) by (simp_all add: assms(4) createNotebook_def setTimeout_def)
  have e: "nb_elapse (now s + delay) created = created\<lparr>now := now s + delay\<rparr>"
    unfolding nb_elapse_def using assms(2) by (intro elapse_none) (simp add: c)
  have t: "timers stopped =
      [(now s + 1500, CreatedRuns (obj_id ?nb)), (now s + delay + 1200, StopDone ns (cn_name req))]"
    "notebook_rows stopped = map_where (names_obj ns (cn_name req)) (set_status NbProgressing)
       (?nb # notebook_rows s)"
    by (simp_all add: assms(5) e stopNotebook_def setTimeout_def c)
  have d: "due (now s + later) stopped = [StopDone ns (cn_name req), CreatedRuns (obj_id ?nb)]"
    using assms(2,3) by (simp add: due_def t)
  have nb: "obj_name ?nb = cn_name req" "obj_namespace ?nb = ns"
    by (simp_all add: new_notebook_def ensureNbDefaults_def)
  show ?thesis
    using assms(2,3) by (simp add: assms(6) nb_elapse_rows d t nb nb_eff_def names_obj_def)
qed

theorem stop_overtaken_by_creation_witness:
  "nb_status (hd (notebook_rows (nb_elapse 1500 (snd (stopNotebook False (\<lambda>_. Inr () :: unit promise) ''team-ml'' ''eval''
     (nb_elapse 100 sample_notebooks)))))) = NbRunning"
  using stop_overtaken_by_creation [where s = "notebooks_init (\<lambda>_. ''seed'') ''2026-01-01''" and delay = 100
      and later = 1500 and send = "\<lambda>_. Inr () :: unit promise" and ns = "''team-ml''" and req = sample_request
      and today = "''2026-01-01''", OF _ _ _ refl refl refl]
  by (simp add: sample_notebooks_def notebooks_init_def sample_request_def)

end
