(* ===== verification/Event_Streams.thy ===== *)
theory Event_Streams
  imports Api_Inference Js_Json
begin

text \<open>
  The three consumers of server-sent events: pod and service logs (\<open>streamLogEndpoint\<close> of
  \<open>frontend/src/api/k8sres.ts\<close>), the chat stream and the agent stream (\<open>frontend/src/api/playground.ts\<close>).
  They share one loop, \<open>read_loop\<close>: decode a chunk, append it to the buffer, cut complete frames
  off its front and hand each to the consumer. Text is UTF-8 bytes here, so the streaming decoder
  is the identity; a byte order mark at the start, which it would drop, is not modelled. The model
  yields the calls a consumer's callbacks receive, in order, and the outcome of the promise.
\<close>

subsection \<open>The read loop\<close>

abbreviation lf :: char where "lf \<equiv> CHR 0x0A"

text \<open>The part of the buffer before the first blank line and the part after it.\<close>

fun cut_frame :: "string \<Rightarrow> (string \<times> string) option" where
  "cut_frame [] = None"
| "cut_frame [a] = None"
| "cut_frame (a # b # s) =
     (if a = lf \<and> b = lf then Some ([], s) else map_option (\<lambda>(f, r). (a # f, r)) (cut_frame (b # s)))"

lemma cut_frame_shorter: "cut_frame s = Some (f, r) \<Longrightarrow> length r < length s"
  by (induction s arbitrary: f rule: cut_frame.induct) (auto split: if_splits)

text \<open>
  \<open>while ((idx = buf.indexOf('\n\n')) !== -1)\<close>: \<open>h\<close> is what a consumer calls for a frame, and
  whether it returns from the stream there. The result is the calls and the buffer left, \<open>None\<close>
  when it returned.
\<close>

function run_frames :: "(string \<Rightarrow> 'c list \<times> bool) \<Rightarrow> string \<Rightarrow> 'c list \<times> string option" where
  "run_frames h buf =
     (case cut_frame buf of
        None \<Rightarrow> ([], Some buf)
      | Some (f, rest) \<Rightarrow>
          if snd (h f) then (fst (h f), None)
          else (let (calls, left) = run_frames h rest in (fst (h f) @ calls, left)))"
  by auto
termination
  by (relation "measure (\<lambda>(h, buf). length buf)") (auto dest: cut_frame_shorter)

declare run_frames.simps [simp del]

text \<open>The chunks the reader yields; \<open>fin\<close> is called when it is done.\<close>

fun read_loop :: "(string \<Rightarrow> 'c list \<times> bool) \<Rightarrow> 'c list \<Rightarrow> string \<Rightarrow> string list \<Rightarrow> 'c list" where
  "read_loop h fin buf [] = fin"
| "read_loop h fin buf (c # cs) =
     (case run_frames h (buf @ c) of
        (calls, None) \<Rightarrow> calls
      | (calls, Some left) \<Rightarrow> calls @ read_loop h fin left cs)"

text \<open>Whether the consumer returned before the reader was done.\<close>

fun returned :: "(string \<Rightarrow> 'c list \<times> bool) \<Rightarrow> string \<Rightarrow> string list \<Rightarrow> bool" where
  "returned h buf [] = False"
| "returned h buf (c # cs) =
     (case snd (run_frames h (buf @ c)) of None \<Rightarrow> True | Some left \<Rightarrow> returned h left cs)"

subsection \<open>What the chunks amount to\<close>

definition whole :: "(string \<Rightarrow> 'c list \<times> bool) \<Rightarrow> 'c list \<Rightarrow> string \<Rightarrow> 'c list" where
  "whole h fin text =
     fst (run_frames h text) @ (if snd (run_frames h text) = None then [] else fin)"

lemma cut_frame_append: "cut_frame s = Some (f, r) \<Longrightarrow> cut_frame (s @ t) = Some (f, r @ t)"
  by (induction s arbitrary: f rule: cut_frame.induct) (auto split: if_splits)

lemma run_frames_None: "cut_frame buf = None \<Longrightarrow> run_frames h buf = ([], Some buf)"
  by (subst run_frames.simps) simp

lemma run_frames_Some:
  "cut_frame buf = Some (f, rest) \<Longrightarrow> run_frames h buf =
     (if snd (h f) then (fst (h f), None)
      else (fst (h f) @ fst (run_frames h rest), snd (run_frames h rest)))"
  by (subst run_frames.simps) (simp add: split_beta)

lemma run_frames_left: "snd (run_frames h buf) = Some left \<Longrightarrow> cut_frame left = None"
proof (induction h buf rule: run_frames.induct)
  case (1 h buf)
  show ?case
  proof (cases "cut_frame buf")
    case None
    then show ?thesis using "1.prems" by (simp add: run_frames_None)
  next
    case (Some fr)
    then obtain f rest where fr: "cut_frame buf = Some (f, rest)" by (cases fr) auto
    then show ?thesis
      using "1.prems" "1.IH" [OF fr refl] by (simp add: run_frames_Some split: if_splits)
  qed
qed

lemma run_frames_append:
  "run_frames h (buf @ c) =
     (case snd (run_frames h buf) of
        None \<Rightarrow> run_frames h buf
      | Some left \<Rightarrow> (fst (run_frames h buf) @ fst (run_frames h (left @ c)), snd (run_frames h (left @ c))))"
proof (induction h buf rule: run_frames.induct)
  case (1 h buf)
  show ?case
  proof (cases "cut_frame buf")
    case None
    then show ?thesis by (simp add: run_frames_None)
  next
    case (Some fr)
    then obtain f rest where fr: "cut_frame buf = Some (f, rest)" by (cases fr) auto
    then show ?thesis
      using "1.IH" [OF fr refl]
      by (auto simp: run_frames_Some [OF fr] run_frames_Some [OF cut_frame_append [OF fr]]
          split: option.splits)
  qed
qed

lemma read_loop_whole:
  "cut_frame buf = None \<Longrightarrow> read_loop h fin buf cs = whole h fin (buf @ concat cs)"
proof (induction cs arbitrary: buf)
  case Nil
  then show ?case by (simp add: whole_def run_frames_None)
next
  case (Cons c cs)
  obtain calls left where r: "run_frames h (buf @ c) = (calls, left)" by (cases "run_frames h (buf @ c)")
  show ?case
  proof (cases left)
    case None
    then show ?thesis
      using run_frames_append [of h "buf @ c" "concat cs"] by (simp add: r whole_def)
  next
    case (Some l)
    have "cut_frame l = None" by (rule run_frames_left [of h "buf @ c"]) (simp add: r Some)
    then show ?thesis
      using Cons.IH [of l] run_frames_append [of h "buf @ c" "concat cs"]
      by (simp add: r Some whole_def)
  qed
qed

lemma returned_whole:
  "cut_frame buf = None \<Longrightarrow> returned h buf cs \<longleftrightarrow> snd (run_frames h (buf @ concat cs)) = None"
proof (induction cs arbitrary: buf)
  case Nil
  then show ?case by (simp add: run_frames_None)
next
  case (Cons c cs)
  show ?case
  proof (cases "snd (run_frames h (buf @ c))")
    case None
    then show ?thesis using run_frames_append [of h "buf @ c" "concat cs"] by simp
  next
    case (Some l)
    then show ?thesis
      using Cons.IH [of l] run_frames_left [OF Some] run_frames_append [of h "buf @ c" "concat cs"] by simp
  qed
qed

text \<open>A frame whose end is its first blank line.\<close>

definition one_frame :: "string \<Rightarrow> bool" where
  "one_frame f \<longleftrightarrow> cut_frame (f @ [lf]) = None"

lemma cut_one_frame: "one_frame f \<Longrightarrow> cut_frame (f @ lf # lf # rest) = Some (f, rest)"
  unfolding one_frame_def by (induction f rule: cut_frame.induct) (auto split: if_splits)

lemma one_line_frame: "lf \<notin> set f \<Longrightarrow> one_frame f"
  unfolding one_frame_def by (induction f rule: cut_frame.induct) auto

lemma whole_frame:
  "one_frame f \<Longrightarrow> whole h fin (f @ lf # lf # rest) =
     fst (h f) @ (if snd (h f) then [] else whole h fin rest)"
  by (simp add: whole_def run_frames_Some [OF cut_one_frame])

lemma whole_tail: "cut_frame t = None \<Longrightarrow> whole h fin t = fin"
  by (simp add: whole_def run_frames_None)

text \<open>
  The contract between a server that frames messages and a consumer: \<open>encode m\<close> is one frame and
  the consumer makes the calls \<open>calls m\<close> of it. What a client sees of a stream of messages is then
  independent of how the network cuts it into chunks.
\<close>

locale frame_codec =
  fixes h :: "string \<Rightarrow> 'c list \<times> bool" and encode :: "'m \<Rightarrow> string"
    and calls :: "'m \<Rightarrow> 'c list" and valid :: "'m \<Rightarrow> bool"
  assumes frame: "valid m \<Longrightarrow> one_frame (encode m)"
    and handled: "valid m \<Longrightarrow> h (encode m) = (calls m, False)"
begin

lemma whole_messages:
  "\<forall>m \<in> set ms. valid m \<Longrightarrow>
   whole h fin (concat (map (\<lambda>m. encode m @ [lf, lf]) ms) @ rest) = concat (map calls ms) @ whole h fin rest"
  by (induction ms) (simp_all add: whole_frame frame handled)

lemma stream_messages:
  assumes "\<forall>m \<in> set ms. valid m" "concat cs = concat (map (\<lambda>m. encode m @ [lf, lf]) ms) @ rest"
  shows "read_loop h fin [] cs = concat (map calls ms) @ whole h fin rest"
  using read_loop_whole [of "[]" h fin cs] whole_messages [OF assms(1), of fin rest] assms(2) by simp

end

subsection \<open>Responses\<close>

text \<open>
  A fetch or a read ends by an exception, an abort among them. A streamed response has its status
  and, when it has a body, the chunks its reader yields and how the reader ends.
\<close>

datatype fault = Aborted | Fault js_error

record stream_response =
  sp_status :: int
  sp_body :: "(string list \<times> fault option) option"

definition sp_ok :: "stream_response \<Rightarrow> bool" where
  "sp_ok r \<longleftrightarrow> 200 \<le> sp_status r \<and> sp_status r \<le> 299"

text \<open>\<open>fetchWithAuth\<close> on a streamed response: the 401 handler, and the response as it is.\<close>

definition stream_client :: "fault + stream_response \<Rightarrow> client \<Rightarrow> client" where
  "stream_client r c = (case r of Inr res \<Rightarrow> if sp_status res = 401 then call_handler c else c | Inl _ \<Rightarrow> c)"

text \<open>The chunks of an accepted response with how its reader ended, or the error thrown.\<close>

definition stream_body :: "string \<Rightarrow> fault + stream_response \<Rightarrow> fault + (string list \<times> fault option)" where
  "stream_body what r =
     (case r of
        Inl e \<Rightarrow> Inl e
      | Inr res \<Rightarrow>
          (case sp_body res of
             Some b \<Rightarrow> if sp_ok res then Inr b
                       else Inl (Fault (JsError (what @ '' HTTP '' @ show_int (sp_status res))))
           | None \<Rightarrow> Inl (Fault (JsError (what @ '' HTTP '' @ show_int (sp_status res))))))"

subsection \<open>Logs\<close>

datatype log_call = OnLine string | OnEnd | OnError js_error

definition data_prefix :: string where
  "data_prefix = ''data: ''"

fun log_lines :: "string list \<Rightarrow> log_call list \<times> bool" where
  "log_lines [] = ([], False)"
| "log_lines (l # ls) =
     (if startsWith l data_prefix then
        (let (calls, stop) = log_lines ls in (OnLine (drop (length data_prefix) l) # calls, stop))
      else if startsWith l ''event: end'' then ([OnEnd], True)
      else log_lines ls)"

definition log_frame :: "string \<Rightarrow> log_call list \<times> bool" where
  "log_frame f = log_lines (split_on lf f)"

definition log_fault :: "fault \<Rightarrow> log_call list" where
  "log_fault e = (case e of Aborted \<Rightarrow> [] | Fault err \<Rightarrow> [OnError err])"

definition streamLogEndpoint :: "bool \<Rightarrow> fault + stream_response \<Rightarrow> log_call list" where
  "streamLogEndpoint api r =
     (if \<not> api then [OnError (JsError (''API not configured '' @ em_dash @ '' cannot stream logs''))]
      else (case stream_body ''logs'' r of
          Inl e \<Rightarrow> log_fault e
        | Inr (chunks, ending) \<Rightarrow>
            read_loop log_frame (case ending of None \<Rightarrow> [OnEnd] | Some e \<Rightarrow> log_fault e) [] chunks))"

text \<open>The request of a log stream; \<open>Headers\<close> lower-cases the name it is given.\<close>

definition log_stream_init :: "string \<Rightarrow> client \<Rightarrow> string \<Rightarrow> fetch_init" where
  "log_stream_init base c path =
     \<lparr>fi_url = base @ path, fi_method = GET,
      fi_headers = authHeaders c [(''accept'', ''text/event-stream'')], fi_body = None\<rparr>"

definition streamPodLogs ::
  "bool \<Rightarrow> (string \<Rightarrow> fault + stream_response) \<Rightarrow> string \<Rightarrow> string \<Rightarrow> log_options \<Rightarrow> log_call list" where
  "streamPodLogs api respond ns name opts = streamLogEndpoint api (respond (podLogsPath ns name opts))"

text \<open>How the backend frames a log line, and the event it ends a stream with.\<close>

definition log_line_frame :: "string \<Rightarrow> string" where
  "log_line_frame l = data_prefix @ l"

definition end_frame :: string where
  "end_frame = ''event: end'' @ [lf] @ data_prefix"

interpretation log_codec: frame_codec log_frame log_line_frame "\<lambda>l. [OnLine l]" "\<lambda>l. lf \<notin> set l"
proof unfold_locales
  fix l :: string assume l: "lf \<notin> set l"
  then have no: "lf \<notin> set (log_line_frame l)"
    by (simp add: log_line_frame_def data_prefix_def)
  then show "one_frame (log_line_frame l)" by (rule one_line_frame)
  show "log_frame (log_line_frame l) = ([OnLine l], False)"
    using split_on_free [OF no] by (simp add: log_frame_def) (simp add: log_line_frame_def)
qed

lemma end_frame_facts: "one_frame end_frame" "log_frame end_frame = ([OnEnd], True)"
  by (simp_all add: one_frame_def end_frame_def data_prefix_def log_frame_def)

lemma log_end_whole: "whole log_frame fin (end_frame @ lf # lf # rest) = [OnEnd]"
  by (simp add: whole_frame end_frame_facts)

subsection \<open>Chat\<close>

text \<open>
  Reading properties as \<open>?.\<close> does: of \<open>undefined\<close> and \<open>null\<close> nothing is read. A string has no
  property the code asks for but its characters, and a character none.
\<close>

fun opt_field :: "string \<Rightarrow> json option \<Rightarrow> json option" where
  "opt_field k (Some (JObj fs)) = map_of fs k"
| "opt_field k _ = None"

fun opt_first :: "json option \<Rightarrow> json option" where
  "opt_first (Some (JArr (j # js))) = Some j"
| "opt_first (Some (JObj fs)) = map_of fs ''0''"
| "opt_first _ = None"

definition js_else :: "json option \<Rightarrow> json option \<Rightarrow> json option" where
  "js_else a b = (if a = None \<or> a = Some JNull then b else a)"

fun js_truthy :: "json \<Rightarrow> bool" where
  "js_truthy JNull = False"
| "js_truthy (JBool b) = b"
| "js_truthy (JNum m e) = (m \<noteq> 0)"
| "js_truthy (JStr s) = (s \<noteq> [])"
| "js_truthy _ = True"

datatype chat_call = OnChunk json | OnDone

text \<open>
  The content of a completion chunk. Text that does not parse is passed on as it is, and so is
  \<open>null\<close>, whose property read throws inside the same \<open>try\<close>.
\<close>

definition chunk_content :: "json \<Rightarrow> json" where
  "chunk_content j =
     (let choice = opt_first (opt_field ''choices'' (Some j))
      in nullish
           (js_else (opt_field ''content'' (opt_field ''delta'' choice))
             (js_else (opt_field ''content'' (opt_field ''message'' choice)) None)) (JStr ''''))"

definition chat_data :: "string \<Rightarrow> chat_call list" where
  "chat_data data =
     (if data = '''' \<or> data = ''[DONE]'' then []
      else (case parse data of
          None \<Rightarrow> [OnChunk (JStr data)]
        | Some j \<Rightarrow>
            if j = JNull then [OnChunk (JStr data)]
            else if js_truthy (chunk_content j) then [OnChunk (chunk_content j)] else []))"

definition chat_line :: "string \<Rightarrow> chat_call list" where
  "chat_line l =
     (if \<not> startsWith l data_prefix then [] else chat_data (trim (drop (length data_prefix) l)))"

definition chat_frame :: "string \<Rightarrow> chat_call list \<times> bool" where
  "chat_frame f = (concat (map chat_line (split_on lf f)), False)"

text \<open>A stream's promise: what it rejects with, or nothing.\<close>

definition ending_of :: "fault option \<Rightarrow> fault + unit" where
  "ending_of e = (case e of Some err \<Rightarrow> Inl err | None \<Rightarrow> Inr ())"

definition streamChat :: "fault + stream_response \<Rightarrow> chat_call list \<times> (fault + unit)" where
  "streamChat r =
     (case stream_body ''chat'' r of
        Inl e \<Rightarrow> ([], Inl e)
      | Inr (chunks, ending) \<Rightarrow>
          (read_loop chat_frame (case ending of None \<Rightarrow> [OnDone] | Some _ \<Rightarrow> []) [] chunks, ending_of ending))"

subsection \<open>Agent\<close>

datatype agent_call = OnEvent json | OnAgentDone

definition agent_data :: "string \<Rightarrow> agent_call list" where
  "agent_data data =
     (if data = '''' then []
      else (case parse data of
          Some j \<Rightarrow> [OnEvent j]
        | None \<Rightarrow> [OnEvent (JObj [(''kind'', JStr ''final''), (''text'', JStr data)])]))"

definition agent_frame :: "string \<Rightarrow> agent_call list \<times> bool" where
  "agent_frame f =
     (agent_data (trim (join [lf] (map (drop (length data_prefix))
        (filter (\<lambda>l. startsWith l data_prefix) (split_on lf f))))), False)"

definition streamAgentSession :: "fault + stream_response \<Rightarrow> agent_call list \<times> (fault + unit)" where
  "streamAgentSession r =
     (case stream_body ''agent'' r of
        Inl e \<Rightarrow> ([], Inl e)
      | Inr (chunks, ending) \<Rightarrow>
          (read_loop agent_frame (case ending of None \<Rightarrow> [OnAgentDone] | Some _ \<Rightarrow> []) [] chunks, ending_of ending))"

subsection \<open>The codecs of the two\<close>

text \<open>A line feed never occurs in the text of a JSON value.\<close>

lemma esc_char_no_lf: "lf \<notin> set (esc_char c)"
proof -
  have "hex_digit d \<noteq> lf" if "d < 16" for d
    using nth_mem [of d "''0123456789abcdef''"] that by (auto simp: hex_digit_def)
  from this [of "byte c div 16"] this [of "byte c mod 16"] show ?thesis
    by (auto simp: esc_char_def less_mult_imp_div_less dest: sym)
qed

lemma show_int_no_lf: "lf \<notin> set (show_int n)"
  using show_nat_digits [of "nat n"] show_nat_digits [of "nat (- n)"] by (auto simp: show_int_def)

lemma join_no_lf: "lf \<notin> set sep \<Longrightarrow> \<forall>w \<in> set ws. lf \<notin> set w \<Longrightarrow> lf \<notin> set (join sep ws)"
  by (induction sep ws rule: join.induct) auto

lemma stringify_no_lf: "wf_json j \<Longrightarrow> lf \<notin> set (stringify j)"
proof (induction j rule: stringify.induct)
  case (3 m e)
  then show ?case using show_int_no_lf [of m] by (simp add: show_decimal_def)
next
  case (4 s)
  then show ?case using esc_char_no_lf by auto
next
  case (5 js)
  then have "\<forall>w \<in> set (map stringify js). lf \<notin> set w" by auto
  then show ?case using join_no_lf [of "'',''"] by auto
next
  case (6 fs)
  have "lf \<notin> set w" if "w \<in> set (map (\<lambda>(k, v). (quote # concat (map esc_char k) @ [quote]) @ '':'' @ stringify v) fs)" for w
    using that 6 esc_char_no_lf by fastforce
  then show ?case using join_no_lf [of "'',''"] by auto
qed auto

lemma trim_object: "trim (stringify (JObj fs)) = stringify (JObj fs)"
  using trim_bracketed [of "CHR ''{''" "CHR ''}''"] by simp

definition delta_json :: "string \<Rightarrow> json" where
  "delta_json t = JObj [(''choices'', JArr [JObj [(''delta'', JObj [(''content'', JStr t)])]])]"

definition json_frame :: "json \<Rightarrow> string" where
  "json_frame j = data_prefix @ stringify j"

lemma json_frame_facts:
  assumes "wf_json j"
  shows "one_frame (json_frame j)" "split_on lf (json_frame j) = [json_frame j]"
    "startsWith (json_frame j) data_prefix" "drop (length data_prefix) (json_frame j) = stringify j"
proof -
  have no: "lf \<notin> set (json_frame j)"
    using stringify_no_lf [OF assms] by (simp add: json_frame_def data_prefix_def)
  show "one_frame (json_frame j)" by (rule one_line_frame [OF no])
  show "split_on lf (json_frame j) = [json_frame j]" by (rule split_on_free [OF no])
qed (simp_all add: json_frame_def)

lemma wf_delta: "wf_json (delta_json t)" by (simp add: delta_json_def)

lemma chunk_delta: "chunk_content (delta_json t) = JStr t"
  by (simp add: chunk_content_def delta_json_def js_else_def Let_def)

lemma delta_not_special: "stringify (delta_json t) \<noteq> ''''" "stringify (delta_json t) \<noteq> ''[DONE]''"
  "delta_json t \<noteq> JNull"
  by (simp_all add: delta_json_def)

interpretation chat_codec: frame_codec chat_frame "\<lambda>t. json_frame (delta_json t)"
  "\<lambda>t. if t = [] then [] else [OnChunk (JStr t)]" "\<lambda>_. True"
proof unfold_locales
  fix t
  show "one_frame (json_frame (delta_json t))" by (rule json_frame_facts [OF wf_delta])
  have "trim (stringify (delta_json t)) = stringify (delta_json t)"
    unfolding delta_json_def by (rule trim_object)
  then show "chat_frame (json_frame (delta_json t)) = (if t = [] then [] else [OnChunk (JStr t)], False)"
    by (simp add: chat_frame_def chat_line_def json_frame_facts [OF wf_delta] chat_data_def
        parse_stringify [OF wf_delta] chunk_delta delta_not_special)
qed

definition is_object :: "json \<Rightarrow> bool" where
  "is_object j \<longleftrightarrow> (case j of JObj fs \<Rightarrow> True | _ \<Rightarrow> False)"

interpretation agent_codec: frame_codec agent_frame json_frame "\<lambda>j. [OnEvent j]"
  "\<lambda>j. wf_json j \<and> is_object j"
proof unfold_locales
  fix j assume j: "wf_json j \<and> is_object j"
  then obtain fs where fs: "j = JObj fs" by (auto simp: is_object_def split: json.splits)
  show "one_frame (json_frame j)" using j by (simp add: json_frame_facts)
  have "stringify j \<noteq> ''''" by (simp add: fs)
  then show "agent_frame (json_frame j) = ([OnEvent j], False)"
    using j trim_object [of fs] parse_stringify [of j]
    by (simp add: agent_frame_def json_frame_facts agent_data_def) (simp add: fs)
qed

subsection \<open>Properties\<close>

lemma cut_line_frame: "lf \<notin> set f \<Longrightarrow> cut_frame f = None" "lf \<notin> set f \<Longrightarrow> cut_frame (f @ [lf]) = None"
  by (induction f rule: cut_frame.induct) auto

lemma cut_no_lf_pair: "lf \<notin> set l \<Longrightarrow> t = [] \<or> t = [lf] \<Longrightarrow> cut_frame (log_line_frame l @ t) = None"
  using cut_line_frame [of "log_line_frame l"] by (auto simp: log_line_frame_def data_prefix_def)

text \<open>
  How the network cuts a stream into chunks makes no difference: two responses with the same
  status, the same text in all and the same ending give the same callbacks and the same outcome,
  for logs, chat and agent alike.
\<close>

theorem chunking_is_invisible:
  assumes "concat cs = concat ds"
  shows "streamLogEndpoint api (Inr \<lparr>sp_status = st, sp_body = Some (cs, e)\<rparr>) =
      streamLogEndpoint api (Inr \<lparr>sp_status = st, sp_body = Some (ds, e)\<rparr>) \<and>
    streamChat (Inr \<lparr>sp_status = st, sp_body = Some (cs, e)\<rparr>) =
      streamChat (Inr \<lparr>sp_status = st, sp_body = Some (ds, e)\<rparr>) \<and>
    streamAgentSession (Inr \<lparr>sp_status = st, sp_body = Some (cs, e)\<rparr>) =
      streamAgentSession (Inr \<lparr>sp_status = st, sp_body = Some (ds, e)\<rparr>)"
  using assms
  by (simp add: streamLogEndpoint_def streamChat_def streamAgentSession_def stream_body_def sp_ok_def
      read_loop_whole)

theorem chunking_is_invisible_witness:
  "streamLogEndpoint True (Inr \<lparr>sp_status = 200, sp_body = Some ([''data'', '': a'' @ [lf], [lf]], None)\<rparr>) =
   streamLogEndpoint True (Inr \<lparr>sp_status = 200, sp_body = Some ([''data: a'' @ [lf, lf]], None)\<rparr>)"
  using chunking_is_invisible [of "[''data'', '': a'' @ [lf], [lf]]" "[''data: a'' @ [lf, lf]]" True 200 None]
  by simp

lemma log_stream_calls:
  assumes "\<forall>l \<in> set lines. lf \<notin> set l" "concat cs = concat (map (\<lambda>l. log_line_frame l @ [lf, lf]) lines) @ rest"
  shows "read_loop log_frame fin [] cs = map OnLine lines @ whole log_frame fin rest"
proof -
  have "concat (map (\<lambda>l. [OnLine l]) lines) = map OnLine lines"
    by (induction lines) simp_all
  then show ?thesis
    using log_codec.stream_messages [OF assms] by simp
qed

text \<open>
  C4. Every log line the backend frames reaches the viewer, once and in order, however the text is
  cut into chunks: with the closing event, the stream ends by one \<open>onEnd\<close> and what follows is
  ignored, even a failure; when the connection closes without it, the viewer is told the end all
  the same, but a last line whose blank line is missing is dropped.
\<close>

theorem log_lines_delivered:
  assumes "\<forall>l \<in> set lines. lf \<notin> set l" "lf \<notin> set l"
    and "framed = concat (map (\<lambda>l. log_line_frame l @ [lf, lf]) lines)"
  shows "(concat cs = framed @ end_frame @ [lf, lf] @ rest \<longrightarrow>
      streamLogEndpoint True (Inr \<lparr>sp_status = 200, sp_body = Some (cs, e)\<rparr>) = map OnLine lines @ [OnEnd]) \<and>
    (concat cs = framed \<longrightarrow>
      streamLogEndpoint True (Inr \<lparr>sp_status = 200, sp_body = Some (cs, None)\<rparr>) = map OnLine lines @ [OnEnd]) \<and>
    (concat cs = framed \<longrightarrow>
      streamLogEndpoint True (Inr \<lparr>sp_status = 200, sp_body = Some (cs, Some (Fault err))\<rparr>) =
        map OnLine lines @ [OnError err]) \<and>
    (concat cs = framed @ log_line_frame l @ t \<and> (t = [] \<or> t = [lf]) \<longrightarrow>
      streamLogEndpoint True (Inr \<lparr>sp_status = 200, sp_body = Some (cs, None)\<rparr>) = map OnLine lines @ [OnEnd])"
proof -
  have run: "read_loop log_frame fin [] cs = map OnLine lines @ whole log_frame fin more"
    if "concat cs = framed @ more" for fin more
    using log_stream_calls [OF assms(1), of cs more fin] that by (simp add: assms(3))
  show ?thesis
    using run [of "end_frame @ [lf, lf] @ rest"] run [of "[]"] run [of "log_line_frame l @ t"]
      cut_no_lf_pair [OF assms(2), of t]
    by (auto simp: streamLogEndpoint_def stream_body_def sp_ok_def log_fault_def log_end_whole whole_tail)
qed

theorem log_lines_delivered_witness:
  "streamLogEndpoint True (Inr \<lparr>sp_status = 200, sp_body =
     Some ([''data: one'' @ [lf], lf # ''data: two''], None)\<rparr>) = [OnLine ''one'', OnEnd]"
  using log_lines_delivered [where lines = "[''one'']" and l = "''two''" and t = "[]" and
      cs = "[''data: one'' @ [lf], lf # ''data: two'']", OF _ _ refl]
  by (simp add: log_line_frame_def data_prefix_def)

lemma chat_stream_calls:
  assumes "concat cs = concat (map (\<lambda>t. json_frame (delta_json t) @ [lf, lf]) texts) @
      data_prefix @ ''[DONE]'' @ [lf, lf]"
  shows "streamChat (Inr \<lparr>sp_status = 200, sp_body = Some (cs, e)\<rparr>) =
      (map (\<lambda>t. OnChunk (JStr t)) (filter (\<lambda>t. t \<noteq> []) texts) @ (if e = None then [OnDone] else []), ending_of e)"
proof -
  have chat: "concat (map (\<lambda>t. if t = [] then [] else [OnChunk (JStr t)]) texts) =
      map (\<lambda>t. OnChunk (JStr t)) (filter (\<lambda>t. t \<noteq> []) texts)" for texts :: "string list"
    by (induction texts) simp_all
  have done_frame: "whole chat_frame fin (data_prefix @ ''[DONE]'' @ [lf, lf]) = fin" for fin
    using whole_frame [of "data_prefix @ ''[DONE]''" chat_frame fin "[]"]
    by (simp add: one_frame_def data_prefix_def chat_frame_def chat_line_def chat_data_def trim_visible whole_tail)
  show ?thesis
    using chat_codec.stream_messages [OF _ assms]
    by (auto simp: streamChat_def stream_body_def sp_ok_def chat done_frame [simplified] split: option.splits)
qed

lemma agent_stream_calls:
  assumes "\<forall>j \<in> set events. wf_json j \<and> is_object j"
    and "concat ds = concat (map (\<lambda>j. json_frame j @ [lf, lf]) events) @ end_frame @ [lf, lf]"
  shows "streamAgentSession (Inr \<lparr>sp_status = 200, sp_body = Some (ds, e)\<rparr>) =
      (map OnEvent events @ (if e = None then [OnAgentDone] else []), ending_of e)"
proof -
  have agent: "concat (map (\<lambda>j. [OnEvent j]) events) = map OnEvent events"
    by (induction events) simp_all
  have end_agent: "whole agent_frame fin (end_frame @ [lf, lf]) = fin" for fin
    using whole_frame [OF end_frame_facts(1), of agent_frame fin "[]"]
    by (simp add: agent_frame_def end_frame_def data_prefix_def agent_data_def trim_def whole_tail)
  show ?thesis
    using agent_codec.stream_messages [OF assms]
    by (auto simp: streamAgentSession_def stream_body_def sp_ok_def agent end_agent split: option.splits)
qed

text \<open>
  Chat and agent streams carry their payload intact: of the completion chunks and the
  \<open>[DONE]\<close> mark the provider sends, the page gets exactly the non-empty texts, in order, whatever
  characters they hold, then \<open>onDone\<close>; of an agent run it gets exactly the events the backend
  wrote, the closing event making none; and a connection that breaks rejects after the same calls.
\<close>

theorem streamed_payloads_delivered:
  assumes "\<forall>j \<in> set events. wf_json j \<and> is_object j"
    and "concat cs = concat (map (\<lambda>t. json_frame (delta_json t) @ [lf, lf]) texts) @
      data_prefix @ ''[DONE]'' @ [lf, lf]"
    and "concat ds = concat (map (\<lambda>j. json_frame j @ [lf, lf]) events) @ end_frame @ [lf, lf]"
  shows "streamChat (Inr \<lparr>sp_status = 200, sp_body = Some (cs, e)\<rparr>) =
      (map (\<lambda>t. OnChunk (JStr t)) (filter (\<lambda>t. t \<noteq> []) texts) @ (if e = None then [OnDone] else []), ending_of e) \<and>
    streamAgentSession (Inr \<lparr>sp_status = 200, sp_body = Some (ds, e)\<rparr>) =
      (map OnEvent events @ (if e = None then [OnAgentDone] else []), ending_of e)"
  by (rule conjI [OF chat_stream_calls [OF assms(2)] agent_stream_calls [OF assms(1,3)]])

theorem streamed_payloads_delivered_witness:
  "\<exists>cs. fst (streamChat (Inr \<lparr>sp_status = 200, sp_body = Some (cs, None)\<rparr>)) =
     [OnChunk (JStr ''po''), OnChunk (JStr ''ng''), OnDone]"
  using streamed_payloads_delivered [where events = "[]" and texts = "[''po'', '''', ''ng'']" and e = None and
      cs = "[concat (map (\<lambda>t. json_frame (delta_json t) @ [lf, lf]) [''po'', '''', ''ng'']) @
        data_prefix @ ''[DONE]'' @ [lf, lf]]" and ds = "[end_frame @ [lf, lf]]"]
  by (intro exI [of _ "[concat (map (\<lambda>t. json_frame (delta_json t) @ [lf, lf]) [''po'', '''', ''ng'']) @
        data_prefix @ ''[DONE]'' @ [lf, lf]]"]) simp

end
