(* ===== verification/Oidc.thy ===== *)
theory Oidc
  imports Event_Streams
begin

text \<open>
  \<open>frontend/src/auth/oidc.ts\<close> and \<open>frontend/src/api/auth.ts\<close>: the browser's half of the OIDC
  authorization code flow with PKCE, and the storage of its tokens. The random bytes of
  \<open>crypto.getRandomValues\<close>, SHA-256 and the clock are arguments; so is the provider, whose token
  endpoint answers a form with a status and a token response.
\<close>

subsection \<open>Bindings of \<open>api/auth.ts\<close>\<close>

record WhoamiUser =
  who_subject :: string
  who_email :: string
  who_name :: string
  who_groups :: "string list"
  who_isPlatformAdmin :: bool

record PublicAuthConfig =
  ac_issuer :: string
  ac_clientId :: string
  ac_scopes :: string
  ac_redirectUri :: "string option"

definition whoami :: http_request where "whoami = get_request ''/api/v1/whoami''"
definition authConfig :: http_request where "authConfig = get_request ''/api/v1/auth/config''"
definition fetchClusterInfo :: http_request where "fetchClusterInfo = get_request ''/api/v1/cluster-info''"

subsection \<open>Base64\<close>

definition b64_char :: "nat \<Rightarrow> char" where
  "b64_char n = (upper_letters @ lower_letters @ ''0123456789+/'') ! n"

text \<open>\<open>btoa\<close> on a string of bytes.\<close>

fun btoa :: "string \<Rightarrow> string" where
  "btoa [] = []"
| "btoa [a] = [b64_char (byte a div 4), b64_char (byte a mod 4 * 16), CHR ''='', CHR ''='']"
| "btoa [a, b] =
     [b64_char (byte a div 4), b64_char (byte a mod 4 * 16 + byte b div 16), b64_char (byte b mod 16 * 4), CHR ''='']"
| "btoa (a # b # c # s) =
     b64_char (byte a div 4) # b64_char (byte a mod 4 * 16 + byte b div 16) #
     b64_char (byte b mod 16 * 4 + byte c div 64) # b64_char (byte c mod 64) # btoa s"

definition url_safe :: "char \<Rightarrow> char" where
  "url_safe c = (if c = CHR ''+'' then CHR ''-'' else if c = CHR ''/'' then CHR ''_'' else c)"

definition base64URL :: "string \<Rightarrow> string" where
  "base64URL bytes = strip_trailing (CHR ''='') (map url_safe (btoa bytes))"

definition codeChallengeFor :: "(string \<Rightarrow> string) \<Rightarrow> string \<Rightarrow> string" where
  "codeChallengeFor sha256 verifier = base64URL (sha256 verifier)"

subsection \<open>Records\<close>

record OIDCDiscovery =
  od_authorization_endpoint :: string
  od_token_endpoint :: string
  od_end_session_endpoint :: "string option"

record TokenSet =
  tk_accessToken :: string
  tk_refreshToken :: "string option"
  tk_idToken :: "string option"
  tk_tokenType :: string
  tk_expiresAt :: int
  tk_scope :: "string option"

record TokenResponse =
  tr_access_token :: "string option"
  tr_refresh_token :: "string option"
  tr_id_token :: "string option"
  tr_token_type :: "string option"
  tr_expires_in :: "int option"
  tr_scope :: "string option"

text \<open>
  What the module touches of the browser: its two storage entries, the page's origin, the location
  it was last sent to, and the forms it posted to token endpoints.
\<close>

record browser =
  local_tokens :: "string option"
  session_pending :: "string option"
  page_origin :: string
  assigned :: "string option"
  token_posts :: "(string \<times> (string \<times> string) list) list"

definition redirectPath :: string where
  "redirectPath = ''/auth/callback''"

definition redirectUri :: "PublicAuthConfig option \<Rightarrow> browser \<Rightarrow> string" where
  "redirectUri config b =
     (case Option.bind config ac_redirectUri of
        Some u \<Rightarrow> if u \<noteq> [] then u else page_origin b @ redirectPath
      | None \<Rightarrow> page_origin b @ redirectPath)"

subsection \<open>Stored tokens\<close>

definition token_json :: "TokenSet \<Rightarrow> json" where
  "token_json t = jobj
    [(''accessToken'', Some (JStr (tk_accessToken t))), (''refreshToken'', map_option JStr (tk_refreshToken t)),
     (''idToken'', map_option JStr (tk_idToken t)), (''tokenType'', Some (JStr (tk_tokenType t))),
     (''expiresAt'', Some (jint (tk_expiresAt t))), (''scope'', map_option JStr (tk_scope t))]"

text \<open>
  \<open>loadTokenSet\<close> checks only that the stored value has a truthy \<open>accessToken\<close>; it is returned as
  the JSON value it is.
\<close>

definition loadTokenSet :: "browser \<Rightarrow> json option" where
  "loadTokenSet b =
     (if \<not> truthy_str (local_tokens b) then None
      else (case parse (nullish (local_tokens b) '''') of
          None \<Rightarrow> None
        | Some j \<Rightarrow>
            (case opt_field ''accessToken'' (Some j) of
               Some v \<Rightarrow> if js_truthy v then Some j else None
             | None \<Rightarrow> None)))"

definition saveTokenSet :: "TokenSet \<Rightarrow> browser \<Rightarrow> browser" where
  "saveTokenSet t b = b\<lparr>local_tokens := Some (stringify (token_json t))\<rparr>"

definition clearStoredAuth :: "browser \<Rightarrow> browser" where
  "clearStoredAuth b = b\<lparr>local_tokens := None, session_pending := None\<rparr>"

definition hasUsableAccessToken :: "int \<Rightarrow> TokenSet option \<Rightarrow> bool" where
  "hasUsableAccessToken now_ms tokens \<longleftrightarrow>
     (case tokens of None \<Rightarrow> False | Some t \<Rightarrow> tk_accessToken t \<noteq> [] \<and> now_ms + 30000 < tk_expiresAt t)"

subsection \<open>Discovery\<close>

definition discoverOIDC ::
  "PublicAuthConfig \<Rightarrow> js_error + (int \<times> OIDCDiscovery) \<Rightarrow> OIDCDiscovery promise" where
  "discoverOIDC config answer =
     (if ac_issuer config = [] then Inl (JsError ''OIDC issuer is not configured'')
      else (case answer of
          Inl e \<Rightarrow> Inl e
        | Inr (status, d) \<Rightarrow>
            if 200 \<le> status \<and> status \<le> 299 then Inr d
            else Inl (JsError (''OIDC discovery HTTP '' @ show_int status))))"

subsection \<open>Signing in\<close>

text \<open>The pending login, kept in the session storage until the callback.\<close>

definition pending_json :: "string \<Rightarrow> string \<Rightarrow> string \<Rightarrow> string \<Rightarrow> json" where
  "pending_json st nonce verifier returnTo = JObj
     [(''state'', JStr st), (''nonce'', JStr nonce), (''codeVerifier'', JStr verifier), (''returnTo'', JStr returnTo)]"

definition kept_return :: "string \<Rightarrow> string" where
  "kept_return returnTo = (if startsWith returnTo redirectPath then ''/'' else or_str returnTo ''/'')"

definition login_params ::
  "(string \<Rightarrow> string) \<Rightarrow> PublicAuthConfig \<Rightarrow> browser \<Rightarrow> string \<Rightarrow> string \<Rightarrow> string \<Rightarrow> (string \<times> string) list" where
  "login_params sha256 config b st nonce verifier =
     [(''response_type'', ''code''), (''client_id'', ac_clientId config),
      (''redirect_uri'', redirectUri (Some config) b),
      (''scope'', or_str (ac_scopes config) ''openid profile email groups''),
      (''state'', st), (''nonce'', nonce),
      (''code_challenge'', codeChallengeFor sha256 verifier), (''code_challenge_method'', ''S256'')]"

text \<open>\<open>r1\<close>, \<open>r2\<close> and \<open>r3\<close> are the 32, 32 and 64 random bytes drawn.\<close>

definition beginOIDCLogin ::
  "(string \<Rightarrow> string) \<Rightarrow> string \<Rightarrow> string \<Rightarrow> string \<Rightarrow> PublicAuthConfig \<Rightarrow> OIDCDiscovery \<Rightarrow> string \<Rightarrow>
     browser \<Rightarrow> browser" where
  "beginOIDCLogin sha256 r1 r2 r3 config discovery returnTo b =
     b\<lparr>session_pending := Some (stringify
          (pending_json (base64URL r1) (base64URL r2) (base64URL r3) (kept_return returnTo))),
       assigned := Some (od_authorization_endpoint discovery @ ''?'' @ search_params
          (login_params sha256 config b (base64URL r1) (base64URL r2) (base64URL r3)))\<rparr>"

definition readPendingLogin :: "browser \<Rightarrow> json option" where
  "readPendingLogin b =
     (if \<not> truthy_str (session_pending b) then None else parse (nullish (session_pending b) ''''))"

definition exchangeToken ::
  "string \<Rightarrow> (string \<times> string) list \<Rightarrow> js_error + (int \<times> TokenResponse) \<Rightarrow> browser \<Rightarrow>
     TokenResponse promise \<times> browser" where
  "exchangeToken endpoint form answer b =
     ((case answer of
         Inl e \<Rightarrow> Inl e
       | Inr (status, tok) \<Rightarrow>
           if 200 \<le> status \<and> status \<le> 299 then Inr tok
           else Inl (JsError (''OIDC token exchange HTTP '' @ show_int status))),
      b\<lparr>token_posts := token_posts b @ [(endpoint, form)]\<rparr>)"

definition toTokenSet :: "int \<Rightarrow> TokenResponse \<Rightarrow> TokenSet promise" where
  "toTokenSet now_ms tok =
     (if \<not> truthy_str (tr_access_token tok)
      then Inl (JsError ''OIDC token response did not include an access token'')
      else Inr \<lparr>tk_accessToken = nullish (tr_access_token tok) '''', tk_refreshToken = tr_refresh_token tok,
        tk_idToken = tr_id_token tok, tk_tokenType = nullish (tr_token_type tok) ''Bearer'',
        tk_expiresAt = now_ms + nullish (tr_expires_in tok) 3600 * 1000, tk_scope = tr_scope tok\<rparr>)"

text \<open>A property of the pending login as it is sent in a form, where \<open>undefined\<close> is spelled out.\<close>

definition form_text :: "json option \<Rightarrow> string" where
  "form_text v = (case v of None \<Rightarrow> ''undefined'' | Some j \<Rightarrow> js_String j)"

definition return_text :: "json option \<Rightarrow> string" where
  "return_text v = (case v of Some j \<Rightarrow> if js_truthy j then js_String j else ''/'' | None \<Rightarrow> ''/'')"

text \<open>\<open>query\<close> is the query of \<open>href\<close>, what \<open>new URL(href).searchParams\<close> reads.\<close>

definition completeOIDCCallback ::
  "PublicAuthConfig \<Rightarrow> OIDCDiscovery \<Rightarrow> string \<Rightarrow> int \<Rightarrow> js_error + (int \<times> TokenResponse) \<Rightarrow> browser \<Rightarrow>
     (TokenSet \<times> string) promise \<times> browser" where
  "completeOIDCCallback config discovery query now_ms answer b =
     (let params = map_of (read_params query)
      in if truthy_str (params ''error'') then
           (Inl (JsError (if truthy_str (params ''error_description'')
              then nullish (params ''error'') '''' @ '': '' @ nullish (params ''error_description'') ''''
              else nullish (params ''error'') '''')), b)
         else if \<not> truthy_str (params ''code'') \<or> \<not> truthy_str (params ''state'') then
           (Inl (JsError ''OIDC callback is missing code or state''), b)
         else (let pending = readPendingLogin b
           in if opt_field ''state'' pending \<noteq> Some (JStr (nullish (params ''state'') '''')) then
                (Inl (JsError ''OIDC callback state does not match this session''), b)
              else
                (case exchangeToken (od_token_endpoint discovery)
                    [(''grant_type'', ''authorization_code''), (''client_id'', ac_clientId config),
                     (''redirect_uri'', redirectUri (Some config) b), (''code'', nullish (params ''code'') ''''),
                     (''code_verifier'', form_text (opt_field ''codeVerifier'' pending))]
                    answer (b\<lparr>session_pending := None\<rparr>) of
                   (Inl e, b') \<Rightarrow> (Inl e, b')
                 | (Inr tok, b') \<Rightarrow>
                     (map_sum id (\<lambda>t. (t, return_text (opt_field ''returnTo'' pending))) (toTokenSet now_ms tok), b'))))"

subsection \<open>Refreshing, signing out\<close>

definition refreshOIDCToken ::
  "PublicAuthConfig \<Rightarrow> OIDCDiscovery \<Rightarrow> TokenSet \<Rightarrow> int \<Rightarrow> js_error + (int \<times> TokenResponse) \<Rightarrow> browser \<Rightarrow>
     TokenSet promise \<times> browser" where
  "refreshOIDCToken config discovery tokens now_ms answer b =
     (if \<not> truthy_str (tk_refreshToken tokens) then (Inl (JsError ''No refresh token is available''), b)
      else
        (case exchangeToken (od_token_endpoint discovery)
            [(''grant_type'', ''refresh_token''), (''client_id'', ac_clientId config),
             (''refresh_token'', nullish (tk_refreshToken tokens) '''')] answer b of
           (Inl e, b') \<Rightarrow> (Inl e, b')
         | (Inr tok, b') \<Rightarrow>
             (toTokenSet now_ms (tok\<lparr>tr_refresh_token := nullish_opt (tr_refresh_token tok) (tk_refreshToken tokens),
                tr_id_token := nullish_opt (tr_id_token tok) (tk_idToken tokens)\<rparr>), b')))"

definition logoutURL :: "OIDCDiscovery option \<Rightarrow> TokenSet option \<Rightarrow> browser \<Rightarrow> string option" where
  "logoutURL discovery tokens b =
     (case Option.bind discovery od_end_session_endpoint of
        Some endpoint \<Rightarrow>
          if endpoint = [] then None
          else Some (endpoint @ ''?'' @ search_params ((''post_logout_redirect_uri'', page_origin b) #
            (case Option.bind tokens tk_idToken of
               Some i \<Rightarrow> if i \<noteq> [] then [(''id_token_hint'', i)] else []
             | None \<Rightarrow> [])))
      | None \<Rightarrow> None)"

definition isCallbackPath :: "string \<Rightarrow> bool" where
  "isCallbackPath query \<longleftrightarrow>
     (let keys = map fst (read_params query)
      in ''state'' \<in> set keys \<and> (''code'' \<in> set keys \<or> ''error'' \<in> set keys))"

subsection \<open>What the encoding yields\<close>

definition pkce_char :: "char \<Rightarrow> bool" where
  "pkce_char c \<longleftrightarrow> c \<in> set (upper_letters @ lower_letters @ ''0123456789-_'')"

lemma b64_pkce: "n < 64 \<Longrightarrow> pkce_char (url_safe (b64_char n))"
proof -
  assume "n < 64"
  then have "b64_char n \<in> set (upper_letters @ lower_letters @ ''0123456789+/'')"
    unfolding b64_char_def by (intro nth_mem) (simp add: upper_letters_def lower_letters_def)
  then show ?thesis
    by (auto simp: pkce_char_def url_safe_def upper_letters_def lower_letters_def)
qed

lemma url_safe_pad [simp]: "url_safe (CHR ''='') = CHR ''=''"
  by (simp add: url_safe_def)

lemma sextets:
  "byte a div 4 < 64" "byte a mod 4 * 16 < 64" "byte a mod 4 * 16 + byte b div 16 < 64"
  "byte a mod 16 * 4 < 64" "byte a mod 16 * 4 + byte b div 64 < 64" "byte a mod 64 < 64"
proof -
  have "byte a < 256" "byte b < 256" by (simp_all add: byte_lt)
  then have "byte a div 4 < 64" "byte b div 16 < 16" "byte b div 64 < 4" by simp_all
  moreover have "byte a mod 4 < 4" "byte a mod 16 < 16" by simp_all
  ultimately show "byte a div 4 < 64" "byte a mod 4 * 16 < 64" "byte a mod 4 * 16 + byte b div 16 < 64"
    "byte a mod 16 * 4 < 64" "byte a mod 16 * 4 + byte b div 64 < 64" "byte a mod 64 < 64" by linarith+
qed

lemma base64_shape:
  "\<exists>core k. map url_safe (btoa s) = core @ replicate k (CHR ''='') \<and>
     length core = (4 * length s + 2) div 3 \<and> (\<forall>c \<in> set core. pkce_char c)"
proof (induction s rule: btoa.induct)
  case 1
  show ?case by (intro exI [of _ "[]"] exI [of _ 0]) simp
next
  case (2 a)
  show ?case
    by (intro exI [of _ "map url_safe [b64_char (byte a div 4), b64_char (byte a mod 4 * 16)]"] exI [of _ 2])
      (simp add: b64_pkce sextets numeral_2_eq_2)
next
  case (3 a b)
  show ?case
    by (intro exI [of _ "map url_safe [b64_char (byte a div 4), b64_char (byte a mod 4 * 16 + byte b div 16),
        b64_char (byte b mod 16 * 4)]"] exI [of _ 1]) (simp add: b64_pkce sextets)
next
  case (4 a b c s)
  then obtain core k where ih: "map url_safe (btoa s) = core @ replicate k (CHR ''='')"
    "length core = (4 * length s + 2) div 3" "\<forall>c \<in> set core. pkce_char c" by blast
  show ?case
    by (intro exI [of _ "map url_safe [b64_char (byte a div 4), b64_char (byte a mod 4 * 16 + byte b div 16),
        b64_char (byte b mod 16 * 4 + byte c div 64), b64_char (byte c mod 64)] @ core"] exI [of _ k])
      (simp add: ih b64_pkce sextets)
qed

lemma base64URL_shape:
  "length (base64URL s) = (4 * length s + 2) div 3 \<and> (\<forall>c \<in> set (base64URL s). pkce_char c)"
proof -
  obtain core k where s: "map url_safe (btoa s) = core @ replicate k (CHR ''='')"
    "length core = (4 * length s + 2) div 3" "\<forall>c \<in> set core. pkce_char c"
    using base64_shape by blast
  have "\<not> pkce_char (CHR ''='')"
    by (simp add: pkce_char_def upper_letters_def lower_letters_def)
  then have "core = [] \<or> last core \<noteq> CHR ''=''" using s(3) last_in_set by metis
  then have "dropWhile (\<lambda>c. c = CHR ''='') (rev core) = rev core"
    by (cases core rule: rev_cases) auto
  moreover have "dropWhile (\<lambda>c. c = CHR ''='') (replicate k (CHR ''='') @ rev core) =
      dropWhile (\<lambda>c. c = CHR ''='') (rev core)"
    by (rule dropWhile_append2) simp
  ultimately have "base64URL s = core"
    by (simp add: base64URL_def s strip_trailing_def)
  with s show ?thesis by simp
qed

lemma base64URL_nonempty: "s \<noteq> [] \<Longrightarrow> base64URL s \<noteq> []"
  using base64URL_shape [of s] by (cases s) auto

subsection \<open>Properties\<close>

lemma pending_read: "readPendingLogin (b\<lparr>session_pending := Some (stringify (pending_json st n v r))\<rparr>) =
    Some (pending_json st n v r)"
proof -
  have "wf_json (pending_json st n v r)" by (simp add: pending_json_def)
  moreover have "stringify (pending_json st n v r) \<noteq> []" by (simp add: pending_json_def)
  ultimately show ?thesis by (simp add: readPendingLogin_def parse_stringify)
qed

lemma begin_read:
  "readPendingLogin (beginOIDCLogin sha256 r1 r2 r3 config discovery returnTo b) =
     Some (pending_json (base64URL r1) (base64URL r2) (base64URL r3) (kept_return returnTo))"
proof -
  have "readPendingLogin (b'\<lparr>assigned := a\<rparr>) = readPendingLogin b'" for b' a
    by (simp add: readPendingLogin_def)
  then show ?thesis
    using pending_read [where b = b] by (simp add: beginOIDCLogin_def)
qed

lemma pending_fields:
  "opt_field ''state'' (Some (pending_json st n v r)) = Some (JStr st)"
  "opt_field ''codeVerifier'' (Some (pending_json st n v r)) = Some (JStr v)"
  "opt_field ''returnTo'' (Some (pending_json st n v r)) = Some (JStr r)"
  by (simp_all add: pending_json_def)

lemma kept_return_nonempty: "return_text (Some (JStr (kept_return r))) = kept_return r"
  by (simp add: return_text_def kept_return_def or_str_def)

text \<open>
  C5. Signing in comes back to where it started: when the provider redirects to the callback with a
  code and the state it was given, the callback exchanges that code with the verifier whose
  SHA-256 challenge was in the login URL and the same redirect URI, yields the token set of the
  answer and the page the login was started from (the root, when that was the callback itself),
  and the verifier is one RFC 7636 allows: 86 characters of the URL-safe alphabet.
\<close>

theorem login_round_trip:
  assumes "length r1 = 32" "length r3 = 64" "code \<noteq> []" "truthy_str (tr_access_token tok)"
    and "b1 = beginOIDCLogin sha256 r1 r2 r3 config discovery returnTo b"
    and "sent = login_params sha256 config b (base64URL r1) (base64URL r2) (base64URL r3)"
    and "query = search_params [(''code'', code), (''state'', base64URL r1)]"
  shows "assigned b1 = Some (od_authorization_endpoint discovery @ ''?'' @ search_params sent) \<and>
    read_params (search_params sent) = sent \<and>
    map_of sent ''state'' = Some (base64URL r1) \<and>
    (\<exists>verifier. map_of sent ''code_challenge'' = Some (base64URL (sha256 verifier)) \<and>
      length verifier = 86 \<and> (\<forall>c \<in> set verifier. pkce_char c) \<and>
      isCallbackPath query \<and>
      completeOIDCCallback config discovery query now_ms (Inr (200, tok)) b1 =
        (map_sum id (\<lambda>t. (t, kept_return returnTo)) (toTokenSet now_ms tok),
         b1\<lparr>session_pending := None,
            token_posts := token_posts b @
              [(od_token_endpoint discovery,
                [(''grant_type'', ''authorization_code''), (''client_id'', ac_clientId config),
                 (''redirect_uri'', nullish (map_of sent ''redirect_uri'') ''''), (''code'', code),
                 (''code_verifier'', verifier)])]\<rparr>) \<and>
      (\<exists>t. toTokenSet now_ms tok = Inr t))"
proof -
  have st: "base64URL r1 \<noteq> []" using assms(1) by (intro base64URL_nonempty) auto
  have b1: "token_posts b1 = token_posts b" "redirectUri (Some config) b1 = redirectUri (Some config) b"
    by (simp_all add: assms(5) beginOIDCLogin_def redirectUri_def split: option.splits)
  have "length (base64URL r3) = 86 \<and> (\<forall>c \<in> set (base64URL r3). pkce_char c)"
    using base64URL_shape [of r3] assms(2) by simp
  moreover have "\<exists>t. toTokenSet now_ms tok = Inr t"
    using assms(4) by (simp add: toTokenSet_def)
  ultimately show ?thesis
    using begin_read [where ?sha256.0 = sha256 and ?r1.0 = r1 and ?r2.0 = r2 and ?r3.0 = r3 and b = b] assms(3) st
    by (intro conjI exI [of _ "base64URL r3"])
      (simp_all add: assms(5-7) read_search_params login_params_def codeChallengeFor_def beginOIDCLogin_def
        completeOIDCCallback_def Let_def pending_fields exchangeToken_def form_text_def kept_return_nonempty
        isCallbackPath_def redirectUri_def split: option.splits)
qed

text \<open>
  C7. A callback counts once, and only for the login that is pending: when the state in the URL is
  not the pending one - forged, or of another tab, or because no login is pending - the callback is
  rejected, nothing is posted to the provider and the pending login stays; and whatever the
  provider answers to an accepted callback, opening the same URL again is rejected.
\<close>

theorem callback_counts_once:
  assumes "(result, b') = completeOIDCCallback config discovery query now_ms answer b"
  shows "(opt_field ''state'' (readPendingLogin b) \<noteq> map_option JStr (map_of (read_params query) ''state'') \<longrightarrow>
      b' = b \<and> (\<exists>e. result = Inl e)) \<and>
    (token_posts b' \<noteq> token_posts b \<longrightarrow>
      session_pending b' = None \<and>
      (\<exists>e. completeOIDCCallback config discovery query now_ms answer' b' = (Inl e, b')))"
proof -
  have none: "readPendingLogin (b\<lparr>session_pending := None, token_posts := p\<rparr>) = None" for p
    by (simp add: readPendingLogin_def)
  show ?thesis
    using assms
    by (auto simp: completeOIDCCallback_def Let_def exchangeToken_def none truthy_str_def
        split: if_splits sum.splits prod.splits option.splits)
qed

definition sample_config :: PublicAuthConfig where
  "sample_config = \<lparr>ac_issuer = ''https://dex'', ac_clientId = ''knaic'', ac_scopes = '''', ac_redirectUri = None\<rparr>"

definition sample_discovery :: OIDCDiscovery where
  "sample_discovery = \<lparr>od_authorization_endpoint = ''https://dex/auth'', od_token_endpoint = ''https://dex/token'',
     od_end_session_endpoint = None\<rparr>"

definition sample_browser :: browser where
  "sample_browser = \<lparr>local_tokens = None, session_pending = None, page_origin = ''https://knaic'',
     assigned = None, token_posts = []\<rparr>"

definition sample_answer :: TokenResponse where
  "sample_answer = \<lparr>tr_access_token = Some ''at'', tr_refresh_token = None, tr_id_token = None,
     tr_token_type = None, tr_expires_in = Some 300, tr_scope = None\<rparr>"

theorem login_round_trip_witness:
  "\<exists>t b. completeOIDCCallback sample_config sample_discovery
      (search_params [(''code'', ''c1''), (''state'', base64URL (replicate 32 CHR ''a''))]) 0 (Inr (200, sample_answer))
      (beginOIDCLogin (\<lambda>_. ''digest'') (replicate 32 CHR ''a'') ''n'' (replicate 64 CHR ''v'') sample_config
        sample_discovery ''/models'' sample_browser) = (Inr (t, ''/models''), b)"
proof -
  have "kept_return ''/models'' = ''/models''" by (simp add: kept_return_def redirectPath_def)
  then show ?thesis
    using login_round_trip [where ?r1.0 = "replicate 32 CHR ''a''" and ?r2.0 = "''n''" and
        ?r3.0 = "replicate 64 CHR ''v''" and code = "''c1''" and tok = sample_answer and ?sha256.0 = "\<lambda>_. ''digest''"
        and config = sample_config and discovery = sample_discovery and returnTo = "''/models''"
        and b = sample_browser and now_ms = 0, OF _ _ _ _ refl refl refl]
    by (auto simp: sample_answer_def)
qed

theorem callback_counts_once_witness:
  "snd (completeOIDCCallback sample_config sample_discovery
     (search_params [(''code'', ''c1''), (''state'', ''forged'')]) 0 (Inr (200, sample_answer)) sample_browser) =
   sample_browser"
  using callback_counts_once [OF prod.collapse, where config = sample_config and discovery = sample_discovery
      and query = "search_params [(''code'', ''c1''), (''state'', ''forged'')]" and now_ms = 0
      and answer = "Inr (200, sample_answer)" and b = sample_browser]
  by (simp add: read_search_params readPendingLogin_def sample_browser_def)

lemma wf_token_json: "wf_json (token_json t)"
  by (cases "tk_refreshToken t"; cases "tk_idToken t"; cases "tk_scope t"; simp add: token_json_def)

lemma access_field: "opt_field ''accessToken'' (Some (token_json t)) = Some (JStr (tk_accessToken t))"
  by (simp add: token_json_def)

lemma token_text: "stringify (token_json t) \<noteq> []"
  by (simp add: token_json_def)

text \<open>
  Tokens survive a reload of the page and a refresh: what was saved is what is loaded, a token
  set without access token excepted, until it is cleared; a refresh that succeeds keeps the refresh
  token and the id token unless the provider sends new ones, and a token the provider issues for
  more than 30 seconds is usable at once.
\<close>

theorem token_lifecycle:
  "loadTokenSet (saveTokenSet t b) = (if tk_accessToken t = [] then None else Some (token_json t)) \<and>
   loadTokenSet (clearStoredAuth b) = None \<and> readPendingLogin (clearStoredAuth b) = None \<and>
   (case refreshOIDCToken config discovery t now_ms answer b of
      (Inr t', b') \<Rightarrow> truthy_str (tk_refreshToken t) \<and> tk_refreshToken t' \<noteq> None \<and> tk_accessToken t' \<noteq> [] \<and>
        (\<exists>st tok. answer = Inr (st, tok) \<and>
          tk_refreshToken t' = nullish_opt (tr_refresh_token tok) (tk_refreshToken t) \<and>
          tk_idToken t' = nullish_opt (tr_id_token tok) (tk_idToken t) \<and>
          hasUsableAccessToken now_ms (Some t') = (30 < nullish (tr_expires_in tok) 3600)) \<and>
        token_posts b' = token_posts b @ [(od_token_endpoint discovery,
          [(''grant_type'', ''refresh_token''), (''client_id'', ac_clientId config),
           (''refresh_token'', nullish (tk_refreshToken t) '''')])]
    | (Inl e, b') \<Rightarrow> local_tokens b' = local_tokens b)"
proof -
  have "loadTokenSet (saveTokenSet t b) = (if tk_accessToken t = [] then None else Some (token_json t))"
    using token_text [of t]
    by (simp add: loadTokenSet_def saveTokenSet_def parse_stringify [OF wf_token_json] access_field)
  moreover have "\<exists>x. tr_refresh_token tok = Some x \<or> nullish_opt (tr_refresh_token tok) (tk_refreshToken t) \<noteq> None"
    if "truthy_str (tk_refreshToken t)" for tok
    using that by (cases "tr_refresh_token tok"; cases "tk_refreshToken t") simp_all
  ultimately show ?thesis
    by (auto simp: clearStoredAuth_def loadTokenSet_def readPendingLogin_def refreshOIDCToken_def
        exchangeToken_def toTokenSet_def hasUsableAccessToken_def truthy_str_def nullish_opt_def
        split: sum.splits prod.splits if_splits option.splits)
qed

end
