(* ===== verification/Catalogues.thy ===== *)
theory Catalogues
  imports Models Users_Rbac
begin

text \<open>
  The small catalogues: cluster nodes (\<open>data/nodes.ts\<close>, the node bindings of \<open>api/admin.ts\<close>), GPU
  profiles (\<open>data/gpuProfiles.ts\<close>, \<open>api/gpu.ts\<close>), storage targets (\<open>data/storageTargets.ts\<close>,
  \<open>api/storage.ts\<close>) and model collections (\<open>data/collections.ts\<close>, \<open>api/collections.ts\<close>). The first
  three are loaded once behind a boolean, collections per scope and namespace.
\<close>

subsection \<open>Nodes\<close>

datatype taint_effect = NoSchedule | PreferNoSchedule | NoExecute

fun taint_effect_text :: "taint_effect \<Rightarrow> string" where
  "taint_effect_text NoSchedule = ''NoSchedule''"
| "taint_effect_text PreferNoSchedule = ''PreferNoSchedule''"
| "taint_effect_text NoExecute = ''NoExecute''"

record Taint =
  taint_key :: string
  taint_value :: "string option"
  taint_effect :: taint_effect

datatype node_role = ControlPlane | Worker | GpuWorker
datatype node_status = NodeReady | NodeNotReady

record NodeInfo =
  nd_name :: string
  nd_role :: node_role
  nd_cpu :: string
  nd_memory :: string
  nd_gpu :: string
  nd_status :: node_status
  nd_kubelet :: string
  nd_kernel :: string
  nd_labels :: "string js_map"
  nd_taints :: "Taint list"

record nodes = flag_loader +
  node_rows :: "NodeInfo list"

definition seed_node ::
  "string \<Rightarrow> node_role \<Rightarrow> string \<Rightarrow> string \<Rightarrow> string \<Rightarrow> node_status \<Rightarrow> string js_map \<Rightarrow> Taint list \<Rightarrow> NodeInfo" where
  "seed_node name role cpu mem gpu st labels taints =
     \<lparr>nd_name = name, nd_role = role, nd_cpu = cpu, nd_memory = mem, nd_gpu = gpu, nd_status = st,
      nd_kubelet = ''v1.30.5'', nd_kernel = ''5.15.0'', nd_labels = labels, nd_taints = taints\<rparr>"

definition gpu_labels :: "string \<Rightarrow> string js_map" where
  "gpu_labels product =
     [(''nvidia.com/gpu.product'', product), (''node.knaic.io/accelerator'', ''nvidia'')]"

definition gpu_taint :: Taint where
  "gpu_taint = \<lparr>taint_key = ''nvidia.com/gpu'', taint_value = Some ''present'', taint_effect = NoSchedule\<rparr>"

text \<open>The multiplication sign, in UTF-8.\<close>

definition times_sign :: string where
  "times_sign = [CHR 0xC3, CHR 0x97]"

definition nodesInitial :: "NodeInfo list" where
  "nodesInitial =
    [seed_node ''cp-node-01'' ControlPlane ''16'' ''64Gi'' ''-'' NodeReady
       [(''node-role.kubernetes.io/control-plane'', ''true'')]
       [\<lparr>taint_key = ''node-role.kubernetes.io/control-plane'', taint_value = None, taint_effect = NoSchedule\<rparr>],
     seed_node ''cpu-node-01'' Worker ''32'' ''128Gi'' ''-'' NodeReady [(''node.knaic.io/role'', ''general'')] [],
     seed_node ''cpu-node-02'' Worker ''32'' ''128Gi'' ''-'' NodeReady [(''node.knaic.io/role'', ''general'')] [],
     seed_node ''cpu-node-03'' Worker ''32'' ''128Gi'' ''-'' NodeNotReady [] [],
     seed_node ''gpu-node-01'' GpuWorker ''64'' ''512Gi'' (''8 '' @ times_sign @ '' A100-80GB'') NodeReady
       (gpu_labels ''A100-SXM4-80GB'') [gpu_taint],
     seed_node ''gpu-node-02'' GpuWorker ''64'' ''512Gi'' (''8 '' @ times_sign @ '' A100-80GB'') NodeReady
       (gpu_labels ''A100-SXM4-80GB'') [gpu_taint],
     seed_node ''gpu-node-03'' GpuWorker ''96'' ''1024Gi'' (''8 '' @ times_sign @ '' H100-80GB'') NodeReady
       (gpu_labels ''H100-SXM5-80GB'') [gpu_taint]]"

definition listNodes :: http_request where
  "listNodes = get_request ''/api/v1/admin/nodes''"

definition taint_json :: "Taint \<Rightarrow> json" where
  "taint_json t = jobj [(''key'', Some (JStr (taint_key t))), (''value'', map_option JStr (taint_value t)),
     (''effect'', Some (JStr (taint_effect_text (taint_effect t))))]"

definition patchNode :: "string \<Rightarrow> string js_map option \<Rightarrow> Taint list option \<Rightarrow> http_request" where
  "patchNode name labels taints = json_request PATCH (''/api/v1/admin/nodes/'' @ encodeURIComponent name) (jobj
     [(''labels'', map_option (\<lambda>m. JObj (map (\<lambda>(k, v). (k, JStr v)) m)) labels),
      (''taints'', map_option (\<lambda>ts. JArr (map taint_json ts)) taints)])"

definition ensureNodesLoaded :: "bool \<Rightarrow> nodes \<Rightarrow> nodes" where
  "ensureNodesLoaded api s = (if \<not> api \<or> is_loaded s then s else start_flag listNodes s)"

definition nodes_answered :: "NodeInfo list promise \<Rightarrow> nodes \<Rightarrow> nodes" where
  "nodes_answered answer s =
     (case answer of Inl e \<Rightarrow> flag_failed s | Inr ns \<Rightarrow> land_flag (s\<lparr>node_rows := ns\<rparr>))"

definition reloadNodes :: "bool \<Rightarrow> nodes \<Rightarrow> nodes" where
  "reloadNodes api s = ensureNodesLoaded api (s\<lparr>is_loaded := False\<rparr>)"

text \<open>\<open>Partial<NodeInfo>\<close>; the pages set labels and taints.\<close>

record node_patch =
  np_name :: "string option"
  np_role :: "node_role option"
  np_cpu :: "string option"
  np_memory :: "string option"
  np_gpu :: "string option"
  np_status :: "node_status option"
  np_kubelet :: "string option"
  np_kernel :: "string option"
  np_labels :: "string js_map option"
  np_taints :: "Taint list option"

definition apply_node_patch :: "node_patch \<Rightarrow> NodeInfo \<Rightarrow> NodeInfo" where
  "apply_node_patch p n =
     \<lparr>nd_name = nullish (np_name p) (nd_name n), nd_role = nullish (np_role p) (nd_role n),
      nd_cpu = nullish (np_cpu p) (nd_cpu n), nd_memory = nullish (np_memory p) (nd_memory n),
      nd_gpu = nullish (np_gpu p) (nd_gpu n), nd_status = nullish (np_status p) (nd_status n),
      nd_kubelet = nullish (np_kubelet p) (nd_kubelet n), nd_kernel = nullish (np_kernel p) (nd_kernel n),
      nd_labels = nullish (np_labels p) (nd_labels n), nd_taints = nullish (np_taints p) (nd_taints n)\<rparr>"

definition updateNode ::
  "bool \<Rightarrow> NodeInfo backend \<Rightarrow> string \<Rightarrow> node_patch \<Rightarrow> nodes \<Rightarrow> unit promise \<times> nodes" where
  "updateNode api send name patch s =
     (if api then
        (case send (patchNode name (np_labels patch) (np_taints patch)) of
           Inl e \<Rightarrow> (Inl e, s)
         | Inr updated \<Rightarrow> (Inr (), s\<lparr>node_rows := map_where (\<lambda>n. nd_name n = name) (\<lambda>_. updated) (node_rows s)\<rparr>))
      else (Inr (), s\<lparr>node_rows := map_where (\<lambda>n. nd_name n = name) (apply_node_patch patch) (node_rows s)\<rparr>))"

subsection \<open>GPU profiles\<close>

datatype gpu_kind = GpuHami | GpuNvidia | GpuNpu | GpuCustom

fun gpu_kind_text :: "gpu_kind \<Rightarrow> string" where
  "gpu_kind_text GpuHami = ''hami''"
| "gpu_kind_text GpuNvidia = ''nvidia''"
| "gpu_kind_text GpuNpu = ''npu''"
| "gpu_kind_text GpuCustom = ''custom''"

datatype field_value = FieldText string | FieldNumber "int \<times> int"

record GPUProfileField =
  gf_key :: string
  gf_label :: string
  gf_unit :: "string option"
  gf_defaultValue :: field_value
  gf_step :: "(int \<times> int) option"
  gf_min :: "(int \<times> int) option"
  gf_max :: "(int \<times> int) option"

record GPUProfile =
  gp_id :: string
  gp_name :: string
  gp_kind :: gpu_kind
  gp_description :: string
  gp_fields :: "GPUProfileField list"
  gp_builtin :: bool

record GPUProfileDTO =
  gd_id :: string
  gd_name :: string
  gd_kind :: gpu_kind
  gd_description :: "string option"
  gd_fields :: "GPUProfileField list option"
  gd_builtin :: "bool option"

record gpu_profiles = flag_loader +
  profile_rows :: "GPUProfile list"

definition count_field ::
  "string \<Rightarrow> string \<Rightarrow> string option \<Rightarrow> int \<Rightarrow> int \<Rightarrow> int option \<Rightarrow> int \<Rightarrow> GPUProfileField" where
  "count_field k label u def lo hi st =
     \<lparr>gf_key = k, gf_label = label, gf_unit = u, gf_defaultValue = FieldNumber (def, 0),
      gf_step = Some (st, 0), gf_min = Some (lo, 0), gf_max = map_option (\<lambda>h. (h, 0)) hi\<rparr>"

definition gpuProfilesInitial :: "(nat \<Rightarrow> string) \<Rightarrow> GPUProfile list" where
  "gpuProfilesInitial draw =
    [\<lparr>gp_id = uid (draw 0) ''gpu'', gp_name = ''HAMi (shared GPU)'', gp_kind = GpuHami,
      gp_description = ''Partial GPU share via HAMi scheduler.'',
      gp_fields = [count_field ''nvidia.com/gpualloc'' ''GPUs'' None 1 0 None 1,
        count_field ''nvidia.com/gpucores'' ''GPU cores (%)'' None 25 1 (Some 100) 5,
        count_field ''nvidia.com/gpumem'' ''GPU memory'' (Some ''MiB'') 8192 512 None 512],
      gp_builtin = True\<rparr>,
     \<lparr>gp_id = uid (draw 1) ''gpu'', gp_name = ''NVIDIA GPU (whole)'', gp_kind = GpuNvidia,
      gp_description = ''Request one or more full NVIDIA GPUs.'',
      gp_fields = [count_field ''nvidia.com/gpu'' ''GPUs'' None 1 0 None 1], gp_builtin = True\<rparr>,
     \<lparr>gp_id = uid (draw 2) ''gpu'', gp_name = ''Huawei Ascend 910B (NPU)'', gp_kind = GpuNpu,
      gp_description = ''Ascend NPU allocation via huawei.com/Ascend910B.'',
      gp_fields = [count_field ''huawei.com/Ascend910B'' ''NPUs'' None 1 0 None 1], gp_builtin = True\<rparr>]"

definition fetchGPUStatus :: "bool \<Rightarrow> string option \<Rightarrow> http_request" where
  "fetchGPUStatus cluster target = get_request (''/api/v1/gpu/status?'' @ search_params
     ((''scope'', if cluster then ''cluster'' else ''namespace'') #
      (if truthy_str target then [(''target'', nullish target '''')] else [])))"

text \<open>A time of 0 is falsy and left out.\<close>

definition truthy_time :: "string \<Rightarrow> int option \<Rightarrow> (string \<times> string) list" where
  "truthy_time k v = (case v of Some n \<Rightarrow> if n \<noteq> 0 then [(k, show_int n)] else [] | None \<Rightarrow> [])"

definition fetchGPUDeviceUsage :: "int option \<Rightarrow> int option \<Rightarrow> int option \<Rightarrow> http_request" where
  "fetchGPUDeviceUsage begin_at end_at step = get_request (''/api/v1/gpu/device-usage?'' @ search_params
     (truthy_time ''start'' begin_at @ truthy_time ''end'' end_at @ truthy_time ''step'' step))"

fun field_value_json :: "field_value \<Rightarrow> json" where
  "field_value_json (FieldText s) = JStr s"
| "field_value_json (FieldNumber d) = jdecimal d"

definition gpu_field_json :: "GPUProfileField \<Rightarrow> json" where
  "gpu_field_json f = jobj
    [(''key'', Some (JStr (gf_key f))), (''label'', Some (JStr (gf_label f))),
     (''unit'', map_option JStr (gf_unit f)), (''defaultValue'', Some (field_value_json (gf_defaultValue f))),
     (''step'', map_option jdecimal (gf_step f)), (''min'', map_option jdecimal (gf_min f)),
     (''max'', map_option jdecimal (gf_max f))]"

text \<open>What the form submits: a profile without id and \<open>builtin\<close>.\<close>

record profile_input =
  pi_name :: string
  pi_kind :: gpu_kind
  pi_description :: string
  pi_fields :: "GPUProfileField list"

definition profile_json :: "profile_input \<Rightarrow> json" where
  "profile_json p = JObj
    [(''name'', JStr (pi_name p)), (''kind'', JStr (gpu_kind_text (pi_kind p))),
     (''description'', JStr (pi_description p)), (''fields'', JArr (map gpu_field_json (pi_fields p)))]"

definition listGPUProfiles :: http_request where
  "listGPUProfiles = get_request ''/api/v1/gpu/profiles''"

definition createGPUProfile :: "profile_input \<Rightarrow> http_request" where
  "createGPUProfile p = json_request POST ''/api/v1/gpu/profiles'' (profile_json p)"

definition api_updateGPUProfile :: "string \<Rightarrow> profile_input \<Rightarrow> http_request" where
  "api_updateGPUProfile i p =
     json_request PUT (''/api/v1/gpu/profiles/'' @ encodeURIComponent i) (profile_json p)"

definition deleteGPUProfile :: "string \<Rightarrow> http_request" where
  "deleteGPUProfile i = bare_request DELETE (''/api/v1/gpu/profiles/'' @ encodeURIComponent i)"

definition profile_fromDTO :: "GPUProfileDTO \<Rightarrow> GPUProfile" where
  "profile_fromDTO p =
     \<lparr>gp_id = gd_id p, gp_name = gd_name p, gp_kind = gd_kind p, gp_description = nullish (gd_description p) '''',
      gp_fields = nullish (gd_fields p) [], gp_builtin = (gd_builtin p = Some True)\<rparr>"

definition ensureGPUProfilesLoaded :: "bool \<Rightarrow> gpu_profiles \<Rightarrow> gpu_profiles" where
  "ensureGPUProfilesLoaded api s = (if \<not> api \<or> is_loaded s then s else start_flag listGPUProfiles s)"

definition profiles_answered :: "GPUProfileDTO list promise \<Rightarrow> gpu_profiles \<Rightarrow> gpu_profiles" where
  "profiles_answered answer s =
     (case answer of Inl e \<Rightarrow> flag_failed s
      | Inr items \<Rightarrow> land_flag (s\<lparr>profile_rows := map profile_fromDTO items\<rparr>))"

definition reloadGPUProfiles :: "bool \<Rightarrow> gpu_profiles \<Rightarrow> gpu_profiles" where
  "reloadGPUProfiles api s = ensureGPUProfilesLoaded api (s\<lparr>is_loaded := False\<rparr>)"

definition local_profile :: "string \<Rightarrow> profile_input \<Rightarrow> GPUProfile" where
  "local_profile i p =
     \<lparr>gp_id = i, gp_name = pi_name p, gp_kind = pi_kind p, gp_description = pi_description p,
      gp_fields = pi_fields p, gp_builtin = False\<rparr>"

definition addGPUProfile ::
  "bool \<Rightarrow> GPUProfileDTO backend \<Rightarrow> string \<Rightarrow> profile_input \<Rightarrow> gpu_profiles \<Rightarrow> unit promise \<times> gpu_profiles" where
  "addGPUProfile api send draw p s =
     (if api then
        (case send (createGPUProfile p) of
           Inl e \<Rightarrow> (Inl e, s)
         | Inr created \<Rightarrow> (Inr (), s\<lparr>profile_rows := profile_rows s @ [profile_fromDTO created]\<rparr>))
      else (Inr (), s\<lparr>profile_rows := profile_rows s @ [local_profile (uid draw ''gpu'') p]\<rparr>))"

definition updateGPUProfile ::
  "bool \<Rightarrow> GPUProfileDTO backend \<Rightarrow> string \<Rightarrow> profile_input \<Rightarrow> gpu_profiles \<Rightarrow> unit promise \<times> gpu_profiles" where
  "updateGPUProfile api send i p s =
     (if api then
        (case send (api_updateGPUProfile i p) of
           Inl e \<Rightarrow> (Inl e, s)
         | Inr updated \<Rightarrow> (Inr (), s\<lparr>profile_rows :=
             map_where (\<lambda>x. gp_id x = i) (\<lambda>_. profile_fromDTO updated) (profile_rows s)\<rparr>))
      else (Inr (), s\<lparr>profile_rows := map_where (\<lambda>x. gp_id x = i) (\<lambda>_. local_profile i p) (profile_rows s)\<rparr>))"

definition removeGPUProfile ::
  "bool \<Rightarrow> 'r backend \<Rightarrow> string \<Rightarrow> gpu_profiles \<Rightarrow> unit promise \<times> gpu_profiles" where
  "removeGPUProfile api send i s =
     (let cleared = s\<lparr>profile_rows := drop_where (\<lambda>p. gp_id p = i) (profile_rows s)\<rparr>
      in if api then (case send (deleteGPUProfile i) of Inl e \<Rightarrow> (Inl e, s) | Inr _ \<Rightarrow> (Inr (), cleared))
         else (Inr (), cleared))"

subsection \<open>Storage targets\<close>

datatype storage_kind = StoreS3 | StoreOci | StorePvc

fun storage_kind_text :: "storage_kind \<Rightarrow> string" where
  "storage_kind_text StoreS3 = ''s3''"
| "storage_kind_text StoreOci = ''oci''"
| "storage_kind_text StorePvc = ''pvc''"

text \<open>The row and the data transfer object have the same fields, which \<open>fromDTO\<close> copies.\<close>

record StorageTarget =
  st_id :: string
  st_name :: string
  st_kind :: storage_kind
  st_endpoint :: string
  st_bucket :: "string option"
  st_prefix :: "string option"
  st_builtin :: bool
  st_createdAt :: "string option"

record storage_targets = flag_loader +
  target_rows :: "StorageTarget list"

definition targetsInitial :: "(nat \<Rightarrow> string) \<Rightarrow> StorageTarget list" where
  "targetsInitial draw =
    [\<lparr>st_id = uid (draw 0) ''st'', st_name = ''Built-in object store'', st_kind = StoreS3,
      st_endpoint = ''minio.knaic-system.svc.cluster.local:9000'', st_bucket = Some ''knaic-models'',
      st_prefix = Some '''', st_builtin = True, st_createdAt = None\<rparr>,
     \<lparr>st_id = uid (draw 1) ''st'', st_name = ''Built-in OCI registry'', st_kind = StoreOci,
      st_endpoint = ''registry.knaic.local'', st_bucket = None, st_prefix = Some ''models'',
      st_builtin = True, st_createdAt = None\<rparr>,
     \<lparr>st_id = uid (draw 2) ''st'', st_name = ''External S3 (aws-prod)'', st_kind = StoreS3,
      st_endpoint = ''s3.us-east-1.amazonaws.com'', st_bucket = Some ''acme-ml-models'',
      st_prefix = Some ''prod/'', st_builtin = False, st_createdAt = None\<rparr>]"

record target_input =
  ti_name :: string
  ti_kind :: storage_kind
  ti_endpoint :: string
  ti_bucket :: "string option"
  ti_prefix :: "string option"

record target_patch =
  tp_name :: "string option"
  tp_endpoint :: "string option"
  tp_bucket :: "string option"
  tp_prefix :: "string option"

definition listStorageTargets :: http_request where
  "listStorageTargets = get_request ''/api/v1/storage/targets''"

definition api_createStorageTarget :: "target_input \<Rightarrow> http_request" where
  "api_createStorageTarget i = json_request POST ''/api/v1/storage/targets'' (jobj
    [(''name'', Some (JStr (ti_name i))), (''kind'', Some (JStr (storage_kind_text (ti_kind i)))),
     (''endpoint'', Some (JStr (ti_endpoint i))), (''bucket'', map_option JStr (ti_bucket i)),
     (''prefix'', map_option JStr (ti_prefix i))])"

definition patchStorageTarget :: "string \<Rightarrow> target_patch \<Rightarrow> http_request" where
  "patchStorageTarget i p = json_request PATCH (''/api/v1/storage/targets/'' @ encodeURIComponent i) (jobj
    [(''name'', map_option JStr (tp_name p)), (''endpoint'', map_option JStr (tp_endpoint p)),
     (''bucket'', map_option JStr (tp_bucket p)), (''prefix'', map_option JStr (tp_prefix p))])"

definition deleteStorageTarget :: "string \<Rightarrow> http_request" where
  "deleteStorageTarget i = bare_request DELETE (''/api/v1/storage/targets/'' @ encodeURIComponent i)"

text \<open>\<open>synthetic\<close> is \<open>syntheticMode\<close> of the client.\<close>

definition ensureStorageTargetsLoaded :: "bool \<Rightarrow> storage_targets \<Rightarrow> storage_targets" where
  "ensureStorageTargetsLoaded synthetic s =
     (if synthetic \<or> is_loaded s then s else start_flag listStorageTargets s)"

definition target_fromDTO :: "StorageTarget \<Rightarrow> StorageTarget" where
  "target_fromDTO t =
     \<lparr>st_id = st_id t, st_name = st_name t, st_kind = st_kind t, st_endpoint = st_endpoint t,
      st_bucket = st_bucket t, st_prefix = st_prefix t, st_builtin = st_builtin t, st_createdAt = st_createdAt t\<rparr>"

definition targets_answered :: "StorageTarget list promise \<Rightarrow> storage_targets \<Rightarrow> storage_targets" where
  "targets_answered answer s =
     (case answer of Inl e \<Rightarrow> flag_failed s
      | Inr items \<Rightarrow> land_flag (s\<lparr>target_rows := map target_fromDTO items\<rparr>))"

definition reloadStorageTargets :: "bool \<Rightarrow> storage_targets \<Rightarrow> storage_targets" where
  "reloadStorageTargets synthetic s = ensureStorageTargetsLoaded synthetic (s\<lparr>is_loaded := False\<rparr>)"

definition createStorageTarget ::
  "bool \<Rightarrow> StorageTarget backend \<Rightarrow> string \<Rightarrow> target_input \<Rightarrow> storage_targets \<Rightarrow>
     StorageTarget promise \<times> storage_targets" where
  "createStorageTarget synthetic send draw i s =
     (if synthetic then
        (let t = \<lparr>st_id = uid draw ''st'', st_name = ti_name i, st_kind = ti_kind i, st_endpoint = ti_endpoint i,
                  st_bucket = ti_bucket i, st_prefix = ti_prefix i, st_builtin = False, st_createdAt = None\<rparr>
         in (Inr t, s\<lparr>target_rows := target_rows s @ [t]\<rparr>))
      else (case send (api_createStorageTarget i) of
          Inl e \<Rightarrow> (Inl e, s)
        | Inr dto \<Rightarrow>
            (let created = target_fromDTO dto
             in (Inr created, s\<lparr>target_rows := target_rows s @ [created]\<rparr>))))"

definition apply_target_patch :: "target_patch \<Rightarrow> StorageTarget \<Rightarrow> StorageTarget" where
  "apply_target_patch p t = t\<lparr>
     st_name := nullish (tp_name p) (st_name t), st_endpoint := nullish (tp_endpoint p) (st_endpoint t),
     st_bucket := nullish_opt (tp_bucket p) (st_bucket t), st_prefix := nullish_opt (tp_prefix p) (st_prefix t)\<rparr>"

text \<open>\<open>updated\<close> is the last row the map changed.\<close>

definition updateStorageTarget ::
  "bool \<Rightarrow> StorageTarget backend \<Rightarrow> string \<Rightarrow> target_patch \<Rightarrow> storage_targets \<Rightarrow>
     StorageTarget promise \<times> storage_targets" where
  "updateStorageTarget synthetic send i patch s =
     (if synthetic then
        (let hit = filter (\<lambda>t. st_id t = i) (target_rows s);
             s' = s\<lparr>target_rows := map_where (\<lambda>t. st_id t = i) (apply_target_patch patch) (target_rows s)\<rparr>
         in if hit = [] then (Inl (JsError ''storage target not found''), s')
            else (Inr (apply_target_patch patch (last hit)), s'))
      else (case send (patchStorageTarget i patch) of
          Inl e \<Rightarrow> (Inl e, s)
        | Inr dto \<Rightarrow>
            (let updated = target_fromDTO dto
             in (Inr updated, s\<lparr>target_rows := map_where (\<lambda>t. st_id t = i) (\<lambda>_. updated) (target_rows s)\<rparr>))))"

definition removeStorageTarget ::
  "bool \<Rightarrow> 'r backend \<Rightarrow> string \<Rightarrow> storage_targets \<Rightarrow> unit promise \<times> storage_targets" where
  "removeStorageTarget synthetic send i s =
     (let cleared = s\<lparr>target_rows := drop_where (\<lambda>t. st_id t = i) (target_rows s)\<rparr>
      in if synthetic then (Inr (), cleared)
         else (case send (deleteStorageTarget i) of Inl e \<Rightarrow> (Inl e, s) | Inr _ \<Rightarrow> (Inr (), cleared)))"

text \<open>\<open>replace(/^\/|\/$/g, '')\<close>: a slash at either end is removed.\<close>

definition strip_ends :: "string \<Rightarrow> string" where
  "strip_ends p = strip_one (CHR ''/'') (if startsWith p ''/'' then tl p else p)"

definition prefix_part :: "string option \<Rightarrow> string" where
  "prefix_part p = strip_ends (nullish p '''') @ (if truthy_str p then ''/'' else '''')"

definition targetUri :: "StorageTarget \<Rightarrow> string \<Rightarrow> string" where
  "targetUri t subpath =
     (case st_kind t of
        StoreS3 \<Rightarrow> ''s3://'' @ nullish (st_bucket t) ''undefined'' @ ''/'' @ prefix_part (st_prefix t) @ subpath
      | StoreOci \<Rightarrow> ''oci://'' @ st_endpoint t @ ''/'' @ prefix_part (st_prefix t) @ subpath
      | StorePvc \<Rightarrow> ''pvc://'' @ st_name t @ ''/'' @ subpath)"

subsection \<open>Collections\<close>

record CollectionDTO =
  co_id :: string
  co_name :: string
  co_owner :: string
  co_scope :: model_scope
  co_namespace :: "string option"
  co_description :: string
  co_iconColor :: "string option"
  co_createdAt :: string
  co_updatedAt :: string

record collections = loader +
  collection_rows :: "CollectionDTO list"

definition collections_init :: collections where
  "collections_init = \<lparr>loaded = {}, in_flight = [], collection_rows = []\<rparr>"

definition listCollections :: "model_scope \<Rightarrow> string option \<Rightarrow> http_request" where
  "listCollections scope ns =
     get_request (''/api/v1/collections?'' @ search_params
       ((''scope'', scope_text scope) #
        (if scope = Private \<and> truthy_str ns then [(''namespace'', nullish ns '''')] else [])))"

record collection_input =
  ci_id :: "string option"
  ci_name :: string
  ci_scope :: model_scope
  ci_namespace :: "string option"
  ci_description :: "string option"
  ci_iconColor :: "string option"

definition createCollection :: "collection_input \<Rightarrow> http_request" where
  "createCollection r = json_request POST ''/api/v1/collections'' (jobj
    [(''id'', map_option JStr (ci_id r)), (''name'', Some (JStr (ci_name r))),
     (''scope'', Some (JStr (scope_text (ci_scope r)))), (''namespace'', map_option JStr (ci_namespace r)),
     (''description'', map_option JStr (ci_description r)), (''iconColor'', map_option JStr (ci_iconColor r))])"

definition patchCollection ::
  "string \<Rightarrow> string option \<Rightarrow> string option \<Rightarrow> string option \<Rightarrow> http_request" where
  "patchCollection i name desc icon = json_request PATCH (''/api/v1/collections/'' @ encodeURIComponent i) (jobj
    [(''name'', map_option JStr name), (''description'', map_option JStr desc), (''iconColor'', map_option JStr icon)])"

definition deleteCollection :: "string \<Rightarrow> http_request" where
  "deleteCollection i = bare_request DELETE (''/api/v1/collections/'' @ encodeURIComponent i)"

definition ensureCollectionsLoaded :: "bool \<Rightarrow> model_scope \<Rightarrow> string option \<Rightarrow> collections \<Rightarrow> collections" where
  "ensureCollectionsLoaded api scope ns s =
     (if \<not> api then s else start_once (models_key scope ns) [listCollections scope ns] s)"

definition purge_collections ::
  "model_scope \<Rightarrow> string option \<Rightarrow> CollectionDTO list \<Rightarrow> CollectionDTO list" where
  "purge_collections scope ns prev = filter (\<lambda>c.
     if co_scope c \<noteq> scope then True
     else if scope = Private \<and> co_namespace c \<noteq> ns then True
     else False) prev"

definition collections_arrived ::
  "model_scope \<Rightarrow> string option \<Rightarrow> CollectionDTO list \<Rightarrow> collections \<Rightarrow> collections" where
  "collections_arrived scope ns items s =
     land (models_key scope ns)
       (s\<lparr>collection_rows := items @ purge_collections scope ns (collection_rows s)\<rparr>)"

definition reloadCollections :: "bool \<Rightarrow> model_scope \<Rightarrow> string option \<Rightarrow> collections \<Rightarrow> collections" where
  "reloadCollections api scope ns s = ensureCollectionsLoaded api scope ns (forget (models_key scope ns) s)"

text \<open>The first row with the id is replaced in place; without one the collection is put first.\<close>

fun replace_first :: "('a \<Rightarrow> 'k) \<Rightarrow> 'a \<Rightarrow> 'a list \<Rightarrow> 'a list option" where
  "replace_first key c [] = None"
| "replace_first key c (x # xs) =
     (if key x = key c then Some (c # xs) else map_option ((#) x) (replace_first key c xs))"

definition upsert_place :: "('a \<Rightarrow> 'k) \<Rightarrow> 'a \<Rightarrow> 'a list \<Rightarrow> 'a list" where
  "upsert_place key c xs = (case replace_first key c xs of None \<Rightarrow> c # xs | Some ys \<Rightarrow> ys)"

definition upsertCollectionLocal :: "CollectionDTO \<Rightarrow> collections \<Rightarrow> collections" where
  "upsertCollectionLocal c s = s\<lparr>collection_rows := upsert_place co_id c (collection_rows s)\<rparr>"

definition removeCollectionLocal :: "string \<Rightarrow> collections \<Rightarrow> collections" where
  "removeCollectionLocal i s = s\<lparr>collection_rows := remove_key co_id i (collection_rows s)\<rparr>"

subsection \<open>The store interface of collections\<close>

lemma replace_first_None: "replace_first key c xs = None \<longleftrightarrow> key c \<notin> key ` set xs"
  by (induction xs) auto

lemma replace_first_keys: "replace_first key c xs = Some ys \<Longrightarrow> map key ys = map key xs"
  by (induction xs arbitrary: ys) (auto split: if_splits)

lemma replace_first_find:
  "replace_first key c xs = Some ys \<Longrightarrow> find_key key k ys = (if k = key c then Some c else find_key key k xs)"
  by (induction xs arbitrary: ys) (auto split: if_splits)

interpretation place_store: keyed_store key "upsert_place key" "remove_key key" for key :: "'a \<Rightarrow> 'k"
proof unfold_locales
  fix xs and x :: 'a and k k' :: 'k
  assume ok: "keys_ok key xs"
  show "find_key key k (upsert_place key x xs) = (if k = key x then Some x else find_key key k xs)"
    by (auto simp: upsert_place_def replace_first_find split: option.splits)
  show "find_key key k (remove_key key k' xs) = (if k = k' then None else find_key key k xs)"
    by (rule find_remove_key)
  show "keys_ok key (upsert_place key x xs)"
    using ok by (auto simp: upsert_place_def keys_ok_def replace_first_None replace_first_keys split: option.splits)
  show "keys_ok key (remove_key key k xs)" by (rule keys_ok_remove_key [OF ok])
qed

definition collection_slot :: "CollectionDTO \<Rightarrow> string option option" where
  "collection_slot c = (if co_scope c = Public then None else Some (co_namespace c))"

lemma collections_arrived_put:
  "collection_rows (collections_arrived scope ns items s) =
     put_front collection_slot (slot_of scope ns) items (collection_rows s)"
  unfolding collections_arrived_def land_def purge_collections_def put_front_def
  by (cases scope; simp; intro filter_cong; auto simp: collection_slot_def intro: model_scope.exhaust)

subsection \<open>Properties\<close>

text \<open>
  The collections store is a map from ids that a page's local changes update at one id: an
  upsert replaces in place or adds, a removal deletes, both keeping ids unique; and a listing
  replaces exactly the scope and namespace it was asked for.
\<close>

theorem collections_store_refines:
  assumes "keys_ok co_id (collection_rows s)" "own_rows collection_slot (slot_of scope ns) items"
  shows "keys_ok co_id (collection_rows (upsertCollectionLocal c s))
    \<and> lookup co_id (collection_rows (upsertCollectionLocal c s)) = (lookup co_id (collection_rows s))(co_id c \<mapsto> c)
    \<and> lookup co_id (collection_rows (removeCollectionLocal i s)) = (lookup co_id (collection_rows s))(i := None)
    \<and> view collection_slot (collection_rows (collections_arrived scope ns items s)) =
        (view collection_slot (collection_rows s))(slot_of scope ns := items)"
  using place_store.upsert_refines_ok [OF assms(1), of c] place_store.remove_refines_ok [OF assms(1), of i]
    front_cache.merge_refines [OF assms(2), of "collection_rows s"]
  by (simp add: upsertCollectionLocal_def removeCollectionLocal_def collections_arrived_put)

definition sample_collection :: "string \<Rightarrow> CollectionDTO" where
  "sample_collection i = \<lparr>co_id = i, co_name = ''Qwen'', co_owner = ''qwen'', co_scope = Public, co_namespace = None,
     co_description = '''', co_iconColor = None, co_createdAt = '''', co_updatedAt = ''''\<rparr>"

theorem collections_store_refines_witness:
  "lookup co_id (collection_rows (upsertCollectionLocal (sample_collection ''b'')
     (upsertCollectionLocal (sample_collection ''a'') collections_init))) ''a'' = Some (sample_collection ''a'')"
  using collections_store_refines [where s = "upsertCollectionLocal (sample_collection ''a'') collections_init"
      and c = "sample_collection ''b''" and scope = Public and ns = None and items = "[]" and i = "''a''"]
  by (simp add: upsertCollectionLocal_def upsert_place_def collections_init_def keys_ok_def own_rows_def lookup_def
      sample_collection_def)

text \<open>
  A model uploaded to a storage target is recorded with the target's kind: the URI the target
  makes of any path spells its kind, \<open>uploadModelMeta\<close> in prototype mode stores that scheme, and
  two paths of one target never share a URI.
\<close>

theorem target_uris_spell_kind:
  "(case uploadModelMeta False send draw today (req\<lparr>um_targetUri := targetUri t path\<rparr>) s of
      (Inr m, s') \<Rightarrow> model_items s' = m # model_items s \<and>
        m_scheme m = (case st_kind t of StoreS3 \<Rightarrow> S3 | StoreOci \<Rightarrow> Oci | StorePvc \<Rightarrow> Pvc) \<and>
        publicSourceURL (m_uri m) (m_sourceUrl m) = '''' \<and> \<not> isPublicSource (m_uri m)
    | (Inl e, s') \<Rightarrow> False) \<and>
   (targetUri t path = targetUri t path') = (path = path')"
  by (cases "st_kind t")
    (simp_all add: targetUri_def uploadModelMeta_def addModel_def new_model_def Let_def parseUri_def
      uri_schemes_def publicSourceURL_def isPublicSource_def)

end
