(* ===== verification/Playground_Store.thy ===== *)
theory Playground_Store
  imports Event_Streams Store
begin

text \<open>
  \<open>frontend/src/data/playground.ts\<close> and the bindings of \<open>frontend/src/api/playground.ts\<close>: the LLM
  providers a playground chat can use, listed for one namespace at a time, and the replacement of
  the in-cluster ones by what the pages discover. The streams are in \<open>Event_Streams\<close>.
\<close>

subsection \<open>Rows\<close>

datatype provider_source = FromCluster | External
datatype provider_status = LlmReady | LlmProgressing | LlmFailed | LlmStopped

fun source_text :: "provider_source \<Rightarrow> string" where
  "source_text FromCluster = ''cluster''"
| "source_text External = ''external''"

fun llm_status_text :: "provider_status \<Rightarrow> string" where
  "llm_status_text LlmReady = ''Ready''"
| "llm_status_text LlmProgressing = ''Progressing''"
| "llm_status_text LlmFailed = ''Failed''"
| "llm_status_text LlmStopped = ''Stopped''"

record LLMProvider =
  pv_id :: string
  pv_name :: string
  pv_source :: provider_source
  pv_namespace :: "string option"
  pv_endpoint :: string
  pv_apiKey :: "string option"
  pv_model :: string
  pv_description :: "string option"
  pv_status :: provider_status

text \<open>
  The store, the namespace key the last listing was started for, and the listings in flight, each
  with the key it was started for.
\<close>

record providers =
  loadedKey :: "string option"
  provider_rows :: "LLMProvider list"
  listings :: "(string \<times> http_request) list"

definition ellipsis :: string where
  "ellipsis = [CHR 0xE2, CHR 0x80, CHR 0xA6]"

definition providersInitial :: "(nat \<Rightarrow> string) \<Rightarrow> LLMProvider list" where
  "providersInitial draw =
    [\<lparr>pv_id = uid (draw 0) ''llm'', pv_name = ''qwen3-5-7b (cluster)'', pv_source = FromCluster,
      pv_namespace = Some ''team-ml'', pv_endpoint = ''http://qwen3-5-7b.team-ml.svc.cluster.local/v1'',
      pv_apiKey = None, pv_model = ''Qwen/Qwen3.5-7B-Instruct'',
      pv_description = Some ''In-cluster vLLM deployment of Qwen3.5 7B'', pv_status = LlmReady\<rparr>,
     \<lparr>pv_id = uid (draw 1) ''llm'', pv_name = ''qwen-72b-lws (cluster)'', pv_source = FromCluster,
      pv_namespace = Some ''team-llm'', pv_endpoint = ''http://qwen-72b-lws.team-llm.svc.cluster.local/v1'',
      pv_apiKey = None, pv_model = ''Qwen/Qwen3.5-72B-Instruct'',
      pv_description = Some ''Multi-GPU Qwen3.5 72B served via LeaderWorkerSet'', pv_status = LlmProgressing\<rparr>,
     \<lparr>pv_id = uid (draw 2) ''llm'', pv_name = ''openai-gpt-4o'', pv_source = External,
      pv_namespace = None, pv_endpoint = ''https://api.openai.com/v1'', pv_apiKey = Some (''sk-'' @ ellipsis),
      pv_model = ''gpt-4o'', pv_description = Some ''External OpenAI GPT-4o'', pv_status = LlmReady\<rparr>]"

definition providers_init :: "(nat \<Rightarrow> string) \<Rightarrow> providers" where
  "providers_init draw = \<lparr>loadedKey = None, provider_rows = providersInitial draw, listings = []\<rparr>"

subsection \<open>Requests\<close>

definition namespace_query :: "string option \<Rightarrow> string" where
  "namespace_query ns =
     (if truthy_str ns then ''?'' @ search_params [(''namespace'', nullish ns '''')] else '''')"

definition listProviders :: "string option \<Rightarrow> http_request" where
  "listProviders ns = get_request (''/api/v1/playground/providers'' @ namespace_query ns)"

text \<open>A provider without its id.\<close>

definition provider_json :: "LLMProvider \<Rightarrow> json" where
  "provider_json p = jobj
    [(''name'', Some (JStr (pv_name p))), (''source'', Some (JStr (source_text (pv_source p)))),
     (''namespace'', map_option JStr (pv_namespace p)), (''endpoint'', Some (JStr (pv_endpoint p))),
     (''apiKey'', map_option JStr (pv_apiKey p)), (''model'', Some (JStr (pv_model p))),
     (''description'', map_option JStr (pv_description p)),
     (''status'', Some (JStr (llm_status_text (pv_status p))))]"

definition createProvider :: "LLMProvider \<Rightarrow> http_request" where
  "createProvider p = json_request POST ''/api/v1/playground/providers'' (provider_json p)"

definition provider_path :: "string \<Rightarrow> string" where
  "provider_path i = ''/api/v1/playground/providers/'' @ encodeURIComponent i"

definition patchProvider :: "string \<Rightarrow> json \<Rightarrow> http_request" where
  "patchProvider i patch = json_request PATCH (provider_path i) patch"

definition deleteProvider :: "string \<Rightarrow> http_request" where
  "deleteProvider i = bare_request DELETE (provider_path i)"

definition session_path :: "string \<Rightarrow> string" where
  "session_path i = ''/api/v1/playground/agent/sessions/'' @ encodeURIComponent i"

definition listAgentSessions :: "string option \<Rightarrow> http_request" where
  "listAgentSessions ns = get_request (''/api/v1/playground/agent/sessions'' @ namespace_query ns)"

definition createAgentSession ::
  "string option \<Rightarrow> string \<Rightarrow> string option \<Rightarrow> string list option \<Rightarrow> http_request" where
  "createAgentSession ns provider title skills =
     json_request POST ''/api/v1/playground/agent/sessions'' (jobj
       [(''namespace'', map_option JStr ns), (''providerId'', Some (JStr provider)),
        (''title'', map_option JStr title), (''skills'', map_option (\<lambda>xs. JArr (map JStr xs)) skills)])"

definition getAgentSession :: "string \<Rightarrow> http_request" where
  "getAgentSession i = get_request (session_path i)"

definition deleteAgentSession :: "string \<Rightarrow> http_request" where
  "deleteAgentSession i = bare_request DELETE (session_path i)"

text \<open>The bodies the two streams post, and their paths.\<close>

datatype message_role = MSystem | MUser | MAssistant | MTool

fun message_role_text :: "message_role \<Rightarrow> string" where
  "message_role_text MSystem = ''system''"
| "message_role_text MUser = ''user''"
| "message_role_text MAssistant = ''assistant''"
| "message_role_text MTool = ''tool''"

record PlaygroundMessage =
  msg_role :: message_role
  msg_content :: string

definition chat_request ::
  "string \<Rightarrow> PlaygroundMessage list \<Rightarrow> json option \<Rightarrow> int option \<Rightarrow> http_request" where
  "chat_request provider msgs temperature maxTokens =
     json_request POST ''/api/v1/playground/chat/stream'' (jobj
       [(''providerId'', Some (JStr provider)),
        (''messages'', Some (JArr (map (\<lambda>m. JObj
           [(''role'', JStr (message_role_text (msg_role m))), (''content'', JStr (msg_content m))]) msgs))),
        (''temperature'', temperature), (''maxTokens'', map_option jint maxTokens)])"

definition agent_request :: "string \<Rightarrow> string \<Rightarrow> string option \<Rightarrow> http_request" where
  "agent_request i message ns =
     json_request POST (session_path i @ ''/run'' @ namespace_query ns) (JObj [(''message'', JStr message)])"

subsection \<open>Loading\<close>

definition ensureProvidersLoaded :: "bool \<Rightarrow> string option \<Rightarrow> providers \<Rightarrow> providers" where
  "ensureProvidersLoaded api ns s =
     (let key = nullish ns ''''
      in if \<not> api then s
         else if loadedKey s = Some key then s
         else s\<lparr>loadedKey := Some key, listings := listings s @ [(key, listProviders ns)]\<rparr>)"

text \<open>The answer to the \<open>n\<close>-th listing in flight; answers may overtake each other.\<close>

definition drop_nth :: "nat \<Rightarrow> 'a list \<Rightarrow> 'a list" where
  "drop_nth n xs = take n xs @ drop (Suc n) xs"

definition providers_answered :: "nat \<Rightarrow> LLMProvider list promise \<Rightarrow> providers \<Rightarrow> providers" where
  "providers_answered n answer s =
     (let s' = s\<lparr>listings := drop_nth n (listings s)\<rparr>
      in case answer of
           Inl e \<Rightarrow> s'\<lparr>loadedKey := None\<rparr>
         | Inr ps \<Rightarrow> s'\<lparr>provider_rows := ps\<rparr>)"

definition reloadProviders :: "bool \<Rightarrow> string option \<Rightarrow> providers \<Rightarrow> providers" where
  "reloadProviders api ns s = ensureProvidersLoaded api ns (s\<lparr>loadedKey := None\<rparr>)"

subsection \<open>Changes\<close>

definition addProvider ::
  "bool \<Rightarrow> LLMProvider backend \<Rightarrow> string \<Rightarrow> LLMProvider \<Rightarrow> providers \<Rightarrow> unit promise \<times> providers" where
  "addProvider api send draw req s =
     (if api then
        (case send (createProvider req) of
           Inl e \<Rightarrow> (Inl e, s)
         | Inr created \<Rightarrow> (Inr (), s\<lparr>provider_rows :=
             created # filter (\<lambda>p. pv_id p \<noteq> pv_id created) (provider_rows s)\<rparr>))
      else (Inr (), s\<lparr>provider_rows := req\<lparr>pv_id := uid draw ''llm''\<rparr> # provider_rows s\<rparr>))"

definition removeProvider ::
  "bool \<Rightarrow> 'r backend \<Rightarrow> string \<Rightarrow> providers \<Rightarrow> unit promise \<times> providers" where
  "removeProvider api send i s =
     (let cleared = s\<lparr>provider_rows := drop_where (\<lambda>p. pv_id p = i) (provider_rows s)\<rparr>
      in if api then (case send (deleteProvider i) of Inl e \<Rightarrow> (Inl e, s) | Inr _ \<Rightarrow> (Inr (), cleared))
         else (Inr (), cleared))"

definition cluster_provider :: "string option \<Rightarrow> LLMProvider \<Rightarrow> bool" where
  "cluster_provider ns p \<longleftrightarrow> pv_source p = FromCluster \<and> (\<not> truthy_str ns \<or> pv_namespace p = ns)"

text \<open>
  \<open>Promise.all\<close>: all results, or the rejection; of several, the first in the list stands for the
  one that comes first. Every request is sent either way.
\<close>

fun promise_all :: "'r promise list \<Rightarrow> 'r list promise" where
  "promise_all [] = Inr []"
| "promise_all (Inl e # ps) = Inl e"
| "promise_all (Inr r # ps) = map_sum id (\<lambda>rs. r # rs) (promise_all ps)"

text \<open>The requests sent, the promise and the store: the deletions' failures are swallowed.\<close>

definition replaceClusterProviders ::
  "bool \<Rightarrow> LLMProvider backend \<Rightarrow> (nat \<Rightarrow> string) \<Rightarrow> LLMProvider list \<Rightarrow> string option \<Rightarrow> providers \<Rightarrow>
     http_request list \<times> unit promise \<times> providers" where
  "replaceClusterProviders api send draw new ns s =
     (let kept = filter (\<lambda>p. \<not> cluster_provider ns p) (provider_rows s);
          current = filter (cluster_provider ns) (provider_rows s)
      in if api then
           (map (\<lambda>p. deleteProvider (pv_id p)) current @ map createProvider new,
            case promise_all (map (\<lambda>p. send (createProvider p)) new) of
              Inl e \<Rightarrow> (Inl e, s)
            | Inr created \<Rightarrow> (Inr (), s\<lparr>provider_rows := created @ kept\<rparr>))
         else ([], Inr (), s\<lparr>provider_rows :=
           map (\<lambda>(i, p). p\<lparr>pv_id := uid (draw i) ''llm''\<rparr>) (zip [0..<length new] new) @ kept\<rparr>))"

subsection \<open>Properties\<close>

lemma promise_all_Inr: "promise_all (map (\<lambda>x. Inr (f x)) xs) = Inr (map f xs)"
  by (induction xs) simp_all

lemma promise_all_Inl: "Inl e \<in> set ps \<Longrightarrow> \<exists>e'. promise_all ps = Inl e'"
  by (induction ps rule: promise_all.induct) auto

lemma promise_all_results: "promise_all ps = Inr rs \<Longrightarrow> ps = map Inr rs"
proof (induction ps arbitrary: rs rule: promise_all.induct)
  case (3 r ps)
  then show ?case by (cases "promise_all ps") auto
qed simp_all

text \<open>
  Replacing the in-cluster providers of a namespace touches nothing else: every provider that is
  external or of another namespace stays, in order; when all creations succeed the in-cluster ones
  are exactly those the backend created, one for each asked for. When one creation fails the page's
  list is left as it was, although the deletion of every current one has been sent.
\<close>

theorem replace_cluster_providers_exact:
  assumes "\<forall>p \<in> set new. \<forall>c. send (createProvider p) = Inr c \<longrightarrow> cluster_provider ns c"
    and "replaceClusterProviders True send draw new ns s = (reqs, result, s')"
  shows "filter (\<lambda>p. \<not> cluster_provider ns p) (provider_rows s') =
      filter (\<lambda>p. \<not> cluster_provider ns p) (provider_rows s) \<and>
    (case result of
       Inr _ \<Rightarrow> map (\<lambda>p. send (createProvider p)) new = map Inr (filter (cluster_provider ns) (provider_rows s'))
     | Inl e \<Rightarrow> s' = s \<and> (\<exists>p \<in> set new. \<exists>e'. send (createProvider p) = Inl e')) \<and>
    filter (\<lambda>r. rq_method r = DELETE) reqs =
      map (\<lambda>p. deleteProvider (pv_id p)) (filter (cluster_provider ns) (provider_rows s))"
proof -
  have reqs: "reqs = map (\<lambda>p. deleteProvider (pv_id p)) (filter (cluster_provider ns) (provider_rows s)) @
      map createProvider new"
    using assms(2) by (simp add: replaceClusterProviders_def Let_def)
  have deletes: "filter (\<lambda>r. rq_method r = DELETE) reqs =
      map (\<lambda>p. deleteProvider (pv_id p)) (filter (cluster_provider ns) (provider_rows s))"
    by (simp add: reqs deleteProvider_def createProvider_def request_defs filter_map comp_def)
  show ?thesis
  proof (cases "promise_all (map (\<lambda>p. send (createProvider p)) new)")
    case (Inl e)
    have hit: "\<exists>p \<in> set new. \<exists>e'. send (createProvider p) = Inl e'"
    proof (rule ccontr)
      assume "\<not> ?thesis"
      then have "\<forall>p \<in> set new. send (createProvider p) = Inr (projr (send (createProvider p)))"
        by (metis sum.collapse(2) isl_def)
      then have "map (\<lambda>p. send (createProvider p)) new = map (\<lambda>p. Inr (projr (send (createProvider p)))) new"
        by simp
      with Inl promise_all_Inr [of "\<lambda>p. projr (send (createProvider p))" new] show False by simp
    qed
    moreover have "result = Inl e" "s' = s"
      using Inl assms(2) by (simp_all add: replaceClusterProviders_def Let_def)
    ultimately show ?thesis using deletes by simp
  next
    case (Inr created)
    have made: "map (\<lambda>p. send (createProvider p)) new = map Inr created"
      by (rule promise_all_results [OF Inr])
    have "\<forall>c \<in> set created. cluster_provider ns c"
    proof
      fix c assume "c \<in> set created"
      then have "Inr c \<in> set (map (\<lambda>p. send (createProvider p)) new)" by (simp add: made)
      with assms(1) show "cluster_provider ns c" by auto
    qed
    with Inr assms(2) made deletes show ?thesis
      by (auto simp: replaceClusterProviders_def Let_def filter_id_conv)
  qed
qed

theorem replace_cluster_providers_exact_witness:
  "\<exists>reqs s'. replaceClusterProviders True (\<lambda>_. Inr (hd (providersInitial (\<lambda>_. ''x'')))) (\<lambda>_. ''y'')
      [hd (providersInitial (\<lambda>_. ''z''))] (Some ''team-ml'') (providers_init (\<lambda>_. ''x'')) = (reqs, Inr (), s') \<and>
    length (filter (\<lambda>r. rq_method r = DELETE) reqs) = 1"
  using replace_cluster_providers_exact [where send = "\<lambda>_. Inr (hd (providersInitial (\<lambda>_. ''x'')))" and
      new = "[hd (providersInitial (\<lambda>_. ''z''))]" and ns = "Some ''team-ml''" and
      s = "providers_init (\<lambda>_. ''x'')" and draw = "\<lambda>_. ''y''"]
  by (simp add: replaceClusterProviders_def Let_def cluster_provider_def providersInitial_def providers_init_def)

text \<open>
  Switching namespaces with the first listing still in flight: when its answer comes last, the page
  of the second namespace shows the providers of the first, and asking again sends nothing.
\<close>

theorem stale_listing_wins:
  assumes "loadedKey s = None" "listings s = []" "ns1 \<noteq> ns2"
    and "asked = ensureProvidersLoaded True (Some ns2) (ensureProvidersLoaded True (Some ns1) s)"
  shows "map fst (listings asked) = [ns1, ns2] \<and>
    (let s' = providers_answered 0 (Inr old) (providers_answered 1 (Inr current) asked)
     in provider_rows s' = old \<and> loadedKey s' = Some ns2 \<and> ensureProvidersLoaded True (Some ns2) s' = s')"
  using assms(1-3)
  by (simp add: assms(4) ensureProvidersLoaded_def providers_answered_def drop_nth_def Let_def)
end
