(* ===== verification/Local_Model_Cache.thy ===== *)
theory Local_Model_Cache
  imports Api_Client Event_Loop
begin

text \<open>
  \<open>frontend/src/data/localModelCache.ts\<close> and \<open>frontend/src/api/localModelCache.ts\<close>: the KServe local
  model cache, loaded by four requests at once behind one shared promise, and the two manifest
  builders with their scalar quoting.
\<close>

subsection \<open>Rows and state\<close>

record LocalModelStatus =
  lms_installed :: bool
  lms_hostPath :: "string option"
  lms_namespace :: "string option"
  lms_name :: "string option"

record LocalModelOptions =
  lmo_nodeLabelKeys :: "string list"
  lmo_storageClasses :: "string list"

record LocalModelNodeGroup =
  ng_id :: string
  ng_name :: string
  ng_namespace :: string
  ng_createdAt :: string
  ng_labels :: "string js_map option"
  ng_age :: string
  ng_storageLimit :: string
  ng_hostPath :: string
  ng_storageClassName :: string
  ng_used :: string
  ng_available :: string
  ng_selectorKey :: string
  ng_selectorOp :: string
  ng_selectorValues :: "string list option"

record LocalModelCache =
  lc_id :: string
  lc_name :: string
  lc_namespace :: string
  lc_createdAt :: string
  lc_labels :: "string js_map option"
  lc_age :: string
  lc_sourceModelUri :: string
  lc_modelSize :: string
  lc_nodeGroups :: "string list option"
  lc_nodeStatus :: "(string \<times> string) list option"
  lc_copiesAvailable :: int
  lc_copiesTotal :: int
  lc_inferenceServices :: "(string \<times> string) list option"

text \<open>\<open>loading\<close> is the shared promise, there or not; \<open>batches\<close> counts the loads ever started.\<close>

record local_model =
  node_groups :: "LocalModelNodeGroup list"
  model_caches :: "LocalModelCache list"
  lm_status :: LocalModelStatus
  lm_options :: LocalModelOptions
  lm_loaded :: bool
  lm_loading :: bool
  batches :: "http_request list list"

definition not_installed :: LocalModelStatus where
  "not_installed = \<lparr>lms_installed = False, lms_hostPath = None, lms_namespace = None, lms_name = None\<rparr>"

definition no_options :: LocalModelOptions where
  "no_options = \<lparr>lmo_nodeLabelKeys = [], lmo_storageClasses = []\<rparr>"

definition local_model_init :: local_model where
  "local_model_init =
     \<lparr>node_groups = [], model_caches = [], lm_status = not_installed, lm_options = no_options,
      lm_loaded = False, lm_loading = False, batches = []\<rparr>"

subsection \<open>Loading\<close>

definition fetchLocalModelStatus :: http_request where
  "fetchLocalModelStatus = get_request ''/api/v1/inference/localmodel/status''"

definition fetchLocalModelOptions :: http_request where
  "fetchLocalModelOptions = get_request ''/api/v1/inference/localmodel/options''"

definition load_batch :: "http_request list" where
  "load_batch = [fetchLocalModelStatus, listCluster Localmodelnodegroups, listCluster Localmodelcaches,
     fetchLocalModelOptions]"

definition ensureLocalModelLoaded :: "bool \<Rightarrow> local_model \<Rightarrow> local_model" where
  "ensureLocalModelLoaded api s =
     (if \<not> api then s
      else if lm_loaded s \<and> \<not> lm_loading s then s
      else if lm_loading s then s
      else s\<lparr>lm_loading := True, batches := batches s @ [load_batch]\<rparr>)"

definition or_else :: "'a \<Rightarrow> 'a promise \<Rightarrow> 'a" where
  "or_else d r = (case r of Inl e \<Rightarrow> d | Inr x \<Rightarrow> x)"

text \<open>All four have settled, each replaced by its default when it rejected.\<close>

definition local_model_arrived ::
  "LocalModelStatus promise \<Rightarrow> LocalModelNodeGroup list promise \<Rightarrow> LocalModelCache list promise \<Rightarrow>
     LocalModelOptions promise \<Rightarrow> local_model \<Rightarrow> local_model" where
  "local_model_arrived st gs cs os s =
     s\<lparr>lm_status := or_else not_installed st, node_groups := or_else [] gs, model_caches := or_else [] cs,
       lm_options := or_else no_options os, lm_loaded := True, lm_loading := False\<rparr>"

definition reloadLocalModel :: "bool \<Rightarrow> local_model \<Rightarrow> local_model" where
  "reloadLocalModel api s = ensureLocalModelLoaded api (s\<lparr>lm_loaded := False\<rparr>)"

definition deleteLocalModelNodeGroup ::
  "bool \<Rightarrow> 'r backend \<Rightarrow> string \<Rightarrow> local_model \<Rightarrow> unit promise \<times> local_model" where
  "deleteLocalModelNodeGroup api send name s =
     (let cleared = s\<lparr>node_groups := drop_where (\<lambda>g. ng_name g = name) (node_groups s)\<rparr>
      in if api then (case send (deleteCluster Localmodelnodegroups name) of
             Inl e \<Rightarrow> (Inl e, s) | Inr _ \<Rightarrow> (Inr (), cleared))
         else (Inr (), cleared))"

definition deleteLocalModelCache ::
  "bool \<Rightarrow> 'r backend \<Rightarrow> string \<Rightarrow> local_model \<Rightarrow> unit promise \<times> local_model" where
  "deleteLocalModelCache api send name s =
     (let cleared = s\<lparr>model_caches := drop_where (\<lambda>c. lc_name c = name) (model_caches s)\<rparr>
      in if api then (case send (deleteCluster Localmodelcaches name) of
             Inl e \<Rightarrow> (Inl e, s) | Inr _ \<Rightarrow> (Inr (), cleared))
         else (Inr (), cleared))"

subsection \<open>Manifests\<close>

text \<open>\<open>/\s/\<close>: a white space character somewhere.\<close>

fun has_space :: "string \<Rightarrow> bool" where
  "has_space [] = False"
| "has_space (c # s) = (ws_width (c # s) \<noteq> 0 \<or> has_space s)"

definition yaml_specials :: string where
  "yaml_specials = '':#{}@[]&*!,?>|%'' @ [CHR 0x60, CHR 0x27, CHR 0x22]"

definition needs_quotes :: "string \<Rightarrow> bool" where
  "needs_quotes s \<longleftrightarrow> (\<exists>c \<in> set s. c \<in> set yaml_specials) \<or> has_space s \<or> startsWith s ''-''"

definition yaml_escape :: "char \<Rightarrow> string" where
  "yaml_escape c =
     (if c = CHR 0x5C then [CHR 0x5C, CHR 0x5C] else if c = CHR 0x22 then [CHR 0x5C, CHR 0x22] else [c])"

definition yamlQuote :: "string \<Rightarrow> string" where
  "yamlQuote s =
     (if s = '''' then [CHR 0x22, CHR 0x22]
      else if needs_quotes s then CHR 0x22 # concat (map yaml_escape s) @ [CHR 0x22]
      else s)"

record NodeGroupFormPayload =
  nf_name :: string
  nf_storageLimit :: string
  nf_capacity :: string
  nf_storageClassName :: string
  nf_localPath :: string
  nf_selectorKey :: string
  nf_selectorValues :: "string list"

record CacheFormPayload =
  cf_name :: string
  cf_sourceModelUri :: string
  cf_modelSize :: string
  cf_nodeGroups :: "string list"

definition yaml_list :: "string \<Rightarrow> string list \<Rightarrow> string" where
  "yaml_list indent vs =
     (if vs \<noteq> [] then join nl (map (\<lambda>v. indent @ ''- '' @ yamlQuote v) vs)
      else indent @ ''- '' @ [CHR 0x22, CHR 0x22])"

definition buildNodeGroupYaml :: "NodeGroupFormPayload \<Rightarrow> string" where
  "buildNodeGroupYaml p =
     (let capacity = or_str (nf_capacity p) (nf_storageLimit p)
      in ''apiVersion: serving.kserve.io/v1alpha1
kind: LocalModelNodeGroup
metadata:
  name: '' @ yamlQuote (nf_name p) @ ''
spec:
  storageLimit: '' @ yamlQuote (nf_storageLimit p) @ ''
  persistentVolumeClaimSpec:
    accessModes:
      - ReadWriteOnce
    resources:
      requests:
        storage: '' @ yamlQuote capacity @ ''
    storageClassName: '' @ yamlQuote (nf_storageClassName p) @ ''
    volumeMode: Filesystem
  persistentVolumeSpec:
    accessModes:
      - ReadWriteOnce
    volumeMode: Filesystem
    capacity:
      storage: '' @ yamlQuote capacity @ ''
    local:
      path: '' @ yamlQuote (nf_localPath p) @ ''
    storageClassName: '' @ yamlQuote (nf_storageClassName p) @ ''
    nodeAffinity:
      required:
        nodeSelectorTerms:
          - matchExpressions:
              - key: '' @ yamlQuote (or_str (nf_selectorKey p) ''kubernetes.io/hostname'') @ ''
                operator: In
                values:
'' @ yaml_list (replicate 18 CHR '' '') (nf_selectorValues p) @ nl)"

definition buildCacheYaml :: "CacheFormPayload \<Rightarrow> string" where
  "buildCacheYaml p = ''apiVersion: serving.kserve.io/v1alpha1
kind: LocalModelCache
metadata:
  name: '' @ yamlQuote (cf_name p) @ ''
spec:
  sourceModelUri: '' @ yamlQuote (cf_sourceModelUri p) @ ''
  modelSize: '' @ yamlQuote (cf_modelSize p) @ ''
  nodeGroups:
'' @ yaml_list (replicate 4 CHR '' '') (cf_nodeGroups p) @ nl"

subsection \<open>Reading a manifest\<close>

text \<open>
  A reader for the scalars these manifests hold: a double-quoted one with its two escapes, or a
  plain one without indicator characters. \<open>field_at\<close> is the value of the first line with a key,
  \<open>items_after\<close> the list items that follow a line.
\<close>

fun unquote :: "string \<Rightarrow> string option" where
  "unquote [] = None"
| "unquote (c # s) =
     (if c = CHR 0x22 then (if s = [] then Some [] else None)
      else if c = CHR 0x5C then
        (case s of d # t \<Rightarrow> if d = CHR 0x5C \<or> d = CHR 0x22 then map_option ((#) d) (unquote t) else None
         | [] \<Rightarrow> None)
      else map_option ((#) c) (unquote s))"

definition read_scalar :: "string \<Rightarrow> string option" where
  "read_scalar s =
     (case s of [] \<Rightarrow> None
      | c # t \<Rightarrow> if c = CHR 0x22 then unquote t else if needs_quotes s then None else Some s)"

lemma unquote_escaped: "unquote (concat (map yaml_escape s) @ [CHR 0x22]) = Some s"
  by (induction s) (auto simp: yaml_escape_def)

lemma read_yamlQuote: "read_scalar (yamlQuote s) = Some s"
proof (cases s)
  case (Cons c t)
  have "c \<noteq> CHR 0x22" if "\<not> needs_quotes s"
    using that by (auto simp: Cons needs_quotes_def yaml_specials_def)
  then show ?thesis
    using unquote_escaped [of s] by (auto simp: yamlQuote_def read_scalar_def Cons)
qed (simp add: yamlQuote_def read_scalar_def)

abbreviation line_end :: char where "line_end \<equiv> CHR 0x0A"

definition unlines :: "string list \<Rightarrow> string" where
  "unlines ws = concat (map (\<lambda>w. w @ [line_end]) ws)"

lemma unlines_simps [simp]: "unlines [] = []" "unlines (w # ws) = w @ line_end # unlines ws"
  "unlines (ws @ ws') = unlines ws @ unlines ws'"
  by (simp_all add: unlines_def)

lemma split_unlines: "\<forall>w \<in> set ws. line_end \<notin> set w \<Longrightarrow> split_on line_end (unlines ws) = ws @ ['''']"
  by (induction ws) (simp_all add: split_on_append split_on_free)

lemma join_unlines: "ws \<noteq> [] \<Longrightarrow> join nl ws @ nl = unlines ws"
proof (induction ws)
  case (Cons w ws)
  then show ?case
    by (cases ws) (simp_all add: join_Cons nl_def)
qed simp

lemma yamlQuote_line: "line_end \<notin> set s \<Longrightarrow> line_end \<notin> set (yamlQuote s)"
  by (auto simp: yamlQuote_def yaml_escape_def split: if_splits)

definition lead :: "string \<Rightarrow> string" where
  "lead l = dropWhile (\<lambda>c. c = CHR '' '' \<or> c = CHR ''-'') l"

definition field_at :: "string \<Rightarrow> string \<Rightarrow> string option" where
  "field_at k text =
     (case find (\<lambda>l. startsWith (lead l) (k @ '': '')) (split_on line_end text) of
        Some l \<Rightarrow> read_scalar (drop (length k + 2) (lead l))
      | None \<Rightarrow> None)"

definition items_after :: "string \<Rightarrow> string \<Rightarrow> string option list" where
  "items_after k text =
     map (\<lambda>l. read_scalar (drop 2 (dropWhile (\<lambda>c. c = CHR '' '') l)))
       (butlast (tl (dropWhile (\<lambda>l. lead l \<noteq> k @ '':'') (split_on line_end text))))"

definition item_lines :: "string \<Rightarrow> string list \<Rightarrow> string list" where
  "item_lines indent vs = map (\<lambda>v. indent @ ''- '' @ yamlQuote v) (if vs = [] then [''''] else vs)"

lemma yaml_list_lines: "yaml_list indent vs @ nl = unlines (item_lines indent vs)"
  using join_unlines [of "item_lines indent vs"] by (auto simp: yaml_list_def item_lines_def yamlQuote_def)

lemma item_lines_no_end:
  assumes "\<forall>v \<in> set vs. line_end \<notin> set v" "l \<in> set (item_lines (replicate n CHR '' '') vs)"
  shows "line_end \<notin> set l"
proof -
  obtain v where v: "v \<in> set (if vs = [] then [''''] else vs)" "l = replicate n CHR '' '' @ ''- '' @ yamlQuote v"
    using assms(2) by (auto simp: item_lines_def)
  then have "line_end \<notin> set v" using assms(1) by (auto split: if_splits)
  then show ?thesis using yamlQuote_line [of v] by (auto simp: v(2))
qed

lemma read_items:
  "map (\<lambda>l. read_scalar (drop 2 (dropWhile (\<lambda>c. c = CHR '' '') l))) (item_lines (replicate n CHR '' '') vs) =
     map Some (if vs = [] then [''''] else vs)"
proof -
  have "dropWhile (\<lambda>c. c = CHR '' '') (replicate n CHR '' '' @ w) = dropWhile (\<lambda>c. c = CHR '' '') w" for w
    by (rule dropWhile_append2) simp
  then show ?thesis by (simp add: item_lines_def read_yamlQuote)
qed

definition cache_lns :: "CacheFormPayload \<Rightarrow> string list" where
  "cache_lns p =
    ([''apiVersion: serving.kserve.io/v1alpha1'', ''kind: LocalModelCache'', ''metadata:'',
      ''  name: '' @ yamlQuote (cf_name p), ''spec:'', ''  sourceModelUri: '' @ yamlQuote (cf_sourceModelUri p),
      ''  modelSize: '' @ yamlQuote (cf_modelSize p), ''  nodeGroups:''] @
     item_lines (replicate 4 CHR '' '') (cf_nodeGroups p))"

lemma cache_lines: "buildCacheYaml p = unlines (cache_lns p)"
  unfolding cache_lns_def unlines_simps yaml_list_lines [symmetric] buildCacheYaml_def by simp

definition node_group_lns :: "NodeGroupFormPayload \<Rightarrow> string list" where
  "node_group_lns p =
    ([''apiVersion: serving.kserve.io/v1alpha1'', ''kind: LocalModelNodeGroup'', ''metadata:'',
      ''  name: '' @ yamlQuote (nf_name p), ''spec:'', ''  storageLimit: '' @ yamlQuote (nf_storageLimit p),
      ''  persistentVolumeClaimSpec:'', ''    accessModes:'', ''      - ReadWriteOnce'', ''    resources:'',
      ''      requests:'', ''        storage: '' @ yamlQuote (or_str (nf_capacity p) (nf_storageLimit p)),
      ''    storageClassName: '' @ yamlQuote (nf_storageClassName p), ''    volumeMode: Filesystem'',
      ''  persistentVolumeSpec:'', ''    accessModes:'', ''      - ReadWriteOnce'', ''    volumeMode: Filesystem'',
      ''    capacity:'', ''      storage: '' @ yamlQuote (or_str (nf_capacity p) (nf_storageLimit p)), ''    local:'',
      ''      path: '' @ yamlQuote (nf_localPath p), ''    storageClassName: '' @ yamlQuote (nf_storageClassName p),
      ''    nodeAffinity:'', ''      required:'', ''        nodeSelectorTerms:'', ''          - matchExpressions:'',
      ''              - key: '' @ yamlQuote (or_str (nf_selectorKey p) ''kubernetes.io/hostname''),
      ''                operator: In'', ''                values:''] @
     item_lines (replicate 18 CHR '' '') (nf_selectorValues p))"

lemma node_group_lines: "buildNodeGroupYaml p = unlines (node_group_lns p)"
  unfolding node_group_lns_def unlines_simps yaml_list_lines [symmetric] buildNodeGroupYaml_def Let_def by simp

subsection \<open>Properties\<close>

text \<open>
  What is typed into the forms is what the manifests say, whatever characters it holds short of a
  line feed: the scalar a reader finds under each key is the field it was built from, with the
  capacity and the selector key defaulting as the forms promise, and the lists hold the chosen
  values in order; no field can add a line of its own.
\<close>

theorem cache_manifests_read_back:
  assumes "\<forall>w \<in> set ([nf_name p, nf_storageLimit p, nf_capacity p, nf_storageClassName p, nf_localPath p,
      nf_selectorKey p, cf_name q, cf_sourceModelUri q, cf_modelSize q] @ nf_selectorValues p @ cf_nodeGroups q).
      line_end \<notin> set w"
  shows "field_at ''name'' (buildNodeGroupYaml p) = Some (nf_name p)
    \<and> field_at ''storageLimit'' (buildNodeGroupYaml p) = Some (nf_storageLimit p)
    \<and> field_at ''storage'' (buildNodeGroupYaml p) = Some (or_str (nf_capacity p) (nf_storageLimit p))
    \<and> field_at ''storageClassName'' (buildNodeGroupYaml p) = Some (nf_storageClassName p)
    \<and> field_at ''path'' (buildNodeGroupYaml p) = Some (nf_localPath p)
    \<and> field_at ''key'' (buildNodeGroupYaml p) = Some (or_str (nf_selectorKey p) ''kubernetes.io/hostname'')
    \<and> items_after ''values'' (buildNodeGroupYaml p) =
        map Some (if nf_selectorValues p = [] then [''''] else nf_selectorValues p)
    \<and> field_at ''name'' (buildCacheYaml q) = Some (cf_name q)
    \<and> field_at ''sourceModelUri'' (buildCacheYaml q) = Some (cf_sourceModelUri q)
    \<and> field_at ''modelSize'' (buildCacheYaml q) = Some (cf_modelSize q)
    \<and> items_after ''nodeGroups'' (buildCacheYaml q) =
        map Some (if cf_nodeGroups q = [] then [''''] else cf_nodeGroups q)"
proof -
  have or_line: "line_end \<notin> set (or_str a b)" if "line_end \<notin> set a" "line_end \<notin> set b" for a b
    using that by (simp add: or_str_def)
  have c: "split_on line_end (buildCacheYaml q) = cache_lns q @ ['''']"
    unfolding cache_lines
    by (rule split_unlines)
      (use assms item_lines_no_end [of "cf_nodeGroups q" _ 4] in \<open>auto simp: cache_lns_def yamlQuote_line\<close>)
  have n: "split_on line_end (buildNodeGroupYaml p) = node_group_lns p @ ['''']"
    unfolding node_group_lines
    by (rule split_unlines)
      (use assms or_line item_lines_no_end [of "nf_selectorValues p" _ 18] in
        \<open>auto simp: node_group_lns_def yamlQuote_line\<close>)
  note fields = field_at_def lead_def read_yamlQuote
  show ?thesis
    by (intro conjI)
      (simp_all add: fields n c node_group_lns_def cache_lns_def items_after_def read_items butlast_append)
qed

theorem cache_manifests_read_back_witness:
  "field_at ''sourceModelUri'' (buildCacheYaml
     \<lparr>cf_name = ''qwen'', cf_sourceModelUri = ''hf://Qwen/Qwen3: \"x\"'', cf_modelSize = ''16Gi'', cf_nodeGroups = []\<rparr>)
   = Some ''hf://Qwen/Qwen3: \"x\"''"
  using cache_manifests_read_back [where p = "\<lparr>nf_name = ''g'', nf_storageLimit = ''1Gi'', nf_capacity = '''',
      nf_storageClassName = ''local'', nf_localPath = ''/mnt'', nf_selectorKey = '''', nf_selectorValues = []\<rparr>" and
      q = "\<lparr>cf_name = ''qwen'', cf_sourceModelUri = ''hf://Qwen/Qwen3: \"x\"'', cf_modelSize = ''16Gi'', cf_nodeGroups = []\<rparr>"]
  by simp

text \<open>A reload asked for while a load is running joins that load: nothing new is sent for it.\<close>

lemma reload_joins_running_load:
  assumes "lm_loading s"
  shows "batches (reloadLocalModel True s) = batches s \<and>
    batches (ensureLocalModelLoaded True (local_model_arrived st gs cs os (reloadLocalModel True s))) = batches s"
  using assms by (simp add: reloadLocalModel_def ensureLocalModelLoaded_def local_model_arrived_def)

text \<open>A plain scalar YAML reads as a boolean or a number is left plain.\<close>

lemma boolean_left_plain: "yamlQuote ''true'' = ''true''" "yamlQuote ''10'' = ''10''"
  by (simp_all add: yamlQuote_def needs_quotes_def yaml_specials_def)

end
