(* ===== verification/Js_Number.thy ===== *)
theory Js_Number
  imports Js_Json
begin

text \<open>
  \<open>Number(text)\<close>, as the pages and the storage client apply it to form fields, headers and answers:
  white space is trimmed, the empty text is 0, then a decimal literal with an optional sign,
  \<open>Infinity\<close>, or a \<open>0x\<close>, \<open>0o\<close>, \<open>0b\<close> literal; anything else is \<open>NaN\<close>. A finite number is the exact
  decimal \<open>m * 10 ^ e\<close> of its literal (not rounded to a double); what lies beyond the largest
  double is \<open>Infinity\<close>.
\<close>

datatype js_num = NaN | Infinite bool | Finite int int

definition number_sign :: "string \<Rightarrow> bool \<times> string" where
  "number_sign s =
     (case s of [] \<Rightarrow> (False, [])
      | c # t \<Rightarrow> if c = CHR ''-'' then (True, t) else if c = CHR ''+'' then (False, t) else (False, s))"

definition number_exp :: "string \<Rightarrow> int option" where
  "number_exp s =
     (case s of [] \<Rightarrow> Some 0
      | c # t \<Rightarrow>
          if c = CHR ''e'' \<or> c = CHR ''E'' then
            (let (neg, ds) = number_sign t
             in if ds = [] \<or> \<not> list_all is_digit ds then None
                else Some (if neg then - int (read_nat ds) else int (read_nat ds)))
          else None)"

definition number_decimal :: "string \<Rightarrow> (int \<times> int) option" where
  "number_decimal s =
     (let ds = takeWhile is_digit s; r = dropWhile is_digit s;
          dot = startsWith r ''.'';
          fs = (if dot then takeWhile is_digit (tl r) else []);
          t = (if dot then dropWhile is_digit (tl r) else r)
      in if ds = [] \<and> fs = [] then None
         else map_option (\<lambda>e. (int (read_nat (ds @ fs)), e - int (length fs))) (number_exp t))"

definition radix_digits :: "nat \<Rightarrow> string \<Rightarrow> nat option" where
  "radix_digits r s =
     (if s = [] then None
      else foldl (\<lambda>n c. case (n, hex_val c) of
                (Some k, Some d) \<Rightarrow> if d < r then Some (k * r + d) else None
              | _ \<Rightarrow> None) (Some 0) s)"

definition radix_of :: "char \<Rightarrow> nat option" where
  "radix_of c = map_of [(CHR ''x'', 16), (CHR ''X'', 16), (CHR ''o'', 8), (CHR ''O'', 8),
     (CHR ''b'', 2), (CHR ''B'', 2)] c"

text \<open>The least number that rounds to \<open>Infinity\<close>: halfway past the largest double.\<close>

definition double_limit :: int where
  "double_limit = 2 ^ 1024 - 2 ^ 970"

definition beyond_double :: "int \<Rightarrow> int \<Rightarrow> bool" where
  "beyond_double m e =
     (if 0 \<le> e then double_limit \<le> m * 10 ^ nat e else double_limit * 10 ^ nat (- e) \<le> m)"

definition js_Number :: "string \<Rightarrow> js_num" where
  "js_Number text =
     (let s = trim text; (neg, u) = number_sign s
      in if s = [] then Finite 0 0
         else if u = ''Infinity'' then Infinite neg
         else if startsWith s ''0'' \<and> 2 < length s \<and> radix_of (s ! 1) \<noteq> None then
           (case radix_of (s ! 1) of
              Some r \<Rightarrow> (case radix_digits r (drop 2 s) of None \<Rightarrow> NaN | Some n \<Rightarrow> Finite (int n) 0)
            | None \<Rightarrow> NaN)
         else (case number_decimal u of
              None \<Rightarrow> NaN
            | Some (m, e) \<Rightarrow> if beyond_double m e then Infinite neg else Finite (if neg then - m else m) e))"

definition finite_num :: "js_num \<Rightarrow> (int \<times> int) option" where
  "finite_num n = (case n of Finite m e \<Rightarrow> Some (m, e) | _ \<Rightarrow> None)"

text \<open>The order of two decimals, scaled to the smaller exponent.\<close>

definition dec_less :: "int \<times> int \<Rightarrow> int \<times> int \<Rightarrow> bool" where
  "dec_less a b =
     (let l = min (snd a) (snd b)
      in fst a * 10 ^ nat (snd a - l) < fst b * 10 ^ nat (snd b - l))"

definition num_less :: "js_num \<Rightarrow> js_num \<Rightarrow> bool" where
  "num_less a b =
     (case (a, b) of
        (NaN, _) \<Rightarrow> False | (_, NaN) \<Rightarrow> False
      | (Infinite neg, Infinite neg') \<Rightarrow> neg \<and> \<not> neg'
      | (Infinite neg, Finite _ _) \<Rightarrow> neg
      | (Finite _ _, Infinite neg) \<Rightarrow> \<not> neg
      | (Finite m e, Finite m' e') \<Rightarrow> dec_less (m, e) (m', e'))"

fun show_num :: "js_num \<Rightarrow> string" where
  "show_num NaN = ''NaN''"
| "show_num (Infinite neg) = (if neg then ''-Infinity'' else ''Infinity'')"
| "show_num (Finite m e) = show_decimal m e"

lemma num_less_ints [simp]: "num_less (Finite a 0) (Finite b 0) = (a < b)"
  by (simp add: num_less_def dec_less_def)

lemma num_less_NaN [simp]: "num_less NaN b = False" "num_less a NaN = False"
  by (cases b; simp add: num_less_def) (cases a; simp add: num_less_def)

text \<open>A text of decimal digits is read as the number it spells.\<close>

lemma digit_facts:
  assumes "is_digit c"
  shows "visible c" "c \<noteq> CHR ''-''" "c \<noteq> CHR ''+''" "c \<noteq> CHR ''I''" "radix_of c = None"
  using assms by (auto simp: is_digit_def radix_of_def)

lemma trim_digits: "list_all is_digit s \<Longrightarrow> trim s = s"
  by (rule trim_visible) (simp add: list_all_iff digit_facts(1))

lemma number_decimal_digits:
  assumes "list_all is_digit s" "s \<noteq> []"
  shows "number_decimal s = Some (int (read_nat s), 0)"
proof -
  have all: "takeWhile is_digit s = s" "dropWhile is_digit s = []"
    using assms(1) by (simp_all add: list_all_iff)
  show ?thesis
    using assms(2) by (simp add: number_decimal_def number_exp_def Let_def all)
qed

lemma js_Number_digits:
  assumes "list_all is_digit s" "s \<noteq> []" "int (read_nat s) < double_limit"
  shows "js_Number s = Finite (int (read_nat s)) 0"
proof -
  obtain c t where s: "s = c # t" using assms(2) by (cases s) auto
  have c: "is_digit c" using assms(1) by (simp add: s)
  have sign: "number_sign s = (False, s)"
    using digit_facts [OF c] by (simp add: s number_sign_def)
  have inf: "s \<noteq> ''Infinity''" using digit_facts(4) [OF c] by (auto simp: s)
  have radix: "2 < length s \<Longrightarrow> radix_of (s ! 1) = None"
    using assms(1) by (intro digit_facts(5)) (simp add: list_all_length)
  show ?thesis
    using assms radix inf
    by (simp add: js_Number_def trim_digits sign number_decimal_digits beyond_double_def Let_def)
qed

end
