(* ===== verification/Ai_Storage.thy ===== *)
theory Ai_Storage
  imports Event_Streams Event_Loop Js_Number "HOL-Library.Multiset" "HOL-Library.Product_Lexorder" "HOL-Library.List_Lexorder" "HOL-Library.Char_ord"
begin

text \<open>
  \<open>frontend/src/api/aiStorage.ts\<close> and \<open>frontend/src/data/aiStorage.ts\<close>: S3 secrets and objects, GitLab
  configurations with the calls made through the backend's GitLab proxy (paged project lists, the
  folder listing by GraphQL, file previews), PVC viewers, uploads, and the three namespace-keyed
  stores. Locale-aware comparison is an argument: \<open>collate\<close> is a string's collation key.
\<close>

subsection \<open>Paths\<close>

definition nsPath :: "string \<Rightarrow> string" where
  "nsPath ns = ''/api/v1/namespaces/'' @ encodeURIComponent ns @ ''/aistorage''"

definition when_given :: "string \<Rightarrow> string option \<Rightarrow> (string \<times> string) list" where
  "when_given k v = (if truthy_str v then [(k, nullish v '''')] else [])"

subsection \<open>S3\<close>

datatype s3_kind = S3Aws | S3Compatible

fun s3_kind_text :: "s3_kind \<Rightarrow> string" where
  "s3_kind_text S3Aws = ''aws''"
| "s3_kind_text S3Compatible = ''compatible''"

record S3SecretDTO =
  s3_name :: string
  s3_namespace :: string
  s3_kind :: s3_kind
  s3_endpoint :: string
  s3_region :: "string option"
  s3_useHttps :: bool
  s3_bucket :: "string option"
  s3_serviceAccount :: "string option"
  s3_createdAt :: "string option"

record CreateS3SecretInput =
  cs_name :: string
  cs_kind :: s3_kind
  cs_endpoint :: string
  cs_region :: "string option"
  cs_useHttps :: bool
  cs_bucket :: "string option"
  cs_accessKeyId :: string
  cs_secretAccessKey :: string
  cs_serviceAccount :: "string option"

record PatchS3SecretInput =
  ps_endpoint :: "string option"
  ps_region :: "string option"
  ps_useHttps :: "bool option"
  ps_bucket :: "string option"
  ps_accessKeyId :: "string option"
  ps_secretAccessKey :: "string option"

definition s3_secrets :: "string \<Rightarrow> string" where
  "s3_secrets ns = nsPath ns @ ''/s3/secrets''"

definition s3_secret :: "string \<Rightarrow> string \<Rightarrow> string" where
  "s3_secret ns name = s3_secrets ns @ ''/'' @ encodeURIComponent name"

definition listS3Secrets :: "string \<Rightarrow> http_request" where
  "listS3Secrets ns = get_request (s3_secrets ns)"

definition createS3Secret :: "string \<Rightarrow> CreateS3SecretInput \<Rightarrow> http_request" where
  "createS3Secret ns b = json_request POST (s3_secrets ns) (jobj
    [(''name'', Some (JStr (cs_name b))), (''kind'', Some (JStr (s3_kind_text (cs_kind b)))),
     (''endpoint'', Some (JStr (cs_endpoint b))), (''region'', map_option JStr (cs_region b)),
     (''useHttps'', Some (JBool (cs_useHttps b))), (''bucket'', map_option JStr (cs_bucket b)),
     (''accessKeyId'', Some (JStr (cs_accessKeyId b))), (''secretAccessKey'', Some (JStr (cs_secretAccessKey b))),
     (''serviceAccount'', map_option JStr (cs_serviceAccount b))])"

definition patchS3Secret :: "string \<Rightarrow> string \<Rightarrow> PatchS3SecretInput \<Rightarrow> http_request" where
  "patchS3Secret ns name b = json_request PATCH (s3_secret ns name) (jobj
    [(''endpoint'', map_option JStr (ps_endpoint b)), (''region'', map_option JStr (ps_region b)),
     (''useHttps'', map_option JBool (ps_useHttps b)), (''bucket'', map_option JStr (ps_bucket b)),
     (''accessKeyId'', map_option JStr (ps_accessKeyId b)),
     (''secretAccessKey'', map_option JStr (ps_secretAccessKey b))])"

definition deleteS3Secret :: "string \<Rightarrow> string \<Rightarrow> http_request" where
  "deleteS3Secret ns name = bare_request DELETE (s3_secret ns name)"

definition listS3Buckets :: "string \<Rightarrow> string \<Rightarrow> http_request" where
  "listS3Buckets ns secret = get_request (s3_secret ns secret @ ''/buckets'')"

definition listS3Objects :: "string \<Rightarrow> string \<Rightarrow> string option \<Rightarrow> string option \<Rightarrow> http_request" where
  "listS3Objects ns secret bucket prefix = get_request (s3_secret ns secret @ ''/objects?'' @
     search_params (when_given ''bucket'' bucket @ when_given ''prefix'' prefix))"

definition object_params :: "string \<Rightarrow> string option \<Rightarrow> string" where
  "object_params key bucket = search_params ((''key'', key) # when_given ''bucket'' bucket)"

definition deleteS3Object :: "string \<Rightarrow> string \<Rightarrow> string \<Rightarrow> string option \<Rightarrow> http_request" where
  "deleteS3Object ns secret key bucket =
     bare_request DELETE (s3_secret ns secret @ ''/objects?'' @ object_params key bucket)"

definition s3UploadUrl :: "string \<Rightarrow> string \<Rightarrow> string \<Rightarrow> string option \<Rightarrow> string \<Rightarrow> string" where
  "s3UploadUrl base ns secret bucket key = base @ s3_secret ns secret @ ''/objects?'' @ object_params key bucket"

definition s3DownloadUrl :: "string \<Rightarrow> string \<Rightarrow> string \<Rightarrow> string \<Rightarrow> string option \<Rightarrow> string" where
  "s3DownloadUrl base ns secret key bucket =
     base @ s3_secret ns secret @ ''/objects/raw?'' @ object_params key bucket"

definition s3DownloadGrant :: "string \<Rightarrow> string \<Rightarrow> http_request" where
  "s3DownloadGrant ns secret = bare_request POST (s3_secret ns secret @ ''/objects/grant'')"

text \<open>\<open>p.slice(p.lastIndexOf('/') + 1)\<close>.\<close>

definition basename :: "string \<Rightarrow> string" where
  "basename p = rev (takeWhile (\<lambda>c. c \<noteq> CHR ''/'') (rev p))"

text \<open>
  A download: the grant is awaited, then the browser is sent to the URL to save under the name.
  The result is the click made, if any.
\<close>

definition grant_then :: "'r backend \<Rightarrow> http_request \<Rightarrow> string \<Rightarrow> string \<Rightarrow> (string \<times> string) promise" where
  "grant_then send grant url filename =
     (case send grant of Inl e \<Rightarrow> Inl e | Inr _ \<Rightarrow> Inr (url, filename))"

definition downloadS3File ::
  "'r backend \<Rightarrow> string \<Rightarrow> string \<Rightarrow> string \<Rightarrow> string \<Rightarrow> string option \<Rightarrow> (string \<times> string) promise" where
  "downloadS3File send base ns secret key bucket =
     grant_then send (s3DownloadGrant ns secret) (s3DownloadUrl base ns secret key bucket) (basename key)"

subsection \<open>Uploads\<close>

text \<open>
  The events of an \<open>XMLHttpRequest\<close>. The promise is settled by the first of the last three; the
  progress callback gets the bytes sent and the total, whose quotient times 100 is the percentage,
  and (1, 1) for the final 100.
\<close>

datatype xhr_event = Progress bool nat nat | UploadLoaded | Loaded int string | NetError | XhrAborted

definition xhr_outcome :: "xhr_event \<Rightarrow> unit promise option" where
  "xhr_outcome e =
     (case e of
        Loaded st text \<Rightarrow> Some (if 200 \<le> st \<and> st < 300 then Inr ()
          else Inl (ApiError st (or_str text (''HTTP '' @ show_int st))))
      | NetError \<Rightarrow> Some (Inl (ApiError 0 ''network error''))
      | XhrAborted \<Rightarrow> Some (Inl (ApiError 0 ''upload aborted''))
      | _ \<Rightarrow> None)"

fun xhr_progress :: "xhr_event \<Rightarrow> (nat \<times> nat) list" where
  "xhr_progress (Progress computable sent of_total) = (if computable then [(sent, of_total)] else [])"
| "xhr_progress UploadLoaded = [(1, 1)]"
| "xhr_progress _ = []"

text \<open>A promise already settled ignores \<open>resolve\<close> and \<open>reject\<close>.\<close>

definition xhrUpload :: "xhr_event list \<Rightarrow> (nat \<times> nat) list \<times> unit promise option" where
  "xhrUpload es =
     (concat (map xhr_progress es),
      foldl (\<lambda>r e. case r of None \<Rightarrow> xhr_outcome e | Some _ \<Rightarrow> r) None es)"

definition upload_headers :: "client \<Rightarrow> string \<Rightarrow> string js_map" where
  "upload_headers c file_type =
     authHeaders c [(''Content-Type'', or_str file_type ''application/octet-stream'')]"

subsection \<open>GitLab\<close>

record CreateGitLabConfigInput =
  gc_name :: string
  gc_url :: string
  gc_username :: "string option"
  gc_token :: string

definition gitlab_configs :: "string \<Rightarrow> string" where
  "gitlab_configs ns = nsPath ns @ ''/gitlab/configs''"

definition gitlab_config :: "string \<Rightarrow> string \<Rightarrow> string" where
  "gitlab_config ns config = gitlab_configs ns @ ''/'' @ encodeURIComponent config"

definition listGitLabConfigs :: "string \<Rightarrow> http_request" where
  "listGitLabConfigs ns = get_request (gitlab_configs ns)"

definition createGitLabConfig :: "string \<Rightarrow> CreateGitLabConfigInput \<Rightarrow> http_request" where
  "createGitLabConfig ns b = json_request POST (gitlab_configs ns) (jobj
    [(''name'', Some (JStr (gc_name b))), (''url'', Some (JStr (gc_url b))),
     (''username'', map_option JStr (gc_username b)), (''token'', Some (JStr (gc_token b)))])"

definition patchGitLabConfig ::
  "string \<Rightarrow> string \<Rightarrow> string option \<Rightarrow> string option \<Rightarrow> string option \<Rightarrow> http_request" where
  "patchGitLabConfig ns name url username token = json_request PATCH (gitlab_config ns name) (jobj
    [(''url'', map_option JStr url), (''username'', map_option JStr username), (''token'', map_option JStr token)])"

definition deleteGitLabConfig :: "string \<Rightarrow> string \<Rightarrow> http_request" where
  "deleteGitLabConfig ns name = bare_request DELETE (gitlab_config ns name)"

definition gitlabAPIPath :: "string \<Rightarrow> string \<Rightarrow> string" where
  "gitlabAPIPath ns config = gitlab_config ns config @ ''/api/v4''"

record GitLabRaw =
  raw_id :: int
  raw_path_with_namespace :: string
  raw_default_branch :: "string option"
  raw_web_url :: "string option"
  raw_lfs_enabled :: "bool option"

record GitLabProjectDTO =
  gl_id :: int
  gl_pathWithNamespace :: string
  gl_defaultBranch :: "string option"
  gl_webUrl :: "string option"
  gl_lfsEnabled :: bool

definition project_dto :: "GitLabRaw \<Rightarrow> GitLabProjectDTO" where
  "project_dto p =
     \<lparr>gl_id = raw_id p, gl_pathWithNamespace = raw_path_with_namespace p, gl_defaultBranch = raw_default_branch p,
      gl_webUrl = raw_web_url p, gl_lfsEnabled = (raw_lfs_enabled p = Some True)\<rparr>"

definition projects_page :: "string \<Rightarrow> string \<Rightarrow> nat \<Rightarrow> http_request" where
  "projects_page ns config page = get_request (gitlabAPIPath ns config @
     ''/projects?membership=true&simple=false&per_page=100&page='' @ show_nat page)"

text \<open>The pages from \<open>page\<close> on, at most \<open>n\<close> of them; a page of fewer than 100 ends the loop.\<close>

fun read_pages ::
  "GitLabRaw list backend \<Rightarrow> string \<Rightarrow> string \<Rightarrow> nat \<Rightarrow> nat \<Rightarrow> GitLabProjectDTO list promise" where
  "read_pages send ns config page 0 = Inr []"
| "read_pages send ns config page (Suc n) =
     (case send (projects_page ns config page) of
        Inl e \<Rightarrow> Inl e
      | Inr batch \<Rightarrow>
          if length batch < 100 then Inr (map project_dto batch)
          else map_sum id (\<lambda>more. map project_dto batch @ more) (read_pages send ns config (Suc page) n))"

definition listGitLabProjects ::
  "(string \<Rightarrow> 'k::linorder) \<Rightarrow> GitLabRaw list backend \<Rightarrow> string \<Rightarrow> string \<Rightarrow> GitLabProjectDTO list promise" where
  "listGitLabProjects collate send ns config =
     map_sum id (sort_key (\<lambda>p. collate (gl_pathWithNamespace p))) (read_pages send ns config 1 50)"

definition getGitLabProject ::
  "GitLabRaw backend \<Rightarrow> string \<Rightarrow> string \<Rightarrow> int \<Rightarrow> GitLabProjectDTO promise" where
  "getGitLabProject send ns config pid =
     map_sum id project_dto (send (get_request (gitlabAPIPath ns config @ ''/projects/'' @ show_int pid)))"

text \<open>The answer of the GraphQL proxy; \<open>gq_data = None\<close> is a missing \<open>data\<close>.\<close>

record 'a graphql =
  gq_data :: "'a option"
  gq_errors :: "string list option"

definition graphql_request :: "string \<Rightarrow> string \<Rightarrow> string \<Rightarrow> json \<Rightarrow> http_request" where
  "graphql_request ns config query vars = json_request POST (gitlab_config ns config @ ''/api/graphql'')
     (JObj [(''query'', JStr query), (''variables'', vars)])"

definition gitlabGraphQL ::
  "('a graphql) backend \<Rightarrow> string \<Rightarrow> string \<Rightarrow> string \<Rightarrow> json \<Rightarrow> 'a promise" where
  "gitlabGraphQL send ns config query vars =
     (case send (graphql_request ns config query vars) of
        Inl e \<Rightarrow> Inl e
      | Inr res \<Rightarrow>
          if nullish (gq_errors res) [] \<noteq> [] then Inl (ApiError 0 (join ''; '' (nullish (gq_errors res) [])))
          else (case gq_data res of
              None \<Rightarrow> Inl (ApiError 0 ''graphql: empty data'')
            | Some d \<Rightarrow> Inr d))"

text \<open>Strings sorted by \<open>sort()\<close>: by code unit, here by byte, the same below U+10000.\<close>

definition listGitLabRefs ::
  "string list promise \<Rightarrow> string list promise \<Rightarrow> string list \<times> string list" where
  "listGitLabRefs branches tags =
     (sort (case branches of Inl e \<Rightarrow> [] | Inr bs \<Rightarrow> bs), sort (case tags of Inl e \<Rightarrow> [] | Inr ts \<Rightarrow> ts))"

definition refs_requests :: "string \<Rightarrow> string \<Rightarrow> int \<Rightarrow> http_request \<times> http_request" where
  "refs_requests ns config pid =
     (let base = gitlabAPIPath ns config @ ''/projects/'' @ show_int pid @ ''/repository''
      in (get_request (base @ ''/branches?per_page=100''), get_request (base @ ''/tags?per_page=100'')))"

subsection \<open>One folder of a repository\<close>

datatype entry_type = Tree | Blob

fun entry_type_text :: "entry_type \<Rightarrow> string" where
  "entry_type_text Tree = ''tree''"
| "entry_type_text Blob = ''blob''"

record GitLabTreeEntryDTO =
  te_name :: string
  te_path :: string
  te_type :: entry_type
  te_mode :: "string option"
  te_isLfs :: bool
  te_size :: "(int \<times> int) option"

text \<open>The nodes of the two GraphQL answers; \<open>rawSize\<close> may be a text, a number, or missing.\<close>

record tree_node =
  tn_name :: string
  tn_path :: string
  tn_mode :: "string option"

record blob_node = tree_node +
  bn_lfsOid :: "string option"

datatype raw_size = SizeText string | SizeNumber int int

definition treeQ :: string where
  "treeQ = ''
    query TreeAtPath($projectPath: ID!, $path: String!, $ref: String!) {
      project(fullPath: $projectPath) {
        repository {
          tree(path: $path, ref: $ref, recursive: false) {
            trees { nodes { name path type } }
            blobs {
              nodes {
                name
                path
                type
                ... on Blob { mode lfsOid }
              }
            }
          }
        }
      }
    }
  ''"

definition sizesQ :: string where
  "sizesQ = ''
      query BlobSizes($projectPath: ID!, $paths: [String!]!, $ref: String!) {
        project(fullPath: $projectPath) {
          repository {
            blobs(paths: $paths, ref: $ref) {
              nodes { path rawSize }
            }
          }
        }
      }
    ''"

definition tree_entry :: "tree_node \<Rightarrow> GitLabTreeEntryDTO" where
  "tree_entry t = \<lparr>te_name = tn_name t, te_path = tn_path t, te_type = Tree, te_mode = tn_mode t,
     te_isLfs = False, te_size = None\<rparr>"

definition blob_entry :: "blob_node \<Rightarrow> GitLabTreeEntryDTO" where
  "blob_entry b = \<lparr>te_name = tn_name b, te_path = tn_path b, te_type = Blob, te_mode = tn_mode b,
     te_isLfs = truthy_str (bn_lfsOid b), te_size = None\<rparr>"

definition raw_number :: "raw_size option \<Rightarrow> js_num" where
  "raw_number r = (case r of None \<Rightarrow> NaN | Some (SizeText s) \<Rightarrow> js_Number s | Some (SizeNumber m e) \<Rightarrow> Finite m e)"

text \<open>The \<open>Map\<close> of sizes: a later node with the same path wins, one without a finite size is skipped.\<close>

fun size_map :: "(string \<times> raw_size option) list \<Rightarrow> string \<Rightarrow> (int \<times> int) option" where
  "size_map [] p = None"
| "size_map ((path, r) # ns) p =
     (case size_map ns p of Some z \<Rightarrow> Some z
      | None \<Rightarrow> if path = p then finite_num (raw_number r) else None)"

definition with_sizes ::
  "(string \<times> raw_size option) list option \<Rightarrow> GitLabTreeEntryDTO list \<Rightarrow> GitLabTreeEntryDTO list" where
  "with_sizes nodes es =
     map_where (\<lambda>e. te_type e = Blob) (\<lambda>e. e\<lparr>te_size := size_map (nullish nodes []) (te_path e)\<rparr>) es"

definition tree_vars :: "string \<Rightarrow> string \<Rightarrow> string \<Rightarrow> json" where
  "tree_vars project path gitref = JObj [(''projectPath'', JStr project), (''path'', JStr path), (''ref'', JStr gitref)]"

definition sizes_vars :: "string \<Rightarrow> string list \<Rightarrow> string \<Rightarrow> json" where
  "sizes_vars project paths gitref =
     JObj [(''projectPath'', JStr project), (''paths'', JArr (map JStr paths)), (''ref'', JStr gitref)]"

definition blob_paths :: "GitLabTreeEntryDTO list \<Rightarrow> string list" where
  "blob_paths es = map te_path (filter (\<lambda>e. te_type e = Blob) es)"

text \<open>
  The follow-up query is only sent when there are files; a failure leaves the sizes blank.
  \<open>sort()\<close> is stable; folders come first, then names by collation.
\<close>

definition sized_entries ::
  "((string \<times> raw_size option) list option graphql) backend \<Rightarrow> string \<Rightarrow> string \<Rightarrow> string \<Rightarrow> string \<Rightarrow>
     GitLabTreeEntryDTO list \<Rightarrow> GitLabTreeEntryDTO list" where
  "sized_entries send ns config project gitref es =
     (if blob_paths es = [] then es
      else (case gitlabGraphQL send ns config sizesQ (sizes_vars project (blob_paths es) gitref) of
          Inl e \<Rightarrow> es
        | Inr nodes \<Rightarrow> with_sizes nodes es))"

definition entry_key :: "(string \<Rightarrow> 'k) \<Rightarrow> GitLabTreeEntryDTO \<Rightarrow> bool \<times> 'k" where
  "entry_key collate e = (te_type e \<noteq> Tree, collate (te_name e))"

definition listGitLabTreeViaGraphQL ::
  "(string \<Rightarrow> 'k::linorder) \<Rightarrow> ((tree_node list \<times> blob_node list) option graphql) backend \<Rightarrow>
     ((string \<times> raw_size option) list option graphql) backend \<Rightarrow>
     string \<Rightarrow> string \<Rightarrow> string \<Rightarrow> string \<Rightarrow> string \<Rightarrow> GitLabTreeEntryDTO list promise" where
  "listGitLabTreeViaGraphQL collate send send_sizes ns config project path gitref =
     (case gitlabGraphQL send ns config treeQ (tree_vars project path gitref) of
        Inl e \<Rightarrow> Inl e
      | Inr None \<Rightarrow> Inr []
      | Inr (Some (trees, blobs)) \<Rightarrow>
          Inr (sort_key (entry_key collate)
            (sized_entries send_sizes ns config project gitref (map tree_entry trees @ map blob_entry blobs))))"

subsection \<open>Files of a repository\<close>

definition gitlab_project :: "string \<Rightarrow> string \<Rightarrow> int \<Rightarrow> string" where
  "gitlab_project ns config pid = gitlab_config ns config @ ''/projects/'' @ show_int pid"

definition path_params :: "string \<Rightarrow> string option \<Rightarrow> string" where
  "path_params path gitref = search_params ((''path'', path) # when_given ''ref'' gitref)"

definition gitlabDownloadUrl :: "string \<Rightarrow> string \<Rightarrow> string \<Rightarrow> int \<Rightarrow> string \<Rightarrow> string option \<Rightarrow> string" where
  "gitlabDownloadUrl base ns config pid path gitref =
     base @ gitlab_project ns config pid @ ''/file/raw?'' @ path_params path gitref"

definition listGitLabTree :: "string \<Rightarrow> string \<Rightarrow> int \<Rightarrow> string option \<Rightarrow> string option \<Rightarrow> http_request" where
  "listGitLabTree ns config pid path gitref = get_request (gitlab_project ns config pid @ ''/tree?'' @
     search_params (when_given ''path'' path @ when_given ''ref'' gitref))"

definition gitlabDownloadGrant :: "string \<Rightarrow> string \<Rightarrow> int \<Rightarrow> http_request" where
  "gitlabDownloadGrant ns config pid = bare_request POST (gitlab_project ns config pid @ ''/file/grant'')"

definition downloadGitLabFile ::
  "'r backend \<Rightarrow> string \<Rightarrow> string \<Rightarrow> string \<Rightarrow> int \<Rightarrow> string \<Rightarrow> string option \<Rightarrow> (string \<times> string) promise" where
  "downloadGitLabFile send base ns config pid path gitref =
     grant_then send (gitlabDownloadGrant ns config pid) (gitlabDownloadUrl base ns config pid path gitref)
       (basename path)"

text \<open>A raw answer: its \<open>Content-Length\<close> header, and the bytes or the failure reading them meets.\<close>

record raw_response =
  rw_status :: int
  rw_length :: "string option"
  rw_body :: "string promise"

record preview =
  pv_text :: string
  pv_truncated :: bool
  pv_sizeBytes :: nat

text \<open>\<open>if (!res.ok) throw new ApiError(res.status, (await res.text()) || `HTTP ${res.status}`)\<close>.\<close>

definition raw_failure :: "(string \<Rightarrow> string) \<Rightarrow> raw_response \<Rightarrow> js_error option" where
  "raw_failure decode r =
     (if 200 \<le> rw_status r \<and> rw_status r \<le> 299 then None
      else Some (case rw_body r of
          Inl e \<Rightarrow> e
        | Inr b \<Rightarrow> ApiError (rw_status r) (or_str (decode b) (''HTTP '' @ show_int (rw_status r)))))"

definition FileTooLargeError :: "js_num \<Rightarrow> js_error" where
  "FileTooLargeError n = JsError (''file too large to preview ('' @ show_num n @ '' bytes)'')"

definition downloadCap :: "nat \<Rightarrow> nat" where
  "downloadCap maxBytes = max (maxBytes * 5) (5 * 1024 * 1024)"

definition content_length :: "raw_response \<Rightarrow> js_num" where
  "content_length r = js_Number (or_str (nullish (rw_length r) '''') ''0'')"

text \<open>\<open>decode\<close> is the decoding of a blob's bytes as UTF-8, which replaces what is not.\<close>

definition fetchGitLabFileText ::
  "(string \<Rightarrow> string) \<Rightarrow> js_error + raw_response \<Rightarrow> nat \<Rightarrow> preview promise" where
  "fetchGitLabFileText decode answer maxBytes =
     (case answer of
        Inl e \<Rightarrow> Inl e
      | Inr r \<Rightarrow>
          (case raw_failure decode r of
             Some e \<Rightarrow> Inl e
           | None \<Rightarrow>
               let cl = content_length r
               in if num_less (Finite 0 0) cl \<and> num_less (Finite (int (downloadCap maxBytes)) 0) cl
                  then Inl (FileTooLargeError cl)
                  else map_sum id (\<lambda>b. \<lparr>pv_text = decode (take maxBytes b),
                      pv_truncated = (maxBytes < length b), pv_sizeBytes = length b\<rparr>) (rw_body r)))"

definition file_text_init :: "string \<Rightarrow> client \<Rightarrow> string \<Rightarrow> string \<Rightarrow> int \<Rightarrow> string \<Rightarrow> string option \<Rightarrow> fetch_init" where
  "file_text_init base c ns config pid path gitref =
     \<lparr>fi_url = gitlabDownloadUrl base ns config pid path gitref, fi_method = GET,
      fi_headers = authHeaders c [], fi_body = None\<rparr>"

definition upload_init ::
  "string \<Rightarrow> client \<Rightarrow> string \<Rightarrow> string \<Rightarrow> int \<Rightarrow> string \<Rightarrow> string \<Rightarrow> string \<Rightarrow> string \<Rightarrow> string \<Rightarrow> bool \<Rightarrow> fetch_init" where
  "upload_init base c ns config pid path branch msg file_type content asLfs =
     \<lparr>fi_url = base @ gitlab_project ns config pid @ ''/file?'' @
        search_params ([(''path'', path), (''branch'', branch)]
          @ (if msg \<noteq> [] then [(''message'', msg)] else [])
          @ (if asLfs then [(''lfs'', ''true'')] else [])),
      fi_method = POST, fi_headers = upload_headers c file_type, fi_body = Some content\<rparr>"

definition uploadGitLabFile :: "(string \<Rightarrow> string) \<Rightarrow> js_error + raw_response \<Rightarrow> unit promise" where
  "uploadGitLabFile decode answer =
     (case answer of
        Inl e \<Rightarrow> Inl e
      | Inr r \<Rightarrow> (case raw_failure decode r of Some e \<Rightarrow> Inl e | None \<Rightarrow> Inr ()))"

subsection \<open>Volume claims and their viewers\<close>

record CreatePVCInput =
  pi_name :: string
  pi_storageClass :: "string option"
  pi_capacity :: string
  pi_accessMode :: "string option"

definition pvc_path :: "string \<Rightarrow> string \<Rightarrow> string" where
  "pvc_path ns pvc = nsPath ns @ ''/pvc/'' @ encodeURIComponent pvc"

definition listAIStoragePVCs :: "string \<Rightarrow> http_request" where
  "listAIStoragePVCs ns = get_request (nsPath ns @ ''/pvc/'')"

definition createAIStoragePVC :: "string \<Rightarrow> CreatePVCInput \<Rightarrow> http_request" where
  "createAIStoragePVC ns b = json_request POST (nsPath ns @ ''/pvc/'') (jobj
    [(''name'', Some (JStr (pi_name b))), (''storageClass'', map_option JStr (pi_storageClass b)),
     (''capacity'', Some (JStr (pi_capacity b))), (''accessMode'', map_option JStr (pi_accessMode b))])"

definition deleteAIStoragePVC :: "string \<Rightarrow> string \<Rightarrow> http_request" where
  "deleteAIStoragePVC ns pvc = bare_request DELETE (pvc_path ns pvc)"

definition pvcViewerStatus :: "string \<Rightarrow> string \<Rightarrow> http_request" where
  "pvcViewerStatus ns pvc = get_request (pvc_path ns pvc @ ''/viewer/status'')"

definition pvcViewerStart :: "string \<Rightarrow> string \<Rightarrow> http_request" where
  "pvcViewerStart ns pvc = bare_request POST (pvc_path ns pvc @ ''/viewer/start'')"

definition pvcViewerStop :: "string \<Rightarrow> string \<Rightarrow> http_request" where
  "pvcViewerStop ns pvc = bare_request POST (pvc_path ns pvc @ ''/viewer/stop'')"

definition pvcViewerGrant :: "string \<Rightarrow> string \<Rightarrow> http_request" where
  "pvcViewerGrant ns pvc = bare_request POST (pvc_path ns pvc @ ''/viewer/grant'')"

definition pvcViewerUrl :: "string \<Rightarrow> string \<Rightarrow> string \<Rightarrow> string" where
  "pvcViewerUrl base ns pvc = base @ pvc_path ns pvc @ ''/viewer/''"

subsection \<open>The stores of one namespace's rows\<close>

text \<open>
  The three stores of \<open>data/aiStorage.ts\<close> have one shape: the rows last set with the namespace they
  are of, the namespaces whose listing the \<open>Map\<close> holds, and the listings in flight. A listing that
  ends, well or not, sets the store and takes its namespace out of the map.
\<close>

record 'a ns_keyed =
  nk_namespace :: string
  nk_items :: "'a list"
  nk_loading :: "string list"
  nk_flights :: "(string \<times> http_request) list"

definition emptyKeyed :: "'a ns_keyed" where
  "emptyKeyed = \<lparr>nk_namespace = [], nk_items = [], nk_loading = [], nk_flights = []\<rparr>"

definition use_keyed :: "string \<Rightarrow> 'a ns_keyed \<Rightarrow> 'a list" where
  "use_keyed ns s = (if nk_namespace s = ns then nk_items s else [])"

definition ensure_keyed :: "(string \<Rightarrow> http_request) \<Rightarrow> bool \<Rightarrow> string \<Rightarrow> 'a ns_keyed \<Rightarrow> 'a ns_keyed" where
  "ensure_keyed listing api ns s =
     (if \<not> api \<or> ns = [] \<or> ns \<in> set (nk_loading s) then s
      else s\<lparr>nk_loading := ns # nk_loading s, nk_flights := nk_flights s @ [(ns, listing ns)]\<rparr>)"

definition keyed_answered :: "string \<Rightarrow> 'a list promise \<Rightarrow> 'a ns_keyed \<Rightarrow> 'a ns_keyed" where
  "keyed_answered ns r s =
     s\<lparr>nk_namespace := ns, nk_items := (case r of Inl e \<Rightarrow> [] | Inr items \<Rightarrow> items),
       nk_loading := removeAll ns (nk_loading s),
       nk_flights := drop_first (\<lambda>e. fst e = ns) (nk_flights s)\<rparr>"

definition reload_keyed :: "(string \<Rightarrow> http_request) \<Rightarrow> bool \<Rightarrow> string \<Rightarrow> 'a ns_keyed \<Rightarrow> 'a ns_keyed" where
  "reload_keyed listing api ns s =
     ensure_keyed listing api ns (s\<lparr>nk_loading := removeAll ns (nk_loading s)\<rparr>)"

definition ensureS3SecretsLoaded :: "bool \<Rightarrow> string \<Rightarrow> S3SecretDTO ns_keyed \<Rightarrow> S3SecretDTO ns_keyed" where
  "ensureS3SecretsLoaded = ensure_keyed listS3Secrets"

definition reloadS3Secrets :: "bool \<Rightarrow> string \<Rightarrow> S3SecretDTO ns_keyed \<Rightarrow> S3SecretDTO ns_keyed" where
  "reloadS3Secrets = reload_keyed listS3Secrets"

record GitLabConfigDTO =
  gd_name :: string
  gd_namespace :: string
  gd_url :: string
  gd_username :: "string option"
  gd_createdAt :: "string option"

definition ensureGitLabConfigsLoaded ::
  "bool \<Rightarrow> string \<Rightarrow> GitLabConfigDTO ns_keyed \<Rightarrow> GitLabConfigDTO ns_keyed" where
  "ensureGitLabConfigsLoaded = ensure_keyed listGitLabConfigs"

definition reloadGitLabConfigs ::
  "bool \<Rightarrow> string \<Rightarrow> GitLabConfigDTO ns_keyed \<Rightarrow> GitLabConfigDTO ns_keyed" where
  "reloadGitLabConfigs = reload_keyed listGitLabConfigs"

datatype viewer_state = ViewerRunning | ViewerReady | ViewerOff

record PVCEntryDTO =
  pd_name :: string
  pd_storageClass :: "string option"
  pd_capacity :: "string option"
  pd_accessMode :: "string option"
  pd_phase :: "string option"
  pd_viewer :: "viewer_state option"
  pd_createdAt :: "string option"

definition ensurePVCsLoadedForAIStorage :: "bool \<Rightarrow> string \<Rightarrow> PVCEntryDTO ns_keyed \<Rightarrow> PVCEntryDTO ns_keyed" where
  "ensurePVCsLoadedForAIStorage = ensure_keyed listAIStoragePVCs"

definition reloadAIStoragePVCs :: "bool \<Rightarrow> string \<Rightarrow> PVCEntryDTO ns_keyed \<Rightarrow> PVCEntryDTO ns_keyed" where
  "reloadAIStoragePVCs = reload_keyed listAIStoragePVCs"

subsection \<open>Paging\<close>

text \<open>What a server that pages a list by hundreds answers for a page.\<close>

definition page_of :: "nat \<Rightarrow> 'a list \<Rightarrow> 'a list" where
  "page_of p xs = take 100 (drop (100 * (p - 1)) xs)"

lemma page_of_1 [simp]: "page_of (Suc 0) xs = take 100 xs"
  by (simp add: page_of_def)

lemma page_of_drop: "1 \<le> p \<Longrightarrow> page_of p (drop 100 xs) = page_of (Suc p) xs"
  by (cases p) (simp_all add: page_of_def algebra_simps)

lemma read_pages_all:
  assumes "\<And>i. i < n \<Longrightarrow> 100 * i \<le> length xs \<Longrightarrow>
    send (projects_page ns config (page + i)) = Inr (page_of (Suc i) xs)"
  shows "read_pages send ns config page n = Inr (map project_dto (take (100 * n) xs))"
  using assms
proof (induction n arbitrary: page xs)
  case (Suc n)
  have first: "send (projects_page ns config page) = Inr (take 100 xs)"
    using Suc.prems [of 0] by simp
  show ?case
  proof (cases "length xs < 100")
    case False
    have "read_pages send ns config (Suc page) n = Inr (map project_dto (take (100 * n) (drop 100 xs)))"
    proof (rule Suc.IH)
      fix i assume "i < n" "100 * i \<le> length (drop 100 xs)"
      with False Suc.prems [of "Suc i"]
      show "send (projects_page ns config (Suc page + i)) = Inr (page_of (Suc i) (drop 100 xs))"
        by (simp add: page_of_drop)
    qed
    moreover have "take (100 + 100 * n) xs = take 100 xs @ take (100 * n) (drop 100 xs)"
      by (rule take_add)
    ultimately show ?thesis
      using False first by (simp flip: map_append)
  qed (simp add: first)
qed simp

text \<open>
  C37. However many projects a GitLab instance has, the listing ends after at most fifty requests, and
  it holds the first 5,000 of them, sorted by path, none dropped or repeated. Only the pages up to
  the first short one are ever asked for: nothing is assumed of the others.
\<close>

theorem project_listing_complete:
  assumes "\<And>i. i < 50 \<Longrightarrow> 100 * i \<le> length xs \<Longrightarrow>
    send (projects_page ns config (Suc i)) = Inr (page_of (Suc i) xs)"
  shows "\<exists>ps. listGitLabProjects collate send ns config = Inr ps \<and>
    mset ps = mset (map project_dto (take 5000 xs)) \<and> length ps = min 5000 (length xs) \<and>
    sorted (map (\<lambda>p. collate (gl_pathWithNamespace p)) ps)"
  using read_pages_all [of 50 xs send ns config 1] assms
  by (simp add: listGitLabProjects_def min.commute)

definition sample_project :: "string \<Rightarrow> GitLabRaw" where
  "sample_project path = \<lparr>raw_id = 1, raw_path_with_namespace = path, raw_default_branch = None,
     raw_web_url = None, raw_lfs_enabled = None\<rparr>"

theorem project_listing_complete_witness:
  "\<exists>ps. listGitLabProjects id (\<lambda>_. Inr [sample_project ''g/b'', sample_project ''g/a'']) ''ns'' ''c'' = Inr ps
     \<and> length ps = 2"
proof -
  let ?xs = "[sample_project ''g/b'', sample_project ''g/a'']"
  have pages: "(Inr ?xs :: GitLabRaw list promise) = Inr (page_of (Suc i) ?xs)"
    if "100 * i \<le> length ?xs" for i
  proof -
    from that have "i = 0" by (cases i) simp_all
    then show ?thesis by simp
  qed
  show ?thesis
    using project_listing_complete [where xs = ?xs and send = "\<lambda>_. Inr ?xs" and ns = "''ns''"
        and config = "''c''" and collate = id, OF pages]
    by auto
qed

text \<open>
  A failing page fails the listing: no partial list is ever shown.
\<close>

lemma project_listing_fails:
  "read_pages send ns config 1 50 = Inl e \<Longrightarrow> listGitLabProjects collate send ns config = Inl e"
  by (simp add: listGitLabProjects_def)

subsection \<open>The folder listing\<close>

lemma sized_entries_shape:
  "map (te_size_update (\<lambda>_. None)) (sized_entries send ns config project gitref es)
     = map (te_size_update (\<lambda>_. None)) es"
  by (auto simp: sized_entries_def with_sizes_def map_where_def split: sum.splits)

text \<open>
  A folder's listing holds exactly the entries of the tree answer, sub-folders before files and
  each group by name; only sizes are added. When the size query answers, every file has the size
  the answer gives its path; when it fails, the listing still stands.
\<close>

theorem tree_listing:
  assumes tree: "gitlabGraphQL send ns config treeQ (tree_vars project path gitref) = Inr (Some (trees, blobs))"
  defines "es \<equiv> map tree_entry trees @ map blob_entry blobs"
  shows "\<exists>out. listGitLabTreeViaGraphQL collate send send_sizes ns config project path gitref = Inr out \<and>
    image_mset (te_size_update (\<lambda>_. None)) (mset out) = mset es \<and>
    sorted (map (entry_key collate) out) \<and>
    (case gitlabGraphQL send_sizes ns config sizesQ (sizes_vars project (blob_paths es) gitref) of
       Inl e \<Rightarrow> mset out = mset es
     | Inr nodes \<Rightarrow> filter (\<lambda>e. te_type e = Blob \<and> te_size e \<noteq> size_map (nullish nodes []) (te_path e)) out = [])"
proof -
  let ?s = "sized_entries send_sizes ns config project gitref es"
  have out: "listGitLabTreeViaGraphQL collate send send_sizes ns config project path gitref =
      Inr (sort_key (entry_key collate) ?s)"
    by (simp add: listGitLabTreeViaGraphQL_def tree es_def)
  have unsized: "map (te_size_update (\<lambda>_. None)) es = es"
    by (simp add: es_def tree_entry_def blob_entry_def)
  have "image_mset (te_size_update (\<lambda>_. None)) (mset ?s) = mset es"
    using arg_cong [OF sized_entries_shape [of send_sizes ns config project gitref es], of mset] unsized
    by simp
  moreover have "blob_paths es = [] \<longleftrightarrow> (\<forall>e \<in> set es. te_type e \<noteq> Blob)"
    by (simp add: blob_paths_def filter_empty_conv)
  ultimately show ?thesis
    unfolding out
    by (auto simp: sized_entries_def with_sizes_def map_where_def filter_empty_conv split: sum.splits)
qed

definition sample_tree :: "string graphql \<Rightarrow> (tree_node list \<times> blob_node list) option graphql" where
  "sample_tree q = \<lparr>gq_data = Some (Some ([\<lparr>tn_name = ''src'', tn_path = ''src'', tn_mode = None\<rparr>],
     [\<lparr>tn_name = ''README'', tn_path = ''README'', tn_mode = None, bn_lfsOid = None\<rparr>])), gq_errors = None\<rparr>"

theorem tree_listing_witness:
  "\<exists>out. listGitLabTreeViaGraphQL id (\<lambda>_. Inr (sample_tree \<lparr>gq_data = None, gq_errors = None\<rparr>))
     (\<lambda>_. Inl (ApiError 500 ''down'')) ''ns'' ''c'' ''g/p'' [] ''main'' = Inr out \<and> size (mset out) = 2"
  using tree_listing [where send = "\<lambda>_. Inr (sample_tree \<lparr>gq_data = None, gq_errors = None\<rparr>)"
      and send_sizes = "\<lambda>_. Inl (ApiError 500 ''down'')" and ns = "''ns''" and config = "''c''"
      and project = "''g/p''" and path = "[]" and gitref = "''main''" and collate = id
      and trees = "[\<lparr>tn_name = ''src'', tn_path = ''src'', tn_mode = None\<rparr>]"
      and blobs = "[\<lparr>tn_name = ''README'', tn_path = ''README'', tn_mode = None, bn_lfsOid = None\<rparr>]"]
  by (auto simp: gitlabGraphQL_def sample_tree_def dest: arg_cong [where f = size])

subsection \<open>Previews\<close>



text \<open>Without the header, as with a chunked answer, nothing bounds the download.\<close>

lemma unannounced_file_is_read:
  "rw_status r = 200 \<Longrightarrow> rw_body r = Inr body \<Longrightarrow> rw_length r = None \<Longrightarrow>
   \<exists>p. fetchGitLabFileText decode (Inr r) maxBytes = Inr p \<and> pv_sizeBytes p = length body"
proof -
  assume r: "rw_status r = 200" "rw_body r = Inr body" "rw_length r = None"
  have "show_nat 0 = ''0''" by (subst show_nat.simps) (simp add: digit_char_def)
  then have "js_Number ''0'' = Finite 0 0"
    using js_Number_digits [of "show_nat 0"] is_digit_show_nat [of _ 0] read_show_nat [of 0]
    by (simp add: list_all_iff double_limit_def)
  with r show ?thesis
    by (simp add: fetchGitLabFileText_def raw_failure_def content_length_def)
qed

subsection \<open>Upload outcomes\<close>

lemma settled_upload: "foldl (\<lambda>r e. case r of None \<Rightarrow> xhr_outcome e | Some _ \<Rightarrow> r) (Some p) es = Some p"
  by (induction es) simp_all

text \<open>An upload settles with its first final event, and stays pending until there is one.\<close>

theorem upload_settles_once:
  "snd (xhrUpload es) = (case filter (\<lambda>e. xhr_outcome e \<noteq> None) es of [] \<Rightarrow> None | e # _ \<Rightarrow> xhr_outcome e)"
proof -
  have "foldl (\<lambda>r e. case r of None \<Rightarrow> xhr_outcome e | Some _ \<Rightarrow> r) None es =
      (case filter (\<lambda>e. xhr_outcome e \<noteq> None) es of [] \<Rightarrow> None | e # _ \<Rightarrow> xhr_outcome e)"
  proof (induction es)
    case (Cons e es)
    then show ?case by (cases "xhr_outcome e") (simp_all add: settled_upload)
  qed simp
  then show ?thesis by (simp add: xhrUpload_def)
qed

subsection \<open>The rows a page sees\<close>

datatype 'a ns_event = EnsureNs string | ReloadNs string | AnswerNs string "'a list promise"

fun ns_step :: "(string \<Rightarrow> http_request) \<Rightarrow> bool \<Rightarrow> 'a ns_keyed \<Rightarrow> 'a ns_event \<Rightarrow> 'a ns_keyed" where
  "ns_step listing api s (EnsureNs ns) = ensure_keyed listing api ns s"
| "ns_step listing api s (ReloadNs ns) = reload_keyed listing api ns s"
| "ns_step listing api s (AnswerNs ns r) = keyed_answered ns r s"

lemma ensure_keyed_rows [simp]:
  "nk_namespace (ensure_keyed listing api ns s) = nk_namespace s"
  "nk_items (ensure_keyed listing api ns s) = nk_items s"
  "nk_namespace (reload_keyed listing api ns s) = nk_namespace s"
  "nk_items (reload_keyed listing api ns s) = nk_items s"
  by (simp_all add: ensure_keyed_def reload_keyed_def)

definition ns_rows_ok :: "(string \<Rightarrow> 'a \<Rightarrow> bool) \<Rightarrow> 'a ns_keyed \<Rightarrow> bool" where
  "ns_rows_ok belongs s \<longleftrightarrow> (\<forall>x \<in> set (nk_items s). belongs (nk_namespace s) x)"

text \<open>
  Whatever the order of requests and answers, a page of one namespace never shows a row of another:
  the hook compares the namespace the store holds with the page's own.
\<close>

theorem pages_see_own_rows:
  assumes "\<And>ns items. AnswerNs ns (Inr items) \<in> set es \<Longrightarrow> \<forall>x \<in> set items. belongs ns x"
    and "x \<in> set (use_keyed ns (foldl (ns_step listing api) emptyKeyed es))"
  shows "belongs ns x"
proof -
  have "ns_rows_ok belongs (foldl (ns_step listing api) s es)"
    if "ns_rows_ok belongs s" for s
    using assms(1) that
  proof (induction es arbitrary: s)
    case (Cons e es)
    have "ns_rows_ok belongs (ns_step listing api s e)"
      using Cons.prems
      by (cases e) (auto simp: ns_rows_ok_def keyed_answered_def split: sum.splits)
    then show ?case
      using Cons.prems by (auto intro!: Cons.IH)
  qed simp
  from this [of emptyKeyed] assms(2) show ?thesis
    by (auto simp: ns_rows_ok_def use_keyed_def emptyKeyed_def split: if_splits)
qed

definition sample_config_row :: GitLabConfigDTO where
  "sample_config_row = \<lparr>gd_name = ''g'', gd_namespace = ''b'', gd_url = [], gd_username = None, gd_createdAt = None\<rparr>"

theorem pages_see_own_rows_witness:
  "gd_namespace sample_config_row = ''b'' \<and> sample_config_row \<in> set (use_keyed ''b''
     (foldl (ns_step listGitLabConfigs True) emptyKeyed
       [EnsureNs ''a'', EnsureNs ''b'', AnswerNs ''a'' (Inr []), AnswerNs ''b'' (Inr [sample_config_row])]))"
  (is "_ \<and> ?in")
proof -
  have shown: ?in by (simp add: use_keyed_def keyed_answered_def)
  have "gd_namespace sample_config_row = ''b''"
    by (rule pages_see_own_rows [where belongs = "\<lambda>ns x. gd_namespace x = ns", OF _ shown])
      (auto simp: sample_config_row_def)
  with shown show ?thesis by blast
qed

text \<open>
  One namespace at a time: an answer that arrives after the user has moved on takes the place of
  the rows of the namespace shown, whose page is empty until it loads again.
\<close>

lemma late_answer_blanks:
  "a \<noteq> b \<Longrightarrow> use_keyed b (keyed_answered a r' (keyed_answered b (Inr items) s)) = []"
  by (simp add: use_keyed_def keyed_answered_def)

end

