(* ===== verification/Session.thy ===== *)
theory Session
  imports Oidc Workloads Cluster_Resources Inference Training Components Models Notebooks Catalogues Playground_Store
begin

text \<open>
  \<open>frontend/src/auth/AuthContext.tsx\<close> and \<open>frontend/src/data/reset.ts\<close>: how a session starts, is
  refreshed, fails and ends, and the clearing of the seeded stores once a backend has admitted the
  user. The answers of the backend and of the provider are the fields of \<open>idp\<close>. A flow runs to its
  end, except for the login, which is started (\<open>startLogin\<close>) and answered later
  (\<open>login_answered\<close>), so that 401s may arrive in between.
\<close>

subsection \<open>Clearing the seeds\<close>

record app_stores =
  st_cleared :: bool
  st_components :: components
  st_cluster :: cluster_resources
  st_inference :: inference
  st_models :: models
  st_nodes :: nodes
  st_notebooks :: notebooks
  st_providers :: providers
  st_training :: training
  st_rbac :: rbac
  st_workloads :: workloads

definition clearSeedStoresForApiMode :: "app_stores \<Rightarrow> app_stores" where
  "clearSeedStoresForApiMode s =
     (if st_cleared s then s
      else \<lparr>st_cleared = True,
        st_components = (st_components s)\<lparr>catalog := []\<rparr>,
        st_cluster = (st_cluster s)\<lparr>k8sServices := [], configMaps := [], secrets := [], gateways := [], httpRoutes := []\<rparr>,
        st_inference = (st_inference s)\<lparr>runtimes := [], services := []\<rparr>,
        st_models = (st_models s)\<lparr>model_items := []\<rparr>,
        st_nodes = (st_nodes s)\<lparr>node_rows := []\<rparr>,
        st_notebooks = (st_notebooks s)\<lparr>notebook_rows := []\<rparr>,
        st_providers = (st_providers s)\<lparr>provider_rows := []\<rparr>,
        st_training = (st_training s)\<lparr>trainingRuntimes := [], trainJobs := []\<rparr>,
        st_rbac = (st_rbac s)\<lparr>user_rows := [], role_rows := [], binding_rows := []\<rparr>,
        st_workloads = (st_workloads s)\<lparr>deployments := [], pods := [], statefulSets := [], pvcs := []\<rparr>\<rparr>)"

text \<open>The number of rows the cleared stores hold.\<close>

definition seeded_rows :: "app_stores \<Rightarrow> nat" where
  "seeded_rows s =
     length (catalog (st_components s)) + length (k8sServices (st_cluster s)) + length (configMaps (st_cluster s)) +
     length (secrets (st_cluster s)) + length (gateways (st_cluster s)) + length (httpRoutes (st_cluster s)) +
     length (runtimes (st_inference s)) + length (services (st_inference s)) + length (model_items (st_models s)) +
     length (node_rows (st_nodes s)) + length (notebook_rows (st_notebooks s)) +
     length (provider_rows (st_providers s)) + length (trainingRuntimes (st_training s)) +
     length (trainJobs (st_training s)) + length (user_rows (st_rbac s)) + length (role_rows (st_rbac s)) +
     length (binding_rows (st_rbac s)) + length (deployments (st_workloads s)) + length (pods (st_workloads s)) +
     length (statefulSets (st_workloads s)) + length (pvcs (st_workloads s))"

subsection \<open>State\<close>

datatype auth_status = AuthLoading | Authenticated | Redirecting | AuthError
datatype auth_mode = Prototype | DevBypass | ModeOidc

record session =
  au_status :: auth_status
  au_mode :: auth_mode
  au_user :: "WhoamiUser option"
  au_error :: "string option"
  au_config :: "PublicAuthConfig option"
  au_discovery :: "OIDCDiscovery option"
  au_tokens :: "TokenSet option"
  au_booted :: bool
  au_redirecting :: bool
  au_client :: client
  au_browser :: browser
  au_stores :: app_stores
  au_route :: "string option"
  au_logins :: nat

text \<open>
  \<open>au_route\<close> is where \<open>navigate\<close> last went and \<open>au_logins\<close> counts the \<open>startLogin\<close> calls still
  waiting for the provider. The component mounts with the 401 handler registered.
\<close>

definition session_init :: "bool \<Rightarrow> browser \<Rightarrow> app_stores \<Rightarrow> session" where
  "session_init api b stores =
     \<lparr>au_status = AuthLoading, au_mode = (if api then ModeOidc else Prototype), au_user = None, au_error = None,
      au_config = None, au_discovery = None, au_tokens = None, au_booted = False, au_redirecting = False,
      au_client = \<lparr>bearerToken = None, unauthorizedHandler = True, handler_calls = 0\<rparr>,
      au_browser = b, au_stores = stores, au_route = None, au_logins = 0\<rparr>"

record idp =
  ip_config :: "PublicAuthConfig promise"
  ip_discovery :: "js_error + (int \<times> OIDCDiscovery)"
  ip_token :: "js_error + (int \<times> TokenResponse)"
  ip_whoami :: "WhoamiUser promise"
  ip_now :: int

text \<open>
  The stored token set as the code uses it. \<open>loadTokenSet\<close> yields the stored JSON; a field whose type
  is not that of a token set counts as missing here, which concerns entries no \<open>saveTokenSet\<close> wrote.
\<close>

fun text_field :: "string \<Rightarrow> json \<Rightarrow> string option" where
  "text_field k j = (case opt_field k (Some j) of Some (JStr s) \<Rightarrow> Some s | _ \<Rightarrow> None)"

definition token_of :: "json \<Rightarrow> TokenSet option" where
  "token_of j =
     (case text_field ''accessToken'' j of
        None \<Rightarrow> None
      | Some a \<Rightarrow> Some \<lparr>tk_accessToken = a, tk_refreshToken = text_field ''refreshToken'' j,
          tk_idToken = text_field ''idToken'' j, tk_tokenType = nullish (text_field ''tokenType'' j) '''',
          tk_expiresAt = (case opt_field ''expiresAt'' (Some j) of Some (JNum m e) \<Rightarrow> m * 10 ^ nat e | _ \<Rightarrow> 0),
          tk_scope = text_field ''scope'' j\<rparr>)"

definition stored_tokens :: "browser \<Rightarrow> TokenSet option" where
  "stored_tokens b = Option.bind (loadTokenSet b) token_of"

subsection \<open>Steps\<close>

definition loadAuthConfig :: "idp \<Rightarrow> session \<Rightarrow> PublicAuthConfig promise \<times> session" where
  "loadAuthConfig env s =
     (case au_config s of
        Some c \<Rightarrow> (Inr c, s)
      | None \<Rightarrow>
          (case ip_config env of
             Inl e \<Rightarrow> (Inl e, s)
           | Inr c \<Rightarrow>
               if ac_issuer c = [] \<or> ac_clientId c = []
               then (Inl (JsError ''Backend did not return OIDC issuer and clientId''), s)
               else (Inr c, s\<lparr>au_config := Some c\<rparr>)))"

definition loadDiscovery :: "idp \<Rightarrow> PublicAuthConfig \<Rightarrow> session \<Rightarrow> OIDCDiscovery promise \<times> session" where
  "loadDiscovery env config s =
     (case au_discovery s of
        Some d \<Rightarrow> (Inr d, s)
      | None \<Rightarrow>
          (case discoverOIDC config (ip_discovery env) of
             Inl e \<Rightarrow> (Inl e, s)
           | Inr d \<Rightarrow> (Inr d, s\<lparr>au_discovery := Some d\<rparr>)))"

text \<open>The two awaits every flow that talks to the provider begins with.\<close>

definition load_provider :: "idp \<Rightarrow> session \<Rightarrow> (PublicAuthConfig \<times> OIDCDiscovery) promise \<times> session" where
  "load_provider env s =
     (case loadAuthConfig env s of
        (Inl e, s1) \<Rightarrow> (Inl e, s1)
      | (Inr c, s1) \<Rightarrow>
          (case loadDiscovery env c s1 of
             (Inl e, s2) \<Rightarrow> (Inl e, s2)
           | (Inr d, s2) \<Rightarrow> (Inr (c, d), s2)))"

definition startLogin :: "session \<Rightarrow> session" where
  "startLogin s =
     (if au_redirecting s then s
      else s\<lparr>au_redirecting := True, au_status := Redirecting, au_logins := Suc (au_logins s)\<rparr>)"

definition login_answered ::
  "idp \<Rightarrow> (string \<Rightarrow> string) \<Rightarrow> string \<Rightarrow> string \<Rightarrow> string \<Rightarrow> string \<Rightarrow> session \<Rightarrow> session" where
  "login_answered env sha256 r1 r2 r3 returnTo s =
     (case load_provider env (s\<lparr>au_logins := au_logins s - 1\<rparr>) of
        (Inr (c, d), s') \<Rightarrow>
          s'\<lparr>au_browser := beginOIDCLogin sha256 r1 r2 r3 c d returnTo (au_browser s')\<rparr>
      | (Inl e, s') \<Rightarrow>
          s'\<lparr>au_redirecting := False, au_status := AuthError, au_error := Some (js_message e)\<rparr>)"

definition drop_tokens :: "session \<Rightarrow> session" where
  "drop_tokens s =
     s\<lparr>au_browser := clearStoredAuth (au_browser s), au_client := setBearerToken None (au_client s),
       au_tokens := None\<rparr>"

definition clearAndLogin :: "session \<Rightarrow> session" where
  "clearAndLogin s = startLogin (drop_tokens s)"

definition use_tokens :: "TokenSet \<Rightarrow> session \<Rightarrow> session" where
  "use_tokens t s =
     s\<lparr>au_tokens := Some t, au_client := setBearerToken (Some (tk_accessToken t)) (au_client s)\<rparr>"

definition admit :: "idp \<Rightarrow> auth_mode \<Rightarrow> session \<Rightarrow> unit promise \<times> session" where
  "admit env mode s =
     (case ip_whoami env of
        Inl e \<Rightarrow> (Inl e, s)
      | Inr remote \<Rightarrow>
          (Inr (), s\<lparr>au_stores := clearSeedStoresForApiMode (au_stores s), au_user := Some remote,
             au_mode := mode, au_status := Authenticated, au_error := None\<rparr>))"

definition finishCallback :: "idp \<Rightarrow> string \<Rightarrow> session \<Rightarrow> unit promise \<times> session" where
  "finishCallback env query s =
     (case load_provider env s of
        (Inl e, s1) \<Rightarrow> (Inl e, s1)
      | (Inr (c, d), s1) \<Rightarrow>
          (case completeOIDCCallback c d query (ip_now env) (ip_token env) (au_browser s1) of
             (Inl e, b) \<Rightarrow> (Inl e, s1\<lparr>au_browser := b\<rparr>)
           | (Inr (t, returnTo), b) \<Rightarrow>
               (case admit env ModeOidc (use_tokens t (s1\<lparr>au_browser := saveTokenSet t b\<rparr>)) of
                  (Inl e, s2) \<Rightarrow> (Inl e, s2)
                | (Inr _, s2) \<Rightarrow> (Inr (), s2\<lparr>au_route := Some (or_str returnTo ''/'')\<rparr>))))"

definition refresh_tokens :: "idp \<Rightarrow> TokenSet \<Rightarrow> session \<Rightarrow> TokenSet promise \<times> session" where
  "refresh_tokens env t s =
     (case load_provider env s of
        (Inl e, s1) \<Rightarrow> (Inl e, s1)
      | (Inr (c, d), s1) \<Rightarrow>
          (case refreshOIDCToken c d t (ip_now env) (ip_token env) (au_browser s1) of
             (Inl e, b) \<Rightarrow> (Inl e, s1\<lparr>au_browser := b\<rparr>)
           | (Inr t', b) \<Rightarrow> (Inr t', s1\<lparr>au_browser := saveTokenSet t' b\<rparr>)))"

definition with_tokens :: "idp \<Rightarrow> TokenSet option \<Rightarrow> session \<Rightarrow> unit promise \<times> session" where
  "with_tokens env tokens s =
     (case tokens of
        Some t \<Rightarrow> admit env ModeOidc (use_tokens t s)
      | None \<Rightarrow> admit env DevBypass (s\<lparr>au_client := setBearerToken None (au_client s)\<rparr>))"

text \<open>The \<open>catch\<close> of \<open>bootstrap\<close>.\<close>

definition settle_boot :: "unit promise \<times> session \<Rightarrow> session" where
  "settle_boot p =
     (case p of
        (Inr _, s) \<Rightarrow> s
      | (Inl (ApiError st msg), s) \<Rightarrow>
          if st = 401 then clearAndLogin s else s\<lparr>au_status := AuthError, au_error := Some msg\<rparr>
      | (Inl (JsError msg), s) \<Rightarrow> s\<lparr>au_status := AuthError, au_error := Some msg\<rparr>)"

definition bootstrap :: "bool \<Rightarrow> idp \<Rightarrow> string \<Rightarrow> session \<Rightarrow> session" where
  "bootstrap api env query s =
     (if \<not> api then s\<lparr>au_mode := Prototype, au_status := Authenticated\<rparr>
      else if isCallbackPath query then settle_boot (finishCallback env query s)
      else
        (case stored_tokens (au_browser s) of
           Some t \<Rightarrow>
             if hasUsableAccessToken (ip_now env) (Some t) then settle_boot (with_tokens env (Some t) s)
             else (case refresh_tokens env t s of
                 (Inl e, s') \<Rightarrow> clearAndLogin s'
               | (Inr t', s') \<Rightarrow> settle_boot (with_tokens env (Some t') s'))
         | None \<Rightarrow> settle_boot (with_tokens env None s)))"

definition boot_once :: "bool \<Rightarrow> idp \<Rightarrow> string \<Rightarrow> session \<Rightarrow> session" where
  "boot_once api env query s = (if au_booted s then s else bootstrap api env query (s\<lparr>au_booted := True\<rparr>))"

definition retry :: "bool \<Rightarrow> idp \<Rightarrow> string \<Rightarrow> session \<Rightarrow> session" where
  "retry api env query s =
     bootstrap api env query
       (s\<lparr>au_status := AuthLoading, au_error := None, au_booted := False, au_redirecting := False\<rparr>)"

definition logout :: "session \<Rightarrow> session" where
  "logout s =
     (let target = nullish (logoutURL (au_discovery s) (au_tokens s) (au_browser s)) ''/'';
          s' = drop_tokens s
      in s'\<lparr>au_user := None, au_status := Redirecting,
            au_browser := (au_browser s')\<lparr>assigned := Some (or_str target ''/'')\<rparr>\<rparr>)"
subsection \<open>Events\<close>

text \<open>
  What can happen to a session: the page boots when it mounts (twice, in strict mode), a request of a page comes back 401, the provider's
  answer to a started login arrives, and the buttons: retry and sign-in are shown by the error screen
  only.
\<close>

datatype session_event =
    Boot idp string
  | Retry idp string
  | LoginClick
  | Rejected401
  | LoginAnswer idp string string string string string
  | Logout

fun session_step :: "bool \<Rightarrow> session \<Rightarrow> session_event \<Rightarrow> session" where
  "session_step api s (Boot env query) = (if au_status s = AuthLoading then boot_once api env query s else s)"
| "session_step api s (Retry env query) = (if au_status s = AuthError then retry api env query s else s)"
| "session_step api s LoginClick = (if au_status s = AuthError then startLogin s else s)"
| "session_step api s Rejected401 = (if au_status s = AuthLoading then s else clearAndLogin s)"
| "session_step api s (LoginAnswer env digest r1 r2 r3 returnTo) =
     (if au_logins s = 0 then s else login_answered env (\<lambda>_. digest) r1 r2 r3 returnTo s)"
| "session_step api s Logout = (if au_status s = Authenticated then logout s else s)"

subsection \<open>Invariant\<close>

text \<open>The bearer token of the client is that of the token set held, which is the one stored.\<close>

definition tokens_agree :: "session \<Rightarrow> bool" where
  "tokens_agree s \<longleftrightarrow>
     bearerToken (au_client s) = map_option tk_accessToken (au_tokens s) \<and>
     (au_tokens s = None \<or> stored_tokens (au_browser s) = au_tokens s)"

definition logins_ok :: "session \<Rightarrow> bool" where
  "logins_ok s \<longleftrightarrow> au_logins s \<le> 1 \<and> (au_logins s = 1 \<longrightarrow> au_redirecting s) \<and>
     (au_redirecting s \<longrightarrow> au_status s = Redirecting)"

definition admitted_ok :: "session \<Rightarrow> bool" where
  "admitted_ok s \<longleftrightarrow>
     (au_status s = Authenticated \<longrightarrow> au_user s \<noteq> None \<and> st_cleared (au_stores s) \<and>
        au_mode s = (if au_tokens s = None then DevBypass else ModeOidc))"

text \<open>What a step of a flow keeps while the page is loading.\<close>

definition idle :: "session \<Rightarrow> bool" where
  "idle s \<longleftrightarrow> au_logins s = 0 \<and> \<not> au_redirecting s \<and> au_status s = AuthLoading"

definition loading_ok :: "session \<Rightarrow> bool" where
  "loading_ok s \<longleftrightarrow> tokens_agree s \<and> idle s"

definition session_ok :: "session \<Rightarrow> bool" where
  "session_ok s \<longleftrightarrow> tokens_agree s \<and> logins_ok s \<and> admitted_ok s"

lemma token_of_saved: "token_of (token_json t) = Some t"
  by (cases "tk_refreshToken t"; cases "tk_idToken t"; cases "tk_scope t"; simp add: token_of_def token_json_def)

lemma stored_saved: "tk_accessToken t \<noteq> [] \<Longrightarrow> stored_tokens (saveTokenSet t b) = Some t"
  using token_text [of t]
  by (simp add: stored_tokens_def loadTokenSet_def saveTokenSet_def parse_stringify [OF wf_token_json]
      access_field token_of_saved)

lemma stored_cleared [simp]: "stored_tokens (clearStoredAuth b) = None"
  by (simp add: stored_tokens_def loadTokenSet_def clearStoredAuth_def)

lemma stored_frame [simp]:
  "stored_tokens (b\<lparr>session_pending := p\<rparr>) = stored_tokens b"
  "stored_tokens (b\<lparr>assigned := a\<rparr>) = stored_tokens b"
  "stored_tokens (b\<lparr>token_posts := ps\<rparr>) = stored_tokens b"
  by (simp_all add: stored_tokens_def loadTokenSet_def)

lemma set_bearer [simp]:
  "bearerToken (setBearerToken t c) = t" "unauthorizedHandler (setBearerToken t c) = unauthorizedHandler c"
  by (simp_all add: setBearerToken_def)

lemma callback_keeps_stored:
  "completeOIDCCallback c d query now_ms answer b = (r, b') \<Longrightarrow> stored_tokens b' = stored_tokens b"
  by (auto simp: completeOIDCCallback_def Let_def exchangeToken_def
      split: if_splits sum.splits prod.splits)

lemma callback_token:
  "completeOIDCCallback c d query now_ms answer b = (Inr (t, r), b') \<Longrightarrow> tk_accessToken t \<noteq> []"
  by (auto simp: completeOIDCCallback_def Let_def exchangeToken_def toTokenSet_def truthy_str_def
      split: if_splits sum.splits prod.splits option.splits)

lemma refresh_keeps_stored:
  "refreshOIDCToken c d t now_ms answer b = (r, b') \<Longrightarrow> stored_tokens b' = stored_tokens b"
  by (auto simp: refreshOIDCToken_def exchangeToken_def split: if_splits sum.splits prod.splits)

lemma refresh_token_nonempty:
  "refreshOIDCToken c d t now_ms answer b = (Inr t', b') \<Longrightarrow> tk_accessToken t' \<noteq> []"
  by (auto simp: refreshOIDCToken_def exchangeToken_def toTokenSet_def truthy_str_def
      split: if_splits sum.splits prod.splits option.splits)

text \<open>Loading the configuration and the discovery only fills the two caches.\<close>

lemma load_provider_frame:
  "load_provider env s = (r, s') \<Longrightarrow> s' = s\<lparr>au_config := au_config s', au_discovery := au_discovery s'\<rparr>"
  by (cases s) (auto simp: load_provider_def loadAuthConfig_def loadDiscovery_def
      split: option.splits sum.splits if_splits prod.splits)

lemma tokens_agree_frame [simp]:
  "tokens_agree (s\<lparr>au_config := c\<rparr>) = tokens_agree s" "tokens_agree (s\<lparr>au_discovery := d\<rparr>) = tokens_agree s"
  "tokens_agree (s\<lparr>au_status := st\<rparr>) = tokens_agree s" "tokens_agree (s\<lparr>au_error := e\<rparr>) = tokens_agree s"
  "tokens_agree (s\<lparr>au_mode := m\<rparr>) = tokens_agree s" "tokens_agree (s\<lparr>au_user := u\<rparr>) = tokens_agree s"
  "tokens_agree (s\<lparr>au_stores := ss\<rparr>) = tokens_agree s" "tokens_agree (s\<lparr>au_route := rt\<rparr>) = tokens_agree s"
  "tokens_agree (s\<lparr>au_redirecting := rd\<rparr>) = tokens_agree s" "tokens_agree (s\<lparr>au_logins := n\<rparr>) = tokens_agree s"
  "tokens_agree (s\<lparr>au_booted := bt\<rparr>) = tokens_agree s"
  by (simp_all add: tokens_agree_def)

lemma drop_tokens_agree [simp]: "tokens_agree (drop_tokens s)"
  by (simp add: drop_tokens_def tokens_agree_def)

lemma use_tokens_agree:
  "stored_tokens (au_browser s) = Some t \<Longrightarrow> tokens_agree (use_tokens t s)"
  by (simp add: use_tokens_def tokens_agree_def)


lemma idle_frame [simp]:
  "idle (s\<lparr>au_config := c\<rparr>) = idle s" "idle (s\<lparr>au_discovery := d\<rparr>) = idle s"
  "idle (s\<lparr>au_browser := b\<rparr>) = idle s" "idle (use_tokens t s) = idle s"
  "idle (s\<lparr>au_client := cl\<rparr>) = idle s" "idle (s\<lparr>au_booted := bt\<rparr>) = idle s"
  by (simp_all add: idle_def use_tokens_def)

lemma loading_ok_frame [simp]:
  "loading_ok (s\<lparr>au_config := c, au_discovery := d\<rparr>) = loading_ok s"
  "stored_tokens b = stored_tokens (au_browser s) \<Longrightarrow> loading_ok (s\<lparr>au_browser := b\<rparr>) = loading_ok s"
  by (simp_all add: loading_ok_def tokens_agree_def)

lemma load_provider_ok:
  "load_provider env s = (r, s') \<Longrightarrow> loading_ok s \<Longrightarrow> loading_ok s' \<and> au_browser s' = au_browser s"
  by (drule load_provider_frame, frule arg_cong [of s' _ loading_ok], drule arg_cong [of s' _ au_browser]) simp


lemma use_tokens_ok:
  "idle s \<Longrightarrow> stored_tokens (au_browser s) = Some t \<Longrightarrow> loading_ok (use_tokens t s)"
  by (simp add: loading_ok_def use_tokens_agree)

lemma admit_ok:
  assumes "loading_ok s" "mode = (if au_tokens s = None then DevBypass else ModeOidc)"
    and "admit env mode s = (r, s')"
  shows "case r of Inl e \<Rightarrow> s' = s | Inr _ \<Rightarrow> session_ok s'"
  using assms
  by (auto simp: admit_def session_ok_def loading_ok_def idle_def logins_ok_def admitted_ok_def
      clearSeedStoresForApiMode_def split: sum.splits)

lemma clearAndLogin_ok: "logins_ok s \<Longrightarrow> session_ok (clearAndLogin s)"
  by (auto simp: clearAndLogin_def startLogin_def session_ok_def logins_ok_def admitted_ok_def)
    (auto simp: drop_tokens_def)

lemma loading_logins: "loading_ok s \<Longrightarrow> logins_ok s"
  by (simp add: loading_ok_def idle_def logins_ok_def)

text \<open>The outcome of a part of the boot: still loading when it failed, admitted when it succeeded.\<close>

definition boot_ok :: "unit promise \<times> session \<Rightarrow> bool" where
  "boot_ok p \<longleftrightarrow> (case fst p of Inl e \<Rightarrow> loading_ok (snd p) | Inr _ \<Rightarrow> session_ok (snd p))"

lemma settle_boot_ok: "boot_ok p \<Longrightarrow> session_ok (settle_boot p)"
  by (auto simp: settle_boot_def boot_ok_def clearAndLogin_ok loading_logins
      split: sum.splits prod.splits js_error.splits)
    (simp_all add: session_ok_def loading_ok_def idle_def logins_ok_def admitted_ok_def)

lemma admit_boot_ok:
  "loading_ok s \<Longrightarrow> mode = (if au_tokens s = None then DevBypass else ModeOidc) \<Longrightarrow>
   boot_ok (admit env mode s)"
  using admit_ok [of s mode env "fst (admit env mode s)" "snd (admit env mode s)"]
  by (auto simp: boot_ok_def split: sum.splits)

lemma with_tokens_some:
  "idle s \<Longrightarrow> stored_tokens (au_browser s) = Some t \<Longrightarrow> boot_ok (with_tokens env (Some t) s)"
  using admit_boot_ok [of "use_tokens t s" ModeOidc env] use_tokens_ok [of s t]
  by (simp add: with_tokens_def) (simp add: use_tokens_def)

lemma with_tokens_none:
  assumes "loading_ok s" "stored_tokens (au_browser s) = None"
  shows "boot_ok (with_tokens env None s)"
proof -
  from assms have "au_tokens s = None" by (auto simp: loading_ok_def tokens_agree_def)
  with assms(1) show ?thesis
    by (simp add: with_tokens_def) (rule admit_boot_ok; simp add: loading_ok_def tokens_agree_def)
qed

lemma refresh_tokens_ok:
  assumes "loading_ok s" "refresh_tokens env t s = (r, s')"
  shows "idle s' \<and> logins_ok s' \<and> (\<forall>t'. r = Inr t' \<longrightarrow> stored_tokens (au_browser s') = Some t')"
proof -
  obtain p s1 where p: "load_provider env s = (p, s1)" by fastforce
  then have s1: "loading_ok s1" using load_provider_ok assms(1) by blast
  with assms(2) have "idle s' \<and> (\<forall>t'. r = Inr t' \<longrightarrow> stored_tokens (au_browser s') = Some t')"
    by (auto simp: refresh_tokens_def p loading_ok_def dest: refresh_token_nonempty
        intro!: stored_saved split: sum.splits prod.splits)
  then show ?thesis by (simp add: idle_def logins_ok_def)
qed

lemma load_provider_idle: "load_provider env s = (r, s') \<Longrightarrow> idle s' = idle s"
  by (drule load_provider_frame, drule arg_cong [of s' _ idle]) simp

lemma refresh_tokens_idle: "refresh_tokens env t s = (r, s1) \<Longrightarrow> idle s1 = idle s"
  by (auto simp: refresh_tokens_def dest: load_provider_idle split: sum.splits prod.splits)

lemma finishCallback_ok:
  assumes "loading_ok s"
  shows "boot_ok (finishCallback env query s)"
proof -
  obtain p s1 where p: "load_provider env s = (p, s1)" by fastforce
  then have s1: "loading_ok s1" using load_provider_ok assms by blast
  show ?thesis
  proof (cases p)
    case (Inl e)
    with s1 show ?thesis by (simp add: finishCallback_def p boot_ok_def)
  next
    case (Inr cd)
    then obtain c d where cd: "p = Inr (c, d)" by (cases cd) auto
    obtain q b where q: "completeOIDCCallback c d query (ip_now env) (ip_token env) (au_browser s1) = (q, b)"
      by fastforce
    show ?thesis
    proof (cases q)
      case (Inl e)
      with s1 callback_keeps_stored [OF q] show ?thesis
        by (simp add: finishCallback_def p cd q boot_ok_def)
    next
      case (Inr tr)
      then obtain t r where tr: "q = Inr (t, r)" by (cases tr) auto
      let ?s = "use_tokens t (s1\<lparr>au_browser := saveTokenSet t b\<rparr>)"
      have "loading_ok ?s"
        using s1 callback_token [of c d query "ip_now env" "ip_token env" "au_browser s1" t r b] q tr
        by (intro use_tokens_ok) (simp_all add: loading_ok_def stored_saved)
      then have "boot_ok (admit env ModeOidc ?s)"
        by (rule admit_boot_ok) (simp add: use_tokens_def)
      then show ?thesis
        by (auto simp: finishCallback_def p cd q tr boot_ok_def session_ok_def logins_ok_def admitted_ok_def
            split: sum.splits prod.splits)
    qed
  qed
qed

lemma bootstrap_ok:
  assumes "loading_ok s"
  shows "session_ok (bootstrap True env query s)"
proof (cases "isCallbackPath query \<or> stored_tokens (au_browser s) = None")
  case True
  with assms show ?thesis
    by (auto simp: bootstrap_def intro!: settle_boot_ok finishCallback_ok with_tokens_none)
next
  case False
  then obtain t where t: "stored_tokens (au_browser s) = Some t" by auto
  obtain r s' where r: "refresh_tokens env t s = (r, s')" by fastforce
  have "session_ok (settle_boot (with_tokens env (Some t) s))"
    using assms t by (intro settle_boot_ok with_tokens_some) (simp_all add: loading_ok_def)
  moreover have "session_ok (case refresh_tokens env t s of
      (Inl e, s') \<Rightarrow> clearAndLogin s' | (Inr t', s') \<Rightarrow> settle_boot (with_tokens env (Some t') s'))"
    using refresh_tokens_ok [OF assms r]
    by (cases r) (auto simp: r clearAndLogin_ok intro!: settle_boot_ok with_tokens_some)
  ultimately show ?thesis
    using False by (simp add: bootstrap_def t)
qed


lemma startLogin_ok: "session_ok s \<Longrightarrow> session_ok (startLogin s)"
  by (auto simp: startLogin_def session_ok_def logins_ok_def admitted_ok_def)

lemma login_answered_ok:
  assumes "session_ok s" "au_logins s \<noteq> 0"
  shows "session_ok (login_answered env sha256 r1 r2 r3 returnTo s)"
proof -
  obtain p s' where p: "load_provider env (s\<lparr>au_logins := au_logins s - Suc 0\<rparr>) = (p, s')" by fastforce
  from load_provider_frame [OF p]
  have s': "s' = s\<lparr>au_logins := au_logins s - Suc 0, au_config := au_config s', au_discovery := au_discovery s'\<rparr>"
    by simp
  have "au_logins s = 1" "au_redirecting s" "au_status s = Redirecting"
    using assms by (auto simp: session_ok_def logins_ok_def)
  then have "session_ok s'" "au_status s' = Redirecting" "tokens_agree s'" "au_logins s' = 0"
    using assms(1) by (subst s', simp add: session_ok_def logins_ok_def admitted_ok_def)+
  then show ?thesis
    by (auto simp: login_answered_def p session_ok_def logins_ok_def admitted_ok_def beginOIDCLogin_def
        tokens_agree_def split: sum.splits)
qed

lemma logout_ok: "session_ok s \<Longrightarrow> au_status s = Authenticated \<Longrightarrow> session_ok (logout s)"
  by (auto simp: logout_def Let_def session_ok_def logins_ok_def admitted_ok_def drop_tokens_def tokens_agree_def)

lemma loading_reset:
  "session_ok s \<Longrightarrow> au_status s = AuthError \<Longrightarrow>
   loading_ok (s\<lparr>au_status := AuthLoading, au_error := None, au_booted := False, au_redirecting := False\<rparr>)"
  by (auto simp: session_ok_def logins_ok_def loading_ok_def idle_def)

lemma loading_now: "session_ok s \<Longrightarrow> au_status s = AuthLoading \<Longrightarrow> loading_ok (s\<lparr>au_booted := b\<rparr>)"
  by (auto simp: session_ok_def logins_ok_def loading_ok_def idle_def)

lemma clearAndLogin_session: "session_ok s \<Longrightarrow> session_ok (clearAndLogin s)"
  by (rule clearAndLogin_ok) (simp add: session_ok_def)

lemma session_step_ok: "session_ok s \<Longrightarrow> session_ok (session_step True s e)"
  by (cases e)
    (simp_all add: boot_once_def retry_def bootstrap_ok loading_now loading_reset startLogin_ok
      clearAndLogin_session login_answered_ok logout_ok)

lemma session_init_ok: "session_ok (session_init True b stores)"
  by (simp add: session_init_def session_ok_def tokens_agree_def logins_ok_def admitted_ok_def)

lemma session_reach_ok: "session_ok (foldl (session_step True) (session_init True b stores) es)"
proof -
  have "session_ok s \<Longrightarrow> session_ok (foldl (session_step True) s es)" for s
    by (induction es arbitrary: s) (simp_all add: session_step_ok)
  then show ?thesis using session_init_ok by blast
qed

subsection \<open>Properties\<close>

text \<open>The stores as the modules are loaded; the seeded training jobs are an argument.\<close>

definition stores_init :: "TrainJob list \<Rightarrow> (nat \<Rightarrow> string) \<Rightarrow> string \<Rightarrow> app_stores" where
  "stores_init jobs draw today =
     \<lparr>st_cleared = False, st_components = components_init, st_cluster = cluster_init draw today,
      st_inference = inference_init draw today,
      st_models = \<lparr>loaded = {}, in_flight = [], model_items = models_initial draw today\<rparr>,
      st_nodes = \<lparr>is_loaded = False, pending_fetches = [], node_rows = nodesInitial\<rparr>,
      st_notebooks = notebooks_init draw today, st_providers = providers_init draw,
      st_training = \<lparr>loaded = {}, in_flight = [], trainingRuntimes = trainingRuntimesInitial draw today,
        trainJobs = jobs\<rparr>,
      st_rbac = rbac_init draw today, st_workloads = workloads_init draw today\<rparr>"

definition sample_stores :: app_stores where
  "sample_stores = stores_init [] (\<lambda>_. ''seed'') ''2026-01-01''"

definition sample_user :: WhoamiUser where
  "sample_user = \<lparr>who_subject = ''sub'', who_email = ''ada@example.com'', who_name = ''ada'', who_groups = [],
     who_isPlatformAdmin = False\<rparr>"

definition sample_idp :: idp where
  "sample_idp = \<lparr>ip_config = Inr sample_config, ip_discovery = Inr (200, sample_discovery),
     ip_token = Inr (200, sample_answer), ip_whoami = Inr sample_user, ip_now = 0\<rparr>"


lemma sample_boot:
  "foldl (session_step True) (session_init True sample_browser sample_stores) [Boot sample_idp []] =
     (session_init True sample_browser sample_stores)\<lparr>au_booted := True, au_mode := DevBypass,
       au_status := Authenticated, au_user := Some sample_user,
       au_stores := clearSeedStoresForApiMode sample_stores\<rparr>"
  by (simp add: session_init_def boot_once_def bootstrap_def isCallbackPath_def read_params_def stored_tokens_def
      loadTokenSet_def sample_browser_def with_tokens_def admit_def sample_idp_def settle_boot_def setBearerToken_def)


text \<open>
  C8. A 401 ends the session at once: tokens are gone from the client, the session and the browser, a
  reload does not find them, the page shows the redirect screen, and one login is started however
  many requests fail; what the stores hold is kept.
\<close>

theorem rejected_session_ends:
  assumes "s = foldl (session_step True) (session_init True b stores) es" "au_status s = Authenticated"
    and "s' = foldl (session_step True) s (replicate (Suc n) Rejected401)"
  shows "au_status s' = Redirecting \<and> au_logins s' = 1 \<and> au_tokens s' = None \<and>
    bearerToken (au_client s') = None \<and> stored_tokens (au_browser s') = None \<and>
    readPendingLogin (au_browser s') = None \<and> au_stores s' = au_stores s"
proof -
  have ok: "au_logins s = 0" "\<not> au_redirecting s"
    using session_reach_ok [of b stores es] assms(1,2) by (auto simp: session_ok_def logins_ok_def)
  have again: "clearAndLogin (clearAndLogin t) = clearAndLogin t" for t
    by (simp add: clearAndLogin_def startLogin_def drop_tokens_def clearStoredAuth_def setBearerToken_def)
  have "foldl (session_step True) (clearAndLogin t) (replicate m Rejected401) = clearAndLogin t"
    if "au_status (clearAndLogin t) \<noteq> AuthLoading" for t m
    using that by (induction m) (simp_all add: again)
  moreover have "au_status (clearAndLogin s) = Redirecting"
    using ok by (simp add: clearAndLogin_def startLogin_def drop_tokens_def)
  ultimately have "s' = clearAndLogin s" using assms(2,3) by simp
  with ok show ?thesis
    by (simp add: clearAndLogin_def startLogin_def drop_tokens_def)
      (simp add: readPendingLogin_def clearStoredAuth_def)
qed

theorem rejected_session_ends_witness:
  "au_logins (foldl (session_step True) (foldl (session_step True) (session_init True sample_browser sample_stores)
     [Boot sample_idp []]) (replicate (Suc 2) Rejected401)) = 1"
  using rejected_session_ends [where es = "[Boot sample_idp []]" and b = sample_browser
      and stores = sample_stores and n = 2, OF refl _ refl]
  unfolding sample_boot by simp





text \<open>
  The seeds go once, and only once: the first admission empties all twenty-one stores of the
  prototype, every later one leaves them as they are, so rows loaded in between survive.
\<close>

theorem seeds_cleared_once:
  "seeded_rows (clearSeedStoresForApiMode s) = (if st_cleared s then seeded_rows s else 0) \<and>
   (st_cleared s \<longrightarrow> clearSeedStoresForApiMode s = s) \<and>
   st_cleared (clearSeedStoresForApiMode s) \<and>
   0 < seeded_rows sample_stores"
  by (simp add: clearSeedStoresForApiMode_def seeded_rows_def sample_stores_def stores_init_def
      components_init_def seedCatalog_def)

theorem seeds_cleared_once_witness:
  "clearSeedStoresForApiMode (clearSeedStoresForApiMode sample_stores) = clearSeedStoresForApiMode sample_stores"
  using seeds_cleared_once [where s = sample_stores]
    seeds_cleared_once [where s = "clearSeedStoresForApiMode sample_stores"] by blast

text \<open>
  A failed callback cannot be retried: whatever the provider and the backend would answer, a retry on
  the same URL fails without posting anything, for the first attempt took the pending login out of
  the storage (and filled the two caches).
\<close>

lemma failed_callback_stays_failed:
  assumes "isCallbackPath query" "readPendingLogin (au_browser s) = None"
    and "au_config s = Some c" "au_discovery s = Some d" "au_status s = AuthError"
  shows "au_status (session_step True s (Retry env query)) = AuthError"
    "au_browser (session_step True s (Retry env query)) = au_browser s"
proof -
  have "\<exists>msg. completeOIDCCallback c d query (ip_now env) (ip_token env) (au_browser s) =
      (Inl (JsError msg), au_browser s)"
    using assms(2) by (auto simp: completeOIDCCallback_def Let_def)
  then show "au_status (session_step True s (Retry env query)) = AuthError"
    "au_browser (session_step True s (Retry env query)) = au_browser s"
    using assms by (auto simp: retry_def bootstrap_def finishCallback_def load_provider_def loadAuthConfig_def
        loadDiscovery_def settle_boot_def)
qed

end
