(* ===== verification/App_Context.thy ===== *)
theory App_Context
  imports Users_Rbac Oidc
begin

text \<open>
  \<open>frontend/src/context/AppContext.tsx\<close>: the user with the roles a page may ask about, the namespaces
  on offer and the one selected, and the theme, with what \<open>localStorage\<close> keeps of them. The effect
  that follows signing in sets the user, then waits for the namespaces, then, for a platform
  admin, for the user list.
\<close>

subsection \<open>State\<close>

record User =
  usr_name :: string
  usr_email :: string
  usr_isPlatformAdmin :: bool
  usr_memberships :: "NamespaceRole js_map"

datatype ThemeMode = Light | Dark | Auto

fun theme_text :: "ThemeMode \<Rightarrow> string" where
  "theme_text Light = ''light''"
| "theme_text Dark = ''dark''"
| "theme_text Auto = ''auto''"

record app_context =
  cx_user :: User
  cx_namespaces :: "string list"
  cx_namespace :: string
  cx_themeMode :: ThemeMode
  cx_prefersDark :: bool
  kept_namespace :: "string option"
  kept_theme :: "string option"

definition initial_user :: "bool \<Rightarrow> User" where
  "initial_user api =
     \<lparr>usr_name = (if api then [] else ''alice''), usr_email = (if api then [] else ''alice@example.com''),
      usr_isPlatformAdmin = (\<not> api),
      usr_memberships = (if api then []
        else [(''team-ml'', RoleAdmin), (''team-vision'', RoleEditor), (''team-llm'', RoleViewer)])\<rparr>"

definition initial_namespaces :: "bool \<Rightarrow> string list" where
  "initial_namespaces api = (if api then [] else [''team-ml'', ''team-vision'', ''team-llm'']) @ [''default'']"

definition initial_namespace :: "bool \<Rightarrow> string option \<Rightarrow> string" where
  "initial_namespace api kept =
     (if truthy_str kept then nullish kept '''' else if api then ''default'' else ''team-ml'')"

definition read_theme :: "string option \<Rightarrow> ThemeMode" where
  "read_theme v =
     (if v = Some ''light'' then Light else if v = Some ''dark'' then Dark else Auto)"

definition AppProvider :: "bool \<Rightarrow> string option \<Rightarrow> string option \<Rightarrow> bool \<Rightarrow> app_context" where
  "AppProvider api kept theme prefers =
     \<lparr>cx_user = initial_user api, cx_namespaces = initial_namespaces api,
      cx_namespace = initial_namespace api kept, cx_themeMode = read_theme theme, cx_prefersDark = prefers,
      kept_namespace = kept, kept_theme = theme\<rparr>"

subsection \<open>Setters\<close>

text \<open>
  \<open>writable\<close> says whether \<open>localStorage.setItem\<close> succeeds. Choosing a namespace ignores a failure;
  choosing a theme lets it through before the theme is set.
\<close>

definition setNamespace :: "bool \<Rightarrow> (string \<Rightarrow> string) \<Rightarrow> app_context \<Rightarrow> app_context" where
  "setNamespace writable updater s =
     (let chosen = updater (cx_namespace s)
      in s\<lparr>cx_namespace := chosen, kept_namespace := (if writable then Some chosen else kept_namespace s)\<rparr>)"

definition setThemeMode :: "bool \<Rightarrow> ThemeMode \<Rightarrow> app_context \<Rightarrow> unit promise \<times> app_context" where
  "setThemeMode writable m s =
     (if writable then (Inr (), s\<lparr>cx_themeMode := m, kept_theme := Some (theme_text m)\<rparr>)
      else (Inl (JsError ''QuotaExceededError''), s))"

definition addNamespace :: "string \<Rightarrow> app_context \<Rightarrow> app_context" where
  "addNamespace ns s =
     s\<lparr>cx_namespaces := (if ns \<in> set (cx_namespaces s) then cx_namespaces s else cx_namespaces s @ [ns])\<rparr>"

definition removeNamespace :: "string \<Rightarrow> app_context \<Rightarrow> app_context" where
  "removeNamespace ns s = s\<lparr>cx_namespaces := filter (\<lambda>n. n \<noteq> ns) (cx_namespaces s)\<rparr>"

definition prefers_changed :: "bool \<Rightarrow> app_context \<Rightarrow> app_context" where
  "prefers_changed b s = s\<lparr>cx_prefersDark := b\<rparr>"

definition isDark :: "app_context \<Rightarrow> bool" where
  "isDark s \<longleftrightarrow> cx_themeMode s = Dark \<or> (cx_themeMode s = Auto \<and> cx_prefersDark s)"

subsection \<open>After signing in\<close>

definition session_started :: "WhoamiUser \<Rightarrow> app_context \<Rightarrow> app_context" where
  "session_started remote s =
     s\<lparr>cx_user := \<lparr>usr_name = who_name remote, usr_email = who_email remote,
        usr_isPlatformAdmin = who_isPlatformAdmin remote,
        usr_memberships = (if who_isPlatformAdmin remote then usr_memberships (cx_user s) else [])\<rparr>\<rparr>"

definition my_namespaces_answered :: "bool \<Rightarrow> string list promise \<Rightarrow> app_context \<Rightarrow> app_context" where
  "my_namespaces_answered writable r s =
     (case r of
        Inl e \<Rightarrow> s
      | Inr [] \<Rightarrow> s
      | Inr (n # ns) \<Rightarrow>
          setNamespace writable (\<lambda>prev. if prev \<in> set (n # ns) then prev else n) (s\<lparr>cx_namespaces := n # ns\<rparr>))"

definition same_user :: "WhoamiUser \<Rightarrow> UserRecord \<Rightarrow> bool" where
  "same_user remote u \<longleftrightarrow>
     u_id u = who_subject remote \<or> u_oidcSub u = who_subject remote \<or> u_email u = who_email remote \<or>
     u_name u = who_name remote"

definition user_list_answered :: "WhoamiUser \<Rightarrow> UserRecord list promise \<Rightarrow> app_context \<Rightarrow> app_context" where
  "user_list_answered remote r s =
     (case r of
        Inl e \<Rightarrow> s
      | Inr us \<Rightarrow>
          (case find (same_user remote) us of
             None \<Rightarrow> s
           | Some u \<Rightarrow> s\<lparr>cx_user := (cx_user s)\<lparr>usr_isPlatformAdmin := u_isPlatformAdmin u,
               usr_memberships := nullish (u_memberships u) []\<rparr>\<rparr>))"

text \<open>The whole effect; the user list is only asked for by a platform admin.\<close>

definition sync_session ::
  "bool \<Rightarrow> bool \<Rightarrow> WhoamiUser \<Rightarrow> string list promise \<Rightarrow> UserRecord list promise \<Rightarrow> app_context \<Rightarrow> app_context" where
  "sync_session api writable remote my_ns users s =
     (if \<not> api then s
      else (let s' = my_namespaces_answered writable my_ns (session_started remote s)
        in if who_isPlatformAdmin remote then user_list_answered remote users s' else s'))"

subsection \<open>Permissions\<close>

definition roleIn :: "app_context \<Rightarrow> string \<Rightarrow> NamespaceRole option" where
  "roleIn s ns = map_of (usr_memberships (cx_user s)) ns"

definition canEdit :: "app_context \<Rightarrow> string \<Rightarrow> bool" where
  "canEdit s ns \<longleftrightarrow>
     usr_isPlatformAdmin (cx_user s) \<or> roleIn s ns = Some RoleAdmin \<or> roleIn s ns = Some RoleEditor"

definition canAdminNs :: "app_context \<Rightarrow> string \<Rightarrow> bool" where
  "canAdminNs s ns \<longleftrightarrow> usr_isPlatformAdmin (cx_user s) \<or> roleIn s ns = Some RoleAdmin"

text \<open>\<open>MainLayout\<close>: the namespaces the selector offers.\<close>

definition visibleNamespaces :: "bool \<Rightarrow> app_context \<Rightarrow> string list" where
  "visibleNamespaces api s =
     (if api \<or> usr_isPlatformAdmin (cx_user s) then cx_namespaces s
      else filter (\<lambda>n. roleIn s n \<noteq> None) (cx_namespaces s))"

subsection \<open>Properties\<close>

text \<open>
  Rights are ordered: whoever administers a namespace may edit it, a platform admin may do both
  everywhere, anyone else exactly what their role in that namespace says, and without a role nothing.
\<close>

theorem permissions_ordered:
  "(canAdminNs s ns \<longrightarrow> canEdit s ns) \<and>
   (usr_isPlatformAdmin (cx_user s) \<longrightarrow> canAdminNs s ns) \<and>
   (\<not> usr_isPlatformAdmin (cx_user s) \<longrightarrow>
      canAdminNs s ns = (roleIn s ns = Some RoleAdmin) \<and>
      canEdit s ns = (roleIn s ns \<in> {Some RoleAdmin, Some RoleEditor})) \<and>
   (\<not> usr_isPlatformAdmin (cx_user s) \<and> roleIn s ns = None \<longrightarrow> \<not> canEdit s ns)"
  by (auto simp: canEdit_def canAdminNs_def)

theorem permissions_ordered_witness:
  "canEdit (AppProvider False None None False) ''any''"
  using permissions_ordered [where s = "AppProvider False None None False" and ns = "''any''"]
  by (simp add: AppProvider_def initial_user_def)

text \<open>
  After the session effect the selected namespace is one of those on offer - the selected one when the
  backend still lists it, else the first - and it is the one a reload starts with; an empty or failed
  listing changes none of this. For a user who is no platform admin the effect leaves no role in any
  namespace, whatever the backend answers.
\<close>

theorem session_sync:
  assumes "s' = sync_session True writable remote my_ns users s"
  shows "(case my_ns of
      Inr (n # ns) \<Rightarrow> cx_namespaces s' = n # ns \<and>
        cx_namespace s' = (if cx_namespace s \<in> set (n # ns) then cx_namespace s else n) \<and>
        cx_namespace s' \<in> set (cx_namespaces s') \<and>
        (writable \<and> n \<noteq> [] \<and> cx_namespace s \<noteq> [] \<longrightarrow>
          cx_namespace (AppProvider True (kept_namespace s') theme prefers) = cx_namespace s')
    | _ \<Rightarrow> cx_namespaces s' = cx_namespaces s \<and> cx_namespace s' = cx_namespace s \<and>
        kept_namespace s' = kept_namespace s) \<and>
    usr_name (cx_user s') = who_name remote \<and>
    (\<not> who_isPlatformAdmin remote \<longrightarrow> roleIn s' ns1 = None \<and> \<not> canEdit s' ns1)"
  by (auto simp: assms sync_session_def Let_def session_started_def my_namespaces_answered_def setNamespace_def
      user_list_answered_def roleIn_def canEdit_def AppProvider_def initial_namespace_def
      split: sum.splits list.splits option.splits)

definition sample_member :: WhoamiUser where
  "sample_member = \<lparr>who_subject = ''s'', who_email = ''ben@example.com'', who_name = ''ben'', who_groups = [],
     who_isPlatformAdmin = False\<rparr>"

theorem session_sync_witness:
  "cx_namespace (sync_session True True sample_member (Inr [''team-a'', ''team-b'']) (Inr [])
     (AppProvider True None None False)) = ''team-a''"
  using session_sync [where writable = True and remote = sample_member and my_ns = "Inr [''team-a'', ''team-b'']"
      and users = "Inr []" and s = "AppProvider True None None False", OF refl]
  by (simp add: AppProvider_def initial_namespace_def)

text \<open>Removing the selected namespace leaves it selected.\<close>

lemma removed_namespace_stays_selected:
  "cx_namespace (removeNamespace (cx_namespace s) s) = cx_namespace s \<and>
   cx_namespace s \<notin> set (cx_namespaces (removeNamespace (cx_namespace s) s))"
  by (simp add: removeNamespace_def)

text \<open>
  The theme chosen is the theme a reload starts with, an unreadable entry counting as \<open>auto\<close>; dark is
  shown exactly when chosen, or when the system prefers it and nothing else was chosen.
\<close>

theorem theme_survives_reload:
  "(case setThemeMode writable m s of
      (Inr _, s') \<Rightarrow> cx_themeMode s' = m \<and> cx_themeMode (AppProvider api kept (kept_theme s') prefers) = m \<and>
        isDark s' = (case m of Light \<Rightarrow> False | Dark \<Rightarrow> True | Auto \<Rightarrow> cx_prefersDark s)
    | (Inl e, s') \<Rightarrow> s' = s) \<and>
   (t \<notin> {''light'', ''dark''} \<longrightarrow> cx_themeMode (AppProvider api kept (Some t) prefers) = Auto)"
  by (cases m) (auto simp: setThemeMode_def AppProvider_def read_theme_def isDark_def)

theorem theme_survives_reload_witness:
  "cx_themeMode (AppProvider True None (Some ''sepia'') False) = Auto"
  using theme_survives_reload [where t = "''sepia''" and api = True and kept = None and prefers = False]
  by simp

end
