(* ===== verification/Agent_Workspace.thy ===== *)
theory Agent_Workspace
  imports Api_Client
begin

text \<open>
  \<open>frontend/src/api/agentWorkspace.ts\<close> and the page \<open>frontend/src/pages/agent-workspace/AgentWorkspace.tsx\<close>:
  provisioning on first visit, polling while the pod rolls, restart and resize, and the grant the
  iframe waits for. The page is a step relation: a poll or click starts a call, its answer arrives
  at any later time, and after each step the effects that depend on the phase run.
\<close>

subsection \<open>Bindings\<close>

record AgentWorkspace =
  ws_name :: string
  ws_namespace :: string
  ws_ownerId :: string
  ws_status :: string
  ws_image :: string
  ws_storage :: string
  ws_route :: string
  ws_createdAt :: string

record ResourceUpdate =
  ru_cpuRequest :: "string option"
  ru_cpuLimit :: "string option"
  ru_memoryRequest :: "string option"
  ru_memoryLimit :: "string option"
  ru_storage :: "string option"

definition getUserWorkspace :: http_request where
  "getUserWorkspace = get_request ''/api/v1/me/workspace''"

definition create_workspace :: http_request where
  "create_workspace = bare_request POST ''/api/v1/me/workspace''"

definition getOrCreateUserWorkspace :: "AgentWorkspace backend \<Rightarrow> AgentWorkspace promise" where
  "getOrCreateUserWorkspace send =
     (case send getUserWorkspace of
        Inr ws \<Rightarrow> Inr ws
      | Inl (ApiError st msg) \<Rightarrow> if st = 404 then send create_workspace else Inl (ApiError st msg)
      | Inl (JsError msg) \<Rightarrow> Inl (JsError msg))"

definition restartWorkspace :: http_request where
  "restartWorkspace = bare_request POST ''/api/v1/me/workspace/restart''"

definition updateWorkspaceResources :: "ResourceUpdate \<Rightarrow> http_request" where
  "updateWorkspaceResources spec = json_request PATCH ''/api/v1/me/workspace/resources'' (jobj
    [(''cpuRequest'', map_option JStr (ru_cpuRequest spec)), (''cpuLimit'', map_option JStr (ru_cpuLimit spec)),
     (''memoryRequest'', map_option JStr (ru_memoryRequest spec)),
     (''memoryLimit'', map_option JStr (ru_memoryLimit spec)), (''storage'', map_option JStr (ru_storage spec))])"

definition deleteWorkspace :: http_request where
  "deleteWorkspace = bare_request DELETE ''/api/v1/me/workspace''"

definition grantWorkspaceProxy :: http_request where
  "grantWorkspaceProxy = bare_request POST ''/api/v1/me/workspace/grant''"

definition proxyURL :: "string \<Rightarrow> string" where
  "proxyURL base = base @ ''/api/v1/me/workspace/proxy/''"

subsection \<open>The page\<close>

datatype phase = PhInit | PhStarting | PhReady | PhUnavailable | PhError

definition phaseForStatus :: "string \<Rightarrow> phase" where
  "phaseForStatus status =
     (if status = ''Running'' then PhReady
      else if status = ''Starting'' then PhStarting
      else if status \<in> {''Pending'', ''Stopped'', ''Failed'', ''Degraded''} then PhUnavailable
      else if status \<noteq> [] then PhStarting else PhInit)"

text \<open>
  Beside the component's own state, the calls that have not been answered: those of \<open>ensure\<close>, of the
  poll, and the grants asked for since the phase last became ready (an older one is ignored).
\<close>

record workspace_page =
  wp_workspace :: "AgentWorkspace option"
  wp_phase :: phase
  wp_error :: string
  wp_generation :: nat
  wp_resizeOpen :: bool
  wp_resizing :: bool
  wp_restarting :: bool
  wp_grantReady :: bool
  wp_cancelled :: bool
  wp_ensures :: nat
  wp_polls :: nat
  wp_mints :: nat

definition workspace_mounted :: workspace_page where
  "workspace_mounted =
     \<lparr>wp_workspace = None, wp_phase = PhInit, wp_error = [], wp_generation = 0, wp_resizeOpen = False,
      wp_resizing = False, wp_restarting = False, wp_grantReady = False, wp_cancelled = False,
      wp_ensures = 1, wp_polls = 0, wp_mints = 0\<rparr>"

definition ws_apply :: "AgentWorkspace \<Rightarrow> workspace_page \<Rightarrow> workspace_page" where
  "ws_apply ws s = s\<lparr>wp_workspace := Some ws, wp_phase := phaseForStatus (ws_status ws), wp_error := []\<rparr>"

definition ws_failed :: "js_error \<Rightarrow> workspace_page \<Rightarrow> workspace_page" where
  "ws_failed e s = s\<lparr>wp_error := js_message e, wp_phase := PhError\<rparr>"

definition ensure_answered :: "AgentWorkspace promise \<Rightarrow> workspace_page \<Rightarrow> workspace_page" where
  "ensure_answered r s =
     (if wp_cancelled s then s
      else (case r of Inr ws \<Rightarrow> ws_apply ws s | Inl e \<Rightarrow> ws_failed e s))"

definition refresh_answered :: "AgentWorkspace promise \<Rightarrow> workspace_page \<Rightarrow> workspace_page" where
  "refresh_answered r s =
     (if wp_cancelled s then s
      else (case r of
          Inr ws \<Rightarrow> ws_apply ws s
        | Inl (ApiError st msg) \<Rightarrow>
            if st = 404 then s\<lparr>wp_phase := PhInit, wp_ensures := Suc (wp_ensures s)\<rparr>
            else ws_failed (ApiError st msg) s
        | Inl e \<Rightarrow> ws_failed e s))"

definition polling :: "workspace_page \<Rightarrow> bool" where
  "polling s \<longleftrightarrow> wp_phase s \<noteq> PhReady \<and> wp_phase s \<noteq> PhError"

text \<open>The effect on the phase: the grant is asked for on becoming ready and given up on leaving.\<close>

definition grant_effect :: "phase \<Rightarrow> workspace_page \<Rightarrow> workspace_page" where
  "grant_effect old s =
     (if wp_phase s \<noteq> PhReady then s\<lparr>wp_grantReady := False, wp_mints := 0\<rparr>
      else if old \<noteq> PhReady then s\<lparr>wp_mints := 1\<rparr> else s)"

definition mint_answered :: "unit promise \<Rightarrow> workspace_page \<Rightarrow> workspace_page" where
  "mint_answered r s = (case r of Inr _ \<Rightarrow> s\<lparr>wp_grantReady := True\<rparr> | Inl e \<Rightarrow> ws_failed e s)"

text \<open>Both toolbar buttons are disabled while the phase is \<open>init\<close> or \<open>error\<close>.\<close>

definition toolbar_enabled :: "workspace_page \<Rightarrow> bool" where
  "toolbar_enabled s \<longleftrightarrow> wp_phase s \<noteq> PhInit \<and> wp_phase s \<noteq> PhError"

definition roll_started :: "workspace_page \<Rightarrow> workspace_page" where
  "roll_started s = s\<lparr>wp_phase := PhStarting, wp_generation := Suc (wp_generation s)\<rparr>"

definition handleRestart :: "workspace_page \<Rightarrow> workspace_page" where
  "handleRestart s = (roll_started s)\<lparr>wp_restarting := True\<rparr>"

definition restart_answered :: "AgentWorkspace promise \<Rightarrow> workspace_page \<Rightarrow> workspace_page" where
  "restart_answered r s =
     (case r of Inr ws \<Rightarrow> ws_apply (ws\<lparr>ws_status := ''Starting''\<rparr>) s | Inl e \<Rightarrow> ws_failed e s)
       \<lparr>wp_restarting := False\<rparr>"

definition handleResize :: "workspace_page \<Rightarrow> workspace_page" where
  "handleResize s = (roll_started s)\<lparr>wp_resizing := True\<rparr>"

definition resize_answered :: "AgentWorkspace promise \<Rightarrow> workspace_page \<Rightarrow> workspace_page" where
  "resize_answered r s =
     (case r of
        Inr ws \<Rightarrow> (ws_apply (ws\<lparr>ws_status := ''Starting''\<rparr>) s)\<lparr>wp_resizeOpen := False\<rparr>
      | Inl e \<Rightarrow> ws_failed e s)\<lparr>wp_resizing := False\<rparr>"

text \<open>The form's values as sent: blank fields are left out.\<close>

definition filled :: "string option \<Rightarrow> string option" where
  "filled v = (if truthy_str v then v else None)"

definition resize_spec :: "ResourceUpdate \<Rightarrow> ResourceUpdate" where
  "resize_spec v =
     \<lparr>ru_cpuRequest = filled (ru_cpuRequest v), ru_cpuLimit = filled (ru_cpuLimit v),
      ru_memoryRequest = filled (ru_memoryRequest v), ru_memoryLimit = filled (ru_memoryLimit v),
      ru_storage = filled (ru_storage v)\<rparr>"

text \<open>Opening the dialog fills in the storage the workspace has now.\<close>

definition resize_prefill :: "workspace_page \<Rightarrow> ResourceUpdate" where
  "resize_prefill s =
     \<lparr>ru_cpuRequest = None, ru_cpuLimit = None, ru_memoryRequest = None, ru_memoryLimit = None,
      ru_storage = map_option ws_storage (wp_workspace s)\<rparr>"

text \<open>What the body shows.\<close>

datatype workspace_body = ErrorBox string | Preparing | Rolling | UnavailableBox | Authorizing | Frame nat

definition WorkspaceBody :: "workspace_page \<Rightarrow> workspace_body" where
  "WorkspaceBody s =
     (case wp_phase s of
        PhError \<Rightarrow> ErrorBox (wp_error s)
      | PhInit \<Rightarrow> Preparing
      | PhStarting \<Rightarrow> Rolling
      | PhUnavailable \<Rightarrow> UnavailableBox
      | PhReady \<Rightarrow> if wp_grantReady s then Frame (wp_generation s) else Authorizing)"

subsection \<open>Steps\<close>

definition then_effect :: "(workspace_page \<Rightarrow> workspace_page) \<Rightarrow> workspace_page \<Rightarrow> workspace_page" where
  "then_effect f s = grant_effect (wp_phase s) (f s)"

inductive ws_step :: "workspace_page \<Rightarrow> workspace_page \<Rightarrow> bool" where
  Ensured: "0 < wp_ensures s \<Longrightarrow>
    ws_step s (then_effect (\<lambda>s. ensure_answered r (s\<lparr>wp_ensures := wp_ensures s - 1\<rparr>)) s)"
| PollSent: "polling s \<Longrightarrow> \<not> wp_cancelled s \<Longrightarrow> ws_step s (s\<lparr>wp_polls := Suc (wp_polls s)\<rparr>)"
| Polled: "0 < wp_polls s \<Longrightarrow>
    ws_step s (then_effect (\<lambda>s. refresh_answered r (s\<lparr>wp_polls := wp_polls s - 1\<rparr>)) s)"
| RestartClicked: "toolbar_enabled s \<Longrightarrow> \<not> wp_restarting s \<Longrightarrow> ws_step s (then_effect handleRestart s)"
| Restarted: "wp_restarting s \<Longrightarrow> ws_step s (then_effect (restart_answered r) s)"
| ResizeOpened: "toolbar_enabled s \<Longrightarrow> ws_step s (s\<lparr>wp_resizeOpen := True\<rparr>)"
| ResizeClosed: "ws_step s (s\<lparr>wp_resizeOpen := False\<rparr>)"
| ResizeSent: "wp_resizeOpen s \<Longrightarrow> \<not> wp_resizing s \<Longrightarrow> ws_step s (then_effect handleResize s)"
| Resized: "wp_resizing s \<Longrightarrow> ws_step s (then_effect (resize_answered r) s)"
| MintSent: "wp_phase s = PhReady \<Longrightarrow> \<not> wp_cancelled s \<Longrightarrow> ws_step s (s\<lparr>wp_mints := Suc (wp_mints s)\<rparr>)"
| Minted: "0 < wp_mints s \<Longrightarrow>
    ws_step s (then_effect (\<lambda>s. mint_answered r (s\<lparr>wp_mints := wp_mints s - 1\<rparr>)) s)"
| Unmounted: "ws_step s (s\<lparr>wp_cancelled := True\<rparr>)"

inductive ws_reachable :: "workspace_page \<Rightarrow> bool" where
  Mounted: "ws_reachable workspace_mounted"
| Stepped: "ws_reachable s \<Longrightarrow> ws_step s s' \<Longrightarrow> ws_reachable s'"

inductive_cases ws_stepE: "ws_step s s'"

lemmas ws_ops = then_effect_def grant_effect_def ensure_answered_def refresh_answered_def mint_answered_def
  handleRestart_def handleResize_def roll_started_def restart_answered_def resize_answered_def ws_apply_def
  ws_failed_def

subsection \<open>Properties\<close>

definition page_ok :: "workspace_page \<Rightarrow> bool" where
  "page_ok s \<longleftrightarrow>
     (wp_phase s = PhReady \<longrightarrow> map_option ws_status (wp_workspace s) = Some ''Running'') \<and>
     (wp_grantReady s \<or> 0 < wp_mints s \<longrightarrow> wp_phase s = PhReady)"

lemma phase_ready [simp]: "phaseForStatus st = PhReady \<longleftrightarrow> st = ''Running''"
  by (simp add: phaseForStatus_def)

lemma phase_running [simp]: "phaseForStatus ''Running'' = PhReady"
  by simp

lemma phase_not_error [simp]: "phaseForStatus st \<noteq> PhError"
  by (simp add: phaseForStatus_def)

lemma page_ok_step: "ws_step s s' \<Longrightarrow> page_ok s \<Longrightarrow> page_ok s'"
  by (induction rule: ws_step.induct)
    (auto simp: page_ok_def ws_ops polling_def split: sum.splits js_error.splits if_splits)


definition running_workspace :: AgentWorkspace where
  "running_workspace =
     \<lparr>ws_name = ''ws-ann'', ws_namespace = ''knaic-users'', ws_ownerId = ''ann'', ws_status = ''Running'',
      ws_image = ''codex-web:1'', ws_storage = ''10Gi'', ws_route = ''/api/v1/me/workspace/proxy/'',
      ws_createdAt = ''2025-06-01T08:00:00Z''\<rparr>"

definition opened_page :: workspace_page where
  "opened_page =
     then_effect (\<lambda>s. mint_answered (Inr ()) (s\<lparr>wp_mints := wp_mints s - 1\<rparr>))
       (then_effect (\<lambda>s. ensure_answered (Inr running_workspace) (s\<lparr>wp_ensures := wp_ensures s - 1\<rparr>))
          workspace_mounted)"

lemma opened_page_reachable: "ws_reachable opened_page"
  unfolding opened_page_def
  by (intro ws_reachable.Stepped [OF ws_reachable.Stepped [OF Mounted Ensured] Minted])
    (simp_all add: ws_ops workspace_mounted_def running_workspace_def)


text \<open>
  A first visit opens the workspace: the lookup's 404 creates it, each poll is answered (with any
  states that are neither \<open>Running\<close> nor a failure of the call), and once a poll says \<open>Running\<close> and
  the grant is minted the iframe is there. The number of polls on the way is arbitrary.
\<close>

fun polled_with :: "AgentWorkspace list \<Rightarrow> workspace_page \<Rightarrow> workspace_page" where
  "polled_with [] s = s"
| "polled_with (ws # wss) s =
     polled_with wss
       (then_effect (\<lambda>s. refresh_answered (Inr ws) (s\<lparr>wp_polls := wp_polls s - 1\<rparr>))
          (s\<lparr>wp_polls := Suc (wp_polls s)\<rparr>))"

lemma polled_with_append: "polled_with (xs @ ys) s = polled_with ys (polled_with xs s)"
  by (induction xs arbitrary: s) simp_all

lemma polled_with_keeps:
  assumes "\<forall>ws \<in> set wss. ws_status ws \<noteq> ''Running''"
    and "polling s" "\<not> wp_cancelled s" "\<not> wp_grantReady s"
  shows "polling (polled_with wss s) \<and> \<not> wp_cancelled (polled_with wss s) \<and>
         \<not> wp_grantReady (polled_with wss s) \<and>
         wp_generation (polled_with wss s) = wp_generation s"
  using assms
proof (induction wss arbitrary: s)
  case (Cons ws wss)
  let ?s = "then_effect (\<lambda>s. refresh_answered (Inr ws) (s\<lparr>wp_polls := wp_polls s - 1\<rparr>))
          (s\<lparr>wp_polls := Suc (wp_polls s)\<rparr>)"
  have "polling ?s" "\<not> wp_cancelled ?s" "\<not> wp_grantReady ?s" "wp_generation ?s = wp_generation s"
    using Cons.prems by (auto simp: polling_def ws_ops)
  then show ?case
    using Cons.IH [of ?s] Cons.prems(1) by simp
qed simp

lemma polled_with_reachable:
  assumes "ws_reachable s" and "\<forall>ws \<in> set wss. ws_status ws \<noteq> ''Running''"
    and "polling s" "\<not> wp_cancelled s" "\<not> wp_grantReady s"
  shows "ws_reachable (polled_with wss s)"
  using assms
proof (induction wss arbitrary: s)
  case (Cons ws wss)
  let ?s = "then_effect (\<lambda>s. refresh_answered (Inr ws) (s\<lparr>wp_polls := wp_polls s - 1\<rparr>))
          (s\<lparr>wp_polls := Suc (wp_polls s)\<rparr>)"
  have "ws_reachable ?s"
    by (intro ws_reachable.Stepped [OF ws_reachable.Stepped [OF Cons.prems(1) PollSent] Polled])
      (simp_all add: Cons.prems)
  moreover have "polling ?s" "\<not> wp_cancelled ?s" "\<not> wp_grantReady ?s"
    using Cons.prems by (auto simp: polling_def ws_ops)
  ultimately show ?case
    using Cons.IH [of ?s] Cons.prems(2) by simp
qed simp

definition first_visit :: "AgentWorkspace backend \<Rightarrow> AgentWorkspace list \<Rightarrow> AgentWorkspace \<Rightarrow> workspace_page" where
  "first_visit send wss ws =
     then_effect (\<lambda>s. mint_answered (Inr ()) (s\<lparr>wp_mints := wp_mints s - 1\<rparr>))
       (polled_with (wss @ [ws])
          (then_effect (\<lambda>s. ensure_answered (getOrCreateUserWorkspace send) (s\<lparr>wp_ensures := wp_ensures s - 1\<rparr>))
             workspace_mounted))"

text \<open>C35. A first visit ends with the iframe, whatever states the polls pass through.\<close>

theorem workspace_opens:
  assumes "send getUserWorkspace = Inl (ApiError 404 msg)"
    and "send create_workspace = Inr created"
    and "\<forall>w \<in> set (created # wss). ws_status w \<noteq> ''Running''"
    and "ws_status ws = ''Running''"
  shows "ws_reachable (first_visit send wss ws) \<and> WorkspaceBody (first_visit send wss ws) = Frame 0 \<and>
         wp_workspace (first_visit send wss ws) = Some ws"
proof -
  define s where "s = then_effect (\<lambda>s. ensure_answered (getOrCreateUserWorkspace send)
      (s\<lparr>wp_ensures := wp_ensures s - 1\<rparr>)) workspace_mounted"
  have got: "getOrCreateUserWorkspace send = Inr created"
    using assms(1,2) by (simp add: getOrCreateUserWorkspace_def)
  have reach: "ws_reachable s"
    unfolding s_def by (rule ws_reachable.Stepped [OF Mounted Ensured]) (simp add: workspace_mounted_def)
  have s: "polling s" "\<not> wp_cancelled s" "\<not> wp_grantReady s" "wp_generation s = 0"
    using assms(3) by (auto simp: s_def got ws_ops workspace_mounted_def polling_def)
  let ?p = "polled_with wss s"
  let ?q = "then_effect (\<lambda>s. refresh_answered (Inr ws) (s\<lparr>wp_polls := wp_polls s - 1\<rparr>))
          (?p\<lparr>wp_polls := Suc (wp_polls ?p)\<rparr>)"
  let ?r = "then_effect (\<lambda>s. mint_answered (Inr ()) (s\<lparr>wp_mints := wp_mints s - 1\<rparr>)) ?q"
  have p: "ws_reachable ?p" "polling ?p" "\<not> wp_cancelled ?p" "\<not> wp_grantReady ?p" "wp_generation ?p = 0"
    using polled_with_reachable [OF reach _ s(1-3)] polled_with_keeps [OF _ s(1-3), of wss] s(4) assms(3)
    by simp_all
  have q: "ws_reachable ?q"
    by (rule ws_reachable.Stepped [OF ws_reachable.Stepped [OF p(1) PollSent] Polled]) (simp_all add: p)
  have pending: "0 < wp_mints ?q"
    using p assms(4) by (simp add: ws_ops polling_def)
  have r: "first_visit send wss ws = ?r"
    by (simp add: first_visit_def polled_with_append s_def)
  have "ws_reachable ?r"
    by (rule ws_reachable.Stepped [OF q Minted [OF pending]])
  moreover have "WorkspaceBody ?r = Frame 0" "wp_workspace ?r = Some ws"
    using p assms(4) by (simp_all add: ws_ops polling_def WorkspaceBody_def)
  ultimately show ?thesis
    unfolding r by blast
qed

text \<open>The creation answers \<open>Pending\<close>, a poll \<open>Starting\<close>, the next one \<open>Running\<close>.\<close>

definition opening_backend :: "AgentWorkspace backend" where
  "opening_backend r = (if rq_method r = POST then Inr (running_workspace\<lparr>ws_status := ''Pending''\<rparr>)
                        else Inl (ApiError 404 ''workspace not found''))"

theorem workspace_opens_witness:
  "WorkspaceBody (first_visit opening_backend [running_workspace\<lparr>ws_status := ''Starting''\<rparr>] running_workspace)
     = Frame 0"
  using workspace_opens [where send = opening_backend and msg = "''workspace not found''"
      and created = "running_workspace\<lparr>ws_status := ''Pending''\<rparr>"
      and wss = "[running_workspace\<lparr>ws_status := ''Starting''\<rparr>]" and ws = running_workspace]
  by (simp add: opening_backend_def running_workspace_def getUserWorkspace_def create_workspace_def
      get_request_def bare_request_def)

text \<open>
  The error screen is final. With no call outstanding and the resize dialog closed, no step of the
  page but leaving it changes what it shows: polling has stopped, and the \<open>Restart\<close> button the screen
  points to is disabled.
\<close>

definition stranded :: "workspace_page \<Rightarrow> bool" where
  "stranded s \<longleftrightarrow> wp_phase s = PhError \<and> wp_ensures s = 0 \<and> wp_polls s = 0 \<and> wp_mints s = 0 \<and>
     \<not> wp_restarting s \<and> \<not> wp_resizing s \<and> \<not> wp_resizeOpen s"

lemma stranded_step: "ws_step s s' \<Longrightarrow> stranded s \<Longrightarrow> stranded s' \<and> wp_error s' = wp_error s"
  by (induction rule: ws_step.induct) (auto simp: stranded_def polling_def toolbar_enabled_def)

lemma error_screen_is_final:
  assumes "ws_step\<^sup>*\<^sup>* s s'" and "stranded s"
  shows "stranded s' \<and> WorkspaceBody s' = ErrorBox (wp_error s)"
proof -
  have "stranded s' \<and> wp_error s' = wp_error s"
    using assms by induction (auto dest: stranded_step)
  then show ?thesis
    by (simp add: WorkspaceBody_def stranded_def)
qed

text \<open>One failed poll is enough to get there.\<close>

lemma failed_poll_strands:
  assumes "wp_ensures s = 0" "wp_polls s = 1" "wp_mints s = 0" "\<not> wp_cancelled s" "st \<noteq> 404"
    and "\<not> wp_restarting s" "\<not> wp_resizing s" "\<not> wp_resizeOpen s"
  shows "stranded (then_effect (\<lambda>s. refresh_answered (Inl (ApiError st msg)) (s\<lparr>wp_polls := wp_polls s - 1\<rparr>)) s)"
  using assms by (simp add: stranded_def ws_ops)

end
