(* ===== verification/Playground_Pages.thy ===== *)
theory Playground_Pages
  imports Playground_Store
begin

text \<open>
  The two playground pages: \<open>frontend/src/pages/playground/fakeStream.ts\<close> (the replies the prototype
  makes up, and the timer that streams them), \<open>Chat.tsx\<close> (a conversation, one answer streaming at a
  time) and \<open>Agent.tsx\<close> (stored sessions and the steps of a run). The streams themselves are those of
  \<open>Event_Streams\<close>.
\<close>

subsection \<open>Characters\<close>

text \<open>
  \<open>toLowerCase\<close> as far as a search for ASCII text can see it: besides the ASCII letters, only the
  Kelvin sign and the dotted capital I give ASCII letters.
\<close>

function lowerCase :: "string \<Rightarrow> string" where
  "lowerCase s =
     (if s = [] then []
      else if startsWith s [CHR 0xE2, CHR 0x84, CHR 0xAA] then CHR ''k'' # lowerCase (drop 3 s)
      else if startsWith s [CHR 0xC4, CHR 0xB0] then CHR ''i'' # CHR 0xCC # CHR 0x87 # lowerCase (drop 2 s)
      else lower_char (hd s) # lowerCase (tl s))"
  by auto
termination by (relation "measure length") auto

declare lowerCase.simps [simp del]

text \<open>Lengths and slices count UTF-16 units: two for a character of four bytes, otherwise one.\<close>

definition lead_width :: "char \<Rightarrow> nat" where
  "lead_width c = (let n = of_char c :: nat in if n < 128 then 1 else if n < 224 then 2 else if n < 240 then 3 else 4)"

lemma lead_width_pos [simp]: "0 < lead_width c"
  by (simp add: lead_width_def Let_def)

function utf16_length :: "string \<Rightarrow> nat" where
  "utf16_length s =
     (if s = [] then 0
      else (if lead_width (hd s) = 4 then 2 else 1) + utf16_length (drop (lead_width (hd s)) s))"
  by auto
termination by (relation "measure length") auto

declare utf16_length.simps [simp del]

definition code_point4 :: "string \<Rightarrow> nat" where
  "code_point4 s =
     (of_char (s ! 0) mod 8) * 262144 + (of_char (s ! 1) mod 64) * 4096 + (of_char (s ! 2) mod 64) * 64
       + of_char (s ! 3) mod 64"

text \<open>A slice that ends between the halves of a pair keeps the first half.\<close>

function utf16_take :: "nat \<Rightarrow> string \<Rightarrow> string" where
  "utf16_take n s =
     (if n = 0 \<or> s = [] then []
      else if lead_width (hd s) < 4
        then take (lead_width (hd s)) s @ utf16_take (n - 1) (drop (lead_width (hd s)) s)
      else if n = 1 then utf8 (0xD800 + (code_point4 s - 0x10000) div 1024)
      else take 4 s @ utf16_take (n - 2) (drop 4 s))"
  by auto
termination by (relation "measure (length \<circ> snd)") auto

declare utf16_take.simps [simp del]

subsection \<open>Made-up replies\<close>

definition arrow :: string where
  "arrow = [CHR 0xE2, CHR 0x86, CHR 0x92]"

definition multiplied :: string where
  "multiplied = [CHR 0xC3, CHR 0x97]"

definition last_user :: "PlaygroundMessage list \<Rightarrow> string" where
  "last_user history =
     (case find (\<lambda>m. msg_role m = MUser) (rev history) of Some m \<Rightarrow> msg_content m | None \<Rightarrow> [])"

definition mentions :: "string list \<Rightarrow> string \<Rightarrow> bool" where
  "mentions ws q \<longleftrightarrow> (\<exists>w \<in> set ws. str_includes q w)"

definition craftReply :: "string \<Rightarrow> PlaygroundMessage list \<Rightarrow> string" where
  "craftReply model history =
     (let user = last_user history; q = lowerCase user
      in if mentions [''hello'', ''hi''] q then
           ''Hi! I'm running via '' @ model @ '' on your knaic cluster. Ask me anything about your workloads or AI work.''
         else if mentions [''kubernetes'', ''k8s''] q then
           ''Kubernetes is the container orchestration system knaic is built on top of. knaic uses CRDs such as **InferenceService**, **TrainJob** and **Notebook** to represent AI workloads natively.''
         else if mentions [''train''] q then
           ''To start a training job, go to *Training '' @ arrow @ '' TrainJobs '' @ arrow @ '' New train job*, pick a **TrainingRuntime** and point it at your dataset URI. The Kubeflow Trainer v2 controller will reconcile the rest.''
         else if mentions [''serve'', ''inference''] q then
           ''Open *Inference '' @ arrow @ '' Inference services '' @ arrow @ '' New inference service*, choose vLLM or SGLang as the runtime, and select a model from the Model Hub. KServe will provision pods, a Service and an ingress route.''
         else if mentions [''gpu''] q then
           ''GPU scheduling is handled by the **HAMi** component plus the **nvidia-device-plugin**. You can monitor per-node GPU utilization under *Resource monitoring*.''
         else ''I hear you: '' @ [quote] @ utf16_take 160 user @ (if utf16_length user > 160 then ellipsis else [])
           @ [quote] @ ''.'' @ nl @ nl
           @ ''Here's what I'd do:'' @ nl
           @ ''1. Check whether any relevant **InferenceService** is in `Ready` state.'' @ nl
           @ ''2. Inspect its logs from *Inference services '' @ arrow @ '' Logs*.'' @ nl
           @ ''3. If the model isn't loading, verify the storage URI in the Model Hub.'' @ nl @ nl
           @ ''(This response is generated by a local mock, not a real LLM '' @ em_dash
           @ '' wire up a real provider under *Playground '' @ arrow @ '' LLM Registry* to chat with live models.)'')"

text \<open>\<open>text.match(/\S+\s*|\s+/g)\<close>: each word with the white space after it, leading white space alone.\<close>

function word_run :: "string \<Rightarrow> string \<times> string" where
  "word_run s = (if s = [] \<or> 0 < ws_width s then ([], s) else apfst (Cons (hd s)) (word_run (tl s)))"
  by auto
termination by (relation "measure length") auto

declare word_run.simps [simp del]

definition space_run :: "string \<Rightarrow> string \<times> string" where
  "space_run s = (take (length s - length (skip_ws s)) s, skip_ws s)"

lemma word_run_append: "fst (word_run s) @ snd (word_run s) = s"
  by (induction s rule: word_run.induct) (subst word_run.simps, subst (2) word_run.simps, auto)

lemma skip_ws_suffix: "\<exists>p. s = p @ skip_ws s"
proof (induction s rule: skip_ws.induct)
  case (1 s)
  show ?case
  proof (cases "ws_width s = 0")
    case True
    then show ?thesis by (subst skip_ws.simps) simp
  next
    case False
    then obtain p where "drop (ws_width s) s = p @ skip_ws (drop (ws_width s) s)"
      using 1 by blast
    then have "s = (take (ws_width s) s @ p) @ skip_ws (drop (ws_width s) s)"
      by (metis append.assoc append_take_drop_id)
    then have "s = (take (ws_width s) s @ p) @ skip_ws s"
      using False skip_ws.simps [of s] by simp
    then show ?thesis by blast
  qed
qed

lemma space_run_append: "fst (space_run s) @ snd (space_run s) = s"
proof -
  obtain p where "s = p @ skip_ws s" using skip_ws_suffix by blast
  then have "take (length s - length (skip_ws s)) s = p"
    by (metis add_diff_cancel_right' append_eq_conv_conj length_append)
  then show ?thesis using \<open>s = p @ skip_ws s\<close> by (simp add: space_run_def)
qed

lemma space_run_length: "length (snd (space_run s)) \<le> length s"
  using space_run_append [of s] by (metis length_append le_add2)

lemma word_run_length: "length (snd (word_run s)) \<le> length s"
  using word_run_append [of s] by (metis length_append le_add2)

lemma word_run_progress: "s \<noteq> [] \<Longrightarrow> ws_width s = 0 \<Longrightarrow> length (snd (word_run s)) < length s"
  using word_run_length [of "tl s"] by (subst word_run.simps) (cases s, auto)

lemma space_run_progress:
  assumes "0 < ws_width s"
  shows "length (snd (space_run s)) < length s"
proof -
  have "s \<noteq> []" using assms by auto
  moreover have "snd (space_run s) = skip_ws (drop (ws_width s) s)"
    using assms by (simp add: space_run_def) (subst skip_ws.simps, simp)
  moreover have "length (skip_ws (drop (ws_width s) s)) \<le> length (drop (ws_width s) s)"
    using space_run_length [of "drop (ws_width s) s"] by (simp add: space_run_def)
  ultimately show ?thesis using assms by simp (metis diff_less length_greater_0_conv less_le_trans not_less)
qed

function tokens_of :: "string \<Rightarrow> string list" where
  "tokens_of s =
     (if s = [] then []
      else if 0 < ws_width s then fst (space_run s) # tokens_of (snd (space_run s))
      else (fst (word_run s) @ fst (space_run (snd (word_run s)))) # tokens_of (snd (space_run (snd (word_run s)))))"
  by auto
termination
proof (relation "measure length")
  fix s :: string assume "s \<noteq> []" "\<not> 0 < ws_width s"
  then show "(snd (space_run (snd (word_run s))), s) \<in> measure length"
    using word_run_progress [of s] space_run_length [of "snd (word_run s)"] by simp
qed (auto intro: space_run_progress)

declare tokens_of.simps [simp del]

text \<open>\<open>match\<close> finds nothing in the empty text only, which is then the one token.\<close>

definition tokenize :: "string \<Rightarrow> string list" where
  "tokenize text = (if text = [] then [text] else tokens_of text)"

lemma tokens_of_concat: "concat (tokens_of s) = s"
proof (induction s rule: tokens_of.induct)
  case (1 s)
  show ?case
  proof (cases "s = [] \<or> 0 < ws_width s")
    case True
    then show ?thesis
      using 1(1) space_run_append [of s] by (subst tokens_of.simps) auto
  next
    case False
    then show ?thesis
      using 1(2) space_run_append [of "snd (word_run s)"] word_run_append [of s]
      by (subst tokens_of.simps) auto
  qed
qed

lemma tokenize_concat: "concat (tokenize s) = s"
  by (simp add: tokenize_def tokens_of_concat)

subsection \<open>The timer that streams a reply\<close>

datatype mock_call = MockChunk string | MockDone

text \<open>How far the reply is, whether it was cancelled, and whether a timer is running.\<close>

record mock_stream =
  mk_i :: nat
  mk_cancelled :: bool
  mk_timer :: bool

definition streamResponse :: mock_stream where
  "streamResponse = \<lparr>mk_i = 0, mk_cancelled = False, mk_timer = True\<rparr>"

definition mock_tick :: "string list \<Rightarrow> mock_stream \<Rightarrow> mock_call list \<times> mock_stream" where
  "mock_tick tokens s =
     (if mk_cancelled s then ([], s\<lparr>mk_timer := False\<rparr>)
      else if length tokens \<le> mk_i s then ([MockDone], s\<lparr>mk_timer := False\<rparr>)
      else ([MockChunk (tokens ! mk_i s)], s\<lparr>mk_i := Suc (mk_i s), mk_timer := True\<rparr>))"

definition mock_cancel :: "mock_stream \<Rightarrow> mock_call list \<times> mock_stream" where
  "mock_cancel s = ([MockDone], s\<lparr>mk_cancelled := True\<rparr>)"

text \<open>The calls of the stream while its timer fires \<open>n\<close> times.\<close>

fun mock_ticks :: "string list \<Rightarrow> nat \<Rightarrow> mock_stream \<Rightarrow> mock_call list \<times> mock_stream" where
  "mock_ticks tokens 0 s = ([], s)"
| "mock_ticks tokens (Suc n) s =
     (if mk_timer s
      then (let (calls, s') = mock_tick tokens s; (more, s'') = mock_ticks tokens n s' in (calls @ more, s''))
      else ([], s))"

lemma mock_ticks_idle: "\<not> mk_timer s \<Longrightarrow> mock_ticks tokens n s = ([], s)"
  by (cases n) simp_all

lemma mock_ticks_run:
  assumes "mk_timer s" "\<not> mk_cancelled s" "mk_i s \<le> length tokens"
  shows "fst (mock_ticks tokens n s) =
      map MockChunk (take n (drop (mk_i s) tokens)) @ (if length tokens - mk_i s < n then [MockDone] else []) \<and>
    mk_timer (snd (mock_ticks tokens n s)) = (n \<le> length tokens - mk_i s) \<and>
    \<not> mk_cancelled (snd (mock_ticks tokens n s))"
  using assms
proof (induction n arbitrary: s)
  case (Suc n)
  show ?case
  proof (cases "mk_i s = length tokens")
    case True
    then show ?thesis
      using Suc.prems by (simp add: mock_tick_def mock_ticks_idle)
  next
    case False
    let ?s = "s\<lparr>mk_i := Suc (mk_i s), mk_timer := True\<rparr>"
    have "mk_i s < length tokens" using False Suc.prems by simp
    moreover from this have "drop (mk_i s) tokens = tokens ! mk_i s # drop (Suc (mk_i s)) tokens"
      by (simp add: Cons_nth_drop_Suc)
    ultimately show ?thesis
      using Suc.IH [of ?s] Suc.prems
      by (auto simp: mock_tick_def split: prod.splits)
  qed
qed simp

text \<open>
  C40. The prototype's stream ends, and says so once: \<open>n\<close> firings of the timer pass on the first \<open>n\<close>
  tokens, whose concatenation over the whole reply is the reply itself; the firing after the last
  token reports the end and sets no further timer. Cancelled at any earlier point, the stream reports
  the end at once, and the one firing still to come passes nothing on.
\<close>

theorem mock_stream_delivers:
  assumes "mock_ticks (tokenize reply) n streamResponse = (calls, s)"
    and "mock_cancel s = (stopped, s')"
  shows "concat (tokenize reply) = reply \<and>
    calls = map MockChunk (take n (tokenize reply)) @ (if length (tokenize reply) < n then [MockDone] else []) \<and>
    mk_timer s = (n \<le> length (tokenize reply)) \<and> stopped = [MockDone] \<and>
    fst (mock_ticks (tokenize reply) (Suc k) s') = [] \<and>
    \<not> mk_timer (snd (mock_ticks (tokenize reply) (Suc k) s'))"
proof -
  have s': "s' = s\<lparr>mk_cancelled := True\<rparr>" "stopped = [MockDone]"
    using assms(2) by (simp_all add: mock_cancel_def)
  have "fst (mock_ticks (tokenize reply) (Suc k) s') = [] \<and>
        \<not> mk_timer (snd (mock_ticks (tokenize reply) (Suc k) s'))"
    by (simp add: s' mock_tick_def mock_ticks_idle)
  then show ?thesis
    using mock_ticks_run [of streamResponse "tokenize reply" n] assms(1) s'(2)
    by (simp add: tokenize_concat streamResponse_def)
qed

text \<open>Three firings stream \<open>a b\<close>, a fourth is not set; a cancellation then is told once more.\<close>

theorem mock_stream_delivers_witness:
  "fst (mock_ticks (tokenize ''a b'') 3 streamResponse) =
     map MockChunk (take 3 (tokenize ''a b'')) @ (if length (tokenize ''a b'') < 3 then [MockDone] else [])"
  using mock_stream_delivers [where reply = "''a b''" and n = 3, OF surjective_pairing surjective_pairing]
  by blast

subsection \<open>Chat\<close>

record chat_page =
  cp_providerId :: string
  cp_system :: string
  cp_temperature :: json
  cp_input :: string
  cp_messages :: "PlaygroundMessage list"
  cp_streaming :: bool

definition default_system :: string where
  "default_system = ''You are a helpful assistant running inside a Kubernetes cluster.''"

text \<open>The effect that keeps the selected provider among those listed.\<close>

definition settle_provider :: "LLMProvider list \<Rightarrow> string \<Rightarrow> string" where
  "settle_provider ps i =
     (case ps of [] \<Rightarrow> '''' | p # _ \<Rightarrow> if \<exists>q \<in> set ps. pv_id q = i then i else pv_id p)"

definition chat_mounted :: "LLMProvider list \<Rightarrow> chat_page" where
  "chat_mounted ps =
     \<lparr>cp_providerId = settle_provider ps (case ps of [] \<Rightarrow> '''' | p # _ \<Rightarrow> pv_id p), cp_system = default_system,
      cp_temperature = JNum 7 (-1), cp_input = '''', cp_messages = [], cp_streaming = False\<rparr>"

datatype send_effect = Nothing_sent | Warned string | Asked http_request | Mocked string

definition as_message :: "message_role \<Rightarrow> string \<Rightarrow> PlaygroundMessage" where
  "as_message r t = \<lparr>msg_role = r, msg_content = t\<rparr>"

definition not_ready :: "LLMProvider \<Rightarrow> string" where
  "not_ready p = ''Provider '' @ pv_name p @ '' is '' @ llm_status_text (pv_status p)"

definition request_messages :: "string \<Rightarrow> PlaygroundMessage list \<Rightarrow> PlaygroundMessage list" where
  "request_messages system history =
     (if trim system \<noteq> [] then [as_message MSystem (trim system)] else []) @ butlast history"

definition chat_send :: "bool \<Rightarrow> LLMProvider list \<Rightarrow> chat_page \<Rightarrow> send_effect \<times> chat_page" where
  "chat_send api ps s =
     (case find_key pv_id (cp_providerId s) ps of
        None \<Rightarrow> (Nothing_sent, s)
      | Some p \<Rightarrow>
          if trim (cp_input s) = [] then (Nothing_sent, s)
          else if pv_status p \<noteq> LlmReady then (Warned (not_ready p), s)
          else (let history = cp_messages s @ [as_message MUser (trim (cp_input s)), as_message MAssistant []]
                in (if api then Asked (chat_request (pv_id p) (request_messages (cp_system s) history)
                                 (Some (cp_temperature s)) None)
                    else Mocked (craftReply (pv_model p) (butlast history)),
                    s\<lparr>cp_messages := history, cp_input := [], cp_streaming := True\<rparr>)))"

text \<open>
  A chunk goes to the last message. In an empty conversation the read of its content throws inside
  the state update, and with no error boundary above it the page is gone: \<open>None\<close>.
\<close>

definition append_chunk :: "string \<Rightarrow> chat_page \<Rightarrow> chat_page option" where
  "append_chunk c s =
     (if cp_messages s = [] then None
      else Some (s\<lparr>cp_messages := butlast (cp_messages s) @
        [(last (cp_messages s))\<lparr>msg_content := msg_content (last (cp_messages s)) @ c\<rparr>]\<rparr>))"

definition chat_ended :: "chat_page \<Rightarrow> chat_page" where
  "chat_ended s = s\<lparr>cp_streaming := False\<rparr>"

definition chat_cleared :: "chat_page \<Rightarrow> chat_page" where
  "chat_cleared s = s\<lparr>cp_messages := []\<rparr>"

text \<open>A value appended to text: \<open>String(v)\<close>.\<close>

fun js_string :: "json \<Rightarrow> string" where
  "js_string (JStr s) = s"
| "js_string (JArr js) = join '','' (map (\<lambda>j. if j = JNull then [] else js_string j) js)"
| "js_string (JObj _) = ''[object Object]''"
| "js_string j = stringify j"

fun on_chat_call :: "chat_call \<Rightarrow> chat_page \<Rightarrow> chat_page option" where
  "on_chat_call (OnChunk j) s = append_chunk (js_string j) s"
| "on_chat_call OnDone s = Some (chat_ended s)"

fun on_mock_call :: "mock_call \<Rightarrow> chat_page \<Rightarrow> chat_page option" where
  "on_mock_call (MockChunk c) s = append_chunk c s"
| "on_mock_call MockDone s = Some (chat_ended s)"

fun page_calls :: "('c \<Rightarrow> chat_page \<Rightarrow> chat_page option) \<Rightarrow> 'c list \<Rightarrow> chat_page \<Rightarrow> chat_page option" where
  "page_calls on [] s = Some s"
| "page_calls on (c # cs) s = Option.bind (on c s) (page_calls on cs)"

text \<open>A stream against the backend: its calls, then what its promise settles to.\<close>

definition chat_streamed :: "fault + stream_response \<Rightarrow> chat_page \<Rightarrow> chat_page option" where
  "chat_streamed r s =
     map_option (\<lambda>s. case snd (streamChat r) of Inl _ \<Rightarrow> chat_ended s | Inr _ \<Rightarrow> s)
       (page_calls on_chat_call (fst (streamChat r)) s)"

lemma page_calls_append:
  "page_calls on (xs @ ys) s = Option.bind (page_calls on xs s) (page_calls on ys)"
  by (induction xs arbitrary: s) (auto split: Option.bind_splits)

lemma append_chunk_snoc:
  "cp_messages s = ms @ [as_message r t] \<Longrightarrow>
   append_chunk c s = Some (s\<lparr>cp_messages := ms @ [as_message r (t @ c)]\<rparr>)"
  by (simp add: append_chunk_def as_message_def)

lemma chunks_collected:
  assumes "\<And>t s. on (f t) s = append_chunk t s" and "cp_messages s = ms @ [as_message r t]"
  shows "page_calls on (map f ts) s = Some (s\<lparr>cp_messages := ms @ [as_message r (t @ concat ts)]\<rparr>)"
  using assms(2)
proof (induction ts arbitrary: s t)
  case (Cons u ts)
  let ?s = "s\<lparr>cp_messages := ms @ [as_message r (t @ u)]\<rparr>"
  have "page_calls on (map f ts) ?s = Some (?s\<lparr>cp_messages := ms @ [as_message r ((t @ u) @ concat ts)]\<rparr>)"
    by (rule Cons.IH) simp
  then show ?case
    using append_chunk_snoc [OF Cons.prems] by (simp add: assms(1))
qed (simp add: as_message_def)

lemma concat_nonempty: "concat (filter (\<lambda>t. t \<noteq> []) ts) = concat ts"
  by (induction ts) auto


text \<open>
  Clearing the conversation is possible while an answer streams, and the next chunk then finds no
  message to go to: the page is gone.
\<close>

lemma cleared_chat_crashes:
  "page_calls on_chat_call (OnChunk (JStr t) # calls) (chat_cleared s) = None"
  by (simp add: append_chunk_def chat_cleared_def)

definition sample_provider :: LLMProvider where
  "sample_provider =
     \<lparr>pv_id = ''llm-1'', pv_name = ''qwen'', pv_source = External, pv_namespace = None,
      pv_endpoint = ''https://models.example/v1'', pv_apiKey = None, pv_model = ''qwen'',
      pv_description = None, pv_status = LlmReady\<rparr>"

definition asking :: chat_page where
  "asking = (chat_mounted [sample_provider])\<lparr>cp_input := ''ping''\<rparr>"

definition pong_chunks :: "string list" where
  "pong_chunks = [concat (map (\<lambda>t. json_frame (delta_json t) @ [lf, lf]) [''po'', ''ng'']) @
     data_prefix @ ''[DONE]'' @ [lf, lf]]"

lemma asking_facts:
  "find_key pv_id (cp_providerId asking) [sample_provider] = Some sample_provider"
  "pv_status sample_provider = LlmReady" "cp_messages asking = []"
  "trim (cp_input asking) = ''ping''" "concat [''po'', ''ng''] = ''pong''"
  by (simp_all add: asking_def chat_mounted_def settle_provider_def sample_provider_def trim_visible)

lemma ping_not_empty: "''ping'' \<noteq> ([] :: string)" by simp


subsection \<open>Agent\<close>

datatype event_kind = Thought | Action | Observation | Final | EventError
datatype AgentStepKind = UserStep | Event event_kind

record AgentEvent =
  ev_kind :: event_kind
  ev_text :: string
  ev_toolName :: "string option"

record AgentStep =
  sp_kind :: AgentStepKind
  sp_text :: string
  sp_toolName :: "string option"

record AgentMessage =
  am_id :: string
  am_role :: message_role
  am_content :: string
  am_createdAt :: string

record AgentSession =
  se_id :: string
  se_owner :: string
  se_namespace :: "string option"
  se_providerId :: string
  se_title :: string
  se_skills :: "string list"
  se_createdAt :: string
  se_updatedAt :: string
  se_messages :: "AgentMessage list option"

definition normalizeEvent :: "AgentEvent \<Rightarrow> AgentStep" where
  "normalizeEvent e = \<lparr>sp_kind = Event (ev_kind e), sp_text = ev_text e, sp_toolName = ev_toolName e\<rparr>"

definition appendAgentEvent :: "AgentStep list \<Rightarrow> AgentEvent \<Rightarrow> AgentStep list" where
  "appendAgentEvent prev e =
     (let step = normalizeEvent e
      in if sp_kind step = Event Final \<and> prev \<noteq> [] \<and> sp_kind (last prev) = Event Final \<and>
            \<not> truthy_str (sp_toolName step)
         then butlast prev @ [(last prev)\<lparr>sp_text := sp_text (last prev) @ sp_text step\<rparr>]
         else prev @ [step])"

definition message_step :: "AgentMessage \<Rightarrow> AgentStep" where
  "message_step m =
     \<lparr>sp_kind = (if am_role m = MUser then UserStep else Event Final), sp_text = am_content m, sp_toolName = None\<rparr>"

definition stepsFromSession :: "AgentSession \<Rightarrow> AgentStep list" where
  "stepsFromSession s = map message_step (nullish (se_messages s) [])"

definition user_step :: "string \<Rightarrow> AgentStep" where
  "user_step prompt = \<lparr>sp_kind = UserStep, sp_text = prompt, sp_toolName = None\<rparr>"

definition plain_step :: "event_kind \<Rightarrow> string \<Rightarrow> AgentStep" where
  "plain_step k t = \<lparr>sp_kind = Event k, sp_text = t, sp_toolName = None\<rparr>"

text \<open>The conversation the prototype's run starts from: prompts and final answers.\<close>

definition agent_history :: "AgentStep list \<Rightarrow> string \<Rightarrow> PlaygroundMessage list" where
  "agent_history steps prompt =
     map (\<lambda>st. as_message (if sp_kind st = UserStep then MUser else MAssistant) (sp_text st))
       (filter (\<lambda>st. sp_kind st = UserStep \<or> sp_kind st = Event Final) steps) @ [as_message MUser prompt]"

text \<open>\<open>agentStream\<close>: what it yields, in order; the pauses between are not modelled.\<close>

definition pods_script :: "AgentStep list" where
  "pods_script =
     [plain_step Action (''tool: kubectl_list'' @ nl @ ''input: {'' @ [quote] @ ''resource'' @ [quote] @ '':'' @ [quote] @ ''pods''
        @ [quote] @ '','' @ [quote] @ ''namespace'' @ [quote] @ '':'' @ [quote] @ ''team-ml'' @ [quote] @ ''}''),
      plain_step Observation (''NAME                       READY   STATUS    RESTARTS   AGE'' @ nl
        @ ''qwen3-5-7b-abcde          2/2     Running   0          3d'' @ nl
        @ ''bge-embed-klmno           1/1     Running   1          12h'' @ nl
        @ ''helpdesk-agent-xyzab      0/1     CrashLoop 7          4m''),
      plain_step Thought ''One pod is in CrashLoopBackOff. I should fetch its logs to diagnose.'',
      plain_step Action (''tool: kubectl_logs'' @ nl @ ''input: {'' @ [quote] @ ''pod'' @ [quote] @ '':'' @ [quote]
        @ ''helpdesk-agent-xyzab'' @ [quote] @ '','' @ [quote] @ ''container'' @ [quote] @ '':'' @ [quote] @ ''agent''
        @ [quote] @ '','' @ [quote] @ ''tail'' @ [quote] @ '':50}''),
      plain_step Observation (''[ERROR] failed to connect to postgres: dial tcp 10.0.17.3:5432: connect: connection refused''
        @ nl @ ''[ERROR] shutting down''),
      plain_step Final (''The **helpdesk-agent** pod is crashing because it can't reach Postgres (connection refused to 10.0.17.3:5432).''
        @ nl @ nl @ ''Checklist:'' @ nl @ ''- Verify the **postgres-knaic** StatefulSet is Running.'' @ nl
        @ ''- Check the Service endpoints match the Pod IP.'' @ nl
        @ ''- If Postgres was restarted, the Pod IP has changed '' @ em_dash
        @ '' reference the Service DNS name instead.'')]"

definition model_script :: "AgentStep list" where
  "model_script =
     [plain_step Action (''tool: model_hub_search'' @ nl @ ''input: {'' @ [quote] @ ''query'' @ [quote] @ '':'' @ [quote]
        @ ''qwen'' @ [quote] @ ''}''),
      plain_step Observation (''Found 2 models:'' @ nl @ ''- Qwen/Qwen3.5-7B-Instruct (public, 15.2 GiB)'' @ nl
        @ ''- Qwen/Qwen3.5-72B-Instruct (public, 146 GiB)''),
      plain_step Final (''Two Qwen models are registered in the public space. For your 8'' @ multiplied
        @ ''A100 node, **Qwen3.5-72B-Instruct** fits with tensor parallel 8; for single-GPU serving use the 7B variant.'')]"

definition noop_script :: "AgentStep list" where
  "noop_script =
     [plain_step Action (''tool: noop'' @ nl @ ''input: {}''),
      plain_step Observation (''no tool matched '' @ em_dash @ '' answering from priors''),
      plain_step Final ''I don't have a tool that matches the question, so here's a direct answer based on priors: **knaic** is a console for managing AI workloads on Kubernetes. Ask me about pods, inference services, models, or GPUs and I'll dispatch a tool call.'']"

definition agentStream :: "PlaygroundMessage list \<Rightarrow> AgentStep list" where
  "agentStream history =
     (let user = last_user history; q = lowerCase user
      in plain_step Thought (''The user is asking: '' @ [quote] @ user @ [quote] @ ''. I should plan which tool(s) to call.'') #
         (if mentions [''pod'', ''deployment'', ''running'', ''status''] q then pods_script
          else if mentions [''model''] q then model_script else noop_script))"

subsection \<open>The agent page\<close>

text \<open>
  The page's state, with the number of times the session effect has run, the session reads
  outstanding (each with the effect run that made it), and the runs under way (each with its session
  and whether an error event came).
\<close>

record agent_page =
  ag_providerId :: string
  ag_input :: string
  ag_sessions :: "AgentSession list"
  ag_sessionId :: string
  ag_current :: "AgentSession option"
  ag_skills :: "string list"
  ag_steps :: "AgentStep list"
  ag_busy :: bool
  ag_effect :: nat
  ag_reads :: "(nat \<times> string) list"
  ag_runs :: "(string \<times> bool) list"

definition defaultSkills :: "string list" where
  "defaultSkills = [''k8s_list'', ''k8s_yaml'', ''pod_logs'', ''model_search'', ''prometheus_query'']"

definition session_effect :: "bool \<Rightarrow> agent_page \<Rightarrow> agent_page" where
  "session_effect api s =
     (let n = Suc (ag_effect s); s = s\<lparr>ag_effect := n\<rparr>
      in if \<not> api \<or> ag_busy s then s
         else if ag_sessionId s = [] then s\<lparr>ag_current := None, ag_steps := []\<rparr>
         else s\<lparr>ag_reads := (n, ag_sessionId s) # ag_reads s\<rparr>)"

definition agent_mounted :: "bool \<Rightarrow> LLMProvider list \<Rightarrow> agent_page" where
  "agent_mounted api ps = session_effect api
     \<lparr>ag_providerId = settle_provider ps (case ps of [] \<Rightarrow> '''' | p # _ \<Rightarrow> pv_id p), ag_input = '''', ag_sessions = [],
      ag_sessionId = '''', ag_current = None, ag_skills = defaultSkills, ag_steps = [], ag_busy = False,
      ag_effect = 0, ag_reads = [], ag_runs = []\<rparr>"

text \<open>A state update, after which the effect runs when the selection or \<open>busy\<close> changed.\<close>

definition then_session :: "bool \<Rightarrow> (agent_page \<Rightarrow> agent_page) \<Rightarrow> agent_page \<Rightarrow> agent_page" where
  "then_session api f s =
     (if ag_sessionId (f s) \<noteq> ag_sessionId s \<or> ag_busy (f s) \<noteq> ag_busy s then session_effect api (f s) else f s)"

definition kept_selection :: "AgentSession list \<Rightarrow> string \<Rightarrow> string" where
  "kept_selection items prev =
     (if prev \<noteq> [] \<and> (\<exists>i \<in> set items. se_id i = prev) then prev
      else (case items of [] \<Rightarrow> '''' | i # _ \<Rightarrow> se_id i))"

definition sessions_listed :: "string option \<Rightarrow> AgentSession list \<Rightarrow> agent_page \<Rightarrow> agent_page" where
  "sessions_listed nextID items s =
     s\<lparr>ag_sessions := items,
       ag_sessionId := (if truthy_str nextID then the nextID else kept_selection items (ag_sessionId s))\<rparr>"

definition session_read :: "nat \<Rightarrow> AgentSession promise \<Rightarrow> agent_page \<Rightarrow> agent_page" where
  "session_read n r s =
     (if n \<noteq> ag_effect s then s
      else (case r of
          Inl _ \<Rightarrow> s
        | Inr session \<Rightarrow> s\<lparr>ag_current := Some session, ag_providerId := se_providerId session,
            ag_skills := (if se_skills session \<noteq> [] then se_skills session else ag_skills s),
            ag_steps := stepsFromSession session\<rparr>))"

definition read_taken :: "nat \<times> string \<Rightarrow> agent_page \<Rightarrow> agent_page" where
  "read_taken q s = s\<lparr>ag_reads := remove1 q (ag_reads s)\<rparr>"

definition session_created :: "AgentSession \<Rightarrow> agent_page \<Rightarrow> agent_page" where
  "session_created created s = s\<lparr>ag_current := Some created, ag_steps := []\<rparr>"

definition newSession_mock :: "agent_page \<Rightarrow> agent_page" where
  "newSession_mock s = s\<lparr>ag_current := None, ag_steps := []\<rparr>"

definition session_removed :: "agent_page \<Rightarrow> agent_page" where
  "session_removed s = s\<lparr>ag_current := None, ag_steps := []\<rparr>"

definition toggleSkill :: "string \<Rightarrow> agent_page \<Rightarrow> agent_page" where
  "toggleSkill k s =
     s\<lparr>ag_skills := (if k \<in> set (ag_skills s) then filter (\<lambda>x. x \<noteq> k) (ag_skills s) else ag_skills s @ [k])\<rparr>"

text \<open>
  A run: accepted for a ready provider, then the prompt is shown (for a stored session once that
  exists), events arrive, and at the end the stored session replaces the steps unless an error came.
\<close>

definition run_accepted :: "LLMProvider list \<Rightarrow> agent_page \<Rightarrow> string option" where
  "run_accepted ps s =
     (case find_key pv_id (ag_providerId s) ps of
        None \<Rightarrow> None
      | Some p \<Rightarrow> if trim (ag_input s) = [] \<or> pv_status p \<noteq> LlmReady then None else Some (trim (ag_input s)))"

definition run_begun :: "agent_page \<Rightarrow> agent_page" where
  "run_begun s = s\<lparr>ag_input := [], ag_busy := True\<rparr>"

definition run_prompted :: "string \<Rightarrow> string \<Rightarrow> agent_page \<Rightarrow> agent_page" where
  "run_prompted sid prompt s =
     s\<lparr>ag_steps := ag_steps s @ [user_step prompt], ag_runs := (sid, False) # ag_runs s\<rparr>"

definition run_event :: "string \<times> bool \<Rightarrow> AgentEvent \<Rightarrow> agent_page \<Rightarrow> agent_page" where
  "run_event q e s =
     s\<lparr>ag_steps := appendAgentEvent (ag_steps s) e,
       ag_runs := (fst q, snd q \<or> ev_kind e = EventError) # remove1 q (ag_runs s)\<rparr>"

definition run_stored :: "string \<times> bool \<Rightarrow> AgentSession \<Rightarrow> agent_page \<Rightarrow> agent_page" where
  "run_stored q fresh s =
     s\<lparr>ag_current := Some fresh, ag_steps := (if snd q then ag_steps s else stepsFromSession fresh)\<rparr>"

definition run_ended :: "agent_page \<Rightarrow> agent_page" where
  "run_ended s = s\<lparr>ag_busy := False\<rparr>"

definition mock_run :: "string \<Rightarrow> agent_page \<Rightarrow> agent_page" where
  "mock_run prompt s =
     s\<lparr>ag_steps := (ag_steps s @ [user_step prompt]) @ agentStream (agent_history (ag_steps s) prompt)\<rparr>"

inductive agent_step :: "bool \<Rightarrow> agent_page \<Rightarrow> agent_page \<Rightarrow> bool" for api where
  Listed: "agent_step api s (then_session api (sessions_listed nextID items) s)"
| Selected: "agent_step api s (then_session api (\<lambda>s. s\<lparr>ag_sessionId := i\<rparr>) s)"
| Read: "(n, i) \<in> set (ag_reads s) \<Longrightarrow>
    agent_step api s (then_session api (\<lambda>s. read_taken (n, i) (session_read n r s)) s)"
| Created: "agent_step api s (session_created c s)"
| NewMock: "agent_step api s (newSession_mock s)"
| Removed: "agent_step api s (session_removed s)"
| Toggled: "agent_step api s (toggleSkill k s)"
| Typed: "agent_step api s (s\<lparr>ag_input := t\<rparr>)"
| Settled: "agent_step api s (s\<lparr>ag_providerId := settle_provider ps (ag_providerId s)\<rparr>)"
| TraceCleared: "\<not> ag_busy s \<Longrightarrow> agent_step api s (s\<lparr>ag_steps := []\<rparr>)"
| Begun: "run_accepted ps s = Some prompt \<Longrightarrow> agent_step api s (then_session api run_begun s)"
| Prompted: "api \<Longrightarrow> agent_step api s (run_prompted sid prompt s)"
| Mocked: "\<not> api \<Longrightarrow> agent_step api s (mock_run prompt s)"
| Streamed: "q \<in> set (ag_runs s) \<Longrightarrow> agent_step api s (run_event q e s)"
| Stored: "q \<in> set (ag_runs s) \<Longrightarrow> agent_step api s (run_stored q fresh s)"
| Ended: "agent_step api s (then_session api run_ended s)"

lemmas agent_ops = then_session_def session_effect_def sessions_listed_def session_read_def read_taken_def
  session_created_def newSession_mock_def session_removed_def toggleSkill_def run_begun_def run_prompted_def
  run_event_def run_stored_def run_ended_def mock_run_def

definition reads_ok :: "agent_page \<Rightarrow> bool" where
  "reads_ok s \<longleftrightarrow>
     (\<forall>(n, i) \<in> set (ag_reads s). n \<le> ag_effect s \<and> (n = ag_effect s \<longrightarrow> i = ag_sessionId s \<and> \<not> ag_busy s))"

lemma reads_ok_effect:
  assumes "\<forall>(n, i) \<in> set (ag_reads s). n \<le> ag_effect s"
  shows "reads_ok (session_effect api s)"
  using assms by (fastforce simp: reads_ok_def session_effect_def Let_def)

lemma reads_ok_then:
  assumes "reads_ok s" "set (ag_reads (f s)) \<subseteq> set (ag_reads s)" "ag_effect (f s) = ag_effect s"
  shows "reads_ok (then_session api f s)"
proof (cases "ag_sessionId (f s) \<noteq> ag_sessionId s \<or> ag_busy (f s) \<noteq> ag_busy s")
  case True
  have "\<forall>(n, i) \<in> set (ag_reads (f s)). n \<le> ag_effect (f s)"
    using assms by (fastforce simp: reads_ok_def)
  then show ?thesis
    using True unfolding then_session_def by (simp add: reads_ok_effect)
next
  case False
  then show ?thesis
    using assms unfolding then_session_def by (fastforce simp: reads_ok_def)
qed

lemma reads_ok_same:
  "reads_ok s \<Longrightarrow> ag_reads s' = ag_reads s \<Longrightarrow> ag_effect s' = ag_effect s \<Longrightarrow>
   ag_sessionId s' = ag_sessionId s \<Longrightarrow> ag_busy s' = ag_busy s \<Longrightarrow> reads_ok s'"
  by (simp add: reads_ok_def)

lemma reads_ok_step: "agent_step api s s' \<Longrightarrow> reads_ok s \<Longrightarrow> reads_ok s'"
proof (induction rule: agent_step.induct)
  case (Read n i s r)
  then show ?case
    by (intro reads_ok_then) (auto simp: session_read_def read_taken_def split: sum.splits dest: notin_set_remove1 set_remove1_subset [THEN subsetD])
qed (auto intro!: reads_ok_then intro: reads_ok_same simp: sessions_listed_def session_created_def newSession_mock_def session_removed_def
    toggleSkill_def run_begun_def run_prompted_def run_event_def run_stored_def run_ended_def mock_run_def)

text \<open>The events as the stream carries them.\<close>

fun kind_text :: "event_kind \<Rightarrow> string" where
  "kind_text Thought = ''thought''"
| "kind_text Action = ''action''"
| "kind_text Observation = ''observation''"
| "kind_text Final = ''final''"
| "kind_text EventError = ''error''"

definition event_json :: "AgentEvent \<Rightarrow> json" where
  "event_json e = jobj [(''kind'', Some (JStr (kind_text (ev_kind e)))), (''text'', Some (JStr (ev_text e))),
     (''toolName'', map_option JStr (ev_toolName e))]"

definition all_kinds :: "event_kind list" where
  "all_kinds = [Thought, Action, Observation, Final, EventError]"

definition read_event :: "json \<Rightarrow> AgentEvent option" where
  "read_event j =
     (case (json_at [''kind''] j, json_at [''text''] j) of
        (Some (JStr k), Some (JStr t)) \<Rightarrow>
          map_option (\<lambda>kind. \<lparr>ev_kind = kind, ev_text = t, ev_toolName =
              (case json_at [''toolName''] j of Some (JStr n) \<Rightarrow> Some n | _ \<Rightarrow> None)\<rparr>)
            (find (\<lambda>kind. kind_text kind = k) all_kinds)
      | _ \<Rightarrow> None)"

definition on_agent_call :: "agent_call \<Rightarrow> AgentStep list \<Rightarrow> AgentStep list" where
  "on_agent_call c steps =
     (case c of
        OnEvent j \<Rightarrow> (case read_event j of Some e \<Rightarrow> appendAgentEvent steps e | None \<Rightarrow> steps)
      | OnAgentDone \<Rightarrow> steps)"

lemma read_event_json [simp]: "read_event (event_json e) = Some e"
proof (cases e)
  case (fields k t n)
  then show ?thesis
    by (cases k; cases n) (simp_all add: read_event_def event_json_def all_kinds_def)
qed

lemma event_json_ok: "wf_json (event_json e)" "is_object (event_json e)"
  by (cases "ev_toolName e"; simp add: event_json_def is_object_def)+

text \<open>The trace a run should show: its events, adjacent pieces of a final answer joined.\<close>

fun merged :: "AgentEvent list \<Rightarrow> AgentStep list" where
  "merged [] = []"
| "merged (e # es) =
     (case merged es of
        [] \<Rightarrow> [normalizeEvent e]
      | st # sts \<Rightarrow>
          if ev_kind e = Final \<and> sp_kind st = Event Final \<and> \<not> truthy_str (sp_toolName st)
          then (normalizeEvent e)\<lparr>sp_text := ev_text e @ sp_text st\<rparr> # sts
          else normalizeEvent e # st # sts)"

definition joined :: "AgentStep \<Rightarrow> AgentStep list \<Rightarrow> AgentStep list" where
  "joined st sts =
     (case sts of
        [] \<Rightarrow> [st]
      | st' # sts' \<Rightarrow>
          if sp_kind st = Event Final \<and> sp_kind st' = Event Final \<and> \<not> truthy_str (sp_toolName st')
          then st\<lparr>sp_text := sp_text st @ sp_text st'\<rparr> # sts' else st # sts)"

lemma merged_joined: "merged (e # es) = joined (normalizeEvent e) (merged es)"
  by (auto simp: joined_def normalizeEvent_def split: list.splits)

lemma joined_assoc:
  "sp_kind a = Event Final \<Longrightarrow> sp_kind b = Event Final \<Longrightarrow> \<not> truthy_str (sp_toolName b) \<Longrightarrow>
   joined (a\<lparr>sp_text := sp_text a @ sp_text b\<rparr>) sts = joined a (joined b sts)"
  by (auto simp: joined_def split: list.splits)

lemma joined_apart:
  "\<not> (sp_kind a = Event Final \<and> sp_kind b = Event Final \<and> \<not> truthy_str (sp_toolName b)) \<Longrightarrow>
   joined a (joined b sts) = a # joined b sts"
  by (auto simp: joined_def split: list.splits)

lemma fold_events:
  "foldl appendAgentEvent (prev @ [st]) es = prev @ joined st (merged es)"
proof (induction es arbitrary: prev st)
  case (Cons e es)
  show ?case
  proof (cases "sp_kind st = Event Final \<and> ev_kind e = Final \<and> \<not> truthy_str (ev_toolName e)")
    case True
    then have "appendAgentEvent (prev @ [st]) e = prev @ [st\<lparr>sp_text := sp_text st @ sp_text (normalizeEvent e)\<rparr>]"
      by (simp add: appendAgentEvent_def normalizeEvent_def)
    then show ?thesis
      using Cons.IH [of prev "st\<lparr>sp_text := sp_text st @ sp_text (normalizeEvent e)\<rparr>"] True
        joined_assoc [of st "normalizeEvent e" "merged es"]
      by (simp add: merged_joined normalizeEvent_def del: merged.simps)
  next
    case False
    then have "appendAgentEvent (prev @ [st]) e = (prev @ [st]) @ [normalizeEvent e]"
      by (auto simp: appendAgentEvent_def normalizeEvent_def)
    then show ?thesis
      using Cons.IH [of "prev @ [st]" "normalizeEvent e"] False joined_apart [of st "normalizeEvent e" "merged es"]
      by (auto simp: merged_joined normalizeEvent_def simp del: merged.simps)
  qed
qed (simp add: joined_def)

lemma joined_user [simp]: "joined (user_step p) sts = user_step p # sts"
  by (simp add: joined_def user_step_def split: list.splits)

lemma joined_texts: "concat (map sp_text (joined st sts)) = sp_text st @ concat (map sp_text sts)"
  by (auto simp: joined_def split: list.splits)

lemma merged_texts: "concat (map sp_text (merged es)) = concat (map ev_text es)"
proof (induction es)
  case (Cons e es)
  then show ?case by (simp add: merged_joined joined_texts normalizeEvent_def del: merged.simps)
qed simp

lemma on_agent_events:
  "fold on_agent_call (map OnEvent (map event_json es)) steps = foldl appendAgentEvent steps es"
  by (induction es arbitrary: steps) (simp_all add: on_agent_call_def)

text \<open>
  C22. An agent run shows every event the backend streams: after the prompt the page holds exactly the
  reference trace, the pieces of each final answer joined and everything else a step of its own, with
  no character lost, however the stream was cut into chunks and whether it completed or broke.
\<close>

theorem agent_trace_shown:
  assumes "concat ds = concat (map (\<lambda>e. json_frame (event_json e) @ [lf, lf]) es) @ end_frame @ [lf, lf]"
  shows "fold on_agent_call (fst (streamAgentSession (Inr \<lparr>sp_status = 200, sp_body = Some (ds, e)\<rparr>)))
      (ag_steps (run_prompted sid prompt s)) = ag_steps s @ user_step prompt # merged es \<and>
    concat (map sp_text (merged es)) = concat (map ev_text es)"
proof -
  have framed: "concat ds = concat (map (\<lambda>j. json_frame j @ [lf, lf]) (map event_json es)) @ end_frame @ [lf, lf]"
    using assms by (simp add: comp_def)
  have "streamAgentSession (Inr \<lparr>sp_status = 200, sp_body = Some (ds, e)\<rparr>) =
      (map OnEvent (map event_json es) @ (if e = None then [OnAgentDone] else []), ending_of e)"
    by (rule agent_stream_calls [OF _ framed]) (auto simp: event_json_ok)
  then show ?thesis
    using on_agent_events [of es "ag_steps s @ [user_step prompt]"] fold_events [of "ag_steps s" "user_step prompt" es]
    by (simp add: run_prompted_def merged_texts on_agent_call_def del: map_map)
qed

theorem agent_trace_shown_witness:
  "fold on_agent_call (fst (streamAgentSession (Inr \<lparr>sp_status = 200, sp_body = Some ([concat (map (\<lambda>e.
       json_frame (event_json e) @ [lf, lf])
       [\<lparr>ev_kind = Final, ev_text = ''All '', ev_toolName = None\<rparr>, \<lparr>ev_kind = Final, ev_text = ''good'', ev_toolName = None\<rparr>])
       @ end_frame @ [lf, lf]], None)\<rparr>)))
     (ag_steps (run_prompted ''s1'' ''status?'' (agent_mounted True []))) =
   [user_step ''status?'', plain_step Final ''All good'']"
  using agent_trace_shown [where es = "[\<lparr>ev_kind = Final, ev_text = ''All '', ev_toolName = None\<rparr>,
      \<lparr>ev_kind = Final, ev_text = ''good'', ev_toolName = None\<rparr>]" and sid = "''s1''" and prompt = "''status?''"
      and s = "agent_mounted True []" and e = None, OF concat.simps(2) [of _ "[]", unfolded concat.simps(1) append_Nil2]]
  by (simp add: agent_mounted_def session_effect_def Let_def normalizeEvent_def plain_step_def)

text \<open>
  Only the session that is selected is ever shown, and never over a run: whatever order listings,
  selections, reads and runs come in, the answer of a session read changes the page only when it is
  for the session selected now and no run is under way.
\<close>

theorem shown_session_is_selected:
  assumes "(agent_step api)\<^sup>*\<^sup>* (agent_mounted api ps) s" and "(n, i) \<in> set (ag_reads s)"
    and "session_read n r s \<noteq> s"
  shows "i = ag_sessionId s \<and> \<not> ag_busy s"
proof -
  have start: "reads_ok (agent_mounted api ps)"
    unfolding agent_mounted_def by (rule reads_ok_effect) simp
  have "reads_ok s"
    using assms(1) by induction (blast intro: start reads_ok_step)+
  moreover have "n = ag_effect s"
    using assms(3) by (auto simp: session_read_def split: if_splits)
  ultimately show ?thesis
    using assms(2) by (auto simp: reads_ok_def)
qed

definition stored_session :: AgentSession where
  "stored_session =
     \<lparr>se_id = ''s1'', se_owner = ''ann'', se_namespace = Some ''team-ml'', se_providerId = ''llm-1'',
      se_title = ''Agent session'', se_skills = [], se_createdAt = ''2025-06-01'', se_updatedAt = ''2025-06-01'',
      se_messages = Some [\<lparr>am_id = ''m1'', am_role = MUser, am_content = ''status?'', am_createdAt = ''2025-06-01''\<rparr>]\<rparr>"

definition one_session :: agent_page where
  "one_session = then_session True (sessions_listed None [stored_session]) (agent_mounted True [])"

lemma one_session_facts:
  "(agent_step True)\<^sup>*\<^sup>* (agent_mounted True []) one_session"
  "ag_reads one_session = [(2, ''s1'')]" "ag_sessionId one_session = ''s1''" "\<not> ag_busy one_session"
  "ag_effect one_session = 2" "ag_steps one_session = []"
  unfolding one_session_def
  by (rule r_into_rtranclp [of "agent_step True", OF Listed])
    (simp_all add: agent_mounted_def agent_ops kept_selection_def stored_session_def Let_def)

theorem shown_session_is_selected_witness:
  "''s1'' = ag_sessionId one_session \<and> \<not> ag_busy one_session"
proof (rule shown_session_is_selected [OF one_session_facts(1)])
  show "(2, ''s1'') \<in> set (ag_reads one_session)" by (simp add: one_session_facts)
  have "ag_steps (session_read 2 (Inr stored_session) one_session) = [user_step ''status?'']"
    by (simp add: session_read_def one_session_facts stepsFromSession_def stored_session_def message_step_def user_step_def)
  then show "session_read 2 (Inr stored_session) one_session \<noteq> one_session"
    using one_session_facts(6) by auto
qed

text \<open>
  The steps a failed run keeps on purpose do not stay: the run's end makes \<open>busy\<close> false, which runs
  the session effect, and its answer replaces the steps, the error included.
\<close>

lemma agent_errors_vanish:
  assumes "ag_busy s" "ag_sessionId s \<noteq> []" "snd q"
  shows "ag_steps (run_stored q fresh s) = ag_steps s \<and>
    (let s' = then_session True run_ended (run_stored q fresh s)
     in (ag_effect s', ag_sessionId s) \<in> set (ag_reads s') \<and>
        ag_steps (session_read (ag_effect s') (Inr fresh) s') = stepsFromSession fresh)"
  using assms by (simp add: agent_ops Let_def)

text \<open>
  Pressing Enter is not held back while an answer streams: a second prompt is sent, and what is still
  coming of the first answer goes to the second's message.
\<close>

lemma second_prompt_takes_answer:
  assumes "find_key pv_id (cp_providerId s) ps = Some p" "pv_status p = LlmReady" "trim (cp_input s) \<noteq> []"
  shows "cp_streaming s \<longrightarrow>
    page_calls on_chat_call [OnChunk (JStr t)] (snd (chat_send api ps s)) =
      Some (s\<lparr>cp_messages := cp_messages s @ [as_message MUser (trim (cp_input s)), as_message MAssistant t],
              cp_input := [], cp_streaming := True\<rparr>)"
  using assms by (simp add: chat_send_def Let_def append_chunk_def as_message_def butlast_append)

end
