(* ===== verification/Gpu_Status.thy ===== *)
theory Gpu_Status
  imports Catalogues
begin

text \<open>
  \<open>frontend/src/pages/monitoring/GPUStatus.tsx\<close>: which device plugin a node or pod is counted for,
  the two donuts drawn from that, the per-vendor drill-down and the per-card charts, and the three
  listings the page loads, each guarded against answers that come too late.
\<close>

subsection \<open>What the backend reports\<close>

record GPUCounts =
  gc_total :: int
  gc_used :: int
  gc_available :: int

record GPUVendorSummary =
  gv_vendor :: string
  gv_keys :: "string list"
  gv_counts :: GPUCounts
  gv_byKey :: "GPUCounts js_map"
  gv_primary :: string

record GPUNodeSummary =
  gn_node :: string
  gn_capacity :: "int js_map option"
  gn_allocated :: "int js_map option"
  gn_pods :: int

record GPUPodUsage =
  gu_namespace :: string
  gu_name :: string
  gu_node :: "string option"
  gu_phase :: string
  gu_resources :: "int js_map option"

record GPUStatus =
  gs_scope :: string
  gs_target :: "string option"
  gs_summary :: GPUCounts
  gs_vendors :: "GPUVendorSummary list"
  gs_nodes :: "GPUNodeSummary list"
  gs_pods :: "GPUPodUsage list"

record GPUDeviceUsage =
  gd_node :: string
  gd_gpu :: string
  gd_uuid :: "string option"
  gd_modelName :: "string option"
  gd_points :: "(string \<times> (int \<times> int)) list"

subsection \<open>Device plugins\<close>

definition HAMI_AUX_KEYS :: "string list" where
  "HAMI_AUX_KEYS = [''nvidia.com/gpualloc'', ''nvidia.com/gpucores'', ''nvidia.com/gpumem'']"

definition isHAMiManaged :: "int js_map \<Rightarrow> bool" where
  "isHAMiManaged r \<longleftrightarrow> (\<exists>k \<in> set HAMI_AUX_KEYS. map_of r k \<noteq> None)"

definition hamiSlotCount :: "int js_map \<Rightarrow> int" where
  "hamiSlotCount r =
     (case map_of r ''nvidia.com/gpualloc'' of
        Some n \<Rightarrow> n
      | None \<Rightarrow> (case map_of r ''nvidia.com/gpu'' of
          Some n \<Rightarrow> n
        | None \<Rightarrow> (case map_of r ''nvidia.com/gpucores'' of
            Some cores \<Rightarrow> if cores > 0 then max 1 (cores div 100) else 0
          | None \<Rightarrow> 0)))"

definition counted :: "int js_map \<Rightarrow> string \<Rightarrow> int option" where
  "counted r k = (case map_of r k of Some n \<Rightarrow> if n \<noteq> 0 then Some n else None | None \<Rightarrow> None)"

definition huawei_keys :: "int js_map \<Rightarrow> string list" where
  "huawei_keys r = filter (\<lambda>k. startsWith k ''huawei.com/'') (map fst r)"

text \<open>The classification below the HAMi test, which nodes and pods share.\<close>

definition plain_plugin :: "int js_map \<Rightarrow> (string \<times> int) option" where
  "plain_plugin r =
     (case counted r ''nvidia.com/gpu'' of
        Some n \<Rightarrow> Some (''NVIDIA Device Plugin'', n)
      | None \<Rightarrow>
          if huawei_keys r \<noteq> []
          then Some (''Huawei NPU'', sum_list (map (\<lambda>k. nullish (map_of r k) 0) (huawei_keys r)))
          else (case counted r ''amd.com/gpu'' of
              Some n \<Rightarrow> Some (''AMD'', n)
            | None \<Rightarrow> (case counted r ''intel.com/gpu'' of Some n \<Rightarrow> Some (''Intel'', n) | None \<Rightarrow> None)))"

definition classifyNodePlugin :: "int js_map \<Rightarrow> (string \<times> int) option" where
  "classifyNodePlugin capacity =
     (if isHAMiManaged capacity then Some (''HAMi (vGPU)'', hamiSlotCount capacity) else plain_plugin capacity)"

definition classifyPodPlugin :: "int js_map \<Rightarrow> (string \<times> int) option" where
  "classifyPodPlugin resources =
     (if isHAMiManaged resources
      then Some (''HAMi (vGPU)'', if hamiSlotCount resources \<noteq> 0 then hamiSlotCount resources else 1)
      else plain_plugin resources)"

text \<open>The tags of a resource map; none is shown as a dash.\<close>

definition resourceTags :: "int js_map \<Rightarrow> (string \<times> int) list" where
  "resourceTags r = map (\<lambda>(k, v). (last (split_on (CHR ''/'') k), v)) (filter (\<lambda>(k, v). v > 0) r)"

subsection \<open>Donuts\<close>

record slice =
  sl_name :: string
  sl_value :: int
  sl_color :: string
  sl_placeholder :: bool

definition DONUT_USED :: string where "DONUT_USED = ''#2468f2''"
definition DONUT_FREE :: string where "DONUT_FREE = ''#10b981''"

definition PLUGIN_PALETTE :: "string list" where
  "PLUGIN_PALETTE = [''#2468f2'', ''#a855f7'', ''#10b981'', ''#f8b418'', ''#e94f4f'', ''#06b6d4'', ''#8b5cf6'', ''#f97316'']"

definition usageDonut :: "GPUCounts \<Rightarrow> slice list" where
  "usageDonut c =
     (if gc_total c \<le> 0
      then [\<lparr>sl_name = ''No GPUs'', sl_value = 1, sl_color = ''#d9d9d9'', sl_placeholder = True\<rparr>]
      else [\<lparr>sl_name = ''In use'', sl_value = gc_used c, sl_color = DONUT_USED, sl_placeholder = False\<rparr>,
            \<lparr>sl_name = ''Available'', sl_value = gc_available c, sl_color = DONUT_FREE, sl_placeholder = False\<rparr>])"

fun tally :: "(string \<times> int) option list \<Rightarrow> int js_map \<Rightarrow> int js_map" where
  "tally [] t = t"
| "tally (None # rs) t = tally rs t"
| "tally (Some (p, n) # rs) t = tally rs (js_put p (nullish (map_of t p) 0 + n) t)"

definition classified :: "GPUNodeSummary list \<Rightarrow> GPUPodUsage list \<Rightarrow> (string \<times> int) option list" where
  "classified gpus usages =
     (if gpus \<noteq> [] then map (\<lambda>n. classifyNodePlugin (nullish (gn_capacity n) [])) gpus
      else map (\<lambda>p. classifyPodPlugin (nullish (gu_resources p) [])) usages)"

definition pluginsDonut :: "GPUNodeSummary list \<Rightarrow> GPUPodUsage list \<Rightarrow> slice list" where
  "pluginsDonut gpus usages =
     map (\<lambda>(i, (name, value)).
         \<lparr>sl_name = name, sl_value = value, sl_color = PLUGIN_PALETTE ! (i mod length PLUGIN_PALETTE),
          sl_placeholder = False\<rparr>)
       (enumerate 0 (filter (\<lambda>(_, v). v > 0) (tally (classified gpus usages) [])))"

definition donut_total :: "slice list \<Rightarrow> int" where
  "donut_total d = sum_list (map sl_value d)"

text \<open>The drill-down of a vendor, hidden for a single key.\<close>

definition vendor_rows :: "GPUVendorSummary \<Rightarrow> (string \<times> GPUCounts option) list" where
  "vendor_rows v = (if length (gv_keys v) > 1 then map (\<lambda>k. (k, map_of (gv_byKey v) k)) (gv_keys v) else [])"

subsection \<open>Cards\<close>

text \<open>\<open>Math.round\<close> of \<open>m\<close> times ten to the \<open>e\<close>: halves go up.\<close>

definition js_round :: "int \<times> int \<Rightarrow> int" where
  "js_round d = (case d of (m, e) \<Rightarrow>
     if e \<ge> 0 then m * 10 ^ nat e else (2 * m + 10 ^ nat (- e)) div (2 * 10 ^ nat (- e)))"

record device_card =
  dc_key :: string
  dc_title :: string
  dc_data :: "(string \<times> int) list"

definition middle_dot :: string where
  "middle_dot = [CHR '' '', CHR 0xC2, CHR 0xB7, CHR '' '']"

definition device_card_of :: "GPUDeviceUsage \<Rightarrow> device_card" where
  "device_card_of d =
     \<lparr>dc_key = gd_node d @ ''::'' @ gd_gpu d @ ''::'' @ nullish (gd_uuid d) '''',
      dc_title = gd_node d @ middle_dot @ ''GPU '' @ gd_gpu d @
        (if truthy_str (gd_modelName d) then middle_dot @ the (gd_modelName d) else []),
      dc_data = map (\<lambda>(t, v). (t, js_round v)) (gd_points d)\<rparr>"

definition DeviceChartGrid :: "GPUDeviceUsage list \<Rightarrow> device_card list" where
  "DeviceChartGrid devices = map device_card_of devices"

subsection \<open>The page\<close>

text \<open>
  The three listings. An effect that runs again makes the earlier run's answer count for nothing:
  \<open>gp_nsRun\<close> and \<open>gp_devRun\<close> number the runs of the two that can.
\<close>

record gpu_page =
  gp_cluster :: "GPUStatus option"
  gp_clusterLoading :: bool
  gp_ns :: "GPUStatus option"
  gp_nsLoading :: bool
  gp_devices :: "GPUDeviceUsage list"
  gp_devicesLoading :: bool
  gp_nsRun :: nat
  gp_devRun :: nat

definition namespace_effect :: "bool \<Rightarrow> string \<Rightarrow> gpu_page \<Rightarrow> http_request option \<times> gpu_page" where
  "namespace_effect isAdmin ns s =
     (let s = s\<lparr>gp_nsRun := Suc (gp_nsRun s)\<rparr>
      in if isAdmin then (None, s\<lparr>gp_ns := None, gp_nsLoading := False\<rparr>)
         else (Some (fetchGPUStatus False (Some ns)), s\<lparr>gp_nsLoading := True\<rparr>))"

definition devices_effect :: "bool \<Rightarrow> gpu_page \<Rightarrow> gpu_page" where
  "devices_effect isAdmin s =
     (let s = s\<lparr>gp_devRun := Suc (gp_devRun s)\<rparr>
      in if \<not> isAdmin then s\<lparr>gp_devices := [], gp_devicesLoading := False\<rparr> else s\<lparr>gp_devicesLoading := True\<rparr>)"

definition gpu_mounted :: "bool \<Rightarrow> string \<Rightarrow> gpu_page" where
  "gpu_mounted isAdmin ns = devices_effect isAdmin (snd (namespace_effect isAdmin ns
     \<lparr>gp_cluster = None, gp_clusterLoading = True, gp_ns = None, gp_nsLoading = False, gp_devices = [],
      gp_devicesLoading = True, gp_nsRun = 0, gp_devRun = 0\<rparr>))"

definition cluster_answered :: "GPUStatus promise \<Rightarrow> gpu_page \<Rightarrow> gpu_page" where
  "cluster_answered r s =
     (case r of Inr st \<Rightarrow> s\<lparr>gp_cluster := Some st\<rparr> | Inl _ \<Rightarrow> s)\<lparr>gp_clusterLoading := False\<rparr>"

definition namespace_answered :: "nat \<Rightarrow> GPUStatus promise \<Rightarrow> gpu_page \<Rightarrow> gpu_page" where
  "namespace_answered n r s =
     (if n \<noteq> gp_nsRun s then s
      else (case r of Inr st \<Rightarrow> s\<lparr>gp_ns := Some st\<rparr> | Inl _ \<Rightarrow> s)\<lparr>gp_nsLoading := False\<rparr>)"

definition devices_answered :: "nat \<Rightarrow> GPUDeviceUsage list promise \<Rightarrow> gpu_page \<Rightarrow> gpu_page" where
  "devices_answered n r s =
     (if n \<noteq> gp_devRun s then s
      else s\<lparr>gp_devices := (case r of Inr d \<Rightarrow> d | Inl _ \<Rightarrow> []), gp_devicesLoading := False\<rparr>)"

definition no_counts :: GPUCounts where
  "no_counts = \<lparr>gc_total = 0, gc_used = 0, gc_available = 0\<rparr>"

definition shown_summary :: "gpu_page \<Rightarrow> GPUCounts" where
  "shown_summary s = (case gp_cluster s of Some st \<Rightarrow> gs_summary st | None \<Rightarrow> no_counts)"

definition shown_nodes :: "gpu_page \<Rightarrow> GPUNodeSummary list" where
  "shown_nodes s = (case gp_cluster s of Some st \<Rightarrow> gs_nodes st | None \<Rightarrow> [])"

definition shown_pods :: "bool \<Rightarrow> gpu_page \<Rightarrow> GPUPodUsage list" where
  "shown_pods isAdmin s =
     (case (if isAdmin then gp_cluster s else gp_ns s) of Some st \<Rightarrow> gs_pods st | None \<Rightarrow> [])"

subsection \<open>Properties\<close>

lemma sum_js_put:
  fixes t :: "int js_map"
  shows "distinct (map fst t) \<Longrightarrow> sum_list (map snd (js_put p v t)) =
    sum_list (map snd t) - nullish (map_of t p) 0 + v"
  by (induction p v t rule: js_put.induct) (auto dest: map_of_SomeD)

lemma tally_distinct: "distinct (map fst t) \<Longrightarrow> distinct (map fst (tally rs t))"
  by (induction rs t rule: tally.induct) (simp_all add: distinct_js_put)

definition counts_of :: "(string \<times> int) option list \<Rightarrow> int list" where
  "counts_of rs = map (\<lambda>r. case r of Some (_, n) \<Rightarrow> n | None \<Rightarrow> 0) rs"

lemma tally_sum:
  "distinct (map fst t) \<Longrightarrow> sum_list (map snd (tally rs t)) = sum_list (map snd t) + sum_list (counts_of rs)"
  by (induction rs t rule: tally.induct) (simp_all add: counts_of_def sum_js_put distinct_js_put)

lemma tally_at:
  "distinct (map fst t) \<Longrightarrow> nullish (map_of (tally rs t) p) 0 =
     nullish (map_of t p) 0 + sum_list (map snd (filter (\<lambda>r. fst r = p) (List.map_filter id rs)))"
  by (induction rs t rule: tally.induct)
    (simp_all add: distinct_js_put map_of_js_put map_filter_simps split: option.splits)

lemma tally_nonneg:
  assumes "\<forall>(p, n) \<in> set t. 0 \<le> n" "\<forall>n \<in> set (counts_of rs). 0 \<le> n"
  shows "\<forall>(p, n) \<in> set (tally rs t). 0 \<le> n"
  using assms
proof (induction rs t rule: tally.induct)
  case (3 p n rs t)
  have "\<forall>(q, m) \<in> set (js_put p v t). 0 \<le> m" if "0 \<le> v" for v
    using 3(2) that by (induction p v t rule: js_put.induct) auto
  moreover have "0 \<le> nullish (map_of t p) 0 + n"
    using 3(2,3) by (cases "map_of t p") (force simp: counts_of_def dest: map_of_SomeD)+
  ultimately show ?case
    using 3 by (simp add: counts_of_def)
qed (auto simp: counts_of_def)

lemma sum_positive:
  fixes t :: "('k \<times> int) list"
  shows "\<forall>(p, n) \<in> set t. 0 \<le> n \<Longrightarrow> sum_list (map snd (filter (\<lambda>(_, v). v > 0) t)) = sum_list (map snd t)"
  by (induction t) auto

lemma donut_slices: "map (\<lambda>d. (sl_name d, sl_value d)) (pluginsDonut gpus usages) =
    filter (\<lambda>(_, v). v > 0) (tally (classified gpus usages) [])"
  by (simp add: pluginsDonut_def comp_def case_prod_beta)

lemma donut_names: "map sl_name (pluginsDonut gpus usages) =
    map fst (filter (\<lambda>(_, v). v > 0) (tally (classified gpus usages) []))"
  using arg_cong [OF donut_slices [of gpus usages], of "map fst"] by (simp add: comp_def)

lemma donut_values: "map sl_value (pluginsDonut gpus usages) =
    map snd (filter (\<lambda>(_, v). v > 0) (tally (classified gpus usages) []))"
  using arg_cong [OF donut_slices [of gpus usages], of "map snd"] by (simp add: comp_def)

definition nonneg :: "int js_map option \<Rightarrow> bool" where
  "nonneg r \<longleftrightarrow> (\<forall>x \<in> set (nullish r []). 0 \<le> snd x)"

lemma lookup_nonneg: "\<forall>x \<in> set r. 0 \<le> snd x \<Longrightarrow> map_of r k = Some n \<Longrightarrow> (0 :: int) \<le> n"
  by (force dest: map_of_SomeD)

lemma plain_nonneg:
  assumes "\<forall>x \<in> set r. (0 :: int) \<le> snd x" "plain_plugin r = Some (p, n)"
  shows "0 \<le> n"
proof -
  have "0 \<le> nullish (map_of r k) 0" for k
    using lookup_nonneg [OF assms(1), of k] by (cases "map_of r k") auto
  then have "0 \<le> sum_list (map (\<lambda>k. nullish (map_of r k) 0) ks)" for ks
    by (intro sum_list_nonneg) auto
  then show ?thesis
    using assms by (auto simp: plain_plugin_def counted_def split: option.splits if_splits dest: lookup_nonneg)
qed

lemma hami_nonneg: "\<forall>x \<in> set r. (0 :: int) \<le> snd x \<Longrightarrow> 0 \<le> hamiSlotCount r"
  by (auto simp: hamiSlotCount_def split: option.splits dest: lookup_nonneg)

lemma classified_nonneg:
  assumes "\<forall>g \<in> set gpus. nonneg (gn_capacity g)" "\<forall>u \<in> set usages. nonneg (gu_resources u)"
  shows "\<forall>n \<in> set (counts_of (classified gpus usages)). 0 \<le> n"
proof -
  have "0 \<le> n" if "nonneg r" "classifyNodePlugin (nullish r []) = Some (p, n)" for r p n
    using that plain_nonneg [of "nullish r []" p n] hami_nonneg [of "nullish r []"]
    by (auto simp: nonneg_def classifyNodePlugin_def split: if_splits)
  moreover have "0 \<le> n" if "nonneg r" "classifyPodPlugin (nullish r []) = Some (p, n)" for r p n
    using that plain_nonneg [of "nullish r []" p n] hami_nonneg [of "nullish r []"]
    by (auto simp: nonneg_def classifyPodPlugin_def split: if_splits)
  ultimately show ?thesis
    using assms by (auto simp: counts_of_def classified_def split: option.splits)
qed

text \<open>
  The plugin donut accounts for every GPU the page counts, once: no plugin has two slices and none an
  empty one, a slice holds the counts of all nodes (of all pods, where nodes cannot be read) that are
  counted for its plugin, and the total in the middle is the sum over them all.
\<close>

theorem plugin_donut_accounts:
  assumes "\<forall>g \<in> set gpus. nonneg (gn_capacity g)" "\<forall>u \<in> set usages. nonneg (gu_resources u)"
  shows "distinct (map sl_name (pluginsDonut gpus usages)) \<and>
    list_all (\<lambda>d. 0 < sl_value d \<and>
      sl_value d = sum_list (map snd (filter (\<lambda>r. fst r = sl_name d) (List.map_filter id (classified gpus usages)))))
      (pluginsDonut gpus usages) \<and>
    donut_total (pluginsDonut gpus usages) = sum_list (counts_of (classified gpus usages))"
proof -
  let ?t = "tally (classified gpus usages) []"
  have d: "distinct (map fst ?t)" by (rule tally_distinct) simp
  have "0 < sl_value s \<and>
      sl_value s = sum_list (map snd (filter (\<lambda>r. fst r = sl_name s) (List.map_filter id (classified gpus usages))))"
    if "s \<in> set (pluginsDonut gpus usages)" for s
  proof -
    have s: "(sl_name s, sl_value s) \<in> set ?t \<and> 0 < sl_value s"
      using imageI [OF that, of "\<lambda>d. (sl_name d, sl_value d)"]
      unfolding set_map [symmetric] donut_slices by auto
    then have "map_of ?t (sl_name s) = Some (sl_value s)"
      using d by (intro map_of_is_SomeI) simp_all
    then show ?thesis
      using s tally_at [of "[]" "classified gpus usages" "sl_name s"] by simp
  qed
  moreover have "donut_total (pluginsDonut gpus usages) = sum_list (counts_of (classified gpus usages))"
    using sum_positive [OF tally_nonneg [OF _ classified_nonneg [OF assms]], of "[]"]
      tally_sum [of "[]" "classified gpus usages"]
    by (simp add: donut_total_def donut_values)
  moreover have "distinct (map sl_name (pluginsDonut gpus usages))"
    using d by (simp add: donut_names distinct_map_filter)
  ultimately show ?thesis unfolding list_all_iff by blast
qed

definition hami_node :: GPUNodeSummary where
  "hami_node =
     \<lparr>gn_node = ''gpu-a'', gn_capacity = Some [(''nvidia.com/gpu'', 40), (''nvidia.com/gpumem'', 81920)],
      gn_allocated = None, gn_pods = 2\<rparr>"

definition plain_node :: GPUNodeSummary where
  "plain_node =
     \<lparr>gn_node = ''gpu-b'', gn_capacity = Some [(''nvidia.com/gpu'', 8)], gn_allocated = None, gn_pods = 0\<rparr>"

theorem plugin_donut_accounts_witness:
  "donut_total (pluginsDonut [hami_node, plain_node] []) = 48"
proof -
  have "donut_total (pluginsDonut [hami_node, plain_node] []) = sum_list (counts_of (classified [hami_node, plain_node] []))"
    using plugin_donut_accounts [where gpus = "[hami_node, plain_node]" and usages = "[]"]
    by (simp add: nonneg_def hami_node_def plain_node_def)
  then show ?thesis
    by (simp add: counts_of_def classified_def hami_node_def plain_node_def classifyNodePlugin_def
        isHAMiManaged_def HAMI_AUX_KEYS_def hamiSlotCount_def plain_plugin_def counted_def)
qed

text \<open>
  A point of a card is shown as the nearest whole number, a half rounded up.
\<close>

theorem js_round_nearest:
  "2 * m - 10 ^ k < 2 * 10 ^ k * js_round (m, - int k) \<and> 2 * 10 ^ k * js_round (m, - int k) \<le> 2 * m + 10 ^ k \<and>
   js_round (m, int k) = m * 10 ^ k"
proof -
  let ?d = "2 * 10 ^ k :: int" and ?n = "2 * m + 10 ^ k"
  have "js_round (m, - int k) = ?n div ?d"
    by (cases "k = 0") (simp_all add: js_round_def)
  moreover have "?d * (?n div ?d) = ?n - ?n mod ?d"
    by (rule minus_mod_eq_mult_div [symmetric])
  moreover have "0 \<le> ?n mod ?d" "?n mod ?d < ?d"
    by simp_all
  moreover have "js_round (m, int k) = m * 10 ^ k"
    by (simp add: js_round_def)
  ultimately show ?thesis
    by auto
qed

text \<open>
  When the listing for a newly selected namespace fails, the page keeps the pods of the one before,
  under the title of the new one.
\<close>

lemma failed_listing_keeps_other_namespace:
  "shown_pods False (namespace_answered (gp_nsRun (snd (namespace_effect False ns s))) (Inl e)
     (snd (namespace_effect False ns s))) = shown_pods False s"
  by (simp add: shown_pods_def namespace_answered_def namespace_effect_def Let_def)

text \<open>Only the latest run's answer counts.\<close>

lemma stale_gpu_answers_ignored:
  "n < gp_nsRun (snd (namespace_effect isAdmin ns s)) \<Longrightarrow>
   namespace_answered n r (snd (namespace_effect isAdmin ns s)) = snd (namespace_effect isAdmin ns s)"
  "n < gp_devRun (devices_effect isAdmin s) \<Longrightarrow>
   devices_answered n d (devices_effect isAdmin s) = devices_effect isAdmin s"
  by (simp_all add: namespace_answered_def devices_answered_def)


end
