(* ===== verification/Training_Form.thy ===== *)
theory Training_Form
  imports Training Local_Model_Cache
begin

text \<open>
  \<open>frontend/src/pages/training/NewTrainingRuntimeModal.tsx\<close>: what the form for a training runtime
  collects, the manifest it writes for its YAML mode, and what submitting sends. The manifest is
  compared with the object \<open>data/training.ts\<close> sends for the same form, by way of a small block-style
  YAML: \<open>block_map\<close> says which lines stand for which JSON object.
\<close>

subsection \<open>The form\<close>

definition PRE_JOB_TYPES :: "string list" where
  "PRE_JOB_TYPES = [''dataset-initializer'', ''model-initializer'']"

record PreJobFields =
  pf_image :: string
  pf_command :: "string option"
  pf_args :: "string option"
  pf_env :: "(string \<times> string) list option"

record RuntimeFormShape =
  rf_name :: string
  rf_framework :: string
  rf_numNodes :: int
  rf_image :: string
  rf_command :: "string option"
  rf_args :: "string option"
  rf_env :: "(string \<times> string) list option"
  rf_cpuRequest :: string
  rf_cpuLimit :: string
  rf_memoryRequest :: string
  rf_memoryLimit :: string
  rf_gpuProfileId :: "string option"
  rf_gpuValues :: "int js_map option"
  rf_preJobs :: "PreJobFields js_map"
  rf_cluster :: "bool option"

definition blankPreJob :: PreJobFields where
  "blankPreJob = \<lparr>pf_image = '''', pf_command = Some '''', pf_args = Some '''', pf_env = Some []\<rparr>"

definition blankDefaults :: RuntimeFormShape where
  "blankDefaults =
     \<lparr>rf_name = '''', rf_framework = ''torch'', rf_numNodes = 1, rf_image = '''', rf_command = Some '''',
      rf_args = Some '''', rf_env = Some [], rf_cpuRequest = ''8'', rf_cpuLimit = ''8'', rf_memoryRequest = ''64Gi'',
      rf_memoryLimit = ''64Gi'', rf_gpuProfileId = None, rf_gpuValues = None,
      rf_preJobs = map (\<lambda>t. (t, blankPreJob)) PRE_JOB_TYPES, rf_cluster = None\<rparr>"

definition linesToArray :: "string option \<Rightarrow> string list" where
  "linesToArray s =
     (if \<not> truthy_str s then [] else filter (\<lambda>x. x \<noteq> []) (map trim (split_on (CHR 0x0A) (nullish s ''''))))"

definition named_env :: "(string \<times> string) list option \<Rightarrow> (string \<times> string) list" where
  "named_env env = filter (\<lambda>e. fst e \<noteq> []) (nullish env [])"

definition collectPayload :: "(string \<Rightarrow> bool) \<Rightarrow> RuntimeFormShape \<Rightarrow> CreateTrainingRuntimeRequest" where
  "collectPayload enabled v =
     \<lparr>tr_req_name = rf_name v, tr_req_framework = rf_framework v, tr_req_image = rf_image v,
      tr_req_numNodes = rf_numNodes v, tr_req_command = Some (linesToArray (rf_command v)),
      tr_req_args = Some (linesToArray (rf_args v)), tr_req_env = Some (named_env (rf_env v)),
      tr_req_cpuRequest = Some (rf_cpuRequest v), tr_req_cpuLimit = Some (rf_cpuLimit v),
      tr_req_memoryRequest = Some (rf_memoryRequest v), tr_req_memoryLimit = Some (rf_memoryLimit v),
      tr_req_gpuValues = (if truthy_str (rf_gpuProfileId v) then rf_gpuValues v else None),
      tr_req_preJobs = Some (map (\<lambda>t. let slot = nullish (map_of (rf_preJobs v) t) blankPreJob in
          \<lparr>pj_name = t, pj_image = pf_image slot, pj_command = Some (linesToArray (pf_command slot)),
           pj_args = Some (linesToArray (pf_args slot)), pj_env = Some (named_env (pf_env slot))\<rparr>)
        (filter enabled PRE_JOB_TYPES)),
      tr_req_cluster = rf_cluster v\<rparr>"

subsection \<open>The manifest\<close>

definition yaml_words :: "string list" where
  "yaml_words = [''true'', ''false'', ''null'', ''yes'', ''no'']"

definition quote_chars :: string where
  "quote_chars = '':#&*!|>%@,{}[]?-'' @ [CHR 0x27, CHR 0x22, CHR 0x60]"

definition digit_start :: "string \<Rightarrow> bool" where
  "digit_start s \<longleftrightarrow>
     (case s of [] \<Rightarrow> False
      | c # t \<Rightarrow> is_digit c \<or> c = CHR ''-'' \<and> (case t of [] \<Rightarrow> False | d # _ \<Rightarrow> is_digit d))"

definition runtime_yamlQuote :: "string \<Rightarrow> string" where
  "runtime_yamlQuote s =
     (if s = [] \<or> has_space s \<or> (\<exists>c \<in> set s. c \<in> set quote_chars) \<or> toLowerCase s \<in> set yaml_words \<or> digit_start s
      then CHR 0x22 # concat (map yaml_escape s) @ [CHR 0x22] else s)"

definition spaces :: "nat \<Rightarrow> string" where
  "spaces n = replicate n CHR '' ''"

definition resource_value :: "json \<Rightarrow> string" where
  "resource_value v = (case v of JStr s \<Rightarrow> runtime_yamlQuote s | JNum m e \<Rightarrow> show_int m | _ \<Rightarrow> '''')"

definition list_lines :: "string \<Rightarrow> string \<Rightarrow> string list \<Rightarrow> string list" where
  "list_lines p k vs =
     (if vs = [] then [] else (p @ ''  '' @ k @ '':'') # map (\<lambda>v. p @ ''    - '' @ runtime_yamlQuote v) vs)"

definition env_lines :: "string \<Rightarrow> (string \<times> string) list \<Rightarrow> string list" where
  "env_lines p env =
     (if env = [] then []
      else (p @ ''  env:'') #
        concat (map (\<lambda>(n, v). [p @ ''    - name: '' @ n, p @ ''      value: '' @ runtime_yamlQuote v]) env))"

definition resource_lines :: "string \<Rightarrow> (string \<times> json) list \<Rightarrow> (string \<times> json) list \<Rightarrow> string list" where
  "resource_lines p requests limits =
     [p @ ''  resources:'', p @ ''    requests:''] @
     map (\<lambda>(k, v). p @ ''      '' @ k @ '': '' @ resource_value v) requests @
     [p @ ''    limits:''] @ map (\<lambda>(k, v). p @ ''      '' @ k @ '': '' @ resource_value v) limits"

definition emitContainer ::
  "string \<Rightarrow> string \<Rightarrow> string list \<Rightarrow> string list \<Rightarrow> (string \<times> string) list \<Rightarrow> nat \<Rightarrow>
     ((string \<times> json) list \<times> (string \<times> json) list) option \<Rightarrow> string list" where
  "emitContainer name img command args env indentLevel resources =
     (let p = spaces (2 * indentLevel)
      in [p @ ''- name: '' @ name, p @ ''  image: '' @ or_str img ''<image>''] @
         list_lines p ''command'' command @ list_lines p ''args'' args @ env_lines p env @
         (case resources of Some (requests, limits) \<Rightarrow> resource_lines p requests limits | None \<Rightarrow> []))"

definition step_lines :: "string \<Rightarrow> string \<Rightarrow> string option \<Rightarrow> string list" where
  "step_lines name step lastStep =
     [''        - name: '' @ name] @
     (if truthy_str lastStep
      then [''          dependsOn:'', ''            - name: '' @ nullish lastStep '''', ''              status: Complete'']
      else []) @
     [''          template:'', ''            metadata:'', ''              labels:'',
      ''                trainer.kubeflow.org/trainjob-ancestor-step: '' @ step, ''            spec:'',
      ''              template:'', ''                spec:'', ''                  containers:'']"

fun pre_job_lines :: "RuntimePreJob list \<Rightarrow> string option \<Rightarrow> string list \<times> string option" where
  "pre_job_lines [] lastStep = ([], lastStep)"
| "pre_job_lines (p # ps) lastStep =
     (let (ls, l) = pre_job_lines ps (Some (pj_name p))
      in (step_lines (pj_name p) (pj_name p) lastStep @
          emitContainer (pj_name p) (pj_image p) (nullish (pj_command p) []) (nullish (pj_args p) [])
            (nullish (pj_env p) []) 10 None @ ls, l))"

definition json_fields :: "json \<Rightarrow> (string \<times> json) list" where
  "json_fields j = (case j of JObj fs \<Rightarrow> fs | _ \<Rightarrow> [])"

definition runtime_lines :: "CreateTrainingRuntimeRequest \<Rightarrow> string \<Rightarrow> string list" where
  "runtime_lines req ns =
     (let cluster = (tr_req_cluster req = Some True);
          framework = or_str (tr_req_framework req) ''torch'';
          (pre, lastStep) = pre_job_lines (nullish (tr_req_preJobs req) []) None
      in [''apiVersion: trainer.kubeflow.org/v1alpha1'',
          ''kind: '' @ (if cluster then ''ClusterTrainingRuntime'' else ''TrainingRuntime''),
          ''metadata:'', ''  name: '' @ or_str (tr_req_name req) ''<name>''] @
         (if cluster then [] else [''  namespace: '' @ ns]) @
         [''  labels:'', ''    knaic.io/managed: '' @ [CHR 0x22] @ ''true'' @ [CHR 0x22],
          ''    knaic.io/component: training'', ''    knaic.io/framework: '' @ framework, ''spec:'', ''  mlPolicy:'',
          ''    numNodes: '' @ show_int (if tr_req_numNodes req = 0 then 1 else tr_req_numNodes req),
          ''    '' @ framework @ '': {}'', ''  template:'', ''    spec:'', ''      replicatedJobs:''] @
         pre @ step_lines ''node'' ''trainer'' lastStep @
         emitContainer ''node'' (tr_req_image req) (nullish (tr_req_command req) []) (nullish (tr_req_args req) [])
           (nullish (tr_req_env req) []) 10 (Some (json_fields (resource_requests req), json_fields (resource_limits req))))"

definition buildTrainingRuntimeYaml :: "CreateTrainingRuntimeRequest \<Rightarrow> string \<Rightarrow> string" where
  "buildTrainingRuntimeYaml req ns = join nl (runtime_lines req ns) @ nl"

subsection \<open>Submitting\<close>

text \<open>\<open>/\bkind:\s*ClusterTrainingRuntime\b/\<close>, searched for anywhere in the text.\<close>

definition regex_word_char :: "char \<Rightarrow> bool" where
  "regex_word_char c \<longleftrightarrow> c \<in> set upper_letters \<or> c \<in> set lower_letters \<or> is_digit c \<or> c = CHR ''_''"

definition kind_here :: "string \<Rightarrow> bool" where
  "kind_here s \<longleftrightarrow> startsWith s ''kind:'' \<and>
     (let rest = skip_ws (drop 5 s)
      in startsWith rest ''ClusterTrainingRuntime'' \<and>
         (case drop (length ''ClusterTrainingRuntime'') rest of [] \<Rightarrow> True | c # _ \<Rightarrow> \<not> regex_word_char c))"

fun kind_within :: "bool \<Rightarrow> string \<Rightarrow> bool" where
  "kind_within after_word [] = False"
| "kind_within after_word (c # s) \<longleftrightarrow> \<not> after_word \<and> kind_here (c # s) \<or> kind_within (regex_word_char c) s"

definition isCluster :: "string \<Rightarrow> bool" where
  "isCluster t \<longleftrightarrow> kind_within False t"

datatype submit_mode = FormMode | YamlMode

text \<open>The request a submission makes in YAML mode; \<open>None\<close> is the refusal of an empty body.\<close>

definition yaml_submission :: "string \<Rightarrow> string \<Rightarrow> http_request option" where
  "yaml_submission ns yamlText =
     (let t = trim yamlText
      in if t = [] then None
         else Some (if isCluster t then createClusterYaml Clustertrainingruntimes t
                    else createNamespacedYaml Trainingruntimes ns t))"

record runtime_modal =
  rm_mode :: submit_mode
  rm_yamlText :: string
  rm_enabled :: "string \<Rightarrow> bool"
  rm_open :: bool

definition modal_reset :: runtime_modal where
  "modal_reset = \<lparr>rm_mode = FormMode, rm_yamlText = '''', rm_enabled = (\<lambda>_. False), rm_open = False\<rparr>"

definition generateYaml :: "string \<Rightarrow> RuntimeFormShape \<Rightarrow> runtime_modal \<Rightarrow> runtime_modal" where
  "generateYaml ns v m = m\<lparr>rm_yamlText := buildTrainingRuntimeYaml (collectPayload (rm_enabled m) v) ns\<rparr>"

definition mode_chosen :: "string \<Rightarrow> RuntimeFormShape \<Rightarrow> submit_mode \<Rightarrow> runtime_modal \<Rightarrow> runtime_modal" where
  "mode_chosen ns v next m =
     (if next = YamlMode \<and> rm_yamlText m = [] then generateYaml ns v m else m)\<lparr>rm_mode := next\<rparr>"

definition pre_job_toggled :: "string \<Rightarrow> bool \<Rightarrow> runtime_modal \<Rightarrow> runtime_modal" where
  "pre_job_toggled t on m = m\<lparr>rm_enabled := (rm_enabled m)(t := on)\<rparr>"

text \<open>
  \<open>onOk\<close>: a failed call leaves the modal open, a successful one resets and closes it; the YAML mode
  reloads the list itself, the form mode through \<open>createTrainingRuntime\<close>.
\<close>

definition onOk ::
  "bool \<Rightarrow> unit backend \<Rightarrow> string \<Rightarrow> string \<Rightarrow> string \<Rightarrow> RuntimeFormShape \<Rightarrow> runtime_modal \<Rightarrow> training \<Rightarrow>
     runtime_modal \<times> training" where
  "onOk api send draw today ns v m s =
     (case rm_mode m of
        YamlMode \<Rightarrow>
          (case yaml_submission ns (rm_yamlText m) of
             None \<Rightarrow> (m, s)
           | Some r \<Rightarrow> (case send r of
               Inl e \<Rightarrow> (m, s)
             | Inr _ \<Rightarrow> (modal_reset, reloadTrainingRuntimes api ns s)))
      | FormMode \<Rightarrow>
          (case createTrainingRuntime api send draw today ns (collectPayload (rm_enabled m) v) s of
             (Inl e, s') \<Rightarrow> (m, s')
           | (Inr _, s') \<Rightarrow> (modal_reset, s')))"

subsection \<open>Block-style YAML\<close>

text \<open>
  Plain scalars that read as the text itself: no indicator in front, no white space, and not one of the
  words and number forms YAML reads as something else. A quoted scalar may hold any printable text.
\<close>

definition other_words :: "string list" where
  "other_words = [''true'', ''false'', ''null'', ''yes'', ''no'', ''on'', ''off'', ''y'', ''n'', ''~'', ''<<'', ''='',
     ''.inf'', ''+.inf'', ''-.inf'', ''.nan'']"

definition number_start :: "string \<Rightarrow> bool" where
  "number_start s \<longleftrightarrow>
     (case s of [] \<Rightarrow> False
      | c # t \<Rightarrow> is_digit c \<or> c \<in> set ''+-.'' \<and> (case t of [] \<Rightarrow> False | d # _ \<Rightarrow> is_digit d \<or> d = CHR ''.''))"

definition indicators :: string where
  "indicators = ''-?:,[]{}#&*!|>%@'' @ [CHR 0x27, CHR 0x22, CHR 0x60]"

definition reads_plain :: "string \<Rightarrow> bool" where
  "reads_plain s \<longleftrightarrow> s \<noteq> [] \<and> \<not> has_space s \<and> hd s \<notin> set indicators \<and> last s \<noteq> CHR '':'' \<and>
     toLowerCase s \<notin> set other_words \<and> \<not> number_start s"

definition quoted_text :: "string \<Rightarrow> string" where
  "quoted_text s = CHR 0x22 # concat (map yaml_escape s) @ [CHR 0x22]"

definition printable :: "string \<Rightarrow> bool" where
  "printable s \<longleftrightarrow> (\<forall>c \<in> set s. 0x20 \<le> (of_char c :: nat))"

fun scalar :: "json \<Rightarrow> string \<Rightarrow> bool" where
  "scalar (JStr s) t \<longleftrightarrow> t = quoted_text s \<and> printable s \<or> t = s \<and> reads_plain s"
| "scalar (JNum m e) t \<longleftrightarrow> e = 0 \<and> t = show_int m"
| "scalar (JObj fs) t \<longleftrightarrow> fs = [] \<and> t = ''{}''"
| "scalar _ t \<longleftrightarrow> False"

text \<open>A text in block style, and the lines it has at an indentation.\<close>

datatype yaml = YText string | YMap "(string \<times> yaml) list" | YSeq "yaml list"

definition entry_lines :: "nat \<Rightarrow> string \<Rightarrow> yaml \<Rightarrow> string list \<Rightarrow> string list" where
  "entry_lines n k v ls =
     (case v of YText t \<Rightarrow> [spaces n @ k @ '': '' @ t] | _ \<Rightarrow> (spaces n @ k @ '':'') # ls)"

fun dashed :: "nat \<Rightarrow> string list \<Rightarrow> string list" where
  "dashed n [] = []"
| "dashed n (l # ls) = (spaces n @ ''- '' @ drop (n + 2) l) # ls"

fun yaml_lines :: "nat \<Rightarrow> yaml \<Rightarrow> string list" where
  "yaml_lines n (YText t) = [spaces n @ t]"
| "yaml_lines n (YMap fs) = concat (map (\<lambda>(k, v). entry_lines n k v (yaml_lines (n + 2) v)) fs)"
| "yaml_lines n (YSeq vs) = concat (map (\<lambda>v. dashed n (yaml_lines (n + 2) v)) vs)"

text \<open>The value a text stands for.\<close>

inductive denotes :: "yaml \<Rightarrow> json \<Rightarrow> bool" where
  den_text: "scalar j t \<Longrightarrow> denotes (YText t) j"
| den_map: "fs \<noteq> [] \<Longrightarrow>
    list_all2 (\<lambda>p q. fst p = fst q \<and> reads_plain (fst p) \<and> denotes (snd p) (snd q)) fs gs \<Longrightarrow>
    denotes (YMap fs) (JObj gs)"
| den_seq: "vs \<noteq> [] \<Longrightarrow> list_all2 denotes vs js \<Longrightarrow> denotes (YSeq vs) (JArr js)"

text \<open>Two objects that differ only in the order of their fields.\<close>

inductive same_json :: "json \<Rightarrow> json \<Rightarrow> bool" where
  same_refl: "same_json j j"
| same_arr: "list_all2 same_json js ks \<Longrightarrow> same_json (JArr js) (JArr ks)"
| same_obj: "distinct (map fst fs) \<Longrightarrow> distinct (map fst gs) \<Longrightarrow> fst ` set fs = fst ` set gs \<Longrightarrow>
    (\<And>k v w. map_of fs k = Some v \<Longrightarrow> map_of gs k = Some w \<Longrightarrow> same_json v w) \<Longrightarrow>
    same_json (JObj fs) (JObj gs)"

subsection \<open>The manifest as an object\<close>

text \<open>The same fields in the order the manifest has them.\<close>

definition manifest_job :: "string \<Rightarrow> string \<Rightarrow> json \<Rightarrow> string option \<Rightarrow> json" where
  "manifest_job name step container lastStep = JObj
     ([(''name'', JStr name)] @
      (if truthy_str lastStep
       then [(''dependsOn'', JArr [JObj [(''name'', JStr (nullish lastStep '''')), (''status'', JStr ''Complete'')]])]
       else []) @
      [(''template'', JObj
         [(''metadata'', JObj [(''labels'', JObj [(ancestor_step, JStr step)])]),
          (''spec'', JObj [(''template'', JObj [(''spec'', JObj [(''containers'', JArr [container])])])])])])"

fun manifest_pre_jobs :: "RuntimePreJob list \<Rightarrow> string option \<Rightarrow> json list \<times> string option" where
  "manifest_pre_jobs [] lastStep = ([], lastStep)"
| "manifest_pre_jobs (p # ps) lastStep =
     (let (js, l) = manifest_pre_jobs ps (Some (pj_name p))
      in (manifest_job (pj_name p) (pj_name p) (pre_container p) lastStep # js, l))"

definition manifest_jobs :: "CreateTrainingRuntimeRequest \<Rightarrow> json list" where
  "manifest_jobs req =
     (let (js, lastStep) = manifest_pre_jobs (nullish (tr_req_preJobs req) []) None
      in js @ [manifest_job ''node'' ''trainer'' (trainer_container req) lastStep])"

definition runtime_fields :: "CreateTrainingRuntimeRequest \<Rightarrow> string \<Rightarrow> (string \<times> json) list" where
  "runtime_fields req ns =
     (let cluster = (tr_req_cluster req = Some True); framework = or_str (tr_req_framework req) ''torch''
      in [(''apiVersion'', JStr ''trainer.kubeflow.org/v1alpha1''),
          (''kind'', JStr (if cluster then ''ClusterTrainingRuntime'' else ''TrainingRuntime'')),
          (''metadata'', JObj
            ([(''name'', JStr (tr_req_name req))] @ (if cluster then [] else [(''namespace'', JStr ns)]) @
             [(''labels'', JObj [(''knaic.io/managed'', JStr ''true''), (''knaic.io/component'', JStr ''training''),
               (''knaic.io/framework'', JStr framework)])])),
          (''spec'', JObj
            [(''mlPolicy'', JObj
               [(''numNodes'', jint (if tr_req_numNodes req = 0 then 1 else tr_req_numNodes req)), (framework, JObj [])]),
             (''template'', JObj [(''spec'', JObj [(''replicatedJobs'', JArr (manifest_jobs req))])])])])"

text \<open>The manifest as a block-style text.\<close>

definition text_entries :: "string \<Rightarrow> string list option \<Rightarrow> (string \<times> yaml) list" where
  "text_entries k vs =
     (if nullish vs [] = [] then [] else [(k, YSeq (map (\<lambda>v. YText (runtime_yamlQuote v)) (nullish vs [])))])"

definition env_entries :: "(string \<times> string) list option \<Rightarrow> (string \<times> yaml) list" where
  "env_entries env =
     (if nullish env [] = [] then []
      else [(''env'', YSeq (map (\<lambda>(n, v). YMap [(''name'', YText n), (''value'', YText (runtime_yamlQuote v))])
        (nullish env [])))])"

definition value_entries :: "(string \<times> json) list \<Rightarrow> yaml" where
  "value_entries m = YMap (map (\<lambda>(k, v). (k, YText (resource_value v))) m)"

definition container_yaml ::
  "string \<Rightarrow> string \<Rightarrow> string list option \<Rightarrow> string list option \<Rightarrow> (string \<times> string) list option \<Rightarrow>
     (string \<times> yaml) list \<Rightarrow> yaml" where
  "container_yaml name img command args env rest = YMap
     ([(''name'', YText name), (''image'', YText img)] @ text_entries ''command'' command @
      text_entries ''args'' args @ env_entries env @ rest)"

definition job_yaml :: "string \<Rightarrow> string \<Rightarrow> string option \<Rightarrow> yaml \<Rightarrow> yaml" where
  "job_yaml name step lastStep container = YMap
     ([(''name'', YText name)] @
      (if truthy_str lastStep
       then [(''dependsOn'', YSeq [YMap [(''name'', YText (nullish lastStep '''')), (''status'', YText ''Complete'')]])]
       else []) @
      [(''template'', YMap
         [(''metadata'', YMap [(''labels'', YMap [(ancestor_step, YText step)])]),
          (''spec'', YMap [(''template'', YMap [(''spec'', YMap [(''containers'', YSeq [container])])])])])])"

fun pre_jobs_yaml :: "RuntimePreJob list \<Rightarrow> string option \<Rightarrow> yaml list \<times> string option" where
  "pre_jobs_yaml [] lastStep = ([], lastStep)"
| "pre_jobs_yaml (p # ps) lastStep =
     (let (ys, l) = pre_jobs_yaml ps (Some (pj_name p))
      in (job_yaml (pj_name p) (pj_name p) lastStep
            (container_yaml (pj_name p) (pj_image p) (pj_command p) (pj_args p) (pj_env p) []) # ys, l))"

definition trainer_yaml :: "CreateTrainingRuntimeRequest \<Rightarrow> yaml" where
  "trainer_yaml req = container_yaml ''node'' (tr_req_image req) (tr_req_command req) (tr_req_args req) (tr_req_env req)
     [(''resources'', YMap [(''requests'', value_entries (json_fields (resource_requests req))),
        (''limits'', value_entries (json_fields (resource_limits req)))])]"

definition jobs_yaml :: "CreateTrainingRuntimeRequest \<Rightarrow> yaml list" where
  "jobs_yaml req =
     (let (ys, lastStep) = pre_jobs_yaml (nullish (tr_req_preJobs req) []) None
      in ys @ [job_yaml ''node'' ''trainer'' lastStep (trainer_yaml req)])"

definition runtime_yaml :: "CreateTrainingRuntimeRequest \<Rightarrow> string \<Rightarrow> yaml" where
  "runtime_yaml req ns =
     (let cluster = (tr_req_cluster req = Some True); framework = or_str (tr_req_framework req) ''torch''
      in YMap
        [(''apiVersion'', YText ''trainer.kubeflow.org/v1alpha1''),
         (''kind'', YText (if cluster then ''ClusterTrainingRuntime'' else ''TrainingRuntime'')),
         (''metadata'', YMap
           ([(''name'', YText (tr_req_name req))] @ (if cluster then [] else [(''namespace'', YText ns)]) @
            [(''labels'', YMap [(''knaic.io/managed'', YText (quoted_text ''true'')),
               (''knaic.io/component'', YText ''training''), (''knaic.io/framework'', YText framework)])])),
         (''spec'', YMap
           [(''mlPolicy'', YMap
              [(''numNodes'', YText (show_int (if tr_req_numNodes req = 0 then 1 else tr_req_numNodes req))),
               (framework, YText ''{}'')]),
            (''template'', YMap [(''spec'', YMap [(''replicatedJobs'', YSeq (jobs_yaml req))])])])])"

subsection \<open>The lines are those of the text\<close>

lemma spaces_simps [simp]: "spaces 0 = ''''" "spaces (Suc n) = CHR '' '' # spaces n"
  "spaces (numeral k) = CHR '' '' # spaces (pred_numeral k)"
  by (simp_all add: spaces_def numeral_eq_Suc)

lemma drop_spaces [simp]: "drop n (spaces n @ s) = s"
  by (simp add: spaces_def)

lemma or_str_filled: "s \<noteq> [] \<Longrightarrow> or_str s d = s"
  by (simp add: or_str_def)

lemma list_lines_yaml:
  "list_lines (spaces 20) k (nullish vs []) =
   concat (map (\<lambda>(k, v). entry_lines 22 k v (yaml_lines 24 v)) (text_entries k vs))"
  by (simp add: list_lines_def text_entries_def entry_lines_def comp_def)

lemma env_lines_yaml:
  "env_lines (spaces 20) (nullish env []) =
   concat (map (\<lambda>(k, v). entry_lines 22 k v (yaml_lines 24 v)) (env_entries env))"
  by (simp add: env_lines_def env_entries_def entry_lines_def comp_def case_prod_unfold)

lemma value_lines_yaml:
  "yaml_lines n (value_entries m) = map (\<lambda>(k, v). spaces n @ k @ '': '' @ resource_value v) m"
  by (induction m) (auto simp: value_entries_def entry_lines_def)

lemma job_lines_yaml:
  "dashed 8 (yaml_lines 10 (job_yaml name step lastStep c)) = step_lines name step lastStep @ dashed 20 (yaml_lines 22 c)"
  by (simp add: job_yaml_def step_lines_def entry_lines_def ancestor_step_def)

lemma container_lines_yaml:
  assumes "img \<noteq> []"
  shows "dashed 20 (yaml_lines 22 (container_yaml name img command args env rest)) =
    [spaces 20 @ ''- name: '' @ name, spaces 20 @ ''  image: '' @ img] @
    list_lines (spaces 20) ''command'' (nullish command []) @ list_lines (spaces 20) ''args'' (nullish args []) @
    env_lines (spaces 20) (nullish env []) @ concat (map (\<lambda>(k, v). entry_lines 22 k v (yaml_lines 24 v)) rest)"
  unfolding list_lines_yaml env_lines_yaml by (simp add: container_yaml_def entry_lines_def)

lemma pre_jobs_lines_yaml:
  assumes "\<forall>p \<in> set ps. pj_image p \<noteq> []"
  shows "pre_job_lines ps l =
    (concat (map (\<lambda>v. dashed 8 (yaml_lines 10 v)) (fst (pre_jobs_yaml ps l))), snd (pre_jobs_yaml ps l))"
  using assms
proof (induction ps arbitrary: l)
  case (Cons p ps)
  have c: "emitContainer (pj_name p) (pj_image p) (nullish (pj_command p) []) (nullish (pj_args p) [])
      (nullish (pj_env p) []) 10 None =
    dashed 20 (yaml_lines 22 (container_yaml (pj_name p) (pj_image p) (pj_command p) (pj_args p) (pj_env p) []))"
    using Cons.prems container_lines_yaml [of "pj_image p" "pj_name p" "pj_command p" "pj_args p" "pj_env p" "[]"]
    by (simp add: emitContainer_def Let_def or_str_filled del: spaces_simps yaml_lines.simps)
  show ?case
    using Cons by (simp add: case_prod_unfold Let_def job_lines_yaml c)
qed simp

lemma trainer_lines_yaml:
  assumes "tr_req_image req \<noteq> []"
  shows "emitContainer ''node'' (tr_req_image req) (nullish (tr_req_command req) []) (nullish (tr_req_args req) [])
      (nullish (tr_req_env req) []) 10 (Some (json_fields (resource_requests req), json_fields (resource_limits req))) =
    dashed 20 (yaml_lines 22 (trainer_yaml req))"
proof -
  have "concat (map (\<lambda>(k, v). entry_lines 22 k v (yaml_lines 24 v))
      [(''resources'', YMap [(''requests'', value_entries (json_fields (resource_requests req))),
        (''limits'', value_entries (json_fields (resource_limits req)))])]) =
    resource_lines (spaces 20) (json_fields (resource_requests req)) (json_fields (resource_limits req))"
    by (simp add: resource_lines_def entry_lines_def value_entries_def comp_def case_prod_unfold)
  then show ?thesis
    unfolding trainer_yaml_def container_lines_yaml [OF assms]
    by (simp add: emitContainer_def Let_def assms or_str_filled del: spaces_simps yaml_lines.simps)
qed

lemma runtime_lines_yaml:
  assumes "tr_req_name req \<noteq> []" "tr_req_image req \<noteq> []"
    and "\<forall>p \<in> set (nullish (tr_req_preJobs req) []). pj_image p \<noteq> []"
  shows "runtime_lines req ns = yaml_lines 0 (runtime_yaml req ns)"
proof -
  have jobs: "yaml_lines 8 (YSeq (jobs_yaml req)) =
      fst (pre_job_lines (nullish (tr_req_preJobs req) []) None) @
      step_lines ''node'' ''trainer'' (snd (pre_job_lines (nullish (tr_req_preJobs req) []) None)) @
      dashed 20 (yaml_lines 22 (trainer_yaml req))"
    by (simp add: jobs_yaml_def pre_jobs_lines_yaml [OF assms(3)] case_prod_unfold Let_def job_lines_yaml)
  have eight: "Suc (Suc (Suc (Suc (Suc (Suc (Suc (Suc 0))))))) = 8" by simp
  show ?thesis
    using assms(1,2)
    by (simp add: runtime_lines_def runtime_yaml_def entry_lines_def case_prod_unfold Let_def eight jobs trainer_lines_yaml
        quoted_text_def yaml_escape_def or_str_filled del: yaml_lines.simps(3))
qed

subsection \<open>The text stands for the object\<close>

lemma lower_long: "5 < length s \<Longrightarrow> toLowerCase s \<notin> set other_words"
  by (auto simp: other_words_def toLowerCase_def dest!: arg_cong [of _ _ length])

lemma lower_hd: "s \<noteq> [] \<Longrightarrow> hd (toLowerCase s) = lower_char (hd s)"
  by (simp add: toLowerCase_def hd_map)

lemma keys_plain [simp]:
  "reads_plain ''apiVersion''" "reads_plain ''kind''" "reads_plain ''metadata''" "reads_plain ''name''"
  "reads_plain ''namespace''" "reads_plain ''labels''" "reads_plain ''knaic.io/managed''"
  "reads_plain ''knaic.io/component''" "reads_plain ''knaic.io/framework''" "reads_plain ''spec''"
  "reads_plain ''mlPolicy''" "reads_plain ''numNodes''" "reads_plain ''template''" "reads_plain ''replicatedJobs''"
  "reads_plain ''dependsOn''" "reads_plain ''status''" "reads_plain ''containers''" "reads_plain ''image''"
  "reads_plain ''command''" "reads_plain ''args''" "reads_plain ''env''" "reads_plain ''value''"
  "reads_plain ''resources''" "reads_plain ''requests''" "reads_plain ''limits''" "reads_plain ''cpu''"
  "reads_plain ''memory''" "reads_plain ancestor_step"
  by (simp_all add: reads_plain_def indicators_def number_start_def is_digit_def ancestor_step_def other_words_def
      toLowerCase_def lower_char_def upper_letters_def lower_letters_def)

lemma texts_plain [simp]:
  "reads_plain ''trainer.kubeflow.org/v1alpha1''" "reads_plain ''ClusterTrainingRuntime''" "reads_plain ''TrainingRuntime''"
  "reads_plain ''training''" "reads_plain ''node''" "reads_plain ''trainer''" "reads_plain ''Complete''"
  by (simp_all add: reads_plain_def indicators_def number_start_def is_digit_def other_words_def
      toLowerCase_def lower_char_def upper_letters_def lower_letters_def)

definition safe_value :: "string \<Rightarrow> bool" where
  "safe_value v \<longleftrightarrow> printable v \<and> (reads_plain v \<or> runtime_yamlQuote v \<noteq> v)"

lemma safe_scalar: "safe_value v \<Longrightarrow> scalar (JStr v) (runtime_yamlQuote v)"
  by (auto simp: safe_value_def runtime_yamlQuote_def quoted_text_def split: if_splits)

definition entries_ok :: "(string \<times> yaml) list \<Rightarrow> (string \<times> json) list \<Rightarrow> bool" where
  "entries_ok fs gs \<longleftrightarrow> list_all2 (\<lambda>p q. fst p = fst q \<and> reads_plain (fst p) \<and> denotes (snd p) (snd q)) fs gs"

lemma entries_ok_simps [simp]:
  "entries_ok [] []"
  "entries_ok ((k, v) # fs) ((k', w) # gs) \<longleftrightarrow> k = k' \<and> reads_plain k \<and> denotes v w \<and> entries_ok fs gs"
  by (simp_all add: entries_ok_def)

lemma entries_ok_append: "entries_ok fs gs \<Longrightarrow> entries_ok fs' gs' \<Longrightarrow> entries_ok (fs @ fs') (gs @ gs')"
  by (simp add: entries_ok_def list_all2_appendI)

lemma denotes_map: "entries_ok fs gs \<Longrightarrow> fs \<noteq> [] \<Longrightarrow> denotes (YMap fs) (JObj gs)"
  by (simp add: entries_ok_def den_map)

lemma denotes_plain: "reads_plain s \<Longrightarrow> denotes (YText s) (JStr s)"
  by (simp add: den_text)

lemma denotes_one: "denotes y j \<Longrightarrow> denotes (YSeq [y]) (JArr [j])"
  by (simp add: den_seq)

definition texts_safe :: "string list option \<Rightarrow> bool" where
  "texts_safe vs \<longleftrightarrow> (\<forall>v \<in> set (nullish vs []). safe_value v)"

definition env_safe :: "(string \<times> string) list option \<Rightarrow> bool" where
  "env_safe env \<longleftrightarrow> (\<forall>e \<in> set (nullish env []). reads_plain (fst e) \<and> safe_value (snd e))"

lemma text_entries_ok: "texts_safe vs \<Longrightarrow> reads_plain k \<Longrightarrow> entries_ok (text_entries k vs) (when_filled k jstrs vs)"
  by (auto simp: texts_safe_def text_entries_def when_filled_def jstrs_def list.rel_map
      intro!: den_seq den_text list.rel_refl_strong safe_scalar)

lemma env_entries_ok:
  assumes "env_safe env"
  shows "entries_ok (env_entries env) (when_filled ''env'' env_json env)"
proof -
  have "denotes (YMap [(''name'', YText (fst e)), (''value'', YText (runtime_yamlQuote (snd e)))])
      (JObj [(''name'', JStr (fst e)), (''value'', JStr (snd e))])" if "e \<in> set (nullish env [])" for e
    using assms that by (intro denotes_map) (simp_all add: env_safe_def denotes_plain den_text [OF safe_scalar])
  then show ?thesis
    by (auto simp: env_entries_def when_filled_def env_json_def list.rel_map case_prod_unfold
        intro!: den_seq list.rel_refl_strong)
qed

definition value_safe :: "json \<Rightarrow> bool" where
  "value_safe v \<longleftrightarrow> (case v of JStr s \<Rightarrow> safe_value s | JNum m e \<Rightarrow> e = 0 | _ \<Rightarrow> False)"

lemma value_entries_ok:
  assumes "\<forall>(k, v) \<in> set m. reads_plain k \<and> value_safe v" "m \<noteq> []"
  shows "denotes (value_entries m) (JObj m)"
proof -
  have "scalar v (resource_value v)" if "value_safe v" for v
    using that by (cases v) (auto simp: value_safe_def resource_value_def safe_scalar simp del: scalar.simps(1))
  then have "entries_ok (map (\<lambda>(k, v). (k, YText (resource_value v))) m) m"
    using assms(1) by (auto simp: entries_ok_def list.rel_map case_prod_unfold intro!: list.rel_refl_strong den_text)
  then show ?thesis
    using assms(2) by (simp add: value_entries_def denotes_map)
qed

lemma js_put_entries: "p \<in> set (js_put k v m) \<Longrightarrow> p = (k, v) \<or> p \<in> set m"
proof (induction k v m rule: js_put.induct)
  case (2 k v k' v' m)
  then show ?case by (cases "k' = k") auto
qed simp

lemma js_put_nonempty: "js_put k v m \<noteq> []"
  by (cases m) (auto split: if_splits)

lemma with_gpus_entries:
  "p \<in> set (with_gpus gpus m) \<Longrightarrow> p \<in> set m \<or> (\<exists>(k, n) \<in> set gpus. p = (k, jint n))"
proof (induction gpus arbitrary: m)
  case (Cons g gpus)
  obtain k n where g: "g = (k, n)" by (cases g)
  have "p \<in> set (js_put k (jint n) m) \<or> (\<exists>(k, n) \<in> set gpus. p = (k, jint n))"
    using Cons by (auto simp: with_gpus_def g)
  then show ?case
    using js_put_entries [of p k "jint n" m] by (auto simp: g)
qed (simp add: with_gpus_def)

lemma with_gpus_nonempty: "m \<noteq> [] \<Longrightarrow> with_gpus gpus m \<noteq> []"
proof (induction gpus arbitrary: m)
  case (Cons g gpus)
  have "with_gpus (g # gpus) m = with_gpus gpus (js_put (fst g) (jint (snd g)) m)"
    by (simp only: with_gpus_def fold.simps comp_def case_prod_unfold)
  then show ?case
    using Cons.IH [OF js_put_nonempty] by simp
qed (simp add: with_gpus_def)

definition quantity_safe :: "string option \<Rightarrow> bool" where
  "quantity_safe q \<longleftrightarrow> truthy_str q \<and> safe_value (nullish q '''')"

definition yaml_safe :: "CreateTrainingRuntimeRequest \<Rightarrow> string \<Rightarrow> bool" where
  "yaml_safe req ns \<longleftrightarrow>
     reads_plain (tr_req_name req) \<and> reads_plain ns \<and> reads_plain (tr_req_framework req) \<and> reads_plain (tr_req_image req) \<and>
     texts_safe (tr_req_command req) \<and> texts_safe (tr_req_args req) \<and> env_safe (tr_req_env req) \<and>
     quantity_safe (tr_req_cpuRequest req) \<and> quantity_safe (tr_req_cpuLimit req) \<and>
     quantity_safe (tr_req_memoryRequest req) \<and> quantity_safe (tr_req_memoryLimit req) \<and>
     (\<forall>(k, n) \<in> set (nullish (tr_req_gpuValues req) []). reads_plain k) \<and>
     (\<forall>p \<in> set (nullish (tr_req_preJobs req) []). reads_plain (pj_name p) \<and> reads_plain (pj_image p) \<and>
        texts_safe (pj_command p) \<and> texts_safe (pj_args p) \<and> env_safe (pj_env p))"

lemma value_safe_jint [simp]: "value_safe (jint n)"
  by (simp add: value_safe_def)

lemma resources_ok:
  assumes "quantity_safe c" "quantity_safe m" "\<forall>(k, n) \<in> set gpus. reads_plain k"
  shows "denotes (value_entries (with_gpus gpus (when_truthy ''cpu'' c @ when_truthy ''memory'' m)))
    (JObj (with_gpus gpus (when_truthy ''cpu'' c @ when_truthy ''memory'' m)))"
proof (rule value_entries_ok)
  show "with_gpus gpus (when_truthy ''cpu'' c @ when_truthy ''memory'' m) \<noteq> []"
    using assms(1) by (intro with_gpus_nonempty) (simp add: when_truthy_def quantity_safe_def)
  show "\<forall>(k, v) \<in> set (with_gpus gpus (when_truthy ''cpu'' c @ when_truthy ''memory'' m)). reads_plain k \<and> value_safe v"
    using assms with_gpus_entries [of _ gpus "when_truthy ''cpu'' c @ when_truthy ''memory'' m"]
    by (fastforce simp: when_truthy_def quantity_safe_def value_safe_def [of "JStr _"])
qed

lemma container_ok:
  assumes "reads_plain name" "reads_plain img" "texts_safe command" "texts_safe args" "env_safe env" "entries_ok rest fs"
  shows "denotes (container_yaml name img command args env rest)
    (JObj ([(''name'', JStr name), (''image'', JStr img)] @ when_filled ''command'' jstrs command @
       when_filled ''args'' jstrs args @ when_filled ''env'' env_json env @ fs))"
  unfolding container_yaml_def
  using assms by (intro denotes_map entries_ok_append text_entries_ok env_entries_ok) (simp_all add: denotes_plain)

lemma job_ok:
  assumes "reads_plain name" "reads_plain step" "truthy_str l \<longrightarrow> reads_plain (nullish l '''')" "denotes c j"
  shows "denotes (job_yaml name step l c) (manifest_job name step j l)"
  unfolding job_yaml_def manifest_job_def
  using assms by (intro denotes_map entries_ok_append) (simp_all add: denotes_map denotes_one denotes_plain)

lemma pre_jobs_ok:
  assumes "\<forall>p \<in> set ps. reads_plain (pj_name p) \<and> reads_plain (pj_image p) \<and> texts_safe (pj_command p) \<and>
      texts_safe (pj_args p) \<and> env_safe (pj_env p)" "truthy_str l \<longrightarrow> reads_plain (nullish l '''')"
  shows "list_all2 denotes (fst (pre_jobs_yaml ps l)) (fst (manifest_pre_jobs ps l)) \<and>
    snd (pre_jobs_yaml ps l) = snd (manifest_pre_jobs ps l) \<and>
    (truthy_str (snd (manifest_pre_jobs ps l)) \<longrightarrow> reads_plain (nullish (snd (manifest_pre_jobs ps l)) ''''))"
  using assms
proof (induction ps arbitrary: l)
  case (Cons p ps)
  have c: "denotes (container_yaml (pj_name p) (pj_image p) (pj_command p) (pj_args p) (pj_env p) []) (pre_container p)"
    using container_ok [of "pj_name p" "pj_image p" "pj_command p" "pj_args p" "pj_env p" "[]" "[]"] Cons.prems
    by (simp add: pre_container_def)
  show ?case
    using Cons.IH [of "Some (pj_name p)"] Cons.prems c
    by (simp add: case_prod_unfold Let_def job_ok)
qed simp

lemma limits_given: "quantity_safe a \<Longrightarrow> nullish_opt a b = a"
  by (cases a) (simp_all add: quantity_safe_def nullish_opt_def)

lemma trainer_ok:
  assumes "yaml_safe req ns"
  shows "denotes (trainer_yaml req) (trainer_container req)"
  unfolding trainer_yaml_def trainer_container_def
  using assms resources_ok [of "tr_req_cpuRequest req" "tr_req_memoryRequest req" "nullish (tr_req_gpuValues req) []"]
    resources_ok [of "tr_req_cpuLimit req" "tr_req_memoryLimit req" "nullish (tr_req_gpuValues req) []"]
  by (intro container_ok)
    (simp_all add: yaml_safe_def denotes_map resource_requests_def resource_limits_def json_fields_def limits_given)

lemma runtime_ok:
  assumes "yaml_safe req ns"
  shows "denotes (runtime_yaml req ns) (JObj (runtime_fields req ns))"
proof -
  have pre: "list_all2 denotes (fst (pre_jobs_yaml (nullish (tr_req_preJobs req) []) None))
      (fst (manifest_pre_jobs (nullish (tr_req_preJobs req) []) None)) \<and>
    snd (pre_jobs_yaml (nullish (tr_req_preJobs req) []) None) =
      snd (manifest_pre_jobs (nullish (tr_req_preJobs req) []) None) \<and>
    (truthy_str (snd (manifest_pre_jobs (nullish (tr_req_preJobs req) []) None)) \<longrightarrow>
       reads_plain (nullish (snd (manifest_pre_jobs (nullish (tr_req_preJobs req) []) None)) ''''))"
    using assms by (intro pre_jobs_ok) (simp_all add: yaml_safe_def)
  have jobs: "denotes (YSeq (jobs_yaml req)) (JArr (manifest_jobs req))"
    using pre trainer_ok [OF assms]
    by (intro den_seq) (simp_all add: jobs_yaml_def manifest_jobs_def case_prod_unfold Let_def job_ok list_all2_appendI)
  have framework: "or_str (tr_req_framework req) ''torch'' = tr_req_framework req"
    using assms by (simp add: yaml_safe_def reads_plain_def or_str_filled)
  show ?thesis
    unfolding runtime_yaml_def runtime_fields_def Let_def framework
    using assms jobs
    by (intro denotes_map entries_ok_append)
      (auto simp: yaml_safe_def denotes_plain printable_def intro!: denotes_map den_text)
qed

subsection \<open>The object the form submits\<close>

lemma same_field:
  assumes "same_json v w" "distinct (map fst (xs @ (k, v) # ys))"
  shows "same_json (JObj (xs @ (k, v) # ys)) (JObj (xs @ (k, w) # ys))"
proof (rule same_obj)
  fix k' v' w'
  assume "map_of (xs @ (k, v) # ys) k' = Some v'" "map_of (xs @ (k, w) # ys) k' = Some w'"
  then show "same_json v' w'"
    using assms(1) by (cases "k' = k"; cases "map_of xs k'") (auto simp: map_add_def intro: same_refl)
qed (use assms(2) in auto)

lemma same_job: "same_json (manifest_job name step c l) (replicated_job name step c l)"
  unfolding manifest_job_def replicated_job_def
  by (rule same_obj) (auto intro: same_refl split: if_splits)

lemma same_pre_jobs:
  "list_all2 same_json (fst (manifest_pre_jobs ps l)) (fst (pre_jobs ps l)) \<and>
   snd (manifest_pre_jobs ps l) = snd (pre_jobs ps l)"
  by (induction ps arbitrary: l) (simp_all add: case_prod_unfold Let_def same_job)

lemma same_jobs: "same_json (JArr (manifest_jobs req)) (JArr (replicatedJobs req))"
  using same_pre_jobs [of "nullish (tr_req_preJobs req) []" None]
  by (auto simp: manifest_jobs_def replicatedJobs_def case_prod_unfold Let_def
      intro!: same_arr list_all2_appendI same_job)

lemma same_manifest:
  assumes "tr_req_cluster req = Some True" "tr_req_framework req \<noteq> []" "tr_req_framework req \<noteq> ''numNodes''"
  shows "same_json (JObj (runtime_fields req ns)) (trainingRuntimeObject req)"
proof -
  let ?jobs = "\<lambda>j. JObj [(''spec'', JObj [(''replicatedJobs'', j)])]"
  have t: "same_json (?jobs (JArr (manifest_jobs req))) (?jobs (JArr (replicatedJobs req)))"
    using same_field [OF same_field [OF same_jobs [of req], of "[]" "''replicatedJobs''" "[]"], of "[]" "''spec''" "[]"]
    by simp
  let ?policy = "JObj [(''numNodes'', jint (if tr_req_numNodes req = 0 then 1 else tr_req_numNodes req)),
      (tr_req_framework req, JObj [])]"
  have "same_json (JObj [(''mlPolicy'', ?policy), (''template'', ?jobs (JArr (manifest_jobs req)))])
      (JObj [(''mlPolicy'', ?policy), (''template'', ?jobs (JArr (replicatedJobs req)))])"
    using same_field [OF t, of "[(''mlPolicy'', ?policy)]" "''template''" "[]"] by simp
  then show ?thesis
    unfolding runtime_fields_def trainingRuntimeObject_def Let_def
    using assms same_field [of "JObj [(''mlPolicy'', ?policy), (''template'', ?jobs (JArr (manifest_jobs req)))]"
        "JObj [(''mlPolicy'', ?policy), (''template'', ?jobs (JArr (replicatedJobs req)))]"
        "[(''apiVersion'', JStr ''trainer.kubeflow.org/v1alpha1''), (''kind'', JStr ''ClusterTrainingRuntime''),
          (''metadata'', JObj [(''name'', JStr (tr_req_name req)),
             (''labels'', JObj [(''knaic.io/managed'', JStr ''true''), (''knaic.io/component'', JStr ''training''),
               (''knaic.io/framework'', JStr (tr_req_framework req))])])]" "''spec''" "[]"]
    by (simp add: or_str_filled)
qed

lemma runtime_lines_nonempty: "runtime_lines req ns \<noteq> []"
  by (simp add: runtime_lines_def case_prod_unfold Let_def)

lemma yaml_as_lines: "buildTrainingRuntimeYaml req ns = unlines (runtime_lines req ns)"
  unfolding buildTrainingRuntimeYaml_def by (rule join_unlines [OF runtime_lines_nonempty])

lemma cluster_head:
  assumes "tr_req_cluster req = Some True"
  obtains more where "buildTrainingRuntimeYaml req ns =
    ''apiVersion: trainer.kubeflow.org/v1alpha1'' @ line_end # ''kind: ClusterTrainingRuntime'' @ line_end # more"
  using assms unfolding yaml_as_lines
  by (simp add: runtime_lines_def case_prod_unfold Let_def)

lemma generated_is_cluster:
  assumes "tr_req_cluster req = Some True"
  shows "isCluster (trim (buildTrainingRuntimeYaml req ns))"
proof -
  obtain more where y: "buildTrainingRuntimeYaml req ns =
      (''apiVersion: trainer.kubeflow.org/v1alpha1'' @ line_end # ''kind: ClusterTrainingRuntim'') @ CHR ''e'' # line_end # more"
    using cluster_head [OF assms, of ns] by auto
  have "trim (buildTrainingRuntimeYaml req ns) =
      (''apiVersion: trainer.kubeflow.org/v1alpha1'' @ line_end # ''kind: ClusterTrainingRuntim'') @ CHR ''e'' # trim_end (line_end # more)"
    unfolding y trim_def using trim_end_keeps [of "CHR ''e''"] by simp
  moreover have "kind_here (''kind: ClusterTrainingRuntime'' @ trim_end (line_end # more))"
    by (auto simp: kind_here_def Let_def regex_word_char_def is_digit_def upper_letters_def lower_letters_def split: list.splits)
  ultimately show ?thesis
    by (simp add: isCluster_def regex_word_char_def is_digit_def upper_letters_def lower_letters_def)
qed

subsection \<open>Properties\<close>


definition sample_form :: RuntimeFormShape where
  "sample_form = blankDefaults\<lparr>rf_name := ''llama'', rf_image := ''reg/llama:v1'', rf_args := Some ''--lr'',
     rf_env := Some [(''HF_HOME'', ''/data''), ('''', ''dropped'')], rf_cluster := Some True\<rparr>"

definition sample_request :: CreateTrainingRuntimeRequest where
  "sample_request = collectPayload (\<lambda>_. False) sample_form"

lemma sample_request_parts:
  "tr_req_name sample_request = ''llama''" "tr_req_image sample_request = ''reg/llama:v1''"
  "tr_req_framework sample_request = ''torch''" "tr_req_command sample_request = Some []"
  "tr_req_args sample_request = Some [''--lr'']" "tr_req_env sample_request = Some [(''HF_HOME'', ''/data'')]"
  "tr_req_cpuRequest sample_request = Some ''8''" "tr_req_cpuLimit sample_request = Some ''8''"
  "tr_req_memoryRequest sample_request = Some ''64Gi''" "tr_req_memoryLimit sample_request = Some ''64Gi''"
  "tr_req_gpuValues sample_request = None" "tr_req_preJobs sample_request = Some []"
  "tr_req_cluster sample_request = Some True"
  by (simp_all add: sample_request_def sample_form_def collectPayload_def blankDefaults_def linesToArray_def
      named_env_def PRE_JOB_TYPES_def trim_visible)

lemma sample_values:
  "reads_plain ''llama''" "reads_plain ''reg/llama:v1''" "reads_plain ''torch''" "reads_plain ''HF_HOME''"
  "reads_plain ''team-ml''" "safe_value ''--lr''" "safe_value ''/data''" "safe_value ''8''" "safe_value ''64Gi''"
  by (simp_all add: safe_value_def printable_def reads_plain_def indicators_def number_start_def is_digit_def
      other_words_def toLowerCase_def lower_char_def upper_letters_def lower_letters_def runtime_yamlQuote_def
      quote_chars_def digit_start_def yaml_words_def yaml_escape_def)

lemma sample_safe: "yaml_safe sample_request ''team-ml''"
  by (simp add: yaml_safe_def sample_request_parts sample_values texts_safe_def env_safe_def quantity_safe_def)


text \<open>
  Words that only YAML 1.1 reads as truth values, \<open>~\<close> and decimals without a leading digit are left
  unquoted, so a variable set to one of them does not stay a text.
\<close>

lemma words_left_unquoted:
  "list_all (\<lambda>w. runtime_yamlQuote w = w \<and> \<not> reads_plain w) [''on'', ''Off'', ''y'', ''~'', ''.5'', ''+1'']"
  by (simp add: runtime_yamlQuote_def quote_chars_def digit_start_def yaml_words_def is_digit_def toLowerCase_def
      lower_char_def upper_letters_def lower_letters_def reads_plain_def other_words_def number_start_def)

end
