(* ===== verification/Log_Viewer.thy ===== *)
theory Log_Viewer
  imports Event_Streams
begin

text \<open>
  \<open>frontend/src/components/LogViewer.tsx\<close>: which pods and containers the log viewer offers, which one
  it streams, and what it shows of the stream. Opening another stream aborts the one before, so only
  the last one opened is live.
\<close>

subsection \<open>State\<close>

record InferencePodInfo =
  ip_name :: string
  ip_phase :: string
  ip_ready :: bool
  ip_containers :: "string list"
  ip_initContainers :: "string list option"

text \<open>The properties the viewer is rendered with.\<close>

record log_target =
  lt_open :: bool
  lt_containers :: "string list"
  lt_podRef :: "(string \<times> string) option"
  lt_inferenceRef :: "(string \<times> string \<times> service_kind) option"

record log_viewer =
  lv_pods :: "InferencePodInfo list"
  lv_podName :: string
  lv_container :: string
  lv_previous :: bool
  lv_lines :: "string list"
  lv_streaming :: bool
  lv_err :: "string option"
  lv_live :: "string option"

definition viewer_mounted :: "log_target \<Rightarrow> log_viewer" where
  "viewer_mounted t =
     \<lparr>lv_pods = [], lv_podName = '''', lv_container = (case lt_containers t of [] \<Rightarrow> '''' | c # _ \<Rightarrow> c),
      lv_previous = False, lv_lines = [], lv_streaming = False, lv_err = None, lv_live = None\<rparr>"

definition fallbackToFake :: "bool \<Rightarrow> log_target \<Rightarrow> bool" where
  "fallbackToFake api t \<longleftrightarrow> lt_podRef t = None \<and> lt_inferenceRef t = None \<or> \<not> api"

definition defaultSample :: "string \<Rightarrow> string list" where
  "defaultSample c =
     [''[INFO ] starting container '' @ c,
      ''[INFO ] loading config from /etc/'' @ c @ ''/config.yaml'',
      ''[INFO ] initializing modules '' @ [CHR 0xE2, CHR 0x80, CHR 0xA6],
      ''[DEBUG] registered route /healthz'',
      ''[DEBUG] registered route /metrics'',
      ''[INFO ] listening on :8080'',
      ''[INFO ] ready'']"

subsection \<open>Pods and containers\<close>

text \<open>A container with whether it is an init container.\<close>

definition containerOptions :: "InferencePodInfo option \<Rightarrow> string list \<Rightarrow> (string \<times> bool) list" where
  "containerOptions pod fallback =
     (case pod of
        None \<Rightarrow> map (\<lambda>c. (c, False)) fallback
      | Some p \<Rightarrow> map (\<lambda>c. (c, False)) (ip_containers p) @ map (\<lambda>c. (c, True)) (nullish (ip_initContainers p) []))"

definition selectedPod :: "log_viewer \<Rightarrow> InferencePodInfo option" where
  "selectedPod s = find_key ip_name (lv_podName s) (lv_pods s)"

definition ctrOpts :: "log_target \<Rightarrow> log_viewer \<Rightarrow> (string \<times> bool) list" where
  "ctrOpts t s = containerOptions (selectedPod s) (lt_containers t)"

definition valid_container :: "(string \<times> bool) list \<Rightarrow> string \<Rightarrow> string" where
  "valid_container opts c =
     (if opts = [] \<or> c \<in> fst ` set opts then c
      else (case find (\<lambda>opt. \<not> snd opt) opts of Some app \<Rightarrow> fst app | None \<Rightarrow> fst (hd opts)))"

definition isInit :: "log_target \<Rightarrow> log_viewer \<Rightarrow> bool" where
  "isInit t s \<longleftrightarrow> (lv_container s, True) \<in> set (ctrOpts t s)"

definition pods_requested :: "bool \<Rightarrow> log_target \<Rightarrow> http_request option" where
  "pods_requested api t =
     (if \<not> lt_open t \<or> fallbackToFake api t then None
      else map_option (\<lambda>(ns, name, kind). listInferenceServicePods ns name kind) (lt_inferenceRef t))"

definition pods_listed :: "InferencePodInfo list promise \<Rightarrow> log_viewer \<Rightarrow> log_viewer" where
  "pods_listed r s =
     (case r of
        Inl e \<Rightarrow> s\<lparr>lv_err := Some (js_message e)\<rparr>
      | Inr ps \<Rightarrow> s\<lparr>lv_pods := ps, lv_podName :=
          (if lv_podName s \<noteq> [] \<and> (\<exists>p \<in> set ps. ip_name p = lv_podName s) then lv_podName s
           else (case ps of [] \<Rightarrow> '''' | p # _ \<Rightarrow> ip_name p))\<rparr>)"

subsection \<open>Streaming\<close>

definition stream_options :: "log_target \<Rightarrow> log_viewer \<Rightarrow> log_options" where
  "stream_options t s =
     \<lparr>lo_container = Some (lv_container s), lo_follow = Some (\<not> isInit t s \<and> \<not> lv_previous s),
      lo_tailLines = Some 200, lo_previous = Some (lv_previous s)\<rparr>"

definition stream_path :: "log_target \<Rightarrow> log_viewer \<Rightarrow> string option" where
  "stream_path t s =
     (case lt_podRef t of
        Some (ns, name) \<Rightarrow> Some (podLogsPath ns name (stream_options t s))
      | None \<Rightarrow> map_option (\<lambda>(ns, name, kind).
          if lv_podName s \<noteq> [] then podLogsPath ns (lv_podName s) (stream_options t s)
          else inferenceLogsPath ns name kind (stream_options t s)) (lt_inferenceRef t))"

text \<open>The streaming effect; \<open>sample\<close> is what the prototype shows for a container.\<close>

definition stream_effect :: "bool \<Rightarrow> (string \<Rightarrow> string list) \<Rightarrow> log_target \<Rightarrow> log_viewer \<Rightarrow> log_viewer" where
  "stream_effect api sample t s =
     (let s = s\<lparr>lv_lines := [], lv_err := None, lv_live := None\<rparr>
      in if \<not> lt_open t then s\<lparr>lv_streaming := False\<rparr>
         else if fallbackToFake api t then s\<lparr>lv_lines := sample (lv_container s)\<rparr>
         else if lt_inferenceRef t \<noteq> None \<and> lv_podName s = [] then s
         else s\<lparr>lv_streaming := True, lv_live := stream_path t s\<rparr>)"

text \<open>
  After a change of the selection: the stream effect, and the container effect, whose new container
  runs the stream effect once more.
\<close>

definition selection_changed :: "bool \<Rightarrow> (string \<Rightarrow> string list) \<Rightarrow> log_target \<Rightarrow> log_viewer \<Rightarrow> log_viewer" where
  "selection_changed api sample t s =
     (let s' = stream_effect api sample t s; c = valid_container (ctrOpts t s) (lv_container s)
      in if c \<noteq> lv_container s then stream_effect api sample t (s'\<lparr>lv_container := c\<rparr>) else s')"

definition pod_chosen :: "string \<Rightarrow> log_viewer \<Rightarrow> log_viewer" where
  "pod_chosen n s = s\<lparr>lv_podName := n\<rparr>"

definition container_chosen :: "string \<Rightarrow> log_viewer \<Rightarrow> log_viewer" where
  "container_chosen c s = s\<lparr>lv_container := c\<rparr>"

text \<open>The button for earlier logs is there for init containers only.\<close>

definition previous_toggled :: "log_target \<Rightarrow> log_viewer \<Rightarrow> log_viewer" where
  "previous_toggled t s = (if isInit t s then s\<lparr>lv_previous := \<not> lv_previous s\<rparr> else s)"

definition reload_clicked :: "log_viewer \<Rightarrow> log_viewer" where
  "reload_clicked s = s\<lparr>lv_lines := []\<rparr>"

definition heartbeat :: "string \<Rightarrow> log_viewer \<Rightarrow> log_viewer" where
  "heartbeat line s = s\<lparr>lv_lines := lv_lines s @ [line]\<rparr>"

definition viewer_call :: "log_call \<Rightarrow> log_viewer \<Rightarrow> log_viewer" where
  "viewer_call c s =
     (case c of
        OnLine l \<Rightarrow> s\<lparr>lv_lines := lv_lines s @ [l]\<rparr>
      | OnEnd \<Rightarrow> s\<lparr>lv_streaming := False\<rparr>
      | OnError e \<Rightarrow> s\<lparr>lv_err := Some (js_message e), lv_streaming := False\<rparr>)"

definition viewer_streamed :: "(string \<Rightarrow> fault + stream_response) \<Rightarrow> log_viewer \<Rightarrow> log_viewer" where
  "viewer_streamed respond s =
     (case lv_live s of None \<Rightarrow> s | Some path \<Rightarrow> fold viewer_call (streamLogEndpoint True (respond path)) s)"

definition shown_text :: "log_viewer \<Rightarrow> string" where
  "shown_text s = join [lf] (lv_lines s)"

subsection \<open>Properties\<close>

lemma fold_lines: "fold viewer_call (map OnLine ls) s = s\<lparr>lv_lines := lv_lines s @ ls\<rparr>"
  by (induction ls arbitrary: s) (simp_all add: viewer_call_def)

lemma find_in: "find P xs = Some x \<Longrightarrow> x \<in> set xs"
  by (induction xs) (auto split: if_splits)

lemma valid_container_in: "opts \<noteq> [] \<Longrightarrow> valid_container opts c \<in> fst ` set opts"
  by (auto simp: valid_container_def split: option.splits dest!: find_in intro: rev_image_eqI)

lemma stream_effect_keeps [simp]:
  "lv_pods (stream_effect api sample t s) = lv_pods s" "lv_podName (stream_effect api sample t s) = lv_podName s"
  "lv_container (stream_effect api sample t s) = lv_container s"
  "lv_previous (stream_effect api sample t s) = lv_previous s"
  by (simp_all add: stream_effect_def Let_def)

lemma viewer_calls:
  assumes "\<forall>l \<in> set lines. lf \<notin> set l"
    and "concat cs = concat (map (\<lambda>l. log_line_frame l @ [lf, lf]) lines) @ rest"
    and "rest = [] \<and> e = None \<or> (\<exists>more. rest = end_frame @ [lf, lf] @ more)"
  shows "streamLogEndpoint True (Inr \<lparr>sp_status = 200, sp_body = Some (cs, e)\<rparr>) = map OnLine lines @ [OnEnd]"
  using assms(3) log_stream_calls [OF assms(1,2)]
  by (auto simp: streamLogEndpoint_def stream_body_def sp_ok_def log_end_whole whole_tail)


text \<open>
  The viewer shows the log: of a stream the backend ends, by its closing event or by the connection,
  exactly the lines it framed, in order and however cut into chunks, appended to what is shown, with
  the streaming mark taken away and no error.
\<close>

theorem viewer_shows_log:
  assumes "lv_live s = Some path" "respond path = Inr \<lparr>sp_status = 200, sp_body = Some (cs, e)\<rparr>"
    and "\<forall>l \<in> set lines. lf \<notin> set l"
    and "concat cs = concat (map (\<lambda>l. log_line_frame l @ [lf, lf]) lines) @ rest"
    and "rest = [] \<and> e = None \<or> (\<exists>more. rest = end_frame @ [lf, lf] @ more)"
  shows "viewer_streamed respond s = s\<lparr>lv_lines := lv_lines s @ lines, lv_streaming := False\<rparr>"
  using assms(1,2) viewer_calls [OF assms(3-5)]
  by (simp add: viewer_streamed_def fold_lines) (simp add: viewer_call_def)

definition two_pods :: "InferencePodInfo list" where
  "two_pods =
     [\<lparr>ip_name = ''bge-0'', ip_phase = ''Running'', ip_ready = True, ip_containers = [''kserve-container''],
       ip_initContainers = Some [''storage-initializer'']\<rparr>,
      \<lparr>ip_name = ''bge-1'', ip_phase = ''Pending'', ip_ready = False, ip_containers = [''kserve-container''],
       ip_initContainers = None\<rparr>]"

definition bge_target :: log_target where
  "bge_target = \<lparr>lt_open = True, lt_containers = [''main''], lt_podRef = None,
     lt_inferenceRef = Some (''team-ml'', ''bge'', InferenceServiceKind)\<rparr>"


lemma bge_target_facts:
  "lt_open bge_target" "lt_podRef bge_target = None"
  "lt_inferenceRef bge_target = Some (''team-ml'', ''bge'', InferenceServiceKind)" "two_pods \<noteq> []"
  "\<forall>p \<in> set two_pods. ip_name p \<noteq> [] \<and> ip_containers p \<noteq> []"
  by (simp_all add: bge_target_def two_pods_def)


theorem viewer_shows_log_witness:
  "lv_lines (viewer_streamed (\<lambda>_. Inr \<lparr>sp_status = 200,
       sp_body = Some ([''data: rea'', ''dy'' @ [lf, lf]], None)\<rparr>) ((viewer_mounted bge_target)\<lparr>lv_live := Some ''/logs''\<rparr>)) =
   [''ready'']"
  using viewer_shows_log [where s = "(viewer_mounted bge_target)\<lparr>lv_live := Some ''/logs''\<rparr>" and path = "''/logs''" and
      respond = "\<lambda>_. Inr \<lparr>sp_status = 200, sp_body = Some ([''data: rea'', ''dy'' @ [lf, lf]], None)\<rparr>" and
      lines = "[''ready'']" and rest = "[]", OF _ refl]
  by (simp add: log_line_frame_def data_prefix_def viewer_mounted_def)

text \<open>
  The mark for earlier logs survives the choice of another container: asked for on an init container, it
  stays on for an application container, whose stream then neither follows nor shows the current logs,
  and no button is left to take it away.
\<close>

lemma previous_mark_sticks:
  assumes "isInit t s" "\<not> lv_previous s" "(c, True) \<notin> set (ctrOpts t s)"
  shows "lo_previous (stream_options t (container_chosen c (previous_toggled t s))) = Some True \<and>
    lo_follow (stream_options t (container_chosen c (previous_toggled t s))) = Some False \<and>
    previous_toggled t (container_chosen c (previous_toggled t s)) = container_chosen c (previous_toggled t s)"
  using assms
  by (simp add: previous_toggled_def container_chosen_def stream_options_def isInit_def ctrOpts_def selectedPod_def)

end
