(* ===== verification/Storage_Display.thy ===== *)
theory Storage_Display
  imports Ai_Storage
begin

text \<open>
  What the storage browsers (\<open>frontend/src/pages/aistorage/S3Browser.tsx\<close> and \<open>GitLabBrowser.tsx\<close>)
  compute for display: the breadcrumbs of a folder, byte counts with a unit, and which files are
  taken to be binary. A byte count is a natural number; below \<open>2 ^ 53\<close> its quotients by powers of
  1024 are exact in double precision, so \<open>toFixed\<close> rounds the quotient itself, halves up.
\<close>

subsection \<open>Breadcrumbs\<close>

text \<open>\<open>p.replace(/^\/+|\/+$/g, '')\<close>, and its non-empty segments.\<close>

definition strip_slashes :: "string \<Rightarrow> string" where
  "strip_slashes p = strip_trailing CHR ''/'' (dropWhile (\<lambda>c. c = CHR ''/'') p)"

definition path_segments :: "string \<Rightarrow> string list" where
  "path_segments p = filter (\<lambda>s. s \<noteq> []) (split_on CHR ''/'' (strip_slashes p))"

record crumb =
  cr_key :: string
  cr_label :: string
  cr_goto :: string

definition root_crumb :: crumb where
  "root_crumb = \<lparr>cr_key = [], cr_label = ''/'', cr_goto = []\<rparr>"

definition s3_crumb :: "string list \<Rightarrow> nat \<Rightarrow> crumb" where
  "s3_crumb segs i =
     \<lparr>cr_key = join ''/'' (take (i + 1) segs), cr_label = segs ! i,
      cr_goto = join ''/'' (take (i + 1) segs) @ ''/''\<rparr>"

definition s3_crumbs :: "string \<Rightarrow> crumb list" where
  "s3_crumbs pre =
     root_crumb # map (s3_crumb (path_segments pre)) [0..<length (path_segments pre)]"

definition gitlab_crumb :: "string list \<Rightarrow> nat \<Rightarrow> crumb" where
  "gitlab_crumb segs i =
     \<lparr>cr_key = join ''/'' (take (i + 1) segs), cr_label = segs ! i,
      cr_goto = join ''/'' (take (i + 1) segs)\<rparr>"

definition gitlab_crumbs :: "string \<Rightarrow> crumb list" where
  "gitlab_crumbs path =
     root_crumb # map (gitlab_crumb (path_segments path)) [0..<length (path_segments path)]"

subsection \<open>Byte counts\<close>

text \<open>\<open>x.toFixed(f)\<close> of the quotient \<open>n / d\<close>: the nearest multiple of \<open>10 ^ -f\<close>, the larger one of two.\<close>

definition fixed_units :: "nat \<Rightarrow> nat \<Rightarrow> nat \<Rightarrow> nat" where
  "fixed_units f n d = (2 * n * 10 ^ f + d) div (2 * d)"

definition toFixed :: "nat \<Rightarrow> nat \<Rightarrow> nat \<Rightarrow> string" where
  "toFixed f n d =
     (let q = fixed_units f n d
      in if f = 0 then show_nat q
         else show_nat (q div 10 ^ f) @ ''.'' @
           (let r = show_nat (q mod 10 ^ f) in replicate (f - length r) CHR ''0'' @ r))"

text \<open>\<open>while (v >= 1024 && i < units.length - 1) \<dots>\<close>: the divisor and the unit it ends with.\<close>

fun pick_unit :: "nat \<Rightarrow> nat \<Rightarrow> string list \<Rightarrow> nat \<times> string" where
  "pick_unit n d [] = (d, [])"
| "pick_unit n d [u] = (d, u)"
| "pick_unit n d (u # v # us) = (if 1024 * d \<le> n then pick_unit n (1024 * d) (v # us) else (d, u))"

definition s3_formatBytes :: "nat \<Rightarrow> string" where
  "s3_formatBytes n =
     (if n = 0 then ''0 B''
      else (let (d, u) = pick_unit n 1 [''B'', ''KiB'', ''MiB'', ''GiB'', ''TiB'']
        in toFixed (if 100 * d \<le> n \<or> u = ''B'' then 0 else 1) n d @ '' '' @ u))"

definition gitlab_formatBytes :: "nat \<Rightarrow> string" where
  "gitlab_formatBytes n =
     (if n < 1024 then show_nat n @ '' B''
      else (let (d, u) = pick_unit n 1024 [''KB'', ''MB'', ''GB'', ''TB'']
        in toFixed (if 100 * d \<le> n then 0 else if 10 * d \<le> n then 1 else 2) n d @ '' '' @ u))"

subsection \<open>Binary files\<close>

definition BINARY_EXTENSIONS :: "string list" where
  "BINARY_EXTENSIONS =
     [''.bin'', ''.safetensors'', ''.pt'', ''.pth'', ''.ckpt'', ''.pkl'', ''.pickle'',
      ''.onnx'', ''.pb'', ''.h5'', ''.hdf5'', ''.tflite'', ''.gguf'', ''.ggml'', ''.msgpack'',
      ''.npy'', ''.npz'', ''.parquet'', ''.arrow'', ''.feather'', ''.tfrecord'',
      ''.jpg'', ''.jpeg'', ''.png'', ''.gif'', ''.webp'', ''.bmp'', ''.ico'', ''.tiff'', ''.tif'',
      ''.psd'', ''.heic'', ''.heif'',
      ''.mp3'', ''.mp4'', ''.avi'', ''.mov'', ''.mkv'', ''.webm'', ''.ogg'', ''.wav'', ''.flac'',
      ''.aac'', ''.m4a'', ''.opus'',
      ''.zip'', ''.tar'', ''.gz'', ''.tgz'', ''.bz2'', ''.bzip2'', ''.7z'', ''.rar'', ''.xz'', ''.zst'',
      ''.iso'', ''.img'', ''.dmg'',
      ''.pdf'', ''.doc'', ''.docx'', ''.xls'', ''.xlsx'', ''.ppt'', ''.pptx'',
      ''.exe'', ''.dll'', ''.so'', ''.dylib'', ''.o'', ''.a'', ''.lib'', ''.obj'',
      ''.jar'', ''.class'', ''.war'', ''.ear'', ''.deb'', ''.rpm'', ''.apk'',
      ''.ttf'', ''.otf'', ''.woff'', ''.woff2'', ''.eot'']"

text \<open>From the last dot on, in lower case; the empty text when there is none.\<close>

definition fileExtension :: "string \<Rightarrow> string" where
  "fileExtension n =
     (if CHR ''.'' \<in> set n then toLowerCase (''.'' @ rev (takeWhile (\<lambda>c. c \<noteq> CHR ''.'') (rev n))) else [])"

definition isLikelyBinary :: "string \<Rightarrow> bool" where
  "isLikelyBinary n \<longleftrightarrow> fileExtension n \<in> set BINARY_EXTENSIONS"

subsection \<open>Properties\<close>

lemma segments_free: "s \<in> set (path_segments p) \<Longrightarrow> s \<noteq> [] \<and> CHR ''/'' \<notin> set s"
  by (auto simp: path_segments_def dest: split_on_segments)

lemma strip_slashes_join:
  assumes "segs \<noteq> []" "\<And>s. s \<in> set segs \<Longrightarrow> s \<noteq> [] \<and> CHR ''/'' \<notin> set s"
  shows "strip_slashes (join ''/'' segs) = join ''/'' segs" "strip_slashes (join ''/'' segs @ ''/'') = join ''/'' segs"
proof -
  have j: "join ''/'' segs \<noteq> [] \<and> hd (join ''/'' segs) \<noteq> CHR ''/'' \<and> last (join ''/'' segs) \<noteq> CHR ''/''"
    using assms
  proof (induction "''/''" segs rule: join.induct)
    case (2 w)
    then show ?case by (metis hd_in_set join.simps(2) last_in_set list.set_intros(1))
  next
    case (3 w v ws)
    then have "w \<noteq> []" "CHR ''/'' \<notin> set w" by auto
    with 3 show ?case by (auto simp: hd_append) (metis hd_in_set)
  qed simp
  then have d: "dropWhile (\<lambda>c. c = CHR ''/'') (join ''/'' segs) = join ''/'' segs"
    "dropWhile (\<lambda>c. c = CHR ''/'') (join ''/'' segs @ ''/'') = join ''/'' segs @ ''/''"
    by (cases "join ''/'' segs"; simp)+
  show "strip_slashes (join ''/'' segs) = join ''/'' segs"
    using j by (simp add: strip_slashes_def d strip_trailing_id)
  have "strip_trailing CHR ''/'' (join ''/'' segs @ ''/'') = strip_trailing CHR ''/'' (join ''/'' segs)"
    by (simp add: strip_trailing_def)
  with j show "strip_slashes (join ''/'' segs @ ''/'') = join ''/'' segs"
    by (simp add: strip_slashes_def d strip_trailing_id)
qed

lemma segments_of_join:
  assumes "\<And>s. s \<in> set segs \<Longrightarrow> s \<noteq> [] \<and> CHR ''/'' \<notin> set s"
  shows "path_segments (join ''/'' segs) = segs" "segs \<noteq> [] \<Longrightarrow> path_segments (join ''/'' segs @ ''/'') = segs"
proof -
  have "filter (\<lambda>s. s \<noteq> []) segs = segs" using assms by (intro filter_True) auto
  then have "segs \<noteq> [] \<Longrightarrow> filter (\<lambda>s. s \<noteq> []) (split_on CHR ''/'' (join ''/'' segs)) = segs"
    using assms by (subst split_on_join) auto
  then show "path_segments (join ''/'' segs) = segs" "segs \<noteq> [] \<Longrightarrow> path_segments (join ''/'' segs @ ''/'') = segs"
    using strip_slashes_join [of segs] assms
    by (cases "segs = []", simp_all add: path_segments_def) (simp add: strip_slashes_def strip_trailing_def)
qed

text \<open>
  Clicking a breadcrumb goes to the folder whose breadcrumbs are those up to it, in both browsers;
  the last one leads back to the folder itself, its path written without doubled, leading or
  trailing slashes (with one trailing slash in the object store, where a folder is a key prefix).
\<close>

theorem breadcrumbs_lead_to_folders:
  assumes "i < length (gitlab_crumbs p)"
  shows "gitlab_crumbs (cr_goto (gitlab_crumbs p ! i)) = take (Suc i) (gitlab_crumbs p) \<and>
    s3_crumbs (cr_goto (s3_crumbs p ! i)) = take (Suc i) (s3_crumbs p) \<and>
    length (s3_crumbs p) = length (gitlab_crumbs p) \<and>
    path_segments (cr_goto (last (gitlab_crumbs p))) = path_segments p \<and>
    path_segments (cr_goto (last (s3_crumbs p))) = path_segments p"
proof -
  let ?segs = "path_segments p"
  have nil: "path_segments [] = []" by (simp add: path_segments_def strip_slashes_def strip_trailing_def)
  have free: "s \<noteq> [] \<and> CHR ''/'' \<notin> set s" if "s \<in> set (take k ?segs)" for s k
    using segments_free [OF in_set_takeD [OF that]] .
  have seg: "path_segments (join ''/'' (take (Suc k) ?segs)) = take (Suc k) ?segs"
    "?segs \<noteq> [] \<Longrightarrow> path_segments (join ''/'' (take (Suc k) ?segs) @ ''/'') = take (Suc k) ?segs" for k
    by (rule segments_of_join; use free in auto)+
  have c: "gitlab_crumb (take (Suc k) ?segs) j = gitlab_crumb ?segs j" "s3_crumb (take (Suc k) ?segs) j = s3_crumb ?segs j"
    if "j \<le> k" for j k
    using that by (simp_all add: gitlab_crumb_def s3_crumb_def min_def)
  have "gitlab_crumbs (cr_goto (gitlab_crumbs p ! i)) = take (Suc i) (gitlab_crumbs p) \<and>
      s3_crumbs (cr_goto (s3_crumbs p ! i)) = take (Suc i) (s3_crumbs p)"
  proof (cases i)
    case 0
    then show ?thesis by (simp add: gitlab_crumbs_def s3_crumbs_def root_crumb_def nil)
  next
    case (Suc k)
    then have k: "k < length ?segs" using assms by (simp add: gitlab_crumbs_def)
    then have ne: "?segs \<noteq> []" by auto
    have g: "cr_goto (gitlab_crumbs p ! i) = join ''/'' (take (Suc k) ?segs)"
      "cr_goto (s3_crumbs p ! i) = join ''/'' (take (Suc k) ?segs) @ ''/''"
      using k by (simp_all add: Suc gitlab_crumbs_def s3_crumbs_def gitlab_crumb_def s3_crumb_def)
    have m: "map (gitlab_crumb (take (Suc k) ?segs)) [0..<Suc k] = map (gitlab_crumb ?segs) [0..<Suc k]"
      "map (s3_crumb (take (Suc k) ?segs)) [0..<Suc k] = map (s3_crumb ?segs) [0..<Suc k]"
      using c by (auto intro!: map_cong)
    have len: "length (take (Suc k) ?segs) = Suc k" using k by simp
    have "gitlab_crumbs (join ''/'' (take (Suc k) ?segs)) = root_crumb # map (gitlab_crumb ?segs) [0..<Suc k]"
      "s3_crumbs (join ''/'' (take (Suc k) ?segs) @ ''/'') = root_crumb # map (s3_crumb ?segs) [0..<Suc k]"
      by (simp_all only: gitlab_crumbs_def s3_crumbs_def seg(1) seg(2) [OF ne] len m)
    moreover have "take (Suc i) (gitlab_crumbs p) = root_crumb # map (gitlab_crumb ?segs) [0..<Suc k]"
      "take (Suc i) (s3_crumbs p) = root_crumb # map (s3_crumb ?segs) [0..<Suc k]"
      using k by (simp_all add: Suc gitlab_crumbs_def s3_crumbs_def take_map del: upt_Suc)
    ultimately show ?thesis unfolding g by simp
  qed
  moreover have "path_segments (cr_goto (last (gitlab_crumbs p))) = ?segs \<and>
      path_segments (cr_goto (last (s3_crumbs p))) = ?segs"
  proof (cases "?segs = []")
    case False
    then obtain k where k: "length ?segs = Suc k" by (cases ?segs) auto
    then show ?thesis
      using seg [of k] False
      by (simp add: gitlab_crumbs_def s3_crumbs_def gitlab_crumb_def s3_crumb_def)
  qed (simp add: gitlab_crumbs_def s3_crumbs_def root_crumb_def nil)
  ultimately show ?thesis by (simp add: gitlab_crumbs_def s3_crumbs_def)
qed

theorem breadcrumbs_lead_to_folders_witness:
  "s3_crumbs (cr_goto (s3_crumbs ''/models//llama/'' ! 1)) = take (Suc 1) (s3_crumbs ''/models//llama/'')"
  using breadcrumbs_lead_to_folders [of 1 "''/models//llama/''"]
  by (simp add: gitlab_crumbs_def path_segments_def strip_slashes_def strip_trailing_def)

lemma fixed_units_near:
  assumes "0 < d"
  shows "2 * fixed_units f n d * d \<le> 2 * n * 10 ^ f + d" "2 * n * 10 ^ f < 2 * fixed_units f n d * d + d"
proof -
  let ?m = "2 * n * 10 ^ f + d"
  have "2 * d * fixed_units f n d + ?m mod (2 * d) = ?m" unfolding fixed_units_def by (rule mult_div_mod_eq)
  moreover have "?m mod (2 * d) < 2 * d" using assms by simp
  moreover have "2 * d * fixed_units f n d = 2 * fixed_units f n d * d" by simp
  ultimately show "2 * fixed_units f n d * d \<le> ?m" "2 * n * 10 ^ f < 2 * fixed_units f n d * d + d"
    by linarith+
qed

lemma pick_unit_range:
  assumes "us \<noteq> []" "0 < d" "pick_unit n d us = (d', u)"
  shows "\<exists>k < length us. d' = 1024 ^ k * d \<and> u = us ! k \<and> (0 < k \<longrightarrow> d' \<le> n) \<and>
    (Suc k < length us \<longrightarrow> n < 1024 * d')"
  using assms
proof (induction n d us rule: pick_unit.induct)
  case (3 n d w v us)
  show ?case
  proof (cases "1024 * d \<le> n")
    case True
    then have "\<exists>k < length (v # us). d' = 1024 ^ k * (1024 * d) \<and> u = (v # us) ! k \<and>
        (0 < k \<longrightarrow> d' \<le> n) \<and> (Suc k < length (v # us) \<longrightarrow> n < 1024 * d')"
      using 3 by simp
    then obtain k where "k < length (v # us)" "d' = 1024 ^ k * (1024 * d)" "u = (v # us) ! k"
      "0 < k \<longrightarrow> d' \<le> n" "Suc k < length (v # us) \<longrightarrow> n < 1024 * d'" by blast
    then show ?thesis using True by (intro exI [of _ "Suc k"]) (cases k; simp)
  qed (use 3 in auto)
qed auto

text \<open>
  The size the GitLab browser shows is right to the last digit shown: the unit is the largest one
  that fits (up to TB), and the number shown, with three significant digits, is within half a unit
  in its last place of the exact quotient. What is not caught is a quotient that rounds up to
  1024: it is shown as 1024 of its unit, not as 1.00 of the next.
\<close>

theorem shown_size_near:
  assumes "1024 \<le> n"
  shows "\<exists>k d f. k < 4 \<and> d = 1024 ^ Suc k \<and>
    gitlab_formatBytes n = toFixed f n d @ '' '' @ [''KB'', ''MB'', ''GB'', ''TB''] ! k \<and>
    d \<le> n \<and> (k < 3 \<longrightarrow> n < 1024 * d) \<and>
    f = (if 100 * d \<le> n then 0 else if 10 * d \<le> n then 1 else 2) \<and>
    2 * fixed_units f n d * d \<le> 2 * n * 10 ^ f + d \<and> 2 * n * 10 ^ f < 2 * fixed_units f n d * d + d"
proof -
  let ?us = "[''KB'', ''MB'', ''GB'', ''TB'']"
  obtain d u where p: "pick_unit n 1024 ?us = (d, u)" by (cases "pick_unit n 1024 ?us") auto
  obtain k where k: "k < 4" "d = 1024 ^ Suc k" "u = ?us ! k" "0 < k \<longrightarrow> d \<le> n" "k < 3 \<longrightarrow> n < 1024 * d"
    using pick_unit_range [OF _ _ p] by (auto simp: mult.commute)
  define f :: nat where "f = (if 100 * d \<le> n then 0 else if 10 * d \<le> n then 1 else 2)"
  have "d \<le> n" using k assms by (cases k) auto
  moreover have "gitlab_formatBytes n = toFixed f n d @ '' '' @ u"
    using assms p by (simp add: gitlab_formatBytes_def f_def)
  moreover have "0 < d" by (simp add: k(2))
  ultimately show ?thesis
    using k fixed_units_near [where d = d and f = f and n = n]
    by (intro exI [of _ k] exI [of _ d] exI [of _ f] conjI) (simp_all only: f_def)
qed

theorem shown_size_near_witness:
  "\<exists>k d f. k < 4 \<and> d = 1024 ^ Suc k \<and>
    gitlab_formatBytes 123456789 = toFixed f 123456789 d @ '' '' @ [''KB'', ''MB'', ''GB'', ''TB''] ! k"
proof -
  have "(1024::nat) \<le> 123456789" by simp
  from shown_size_near [OF this] show ?thesis by blast
qed

text \<open>A byte short of a megabyte is shown as 1024 kilobytes.\<close>

lemma megabyte_less_one: "gitlab_formatBytes 1048575 = toFixed 0 1048575 1024 @ '' KB'' \<and> fixed_units 0 1048575 1024 = 1024"
  by (simp add: gitlab_formatBytes_def fixed_units_def)

text \<open>A weights file is taken to be binary whatever the case of its extension.\<close>

lemma binary_examples:
  "isLikelyBinary ''model-00001.SafeTensors'' \<and> isLikelyBinary ''a.tar.GZ'' \<and>
   \<not> isLikelyBinary ''README.md'' \<and> \<not> isLikelyBinary ''bin'' \<and> isLikelyBinary ''.bin''"
  by code_simp

end
