(* ===== verification/S3_Browser.thy ===== *)
theory S3_Browser
  imports Storage_Display
begin

text \<open>
  \<open>frontend/src/pages/aistorage/S3Browser.tsx\<close>: the selection of a secret, bucket and folder, the
  listings and uploads it starts, and how their answers land. A listing is identified by the
  arguments it captured; nothing cancels it, so every answer replaces the rows, whatever is
  selected by then. The first part states that contract for every page that reloads this way.
\<close>

subsection \<open>Pages that reload without cancelling\<close>

text \<open>
  \<open>setLoading(true); try { setRows(await \<dots>) } catch (e) { message.error(\<dots>); setRows([]) } finally
  { setLoading(false) }\<close>: the rows, the flag, the arguments of the calls not answered yet, and the
  messages shown.
\<close>

record ('k, 'a) listing =
  li_items :: "'a list"
  li_loading :: bool
  li_flights :: "'k list"
  li_messages :: "string list"

definition listing_start :: "'k \<Rightarrow> ('k, 'a, 'm) listing_scheme \<Rightarrow> ('k, 'a, 'm) listing_scheme" where
  "listing_start k s = s\<lparr>li_loading := True, li_flights := li_flights s @ [k]\<rparr>"

definition listing_answered ::
  "'k \<Rightarrow> 'a list promise \<Rightarrow> ('k, 'a, 'm) listing_scheme \<Rightarrow> ('k, 'a, 'm) listing_scheme" where
  "listing_answered k r s =
     (case r of
        Inl e \<Rightarrow> s\<lparr>li_messages := li_messages s @ [js_message e], li_items := [], li_loading := False,
          li_flights := remove1 k (li_flights s)\<rparr>
      | Inr got \<Rightarrow> s\<lparr>li_items := got, li_loading := False, li_flights := remove1 k (li_flights s)\<rparr>)"

text \<open>The rows an answer leaves.\<close>

definition answer_rows :: "'a list promise \<Rightarrow> 'a list" where
  "answer_rows r = (case r of Inl e \<Rightarrow> [] | Inr got \<Rightarrow> got)"

lemma listing_start_simps [simp]:
  "li_items (listing_start k s) = li_items s" "li_flights (listing_start k s) = li_flights s @ [k]"
  "li_messages (listing_start k s) = li_messages s" "li_loading (listing_start k s)"
  by (simp_all add: listing_start_def)

lemma listing_answered_simps [simp]:
  "li_items (listing_answered k r s) = answer_rows r" "li_flights (listing_answered k r s) = remove1 k (li_flights s)"
  "\<not> li_loading (listing_answered k r s)"
  by (simp_all add: listing_answered_def answer_rows_def split: sum.splits)

text \<open>
  The contract: what is shown is the latest answer. \<open>wanted\<close> is what the page should show, if
  anything; it is \<open>served\<close> when its request is the last of those in flight, or else its answer is shown.
  Answers that arrive in the order of their requests keep it served.
\<close>

locale reloading =
  fixes ask :: "'k \<Rightarrow> 's \<Rightarrow> 's" and answer :: "'k \<Rightarrow> 'r \<Rightarrow> 's \<Rightarrow> 's"
    and flights :: "'s \<Rightarrow> 'k list" and shown :: "'s \<Rightarrow> 'v" and of_answer :: "'r \<Rightarrow> 'v"
  assumes flights_ask [simp]: "flights (ask k s) = flights s @ [k]"
    and shown_ask [simp]: "shown (ask k s) = shown s"
    and flights_answer [simp]: "flights (answer k r s) = remove1 k (flights s)"
    and shown_answer [simp]: "shown (answer k r s) = of_answer r"
begin

definition served :: "('k \<Rightarrow> 'r) \<Rightarrow> 'k option \<Rightarrow> 's \<Rightarrow> bool" where
  "served respond wanted s \<longleftrightarrow>
     (case wanted of None \<Rightarrow> True
      | Some k \<Rightarrow> if flights s = [] then shown s = of_answer (respond k) else last (flights s) = k)"

lemma served_None [simp]: "served respond None s"
  by (simp add: served_def)

lemma served_ask [simp]: "served respond (Some k) (ask k s)"
  by (simp add: served_def)

lemma served_answer: "served respond w s \<Longrightarrow> flights s = k # fs \<Longrightarrow> served respond w (answer k (respond k) s)"
  by (auto simp: served_def split: option.splits if_splits)

lemma served_same: "served respond w s \<Longrightarrow> flights s' = flights s \<Longrightarrow> shown s' = shown s \<Longrightarrow> served respond w s'"
  by (cases w) (simp_all add: served_def)

lemma served_settled: "served respond (Some k) s \<Longrightarrow> flights s = [] \<Longrightarrow> shown s = of_answer (respond k)"
  by (simp add: served_def)

end

interpretation li: reloading listing_start listing_answered li_flights li_items answer_rows
  by unfold_locales simp_all

subsection \<open>The page\<close>

record S3ObjectDTO =
  so_key :: string
  so_size :: nat
  so_lastModified :: "string option"
  so_isPrefix :: bool

datatype upload_status = Uploading | UploadDone | UploadError

text \<open>The percentage is kept as the pair it is a quotient of.\<close>

record UploadEntry =
  ue_id :: string
  ue_name :: string
  ue_size :: nat
  ue_percent :: "nat \<times> nat"
  ue_status :: upload_status
  ue_error :: "string option"

text \<open>What a listing captured: namespace, secret, bucket and prefix.\<close>

type_synonym s3_folder = "string \<times> string \<times> string option \<times> string"

text \<open>
  \<open>sb_secrets\<close> are the rows the store shows for the namespace; \<open>sb_bucketRun\<close> counts the runs of the
  effect that lists the buckets, each of which cancels the one before; \<open>sb_fading\<close> are the uploads
  whose removal timer runs.
\<close>

record s3_page = "(s3_folder, S3ObjectDTO) listing" +
  sb_namespace :: string
  sb_secrets :: "S3SecretDTO list"
  sb_secretName :: "string option"
  sb_bucket :: "string option"
  sb_buckets :: "string list"
  sb_prefix :: string
  sb_bucketRun :: nat
  sb_uploads :: "UploadEntry list"
  sb_fading :: "string list"
  sb_register :: "(string \<times> string \<times> string) option"

definition s3_page_init :: "string \<Rightarrow> S3SecretDTO list \<Rightarrow> s3_page" where
  "s3_page_init ns secrets =
     \<lparr>li_items = [], li_loading = False, li_flights = [], li_messages = [], sb_namespace = ns,
      sb_secrets = secrets, sb_secretName = None, sb_bucket = None, sb_buckets = [], sb_prefix = [],
      sb_bucketRun = 0, sb_uploads = [], sb_fading = [], sb_register = None\<rparr>"

text \<open>\<open>reload\<close> with the values one render captured.\<close>

definition s3_reload :: "string \<times> string option \<times> string option \<times> string \<Rightarrow> s3_page \<Rightarrow> s3_page" where
  "s3_reload c s =
     (let (ns, secret, bucket, pre) = c
      in if \<not> truthy_str secret then s else listing_start (ns, nullish secret '''', bucket, pre) s)"

definition s3_captured :: "s3_page \<Rightarrow> string \<times> string option \<times> string option \<times> string" where
  "s3_captured s = (sb_namespace s, sb_secretName s, sb_bucket s, sb_prefix s)"

text \<open>The request behind a listing.\<close>

fun s3_request :: "s3_folder \<Rightarrow> http_request" where
  "s3_request (ns, secret, bucket, pre) = listS3Objects ns secret bucket (Some pre)"

text \<open>
  The effects of one commit, in order: the namespace effect, the default secret, the bucket
  listing, and the reload. \<open>old\<close> is the state of the commit before; every effect reads the state of
  this one.
\<close>

definition namespace_reset :: "s3_page \<Rightarrow> s3_page \<Rightarrow> s3_page" where
  "namespace_reset old s =
     (if sb_namespace s \<noteq> sb_namespace old
      then s\<lparr>sb_secretName := None, sb_bucket := None, li_items := [], sb_prefix := []\<rparr> else s)"

definition default_secret :: "s3_page \<Rightarrow> s3_page \<Rightarrow> s3_page" where
  "default_secret cur s =
     (if \<not> truthy_str (sb_secretName cur) \<and> sb_secrets cur \<noteq> [] then
        s\<lparr>sb_secretName := Some (s3_name (hd (sb_secrets cur))), sb_bucket := s3_bucket (hd (sb_secrets cur))\<rparr>
      else s)"

definition buckets_effect :: "s3_page \<Rightarrow> s3_page \<Rightarrow> s3_page \<Rightarrow> s3_page" where
  "buckets_effect old cur s =
     (if sb_namespace cur \<noteq> sb_namespace old \<or> sb_secretName cur \<noteq> sb_secretName old
      then s\<lparr>sb_bucketRun := sb_bucketRun s + 1\<rparr> else s)"

definition reload_effect :: "s3_page \<Rightarrow> s3_page \<Rightarrow> s3_page \<Rightarrow> s3_page" where
  "reload_effect old cur s =
     (if sb_secretName cur \<noteq> sb_secretName old \<or> sb_bucket cur \<noteq> sb_bucket old \<or> sb_prefix cur \<noteq> sb_prefix old
      then s3_reload (s3_captured cur) s else s)"

definition s3_commit :: "s3_page \<Rightarrow> s3_page \<Rightarrow> s3_page" where
  "s3_commit old cur =
     reload_effect old cur (buckets_effect old cur (default_secret cur (namespace_reset old cur)))"

text \<open>
  What a change leads to: an effect that sets the state is followed by another commit; the fourth
  would find nothing left to do (\<open>rendered_stable\<close>).
\<close>

definition s3_rendered :: "s3_page \<Rightarrow> s3_page \<Rightarrow> s3_page" where
  "s3_rendered old s =
     (let s1 = s3_commit old s; s2 = s3_commit s s1 in s3_commit s1 s2)"

text \<open>The first commit runs every effect.\<close>

definition s3_mounted :: "string \<Rightarrow> S3SecretDTO list \<Rightarrow> s3_page" where
  "s3_mounted ns secrets =
     (let s = s3_page_init ns secrets
      in s3_rendered s (default_secret s (s\<lparr>sb_bucketRun := 1\<rparr>)))"

subsection \<open>Steps\<close>

definition namespace_changed :: "string \<Rightarrow> S3SecretDTO list \<Rightarrow> s3_page \<Rightarrow> s3_page" where
  "namespace_changed ns secrets s = s3_rendered s (s\<lparr>sb_namespace := ns, sb_secrets := secrets\<rparr>)"

definition secrets_shown :: "S3SecretDTO list \<Rightarrow> s3_page \<Rightarrow> s3_page" where
  "secrets_shown secrets s = s3_rendered s (s\<lparr>sb_secrets := secrets\<rparr>)"

definition secret_chosen :: "string \<Rightarrow> s3_page \<Rightarrow> s3_page" where
  "secret_chosen v s =
     s3_rendered s (s\<lparr>sb_secretName := Some v, sb_prefix := [],
       sb_bucket := Option.bind (find (\<lambda>x. s3_name x = v) (sb_secrets s)) s3_bucket\<rparr>)"

definition bucket_chosen :: "string \<Rightarrow> s3_page \<Rightarrow> s3_page" where
  "bucket_chosen v s = s3_rendered s (s\<lparr>sb_bucket := Some v, sb_prefix := []\<rparr>)"

text \<open>A click on a breadcrumb or a folder.\<close>

definition prefix_chosen :: "string \<Rightarrow> s3_page \<Rightarrow> s3_page" where
  "prefix_chosen p s = s3_rendered s (s\<lparr>sb_prefix := p\<rparr>)"

definition refresh_clicked :: "s3_page \<Rightarrow> s3_page" where
  "refresh_clicked s = s3_reload (s3_captured s) s"

text \<open>Only the last run of the bucket effect is not cancelled; a failure is not shown.\<close>

definition buckets_answered :: "nat \<Rightarrow> string list promise \<Rightarrow> s3_page \<Rightarrow> s3_page" where
  "buckets_answered run r s =
     (if run \<noteq> sb_bucketRun s then s else (case r of Inl e \<Rightarrow> s | Inr bs \<Rightarrow> s\<lparr>sb_buckets := bs\<rparr>))"

definition bucket_options :: "s3_page \<Rightarrow> string list" where
  "bucket_options s =
     (if sb_buckets s \<noteq> [] then sb_buckets s
      else (case Option.bind (find (\<lambda>x. Some (s3_name x) = sb_secretName s) (sb_secrets s)) s3_bucket of
          None \<Rightarrow> [] | Some b \<Rightarrow> if b = [] then [] else [b]))"

text \<open>
  An upload: \<open>now_ms\<close> is \<open>Date.now()\<close>. Its key and the folder it reloads afterwards are those of the
  render it started in.
\<close>

definition upload_key :: "string \<Rightarrow> string \<Rightarrow> string" where
  "upload_key pre fname =
     (if pre \<noteq> [] then (if pre \<noteq> [] \<and> last pre = CHR ''/'' then pre else pre @ ''/'') else []) @ fname"

definition upload_id :: "string \<Rightarrow> nat \<Rightarrow> int \<Rightarrow> string" where
  "upload_id fname fsize now_ms = fname @ ''|'' @ show_nat fsize @ ''|'' @ show_int now_ms"

definition upload_started :: "string \<Rightarrow> nat \<Rightarrow> int \<Rightarrow> s3_page \<Rightarrow> s3_page" where
  "upload_started fname fsize now_ms s =
     (if \<not> truthy_str (sb_secretName s) then s\<lparr>li_messages := li_messages s @ [''Select a secret first'']\<rparr>
      else s\<lparr>sb_uploads := sb_uploads s @
        [\<lparr>ue_id = upload_id fname fsize now_ms, ue_name = fname, ue_size = fsize, ue_percent = (0, 1),
          ue_status = Uploading, ue_error = None\<rparr>]\<rparr>)"

definition upload_request :: "string \<Rightarrow> string \<Rightarrow> s3_page \<Rightarrow> string" where
  "upload_request base fname s =
     s3UploadUrl base (sb_namespace s) (nullish (sb_secretName s) '''') (sb_bucket s)
       (upload_key (sb_prefix s) fname)"

definition change_upload :: "string \<Rightarrow> (UploadEntry \<Rightarrow> UploadEntry) \<Rightarrow> s3_page \<Rightarrow> s3_page" where
  "change_upload i f s = s\<lparr>sb_uploads := map_where (\<lambda>u. ue_id u = i) f (sb_uploads s)\<rparr>"

definition upload_progressed :: "string \<Rightarrow> nat \<times> nat \<Rightarrow> s3_page \<Rightarrow> s3_page" where
  "upload_progressed i p = change_upload i (\<lambda>u. u\<lparr>ue_percent := p\<rparr>)"

definition upload_answered ::
  "string \<Rightarrow> string \<times> string option \<times> string option \<times> string \<Rightarrow> unit promise \<Rightarrow> s3_page \<Rightarrow> s3_page" where
  "upload_answered i captured r s =
     (case r of
        Inr _ \<Rightarrow> s3_reload captured
          (change_upload i (\<lambda>u. u\<lparr>ue_percent := (1, 1), ue_status := UploadDone\<rparr>)
            (s\<lparr>sb_fading := sb_fading s @ [i]\<rparr>))
      | Inl e \<Rightarrow> change_upload i (\<lambda>u. u\<lparr>ue_status := UploadError, ue_error := Some (js_message e)\<rparr>)
          (s\<lparr>li_messages := li_messages s @ [js_message e]\<rparr>))"

definition upload_dismissed :: "string \<Rightarrow> s3_page \<Rightarrow> s3_page" where
  "upload_dismissed i s = s\<lparr>sb_uploads := drop_where (\<lambda>u. ue_id u = i) (sb_uploads s)\<rparr>"

text \<open>Three seconds after a success.\<close>

definition upload_faded :: "string \<Rightarrow> s3_page \<Rightarrow> s3_page" where
  "upload_faded i s =
     (if i \<in> set (sb_fading s) then upload_dismissed i (s\<lparr>sb_fading := remove1 i (sb_fading s)\<rparr>) else s)"

definition uploads_in_progress :: "s3_page \<Rightarrow> nat" where
  "uploads_in_progress s = length (filter (\<lambda>u. ue_status u = Uploading) (sb_uploads s))"

definition object_deleted ::
  "string \<times> string option \<times> string option \<times> string \<Rightarrow> unit promise \<Rightarrow> s3_page \<Rightarrow> s3_page" where
  "object_deleted captured r s =
     (case r of Inr _ \<Rightarrow> s3_reload captured s | Inl e \<Rightarrow> s\<lparr>li_messages := li_messages s @ [js_message e]\<rparr>)"

definition downloaded ::
  "(string \<times> string) promise \<Rightarrow> ('k, 'a, 'm) listing_scheme \<Rightarrow> ('k, 'a, 'm) listing_scheme" where
  "downloaded r s =
     (case r of Inr _ \<Rightarrow> s | Inl e \<Rightarrow> s\<lparr>li_messages := li_messages s @ [js_message e]\<rparr>)"

text \<open>What a row shows, and what its register button hands to the dialog.\<close>

definition display_name :: "string \<Rightarrow> string \<Rightarrow> string" where
  "display_name pre key = or_str (strip_one CHR ''/'' (drop (length pre) key)) key"

definition s3_register_target :: "s3_page \<Rightarrow> S3ObjectDTO \<Rightarrow> string \<times> string \<times> string" where
  "s3_register_target s r =
     (''s3://'' @ (case sb_bucket s of None \<Rightarrow> ''undefined'' | Some b \<Rightarrow> b) @ ''/'' @ so_key r,
      last (split_on CHR ''/'' (strip_one CHR ''/'' (so_key r))),
      if so_isPrefix r then ''S3 folder'' else ''S3 file'')"

definition register_opened :: "S3ObjectDTO \<Rightarrow> s3_page \<Rightarrow> s3_page" where
  "register_opened r s = s\<lparr>sb_register := Some (s3_register_target s r)\<rparr>"

definition register_closed :: "s3_page \<Rightarrow> s3_page" where
  "register_closed s = s\<lparr>sb_register := None\<rparr>"

subsection \<open>Runs\<close>

text \<open>
  The page's steps when listings are answered in the order they were asked for, each by what the
  backend holds. \<open>calm\<close>: uploads and deletions end in the folder they were started in.
\<close>

datatype s3_event =
    NamespaceChanged string "S3SecretDTO list" | SecretsShown "S3SecretDTO list" | SecretChosen string
  | BucketChosen string | PrefixChosen string | RefreshClicked | ListingAnswered
  | BucketsAnswered nat "string list promise" | UploadStarted string nat int
  | UploadProgressed string "nat \<times> nat"
  | UploadAnswered string "string \<times> string option \<times> string option \<times> string" "unit promise"
  | UploadFaded string | UploadDismissed string
  | ObjectDeleted "string \<times> string option \<times> string option \<times> string" "unit promise"
  | Downloaded "(string \<times> string) promise" | RegisterOpened S3ObjectDTO | RegisterClosed

fun s3_step :: "(s3_folder \<Rightarrow> S3ObjectDTO list promise) \<Rightarrow> s3_page \<Rightarrow> s3_event \<Rightarrow> s3_page" where
  "s3_step respond s (NamespaceChanged ns secrets) = namespace_changed ns secrets s"
| "s3_step respond s (SecretsShown secrets) = secrets_shown secrets s"
| "s3_step respond s (SecretChosen v) = secret_chosen v s"
| "s3_step respond s (BucketChosen v) = bucket_chosen v s"
| "s3_step respond s (PrefixChosen p) = prefix_chosen p s"
| "s3_step respond s RefreshClicked = refresh_clicked s"
| "s3_step respond s ListingAnswered =
     (case li_flights s of [] \<Rightarrow> s | k # _ \<Rightarrow> listing_answered k (respond k) s)"
| "s3_step respond s (BucketsAnswered run r) = buckets_answered run r s"
| "s3_step respond s (UploadStarted fname fsize t) = upload_started fname fsize t s"
| "s3_step respond s (UploadProgressed i p) = upload_progressed i p s"
| "s3_step respond s (UploadAnswered i c r) = upload_answered i c r s"
| "s3_step respond s (UploadFaded i) = upload_faded i s"
| "s3_step respond s (UploadDismissed i) = upload_dismissed i s"
| "s3_step respond s (ObjectDeleted c r) = object_deleted c r s"
| "s3_step respond s (Downloaded r) = downloaded r s"
| "s3_step respond s (RegisterOpened row) = register_opened row s"
| "s3_step respond s RegisterClosed = register_closed s"

fun calm :: "(s3_folder \<Rightarrow> S3ObjectDTO list promise) \<Rightarrow> s3_page \<Rightarrow> s3_event list \<Rightarrow> bool" where
  "calm respond s [] = True"
| "calm respond s (e # es) =
     ((case e of UploadAnswered i c r \<Rightarrow> c = s3_captured s | ObjectDeleted c r \<Rightarrow> c = s3_captured s | _ \<Rightarrow> True) \<and>
      calm respond (s3_step respond s e) es)"

subsection \<open>Properties\<close>

definition s3_wanted :: "s3_page \<Rightarrow> s3_folder option" where
  "s3_wanted s =
     (if truthy_str (sb_secretName s)
      then Some (sb_namespace s, nullish (sb_secretName s) '''', sb_bucket s, sb_prefix s) else None)"

definition same_selection :: "s3_page \<Rightarrow> s3_page \<Rightarrow> bool" where
  "same_selection s t \<longleftrightarrow> s3_captured s = s3_captured t"

lemma commit_selection:
  "sb_secrets (s3_commit old s) = sb_secrets s" "sb_namespace (s3_commit old s) = sb_namespace s"
  "sb_namespace s = sb_namespace old \<Longrightarrow> sb_prefix (s3_commit old s) = sb_prefix s"
  "sb_namespace s = sb_namespace old \<Longrightarrow> sb_secretName (s3_commit old s) = sb_secretName (default_secret s s)"
  "sb_namespace s = sb_namespace old \<Longrightarrow> sb_bucket (s3_commit old s) = sb_bucket (default_secret s s)"
  by (simp_all add: s3_commit_def reload_effect_def buckets_effect_def default_secret_def namespace_reset_def
      s3_reload_def s3_captured_def Let_def listing_start_def)

lemma default_default:
  "sb_secrets t = sb_secrets s \<Longrightarrow> sb_secretName t = sb_secretName (default_secret s s) \<Longrightarrow>
   sb_bucket t = sb_bucket (default_secret s s) \<Longrightarrow> default_secret t t = t"
  by (cases t) (auto simp: default_secret_def split: if_splits)

lemma commit_idle:
  assumes "same_selection old s" "default_secret s s = s"
  shows "s3_commit old s = s"
  using assms by (simp add: same_selection_def s3_captured_def s3_commit_def namespace_reset_def buckets_effect_def
      reload_effect_def)

lemma second_commit:
  assumes "sb_namespace s = sb_namespace old"
  shows "same_selection (s3_commit old s) (s3_commit s (s3_commit old s))"
proof -
  let ?t = "s3_commit old s"
  have "default_secret ?t ?t = ?t"
    by (rule default_default [of _ s]) (simp_all add: commit_selection assms)
  then show ?thesis
    by (simp add: same_selection_def s3_captured_def commit_selection)
qed

text \<open>Three commits are enough: whatever was changed, a fourth does nothing.\<close>

lemma rendered_stable:
  fixes old s
  defines "s1 \<equiv> s3_commit old s"
  defines "s2 \<equiv> s3_commit s s1"
  shows "same_selection s2 (s3_rendered old s)" "s3_commit s2 (s3_rendered old s) = s3_rendered old s"
proof -
  have r: "s3_rendered old s = s3_commit s1 s2" by (simp add: s3_rendered_def s1_def s2_def Let_def)
  show sel: "same_selection s2 (s3_rendered old s)"
    unfolding r s2_def by (rule second_commit) (simp add: s1_def commit_selection)
  have "default_secret (s3_rendered old s) (s3_rendered old s) = s3_rendered old s"
    unfolding r by (rule default_default [of _ s2])
      (simp_all add: commit_selection s1_def s2_def)
  with sel show "s3_commit s2 (s3_rendered old s) = s3_rendered old s" by (rule commit_idle)
qed

text \<open>Between two commits: unless the selection just changed, what is wanted is served.\<close>

definition pending_ok :: "(s3_folder \<Rightarrow> S3ObjectDTO list promise) \<Rightarrow> s3_page \<Rightarrow> s3_page \<Rightarrow> bool" where
  "pending_ok respond old s \<longleftrightarrow> (same_selection old s \<longrightarrow> li.served respond (s3_wanted s) s)"

lemma commit_served:
  assumes "pending_ok respond old s"
  shows "pending_ok respond s (s3_commit old s)"
proof -
  let ?c = "s3_commit old s"
  let ?sel = "\<lambda>x. (sb_secretName x, sb_bucket x, sb_prefix x)"
  have "li.served respond (s3_wanted ?c) ?c" if same: "same_selection s ?c"
  proof -
    have w: "s3_wanted ?c = s3_wanted s" using same by (simp add: same_selection_def s3_captured_def s3_wanted_def)
    consider "?sel s \<noteq> ?sel old" | "?sel s = ?sel old" "sb_namespace s = sb_namespace old"
      | "?sel s = ?sel old" "sb_namespace s \<noteq> sb_namespace old" by blast
    then show ?thesis
    proof cases
      case 1
      then have "?c = s3_reload (s3_captured s) (buckets_effect old s (default_secret s (namespace_reset old s)))"
        by (auto simp: s3_commit_def reload_effect_def)
      then show ?thesis
        unfolding w by (cases "truthy_str (sb_secretName s)") (simp_all add: s3_reload_def s3_captured_def s3_wanted_def)
    next
      case 2
      then have "li_flights ?c = li_flights s" "li_items ?c = li_items s"
        by (simp_all add: s3_commit_def reload_effect_def buckets_effect_def default_secret_def namespace_reset_def)
      moreover have "li.served respond (s3_wanted s) s"
        using 2 assms by (simp add: pending_ok_def same_selection_def s3_captured_def)
      ultimately show ?thesis unfolding w by (simp add: li.served_same)
    next
      case 3
      then have "sb_secretName ?c = None \<or> \<not> truthy_str (sb_secretName s)"
        by (simp add: s3_commit_def reload_effect_def buckets_effect_def default_secret_def namespace_reset_def)
      with same have "\<not> truthy_str (sb_secretName s)"
        by (auto simp: same_selection_def s3_captured_def truthy_str_def)
      then show ?thesis unfolding w by (simp add: s3_wanted_def)
    qed
  qed
  then show ?thesis by (simp add: pending_ok_def)
qed

lemma rendered_served:
  assumes "li.served respond (s3_wanted old) old" "li_items s = li_items old" "li_flights s = li_flights old"
  shows "li.served respond (s3_wanted (s3_rendered old s)) (s3_rendered old s)"
proof -
  have "pending_ok respond old s"
    using assms li.served_same [of respond "s3_wanted s" old s]
    by (auto simp: pending_ok_def same_selection_def s3_wanted_def s3_captured_def)
  then have "pending_ok respond (s3_commit s (s3_commit old s)) (s3_rendered old s)"
    unfolding s3_rendered_def Let_def by (intro commit_served)
  with rendered_stable(1) [of s old] show ?thesis by (simp add: pending_ok_def)
qed

lemma untouched_served:
  assumes "li.served respond (s3_wanted s) s" "li_items t = li_items s" "li_flights t = li_flights s"
    and "same_selection s t"
  shows "li.served respond (s3_wanted t) t"
proof -
  have "s3_wanted t = s3_wanted s"
    using assms(4) by (simp add: same_selection_def s3_captured_def s3_wanted_def)
  with assms(1-3) show ?thesis by (simp add: li.served_same)
qed

lemma reload_served:
  assumes "li.served respond (s3_wanted s) s" "li_items t = li_items s" "li_flights t = li_flights s"
    and "same_selection s t"
  shows "li.served respond (s3_wanted (s3_reload (s3_captured s) t)) (s3_reload (s3_captured s) t)"
proof (cases "truthy_str (sb_secretName s)")
  case True
  then have "s3_wanted (s3_reload (s3_captured s) t) = Some (sb_namespace s, nullish (sb_secretName s) '''', sb_bucket s, sb_prefix s)"
    using assms(4) by (simp add: s3_reload_def s3_captured_def same_selection_def s3_wanted_def listing_start_def)
  then show ?thesis using True by (simp add: s3_reload_def s3_captured_def)
next
  case False
  then show ?thesis using untouched_served [OF assms] by (simp add: s3_reload_def s3_captured_def)
qed

lemma step_served:
  assumes "li.served respond (s3_wanted s) s"
    and "case e of UploadAnswered i c r \<Rightarrow> c = s3_captured s | ObjectDeleted c r \<Rightarrow> c = s3_captured s | _ \<Rightarrow> True"
  shows "li.served respond (s3_wanted (s3_step respond s e)) (s3_step respond s e)"
proof (cases e)
  case ListingAnswered
  have "s3_wanted (listing_answered k r s) = s3_wanted s" for k r
    by (simp add: s3_wanted_def listing_answered_def split: sum.splits)
  with assms ListingAnswered show ?thesis
    by (auto split: list.splits intro: li.served_answer)
next
  case RefreshClicked
  then show ?thesis using reload_served [OF assms(1), of s] by (simp add: refresh_clicked_def same_selection_def)
next
  case (UploadAnswered i c r)
  then have c: "c = s3_captured s" using assms(2) by simp
  show ?thesis
  proof (cases r)
    case (Inl x)
    then show ?thesis
      unfolding UploadAnswered c
      by (auto simp: upload_answered_def change_upload_def same_selection_def s3_captured_def intro!: untouched_served [OF assms(1)])
  next
    case (Inr u)
    show ?thesis
      unfolding UploadAnswered c Inr s3_step.simps upload_answered_def sum.case
      by (rule reload_served [OF assms(1)]) (simp_all add: change_upload_def same_selection_def s3_captured_def)
  qed
next
  case (ObjectDeleted c r)
  then have c: "c = s3_captured s" using assms(2) by simp
  show ?thesis
  proof (cases r)
    case (Inl x)
    then show ?thesis
      unfolding ObjectDeleted c
      by (auto simp: object_deleted_def same_selection_def s3_captured_def intro!: untouched_served [OF assms(1)])
  next
    case (Inr u)
    show ?thesis
      unfolding ObjectDeleted c Inr s3_step.simps object_deleted_def sum.case
      by (rule reload_served [OF assms(1)]) (simp_all add: same_selection_def)
  qed
qed (auto simp: namespace_changed_def secrets_shown_def secret_chosen_def bucket_chosen_def prefix_chosen_def
    buckets_answered_def upload_started_def upload_progressed_def change_upload_def upload_faded_def
    upload_dismissed_def downloaded_def register_opened_def register_closed_def same_selection_def s3_captured_def
    split: sum.splits intro!: rendered_served [OF assms(1)] untouched_served [OF assms(1)])

lemma calm_served:
  "li.served respond (s3_wanted s) s \<Longrightarrow> calm respond s es \<Longrightarrow>
   li.served respond (s3_wanted (foldl (s3_step respond) s es)) (foldl (s3_step respond) s es)"
  by (induction es arbitrary: s) (auto intro: step_served)

lemma mounted_served: "li.served respond (s3_wanted (s3_mounted ns secrets)) (s3_mounted ns secrets)"
  unfolding s3_mounted_def Let_def
  by (rule rendered_served) (simp_all add: s3_page_init_def s3_wanted_def default_secret_def)


definition sample_secret :: S3SecretDTO where
  "sample_secret = \<lparr>s3_name = ''minio'', s3_namespace = ''team'', s3_kind = S3Compatible, s3_endpoint = ''http://minio'',
     s3_region = None, s3_useHttps = False, s3_bucket = Some ''models'', s3_serviceAccount = None, s3_createdAt = None\<rparr>"

definition sample_listing :: "s3_folder \<Rightarrow> S3ObjectDTO list promise" where
  "sample_listing k =
     (let (ns, secret, bucket, pre) = k
      in Inr [\<lparr>so_key = pre @ ''config.json'', so_size = 700, so_lastModified = None, so_isPrefix = False\<rparr>])"

lemma sample_mounted:
  "s3_mounted ''team'' [sample_secret] =
     (s3_page_init ''team'' [sample_secret])\<lparr>sb_secretName := Some ''minio'', sb_bucket := Some ''models'',
       sb_bucketRun := 2, li_loading := True, li_flights := [(''team'', ''minio'', Some ''models'', [])]\<rparr>"
  by code_simp


text \<open>
  An upload that ends after its folder was left lists that folder again, and its rows are shown
  under the folder selected by then.
\<close>

lemma upload_shows_folder_left:
  "let s = foldl (s3_step sample_listing) (s3_mounted ''team'' [sample_secret])
      [ListingAnswered, UploadStarted ''w.bin'' 9 0, PrefixChosen ''llama/'', ListingAnswered,
       UploadAnswered ''w.bin|9|0'' (''team'', Some ''minio'', Some ''models'', []) (Inr ()), ListingAnswered]
   in sb_prefix s = ''llama/'' \<and> li_flights s = [] \<and> map so_key (li_items s) = [''config.json'']"
  by code_simp

text \<open>A secret without a default bucket registers the bucket \<open>undefined\<close>.\<close>

lemma register_without_bucket:
  "sb_bucket s = None \<Longrightarrow> fst (s3_register_target s r) = ''s3://undefined/'' @ so_key r"
  by (simp add: s3_register_target_def)

text \<open>An object uploaded to a folder is shown there under the name of its file.\<close>

lemma uploaded_name_shown:
  assumes "pre = [] \<or> last pre = CHR ''/''" "fname \<noteq> []" "last fname \<noteq> CHR ''/''"
  shows "display_name pre (upload_key pre fname) = fname"
  using assms by (auto simp: upload_key_def display_name_def strip_one_id or_str_def)

text \<open>The panel of uploads: one upload from its start to the removal of its row.\<close>

definition upload_run :: "string \<Rightarrow> nat \<Rightarrow> int \<Rightarrow> xhr_event list \<Rightarrow> s3_page \<Rightarrow> s3_page" where
  "upload_run fname fsize t es s =
     (let i = upload_id fname fsize t;
          s1 = fold (upload_progressed i) (fst (xhrUpload es)) (upload_started fname fsize t s)
      in case snd (xhrUpload es) of None \<Rightarrow> s1 | Some r \<Rightarrow> upload_answered i (s3_captured s) r s1)"

lemma progressed_fold:
  "fold (upload_progressed i) ps s =
     change_upload i (\<lambda>u. if ps = [] then u else u\<lparr>ue_percent := last ps\<rparr>) s"
proof (induction ps arbitrary: s)
  case Nil
  then show ?case by (simp add: change_upload_def map_where_def)
next
  case (Cons p ps)
  then show ?case
    by (cases ps) (auto simp: upload_progressed_def change_upload_def map_where_def comp_def)
qed

lemma map_where_fresh:
  "\<forall>u \<in> set us. ue_id u \<noteq> i \<Longrightarrow>
   map_where (\<lambda>u. ue_id u = i) f (us @ vs) = us @ map_where (\<lambda>u. ue_id u = i) f vs"
  by (simp add: map_where_def map_idI)

text \<open>
  A new upload has one row of its own in the panel, and the others are untouched: while the request
  runs it shows the last progress reported; when it succeeds the row is done, the folder it was
  started in is listed again and the row goes by itself; when it fails the row stays, with the reason,
  until it is dismissed, nothing is listed, and the reason is also announced.
\<close>

theorem upload_reported:
  assumes "truthy_str (sb_secretName s)" "i = upload_id fname fsize t" "\<forall>u \<in> set (sb_uploads s). ue_id u \<noteq> i"
    and "s' = upload_run fname fsize t es s"
  shows "(snd (xhrUpload es) = None \<longrightarrow> (\<exists>u. sb_uploads s' = sb_uploads s @ [u] \<and> ue_id u = i \<and> ue_name u = fname \<and>
      ue_status u = Uploading \<and> ue_percent u = last ((0, 1) # fst (xhrUpload es)) \<and> li_flights s' = li_flights s)) \<and>
    (snd (xhrUpload es) = Some (Inr ()) \<longrightarrow> (\<exists>u. sb_uploads s' = sb_uploads s @ [u] \<and> ue_id u = i \<and>
      ue_status u = UploadDone \<and> ue_percent u = (1, 1) \<and>
      li_flights s' = li_flights s @ [(sb_namespace s, nullish (sb_secretName s) '''', sb_bucket s, sb_prefix s)] \<and>
      sb_uploads (upload_faded i s') = sb_uploads s)) \<and>
    (\<forall>e. snd (xhrUpload es) = Some (Inl e) \<longrightarrow> (\<exists>u. sb_uploads s' = sb_uploads s @ [u] \<and> ue_id u = i \<and>
      ue_status u = UploadError \<and> ue_error u = Some (js_message e) \<and>
      li_messages s' = li_messages s @ [js_message e] \<and> li_flights s' = li_flights s \<and>
      sb_uploads (upload_dismissed i s') = sb_uploads s))"
proof -
  let ?u = "\<lparr>ue_id = i, ue_name = fname, ue_size = fsize, ue_percent = last ((0, 1) # fst (xhrUpload es)),
    ue_status = Uploading, ue_error = None\<rparr>"
  have one: "fold (upload_progressed i) (fst (xhrUpload es)) (upload_started fname fsize t s) =
      s\<lparr>sb_uploads := sb_uploads s @ [?u]\<rparr>"
    using assms(1-3) by (simp add: progressed_fold upload_started_def change_upload_def map_where_fresh)
  have gone: "drop_where (\<lambda>u. ue_id u = i) (sb_uploads s @ vs) = sb_uploads s @ drop_where (\<lambda>u. ue_id u = i) vs" for vs
    using assms(3) by (simp add: drop_where_def)
  show ?thesis
    using assms(1,3) unfolding assms(4) upload_run_def Let_def assms(2) [symmetric] one
    by (auto simp: upload_answered_def change_upload_def map_where_fresh s3_reload_def s3_captured_def
        upload_faded_def upload_dismissed_def gone listing_start_def)
qed

theorem upload_reported_witness:
  "\<exists>u. sb_uploads (upload_run ''w.bin'' 9 0 [Progress True 4 9, NetError] (s3_mounted ''team'' [sample_secret])) = [u] \<and>
     ue_status u = UploadError \<and> ue_error u = Some ''network error''"
proof -
  have "snd (xhrUpload [Progress True 4 9, NetError]) = Some (Inl (ApiError 0 ''network error''))" by code_simp
  moreover have "truthy_str (sb_secretName (s3_mounted ''team'' [sample_secret]))"
    "sb_uploads (s3_mounted ''team'' [sample_secret]) = []"
    by (simp_all add: sample_mounted s3_page_init_def)
  ultimately show ?thesis
    using upload_reported [OF _ refl _ refl, of "s3_mounted ''team'' [sample_secret]" "''w.bin''" 9 0
        "[Progress True 4 9, NetError]"] by fastforce
qed

end
