(* ===== verification/GitLab_Browser.thy ===== *)
theory GitLab_Browser
  imports S3_Browser
begin

text \<open>
  \<open>frontend/src/pages/aistorage/GitLabProjects.tsx\<close>, the index of a namespace's projects, and
  \<open>GitLabBrowser.tsx\<close>, the browser of one: its folder and ref are in the URL, its tree is reloaded the
  way the object store's rows are, and the viewer beside it is set by whichever preview answers last.
\<close>

subsection \<open>The index of projects\<close>

record projects_page_state = "(string \<times> string, GitLabProjectDTO) listing" +
  gp_namespace :: string
  gp_configs :: "GitLabConfigDTO list"
  gp_configName :: "string option"
  gp_filter :: string
  gp_register :: "(string \<times> string) option"

definition projects_reload :: "projects_page_state \<Rightarrow> projects_page_state \<Rightarrow> projects_page_state" where
  "projects_reload cur s =
     (if \<not> truthy_str (gp_configName cur) then s
      else listing_start (gp_namespace cur, nullish (gp_configName cur) '''') s)"

definition projects_reset :: "projects_page_state \<Rightarrow> projects_page_state \<Rightarrow> projects_page_state" where
  "projects_reset old s =
     (if gp_namespace s \<noteq> gp_namespace old then s\<lparr>gp_configName := None, li_items := [], gp_filter := []\<rparr> else s)"

definition default_config :: "projects_page_state \<Rightarrow> projects_page_state \<Rightarrow> projects_page_state" where
  "default_config cur s =
     (if \<not> truthy_str (gp_configName cur) \<and> gp_configs cur \<noteq> []
      then s\<lparr>gp_configName := Some (gd_name (hd (gp_configs cur)))\<rparr> else s)"

text \<open>The reload effect depends on the namespace too, unlike the object store's.\<close>

definition projects_commit :: "projects_page_state \<Rightarrow> projects_page_state \<Rightarrow> projects_page_state" where
  "projects_commit old cur =
     (let s = default_config cur (projects_reset old cur)
      in if gp_namespace cur \<noteq> gp_namespace old \<or> gp_configName cur \<noteq> gp_configName old
         then projects_reload cur s else s)"

definition projects_rendered :: "projects_page_state \<Rightarrow> projects_page_state \<Rightarrow> projects_page_state" where
  "projects_rendered old s =
     (let s1 = projects_commit old s; s2 = projects_commit s s1 in projects_commit s1 s2)"

definition projects_mounted :: "string \<Rightarrow> GitLabConfigDTO list \<Rightarrow> projects_page_state" where
  "projects_mounted ns configs =
     (let s = \<lparr>li_items = [], li_loading = False, li_flights = [], li_messages = [], gp_namespace = ns,
        gp_configs = configs, gp_configName = None, gp_filter = [], gp_register = None\<rparr>
      in projects_rendered s (default_config s s))"

definition projects_namespace_changed ::
  "string \<Rightarrow> GitLabConfigDTO list \<Rightarrow> projects_page_state \<Rightarrow> projects_page_state" where
  "projects_namespace_changed ns configs s =
     projects_rendered s (s\<lparr>gp_namespace := ns, gp_configs := configs\<rparr>)"

definition configs_shown :: "GitLabConfigDTO list \<Rightarrow> projects_page_state \<Rightarrow> projects_page_state" where
  "configs_shown configs s = projects_rendered s (s\<lparr>gp_configs := configs\<rparr>)"

definition config_chosen :: "string \<Rightarrow> projects_page_state \<Rightarrow> projects_page_state" where
  "config_chosen v s = projects_rendered s (s\<lparr>gp_configName := Some v\<rparr>)"

definition filter_typed :: "string \<Rightarrow> projects_page_state \<Rightarrow> projects_page_state" where
  "filter_typed v s = s\<lparr>gp_filter := v\<rparr>"

definition filtered_projects :: "projects_page_state \<Rightarrow> GitLabProjectDTO list" where
  "filtered_projects s =
     (let f = toLowerCase (trim (gp_filter s))
      in if f = [] then li_items s
         else filter (\<lambda>p. str_includes (toLowerCase (gl_pathWithNamespace p)) f) (li_items s))"

text \<open>\<open>base.replace(/^[a-z]+:\/\//, '')\<close>: a scheme of lower-case letters goes.\<close>

definition strip_scheme :: "string \<Rightarrow> string" where
  "strip_scheme u =
     (let s = takeWhile (\<lambda>c. c \<in> set lower_letters) u; r = dropWhile (\<lambda>c. c \<in> set lower_letters) u
      in if s \<noteq> [] \<and> startsWith r ''://'' then drop 3 r else u)"

definition gitUriFor :: "projects_page_state \<Rightarrow> GitLabProjectDTO \<Rightarrow> string" where
  "gitUriFor s p =
     (let base = (case find (\<lambda>c. Some (gd_name c) = gp_configName s) (gp_configs s) of None \<Rightarrow> [] | Some c \<Rightarrow> gd_url c);
          host = strip_trailing CHR ''/'' (strip_scheme base)
      in ''git://'' @ or_str host ''gitlab'' @ ''/'' @ gl_pathWithNamespace p)"

definition openProject :: "projects_page_state \<Rightarrow> GitLabProjectDTO \<Rightarrow> string option" where
  "openProject s p =
     (if \<not> truthy_str (gp_configName s) then None
      else Some (''/aistorage/gitlab/'' @ encodeURIComponent (nullish (gp_configName s) '''') @ ''/'' @ show_int (gl_id p)))"

definition project_register_opened :: "GitLabProjectDTO \<Rightarrow> projects_page_state \<Rightarrow> projects_page_state" where
  "project_register_opened p s =
     s\<lparr>gp_register := Some (gitUriFor s p, last (split_on CHR ''/'' (gl_pathWithNamespace p)))\<rparr>"

definition shown_path :: "string \<Rightarrow> string \<times> string" where
  "shown_path v =
     (if CHR ''/'' \<in> set v then (take (length v - length (basename v)) v, basename v) else ([], v))"

subsection \<open>The viewer\<close>

datatype viewer_body =
    ViewLoading
  | ViewText string bool
  | ViewFailed string
  | ViewBinary string

record ViewerState =
  vw_path :: string
  vw_name :: string
  vw_sizeBytes :: "(int \<times> int) option"
  vw_body :: viewer_body

text \<open>What the pane shows for a file.\<close>

datatype viewer_pane = SelectAFile | NoPreview string | LoadingFile | CouldNotLoad string | PlainText string bool | BlankPane

definition ViewerPane :: "ViewerState option \<Rightarrow> viewer_pane" where
  "ViewerPane v =
     (case v of None \<Rightarrow> SelectAFile
      | Some w \<Rightarrow> (case vw_body w of
            ViewBinary reason \<Rightarrow> NoPreview reason
          | ViewLoading \<Rightarrow> LoadingFile
          | ViewFailed e \<Rightarrow> if e = [] then BlankPane else CouldNotLoad e
          | ViewText t truncated \<Rightarrow> PlainText t truncated))"

subsection \<open>The browser of one project\<close>

text \<open>What a listing of the tree captured: namespace, config, project path, folder and ref.\<close>

type_synonym gitlab_folder = "string \<times> string \<times> string \<times> string \<times> string"

text \<open>
  \<open>gb_search\<close> is the query of the URL. \<open>gb_projectSeq\<close> counts the projects set (each is a new object
  to an effect that depends on it); \<open>gb_projectRun\<close> and \<open>gb_refsRun\<close> count the runs of the two cancelled
  effects, whose last one alone is heard.
\<close>

record gitlab_page = "(gitlab_folder, GitLabTreeEntryDTO) listing" +
  gb_namespace :: string
  gb_config :: string
  gb_projectID :: string
  gb_search :: "(string \<times> string) list"
  gb_project :: "GitLabProjectDTO option"
  gb_projectLoading :: bool
  gb_projectSeq :: nat
  gb_projectRun :: nat
  gb_refs :: "string list \<times> string list"
  gb_refsLoading :: bool
  gb_refsRun :: nat
  gb_viewer :: "ViewerState option"
  gb_uploadOpen :: bool

definition projectIDNum :: "gitlab_page \<Rightarrow> (int \<times> int) option" where
  "projectIDNum s = finite_num (js_Number (gb_projectID s))"

definition gb_path :: "gitlab_page \<Rightarrow> string" where
  "gb_path s = nullish (map_of (gb_search s) ''path'') ''''"

definition gb_ref :: "gitlab_page \<Rightarrow> string" where
  "gb_ref s =
     or_str (nullish (map_of (gb_search s) ''ref'') '''')
       (or_str (nullish (Option.bind (gb_project s) gl_defaultBranch) '''') ''main'')"

definition tree_reload :: "gitlab_page \<Rightarrow> gitlab_page \<Rightarrow> gitlab_page" where
  "tree_reload cur s =
     (if gb_config cur = [] then s
      else (case gb_project cur of None \<Rightarrow> s
        | Some p \<Rightarrow> listing_start (gb_namespace cur, gb_config cur, gl_pathWithNamespace p, gb_path cur, gb_ref cur) s))"

definition project_effect :: "gitlab_page \<Rightarrow> gitlab_page" where
  "project_effect s =
     (if gb_config s = [] \<or> projectIDNum s = None
      then s\<lparr>gb_projectRun := gb_projectRun s + 1, gb_projectLoading := False\<rparr>
      else s\<lparr>gb_projectRun := gb_projectRun s + 1, gb_projectLoading := True\<rparr>)"

definition refs_effect :: "gitlab_page \<Rightarrow> gitlab_page" where
  "refs_effect s =
     (if gb_config s = [] \<or> gb_project s = None then s\<lparr>gb_refsRun := gb_refsRun s + 1\<rparr>
      else s\<lparr>gb_refsRun := gb_refsRun s + 1, gb_refsLoading := True\<rparr>)"

definition project_id :: "gitlab_page \<Rightarrow> int option" where
  "project_id s = map_option gl_id (gb_project s)"

text \<open>The effects of one commit; none of them sets what another depends on.\<close>

definition gitlab_rendered :: "gitlab_page \<Rightarrow> gitlab_page \<Rightarrow> gitlab_page" where
  "gitlab_rendered old cur =
     (let s1 = (if gb_namespace cur \<noteq> gb_namespace old \<or> gb_config cur \<noteq> gb_config old \<or>
            projectIDNum cur \<noteq> projectIDNum old then project_effect cur else cur);
          s2 = (if gb_namespace cur \<noteq> gb_namespace old \<or> gb_config cur \<noteq> gb_config old \<or>
            project_id cur \<noteq> project_id old then refs_effect s1 else s1);
          s3 = (if gb_projectSeq cur \<noteq> gb_projectSeq old \<or> gb_path cur \<noteq> gb_path old \<or> gb_ref cur \<noteq> gb_ref old \<or>
            gb_config cur \<noteq> gb_config old then tree_reload cur s2 else s2)
      in if gb_ref cur \<noteq> gb_ref old \<or> project_id cur \<noteq> project_id old then s3\<lparr>gb_viewer := None\<rparr> else s3)"

definition gitlab_mounted :: "string \<Rightarrow> string \<Rightarrow> string \<Rightarrow> string \<Rightarrow> gitlab_page" where
  "gitlab_mounted ns config pid query =
     refs_effect (project_effect
       \<lparr>li_items = [], li_loading = False, li_flights = [], li_messages = [], gb_namespace = ns,
        gb_config = config, gb_projectID = pid, gb_search = read_params query, gb_project = None,
        gb_projectLoading = True, gb_projectSeq = 0, gb_projectRun = 0, gb_refs = ([], []),
        gb_refsLoading = False, gb_refsRun = 0, gb_viewer = None, gb_uploadOpen = False\<rparr>)"

subsection \<open>Its steps\<close>

text \<open>\<open>URLSearchParams.set\<close>: the first pair of the name gets the value, its others go; else a pair is added.\<close>

definition params_delete :: "string \<Rightarrow> (string \<times> string) list \<Rightarrow> (string \<times> string) list" where
  "params_delete k ps = filter (\<lambda>p. fst p \<noteq> k) ps"

fun params_set :: "string \<Rightarrow> string \<Rightarrow> (string \<times> string) list \<Rightarrow> (string \<times> string) list" where
  "params_set k v [] = [(k, v)]"
| "params_set k v (p # ps) = (if fst p = k then (k, v) # params_delete k ps else p # params_set k v ps)"

definition setPath :: "string \<Rightarrow> gitlab_page \<Rightarrow> gitlab_page" where
  "setPath p s = gitlab_rendered s (s\<lparr>gb_search :=
     (if p \<noteq> [] then params_set ''path'' p (gb_search s) else params_delete ''path'' (gb_search s))\<rparr>)"

definition setRef :: "string \<Rightarrow> gitlab_page \<Rightarrow> gitlab_page" where
  "setRef r s = gitlab_rendered s (s\<lparr>gb_search := params_delete ''path''
     (if r \<noteq> [] \<and> Some r \<noteq> Option.bind (gb_project s) gl_defaultBranch
      then params_set ''ref'' r (gb_search s) else params_delete ''ref'' (gb_search s))\<rparr>)"

definition browser_namespace_changed :: "string \<Rightarrow> gitlab_page \<Rightarrow> gitlab_page" where
  "browser_namespace_changed ns s = gitlab_rendered s (s\<lparr>gb_namespace := ns\<rparr>)"

text \<open>The answers of the two cancelled effects.\<close>

definition project_answered :: "nat \<Rightarrow> GitLabProjectDTO promise \<Rightarrow> gitlab_page \<Rightarrow> gitlab_page" where
  "project_answered run r s =
     (if run \<noteq> gb_projectRun s then s
      else (case r of
          Inl e \<Rightarrow> s\<lparr>li_messages := li_messages s @ [js_message e], gb_projectLoading := False\<rparr>
        | Inr p \<Rightarrow> gitlab_rendered s
            (s\<lparr>gb_project := Some p, gb_projectSeq := gb_projectSeq s + 1, gb_projectLoading := False\<rparr>)))"

definition refs_answered :: "nat \<Rightarrow> (string list \<times> string list) promise \<Rightarrow> gitlab_page \<Rightarrow> gitlab_page" where
  "refs_answered run r s =
     (if run \<noteq> gb_refsRun s then s
      else (case r of Inl e \<Rightarrow> s\<lparr>gb_refsLoading := False\<rparr> | Inr rs \<Rightarrow> s\<lparr>gb_refs := rs, gb_refsLoading := False\<rparr>))"

definition refOptions :: "gitlab_page \<Rightarrow> (string \<times> string list) list" where
  "refOptions s =
     (let bs = fst (gb_refs s);
          branches = (case Option.bind (gb_project s) gl_defaultBranch of
              None \<Rightarrow> bs
            | Some d \<Rightarrow> if d = [] then bs else d # remove1 d bs)
      in (''Branches'', branches) # (if snd (gb_refs s) \<noteq> [] then [(''Tags'', snd (gb_refs s))] else []))"

text \<open>
  A click on a file: a binary one gets a placeholder at once, any other a request, here what it
  captured, whose answer sets the viewer whatever it shows by then.
\<close>

type_synonym preview_call = "string \<times> string \<times> int \<times> GitLabTreeEntryDTO \<times> string"

definition openViewer :: "GitLabTreeEntryDTO \<Rightarrow> gitlab_page \<Rightarrow> gitlab_page \<times> preview_call option" where
  "openViewer e s =
     (case gb_project s of
        None \<Rightarrow> (s, None)
      | Some p \<Rightarrow>
          if gb_config s = [] \<or> te_type e \<noteq> Blob then (s, None)
          else if isLikelyBinary (te_name e) then
            (s\<lparr>gb_viewer := Some \<lparr>vw_path = te_path e, vw_name = te_name e, vw_sizeBytes = te_size e,
               vw_body = ViewBinary (or_str (fileExtension (te_name e)) ''this'' @ '' files are not previewable'')\<rparr>\<rparr>, None)
          else
            (s\<lparr>gb_viewer := Some \<lparr>vw_path = te_path e, vw_name = te_name e, vw_sizeBytes = te_size e,
               vw_body = ViewLoading\<rparr>\<rparr>, Some (gb_namespace s, gb_config s, gl_id p, e, gb_ref s)))"

text \<open>\<open>too_large\<close> is the \<open>FileTooLargeError\<close> case, with the size the error carries.\<close>

datatype preview_answer = Previewed preview | TooLarge "(int \<times> int) option" | PreviewFailed js_error

definition preview_of :: "(string \<Rightarrow> string) \<Rightarrow> js_error + raw_response \<Rightarrow> preview_answer" where
  "preview_of decode answer =
     (case fetchGitLabFileText decode answer (1024 * 1024) of
        Inr p \<Rightarrow> Previewed p
      | Inl e \<Rightarrow> (case answer of
            Inr r \<Rightarrow> if raw_failure decode r = None \<and> num_less (Finite 0 0) (content_length r) \<and>
                num_less (Finite (int (downloadCap (1024 * 1024))) 0) (content_length r)
              then TooLarge (finite_num (content_length r)) else PreviewFailed e
          | Inl _ \<Rightarrow> PreviewFailed e))"

definition preview_answered :: "GitLabTreeEntryDTO \<Rightarrow> preview_answer \<Rightarrow> gitlab_page \<Rightarrow> gitlab_page" where
  "preview_answered e a s =
     s\<lparr>gb_viewer := Some (case a of
        Previewed p \<Rightarrow> \<lparr>vw_path = te_path e, vw_name = te_name e, vw_sizeBytes = Some (int (pv_sizeBytes p), 0),
          vw_body = ViewText (pv_text p) (pv_truncated p)\<rparr>
      | TooLarge n \<Rightarrow> \<lparr>vw_path = te_path e, vw_name = te_name e, vw_sizeBytes = n,
          vw_body = ViewBinary ''file too large to preview''\<rparr>
      | PreviewFailed err \<Rightarrow> \<lparr>vw_path = te_path e, vw_name = te_name e, vw_sizeBytes = te_size e,
          vw_body = ViewFailed (js_message err)\<rparr>)\<rparr>"

definition viewer_closed :: "gitlab_page \<Rightarrow> gitlab_page" where
  "viewer_closed s = s\<lparr>gb_viewer := None\<rparr>"

text \<open>A row clicked: a folder is opened, a file previewed.\<close>

definition row_clicked :: "GitLabTreeEntryDTO \<Rightarrow> gitlab_page \<Rightarrow> gitlab_page \<times> preview_call option" where
  "row_clicked e s = (if te_type e = Tree then (setPath (te_path e) s, None) else openViewer e s)"

text \<open>The upload form; \<open>None\<close> for a field left empty.\<close>

record upload_form =
  uf_file :: "string option"
  uf_targetPath :: "string option"
  uf_branch :: "string option"
  uf_message :: "string option"
  uf_asLfs :: "bool option"

definition upload_target :: "string \<Rightarrow> string option \<Rightarrow> string \<Rightarrow> string" where
  "upload_target path target fname =
     dropWhile (\<lambda>c. c = CHR ''/'')
       ((if path \<noteq> [] then strip_one CHR ''/'' path @ ''/'' else []) @ or_str (nullish target '''') fname)"

definition upload_submitted ::
  "upload_form \<Rightarrow> gitlab_page \<Rightarrow> gitlab_page \<times> (string \<times> string \<times> string \<times> bool) option" where
  "upload_submitted v s =
     (if gb_config s = [] then (s, None)
      else (case uf_file v of
          None \<Rightarrow> (s\<lparr>li_messages := li_messages s @ [''Pick a file first'']\<rparr>, None)
        | Some fname \<Rightarrow> (s, Some (upload_target (gb_path s) (uf_targetPath v) fname,
            or_str (nullish (uf_branch v) '''') (or_str (gb_ref s) ''main''), nullish (uf_message v) '''',
            nullish (uf_asLfs v) False))))"

text \<open>The tree reloaded is that of the render the form was submitted in, \<open>cur\<close>.\<close>

definition file_uploaded :: "string \<Rightarrow> gitlab_page \<Rightarrow> unit promise \<Rightarrow> gitlab_page \<Rightarrow> gitlab_page" where
  "file_uploaded target cur r s =
     (case r of
        Inr _ \<Rightarrow> tree_reload cur (s\<lparr>li_messages := li_messages s @ [''Uploaded '' @ target], gb_uploadOpen := False\<rparr>)
      | Inl e \<Rightarrow> s\<lparr>li_messages := li_messages s @ [js_message e]\<rparr>)"

text \<open>What the page renders.\<close>

datatype gitlab_view = NoConfigs | LoadingProject | ProjectNotFound | Browsing GitLabProjectDTO "GitLabTreeEntryDTO list"

definition gitlab_body :: "GitLabConfigDTO list \<Rightarrow> gitlab_page \<Rightarrow> gitlab_view" where
  "gitlab_body configs s =
     (if configs = [] then NoConfigs
      else if gb_projectLoading s then LoadingProject
      else (case gb_project s of None \<Rightarrow> ProjectNotFound | Some p \<Rightarrow> Browsing p (li_items s)))"

subsection \<open>Properties\<close>

lemma params_delete_get [simp]:
  "map_of (params_delete k ps) j = (if j = k then None else map_of ps j)"
  by (induction ps) (auto simp: params_delete_def)

lemma params_set_get [simp]: "map_of (params_set k v ps) j = (if j = k then Some v else map_of ps j)"
  by (induction ps) auto

lemma tree_reload_simps [simp]:
  "gb_search (tree_reload c s) = gb_search s" "gb_project (tree_reload c s) = gb_project s"
  "gb_viewer (tree_reload c s) = gb_viewer s"
  by (simp_all add: tree_reload_def listing_start_def split: option.splits)

lemma project_effect_simps [simp]:
  "gb_search (project_effect s) = gb_search s" "gb_project (project_effect s) = gb_project s"
  "gb_config (project_effect s) = gb_config s" "li_flights (project_effect s) = li_flights s"
  by (simp_all add: project_effect_def)

lemma refs_effect_simps [simp]:
  "gb_search (refs_effect s) = gb_search s" "gb_project (refs_effect s) = gb_project s"
  "gb_config (refs_effect s) = gb_config s" "li_flights (refs_effect s) = li_flights s"
  by (simp_all add: refs_effect_def)

lemma rendered_url [simp]:
  "gb_search (gitlab_rendered old s) = gb_search s" "gb_project (gitlab_rendered old s) = gb_project s"
  by (simp_all add: gitlab_rendered_def Let_def)

lemma rendered_path [simp]: "gb_path (gitlab_rendered old s) = gb_path s" "gb_ref (gitlab_rendered old s) = gb_ref s"
  by (simp_all add: gb_path_def gb_ref_def)

lemma rendered_viewer: "gb_ref s \<noteq> gb_ref old \<Longrightarrow> gb_viewer (gitlab_rendered old s) = None"
  by (simp add: gitlab_rendered_def Let_def)

text \<open>What the page lists for the project it has.\<close>

definition gitlab_wanted :: "gitlab_page \<Rightarrow> GitLabProjectDTO \<Rightarrow> gitlab_folder" where
  "gitlab_wanted s p = (gb_namespace s, gb_config s, gl_pathWithNamespace p, gb_path s, gb_ref s)"

lemma project_arrives:
  assumes "gb_config s \<noteq> []"
  shows "li_flights (project_answered (gb_projectRun s) (Inr p) s) = li_flights s @
    [(gb_namespace s, gb_config s, gl_pathWithNamespace p, gb_path s, gb_ref (s\<lparr>gb_project := Some p\<rparr>))]"
  using assms
  by (simp add: project_answered_def gitlab_rendered_def Let_def tree_reload_def refs_effect_def gb_path_def gb_ref_def)

text \<open>
  C20. Where the browser is, is in its URL. Going to a folder and choosing a ref (which returns to the root
  folder) are what the page then shows, keeping the other; and opening the URL anew, in the same
  namespace, asks for the same folder of the same ref as soon as the project is there, whatever the
  path and the ref contain.
\<close>

theorem browser_url_shared:
  assumes "gb_project s = Some p" "gb_config s \<noteq> []"
    and "fresh = gitlab_mounted (gb_namespace s) (gb_config s) (gb_projectID s) (search_params (gb_search s))"
  shows "gb_path (setPath q s) = q \<and> gb_ref (setPath q s) = gb_ref s \<and>
    (r \<noteq> [] \<longrightarrow> gb_ref (setRef r s) = r \<and> gb_path (setRef r s) = []) \<and>
    li_flights (project_answered (gb_projectRun fresh) (Inr p) fresh) = [gitlab_wanted s p]"
proof -
  have f: "gb_namespace fresh = gb_namespace s" "gb_config fresh = gb_config s" "gb_search fresh = gb_search s"
    "li_flights fresh = []"
    by (simp_all add: assms(3) gitlab_mounted_def refs_effect_def project_effect_def read_search_params)
  have "gb_path fresh = gb_path s" "gb_ref (fresh\<lparr>gb_project := Some p\<rparr>) = gb_ref s"
    using assms(1) by (simp_all add: gb_path_def gb_ref_def f)
  then have "li_flights (project_answered (gb_projectRun fresh) (Inr p) fresh) = [gitlab_wanted s p]"
    using assms(2) by (subst project_arrives) (simp_all add: f gitlab_wanted_def)
  moreover have "gb_path (setPath q s) = q \<and> gb_ref (setPath q s) = gb_ref s"
    by (simp add: setPath_def) (simp add: gb_path_def gb_ref_def)
  moreover have "r \<noteq> [] \<longrightarrow> gb_ref (setRef r s) = r \<and> gb_path (setRef r s) = []"
    by (simp add: setRef_def) (auto simp: gb_path_def gb_ref_def assms(1) or_str_def dest: sym)
  ultimately show ?thesis by simp
qed

definition sample_llama :: GitLabProjectDTO where
  "sample_llama = \<lparr>gl_id = 7, gl_pathWithNamespace = ''ml/llama'', gl_defaultBranch = Some ''main'', gl_webUrl = None,
     gl_lfsEnabled = True\<rparr>"

definition sample_browser_page :: gitlab_page where
  "sample_browser_page = project_answered 1 (Inr sample_llama) (gitlab_mounted ''team'' ''lab'' ''7'' ''path=a%26b'')"

lemma sample_page_facts:
  "gb_project sample_browser_page = Some sample_llama" "gb_config sample_browser_page = ''lab''"
  "gb_search sample_browser_page = [(''path'', ''a&b'')]" "gb_namespace sample_browser_page = ''team''"
  by code_simp+

theorem browser_url_shared_witness:
  "gb_ref (setRef ''v 1/#2'' sample_browser_page) = ''v 1/#2'' \<and> gb_path (setPath ''c d'' sample_browser_page) = ''c d''"
  using browser_url_shared [OF sample_page_facts(1) _ refl, of "''c d''" "''v 1/#2''"] by (simp add: sample_page_facts)


definition sample_readme :: GitLabTreeEntryDTO where
  "sample_readme = \<lparr>te_name = ''README.md'', te_path = ''README.md'', te_type = Blob, te_mode = None, te_isLfs = False,
     te_size = None\<rparr>"


text \<open>Nothing cancels a preview: one asked before the ref was changed opens the viewer again.\<close>

lemma late_preview_reopens_viewer:
  assumes "gb_ref (setRef r s) \<noteq> gb_ref s"
  shows "gb_viewer (setRef r s) = None \<and> gb_viewer (preview_answered e a (setRef r s)) \<noteq> None"
  using assms unfolding setRef_def by (simp add: preview_answered_def rendered_viewer)

text \<open>
  A project that cannot be loaded after the namespace was changed leaves the one before it on the
  page, with the rows listed for it.
\<close>

lemma failed_project_shows_other:
  assumes "gb_project s = Some p" "gb_config s \<noteq> []" "projectIDNum s \<noteq> None" "ns \<noteq> gb_namespace s" "configs \<noteq> []"
    and "s1 = browser_namespace_changed ns s"
  shows "gitlab_body configs (project_answered (gb_projectRun s1) (Inl e) s1) = Browsing p (li_items s)"
proof -
  have id: "projectIDNum (s\<lparr>gb_namespace := ns\<rparr>) = projectIDNum s" by (simp add: projectIDNum_def)
  have "li_items s1 = li_items s" "gb_project s1 = Some p"
    using assms(1-4)
    by (simp_all add: assms(6) browser_namespace_changed_def gitlab_rendered_def Let_def project_effect_def refs_effect_def
        tree_reload_def project_id_def gb_path_def gb_ref_def)
  then show ?thesis using assms(5) by (simp add: gitlab_body_def project_answered_def)
qed

text \<open>The default branch leads the list of refs, where each branch stays listed once.\<close>

lemma default_branch_first:
  assumes "gb_project s = Some p" "gl_defaultBranch p = Some d" "d \<noteq> []" "distinct (fst (gb_refs s))"
  shows "\<exists>bs. hd (refOptions s) = (''Branches'', d # bs) \<and> distinct (d # bs) \<and>
    set (d # bs) = insert d (set (fst (gb_refs s)))"
  using assms by (auto simp: refOptions_def Let_def)

text \<open>A project opened from the index is mounted with the config and the number it has.\<close>

lemma project_route:
  assumes "openProject s p = Some url" "0 \<le> gl_id p" "gl_id p < double_limit"
  shows "\<exists>c i. split_on CHR ''/'' url = ['''', ''aistorage'', ''gitlab'', c, i] \<and>
    Some (pct_decode c) = gp_configName s \<and>
    projectIDNum (gitlab_mounted ns (pct_decode c) i query) = Some (gl_id p, 0)"
proof -
  let ?c = "encodeURIComponent (nullish (gp_configName s) '''')" and ?i = "show_int (gl_id p)"
  have i: "?i = show_nat (nat (gl_id p))" using assms(2) by (simp add: show_int_def)
  have digits: "list_all is_digit ?i" by (simp add: i is_digit_show_nat list_all_iff)
  have "CHR ''/'' \<notin> set ?i" using digits by (auto simp: list_all_iff is_digit_def)
  then have "split_on CHR ''/'' url = ['''', ''aistorage'', ''gitlab'', ?c, ?i]"
    using assms(1) by (auto simp: openProject_def text_simps encode_no_slash split: if_splits)
  moreover have "Some (pct_decode ?c) = gp_configName s"
    using assms(1) by (cases "gp_configName s") (auto simp: openProject_def decode_encode split: if_splits)
  moreover have "projectIDNum (gitlab_mounted ns c ?i query) = Some (gl_id p, 0)" for c
    using js_Number_digits [OF digits] assms(2,3)
    by (simp add: projectIDNum_def gitlab_mounted_def refs_effect_def project_effect_def i finite_num_def read_show_nat)
  ultimately show ?thesis by blast
qed

end
