(* ===== verification/Pvc_Manager.thy ===== *)
theory Pvc_Manager
  imports Storage_Display
begin

text \<open>
  \<open>frontend/src/pages/aistorage/PVCManager.tsx\<close>: volume claims with their file viewers, as a step
  relation. The frame of a viewer needs the cookie its grant sets; \<open>pm_grants\<close> are the grants asked and
  not answered, \<open>pm_cookies\<close> the claims whose grant was answered.
\<close>

subsection \<open>State and operations\<close>

record pvc_page =
  pm_namespace :: string
  pm_store :: "PVCEntryDTO ns_keyed"
  pm_createOpen :: bool
  pm_openPVC :: "string option"
  pm_viewerReady :: bool
  pm_acting :: "string option"
  pm_register :: "(string \<times> string) option"
  pm_messages :: "string list"
  pm_grants :: "(string \<times> string) list"
  pm_cookies :: "(string \<times> string) list"

definition pvc_mounted :: "string \<Rightarrow> pvc_page" where
  "pvc_mounted ns =
     \<lparr>pm_namespace = ns, pm_store = ensurePVCsLoadedForAIStorage True ns emptyKeyed, pm_createOpen = False,
      pm_openPVC = None, pm_viewerReady = False, pm_acting = None, pm_register = None, pm_messages = [],
      pm_grants = [], pm_cookies = []\<rparr>"

definition pvcs_shown :: "pvc_page \<Rightarrow> PVCEntryDTO list" where
  "pvcs_shown s = use_keyed (pm_namespace s) (pm_store s)"

definition pvc_say :: "string \<Rightarrow> pvc_page \<Rightarrow> pvc_page" where
  "pvc_say m s = s\<lparr>pm_messages := pm_messages s @ [m]\<rparr>"

definition pvc_reload :: "pvc_page \<Rightarrow> pvc_page" where
  "pvc_reload s = s\<lparr>pm_store := reloadAIStoragePVCs True (pm_namespace s) (pm_store s)\<rparr>"

definition pvc_namespace_changed :: "string \<Rightarrow> pvc_page \<Rightarrow> pvc_page" where
  "pvc_namespace_changed ns s =
     s\<lparr>pm_namespace := ns, pm_store := ensurePVCsLoadedForAIStorage True ns (pm_store s)\<rparr>"

definition pvcs_answered :: "string \<Rightarrow> PVCEntryDTO list promise \<Rightarrow> pvc_page \<Rightarrow> pvc_page" where
  "pvcs_answered ns r s = s\<lparr>pm_store := keyed_answered ns r (pm_store s)\<rparr>"

text \<open>The interval of the polling effect runs as long as some viewer is starting.\<close>

definition pvc_polling :: "pvc_page \<Rightarrow> bool" where
  "pvc_polling s \<longleftrightarrow> (\<exists>p \<in> set (pvcs_shown s). pd_viewer p = Some ViewerRunning)"

definition pvc_poll :: "pvc_page \<Rightarrow> pvc_page" where
  "pvc_poll s = (if pvc_polling s then pvc_reload s else s)"

definition start_clicked :: "string \<Rightarrow> pvc_page \<Rightarrow> pvc_page" where
  "start_clicked pvc s = s\<lparr>pm_acting := Some pvc\<rparr>"

definition start_answered :: "string \<Rightarrow> unit promise \<Rightarrow> pvc_page \<Rightarrow> pvc_page" where
  "start_answered pvc r s =
     (case r of
        Inr _ \<Rightarrow> pvc_reload (pvc_say (''Viewer starting for '' @ pvc) s)
      | Inl e \<Rightarrow> pvc_say (js_message e) s)\<lparr>pm_acting := None\<rparr>"

definition open_clicked :: "string \<Rightarrow> pvc_page \<Rightarrow> pvc_page" where
  "open_clicked pvc s =
     s\<lparr>pm_openPVC := Some pvc, pm_viewerReady := False, pm_grants := pm_grants s @ [(pm_namespace s, pvc)]\<rparr>"

text \<open>The answer of a grant, whichever claim is open by then.\<close>

definition grant_answered :: "string \<times> string \<Rightarrow> unit promise \<Rightarrow> pvc_page \<Rightarrow> pvc_page" where
  "grant_answered g r s =
     (let s = s\<lparr>pm_grants := remove1 g (pm_grants s)\<rparr>
      in case r of
        Inr _ \<Rightarrow> s\<lparr>pm_viewerReady := True, pm_cookies := g # pm_cookies s\<rparr>
      | Inl e \<Rightarrow> (pvc_say (js_message e) s)\<lparr>pm_openPVC := None\<rparr>)"

definition pvc_viewer_closed :: "pvc_page \<Rightarrow> pvc_page" where
  "pvc_viewer_closed s = s\<lparr>pm_openPVC := None, pm_viewerReady := False\<rparr>"

definition stop_clicked :: "string \<Rightarrow> pvc_page \<Rightarrow> pvc_page" where
  "stop_clicked pvc s = s\<lparr>pm_acting := Some pvc\<rparr>"

text \<open>\<open>openPVC\<close> is that of the render the button was clicked in.\<close>

definition stop_answered :: "string \<Rightarrow> string option \<Rightarrow> unit promise \<Rightarrow> pvc_page \<Rightarrow> pvc_page" where
  "stop_answered pvc openPVC r s =
     (case r of
        Inr _ \<Rightarrow> pvc_reload ((pvc_say ''Viewer stopped'' s)
          \<lparr>pm_openPVC := if openPVC = Some pvc then None else pm_openPVC s\<rparr>)
      | Inl e \<Rightarrow> pvc_say (js_message e) s)\<lparr>pm_acting := None\<rparr>"

definition remove_answered :: "string \<Rightarrow> string option \<Rightarrow> unit promise \<Rightarrow> pvc_page \<Rightarrow> pvc_page" where
  "remove_answered pvc openPVC r s =
     (case r of
        Inr _ \<Rightarrow> pvc_reload ((pvc_say ''PVC deleted'' s)
          \<lparr>pm_openPVC := if openPVC = Some pvc then None else pm_openPVC s\<rparr>)
      | Inl e \<Rightarrow> pvc_say (js_message e) s)"

definition create_answered :: "unit promise \<Rightarrow> pvc_page \<Rightarrow> pvc_page" where
  "create_answered r s =
     (case r of
        Inr _ \<Rightarrow> pvc_reload (pvc_say ''PVC created'' (s\<lparr>pm_createOpen := False\<rparr>))
      | Inl e \<Rightarrow> pvc_say (js_message e) s)"

definition pvc_register_opened :: "string \<Rightarrow> pvc_page \<Rightarrow> pvc_page" where
  "pvc_register_opened pvc s = s\<lparr>pm_register := Some (''pvc://'' @ pvc @ ''/'', pvc)\<rparr>"

text \<open>The entries of a row's menu, and whether the row has a button to open its viewer.\<close>

definition pvc_menu :: "PVCEntryDTO \<Rightarrow> string list" where
  "pvc_menu r =
     (if pd_viewer r = None \<or> pd_viewer r = Some ViewerOff then [''start''] else []) @
     (if pd_viewer r = Some ViewerRunning \<or> pd_viewer r = Some ViewerReady then [''stop''] else []) @
     [''register'', ''delete'']"

definition can_open :: "PVCEntryDTO \<Rightarrow> bool" where
  "can_open r \<longleftrightarrow> pd_viewer r = Some ViewerReady"

text \<open>What the viewer dialog holds; \<open>base\<close> is the base URL of the API.\<close>

datatype pvc_dialog = NoDialog | PreparingViewer string | ViewerFrame string string

definition pvc_dialog :: "string \<Rightarrow> pvc_page \<Rightarrow> pvc_dialog" where
  "pvc_dialog base s =
     (case pm_openPVC s of
        None \<Rightarrow> NoDialog
      | Some p \<Rightarrow> if p = [] then NoDialog
          else if pm_viewerReady s then ViewerFrame p (pvcViewerUrl base (pm_namespace s) p) else PreparingViewer p)"

subsection \<open>Runs\<close>

text \<open>
  The dialog covers the page: the rows and the namespace are reached when none is open. \<open>calm\<close> is the
  page whose viewers are opened one at a time, each after the answer to the grant before.
\<close>

inductive pvc_step :: "bool \<Rightarrow> pvc_page \<Rightarrow> pvc_page \<Rightarrow> bool" for calm where
  namespace: "pm_openPVC s = None \<Longrightarrow> pvc_step calm s (pvc_namespace_changed ns s)"
| listed: "pvc_step calm s (pvcs_answered ns r s)"
| poll: "pvc_step calm s (pvc_poll s)"
| refresh: "pvc_step calm s (pvc_reload s)"
| start: "pm_openPVC s = None \<Longrightarrow> pvc_step calm s (start_clicked p s)"
| started: "pvc_step calm s (start_answered p r s)"
| open_viewer: "pm_openPVC s = None \<Longrightarrow> row \<in> set (pvcs_shown s) \<Longrightarrow> can_open row \<Longrightarrow> (calm \<longrightarrow> pm_grants s = []) \<Longrightarrow>
    pvc_step calm s (open_clicked (pd_name row) s)"
| granted: "g \<in> set (pm_grants s) \<Longrightarrow> pvc_step calm s (grant_answered g r s)"
| close: "pvc_step calm s (pvc_viewer_closed s)"
| stop: "pm_openPVC s = None \<Longrightarrow> pvc_step calm s (stop_clicked p s)"
| stopped: "pvc_step calm s (stop_answered p None r s)"
| removed: "pvc_step calm s (remove_answered p None r s)"
| created: "pvc_step calm s (create_answered r s)"
| register: "pvc_step calm s (pvc_register_opened p s)"

inductive pvc_reach :: "bool \<Rightarrow> string \<Rightarrow> pvc_page \<Rightarrow> bool" for calm ns where
  init: "pvc_reach calm ns (pvc_mounted ns)"
| step: "pvc_reach calm ns s \<Longrightarrow> pvc_step calm s s' \<Longrightarrow> pvc_reach calm ns s'"

subsection \<open>Properties\<close>

lemma pvc_frame [simp]:
  "pm_openPVC (pvc_reload s) = pm_openPVC s" "pm_viewerReady (pvc_reload s) = pm_viewerReady s"
  "pm_grants (pvc_reload s) = pm_grants s" "pm_cookies (pvc_reload s) = pm_cookies s"
  "pm_namespace (pvc_reload s) = pm_namespace s"
  "pm_openPVC (pvc_say m s) = pm_openPVC s" "pm_viewerReady (pvc_say m s) = pm_viewerReady s"
  "pm_grants (pvc_say m s) = pm_grants s" "pm_cookies (pvc_say m s) = pm_cookies s"
  "pm_namespace (pvc_say m s) = pm_namespace s"
  by (simp_all add: pvc_reload_def pvc_say_def)

definition grants_ok :: "pvc_page \<Rightarrow> bool" where
  "grants_ok s \<longleftrightarrow> length (pm_grants s) \<le> 1 \<and>
     (\<forall>p. pm_openPVC s = Some p \<longrightarrow>
       (if pm_viewerReady s then (pm_namespace s, p) \<in> set (pm_cookies s)
        else pm_grants s = [(pm_namespace s, p)]))"

lemma grants_ok_step: "pvc_step True s s' \<Longrightarrow> grants_ok s \<Longrightarrow> grants_ok s'"
proof (induction rule: pvc_step.induct)
  case (granted g s r)
  then have "pm_grants s = [g]" by (cases "pm_grants s") (auto simp: grants_ok_def)
  with granted show ?case
    by (auto simp: grants_ok_def grant_answered_def Let_def split: sum.splits if_splits)
qed (auto simp: grants_ok_def pvc_namespace_changed_def pvcs_answered_def pvc_poll_def start_clicked_def start_answered_def
    open_clicked_def pvc_viewer_closed_def stop_clicked_def stop_answered_def remove_answered_def create_answered_def
    pvc_register_opened_def split: sum.splits)

lemma grants_ok_reach: "pvc_reach True ns s \<Longrightarrow> grants_ok s"
proof (induction rule: pvc_reach.induct)
  case (step s s')
  then show ?case by (blast intro: grants_ok_step)
qed (simp add: grants_ok_def pvc_mounted_def)

text \<open>
  C12. When viewers are opened one at a time - the next one only after the grant of the one before was
  answered - the frame of a claim's viewer is never mounted before the cookie it needs was minted for
  that very claim in that namespace, through any run of listings, polls, starts, stops and failures.
\<close>

theorem viewer_frame_is_granted:
  assumes "pvc_reach True ns s" "pvc_dialog base s = ViewerFrame p url"
  shows "(pm_namespace s, p) \<in> set (pm_cookies s) \<and> url = pvcViewerUrl base (pm_namespace s) p \<and> pm_openPVC s = Some p"
  using grants_ok_reach [OF assms(1)] assms(2)
  by (auto simp: grants_ok_def pvc_dialog_def split: option.splits if_splits)

definition ready_claim :: "string \<Rightarrow> PVCEntryDTO" where
  "ready_claim n = \<lparr>pd_name = n, pd_storageClass = None, pd_capacity = None, pd_accessMode = None, pd_phase = None,
     pd_viewer = Some ViewerReady, pd_createdAt = None\<rparr>"

definition claims_listed :: pvc_page where
  "claims_listed = pvcs_answered ''team'' (Inr [ready_claim ''a'', ready_claim ''b'']) (pvc_mounted ''team'')"

lemma claims_reach: "pvc_reach calm ''team'' claims_listed"
  unfolding claims_listed_def by (rule pvc_reach.step [OF pvc_reach.init pvc_step.listed])

lemma claim_opened:
  assumes "pvc_reach calm ''team'' s" "pvcs_shown s = [ready_claim ''a'', ready_claim ''b'']" "pm_openPVC s = None"
    and "calm \<longrightarrow> pm_grants s = []" "n \<in> {''a'', ''b''}"
  shows "pvc_reach calm ''team'' (open_clicked n s)"
proof -
  have "pvc_step calm s (open_clicked (pd_name (ready_claim n)) s)"
    using assms(2-5) by (intro pvc_step.open_viewer) (auto simp: can_open_def ready_claim_def)
  then show ?thesis using pvc_reach.step [OF assms(1)] by (simp add: ready_claim_def)
qed

theorem viewer_frame_is_granted_witness:
  "(''team'', ''a'') \<in> set (pm_cookies (grant_answered (''team'', ''a'') (Inr ()) (open_clicked ''a'' claims_listed)))"
proof -
  let ?s = "grant_answered (''team'', ''a'') (Inr ()) (open_clicked ''a'' claims_listed)"
  have "pvc_reach True ''team'' (open_clicked ''a'' claims_listed)"
    by (rule claim_opened [OF claims_reach]) (simp_all add: claims_listed_def pvcs_shown_def pvcs_answered_def
        use_keyed_def keyed_answered_def pvc_mounted_def)
  then have r: "pvc_reach True ''team'' ?s"
    by (rule pvc_reach.step) (rule pvc_step.granted, simp add: open_clicked_def claims_listed_def pvcs_answered_def pvc_mounted_def)
  have d: "pvc_dialog base ?s = ViewerFrame ''a'' (pvcViewerUrl base ''team'' ''a'')"
    by (simp add: pvc_dialog_def grant_answered_def open_clicked_def claims_listed_def pvcs_answered_def pvc_mounted_def)
  have "pm_namespace ?s = ''team''"
    by (simp add: grant_answered_def open_clicked_def claims_listed_def pvcs_answered_def pvc_mounted_def)
  then show ?thesis using viewer_frame_is_granted [OF r d] by simp
qed

text \<open>
  Without that restraint it is: closing the dialog while its grant is under way and opening another
  viewer mounts the second one's frame when the first grant arrives, and when the first grant fails,
  closes the second dialog.
\<close>

definition overlapped :: pvc_page where
  "overlapped = open_clicked ''b'' (pvc_viewer_closed (open_clicked ''a'' claims_listed))"

lemma late_grant_opens_other:
  "pvc_reach False ''team'' overlapped \<and>
   pvc_dialog base (grant_answered (''team'', ''a'') (Inr ()) overlapped) = ViewerFrame ''b'' (pvcViewerUrl base ''team'' ''b'') \<and>
   pm_cookies (grant_answered (''team'', ''a'') (Inr ()) overlapped) = [(''team'', ''a'')] \<and>
   pvc_dialog base (grant_answered (''team'', ''a'') (Inl e) overlapped) = NoDialog"
proof -
  have f: "pvcs_shown claims_listed = [ready_claim ''a'', ready_claim ''b'']" "pm_openPVC claims_listed = None"
    "pm_cookies claims_listed = []" "pm_namespace claims_listed = ''team''" "pm_grants claims_listed = []"
    by (simp_all add: claims_listed_def pvcs_shown_def pvcs_answered_def use_keyed_def keyed_answered_def pvc_mounted_def)
  have "pvc_reach False ''team'' (open_clicked ''a'' claims_listed)"
    by (rule claim_opened [OF claims_reach]) (simp_all add: f)
  then have "pvc_reach False ''team'' (pvc_viewer_closed (open_clicked ''a'' claims_listed))"
    by (rule pvc_reach.step [OF _ pvc_step.close])
  then have "pvc_reach False ''team'' overlapped"
    unfolding overlapped_def
  proof (rule claim_opened)
    show "pvcs_shown (pvc_viewer_closed (open_clicked ''a'' claims_listed)) = [ready_claim ''a'', ready_claim ''b'']"
      using f(1) by (simp add: pvc_viewer_closed_def open_clicked_def pvcs_shown_def)
  qed (simp_all add: pvc_viewer_closed_def)
  moreover have "pm_openPVC overlapped = Some ''b''" "\<not> pm_viewerReady overlapped" "pm_namespace overlapped = ''team''"
    "pm_cookies overlapped = []"
    by (simp_all add: overlapped_def open_clicked_def pvc_viewer_closed_def f)
  ultimately show ?thesis
    by (simp add: pvc_dialog_def grant_answered_def Let_def)
qed

text \<open>
  A viewer that is starting is polled until it is not: whatever the number of listings that still show
  a viewer starting, the page asks again after each, and stops with the first that shows none.
\<close>

definition poll_round :: "PVCEntryDTO list \<Rightarrow> pvc_page \<Rightarrow> pvc_page" where
  "poll_round got s = pvcs_answered (pm_namespace s) (Inr got) (pvc_poll s)"

lemma poll_round_shown:
  "pvcs_shown (poll_round got s) = got"
  "pvc_polling (poll_round got s) \<longleftrightarrow> (\<exists>p \<in> set got. pd_viewer p = Some ViewerRunning)"
proof -
  have listed: "pvcs_shown (pvcs_answered (pm_namespace t) (Inr got) t) = got" for t
    by (simp add: pvcs_answered_def pvcs_shown_def use_keyed_def keyed_answered_def)
  have "pm_namespace s = pm_namespace (pvc_poll s)" by (simp add: pvc_poll_def)
  then show shown: "pvcs_shown (poll_round got s) = got"
    unfolding poll_round_def by (simp only: listed)
  show "pvc_polling (poll_round got s) \<longleftrightarrow> (\<exists>p \<in> set got. pd_viewer p = Some ViewerRunning)"
    by (simp add: pvc_polling_def shown)
qed

lemma polled_until_ready:
  assumes "pvc_polling s" "\<forall>got \<in> set rounds. \<exists>p \<in> set got. pd_viewer p = Some ViewerRunning"
    and "\<forall>p \<in> set got. pd_viewer p \<noteq> Some ViewerRunning"
    and "s' = poll_round got (fold poll_round rounds s)"
  shows "(\<forall>k \<le> length rounds. pvc_polling (fold poll_round (take k rounds) s)) \<and>
    pvcs_shown s' = got \<and> \<not> pvc_polling s' \<and> pvc_poll s' = s'"
proof -
  have "pvc_polling (fold poll_round (take k rounds) s)" if "k \<le> length rounds" for k
  proof (cases k)
    case (Suc j)
    then have "take k rounds = take j rounds @ [rounds ! j]" "rounds ! j \<in> set rounds"
      using that by (simp_all add: take_Suc_conv_app_nth)
    then show ?thesis using assms(2) by (simp add: poll_round_shown)
  qed (simp add: assms(1))
  moreover have "\<not> pvc_polling s'" using assms(3) by (simp add: assms(4) poll_round_shown)
  ultimately show ?thesis by (simp add: assms(4) poll_round_shown pvc_poll_def)
qed

end
