(* ===== verification/Model_Hub.thy ===== *)
theory Model_Hub
  imports Catalogues Inference GitLab_Browser Pvc_Manager
begin

text \<open>
  \<open>frontend/src/pages/models/ModelHub.tsx\<close>, the catalogue of models and the private ones: filters,
  order, the dialogs that register, import and upload; and the two dialogs through which the storage
  pages register what they hold (\<open>RegisterAsModelModal.tsx\<close>, \<open>RegisterFromAIStorageModal.tsx\<close>). The
  collation of \<open>Intl.Collator\<close> and \<open>localeCompare\<close>, and \<open>Date.parse\<close>, are arguments.
\<close>

subsection \<open>Model types\<close>

record type_meta =
  tm_id :: string
  tm_label :: string
  tm_color :: string

definition MODEL_TYPE_OPTIONS :: "type_meta list" where
  "MODEL_TYPE_OPTIONS = map (\<lambda>(i, l, c). \<lparr>tm_id = i, tm_label = l, tm_color = c\<rparr>)
     [(''llm'', ''LLM'', ''#5B5BD6''), (''embedding'', ''Embedding'', ''#13A055''),
      (''classifier'', ''Classifier'', ''#D29C00''), (''diffusion'', ''Diffusion'', ''#C744AB''),
      (''multimodal'', ''Multimodal'', ''#7A3DB8''), (''audio'', ''Audio'', ''#0BA5C7''),
      (''vision'', ''Vision'', ''#2F65D9''), (''code'', ''Code'', ''#3F8F4F''), (''other'', ''Other'', ''#8C8C8C'')]"

definition modelTypeMeta :: "string \<Rightarrow> type_meta" where
  "modelTypeMeta t =
     (case find (\<lambda>o'. tm_id o' = t) MODEL_TYPE_OPTIONS of
        Some m \<Rightarrow> m
      | None \<Rightarrow> \<lparr>tm_id = or_str t ''other'', tm_label = or_str t ''Other'', tm_color = ''#8C8C8C''\<rparr>)"

subsection \<open>Order\<close>

datatype ModelSort = CreatedDesc | CreatedAsc | NameAsc

definition modelTime :: "(string \<Rightarrow> int option) \<Rightarrow> string option \<Rightarrow> int" where
  "modelTime date_parse v = (case v of None \<Rightarrow> 0 | Some t \<Rightarrow> nullish (date_parse t) 0)"

text \<open>
  The comparison functions, as the keys they compare lexicographically: two numbers that are
  different are never equal in between, so \<open>||\<close> falls through exactly on equal parts.
\<close>

definition sort_key_of ::
  "(string \<Rightarrow> int option) \<Rightarrow> (string \<Rightarrow> 'c) \<Rightarrow> (string \<Rightarrow> 'd) \<Rightarrow> ModelSort \<Rightarrow> ModelItem \<Rightarrow> int \<times> 'c \<times> int \<times> 'd" where
  "sort_key_of date_parse collate locale by m =
     (let t = modelTime date_parse (m_createdAt m)
      in case by of
        NameAsc \<Rightarrow> (0, collate (m_name m), - t, locale (m_id m))
      | CreatedAsc \<Rightarrow> (t, collate (m_name m), 0, locale (m_id m))
      | CreatedDesc \<Rightarrow> (- t, collate (m_name m), 0, locale (m_id m)))"

definition sortModels ::
  "(string \<Rightarrow> int option) \<Rightarrow> (string \<Rightarrow> 'c::linorder) \<Rightarrow> (string \<Rightarrow> 'd::linorder) \<Rightarrow> ModelSort \<Rightarrow>
     ModelItem list \<Rightarrow> ModelItem list" where
  "sortModels date_parse collate locale by = sort_key (sort_key_of date_parse collate locale by)"

subsection \<open>The page\<close>

record hub_page =
  hb_scope :: model_scope
  hb_namespace :: string
  hb_models :: "ModelItem list"
  hb_collections :: "CollectionDTO list"
  hb_params :: "(string \<times> string) list"
  hb_search :: string
  hb_tagFilter :: "string option"
  hb_typeFilter :: string
  hb_sortBy :: ModelSort
  hb_messages :: "string list"

definition collections_tab :: "hub_page \<Rightarrow> bool" where
  "collections_tab s \<longleftrightarrow> map_of (hb_params s) ''tab'' = Some ''collections''"

definition collectionFilter :: "hub_page \<Rightarrow> string" where
  "collectionFilter s = nullish (map_of (hb_params s) ''collection'') ''''"

definition scopedModels :: "hub_page \<Rightarrow> ModelItem list" where
  "scopedModels s =
     filter (\<lambda>m. if hb_scope s = Public then m_scope m = Public
       else m_scope m = Private \<and> m_namespace m = Some (hb_namespace s)) (hb_models s)"

definition scopedCollections :: "hub_page \<Rightarrow> CollectionDTO list" where
  "scopedCollections s =
     filter (\<lambda>c. if hb_scope s = Public then co_scope c = Public
       else co_scope c = Private \<and> co_namespace c = Some (hb_namespace s)) (hb_collections s)"

definition matches_filters :: "hub_page \<Rightarrow> ModelItem \<Rightarrow> bool" where
  "matches_filters s m \<longleftrightarrow>
     (hb_search s = [] \<or> str_includes (toLowerCase (m_name m)) (toLowerCase (hb_search s))) \<and>
     (\<not> truthy_str (hb_tagFilter s) \<or> nullish (hb_tagFilter s) '''' \<in> set (nullish (m_tags m) [])) \<and>
     (hb_typeFilter s = ''all'' \<or> m_modelType m = hb_typeFilter s) \<and>
     (collectionFilter s = [] \<or> m_collectionId m = Some (collectionFilter s))"

definition visibleModels ::
  "(string \<Rightarrow> int option) \<Rightarrow> (string \<Rightarrow> 'c::linorder) \<Rightarrow> (string \<Rightarrow> 'd::linorder) \<Rightarrow> hub_page \<Rightarrow> ModelItem list" where
  "visibleModels date_parse collate locale s =
     sortModels date_parse collate locale (hb_sortBy s) (filter (matches_filters s) (scopedModels s))"

definition allTags :: "hub_page \<Rightarrow> string list" where
  "allTags s = sort (remdups (concat (map (\<lambda>m. nullish (m_tags m) []) (scopedModels s))))"

text \<open>\<open>new Set\<close> keeps the first of equal values, in order.\<close>

definition js_dedup :: "'a list \<Rightarrow> 'a list" where
  "js_dedup xs = rev (remdups (rev xs))"

definition allModelTypes :: "(string \<Rightarrow> 'c::linorder) \<Rightarrow> hub_page \<Rightarrow> string list" where
  "allModelTypes collate s =
     sort_key collate (js_dedup (filter (\<lambda>t. t \<noteq> []) (map m_modelType (scopedModels s))))"

text \<open>The two effects: a filter by a type or a collection that is not there is reset.\<close>

definition type_effect :: "(string \<Rightarrow> 'c::linorder) \<Rightarrow> hub_page \<Rightarrow> hub_page" where
  "type_effect collate s =
     (if hb_typeFilter s \<noteq> ''all'' \<and> hb_typeFilter s \<notin> set (allModelTypes collate s)
      then s\<lparr>hb_typeFilter := ''all''\<rparr> else s)"

definition collection_effect :: "hub_page \<Rightarrow> hub_page" where
  "collection_effect s =
     (if collectionFilter s \<noteq> [] \<and> collectionFilter s \<notin> co_id ` set (scopedCollections s)
      then s\<lparr>hb_params := params_delete ''collection'' (hb_params s)\<rparr> else s)"

definition hub_rendered :: "(string \<Rightarrow> 'c::linorder) \<Rightarrow> hub_page \<Rightarrow> hub_page" where
  "hub_rendered collate s = collection_effect (type_effect collate s)"

definition hub_mounted ::
  "(string \<Rightarrow> 'c::linorder) \<Rightarrow> model_scope \<Rightarrow> string \<Rightarrow> ModelItem list \<Rightarrow> CollectionDTO list \<Rightarrow> string \<Rightarrow> hub_page" where
  "hub_mounted collate scope ns models collections query =
     hub_rendered collate
       \<lparr>hb_scope = scope, hb_namespace = ns, hb_models = models, hb_collections = collections,
        hb_params = read_params query, hb_search = [], hb_tagFilter = None, hb_typeFilter = ''all'',
        hb_sortBy = CreatedDesc, hb_messages = []\<rparr>"

subsection \<open>Steps\<close>

definition clearCollectionFilter :: "hub_page \<Rightarrow> hub_page" where
  "clearCollectionFilter s = s\<lparr>hb_params := params_delete ''collection'' (hb_params s)\<rparr>"

definition collection_opened :: "string \<Rightarrow> hub_page \<Rightarrow> hub_page" where
  "collection_opened i s =
     s\<lparr>hb_params := params_set ''collection'' i (params_set ''tab'' ''models'' (hb_params s))\<rparr>"

definition tab_changed :: "string \<Rightarrow> hub_page \<Rightarrow> hub_page" where
  "tab_changed key s =
     s\<lparr>hb_params := if key = ''models'' then params_delete ''tab'' (hb_params s)
       else params_delete ''collection'' (params_set ''tab'' key (hb_params s))\<rparr>"

text \<open>What the pages' other inputs set, and what the stores and the route bring in.\<close>

datatype hub_event =
    ScopeShown model_scope string | StoresShown "ModelItem list" "CollectionDTO list" | Searched string
  | TagPicked "string option" | TypePicked string | SortPicked ModelSort | CollectionOpened string
  | FilterCleared | TabChanged string

fun hub_change :: "hub_event \<Rightarrow> hub_page \<Rightarrow> hub_page" where
  "hub_change (ScopeShown scope ns) s = s\<lparr>hb_scope := scope, hb_namespace := ns\<rparr>"
| "hub_change (StoresShown models collections) s = s\<lparr>hb_models := models, hb_collections := collections\<rparr>"
| "hub_change (Searched v) s = s\<lparr>hb_search := v\<rparr>"
| "hub_change (TagPicked v) s = s\<lparr>hb_tagFilter := v\<rparr>"
| "hub_change (TypePicked v) s = s\<lparr>hb_typeFilter := v\<rparr>"
| "hub_change (SortPicked v) s = s\<lparr>hb_sortBy := v\<rparr>"
| "hub_change (CollectionOpened i) s = collection_opened i s"
| "hub_change FilterCleared s = clearCollectionFilter s"
| "hub_change (TabChanged key) s = tab_changed key s"

definition hub_step :: "(string \<Rightarrow> 'c::linorder) \<Rightarrow> hub_page \<Rightarrow> hub_event \<Rightarrow> hub_page" where
  "hub_step collate s e = hub_rendered collate (hub_change e s)"

text \<open>
  The form a model is published to inference from: the last segment of its name in lower case, what is
  no letter, digit or dash replaced (a character beyond ASCII gives one dash a byte).
\<close>

record service_defaults =
  sd_name :: string
  sd_kind :: service_kind
  sd_runtime :: "string option"
  sd_modelUri :: string

definition service_name :: "string \<Rightarrow> string" where
  "service_name n =
     map (\<lambda>c. if c \<in> set (lower_letters @ ''0123456789-'') then c else CHR ''-'')
       (toLowerCase (last (split_on CHR ''/'' n)))"

definition publishDefaults :: "ServingRuntime list \<Rightarrow> string \<Rightarrow> ModelItem \<Rightarrow> service_defaults" where
  "publishDefaults rts ns m =
     \<lparr>sd_name = service_name (m_name m),
      sd_kind = (if m_modelType m = ''llm'' then LLMInferenceServiceKind else InferenceServiceKind),
      sd_runtime = map_option obj_name (case find (\<lambda>r. obj_namespace r = ns) rts of
          Some r \<Rightarrow> Some r | None \<Rightarrow> (case rts of [] \<Rightarrow> None | r # _ \<Rightarrow> Some r)),
      sd_modelUri = m_uri m\<rparr>"

definition canWrite :: "bool \<Rightarrow> model_scope \<Rightarrow> bool" where
  "canWrite isPlatformAdmin scope = (if scope = Public then isPlatformAdmin else True)"

text \<open>The buttons of a card, by their keys, and the collection it names.\<close>

definition card_actions :: "bool \<Rightarrow> hub_page \<Rightarrow> ModelItem \<Rightarrow> string list" where
  "card_actions isPlatformAdmin s m =
     [''publish''] @
     (if hb_scope s = Private \<and> isPublicSource (m_uri m) then [''publish-catalog''] else []) @
     (if canWrite isPlatformAdmin (hb_scope s) then [''delete''] else [])"

definition card_collection :: "hub_page \<Rightarrow> ModelItem \<Rightarrow> CollectionDTO option" where
  "card_collection s m =
     (if truthy_str (m_collectionId m)
      then find (\<lambda>c. Some (co_id c) = m_collectionId m) (rev (scopedCollections s)) else None)"

definition collection_count :: "hub_page \<Rightarrow> CollectionDTO \<Rightarrow> nat" where
  "collection_count s c = length (filter (\<lambda>m. m_collectionId m = Some (co_id c)) (scopedModels s))"

subsection \<open>Dialogs\<close>

record register_form =
  rg_name :: string
  rg_uri :: string
  rg_modelType :: "string option"
  rg_collectionId :: "string option"
  rg_tags :: "string list option"
  rg_sizeGB :: "(int \<times> int) option"
  rg_readme :: "string option"

definition own_namespace :: "model_scope \<Rightarrow> string \<Rightarrow> string option" where
  "own_namespace scope ns = (if scope = Private then Some ns else None)"

definition unsupported_scheme :: string where
  "unsupported_scheme =
     ''Unsupported URI scheme. Use hf:// hf-mirror:// hf-local:// modelscope:// s3:// oci:// or gitlab://''"

definition register_item :: "string \<Rightarrow> model_scope \<Rightarrow> string \<Rightarrow> register_form \<Rightarrow> model_scheme \<Rightarrow> ModelItem" where
  "register_item user scope ns v scheme =
     (new_model (rg_name v) user scope (own_namespace scope ns) (rg_uri v) scheme (nullish (rg_tags v) [])
       (nullish (rg_modelType v) ''llm'') (nullish (rg_sizeGB v) (0, 0))
       (nullish (rg_readme v) (''# '' @ rg_name v @ nl @ nl @ ''_Registered via knaic._'')))
       \<lparr>m_collectionId := rg_collectionId v\<rparr>"

text \<open>A submission: the message shown and the store after it; a failure leaves the dialog open.\<close>

definition register_submitted ::
  "bool \<Rightarrow> ModelItem backend \<Rightarrow> string \<Rightarrow> string \<Rightarrow> string \<Rightarrow> model_scope \<Rightarrow> string \<Rightarrow> register_form \<Rightarrow> models \<Rightarrow>
     string promise \<times> models" where
  "register_submitted api send draw today user scope ns v s =
     (case parseUri (rg_uri v) of
        None \<Rightarrow> (Inl (JsError unsupported_scheme), s)
      | Some scheme \<Rightarrow>
          (case addModel api send draw today (register_item user scope ns v scheme) s of
             (Inl e, s') \<Rightarrow> (Inl e, s')
           | (Inr _, s') \<Rightarrow> (Inr ''Model registered'', s')))"

definition import_submitted ::
  "bool \<Rightarrow> ModelItem backend \<Rightarrow> string \<Rightarrow> string \<Rightarrow> model_scope \<Rightarrow> string \<Rightarrow> string \<Rightarrow> models \<Rightarrow>
     string promise \<times> models" where
  "import_submitted api send draw today scope ns url s =
     (case importModelFromURL api send draw today url scope (own_namespace scope ns) s of
        (Inl e, s') \<Rightarrow> (Inl e, s')
      | (Inr m, s') \<Rightarrow> (Inr (''Imported '' @ m_name m), s'))"

record upload_model_form =
  uv_name :: string
  uv_target :: string
  uv_modelType :: "string option"
  uv_sizeGB :: "(int \<times> int) option"

definition upload_model_request ::
  "model_scope \<Rightarrow> string \<Rightarrow> upload_model_form \<Rightarrow> StorageTarget \<Rightarrow> UploadModelRequest" where
  "upload_model_request scope ns v target =
     \<lparr>um_name = uv_name v, um_scope = scope, um_namespace = own_namespace scope ns,
      um_targetUri = targetUri target ((if scope = Private then ns @ ''/'' else []) @ uv_name v @ ''/''),
      um_modelType = Some (nullish (uv_modelType v) ''llm''), um_sizeGB = Some (nullish (uv_sizeGB v) (0, 0)),
      um_tags = Some [''uploaded''],
      um_readme = Some (''# '' @ uv_name v @ nl @ nl @ ''Uploaded from local disk to '' @ st_name target @ ''.'')\<rparr>"

definition upload_model_submitted ::
  "bool \<Rightarrow> ModelItem backend \<Rightarrow> string \<Rightarrow> string \<Rightarrow> model_scope \<Rightarrow> string \<Rightarrow> upload_model_form \<Rightarrow> StorageTarget \<Rightarrow>
     models \<Rightarrow> string promise \<times> models" where
  "upload_model_submitted api send draw today scope ns v target s =
     (case uploadModelMeta api send draw today (upload_model_request scope ns v target) s of
        (Inl e, s') \<Rightarrow> (Inl e, s')
      | (Inr _, s') \<Rightarrow> (Inr (''Upload to '' @ st_name target @ '' enqueued''), s'))"

text \<open>The editor of a collection: \<open>None\<close> creates one.\<close>

definition collection_submitted ::
  "CollectionDTO backend \<Rightarrow> model_scope \<Rightarrow> string \<Rightarrow> string option \<Rightarrow> string \<Rightarrow> string option \<Rightarrow> string option \<Rightarrow>
     collections \<Rightarrow> string promise \<times> collections" where
  "collection_submitted send scope ns editor cname desc icon s =
     (case editor of
        None \<Rightarrow> (case send (createCollection \<lparr>ci_id = None, ci_name = cname, ci_scope = scope,
              ci_namespace = own_namespace scope ns, ci_description = desc, ci_iconColor = icon\<rparr>) of
            Inl e \<Rightarrow> (Inl e, s)
          | Inr c \<Rightarrow> (Inr ''Collection created'', upsertCollectionLocal c s))
      | Some i \<Rightarrow> (case send (patchCollection i (Some cname) desc icon) of
            Inl e \<Rightarrow> (Inl e, s)
          | Inr c \<Rightarrow> (Inr ''Collection updated'', upsertCollectionLocal c s)))"

definition collection_deleted :: "'r backend \<Rightarrow> string \<Rightarrow> collections \<Rightarrow> string promise \<times> collections" where
  "collection_deleted send i s =
     (case send (deleteCollection i) of
        Inl e \<Rightarrow> (Inl e, s)
      | Inr _ \<Rightarrow> (Inr ''Collection deleted'', removeCollectionLocal i s))"

text \<open>The dialog of the storage pages: a model of the user's own namespace.\<close>

definition storage_register_submitted ::
  "bool \<Rightarrow> ModelItem backend \<Rightarrow> string \<Rightarrow> string \<Rightarrow> string \<Rightarrow> string \<Rightarrow> string \<Rightarrow> string \<Rightarrow> string \<Rightarrow> string \<Rightarrow>
     models \<Rightarrow> string promise \<times> models" where
  "storage_register_submitted api send draw today user ns mname uri mtype readme s =
     (case parseUri uri of
        None \<Rightarrow> (Inl (JsError ''Unsupported URI scheme.''), s)
      | Some scheme \<Rightarrow>
          (case addModel api send draw today
              (new_model mname user Private (Some ns) uri scheme [''ai-storage''] (or_str mtype ''llm'') (0, 0)
                (or_str readme (''# '' @ mname @ nl @ nl @ ''Registered from AI Storage: `'' @ uri @ ''`.''))) s of
             (Inl e, s') \<Rightarrow> (Inl e, s')
           | (Inr m, s') \<Rightarrow> (Inr (''Registered '' @ m_name m), s')))"

text \<open>The dialog that asks for a storage source itself; \<open>secret\<close> is asked for and goes nowhere.\<close>

datatype storage_source = S3Folder | S3File | GitlabSource

record source_form =
  sf_secret :: "string option"
  sf_bucket :: "string option"
  sf_key :: "string option"
  sf_gitlabConfig :: string
  sf_projectID :: string
  sf_ref :: "string option"

definition buildUri :: "storage_source \<Rightarrow> source_form \<Rightarrow> string" where
  "buildUri source v =
     (if source = GitlabSource then
        ''gitlab://'' @ sf_gitlabConfig v @ ''/'' @ sf_projectID v @
          (if truthy_str (sf_ref v) then ''#'' @ nullish (sf_ref v) '''' else '''')
      else
        (let bucket = trim (nullish (sf_bucket v) '''');
             key = dropWhile (\<lambda>c. c = CHR ''/'') (trim (nullish (sf_key v) ''''));
             key = (if source = S3Folder \<and> key \<noteq> [] \<and> last key \<noteq> CHR ''/'' then key @ ''/'' else key)
         in ''s3://'' @ bucket @ ''/'' @ key))"

definition source_register_submitted ::
  "bool \<Rightarrow> ModelItem backend \<Rightarrow> string \<Rightarrow> string \<Rightarrow> string \<Rightarrow> string \<Rightarrow> storage_source \<Rightarrow> source_form \<Rightarrow>
     string \<Rightarrow> string \<Rightarrow> string \<Rightarrow> models \<Rightarrow> string promise \<times> models" where
  "source_register_submitted api send draw today user ns source v mname mtype readme s =
     (let uri = buildUri source v
      in case addModel api send draw today
          (new_model mname user Private (Some ns) uri (if source = GitlabSource then Gitlab else S3) [''ai-storage'']
            (or_str mtype ''llm'') (0, 0)
            (or_str readme (''# '' @ mname @ nl @ nl @ ''Registered from AI Storage: `'' @ uri @ ''`.''))) s of
         (Inl e, s') \<Rightarrow> (Inl e, s')
       | (Inr _, s') \<Rightarrow> (Inr (''Registered '' @ mname), s'))"

subsection \<open>Properties\<close>

lemma set_js_dedup [simp]: "set (js_dedup xs) = set xs"
  by (simp add: js_dedup_def)


definition filters_ok :: "(string \<Rightarrow> 'c::linorder) \<Rightarrow> hub_page \<Rightarrow> bool" where
  "filters_ok collate s \<longleftrightarrow>
     (hb_typeFilter s = ''all'' \<or> (\<exists>m \<in> set (scopedModels s). m_modelType m = hb_typeFilter s)) \<and>
     (collectionFilter s = [] \<or> (\<exists>c \<in> set (scopedCollections s). co_id c = collectionFilter s))"

lemma type_effect_keeps [simp]:
  "scopedModels (type_effect collate s) = scopedModels s" "scopedCollections (type_effect collate s) = scopedCollections s"
  "hb_params (type_effect collate s) = hb_params s"
  by (auto simp: type_effect_def scopedModels_def scopedCollections_def)

lemma collection_effect_keeps [simp]:
  "scopedModels (collection_effect s) = scopedModels s" "scopedCollections (collection_effect s) = scopedCollections s"
  "hb_typeFilter (collection_effect s) = hb_typeFilter s"
  by (auto simp: collection_effect_def scopedModels_def scopedCollections_def)

lemma filters_ok_rendered: "filters_ok collate (hub_rendered collate s)"
proof -
  have "hb_typeFilter (hub_rendered collate s) = ''all'' \<or>
      (\<exists>m \<in> set (scopedModels s). m_modelType m = hb_typeFilter (hub_rendered collate s))"
    by (auto simp: hub_rendered_def type_effect_def allModelTypes_def)
  moreover have "collectionFilter (collection_effect t) = [] \<or>
      (\<exists>c \<in> set (scopedCollections t). co_id c = collectionFilter (collection_effect t))" for t
    by (cases "collectionFilter t \<noteq> [] \<and> collectionFilter t \<notin> co_id ` set (scopedCollections t)")
      (auto simp: collection_effect_def collectionFilter_def)
  note this [of "type_effect collate s"]
  ultimately show ?thesis
    by (simp add: filters_ok_def hub_rendered_def)
qed

text \<open>
  No filter is ever left set to what is not there: whatever the stores, the route and the user bring,
  after each of these the type filter is \<open>all\<close> or the type of a model of the scope shown, and the
  collection filter is empty or one of its collections.
\<close>

theorem no_stale_filters:
  "filters_ok collate (foldl (hub_step collate) (hub_mounted collate scope ns models collections query) es)"
proof (cases es rule: rev_cases)
  case Nil
  then show ?thesis by (simp add: hub_mounted_def filters_ok_rendered)
next
  case (snoc es' e)
  then show ?thesis by (simp add: hub_step_def filters_ok_rendered)
qed

text \<open>
  The reset does not wait for the collections: a page opened on a link to a collection, with its
  store still empty, loses the filter for good.
\<close>

lemma linked_collection_forgotten:
  assumes "map_of (read_params query) ''collection'' = Some i" "i \<noteq> []"
  shows "map_of (hb_params (foldl (hub_step collate) (hub_mounted collate scope ns models [] query)
      [StoresShown models' collections])) ''collection'' = None"
proof -
  have stays: "map_of (hb_params (hub_rendered collate s)) ''collection'' = None"
    if "map_of (hb_params s) ''collection'' = None" for s
    using that by (simp add: hub_rendered_def collection_effect_def)
  have goes: "map_of (hb_params (hub_rendered collate s)) ''collection'' = None"
    if "hb_collections s = []" "map_of (hb_params s) ''collection'' = Some i" for s
    using that assms(2)
    by (simp add: hub_rendered_def collection_effect_def collectionFilter_def scopedCollections_def type_effect_def)
  show ?thesis
    by (simp add: hub_step_def hub_mounted_def stays goes assms(1))
qed

lemma parse_sources:
  "parseUri (''gitlab://'' @ r) = Some Gitlab" "parseUri (''pvc://'' @ r) = Some Pvc" "parseUri (''git://'' @ r) = Some Git"
  by (simp_all add: parseUri_def uri_schemes_def)

text \<open>A model is listed among the private ones of a namespace.\<close>

definition listed_privately :: "string \<Rightarrow> ModelItem \<Rightarrow> models \<Rightarrow> bool" where
  "listed_privately ns m st \<longleftrightarrow>
     (\<forall>page. hb_scope page = Private \<and> hb_namespace page = ns \<and> hb_models page = model_items st \<longrightarrow>
       m \<in> set (scopedModels page))"

text \<open>
  What the storage pages hand to the register dialog is always accepted by it: the address of an
  object or folder, of a claim, and of a project each has the scheme of its kind. Submitted as it
  is, without a backend, it makes one new model at that address, and the private models of the
  user's namespace show it; with a backend that refuses, the refusal is the message and nothing is
  added. The dialog that composes an address itself writes one of the scheme it declares.
\<close>

theorem storage_rows_register:
  assumes "(uri, scheme) \<in> {(fst (s3_register_target sp obj), S3), (''pvc://'' @ pvc @ ''/'', Pvc), (gitUriFor gp p, Git)}"
    and "(result, s') = storage_register_submitted api send draw today user ns mname uri mtype readme s"
  shows "parseUri uri = Some scheme \<and>
    (\<not> api \<longrightarrow> result = Inr (''Registered '' @ mname) \<and>
      (\<exists>m. model_items s' = m # model_items s \<and> m_uri m = uri \<and> m_scheme m = scheme \<and> listed_privately ns m s')) \<and>
    (api \<and> (\<forall>r. send r = Inl e) \<longrightarrow> result = Inl e \<and> s' = s) \<and>
    parseUri (buildUri source v) = Some (if source = GitlabSource then Gitlab else S3)"
proof -
  have p: "parseUri uri = Some scheme"
    using assms(1) parse_written(4) parse_sources by (auto simp: s3_register_target_def gitUriFor_def Let_def)
  moreover have "parseUri (buildUri source v) = Some (if source = GitlabSource then Gitlab else S3)"
    using parse_written(4) parse_sources(1) by (auto simp: buildUri_def Let_def)
  ultimately show ?thesis
    using assms(2)
    by (auto simp: storage_register_submitted_def addModel_def new_model_def prepend_created_def Let_def
        listed_privately_def scopedModels_def split: sum.splits)
qed

theorem storage_rows_register_witness:
  "parseUri (''pvc://data/'') = Some Pvc \<and>
   fst (storage_register_submitted False (\<lambda>_. Inl (JsError ''no'')) ''1'' ''2024-01-01'' ''ann'' ''team'' ''m'' ''pvc://data/'' '''' ''''
     \<lparr>loaded = {}, in_flight = [], model_items = []\<rparr>) = Inr ''Registered m''"
proof -
  let ?call = "storage_register_submitted False (\<lambda>_. Inl (JsError ''no'')) ''1'' ''2024-01-01'' ''ann'' ''team'' ''m'' ''pvc://data/'' '''' ''''
     \<lparr>loaded = {}, in_flight = [], model_items = []\<rparr>"
  show ?thesis
    using storage_rows_register [of "''pvc://data/''" Pvc _ _ "''data''", OF _ prod.collapse [of ?call]]
    by simp
qed

text \<open>
  What the dialogs ask for and lose: with a backend, the collection chosen for a model does not reach
  it; the S3 secret asked for is part of nothing that is sent or stored.
\<close>

lemma collection_choice_lost:
  "register_submitted True send draw today user scope ns (v\<lparr>rg_collectionId := c\<rparr>) s =
   register_submitted True send draw today user scope ns (v\<lparr>rg_collectionId := None\<rparr>) s"
  by (simp add: register_submitted_def register_item_def addModel_def new_model_def split: option.splits)

lemma secret_goes_nowhere:
  "source_register_submitted api send draw today user ns source (v\<lparr>sf_secret := x\<rparr>) mname mtype readme s =
   source_register_submitted api send draw today user ns source v mname mtype readme s"
  by (simp add: source_register_submitted_def buildUri_def)

text \<open>Without a backend, an uploaded model is tagged twice.\<close>

lemma uploaded_tag_doubled:
  "\<exists>m. model_items (snd (upload_model_submitted False send draw today scope ns v target s)) = m # model_items s \<and>
     m_tags m = Some [''uploaded'', ''uploaded'']"
  by (simp add: upload_model_submitted_def uploadModelMeta_def upload_model_request_def addModel_def new_model_def Let_def)

text \<open>The service a model is published as has a name of letters, digits and dashes.\<close>

lemma service_name_chars:
  "set (service_name n) \<subseteq> set (lower_letters @ ''0123456789-'') \<and> sd_modelUri (publishDefaults rts ns m) = m_uri m"
  by (auto simp: service_name_def publishDefaults_def lower_letters_def)

end
