(* ===== verification/App_Routes.thy ===== *)
theory App_Routes
  imports Model_Hub App_Context
begin

text \<open>
  \<open>frontend/src/App.tsx\<close>, the table of routes, and the menu of \<open>frontend/src/layouts/MainLayout.tsx\<close>:
  which page a path leads to, which menu entry is marked for it and which group is open. What the
  router is relied on for is its documented matching: a pattern matches a path segment by segment, a
  \<open>:name\<close> any one segment, and \<open>*\<close> is taken when nothing else matches.
\<close>

subsection \<open>Routes\<close>

datatype page =
  DashboardPage | AgentWorkspacePage | ComponentsPage | RegistryPage | NamespacesPage
  | NodesPage | GPUProfilesPage | ModelHubPage | ModelDetailPage | ModelPublishRequestsPage
  | MonitoringPage | LLMMonitoringPage | TrainMonitoringPage | GPUStatusPage
  | DeploymentsPage | StatefulSetsPage | PodsPage | ServicesPage | ConfigMapsPage
  | SecretsPage | GatewaysPage | PVCsPage | UsersPage | RolesPage | ServingRuntimesPage
  | InferenceServicesPage | InferenceServiceDetailPage | GatewayConfigPage
  | StorageContainersPage | LLMConfigsPage | LocalModelCachePage | LLMRegistryPage
  | ChatPage | AgentPage | TrainingRuntimesPage | TrainJobsPage | NotebooksPage
  | S3SecretsPage | GitLabConfigsPage | S3BrowserPage | PVCManagerPage | GitLabProjectsPage
  | GitLabBrowserPage

datatype target = Page page | Goto string | Callback

definition routes :: "(string \<times> target) list" where
  "routes =
     [(''/auth/callback'', Callback),
      (''/'', Page DashboardPage),
      (''/agent-workspace'', Page AgentWorkspacePage),
      (''/admin/components'', Page ComponentsPage),
      (''/admin/registry'', Page RegistryPage),
      (''/admin/namespaces'', Page NamespacesPage),
      (''/admin/nodes'', Page NodesPage),
      (''/admin/gpu-profiles'', Page GPUProfilesPage),
      (''/models'', Goto ''/models/public''),
      (''/models/:scope'', Page ModelHubPage),
      (''/models/:scope/:id'', Page ModelDetailPage),
      (''/admin/model-publish-requests'', Page ModelPublishRequestsPage),
      (''/monitoring'', Goto ''/monitoring/resources''),
      (''/monitoring/resources'', Page MonitoringPage),
      (''/monitoring/llm'', Page LLMMonitoringPage),
      (''/monitoring/train'', Page TrainMonitoringPage),
      (''/monitoring/gpu'', Page GPUStatusPage),
      (''/containers/deployments'', Page DeploymentsPage),
      (''/containers/statefulsets'', Page StatefulSetsPage),
      (''/containers/pods'', Page PodsPage),
      (''/containers/services'', Page ServicesPage),
      (''/containers/configmaps'', Page ConfigMapsPage),
      (''/containers/secrets'', Page SecretsPage),
      (''/containers/gateways'', Page GatewaysPage),
      (''/containers/pvcs'', Page PVCsPage),
      (''/users'', Page UsersPage),
      (''/users/roles'', Page RolesPage),
      (''/inference/serving-runtimes'', Page ServingRuntimesPage),
      (''/inference/services'', Page InferenceServicesPage),
      (''/inference/services/:namespace/:name'', Page InferenceServiceDetailPage),
      (''/inference/gateway'', Page GatewayConfigPage),
      (''/inference/storage-initializers'', Page StorageContainersPage),
      (''/inference/llm-configs'', Page LLMConfigsPage),
      (''/inference/local-model-cache'', Page LocalModelCachePage),
      (''/playground/registry'', Page LLMRegistryPage),
      (''/playground/chat'', Page ChatPage),
      (''/playground/agent'', Page AgentPage),
      (''/training/runtimes'', Page TrainingRuntimesPage),
      (''/training/jobs'', Page TrainJobsPage),
      (''/notebooks'', Page NotebooksPage),
      (''/admin/s3-secrets'', Page S3SecretsPage),
      (''/admin/gitlab-configs'', Page GitLabConfigsPage),
      (''/aistorage'', Goto ''/aistorage/s3''),
      (''/aistorage/s3'', Page S3BrowserPage),
      (''/aistorage/pvc'', Page PVCManagerPage),
      (''/aistorage/gitlab'', Page GitLabProjectsPage),
      (''/aistorage/gitlab/:config/:projectID'', Page GitLabBrowserPage)]"

text \<open>The route \<open>*\<close>.\<close>

definition fallback :: target where
  "fallback = Goto ''/''"

definition segments_of :: "string \<Rightarrow> string list" where
  "segments_of path = filter (\<lambda>s. s \<noteq> []) (split_on CHR ''/'' path)"

text \<open>The part of a link before its query and fragment.\<close>

definition pathname :: "string \<Rightarrow> string" where
  "pathname link = takeWhile (\<lambda>c. c \<noteq> CHR ''?'' \<and> c \<noteq> CHR ''#'') link"

fun seg_match :: "string list \<Rightarrow> string list \<Rightarrow> bool" where
  "seg_match [] [] = True"
| "seg_match (p # ps) (s # ss) = ((p = s \<or> startsWith p '':'') \<and> seg_match ps ss)"
| "seg_match _ _ = False"

definition candidates :: "string \<Rightarrow> target list" where
  "candidates link =
     map snd (filter (\<lambda>(pat, _). seg_match (segments_of pat) (segments_of (pathname link))) routes)"

text \<open>A link leads to a target when that is the only route that matches it; to the fallback when none does.\<close>

definition leads_to :: "string \<Rightarrow> target \<Rightarrow> bool" where
  "leads_to link t \<longleftrightarrow> candidates link = [t] \<or> candidates link = [] \<and> t = fallback"

subsection \<open>The menu\<close>

text \<open>Its entries with the group they are in; the last eight are a platform admin's.\<close>

definition menu_items :: "(string option \<times> string \<times> string) list" where
  "menu_items =
     [(None, ''/'', ''Dashboard''),
      (None, ''/agent-workspace'', ''Agent Workspace''),
      (Some ''models-group'', ''/models/public'', ''Model Catalog''),
      (Some ''models-group'', ''/models/private'', ''Private Models''),
      (Some ''monitor-group'', ''/monitoring/resources'', ''Resource usage''),
      (Some ''monitor-group'', ''/monitoring/gpu'', ''GPU status''),
      (Some ''monitor-group'', ''/monitoring/llm'', ''LLM services''),
      (Some ''monitor-group'', ''/monitoring/train'', ''Train jobs''),
      (Some ''inference'', ''/inference/services'', ''Inference Services''),
      (Some ''inference'', ''/inference/gateway'', ''Gateway''),
      (Some ''inference'', ''/inference/serving-runtimes'', ''Serving Runtimes''),
      (Some ''inference'', ''/inference/storage-initializers'', ''Storage Initializer''),
      (Some ''inference'', ''/inference/llm-configs'', ''LLM Inference Config''),
      (Some ''inference'', ''/inference/local-model-cache'', ''Local Model Cache''),
      (Some ''playground'', ''/playground/registry'', ''LLM Registry''),
      (Some ''playground'', ''/playground/chat'', ''Chat''),
      (Some ''playground'', ''/playground/agent'', ''Agent''),
      (None, ''/notebooks'', ''Notebooks''),
      (Some ''training'', ''/training/runtimes'', ''Training Runtimes''),
      (Some ''training'', ''/training/jobs'', ''Train Jobs''),
      (Some ''aistorage'', ''/aistorage/s3'', ''S3 Object Store''),
      (Some ''aistorage'', ''/aistorage/pvc'', ''PVC''),
      (Some ''aistorage'', ''/aistorage/gitlab'', ''GitLab''),
      (Some ''containers'', ''/containers/deployments'', ''Deployments''),
      (Some ''containers'', ''/containers/statefulsets'', ''StatefulSets''),
      (Some ''containers'', ''/containers/pods'', ''Pods''),
      (Some ''networking'', ''/containers/services'', ''Services''),
      (Some ''networking'', ''/containers/gateways'', ''Gateway API''),
      (Some ''configuration'', ''/containers/configmaps'', ''ConfigMaps''),
      (Some ''configuration'', ''/containers/secrets'', ''Secrets''),
      (Some ''storage'', ''/containers/pvcs'', ''PVC Volumes''),
      (Some ''users'', ''/users'', ''Users''),
      (Some ''users'', ''/users/roles'', ''Roles & Bindings''),
      (Some ''admin'', ''/admin/components'', ''Components''),
      (Some ''admin'', ''/admin/registry'', ''Image registry''),
      (Some ''admin'', ''/admin/namespaces'', ''Namespaces''),
      (Some ''admin'', ''/admin/nodes'', ''Nodes''),
      (Some ''admin'', ''/admin/gpu-profiles'', ''GPU profiles''),
      (Some ''admin'', ''/admin/s3-secrets'', ''S3 Secrets''),
      (Some ''admin'', ''/admin/gitlab-configs'', ''GitLab Configs''),
      (Some ''admin'', ''/admin/model-publish-requests'', ''Model publish requests'')]"

definition menu_shown :: "bool \<Rightarrow> (string option \<times> string \<times> string) list" where
  "menu_shown isPlatformAdmin = filter (\<lambda>(g, _, _). g \<noteq> Some ''admin'' \<or> isPlatformAdmin) menu_items"

definition menu_selected :: "string \<Rightarrow> string" where
  "menu_selected path =
     (let key = or_str (strip_one CHR ''/'' path) ''/''
      in if startsWith key ''/aistorage/gitlab/'' then ''/aistorage/gitlab''
         else if startsWith key ''/models/public/'' then ''/models/public''
         else if startsWith key ''/models/private/'' then ''/models/private''
         else if startsWith key ''/inference/services/'' then ''/inference/services''
         else key)"

definition open_rules :: "(string \<times> string) list" where
  "open_rules =
     [(''/containers/services'', ''networking''),
      (''/containers/gateways'', ''networking''),
      (''/containers/configmaps'', ''configuration''),
      (''/containers/secrets'', ''configuration''),
      (''/containers/pvcs'', ''storage''),
      (''/containers'', ''containers''),
      (''/models'', ''models-group''),
      (''/monitoring'', ''monitor-group''),
      (''/inference'', ''inference''),
      (''/playground'', ''playground''),
      (''/training'', ''training''),
      (''/aistorage'', ''aistorage''),
      (''/users'', ''users''),
      (''/admin'', ''admin'')]"

definition openKeys :: "string \<Rightarrow> string list" where
  "openKeys path = (case find (\<lambda>(p, _). startsWith path p) open_rules of Some (_, g) \<Rightarrow> [g] | None \<Rightarrow> [])"

subsection \<open>Links the pages compose\<close>

definition service_link :: "string \<Rightarrow> string \<Rightarrow> string" where
  "service_link ns sname = ''/inference/services/'' @ encodeURIComponent ns @ ''/'' @ encodeURIComponent sname"

definition model_link :: "model_scope \<Rightarrow> string \<Rightarrow> string" where
  "model_link scope mid = ''/models/'' @ scope_text scope @ ''/'' @ mid"

definition collection_link :: "model_scope \<Rightarrow> string \<Rightarrow> string" where
  "collection_link scope cid = ''/models/'' @ scope_text scope @ ''?collection='' @ encodeURIComponent cid"

text \<open>The link from a model to a service that uses it.\<close>

definition model_service_link :: "string \<Rightarrow> string \<Rightarrow> service_kind \<Rightarrow> string" where
  "model_service_link ns sname kind =
     ''/namespaces/'' @ encodeURIComponent ns @ ''/inference/services/'' @ encodeURIComponent sname @ ''?kind='' @ kind_text kind"

subsection \<open>Properties\<close>

text \<open>The table with its patterns cut, for evaluation.\<close>

definition route_table :: "(string list \<times> target) list" where
  "route_table =
     [([''auth'', ''callback''], Callback),
      ([], Page DashboardPage),
      ([''agent-workspace''], Page AgentWorkspacePage),
      ([''admin'', ''components''], Page ComponentsPage),
      ([''admin'', ''registry''], Page RegistryPage),
      ([''admin'', ''namespaces''], Page NamespacesPage),
      ([''admin'', ''nodes''], Page NodesPage),
      ([''admin'', ''gpu-profiles''], Page GPUProfilesPage),
      ([''models''], Goto ''/models/public''),
      ([''models'', '':scope''], Page ModelHubPage),
      ([''models'', '':scope'', '':id''], Page ModelDetailPage),
      ([''admin'', ''model-publish-requests''], Page ModelPublishRequestsPage),
      ([''monitoring''], Goto ''/monitoring/resources''),
      ([''monitoring'', ''resources''], Page MonitoringPage),
      ([''monitoring'', ''llm''], Page LLMMonitoringPage),
      ([''monitoring'', ''train''], Page TrainMonitoringPage),
      ([''monitoring'', ''gpu''], Page GPUStatusPage),
      ([''containers'', ''deployments''], Page DeploymentsPage),
      ([''containers'', ''statefulsets''], Page StatefulSetsPage),
      ([''containers'', ''pods''], Page PodsPage),
      ([''containers'', ''services''], Page ServicesPage),
      ([''containers'', ''configmaps''], Page ConfigMapsPage),
      ([''containers'', ''secrets''], Page SecretsPage),
      ([''containers'', ''gateways''], Page GatewaysPage),
      ([''containers'', ''pvcs''], Page PVCsPage),
      ([''users''], Page UsersPage),
      ([''users'', ''roles''], Page RolesPage),
      ([''inference'', ''serving-runtimes''], Page ServingRuntimesPage),
      ([''inference'', ''services''], Page InferenceServicesPage),
      ([''inference'', ''services'', '':namespace'', '':name''], Page InferenceServiceDetailPage),
      ([''inference'', ''gateway''], Page GatewayConfigPage),
      ([''inference'', ''storage-initializers''], Page StorageContainersPage),
      ([''inference'', ''llm-configs''], Page LLMConfigsPage),
      ([''inference'', ''local-model-cache''], Page LocalModelCachePage),
      ([''playground'', ''registry''], Page LLMRegistryPage),
      ([''playground'', ''chat''], Page ChatPage),
      ([''playground'', ''agent''], Page AgentPage),
      ([''training'', ''runtimes''], Page TrainingRuntimesPage),
      ([''training'', ''jobs''], Page TrainJobsPage),
      ([''notebooks''], Page NotebooksPage),
      ([''admin'', ''s3-secrets''], Page S3SecretsPage),
      ([''admin'', ''gitlab-configs''], Page GitLabConfigsPage),
      ([''aistorage''], Goto ''/aistorage/s3''),
      ([''aistorage'', ''s3''], Page S3BrowserPage),
      ([''aistorage'', ''pvc''], Page PVCManagerPage),
      ([''aistorage'', ''gitlab''], Page GitLabProjectsPage),
      ([''aistorage'', ''gitlab'', '':config'', '':projectID''], Page GitLabBrowserPage)]"

lemma routes_cut: "map (\<lambda>(pat, t). (segments_of pat, t)) routes = route_table"
  by code_simp

lemma candidates_cut [code]:
  "candidates link = (let ss = segments_of (pathname link) in map snd (filter (\<lambda>(ps, _). seg_match ps ss) route_table))"
  by (simp add: candidates_def routes_cut [symmetric] Let_def filter_map comp_def case_prod_beta')

lemma menu_targets:
  "map (\<lambda>(_, path, _). candidates path) menu_items =
     map (\<lambda>p. [Page p])
       [DashboardPage, AgentWorkspacePage, ModelHubPage, ModelHubPage, MonitoringPage, GPUStatusPage, LLMMonitoringPage,
        TrainMonitoringPage, InferenceServicesPage, GatewayConfigPage, ServingRuntimesPage, StorageContainersPage,
        LLMConfigsPage, LocalModelCachePage, LLMRegistryPage, ChatPage, AgentPage, NotebooksPage, TrainingRuntimesPage,
        TrainJobsPage, S3BrowserPage, PVCManagerPage, GitLabProjectsPage, DeploymentsPage, StatefulSetsPage, PodsPage,
        ServicesPage, GatewaysPage, ConfigMapsPage, SecretsPage, PVCsPage, UsersPage, RolesPage, ComponentsPage,
        RegistryPage, NamespacesPage, NodesPage, GPUProfilesPage, S3SecretsPage, GitLabConfigsPage,
        ModelPublishRequestsPage]"
  by code_simp

lemma menu_marks:
  "list_all (\<lambda>(g, path, label). menu_selected path = path \<and>
      openKeys path = (case g of None \<Rightarrow> [] | Some g' \<Rightarrow> [g'])) menu_items"
  by code_simp

lemma redirect_targets:
  "map candidates [''/models/public'', ''/monitoring/resources'', ''/aistorage/s3'', ''/''] =
     map (\<lambda>p. [Page p]) [ModelHubPage, MonitoringPage, S3BrowserPage, DashboardPage]"
  by code_simp


subsection \<open>Links\<close>

lemma pathname_append:
  "CHR ''?'' \<notin> set a \<Longrightarrow> CHR ''#'' \<notin> set a \<Longrightarrow> pathname (a @ b) = a @ pathname b"
  by (induction a) (auto simp: pathname_def)

lemma pathname_plain:
  "CHR ''?'' \<notin> set a \<Longrightarrow> CHR ''#'' \<notin> set a \<Longrightarrow> pathname a = a"
  using pathname_append [of a "[]"] by (simp add: pathname_def)

lemma encode_no_query [simp]:
  "CHR ''?'' \<notin> set (encodeURIComponent s)" "CHR ''#'' \<notin> set (encodeURIComponent s)"
  by (rule encode_no_delimiter, simp add: delimiter_def)+

lemma segments_of_cons:
  "CHR ''/'' \<notin> set w \<Longrightarrow> segments_of (w @ CHR ''/'' # s) = (if w = [] then [] else [w]) @ segments_of s"
  "CHR ''/'' \<notin> set w \<Longrightarrow> segments_of w = (if w = [] then [] else [w])"
  by (simp_all add: segments_of_def split_on_append split_on_free)

lemma path_segments:
  "segments_of (''/inference/services/'' @ s) = ''inference'' # ''services'' # segments_of s"
  "segments_of (''/models/'' @ s) = ''models'' # segments_of s"
  "segments_of (''/namespaces/'' @ s) = ''namespaces'' # segments_of s"
  using segments_of_cons(1) [of "[]" "''inference/services/'' @ s"] segments_of_cons(1) [of "''inference''" "''services/'' @ s"]
    segments_of_cons(1) [of "''services''" s] segments_of_cons(1) [of "[]" "''models/'' @ s"]
    segments_of_cons(1) [of "''models''" s] segments_of_cons(1) [of "[]" "''namespaces/'' @ s"]
    segments_of_cons(1) [of "''namespaces''" s]
  by simp_all

lemma scope_segment: "CHR ''/'' \<notin> set (scope_text scope)" "scope_text scope \<noteq> []"
  "CHR ''?'' \<notin> set (scope_text scope)" "CHR ''#'' \<notin> set (scope_text scope)"
  by (cases scope; simp)+

lemma encode_eq_Nil [simp]: "encodeURIComponent s = [] \<longleftrightarrow> s = []"
  by (cases s) (simp_all add: encodeURIComponent_def pct_byte_def)

lemma service_link_cut:
  assumes "ns \<noteq> []" "sname \<noteq> []"
  shows "segments_of (pathname (service_link ns sname)) = [''inference'', ''services'', encodeURIComponent ns, encodeURIComponent sname]"
proof -
  have "pathname (service_link ns sname) = ''/inference/services/'' @ encodeURIComponent ns @ ''/'' @ encodeURIComponent sname"
    unfolding service_link_def by (rule pathname_plain) simp_all
  then show ?thesis
    using assms path_segments(1) [of "encodeURIComponent ns @ ''/'' @ encodeURIComponent sname"]
      segments_of_cons(1) [of "encodeURIComponent ns" "encodeURIComponent sname"] segments_of_cons(2) [of "encodeURIComponent sname"]
    by simp
qed

lemma model_link_cut:
  assumes "mid \<noteq> []" "CHR ''/'' \<notin> set mid" "CHR ''?'' \<notin> set mid" "CHR ''#'' \<notin> set mid"
  shows "segments_of (pathname (model_link scope mid)) = [''models'', scope_text scope, mid]"
proof -
  have "pathname (model_link scope mid) = ''/models/'' @ scope_text scope @ ''/'' @ mid"
    unfolding model_link_def by (rule pathname_plain) (use assms scope_segment [of scope] in simp_all)
  then show ?thesis
    using assms path_segments(2) [of "scope_text scope @ ''/'' @ mid"] scope_segment [of scope]
      segments_of_cons(1) [of "scope_text scope" mid] segments_of_cons(2) [of mid]
    by simp
qed

lemma pathname_cut: "CHR ''?'' \<notin> set a \<Longrightarrow> CHR ''#'' \<notin> set a \<Longrightarrow> pathname (a @ CHR ''?'' # b) = a"
  using pathname_append [of a "CHR ''?'' # b"] by (simp add: pathname_def)

lemma collection_link_cut:
  "segments_of (pathname (collection_link scope cid)) = [''models'', scope_text scope]"
proof -
  have "pathname (collection_link scope cid) = ''/models/'' @ scope_text scope"
    using scope_segment [of scope] pathname_cut [of "''/models/'' @ scope_text scope" "''collection='' @ encodeURIComponent cid"]
    by (simp add: collection_link_def)
  then show ?thesis
    using path_segments(2) [of "scope_text scope"] scope_segment [of scope] segments_of_cons(2) [of "scope_text scope"]
    by simp
qed



text \<open>
  The services listed on a model's page link to a path no route has: the reader is sent to the
  dashboard.
\<close>

lemma model_service_link_is_dead:
  assumes "ns \<noteq> []" "sname \<noteq> []"
  shows "candidates (model_service_link ns sname kind) = []" "leads_to (model_service_link ns sname kind) fallback"
proof -
  let ?p = "''/namespaces/'' @ encodeURIComponent ns @ ''/inference/services/'' @ encodeURIComponent sname"
  have "pathname (model_service_link ns sname kind) = ?p"
    using pathname_cut [of ?p "''kind='' @ kind_text kind"] by (simp add: model_service_link_def)
  moreover have "segments_of ?p = [''namespaces'', encodeURIComponent ns, ''inference'', ''services'', encodeURIComponent sname]"
    using assms path_segments(3) [of "encodeURIComponent ns @ ''/inference/services/'' @ encodeURIComponent sname"]
      segments_of_cons(1) [of "encodeURIComponent ns" "''inference/services/'' @ encodeURIComponent sname"]
      segments_of_cons(1) [of "''inference''" "''services/'' @ encodeURIComponent sname"]
      segments_of_cons(1) [of "''services''" "encodeURIComponent sname"] segments_of_cons(2) [of "encodeURIComponent sname"]
    by simp
  ultimately have "segments_of (pathname (model_service_link ns sname kind)) =
      [''namespaces'', encodeURIComponent ns, ''inference'', ''services'', encodeURIComponent sname]"
    by simp
  then show "candidates (model_service_link ns sname kind) = []"
    by (simp add: candidates_cut route_table_def)
  then show "leads_to (model_service_link ns sname kind) fallback"
    by (simp add: leads_to_def)
qed

end
