(* ===== verification/Model_Detail.thy ===== *)
theory Model_Detail
  imports App_Routes
begin

text \<open>
  The page of one model (\<open>frontend/src/pages/models/ModelDetail.tsx\<close>), the request to publish it to the
  catalogue (\<open>PublishRequestModal.tsx\<close>, \<open>frontend/src/api/publishRequests.ts\<close>) and the page those
  requests are reviewed on (\<open>frontend/src/pages/admin/ModelPublishRequests.tsx\<close>).
\<close>

subsection \<open>Publish requests\<close>

datatype PublishStatus = RequestPending | RequestApproved | RequestRejected

fun status_text :: "PublishStatus \<Rightarrow> string" where
  "status_text RequestPending = ''pending''"
| "status_text RequestApproved = ''approved''"
| "status_text RequestRejected = ''rejected''"

record PublishRequestDTO =
  pq_id :: string
  pq_privateModelId :: string
  pq_privateNamespace :: string
  pq_privateName :: string
  pq_privateUri :: string
  pq_targetName :: string
  pq_targetCollectionId :: "string option"
  pq_requestedBy :: string
  pq_note :: "string option"
  pq_status :: PublishStatus
  pq_reviewedBy :: "string option"
  pq_reviewerNote :: "string option"
  pq_catalogModelId :: "string option"
  pq_createdAt :: string
  pq_updatedAt :: string

definition listPublishRequests :: "PublishStatus option \<Rightarrow> string option \<Rightarrow> http_request" where
  "listPublishRequests st ns =
     (let qs = search_params ((case st of Some v \<Rightarrow> [(''status'', status_text v)] | None \<Rightarrow> []) @
            (if truthy_str ns then [(''namespace'', nullish ns '''')] else []))
      in get_request (''/api/v1/model-publish-requests'' @ (if qs = [] then [] else ''?'' @ qs)))"

record CreatePublishRequest =
  cp_privateModelId :: string
  cp_targetName :: string
  cp_targetCollectionId :: "string option"
  cp_note :: "string option"

definition createPublishRequest :: "CreatePublishRequest \<Rightarrow> http_request" where
  "createPublishRequest r = json_request POST ''/api/v1/model-publish-requests'' (jobj
     [(''privateModelId'', Some (JStr (cp_privateModelId r))), (''targetName'', Some (JStr (cp_targetName r))),
      (''targetCollectionId'', map_option JStr (cp_targetCollectionId r)), (''note'', map_option JStr (cp_note r))])"

definition approvePublishRequest :: "string \<Rightarrow> string option \<Rightarrow> http_request" where
  "approvePublishRequest i note =
     json_request POST (''/api/v1/model-publish-requests/'' @ encodeURIComponent i @ ''/approve'')
       (jobj [(''reviewerNote'', map_option JStr note)])"

definition rejectPublishRequest :: "string \<Rightarrow> string option \<Rightarrow> http_request" where
  "rejectPublishRequest i note =
     json_request POST (''/api/v1/model-publish-requests/'' @ encodeURIComponent i @ ''/reject'')
       (jobj [(''reviewerNote'', map_option JStr note)])"

definition deletePublishRequest :: "string \<Rightarrow> http_request" where
  "deletePublishRequest i = bare_request DELETE (''/api/v1/model-publish-requests/'' @ encodeURIComponent i)"

subsection \<open>The dialog\<close>

record publish_form =
  pf_targetName :: string
  pf_targetCollectionId :: "string option"
  pf_note :: string

text \<open>An empty string is no value here: \<open>v || undefined\<close>.\<close>

definition or_undefined :: "string option \<Rightarrow> string option" where
  "or_undefined v = (if truthy_str v then v else None)"

definition publish_opened :: "ModelItem \<Rightarrow> publish_form" where
  "publish_opened m =
     \<lparr>pf_targetName = m_name m, pf_targetCollectionId = or_undefined (m_collectionId m), pf_note = []\<rparr>"

definition publish_enabled :: "ModelItem \<Rightarrow> bool" where
  "publish_enabled m \<longleftrightarrow> isPublicSource (m_uri m)"

definition publish_collections :: "CollectionDTO list \<Rightarrow> CollectionDTO list" where
  "publish_collections cs = filter (\<lambda>c. co_scope c = Public) cs"

text \<open>A submission with a name: the message of the page, or of the dialog, which then stays open.\<close>

definition publish_submitted :: "'r backend \<Rightarrow> ModelItem \<Rightarrow> publish_form \<Rightarrow> string promise" where
  "publish_submitted send m v =
     (case send (createPublishRequest
         \<lparr>cp_privateModelId = m_id m, cp_targetName = pf_targetName v,
          cp_targetCollectionId = or_undefined (pf_targetCollectionId v), cp_note = or_undefined (Some (pf_note v))\<rparr>) of
        Inl e \<Rightarrow> Inl e
      | Inr _ \<Rightarrow> Inr ''Publish request submitted; an admin will review.'')"

subsection \<open>The page of a model\<close>

record ModelTreeDTO =
  mt_parent :: "ModelItem option"
  mt_self :: ModelItem
  mt_children :: "ModelItem list js_map"

record InferenceServiceRef =
  ir_namespace :: string
  ir_name :: string
  ir_kind :: service_kind
  ir_modelUri :: string
  ir_ready :: "string option"

text \<open>
  \<open>dp_treeRun\<close> and \<open>dp_servicesRun\<close> count the runs of the two effects, each of which cancels the one
  before; a call in flight is kept with the run that made it and its arguments.
\<close>

record detail_page =
  dp_scope :: model_scope
  dp_id :: string
  dp_namespace :: string
  dp_models :: "ModelItem list"
  dp_tree :: "ModelTreeDTO option"
  dp_treeLoading :: bool
  dp_treeRun :: nat
  dp_treeCalls :: "(nat \<times> string) list"
  dp_services :: "InferenceServiceRef list option"
  dp_servicesError :: "string option"
  dp_servicesLoading :: bool
  dp_servicesRun :: nat
  dp_servicesCalls :: "(nat \<times> string \<times> string option) list"
  dp_publishOpen :: bool
  dp_publishToInference :: bool

definition detail :: "detail_page \<Rightarrow> ModelItem option" where
  "detail s = find_key m_id (dp_id s) (dp_models s)"

text \<open>The namespace the services of a model are listed for.\<close>

definition services_ns :: "string \<Rightarrow> ModelItem \<Rightarrow> string option" where
  "services_ns ns m = (if m_scope m = Private then m_namespace m else Some ns)"

definition tree_started :: "detail_page \<Rightarrow> detail_page" where
  "tree_started s =
     (let n = Suc (dp_treeRun s)
      in case detail s of
        None \<Rightarrow> s\<lparr>dp_treeRun := n\<rparr>
      | Some m \<Rightarrow> s\<lparr>dp_treeRun := n, dp_treeLoading := True, dp_treeCalls := dp_treeCalls s @ [(n, m_id m)]\<rparr>)"

definition services_started :: "detail_page \<Rightarrow> detail_page" where
  "services_started s =
     (let n = Suc (dp_servicesRun s)
      in case detail s of
        None \<Rightarrow> s\<lparr>dp_servicesRun := n\<rparr>
      | Some m \<Rightarrow> s\<lparr>dp_servicesRun := n, dp_servicesLoading := True, dp_servicesError := None,
          dp_servicesCalls := dp_servicesCalls s @ [(n, m_id m, services_ns (dp_namespace s) m)]\<rparr>)"

text \<open>The dependencies of the effects, and a commit after the one that left \<open>old\<close>.\<close>

definition tree_deps :: "detail_page \<Rightarrow> string option" where
  "tree_deps s = map_option m_id (detail s)"

definition services_deps :: "detail_page \<Rightarrow> string option \<times> string option \<times> string" where
  "services_deps s =
     (map_option m_id (detail s), (case detail s of Some m \<Rightarrow> m_namespace m | None \<Rightarrow> None), dp_namespace s)"

definition detail_commit :: "detail_page \<Rightarrow> detail_page \<Rightarrow> detail_page" where
  "detail_commit old s =
     (let s1 = (if tree_deps s \<noteq> tree_deps old then tree_started s else s)
      in if services_deps s \<noteq> services_deps old then services_started s1 else s1)"

definition detail_mounted :: "model_scope \<Rightarrow> string \<Rightarrow> string \<Rightarrow> ModelItem list \<Rightarrow> detail_page" where
  "detail_mounted scope i ns models =
     services_started (tree_started
       \<lparr>dp_scope = scope, dp_id = i, dp_namespace = ns, dp_models = models, dp_tree = None, dp_treeLoading = True,
        dp_treeRun = 0, dp_treeCalls = [], dp_services = None, dp_servicesError = None, dp_servicesLoading = True,
        dp_servicesRun = 0, dp_servicesCalls = [], dp_publishOpen = False, dp_publishToInference = False\<rparr>)"

definition route_shown :: "model_scope \<Rightarrow> string \<Rightarrow> detail_page \<Rightarrow> detail_page" where
  "route_shown scope i s = detail_commit s (s\<lparr>dp_scope := scope, dp_id := i\<rparr>)"

definition detail_namespace_changed :: "string \<Rightarrow> detail_page \<Rightarrow> detail_page" where
  "detail_namespace_changed ns s = detail_commit s (s\<lparr>dp_namespace := ns\<rparr>)"

definition models_shown :: "ModelItem list \<Rightarrow> detail_page \<Rightarrow> detail_page" where
  "models_shown models s = detail_commit s (s\<lparr>dp_models := models\<rparr>)"

definition tree_answered :: "nat \<times> string \<Rightarrow> ModelTreeDTO promise \<Rightarrow> detail_page \<Rightarrow> detail_page" where
  "tree_answered c r s =
     (let s = s\<lparr>dp_treeCalls := remove1 c (dp_treeCalls s)\<rparr>
      in if fst c \<noteq> dp_treeRun s then s
         else (case r of
             Inr t \<Rightarrow> s\<lparr>dp_tree := Some t, dp_treeLoading := False\<rparr>
           | Inl _ \<Rightarrow> s\<lparr>dp_treeLoading := False\<rparr>))"

definition services_answered_detail ::
  "nat \<times> string \<times> string option \<Rightarrow> InferenceServiceRef list promise \<Rightarrow> detail_page \<Rightarrow> detail_page" where
  "services_answered_detail c r s =
     (let s = s\<lparr>dp_servicesCalls := remove1 c (dp_servicesCalls s)\<rparr>
      in if fst c \<noteq> dp_servicesRun s then s
         else (case r of
             Inr items \<Rightarrow> s\<lparr>dp_services := Some items, dp_servicesLoading := False\<rparr>
           | Inl e \<Rightarrow> s\<lparr>dp_servicesError := Some (js_message e), dp_services := Some [], dp_servicesLoading := False\<rparr>))"

text \<open>What the page shows of a model.\<close>

definition detail_collection :: "CollectionDTO list \<Rightarrow> ModelItem \<Rightarrow> CollectionDTO option" where
  "detail_collection cs m = find (\<lambda>c. Some (co_id c) = m_collectionId m) cs"

definition detail_actions :: "bool \<Rightarrow> ModelItem \<Rightarrow> string list" where
  "detail_actions isPlatformAdmin m =
     (if publicSourceURL (m_uri m) (m_sourceUrl m) \<noteq> [] then [''source''] else []) @
     [''publish''] @
     (if m_scope m = Private \<and> isPublicSource (m_uri m) then [''publish-catalog''] else []) @
     (if m_scope m = Private \<or> isPlatformAdmin then [''delete''] else [])"

definition not_publishable_alert :: "ModelItem \<Rightarrow> bool" where
  "not_publishable_alert m \<longleftrightarrow> m_scope m \<noteq> Public \<and> \<not> isPublicSource (m_uri m)"

definition detail_defaults :: "ServingRuntime list \<Rightarrow> detail_page \<Rightarrow> service_defaults option" where
  "detail_defaults rts s = map_option (publishDefaults rts (dp_namespace s)) (detail s)"

text \<open>Deleting: the message, the store after it and where the page goes.\<close>

definition delete_confirmed ::
  "bool \<Rightarrow> 'r backend \<Rightarrow> model_scope \<Rightarrow> ModelItem \<Rightarrow> models \<Rightarrow> string promise \<times> models \<times> string option" where
  "delete_confirmed api send scope m st =
     (case deleteModel api send (m_id m) st of
        (Inl e, st') \<Rightarrow> (Inl e, st', None)
      | (Inr _, st') \<Rightarrow> (Inr ''Model deleted'', st', Some (''/models/'' @ scope_text scope)))"

datatype family_view = NoRelations | NoFamily | Family "ModelItem option" "(string \<times> ModelItem list) list"

definition derivedKindLabel :: "string js_map" where
  "derivedKindLabel =
     [(''finetune'', ''Finetunes''), (''quantization'', ''Quantizations''), (''adapter'', ''Adapters'')]"

definition ModelTreeView :: "ModelTreeDTO option \<Rightarrow> family_view" where
  "ModelTreeView tree =
     (case tree of
        None \<Rightarrow> NoRelations
      | Some t \<Rightarrow>
          let groups = map (\<lambda>k. (nullish (map_of derivedKindLabel k) k, nullish (map_of (mt_children t) k) []))
                [''finetune'', ''quantization'', ''adapter'']
          in if mt_parent t = None \<and> list_all (\<lambda>g. snd g = []) groups then NoFamily
             else Family (mt_parent t) (filter (\<lambda>g. snd g \<noteq> []) groups))"

datatype services_view = ServicesLoading | ServicesFailed string | NoServices | ServiceCards "InferenceServiceRef list"

definition services_card :: "detail_page \<Rightarrow> services_view" where
  "services_card s =
     (if dp_servicesLoading s then ServicesLoading
      else if truthy_str (dp_servicesError s) then ServicesFailed (nullish (dp_servicesError s) '''')
      else if nullish (dp_services s) [] = [] then NoServices
      else ServiceCards (nullish (dp_services s) []))"

subsection \<open>Runs of the page\<close>

text \<open>
  What happens to the page while a backend answers \<open>tree\<close> and \<open>svcs\<close>, in whatever order. The scope
  of a model never changes (no operation of the store or of the backend's interface sets it):
  \<open>scope_of\<close> is the scope of each identity.
\<close>

inductive detail_step ::
  "(string \<Rightarrow> model_scope) \<Rightarrow> (string \<Rightarrow> ModelTreeDTO promise) \<Rightarrow>
     (string \<Rightarrow> string option \<Rightarrow> InferenceServiceRef list promise) \<Rightarrow> detail_page \<Rightarrow> detail_page \<Rightarrow> bool"
  for scope_of tree svcs where
  route: "detail_step scope_of tree svcs s (route_shown scope i s)"
| namespace: "detail_step scope_of tree svcs s (detail_namespace_changed ns s)"
| store: "(\<forall>m \<in> set ms. m_scope m = scope_of (m_id m)) \<Longrightarrow> detail_step scope_of tree svcs s (models_shown ms s)"
| tree_answer: "c \<in> set (dp_treeCalls s) \<Longrightarrow>
    detail_step scope_of tree svcs s (tree_answered c (tree (snd c)) s)"
| services_answer: "c \<in> set (dp_servicesCalls s) \<Longrightarrow>
    detail_step scope_of tree svcs s (services_answered_detail c (svcs (fst (snd c)) (snd (snd c))) s)"
| dialogs: "detail_step scope_of tree svcs s (s\<lparr>dp_publishOpen := p, dp_publishToInference := q\<rparr>)"

inductive detail_reach ::
  "(string \<Rightarrow> model_scope) \<Rightarrow> (string \<Rightarrow> ModelTreeDTO promise) \<Rightarrow>
     (string \<Rightarrow> string option \<Rightarrow> InferenceServiceRef list promise) \<Rightarrow> detail_page \<Rightarrow> bool"
  for scope_of tree svcs where
  mounted: "(\<forall>m \<in> set ms. m_scope m = scope_of (m_id m)) \<Longrightarrow>
    detail_reach scope_of tree svcs (detail_mounted scope i ns ms)"
| step: "detail_reach scope_of tree svcs s \<Longrightarrow> detail_step scope_of tree svcs s s' \<Longrightarrow>
    detail_reach scope_of tree svcs s'"

definition tree_ok :: "(string \<Rightarrow> ModelTreeDTO promise) \<Rightarrow> detail_page \<Rightarrow> bool" where
  "tree_ok tree s \<longleftrightarrow>
     list_all (\<lambda>c. fst c \<le> dp_treeRun s) (dp_treeCalls s) \<and>
     (case detail s of
        None \<Rightarrow> list_all (\<lambda>c. fst c \<noteq> dp_treeRun s) (dp_treeCalls s)
      | Some m \<Rightarrow> list_all (\<lambda>c. fst c = dp_treeRun s \<longrightarrow> snd c = m_id m) (dp_treeCalls s) \<and>
          (dp_treeLoading s \<or> (case tree (m_id m) of Inr t \<Rightarrow> dp_tree s = Some t | Inl _ \<Rightarrow> True)))"

definition services_ok :: "(string \<Rightarrow> string option \<Rightarrow> InferenceServiceRef list promise) \<Rightarrow> detail_page \<Rightarrow> bool" where
  "services_ok svcs s \<longleftrightarrow>
     list_all (\<lambda>c. fst c \<le> dp_servicesRun s) (dp_servicesCalls s) \<and>
     (case detail s of
        None \<Rightarrow> list_all (\<lambda>c. fst c \<noteq> dp_servicesRun s) (dp_servicesCalls s)
      | Some m \<Rightarrow>
          list_all (\<lambda>c. fst c = dp_servicesRun s \<longrightarrow> snd c = (m_id m, services_ns (dp_namespace s) m)) (dp_servicesCalls s) \<and>
          (if dp_servicesLoading s then dp_servicesError s = None
           else (case svcs (m_id m) (services_ns (dp_namespace s) m) of
               Inr items \<Rightarrow> dp_servicesError s = None \<and> dp_services s = Some items
             | Inl e \<Rightarrow> dp_servicesError s = Some (js_message e) \<and> dp_services s = Some [])))"

definition scopes_ok :: "(string \<Rightarrow> model_scope) \<Rightarrow> detail_page \<Rightarrow> bool" where
  "scopes_ok scope_of s \<longleftrightarrow> (\<forall>m \<in> set (dp_models s). m_scope m = scope_of (m_id m))"

lemma list_all_fresh: "list_all (\<lambda>c. fst c \<le> n) cs \<Longrightarrow> list_all (\<lambda>c. fst c \<noteq> Suc n) cs"
  by (auto simp: list_all_iff)

lemma tree_ok_started:
  assumes "list_all (\<lambda>c. fst c \<le> dp_treeRun s) (dp_treeCalls s)"
  shows "tree_ok tree (tree_started s)"
proof (cases "detail s")
  case None
  then show ?thesis
    using assms list_all_fresh [OF assms]
    by (auto simp: tree_started_def tree_ok_def detail_def Let_def list_all_iff)
next
  case (Some m)
  then show ?thesis
    using assms by (auto simp: tree_started_def tree_ok_def detail_def Let_def list_all_iff)
qed

lemma services_ok_started:
  assumes "list_all (\<lambda>c. fst c \<le> dp_servicesRun s) (dp_servicesCalls s)"
  shows "services_ok svcs (services_started s)"
proof (cases "detail s")
  case None
  then show ?thesis
    using assms list_all_fresh [OF assms]
    by (auto simp: services_started_def services_ok_def detail_def Let_def list_all_iff)
next
  case (Some m)
  then show ?thesis
    using assms by (auto simp: services_started_def services_ok_def detail_def services_ns_def Let_def list_all_iff)
qed

text \<open>Neither effect touches what the other one, or the page, reads.\<close>

lemma started_fields [simp]:
  "dp_models (tree_started s) = dp_models s" "dp_id (tree_started s) = dp_id s" "dp_namespace (tree_started s) = dp_namespace s"
  "dp_servicesRun (tree_started s) = dp_servicesRun s" "dp_servicesCalls (tree_started s) = dp_servicesCalls s"
  "dp_servicesLoading (tree_started s) = dp_servicesLoading s" "dp_servicesError (tree_started s) = dp_servicesError s"
  "dp_services (tree_started s) = dp_services s"
  "dp_models (services_started s) = dp_models s" "dp_id (services_started s) = dp_id s"
  "dp_treeRun (services_started s) = dp_treeRun s" "dp_treeCalls (services_started s) = dp_treeCalls s"
  "dp_treeLoading (services_started s) = dp_treeLoading s" "dp_tree (services_started s) = dp_tree s"
  by (simp_all add: tree_started_def services_started_def Let_def split: option.splits)

lemma started_frame [simp]:
  "detail (tree_started s) = detail s" "detail (services_started s) = detail s"
  "services_ok svcs (tree_started s) = services_ok svcs s" "tree_ok tree (services_started s) = tree_ok tree s"
  by (simp_all add: detail_def services_ok_def tree_ok_def cong: option.case_cong sum.case_cong)

lemma scopes_ok_started [simp]:
  "scopes_ok f (tree_started s) = scopes_ok f s" "scopes_ok f (services_started s) = scopes_ok f s"
  by (simp_all add: scopes_ok_def)

definition same_calls :: "detail_page \<Rightarrow> detail_page \<Rightarrow> bool" where
  "same_calls s t \<longleftrightarrow>
     dp_treeRun t = dp_treeRun s \<and> dp_treeCalls t = dp_treeCalls s \<and> dp_treeLoading t = dp_treeLoading s \<and> dp_tree t = dp_tree s \<and>
     dp_servicesRun t = dp_servicesRun s \<and> dp_servicesCalls t = dp_servicesCalls s \<and>
     dp_servicesLoading t = dp_servicesLoading s \<and> dp_services t = dp_services s \<and> dp_servicesError t = dp_servicesError s"

lemma detail_in: "detail s = Some m \<Longrightarrow> m \<in> set (dp_models s) \<and> m_id m = dp_id s"
  unfolding detail_def by (rule find_key_Some)

text \<open>A change of the route, the namespace or the store, and the commit after it.\<close>

lemma commit_ok:
  assumes "tree_ok tree old" "services_ok svcs old" "scopes_ok f old" "scopes_ok f s" "same_calls old s"
  shows "tree_ok tree (detail_commit old s) \<and> services_ok svcs (detail_commit old s) \<and> scopes_ok f (detail_commit old s)"
proof -
  have t: "list_all (\<lambda>c. fst c \<le> dp_treeRun s) (dp_treeCalls s)"
    and v: "list_all (\<lambda>c. fst c \<le> dp_servicesRun s) (dp_servicesCalls s)"
    using assms by (simp_all add: tree_ok_def services_ok_def same_calls_def)
  have tree: "tree_ok tree s" if "tree_deps s = tree_deps old"
    using assms that
    by (cases "detail s"; cases "detail old"; auto simp: tree_ok_def same_calls_def tree_deps_def split: sum.splits)
  have svcs: "services_ok svcs s" if deps: "services_deps s = services_deps old"
  proof (cases "detail s")
    case None
    then show ?thesis using assms deps by (cases "detail old"; simp add: services_ok_def same_calls_def services_deps_def)
  next
    case (Some m)
    then obtain m' where m': "detail old = Some m'" "m_id m' = m_id m" "m_namespace m' = m_namespace m"
      using deps by (cases "detail old") (auto simp: services_deps_def)
    then have "m_scope m' = m_scope m"
      using detail_in [of s m] detail_in [of old m'] Some assms(3, 4) by (metis scopes_ok_def)
    then have "services_ns (dp_namespace old) m' = services_ns (dp_namespace s) m"
      using m' deps by (simp add: services_ns_def services_deps_def)
    then show ?thesis
      using assms m' Some by (simp add: services_ok_def same_calls_def cong: if_cong sum.case_cong)
  qed
  show ?thesis
    using tree svcs tree_ok_started [OF t] services_ok_started [of "tree_started s"] services_ok_started [OF v] v assms(4)
    by (auto simp: detail_commit_def Let_def)
qed

lemma list_all_remove1: "list_all P cs \<Longrightarrow> list_all P (remove1 c cs)"
  using set_remove1_subset [of c cs] by (auto simp: list_all_iff)

lemma detail_same [simp]:
  "detail (s\<lparr>dp_treeCalls := cs\<rparr>) = detail s" "detail (s\<lparr>dp_tree := t\<rparr>) = detail s"
  "detail (s\<lparr>dp_treeLoading := b\<rparr>) = detail s" "detail (s\<lparr>dp_servicesCalls := ds\<rparr>) = detail s"
  "detail (s\<lparr>dp_services := v\<rparr>) = detail s" "detail (s\<lparr>dp_servicesLoading := b\<rparr>) = detail s"
  "detail (s\<lparr>dp_servicesError := e\<rparr>) = detail s" "detail (s\<lparr>dp_publishOpen := b\<rparr>) = detail s"
  "detail (s\<lparr>dp_publishToInference := b\<rparr>) = detail s"
  by (simp_all add: detail_def)

lemma tree_answered_ok:
  assumes "tree_ok tree s" "c \<in> set (dp_treeCalls s)"
  shows "tree_ok tree (tree_answered c (tree (snd c)) s)"
proof (cases "detail s")
  case None
  then show ?thesis
    using assms by (auto simp: tree_ok_def tree_answered_def list_all_remove1 list_all_iff [of _ "dp_treeCalls s"])
next
  case (Some m)
  then have "fst c = dp_treeRun s \<Longrightarrow> snd c = m_id m"
    using assms by (simp add: tree_ok_def list_all_iff)
  then show ?thesis
    using assms Some by (cases "tree (m_id m)") (auto simp: tree_ok_def tree_answered_def Let_def list_all_remove1)
qed

lemma services_answered_ok:
  assumes "services_ok svcs s" "c \<in> set (dp_servicesCalls s)"
  shows "services_ok svcs (services_answered_detail c (svcs (fst (snd c)) (snd (snd c))) s)"
proof (cases "detail s")
  case None
  then show ?thesis
    using assms
    by (auto simp: services_ok_def services_answered_detail_def list_all_remove1 list_all_iff [of _ "dp_servicesCalls s"])
next
  case (Some m)
  have own: "snd c = (m_id m, services_ns (dp_namespace s) m)" if "fst c = dp_servicesRun s"
    using assms Some that by (simp add: services_ok_def list_all_iff)
  show ?thesis
  proof (cases "fst c = dp_servicesRun s")
    case True
    then show ?thesis
      using assms Some own
      by (cases "svcs (m_id m) (services_ns (dp_namespace s) m)"; cases "dp_servicesLoading s")
        (auto simp: services_ok_def services_answered_detail_def Let_def list_all_remove1)
  next
    case False
    then show ?thesis
      using assms Some
      by (simp add: services_ok_def services_answered_detail_def Let_def list_all_remove1 cong: if_cong sum.case_cong)
  qed
qed

lemma answered_frame [simp]:
  "services_ok svcs (tree_answered c r s) = services_ok svcs s" "scopes_ok f (tree_answered c r s) = scopes_ok f s"
  "tree_ok tree (services_answered_detail d v s) = tree_ok tree s" "scopes_ok f (services_answered_detail d v s) = scopes_ok f s"
  by (simp_all add: tree_answered_def services_answered_detail_def services_ok_def tree_ok_def scopes_ok_def Let_def
      split: sum.splits cong: option.case_cong sum.case_cong)

lemma detail_ok_step:
  assumes "detail_step f tree svcs s s'" "tree_ok tree s \<and> services_ok svcs s \<and> scopes_ok f s"
  shows "tree_ok tree s' \<and> services_ok svcs s' \<and> scopes_ok f s'"
  using assms
proof (cases rule: detail_step.cases)
  case (route scope i)
  then show ?thesis
    unfolding route(1) route_shown_def using assms(2) by (intro commit_ok) (auto simp: scopes_ok_def same_calls_def)
next
  case (namespace ns)
  then show ?thesis
    unfolding namespace(1) detail_namespace_changed_def using assms(2) by (intro commit_ok) (auto simp: scopes_ok_def same_calls_def)
next
  case (store ms)
  then show ?thesis
    unfolding store(1) models_shown_def using assms(2) by (intro commit_ok) (auto simp: scopes_ok_def same_calls_def)
next
  case (tree_answer c)
  then show ?thesis using assms(2) by (simp add: tree_answered_ok)
next
  case (services_answer c)
  then show ?thesis using assms(2) by (simp add: services_answered_ok)
next
  case (dialogs p q)
  then show ?thesis
    using assms(2)
    by (simp add: tree_ok_def services_ok_def scopes_ok_def detail_def services_ns_def
        cong: option.case_cong sum.case_cong if_cong)
qed

lemma detail_ok_reach:
  "detail_reach f tree svcs s \<Longrightarrow> tree_ok tree s \<and> services_ok svcs s \<and> scopes_ok f s"
proof (induction rule: detail_reach.induct)
  case (mounted ms scope i ns)
  let ?s = "\<lparr>dp_scope = scope, dp_id = i, dp_namespace = ns, dp_models = ms, dp_tree = None, dp_treeLoading = True,
    dp_treeRun = 0, dp_treeCalls = [], dp_services = None, dp_servicesError = None, dp_servicesLoading = True,
    dp_servicesRun = 0, dp_servicesCalls = [], dp_publishOpen = False, dp_publishToInference = False\<rparr>"
  have "tree_ok tree (tree_started ?s)" by (rule tree_ok_started) simp
  moreover have "services_ok svcs (services_started (tree_started ?s))" by (rule services_ok_started) simp
  ultimately show ?case
    using mounted by (simp add: detail_mounted_def scopes_ok_def)
next
  case (step s s')
  then show ?case using detail_ok_step by blast
qed

subsection \<open>Properties\<close>


definition sample_private :: "string \<Rightarrow> ModelItem" where
  "sample_private i =
     (new_model ''team/My_Model'' ''ann'' Private (Some ''team'') ''hf://team/My_Model'' Hf [] ''llm'' (0, 0) [])\<lparr>m_id := i\<rparr>"

text \<open>Two models visited in turn, the answers for the first arriving last.\<close>

definition sample_visit :: "detail_page" where
  "sample_visit =
     tree_answered (1, ''a'') (Inr \<lparr>mt_parent = None, mt_self = sample_private ''a'', mt_children = []\<rparr>)
      (tree_answered (2, ''b'') (Inr \<lparr>mt_parent = None, mt_self = sample_private ''b'', mt_children = []\<rparr>)
       (route_shown Private ''b'' (detail_mounted Private ''a'' ''team'' [sample_private ''a'', sample_private ''b''])))"

lemma sample_visit_facts:
  "dp_treeCalls (route_shown Private ''b'' (detail_mounted Private ''a'' ''team'' [sample_private ''a'', sample_private ''b'']))
     = [(1, ''a''), (2, ''b'')]"
  "detail sample_visit = Some (sample_private ''b'')" "\<not> dp_treeLoading sample_visit"
  by code_simp+


text \<open>
  A tree that fails to load leaves the one of the model visited before in place; and an identity the
  store does not hold shows the placeholder, whatever is answered, until the store holds it.
\<close>

lemma failed_tree_shows_other:
  assumes "detail s = Some m" "fst c = dp_treeRun s"
  shows "dp_tree (tree_answered c (Inl e) s) = dp_tree s \<and> \<not> dp_treeLoading (tree_answered c (Inl e) s) \<and>
    detail (tree_answered c (Inl e) s) = Some m"
  using assms by (simp add: tree_answered_def)

lemma unknown_model_waits:
  assumes "dp_id s \<notin> m_id ` set (dp_models s)"
  shows "detail s = None" "detail (tree_answered c r s) = None" "detail (detail_namespace_changed ns s) = None"
proof -
  show none: "detail s = None" using assms by (simp add: detail_def find_key_None)
  then show "detail (tree_answered c r s) = None"
    by (simp add: tree_answered_def Let_def split: sum.splits)
  have "detail (s\<lparr>dp_namespace := ns\<rparr>) = None" using none by (simp add: detail_def)
  then show "detail (detail_namespace_changed ns s) = None"
    by (simp add: detail_namespace_changed_def detail_commit_def Let_def)
qed

subsection \<open>The dialog's suggestion\<close>

text \<open>
  The dialog suggests the collection the private model is in, which is not among the public ones it
  offers; left as it is, it is what the request asks for.
\<close>

lemma private_collection_suggested:
  assumes "m_collectionId m = Some i" "i \<noteq> []" "\<forall>c \<in> set cs. co_id c = i \<longrightarrow> co_scope c = Private"
  shows "pf_targetCollectionId (publish_opened m) = Some i" "i \<notin> co_id ` set (publish_collections cs)"
  using assms by (auto simp: publish_opened_def or_undefined_def publish_collections_def)

subsection \<open>Reviewing\<close>

record requests_page = "(PublishStatus, PublishRequestDTO) listing" +
  rp_status :: PublishStatus

text \<open>A failed listing leaves the rows of the one before.\<close>

definition requests_answered :: "PublishStatus \<Rightarrow> PublishRequestDTO list promise \<Rightarrow> requests_page \<Rightarrow> requests_page" where
  "requests_answered k r s =
     (let s = s\<lparr>li_loading := False, li_flights := remove1 k (li_flights s)\<rparr>
      in case r of Inr items \<Rightarrow> s\<lparr>li_items := items\<rparr> | Inl e \<Rightarrow> s\<lparr>li_messages := li_messages s @ [js_message e]\<rparr>)"

interpretation requests: reloading listing_start "\<lambda>k items. requests_answered k (Inr items)" li_flights li_items "\<lambda>items. items"
  by unfold_locales (simp_all add: requests_answered_def Let_def)

definition requests_mounted :: requests_page where
  "requests_mounted = listing_start RequestPending
     \<lparr>li_items = [], li_loading = False, li_flights = [], li_messages = [], rp_status = RequestPending\<rparr>"

definition status_chosen :: "PublishStatus \<Rightarrow> requests_page \<Rightarrow> requests_page" where
  "status_chosen st s = (if st = rp_status s then s else listing_start st (s\<lparr>rp_status := st\<rparr>))"

definition requests_refreshed :: "requests_page \<Rightarrow> requests_page" where
  "requests_refreshed s = listing_start (rp_status s) s"

definition review_request :: "bool \<Rightarrow> PublishRequestDTO \<Rightarrow> string \<Rightarrow> http_request" where
  "review_request approve r note =
     (if approve then approvePublishRequest (pq_id r) (Some note) else rejectPublishRequest (pq_id r) (Some note))"

text \<open>The answer to a review, by the render that opened the dialog with status \<open>st\<close>.\<close>

definition review_answered ::
  "bool \<Rightarrow> PublishRequestDTO \<Rightarrow> PublishStatus \<Rightarrow> unit promise \<Rightarrow> requests_page \<Rightarrow> requests_page" where
  "review_answered approve r st answer s =
     (case answer of
        Inl e \<Rightarrow> s\<lparr>li_messages := li_messages s @ [js_message e]\<rparr>
      | Inr _ \<Rightarrow> listing_start st (s\<lparr>li_messages := li_messages s @
          [if approve then ''Approved '' @ em_dash @ '' created public model \"'' @ pq_targetName r @ ''\".''
           else ''Request rejected.'']\<rparr>))"

text \<open>The buttons of a row, and where its catalogue button leads.\<close>

definition review_actions :: "PublishRequestDTO \<Rightarrow> string list" where
  "review_actions r =
     (if pq_status r = RequestApproved \<and> truthy_str (pq_catalogModelId r) then [''catalog''] else []) @
     (if pq_status r = RequestPending then [''approve'', ''reject''] else [])"

definition catalog_link :: "PublishRequestDTO \<Rightarrow> string" where
  "catalog_link r = ''/models/public/'' @ nullish (pq_catalogModelId r) ''undefined''"

text \<open>
  The page's events; \<open>respond\<close> is what the backend lists at the time of an answer, which a review may
  change. A review's dialog covers the page, so the status it was opened under is still the one shown.
\<close>

datatype request_event =
    StatusChosen PublishStatus | RequestsRefreshed | RequestsAnswered
  | Reviewed bool PublishRequestDTO "unit promise"

fun requests_step :: "(PublishStatus \<Rightarrow> PublishRequestDTO list) \<Rightarrow> request_event \<Rightarrow> requests_page \<Rightarrow> requests_page" where
  "requests_step respond (StatusChosen st) s = status_chosen st s"
| "requests_step respond RequestsRefreshed s = requests_refreshed s"
| "requests_step respond RequestsAnswered s =
     (case li_flights s of [] \<Rightarrow> s | k # _ \<Rightarrow> requests_answered k (Inr (respond k)) s)"
| "requests_step respond (Reviewed approve r answer) s = review_answered approve r (rp_status s) answer s"

lemma requests_step_served:
  "requests.served respond (Some (rp_status s)) s \<Longrightarrow>
   requests.served respond (Some (rp_status (requests_step respond e s))) (requests_step respond e s)"
proof (cases e)
  case (StatusChosen st)
  then show "requests.served respond (Some (rp_status s)) s \<Longrightarrow> ?thesis"
    by (auto simp: status_chosen_def listing_start_def requests.served_def)
next
  case RequestsRefreshed
  then show ?thesis by (simp add: requests_refreshed_def listing_start_def requests.served_def)
next
  case RequestsAnswered
  have "rp_status (requests_answered k (Inr items) s) = rp_status s" for k items
    by (simp add: requests_answered_def Let_def)
  then show "requests.served respond (Some (rp_status s)) s \<Longrightarrow> ?thesis"
    using RequestsAnswered requests.served_answer [of respond "Some (rp_status s)" s]
    by (cases "li_flights s") simp_all
next
  case (Reviewed approve r answer)
  then show "requests.served respond (Some (rp_status s)) s \<Longrightarrow> ?thesis"
    by (cases answer) (simp_all add: review_answered_def listing_start_def requests.served_def split: if_splits)
qed


text \<open>A failed listing leaves the rows of another status under the one chosen.\<close>

lemma failed_listing_keeps_status:
  assumes "rp_status s \<noteq> st" "li_flights s = []"
  shows "li_items (requests_answered st (Inl e) (status_chosen st s)) = li_items s \<and>
    rp_status (requests_answered st (Inl e) (status_chosen st s)) = st"
  using assms by (simp add: requests_answered_def status_chosen_def Let_def listing_start_def)

definition sample_requests :: "PublishStatus \<Rightarrow> PublishRequestDTO list" where
  "sample_requests st =
     [\<lparr>pq_id = ''r1'', pq_privateModelId = ''m1'', pq_privateNamespace = ''team'', pq_privateName = ''m'',
       pq_privateUri = ''hf://a/b'', pq_targetName = ''a/b'', pq_targetCollectionId = None, pq_requestedBy = ''ann'',
       pq_note = None, pq_status = st, pq_reviewedBy = None, pq_reviewerNote = None, pq_catalogModelId = None,
       pq_createdAt = [], pq_updatedAt = []\<rparr>]"

definition sample_review :: requests_page where
  "sample_review = fold (requests_step sample_requests)
     [RequestsAnswered, StatusChosen RequestApproved, RequestsRefreshed, RequestsAnswered, RequestsAnswered] requests_mounted"


text \<open>
  A private model is offered for publishing on its card, on its page and in the dialog alike, and
  exactly when the page does not warn that it cannot be; an approved request leads to the page of the
  catalogue's model.
\<close>

lemma publishing_agrees:
  assumes "hb_scope hub = Private" "m \<in> set (scopedModels hub)"
  shows "(''publish-catalog'' \<in> set (card_actions admin hub m)) = publish_enabled m"
    "(''publish-catalog'' \<in> set (detail_actions admin m)) = publish_enabled m"
    "not_publishable_alert m = (\<not> publish_enabled m)"
  using assms by (auto simp: scopedModels_def card_actions_def detail_actions_def publish_enabled_def not_publishable_alert_def)

lemma catalog_link_opens:
  assumes "''catalog'' \<in> set (review_actions r)" "pq_catalogModelId r = Some i"
    and "CHR ''/'' \<notin> set i" "CHR ''?'' \<notin> set i" "CHR ''#'' \<notin> set i"
  shows "candidates (catalog_link r) = [Page ModelDetailPage]"
proof -
  have "i \<noteq> []" using assms(1, 2) by (auto simp: review_actions_def split: if_splits)
  moreover have "catalog_link r = model_link Public i" using assms(2) by (simp add: catalog_link_def model_link_def)
  ultimately show ?thesis
    using model_link_cut [of i Public] assms(3-5) by (simp add: candidates_cut route_table_def)
qed

end
