(* ===== verification/Inference_Forms.thy ===== *)
theory Inference_Forms
  imports Training_Form Model_Hub
begin

text \<open>
  The two forms of the inference pages: \<open>frontend/src/pages/inference/NewInferenceServiceModal.tsx\<close> for
  services and \<open>NewServingRuntimeModal.tsx\<close> for runtimes, with \<open>frontend/src/components/GPUProfileFields.tsx\<close>.
  What a form starts from, what its effects change while it is filled in, and what it submits. A field
  that is \<open>undefined\<close> and one that is empty are told apart only where the code does.
\<close>

subsection \<open>Words\<close>

text \<open>\<open>s.split(/\s+/).filter(Boolean)\<close>: the longest word a string starts with, and all of them.\<close>

fun word_split :: "string \<Rightarrow> string \<times> string" where
  "word_split [] = ([], [])"
| "word_split (c # s) =
     (if ws_width (c # s) \<noteq> 0 then ([], c # s) else let (w, r) = word_split s in (c # w, r))"

lemma word_split_length: "word_split s = (w, r) \<Longrightarrow> length s = length w + length r"
  by (induction s arbitrary: w r rule: word_split.induct) (auto split: prod.splits if_splits)

lemma skip_ws_length: "length (skip_ws s) \<le> length s"
proof (induction s rule: skip_ws.induct)
  case (1 s)
  then show ?case
    by (subst skip_ws.simps) (use le_trans diff_le_self in \<open>fastforce\<close>)
qed

lemma word_split_skip: "word_split (skip_ws s) = ([], r) \<Longrightarrow> skip_ws s = []"
proof -
  assume a: "word_split (skip_ws s) = ([], r)"
  have "ws_width (skip_ws s) = 0"
    by (induction s rule: skip_ws.induct) (subst skip_ws.simps, simp)
  with a show ?thesis by (cases "skip_ws s") (auto split: prod.splits)
qed

lemma word_rest_shorter: "word_split (skip_ws s) = (w, r) \<Longrightarrow> w \<noteq> [] \<Longrightarrow> length r < length s"
  using word_split_length [of "skip_ws s" w r] skip_ws_length [of s] by (cases w) auto

function js_words :: "string \<Rightarrow> string list" where
  "js_words s =
     (case word_split (skip_ws s) of (w, r) \<Rightarrow> if w = [] then [] else w # js_words r)"
  by auto
termination
  by (relation "measure length") (auto intro: word_rest_shorter [OF sym])

declare js_words.simps [simp del]

text \<open>A word of visible ASCII characters.\<close>

definition plain_word :: "string \<Rightarrow> bool" where
  "plain_word w \<longleftrightarrow> w \<noteq> [] \<and> list_all visible w"

lemma word_split_plain: "list_all visible w \<Longrightarrow> word_split w = (w, []) \<and> word_split (w @ CHR '' '' # s) = (w, CHR '' '' # s)"
  by (induction w) simp_all

lemma js_words_Nil [simp]: "js_words [] = []"
  by (simp add: js_words.simps [of "[]"])

lemma js_words_plain:
  assumes "plain_word w"
  shows "js_words w = [w]" "js_words (w @ CHR '' '' # s) = w # js_words s"
proof -
  have "skip_ws w = w" "skip_ws (w @ CHR '' '' # s) = w @ CHR '' '' # s"
    using assms by (cases w; simp add: plain_word_def)+
  moreover have "js_words (CHR '' '' # s) = js_words s"
    using js_words.simps [of "CHR '' '' # s"] js_words.simps [of s] by simp
  ultimately show "js_words w = [w]" "js_words (w @ CHR '' '' # s) = w # js_words s"
    using assms js_words.simps [of w] js_words.simps [of "w @ CHR '' '' # s"] by (simp_all add: plain_word_def word_split_plain)
qed

lemma js_words_join: "list_all plain_word ws \<Longrightarrow> js_words (join '' '' ws) = ws"
proof (induction ws)
  case (Cons w ws)
  then show ?case by (cases ws) (simp_all add: js_words_plain)
qed simp

subsection \<open>Accelerators\<close>

text \<open>The profile with the resource keys of a row; both key collections are sets.\<close>

definition matchProfile :: "GPUProfile list \<Rightarrow> 'v js_map option \<Rightarrow> string option" where
  "matchProfile profiles gpuValues =
     (let have = remdups (map fst (nullish gpuValues []))
      in if have = [] then None
         else map_option gp_id (find (\<lambda>p.
             let want = remdups (map gf_key (gp_fields p))
             in length want = length have \<and> list_all (\<lambda>k. k \<in> set have) want) profiles))"

text \<open>The values a profile starts with when it is chosen, and the fields then shown.\<close>

definition profile_number :: "field_value \<Rightarrow> js_num" where
  "profile_number v = (case v of FieldText t \<Rightarrow> js_Number t | FieldNumber d \<Rightarrow> Finite (fst d) (snd d))"

definition profile_values :: "GPUProfile list \<Rightarrow> string option \<Rightarrow> js_num js_map" where
  "profile_values profiles i =
     (case find (\<lambda>p. Some (gp_id p) = i) profiles of
        None \<Rightarrow> []
      | Some p \<Rightarrow> fold (\<lambda>f. js_put (gf_key f) (profile_number (gf_defaultValue f))) (gp_fields p) [])"

subsection \<open>The service form\<close>

record service_form =
  vf_name :: string
  vf_kind :: service_kind
  vf_runtime :: "string option"
  vf_deploymentMode :: "string option"
  vf_baseConfigs :: "string list option"
  vf_modelName :: "string option"
  vf_containerImage :: "string option"
  vf_modelUri :: string
  vf_replicas :: int
  vf_cpuRequest :: string
  vf_cpuLimit :: string
  vf_memoryRequest :: string
  vf_memoryLimit :: string
  vf_gpuProfileId :: "string option"
  vf_gpuValues :: "int js_map option"
  vf_env :: "(string \<times> string) list option"
  vf_command :: "string option"
  vf_args :: "string option"

definition baseDefaults :: service_form where
  "baseDefaults =
     \<lparr>vf_name = '''', vf_kind = LLMInferenceServiceKind, vf_runtime = Some '''', vf_deploymentMode = None,
      vf_baseConfigs = None, vf_modelName = None, vf_containerImage = None, vf_modelUri = '''', vf_replicas = 1,
      vf_cpuRequest = ''8'', vf_cpuLimit = ''8'', vf_memoryRequest = ''64Gi'', vf_memoryLimit = ''64Gi'',
      vf_gpuProfileId = None, vf_gpuValues = None, vf_env = None, vf_command = None, vf_args = None\<rparr>"

text \<open>
  The form of an existing service. The rows of the store have resources
  (\<open>fillServiceDefaults\<close>); \<open>or_int\<close> is \<open>a || b\<close> on numbers.
\<close>

definition or_int :: "int \<Rightarrow> int \<Rightarrow> int" where
  "or_int a b = (if a = 0 then b else a)"

definition defaultsFromService :: "GPUProfile list \<Rightarrow> InferenceService \<Rightarrow> service_form" where
  "defaultsFromService profiles svc =
     (let classic = is_kind svc = InferenceServiceKind; res = nullish (is_resources svc) no_resources
      in \<lparr>vf_name = obj_name svc, vf_kind = is_kind svc,
          vf_runtime = (if classic then is_runtime svc else None),
          vf_deploymentMode = (if classic then is_deploymentMode svc else None),
          vf_baseConfigs = is_baseConfigs svc, vf_modelName = is_modelName svc,
          vf_containerImage = is_containerImage svc, vf_modelUri = is_modelUri svc,
          vf_replicas = or_int (is_maxReplicas svc) (or_int (is_minReplicas svc) 1),
          vf_cpuRequest = nullish (is_cpuRequest svc) (res_cpu res),
          vf_cpuLimit = nullish (is_cpuLimit svc) (res_cpu res),
          vf_memoryRequest = nullish (is_memoryRequest svc) (res_memory res),
          vf_memoryLimit = nullish (is_memoryLimit svc) (res_memory res),
          vf_gpuProfileId = matchProfile profiles (is_gpuValues svc), vf_gpuValues = is_gpuValues svc,
          vf_env = is_env svc, vf_command = map_option (join '' '') (is_command svc),
          vf_args = map_option (join [CHR 0x0A]) (is_args svc)\<rparr>)"

text \<open>The form a model is published from: the four defaults its page gives, over the blank ones.\<close>

definition defaultsFromProps :: "service_defaults option \<Rightarrow> service_form" where
  "defaultsFromProps d =
     (case d of
        None \<Rightarrow> baseDefaults
      | Some v \<Rightarrow> baseDefaults
          \<lparr>vf_name := sd_name v, vf_kind := sd_kind v, vf_runtime := sd_runtime v, vf_modelUri := sd_modelUri v\<rparr>)"

definition service_initial :: "GPUProfile list \<Rightarrow> service_defaults option \<Rightarrow> InferenceService option \<Rightarrow> service_form" where
  "service_initial profiles d editing =
     (case editing of Some svc \<Rightarrow> defaultsFromService profiles svc | None \<Rightarrow> defaultsFromProps d)"

subsection \<open>Submission\<close>

text \<open>The accelerator values are sent only with a profile that exists.\<close>

definition chosen_gpuValues :: "GPUProfile list \<Rightarrow> string option \<Rightarrow> int js_map option \<Rightarrow> int js_map option" where
  "chosen_gpuValues profiles profileId values =
     (if list_ex (\<lambda>p. Some (gp_id p) = profileId) profiles then values else None)"

definition service_payload :: "GPUProfile list \<Rightarrow> service_form \<Rightarrow> CreateServiceRequest" where
  "service_payload profiles v =
     (let llm = vf_kind v = LLMInferenceServiceKind
      in \<lparr>sr_name = vf_name v, sr_kind = vf_kind v,
          sr_runtime = (if llm then None else vf_runtime v), sr_modelUri = vf_modelUri v,
          sr_replicas = vf_replicas v,
          sr_baseConfigs = (if llm then vf_baseConfigs v else None),
          sr_modelName = (if llm then vf_modelName v else None),
          sr_containerImage = (if llm then vf_containerImage v else None),
          sr_deploymentMode = (if llm then None else vf_deploymentMode v),
          sr_cpuRequest = vf_cpuRequest v, sr_cpuLimit = Some (vf_cpuLimit v),
          sr_memoryRequest = vf_memoryRequest v, sr_memoryLimit = Some (vf_memoryLimit v),
          sr_gpuValues = chosen_gpuValues profiles (vf_gpuProfileId v) (vf_gpuValues v), sr_env = vf_env v,
          sr_command = (if truthy_str (vf_command v) then Some (js_words (nullish (vf_command v) '''')) else None),
          sr_args = (if truthy_str (vf_args v) then Some (linesToArray (vf_args v)) else None)\<rparr>)"

text \<open>A submission: the message and the store after it; after an error the dialog stays open.\<close>

definition service_submitted ::
  "bool \<Rightarrow> 'r backend \<Rightarrow> string \<Rightarrow> string \<Rightarrow> GPUProfile list \<Rightarrow> InferenceService option \<Rightarrow> service_form \<Rightarrow>
     inference \<Rightarrow> string promise \<times> inference" where
  "service_submitted api send today ns profiles editing v s =
     (let (r, s', msg) = (case editing of
          Some svc \<Rightarrow>
            (case updateInferenceService api send ns (obj_name svc) (service_payload profiles v) s of
               (r, s') \<Rightarrow> (r, s', ''Inference service updated''))
        | None \<Rightarrow>
            (case createInferenceService api send today ns (service_payload profiles v) s of
               (r, s') \<Rightarrow> (r, s', ''Inference service created'')))
      in (case r of Inl e \<Rightarrow> (Inl e, s') | Inr _ \<Rightarrow> (Inr msg, s')))"

subsection \<open>Saving an untouched form\<close>

definition plain_line :: "string \<Rightarrow> bool" where
  "plain_line a \<longleftrightarrow> a \<noteq> [] \<and> CHR 0x0A \<notin> set a \<and> trim a = a"

lemma join_eq_Nil: "ws \<noteq> [] \<Longrightarrow> list_all (\<lambda>w. w \<noteq> []) ws \<Longrightarrow> join sep ws \<noteq> []"
  by (cases "(sep, ws)" rule: join.cases) auto

lemma lines_join:
  assumes "ws \<noteq> []" "list_all plain_line ws"
  shows "linesToArray (Some (join [CHR 0x0A] ws)) = ws"
proof -
  have "split_on (CHR 0x0A) (join [CHR 0x0A] ws) = ws"
    using assms by (intro split_on_join) (auto simp: list_all_iff plain_line_def)
  moreover have "map trim ws = ws" "filter (\<lambda>x. x \<noteq> []) ws = ws"
    using assms(2) by (auto simp: list_all_iff plain_line_def intro: map_idI)
  moreover have "join [CHR 0x0A] ws \<noteq> []"
    using assms by (intro join_eq_Nil) (auto simp: list_all_iff plain_line_def)
  ultimately show ?thesis by (simp add: linesToArray_def)
qed

lemma match_found: "matchProfile profiles g = Some i \<Longrightarrow> list_ex (\<lambda>p. Some (gp_id p) = Some i) profiles"
  by (auto simp: matchProfile_def Let_def list_ex_iff find_Some_iff split: if_splits)

text \<open>
  A service as these forms write it: fields of the other kind are unset, its replica bounds agree, its
  resources are its requests, an accelerator belongs to a profile, and command words and arguments
  survive being shown as text.
\<close>

definition form_service :: "GPUProfile list \<Rightarrow> InferenceService \<Rightarrow> bool" where
  "form_service profiles x \<longleftrightarrow>
     obj_id x \<noteq> [] \<and> 1 \<le> is_maxReplicas x \<and> is_minReplicas x = is_maxReplicas x \<and>
     (if is_kind x = LLMInferenceServiceKind then is_deploymentMode x = None
      else is_baseConfigs x = None \<and> is_modelName x = None \<and> is_containerImage x = None) \<and>
     (case is_resources x of
        None \<Rightarrow> False
      | Some r \<Rightarrow> is_cpuRequest x = Some (res_cpu r) \<and> is_memoryRequest x = Some (res_memory r) \<and>
          (case Option.bind (is_gpuValues x) (\<lambda>m. map_of m ''nvidia.com/gpu'') of Some n \<Rightarrow> res_gpu r = n | None \<Rightarrow> True)) \<and>
     is_cpuLimit x \<noteq> None \<and> is_memoryLimit x \<noteq> None \<and>
     (is_gpuValues x = None \<or> matchProfile profiles (is_gpuValues x) \<noteq> None) \<and>
     (case is_command x of None \<Rightarrow> True | Some ws \<Rightarrow> ws \<noteq> [] \<and> list_all plain_word ws) \<and>
     (case is_args x of None \<Rightarrow> True | Some ws \<Rightarrow> ws \<noteq> [] \<and> list_all plain_line ws)"

lemma command_shown:
  "(case c of None \<Rightarrow> True | Some ws \<Rightarrow> ws \<noteq> [] \<and> list_all plain_word ws) \<Longrightarrow>
   (if truthy_str (map_option (join '' '') c) then Some (js_words (nullish (map_option (join '' '') c) '''')) else None) = c"
  using join_eq_Nil [of _ "'' ''"] by (auto simp: js_words_join list_all_iff plain_word_def split: option.splits)

lemma args_shown:
  "(case c of None \<Rightarrow> True | Some ws \<Rightarrow> ws \<noteq> [] \<and> list_all plain_line ws) \<Longrightarrow>
   (if truthy_str (map_option (join [CHR 0x0A]) c) then Some (linesToArray (map_option (join [CHR 0x0A]) c)) else None) = c"
  using join_eq_Nil [of _ "[CHR 0x0A]"] by (auto simp: lines_join list_all_iff plain_line_def split: option.splits)

lemma nullish_opt_same: "nullish_opt a a = a"
  by (cases a) simp_all

lemma or_str_left: "b \<noteq> [] \<Longrightarrow> or_str b c = b"
  by (simp add: or_str_def)

lemma gpu_shown:
  "g = None \<or> matchProfile profiles g \<noteq> None \<Longrightarrow> chosen_gpuValues profiles (matchProfile profiles g) g = g"
  using match_found [of profiles g] by (auto simp: chosen_gpuValues_def)

text \<open>What the form reads off such a service is what the service is.\<close>

lemma untouched_payload:
  assumes "form_service profiles x"
  shows "service_payload profiles (defaultsFromService profiles x) =
    \<lparr>sr_name = obj_name x, sr_kind = is_kind x,
     sr_runtime = (if is_kind x = InferenceServiceKind then is_runtime x else None), sr_modelUri = is_modelUri x,
     sr_replicas = is_maxReplicas x, sr_baseConfigs = is_baseConfigs x, sr_modelName = is_modelName x,
     sr_containerImage = is_containerImage x, sr_deploymentMode = is_deploymentMode x,
     sr_cpuRequest = nullish (is_cpuRequest x) '''', sr_cpuLimit = is_cpuLimit x,
     sr_memoryRequest = nullish (is_memoryRequest x) '''', sr_memoryLimit = is_memoryLimit x,
     sr_gpuValues = is_gpuValues x, sr_env = is_env x, sr_command = is_command x, sr_args = is_args x\<rparr>"
proof -
  have c: "(case is_command x of None \<Rightarrow> True | Some ws \<Rightarrow> ws \<noteq> [] \<and> list_all plain_word ws)"
    and a: "(case is_args x of None \<Rightarrow> True | Some ws \<Rightarrow> ws \<noteq> [] \<and> list_all plain_line ws)"
    and g: "is_gpuValues x = None \<or> matchProfile profiles (is_gpuValues x) \<noteq> None"
    using assms by (simp_all add: form_service_def)
  from assms obtain r l l' where "is_resources x = Some r" "is_cpuRequest x = Some (res_cpu r)"
      "is_memoryRequest x = Some (res_memory r)" "is_cpuLimit x = Some l" "is_memoryLimit x = Some l'"
    by (auto simp: form_service_def split: option.splits)
  then show ?thesis
    using assms command_shown [OF c] args_shown [OF a] gpu_shown [OF g]
    by (cases "is_kind x")
      (auto simp: service_payload_def defaultsFromService_def Let_def or_int_def form_service_def split: if_splits)
qed


definition gpu_profile :: GPUProfile where
  "gpu_profile =
     \<lparr>gp_id = ''p1'', gp_name = ''NVIDIA'', gp_kind = GpuNvidia, gp_description = '''',
      gp_fields = [\<lparr>gf_key = ''nvidia.com/gpu'', gf_label = ''GPUs'', gf_unit = None, gf_defaultValue = FieldNumber (1, 0),
        gf_step = None, gf_min = None, gf_max = None\<rparr>], gp_builtin = True\<rparr>"

definition sample_service :: InferenceService where
  "sample_service =
     \<lparr>obj_id = ''s1'', obj_name = ''qwen'', obj_namespace = ''team'', is_kind = InferenceServiceKind,
      is_runtime = Some ''vllm'', is_modelUri = ''hf://Qwen/Qwen3'', is_minReplicas = 2, is_maxReplicas = 2,
      is_resources = Some \<lparr>res_cpu = ''8'', res_memory = ''64Gi'', res_gpu = 1\<rparr>,
      is_cpuRequest = Some ''8'', is_cpuLimit = Some ''16'', is_memoryRequest = Some ''64Gi'', is_memoryLimit = Some ''64Gi'',
      is_gpuProfileId = None, is_gpuValues = Some [(''nvidia.com/gpu'', 1)], is_baseConfigs = None, is_modelName = None,
      is_containerImage = None, is_env = Some [(''A'', ''b c'')], is_command = Some [''python'', ''-m'', ''serve''],
      is_args = Some [''--max-model-len'', ''32768''], is_endpoint = None, is_status = SvReady, is_stopped = None,
      is_deploymentMode = Some ''Standard'', is_createdAt = ''d''\<rparr>"

lemma sample_service_form: "form_service [gpu_profile] sample_service"
  by code_simp


text \<open>
  What an untouched form does not keep: the lower bound of an autoscaled service; accelerators whose keys
  no profile has; a command word with a space in it, which comes back as several.
\<close>

lemma autoscaling_lost:
  assumes "0 < is_minReplicas x" "is_minReplicas x < is_maxReplicas x"
  shows "is_minReplicas (apply_service_update (obj_name x) (service_payload profiles (defaultsFromService profiles x)) x) =
    is_maxReplicas x"
  using assms by (simp add: apply_service_update_def fillServiceDefaults_def service_payload_def defaultsFromService_def
      or_int_def Let_def)

lemma unknown_accelerators_lost:
  assumes "matchProfile profiles (is_gpuValues x) = None"
  shows "is_gpuValues (apply_service_update (obj_name x) (service_payload profiles (defaultsFromService profiles x)) x) = None"
  using assms by (auto simp: apply_service_update_def fillServiceDefaults_def service_payload_def defaultsFromService_def
      chosen_gpuValues_def list_ex_iff Let_def)

lemma command_words_split:
  "sr_command (service_payload profiles
     (defaultsFromService profiles (sample_service\<lparr>is_command := Some [''sh'', ''-c'', ''python serve.py'']\<rparr>))) =
   Some [''sh'', ''-c'', ''python'', ''serve.py'']"
proof -
  have "js_words ''sh -c python serve.py'' = [''sh'', ''-c'', ''python'', ''serve.py'']"
    using js_words_join [of "[''sh'', ''-c'', ''python'', ''serve.py'']"] by (simp add: plain_word_def)
  then show ?thesis by (simp add: service_payload_def defaultsFromService_def Let_def)
qed

subsection \<open>Filling in the service form\<close>

text \<open>
  The dialog: the initial values with the number of times they were computed (a new object each time
  the defaults, the service or the profiles are new), the cluster's default mode, the form, and what the
  last render saw of it - kind and requests - which is nothing while the fields are not mounted.
\<close>

record service_dialog =
  nd_open :: bool
  nd_editing :: bool
  nd_initial :: service_form
  nd_initialRun :: nat
  nd_default :: string
  nd_form :: service_form
  nd_watched :: "(service_kind \<times> string \<times> string) option"

definition watch :: "service_dialog \<Rightarrow> service_dialog" where
  "watch s = s\<lparr>nd_watched := if nd_open s
     then Some (vf_kind (nd_form s), vf_cpuRequest (nd_form s), vf_memoryRequest (nd_form s)) else None\<rparr>"

definition is_llm :: "service_dialog \<Rightarrow> bool" where
  "is_llm s \<longleftrightarrow>
     (case nd_watched s of Some (k, _) \<Rightarrow> k | None \<Rightarrow> vf_kind (nd_initial s)) = LLMInferenceServiceKind"

definition watched_requests :: "service_dialog \<Rightarrow> (string \<times> string) option" where
  "watched_requests s = map_option snd (nd_watched s)"

text \<open>
  The effects of a commit, in order. Whether one runs, and what it copies, is of the render (\<open>old\<close>, \<open>cur\<close>);
  the fields it looks at are the form's own by then (\<open>v\<close>).
\<close>

definition mode_due :: "service_dialog \<Rightarrow> service_dialog \<Rightarrow> bool" where
  "mode_due old cur \<longleftrightarrow>
     (nd_open cur, is_llm cur, nd_default cur) \<noteq> (nd_open old, is_llm old, nd_default old) \<and>
     nd_open cur \<and> \<not> is_llm cur \<and> \<not> nd_editing cur"

definition set_mode :: "string \<Rightarrow> service_form \<Rightarrow> service_form" where
  "set_mode m v = v\<lparr>vf_deploymentMode := if truthy_str (vf_deploymentMode v) then vf_deploymentMode v else Some m\<rparr>"

definition mode_effect :: "service_dialog \<Rightarrow> service_dialog \<Rightarrow> service_form \<Rightarrow> service_form" where
  "mode_effect old cur v = (if mode_due old cur then set_mode (nd_default cur) v else v)"

definition reset_due :: "service_dialog \<Rightarrow> service_dialog \<Rightarrow> bool" where
  "reset_due old cur \<longleftrightarrow> (nd_open cur, nd_initialRun cur) \<noteq> (nd_open old, nd_initialRun old) \<and> nd_open cur"

definition reset_effect :: "service_dialog \<Rightarrow> service_dialog \<Rightarrow> service_form \<Rightarrow> service_form" where
  "reset_effect old cur v = (if reset_due old cur then nd_initial cur else v)"

definition limits_due :: "service_dialog \<Rightarrow> service_dialog \<Rightarrow> bool" where
  "limits_due old cur \<longleftrightarrow>
     (watched_requests cur, nd_open cur) \<noteq> (watched_requests old, nd_open old) \<and> nd_open cur \<and> \<not> nd_editing cur"

definition fill_limits :: "string \<times> string \<Rightarrow> service_form \<Rightarrow> service_form" where
  "fill_limits r v =
     v\<lparr>vf_cpuLimit := or_str (vf_cpuLimit v) (fst r), vf_memoryLimit := or_str (vf_memoryLimit v) (snd r)\<rparr>"

definition limits_effect :: "service_dialog \<Rightarrow> service_dialog \<Rightarrow> service_form \<Rightarrow> service_form" where
  "limits_effect old cur v =
     (if limits_due old cur then fill_limits (nullish (watched_requests cur) ([], [])) v else v)"

definition dialog_commit :: "service_dialog \<Rightarrow> service_dialog \<Rightarrow> service_dialog" where
  "dialog_commit old cur =
     watch (cur\<lparr>nd_form := limits_effect old cur (reset_effect old cur (mode_effect old cur (nd_form cur)))\<rparr>)"

text \<open>A change and the commits it leads to; a third finds nothing left to do (\<open>dialog_stable\<close>).\<close>

definition dialog_rendered :: "service_dialog \<Rightarrow> service_dialog \<Rightarrow> service_dialog" where
  "dialog_rendered old s = (let s1 = dialog_commit old s in dialog_commit s s1)"

definition dialog_opened :: "service_dialog \<Rightarrow> service_dialog" where
  "dialog_opened s = dialog_rendered s (s\<lparr>nd_open := True\<rparr>)"

definition form_changed :: "(service_form \<Rightarrow> service_form) \<Rightarrow> service_dialog \<Rightarrow> service_dialog" where
  "form_changed f s = dialog_rendered s (watch (s\<lparr>nd_form := f (nd_form s)\<rparr>))"

definition initial_recomputed :: "service_form \<Rightarrow> service_dialog \<Rightarrow> service_dialog" where
  "initial_recomputed v s = dialog_rendered s (s\<lparr>nd_initial := v, nd_initialRun := Suc (nd_initialRun s)\<rparr>)"

definition modes_loaded :: "string \<Rightarrow> service_dialog \<Rightarrow> service_dialog" where
  "modes_loaded m s = dialog_rendered s (s\<lparr>nd_default := m\<rparr>)"

subsection \<open>Properties of the service form\<close>

lemma watch_frame [simp]:
  "nd_open (watch s) = nd_open s" "nd_editing (watch s) = nd_editing s" "nd_initial (watch s) = nd_initial s"
  "nd_initialRun (watch s) = nd_initialRun s" "nd_default (watch s) = nd_default s" "nd_form (watch s) = nd_form s"
  by (simp_all add: watch_def)

lemma commit_frame [simp]:
  "nd_open (dialog_commit old s) = nd_open s" "nd_editing (dialog_commit old s) = nd_editing s"
  "nd_initial (dialog_commit old s) = nd_initial s" "nd_initialRun (dialog_commit old s) = nd_initialRun s"
  "nd_default (dialog_commit old s) = nd_default s"
  "nd_form (dialog_commit old s) = limits_effect old s (reset_effect old s (mode_effect old s (nd_form s)))"
  by (simp_all add: dialog_commit_def)

lemma watched_of:
  "watched_requests (watch s) = (if nd_open s then Some (vf_cpuRequest (nd_form s), vf_memoryRequest (nd_form s)) else None)"
  "is_llm (watch s) = ((if nd_open s then vf_kind (nd_form s) else vf_kind (nd_initial s)) = LLMInferenceServiceKind)"
  by (simp_all add: watched_requests_def is_llm_def watch_def)

lemma watched_commit:
  "nd_open s \<Longrightarrow> watched_requests (dialog_commit old s) =
     Some (vf_cpuRequest (nd_form (dialog_commit old s)), vf_memoryRequest (nd_form (dialog_commit old s)))"
  "nd_open s \<Longrightarrow> is_llm (dialog_commit old s) = (vf_kind (nd_form (dialog_commit old s)) = LLMInferenceServiceKind)"
  by (simp_all add: dialog_commit_def watched_of)

text \<open>Filling in changes neither the kind nor the requests.\<close>

lemma filled_fields [simp]:
  "vf_kind (mode_effect old cur v) = vf_kind v" "vf_kind (limits_effect old cur v) = vf_kind v"
  "vf_cpuRequest (mode_effect old cur v) = vf_cpuRequest v" "vf_cpuRequest (limits_effect old cur v) = vf_cpuRequest v"
  "vf_memoryRequest (mode_effect old cur v) = vf_memoryRequest v"
  "vf_memoryRequest (limits_effect old cur v) = vf_memoryRequest v"
  by (simp_all add: mode_effect_def set_mode_def limits_effect_def fill_limits_def)

text \<open>Nothing is due once nothing an effect depends on has changed.\<close>

lemma nothing_due:
  assumes "nd_open s = nd_open t" "nd_initialRun s = nd_initialRun t" "nd_default s = nd_default t"
    "is_llm s = is_llm t" "watched_requests s = watched_requests t"
  shows "mode_effect s t v = v" "reset_effect s t v = v" "limits_effect s t v = v"
  using assms by (simp_all add: mode_effect_def mode_due_def reset_effect_def reset_due_def limits_effect_def limits_due_def)

lemma no_reset: "nd_open s = nd_open t \<Longrightarrow> nd_initialRun s = nd_initialRun t \<Longrightarrow> reset_effect s t v = v"
  by (simp add: reset_effect_def reset_due_def)

lemma dialog_stable:
  assumes "nd_open s" "s1 = dialog_commit old s" "s2 = dialog_commit s s1"
  shows "nd_form (dialog_commit s1 s2) = nd_form s2"
proof -
  have "reset_effect s s1 v = v" for v
    using assms(2) by (intro no_reset) simp_all
  then have "is_llm s1 = is_llm s2" "watched_requests s1 = watched_requests s2"
    using assms watched_commit [of s old] watched_commit [of s1 s] by simp_all
  then have "mode_effect s1 s2 v = v" "reset_effect s1 s2 v = v" "limits_effect s1 s2 v = v" for v
    using assms by (intro nothing_due; simp)+
  then show ?thesis by (simp only: commit_frame)
qed

text \<open>The form after a change to an open dialog.\<close>

lemma form_changed_form:
  assumes "nd_open s" "t = watch (s\<lparr>nd_form := f (nd_form s)\<rparr>)"
  shows "nd_form (form_changed f s) = limits_effect s t (mode_effect s t (f (nd_form s)))"
proof -
  define t1 where "t1 = dialog_commit s t"
  have r: "reset_effect s t v = v" "reset_effect t t1 v = v" for v
    using assms(2) by (auto intro!: no_reset simp: t1_def)
  then have form1: "nd_form t1 = limits_effect s t (mode_effect s t (f (nd_form s)))"
    using assms(2) by (simp add: t1_def)
  then have "is_llm t = is_llm t1" "watched_requests t = watched_requests t1"
    using assms watched_commit [of t s] by (simp_all add: t1_def watched_of)
  then have "mode_effect t t1 v = v" "limits_effect t t1 v = v" for v
    using assms by (intro nothing_due; simp add: t1_def)+
  then have "nd_form (dialog_commit t t1) = nd_form t1" using r by simp
  then show ?thesis
    unfolding form_changed_def dialog_rendered_def Let_def using form1 by (simp only: assms(2) [symmetric] t1_def)
qed


definition sample_dialog :: service_dialog where
  "sample_dialog = watch
     \<lparr>nd_open = True, nd_editing = False, nd_initial = baseDefaults, nd_initialRun = 1, nd_default = ''Standard'',
      nd_form = baseDefaults\<lparr>vf_cpuLimit := []\<rparr>, nd_watched = None\<rparr>"

definition sample_typed :: "service_form \<Rightarrow> service_form" where
  "sample_typed v = v\<lparr>vf_kind := InferenceServiceKind, vf_cpuRequest := ''16''\<rparr>"


text \<open>
  Opened, the form holds its initial values, the limits of a new service filled in. It does not hold the
  cluster's default mode, which the effect before the reset had put there: a model published as a classic
  service starts without one.
\<close>

lemma opened_form:
  assumes "\<not> nd_open s" "nd_watched s = None"
  shows "nd_form (dialog_opened s) =
    (if nd_editing s then nd_initial s
     else fill_limits (vf_cpuRequest (nd_initial s), vf_memoryRequest (nd_initial s)) (fill_limits ([], []) (nd_initial s)))"
proof -
  define t where "t = s\<lparr>nd_open := True\<rparr>"
  define t1 where "t1 = dialog_commit s t"
  have tf: "nd_open t" "nd_editing t = nd_editing s" by (simp_all add: t_def)
  have r: "reset_effect s t v = nd_initial s" "reset_effect t t1 v = v" for v
    using assms by (simp_all add: t_def t1_def reset_effect_def reset_due_def)
  have w: "watched_requests t = None" "is_llm t = (vf_kind (nd_initial s) = LLMInferenceServiceKind)"
    using assms by (simp_all add: t_def watched_requests_def is_llm_def)
  have form1: "nd_form t1 = (if nd_editing s then nd_initial s else fill_limits ([], []) (nd_initial s))"
    using assms w(1) tf by (simp add: t1_def r(1) limits_effect_def limits_due_def)
  have req: "watched_requests t1 = Some (vf_cpuRequest (nd_initial s), vf_memoryRequest (nd_initial s))"
    and "is_llm t1 = is_llm t"
    using w watched_commit [of t s] r(1) by (simp_all add: t1_def t_def)
  then have "mode_effect t t1 v = v" for v
    by (simp add: mode_effect_def mode_due_def t1_def)
  then have "nd_form (dialog_commit t t1) = limits_effect t t1 (nd_form t1)" using r(2) by simp
  also have "\<dots> = (if nd_editing s then nd_initial s
     else fill_limits (vf_cpuRequest (nd_initial s), vf_memoryRequest (nd_initial s)) (fill_limits ([], []) (nd_initial s)))"
    using req w(1) form1 tf by (simp add: limits_effect_def limits_due_def t1_def)
  finally show ?thesis
    by (simp only: dialog_opened_def dialog_rendered_def Let_def t_def t1_def)
qed

lemma published_without_mode:
  assumes "\<not> nd_open s" "nd_watched s = None" "nd_initial s = defaultsFromProps d"
  shows "vf_deploymentMode (nd_form (dialog_opened s)) = None"
  using assms(3) opened_form [OF assms(1, 2)]
  by (simp add: defaultsFromProps_def baseDefaults_def fill_limits_def split: option.splits)

text \<open>
  When the initial values are computed anew while the form is open - which the loads the dialog starts
  bring about - the first commit puts them in place of everything filled in.
\<close>

lemma recomputed_discards:
  assumes "nd_open s" "nd_editing s" "t = s\<lparr>nd_initial := v, nd_initialRun := Suc (nd_initialRun s)\<rparr>"
  shows "nd_form (dialog_commit s t) = v"
  using assms by (simp add: reset_effect_def reset_due_def limits_effect_def limits_due_def)

text \<open>A limit once filled in does not follow the request.\<close>

lemma limit_stays_behind:
  assumes "nd_open s" "vf_cpuLimit (nd_form s) \<noteq> []"
  shows "vf_cpuLimit (nd_form (form_changed (\<lambda>v. v\<lparr>vf_cpuRequest := q\<rparr>) s)) = vf_cpuLimit (nd_form s)"
proof -
  define t where "t = watch (s\<lparr>nd_form := (nd_form s)\<lparr>vf_cpuRequest := q\<rparr>\<rparr>)"
  have "nd_form (form_changed (\<lambda>v. v\<lparr>vf_cpuRequest := q\<rparr>) s) =
      limits_effect s t (mode_effect s t ((nd_form s)\<lparr>vf_cpuRequest := q\<rparr>))"
    by (rule form_changed_form [OF assms(1)]) (simp add: t_def)
  then show ?thesis
    using assms(2) by (simp add: limits_effect_def mode_effect_def fill_limits_def set_mode_def or_str_def)
qed

subsection \<open>The runtime form\<close>

record runtime_form =
  ru_name :: string
  ru_runtime :: string
  ru_image :: string
  ru_supportedModelFormats :: "string list option"
  ru_defaultArgs :: "string option"
  ru_securityContext :: RuntimeSecurityContext
  ru_cpuRequest :: string
  ru_cpuLimit :: string
  ru_memoryRequest :: string
  ru_memoryLimit :: string
  ru_gpuProfileId :: "string option"
  ru_gpuValues :: "int js_map option"

definition formatArgs :: "string list \<Rightarrow> string" where
  "formatArgs args = join [CHR 0x0A] args"

definition defaultArgsForRuntime :: "string \<Rightarrow> string" where
  "defaultArgsForRuntime family = formatArgs (defaultArgsForRuntimeFamily family)"

definition blankRuntime :: runtime_form where
  "blankRuntime =
     \<lparr>ru_name = '''', ru_runtime = ''vllm'', ru_image = '''', ru_supportedModelFormats = Some [''huggingface''],
      ru_defaultArgs = Some (defaultArgsForRuntime ''vllm''), ru_securityContext = defaultRuntimeSecurityContext,
      ru_cpuRequest = ''8'', ru_cpuLimit = ''8'', ru_memoryRequest = ''64Gi'', ru_memoryLimit = ''64Gi'',
      ru_gpuProfileId = None, ru_gpuValues = None\<rparr>"

definition defaultsFromRuntime :: "GPUProfile list \<Rightarrow> ServingRuntime \<Rightarrow> runtime_form" where
  "defaultsFromRuntime profiles sr =
     (let res = nullish (rt_resources sr) no_resources
      in \<lparr>ru_name = obj_name sr, ru_runtime = rt_runtime sr, ru_image = rt_image sr,
          ru_supportedModelFormats = rt_supportedModelFormats sr,
          ru_defaultArgs = Some (or_str (formatArgs (nullish (rt_defaultArgs sr) [])) (defaultArgsForRuntime (rt_runtime sr))),
          ru_securityContext = nullish (rt_securityContext sr) defaultRuntimeSecurityContext,
          ru_cpuRequest = nullish (rt_cpuRequest sr) (res_cpu res), ru_cpuLimit = nullish (rt_cpuLimit sr) (res_cpu res),
          ru_memoryRequest = nullish (rt_memoryRequest sr) (res_memory res),
          ru_memoryLimit = nullish (rt_memoryLimit sr) (res_memory res),
          ru_gpuProfileId = matchProfile profiles (rt_gpuValues sr), ru_gpuValues = rt_gpuValues sr\<rparr>)"

text \<open>
  The effect of the runtime family, when it changes or the dialog opens: arguments that are empty, or a
  family's defaults, become the defaults of the family chosen.
\<close>

definition known_default_args :: "string list" where
  "known_default_args = map (\<lambda>(_, args). trim (formatArgs args)) defaultServingRuntimeArgs"

definition family_effect :: "string \<Rightarrow> runtime_form \<Rightarrow> runtime_form" where
  "family_effect family v =
     (let current = trim (nullish (ru_defaultArgs v) '''')
      in if current = [] \<or> current \<in> set known_default_args
         then v\<lparr>ru_defaultArgs := Some (defaultArgsForRuntime family)\<rparr> else v)"

definition runtime_limits :: "string \<times> string \<Rightarrow> runtime_form \<Rightarrow> runtime_form" where
  "runtime_limits r v =
     v\<lparr>ru_cpuLimit := or_str (ru_cpuLimit v) (fst r), ru_memoryLimit := or_str (ru_memoryLimit v) (snd r)\<rparr>"

definition family_chosen :: "string \<Rightarrow> runtime_form \<Rightarrow> runtime_form" where
  "family_chosen family v = (if family = ru_runtime v then v else family_effect family (v\<lparr>ru_runtime := family\<rparr>))"

definition runtime_payload :: "GPUProfile list \<Rightarrow> runtime_form \<Rightarrow> CreateRuntimeRequest" where
  "runtime_payload profiles v =
     \<lparr>cr_name = ru_name v, cr_image = ru_image v, cr_runtime = Some (ru_runtime v),
      cr_supportedModelFormats = ru_supportedModelFormats v,
      cr_args = Some (linesToArray (Some (nullish (ru_defaultArgs v) ''''))),
      cr_securityContext = Some (ru_securityContext v), cr_cpuRequest = Some (ru_cpuRequest v),
      cr_cpuLimit = Some (ru_cpuLimit v), cr_memoryRequest = Some (ru_memoryRequest v),
      cr_memoryLimit = Some (ru_memoryLimit v),
      cr_gpuValues = chosen_gpuValues profiles (ru_gpuProfileId v) (ru_gpuValues v), cr_gpuLimit = None\<rparr>"

text \<open>Opening it runs both effects, first without and then with the values of the form.\<close>

definition runtime_opened :: "runtime_form \<Rightarrow> runtime_form" where
  "runtime_opened v =
     runtime_limits (ru_cpuRequest v, ru_memoryRequest v)
       (family_effect (ru_runtime v) (runtime_limits ([], []) (family_effect '''' v)))"

text \<open>What submitting does; the YAML mode is one of creating only.\<close>

definition runtime_submitted ::
  "bool \<Rightarrow> unit backend \<Rightarrow> string \<Rightarrow> string \<Rightarrow> GPUProfile list \<Rightarrow> ServingRuntime option \<Rightarrow> bool \<Rightarrow> string \<Rightarrow>
     runtime_form \<Rightarrow> inference \<Rightarrow> string promise \<times> inference" where
  "runtime_submitted api send today ns profiles editing yaml_mode yamlText v s =
     (case editing of
        None \<Rightarrow>
          if yaml_mode then
            (if trim yamlText = [] then (Inl (JsError ''YAML cannot be empty''), s)
             else (case send (createNamespacedYaml Servingruntimes ns (trim yamlText)) of
                 Inl e \<Rightarrow> (Inl e, s)
               | Inr _ \<Rightarrow> (Inr ''Runtime created from YAML'', reloadRuntimes api ns s)))
          else (case createServingRuntime api send today ns (runtime_payload profiles v) s of
             (Inl e, s') \<Rightarrow> (Inl e, s')
           | (Inr _, s') \<Rightarrow> (Inr ''Runtime created'', s'))
      | Some sr \<Rightarrow>
          (case updateServingRuntime api send ns (obj_name sr) (runtime_payload profiles v) s of
             (Inl e, s') \<Rightarrow> (Inl e, s')
           | (Inr _, s') \<Rightarrow> (Inr ''Runtime updated'', s')))"

subsection \<open>Properties of the runtime form\<close>

lemma known_args_text:
  "known_default_args = map defaultArgsForRuntime [''vllm'', ''sglang'']" "[] \<notin> set known_default_args"
  by code_simp+

text \<open>
  C30. Choosing a runtime family writes its default arguments in place of none or of those of another family,
  and leaves arguments of the user's own alone; what a form with the defaults of a family submits is
  those defaults, argument by argument.
\<close>

theorem family_defaults_follow:
  assumes "family \<noteq> ru_runtime v" "current = trim (nullish (ru_defaultArgs v) '''')"
  shows "(ru_defaultArgs (family_chosen family v) =
      (if current = [] \<or> current = defaultArgsForRuntime ''vllm'' \<or> current = defaultArgsForRuntime ''sglang''
       then Some (defaultArgsForRuntime family) else ru_defaultArgs v)) \<and>
    (\<exists>a. (family_chosen family v)\<lparr>ru_runtime := ru_runtime v, ru_defaultArgs := a\<rparr> = v \<and> ru_runtime (family_chosen family v) = family) \<and>
    cr_args (runtime_payload profiles (v\<lparr>ru_defaultArgs := Some (defaultArgsForRuntime family)\<rparr>)) =
      Some (defaultArgsForRuntimeFamily family)"
proof -
  have lines: "linesToArray (Some (defaultArgsForRuntime family)) = defaultArgsForRuntimeFamily family"
  proof (cases "family \<in> {''vllm'', ''sglang''}")
    case True
    have "linesToArray (Some (defaultArgsForRuntime ''vllm'')) = defaultArgsForRuntimeFamily ''vllm''"
      "linesToArray (Some (defaultArgsForRuntime ''sglang'')) = defaultArgsForRuntimeFamily ''sglang''" by code_simp+
    then show ?thesis using True by auto
  next
    case False
    then show ?thesis
      by (auto simp: defaultArgsForRuntime_def defaultArgsForRuntimeFamily_def defaultServingRuntimeArgs_def formatArgs_def linesToArray_def)
  qed
  show ?thesis
    using assms lines
    by (intro conjI exI [of _ "ru_defaultArgs v"])
      (simp_all add: family_chosen_def family_effect_def Let_def runtime_payload_def known_args_text(1))
qed

theorem family_defaults_follow_witness:
  "cr_args (runtime_payload [] (family_chosen ''sglang'' blankRuntime)) = Some (defaultArgsForRuntimeFamily ''sglang'')"
proof -
  have "trim (nullish (ru_defaultArgs blankRuntime) []) = defaultArgsForRuntime ''vllm''" by code_simp
  moreover have "''sglang'' \<noteq> ru_runtime blankRuntime" by (simp add: blankRuntime_def)
  note family_defaults_follow [OF this refl, of "[]"]
  ultimately have "ru_defaultArgs (family_chosen ''sglang'' blankRuntime) = Some (defaultArgsForRuntime ''sglang'')"
    "cr_args (runtime_payload [] (blankRuntime\<lparr>ru_defaultArgs := Some (defaultArgsForRuntime ''sglang'')\<rparr>)) =
      Some (defaultArgsForRuntimeFamily ''sglang'')" by simp_all
  then show ?thesis by (simp add: runtime_payload_def)
qed

text \<open>
  A runtime of no known family that has the default arguments of a known one loses them when its form is
  opened and saved; one without arguments gets its family's.
\<close>

lemma custom_runtime_loses_args:
  assumes "rt_runtime sr = ''custom''" "rt_defaultArgs sr = Some (defaultArgsForRuntimeFamily ''vllm'')"
  shows "cr_args (runtime_payload profiles (runtime_opened (defaultsFromRuntime profiles sr))) = Some []"
proof -
  have "formatArgs (defaultArgsForRuntimeFamily ''vllm'') = defaultArgsForRuntime ''vllm''"
    by (simp add: defaultArgsForRuntime_def)
  moreover have "defaultArgsForRuntime ''vllm'' \<noteq> []" "trim (defaultArgsForRuntime ''vllm'') = defaultArgsForRuntime ''vllm''"
    "defaultArgsForRuntime [] = []" "defaultArgsForRuntime ''custom'' = []" "trim [] = []"
    by code_simp+
  ultimately show ?thesis
    using assms
    by (simp add: known_args_text(1) runtime_opened_def defaultsFromRuntime_def family_effect_def runtime_limits_def runtime_payload_def
        Let_def linesToArray_def or_str_def)
qed

lemma argless_runtime_gains_args:
  assumes "rt_runtime sr = ''vllm''" "nullish (rt_defaultArgs sr) [] = []"
  shows "ru_defaultArgs (defaultsFromRuntime profiles sr) = Some (defaultArgsForRuntime ''vllm'')"
  using assms by (simp add: defaultsFromRuntime_def formatArgs_def Let_def)

end
