(* ===== verification/Yaml_Pages.thy ===== *)
theory Yaml_Pages
  imports Model_Detail Inference Local_Model_Cache
begin

text \<open>
  The pages that show and edit manifests: \<open>frontend/src/components/YamlEditor.tsx\<close> as
  \<open>frontend/src/pages/inference/LLMConfigs.tsx\<close>, \<open>StorageContainers.tsx\<close>, \<open>LocalModelCache.tsx\<close>,
  \<open>ServingRuntimes.tsx\<close> and \<open>InferenceServices.tsx\<close> use it. The first part is what they share: a viewer
  and an editor, the fetches and saves not answered yet, and the messages shown. Every answer opens the
  viewer or the editor, whatever is open by then. The locale states what a save writes and where: the
  text in the editor at the click, which is what was last loaded into it as typed over since.
\<close>

subsection \<open>The viewer and the editor\<close>

datatype notice = Success string | Warning string | Failure string

text \<open>
  A call (of type \<open>'c\<close>) is identified by what it captured; what is open (of type \<open>'k\<close>) by what the
  state holds of it.
\<close>

record ('c, 'k) yaml_page =
  yp_view :: "('k \<times> string) option"
  yp_edit :: "('k \<times> string) option"
  yp_viewCalls :: "'c list"
  yp_editCalls :: "'c list"
  yp_loading :: "string option"
  yp_saving :: bool
  yp_saves :: "('c \<times> string) list"
  yp_notices :: "notice list"

definition yaml_closed :: "('c, 'k) yaml_page" where
  "yaml_closed =
     \<lparr>yp_view = None, yp_edit = None, yp_viewCalls = [], yp_editCalls = [], yp_loading = None, yp_saving = False,
      yp_saves = [], yp_notices = []\<rparr>"

definition notify :: "notice list \<Rightarrow> ('c, 'k, 'm) yaml_page_scheme \<Rightarrow> ('c, 'k, 'm) yaml_page_scheme" where
  "notify ns s = s\<lparr>yp_notices := yp_notices s @ ns\<rparr>"

text \<open>An answer opens the viewer or the editor on its text, if there is one to show.\<close>

definition view_opened ::
  "'k \<Rightarrow> string option \<times> notice list \<Rightarrow> ('c, 'k, 'm) yaml_page_scheme \<Rightarrow> ('c, 'k, 'm) yaml_page_scheme" where
  "view_opened k out s =
     notify (snd out) (case fst out of None \<Rightarrow> s | Some t \<Rightarrow> s\<lparr>yp_view := Some (k, t)\<rparr>)"

definition edit_opened ::
  "'k \<Rightarrow> string option \<times> notice list \<Rightarrow> ('c, 'k, 'm) yaml_page_scheme \<Rightarrow> ('c, 'k, 'm) yaml_page_scheme" where
  "edit_opened k out s =
     notify (snd out) (case fst out of None \<Rightarrow> s | Some t \<Rightarrow> s\<lparr>yp_edit := Some (k, t)\<rparr>)"

definition view_called :: "'c \<Rightarrow> ('c, 'k, 'm) yaml_page_scheme \<Rightarrow> ('c, 'k, 'm) yaml_page_scheme" where
  "view_called c s = s\<lparr>yp_viewCalls := yp_viewCalls s @ [c]\<rparr>"

definition edit_called :: "'c \<Rightarrow> ('c, 'k, 'm) yaml_page_scheme \<Rightarrow> ('c, 'k, 'm) yaml_page_scheme" where
  "edit_called c s = s\<lparr>yp_editCalls := yp_editCalls s @ [c]\<rparr>"

text \<open>\<open>cur => (cur ? { ...cur, text } : cur)\<close>\<close>

definition text_typed :: "string \<Rightarrow> ('c, 'k, 'm) yaml_page_scheme \<Rightarrow> ('c, 'k, 'm) yaml_page_scheme" where
  "text_typed t s = s\<lparr>yp_edit := map_option (\<lambda>(k, _). (k, t)) (yp_edit s)\<rparr>"

definition view_closed :: "('c, 'k, 'm) yaml_page_scheme \<Rightarrow> ('c, 'k, 'm) yaml_page_scheme" where
  "view_closed s = s\<lparr>yp_view := None\<rparr>"

definition edit_closed :: "('c, 'k, 'm) yaml_page_scheme \<Rightarrow> ('c, 'k, 'm) yaml_page_scheme" where
  "edit_closed s = s\<lparr>yp_edit := None\<rparr>"

text \<open>
  Save sends what the editor holds, to the object \<open>target\<close> makes of it. Its button does not take clicks
  while a save runs (\<open>confirmLoading\<close>); closing and typing stay possible.
\<close>

definition save_clicked ::
  "('k \<Rightarrow> 'c) \<Rightarrow> ('c, 'k, 'm) yaml_page_scheme \<Rightarrow> ('c, 'k, 'm) yaml_page_scheme" where
  "save_clicked target s =
     (case yp_edit s of None \<Rightarrow> s
      | Some (k, t) \<Rightarrow> if yp_saving s then s
          else s\<lparr>yp_saving := True, yp_saves := yp_saves s @ [(target k, t)]\<rparr>)"

definition save_failed :: "js_error \<Rightarrow> ('c, 'k, 'm) yaml_page_scheme \<Rightarrow> ('c, 'k, 'm) yaml_page_scheme" where
  "save_failed e s = (notify [Failure (js_message e)] s)\<lparr>yp_saving := False\<rparr>"

definition save_landed :: "string \<Rightarrow> ('c, 'k, 'm) yaml_page_scheme \<Rightarrow> ('c, 'k, 'm) yaml_page_scheme" where
  "save_landed done s = (notify [Success done] s)\<lparr>yp_edit := None\<rparr>"

lemmas yaml_ops = notify_def view_opened_def edit_opened_def view_called_def edit_called_def text_typed_def
  view_closed_def edit_closed_def save_clicked_def save_failed_def save_landed_def

subsection \<open>What is saved, and where\<close>

text \<open>
  A page whose events load texts into its editor (\<open>loads\<close>: what an event puts there), type into it, or
  leave or close it; and whose saves are of what the editor holds.
\<close>

locale yaml_editing =
  fixes step :: "'e \<Rightarrow> 's \<Rightarrow> 's"
    and edit :: "'s \<Rightarrow> ('k \<times> string) option"
    and saves :: "'s \<Rightarrow> ('c \<times> string) list"
    and target :: "'s \<Rightarrow> 'k \<Rightarrow> 'c"
    and loads :: "'e \<Rightarrow> 's \<Rightarrow> ('k \<times> string) option"
    and types :: "'e \<Rightarrow> string option"
  assumes edit_step: "edit (step e s) = None \<or>
      edit (step e s) = (case loads e s of Some p \<Rightarrow> Some p
        | None \<Rightarrow> map_option (\<lambda>(k, t). (k, case types e of None \<Rightarrow> t | Some t' \<Rightarrow> t')) (edit s))"
    and saves_step: "p \<in> set (saves (step e s)) \<Longrightarrow>
      p \<in> set (saves s) \<or> (\<exists>k t. edit s = Some (k, t) \<and> p = (target s k, t))"
begin

text \<open>The text of an editor after a load of \<open>t\<close> and the events \<open>es\<close>.\<close>

definition typed_over :: "string \<Rightarrow> 'e list \<Rightarrow> string" where
  "typed_over t es = last (t # List.map_filter types es)"

lemma typed_over_Nil [simp]: "typed_over t [] = t"
  by (simp add: typed_over_def List.map_filter_simps)

lemma typed_over_snoc: "typed_over t (es @ [e]) = (case types e of None \<Rightarrow> typed_over t es | Some t' \<Rightarrow> t')"
  by (simp add: typed_over_def List.map_filter_def split: option.splits)

text \<open>Where the text in the editor comes from.\<close>

lemma edited:
  assumes "edit s0 = None" "edit (fold step es s0) = Some (k, t)"
  shows "\<exists>before e after t0. es = before @ e # after \<and> loads e (fold step before s0) = Some (k, t0) \<and>
    t = typed_over t0 after"
  using assms(2)
proof (induction es arbitrary: t rule: rev_induct)
  case Nil
  then show ?case using assms(1) by simp
next
  case (snoc e es)
  let ?s = "fold step es s0"
  show ?case
  proof (cases "loads e ?s")
    case (Some p)
    then have "loads e ?s = Some (k, t)" using snoc.prems edit_step [of e ?s] by auto
    then show ?thesis by (intro exI [of _ es] exI [of _ e] exI [of _ "[]"] exI [of _ t]) simp
  next
    case None
    then obtain t1 where "edit ?s = Some (k, t1)" "t = (case types e of None \<Rightarrow> t1 | Some t' \<Rightarrow> t')"
      using snoc.prems edit_step [of e ?s] by (cases "edit ?s") auto
    with snoc.IH show ?thesis by (metis append_Cons append_assoc typed_over_snoc)
  qed
qed

text \<open>A save not answered yet was asked with the editor open on its object, and sends the text it held.\<close>

lemma saved:
  assumes "saves s0 = []" "p \<in> set (saves (fold step es s0))"
  shows "\<exists>before later k t. es = before @ later \<and> edit (fold step before s0) = Some (k, t) \<and>
    p = (target (fold step before s0) k, t)"
  using assms(2)
proof (induction es rule: rev_induct)
  case Nil
  then show ?case using assms(1) by simp
next
  case (snoc e es)
  then consider "p \<in> set (saves (fold step es s0))"
    | k t where "edit (fold step es s0) = Some (k, t)" "p = (target (fold step es s0) k, t)"
    using saves_step [of p e "fold step es s0"] by auto
  then show ?case
  proof cases
    case 1
    with snoc.IH show ?thesis by (metis append_assoc)
  qed blast
qed

lemma saved_from:
  assumes "edit s0 = None" "saves s0 = []" "(c, t) \<in> set (saves (fold step es s0))"
  shows "\<exists>before e typing later k t0. es = before @ e # typing @ later \<and>
    loads e (fold step before s0) = Some (k, t0) \<and> t = typed_over t0 typing \<and>
    c = target (fold step (before @ e # typing) s0) k"
proof -
  obtain es1 later k where es: "es = es1 @ later" and edit: "edit (fold step es1 s0) = Some (k, t)"
    and c: "c = target (fold step es1 s0) k"
    using saved [OF assms(2,3)] by blast
  obtain before e typing t0 where "es1 = before @ e # typing" "loads e (fold step before s0) = Some (k, t0)"
    "t = typed_over t0 typing"
    using edited [OF assms(1) edit] by blast
  with es c show ?thesis by (metis append_Cons append_assoc)
qed

end

text \<open>Pages whose editor opens for those allowed to write only, by fetches only they start.\<close>

locale gated_editing = yaml_editing step edit saves target loads types
  for step :: "'e \<Rightarrow> 's \<Rightarrow> 's" and edit :: "'s \<Rightarrow> ('k \<times> string) option" and saves :: "'s \<Rightarrow> ('c \<times> string) list"
    and target loads types +
  fixes allowed :: "'s \<Rightarrow> bool" and calls :: "'s \<Rightarrow> 'c list"
  assumes allowed_step [simp]: "allowed (step e s) = allowed s"
    and calls_step: "calls (step e s) \<noteq> [] \<Longrightarrow> calls s \<noteq> [] \<or> allowed s"
    and loads_gated: "loads e s \<noteq> None \<Longrightarrow> calls s \<noteq> [] \<or> allowed s"
begin

lemma allowed_fold [simp]: "allowed (fold step es s) = allowed s"
  by (induction es arbitrary: s) simp_all

lemma calls_gated: "calls s \<noteq> [] \<longrightarrow> allowed s \<Longrightarrow> calls (fold step es s) \<noteq> [] \<Longrightarrow> allowed s"
proof (induction es arbitrary: s)
  case (Cons e es)
  then show ?case using calls_step [of e s] Cons.IH [of "step e s"] by auto
qed simp

lemma loads_allowed: "calls s = [] \<Longrightarrow> loads e (fold step es s) = Some p \<Longrightarrow> allowed s"
  using loads_gated [of e "fold step es s"] calls_gated [of s es] by auto

end

subsection \<open>LLM inference configurations\<close>

text \<open>
  The rows are listed for the selected namespace; a failed listing keeps those shown. The page's writes
  are for platform administrators.
\<close>

record LLMConfigRow =
  lr_id :: string
  lr_name :: string
  lr_namespace :: string
  lr_image :: string
  lr_hasRouter :: bool
  lr_hasWorker :: bool
  lr_hasPrefill :: bool

text \<open>An object of the page: a namespace, and a name unless it is being created.\<close>

type_synonym llm_target = "string \<times> string option"

record llm_page = "(llm_target, llm_target) yaml_page" +
  lg_namespace :: string
  lg_canWrite :: bool
  lg_rows :: "LLMConfigRow list"
  lg_loading :: bool
  lg_calls :: "(string \<times> bool) list"

definition llm_template :: "string \<Rightarrow> string" where
  "llm_template ns = ''apiVersion: serving.kserve.io/v1alpha2
kind: LLMInferenceServiceConfig
metadata:
  name: my-llm-config
  namespace: '' @ ns @ ''
spec:
  template:
    containers:
      - name: main
        image: vllm/vllm-openai:v0.7.2
        command: [vllm, serve, /mnt/models]
        args:
          - --served-model-name
          - \"{{ .Spec.Model.Name }}\"
          - --port
          - \"8000\"
        ports:
          - containerPort: 8000
            protocol: TCP
''"

text \<open>
  \<open>reload\<close>, as the render with namespace \<open>ns\<close> calls it; \<open>save\<close> says that a save awaits it, whose
  button stays busy until then.
\<close>

definition lg_reload :: "string \<Rightarrow> bool \<Rightarrow> llm_page \<Rightarrow> llm_page" where
  "lg_reload ns save s = s\<lparr>lg_loading := True, lg_calls := lg_calls s @ [(ns, save)]\<rparr>"

definition lg_list_request :: "string \<times> bool \<Rightarrow> http_request" where
  "lg_list_request c = listNamespaced Llminferenceserviceconfigs (fst c)"

definition lg_listed :: "string \<times> bool \<Rightarrow> LLMConfigRow list promise \<Rightarrow> llm_page \<Rightarrow> llm_page" where
  "lg_listed c r s =
     (case r of Inr data \<Rightarrow> s\<lparr>lg_rows := data\<rparr> | Inl e \<Rightarrow> notify [Failure (js_message e)] s)
       \<lparr>lg_loading := False, lg_calls := remove1 c (lg_calls s), yp_saving := yp_saving s \<and> \<not> snd c\<rparr>"

definition lg_mounted :: "string \<Rightarrow> bool \<Rightarrow> llm_page" where
  "lg_mounted ns admin = lg_reload ns False (yaml_page.extend yaml_closed
     \<lparr>lg_namespace = ns, lg_canWrite = admin, lg_rows = [], lg_loading = False, lg_calls = []\<rparr>)"

definition lg_namespace_chosen :: "string \<Rightarrow> llm_page \<Rightarrow> llm_page" where
  "lg_namespace_chosen ns s = (if ns = lg_namespace s then s else lg_reload ns False (s\<lparr>lg_namespace := ns\<rparr>))"

definition lg_fetch :: "llm_target \<Rightarrow> http_request" where
  "lg_fetch c = fetchYaml (Inl Llminferenceserviceconfigs) (Some (fst c)) (nullish (snd c) '''')"

text \<open>The pages that show what the backend answers or its error, and nothing in its place.\<close>

definition strict_text :: "string promise \<Rightarrow> string option \<times> notice list" where
  "strict_text r = (case r of Inr t \<Rightarrow> (Some t, []) | Inl e \<Rightarrow> (None, [Failure (js_message e)]))"

definition lg_openYaml :: "LLMConfigRow \<Rightarrow> llm_page \<Rightarrow> llm_page" where
  "lg_openYaml r s = view_called (lr_namespace r, Some (lr_name r)) s"

definition lg_viewed :: "llm_target \<Rightarrow> string promise \<Rightarrow> llm_page \<Rightarrow> llm_page" where
  "lg_viewed c r s = (view_opened c (strict_text r) s)\<lparr>yp_viewCalls := remove1 c (yp_viewCalls s)\<rparr>"

definition lg_openEdit :: "LLMConfigRow \<Rightarrow> llm_page \<Rightarrow> llm_page" where
  "lg_openEdit r s = edit_called (lr_namespace r, Some (lr_name r)) s"

definition lg_edited :: "llm_target \<Rightarrow> string promise \<Rightarrow> llm_page \<Rightarrow> llm_page" where
  "lg_edited c r s = (edit_opened c (strict_text r) s)\<lparr>yp_editCalls := remove1 c (yp_editCalls s)\<rparr>"

definition lg_openCreate :: "llm_page \<Rightarrow> llm_page" where
  "lg_openCreate s = s\<lparr>yp_edit := Some ((lg_namespace s, None), llm_template (lg_namespace s))\<rparr>"

definition lg_save_request :: "llm_target \<Rightarrow> string \<Rightarrow> http_request" where
  "lg_save_request c text =
     (if truthy_str (snd c)
      then updateNamespacedYaml Llminferenceserviceconfigs (fst c) (nullish (snd c) '''') text
      else createNamespacedYaml Llminferenceserviceconfigs (fst c) text)"

text \<open>The answer to a save clicked in the render with namespace \<open>ns\<close>.\<close>

definition lg_saved :: "string \<Rightarrow> llm_target \<Rightarrow> string \<Rightarrow> unit promise \<Rightarrow> llm_page \<Rightarrow> llm_page" where
  "lg_saved ns c text r s =
     (case r of Inl e \<Rightarrow> save_failed e s
      | Inr _ \<Rightarrow> lg_reload ns True (save_landed (if truthy_str (snd c) then ''Saved'' else ''Created'') s))
       \<lparr>yp_saves := remove1 (c, text) (yp_saves s)\<rparr>"

definition lg_deleted :: "string \<Rightarrow> unit promise \<Rightarrow> llm_page \<Rightarrow> llm_page" where
  "lg_deleted ns r s =
     (case r of Inl e \<Rightarrow> notify [Failure (js_message e)] s
      | Inr _ \<Rightarrow> lg_reload ns False (notify [Success ''Deleted''] s))"

text \<open>The actions of a row, and what its third column says.\<close>

definition lg_actions :: "bool \<Rightarrow> string list" where
  "lg_actions admin = ''YAML'' # (if admin then [''Edit'', ''Delete''] else [])"

definition lg_includes :: "LLMConfigRow \<Rightarrow> string list" where
  "lg_includes r =
     (if \<not> lr_hasRouter r \<and> \<not> lr_hasWorker r \<and> \<not> lr_hasPrefill r then [em_dash]
      else (if lr_hasRouter r then [''router''] else []) @ (if lr_hasWorker r then [''worker''] else []) @
        (if lr_hasPrefill r then [''prefill''] else []))"

datatype llm_event =
    LgNamespace string | LgRefresh | LgListed "string \<times> bool" "LLMConfigRow list promise"
  | LgView LLMConfigRow | LgViewed llm_target "string promise" | LgViewClosed
  | LgEdit LLMConfigRow | LgEdited llm_target "string promise" | LgNew
  | LgTyped string | LgEditClosed
  | LgSave | LgSaved string llm_target string "unit promise" | LgDeleted string "unit promise"

fun llm_step :: "llm_event \<Rightarrow> llm_page \<Rightarrow> llm_page" where
  "llm_step (LgNamespace ns) s = lg_namespace_chosen ns s"
| "llm_step LgRefresh s = lg_reload (lg_namespace s) False s"
| "llm_step (LgListed c r) s = (if c \<in> set (lg_calls s) then lg_listed c r s else s)"
| "llm_step (LgView r) s = lg_openYaml r s"
| "llm_step (LgViewed c r) s = (if c \<in> set (yp_viewCalls s) then lg_viewed c r s else s)"
| "llm_step LgViewClosed s = view_closed s"
| "llm_step (LgEdit r) s = (if lg_canWrite s then lg_openEdit r s else s)"
| "llm_step (LgEdited c r) s = (if c \<in> set (yp_editCalls s) then lg_edited c r s else s)"
| "llm_step LgNew s = (if lg_canWrite s then lg_openCreate s else s)"
| "llm_step (LgTyped t) s = text_typed t s"
| "llm_step LgEditClosed s = edit_closed s"
| "llm_step LgSave s = save_clicked (\<lambda>c. c) s"
| "llm_step (LgSaved ns c t r) s = (if (c, t) \<in> set (yp_saves s) then lg_saved ns c t r s else s)"
| "llm_step (LgDeleted ns r) s = (if lg_canWrite s then lg_deleted ns r s else s)"

fun lg_loads :: "llm_event \<Rightarrow> llm_page \<Rightarrow> (llm_target \<times> string) option" where
  "lg_loads (LgEdited c (Inr t)) s = (if c \<in> set (yp_editCalls s) then Some (c, t) else None)"
| "lg_loads LgNew s =
     (if lg_canWrite s then Some ((lg_namespace s, None), llm_template (lg_namespace s)) else None)"
| "lg_loads _ s = None"

fun lg_types :: "llm_event \<Rightarrow> string option" where
  "lg_types (LgTyped t) = Some t"
| "lg_types _ = None"

lemmas lg_defs = lg_reload_def lg_listed_def lg_namespace_chosen_def lg_openYaml_def lg_viewed_def lg_openEdit_def
  lg_edited_def lg_openCreate_def lg_saved_def lg_deleted_def strict_text_def

lemma lg_edit_step:
  "yp_edit (llm_step e s) = None \<or>
   yp_edit (llm_step e s) = (case lg_loads e s of Some p \<Rightarrow> Some p
     | None \<Rightarrow> map_option (\<lambda>(k, t). (k, case lg_types e of None \<Rightarrow> t | Some t' \<Rightarrow> t')) (yp_edit s))"
  by (induction e s rule: llm_step.induct)
    (auto simp: lg_defs yaml_ops option.map_comp comp_def case_prod_unfold option.map_ident
      split: sum.splits option.splits)

lemma lg_saves_step:
  "p \<in> set (yp_saves (llm_step e s)) \<Longrightarrow> p \<in> set (yp_saves s) \<or> (\<exists>k t. yp_edit s = Some (k, t) \<and> p = (k, t))"
  by (induction e s rule: llm_step.induct)
    (auto simp: lg_defs yaml_ops split: sum.splits option.splits if_splits dest: notin_set_remove1)

lemma lg_gate:
  "lg_canWrite (llm_step e s) = lg_canWrite s"
  "yp_editCalls (llm_step e s) \<noteq> [] \<Longrightarrow> yp_editCalls s \<noteq> [] \<or> lg_canWrite s"
  "lg_loads e s \<noteq> None \<Longrightarrow> yp_editCalls s \<noteq> [] \<or> lg_canWrite s"
  by (induction e s rule: llm_step.induct)
    (auto simp: lg_defs yaml_ops split: sum.splits option.splits if_splits elim: lg_loads.elims)

interpretation lg: gated_editing llm_step yp_edit yp_saves "\<lambda>_ c. c" lg_loads lg_types lg_canWrite yp_editCalls
  by unfold_locales (use lg_edit_step lg_saves_step lg_gate in blast)+


definition sample_config :: LLMConfigRow where
  "sample_config = \<lparr>lr_id = ''1'', lr_name = ''base'', lr_namespace = ''team'', lr_image = [], lr_hasRouter = True,
     lr_hasWorker = False, lr_hasPrefill = False\<rparr>"

definition sample_config_edits :: "llm_event list" where
  "sample_config_edits =
     [LgEdit sample_config, LgEdited (''team'', Some ''base'') (Inr ''spec: {}''), LgTyped ''spec: {a: 1}'', LgSave]"


text \<open>
  The answer to a save closes the editor on whatever it holds by then: an object opened while the save
  ran loses what was typed. A listing that fails keeps the rows of the namespace left.
\<close>

lemma late_save_closes_other:
  "yp_edit (lg_saved ns c t (Inr ()) s) = None"
  by (simp add: lg_saved_def lg_reload_def yaml_ops)

lemma failed_listing_keeps_rows:
  "lg_rows (lg_listed c (Inl e) (lg_namespace_chosen ns s)) = lg_rows s"
  by (simp add: lg_listed_def lg_namespace_chosen_def lg_reload_def notify_def)

subsection \<open>Storage initializers\<close>

text \<open>The same page for a cluster-scoped resource: an object is a name, or none while it is created.\<close>

record StorageContainerRow =
  sg_id :: string
  sg_name :: string
  sg_image :: string
  sg_workloadType :: string
  sg_supportedUriFormats :: "string list option"
  sg_multiModel :: bool

record storage_page = "(string option, string option) yaml_page" +
  sg_canWrite :: bool
  sg_rows :: "StorageContainerRow list"
  sg_loading :: bool
  sg_calls :: "bool list"

definition storage_template :: string where
  "storage_template = ''apiVersion: serving.kserve.io/v1alpha1
kind: ClusterStorageContainer
metadata:
  name: my-storage
spec:
  container:
    name: storage-initializer
    image: kserve/storage-initializer:v0.14.0
    resources:
      requests:
        cpu: \"100m\"
        memory: 100Mi
      limits:
        cpu: \"1\"
        memory: 1Gi
  supportedUriFormats:
    - prefix: s3://
''"

definition sg_reload :: "bool \<Rightarrow> storage_page \<Rightarrow> storage_page" where
  "sg_reload save s = s\<lparr>sg_loading := True, sg_calls := sg_calls s @ [save]\<rparr>"

definition sg_list_request :: http_request where
  "sg_list_request = listCluster Clusterstoragecontainers"

definition sg_listed :: "bool \<Rightarrow> StorageContainerRow list promise \<Rightarrow> storage_page \<Rightarrow> storage_page" where
  "sg_listed c r s =
     (case r of Inr data \<Rightarrow> s\<lparr>sg_rows := data\<rparr> | Inl e \<Rightarrow> notify [Failure (js_message e)] s)
       \<lparr>sg_loading := False, sg_calls := remove1 c (sg_calls s), yp_saving := yp_saving s \<and> \<not> c\<rparr>"

definition sg_mounted :: "bool \<Rightarrow> storage_page" where
  "sg_mounted admin = sg_reload False (yaml_page.extend yaml_closed
     \<lparr>sg_canWrite = admin, sg_rows = [], sg_loading = False, sg_calls = []\<rparr>)"

definition sg_fetch :: "string option \<Rightarrow> http_request" where
  "sg_fetch c = fetchYaml (Inr Clusterstoragecontainers) None (nullish c '''')"

definition sg_openYaml :: "string \<Rightarrow> storage_page \<Rightarrow> storage_page" where
  "sg_openYaml name s = view_called (Some name) s"

definition sg_viewed :: "string option \<Rightarrow> string promise \<Rightarrow> storage_page \<Rightarrow> storage_page" where
  "sg_viewed c r s = (view_opened c (strict_text r) s)\<lparr>yp_viewCalls := remove1 c (yp_viewCalls s)\<rparr>"

definition sg_openEdit :: "string \<Rightarrow> storage_page \<Rightarrow> storage_page" where
  "sg_openEdit name s = edit_called (Some name) s"

definition sg_edited :: "string option \<Rightarrow> string promise \<Rightarrow> storage_page \<Rightarrow> storage_page" where
  "sg_edited c r s = (edit_opened c (strict_text r) s)\<lparr>yp_editCalls := remove1 c (yp_editCalls s)\<rparr>"

definition sg_openCreate :: "storage_page \<Rightarrow> storage_page" where
  "sg_openCreate s = s\<lparr>yp_edit := Some (None, storage_template)\<rparr>"

definition sg_save_request :: "string option \<Rightarrow> string \<Rightarrow> http_request" where
  "sg_save_request c text =
     (if truthy_str c then updateClusterYaml Clusterstoragecontainers (nullish c '''') text
      else createClusterYaml Clusterstoragecontainers text)"

definition sg_saved :: "string option \<Rightarrow> string \<Rightarrow> unit promise \<Rightarrow> storage_page \<Rightarrow> storage_page" where
  "sg_saved c text r s =
     (case r of Inl e \<Rightarrow> save_failed e s
      | Inr _ \<Rightarrow> sg_reload True (save_landed (if truthy_str c then ''Saved'' else ''Created'') s))
       \<lparr>yp_saves := remove1 (c, text) (yp_saves s)\<rparr>"

definition sg_deleted :: "unit promise \<Rightarrow> storage_page \<Rightarrow> storage_page" where
  "sg_deleted r s =
     (case r of Inl e \<Rightarrow> notify [Failure (js_message e)] s
      | Inr _ \<Rightarrow> sg_reload False (notify [Success ''Deleted''] s))"

datatype storage_event =
    SgRefresh | SgListed bool "StorageContainerRow list promise"
  | SgView string | SgViewed "string option" "string promise" | SgViewClosed
  | SgEdit string | SgEdited "string option" "string promise" | SgNew
  | SgTyped string | SgEditClosed
  | SgSave | SgSaved "string option" string "unit promise" | SgDeleted "unit promise"

fun storage_step :: "storage_event \<Rightarrow> storage_page \<Rightarrow> storage_page" where
  "storage_step SgRefresh s = sg_reload False s"
| "storage_step (SgListed c r) s = (if c \<in> set (sg_calls s) then sg_listed c r s else s)"
| "storage_step (SgView name) s = sg_openYaml name s"
| "storage_step (SgViewed c r) s = (if c \<in> set (yp_viewCalls s) then sg_viewed c r s else s)"
| "storage_step SgViewClosed s = view_closed s"
| "storage_step (SgEdit name) s = (if sg_canWrite s then sg_openEdit name s else s)"
| "storage_step (SgEdited c r) s = (if c \<in> set (yp_editCalls s) then sg_edited c r s else s)"
| "storage_step SgNew s = (if sg_canWrite s then sg_openCreate s else s)"
| "storage_step (SgTyped t) s = text_typed t s"
| "storage_step SgEditClosed s = edit_closed s"
| "storage_step SgSave s = save_clicked (\<lambda>c. c) s"
| "storage_step (SgSaved c t r) s = (if (c, t) \<in> set (yp_saves s) then sg_saved c t r s else s)"
| "storage_step (SgDeleted r) s = (if sg_canWrite s then sg_deleted r s else s)"

fun sg_loads :: "storage_event \<Rightarrow> storage_page \<Rightarrow> (string option \<times> string) option" where
  "sg_loads (SgEdited c (Inr t)) s = (if c \<in> set (yp_editCalls s) then Some (c, t) else None)"
| "sg_loads SgNew s = (if sg_canWrite s then Some (None, storage_template) else None)"
| "sg_loads _ s = None"

fun sg_types :: "storage_event \<Rightarrow> string option" where
  "sg_types (SgTyped t) = Some t"
| "sg_types _ = None"

lemmas sg_defs = sg_reload_def sg_listed_def sg_openYaml_def sg_viewed_def sg_openEdit_def sg_edited_def
  sg_openCreate_def sg_saved_def sg_deleted_def strict_text_def

lemma sg_edit_step:
  "yp_edit (storage_step e s) = None \<or>
   yp_edit (storage_step e s) = (case sg_loads e s of Some p \<Rightarrow> Some p
     | None \<Rightarrow> map_option (\<lambda>(k, t). (k, case sg_types e of None \<Rightarrow> t | Some t' \<Rightarrow> t')) (yp_edit s))"
  by (induction e s rule: storage_step.induct)
    (auto simp: sg_defs yaml_ops option.map_comp comp_def case_prod_unfold option.map_ident
      split: sum.splits option.splits)

lemma sg_saves_step:
  "p \<in> set (yp_saves (storage_step e s)) \<Longrightarrow> p \<in> set (yp_saves s) \<or> (\<exists>k t. yp_edit s = Some (k, t) \<and> p = (k, t))"
  by (induction e s rule: storage_step.induct)
    (auto simp: sg_defs yaml_ops split: sum.splits option.splits if_splits dest: notin_set_remove1)

lemma sg_gate:
  "sg_canWrite (storage_step e s) = sg_canWrite s"
  "yp_editCalls (storage_step e s) \<noteq> [] \<Longrightarrow> yp_editCalls s \<noteq> [] \<or> sg_canWrite s"
  "sg_loads e s \<noteq> None \<Longrightarrow> yp_editCalls s \<noteq> [] \<or> sg_canWrite s"
  by (induction e s rule: storage_step.induct)
    (auto simp: sg_defs yaml_ops split: sum.splits option.splits if_splits elim: sg_loads.elims)

interpretation sg: gated_editing storage_step yp_edit yp_saves "\<lambda>_ c. c" sg_loads sg_types sg_canWrite yp_editCalls
  by unfold_locales (use sg_edit_step sg_saves_step sg_gate in blast)+

lemma storage_saved_as_edited:
  assumes "(c, t) \<in> set (yp_saves (fold storage_step es (sg_mounted admin)))"
  shows "admin \<and> (\<exists>before e typing later t0. es = before @ e # typing @ later \<and> t = sg.typed_over t0 typing \<and>
    (e = SgEdited c (Inr t0) \<or> e = SgNew \<and> c = None \<and> t0 = storage_template))"
proof -
  let ?s0 = "sg_mounted admin"
  have start: "yp_edit ?s0 = None" "yp_saves ?s0 = []" "yp_editCalls ?s0 = []" "sg_canWrite ?s0 = admin"
    by (simp_all add: sg_mounted_def sg_reload_def yaml_closed_def yaml_page.defs)
  obtain before e typing later t0 where es: "es = before @ e # typing @ later"
    and loads: "sg_loads e (fold storage_step before ?s0) = Some (c, t0)" and t: "t = sg.typed_over t0 typing"
    using sg.saved_from [OF start(1,2) assms] by blast
  have "admin" using sg.loads_allowed [OF start(3) loads] start(4) by simp
  moreover have "e = SgEdited c (Inr t0) \<or> e = SgNew \<and> c = None \<and> t0 = storage_template"
    using loads by (auto elim!: sg_loads.elims split: if_splits)
  ultimately show ?thesis using es t by blast
qed

subsection \<open>The local model cache\<close>

text \<open>
  The caches and node groups of the store; an object is its kind and its name. A save reloads the store
  and closes the editor when the reload is in.
\<close>

datatype lm_kind = CacheKind | NodeGroupKind

definition lm_slug :: "lm_kind \<Rightarrow> cluster_slug" where
  "lm_slug k = (if k = CacheKind then Localmodelcaches else Localmodelnodegroups)"

record cache_page = "(lm_kind \<times> string, lm_kind \<times> string) yaml_page" +
  mg_canWrite :: bool
  mg_store :: local_model
  mg_finishing :: nat

definition mg_fetch :: "lm_kind \<times> string \<Rightarrow> http_request" where
  "mg_fetch c = fetchYaml (Inr (lm_slug (fst c))) None (snd c)"

definition mg_mounted :: "bool \<Rightarrow> local_model \<Rightarrow> cache_page" where
  "mg_mounted admin store = yaml_page.extend yaml_closed
     \<lparr>mg_canWrite = admin, mg_store = ensureLocalModelLoaded True store, mg_finishing = 0\<rparr>"

definition mg_openView :: "lm_kind \<Rightarrow> string \<Rightarrow> cache_page \<Rightarrow> cache_page" where
  "mg_openView kind name s = (view_called (kind, name) s)\<lparr>yp_loading := Some name\<rparr>"

definition mg_viewed :: "lm_kind \<times> string \<Rightarrow> string promise \<Rightarrow> cache_page \<Rightarrow> cache_page" where
  "mg_viewed c r s =
     (view_opened c (strict_text r) s)\<lparr>yp_viewCalls := remove1 c (yp_viewCalls s), yp_loading := None\<rparr>"

definition mg_openEdit :: "lm_kind \<Rightarrow> string \<Rightarrow> cache_page \<Rightarrow> cache_page" where
  "mg_openEdit kind name s = (edit_called (kind, name) s)\<lparr>yp_loading := Some name\<rparr>"

definition mg_edited :: "lm_kind \<times> string \<Rightarrow> string promise \<Rightarrow> cache_page \<Rightarrow> cache_page" where
  "mg_edited c r s =
     (edit_opened c (strict_text r) s)\<lparr>yp_editCalls := remove1 c (yp_editCalls s), yp_loading := None\<rparr>"

definition mg_save_request :: "lm_kind \<times> string \<Rightarrow> string \<Rightarrow> http_request" where
  "mg_save_request c text = updateClusterYaml (lm_slug (fst c)) (snd c) text"

definition mg_saved :: "lm_kind \<times> string \<Rightarrow> string \<Rightarrow> unit promise \<Rightarrow> cache_page \<Rightarrow> cache_page" where
  "mg_saved c text r s =
     (case r of Inl e \<Rightarrow> save_failed e s
      | Inr _ \<Rightarrow> s\<lparr>mg_store := reloadLocalModel True (mg_store s), mg_finishing := Suc (mg_finishing s)\<rparr>)
       \<lparr>yp_saves := remove1 (c, text) (yp_saves s)\<rparr>"

text \<open>The store's reload is in, and with it every save that awaited it.\<close>

definition mg_arrived ::
  "LocalModelStatus promise \<Rightarrow> LocalModelNodeGroup list promise \<Rightarrow> LocalModelCache list promise \<Rightarrow>
     LocalModelOptions promise \<Rightarrow> cache_page \<Rightarrow> cache_page" where
  "mg_arrived st gs cs opts s =
     (if mg_finishing s = 0 then s
      else (notify (replicate (mg_finishing s) (Success ''YAML updated'')) s)
        \<lparr>yp_edit := None, yp_saving := False, mg_finishing := 0\<rparr>)
       \<lparr>mg_store := local_model_arrived st gs cs opts (mg_store s)\<rparr>"

definition mg_deleted ::
  "'r backend \<Rightarrow> lm_kind \<Rightarrow> string \<Rightarrow> cache_page \<Rightarrow> cache_page" where
  "mg_deleted send kind name s =
     (let (r, store) = (if kind = CacheKind then deleteLocalModelCache True send name (mg_store s)
                        else deleteLocalModelNodeGroup True send name (mg_store s))
      in notify [case r of Inl e \<Rightarrow> Failure (js_message e)
           | Inr _ \<Rightarrow> Success (if kind = CacheKind then ''LocalModelCache deleted'' else ''LocalModelNodeGroup deleted'')]
           (s\<lparr>mg_store := store\<rparr>))"

text \<open>What the page shows of a row: whether it opens further, and its cells.\<close>

definition cache_expandable :: "LocalModelCache \<Rightarrow> bool" where
  "cache_expandable r \<longleftrightarrow> nullish (lc_nodeStatus r) [] \<noteq> [] \<or> nullish (lc_inferenceServices r) [] \<noteq> []"

definition host_path_differs :: "LocalModelStatus \<Rightarrow> LocalModelNodeGroup \<Rightarrow> bool" where
  "host_path_differs st g \<longleftrightarrow>
     truthy_str (lms_hostPath st) \<and> ng_hostPath g \<noteq> [] \<and> Some (ng_hostPath g) \<noteq> lms_hostPath st"

definition copies_cell :: "LocalModelCache \<Rightarrow> string" where
  "copies_cell r = show_int (lc_copiesAvailable r) @ ''/'' @
     (if lc_copiesTotal r = 0 then em_dash else show_int (lc_copiesTotal r))"

definition selector_cell :: "LocalModelNodeGroup \<Rightarrow> string" where
  "selector_cell g =
     (if ng_selectorKey g = [] then em_dash
      else ng_selectorKey g @ '' '' @ or_str (ng_selectorOp g) ''In'' @ '' ['' @
        or_str (join '', '' (nullish (ng_selectorValues g) [])) ''?'' @ '']'')"

definition used_cell :: "LocalModelNodeGroup \<Rightarrow> string" where
  "used_cell g = or_str (ng_used g) em_dash @ '' / '' @ or_str (ng_available g) em_dash"

datatype cache_event =
    MgView lm_kind string | MgViewed "lm_kind \<times> string" "string promise" | MgViewClosed
  | MgEdit lm_kind string | MgEdited "lm_kind \<times> string" "string promise" | MgTyped string | MgEditClosed
  | MgSave | MgSaved "lm_kind \<times> string" string "unit promise" | MgRefresh
  | MgArrived "LocalModelStatus promise" "LocalModelNodeGroup list promise" "LocalModelCache list promise"
      "LocalModelOptions promise"
  | MgDelete lm_kind string

fun cache_step :: "'r backend \<Rightarrow> cache_event \<Rightarrow> cache_page \<Rightarrow> cache_page" where
  "cache_step send (MgView kind name) s = mg_openView kind name s"
| "cache_step send (MgViewed c r) s = (if c \<in> set (yp_viewCalls s) then mg_viewed c r s else s)"
| "cache_step send MgViewClosed s = view_closed s"
| "cache_step send (MgEdit kind name) s = (if mg_canWrite s then mg_openEdit kind name s else s)"
| "cache_step send (MgEdited c r) s = (if c \<in> set (yp_editCalls s) then mg_edited c r s else s)"
| "cache_step send (MgTyped t) s = text_typed t s"
| "cache_step send MgEditClosed s = edit_closed s"
| "cache_step send MgSave s = save_clicked (\<lambda>c. c) s"
| "cache_step send (MgSaved c t r) s = (if (c, t) \<in> set (yp_saves s) then mg_saved c t r s else s)"
| "cache_step send MgRefresh s = s\<lparr>mg_store := reloadLocalModel True (mg_store s)\<rparr>"
| "cache_step send (MgArrived st gs cs opts) s = mg_arrived st gs cs opts s"
| "cache_step send (MgDelete kind name) s = (if mg_canWrite s then mg_deleted send kind name s else s)"

fun mg_loads :: "cache_event \<Rightarrow> cache_page \<Rightarrow> ((lm_kind \<times> string) \<times> string) option" where
  "mg_loads (MgEdited c (Inr t)) s = (if c \<in> set (yp_editCalls s) then Some (c, t) else None)"
| "mg_loads _ s = None"

fun mg_types :: "cache_event \<Rightarrow> string option" where
  "mg_types (MgTyped t) = Some t"
| "mg_types _ = None"

lemmas mg_defs = mg_openView_def mg_viewed_def mg_openEdit_def mg_edited_def mg_saved_def mg_arrived_def
  mg_deleted_def strict_text_def Let_def case_prod_unfold

lemma mg_edit_step:
  "yp_edit (cache_step send e s) = None \<or>
   yp_edit (cache_step send e s) = (case mg_loads e s of Some p \<Rightarrow> Some p
     | None \<Rightarrow> map_option (\<lambda>(k, t). (k, case mg_types e of None \<Rightarrow> t | Some t' \<Rightarrow> t')) (yp_edit s))"
  by (induction send e s rule: cache_step.induct)
    (auto simp: mg_defs yaml_ops option.map_comp comp_def option.map_ident split: sum.splits option.splits)

lemma mg_saves_step:
  "p \<in> set (yp_saves (cache_step send e s)) \<Longrightarrow> p \<in> set (yp_saves s) \<or> (\<exists>k t. yp_edit s = Some (k, t) \<and> p = (k, t))"
  by (induction send e s rule: cache_step.induct)
    (auto simp: mg_defs yaml_ops split: sum.splits option.splits if_splits dest: notin_set_remove1)

lemma mg_gate:
  "mg_canWrite (cache_step send e s) = mg_canWrite s"
  "yp_editCalls (cache_step send e s) \<noteq> [] \<Longrightarrow> yp_editCalls s \<noteq> [] \<or> mg_canWrite s"
  "mg_loads e s \<noteq> None \<Longrightarrow> yp_editCalls s \<noteq> [] \<or> mg_canWrite s"
  by (induction send e s rule: cache_step.induct)
    (auto simp: mg_defs yaml_ops split: sum.splits option.splits if_splits elim: mg_loads.elims)

interpretation mg: gated_editing "cache_step send" yp_edit yp_saves "\<lambda>_ c. c" mg_loads mg_types mg_canWrite yp_editCalls
  for send :: "'r backend"
  by unfold_locales (use mg_edit_step mg_saves_step mg_gate in blast)+

lemma cache_saved_as_edited:
  assumes "(c, t) \<in> set (yp_saves (fold (cache_step send) es (mg_mounted admin store)))"
  shows "admin \<and> (\<exists>before typing later t0. es = before @ MgEdited c (Inr t0) # typing @ later \<and>
    t = mg.typed_over t0 typing)"
proof -
  let ?s0 = "mg_mounted admin store"
  have start: "yp_edit ?s0 = None" "yp_saves ?s0 = []" "yp_editCalls ?s0 = []" "mg_canWrite ?s0 = admin"
    by (simp_all add: mg_mounted_def yaml_closed_def yaml_page.defs)
  obtain before e typing later t0 where es: "es = before @ e # typing @ later"
    and loads: "mg_loads e (fold (cache_step send) before ?s0) = Some (c, t0)" and t: "t = mg.typed_over t0 typing"
    using mg.saved_from [OF start(1,2) assms] by blast
  have "admin" using mg.loads_allowed [OF start(3) loads] start(4) by simp
  moreover have "e = MgEdited c (Inr t0)"
    using loads by (auto elim!: mg_loads.elims split: if_splits)
  ultimately show ?thesis using es t by blast
qed

text \<open>Leaving the editor before the reload is in does not keep the save from closing the one opened next.\<close>

lemma late_reload_closes_other:
  "0 < mg_finishing s \<Longrightarrow> yp_edit (mg_arrived st gs cs opts s) = None"
  by (simp add: mg_arrived_def)

end
