(* ===== verification/Inference_Pages.thy ===== *)
theory Inference_Pages
  imports Yaml_Pages Cluster_Resources
begin

text \<open>
  The serving runtimes page (\<open>frontend/src/pages/inference/ServingRuntimes.tsx\<close>), the inference services
  page (\<open>InferenceServices.tsx\<close>) and the page of one service (\<open>InferenceServiceDetail.tsx\<close>): which rows
  they show, their actions, the manifests they open and save, with a local manifest where the backend gives
  none, and the route status they read of each service.
\<close>

subsection \<open>Local manifests\<close>

text \<open>
  \<open>text || build(x)\<close>, and \<open>build(x)\<close> with a warning when the fetch rejects. \<open>built\<close> is \<open>None\<close> when the
  builder throws: it is then called again by the handler, and nothing opens.
\<close>

definition text_or_local :: "string option \<Rightarrow> string promise \<Rightarrow> string option \<times> notice list" where
  "text_or_local built r =
     (case r of
        Inr t \<Rightarrow> if t \<noteq> [] then (Some t, []) else (built, [])
      | Inl e \<Rightarrow> (built, if built = None then [] else [Warning (''Falling back to local YAML: '' @ js_message e)]))"

subsection \<open>Serving runtimes\<close>

text \<open>A call captures the namespace of its render; the editor's state does not.\<close>

type_synonym runtime_call = "string \<times> ServingRuntime"

record runtimes_page = "(runtime_call, ServingRuntime) yaml_page" +
  rg_namespace :: string
  rg_store :: inference
  rg_modalOpen :: bool
  rg_importOpen :: bool
  rg_editing :: "ServingRuntime option"

definition rg_builtin :: "ServingRuntime \<Rightarrow> bool" where
  "rg_builtin r \<longleftrightarrow> rt_builtin r = Some True"

definition runtime_rows :: "string \<Rightarrow> ServingRuntime list \<Rightarrow> ServingRuntime list" where
  "runtime_rows ns all = filter (\<lambda>r. obj_namespace r = ns \<or> rg_builtin r) all"

definition rg_mounted :: "string \<Rightarrow> inference \<Rightarrow> runtimes_page" where
  "rg_mounted ns store = yaml_page.extend yaml_closed
     \<lparr>rg_namespace = ns, rg_store = ensureRuntimesLoaded True ns store, rg_modalOpen = False, rg_importOpen = False,
      rg_editing = None\<rparr>"

definition rg_namespace_chosen :: "string \<Rightarrow> runtimes_page \<Rightarrow> runtimes_page" where
  "rg_namespace_chosen ns s =
     (if ns = rg_namespace s then s
      else s\<lparr>rg_namespace := ns, rg_store := ensureRuntimesLoaded True ns (rg_store s)\<rparr>)"

text \<open>A built-in runtime is shown by its local manifest, without a call.\<close>

definition rg_openYaml :: "ServingRuntime \<Rightarrow> runtimes_page \<Rightarrow> runtimes_page" where
  "rg_openYaml sr s =
     (if rg_builtin sr then (view_opened sr (buildServingRuntimeYaml sr, []) s)\<lparr>yp_loading := None\<rparr>
      else (view_called (rg_namespace s, sr) s)\<lparr>yp_loading := Some (obj_name sr)\<rparr>)"

definition rg_viewed :: "runtime_call \<Rightarrow> string promise \<Rightarrow> runtimes_page \<Rightarrow> runtimes_page" where
  "rg_viewed c r s =
     (view_opened (snd c) (text_or_local (buildServingRuntimeYaml (snd c)) r) s)
       \<lparr>yp_viewCalls := remove1 c (yp_viewCalls s), yp_loading := None\<rparr>"

definition rg_openEditYaml :: "ServingRuntime \<Rightarrow> runtimes_page \<Rightarrow> runtimes_page" where
  "rg_openEditYaml sr s =
     (if rg_builtin sr then (edit_opened sr (buildServingRuntimeYaml sr, []) s)\<lparr>yp_loading := None\<rparr>
      else (edit_called (rg_namespace s, sr) s)\<lparr>yp_loading := Some (obj_name sr)\<rparr>)"

definition rg_edited :: "runtime_call \<Rightarrow> string promise \<Rightarrow> runtimes_page \<Rightarrow> runtimes_page" where
  "rg_edited c r s =
     (edit_opened (snd c) (text_or_local (buildServingRuntimeYaml (snd c)) r) s)
       \<lparr>yp_editCalls := remove1 c (yp_editCalls s), yp_loading := None\<rparr>"

definition rg_fetched :: "string backend \<Rightarrow> runtime_call \<Rightarrow> string promise" where
  "rg_fetched send c = fetchServingRuntimeYaml True send (fst c) (obj_name (snd c))"

text \<open>The save goes to the namespace of the render it is clicked in.\<close>

definition rg_saveYaml :: "runtimes_page \<Rightarrow> runtimes_page" where
  "rg_saveYaml s = save_clicked (\<lambda>sr. (rg_namespace s, sr)) s"

definition rg_saved :: "'r backend \<Rightarrow> runtime_call \<Rightarrow> string \<Rightarrow> runtimes_page \<Rightarrow> runtimes_page" where
  "rg_saved send c text s =
     (let (r, store) = updateServingRuntimeYaml True send (fst c) (obj_name (snd c)) text (rg_store s)
      in (case r of Inl e \<Rightarrow> save_failed e s
          | Inr _ \<Rightarrow> (save_landed ''Runtime YAML updated'' s)\<lparr>yp_saving := False\<rparr>)
           \<lparr>yp_saves := remove1 (c, text) (yp_saves s), rg_store := store\<rparr>)"

definition rg_openCreate :: "runtimes_page \<Rightarrow> runtimes_page" where
  "rg_openCreate s = s\<lparr>rg_editing := None, rg_modalOpen := True\<rparr>"

definition rg_openEdit :: "ServingRuntime \<Rightarrow> runtimes_page \<Rightarrow> runtimes_page" where
  "rg_openEdit r s = s\<lparr>rg_editing := Some r, rg_modalOpen := True\<rparr>"

definition rg_deleted :: "'r backend \<Rightarrow> string \<Rightarrow> ServingRuntime \<Rightarrow> runtimes_page \<Rightarrow> runtimes_page" where
  "rg_deleted send ns r s =
     (let (answer, store) = deleteServingRuntime True send ns (obj_name r) (rg_store s)
      in notify [case answer of Inl e \<Rightarrow> Failure (js_message e) | Inr _ \<Rightarrow> Success ''Runtime deleted'']
           (s\<lparr>rg_store := store\<rparr>))"

text \<open>The column of a row's default resources: its lines.\<close>

definition last_segment :: "string \<Rightarrow> string" where
  "last_segment key = last (split_on (CHR ''/'') key)"

definition middle_dot :: string where
  "middle_dot = [CHR 0xC2, CHR 0xB7]"

definition resources_cell :: "ServingRuntime \<Rightarrow> string list option" where
  "resources_cell r =
     (case rt_resources r of None \<Rightarrow> None
      | Some res \<Rightarrow>
          (let cpuMem = or_str (res_cpu res) em_dash @ '' CPU '' @ middle_dot @ '' '' @ or_str (res_memory res) em_dash
           in Some (case rt_gpuValues r of
                Some (g # gs) \<Rightarrow> cpuMem # map (\<lambda>(k, v). last_segment k @ ''='' @ show_int v) (g # gs)
              | _ \<Rightarrow> [cpuMem @ '' '' @ middle_dot @ '' '' @
                  (if 0 < res_gpu res then show_int (res_gpu res) @ '' GPU'' else ''no GPU'')])))"

datatype runtimes_event =
    RgNamespace string | RgStore inference | RgView ServingRuntime | RgViewed runtime_call | RgViewClosed
  | RgEditYaml ServingRuntime | RgEdited runtime_call | RgTyped string | RgEditClosed
  | RgSave | RgSaved runtime_call string | RgRefresh | RgNew | RgEdit ServingRuntime | RgDelete ServingRuntime

text \<open>
  \<open>get\<close> answers reads and \<open>put\<close> writes. The menu disables editing and deleting for built-in rows; other
  components write the store.
\<close>

fun runtimes_step :: "string backend \<Rightarrow> unit backend \<Rightarrow> runtimes_event \<Rightarrow> runtimes_page \<Rightarrow> runtimes_page" where
  "runtimes_step get put (RgNamespace ns) s = rg_namespace_chosen ns s"
| "runtimes_step get put (RgStore store) s = s\<lparr>rg_store := store\<rparr>"
| "runtimes_step get put (RgView sr) s = rg_openYaml sr s"
| "runtimes_step get put (RgViewed c) s =
     (if c \<in> set (yp_viewCalls s) then rg_viewed c (rg_fetched get c) s else s)"
| "runtimes_step get put RgViewClosed s = view_closed s"
| "runtimes_step get put (RgEditYaml sr) s = (if rg_builtin sr then s else rg_openEditYaml sr s)"
| "runtimes_step get put (RgEdited c) s =
     (if c \<in> set (yp_editCalls s) then rg_edited c (rg_fetched get c) s else s)"
| "runtimes_step get put (RgTyped t) s = text_typed t s"
| "runtimes_step get put RgEditClosed s = edit_closed s"
| "runtimes_step get put RgSave s = rg_saveYaml s"
| "runtimes_step get put (RgSaved c t) s = (if (c, t) \<in> set (yp_saves s) then rg_saved put c t s else s)"
| "runtimes_step get put RgRefresh s = s\<lparr>rg_store := reloadRuntimes True (rg_namespace s) (rg_store s)\<rparr>"
| "runtimes_step get put RgNew s = rg_openCreate s"
| "runtimes_step get put (RgEdit r) s = (if rg_builtin r then s else rg_openEdit r s)"
| "runtimes_step get put (RgDelete r) s = (if rg_builtin r then s else rg_deleted put (rg_namespace s) r s)"

fun rg_loads :: "string backend \<Rightarrow> runtimes_event \<Rightarrow> runtimes_page \<Rightarrow> (ServingRuntime \<times> string) option" where
  "rg_loads get (RgEdited c) s =
     (if c \<in> set (yp_editCalls s)
      then map_option (Pair (snd c)) (fst (text_or_local (buildServingRuntimeYaml (snd c)) (rg_fetched get c)))
      else None)"
| "rg_loads get _ s = None"

fun rg_types :: "runtimes_event \<Rightarrow> string option" where
  "rg_types (RgTyped t) = Some t"
| "rg_types _ = None"

lemmas rg_defs = rg_namespace_chosen_def rg_openYaml_def rg_viewed_def rg_openEditYaml_def rg_edited_def
  rg_saveYaml_def rg_saved_def rg_openCreate_def rg_openEdit_def rg_deleted_def

lemma rg_edit_step:
  "yp_edit (runtimes_step get put e s) = None \<or>
   yp_edit (runtimes_step get put e s) = (case rg_loads get e s of Some p \<Rightarrow> Some p
     | None \<Rightarrow> map_option (\<lambda>(k, t). (k, case rg_types e of None \<Rightarrow> t | Some t' \<Rightarrow> t')) (yp_edit s))"
  by (induction get put e s rule: runtimes_step.induct)
    (auto simp: rg_defs yaml_ops option.map_comp comp_def case_prod_unfold option.map_ident Let_def
      split: sum.splits option.splits)

lemma rg_saves_step:
  "p \<in> set (yp_saves (runtimes_step get put e s)) \<Longrightarrow>
   p \<in> set (yp_saves s) \<or> (\<exists>k t. yp_edit s = Some (k, t) \<and> p = ((rg_namespace s, k), t))"
  by (induction get put e s rule: runtimes_step.induct)
    (auto simp: rg_defs yaml_ops Let_def case_prod_unfold split: sum.splits option.splits if_splits
      dest: notin_set_remove1)

interpretation rg: yaml_editing "runtimes_step get put" yp_edit yp_saves "\<lambda>s sr. (rg_namespace s, sr)"
  "rg_loads get" rg_types
  for get put
  by unfold_locales (use rg_edit_step rg_saves_step in blast)+

lemma rg_namespace_step:
  "rg_namespace (runtimes_step get put e s) = (case e of RgNamespace ns \<Rightarrow> ns | _ \<Rightarrow> rg_namespace s)"
  by (induction get put e s rule: runtimes_step.induct)
    (auto simp: rg_defs yaml_ops Let_def case_prod_unfold split: sum.splits option.splits)

lemma rg_editCalls_step:
  "c \<in> set (yp_editCalls (runtimes_step get put e s)) \<Longrightarrow> c \<in> set (yp_editCalls s) \<or> fst c = rg_namespace s"
  by (induction get put e s rule: runtimes_step.induct)
    (auto simp: rg_defs yaml_ops Let_def case_prod_unfold split: sum.splits option.splits if_splits
      dest: subsetD [OF set_remove1_subset])

text \<open>While the namespace stays, the calls are for the one the page was opened in.\<close>

lemma rg_same_namespace:
  assumes "\<forall>n. RgNamespace n \<notin> set es"
  shows "rg_namespace (fold (runtimes_step get put) es (rg_mounted ns store)) = ns \<and>
    (\<forall>c \<in> set (yp_editCalls (fold (runtimes_step get put) es (rg_mounted ns store))). fst c = ns)"
  using assms
proof (induction es rule: rev_induct)
  case Nil
  then show ?case by (simp add: rg_mounted_def yaml_closed_def yaml_page.defs)
next
  case (snoc e es)
  let ?s = "fold (runtimes_step get put) es (rg_mounted ns store)"
  have "rg_namespace ?s = ns" "\<forall>c \<in> set (yp_editCalls ?s). fst c = ns" "\<forall>n. e \<noteq> RgNamespace n"
    using snoc by auto
  then have "rg_namespace (runtimes_step get put e ?s) = ns"
    "\<forall>c \<in> set (yp_editCalls (runtimes_step get put e ?s)). fst c = ns"
    using rg_editCalls_step [of _ get put e ?s] by (auto simp: rg_namespace_step split: runtimes_event.splits)
  then show ?case by simp
qed

text \<open>
  What a save of a runtime's manifest sends is the manifest the backend gave for that runtime, or the local
  one where it gave none, or the last text typed over it since; and while the namespace is not changed, it
  goes to the namespace the manifest was fetched from.
\<close>

lemma runtime_saved_as_edited:
  assumes "((n, sr), t) \<in> set (yp_saves (fold (runtimes_step get put) es (rg_mounted ns store)))"
  shows "\<exists>before m typing later t0. es = before @ RgEdited (m, sr) # typing @ later \<and>
    fst (text_or_local (buildServingRuntimeYaml sr) (rg_fetched get (m, sr))) = Some t0 \<and>
    t = rg.typed_over t0 typing \<and> ((\<forall>n'. RgNamespace n' \<notin> set es) \<longrightarrow> m = ns \<and> n = ns)"
proof -
  let ?s0 = "rg_mounted ns store" and ?step = "runtimes_step get put"
  have start: "yp_edit ?s0 = None" "yp_saves ?s0 = []"
    by (simp_all add: rg_mounted_def yaml_closed_def yaml_page.defs)
  obtain before e typing later k t0 where es: "es = before @ e # typing @ later"
    and loads: "rg_loads get e (fold ?step before ?s0) = Some (k, t0)" and t: "t = rg.typed_over t0 typing"
    and n: "(n, sr) = (rg_namespace (fold ?step (before @ e # typing) ?s0), k)"
    using rg.saved_from [OF start assms] by blast
  obtain m where e: "e = RgEdited (m, sr)" and m: "(m, sr) \<in> set (yp_editCalls (fold ?step before ?s0))"
    and t0: "fst (text_or_local (buildServingRuntimeYaml sr) (rg_fetched get (m, sr))) = Some t0"
    using loads n by (auto elim!: rg_loads.elims split: if_splits simp: map_option_eq_Some dest!: sym [of "Some _"])
  have "m = ns \<and> n = ns" if "\<forall>n'. RgNamespace n' \<notin> set es"
    using that rg_same_namespace [of before get put ns store] rg_same_namespace [of "before @ e # typing" get put ns store]
      m n es e by auto
  with es e t t0 show ?thesis by blast
qed

subsection \<open>Inference services\<close>

type_synonym service_call = "string \<times> InferenceService"

text \<open>The parts of the answers the pages read.\<close>

record KServeGateway =
  kg_namespace :: string
  kg_name :: string
  kg_className :: "string option"
  kg_status :: string
  kg_addresses :: "string list option"
  kg_listeners :: "string list option"

record GatewayConfig =
  gc_ingressGatewayApiEnabled :: bool
  gc_defaultDeploymentMode :: "string option"
  gc_ingressDomain :: "string option"
  gc_urlScheme :: "string option"
  gc_disableIstioVirtualHost :: "bool option"
  gc_gatewayApiInstalled :: bool
  gc_envoyAiGatewayInstalled :: bool
  gc_gateway :: "KServeGateway option"

record RouteRef =
  rf_kind :: string
  rf_namespace :: string
  rf_name :: string
  rf_hostnames :: "string list option"
  rf_parentName :: "string option"
  rf_status :: "string option"

record RateLimitRef =
  rl_namespace :: string
  rl_name :: string
  rl_targetKind :: "string option"
  rl_targetName :: "string option"
  rl_type :: "string option"
  rl_summaries :: "string list option"

record ServiceRouteStatus =
  ro_routes :: "RouteRef list"
  ro_rateLimits :: "RateLimitRef list"

text \<open>
  One run of the route effect: the services not answered yet, the first of them in flight, and what is
  collected so far. The page's newest run is \<open>sp_run\<close>; every older one is cancelled.
\<close>

record route_loop =
  rp_run :: nat
  rp_todo :: "InferenceService list"
  rp_out :: "ServiceRouteStatus option js_map"

record services_page = "(service_call, InferenceService) yaml_page" +
  sp_namespace :: string
  sp_store :: inference
  sp_modalOpen :: bool
  sp_editing :: "InferenceService option"
  sp_log :: "InferenceService option"
  sp_gateway :: "GatewayConfig option"
  sp_routes :: "ServiceRouteStatus option js_map"
  sp_run :: nat
  sp_loops :: "route_loop list"

definition service_rows :: "services_page \<Rightarrow> InferenceService list" where
  "service_rows s = filter (\<lambda>x. obj_namespace x = sp_namespace s) (services (sp_store s))"

definition route_key :: "InferenceService \<Rightarrow> string" where
  "route_key svc = obj_namespace svc @ ''/'' @ obj_name svc"

text \<open>The effect's dependency, and the effect: cancel the run before, and start on the rows shown.\<close>

definition route_deps :: "services_page \<Rightarrow> string" where
  "route_deps s = join '','' (map route_key (service_rows s))"

definition route_effect :: "services_page \<Rightarrow> services_page" where
  "route_effect s =
     (let run = Suc (sp_run s)
      in if service_rows s = [] then s\<lparr>sp_run := run, sp_routes := []\<rparr>
         else s\<lparr>sp_run := run, sp_loops := sp_loops s @ [\<lparr>rp_run = run, rp_todo = service_rows s, rp_out = []\<rparr>]\<rparr>)"

text \<open>
  The answer to the call in flight of the loop \<open>l\<close>: collected, or recorded as missing. The next call goes
  out unless the run is cancelled; the last answer is shown unless it is.
\<close>

definition route_collected :: "ServiceRouteStatus promise \<Rightarrow> route_loop \<Rightarrow> route_loop" where
  "route_collected r l =
     (case rp_todo l of [] \<Rightarrow> l
      | svc # rest \<Rightarrow> l\<lparr>rp_todo := rest,
          rp_out := js_put (route_key svc) (case r of Inr st \<Rightarrow> Some st | Inl e \<Rightarrow> None) (rp_out l)\<rparr>)"

definition route_answered :: "route_loop \<Rightarrow> ServiceRouteStatus promise \<Rightarrow> services_page \<Rightarrow> services_page" where
  "route_answered l r s =
     (let l' = route_collected r l; others = remove1 l (sp_loops s)
      in if rp_run l \<noteq> sp_run s then s\<lparr>sp_loops := others\<rparr>
         else if rp_todo l' = [] then s\<lparr>sp_loops := others, sp_routes := rp_out l'\<rparr>
         else s\<lparr>sp_loops := others @ [l']\<rparr>)"

text \<open>After each step, the route effect runs when the identities of the rows changed.\<close>

definition services_commit :: "services_page \<Rightarrow> services_page \<Rightarrow> services_page" where
  "services_commit old s = (if route_deps s = route_deps old then s else route_effect s)"

definition sp_mounted :: "string \<Rightarrow> inference \<Rightarrow> services_page" where
  "sp_mounted ns store = route_effect (yaml_page.extend yaml_closed
     \<lparr>sp_namespace = ns, sp_store = ensureInferenceServicesLoaded True ns store, sp_modalOpen = False,
      sp_editing = None, sp_log = None, sp_gateway = None, sp_routes = [], sp_run = 0, sp_loops = []\<rparr>)"

definition sp_namespace_chosen :: "string \<Rightarrow> services_page \<Rightarrow> services_page" where
  "sp_namespace_chosen ns s =
     (if ns = sp_namespace s then s
      else s\<lparr>sp_namespace := ns, sp_store := ensureInferenceServicesLoaded True ns (sp_store s)\<rparr>)"

definition gateway_answered :: "GatewayConfig promise \<Rightarrow> services_page \<Rightarrow> services_page" where
  "gateway_answered r s = s\<lparr>sp_gateway := (case r of Inr g \<Rightarrow> Some g | Inl e \<Rightarrow> None)\<rparr>"

definition sp_openYaml :: "InferenceService \<Rightarrow> services_page \<Rightarrow> services_page" where
  "sp_openYaml svc s = (view_called (sp_namespace s, svc) s)\<lparr>yp_loading := Some (obj_name svc)\<rparr>"

definition sp_viewed :: "service_call \<Rightarrow> string promise \<Rightarrow> services_page \<Rightarrow> services_page" where
  "sp_viewed c r s =
     (view_opened (snd c) (text_or_local (buildInferenceServiceYaml (snd c)) r) s)
       \<lparr>yp_viewCalls := remove1 c (yp_viewCalls s), yp_loading := None\<rparr>"

definition sp_openEditYaml :: "InferenceService \<Rightarrow> services_page \<Rightarrow> services_page" where
  "sp_openEditYaml svc s = (edit_called (sp_namespace s, svc) s)\<lparr>yp_loading := Some (obj_name svc)\<rparr>"

definition sp_edited :: "service_call \<Rightarrow> string promise \<Rightarrow> services_page \<Rightarrow> services_page" where
  "sp_edited c r s =
     (edit_opened (snd c) (text_or_local (buildInferenceServiceYaml (snd c)) r) s)
       \<lparr>yp_editCalls := remove1 c (yp_editCalls s), yp_loading := None\<rparr>"

definition sp_fetched :: "string backend \<Rightarrow> service_call \<Rightarrow> string promise" where
  "sp_fetched send c =
     fetchInferenceServiceYaml True send (fst c) (obj_name (snd c)) (kind_text (is_kind (snd c)))"

definition sp_saveYaml :: "services_page \<Rightarrow> services_page" where
  "sp_saveYaml s = save_clicked (\<lambda>svc. (sp_namespace s, svc)) s"

definition sp_saved :: "'r backend \<Rightarrow> service_call \<Rightarrow> string \<Rightarrow> services_page \<Rightarrow> services_page" where
  "sp_saved send c text s =
     (let (r, store) = updateInferenceServiceYaml True send (fst c) (obj_name (snd c))
            (kind_text (is_kind (snd c))) text (sp_store s)
      in (case r of Inl e \<Rightarrow> save_failed e s
          | Inr _ \<Rightarrow> (save_landed ''YAML updated'' s)\<lparr>yp_saving := False\<rparr>)
           \<lparr>yp_saves := remove1 (c, text) (yp_saves s), sp_store := store\<rparr>)"

text \<open>The menu of a row: its entries, and what each does.\<close>

definition svc_stopped :: "InferenceService \<Rightarrow> bool" where
  "svc_stopped r \<longleftrightarrow> is_stopped r = Some True \<or> is_status r = SvStopped"

definition service_menu :: "InferenceService \<Rightarrow> string list" where
  "service_menu r =
     [''Details'', if svc_stopped r then ''Start'' else ''Stop'', ''Logs'', ''YAML'', ''Edit'', ''Edit YAML'', ''Delete'']"

definition sp_toggled :: "'r backend \<Rightarrow> InferenceService \<Rightarrow> services_page \<Rightarrow> services_page" where
  "sp_toggled send r s =
     (let (answer, store) = setInferenceServiceStopped True send (sp_namespace s) (obj_name r)
            (kind_text (is_kind r)) (\<not> svc_stopped r) (sp_store s)
      in notify [case answer of Inl e \<Rightarrow> Failure (js_message e)
           | Inr _ \<Rightarrow> Success ((if svc_stopped r then ''Starting'' else ''Stopping'') @ ellipsis)]
           (s\<lparr>sp_store := store\<rparr>))"

definition sp_deleted :: "'r backend \<Rightarrow> string \<Rightarrow> InferenceService \<Rightarrow> services_page \<Rightarrow> services_page" where
  "sp_deleted send ns r s =
     (let (answer, store) = deleteInferenceService True send ns (obj_name r) (kind_text (is_kind r)) (sp_store s)
      in notify [case answer of Inl e \<Rightarrow> Failure (js_message e) | Inr _ \<Rightarrow> Success ''Service deleted'']
           (s\<lparr>sp_store := store\<rparr>))"

definition sp_form_opened :: "InferenceService option \<Rightarrow> services_page \<Rightarrow> services_page" where
  "sp_form_opened r s = s\<lparr>sp_editing := r, sp_modalOpen := True\<rparr>"

definition sp_form_closed :: "services_page \<Rightarrow> services_page" where
  "sp_form_closed s = s\<lparr>sp_modalOpen := False, sp_editing := None\<rparr>"

definition log_ref :: "services_page \<Rightarrow> (string \<times> string \<times> service_kind) option" where
  "log_ref s = map_option (\<lambda>l. (obj_namespace l, obj_name l, is_kind l)) (sp_log s)"

subsection \<open>The cells of a service\<close>

text \<open>\<open>/mem/i\<close> and \<open>/core|alloc/i\<close> on the last part of the key; colour and label.\<close>

definition resource_meta :: "(string \<times> string) js_map" where
  "resource_meta =
     [(''cpu'', (''#2468f2'', ''CPU'')), (''memory'', (''#10b981'', ''Mem'')),
      (''nvidia.com/gpu'', (''#76b900'', ''GPU'')), (''amd.com/gpu'', (''#ed1c24'', ''GPU'')),
      (''huawei.com/Ascend910'', (''#c7000b'', ''NPU''))]"

definition resourceFor :: "string \<Rightarrow> string \<times> string" where
  "resourceFor key =
     (case map_of resource_meta key of
        Some m \<Rightarrow> m
      | None \<Rightarrow>
          (let suffix = last_segment key; low = toLowerCase suffix
           in if str_includes low ''mem'' then (''#0ea5e9'', suffix)
              else if str_includes low ''core'' \<or> str_includes low ''alloc'' then (''#f59e0b'', suffix)
              else (''#a855f7'', suffix)))"

text \<open>Key, colour, label and value of each chip; \<open>None\<close> when the row has no resources and the cell throws.\<close>

definition resource_chips :: "InferenceService \<Rightarrow> (string \<times> (string \<times> string) \<times> string) list option" where
  "resource_chips svc =
     (case is_resources svc of None \<Rightarrow> None
      | Some res \<Rightarrow> Some (
          (if res_cpu res \<noteq> [] then [(''cpu'', resourceFor ''cpu'', res_cpu res)] else []) @
          (if res_memory res \<noteq> [] then [(''memory'', resourceFor ''memory'', res_memory res)] else []) @
          (case is_gpuValues svc of
             Some (g # gs) \<Rightarrow> map (\<lambda>(k, v). (k, resourceFor k, show_int v)) (g # gs)
           | _ \<Rightarrow> if 0 < res_gpu res then [(''gpu'', resourceFor ''nvidia.com/gpu'', show_int (res_gpu res))] else [])))"

text \<open>The route column: how many routes, and the rate limits' first words.\<close>

definition route_cell :: "ServiceRouteStatus option js_map \<Rightarrow> InferenceService \<Rightarrow> (nat \<times> string list) option" where
  "route_cell m r =
     (case map_of m (route_key r) of
        Some (Some st) \<Rightarrow> Some (length (ro_routes st),
          map (\<lambda>p. case rl_summaries p of Some (x # _) \<Rightarrow> x | _ \<Rightarrow> ''limited'') (ro_rateLimits st))
      | _ \<Rightarrow> None)"

text \<open>The banner: its type, and the tags of the cluster's configuration.\<close>

definition banner_type :: "GatewayConfig \<Rightarrow> string" where
  "banner_type g =
     (case gc_gateway g of None \<Rightarrow> ''info''
      | Some gw \<Rightarrow> if kg_status gw = ''Accepted'' then ''success'' else ''warning'')"

definition banner_status_color :: "GatewayConfig \<Rightarrow> string" where
  "banner_status_color g =
     (case gc_gateway g of None \<Rightarrow> ''gold''
      | Some gw \<Rightarrow> if kg_status gw = ''Accepted'' then ''green'' else if kg_status gw = ''Failed'' then ''red'' else ''gold'')"

definition banner_tags :: "GatewayConfig \<Rightarrow> string list" where
  "banner_tags g =
     [''Gateway API: '' @ (if gc_ingressGatewayApiEnabled g then ''on'' else ''off''),
      ''Envoy AI Gateway: '' @ (if gc_envoyAiGatewayInstalled g then ''installed'' else ''missing'')] @
     (if truthy_str (gc_defaultDeploymentMode g) then [''default mode: '' @ nullish (gc_defaultDeploymentMode g) '''']
      else [])"

subsection \<open>The page's steps\<close>

datatype services_event =
    SpNamespace string | SpStore inference | SpGateway "GatewayConfig promise"
  | SpRoute route_loop
  | SpView InferenceService | SpViewed service_call | SpViewClosed
  | SpEditYaml InferenceService | SpEdited service_call | SpTyped string | SpEditClosed
  | SpSave | SpSaved service_call string
  | SpRefresh | SpForm "InferenceService option" | SpFormClosed | SpLog "InferenceService option"
  | SpToggle InferenceService | SpDelete InferenceService

text \<open>
  \<open>get\<close> and \<open>put\<close> answer reads and writes of manifests, \<open>route\<close> is what the backend knows of the routes
  of a service, by namespace and name.
\<close>

fun services_act ::
  "string backend \<Rightarrow> unit backend \<Rightarrow> (string \<Rightarrow> ServiceRouteStatus promise) \<Rightarrow> services_event \<Rightarrow>
     services_page \<Rightarrow> services_page" where
  "services_act get put route (SpNamespace ns) s = sp_namespace_chosen ns s"
| "services_act get put route (SpStore store) s = s\<lparr>sp_store := store\<rparr>"
| "services_act get put route (SpGateway r) s = gateway_answered r s"
| "services_act get put route (SpRoute l) s =
     (if l \<in> set (sp_loops s)
      then route_answered l (case rp_todo l of [] \<Rightarrow> Inl (JsError '''') | svc # _ \<Rightarrow> route (route_key svc)) s
      else s)"
| "services_act get put route (SpView svc) s = sp_openYaml svc s"
| "services_act get put route (SpViewed c) s =
     (if c \<in> set (yp_viewCalls s) then sp_viewed c (sp_fetched get c) s else s)"
| "services_act get put route SpViewClosed s = view_closed s"
| "services_act get put route (SpEditYaml svc) s = sp_openEditYaml svc s"
| "services_act get put route (SpEdited c) s =
     (if c \<in> set (yp_editCalls s) then sp_edited c (sp_fetched get c) s else s)"
| "services_act get put route (SpTyped t) s = text_typed t s"
| "services_act get put route SpEditClosed s = edit_closed s"
| "services_act get put route SpSave s = sp_saveYaml s"
| "services_act get put route (SpSaved c t) s = (if (c, t) \<in> set (yp_saves s) then sp_saved put c t s else s)"
| "services_act get put route SpRefresh s =
     s\<lparr>sp_store := reloadInferenceServices True (sp_namespace s) (sp_store s)\<rparr>"
| "services_act get put route (SpForm r) s = sp_form_opened r s"
| "services_act get put route SpFormClosed s = sp_form_closed s"
| "services_act get put route (SpLog r) s = s\<lparr>sp_log := r\<rparr>"
| "services_act get put route (SpToggle r) s = sp_toggled put r s"
| "services_act get put route (SpDelete r) s = sp_deleted put (sp_namespace s) r s"

definition services_step ::
  "string backend \<Rightarrow> unit backend \<Rightarrow> (string \<Rightarrow> ServiceRouteStatus promise) \<Rightarrow> services_event \<Rightarrow>
     services_page \<Rightarrow> services_page" where
  "services_step get put route e s = services_commit s (services_act get put route e s)"

fun sp_loads :: "string backend \<Rightarrow> services_event \<Rightarrow> services_page \<Rightarrow> (InferenceService \<times> string) option" where
  "sp_loads get (SpEdited c) s =
     (if c \<in> set (yp_editCalls s)
      then map_option (Pair (snd c)) (fst (text_or_local (buildInferenceServiceYaml (snd c)) (sp_fetched get c)))
      else None)"
| "sp_loads get _ s = None"

fun sp_types :: "services_event \<Rightarrow> string option" where
  "sp_types (SpTyped t) = Some t"
| "sp_types _ = None"

lemmas sp_defs = sp_namespace_chosen_def gateway_answered_def route_answered_def sp_openYaml_def sp_viewed_def
  sp_openEditYaml_def sp_edited_def sp_saveYaml_def sp_saved_def sp_toggled_def sp_deleted_def sp_form_opened_def
  sp_form_closed_def

lemma commit_yaml [simp]:
  "yp_edit (services_commit old s) = yp_edit s" "yp_saves (services_commit old s) = yp_saves s"
  "yp_editCalls (services_commit old s) = yp_editCalls s" "sp_namespace (services_commit old s) = sp_namespace s"
  "sp_store (services_commit old s) = sp_store s" "yp_saving (services_commit old s) = yp_saving s"
  by (simp_all add: services_commit_def route_effect_def Let_def)

lemma sp_edit_step:
  "yp_edit (services_step get put route e s) = None \<or>
   yp_edit (services_step get put route e s) = (case sp_loads get e s of Some p \<Rightarrow> Some p
     | None \<Rightarrow> map_option (\<lambda>(k, t). (k, case sp_types e of None \<Rightarrow> t | Some t' \<Rightarrow> t')) (yp_edit s))"
  unfolding services_step_def commit_yaml
  by (induction get put route e s rule: services_act.induct)
    (auto simp: sp_defs yaml_ops option.map_comp comp_def case_prod_unfold option.map_ident Let_def
      split: sum.splits option.splits)

lemma sp_saves_step:
  "p \<in> set (yp_saves (services_step get put route e s)) \<Longrightarrow>
   p \<in> set (yp_saves s) \<or> (\<exists>k t. yp_edit s = Some (k, t) \<and> p = ((sp_namespace s, k), t))"
  unfolding services_step_def commit_yaml
  by (induction get put route e s rule: services_act.induct)
    (auto simp: sp_defs yaml_ops Let_def case_prod_unfold split: sum.splits option.splits if_splits
      dest: subsetD [OF set_remove1_subset])

interpretation sp: yaml_editing "services_step get put route" yp_edit yp_saves "\<lambda>s svc. (sp_namespace s, svc)"
  "sp_loads get" sp_types
  for get put route
  by unfold_locales (use sp_edit_step sp_saves_step in blast)+

lemma sp_namespace_step:
  "sp_namespace (services_step get put route e s) = (case e of SpNamespace ns \<Rightarrow> ns | _ \<Rightarrow> sp_namespace s)"
  unfolding services_step_def commit_yaml
  by (induction get put route e s rule: services_act.induct)
    (auto simp: sp_defs yaml_ops Let_def case_prod_unfold split: sum.splits option.splits)

lemma sp_editCalls_step:
  "c \<in> set (yp_editCalls (services_step get put route e s)) \<Longrightarrow> c \<in> set (yp_editCalls s) \<or> fst c = sp_namespace s"
  unfolding services_step_def commit_yaml
  by (induction get put route e s rule: services_act.induct)
    (auto simp: sp_defs yaml_ops Let_def case_prod_unfold split: sum.splits option.splits if_splits
      dest: subsetD [OF set_remove1_subset])

lemma sp_start:
  "yp_edit (sp_mounted ns store) = None" "yp_saves (sp_mounted ns store) = []"
  "yp_editCalls (sp_mounted ns store) = []" "sp_namespace (sp_mounted ns store) = ns"
  "\<not> yp_saving (sp_mounted ns store)"
  by (simp_all add: sp_mounted_def route_effect_def Let_def yaml_closed_def yaml_page.defs)

lemma sp_same_namespace:
  assumes "\<forall>n. SpNamespace n \<notin> set es"
  shows "sp_namespace (fold (services_step get put route) es (sp_mounted ns store)) = ns \<and>
    (\<forall>c \<in> set (yp_editCalls (fold (services_step get put route) es (sp_mounted ns store))). fst c = ns)"
  using assms
proof (induction es rule: rev_induct)
  case Nil
  then show ?case by (simp add: sp_start)
next
  case (snoc e es)
  let ?s = "fold (services_step get put route) es (sp_mounted ns store)"
  have "sp_namespace ?s = ns" "\<forall>c \<in> set (yp_editCalls ?s). fst c = ns" "\<forall>n. e \<noteq> SpNamespace n"
    using snoc by auto
  then have "sp_namespace (services_step get put route e ?s) = ns"
    "\<forall>c \<in> set (yp_editCalls (services_step get put route e ?s)). fst c = ns"
    using sp_editCalls_step [of _ get put route e ?s] by (auto simp: sp_namespace_step split: services_event.splits)
  then show ?case by simp
qed


text \<open>
  It does not when the namespace is: an editor that opens after the namespace was changed saves the
  manifest of a service to the service of that name in the other namespace.
\<close>

definition sample_row :: InferenceService where
  "sample_row = bare_service ''1'' ''chat'' ''team-a'' InferenceServiceKind (Some ''vllm'') ''hf://m'' 1 1
     no_resources '''' SvReady ''d''"

lemma service_saved_elsewhere:
  assumes "get = (\<lambda>req. Inr ''metadata: {namespace: team-a}'')"
  shows "((''team-b'', sample_row), ''metadata: {namespace: team-a}'') \<in> set (yp_saves
    (fold (services_step get put route)
      [SpEditYaml sample_row, SpNamespace ''team-b'', SpEdited (''team-a'', sample_row), SpSave] (sp_mounted ''team-a'' store)))"
  by (simp add: services_step_def sp_defs yaml_ops sp_start sp_fetched_def fetchInferenceServiceYaml_def
      text_or_local_def assms)


subsection \<open>The routes of the rows\<close>

text \<open>What the page records for an answer.\<close>

definition route_seen :: "ServiceRouteStatus promise \<Rightarrow> ServiceRouteStatus option" where
  "route_seen r = (case r of Inr st \<Rightarrow> Some st | Inl e \<Rightarrow> None)"

text \<open>
  The states of the page while the rows' namespaces and names hold no comma (no name of Kubernetes does):
  the effect's dependency, the names joined by commas, then tells the rows' identities apart.
\<close>

definition plain_rows :: "services_page \<Rightarrow> bool" where
  "plain_rows s \<longleftrightarrow> list_all (\<lambda>x. CHR '','' \<notin> set (route_key x)) (service_rows s)"

inductive services_reach ::
  "string backend \<Rightarrow> unit backend \<Rightarrow> (string \<Rightarrow> ServiceRouteStatus promise) \<Rightarrow> services_page \<Rightarrow> bool"
  for get put route where
  mounted: "plain_rows (sp_mounted ns store) \<Longrightarrow> services_reach get put route (sp_mounted ns store)"
| step: "services_reach get put route s \<Longrightarrow> plain_rows (services_step get put route e s) \<Longrightarrow>
    services_reach get put route (services_step get put route e s)"

definition loop_ok :: "(string \<Rightarrow> ServiceRouteStatus promise) \<Rightarrow> string set \<Rightarrow> nat \<Rightarrow> route_loop \<Rightarrow> bool" where
  "loop_ok route keys run l \<longleftrightarrow>
     rp_run l \<le> run \<and> (\<forall>(k, v) \<in> set (rp_out l). v = route_seen (route k)) \<and>
     (rp_run l = run \<longrightarrow> keys \<subseteq> fst ` set (rp_out l) \<union> route_key ` set (rp_todo l))"

definition routes_ok :: "(string \<Rightarrow> ServiceRouteStatus promise) \<Rightarrow> services_page \<Rightarrow> bool" where
  "routes_ok route s \<longleftrightarrow>
     (\<forall>l \<in> set (sp_loops s). loop_ok route (route_key ` set (service_rows s)) (sp_run s) l) \<and>
     (\<forall>(k, v) \<in> set (sp_routes s). v = route_seen (route k)) \<and>
     ((\<forall>l \<in> set (sp_loops s). rp_run l \<noteq> sp_run s) \<longrightarrow>
        route_key ` set (service_rows s) \<subseteq> fst ` set (sp_routes s))"

lemma service_rows_unchanged [simp]:
  "service_rows (s\<lparr>sp_loops := a\<rparr>) = service_rows s" "service_rows (s\<lparr>sp_routes := b\<rparr>) = service_rows s"
  "service_rows (s\<lparr>sp_run := c\<rparr>) = service_rows s"
  by (simp_all add: service_rows_def)

lemma js_put_set: "p \<in> set (js_put k v m) \<Longrightarrow> p = (k, v) \<or> p \<in> set m"
  by (induction k v m rule: js_put.induct) (auto split: if_splits)

lemma collected_ok:
  assumes "loop_ok route keys run l" "rp_todo l = svc # rest"
  shows "loop_ok route keys run (route_collected (route (route_key svc)) l)"
  using assms by (auto simp: loop_ok_def route_collected_def keys_js_put route_seen_def dest!: js_put_set
      split: sum.splits)

lemma route_answered_ok:
  assumes "routes_ok route s" "l \<in> set (sp_loops s)" "rp_todo l = [] \<or> (\<exists>svc rest. rp_todo l = svc # rest \<and> r = route (route_key svc))"
  shows "routes_ok route (route_answered l r s)"
proof -
  let ?keys = "route_key ` set (service_rows s)" and ?l = "route_collected r l"
  have all: "\<forall>l \<in> set (sp_loops s). loop_ok route ?keys (sp_run s) l" and seen: "\<forall>(k, v) \<in> set (sp_routes s). v = route_seen (route k)"
    and full: "(\<forall>l \<in> set (sp_loops s). rp_run l \<noteq> sp_run s) \<longrightarrow> ?keys \<subseteq> fst ` set (sp_routes s)"
    using assms(1) by (auto simp: routes_ok_def)
  have l: "loop_ok route ?keys (sp_run s) ?l"
    using assms(3) all assms(2) collected_ok [of route ?keys "sp_run s" l] by (auto simp: route_collected_def)
  have run: "rp_run ?l = rp_run l" by (simp add: route_collected_def split: list.splits)
  have others: "set (remove1 l (sp_loops s)) \<subseteq> set (sp_loops s)" by (rule set_remove1_subset)
  consider "rp_run l \<noteq> sp_run s" | "rp_run l = sp_run s" "rp_todo ?l = []" | "rp_run l = sp_run s" "rp_todo ?l \<noteq> []" by blast
  then show ?thesis
  proof cases
    case 1
    have "l' \<in> set (remove1 l (sp_loops s))" if "l' \<in> set (sp_loops s)" "rp_run l' = sp_run s" for l'
      using 1 that by (metis in_set_remove1)
    then have "(\<forall>l' \<in> set (remove1 l (sp_loops s)). rp_run l' \<noteq> sp_run s) \<longrightarrow> ?keys \<subseteq> fst ` set (sp_routes s)"
      using full by blast
    with 1 all seen others show ?thesis by (auto simp: routes_ok_def route_answered_def Let_def)
  next
    case 2
    with l run all others show ?thesis
      by (auto simp: routes_ok_def route_answered_def Let_def loop_ok_def)
  next
    case 3
    with l run all seen others show ?thesis
      by (auto simp: routes_ok_def route_answered_def Let_def)
  qed
qed

lemma route_effect_ok:
  assumes "routes_ok route old" "sp_loops s = sp_loops old" "sp_routes s = sp_routes old" "sp_run s = sp_run old"
  shows "routes_ok route (route_effect s)"
proof -
  have late: "loop_ok route keys (Suc run) l" if "loop_ok route keys' run l" for keys keys' run l
    using that by (auto simp: loop_ok_def)
  have "\<forall>l \<in> set (sp_loops s). loop_ok route keys (Suc (sp_run s)) l" for keys
    using assms late by (auto simp: routes_ok_def)
  moreover have "loop_ok route (route_key ` set rs) (Suc n) \<lparr>rp_run = Suc n, rp_todo = rs, rp_out = []\<rparr>" for rs n
    by (simp add: loop_ok_def)
  ultimately show ?thesis
    using assms by (simp add: routes_ok_def route_effect_def Let_def)
qed

lemma route_effect_start: "sp_loops s = [] \<Longrightarrow> sp_routes s = [] \<Longrightarrow> routes_ok route (route_effect s)"
  by (simp add: routes_ok_def route_effect_def loop_ok_def Let_def)

lemma plain_deps:
  assumes "plain_rows s" "plain_rows old" "route_deps s = route_deps old"
  shows "route_key ` set (service_rows s) = route_key ` set (service_rows old)"
proof -
  have parts: "split_on (CHR '','') (route_deps s) = map route_key (service_rows s)"
    if "plain_rows s" "service_rows s \<noteq> []" for s
    using that split_on_join [of "map route_key (service_rows s)" "CHR '',''"]
    by (auto simp: route_deps_def plain_rows_def list_all_iff)
  have none: "route_deps s = [] \<longleftrightarrow> service_rows s = []" for s
  proof (cases "service_rows s")
    case (Cons x xs)
    then show ?thesis by (cases xs) (simp_all add: route_deps_def route_key_def)
  qed (simp add: route_deps_def)
  show ?thesis
  proof (cases "service_rows s = []")
    case True
    then show ?thesis using none [of s] none [of old] assms(3) by simp
  next
    case False
    then have "map route_key (service_rows s) = map route_key (service_rows old)"
      using parts [of s] parts [of old] none [of s] none [of old] assms by metis
    then show ?thesis by (metis list.set_map)
  qed
qed

lemma act_routes:
  "sp_loops (services_act get put route e s) = sp_loops s \<and> sp_routes (services_act get put route e s) = sp_routes s \<and>
   sp_run (services_act get put route e s) = sp_run s \<or>
   (\<exists>l. e = SpRoute l \<and> l \<in> set (sp_loops s))"
  by (induction get put route e s rule: services_act.induct)
    (auto simp: sp_defs yaml_ops Let_def case_prod_unfold split: sum.splits option.splits if_splits)

lemma services_reach_ok: "services_reach get put route s \<Longrightarrow> routes_ok route s \<and> plain_rows s"
proof (induction rule: services_reach.induct)
  case (mounted ns store)
  then show ?case
    by (auto simp: sp_mounted_def yaml_page.defs intro!: route_effect_start)
next
  case (step s e)
  let ?a = "services_act get put route e s"
  have ok: "routes_ok route s" "plain_rows s" using step.IH by simp_all
  have rows: "service_rows (services_commit s ?a) = service_rows ?a"
    by (simp add: service_rows_def)
  then have plain: "plain_rows ?a" using step.hyps(2) by (simp add: services_step_def plain_rows_def)
  show ?case
  proof (cases "\<exists>l. e = SpRoute l \<and> l \<in> set (sp_loops s)")
    case True
    then obtain l where l: "e = SpRoute l" "l \<in> set (sp_loops s)" by blast
    have "service_rows ?a = service_rows s"
      using l by (simp add: route_answered_def Let_def)
    then have "services_commit s ?a = ?a" by (simp add: services_commit_def route_deps_def)
    moreover have "routes_ok route ?a"
      using l route_answered_ok [OF ok(1) l(2)] by (cases "rp_todo l") simp_all
    ultimately show ?thesis using step.hyps(2) by (simp add: services_step_def)
  next
    case False
    then have same: "sp_loops ?a = sp_loops s" "sp_routes ?a = sp_routes s" "sp_run ?a = sp_run s"
      using act_routes [of get put route e s] by auto
    have "routes_ok route (services_commit s ?a)"
    proof (cases "route_deps ?a = route_deps s")
      case True
      then have "route_key ` set (service_rows ?a) = route_key ` set (service_rows s)"
        by (rule plain_deps [OF plain ok(2)])
      with True ok(1) same show ?thesis by (simp add: services_commit_def routes_ok_def)
    next
      case neq: False
      with route_effect_ok [OF ok(1) same] show ?thesis by (simp add: services_commit_def)
    qed
    then show ?thesis using step.hyps(2) by (simp add: services_step_def)
  qed
qed

text \<open>
  C14. The route column tells the truth about its row: whatever namespaces, listings and answers came before, and
  in whatever order, what it shows for a service is what the backend answered for that namespace and name;
  and once the run of the rows shown has ended, every row has its answer.
\<close>

theorem route_column_is_of_its_row:
  assumes "services_reach get put route s" "svc \<in> set (service_rows s)"
  shows "(\<forall>v. map_of (sp_routes s) (route_key svc) = Some v \<longrightarrow> v = route_seen (route (route_key svc))) \<and>
    (list_all (\<lambda>l. rp_run l \<noteq> sp_run s) (sp_loops s) \<longrightarrow>
       map_of (sp_routes s) (route_key svc) = Some (route_seen (route (route_key svc))))"
proof -
  have ok: "\<forall>(k, v) \<in> set (sp_routes s). v = route_seen (route k)"
    "(\<forall>l \<in> set (sp_loops s). rp_run l \<noteq> sp_run s) \<longrightarrow> route_key ` set (service_rows s) \<subseteq> fst ` set (sp_routes s)"
    using services_reach_ok [OF assms(1)] by (simp_all add: routes_ok_def)
  have seen: "\<forall>v. map_of (sp_routes s) (route_key svc) = Some v \<longrightarrow> v = route_seen (route (route_key svc))"
    using ok(1) by (auto dest: map_of_SomeD)
  moreover have "map_of (sp_routes s) (route_key svc) \<noteq> None" if "list_all (\<lambda>l. rp_run l \<noteq> sp_run s) (sp_loops s)"
    using ok(2) that assms(2) by (auto simp: map_of_eq_None_iff list_all_iff)
  ultimately show ?thesis by auto
qed

definition sample_page :: services_page where
  "sample_page = sp_mounted ''team-a'' ((inference_init (\<lambda>_. ''1'') ''d'')\<lparr>services := [sample_row]\<rparr>)"

definition sample_route :: "string \<Rightarrow> ServiceRouteStatus promise" where
  "sample_route k = (if k = ''team-a/chat'' then Inr \<lparr>ro_routes = [], ro_rateLimits = []\<rparr> else Inl (JsError ''none''))"

definition sample_routed :: services_page where
  "sample_routed = services_step (\<lambda>_. Inr ''a'') (\<lambda>_. Inr ()) sample_route (SpRoute (hd (sp_loops sample_page))) sample_page"

theorem route_column_is_of_its_row_witness:
  "route_cell (sp_routes sample_routed) sample_row = Some (0, [])"
proof -
  have page: "sp_loops sample_page = [\<lparr>rp_run = 1, rp_todo = [sample_row], rp_out = []\<rparr>]" "sp_run sample_page = 1"
    "service_rows sample_page = [sample_row]"
    by (simp_all add: sample_page_def sp_mounted_def route_effect_def service_rows_def sample_row_def bare_service_def
        ensureInferenceServicesLoaded_def start_once_def yaml_page.defs)
  have key: "route_key sample_row = ''team-a/chat''" by (simp add: route_key_def sample_row_def bare_service_def)
  have routed: "service_rows sample_routed = [sample_row]" "sp_loops sample_routed = []"
    using page by (simp_all add: sample_routed_def services_step_def services_commit_def route_answered_def
        route_collected_def route_deps_def)
  have "plain_rows sample_page" using page key by (simp add: plain_rows_def)
  then have "services_reach (\<lambda>_. Inr ''a'') (\<lambda>_. Inr ()) sample_route sample_page"
    unfolding sample_page_def by (rule services_reach.mounted)
  moreover have "plain_rows sample_routed" using routed key by (simp add: plain_rows_def)
  ultimately have "services_reach (\<lambda>_. Inr ''a'') (\<lambda>_. Inr ()) sample_route sample_routed"
    unfolding sample_routed_def by (rule services_reach.step)
  note shown = route_column_is_of_its_row [OF this, of sample_row]
  have "map_of (sp_routes sample_routed) (route_key sample_row) = Some (route_seen (sample_route (route_key sample_row)))"
    using shown routed by (metis list.set_intros(1) list.pred_inject(1))
  moreover have "route_seen (sample_route (route_key sample_row)) = Some \<lparr>ro_routes = [], ro_rateLimits = []\<rparr>"
    by (simp add: key sample_route_def route_seen_def)
  ultimately show ?thesis by (simp add: route_cell_def)
qed

text \<open>
  An edited manifest that could not be fetched is the local one; saved as it is, it replaces the object.
\<close>

lemma failed_fetch_edits_local:
  assumes "buildInferenceServiceYaml svc = Some t" "c = (ns, svc)"
  shows "yp_edit (sp_edited c (Inl e) s) = Some (svc, t)"
    "yp_notices (sp_edited c (Inl e) s) = yp_notices s @ [Warning (''Falling back to local YAML: '' @ js_message e)]"
  using assms by (simp_all add: sp_edited_def text_or_local_def yaml_ops)

text \<open>Refreshing the list does not refresh the routes: the identities of the rows stay.\<close>

lemma refresh_keeps_routes:
  "sp_routes (services_step get put route SpRefresh s) = sp_routes s \<and>
   sp_loops (services_step get put route SpRefresh s) = sp_loops s"
proof -
  have "services (reloadInferenceServices True ns x) = services x" for ns x
    by (simp add: reloadInferenceServices_def ensureInferenceServicesLoaded_def start_once_def forget_def)
  then show ?thesis
    by (simp add: services_step_def services_commit_def route_deps_def service_rows_def)
qed

end
