(* ===== verification/Monitoring_Pages.thy ===== *)
theory Monitoring_Pages
  imports Inference_Pages Training Catalogues "HOL-Library.Word"
begin

unbundle bit_operations_syntax

text \<open>
  The charts: \<open>frontend/src/api/monitoring.ts\<close>, the pages \<open>LLMMonitoring.tsx\<close>, \<open>TrainMonitoring.tsx\<close> and
  \<open>Monitoring.tsx\<close> of \<open>frontend/src/pages/monitoring\<close>, and the page of one inference service
  (\<open>frontend/src/pages/inference/InferenceServiceDetail.tsx\<close>). Each shows the series of one subject, which
  an effect asks for when the subject changes, dropping what it asked for before. The first part states
  that contract; then come the requests, how the answers become rows, and the pages. The values of the
  demonstration series are floating-point computations the pages take as arguments; only the generator
  their noise comes from is modelled, with its arithmetic.
\<close>

subsection \<open>Charts of one subject\<close>

text \<open>
  What is shown, the number of the newest run of the effect, and the calls not answered yet with the run
  and the subject that asked; a call of an older run is cancelled.
\<close>

record ('k, 'v) chart =
  ch_shown :: 'v
  ch_run :: nat
  ch_calls :: "(nat \<times> 'k) list"

text \<open>\<open>start k v\<close> is what the effect shows at once for the subject \<open>k\<close>, if it asks for nothing.\<close>

definition chart_effect :: "('k \<Rightarrow> 'v \<Rightarrow> 'v option) \<Rightarrow> 'k \<Rightarrow> ('k, 'v, 'm) chart_scheme \<Rightarrow> ('k, 'v, 'm) chart_scheme" where
  "chart_effect start k c =
     (let run = Suc (ch_run c)
      in case start k (ch_shown c) of
           Some v \<Rightarrow> c\<lparr>ch_run := run, ch_shown := v\<rparr>
         | None \<Rightarrow> c\<lparr>ch_run := run, ch_calls := ch_calls c @ [(run, k)]\<rparr>)"

definition chart_answered ::
  "('k \<Rightarrow> 'r \<Rightarrow> 'v) \<Rightarrow> nat \<times> 'k \<Rightarrow> 'r \<Rightarrow> ('k, 'v, 'm) chart_scheme \<Rightarrow> ('k, 'v, 'm) chart_scheme" where
  "chart_answered of_answer call r c =
     (if fst call = ch_run c then c\<lparr>ch_shown := of_answer (snd call) r\<rparr> else c)\<lparr>ch_calls := remove1 call (ch_calls c)\<rparr>"

locale charting =
  fixes start :: "'k \<Rightarrow> 'v \<Rightarrow> 'v option" and of_answer :: "'k \<Rightarrow> 'r \<Rightarrow> 'v" and right :: "('k \<Rightarrow> 'r) \<Rightarrow> 'k \<Rightarrow> 'v \<Rightarrow> bool"
  assumes start_right: "start k v = Some v' \<Longrightarrow> right respond k v'"
    and answer_right: "start k v = None \<Longrightarrow> right respond k (of_answer k (respond k))"
begin

text \<open>The chart is about \<open>k\<close>: its newest call is for it, and with none in flight it shows what is right for it.\<close>

definition about :: "('k \<Rightarrow> 'r) \<Rightarrow> 'k \<Rightarrow> ('k, 'v, 'm) chart_scheme \<Rightarrow> bool" where
  "about respond k c \<longleftrightarrow>
     (\<forall>(n, k') \<in> set (ch_calls c). n \<le> ch_run c \<and> (n = ch_run c \<longrightarrow> k' = k \<and> (\<exists>v. start k v = None))) \<and>
     ((\<forall>(n, k') \<in> set (ch_calls c). n \<noteq> ch_run c) \<longrightarrow> right respond k (ch_shown c))"

lemma effect_about:
  assumes "\<forall>(n, k') \<in> set (ch_calls c). n \<le> ch_run c"
  shows "about respond k (chart_effect start k c)"
proof (cases "start k (ch_shown c)")
  case None
  then show ?thesis using assms by (auto simp: about_def chart_effect_def Let_def)
next
  case (Some v)
  then show ?thesis
    using assms start_right by (fastforce simp: about_def chart_effect_def Let_def)
qed

lemma about_calls: "about respond k c \<Longrightarrow> \<forall>(n, k') \<in> set (ch_calls c). n \<le> ch_run c"
  by (auto simp: about_def)

lemma answered_about:
  assumes "about respond k c" "call \<in> set (ch_calls c)"
  shows "about respond k (chart_answered of_answer call (respond (snd call)) c)"
proof (cases "fst call = ch_run c")
  case True
  then have "snd call = k" "\<exists>v. start k v = None" using assms by (auto simp: about_def)
  then have "right respond k (of_answer k (respond k))" using answer_right by blast
  with True \<open>snd call = k\<close> assms(1) show ?thesis
    by (auto simp: about_def chart_answered_def dest: subsetD [OF set_remove1_subset])
next
  case False
  have keep: "(\<forall>(n, k') \<in> set (remove1 call (ch_calls c)). n \<noteq> ch_run c) \<Longrightarrow> \<forall>(n, k') \<in> set (ch_calls c). n \<noteq> ch_run c"
    using False by (metis (mono_tags, lifting) case_prod_beta' in_set_remove1)
  show ?thesis
    using False assms(1) keep by (auto simp: about_def chart_answered_def dest: subsetD [OF set_remove1_subset])
qed

lemma about_same: "about respond k c \<Longrightarrow> ch_shown c' = ch_shown c \<Longrightarrow> ch_run c' = ch_run c \<Longrightarrow> ch_calls c' = ch_calls c \<Longrightarrow>
    about respond k c'"
  by (simp add: about_def)

lemma about_settled: "about respond k c \<Longrightarrow> list_all (\<lambda>p. fst p \<noteq> ch_run c) (ch_calls c) \<Longrightarrow> right respond k (ch_shown c)"
  by (auto simp: about_def list_all_iff)

end

subsection \<open>Requests\<close>

type_synonym decimal = "int \<times> int"

record Series =
  se_points :: "(string \<times> decimal) list"
  se_unit :: string
  se_total :: decimal

datatype monitoring_source = FromPrometheus | FromSynthetic

record MonitoringBundle =
  mb_namespace :: string
  mb_target :: string
  mb_source :: monitoring_source
  mb_series :: "Series js_map"

record MonitoringQuery =
  mq_scope :: string
  mq_target :: string
  mq_resource :: string
  mq_kind :: string

text \<open>The optional start, end and step are numbers in seconds; no caller gives them.\<close>

definition time_params :: "int option \<Rightarrow> int option \<Rightarrow> int option \<Rightarrow> (string \<times> string) list" where
  "time_params t0 t1 dt =
     (case t0 of None \<Rightarrow> [] | Some v \<Rightarrow> [(''start'', show_int v)]) @
     (case t1 of None \<Rightarrow> [] | Some v \<Rightarrow> [(''end'', show_int v)]) @
     (case dt of None \<Rightarrow> [] | Some v \<Rightarrow> [(''step'', show_int v)])"

definition queryMonitoring :: "MonitoringQuery \<Rightarrow> int option \<Rightarrow> int option \<Rightarrow> int option \<Rightarrow> http_request" where
  "queryMonitoring q t0 t1 dt = get_request (''/api/v1/monitoring/query?'' @ search_params
     ([(''scope'', mq_scope q), (''target'', mq_target q), (''resource'', mq_resource q), (''kind'', mq_kind q)] @
      time_params t0 t1 dt))"

definition queryLLMMonitoring :: "string \<Rightarrow> string \<Rightarrow> int option \<Rightarrow> int option \<Rightarrow> int option \<Rightarrow> http_request" where
  "queryLLMMonitoring ns service t0 t1 dt = get_request (''/api/v1/monitoring/llm?'' @ search_params
     ([(''namespace'', ns), (''service'', service)] @ time_params t0 t1 dt))"

definition queryTrainingMonitoring :: "string \<Rightarrow> string \<Rightarrow> int option \<Rightarrow> int option \<Rightarrow> int option \<Rightarrow> http_request" where
  "queryTrainingMonitoring ns job t0 t1 dt = get_request (''/api/v1/monitoring/training?'' @ search_params
     ([(''namespace'', ns), (''job'', job)] @ time_params t0 t1 dt))"

subsection \<open>Rows of a bundle\<close>

text \<open>A row of the charts: its time, and the value of each metric.\<close>

type_synonym row = "string \<times> (string \<Rightarrow> decimal)"

definition points_of :: "MonitoringBundle \<Rightarrow> string \<Rightarrow> (string \<times> decimal) list" where
  "points_of b k = (case map_of (mb_series b) k of None \<Rightarrow> [] | Some s \<Rightarrow> se_points s)"

definition longest_axis :: "string list \<Rightarrow> MonitoringBundle \<Rightarrow> string list" where
  "longest_axis keys b =
     fold (\<lambda>k axis. if length axis < length (points_of b k) then map fst (points_of b k) else axis) keys []"

definition sample_at :: "string list \<Rightarrow> MonitoringBundle \<Rightarrow> nat \<Rightarrow> string \<Rightarrow> decimal" where
  "sample_at keys b i k = (if k \<in> set keys \<and> i < length (points_of b k) then snd (points_of b k ! i) else (0, 0))"

definition bundle_rows :: "string list \<Rightarrow> MonitoringBundle \<Rightarrow> row list" where
  "bundle_rows keys b =
     (let axis = longest_axis keys b in map (\<lambda>i. (axis ! i, sample_at keys b i)) [0..<length axis])"

definition llm_keys :: "string list" where
  "llm_keys = [''tokensPerSec'', ''promptTokens'', ''completionTokens'', ''rps'', ''p50'', ''p95'', ''p99'']"

definition train_keys :: "string list" where
  "train_keys = [''gpuUtil'', ''gpuMemGiB'', ''hostCpu'', ''hostMemGiB'', ''netRxMiB'', ''netTxMiB'']"

text \<open>The page of one service takes the time axis of the first metric.\<close>

definition detail_rows :: "MonitoringBundle \<Rightarrow> row list" where
  "detail_rows b =
     (let axis = points_of b ''tokensPerSec''
      in map (\<lambda>i. (fst (axis ! i),
           sample_at [''tokensPerSec'', ''rps'', ''p95'', ''promptTokens'', ''completionTokens''] b i)) [0..<length axis])"

lemma longest_axis_fold:
  "length (fold (\<lambda>k axis. if length axis < length (points_of b k) then map fst (points_of b k) else axis) keys axis) =
   fold (\<lambda>k n. max n (length (points_of b k))) keys (length axis)"
  by (induction keys arbitrary: axis) (simp_all add: max_def)

lemma fold_max: "fold (\<lambda>k n. max n (f k)) keys m = Max (insert m (f ` set keys))" for m :: nat
proof (induction keys arbitrary: m)
  case (Cons k keys)
  have "Max (insert (max m (f k)) (f ` set keys)) = max (max m (f k)) (Max (insert m (f ` set keys)))" for m
    by (cases "set keys = {}") (simp_all add: max.left_commute max.commute)
  then show ?case using Cons [of "max m (f k)"]
    by (cases "set keys = {}") (simp_all add: insert_commute max.left_commute max.commute max.assoc)
qed simp

text \<open>
  C28. A chart of the monitoring pages has a row for every sample of every metric it draws, as many as its
  longest metric has, and draws each sample at its index; a metric without a sample there is drawn as zero.
\<close>

theorem bundle_rows_complete:
  "length (bundle_rows keys b) = Max (insert 0 ((\<lambda>k. length (points_of b k)) ` set keys)) \<and>
   list_all (\<lambda>k. map (\<lambda>p. snd p k) (bundle_rows keys b) =
     map snd (points_of b k) @ replicate (length (bundle_rows keys b) - length (points_of b k)) (0, 0)) keys"
proof -
  let ?n = "length (bundle_rows keys b)"
  have n: "?n = Max (insert 0 ((\<lambda>k. length (points_of b k)) ` set keys))"
    using longest_axis_fold [where axis = "[]" and keys = keys and b = b] fold_max [of "\<lambda>k. length (points_of b k)" keys 0]
    by (simp add: bundle_rows_def longest_axis_def Let_def)
  moreover have "map (\<lambda>p. snd p k) (bundle_rows keys b) = map snd (points_of b k) @ replicate (?n - length (points_of b k)) (0, 0)"
    if "k \<in> set keys" for k
  proof -
    have le: "length (points_of b k) \<le> ?n" unfolding n by (rule Max_ge) (use that in auto)
    have at: "snd (bundle_rows keys b ! i) k = (if i < length (points_of b k) then snd (points_of b k ! i) else (0, 0))"
      if "i < ?n" for i
      using that \<open>k \<in> set keys\<close> by (simp add: bundle_rows_def sample_at_def Let_def)
    show ?thesis using le by (intro nth_equalityI) (simp_all add: at nth_append)
  qed
  ultimately show ?thesis by (simp add: list_all_iff)
qed

text \<open>
  The page of one service draws nothing when the first metric has no samples, though the others have.
\<close>

lemma detail_needs_tokens: "points_of b ''tokensPerSec'' = [] \<Longrightarrow> detail_rows b = []"
  by (simp add: detail_rows_def)

lemma detail_is_llm:
  assumes "\<forall>k \<in> set llm_keys. length (points_of b k) \<le> length (points_of b ''tokensPerSec'')"
    "k \<in> {''tokensPerSec'', ''rps'', ''p95'', ''promptTokens'', ''completionTokens''}"
  shows "map (\<lambda>p. (fst p, snd p k)) (detail_rows b) = map (\<lambda>p. (fst p, snd p k)) (bundle_rows llm_keys b)"
proof -
  have stay: "fold (\<lambda>k axis. if length axis < length (points_of b k) then map fst (points_of b k) else axis) ks axis = axis"
    if "\<forall>k \<in> set ks. length (points_of b k) \<le> length axis" for ks axis
    using that by (induction ks) auto
  have "longest_axis llm_keys b = map fst (points_of b ''tokensPerSec'')"
  proof -
    have "longest_axis llm_keys b = fold (\<lambda>k axis. if length axis < length (points_of b k) then map fst (points_of b k) else axis)
        (tl llm_keys) (map fst (points_of b ''tokensPerSec''))"
      by (cases "points_of b ''tokensPerSec''") (simp_all add: longest_axis_def llm_keys_def)
    also have "\<dots> = map fst (points_of b ''tokensPerSec'')"
      by (rule stay) (use assms(1) in \<open>auto simp: llm_keys_def\<close>)
    finally show ?thesis .
  qed
  then show ?thesis
    using assms(2) by (auto simp: detail_rows_def bundle_rows_def sample_at_def Let_def llm_keys_def)
qed

subsection \<open>The noise of the demonstration series\<close>

text \<open>
  JavaScript numbers are doubles: \<open>h * 1103515245\<close> exceeds 53 bits and is rounded (to the nearest, ties to
  even) before \<open>| 0\<close> takes its low 32 bits. The identifiers it starts from are ASCII.
\<close>

definition excess_bits :: "int \<Rightarrow> nat" where
  "excess_bits x = length (filter (\<lambda>e. 2 ^ (53 + e) \<le> \<bar>x\<bar>) [0..<64])"

definition double_round :: "int \<Rightarrow> int" where
  "double_round x =
     (let e = excess_bits x; q = x div 2 ^ e; r = x mod 2 ^ e
      in if e = 0 then x
         else (if 2 * r < 2 ^ e \<or> 2 * r = 2 ^ e \<and> even q then q else q + 1) * 2 ^ e)"

definition seed_start :: "string \<Rightarrow> 32 word" where
  "seed_start s = fold (\<lambda>c h. word_of_int (sint h * 31 + of_char c)) s 0"

definition seed_next :: "32 word \<Rightarrow> 32 word" where
  "seed_next h = word_of_int (double_round (double_round (sint h * 1103515245) + 12345))"

text \<open>The numerator over \<open>0x7fff\<close> of the number drawn.\<close>

definition seed_draw :: "32 word \<Rightarrow> int" where
  "seed_draw h = uint (drop_bit 16 h AND 0x7fff)"

text \<open>What the generator draws is between 0 and 1, whatever the identifier and however often it is drawn.\<close>

lemma draws_bounded: "0 \<le> seed_draw h \<and> seed_draw h \<le> 0x7fff"
proof -
  have "uint (drop_bit 16 h AND 0x7fff) = uint (drop_bit 16 h) AND 0x7fff"
    by (simp add: unsigned_and_eq)
  also have "\<dots> \<le> 0x7fff" by (rule AND_upper2) simp
  finally show ?thesis by (simp add: seed_draw_def)
qed

lemma double_round_small: "\<bar>x\<bar> < 2 ^ 53 \<Longrightarrow> double_round x = x"
proof -
  assume "\<bar>x\<bar> < 2 ^ 53"
  then have "\<not> 2 ^ (53 + e) \<le> \<bar>x\<bar>" for e :: nat
    using power_increasing [of 53 "53 + e" "2 :: int"] by simp
  then show ?thesis by (simp add: double_round_def excess_bits_def)
qed

text \<open>The rounding shows: the sequence is not the one the constants have in 32-bit arithmetic.\<close>

lemma rounding_shows: "\<exists>h. seed_next h \<noteq> h * 1103515245 + 12345"
proof -
  have "seed_next 2147483633 \<noteq> (2147483633 :: 32 word) * 1103515245 + 12345" by code_simp
  then show ?thesis by blast
qed

subsection \<open>The monitors of services and train jobs\<close>

datatype chart_source = Prometheus | SyntheticSeries | FallbackSeries

fun source_of :: "monitoring_source \<Rightarrow> chart_source" where
  "source_of FromPrometheus = Prometheus"
| "source_of FromSynthetic = SyntheticSeries"

type_synonym series = "row list \<times> chart_source"

text \<open>
  Without a subject the series is empty and the source kept; in synthetic mode the local series is shown;
  else the backend is asked, and the local series stands in for an answer that fails. \<open>local\<close> is that series.
\<close>

definition subject_start :: "bool \<Rightarrow> (string \<Rightarrow> row list) \<Rightarrow> 'a k8s_obj_scheme option \<Rightarrow> series \<Rightarrow> series option" where
  "subject_start synthetic local k v =
     (case k of None \<Rightarrow> Some ([], snd v)
      | Some x \<Rightarrow> if synthetic then Some (local (obj_id x), SyntheticSeries) else None)"

definition subject_answer ::
  "(MonitoringBundle \<Rightarrow> row list) \<Rightarrow> (string \<Rightarrow> row list) \<Rightarrow> 'a k8s_obj_scheme option \<Rightarrow> MonitoringBundle promise \<Rightarrow> series" where
  "subject_answer to_rows local k r =
     (case r of Inr b \<Rightarrow> (to_rows b, source_of (mb_source b))
      | Inl e \<Rightarrow> (case k of None \<Rightarrow> [] | Some x \<Rightarrow> local (obj_id x), FallbackSeries))"

definition subject_right ::
  "bool \<Rightarrow> (MonitoringBundle \<Rightarrow> row list) \<Rightarrow> (string \<Rightarrow> row list) \<Rightarrow> ('a k8s_obj_scheme option \<Rightarrow> MonitoringBundle promise) \<Rightarrow>
     'a k8s_obj_scheme option \<Rightarrow> series \<Rightarrow> bool" where
  "subject_right synthetic to_rows local respond k v \<longleftrightarrow>
     (case k of None \<Rightarrow> fst v = []
      | Some x \<Rightarrow> v = (if synthetic then (local (obj_id x), SyntheticSeries) else subject_answer to_rows local k (respond k)))"

interpretation subject: charting "subject_start synthetic local" "subject_answer to_rows local" "subject_right synthetic to_rows local"
  for synthetic local to_rows
  by unfold_locales (auto simp: subject_start_def subject_right_def split: option.splits if_splits)

definition llm_query :: "InferenceService \<Rightarrow> http_request" where
  "llm_query svc = queryLLMMonitoring (obj_namespace svc) (obj_name svc) None None None"

definition train_query :: "TrainJob \<Rightarrow> http_request" where
  "train_query j = queryTrainingMonitoring (obj_namespace j) (obj_name j) None None None"

text \<open>The page: the namespace, the rows of the store, and the identifier chosen.\<close>

record 'a monitor = "('a k8s_obj_scheme option, series) chart" +
  mo_namespace :: string
  mo_all :: "'a k8s_obj_scheme list"
  mo_selectedId :: "string option"

definition first_of :: "'a list \<Rightarrow> 'a option" where
  "first_of xs = (case xs of [] \<Rightarrow> None | x # _ \<Rightarrow> Some x)"

definition monitor_rows :: "('a, 'm) monitor_scheme \<Rightarrow> 'a k8s_obj_scheme list" where
  "monitor_rows s = filter (\<lambda>x. obj_namespace x = mo_namespace s) (mo_all s)"

text \<open>\<open>xs.find(x => x.id === selectedId) ?? xs[0]\<close>\<close>

definition chosen :: "'a k8s_obj_scheme list \<Rightarrow> string option \<Rightarrow> 'a k8s_obj_scheme option" where
  "chosen xs sel = (case Option.bind sel (\<lambda>i. find_key obj_id i xs) of Some x \<Rightarrow> Some x | None \<Rightarrow> first_of xs)"

definition selected :: "('a, 'm) monitor_scheme \<Rightarrow> 'a k8s_obj_scheme option" where
  "selected s = chosen (monitor_rows s) (mo_selectedId s)"

text \<open>The services' monitor moves a selection that is gone to the first row; the train jobs' does not.\<close>

definition selection_effect :: "('a, 'm) monitor_scheme \<Rightarrow> ('a, 'm) monitor_scheme" where
  "selection_effect s =
     (if monitor_rows s = [] then s\<lparr>mo_selectedId := None\<rparr>
      else if \<not> list_ex (\<lambda>x. Some (obj_id x) = mo_selectedId s) (monitor_rows s)
      then s\<lparr>mo_selectedId := Some (obj_id (hd (monitor_rows s)))\<rparr>
      else s)"

text \<open>
  The chart effect runs when the row selected is another object: another row, or the same one listed
  anew (\<open>fresh\<close>).
\<close>

definition monitor_commit ::
  "bool \<Rightarrow> (string \<Rightarrow> row list) \<Rightarrow> bool \<Rightarrow> ('a, 'm) monitor_scheme \<Rightarrow> ('a, 'm) monitor_scheme \<Rightarrow> ('a, 'm) monitor_scheme" where
  "monitor_commit synthetic local fresh old s =
     (if fresh \<or> selected s \<noteq> selected old then chart_effect (subject_start synthetic local) (selected s) s else s)"

datatype 'a monitor_event =
    MoNamespace string | MoListed "'a list" bool | MoSelected string | MoAnswered "nat \<times> 'a option"

definition monitor_act ::
  "(MonitoringBundle \<Rightarrow> row list) \<Rightarrow> (string \<Rightarrow> row list) \<Rightarrow> ('a k8s_obj_scheme option \<Rightarrow> MonitoringBundle promise) \<Rightarrow>
     'a k8s_obj_scheme monitor_event \<Rightarrow> ('a, 'm) monitor_scheme \<Rightarrow> ('a, 'm) monitor_scheme" where
  "monitor_act to_rows local respond e s =
     (case e of
        MoNamespace ns \<Rightarrow> s\<lparr>mo_namespace := ns\<rparr>
      | MoListed xs fresh \<Rightarrow> s\<lparr>mo_all := xs\<rparr>
      | MoSelected i \<Rightarrow> s\<lparr>mo_selectedId := Some i\<rparr>
      | MoAnswered call \<Rightarrow> if call \<in> set (ch_calls s)
          then chart_answered (subject_answer to_rows local) call (respond (snd call)) s else s)"

definition event_fresh :: "'a monitor_event \<Rightarrow> bool" where
  "event_fresh e = (case e of MoListed _ fresh \<Rightarrow> fresh | _ \<Rightarrow> False)"

definition monitor_mounted ::
  "bool \<Rightarrow> (string \<Rightarrow> row list) \<Rightarrow> string \<Rightarrow> 'a k8s_obj_scheme list \<Rightarrow> 'a monitor" where
  "monitor_mounted synthetic local ns xs =
     (let s = \<lparr>ch_shown = ([], if synthetic then SyntheticSeries else Prometheus), ch_run = 0, ch_calls = [],
               mo_namespace = ns, mo_all = xs,
               mo_selectedId = map_option obj_id (first_of (filter (\<lambda>x. obj_namespace x = ns) xs))\<rparr>
      in chart_effect (subject_start synthetic local) (selected s) s)"

definition llm_monitor_step ::
  "bool \<Rightarrow> (string \<Rightarrow> row list) \<Rightarrow> (InferenceService option \<Rightarrow> MonitoringBundle promise) \<Rightarrow>
     InferenceService monitor_event \<Rightarrow> _ \<Rightarrow> _" where
  "llm_monitor_step synthetic local respond e s = selection_effect
     (monitor_commit synthetic local (event_fresh e) s (monitor_act (bundle_rows llm_keys) local respond e s))"

definition train_monitor_step ::
  "bool \<Rightarrow> (string \<Rightarrow> row list) \<Rightarrow> (TrainJob option \<Rightarrow> MonitoringBundle promise) \<Rightarrow>
     TrainJob monitor_event \<Rightarrow> _ \<Rightarrow> _" where
  "train_monitor_step synthetic local respond e s =
     monitor_commit synthetic local (event_fresh e) s (monitor_act (bundle_rows train_keys) local respond e s)"

text \<open>The effect that moves the selection does not change what is charted.\<close>

lemma selection_keeps [simp]:
  "selected (selection_effect s) = selected s" "ch_shown (selection_effect s) = ch_shown s"
  "ch_run (selection_effect s) = ch_run s" "ch_calls (selection_effect s) = ch_calls s"
  "mo_namespace (selection_effect s) = mo_namespace s" "mo_all (selection_effect s) = mo_all s"
proof -
  have rows: "monitor_rows (s\<lparr>mo_selectedId := i\<rparr>) = monitor_rows s" for i by (simp add: monitor_rows_def)
  show "selected (selection_effect s) = selected s"
  proof (cases "monitor_rows s")
    case Nil
    then show ?thesis by (simp add: selected_def selection_effect_def chosen_def rows first_of_def find_key_def split: option.splits)
  next
    case (Cons x xs)
    have "Option.bind (mo_selectedId s) (\<lambda>i. find_key obj_id i (monitor_rows s)) = None"
      if "\<not> list_ex (\<lambda>y. Some (obj_id y) = mo_selectedId s) (monitor_rows s)"
      using that by (cases "mo_selectedId s") (auto simp: find_key_None list_ex_iff)
    with Cons show ?thesis
      by (auto simp: selected_def selection_effect_def chosen_def rows first_of_def cong: option.case_cong)
  qed
qed (simp_all add: selection_effect_def)

lemma chosen_in: "chosen xs sel = Some x \<Longrightarrow> x \<in> set xs"
  by (auto simp: chosen_def first_of_def dest: find_key_Some split: option.splits list.splits bind_splits)

lemma selected_effect [simp]: "selected (chart_effect st k s) = selected s"
  by (simp add: selected_def monitor_rows_def chart_effect_def Let_def split: option.splits)

lemma monitor_about:
  assumes "subject.about synthetic local to_rows respond (selected s) s"
  shows "subject.about synthetic local to_rows respond
    (selected (monitor_commit synthetic local (event_fresh e) s (monitor_act to_rows local respond e s)))
    (monitor_commit synthetic local (event_fresh e) s (monitor_act to_rows local respond e s))"
proof -
  let ?a = "monitor_act to_rows local respond e s"
  have a: "subject.about synthetic local to_rows respond (selected s) ?a"
  proof (cases e)
    case (MoAnswered call)
    then show ?thesis using assms by (auto simp: monitor_act_def intro: subject.answered_about)
  qed (auto simp: monitor_act_def intro: subject.about_same [OF assms])
  show ?thesis
  proof (cases "event_fresh e \<or> selected ?a \<noteq> selected s")
    case True
    then show ?thesis using subject.effect_about [OF subject.about_calls [OF a]] by (simp add: monitor_commit_def)
  next
    case False
    then show ?thesis using a by (simp add: monitor_commit_def)
  qed
qed

lemma mounted_about:
  "subject.about synthetic local to_rows respond (selected (monitor_mounted synthetic local ns xs)) (monitor_mounted synthetic local ns xs)"
  unfolding monitor_mounted_def Let_def selected_effect by (rule subject.effect_about) simp

text \<open>
  C27. The monitor of services charts the service chosen: through any change of the namespace, listings and
  choices, and answers in any order, once the newest call is answered the series is the one the backend
  gives for the service selected (the local one where it fails or in synthetic mode, none without a
  service); and the service selected is one of the namespace's.
\<close>

theorem service_charts_follow_choice:
  assumes "s = fold (llm_monitor_step synthetic local respond) es (monitor_mounted synthetic local ns xs)"
    "list_all (\<lambda>c. fst c \<noteq> ch_run s) (ch_calls s)"
  shows "subject_right synthetic (bundle_rows llm_keys) local respond (selected s) (ch_shown s) \<and>
    (case selected s of None \<Rightarrow> monitor_rows s = [] | Some x \<Rightarrow> x \<in> set (mo_all s) \<and> obj_namespace x = mo_namespace s)"
proof -
  let ?step = "llm_monitor_step synthetic local respond"
  have "subject.about synthetic local (bundle_rows llm_keys) respond (selected (fold ?step es s0)) (fold ?step es s0)"
    if "subject.about synthetic local (bundle_rows llm_keys) respond (selected s0) s0" for s0
    using that
  proof (induction es arbitrary: s0)
    case (Cons e es)
    have "subject.about synthetic local (bundle_rows llm_keys) respond (selected (?step e s0)) (?step e s0)"
      unfolding llm_monitor_step_def selection_keeps(1)
      by (rule subject.about_same [OF monitor_about [OF Cons.prems]]) simp_all
    then show ?case using Cons.IH by simp
  qed simp
  from this [OF mounted_about] have "subject.about synthetic local (bundle_rows llm_keys) respond (selected s) s"
    using assms(1) by simp
  from subject.about_settled [OF this assms(2)]
  have "subject_right synthetic (bundle_rows llm_keys) local respond (selected s) (ch_shown s)" .
  moreover have "case selected s of None \<Rightarrow> monitor_rows s = [] | Some x \<Rightarrow> x \<in> set (mo_all s) \<and> obj_namespace x = mo_namespace s"
  proof (cases "selected s")
    case None
    then show ?thesis by (auto simp: selected_def chosen_def first_of_def split: option.splits list.splits)
  next
    case (Some x)
    then have "x \<in> set (monitor_rows s)" unfolding selected_def by (rule chosen_in)
    then show ?thesis using Some by (simp add: monitor_rows_def)
  qed
  ultimately show ?thesis by blast
qed

lemma job_charts_follow_choice:
  assumes "s = fold (train_monitor_step synthetic local respond) es (monitor_mounted synthetic local ns xs)"
    "list_all (\<lambda>c. fst c \<noteq> ch_run s) (ch_calls s)"
  shows "subject_right synthetic (bundle_rows train_keys) local respond (selected s) (ch_shown s)"
proof -
  let ?step = "train_monitor_step synthetic local respond"
  have "subject.about synthetic local (bundle_rows train_keys) respond (selected (fold ?step es s0)) (fold ?step es s0)"
    if "subject.about synthetic local (bundle_rows train_keys) respond (selected s0) s0" for s0
    using that
  proof (induction es arbitrary: s0)
    case (Cons e es)
    have "subject.about synthetic local (bundle_rows train_keys) respond (selected (?step e s0)) (?step e s0)"
      unfolding train_monitor_step_def by (rule monitor_about [OF Cons.prems])
    then show ?case using Cons.IH by simp
  qed simp
  from this [OF mounted_about] show ?thesis
    using assms by (auto intro: subject.about_settled)
qed

definition sample_bundle :: MonitoringBundle where
  "sample_bundle = \<lparr>mb_namespace = ''team-a'', mb_target = ''chat'', mb_source = FromPrometheus,
     mb_series = [(''rps'', \<lparr>se_points = [(''10:00'', (2, 0))], se_unit = ''rps'', se_total = (0, 0)\<rparr>)]\<rparr>"

definition sample_monitored where
  "sample_monitored = fold (llm_monitor_step False (\<lambda>_. []) (\<lambda>_. Inr sample_bundle))
     [MoListed [sample_row] False, MoNamespace ''team-a'', MoAnswered (2, Some sample_row)]
     (monitor_mounted False (\<lambda>_. []) ''team-b'' [])"

theorem service_charts_follow_choice_witness:
  "subject_right False (bundle_rows llm_keys) (\<lambda>_. []) (\<lambda>_. Inr sample_bundle) (selected sample_monitored)
     (ch_shown sample_monitored) \<and> ch_calls sample_monitored = []"
proof -
  have "ch_calls sample_monitored = []" unfolding sample_monitored_def
    by (simp add: llm_monitor_step_def monitor_act_def monitor_commit_def monitor_mounted_def chart_effect_def
        chart_answered_def subject_start_def event_fresh_def selection_effect_def selected_def monitor_rows_def
        chosen_def first_of_def sample_row_def bare_service_def Let_def)
  then show ?thesis
    using service_charts_follow_choice [OF sample_monitored_def] by simp
qed

subsection \<open>The monitor of resources\<close>

datatype scope = ClusterScope | NodeScope | NamespaceScope | PodScope

fun scope_text :: "scope \<Rightarrow> string" where
  "scope_text ClusterScope = ''cluster''"
| "scope_text NodeScope = ''node''"
| "scope_text NamespaceScope = ''namespace''"
| "scope_text PodScope = ''pod''"

definition resource_options :: "(string \<times> string) list" where
  "resource_options =
     [(''CPU'', ''cpu''), (''Memory'', ''memory''), (''GPU'', ''gpu''), (''Disk'', ''disk''), (''Network'', ''network'')]"

definition all_kinds :: "string list" where
  "all_kinds = [''usage'', ''requests'', ''limits'']"

text \<open>The fifteen queries of a chart effect, resource by resource.\<close>

definition resource_queries :: "scope \<Rightarrow> string \<Rightarrow> http_request list" where
  "resource_queries sc tgt = concat (map (\<lambda>r. map (\<lambda>k.
     queryMonitoring \<lparr>mq_scope = scope_text sc, mq_target = tgt, mq_resource = snd r, mq_kind = k\<rparr> None None None)
     all_kinds) resource_options)"

text \<open>
  The rows of one resource from its three series: the axis is the usage's, and a sample the others lack
  is zero. \<open>rounded\<close> is the page's rounding for the resource.
\<close>

definition resource_rows ::
  "(string \<Rightarrow> decimal \<Rightarrow> decimal) \<Rightarrow> string \<Rightarrow> Series \<Rightarrow> Series \<Rightarrow> Series \<Rightarrow> (string \<times> decimal list) list" where
  "resource_rows rounded r usage reqs limits =
     map (\<lambda>i. (fst (se_points usage ! i), map (\<lambda>s. rounded r (if i < length (se_points s) then snd (se_points s ! i) else (0, 0)))
       [usage, reqs, limits])) [0..<length (se_points usage)]"

type_synonym chart_data = "(string \<times> decimal list) list js_map"

definition entries_of ::
  "(string \<Rightarrow> decimal \<Rightarrow> decimal) \<Rightarrow> (string \<Rightarrow> Series \<times> Series \<times> Series) \<Rightarrow> chart_data" where
  "entries_of rounded got =
     map (\<lambda>(_, r). (r, case got r of (u, q, l) \<Rightarrow> resource_rows rounded r u q l)) resource_options"

text \<open>\<open>local\<close> is the demonstration data of a scope and a target; the mark says that the backend's is shown.\<close>

definition resource_start ::
  "bool \<Rightarrow> (scope \<times> string \<Rightarrow> chart_data) \<Rightarrow> scope \<times> string \<Rightarrow> chart_data \<times> bool \<Rightarrow> (chart_data \<times> bool) option" where
  "resource_start api local k v = (if \<not> api \<or> snd k = [] then Some (local k, False) else None)"

definition resource_answer ::
  "(string \<Rightarrow> decimal \<Rightarrow> decimal) \<Rightarrow> (scope \<times> string \<Rightarrow> chart_data) \<Rightarrow> scope \<times> string \<Rightarrow>
     (string \<Rightarrow> Series \<times> Series \<times> Series) promise \<Rightarrow> chart_data \<times> bool" where
  "resource_answer rounded local k r =
     (case r of Inl e \<Rightarrow> (local k, False)
      | Inr got \<Rightarrow> (fold (\<lambda>(r, rs). js_put r rs) (entries_of rounded got) (local k), True))"

definition resource_right ::
  "bool \<Rightarrow> (string \<Rightarrow> decimal \<Rightarrow> decimal) \<Rightarrow> (scope \<times> string \<Rightarrow> chart_data) \<Rightarrow>
     (scope \<times> string \<Rightarrow> (string \<Rightarrow> Series \<times> Series \<times> Series) promise) \<Rightarrow> scope \<times> string \<Rightarrow> chart_data \<times> bool \<Rightarrow> bool" where
  "resource_right api rounded local respond k v \<longleftrightarrow>
     v = (if \<not> api \<or> snd k = [] then (local k, False) else resource_answer rounded local k (respond k))"

interpretation resource: charting "resource_start api local" "resource_answer rounded local" "resource_right api rounded local"
  for api rounded local
  by unfold_locales (auto simp: resource_start_def resource_right_def split: if_splits)

record resource_monitor = "(scope \<times> string, chart_data \<times> bool) chart" +
  rm_scope :: scope
  rm_target :: string
  rm_kinds :: "string list"

definition resource_mounted :: "bool \<Rightarrow> (scope \<times> string \<Rightarrow> chart_data) \<Rightarrow> resource_monitor" where
  "resource_mounted api local =
     (let k = (ClusterScope, ''prod-ai-01'')
      in chart_effect (resource_start api local) k
           \<lparr>ch_shown = (local k, api), ch_run = 0, ch_calls = [], rm_scope = fst k, rm_target = snd k,
            rm_kinds = all_kinds\<rparr>)"

text \<open>
  Choosing a scope chooses its first target. The handler reads the name of the first node; without nodes
  it throws there, the scope already set and the target left.
\<close>

definition scope_target :: "string list \<Rightarrow> string \<Rightarrow> string list \<Rightarrow> scope \<Rightarrow> string \<Rightarrow> string" where
  "scope_target node_names ns pod_names sc old =
     (case sc of
        ClusterScope \<Rightarrow> ''prod-ai-01''
      | NodeScope \<Rightarrow> (case node_names of [] \<Rightarrow> old | n # _ \<Rightarrow> n)
      | NamespaceScope \<Rightarrow> ns
      | PodScope \<Rightarrow> (case pod_names of [] \<Rightarrow> [] | p # _ \<Rightarrow> p))"

definition scope_targets :: "string list \<Rightarrow> string list \<Rightarrow> string list \<Rightarrow> scope \<Rightarrow> string list" where
  "scope_targets node_names namespace_names pod_names sc =
     (case sc of ClusterScope \<Rightarrow> [''prod-ai-01''] | NodeScope \<Rightarrow> node_names | NamespaceScope \<Rightarrow> namespace_names
      | PodScope \<Rightarrow> pod_names)"

definition scopes_offered :: "bool \<Rightarrow> scope list" where
  "scopes_offered admin = ClusterScope # (if admin then [NodeScope] else []) @ [NamespaceScope, PodScope]"

definition subject_set ::
  "bool \<Rightarrow> (scope \<times> string \<Rightarrow> chart_data) \<Rightarrow> scope \<Rightarrow> string \<Rightarrow> resource_monitor \<Rightarrow> resource_monitor" where
  "subject_set api local sc tgt s =
     (let s' = s\<lparr>rm_scope := sc, rm_target := tgt\<rparr>
      in if (sc, tgt) = (rm_scope s, rm_target s) then s' else chart_effect (resource_start api local) (sc, tgt) s')"

datatype resource_event =
    ScopeChosen scope "string list" string "string list" | TargetChosen string | KindsChosen "string list"
  | ResourceAnswered "nat \<times> scope \<times> string"

fun resource_step ::
  "bool \<Rightarrow> (string \<Rightarrow> decimal \<Rightarrow> decimal) \<Rightarrow> (scope \<times> string \<Rightarrow> chart_data) \<Rightarrow>
     (scope \<times> string \<Rightarrow> (string \<Rightarrow> Series \<times> Series \<times> Series) promise) \<Rightarrow> resource_event \<Rightarrow> resource_monitor \<Rightarrow> resource_monitor" where
  "resource_step api rounded local respond (ScopeChosen sc nds ns pds) s =
     subject_set api local sc (scope_target nds ns pds sc (rm_target s)) s"
| "resource_step api rounded local respond (TargetChosen t) s = subject_set api local (rm_scope s) t s"
| "resource_step api rounded local respond (KindsChosen ks) s = s\<lparr>rm_kinds := ks\<rparr>"
| "resource_step api rounded local respond (ResourceAnswered call) s =
     (if call \<in> set (ch_calls s) then chart_answered (resource_answer rounded local) call (respond (snd call)) s else s)"

lemma resource_about:
  assumes "resource.about api local rounded respond (rm_scope s, rm_target s) s"
  shows "resource.about api local rounded respond
    (rm_scope (resource_step api rounded local respond e s), rm_target (resource_step api rounded local respond e s))
    (resource_step api rounded local respond e s)"
proof -
  have set: "resource.about api local rounded respond (rm_scope (subject_set api local sc t s), rm_target (subject_set api local sc t s))
      (subject_set api local sc t s)" for sc t
  proof (cases "(sc, t) = (rm_scope s, rm_target s)")
    case True
    then show ?thesis by (auto simp: subject_set_def Let_def intro: resource.about_same [OF assms])
  next
    case False
    have same: "rm_scope (chart_effect st k s') = rm_scope s'" "rm_target (chart_effect st k s') = rm_target s'" for st k and s' :: resource_monitor
      by (simp_all add: chart_effect_def Let_def split: option.splits)
    have "resource.about api local rounded respond (sc, t) (chart_effect (resource_start api local) (sc, t) (s\<lparr>rm_scope := sc, rm_target := t\<rparr>))"
      by (rule resource.effect_about) (use resource.about_calls [OF assms] in simp)
    moreover have "subject_set api local sc t s = chart_effect (resource_start api local) (sc, t) (s\<lparr>rm_scope := sc, rm_target := t\<rparr>)"
      using False by (auto simp: subject_set_def Let_def)
    ultimately show ?thesis by (simp add: same)
  qed
  show ?thesis
  proof (cases e)
    case (ResourceAnswered call)
    have same: "rm_scope (chart_answered f c r s) = rm_scope s" "rm_target (chart_answered f c r s) = rm_target s" for f c r
      by (simp_all add: chart_answered_def)
    show ?thesis
      using ResourceAnswered assms by (auto simp: same intro: resource.answered_about)
  qed (auto simp: set intro: resource.about_same [OF assms])
qed

lemma resource_charts_follow_choice:
  assumes "s = fold (resource_step api rounded local respond) es (resource_mounted api local)"
    "list_all (\<lambda>c. fst c \<noteq> ch_run s) (ch_calls s)"
  shows "resource_right api rounded local respond (rm_scope s, rm_target s) (ch_shown s)"
proof -
  let ?step = "resource_step api rounded local respond"
  have run: "resource.about api local rounded respond (rm_scope (fold ?step es s0), rm_target (fold ?step es s0)) (fold ?step es s0)"
    if "resource.about api local rounded respond (rm_scope s0, rm_target s0) s0" for s0
    using that
  proof (induction es arbitrary: s0)
    case (Cons e es)
    show ?case using Cons.IH [OF resource_about [OF Cons.prems]] by simp
  qed simp
  have mounted: "rm_scope (resource_mounted api local) = ClusterScope" "rm_target (resource_mounted api local) = ''prod-ai-01''"
    by (simp_all add: resource_mounted_def chart_effect_def Let_def split: option.splits)
  have "resource.about api local rounded respond (rm_scope (resource_mounted api local), rm_target (resource_mounted api local)) (resource_mounted api local)"
    unfolding mounted unfolding resource_mounted_def Let_def by (simp, rule resource.effect_about) simp
  from run [OF this] show ?thesis
    using assms by (auto intro: resource.about_settled)
qed

text \<open>
  Every answer replaces the demonstration data of all five resources; choosing the nodes of a cluster that
  lists none keeps the target of the scope before.
\<close>

lemma answered_keys: "fst ` set (fst (resource_answer rounded local k (Inr got))) = snd ` set resource_options \<union> fst ` set (local k)"
proof -
  have "fst ` set (fold (\<lambda>(r, rs). js_put r rs) xs m) = fst ` set xs \<union> fst ` set m" for xs :: "chart_data" and m
    proof (induction xs arbitrary: m)
    case (Cons x xs)
    show ?case by (cases x) (simp add: Cons.IH keys_js_put)
  qed simp
  then show ?thesis by (simp add: resource_answer_def entries_of_def image_image case_prod_unfold)
qed

lemma no_nodes_keeps_target:
  "rm_target (resource_step api rounded local respond (ScopeChosen NodeScope [] ns pds) s) = rm_target s"
  by (simp add: subject_set_def scope_target_def chart_effect_def Let_def split: option.splits)

end
