(* ===== verification/Gateway_Pages.thy ===== *)
theory Gateway_Pages
  imports Monitoring_Pages Model_Hub
begin

text \<open>
  The page of one inference service (\<open>frontend/src/pages/inference/InferenceServiceDetail.tsx\<close>) and the page
  of the gateway (\<open>frontend/src/pages/inference/GatewayConfig.tsx\<close>): what a link to a service shows, how its
  endpoints are spelled, the table of routes with its sequential loads, and the form that creates a route.
\<close>

subsection \<open>The page of one service\<close>

text \<open>
  A call for the routes has the namespace and name it was made for, and whether it was made by the effect,
  where a failure clears what is shown, or by Refresh, where it does not; the gateway's likewise.
\<close>

record service_detail = "(InferenceService option, series) chart" +
  sd_param :: "string option"
  sd_name :: "string option"
  sd_namespace :: string
  sd_store :: inference
  sd_gateway :: "GatewayConfig option"
  sd_routes :: "ServiceRouteStatus option"
  sd_gatewayCalls :: "bool list"
  sd_routeCalls :: "((string \<times> string) \<times> bool) list"

definition targetNS :: "(string option \<times> string) \<Rightarrow> string" where
  "targetNS p = nullish (fst p) (snd p)"

definition detail_target :: "service_detail \<Rightarrow> string \<times> string option" where
  "detail_target s = (targetNS (sd_param s, sd_namespace s), sd_name s)"

definition detail_service :: "string \<times> string option \<Rightarrow> InferenceService list \<Rightarrow> InferenceService option" where
  "detail_service k xs = find (\<lambda>x. obj_namespace x = fst k \<and> Some (obj_name x) = snd k) xs"

definition shown_service :: "service_detail \<Rightarrow> InferenceService option" where
  "shown_service s = detail_service (detail_target s) (services (sd_store s))"

definition routes_asked :: "bool \<Rightarrow> service_detail \<Rightarrow> service_detail" where
  "routes_asked clears s =
     (case sd_name s of
        Some (c # n) \<Rightarrow> s\<lparr>sd_routeCalls := sd_routeCalls s @ [((fst (detail_target s), c # n), clears)]\<rparr>
      | _ \<Rightarrow> s)"

text \<open>The effects of a commit: load the services, ask for the routes, chart the service.\<close>

definition target_effects :: "service_detail \<Rightarrow> service_detail" where
  "target_effects s = routes_asked True
     (s\<lparr>sd_store := ensureInferenceServicesLoaded True (fst (detail_target s)) (sd_store s)\<rparr>)"

definition sd_commit ::
  "bool \<Rightarrow> (string \<Rightarrow> row list) \<Rightarrow> bool \<Rightarrow> service_detail \<Rightarrow> service_detail \<Rightarrow> service_detail" where
  "sd_commit synthetic local fresh old s =
     (let s' = if detail_target s = detail_target old then s else target_effects s
      in if fresh \<or> shown_service s \<noteq> shown_service old
         then chart_effect (subject_start synthetic local) (shown_service s) s' else s')"

definition sd_mounted ::
  "bool \<Rightarrow> (string \<Rightarrow> row list) \<Rightarrow> string option \<Rightarrow> string option \<Rightarrow> string \<Rightarrow> inference \<Rightarrow> service_detail" where
  "sd_mounted synthetic local p n ns store =
     (let s = \<lparr>ch_shown = ([], if synthetic then SyntheticSeries else Prometheus), ch_run = 0, ch_calls = [],
               sd_param = p, sd_name = n, sd_namespace = ns, sd_store = store, sd_gateway = None, sd_routes = None,
               sd_gatewayCalls = [True], sd_routeCalls = []\<rparr>
      in chart_effect (subject_start synthetic local) (shown_service s) (target_effects s))"

definition gateway_landed :: "bool \<Rightarrow> GatewayConfig promise \<Rightarrow> service_detail \<Rightarrow> service_detail" where
  "gateway_landed clears r s =
     (case r of Inr g \<Rightarrow> s\<lparr>sd_gateway := Some g\<rparr> | Inl e \<Rightarrow> if clears then s\<lparr>sd_gateway := None\<rparr> else s)
       \<lparr>sd_gatewayCalls := remove1 clears (sd_gatewayCalls s)\<rparr>"

definition routes_landed ::
  "(string \<times> string) \<times> bool \<Rightarrow> ServiceRouteStatus promise \<Rightarrow> service_detail \<Rightarrow> service_detail" where
  "routes_landed call r s =
     (case r of Inr x \<Rightarrow> s\<lparr>sd_routes := Some x\<rparr> | Inl e \<Rightarrow> if snd call then s\<lparr>sd_routes := None\<rparr> else s)
       \<lparr>sd_routeCalls := remove1 call (sd_routeCalls s)\<rparr>"

definition detail_refreshed :: "service_detail \<Rightarrow> service_detail" where
  "detail_refreshed s = (let s' = routes_asked False s in s'\<lparr>sd_gatewayCalls := sd_gatewayCalls s' @ [False]\<rparr>)"

datatype service_detail_event =
    SdNamespace string | SdLink string string | SdStore inference bool | SdRefresh
  | SdGateway bool "GatewayConfig promise" | SdRoutes "(string \<times> string) \<times> bool" | SdCharted "nat \<times> InferenceService option"

fun sd_act ::
  "(string \<Rightarrow> row list) \<Rightarrow> (string \<times> string \<Rightarrow> ServiceRouteStatus promise) \<Rightarrow>
     (InferenceService option \<Rightarrow> MonitoringBundle promise) \<Rightarrow> service_detail_event \<Rightarrow> service_detail \<Rightarrow> service_detail" where
  "sd_act local route respond (SdNamespace ns) s = s\<lparr>sd_namespace := ns\<rparr>"
| "sd_act local route respond (SdLink ns n) s = s\<lparr>sd_param := Some ns, sd_name := Some n\<rparr>"
| "sd_act local route respond (SdStore store fresh) s = s\<lparr>sd_store := store\<rparr>"
| "sd_act local route respond SdRefresh s = detail_refreshed s"
| "sd_act local route respond (SdGateway clears r) s = (if clears \<in> set (sd_gatewayCalls s) then gateway_landed clears r s else s)"
| "sd_act local route respond (SdRoutes call) s =
     (if call \<in> set (sd_routeCalls s) then routes_landed call (route (fst call)) s else s)"
| "sd_act local route respond (SdCharted call) s =
     (if call \<in> set (ch_calls s) then chart_answered (subject_answer detail_rows local) call (respond (snd call)) s else s)"

definition listed_anew :: "service_detail_event \<Rightarrow> bool" where
  "listed_anew e = (case e of SdStore _ fresh \<Rightarrow> fresh | _ \<Rightarrow> False)"

definition sd_step ::
  "bool \<Rightarrow> (string \<Rightarrow> row list) \<Rightarrow> (string \<times> string \<Rightarrow> ServiceRouteStatus promise) \<Rightarrow>
     (InferenceService option \<Rightarrow> MonitoringBundle promise) \<Rightarrow> service_detail_event \<Rightarrow> service_detail \<Rightarrow> service_detail" where
  "sd_step synthetic local route respond e s =
     sd_commit synthetic local (listed_anew e) s (sd_act local route respond e s)"

lemmas sd_defs = sd_step_def sd_commit_def target_effects_def routes_asked_def gateway_landed_def routes_landed_def
  detail_refreshed_def chart_answered_def listed_anew_def detail_target_def shown_service_def targetNS_def

subsubsection \<open>What the page shows\<close>

datatype detail_view = NotFound string string | ServiceShown InferenceService

definition detail_view_of :: "service_detail \<Rightarrow> detail_view" where
  "detail_view_of s =
     (case shown_service s of
        None \<Rightarrow> NotFound (fst (detail_target s)) (nullish (sd_name s) ''Inference service'')
      | Some x \<Rightarrow> ServiceShown x)"

definition internalURL :: "InferenceService \<Rightarrow> string" where
  "internalURL x = or_str (nullish (is_endpoint x) '''')
     (''http://'' @ obj_name x @ ''-predictor.'' @ obj_namespace x @ ''.svc.cluster.local/v1'')"

definition gatewayHost :: "GatewayConfig option \<Rightarrow> InferenceService \<Rightarrow> string" where
  "gatewayHost g x =
     (case g of None \<Rightarrow> []
      | Some c \<Rightarrow> if truthy_str (gc_ingressDomain c) \<and> truthy_str (gc_urlScheme c)
          then nullish (gc_urlScheme c) '''' @ ''://'' @ obj_name x @ ''-'' @ obj_namespace x @ ''.'' @
            nullish (gc_ingressDomain c) ''''
          else [])"

text \<open>The request a user may copy: the options of \<open>curl\<close>, one a line, and its body.\<close>

abbreviation apostrophe :: char where "apostrophe \<equiv> CHR 0x27"

definition in_quotes :: "string \<Rightarrow> string" where
  "in_quotes s = quote # s @ [quote]"

definition shell_word :: "string \<Rightarrow> string" where
  "shell_word s = apostrophe # s @ [apostrophe]"

definition curl_body :: "string \<Rightarrow> string" where
  "curl_body n =
     ''{'' @ in_quotes ''model'' @ '':'' @ in_quotes n @ '','' @ in_quotes ''messages'' @ '':[{'' @
       in_quotes ''role'' @ '':'' @ in_quotes ''user'' @ '','' @ in_quotes ''content'' @ '':'' @ in_quotes ''hello'' @ ''}]}''"

definition sampleCurl :: "InferenceService \<Rightarrow> string \<Rightarrow> string" where
  "sampleCurl x host =
     join ('' '' @ [backslash] @ nl @ ''  '')
       [''curl -X POST '' @ host @ ''/v1/chat/completions'',
        ''-H '' @ shell_word ''content-type: application/json'',
        ''-H '' @ shell_word (''x-ai-eg-model: '' @ obj_name x),
        ''-H '' @ shell_word ''x-user-id: alice'',
        ''-d '' @ shell_word (curl_body (obj_name x))]"

text \<open>The gateway panel: waiting, switched off, or its tags, its gateway with addresses, and the request.\<close>

datatype access_panel =
    AccessWaiting | IngressDisabled
  | Access "string list" "(string \<times> string \<times> string list \<times> string list \<times> bool) option" "string option"

definition access_tags :: "GatewayConfig \<Rightarrow> string list" where
  "access_tags c =
     [''Gateway API'', if gc_envoyAiGatewayInstalled c then ''Envoy AI Gateway'' else ''Envoy AI Gateway: not installed''] @
     (if truthy_str (gc_defaultDeploymentMode c) then [''default: '' @ nullish (gc_defaultDeploymentMode c) ''''] else [])"

definition gateway_card :: "KServeGateway \<Rightarrow> string \<times> string \<times> string list \<times> string list \<times> bool" where
  "gateway_card g =
     (kg_namespace g @ ''/'' @ kg_name g,
      if kg_status g = ''Accepted'' then ''Ready'' else kg_status g,
      (if truthy_str (kg_className g) then [''class: '' @ nullish (kg_className g) ''''] else []) @ nullish (kg_listeners g) [],
      nullish (kg_addresses g) [],
      kg_addresses g = Some [])"

definition GatewayAccessPanel :: "GatewayConfig option \<Rightarrow> InferenceService \<Rightarrow> access_panel" where
  "GatewayAccessPanel gateway x =
     (case gateway of None \<Rightarrow> AccessWaiting
      | Some c \<Rightarrow>
          if \<not> gc_ingressGatewayApiEnabled c then IngressDisabled
          else Access (access_tags c) (map_option gateway_card (gc_gateway c))
            (if gatewayHost gateway x = [] then None else Some (sampleCurl x (gatewayHost gateway x))))"

datatype routes_panel =
    RoutesWaiting | NoRoutes
  | RouteCards "(string \<times> string list \<times> string list) list" "(string \<times> string list) list"

definition route_card :: "RouteRef \<Rightarrow> string \<times> string list \<times> string list" where
  "route_card r =
     (rf_kind r @ '' '' @ rf_namespace r @ ''/'' @ rf_name r,
      (if truthy_str (rf_parentName r) then [''attached to: '' @ nullish (rf_parentName r) ''''] else []) @
      (if truthy_str (rf_status r) then [if rf_status r = Some ''Accepted'' then ''Ready'' else nullish (rf_status r) ''''] else []),
      nullish (rf_hostnames r) [])"

definition limit_card :: "RateLimitRef \<Rightarrow> string \<times> string list" where
  "limit_card p =
     (rl_namespace p @ ''/'' @ rl_name p,
      [or_str (nullish (rl_type p) '''') ''Global''] @ nullish (rl_summaries p) [] @
      (if truthy_str (rl_targetName p)
       then [''targets '' @ or_str (nullish (rl_targetKind p) '''') ''Route'' @ '': '' @ nullish (rl_targetName p) '''']
       else []))"

definition RoutesPanel :: "ServiceRouteStatus option \<Rightarrow> routes_panel" where
  "RoutesPanel st =
     (case st of None \<Rightarrow> RoutesWaiting
      | Some x \<Rightarrow> if ro_routes x = [] \<and> ro_rateLimits x = [] then NoRoutes
          else RouteCards (map route_card (ro_routes x)) (map limit_card (ro_rateLimits x)))"

subsubsection \<open>The page follows its link\<close>

lemma routes_asked_keeps [simp]:
  "sd_param (routes_asked c s) = sd_param s" "sd_name (routes_asked c s) = sd_name s"
  "sd_namespace (routes_asked c s) = sd_namespace s" "sd_store (routes_asked c s) = sd_store s"
  "ch_calls (routes_asked c s) = ch_calls s" "ch_run (routes_asked c s) = ch_run s" "ch_shown (routes_asked c s) = ch_shown s"
  "sd_routes (routes_asked c s) = sd_routes s" "sd_gatewayCalls (routes_asked c s) = sd_gatewayCalls s"
  by (simp_all add: routes_asked_def split: option.splits list.splits)

lemma ensure_keeps_services [simp]: "services (ensureInferenceServicesLoaded api ns st) = services st"
  by (simp add: ensureInferenceServicesLoaded_def start_once_def Let_def)

lemma chart_effect_keeps [simp]:
  "sd_param (chart_effect st k s) = sd_param s" "sd_name (chart_effect st k s) = sd_name s"
  "sd_namespace (chart_effect st k s) = sd_namespace s" "sd_store (chart_effect st k s) = sd_store s"
  "sd_routes (chart_effect st k s) = sd_routes s" "sd_routeCalls (chart_effect st k s) = sd_routeCalls s"
  by (simp_all add: chart_effect_def Let_def split: option.splits)

lemma target_effects_keeps [simp]:
  "sd_param (target_effects s) = sd_param s" "sd_name (target_effects s) = sd_name s"
  "sd_namespace (target_effects s) = sd_namespace s" "services (sd_store (target_effects s)) = services (sd_store s)"
  "ch_calls (target_effects s) = ch_calls s" "ch_run (target_effects s) = ch_run s" "ch_shown (target_effects s) = ch_shown s"
  "sd_routes (target_effects s) = sd_routes s"
  by (simp_all add: target_effects_def)

lemma commit_target [simp]:
  "detail_target (sd_commit synthetic local fresh old s) = detail_target s"
  "shown_service (sd_commit synthetic local fresh old s) = shown_service s"
  by (simp_all add: sd_commit_def detail_target_def shown_service_def Let_def)

lemma detail_about:
  assumes "subject.about synthetic local detail_rows respond (shown_service s) s"
  shows "subject.about synthetic local detail_rows respond (shown_service (sd_step synthetic local route respond e s))
    (sd_step synthetic local route respond e s)"
proof -
  let ?a = "sd_act local route respond e s"
  have calls: "\<forall>(n, k') \<in> set (ch_calls ?a). n \<le> ch_run ?a"
    using subject.about_calls [OF assms]
    by (cases e) (auto simp: detail_refreshed_def gateway_landed_def routes_landed_def chart_answered_def Let_def split: sum.splits
        dest: subsetD [OF set_remove1_subset])
  let ?m = "if detail_target ?a = detail_target s then ?a else target_effects ?a"
  have m: "ch_calls ?m = ch_calls ?a" "ch_run ?m = ch_run ?a" "ch_shown ?m = ch_shown ?a" by simp_all
  show ?thesis
  proof (cases "listed_anew e \<or> shown_service ?a \<noteq> shown_service s")
    case True
    then show ?thesis
      unfolding sd_step_def commit_target
      using subject.effect_about [of ?m, OF calls [folded m(1,2)]]
      by (simp add: sd_commit_def Let_def)
  next
    case False
    have "subject.about synthetic local detail_rows respond (shown_service s) ?a"
    proof (cases "\<exists>call. e = SdCharted call \<and> call \<in> set (ch_calls s)")
      case True
      then obtain call where c: "e = SdCharted call" "call \<in> set (ch_calls s)" by blast
      show ?thesis using subject.answered_about [OF assms c(2)] c by simp
    next
      case False
      have "ch_calls ?a = ch_calls s \<and> ch_run ?a = ch_run s \<and> ch_shown ?a = ch_shown s"
        using False by (cases e) (auto simp: detail_refreshed_def gateway_landed_def routes_landed_def Let_def split: sum.splits)
      then show ?thesis using assms by (auto intro: subject.about_same)
    qed
    then show ?thesis
      using False m unfolding sd_step_def commit_target
      by (auto simp: sd_commit_def Let_def intro: subject.about_same)
  qed
qed

text \<open>The routes of one link: every call is for it, and without one of the effect's they are its own.\<close>

definition routes_right :: "(string \<times> string \<Rightarrow> ServiceRouteStatus promise) \<Rightarrow> string \<times> string \<Rightarrow> service_detail \<Rightarrow> bool" where
  "routes_right route k s \<longleftrightarrow>
     sd_param s = Some (fst k) \<and> sd_name s = Some (snd k) \<and>
     (\<forall>c \<in> set (sd_routeCalls s). fst c = k) \<and> (sd_routes s = None \<or> sd_routes s = route_seen (route k)) \<and>
     ((k, True) \<notin> set (sd_routeCalls s) \<longrightarrow> sd_routes s = route_seen (route k))"

fun same_link :: "service_detail_event \<Rightarrow> bool" where
  "same_link (SdLink ns n) = False"
| "same_link _ = True"

lemma routes_right_step:
  assumes "routes_right route (p, c # n) s" "same_link e"
  shows "routes_right route (p, c # n) (sd_step synthetic local route respond e s)"
proof -
  let ?a = "sd_act local route respond e s"
  have link: "sd_param ?a = Some p" "sd_name ?a = Some (c # n)"
    using assms by (cases e; auto simp: routes_right_def detail_refreshed_def gateway_landed_def routes_landed_def
        chart_answered_def Let_def split: sum.splits)+
  then have "detail_target ?a = detail_target s"
    using assms(1) by (simp add: detail_target_def targetNS_def routes_right_def nullish_def)
  then have "routes_right route (p, c # n) (sd_commit synthetic local (listed_anew e) s ?a) \<longleftrightarrow> routes_right route (p, c # n) ?a"
    by (simp add: sd_commit_def routes_right_def Let_def)
  moreover have "routes_right route (p, c # n) ?a"
  proof (cases e)
    case (SdRoutes call)
    then show ?thesis
      using assms(1)
      by (cases call) (auto simp: routes_right_def routes_landed_def route_seen_def split: sum.splits
          dest: subsetD [OF set_remove1_subset])
  next
    case SdRefresh
    then show ?thesis
      using assms(1)
      by (auto simp: routes_right_def detail_refreshed_def routes_asked_def detail_target_def targetNS_def nullish_def Let_def)
  qed (use assms in \<open>auto simp: routes_right_def gateway_landed_def chart_answered_def split: sum.splits\<close>)
  ultimately show ?thesis by (simp add: sd_step_def)
qed

text \<open>
  A link to a service shows that service, whatever namespace is selected and however calls are answered: the
  service shown is a row of the link's namespace and name; once its chart is loaded it is the chart of that
  service; and once no request for its routes is in flight they are what the backend answers for the link.
\<close>

theorem service_page_follows_link:
  assumes "s = fold (sd_step synthetic local route respond) es (sd_mounted synthetic local (Some p) (Some (c # n)) ns store)"
    "list_all same_link es"
  shows "detail_target s = (p, Some (c # n)) \<and>
    (case shown_service s of None \<Rightarrow> True | Some x \<Rightarrow> x \<in> set (services (sd_store s)) \<and> names_obj p (c # n) x) \<and>
    (list_all (\<lambda>call. fst call \<noteq> ch_run s) (ch_calls s) \<longrightarrow>
       subject_right synthetic detail_rows local respond (shown_service s) (ch_shown s)) \<and>
    (sd_routeCalls s = [] \<longrightarrow> sd_routes s = route_seen (route (p, c # n)))"
proof -
  let ?step = "sd_step synthetic local route respond" and ?k = "(p, c # n)"
  let ?about = "\<lambda>s. subject.about synthetic local detail_rows respond (shown_service s) s"
  have run: "routes_right route ?k (fold ?step es s0) \<and> ?about (fold ?step es s0)"
    if "routes_right route ?k s0" "?about s0" "list_all same_link es" for s0
    using that
  proof (induction es arbitrary: s0)
    case (Cons e es)
    then show ?case using routes_right_step [OF Cons.prems(1)] detail_about [OF Cons.prems(2)] by simp
  qed simp
  let ?s0 = "sd_mounted synthetic local (Some p) (Some (c # n)) ns store"
  have "routes_right route ?k ?s0"
    by (simp add: sd_mounted_def routes_right_def target_effects_def routes_asked_def detail_target_def targetNS_def nullish_def Let_def)
  moreover have "?about ?s0"
  proof -
    let ?b = "\<lparr>ch_shown = ([], if synthetic then SyntheticSeries else Prometheus), ch_run = 0, ch_calls = [],
               sd_param = Some p, sd_name = Some (c # n), sd_namespace = ns, sd_store = store, sd_gateway = None, sd_routes = None,
               sd_gatewayCalls = [True], sd_routeCalls = []\<rparr>"
    have "shown_service ?s0 = shown_service ?b"
      by (simp add: sd_mounted_def shown_service_def detail_target_def Let_def)
    moreover have "?s0 = chart_effect (subject_start synthetic local) (shown_service ?b) (target_effects ?b)"
      by (simp add: sd_mounted_def Let_def)
    ultimately show ?thesis using subject.effect_about [of "target_effects ?b"] by simp
  qed
  ultimately have *: "routes_right route ?k s" "?about s" using run assms by simp_all
  then have target: "detail_target s = (p, Some (c # n))"
    by (simp add: routes_right_def detail_target_def targetNS_def nullish_def)
  have "case shown_service s of None \<Rightarrow> True | Some x \<Rightarrow> x \<in> set (services (sd_store s)) \<and> names_obj p (c # n) x"
    by (auto simp: shown_service_def target detail_service_def names_obj_def find_Some_iff split: option.splits)
  with * target show ?thesis
    by (auto simp: routes_right_def intro: subject.about_settled)
qed

definition sample_link_route :: "string \<times> string \<Rightarrow> ServiceRouteStatus promise" where
  "sample_link_route k = (if k = (''team-a'', ''chat'') then Inr \<lparr>ro_routes = [], ro_rateLimits = []\<rparr> else Inl (JsError ''none''))"

definition sample_store :: inference where
  "sample_store = (inference_init (\<lambda>_. ''1'') ''d'')\<lparr>services := [sample_row]\<rparr>"

definition sample_linked :: service_detail where
  "sample_linked = fold (sd_step False (\<lambda>_. []) sample_link_route (\<lambda>_. Inr sample_bundle))
     [SdNamespace ''team-b'', SdRoutes ((''team-a'', ''chat''), True), SdCharted (1, Some sample_row)]
     (sd_mounted False (\<lambda>_. []) (Some ''team-a'') (Some ''chat'') ''team-a'' sample_store)"

lemma sample_linked_shows:
  "shown_service sample_linked = Some sample_row" "ch_calls sample_linked = []" "sd_routeCalls sample_linked = []"
proof -
  have store: "services sample_store = [sample_row]" by (simp add: sample_store_def)
  have row: "obj_namespace sample_row = ''team-a''" "obj_name sample_row = ''chat''"
    by (simp_all add: sample_row_def bare_service_def)
  let ?step = "sd_step False (\<lambda>_. []) sample_link_route (\<lambda>_. Inr sample_bundle)" and ?call = "((''team-a'', ''chat''), True)"
  define s0 where "s0 = sd_mounted False (\<lambda>_. []) (Some ''team-a'') (Some ''chat'') ''team-a'' sample_store"
  define s1 where "s1 = ?step (SdNamespace ''team-b'') s0"
  define s2 where "s2 = ?step (SdRoutes ?call) s1"
  have shown: "shown_service s = Some sample_row" if "detail_target s = (''team-a'', Some ''chat'')" "services (sd_store s) = [sample_row]" for s
    using that by (simp add: shown_service_def detail_service_def row)
  have target: "detail_target s = (''team-a'', Some ''chat'')" if "sd_param s = Some ''team-a''" "sd_name s = Some ''chat''" for s
    using that by (simp add: detail_target_def targetNS_def nullish_def)
  have s0: "sd_param s0 = Some ''team-a''" "sd_name s0 = Some ''chat''" "services (sd_store s0) = [sample_row]"
    "ch_calls s0 = [(1, Some sample_row)]" "ch_run s0 = 1" "sd_routeCalls s0 = [?call]"
    unfolding s0_def sd_mounted_def Let_def
    by (simp_all add: store shown target chart_effect_def subject_start_def Let_def target_effects_def routes_asked_def
        detail_target_def targetNS_def nullish_def)
  have commit: "sd_commit False l False old s = s" if "detail_target s = detail_target old" "shown_service s = shown_service old" for l old s
    using that by (simp add: sd_commit_def)
  have s1: "s1 = s0\<lparr>sd_namespace := ''team-b''\<rparr>"
    unfolding s1_def sd_step_def by (simp add: listed_anew_def, rule commit) (simp_all add: s0 target shown)
  have s2: "s2 = routes_landed ?call (sample_link_route (fst ?call)) s1"
    unfolding s2_def sd_step_def by (simp add: listed_anew_def s1 s0, rule commit)
      (simp_all add: s0 target shown routes_landed_def sample_link_route_def)
  have s2_fields: "sd_param s2 = Some ''team-a''" "sd_name s2 = Some ''chat''" "services (sd_store s2) = [sample_row]"
    "ch_calls s2 = [(1, Some sample_row)]" "ch_run s2 = 1" "sd_routeCalls s2 = []"
    by (simp_all add: s2 s1 s0 routes_landed_def sample_link_route_def)
  have link: "sample_linked = chart_answered (subject_answer detail_rows (\<lambda>_. [])) (1, Some sample_row) (Inr sample_bundle) s2"
    unfolding sample_linked_def s0_def [symmetric]
    by (simp add: s1_def [symmetric] s2_def [symmetric], simp add: sd_step_def listed_anew_def s2_fields, rule commit)
      (simp_all add: s2_fields target shown chart_answered_def)
  show "shown_service sample_linked = Some sample_row" "ch_calls sample_linked = []" "sd_routeCalls sample_linked = []"
    unfolding link by (simp_all add: s2_fields target shown chart_answered_def)
qed

theorem service_page_follows_link_witness:
  "subject_right False detail_rows (\<lambda>_. []) (\<lambda>_. Inr sample_bundle) (Some sample_row) (ch_shown sample_linked) \<and>
   RoutesPanel (sd_routes sample_linked) = NoRoutes"
  using service_page_follows_link [OF sample_linked_def]
  by (simp add: sample_linked_shows sample_link_route_def route_seen_def RoutesPanel_def)

text \<open>
  Until the services have come the page says there is no such service; and when the gateway or the routes
  cannot be read, their panels go on waiting with nothing in flight.
\<close>

lemma unloaded_is_not_found:
  "services (sd_store s) = [] \<Longrightarrow> \<exists>ns n. detail_view_of s = NotFound ns n"
  by (simp add: detail_view_of_def shown_service_def detail_service_def)

lemma failed_calls_wait:
  assumes "sd_gatewayCalls s = [True]" "sd_routeCalls s = [(k, True)]"
  shows "GatewayAccessPanel (sd_gateway (gateway_landed True (Inl e) s)) x = AccessWaiting \<and>
    RoutesPanel (sd_routes (routes_landed (k, True) (Inl e) s)) = RoutesWaiting \<and>
    sd_gatewayCalls (gateway_landed True (Inl e) s) = [] \<and> sd_routeCalls (routes_landed (k, True) (Inl e) s) = []"
  using assms by (simp add: gateway_landed_def routes_landed_def GatewayAccessPanel_def RoutesPanel_def)

text \<open>
  The request to copy is the one meant: for a service with a Kubernetes name, its body is JSON that asks
  the model of that name, and the shell passes it on as one word.
\<close>

definition chat_request :: "string \<Rightarrow> json" where
  "chat_request n = JObj [(''model'', JStr n),
     (''messages'', JArr [JObj [(''role'', JStr ''user''), (''content'', JStr ''hello'')]])]"

lemma dns_unescaped: "\<forall>c \<in> set n. dns_char c \<Longrightarrow> concat (map esc_char n) = n"
proof (induction n)
  case (Cons c n)
  have c: "dns_char c" using Cons.prems by simp
  then have "c \<noteq> backslash" "c \<noteq> quote" using dns_char_not(3) by (auto simp: dns_char_def)
  moreover have "0x20 < byte c" using dns_visible [OF c] by (simp add: visible_def byte_def)
  ultimately have "esc_char c = [c]" by (auto simp: esc_char_def byte_def)
  then show ?case using Cons by simp
qed simp

lemma curl_body_is_the_request:
  assumes "dns_name (obj_name x)"
  shows "parse (curl_body (obj_name x)) = Some (chat_request (obj_name x)) \<and> apostrophe \<notin> set (curl_body (obj_name x))"
proof -
  have plain: "concat (map esc_char (obj_name x)) = obj_name x" using assms by (auto simp: dns_name_def intro: dns_unescaped)
  have "stringify (chat_request (obj_name x)) = curl_body (obj_name x)"
    by (simp add: chat_request_def curl_body_def in_quotes_def plain) (simp add: esc_char_def byte_def)
  moreover have "wf_json (chat_request (obj_name x))" by (simp add: chat_request_def)
  ultimately have "parse (curl_body (obj_name x)) = Some (chat_request (obj_name x))"
    using parse_stringify by metis
  moreover have "apostrophe \<notin> set (obj_name x)" using assms dns_char_not(4) by (auto simp: dns_name_def)
  ultimately show ?thesis by (simp add: curl_body_def in_quotes_def)
qed

subsection \<open>The page of the gateway\<close>

record service_row =
  gr_name :: string
  gr_namespace :: string
  gr_kind :: string
  gr_modelUri :: string
  gr_routeCount :: nat
  gr_rateLimitCount :: nat
  gr_hostnames :: "string list"

definition row_of :: "InferenceService \<Rightarrow> ServiceRouteStatus promise \<Rightarrow> service_row" where
  "row_of x r =
     (let st = (case r of Inr st \<Rightarrow> st | Inl e \<Rightarrow> \<lparr>ro_routes = [], ro_rateLimits = []\<rparr>)
      in \<lparr>gr_name = obj_name x, gr_namespace = obj_namespace x, gr_kind = kind_text (is_kind x), gr_modelUri = is_modelUri x,
          gr_routeCount = length (ro_routes st), gr_rateLimitCount = length (ro_rateLimits st),
          gr_hostnames = js_dedup (concat (map (\<lambda>p. nullish (rf_hostnames p) []) (ro_routes st)))\<rparr>)"

text \<open>A run of \<open>reloadRows\<close> that waits for the answer for the first of the services left.\<close>

record row_loop =
  lo_todo :: "InferenceService list"
  lo_out :: "service_row list"

record route_form =
  fo_gatewayNamespace :: string
  fo_gatewayName :: string
  fo_modelHeader :: string
  fo_servicePort :: "int option"
  fo_hostnames :: string
  fo_withRateLimit :: bool
  fo_rateRequests :: "int option"
  fo_rateUnit :: "rate_unit option"
  fo_rateClient :: "string option"
  fo_rateCountTokens :: bool

type_synonym submitted_route = "service_row \<times> CreateAIGatewayRouteRequest \<times> InferenceService list"

record gateway_page =
  gp_namespace :: string
  gp_store :: inference
  gp_config :: "GatewayConfig option"
  gp_loading :: bool
  gp_configCalls :: nat
  gp_rows :: "service_row list"
  gp_rowLoading :: bool
  gp_loops :: "row_loop list"
  gp_creating :: "service_row option"
  gp_form :: "route_form option"
  gp_submits :: "submitted_route list"
  gp_submitting :: bool
  gp_created :: "(string \<times> string \<times> string \<times> string) list option"
  gp_notices :: "notice list"

definition gp_services :: "gateway_page \<Rightarrow> InferenceService list" where
  "gp_services s = filter (\<lambda>x. obj_namespace x = gp_namespace s) (services (gp_store s))"

definition gp_notify :: "notice \<Rightarrow> gateway_page \<Rightarrow> gateway_page" where
  "gp_notify n s = s\<lparr>gp_notices := gp_notices s @ [n]\<rparr>"

definition config_reload :: "gateway_page \<Rightarrow> gateway_page" where
  "config_reload s = s\<lparr>gp_loading := True, gp_configCalls := Suc (gp_configCalls s)\<rparr>"

text \<open>\<open>reloadRows\<close> with the services of the render it was made in; without services it ends at once.\<close>

definition reloadRows :: "InferenceService list \<Rightarrow> gateway_page \<Rightarrow> gateway_page" where
  "reloadRows xs s =
     (if xs = [] then s\<lparr>gp_rows := [], gp_rowLoading := False\<rparr>
      else s\<lparr>gp_rowLoading := True, gp_loops := gp_loops s @ [\<lparr>lo_todo = xs, lo_out = []\<rparr>]\<rparr>)"

definition row_answered :: "row_loop \<Rightarrow> ServiceRouteStatus promise \<Rightarrow> gateway_page \<Rightarrow> gateway_page" where
  "row_answered l r s =
     (let others = remove1 l (gp_loops s)
      in case lo_todo l of
           [] \<Rightarrow> s
         | x # rest \<Rightarrow>
             let out = lo_out l @ [row_of x r]
             in if rest = [] then s\<lparr>gp_loops := others, gp_rows := out, gp_rowLoading := False\<rparr>
                else s\<lparr>gp_loops := others @ [\<lparr>lo_todo = rest, lo_out = out\<rparr>]\<rparr>)"

text \<open>What the form is filled with when the dialog has a target and it or the configuration has changed.\<close>

definition suggestedHost :: "GatewayConfig option \<Rightarrow> service_row \<Rightarrow> string" where
  "suggestedHost g t =
     (case g of None \<Rightarrow> []
      | Some c \<Rightarrow> if truthy_str (gc_ingressDomain c) \<and> truthy_str (gc_urlScheme c)
          then gr_name t @ ''-'' @ gr_namespace t @ ''.'' @ nullish (gc_ingressDomain c) '''' else [])"

definition route_defaults :: "GatewayConfig option \<Rightarrow> service_row \<Rightarrow> route_form" where
  "route_defaults g t =
     (let gw = Option.bind g gc_gateway
      in \<lparr>fo_gatewayNamespace = nullish (map_option kg_namespace gw) ''kserve'',
          fo_gatewayName = nullish (map_option kg_name gw) ''kserve-ingress-gateway'',
          fo_modelHeader = gr_name t, fo_servicePort = Some 80, fo_hostnames = suggestedHost g t,
          fo_withRateLimit = False, fo_rateRequests = Some 1000, fo_rateUnit = Some PerHour,
          fo_rateClient = Some ''x-user-id'', fo_rateCountTokens = True\<rparr>)"

definition form_effect :: "bool \<Rightarrow> gateway_page \<Rightarrow> gateway_page \<Rightarrow> gateway_page" where
  "form_effect fresh old s =
     (case gp_creating s of
        None \<Rightarrow> s\<lparr>gp_form := None\<rparr>
      | Some t \<Rightarrow> if fresh \<or> gp_creating old \<noteq> Some t \<or> gp_config old \<noteq> gp_config s
          then s\<lparr>gp_form := Some (route_defaults (gp_config s) t)\<rparr> else s)"

text \<open>The effects of a commit: the rows when the number of services or the namespace changed, and the form's.\<close>

definition gp_commit :: "bool \<Rightarrow> gateway_page \<Rightarrow> gateway_page \<Rightarrow> gateway_page" where
  "gp_commit fresh old s =
     (let s1 = form_effect fresh old s;
          s2 = (if gp_namespace s = gp_namespace old then s1
                else s1\<lparr>gp_store := ensureInferenceServicesLoaded True (gp_namespace s) (gp_store s)\<rparr>)
      in if length (gp_services s) = length (gp_services old) \<and> gp_namespace s = gp_namespace old then s2
         else reloadRows (gp_services s) s2)"

definition gp_mounted :: "string \<Rightarrow> inference \<Rightarrow> gateway_page" where
  "gp_mounted ns store =
     (let s = \<lparr>gp_namespace = ns, gp_store = store, gp_config = None, gp_loading = True, gp_configCalls = 0, gp_rows = [],
               gp_rowLoading = False, gp_loops = [], gp_creating = None, gp_form = None, gp_submits = [],
               gp_submitting = False, gp_created = None, gp_notices = []\<rparr>
      in reloadRows (gp_services s)
           ((config_reload s)\<lparr>gp_store := ensureInferenceServicesLoaded True ns store\<rparr>))"

definition config_landed :: "GatewayConfig promise \<Rightarrow> gateway_page \<Rightarrow> gateway_page" where
  "config_landed r s =
     (case r of Inr g \<Rightarrow> s\<lparr>gp_config := Some g\<rparr>
      | Inl e \<Rightarrow> (gp_notify (Failure (js_message e)) s)\<lparr>gp_config := None\<rparr>)
       \<lparr>gp_loading := False, gp_configCalls := gp_configCalls s - 1\<rparr>"

text \<open>The button of a row: its caption, and whether it is enabled.\<close>

definition row_action :: "GatewayConfig option \<Rightarrow> service_row \<Rightarrow> string \<times> bool" where
  "row_action g r =
     (if 0 < gr_routeCount r then ''Update route'' else ''Create route'',
      case g of None \<Rightarrow> False | Some c \<Rightarrow> gc_envoyAiGatewayInstalled c)"

subsubsection \<open>The form of a route\<close>

text \<open>
  The fields of the limit are there only while it is switched on; the form does not preserve the values
  of fields that are gone. The switch between tokens and requests stands in an inner item without a
  name, so it is bound to no field, and clicking it changes no value.
\<close>

definition limit_switched :: "bool \<Rightarrow> route_form \<Rightarrow> route_form" where
  "limit_switched on v =
     (if on then v\<lparr>fo_withRateLimit := True\<rparr>
      else if fo_withRateLimit v
      then v\<lparr>fo_withRateLimit := False, fo_rateRequests := None, fo_rateUnit := None, fo_rateClient := None\<rparr>
      else v)"

definition field_typed :: "(route_form \<Rightarrow> route_form) \<Rightarrow> route_form \<Rightarrow> route_form" where
  "field_typed f v = (f v)\<lparr>fo_withRateLimit := fo_withRateLimit v, fo_rateCountTokens := fo_rateCountTokens v\<rparr>"

definition form_valid :: "route_form \<Rightarrow> bool" where
  "form_valid v \<longleftrightarrow> fo_gatewayNamespace v \<noteq> [] \<and> fo_gatewayName v \<noteq> [] \<and> fo_modelHeader v \<noteq> [] \<and>
     (fo_withRateLimit v \<longrightarrow> fo_rateRequests v \<noteq> None)"

definition comma_list :: "string \<Rightarrow> string list" where
  "comma_list t = filter (\<lambda>w. w \<noteq> []) (map trim (split_on (CHR '','') t))"

definition route_request :: "route_form \<Rightarrow> CreateAIGatewayRouteRequest" where
  "route_request v =
     \<lparr>ag_gatewayNamespace = Some (fo_gatewayNamespace v), ag_gatewayName = Some (fo_gatewayName v),
      ag_hostnames = Some (if fo_hostnames v = [] then [] else comma_list (fo_hostnames v)),
      ag_modelHeader = Some (fo_modelHeader v),
      ag_servicePort = Some (let n = nullish (fo_servicePort v) 0 in if n = 0 then 80 else n),
      ag_rateLimit =
        (if fo_withRateLimit v
         then Some \<lparr>rl_requests = nullish (fo_rateRequests v) 0, rl_unit = fo_rateUnit v, rl_clientHeader = fo_rateClient v,
                rl_countTokens = Some (fo_rateCountTokens v)\<rparr>
         else None)\<rparr>"

definition route_submitted :: "gateway_page \<Rightarrow> gateway_page" where
  "route_submitted s =
     (case (gp_creating s, gp_form s) of
        (Some t, Some v) \<Rightarrow>
          if gp_submitting s \<or> \<not> form_valid v then s
          else s\<lparr>gp_submitting := True, gp_submits := gp_submits s @ [(t, route_request v, gp_services s)]\<rparr>
      | _ \<Rightarrow> s)"

definition submit_call :: "submitted_route \<Rightarrow> http_request" where
  "submit_call c = createAIGatewayRoute (gr_namespace (fst c)) (gr_name (fst c)) (fst (snd c))"

text \<open>\<open>onCreated\<close> closes the dialog and reloads the rows of the render the submission was made in.\<close>

definition route_created ::
  "submitted_route \<Rightarrow> (string \<times> string \<times> string \<times> string) list promise \<Rightarrow> gateway_page \<Rightarrow> gateway_page" where
  "route_created c r s =
     (let s' = s\<lparr>gp_submitting := False, gp_submits := remove1 c (gp_submits s)\<rparr>
      in case r of
           Inl e \<Rightarrow> gp_notify (Failure (js_message e)) s'
         | Inr xs \<Rightarrow> reloadRows (snd (snd c))
             ((gp_notify (Success ''Gateway route applied'') s')\<lparr>gp_created := Some xs, gp_creating := None\<rparr>))"

datatype gateway_event =
    GpNamespace string | GpStore inference | GpConfig "GatewayConfig promise" | GpReload
  | GpRow row_loop | GpRefreshRows
  | GpCreate service_row | GpClose | GpTyped "route_form \<Rightarrow> route_form" | GpLimit bool | GpCountSwitch bool
  | GpSubmit | GpSubmitted submitted_route "(string \<times> string \<times> string \<times> string) list promise"

fun gp_act :: "(string \<times> string \<Rightarrow> ServiceRouteStatus promise) \<Rightarrow> gateway_event \<Rightarrow> gateway_page \<Rightarrow> gateway_page" where
  "gp_act route (GpNamespace ns) s = s\<lparr>gp_namespace := ns\<rparr>"
| "gp_act route (GpStore store) s = s\<lparr>gp_store := store\<rparr>"
| "gp_act route (GpConfig r) s = (if gp_configCalls s = 0 then s else config_landed r s)"
| "gp_act route GpReload s = config_reload s"
| "gp_act route (GpRow l) s =
     (if l \<in> set (gp_loops s)
      then row_answered l (case lo_todo l of [] \<Rightarrow> Inl (JsError '''') | x # _ \<Rightarrow> route (obj_namespace x, obj_name x)) s else s)"
| "gp_act route GpRefreshRows s = reloadRows (gp_services s) s"
| "gp_act route (GpCreate t) s =
     (if t \<in> set (gp_rows s) \<and> snd (row_action (gp_config s) t) then s\<lparr>gp_creating := Some t\<rparr> else s)"
| "gp_act route GpClose s = s\<lparr>gp_creating := None\<rparr>"
| "gp_act route (GpTyped f) s = s\<lparr>gp_form := map_option (field_typed f) (gp_form s)\<rparr>"
| "gp_act route (GpLimit on) s = s\<lparr>gp_form := map_option (limit_switched on) (gp_form s)\<rparr>"
| "gp_act route (GpCountSwitch on) s = s"
| "gp_act route GpSubmit s = route_submitted s"
| "gp_act route (GpSubmitted c r) s = (if c \<in> set (gp_submits s) then route_created c r s else s)"

text \<open>A configuration that arrives is a new object, so the form is filled again.\<close>

definition config_arrives :: "gateway_event \<Rightarrow> gateway_page \<Rightarrow> bool" where
  "config_arrives e s = (case e of GpConfig (Inr g) \<Rightarrow> gp_configCalls s \<noteq> 0 | _ \<Rightarrow> False)"

definition gp_step :: "(string \<times> string \<Rightarrow> ServiceRouteStatus promise) \<Rightarrow> gateway_event \<Rightarrow> gateway_page \<Rightarrow> gateway_page" where
  "gp_step route e s = gp_commit (config_arrives e s) s (gp_act route e s)"

subsubsection \<open>The cards and the table\<close>

datatype card = CardLoading | CardEmpty string | CardItems "(string \<times> string list) list"

definition or_dash :: "string option \<Rightarrow> string" where
  "or_dash t = (if truthy_str t then nullish t '''' else em_dash)"

definition kserve_card :: "bool \<Rightarrow> GatewayConfig option \<Rightarrow> card" where
  "kserve_card loading config =
     (if loading then CardLoading
      else case config of
        None \<Rightarrow> CardEmpty ''Cluster config unavailable''
      | Some c \<Rightarrow> CardItems
          [(''Gateway API ingress'', [if gc_ingressGatewayApiEnabled c then ''enabled'' else ''disabled'']),
           (''Default deployment mode'', [or_dash (gc_defaultDeploymentMode c)]),
           (''Ingress domain'', [or_dash (gc_ingressDomain c)]),
           (''URL scheme'', [or_dash (gc_urlScheme c)]),
           (''Istio VirtualHost'', [if gc_disableIstioVirtualHost c = Some True then ''disabled'' else ''legacy enabled''])])"

definition ingress_card :: "bool \<Rightarrow> GatewayConfig option \<Rightarrow> card" where
  "ingress_card loading config =
     (if loading then CardLoading
      else case Option.bind config gc_gateway of
        None \<Rightarrow> CardEmpty
          (if (case config of None \<Rightarrow> False | Some c \<Rightarrow> gc_ingressGatewayApiEnabled c)
           then ''KServe is configured for Gateway API but the default Gateway resource is missing. Apply the Gateway CR from KServe docs.''
           else ''Gateway API ingress is disabled in KServe config '' @ em_dash @ '' the default Gateway is not provisioned.'')
      | Some g \<Rightarrow> CardItems
          [(''Namespace / Name'', [kg_namespace g @ ''/'' @ kg_name g]),
           (''GatewayClass'', [or_dash (kg_className g)]),
           (''Status'', [kg_status g]),
           (''Listeners'', nullish (kg_listeners g) []),
           (''Addresses'', if nullish (kg_addresses g) [] = [] then [''No external addresses programmed yet.'']
              else nullish (kg_addresses g) [])])"

text \<open>The Envoy AI Gateway card: its mark, and whether it names the gateway routes are wired to.\<close>

definition envoy_card :: "GatewayConfig option \<Rightarrow> string option \<times> string option" where
  "envoy_card config =
     (map_option (\<lambda>c. if gc_envoyAiGatewayInstalled c then ''installed'' else ''not installed'') config,
      case config of None \<Rightarrow> None
      | Some c \<Rightarrow> if gc_envoyAiGatewayInstalled c
          then Some (nullish (map_option kg_name (gc_gateway c)) ''kserve-ingress-gateway'') else None)"

definition row_cells :: "service_row \<Rightarrow> string list list" where
  "row_cells r =
     [[gr_name r], [gr_kind r], [gr_modelUri r], [show_nat (gr_routeCount r)], [show_nat (gr_rateLimitCount r)],
      if gr_hostnames r = [] then [em_dash] else gr_hostnames r]"

text \<open>
  The gateway named on the page is the one the form attaches a route to.
\<close>

lemma gateway_named_is_attached:
  "snd (envoy_card config) = Some g \<Longrightarrow> fo_gatewayName (route_defaults config t) = g"
  by (auto simp: envoy_card_def route_defaults_def Let_def split: option.splits if_splits)

subsubsection \<open>The rows are one listing\<close>

definition listing_of :: "(string \<times> string \<Rightarrow> ServiceRouteStatus promise) \<Rightarrow> InferenceService list \<Rightarrow> service_row list" where
  "listing_of route xs = map (\<lambda>x. row_of x (route (obj_namespace x, obj_name x))) xs"

definition of_one_namespace :: "InferenceService list \<Rightarrow> bool" where
  "of_one_namespace xs \<longleftrightarrow> (\<exists>ns. list_all (\<lambda>x. obj_namespace x = ns) xs)"

definition row_loop_ok :: "(string \<times> string \<Rightarrow> ServiceRouteStatus promise) \<Rightarrow> row_loop \<Rightarrow> bool" where
  "row_loop_ok route l \<longleftrightarrow> (\<exists>xs. lo_out l = listing_of route xs \<and> of_one_namespace (xs @ lo_todo l))"

definition rows_ok :: "(string \<times> string \<Rightarrow> ServiceRouteStatus promise) \<Rightarrow> gateway_page \<Rightarrow> bool" where
  "rows_ok route s \<longleftrightarrow>
     (\<exists>xs. gp_rows s = listing_of route xs \<and> of_one_namespace xs) \<and>
     (\<forall>l \<in> set (gp_loops s). row_loop_ok route l) \<and> (\<forall>c \<in> set (gp_submits s). of_one_namespace (snd (snd c)))"

lemma services_of_one [simp]: "of_one_namespace (gp_services s)" "of_one_namespace []"
  by (auto simp: of_one_namespace_def gp_services_def list_all_iff)

lemma reloadRows_ok: "rows_ok route s \<Longrightarrow> of_one_namespace xs \<Longrightarrow> rows_ok route (reloadRows xs s)"
  by (auto simp: rows_ok_def reloadRows_def row_loop_ok_def listing_of_def)

lemma row_answered_ok:
  assumes "rows_ok route s" "l \<in> set (gp_loops s)" "lo_todo l = x # rest"
  shows "rows_ok route (row_answered l (route (obj_namespace x, obj_name x)) s)"
proof -
  obtain xs where xs: "lo_out l = listing_of route xs" "of_one_namespace (xs @ lo_todo l)"
    using assms(1,2) by (auto simp: rows_ok_def row_loop_ok_def)
  have out: "lo_out l @ [row_of x (route (obj_namespace x, obj_name x))] = listing_of route (xs @ [x])"
    using xs(1) by (simp add: listing_of_def)
  have one: "of_one_namespace ((xs @ [x]) @ rest)" using xs(2) assms(3) by simp
  have others: "\<forall>l' \<in> set (remove1 l (gp_loops s)). row_loop_ok route l'"
    using assms(1) by (auto simp: rows_ok_def dest: subsetD [OF set_remove1_subset])
  show ?thesis
  proof (cases "rest = []")
    case True
    then show ?thesis using assms(1) others one out assms(3)
      by (auto simp: rows_ok_def row_answered_def Let_def intro!: exI [of _ "xs @ [x]"])
  next
    case False
    have "row_loop_ok route \<lparr>lo_todo = rest, lo_out = listing_of route (xs @ [x])\<rparr>"
      unfolding row_loop_ok_def by (rule exI [of _ "xs @ [x]"]) (use one in simp)
    then show ?thesis using False assms(1) others out assms(3) by (auto simp: rows_ok_def row_answered_def Let_def)
  qed
qed

lemma rows_ok_same:
  "rows_ok route s \<Longrightarrow> gp_rows s' = gp_rows s \<Longrightarrow> gp_loops s' = gp_loops s \<Longrightarrow> gp_submits s' = gp_submits s \<Longrightarrow> rows_ok route s'"
  by (simp add: rows_ok_def)

lemma gp_act_ok: "rows_ok route s \<Longrightarrow> rows_ok route (gp_act route e s)"
proof (cases e)
  case (GpRow l)
  assume ok: "rows_ok route s"
  show ?thesis
  proof (cases "lo_todo l")
    case Nil
    then show ?thesis using ok GpRow by (simp add: row_answered_def)
  next
    case (Cons x rest)
    then show ?thesis using ok GpRow row_answered_ok [OF ok, of l x rest] by simp
  qed
next
  case (GpSubmitted c r)
  assume ok: "rows_ok route s"
  have "rows_ok route (s\<lparr>gp_submitting := False, gp_submits := remove1 c (gp_submits s)\<rparr>)"
    using ok by (auto simp: rows_ok_def dest: subsetD [OF set_remove1_subset])
  moreover have "rows_ok route (gp_notify n t) = rows_ok route t" "rows_ok route (t\<lparr>gp_created := a, gp_creating := b\<rparr>) = rows_ok route t" for n t a b
    by (simp_all add: rows_ok_def gp_notify_def)
  moreover have "of_one_namespace (snd (snd c))" if "c \<in> set (gp_submits s)" using ok that by (auto simp: rows_ok_def)
  ultimately show ?thesis
    using GpSubmitted ok by (auto simp: route_created_def Let_def split: sum.splits intro!: reloadRows_ok)
next
  case GpSubmit
  assume "rows_ok route s"
  moreover have "rows_ok route (t\<lparr>gp_submitting := b, gp_submits := gp_submits t @ [(x, y, gp_services t)]\<rparr>)" if "rows_ok route t" for t b x y
    using that by (auto simp: rows_ok_def)
  ultimately show ?thesis using GpSubmit by (simp add: route_submitted_def split: option.splits)
next
  case GpRefreshRows
  then show "rows_ok route s \<Longrightarrow> ?thesis" by (simp add: reloadRows_ok)
qed (auto simp: config_landed_def gp_notify_def config_reload_def split: sum.splits elim!: rows_ok_same)

lemma gp_step_ok:
  assumes "rows_ok route s"
  shows "rows_ok route (gp_step route e s)"
proof -
  let ?a = "gp_act route e s"
  have form: "rows_ok route (form_effect f o' t) = rows_ok route t" "rows_ok route (t\<lparr>gp_store := st\<rparr>) = rows_ok route t" for f o' t st
    by (simp_all add: rows_ok_def form_effect_def split: option.splits)
  show ?thesis
    using gp_act_ok [OF assms, of e]
    by (auto simp: gp_step_def gp_commit_def Let_def form intro!: reloadRows_ok)
qed

text \<open>
  The table of routes is never a mixture: through any namespaces, listings, refreshes and created routes, and
  however the calls of overlapping loads are answered, its rows are one whole listing of the services of one
  namespace, each with the counts and host names the backend gives for that service.
\<close>

theorem gateway_rows_are_one_listing:
  "\<exists>n xs. gp_rows (fold (gp_step route) es (gp_mounted ns store)) =
      map (\<lambda>x. row_of x (route (obj_namespace x, obj_name x))) xs \<and>
    list_all (\<lambda>x. obj_namespace x = n) xs"
proof -
  have start: "rows_ok route (gp_mounted ns store)"
  proof -
    let ?s = "gp_mounted ns store\<lparr>gp_loops := [], gp_rows := [], gp_submits := []\<rparr>"
    have "rows_ok route ?s" by (auto simp: rows_ok_def listing_of_def intro: exI [of _ "[]"])
    moreover have "gp_submits (gp_mounted ns store) = []" "gp_rows (gp_mounted ns store) = []"
      "\<forall>l \<in> set (gp_loops (gp_mounted ns store)). lo_out l = [] \<and> of_one_namespace (lo_todo l)"
      by (simp_all add: gp_mounted_def config_reload_def reloadRows_def Let_def)
    ultimately show ?thesis
      by (auto simp: rows_ok_def row_loop_ok_def listing_of_def intro: exI [of _ "[]"])
  qed
  have "rows_ok route (fold (gp_step route) es s0)" if "rows_ok route s0" for s0
    using that by (induction es arbitrary: s0) (simp_all add: gp_step_ok)
  from this [OF start] obtain xs where
    "gp_rows (fold (gp_step route) es (gp_mounted ns store)) = listing_of route xs" "of_one_namespace xs"
    unfolding rows_ok_def by blast
  then show ?thesis unfolding listing_of_def of_one_namespace_def by blast
qed

subsubsection \<open>A route as suggested\<close>

lemma no_comma_list:
  assumes "\<forall>c \<in> set t. visible c \<and> c \<noteq> CHR '',''"
  shows "comma_list t = (if t = [] then [] else [t])"
proof (cases t)
  case (Cons c u)
  have "split_on (CHR '','') t = [t]" by (rule split_on_free) (use assms in blast)
  moreover have "trim t = t" by (rule trim_visible) (use assms in blast)
  ultimately show ?thesis using Cons by (simp add: comma_list_def)
qed (simp add: comma_list_def trim_def)

lemma comma_list_join:
  assumes "ts \<noteq> []" "\<forall>t \<in> set ts. t \<noteq> [] \<and> (\<forall>c \<in> set t. visible c \<and> c \<noteq> CHR '','')"
  shows "comma_list (join '','' ts) = ts"
proof -
  have "split_on (CHR '','') (join '','' ts) = ts" by (rule split_on_join) (use assms in auto)
  moreover have "map trim ts = ts" by (rule map_idI) (use assms(2) trim_visible in blast)
  moreover have "filter (\<lambda>w. w \<noteq> []) ts = ts" using assms(2) by (simp add: filter_id_conv)
  ultimately show ?thesis by (simp add: comma_list_def)
qed

text \<open>
  The route the form suggests is the one the page of the service shows: opening the dialog for a row and
  applying it as it is asks for a route of that service under its name, on the gateway of the configuration,
  without a limit, and for the very host the service's page spells its endpoint with, or for none where
  that page has none.
\<close>

theorem suggested_route_fits:
  assumes "gp_creating s = None" "\<not> gp_submitting s" "gp_config s = Some c" "gc_envoyAiGatewayInstalled c"
    "row_of x r \<in> set (gp_rows s)" "dns_name (obj_name x)" "dns_name (obj_namespace x)"
    "list_all dns_char (nullish (gc_ingressDomain c) '''')"
    "case gc_gateway c of None \<Rightarrow> True | Some g \<Rightarrow> kg_namespace g \<noteq> [] \<and> kg_name g \<noteq> []"
  shows "\<exists>req. gp_submits (gp_step route GpSubmit (gp_step route (GpCreate (row_of x r)) s)) =
      gp_submits s @ [(row_of x r, req, gp_services s)] \<and>
    submit_call (row_of x r, req, gp_services s) = createAIGatewayRoute (obj_namespace x) (obj_name x) req \<and>
    ag_modelHeader req = Some (obj_name x) \<and> ag_rateLimit req = None \<and>
    ag_gatewayName req = Some (case gc_gateway c of None \<Rightarrow> ''kserve-ingress-gateway'' | Some g \<Rightarrow> kg_name g) \<and>
    (case ag_hostnames req of
       Some [h] \<Rightarrow> gatewayHost (Some c) x = nullish (gc_urlScheme c) '''' @ ''://'' @ h
     | hs \<Rightarrow> hs = Some [] \<and> gatewayHost (Some c) x = [])"
proof -
  let ?t = "row_of x r" and ?req = "route_request (route_defaults (Some c) (row_of x r))"
  let ?s1 = "s\<lparr>gp_creating := Some ?t, gp_form := Some (route_defaults (Some c) ?t)\<rparr>"
  have t: "gr_name ?t = obj_name x" "gr_namespace ?t = obj_namespace x" by (simp_all add: row_of_def Let_def)
  have same [simp]: "gp_services (u\<lparr>gp_creating := a\<rparr>) = gp_services u" "gp_services (u\<lparr>gp_form := b\<rparr>) = gp_services u"
    "gp_services (u\<lparr>gp_submits := d\<rparr>) = gp_services u" "gp_services (u\<lparr>gp_submitting := e\<rparr>) = gp_services u" for u a b d e
    by (simp_all add: gp_services_def)
  have s1: "gp_step route (GpCreate ?t) s = ?s1"
    using assms(1,3,4,5) by (simp add: gp_step_def gp_commit_def form_effect_def config_arrives_def row_action_def)
  have gw: "fo_gatewayNamespace (route_defaults (Some c) ?t) \<noteq> []" "fo_gatewayName (route_defaults (Some c) ?t) \<noteq> []"
    using assms(9) by (auto simp: route_defaults_def Let_def nullish_def split: option.splits)
  moreover have "fo_modelHeader (route_defaults (Some c) ?t) \<noteq> []" "\<not> fo_withRateLimit (route_defaults (Some c) ?t)"
    using assms(6) by (simp_all add: route_defaults_def Let_def t dns_name_def)
  ultimately have valid: "form_valid (route_defaults (Some c) ?t)" by (simp add: form_valid_def)
  have s2: "gp_submits (gp_step route GpSubmit ?s1) = gp_submits s @ [(?t, ?req, gp_services s)]"
    using assms(2,3) valid by (simp add: gp_step_def gp_commit_def form_effect_def config_arrives_def route_submitted_def)
  have host: "\<forall>ch \<in> set (suggestedHost (Some c) ?t). visible ch \<and> ch \<noteq> CHR '',''"
  proof -
    have "dns_char (CHR ''-'')" "dns_char (CHR ''.'')" by (simp_all add: dns_char_def)
    then have dns: "\<forall>ch \<in> set (suggestedHost (Some c) ?t). dns_char ch"
      using assms(6-8) by (simp add: suggestedHost_def t dns_name_def list_all_iff) (blast)
    have "visible ch \<and> ch \<noteq> CHR '',''" if "dns_char ch" for ch
      using dns_visible [OF that] dns_char_not(1) [OF that] by auto
    with dns show ?thesis by blast
  qed
  have hosts: "ag_hostnames ?req = Some (if suggestedHost (Some c) ?t = [] then [] else [suggestedHost (Some c) ?t])"
    using no_comma_list [OF host] by (simp add: route_request_def route_defaults_def Let_def)
  have "case ag_hostnames ?req of
      Some [h] \<Rightarrow> gatewayHost (Some c) x = nullish (gc_urlScheme c) '''' @ ''://'' @ h
    | hs \<Rightarrow> hs = Some [] \<and> gatewayHost (Some c) x = []"
    unfolding hosts by (auto simp: suggestedHost_def gatewayHost_def t)
  moreover have "ag_gatewayName ?req = Some (case gc_gateway c of None \<Rightarrow> ''kserve-ingress-gateway'' | Some g \<Rightarrow> kg_name g)"
    by (simp add: route_request_def route_defaults_def Let_def nullish_def split: option.splits)
  moreover have "ag_modelHeader ?req = Some (obj_name x)" "ag_rateLimit ?req = None"
    by (simp_all add: route_request_def route_defaults_def Let_def t)
  ultimately show ?thesis unfolding s1 s2 by (auto simp: submit_call_def t)
qed

definition sample_gateway :: GatewayConfig where
  "sample_gateway = \<lparr>gc_ingressGatewayApiEnabled = True, gc_defaultDeploymentMode = None,
     gc_ingressDomain = Some ''example.com'', gc_urlScheme = Some ''https'', gc_disableIstioVirtualHost = None,
     gc_gatewayApiInstalled = True, gc_envoyAiGatewayInstalled = True, gc_gateway = None\<rparr>"

definition sample_gateway_page :: gateway_page where
  "sample_gateway_page = (gp_mounted ''team-a'' sample_store)
     \<lparr>gp_config := Some sample_gateway, gp_rows := [row_of sample_row (Inl (JsError ''none''))]\<rparr>"

theorem suggested_route_fits_witness:
  "\<exists>req. gp_submits (gp_step sample_link_route GpSubmit
      (gp_step sample_link_route (GpCreate (row_of sample_row (Inl (JsError ''none'')))) sample_gateway_page)) =
    [(row_of sample_row (Inl (JsError ''none'')), req, gp_services sample_gateway_page)] \<and>
    ag_modelHeader req = Some ''chat''"
proof -
  have row: "obj_name sample_row = ''chat''" "obj_namespace sample_row = ''team-a''"
    by (simp_all add: sample_row_def bare_service_def)
  have page: "gp_creating sample_gateway_page = None" "\<not> gp_submitting sample_gateway_page"
    "gp_config sample_gateway_page = Some sample_gateway" "gp_submits sample_gateway_page = []"
    "gp_rows sample_gateway_page = [row_of sample_row (Inl (JsError ''none''))]"
    by (simp_all add: sample_gateway_page_def gp_mounted_def config_reload_def reloadRows_def Let_def)
  show ?thesis
    using suggested_route_fits [OF page(1-3), of sample_row "Inl (JsError ''none'')" sample_link_route]
    by (force simp: page(4,5) row sample_gateway_def dns_name_def dns_char_def nullish_def)
qed

subsubsection \<open>What the page does not keep\<close>

text \<open>
  The loads of the rows are not cancelled: when the namespace is left for one without services before its
  loads have ended, its rows appear under the other one.
\<close>

lemma late_loop_overwrites:
  "gp_rows (fold (gp_step route) [GpNamespace ''team-b'', GpRow \<lparr>lo_todo = [sample_row], lo_out = []\<rparr>] (gp_mounted ''team-a'' sample_store)) =
     [row_of sample_row (route (''team-a'', ''chat''))] \<and>
   gp_namespace (fold (gp_step route) [GpNamespace ''team-b'', GpRow \<lparr>lo_todo = [sample_row], lo_out = []\<rparr>] (gp_mounted ''team-a'' sample_store)) =
     ''team-b''"
proof -
  have row: "obj_name sample_row = ''chat''" "obj_namespace sample_row = ''team-a''"
    by (simp_all add: sample_row_def bare_service_def)
  have store: "services sample_store = [sample_row]" by (simp add: sample_store_def)
  show ?thesis
    by (simp add: gp_mounted_def gp_step_def gp_commit_def form_effect_def config_arrives_def reloadRows_def config_reload_def
        row_answered_def gp_services_def store row Let_def)
qed

text \<open>The rows are loaded anew only when their number changes: services replaced by as many others are not.\<close>

lemma same_count_keeps_rows:
  assumes "length (filter (\<lambda>x. obj_namespace x = gp_namespace s) (services st)) = length (gp_services s)"
  shows "gp_rows (gp_step route (GpStore st) s) = gp_rows s \<and> gp_loops (gp_step route (GpStore st) s) = gp_loops s"
  using assms by (simp add: gp_step_def gp_commit_def gp_services_def form_effect_def config_arrives_def split: option.splits)

text \<open>A configuration that arrives while the form is open puts the suggested values in place of those typed.\<close>

lemma late_config_resets_form:
  assumes "gp_creating s = Some t" "gp_configCalls s \<noteq> 0"
  shows "gp_form (gp_step route (GpConfig (Inr g)) s) = Some (route_defaults (Some g) t)"
  using assms by (simp add: gp_step_def gp_commit_def form_effect_def config_arrives_def config_landed_def gp_services_def)

text \<open>A route created closes the dialog, whatever it is open for by then.\<close>

lemma created_closes_other: "gp_creating (route_created c (Inr xs) s) = None"
  by (simp add: route_created_def reloadRows_def gp_notify_def Let_def)

text \<open>Every limit submitted counts tokens: nothing on the page changes the value the form starts with.\<close>

definition counts_tokens :: "gateway_page \<Rightarrow> bool" where
  "counts_tokens s \<longleftrightarrow>
     (\<forall>v. gp_form s = Some v \<longrightarrow> fo_rateCountTokens v) \<and>
     (\<forall>c \<in> set (gp_submits s). \<forall>l. ag_rateLimit (fst (snd c)) = Some l \<longrightarrow> rl_countTokens l = Some True)"

lemma counts_tokens_same:
  "counts_tokens s \<Longrightarrow> gp_form s' = gp_form s \<Longrightarrow> set (gp_submits s') \<subseteq> set (gp_submits s) \<Longrightarrow> counts_tokens s'"
  by (auto simp: counts_tokens_def)

lemma limits_count_tokens:
  assumes "\<forall>v. gp_form s = Some v \<longrightarrow> fo_rateCountTokens v" "counts_tokens s"
  shows "counts_tokens (fold (gp_step route) es s)"
proof -
  have same: "gp_form (reloadRows xs t) = gp_form t" "gp_submits (reloadRows xs t) = gp_submits t" for xs t
    by (simp_all add: reloadRows_def)
  have commit: "counts_tokens (gp_commit f old t)" if "counts_tokens t" for f old t
  proof -
    have "counts_tokens (form_effect f old t)"
      using that by (auto simp: counts_tokens_def form_effect_def route_defaults_def Let_def split: option.splits)
    then show ?thesis
      by (auto simp: gp_commit_def Let_def same intro: counts_tokens_same)
  qed
  have act: "counts_tokens (gp_act route e t)" if ok: "counts_tokens t" for e t
  proof (cases e)
    case GpSubmit
    then show ?thesis using ok
      by (auto simp: counts_tokens_def route_submitted_def route_request_def split: option.splits if_splits)
  next
    case (GpTyped f)
    have "fo_rateCountTokens (field_typed f v) = fo_rateCountTokens v" for v by (simp add: field_typed_def)
    then show ?thesis using ok GpTyped by (cases "gp_form t") (simp_all add: counts_tokens_def)
  next
    case (GpLimit on)
    have "fo_rateCountTokens (limit_switched on v) = fo_rateCountTokens v" for v by (simp add: limit_switched_def)
    then show ?thesis using ok GpLimit by (cases "gp_form t") (simp_all add: counts_tokens_def)
  next
    case (GpRow l)
    then show ?thesis using ok
      by (auto simp: row_answered_def Let_def split: list.splits intro: counts_tokens_same)
  next
    case (GpSubmitted c r)
    have "set (remove1 c (gp_submits t)) \<subseteq> set (gp_submits t)" by (rule set_remove1_subset)
    then show ?thesis using ok GpSubmitted
      by (auto simp: route_created_def gp_notify_def same Let_def split: sum.splits
          intro!: counts_tokens_same [OF ok] dest: subsetD)
  qed (use ok in \<open>auto simp: config_landed_def gp_notify_def config_reload_def same split: sum.splits intro: counts_tokens_same\<close>)
  show ?thesis
    using assms(2) by (induction es arbitrary: s) (simp_all add: gp_step_def commit act)
qed

text \<open>A limit switched off and on again has lost its unit, which no rule asks for: it is not sent.\<close>

lemma switched_limit_loses_unit:
  assumes "form_valid v" "v' = limit_switched True (limit_switched False (limit_switched True v))"
    "v'' = field_typed (\<lambda>u. u\<lparr>fo_rateRequests := Some n\<rparr>) v'"
  shows "form_valid v'' \<and> map_option rl_unit (ag_rateLimit (route_request v'')) = Some None"
  using assms by (simp add: form_valid_def limit_switched_def field_typed_def route_request_def)

end
