(* ===== verification/Container_Pages.thy ===== *)
theory Container_Pages
  imports Yaml_Pages Cluster_Resources Workloads Log_Viewer
begin

text \<open>
  The pages of \<open>frontend/src/pages/containers\<close>: services, config maps, secrets and gateways
  (\<open>Services.tsx\<close>, \<open>ConfigMaps.tsx\<close>, \<open>Secrets.tsx\<close>, \<open>Gateways.tsx\<close>), which view, create from a template and delete
  objects; and deployments, stateful sets, pods and claims (\<open>Deployments.tsx\<close>, \<open>StatefulSets.tsx\<close>, \<open>Pods.tsx\<close>,
  \<open>PVCs.tsx\<close>), which also have forms and logs. The pages of a group are one machine, with what differs as
  functions of the kind; the viewer's contract is a locale both groups give.
\<close>

subsection \<open>The viewer's contract\<close>

text \<open>
  An answer puts what it shows into the viewer, whatever is in it by then; nothing else does. \<open>asks\<close> is the
  call an event makes, \<open>shown\<close> what its answer shows.
\<close>

locale manifest_viewing =
  fixes step :: "'e \<Rightarrow> 's \<Rightarrow> 's" and view :: "'s \<Rightarrow> 'v option" and calls :: "'s \<Rightarrow> 'c list"
    and asks :: "'e \<Rightarrow> 's \<Rightarrow> 'c option" and shown :: "'c \<Rightarrow> 'v"
  assumes view_step: "view (step e s) = Some v \<Longrightarrow> view s = Some v \<or> (\<exists>c \<in> set (calls s). v = shown c)"
    and calls_step: "c \<in> set (calls (step e s)) \<Longrightarrow> c \<in> set (calls s) \<or> asks e s = Some c"
begin

lemma called:
  assumes "calls s0 = []" "c \<in> set (calls (fold step es s0))"
  shows "\<exists>before e later. es = before @ e # later \<and> asks e (fold step before s0) = Some c"
  using assms(2)
proof (induction es rule: rev_induct)
  case (snoc e es)
  then have "c \<in> set (calls (fold step es s0)) \<or> asks e (fold step es s0) = Some c"
    using calls_step by simp
  then show ?case
  proof
    assume "c \<in> set (calls (fold step es s0))"
    then obtain before e' later where "es = before @ e' # later" "asks e' (fold step before s0) = Some c"
      using snoc.IH by blast
    then show ?thesis by (intro exI [of _ before] exI [of _ e'] exI [of _ "later @ [e]"]) simp
  next
    assume "asks e (fold step es s0) = Some c"
    then show ?thesis by (intro exI [of _ es] exI [of _ e] exI [of _ "[]"]) simp
  qed
qed (use assms(1) in simp)

lemma viewed_was_asked:
  assumes "calls s0 = []" "view s0 = None" "view (fold step es s0) = Some v"
  shows "\<exists>before e later c. es = before @ e # later \<and> asks e (fold step before s0) = Some c \<and> v = shown c"
  using assms(3)
proof (induction es rule: rev_induct)
  case (snoc e es)
  then have "view (fold step es s0) = Some v \<or> (\<exists>c \<in> set (calls (fold step es s0)). v = shown c)"
    using view_step by simp
  then show ?case
  proof
    assume "view (fold step es s0) = Some v"
    then obtain before e' later c where "es = before @ e' # later" "asks e' (fold step before s0) = Some c" "v = shown c"
      using snoc.IH by blast
    then show ?thesis by (intro exI [of _ before] exI [of _ e'] exI [of _ "later @ [e]"] exI [of _ c]) simp
  next
    assume "\<exists>c \<in> set (calls (fold step es s0)). v = shown c"
    then obtain c where c: "c \<in> set (calls (fold step es s0))" "v = shown c" by blast
    from called [OF assms(1) c(1)] obtain before e' later where
      "es = before @ e' # later" "asks e' (fold step before s0) = Some c" by blast
    then show ?thesis using c(2) by (intro exI [of _ before] exI [of _ e'] exI [of _ "later @ [e]"] exI [of _ c]) simp
  qed
qed (use assms(2) in simp)

end

subsection \<open>Services, config maps, secrets and gateways\<close>

datatype resource =
    ServiceRow K8sService | ConfigMapRow ConfigMap | SecretRow Secret | GatewayRow Gateway | RouteRow HTTPRoute

fun resource_slug :: "resource \<Rightarrow> slug" where
  "resource_slug (ServiceRow r) = Services"
| "resource_slug (ConfigMapRow r) = Configmaps"
| "resource_slug (SecretRow r) = Secrets"
| "resource_slug (GatewayRow r) = Gateways"
| "resource_slug (RouteRow r) = Httproutes"

fun resource_ns :: "resource \<Rightarrow> string" where
  "resource_ns (ServiceRow r) = obj_namespace r"
| "resource_ns (ConfigMapRow r) = obj_namespace r"
| "resource_ns (SecretRow r) = obj_namespace r"
| "resource_ns (GatewayRow r) = obj_namespace r"
| "resource_ns (RouteRow r) = obj_namespace r"

fun resource_name :: "resource \<Rightarrow> string" where
  "resource_name (ServiceRow r) = obj_name r"
| "resource_name (ConfigMapRow r) = obj_name r"
| "resource_name (SecretRow r) = obj_name r"
| "resource_name (GatewayRow r) = obj_name r"
| "resource_name (RouteRow r) = obj_name r"

fun resource_yaml :: "resource \<Rightarrow> string" where
  "resource_yaml (ServiceRow r) = buildServiceYaml r"
| "resource_yaml (ConfigMapRow r) = buildConfigMapYaml r"
| "resource_yaml (SecretRow r) = buildSecretYaml r"
| "resource_yaml (GatewayRow r) = buildGatewayYaml r"
| "resource_yaml (RouteRow r) = buildHTTPRouteYaml r"

definition kind_label :: "slug \<Rightarrow> string" where
  "kind_label k =
     (case k of Services \<Rightarrow> ''Service'' | Configmaps \<Rightarrow> ''ConfigMap'' | Secrets \<Rightarrow> ''Secret'' | Gateways \<Rightarrow> ''Gateway''
      | Httproutes \<Rightarrow> ''HTTPRoute'' | Deployments \<Rightarrow> ''Deployment'' | Statefulsets \<Rightarrow> ''StatefulSet'' | Pods \<Rightarrow> ''Pod''
      | Pvcs \<Rightarrow> ''PVC'' | _ \<Rightarrow> slug_text k)"

definition resource_template :: "slug \<Rightarrow> string \<Rightarrow> string" where
  "resource_template k ns =
     (case k of Services \<Rightarrow> serviceTemplate ns | Configmaps \<Rightarrow> configMapTemplate ns | Secrets \<Rightarrow> secretTemplate ns
      | Gateways \<Rightarrow> gatewayTemplate ns | _ \<Rightarrow> httpRouteTemplate ns)"

text \<open>The kind and the name of a row, with a middle dot between them.\<close>

definition viewer_title :: "slug \<Rightarrow> string \<Rightarrow> string" where
  "viewer_title k n = kind_label k @ '' '' @ [CHR 0xC2, CHR 0xB7] @ '' '' @ n"

text \<open>The kinds a page shows: the gateways' shows two, with one editor and the kind it creates.\<close>

record resource_page =
  rp_kinds :: "slug list"
  rp_namespace :: string
  rp_store :: cluster_resources
  rp_view :: "(string \<times> string) option"
  rp_viewCalls :: "resource list"
  rp_create :: "slug option"
  rp_text :: string
  rp_creating :: bool
  rp_creates :: "((slug \<times> string) \<times> string) list"
  rp_confirm :: "resource option"
  rp_deletes :: "resource list"
  rp_notices :: "notice list"

definition all_resources :: "slug \<Rightarrow> cluster_resources \<Rightarrow> resource list" where
  "all_resources k st =
     (case k of Services \<Rightarrow> map ServiceRow (k8sServices st) | Configmaps \<Rightarrow> map ConfigMapRow (configMaps st)
      | Secrets \<Rightarrow> map SecretRow (secrets st) | Gateways \<Rightarrow> map GatewayRow (gateways st)
      | Httproutes \<Rightarrow> map RouteRow (httpRoutes st) | _ \<Rightarrow> [])"

definition page_resources :: "slug \<Rightarrow> resource_page \<Rightarrow> resource list" where
  "page_resources k s = filter (\<lambda>r. resource_ns r = rp_namespace s) (all_resources k (rp_store s))"

definition resources_load :: "bool \<Rightarrow> slug list \<Rightarrow> string \<Rightarrow> cluster_resources \<Rightarrow> cluster_resources" where
  "resources_load api kinds ns st =
     (if Services \<in> set kinds then ensureServicesLoaded api ns st
      else if Configmaps \<in> set kinds then ensureConfigMapsLoaded api ns st
      else if Secrets \<in> set kinds then ensureSecretsLoaded api ns st
      else ensureGatewaysLoaded api ns st)"

definition rp_mounted :: "bool \<Rightarrow> slug list \<Rightarrow> string \<Rightarrow> cluster_resources \<Rightarrow> resource_page" where
  "rp_mounted api kinds ns st =
     \<lparr>rp_kinds = kinds, rp_namespace = ns, rp_store = resources_load api kinds ns st, rp_view = None, rp_viewCalls = [],
      rp_create = None, rp_text = [], rp_creating = False, rp_creates = [], rp_confirm = None, rp_deletes = [],
      rp_notices = []\<rparr>"

definition rp_namespace_chosen :: "bool \<Rightarrow> string \<Rightarrow> resource_page \<Rightarrow> resource_page" where
  "rp_namespace_chosen api ns s =
     (if ns = rp_namespace s then s
      else s\<lparr>rp_namespace := ns, rp_store := resources_load api (rp_kinds s) ns (rp_store s)\<rparr>)"

definition rp_notify :: "notice \<Rightarrow> resource_page \<Rightarrow> resource_page" where
  "rp_notify n s = s\<lparr>rp_notices := rp_notices s @ [n]\<rparr>"

definition rp_answer :: "bool \<Rightarrow> string backend \<Rightarrow> resource \<Rightarrow> string promise" where
  "rp_answer api get r =
     fetchClusterResourceYaml api get (resource_slug r) (resource_ns r) (resource_name r) (resource_yaml r)"

definition manifest_shown :: "bool \<Rightarrow> string backend \<Rightarrow> resource \<Rightarrow> string \<times> string" where
  "manifest_shown api get r =
     (viewer_title (resource_slug r) (resource_name r),
      case rp_answer api get r of Inr body \<Rightarrow> body | Inl e \<Rightarrow> resource_yaml r)"

definition rp_viewed :: "bool \<Rightarrow> string backend \<Rightarrow> resource \<Rightarrow> resource_page \<Rightarrow> resource_page" where
  "rp_viewed api get r s =
     (case rp_answer api get r of Inr body \<Rightarrow> s | Inl e \<Rightarrow> rp_notify (Failure (js_message e)) s)
       \<lparr>rp_view := Some (manifest_shown api get r), rp_viewCalls := remove1 r (rp_viewCalls s)\<rparr>"

definition openCreate :: "slug \<Rightarrow> resource_page \<Rightarrow> resource_page" where
  "openCreate k s = s\<lparr>rp_create := Some k, rp_text := resource_template k (rp_namespace s)\<rparr>"

definition submitCreate :: "resource_page \<Rightarrow> resource_page" where
  "submitCreate s =
     (case rp_create s of None \<Rightarrow> s
      | Some k \<Rightarrow> if rp_creating s then s
          else s\<lparr>rp_creating := True, rp_creates := rp_creates s @ [((k, rp_namespace s), rp_text s)]\<rparr>)"

text \<open>A creation that succeeds closes the editor.\<close>

definition rp_created ::
  "bool \<Rightarrow> unit backend \<Rightarrow> string \<times> string \<times> string \<Rightarrow> (slug \<times> string) \<times> string \<Rightarrow> resource_page \<Rightarrow> resource_page" where
  "rp_created api put drawn c s =
     (let (r, st) = createClusterResource api put (fst drawn) (fst (snd drawn)) (snd (snd drawn))
            (fst (fst c)) (snd (fst c)) (snd c) (rp_store s)
      in (case r of
            Inl e \<Rightarrow> rp_notify (Failure (js_message e)) s
          | Inr _ \<Rightarrow> (rp_notify (Success (kind_label (fst (fst c)) @ '' created'')) s)\<lparr>rp_create := None\<rparr>)
           \<lparr>rp_store := st, rp_creating := False, rp_creates := remove1 c (rp_creates s)\<rparr>)"

text \<open>The confirmation stays open when the deletion fails, for the handler throws the error on.\<close>

definition rp_confirmed :: "resource_page \<Rightarrow> resource_page" where
  "rp_confirmed s =
     (case rp_confirm s of None \<Rightarrow> s
      | Some r \<Rightarrow> if r \<in> set (rp_deletes s) then s else s\<lparr>rp_deletes := rp_deletes s @ [r]\<rparr>)"

definition rp_deleted :: "bool \<Rightarrow> unit backend \<Rightarrow> resource \<Rightarrow> resource_page \<Rightarrow> resource_page" where
  "rp_deleted api put r s =
     (let (answer, st) = deleteClusterResource api put (resource_slug r) (resource_ns r) (resource_name r) (rp_store s);
          s' = s\<lparr>rp_store := st, rp_deletes := remove1 r (rp_deletes s)\<rparr>
      in case answer of
           Inl e \<Rightarrow> rp_notify (Failure (js_message e)) s'
         | Inr _ \<Rightarrow> (rp_notify (Success ''Deleted'') s')\<lparr>rp_confirm := (if rp_confirm s = Some r then None else rp_confirm s)\<rparr>)"

datatype resource_event =
    RpNamespace string | RpStore cluster_resources
  | RpView resource | RpViewed resource | RpViewClosed
  | RpNew slug | RpTyped string | RpEditClosed | RpSubmit | RpCreated "string \<times> string \<times> string" "(slug \<times> string) \<times> string"
  | RpDelete resource | RpConfirmed | RpConfirmClosed | RpDeleted resource

fun rp_step :: "bool \<Rightarrow> string backend \<Rightarrow> unit backend \<Rightarrow> resource_event \<Rightarrow> resource_page \<Rightarrow> resource_page" where
  "rp_step api get put (RpNamespace ns) s = rp_namespace_chosen api ns s"
| "rp_step api get put (RpStore st) s = s\<lparr>rp_store := st\<rparr>"
| "rp_step api get put (RpView r) s =
     (if r \<in> set (page_resources (resource_slug r) s) \<and> resource_slug r \<in> set (rp_kinds s)
      then s\<lparr>rp_viewCalls := rp_viewCalls s @ [r]\<rparr> else s)"
| "rp_step api get put (RpViewed r) s = (if r \<in> set (rp_viewCalls s) then rp_viewed api get r s else s)"
| "rp_step api get put RpViewClosed s = s\<lparr>rp_view := None\<rparr>"
| "rp_step api get put (RpNew k) s = (if k \<in> set (rp_kinds s) then openCreate k s else s)"
| "rp_step api get put (RpTyped t) s = s\<lparr>rp_text := t\<rparr>"
| "rp_step api get put RpEditClosed s = s\<lparr>rp_create := None\<rparr>"
| "rp_step api get put RpSubmit s = submitCreate s"
| "rp_step api get put (RpCreated drawn c) s = (if c \<in> set (rp_creates s) then rp_created api put drawn c s else s)"
| "rp_step api get put (RpDelete r) s =
     (if r \<in> set (page_resources (resource_slug r) s) then s\<lparr>rp_confirm := Some r\<rparr> else s)"
| "rp_step api get put RpConfirmed s = rp_confirmed s"
| "rp_step api get put RpConfirmClosed s = s\<lparr>rp_confirm := None\<rparr>"
| "rp_step api get put (RpDeleted r) s = (if r \<in> set (rp_deletes s) then rp_deleted api put r s else s)"

lemmas rp_defs = rp_namespace_chosen_def rp_notify_def rp_viewed_def openCreate_def submitCreate_def rp_created_def
  rp_confirmed_def rp_deleted_def

definition rp_editor :: "resource_page \<Rightarrow> (slug \<times> string) option" where
  "rp_editor s = map_option (\<lambda>k. (k, rp_text s)) (rp_create s)"

fun rp_loads :: "resource_event \<Rightarrow> resource_page \<Rightarrow> (slug \<times> string) option" where
  "rp_loads (RpNew k) s = (if k \<in> set (rp_kinds s) then Some (k, resource_template k (rp_namespace s)) else None)"
| "rp_loads _ s = None"

fun rp_types :: "resource_event \<Rightarrow> string option" where
  "rp_types (RpTyped t) = Some t"
| "rp_types _ = None"

fun rp_asks :: "resource_event \<Rightarrow> resource_page \<Rightarrow> resource option" where
  "rp_asks (RpView r) s =
     (if r \<in> set (page_resources (resource_slug r) s) \<and> resource_slug r \<in> set (rp_kinds s) then Some r else None)"
| "rp_asks _ s = None"

interpretation rp: yaml_editing "rp_step api get put" rp_editor rp_creates "\<lambda>s k. (k, rp_namespace s)" rp_loads rp_types
  for api get put
proof unfold_locales
  fix e :: resource_event and s and p :: "(slug \<times> string) \<times> string"
  show "rp_editor (rp_step api get put e s) = None \<or>
      rp_editor (rp_step api get put e s) = (case rp_loads e s of Some p \<Rightarrow> Some p
        | None \<Rightarrow> map_option (\<lambda>(k, t). (k, case rp_types e of None \<Rightarrow> t | Some t' \<Rightarrow> t')) (rp_editor s))"
    by (cases e; cases "rp_create s") (auto simp: rp_defs rp_editor_def Let_def case_prod_unfold split: sum.splits option.splits)
  show "p \<in> set (rp_creates (rp_step api get put e s)) \<Longrightarrow>
      p \<in> set (rp_creates s) \<or> (\<exists>k t. rp_editor s = Some (k, t) \<and> p = ((k, rp_namespace s), t))"
    by (cases e; cases "rp_create s") (auto simp: rp_defs rp_editor_def Let_def case_prod_unfold split: sum.splits option.splits if_splits
        dest: subsetD [OF set_remove1_subset])
qed

interpretation rv: manifest_viewing "rp_step api get put" rp_view rp_viewCalls rp_asks "manifest_shown api get"
  for api get put
proof unfold_locales
  fix e s v c
  show "rp_view (rp_step api get put e s) = Some v \<Longrightarrow>
      rp_view s = Some v \<or> (\<exists>c \<in> set (rp_viewCalls s). v = manifest_shown api get c)"
    by (cases e) (auto simp: rp_defs Let_def case_prod_unfold split: sum.splits option.splits if_splits)
  show "c \<in> set (rp_viewCalls (rp_step api get put e s)) \<Longrightarrow> c \<in> set (rp_viewCalls s) \<or> rp_asks e s = Some c"
    by (cases e) (auto simp: rp_defs Let_def case_prod_unfold split: sum.splits option.splits if_splits
        dest: subsetD [OF set_remove1_subset])
qed

text \<open>
  What the pages create is what was written: every creation sends the text of an editor opened for that kind
  on the template of the namespace selected then, or what was last typed over it; it goes to the namespace
  selected at the click; and left as it is, the template names its example object.
\<close>

theorem resources_created_as_edited:
  assumes "((k, n), t) \<in> set (rp_creates (fold (rp_step api get put) es (rp_mounted api kinds ns st)))"
  shows "\<exists>before typing later t0. es = before @ RpNew k # typing @ later \<and>
    t0 = resource_template k (rp_namespace (fold (rp_step api get put) before (rp_mounted api kinds ns st))) \<and>
    t = last (t0 # List.map_filter rp_types typing) \<and>
    n = rp_namespace (fold (rp_step api get put) (before @ RpNew k # typing) (rp_mounted api kinds ns st)) \<and>
    extractName t0 \<noteq> None"
proof -
  let ?s0 = "rp_mounted api kinds ns st" and ?step = "rp_step api get put"
  have start: "rp_editor ?s0 = None" "rp_creates ?s0 = []" by (simp_all add: rp_mounted_def rp_editor_def)
  obtain before e typing later k' t0 where es: "es = before @ e # typing @ later"
    and loads: "rp_loads e (fold ?step before ?s0) = Some (k', t0)" and t: "t = rp.typed_over t0 typing"
    and n: "(k, n) = (k', rp_namespace (fold ?step (before @ e # typing) ?s0))"
    using rp.saved_from [OF start assms] by blast
  have e: "e = RpNew k" "t0 = resource_template k (rp_namespace (fold ?step before ?s0))"
    using loads n by (auto elim!: rp_loads.elims split: if_splits)
  have "extractName t0 \<noteq> None"
    using template_names by (simp add: e(2) resource_template_def split: slug.splits)
  moreover have "n = rp_namespace (fold ?step (before @ RpNew k # typing) ?s0)" "k' = k" using n e(1) by simp_all
  ultimately show ?thesis
    using es e t by (intro exI [of _ before] exI [of _ typing] exI [of _ later] exI [of _ t0]) (simp add: rp.typed_over_def)
qed

definition sample_resources :: cluster_resources where
  "sample_resources = (cluster_init (\<lambda>_. ''1'') ''d'')\<lparr>configMaps := []\<rparr>"

definition sample_editing :: resource_page where
  "sample_editing = fold (rp_step True (\<lambda>_. Inr ''a'') (\<lambda>_. Inr ())) [RpNew Configmaps, RpTyped ''kind: X'', RpSubmit]
     (rp_mounted True [Configmaps] ''team-a'' sample_resources)"

theorem resources_created_as_edited_witness:
  "rp_creates sample_editing = [((Configmaps, ''team-a''), ''kind: X'')] \<and>
   (\<exists>before typing later. [RpNew Configmaps, RpTyped ''kind: X'', RpSubmit] = before @ RpNew Configmaps # typing @ later)"
proof -
  have sent: "rp_creates sample_editing = [((Configmaps, ''team-a''), ''kind: X'')]"
    by (simp add: sample_editing_def rp_mounted_def openCreate_def submitCreate_def)
  then have "((Configmaps, ''team-a''), ''kind: X'') \<in> set (rp_creates sample_editing)" by simp
  from resources_created_as_edited [OF this [unfolded sample_editing_def]] sent show ?thesis by blast
qed

text \<open>
  The viewer shows what was asked for: its text is of an object whose button was clicked, as the backend gives
  it or, where that fails, the local manifest of the row, under the kind and name of that object.
\<close>

lemma viewer_shows_resource:
  assumes "rp_view (fold (rp_step api get put) es (rp_mounted api kinds ns st)) = Some v"
  shows "\<exists>before r later. es = before @ RpView r # later \<and> resource_slug r \<in> set (rp_kinds (fold (rp_step api get put) before (rp_mounted api kinds ns st))) \<and>
    r \<in> set (page_resources (resource_slug r) (fold (rp_step api get put) before (rp_mounted api kinds ns st))) \<and>
    v = manifest_shown api get r"
proof -
  have "rp_viewCalls (rp_mounted api kinds ns st) = []" "rp_view (rp_mounted api kinds ns st) = None"
    by (simp_all add: rp_mounted_def)
  from rv.viewed_was_asked [OF this assms] obtain before e later r where
    e: "es = before @ e # later" "rp_asks e (fold (rp_step api get put) before (rp_mounted api kinds ns st)) = Some r"
    "v = manifest_shown api get r" by blast
  have "e = RpView r" using e(2) by (auto elim!: rp_asks.elims split: if_splits)
  then show ?thesis using e
    by (intro exI [of _ before] exI [of _ r] exI [of _ later]) (simp split: if_splits)
qed

text \<open>In prototype mode it is the local manifest, which names the object.\<close>

lemma prototype_viewer_names:
  assumes "dns_name (resource_name r)" "manifest_shown False get r = (title, body)"
  shows "body = resource_yaml r \<and> extractName body = Some (resource_name r)"
proof -
  have "body = resource_yaml r"
    using assms(2) by (simp add: manifest_shown_def rp_answer_def fetchClusterResourceYaml_def)
  moreover have "extractName (resource_yaml r) = Some (resource_name r)"
    using assms(1) built_names(1-5) [where n = "resource_name r"] by (cases r) (metis (no_types) k8s_obj.surjective
        k8s_obj.update_convs(2) resource_name.simps resource_yaml.simps k8s_obj.ext_inject)+
  ultimately show ?thesis by simp
qed

text \<open>A deletion confirmed removes the object and closes the confirmation, or leaves both as they were.\<close>

lemma deletion_outcome:
  assumes "cr_kind (resource_slug r)" "s' = rp_deleted api put r s" "rp_confirm s = Some r"
  shows "(case put (deleteNamespaced (resource_slug r) (resource_ns r) (resource_name r)) of
      Inl e \<Rightarrow> api \<longrightarrow> rp_store s' = rp_store s \<and> rp_confirm s' = Some r
    | Inr _ \<Rightarrow> rp_confirm s' = None \<and> rp_store s' = clear_resource (resource_slug r) (resource_ns r) (resource_name r) (rp_store s))"
  using assms(2,3) by (auto simp: rp_deleted_def deleteClusterResource_def rp_notify_def Let_def split: sum.splits)

text \<open>
  What the pages do not keep apart: a creation that ends closes the editor open by then, for whatever kind; the
  namespace may be changed while the editor is open, and the template of one namespace is then sent to the
  other; and of two manifests asked for, the one answered last is shown.
\<close>

lemma created_closes_editor:
  assumes "api" "put (createNamespacedYaml (fst (fst c)) (snd (fst c)) (snd c)) = Inr ()"
  shows "rp_create (rp_created api put drawn c s) = None"
  using assms by (cases c) (auto simp: rp_created_def createClusterResource_def rp_notify_def Let_def)

lemma template_sent_elsewhere:
  "rp_creates (fold (rp_step True get put) [RpNew Configmaps, RpNamespace ''team-b'', RpSubmit]
      (rp_mounted True [Configmaps] ''team-a'' sample_resources)) =
     [((Configmaps, ''team-b''), configMapTemplate ''team-a'')]"
  by (simp add: rp_mounted_def openCreate_def submitCreate_def rp_namespace_chosen_def resource_template_def)

lemma late_manifest_shown:
  assumes "a \<in> set (rp_viewCalls s)" "b \<in> set (rp_viewCalls s)" "a \<noteq> b"
  shows "rp_view (fold (rp_step api get put) [RpViewed b, RpViewed a] s) = Some (manifest_shown api get a)"
proof -
  have "a \<in> set (rp_viewCalls (rp_viewed api get b s))"
    using assms by (simp add: rp_viewed_def)
  then show ?thesis using assms(2) by (simp add: rp_viewed_def [of _ _ a])
qed

subsection \<open>Deployments, stateful sets, pods and claims\<close>

datatype workload = DeploymentRow Deployment | StatefulSetRow StatefulSet | PodRow Pod | ClaimRow PVC

fun workload_slug :: "workload \<Rightarrow> slug" where
  "workload_slug (DeploymentRow r) = Deployments"
| "workload_slug (StatefulSetRow r) = Statefulsets"
| "workload_slug (PodRow r) = Pods"
| "workload_slug (ClaimRow r) = Pvcs"

fun workload_ns :: "workload \<Rightarrow> string" where
  "workload_ns (DeploymentRow r) = obj_namespace r"
| "workload_ns (StatefulSetRow r) = obj_namespace r"
| "workload_ns (PodRow r) = obj_namespace r"
| "workload_ns (ClaimRow r) = obj_namespace r"

fun workload_name :: "workload \<Rightarrow> string" where
  "workload_name (DeploymentRow r) = obj_name r"
| "workload_name (StatefulSetRow r) = obj_name r"
| "workload_name (PodRow r) = obj_name r"
| "workload_name (ClaimRow r) = obj_name r"

text \<open>The local manifests; rows of the store have their labels and containers.\<close>

fun workload_yaml :: "workload \<Rightarrow> string" where
  "workload_yaml (DeploymentRow r) =
     buildDeploymentYaml (obj_name r) (obj_namespace r) (dep_image r) (dep_replicas r) (nullish (dep_labels r) [])"
| "workload_yaml (StatefulSetRow r) =
     buildStatefulSetYaml (obj_name r) (obj_namespace r) (ss_image r) (ss_replicas r) (ss_serviceName r)"
| "workload_yaml (PodRow r) = buildPodYaml (obj_name r) (obj_namespace r) (pod_node r) (nullish (pod_containers r) [])"
| "workload_yaml (ClaimRow r) =
     buildPVCYaml (obj_name r) (obj_namespace r) (pvc_storageClass r) (pvc_capacity r) (pvc_accessMode r)"

datatype workload_form =
    RunForm string string "int option"
  | ClaimForm string string string string

text \<open>
  The page of one kind; what the log viewer is open for is a row with the pod found for it; a submission has
  the namespace and the row edited of the render it was made in.
\<close>

record workload_page =
  wp_slug :: slug
  wp_namespace :: string
  wp_store :: workloads
  wp_view :: "(workload \<times> string) option"
  wp_viewCalls :: "(string \<times> workload) list"
  wp_loading :: "string option"
  wp_editing :: "Deployment option"
  wp_form :: "workload_form option"
  wp_submits :: "(string \<times> Deployment option \<times> workload_form) list"
  wp_log :: "(workload \<times> Pod option) option"
  wp_confirm :: "(string \<times> workload) option"
  wp_deletes :: "(string \<times> workload) list"
  wp_notices :: "notice list"

definition all_workloads :: "slug \<Rightarrow> workloads \<Rightarrow> workload list" where
  "all_workloads k st =
     (case k of Deployments \<Rightarrow> map DeploymentRow (deployments st) | Statefulsets \<Rightarrow> map StatefulSetRow (statefulSets st)
      | Pods \<Rightarrow> map PodRow (pods st) | Pvcs \<Rightarrow> map ClaimRow (pvcs st) | _ \<Rightarrow> [])"

definition page_workloads :: "workload_page \<Rightarrow> workload list" where
  "page_workloads s = filter (\<lambda>w. workload_ns w = wp_namespace s) (all_workloads (wp_slug s) (wp_store s))"

definition workloads_load :: "bool \<Rightarrow> slug \<Rightarrow> string \<Rightarrow> workloads \<Rightarrow> workloads" where
  "workloads_load api k ns st =
     (case k of
        Deployments \<Rightarrow> ensurePodsLoaded api ns (ensureDeploymentsLoaded api ns st)
      | Statefulsets \<Rightarrow> ensurePodsLoaded api ns (ensureStatefulSetsLoaded api ns st)
      | Pods \<Rightarrow> ensurePodsLoaded api ns st
      | _ \<Rightarrow> ensurePvcsLoaded api ns st)"

definition workloads_reload :: "bool \<Rightarrow> slug \<Rightarrow> string \<Rightarrow> workloads \<Rightarrow> workloads" where
  "workloads_reload api k ns st =
     (case k of
        Deployments \<Rightarrow> reloadDeployments api ns st
      | Statefulsets \<Rightarrow> reloadStatefulSets api ns st
      | Pods \<Rightarrow> reloadPods api ns st
      | _ \<Rightarrow> reloadPvcs api ns st)"

definition wp_mounted :: "bool \<Rightarrow> slug \<Rightarrow> string \<Rightarrow> workloads \<Rightarrow> workload_page" where
  "wp_mounted api k ns st =
     \<lparr>wp_slug = k, wp_namespace = ns, wp_store = workloads_load api k ns st, wp_view = None, wp_viewCalls = [],
      wp_loading = None, wp_editing = None, wp_form = None, wp_submits = [], wp_log = None, wp_confirm = None,
      wp_deletes = [], wp_notices = []\<rparr>"

definition wp_namespace_chosen :: "bool \<Rightarrow> string \<Rightarrow> workload_page \<Rightarrow> workload_page" where
  "wp_namespace_chosen api ns s =
     (if ns = wp_namespace s then s
      else s\<lparr>wp_namespace := ns, wp_store := workloads_load api (wp_slug s) ns (wp_store s)\<rparr>)"

definition wp_notify :: "notice \<Rightarrow> workload_page \<Rightarrow> workload_page" where
  "wp_notify n s = s\<lparr>wp_notices := wp_notices s @ [n]\<rparr>"

definition wp_answer :: "bool \<Rightarrow> string backend \<Rightarrow> string \<times> workload \<Rightarrow> string promise" where
  "wp_answer api get c = fetchResourceYaml api get (workload_slug (snd c)) (fst c) (workload_name (snd c))"

definition workload_shown :: "bool \<Rightarrow> string backend \<Rightarrow> string \<times> workload \<Rightarrow> workload \<times> string" where
  "workload_shown api get c =
     (snd c, case wp_answer api get c of Inr text \<Rightarrow> text | Inl e \<Rightarrow> workload_yaml (snd c))"

definition wp_openYaml :: "workload \<Rightarrow> workload_page \<Rightarrow> workload_page" where
  "wp_openYaml w s = s\<lparr>wp_loading := Some (workload_name w), wp_viewCalls := wp_viewCalls s @ [(wp_namespace s, w)]\<rparr>"

definition wp_viewed :: "bool \<Rightarrow> string backend \<Rightarrow> string \<times> workload \<Rightarrow> workload_page \<Rightarrow> workload_page" where
  "wp_viewed api get c s =
     (case wp_answer api get c of
        Inr text \<Rightarrow> s
      | Inl e \<Rightarrow> wp_notify (Warning (''Falling back to local YAML: '' @ js_message e)) s)
       \<lparr>wp_view := Some (workload_shown api get c), wp_loading := None, wp_viewCalls := remove1 c (wp_viewCalls s)\<rparr>"

subsubsection \<open>Logs\<close>

definition podFor :: "workload \<Rightarrow> workloads \<Rightarrow> Pod option" where
  "podFor w st =
     (case w of
        DeploymentRow d \<Rightarrow> find (\<lambda>p. obj_namespace p = obj_namespace d \<and> pod_ownerRef p = Some (''Deployment/'' @ obj_name d)) (pods st)
      | StatefulSetRow d \<Rightarrow> find (\<lambda>p. obj_namespace p = obj_namespace d \<and> pod_ownerRef p = Some (''StatefulSet/'' @ obj_name d)) (pods st)
      | PodRow p \<Rightarrow> Some p
      | ClaimRow c \<Rightarrow> None)"

definition no_pod_warning :: "workload \<Rightarrow> string" where
  "no_pod_warning w =
     ''No pod found for this '' @ (case w of DeploymentRow d \<Rightarrow> ''deployment'' | _ \<Rightarrow> ''StatefulSet'')"

definition log_clicked :: "bool \<Rightarrow> workload \<Rightarrow> workload_page \<Rightarrow> workload_page" where
  "log_clicked api w s =
     (let p = podFor w (wp_store s)
      in if api \<and> p = None then wp_notify (Warning (no_pod_warning w)) s else s\<lparr>wp_log := Some (w, p)\<rparr>)"

text \<open>The properties the log viewer is rendered with.\<close>

definition workload_log_target :: "workload_page \<Rightarrow> log_target" where
  "workload_log_target s =
     \<lparr>lt_open = (wp_log s \<noteq> None),
      lt_containers = nullish (Option.bind (Option.bind (wp_log s) snd) pod_containers)
        (if wp_slug s = Deployments then [''main'', ''sidecar''] else [''main'']),
      lt_podRef = map_option (\<lambda>p. (obj_namespace p, obj_name p)) (Option.bind (wp_log s) snd),
      lt_inferenceRef = None\<rparr>"

subsubsection \<open>Forms\<close>

definition new_form :: "slug \<Rightarrow> workload_form" where
  "new_form k = (if k = Pvcs then ClaimForm '''' ''standard'' ''20Gi'' ''RWO'' else RunForm '''' '''' (Some 1))"

definition edit_form :: "Deployment \<Rightarrow> workload_form" where
  "edit_form d = RunForm (obj_name d) (dep_image d) (Some (dep_replicas d))"

fun form_complete :: "workload_form \<Rightarrow> bool" where
  "form_complete (RunForm name img replicas) = (name \<noteq> [] \<and> img \<noteq> [] \<and> replicas \<noteq> None)"
| "form_complete (ClaimForm name cls cap mode) = (name \<noteq> [] \<and> cap \<noteq> [])"

text \<open>The button takes every click: nothing marks a submission in flight.\<close>

definition wp_submit :: "workload_page \<Rightarrow> workload_page" where
  "wp_submit s =
     (case wp_form s of
        Some v \<Rightarrow> if form_complete v then s\<lparr>wp_submits := wp_submits s @ [(wp_namespace s, wp_editing s, v)]\<rparr> else s
      | None \<Rightarrow> s)"

definition form_sent ::
  "bool \<Rightarrow> unit backend \<Rightarrow> string \<Rightarrow> string \<Rightarrow> slug \<Rightarrow> string \<times> Deployment option \<times> workload_form \<Rightarrow>
     workloads \<Rightarrow> unit promise \<times> workloads" where
  "form_sent api put draw today k c st =
     (case snd (snd c) of
        RunForm name img replicas \<Rightarrow>
          (case fst (snd c) of
             Some d \<Rightarrow> updateDeployment api put (fst c) d img (nullish replicas 0) st
           | None \<Rightarrow> if k = Deployments then createDeployment api put draw today (fst c) name img (nullish replicas 0) st
               else createStatefulSet api put draw today (fst c) name img (nullish replicas 0) st)
      | ClaimForm name cls cap mode \<Rightarrow> createPVC api put draw today (fst c) name cls cap mode st)"

definition form_saved_notice :: "slug \<Rightarrow> Deployment option \<Rightarrow> string" where
  "form_saved_notice k editing =
     (case k of Deployments \<Rightarrow> if editing = None then ''Deployment created'' else ''Deployment updated''
      | Statefulsets \<Rightarrow> ''StatefulSet created'' | _ \<Rightarrow> ''PVC created'')"

definition wp_submitted ::
  "bool \<Rightarrow> unit backend \<Rightarrow> string \<Rightarrow> string \<Rightarrow> string \<times> Deployment option \<times> workload_form \<Rightarrow> workload_page \<Rightarrow> workload_page" where
  "wp_submitted api put draw today c s =
     (let (r, st) = form_sent api put draw today (wp_slug s) c (wp_store s);
          s' = s\<lparr>wp_store := st, wp_submits := remove1 c (wp_submits s)\<rparr>
      in case r of
           Inl e \<Rightarrow> wp_notify (Failure (js_message e)) s'
         | Inr _ \<Rightarrow> (wp_notify (Success (form_saved_notice (wp_slug s) (fst (snd c)))) s')\<lparr>wp_form := None\<rparr>)"

subsubsection \<open>Deletion and the page's steps\<close>

definition wp_confirmed :: "workload_page \<Rightarrow> workload_page" where
  "wp_confirmed s =
     (case wp_confirm s of None \<Rightarrow> s
      | Some c \<Rightarrow> if c \<in> set (wp_deletes s) then s else s\<lparr>wp_deletes := wp_deletes s @ [c]\<rparr>)"

definition wp_deleted :: "bool \<Rightarrow> unit backend \<Rightarrow> string \<times> workload \<Rightarrow> workload_page \<Rightarrow> workload_page" where
  "wp_deleted api put c s =
     (let (r, st) = deleteWorkload api put (workload_slug (snd c)) (fst c) (workload_name (snd c)) (wp_store s);
          s' = s\<lparr>wp_deletes := remove1 c (wp_deletes s), wp_confirm := (if wp_confirm s = Some c then None else wp_confirm s)\<rparr>
      in case r of
           Inl e \<Rightarrow> wp_notify (Failure (js_message e)) (s'\<lparr>wp_store := st\<rparr>)
         | Inr _ \<Rightarrow> wp_notify (Success (case snd c of PodRow p \<Rightarrow> ''Pod deleted'' | ClaimRow p \<Rightarrow> ''PVC deleted'' | _ \<Rightarrow> ''Deleted''))
             (s'\<lparr>wp_store := workloads_reload api (workload_slug (snd c)) (fst c) st\<rparr>))"

datatype workload_event =
    WpNamespace string | WpStore workloads | WpRefresh
  | WpView workload | WpViewed "string \<times> workload" | WpViewClosed
  | WpLogs workload | WpLogsClosed
  | WpNew | WpEdit Deployment | WpFilled workload_form | WpFormClosed | WpSubmit
  | WpSubmitted string "string \<times> Deployment option \<times> workload_form"
  | WpDelete workload | WpConfirmed | WpConfirmClosed | WpDeleted "string \<times> workload"

text \<open>A form keeps its fields; the name of a deployment that is edited cannot be typed over.\<close>

fun filled :: "Deployment option \<Rightarrow> workload_form \<Rightarrow> workload_form \<Rightarrow> workload_form" where
  "filled editing (RunForm name img replicas) (RunForm name' img' replicas') =
     RunForm (if editing = None then name' else name) img' replicas'"
| "filled editing (ClaimForm name cls cap mode) (ClaimForm name' cls' cap' mode') = ClaimForm name' cls' cap' mode'"
| "filled editing v _ = v"

fun wp_step ::
  "bool \<Rightarrow> string backend \<Rightarrow> unit backend \<Rightarrow> string \<Rightarrow> workload_event \<Rightarrow> workload_page \<Rightarrow> workload_page" where
  "wp_step api get put today (WpNamespace ns) s = wp_namespace_chosen api ns s"
| "wp_step api get put today (WpStore st) s = s\<lparr>wp_store := st\<rparr>"
| "wp_step api get put today WpRefresh s = s\<lparr>wp_store := workloads_reload api (wp_slug s) (wp_namespace s) (wp_store s)\<rparr>"
| "wp_step api get put today (WpView w) s = (if w \<in> set (page_workloads s) then wp_openYaml w s else s)"
| "wp_step api get put today (WpViewed c) s = (if c \<in> set (wp_viewCalls s) then wp_viewed api get c s else s)"
| "wp_step api get put today WpViewClosed s = s\<lparr>wp_view := None\<rparr>"
| "wp_step api get put today (WpLogs w) s = (if w \<in> set (page_workloads s) \<and> wp_slug s \<noteq> Pvcs then log_clicked api w s else s)"
| "wp_step api get put today WpLogsClosed s = s\<lparr>wp_log := None\<rparr>"
| "wp_step api get put today WpNew s =
     (if wp_slug s = Pods then s else s\<lparr>wp_editing := None, wp_form := Some (new_form (wp_slug s))\<rparr>)"
| "wp_step api get put today (WpEdit d) s =
     (if wp_slug s = Deployments \<and> DeploymentRow d \<in> set (page_workloads s)
      then s\<lparr>wp_editing := Some d, wp_form := Some (edit_form d)\<rparr> else s)"
| "wp_step api get put today (WpFilled v) s = s\<lparr>wp_form := map_option (\<lambda>u. filled (wp_editing s) u v) (wp_form s)\<rparr>"
| "wp_step api get put today WpFormClosed s = s\<lparr>wp_form := None\<rparr>"
| "wp_step api get put today WpSubmit s = wp_submit s"
| "wp_step api get put today (WpSubmitted draw c) s = (if c \<in> set (wp_submits s) then wp_submitted api put draw today c s else s)"
| "wp_step api get put today (WpDelete w) s = (if w \<in> set (page_workloads s) then s\<lparr>wp_confirm := Some (wp_namespace s, w)\<rparr> else s)"
| "wp_step api get put today WpConfirmed s = wp_confirmed s"
| "wp_step api get put today WpConfirmClosed s = s\<lparr>wp_confirm := None\<rparr>"
| "wp_step api get put today (WpDeleted c) s = (if c \<in> set (wp_deletes s) then wp_deleted api put c s else s)"

lemmas wp_defs = wp_namespace_chosen_def wp_notify_def wp_openYaml_def wp_viewed_def log_clicked_def wp_submit_def
  wp_submitted_def wp_confirmed_def wp_deleted_def

fun wp_asks :: "workload_event \<Rightarrow> workload_page \<Rightarrow> (string \<times> workload) option" where
  "wp_asks (WpView w) s = (if w \<in> set (page_workloads s) then Some (wp_namespace s, w) else None)"
| "wp_asks _ s = None"

interpretation wv: manifest_viewing "wp_step api get put today" wp_view wp_viewCalls wp_asks "workload_shown api get"
  for api get put today
proof unfold_locales
  fix e s v c
  show "wp_view (wp_step api get put today e s) = Some v \<Longrightarrow>
      wp_view s = Some v \<or> (\<exists>c \<in> set (wp_viewCalls s). v = workload_shown api get c)"
    by (cases e) (auto simp: wp_defs Let_def case_prod_unfold split: sum.splits option.splits if_splits)
  show "c \<in> set (wp_viewCalls (wp_step api get put today e s)) \<Longrightarrow> c \<in> set (wp_viewCalls s) \<or> wp_asks e s = Some c"
    by (cases e) (auto simp: wp_defs Let_def case_prod_unfold split: sum.splits option.splits if_splits
        dest: subsetD [OF set_remove1_subset])
qed

subsubsection \<open>What the workload pages show and do\<close>

text \<open>
  The logs are of the workload's own pod: what the viewer is open for was asked for by a click on a row of the
  page, and the pod it streams is the one found for it, of its namespace and owned by it; with a backend there
  is one, and without one found the viewer falls back on samples.
\<close>

lemma podFor_own:
  "podFor w st = Some p \<Longrightarrow> obj_namespace p = workload_ns w \<and>
    (w = PodRow p \<or> p \<in> set (pods st) \<and> pod_ownerRef p = Some (kind_label (workload_slug w) @ ''/'' @ workload_name w))"
  by (cases w) (auto simp: podFor_def find_Some_iff kind_label_def)

lemma podFor_findPodForOwner:
  "podFor (DeploymentRow d) st = findPodForOwner (obj_namespace d) OwnerDeployment (obj_name d) st"
  "podFor (StatefulSetRow x) st = findPodForOwner (obj_namespace x) OwnerStatefulSet (obj_name x) st"
  by (simp_all add: podFor_def findPodForOwner_def)

lemma log_step:
  "wp_log (wp_step api get put today e s) = Some v \<Longrightarrow> wp_log s = Some v \<or>
    (\<exists>w. e = WpLogs w \<and> w \<in> set (page_workloads s) \<and> v = (w, podFor w (wp_store s)) \<and> (api \<longrightarrow> podFor w (wp_store s) \<noteq> None))"
  by (cases e) (auto simp: wp_defs Let_def case_prod_unfold split: sum.splits option.splits if_splits)

lemma log_was_clicked:
  assumes "wp_log s0 = None" "wp_log (fold (wp_step api get put today) es s0) = Some v"
  shows "\<exists>before w later. es = before @ WpLogs w # later \<and> w \<in> set (page_workloads (fold (wp_step api get put today) before s0)) \<and>
    v = (w, podFor w (wp_store (fold (wp_step api get put today) before s0))) \<and> (api \<longrightarrow> snd v \<noteq> None)"
  using assms(2)
proof (induction es rule: rev_induct)
  case (snoc e es)
  let ?s = "fold (wp_step api get put today) es s0"
  from log_step [of api get put today e ?s v] snoc.prems
  consider "wp_log ?s = Some v" | w where "e = WpLogs w" "w \<in> set (page_workloads ?s)" "v = (w, podFor w (wp_store ?s))"
      "api \<longrightarrow> podFor w (wp_store ?s) \<noteq> None"
    by auto
  then show ?case
  proof cases
    case 1
    then obtain before w later where "es = before @ WpLogs w # later"
      "w \<in> set (page_workloads (fold (wp_step api get put today) before s0))"
      "v = (w, podFor w (wp_store (fold (wp_step api get put today) before s0)))" "api \<longrightarrow> snd v \<noteq> None"
      using snoc.IH by blast
    then show ?thesis by (intro exI [of _ before] exI [of _ w] exI [of _ "later @ [e]"]) simp
  next
    case (2 w)
    then show ?thesis by (intro exI [of _ es] exI [of _ w] exI [of _ "[]"]) simp
  qed
qed (use assms(1) in simp)

theorem logs_are_of_own_pod:
  assumes "s = fold (wp_step api get put today) es (wp_mounted api k ns st)" "wp_log s = Some (w, found)"
  shows "\<exists>before later. es = before @ WpLogs w # later \<and>
    w \<in> set (page_workloads (fold (wp_step api get put today) before (wp_mounted api k ns st))) \<and>
    (case found of
       None \<Rightarrow> \<not> api \<and> fallbackToFake api (workload_log_target s)
     | Some p \<Rightarrow> obj_namespace p = workload_ns w \<and>
         (w = PodRow p \<or> pod_ownerRef p = Some (kind_label (workload_slug w) @ ''/'' @ workload_name w)) \<and>
         stream_path (workload_log_target s) v =
           Some (podLogsPath (workload_ns w) (obj_name p) (stream_options (workload_log_target s) v)))"
proof -
  have none: "wp_log (wp_mounted api k ns st) = None" by (simp add: wp_mounted_def)
  obtain before w' later where es: "es = before @ WpLogs w' # later"
    and row: "w' \<in> set (page_workloads (fold (wp_step api get put today) before (wp_mounted api k ns st)))"
    and found: "(w, found) = (w', podFor w' (wp_store (fold (wp_step api get put today) before (wp_mounted api k ns st))))"
    and some: "api \<longrightarrow> snd (w, found) \<noteq> None"
    using log_was_clicked [OF none assms(2) [unfolded assms(1)]] by blast
  have "case found of
       None \<Rightarrow> \<not> api \<and> fallbackToFake api (workload_log_target s)
     | Some p \<Rightarrow> obj_namespace p = workload_ns w \<and>
         (w = PodRow p \<or> pod_ownerRef p = Some (kind_label (workload_slug w) @ ''/'' @ workload_name w)) \<and>
         stream_path (workload_log_target s) v =
           Some (podLogsPath (workload_ns w) (obj_name p) (stream_options (workload_log_target s) v))"
  proof (cases found)
    case None
    then show ?thesis using some by (simp add: fallbackToFake_def)
  next
    case (Some p)
    then have "podFor w (wp_store (fold (wp_step api get put today) before (wp_mounted api k ns st))) = Some p" using found by simp
    from podFor_own [OF this] Some assms(2) show ?thesis
      by (auto simp: stream_path_def workload_log_target_def)
  qed
  then show ?thesis using es row found by blast
qed

definition sample_pod :: Pod where
  "sample_pod = \<lparr>obj_id = ''p'', obj_name = ''web-1'', obj_namespace = ''team-a'', pod_node = ''n'', pod_ip = ''i'',
     pod_status = PodRunning, pod_restarts = 0, pod_age = ''1d'', pod_containers = Some [''main''],
     pod_ownerRef = Some ''Deployment/web''\<rparr>"

definition sample_web :: Deployment where
  "sample_web = \<lparr>obj_id = ''d'', obj_name = ''web'', obj_namespace = ''team-a'', dep_image = ''nginx'', dep_replicas = 2,
     dep_readyReplicas = 1, dep_status = WProgressing, dep_createdAt = ''t'', dep_labels = Some []\<rparr>"

definition sample_workloads :: workloads where
  "sample_workloads = (workloads_init (\<lambda>_. ''1'') ''t'')\<lparr>deployments := [sample_web], pods := [sample_pod]\<rparr>"

definition sample_logged :: workload_page where
  "sample_logged = fold (wp_step False (\<lambda>_. Inr ''a'') (\<lambda>_. Inr ()) ''t'') [WpLogs (DeploymentRow sample_web)]
     (wp_mounted False Deployments ''team-a'' sample_workloads)"

theorem logs_are_of_own_pod_witness:
  "wp_log sample_logged = Some (DeploymentRow sample_web, Some sample_pod) \<and>
   stream_path (workload_log_target sample_logged) (viewer_mounted (workload_log_target sample_logged)) =
     Some (podLogsPath ''team-a'' ''web-1'' (stream_options (workload_log_target sample_logged)
       (viewer_mounted (workload_log_target sample_logged))))"
proof -
  have "page_workloads (wp_mounted False Deployments ''team-a'' sample_workloads) = [DeploymentRow sample_web]"
    by (simp add: page_workloads_def wp_mounted_def all_workloads_def workloads_load_def ensurePodsLoaded_def
        ensureDeploymentsLoaded_def sample_workloads_def sample_web_def)
  moreover have "podFor (DeploymentRow sample_web) (wp_store (wp_mounted False Deployments ''team-a'' sample_workloads)) = Some sample_pod"
    by (simp add: podFor_def wp_mounted_def workloads_load_def ensurePodsLoaded_def ensureDeploymentsLoaded_def
        sample_workloads_def sample_web_def sample_pod_def)
  ultimately have log: "wp_log sample_logged = Some (DeploymentRow sample_web, Some sample_pod)"
    by (simp add: sample_logged_def log_clicked_def wp_mounted_def [of False Deployments, symmetric]) (simp add: wp_mounted_def)
  from logs_are_of_own_pod [OF sample_logged_def log] log show ?thesis
    by (auto simp: sample_web_def sample_pod_def)
qed

text \<open>
  Opening the form of a deployment and saving it as it is changes no deployment: in prototype mode the rows are
  what they were, when no more replicas are ready than asked for.
\<close>

lemma untouched_deployment_edit:
  assumes "wp_slug s = Deployments" "DeploymentRow d \<in> set (page_workloads s)" "wp_submits s = []"
    "obj_name d \<noteq> []" "dep_image d \<noteq> []" "dep_readyReplicas d \<le> dep_replicas d"
    "\<forall>x \<in> set (deployments (wp_store s)). obj_id x = obj_id d \<longrightarrow> x = d"
    "s' = fold (wp_step False get put today) [WpEdit d, WpSubmit, WpSubmitted draw (wp_namespace s, Some d, edit_form d)] s"
  shows "deployments (wp_store s') = deployments (wp_store s) \<and> wp_form s' = None \<and>
    wp_notices s' = wp_notices s @ [Success ''Deployment updated'']"
proof -
  have "map_where (\<lambda>x. obj_id x = obj_id d) (\<lambda>x. x\<lparr>dep_image := dep_image d, dep_replicas := dep_replicas d,
      dep_readyReplicas := min (dep_readyReplicas x) (dep_replicas d)\<rparr>) (deployments (wp_store s)) = deployments (wp_store s)"
    unfolding map_where_def by (rule map_idI) (use assms(6,7) in auto)
  then show ?thesis
    using assms(1-5) unfolding assms(8)
    by (simp add: edit_form_def wp_submit_def wp_submitted_def form_sent_def updateDeployment_def wp_notify_def
        form_saved_notice_def nullish_def Let_def)
qed

text \<open>A deletion goes to the namespace of its row.\<close>

lemma delete_step:
  "c \<in> set (wp_deletes (wp_step api get put today e s)) \<Longrightarrow> c \<in> set (wp_deletes s) \<or> wp_confirm s = Some c"
  by (cases e) (auto simp: wp_defs Let_def case_prod_unfold split: sum.splits option.splits if_splits
      dest: subsetD [OF set_remove1_subset])

lemma confirm_step:
  "wp_confirm (wp_step api get put today e s) = Some c \<Longrightarrow> wp_confirm s = Some c \<or> fst c = workload_ns (snd c)"
  by (cases e) (auto simp: wp_defs page_workloads_def Let_def case_prod_unfold split: sum.splits option.splits if_splits)

lemma deletes_are_own:
  assumes "(n, w) \<in> set (wp_deletes (fold (wp_step api get put today) es (wp_mounted api k ns st)))"
  shows "n = workload_ns w"
proof -
  let ?s0 = "wp_mounted api k ns st" and ?step = "wp_step api get put today"
  have confirmed: "fst c = workload_ns (snd c)" if "wp_confirm (fold ?step es ?s0) = Some c" for es c
    using that
  proof (induction es rule: rev_induct)
    case (snoc e es)
    then show ?case using confirm_step [of api get put today e "fold ?step es ?s0" c] by auto
  qed (simp add: wp_mounted_def)
  have "fst c = workload_ns (snd c)" if "c \<in> set (wp_deletes (fold ?step es ?s0))" for c
    using that
  proof (induction es rule: rev_induct)
    case (snoc e es)
    then show ?case using delete_step [of c api get put today e "fold ?step es ?s0"] confirmed by auto
  qed (simp add: wp_mounted_def)
  from this [OF assms] show ?thesis by simp
qed

text \<open>Every click on the button of a form is a submission of its own: two clicks create two of the same name.\<close>

lemma two_clicks_create_two:
  assumes "wp_slug s = Deployments" "wp_form s = Some (RunForm (c # n) (i # img) (Some k))" "wp_editing s = None" "wp_submits s = []"
    "call = (wp_namespace s, None, RunForm (c # n) (i # img) (Some k))"
    "s' = fold (wp_step False get put today) [WpSubmit, WpSubmit, WpSubmitted d1 call, WpSubmitted d2 call] s"
  shows "map obj_name (deployments (wp_store s')) = [c # n, c # n] @ map obj_name (deployments (wp_store s))"
  using assms
  by (simp add: wp_submit_def wp_submitted_def form_sent_def createDeployment_def wp_notify_def form_saved_notice_def setTimeout_def
      nullish_def Let_def)

subsection \<open>The eight pages\<close>

text \<open>The pages as runs of the two machines.\<close>

type_synonym resource_run = "string backend \<Rightarrow> unit backend \<Rightarrow> string \<Rightarrow> cluster_resources \<Rightarrow> resource_event list \<Rightarrow> resource_page"

definition ServicesPage :: "bool \<Rightarrow> resource_run" where
  "ServicesPage api get put ns st es = fold (rp_step api get put) es (rp_mounted api [Services] ns st)"

definition ConfigMapsPage :: "bool \<Rightarrow> resource_run" where
  "ConfigMapsPage api get put ns st es = fold (rp_step api get put) es (rp_mounted api [Configmaps] ns st)"

definition SecretsPage :: "bool \<Rightarrow> resource_run" where
  "SecretsPage api get put ns st es = fold (rp_step api get put) es (rp_mounted api [Secrets] ns st)"

definition GatewaysPage :: "bool \<Rightarrow> resource_run" where
  "GatewaysPage api get put ns st es = fold (rp_step api get put) es (rp_mounted api [Gateways, Httproutes] ns st)"

type_synonym workload_run =
  "string backend \<Rightarrow> unit backend \<Rightarrow> string \<Rightarrow> string \<Rightarrow> workloads \<Rightarrow> workload_event list \<Rightarrow> workload_page"

definition DeploymentsPage :: "bool \<Rightarrow> workload_run" where
  "DeploymentsPage api get put today ns st es = fold (wp_step api get put today) es (wp_mounted api Deployments ns st)"

definition StatefulSetsPage :: "bool \<Rightarrow> workload_run" where
  "StatefulSetsPage api get put today ns st es = fold (wp_step api get put today) es (wp_mounted api Statefulsets ns st)"

definition PodsPage :: "bool \<Rightarrow> workload_run" where
  "PodsPage api get put today ns st es = fold (wp_step api get put today) es (wp_mounted api Pods ns st)"

definition PVCsPage :: "bool \<Rightarrow> workload_run" where
  "PVCsPage api get put today ns st es = fold (wp_step api get put today) es (wp_mounted api Pvcs ns st)"

text \<open>The cells of the tables, column by column.\<close>

definition arrow :: string where
  "arrow = [CHR 0xE2, CHR 0x86, CHR 0x92]"

definition service_cells :: "K8sService \<Rightarrow> string list list" where
  "service_cells r =
     [[obj_name r], [service_type_text (svc_type r)], [svc_clusterIP r],
      [join '', '' (map (\<lambda>p. show_int (sp_port p) @ arrow @ show_int (sp_targetPort p) @ ''/'' @ protocol_text (sp_protocol p)) (svc_ports r))],
      map (\<lambda>(k, v). k @ ''='' @ v) (svc_selector r), [svc_createdAt r]]"

definition config_map_cells :: "ConfigMap \<Rightarrow> string list list" where
  "config_map_cells r = [[obj_name r], map fst (cm_data r), [cm_createdAt r]]"

definition secret_cells :: "Secret \<Rightarrow> string list list" where
  "secret_cells r = [[obj_name r], [secret_type_text (sec_type r)], sec_keys r, [sec_createdAt r]]"

definition gateway_status_text :: "gateway_status \<Rightarrow> string" where
  "gateway_status_text st = (case st of GwAccepted \<Rightarrow> ''Ready'' | GwPending \<Rightarrow> ''Pending'' | GwFailed \<Rightarrow> ''Failed'')"

definition gateway_cells :: "Gateway \<Rightarrow> string list list" where
  "gateway_cells r =
     [[obj_name r], [gw_className r],
      map (\<lambda>l. listener_protocol_text (ls_protocol l) @ '':'' @ show_int (ls_port l) @
        (if truthy_str (ls_hostname l) then '' '' @ [CHR 0xC2, CHR 0xB7] @ '' '' @ nullish (ls_hostname l) [] else [])) (gw_listeners r),
      [join '', '' (gw_addresses r)], [gateway_status_text (gw_status r)]]"

definition route_cells :: "HTTPRoute \<Rightarrow> string list list" where
  "route_cells r =
     [[obj_name r], [hr_parentGateway r], hr_hostnames r,
      map (\<lambda>u. rr_pathPrefix u @ '' '' @ arrow @ '' '' @ rr_backendService u @ '':'' @ show_int (rr_port u)) (hr_rules r)]"

definition workload_status_text :: "workload_status \<Rightarrow> string" where
  "workload_status_text st = (case st of WRunning \<Rightarrow> ''Running'' | WProgressing \<Rightarrow> ''Progressing'' | WFailed \<Rightarrow> ''Failed'')"

definition deployment_cells :: "Deployment \<Rightarrow> string list list" where
  "deployment_cells r =
     [[obj_name r], [dep_image r], [show_int (dep_readyReplicas r) @ ''/'' @ show_int (dep_replicas r)],
      [workload_status_text (dep_status r)], [dep_createdAt r]]"

definition stateful_set_cells :: "StatefulSet \<Rightarrow> string list list" where
  "stateful_set_cells r =
     [[obj_name r], [ss_serviceName r], [ss_image r], [show_int (ss_readyReplicas r) @ ''/'' @ show_int (ss_replicas r)],
      [workload_status_text (ss_status r)], [ss_createdAt r]]"

definition pod_cells :: "Pod \<Rightarrow> string list list" where
  "pod_cells r =
     [[obj_name r], [pod_node r], [pod_ip r], [nullish (pod_ownerRef r) []], nullish (pod_containers r) [],
      [show_int (pod_restarts r)], [pod_age r],
      [case pod_status r of PodRunning \<Rightarrow> ''Running'' | PodPending \<Rightarrow> ''Pending'' | PodFailed \<Rightarrow> ''Failed''
        | CrashLoopBackOff \<Rightarrow> ''CrashLoopBackOff'']]"

definition claim_cells :: "PVC \<Rightarrow> string list list" where
  "claim_cells r =
     [[obj_name r], [pvc_storageClass r], [pvc_capacity r], [pvc_accessMode r],
      [case pvc_status r of PvcBound \<Rightarrow> ''Bound'' | PvcPending \<Rightarrow> ''Pending'' | PvcFailed \<Rightarrow> ''Failed''],
      [or_str (pvc_volumeName r) em_dash], [pvc_createdAt r]]"

text \<open>
  The secrets page announces that values are never shown; its table has none, but its viewer shows the
  backend's manifest as it is.
\<close>

lemma secret_manifest_unfiltered:
  assumes "get (fetchYaml (Inl Secrets) (Some (obj_namespace r)) (obj_name r)) = Inr body"
  shows "snd (manifest_shown True get (SecretRow r)) = body"
  using assms by (simp add: manifest_shown_def rp_answer_def fetchClusterResourceYaml_def)

text \<open>
  A stateful set created on its page in prototype mode shows no replica ready at first, and its row the
  name, image and service of the form.
\<close>

lemma created_set_shown:
  assumes "form_sent False put draw today Statefulsets (ns, None, RunForm name img (Some k)) st = (r, st')"
  shows "map stateful_set_cells (take 1 (statefulSets st')) =
    [[[name], [name], [img], [''0/'' @ show_int k], [''Progressing''], [today]]]"
proof -
  have "show_int 0 = ''0''" by code_simp
  then show ?thesis
    using assms by (auto simp: form_sent_def createStatefulSet_def stateful_set_cells_def workload_status_text_def setTimeout_def
      nullish_def Let_def)
qed

end
