(* ===== verification/Form_Dialogs.thy ===== *)
theory Form_Dialogs
  imports Yaml_Pages Js_Text
begin

text \<open>
  What the administration and workload pages share: a dialog with a form that is filled when it opens, changed
  while it is open and sent when it is confirmed; a question asked before an object is deleted; and forms whose
  entries are the pairs of a plain object. A form is unmounted with its dialog and keeps no value
  (\<open>destroyOnClose\<close>, \<open>preserve={false}\<close>), so a closed dialog has none.
\<close>

subsection \<open>Dialogs\<close>

text \<open>\<open>fd_form\<close> is what the dialog is open on and what its form holds; a call carries what it captured.\<close>

record ('k, 'v, 'c) form_dialog =
  fd_form :: "('k \<times> 'v) option"
  fd_calls :: "('c \<times> 'v) list"

definition fd_closed :: "('k, 'v, 'c) form_dialog" where
  "fd_closed = \<lparr>fd_form = None, fd_calls = []\<rparr>"

definition fd_opened :: "'k \<Rightarrow> 'v \<Rightarrow> ('k, 'v, 'c) form_dialog \<Rightarrow> ('k, 'v, 'c) form_dialog" where
  "fd_opened k v d = d\<lparr>fd_form := Some (k, v)\<rparr>"

definition fd_changed :: "('v \<Rightarrow> 'v) \<Rightarrow> ('k, 'v, 'c) form_dialog \<Rightarrow> ('k, 'v, 'c) form_dialog" where
  "fd_changed f d = d\<lparr>fd_form := map_option (\<lambda>(k, v). (k, f v)) (fd_form d)\<rparr>"

definition fd_cancelled :: "('k, 'v, 'c) form_dialog \<Rightarrow> ('k, 'v, 'c) form_dialog" where
  "fd_cancelled d = d\<lparr>fd_form := None\<rparr>"

text \<open>
  Confirming a form that validates sends it; \<open>guarded\<close> dialogs show that they are sending
  (\<open>confirmLoading\<close>) and take no second click meanwhile.
\<close>

definition fd_confirmed ::
  "bool \<Rightarrow> ('k \<Rightarrow> 'v \<Rightarrow> bool) \<Rightarrow> ('k \<Rightarrow> 'c) \<Rightarrow> ('k, 'v, 'c) form_dialog \<Rightarrow> ('k, 'v, 'c) form_dialog" where
  "fd_confirmed guarded valid target d =
     (case fd_form d of
        None \<Rightarrow> d
      | Some (k, v) \<Rightarrow>
          if valid k v \<and> \<not> (guarded \<and> fd_calls d \<noteq> []) then d\<lparr>fd_calls := fd_calls d @ [(target k, v)]\<rparr> else d)"

text \<open>An answer that succeeds closes the dialog, whatever it is open on by then.\<close>

definition fd_answered :: "'c \<times> 'v \<Rightarrow> bool \<Rightarrow> ('k, 'v, 'c) form_dialog \<Rightarrow> ('k, 'v, 'c) form_dialog" where
  "fd_answered c succeeded d =
     d\<lparr>fd_calls := remove1 c (fd_calls d), fd_form := (if succeeded then None else fd_form d)\<rparr>"

lemmas fd_defs = fd_closed_def fd_opened_def fd_changed_def fd_cancelled_def fd_confirmed_def fd_answered_def

text \<open>
  The contract of a page with such a dialog: \<open>fills\<close> is what an event opens it with, \<open>changes\<close> what an event does
  to the form, \<open>target\<close> what a confirmation captures.
\<close>

locale form_saving =
  fixes step :: "'e \<Rightarrow> 's \<Rightarrow> 's"
    and dialog :: "'s \<Rightarrow> ('k, 'v, 'c) form_dialog"
    and valid :: "'k \<Rightarrow> 'v \<Rightarrow> bool"
    and target :: "'s \<Rightarrow> 'k \<Rightarrow> 'c"
    and fills :: "'e \<Rightarrow> 's \<Rightarrow> ('k \<times> 'v) option"
    and changes :: "'e \<Rightarrow> 'v \<Rightarrow> 'v"
  assumes form_step: "fd_form (dialog (step e s)) = None \<or>
      fd_form (dialog (step e s)) = (case fills e s of Some p \<Rightarrow> Some p
        | None \<Rightarrow> map_option (\<lambda>(k, v). (k, changes e v)) (fd_form (dialog s)))"
    and calls_step: "p \<in> set (fd_calls (dialog (step e s))) \<Longrightarrow>
      p \<in> set (fd_calls (dialog s)) \<or>
      (\<exists>k v. fd_form (dialog s) = Some (k, v) \<and> valid k v \<and> p = (target s k, v))"
begin

text \<open>What the form holds was filled in by an event and changed by those after it.\<close>

lemma filled:
  assumes "fd_form (dialog s0) = None" "fd_form (dialog (fold step es s0)) = Some (k, v)"
  shows "\<exists>before e after v0. es = before @ e # after \<and> fills e (fold step before s0) = Some (k, v0) \<and>
    v = fold changes after v0"
  using assms(2)
proof (induction es arbitrary: v rule: rev_induct)
  case (snoc e es)
  let ?s = "fold step es s0"
  show ?case
  proof (cases "fills e ?s")
    case (Some p)
    then have "fills e ?s = Some (k, v)" using snoc.prems form_step [of e ?s] by auto
    then show ?thesis by (intro exI [of _ es] exI [of _ e] exI [of _ "[]"] exI [of _ v]) simp
  next
    case None
    then obtain v1 where "fd_form (dialog ?s) = Some (k, v1)" "v = changes e v1"
      using snoc.prems form_step [of e ?s] by (cases "fd_form (dialog ?s)") auto
    with snoc.IH obtain before e' after v0 where "es = before @ e' # after"
      "fills e' (fold step before s0) = Some (k, v0)" "v = changes e (fold changes after v0)" by blast
    then show ?thesis by (intro exI [of _ before] exI [of _ e'] exI [of _ "after @ [e]"] exI [of _ v0]) simp
  qed
qed (use assms(1) in simp)

text \<open>A call not answered yet was confirmed with the dialog open, and carries what its form held.\<close>

lemma sent:
  assumes "fd_calls (dialog s0) = []" "p \<in> set (fd_calls (dialog (fold step es s0)))"
  shows "\<exists>before later k v. es = before @ later \<and> fd_form (dialog (fold step before s0)) = Some (k, v) \<and> valid k v \<and>
    p = (target (fold step before s0) k, v)"
  using assms(2)
proof (induction es rule: rev_induct)
  case (snoc e es)
  then consider "p \<in> set (fd_calls (dialog (fold step es s0)))"
    | k v where "fd_form (dialog (fold step es s0)) = Some (k, v)" "valid k v" "p = (target (fold step es s0) k, v)"
    using calls_step [of p e "fold step es s0"] by auto
  then show ?case
  proof cases
    case 1
    with snoc.IH show ?thesis by (metis append_assoc)
  qed blast
qed (use assms(1) in simp)

lemma sent_as_filled:
  assumes "fd_form (dialog s0) = None" "fd_calls (dialog s0) = []" "(c, v) \<in> set (fd_calls (dialog (fold step es s0)))"
  shows "\<exists>before e changing later k v0. es = before @ e # changing @ later \<and>
    fills e (fold step before s0) = Some (k, v0) \<and> v = fold changes changing v0 \<and> valid k v \<and>
    c = target (fold step (before @ e # changing) s0) k"
proof -
  from sent [OF assms(2,3)] obtain upto later k where s: "es = upto @ later"
    "fd_form (dialog (fold step upto s0)) = Some (k, v)" "valid k v" "c = target (fold step upto s0) k" by blast
  from filled [OF assms(1) s(2)] obtain before e changing v0 where f: "upto = before @ e # changing"
    "fills e (fold step before s0) = Some (k, v0)" "v = fold changes changing v0" by blast
  have "es = before @ e # changing @ later" using s(1) f(1) by simp
  then show ?thesis using s(3,4) f by blast
qed

end

subsection \<open>Confirmed deletions\<close>

text \<open>
  \<open>modal.confirm\<close>: the button is busy while its promise runs; the question closes with a promise that resolves
  and stays with one that rejects.
\<close>

record 'x confirm_dialog =
  cd_asked :: "'x option"
  cd_calls :: "'x list"

definition cd_closed :: "'x confirm_dialog" where
  "cd_closed = \<lparr>cd_asked = None, cd_calls = []\<rparr>"

definition cd_asking :: "'x \<Rightarrow> 'x confirm_dialog \<Rightarrow> 'x confirm_dialog" where
  "cd_asking x d = d\<lparr>cd_asked := Some x\<rparr>"

definition cd_cancelled :: "'x confirm_dialog \<Rightarrow> 'x confirm_dialog" where
  "cd_cancelled d = d\<lparr>cd_asked := None\<rparr>"

definition cd_confirmed :: "'x confirm_dialog \<Rightarrow> 'x confirm_dialog" where
  "cd_confirmed d =
     (case cd_asked d of None \<Rightarrow> d
      | Some x \<Rightarrow> if x \<in> set (cd_calls d) then d else d\<lparr>cd_calls := cd_calls d @ [x]\<rparr>)"

definition cd_answered :: "'x \<Rightarrow> bool \<Rightarrow> 'x confirm_dialog \<Rightarrow> 'x confirm_dialog" where
  "cd_answered x resolved d =
     d\<lparr>cd_calls := remove1 x (cd_calls d),
       cd_asked := (if resolved \<and> cd_asked d = Some x then None else cd_asked d)\<rparr>"

lemmas cd_defs = cd_closed_def cd_asking_def cd_cancelled_def cd_confirmed_def cd_answered_def

text \<open>The contract of a page that asks first: \<open>asks\<close> is what an event asks about.\<close>

locale asked_first =
  fixes step :: "'e \<Rightarrow> 's \<Rightarrow> 's" and question :: "'s \<Rightarrow> 'x confirm_dialog" and asks :: "'e \<Rightarrow> 's \<Rightarrow> 'x option"
  assumes asked_step: "cd_asked (question (step e s)) = Some x \<Longrightarrow> cd_asked (question s) = Some x \<or> asks e s = Some x"
    and confirmed_step: "x \<in> set (cd_calls (question (step e s))) \<Longrightarrow>
      x \<in> set (cd_calls (question s)) \<or> cd_asked (question s) = Some x"
begin

lemma was_asked:
  assumes "cd_asked (question s0) = None" "cd_asked (question (fold step es s0)) = Some x"
  shows "\<exists>before e later. es = before @ e # later \<and> asks e (fold step before s0) = Some x"
  using assms(2)
proof (induction es rule: rev_induct)
  case (snoc e es)
  then consider "cd_asked (question (fold step es s0)) = Some x" | "asks e (fold step es s0) = Some x"
    using asked_step [of e "fold step es s0" x] by auto
  then show ?case
  proof cases
    case 1
    with snoc.IH obtain before e' later where "es = before @ e' # later" "asks e' (fold step before s0) = Some x"
      by blast
    then show ?thesis by (intro exI [of _ before] exI [of _ e'] exI [of _ "later @ [e]"]) simp
  next
    case 2
    then show ?thesis by (intro exI [of _ es] exI [of _ e] exI [of _ "[]"]) simp
  qed
qed (use assms(1) in simp)

lemma deleted_was_asked:
  assumes "cd_asked (question s0) = None" "cd_calls (question s0) = []"
    "x \<in> set (cd_calls (question (fold step es s0)))"
  shows "\<exists>before e later. es = before @ e # later \<and> asks e (fold step before s0) = Some x"
  using assms(3)
proof (induction es rule: rev_induct)
  case (snoc e es)
  have grow: "\<exists>before e' later. es @ [e] = before @ e' # later \<and> asks e' (fold step before s0) = Some x"
    if "\<exists>before e' later. es = before @ e' # later \<and> asks e' (fold step before s0) = Some x"
    using that by (metis append_Cons append_assoc)
  from snoc.prems consider "x \<in> set (cd_calls (question (fold step es s0)))"
    | "cd_asked (question (fold step es s0)) = Some x"
    using confirmed_step [of x e "fold step es s0"] by auto
  then show ?case
    using snoc.IH was_asked [OF assms(1)] grow by cases blast+
qed (use assms(2) in simp)

end

subsection \<open>Form lists and objects\<close>

text \<open>\<open>Form.List\<close>: \<open>add\<close>, \<open>remove\<close> and the change of an entry; no entry is there out of range.\<close>

definition entry_added :: "'x \<Rightarrow> 'x list \<Rightarrow> 'x list" where
  "entry_added x xs = xs @ [x]"

definition entry_removed :: "nat \<Rightarrow> 'x list \<Rightarrow> 'x list" where
  "entry_removed i xs = take i xs @ drop (Suc i) xs"

definition entry_changed :: "nat \<Rightarrow> ('x \<Rightarrow> 'x) \<Rightarrow> 'x list \<Rightarrow> 'x list" where
  "entry_changed i f xs = (if i < length xs then xs[i := f (xs ! i)] else xs)"

text \<open>An object collected from entries, \<open>for (const e of entries) m[e.key] = e.value\<close>.\<close>

definition collected :: "(string \<times> 'v) list \<Rightarrow> 'v js_map" where
  "collected es = foldl (\<lambda>m (k, v). js_put k v m) [] es"

lemma collected_snoc [simp]: "collected (es @ [(k, v)]) = js_put k v (collected es)"
  by (simp add: collected_def)

lemma js_put_new: "k \<notin> fst ` set m \<Longrightarrow> js_put k v m = m @ [(k, v)]"
  by (induction k v m rule: js_put.induct) auto

lemma collected_entries: "distinct (map fst m) \<Longrightarrow> collected m = m"
  by (induction m rule: rev_induct) (auto simp: js_put_new collected_def)

lemma distinct_collected: "distinct (map fst (collected es))"
  by (induction es rule: rev_induct) (auto simp: distinct_js_put, simp add: collected_def)

text \<open>The last entry of a key counts.\<close>

lemma map_of_collected: "map_of (collected es) k = map_of (rev es) k"
proof (induction es rule: rev_induct)
  case (snoc e es)
  then show ?case by (cases e) (simp add: map_of_js_put)
qed (simp add: collected_def)

definition js_delete :: "string \<Rightarrow> 'v js_map \<Rightarrow> 'v js_map" where
  "js_delete k m = filter (\<lambda>(k', _). k' \<noteq> k) m"

lemma map_of_js_delete: "map_of (js_delete k m) = (map_of m)(k := None)"
  by (induction m) (auto simp: js_delete_def fun_eq_iff)

lemma js_put_same: "map_of m k = Some v \<Longrightarrow> js_put k v m = m"
  by (induction k v m rule: js_put.induct) (auto split: if_splits)

end
