(* ===== verification/Access_Pages.thy ===== *)
theory Access_Pages
  imports Form_Dialogs Users_Rbac App_Context Catalogues
begin

text \<open>
  The administration pages over users and cluster: roles and bindings (\<open>pages/users/Roles.tsx\<close>), users
  (\<open>pages/users/Users.tsx\<close>), namespaces (\<open>pages/admin/Namespaces.tsx\<close>), nodes (\<open>pages/admin/Nodes.tsx\<close>) and GPU
  profiles (\<open>pages/admin/GPUProfiles.tsx\<close>). Each page is a machine over its store with its dialogs; what a dialog
  sends comes from the shared contract of form dialogs.
\<close>

subsection \<open>Roles and bindings\<close>

text \<open>A value of a form that is a text or a list of tags.\<close>

datatype rule_value = RuleText string | RuleTags "string list"

definition filled_parts :: "string list \<Rightarrow> string list" where
  "filled_parts xs = filter (\<lambda>x. x \<noteq> []) (map trim xs)"

definition parseRuleList :: "rule_value option \<Rightarrow> string list" where
  "parseRuleList v =
     (case v of Some (RuleTags xs) \<Rightarrow> filled_parts xs
      | Some (RuleText t) \<Rightarrow> filled_parts (split_on CHR '','' t)
      | None \<Rightarrow> filled_parts (split_on CHR '','' []))"

record rule_form =
  rf_apiGroups :: "string list"
  rf_resources :: string
  rf_verbs :: "string list"

record role_form =
  rl_name :: string
  rl_kind :: "role_kind option"
  rl_rules :: "rule_form list option"

definition new_rule :: "string list \<Rightarrow> rule_form" where
  "new_rule vs = \<lparr>rf_apiGroups = [], rf_resources = [], rf_verbs = vs\<rparr>"

definition new_role_form :: role_form where
  "new_role_form = \<lparr>rl_name = [], rl_kind = Some KRole, rl_rules = Some [new_rule [''get'', ''list'']]\<rparr>"

definition role_filled :: "Role \<Rightarrow> role_form" where
  "role_filled r =
     \<lparr>rl_name = role_name r, rl_kind = Some (role_kind r),
      rl_rules = Some (map (\<lambda>x. \<lparr>rf_apiGroups = rule_apiGroups x, rf_resources = join '','' (rule_resources x),
        rf_verbs = rule_verbs x\<rparr>) (role_rules r))\<rparr>"

definition rule_collected :: "rule_form \<Rightarrow> role_rule" where
  "rule_collected r =
     \<lparr>rule_apiGroups = parseRuleList (Some (RuleTags (rf_apiGroups r))),
      rule_resources = parseRuleList (Some (RuleText (rf_resources r))), rule_verbs = rf_verbs r\<rparr>"

definition role_payload :: "role_form \<Rightarrow> role_input" where
  "role_payload v =
     \<lparr>ri_name = rl_name v, ri_kind = nullish (rl_kind v) KRole,
      ri_rules = map rule_collected (nullish (rl_rules v) []), ri_namespace = None\<rparr>"

text \<open>The rules of the form: \<open>required\<close> fails on an empty text and an empty list, not on blanks.\<close>

definition role_valid :: "Role option \<Rightarrow> role_form \<Rightarrow> bool" where
  "role_valid k v \<longleftrightarrow> rl_name v \<noteq> [] \<and>
     list_all (\<lambda>r. rf_apiGroups r \<noteq> [] \<and> rf_resources r \<noteq> [] \<and> rf_verbs r \<noteq> []) (nullish (rl_rules v) [])"

record binding_form =
  bf_name :: string
  bf_roleRef :: string
  bf_users :: "string list"

definition role_option :: "role_kind \<Rightarrow> string \<Rightarrow> string" where
  "role_option k n = role_kind_text k @ '':'' @ n"

definition binding_filled :: "RoleBinding \<Rightarrow> binding_form" where
  "binding_filled b =
     \<lparr>bf_name = rb_name b, bf_roleRef = role_option (fst (rb_roleRef b)) (snd (rb_roleRef b)),
      bf_users = map snd (filter (\<lambda>(k, _). k = SubjectUser) (rb_subjects b))\<rparr>"

text \<open>\<open>const [kind, roleName] = roleRef.split(':')\<close>: what is after a second colon is dropped.\<close>

definition read_role_option :: "string \<Rightarrow> role_kind \<times> string" where
  "read_role_option v =
     (let parts = split_on CHR '':'' v
      in (if hd parts = ''ClusterRole'' then KClusterRole else KRole,
          case tl parts of [] \<Rightarrow> [] | n # _ \<Rightarrow> n))"

definition binding_payload :: "binding_form \<Rightarrow> binding_input" where
  "binding_payload v =
     \<lparr>bi_name = bf_name v, bi_roleRef = read_role_option (bf_roleRef v),
      bi_subjects = map (\<lambda>n. (SubjectUser, n)) (bf_users v), bi_namespace = None\<rparr>"

definition binding_valid :: "RoleBinding option \<Rightarrow> binding_form \<Rightarrow> bool" where
  "binding_valid k v \<longleftrightarrow> bf_name v \<noteq> [] \<and> bf_roleRef v \<noteq> [] \<and> bf_users v \<noteq> []"

record roles_page =
  ro_namespace :: string
  ro_store :: rbac
  ro_role :: "(Role option, role_form, string \<times> Role option) form_dialog"
  ro_binding :: "(RoleBinding option, binding_form, string \<times> RoleBinding option) form_dialog"
  ro_dropRole :: "(string \<times> Role) confirm_dialog"
  ro_dropBinding :: "(string \<times> RoleBinding) confirm_dialog"
  ro_notices :: "notice list"

definition nsRoles :: "roles_page \<Rightarrow> Role list" where
  "nsRoles s = filter (\<lambda>r. role_namespace r = ro_namespace s) (role_rows (ro_store s))"

definition nsBindings :: "roles_page \<Rightarrow> RoleBinding list" where
  "nsBindings s = filter (\<lambda>b. rb_namespace b = ro_namespace s) (binding_rows (ro_store s))"

definition roles_effect :: "bool \<Rightarrow> string \<Rightarrow> rbac \<Rightarrow> rbac" where
  "roles_effect api ns st = ensureBindingsLoaded api ns (ensureRolesLoaded api ns (ensureUsersLoaded api st))"

definition ro_mounted :: "bool \<Rightarrow> string \<Rightarrow> rbac \<Rightarrow> roles_page" where
  "ro_mounted api ns st =
     \<lparr>ro_namespace = ns, ro_store = roles_effect api ns st, ro_role = fd_closed, ro_binding = fd_closed,
      ro_dropRole = cd_closed, ro_dropBinding = cd_closed, ro_notices = []\<rparr>"

definition ro_namespace_chosen :: "bool \<Rightarrow> string \<Rightarrow> roles_page \<Rightarrow> roles_page" where
  "ro_namespace_chosen api ns s =
     (if ns = ro_namespace s then s else s\<lparr>ro_namespace := ns, ro_store := roles_effect api ns (ro_store s)\<rparr>)"

definition ro_notify :: "notice \<Rightarrow> roles_page \<Rightarrow> roles_page" where
  "ro_notify n s = s\<lparr>ro_notices := ro_notices s @ [n]\<rparr>"

definition saved_notice :: "string \<Rightarrow> bool \<Rightarrow> notice" where
  "saved_notice what editing = Success (what @ (if editing then '' updated'' else '' created''))"

definition settled :: "'r promise \<Rightarrow> bool" where
  "settled r = (case r of Inl e \<Rightarrow> False | Inr _ \<Rightarrow> True)"

definition outcome :: "'r promise \<Rightarrow> notice \<Rightarrow> notice" where
  "outcome r done_notice = (case r of Inl e \<Rightarrow> Failure (js_message e) | Inr _ \<Rightarrow> done_notice)"

definition role_answered ::
  "bool \<Rightarrow> Role backend \<Rightarrow> string \<Rightarrow> (string \<times> Role option) \<times> role_form \<Rightarrow> roles_page \<Rightarrow> roles_page" where
  "role_answered api send draw c s =
     (let (r, st) = saveRole api send draw (fst (fst c)) (role_payload (snd c)) (ro_store s)
      in ro_notify (outcome r (saved_notice ''Role'' (snd (fst c) \<noteq> None)))
           (s\<lparr>ro_store := st, ro_role := fd_answered c (settled r) (ro_role s)\<rparr>))"

definition binding_answered ::
  "bool \<Rightarrow> RoleBinding backend \<Rightarrow> string \<Rightarrow> (string \<times> RoleBinding option) \<times> binding_form \<Rightarrow> roles_page \<Rightarrow> roles_page" where
  "binding_answered api send draw c s =
     (let (r, st) = saveBinding api send draw (fst (fst c)) (binding_payload (snd c)) (ro_store s)
      in ro_notify (outcome r (saved_notice ''Binding'' (snd (fst c) \<noteq> None)))
           (s\<lparr>ro_store := st, ro_binding := fd_answered c (settled r) (ro_binding s)\<rparr>))"

definition role_dropped :: "bool \<Rightarrow> unit backend \<Rightarrow> string \<times> Role \<Rightarrow> roles_page \<Rightarrow> roles_page" where
  "role_dropped api send c s =
     (let r = snd c; (answer, st) = removeRole api send (fst c) (role_kind r) (role_name r) (Some (role_id r)) (ro_store s)
      in ro_notify (outcome answer (Success ''Role deleted''))
           (s\<lparr>ro_store := st, ro_dropRole := cd_answered c (settled answer) (ro_dropRole s)\<rparr>))"

definition binding_dropped :: "bool \<Rightarrow> unit backend \<Rightarrow> string \<times> RoleBinding \<Rightarrow> roles_page \<Rightarrow> roles_page" where
  "binding_dropped api send c s =
     (let b = snd c; (answer, st) = removeBinding api send (fst c) (rb_name b) (Some (rb_id b)) (ro_store s)
      in ro_notify (outcome answer (Success ''Binding deleted''))
           (s\<lparr>ro_store := st, ro_dropBinding := cd_answered c (settled answer) (ro_dropBinding s)\<rparr>))"

text \<open>
  The fields of a form a user changes; editing leaves the name as it is, for its input is disabled, and the kind
  is changed by a platform admin only.
\<close>

datatype role_change =
    RoleNamed string | RoleKind role_kind | RuleAdded | RuleRemoved nat
  | RuleGroups nat "string list" | RuleResources nat string | RuleVerbs nat "string list"

fun role_changed :: "role_change \<Rightarrow> role_form \<Rightarrow> role_form" where
  "role_changed (RoleNamed n) v = v\<lparr>rl_name := n\<rparr>"
| "role_changed (RoleKind k) v = v\<lparr>rl_kind := Some k\<rparr>"
| "role_changed RuleAdded v = v\<lparr>rl_rules := Some (entry_added (new_rule [''get'']) (nullish (rl_rules v) []))\<rparr>"
| "role_changed (RuleRemoved i) v = v\<lparr>rl_rules := Some (entry_removed i (nullish (rl_rules v) []))\<rparr>"
| "role_changed (RuleGroups i gs) v =
     v\<lparr>rl_rules := Some (entry_changed i (\<lambda>r. r\<lparr>rf_apiGroups := gs\<rparr>) (nullish (rl_rules v) []))\<rparr>"
| "role_changed (RuleResources i t) v =
     v\<lparr>rl_rules := Some (entry_changed i (\<lambda>r. r\<lparr>rf_resources := t\<rparr>) (nullish (rl_rules v) []))\<rparr>"
| "role_changed (RuleVerbs i vs) v =
     v\<lparr>rl_rules := Some (entry_changed i (\<lambda>r. r\<lparr>rf_verbs := vs\<rparr>) (nullish (rl_rules v) []))\<rparr>"

datatype binding_change = BindingNamed string | BindingRole role_kind string | BindingUsers "string list"

fun binding_changed :: "binding_change \<Rightarrow> binding_form \<Rightarrow> binding_form" where
  "binding_changed (BindingNamed n) v = v\<lparr>bf_name := n\<rparr>"
| "binding_changed (BindingRole k n) v = v\<lparr>bf_roleRef := role_option k n\<rparr>"
| "binding_changed (BindingUsers us) v = v\<lparr>bf_users := us\<rparr>"

datatype roles_event =
    RoNamespace string | RoStore rbac
  | RoNewRole | RoEditRole Role | RoRoleForm role_change | RoRoleClosed | RoRoleOk
  | RoRoleAnswered string "(string \<times> Role option) \<times> role_form"
  | RoNewBinding | RoEditBinding RoleBinding | RoBindingForm binding_change | RoBindingClosed | RoBindingOk
  | RoBindingAnswered string "(string \<times> RoleBinding option) \<times> binding_form"
  | RoDropRole Role | RoDropRoleOk | RoDropRoleClosed | RoRoleDropped "string \<times> Role"
  | RoDropBinding RoleBinding | RoDropBindingOk | RoDropBindingClosed | RoBindingDropped "string \<times> RoleBinding"

text \<open>The backend answers with a role, a binding or nothing, according to the call.\<close>

record rbac_backend =
  be_role :: "Role backend"
  be_binding :: "RoleBinding backend"
  be_unit :: "unit backend"

fun ro_step :: "bool \<Rightarrow> rbac_backend \<Rightarrow> roles_event \<Rightarrow> roles_page \<Rightarrow> roles_page" where
  "ro_step api be (RoNamespace ns) s = ro_namespace_chosen api ns s"
| "ro_step api be (RoStore st) s = s\<lparr>ro_store := st\<rparr>"
| "ro_step api be RoNewRole s = s\<lparr>ro_role := fd_opened None new_role_form (ro_role s)\<rparr>"
| "ro_step api be (RoEditRole r) s =
     (if r \<in> set (nsRoles s) then s\<lparr>ro_role := fd_opened (Some r) (role_filled r) (ro_role s)\<rparr> else s)"
| "ro_step api be (RoRoleForm x) s = s\<lparr>ro_role := fd_changed (role_changed x) (ro_role s)\<rparr>"
| "ro_step api be RoRoleClosed s = s\<lparr>ro_role := fd_cancelled (ro_role s)\<rparr>"
| "ro_step api be RoRoleOk s =
     s\<lparr>ro_role := fd_confirmed False role_valid (\<lambda>k. (ro_namespace s, k)) (ro_role s)\<rparr>"
| "ro_step api be (RoRoleAnswered draw c) s =
     (if c \<in> set (fd_calls (ro_role s)) then role_answered api (be_role be) draw c s else s)"
| "ro_step api be RoNewBinding s =
     s\<lparr>ro_binding := fd_opened None \<lparr>bf_name = [], bf_roleRef = [], bf_users = []\<rparr> (ro_binding s)\<rparr>"
| "ro_step api be (RoEditBinding b) s =
     (if b \<in> set (nsBindings s) then s\<lparr>ro_binding := fd_opened (Some b) (binding_filled b) (ro_binding s)\<rparr> else s)"
| "ro_step api be (RoBindingForm x) s = s\<lparr>ro_binding := fd_changed (binding_changed x) (ro_binding s)\<rparr>"
| "ro_step api be RoBindingClosed s = s\<lparr>ro_binding := fd_cancelled (ro_binding s)\<rparr>"
| "ro_step api be RoBindingOk s =
     s\<lparr>ro_binding := fd_confirmed False binding_valid (\<lambda>k. (ro_namespace s, k)) (ro_binding s)\<rparr>"
| "ro_step api be (RoBindingAnswered draw c) s =
     (if c \<in> set (fd_calls (ro_binding s)) then binding_answered api (be_binding be) draw c s else s)"
| "ro_step api be (RoDropRole r) s =
     (if r \<in> set (nsRoles s) then s\<lparr>ro_dropRole := cd_asking (ro_namespace s, r) (ro_dropRole s)\<rparr> else s)"
| "ro_step api be RoDropRoleOk s = s\<lparr>ro_dropRole := cd_confirmed (ro_dropRole s)\<rparr>"
| "ro_step api be RoDropRoleClosed s = s\<lparr>ro_dropRole := cd_cancelled (ro_dropRole s)\<rparr>"
| "ro_step api be (RoRoleDropped c) s =
     (if c \<in> set (cd_calls (ro_dropRole s)) then role_dropped api (be_unit be) c s else s)"
| "ro_step api be (RoDropBinding b) s =
     (if b \<in> set (nsBindings s) then s\<lparr>ro_dropBinding := cd_asking (ro_namespace s, b) (ro_dropBinding s)\<rparr> else s)"
| "ro_step api be RoDropBindingOk s = s\<lparr>ro_dropBinding := cd_confirmed (ro_dropBinding s)\<rparr>"
| "ro_step api be RoDropBindingClosed s = s\<lparr>ro_dropBinding := cd_cancelled (ro_dropBinding s)\<rparr>"
| "ro_step api be (RoBindingDropped c) s =
     (if c \<in> set (cd_calls (ro_dropBinding s)) then binding_dropped api (be_unit be) c s else s)"

lemmas ro_defs = ro_namespace_chosen_def ro_notify_def role_answered_def binding_answered_def role_dropped_def
  binding_dropped_def

text \<open>What opens the two forms, and what changes them.\<close>

fun role_fills :: "roles_event \<Rightarrow> roles_page \<Rightarrow> (Role option \<times> role_form) option" where
  "role_fills RoNewRole s = Some (None, new_role_form)"
| "role_fills (RoEditRole r) s = (if r \<in> set (nsRoles s) then Some (Some r, role_filled r) else None)"
| "role_fills _ s = None"

fun role_changes :: "roles_event \<Rightarrow> role_form \<Rightarrow> role_form" where
  "role_changes (RoRoleForm x) v = role_changed x v"
| "role_changes _ v = v"

fun binding_fills :: "roles_event \<Rightarrow> roles_page \<Rightarrow> (RoleBinding option \<times> binding_form) option" where
  "binding_fills RoNewBinding s = Some (None, \<lparr>bf_name = [], bf_roleRef = [], bf_users = []\<rparr>)"
| "binding_fills (RoEditBinding b) s = (if b \<in> set (nsBindings s) then Some (Some b, binding_filled b) else None)"
| "binding_fills _ s = None"

fun binding_changes :: "roles_event \<Rightarrow> binding_form \<Rightarrow> binding_form" where
  "binding_changes (RoBindingForm x) v = binding_changed x v"
| "binding_changes _ v = v"

fun role_asks :: "roles_event \<Rightarrow> roles_page \<Rightarrow> (string \<times> Role) option" where
  "role_asks (RoDropRole r) s = (if r \<in> set (nsRoles s) then Some (ro_namespace s, r) else None)"
| "role_asks _ s = None"

lemma id_pair [simp]: "(\<lambda>(k, v). (k, v)) = id"
  by auto

interpretation rr: form_saving "ro_step api be" ro_role role_valid "\<lambda>s k. (ro_namespace s, k)" role_fills role_changes
  for api be
proof unfold_locales
  fix e s
  show "fd_form (ro_role (ro_step api be e s)) = None \<or>
      fd_form (ro_role (ro_step api be e s)) = (case role_fills e s of Some p \<Rightarrow> Some p
        | None \<Rightarrow> map_option (\<lambda>(k, v). (k, role_changes e v)) (fd_form (ro_role s)))"
    by (cases e) (auto simp: ro_defs fd_defs Let_def option.map_id split: prod.splits option.splits)
next
  fix e s and p :: "(string \<times> Role option) \<times> role_form"
  show "p \<in> set (fd_calls (ro_role (ro_step api be e s))) \<Longrightarrow> p \<in> set (fd_calls (ro_role s)) \<or>
      (\<exists>k v. fd_form (ro_role s) = Some (k, v) \<and> role_valid k v \<and> p = ((ro_namespace s, k), v))"
    by (cases e; cases p) (auto simp: ro_defs fd_defs Let_def split: prod.splits option.splits if_splits
        dest: subsetD [OF set_remove1_subset])
qed

interpretation rb: form_saving "ro_step api be" ro_binding binding_valid "\<lambda>s k. (ro_namespace s, k)" binding_fills
    binding_changes
  for api be
proof unfold_locales
  fix e s
  show "fd_form (ro_binding (ro_step api be e s)) = None \<or>
      fd_form (ro_binding (ro_step api be e s)) = (case binding_fills e s of Some p \<Rightarrow> Some p
        | None \<Rightarrow> map_option (\<lambda>(k, v). (k, binding_changes e v)) (fd_form (ro_binding s)))"
    by (cases e) (auto simp: ro_defs fd_defs Let_def option.map_id split: prod.splits option.splits)
next
  fix e s and p :: "(string \<times> RoleBinding option) \<times> binding_form"
  show "p \<in> set (fd_calls (ro_binding (ro_step api be e s))) \<Longrightarrow> p \<in> set (fd_calls (ro_binding s)) \<or>
      (\<exists>k v. fd_form (ro_binding s) = Some (k, v) \<and> binding_valid k v \<and> p = ((ro_namespace s, k), v))"
    by (cases e; cases p) (auto simp: ro_defs fd_defs Let_def split: prod.splits option.splits if_splits
        dest: subsetD [OF set_remove1_subset])
qed

interpretation rq: asked_first "ro_step api be" ro_dropRole role_asks
  for api be
proof unfold_locales
  fix e s x
  show "cd_asked (ro_dropRole (ro_step api be e s)) = Some x \<Longrightarrow>
      cd_asked (ro_dropRole s) = Some x \<or> role_asks e s = Some x"
    by (cases e) (auto simp: ro_defs cd_defs Let_def split: prod.splits option.splits if_splits)
  show "x \<in> set (cd_calls (ro_dropRole (ro_step api be e s))) \<Longrightarrow>
      x \<in> set (cd_calls (ro_dropRole s)) \<or> cd_asked (ro_dropRole s) = Some x"
    by (cases e) (auto simp: ro_defs cd_defs Let_def split: prod.splits option.splits if_splits
        dest: subsetD [OF set_remove1_subset])
qed

text \<open>
  A role saved is the one edited: its form was opened for a new role or filled from a role of the namespace shown,
  it holds what was changed since, and it goes to the namespace selected at the confirmation; and only a role
  that was shown is deleted, from the namespace it was shown in.
\<close>

theorem roles_saved_as_edited:
  assumes "((ns, k), v) \<in> set (fd_calls (ro_role (fold (ro_step api be) es (ro_mounted api ns0 st))))"
  shows "\<exists>before e changing later v0. es = before @ e # changing @ later \<and> v = fold role_changes changing v0 \<and> role_valid k v \<and>
    ns = ro_namespace (fold (ro_step api be) (before @ e # changing) (ro_mounted api ns0 st)) \<and>
    (case k of None \<Rightarrow> e = RoNewRole \<and> v0 = new_role_form
     | Some r \<Rightarrow> e = RoEditRole r \<and> v0 = role_filled r \<and>
         r \<in> set (nsRoles (fold (ro_step api be) before (ro_mounted api ns0 st))))"
proof -
  let ?s0 = "ro_mounted api ns0 st"
  have "fd_form (ro_role ?s0) = None" "fd_calls (ro_role ?s0) = []" by (simp_all add: ro_mounted_def fd_closed_def)
  from rr.sent_as_filled [OF this assms] obtain before e changing later k' v0 where
    *: "es = before @ e # changing @ later" "role_fills e (fold (ro_step api be) before ?s0) = Some (k', v0)"
    "v = fold role_changes changing v0" "role_valid k' v"
    "(ns, k) = (ro_namespace (fold (ro_step api be) (before @ e # changing) ?s0), k')" by blast
  then show ?thesis
    by (intro exI [of _ before] exI [of _ e] exI [of _ changing] exI [of _ later] exI [of _ v0])
      (auto elim!: role_fills.elims split: if_splits)
qed

definition sample_engineer :: Role where
  "sample_engineer = \<lparr>role_id = ''r-1'', role_name = ''engineer'', role_namespace = ''team-a'', role_kind = KRole,
     role_rules = [\<lparr>rule_apiGroups = ['''', ''apps''], rule_resources = [''pods'', ''deployments''],
       rule_verbs = [''get'']\<rparr>]\<rparr>"

definition sample_rbac :: rbac where
  "sample_rbac = \<lparr>loaded = {}, in_flight = [], user_rows = [], role_rows = [sample_engineer], binding_rows = []\<rparr>"

definition sample_role_call :: "(string \<times> Role option) \<times> role_form" where
  "sample_role_call = ((''team-a'', Some sample_engineer), role_changed (RuleVerbs 0 [''list'']) (role_filled sample_engineer))"

definition refusing :: rbac_backend where
  "refusing = \<lparr>be_role = \<lambda>_. Inl (JsError []), be_binding = \<lambda>_. Inl (JsError []), be_unit = \<lambda>_. Inl (JsError [])\<rparr>"

theorem roles_saved_as_edited_witness:
  "fd_calls (ro_role (fold (ro_step False refusing) [RoEditRole sample_engineer, RoRoleForm (RuleVerbs 0 [''list'']), RoRoleOk]
     (ro_mounted False ''team-a'' sample_rbac))) = [sample_role_call] \<and>
   (\<exists>before changing later. [RoEditRole sample_engineer, RoRoleForm (RuleVerbs 0 [''list'']), RoRoleOk] =
      before @ RoEditRole sample_engineer # changing @ later)"
proof -
  let ?es = "[RoEditRole sample_engineer, RoRoleForm (RuleVerbs 0 [''list'']), RoRoleOk]"
  let ?s = "fold (ro_step False refusing) ?es (ro_mounted False ''team-a'' sample_rbac)"
  have sent: "fd_calls (ro_role ?s) = [sample_role_call]"
    by (simp add: ro_mounted_def fd_defs roles_effect_def ensureBindingsLoaded_def ensureRolesLoaded_def
        ensureUsersLoaded_def nsRoles_def sample_rbac_def sample_role_call_def role_filled_def sample_engineer_def
        role_valid_def entry_changed_def)
  then have "((''team-a'', Some sample_engineer), snd sample_role_call) \<in> set (fd_calls (ro_role ?s))"
    by (simp add: sample_role_call_def)
  from roles_saved_as_edited [OF this] obtain before e changing later where
    "?es = before @ e # changing @ later" "e = RoEditRole sample_engineer" by auto
  then show ?thesis using sent by blast
qed

lemma role_deletes_are_own:
  assumes "(ns, r) \<in> set (cd_calls (ro_dropRole (fold (ro_step api be) es (ro_mounted api ns0 st))))"
  shows "\<exists>before later. es = before @ RoDropRole r # later \<and>
    r \<in> set (nsRoles (fold (ro_step api be) before (ro_mounted api ns0 st))) \<and> role_namespace r = ns"
proof -
  have "cd_asked (ro_dropRole (ro_mounted api ns0 st)) = None" "cd_calls (ro_dropRole (ro_mounted api ns0 st)) = []"
    by (simp_all add: ro_mounted_def cd_closed_def)
  from rq.deleted_was_asked [OF this assms] obtain before e later where
    "es = before @ e # later" "role_asks e (fold (ro_step api be) before (ro_mounted api ns0 st)) = Some (ns, r)" by blast
  then show ?thesis
    by (intro exI [of _ before] exI [of _ later]) (auto elim!: role_asks.elims split: if_splits simp: nsRoles_def)
qed

text \<open>
  Opening a role and confirming keeps its rules when their groups and resources are trimmed, non-empty and
  without commas; but the core API group, written as the empty string, is dropped, and of a binding its groups and
  what follows a colon in its role's name.
\<close>

definition plain_part :: "string \<Rightarrow> bool" where
  "plain_part x \<longleftrightarrow> x \<noteq> [] \<and> trim x = x \<and> CHR '','' \<notin> set x"

lemma filled_plain: "list_all plain_part xs \<Longrightarrow> filled_parts xs = xs"
  by (induction xs) (simp_all add: filled_parts_def plain_part_def)

lemma split_resources: "list_all plain_part xs \<Longrightarrow> filled_parts (split_on CHR '','' (join '','' xs)) = xs"
proof (cases "xs = []")
  case False
  assume "list_all plain_part xs"
  then have "split_on CHR '','' (join '','' xs) = xs"
    using False by (intro split_on_join) (auto simp: list_all_iff plain_part_def)
  then show ?thesis using \<open>list_all plain_part xs\<close> by (simp add: filled_plain)
qed (simp add: filled_parts_def trim_def)

lemma untouched_role_edit:
  assumes "list_all (\<lambda>x. list_all plain_part (rule_apiGroups x) \<and> list_all plain_part (rule_resources x)) (role_rules r)"
  shows "role_payload (role_filled r) =
    \<lparr>ri_name = role_name r, ri_kind = role_kind r, ri_rules = role_rules r, ri_namespace = None\<rparr>"
  using assms
  by (auto simp: role_payload_def role_filled_def rule_collected_def parseRuleList_def list_all_iff filled_plain
      split_resources intro!: map_idI)

lemma core_group_lost:
  assumes "x \<in> set (ri_rules (role_payload v))"
  shows "[] \<notin> set (rule_apiGroups x)"
  using assms by (auto simp: role_payload_def rule_collected_def parseRuleList_def filled_parts_def)

lemma engineer_loses_core_group:
  "map rule_apiGroups (ri_rules (role_payload (role_filled sample_engineer))) = [[''apps'']]"
  by (simp add: role_payload_def role_filled_def rule_collected_def parseRuleList_def sample_engineer_def
      filled_parts_def trim_visible visible_def is_space_def wide_spaces_def)

lemma untouched_binding_edit:
  "binding_payload (binding_filled b) =
    \<lparr>bi_name = rb_name b,
     bi_roleRef = (fst (rb_roleRef b), hd (split_on CHR '':'' (snd (rb_roleRef b)))),
     bi_subjects = filter (\<lambda>(k, _). k = SubjectUser) (rb_subjects b), bi_namespace = None\<rparr>"
proof -
  obtain k n where r: "rb_roleRef b = (k, n)" by (cases "rb_roleRef b")
  have "split_on CHR '':'' (role_option k n) = role_kind_text k # split_on CHR '':'' n"
    by (cases k) (simp_all add: role_option_def)
  then have "read_role_option (role_option k n) = (k, hd (split_on CHR '':'' n))"
    by (cases k; cases "split_on CHR '':'' n") (simp_all add: read_role_option_def split_on_nonempty)
  moreover have "map (\<lambda>n. (SubjectUser, n)) (map snd (filter (\<lambda>(k, _). k = SubjectUser) xs)) =
      filter (\<lambda>(k, _). k = SubjectUser) xs" for xs :: "(subject_kind \<times> string) list"
    by (induction xs) auto
  ultimately show ?thesis by (simp add: binding_payload_def binding_filled_def r)
qed

text \<open>So with a group among its subjects, or a colon in its role's name, an untouched edit changes the binding.\<close>

lemma group_subjects_lost: "(SubjectGroup, g) \<notin> set (bi_subjects (binding_payload v))"
  by (auto simp: binding_payload_def)

lemma role_name_cut:
  "bi_roleRef (binding_payload (binding_changed (BindingRole KClusterRole ''system:auth-delegator'') v)) =
     (KClusterRole, ''system'')"
  by (simp add: binding_payload_def read_role_option_def role_option_def)

subsection \<open>Users\<close>

record user_form =
  uf_admin :: bool
  uf_entries :: "(string \<times> NamespaceRole) list"

text \<open>A user's memberships, which \<open>normalizeUser\<close> has set on every row of the store.\<close>

definition memberships :: "UserRecord \<Rightarrow> NamespaceRole js_map" where
  "memberships u = nullish (u_memberships u) []"

definition user_filled :: "UserRecord \<Rightarrow> user_form" where
  "user_filled u = \<lparr>uf_admin = u_isPlatformAdmin u, uf_entries = memberships u\<rparr>"

definition user_memberships :: "user_form \<Rightarrow> NamespaceRole js_map" where
  "user_memberships v = collected (filter (\<lambda>(ns, _). ns \<noteq> []) (uf_entries v))"

definition user_valid :: "UserRecord \<Rightarrow> user_form \<Rightarrow> bool" where
  "user_valid k v \<longleftrightarrow> list_all (\<lambda>(ns, _). ns \<noteq> []) (uf_entries v)"

datatype user_change =
    AdminSwitched bool | MembershipAdded | MembershipRemoved nat | MembershipNamespace nat string
  | MembershipRole nat NamespaceRole

fun user_changed :: "user_change \<Rightarrow> user_form \<Rightarrow> user_form" where
  "user_changed (AdminSwitched b) v = v\<lparr>uf_admin := b\<rparr>"
| "user_changed MembershipAdded v = v\<lparr>uf_entries := entry_added ([], RoleEditor) (uf_entries v)\<rparr>"
| "user_changed (MembershipRemoved i) v = v\<lparr>uf_entries := entry_removed i (uf_entries v)\<rparr>"
| "user_changed (MembershipNamespace i ns) v =
     v\<lparr>uf_entries := entry_changed i (\<lambda>(_, r). (ns, r)) (uf_entries v)\<rparr>"
| "user_changed (MembershipRole i r) v = v\<lparr>uf_entries := entry_changed i (\<lambda>(ns, _). (ns, r)) (uf_entries v)\<rparr>"

record users_page =
  us_admin :: bool
  us_store :: rbac
  us_edit :: "(UserRecord, user_form, UserRecord) form_dialog"
  us_notices :: "notice list"

definition us_mounted :: "bool \<Rightarrow> app_context \<Rightarrow> rbac \<Rightarrow> users_page" where
  "us_mounted api cx st =
     \<lparr>us_admin = usr_isPlatformAdmin (cx_user cx), us_store = ensureUsersLoaded api st, us_edit = fd_closed,
      us_notices = []\<rparr>"

definition user_answered :: "bool \<Rightarrow> UserRecord backend \<Rightarrow> UserRecord \<times> user_form \<Rightarrow> users_page \<Rightarrow> users_page" where
  "user_answered api send c s =
     (let (r, st) = updateUser api send (u_id (fst c)) (uf_admin (snd c)) (user_memberships (snd c)) (us_store s)
      in s\<lparr>us_store := st, us_edit := fd_answered c (settled r) (us_edit s),
           us_notices := us_notices s @ [outcome r (Success ''User updated'')]\<rparr>)"

datatype users_event =
    UsStore rbac | UsEdit UserRecord | UsForm user_change | UsClosed | UsOk | UsAnswered "UserRecord \<times> user_form"

fun us_step :: "bool \<Rightarrow> UserRecord backend \<Rightarrow> users_event \<Rightarrow> users_page \<Rightarrow> users_page" where
  "us_step api send (UsStore st) s = s\<lparr>us_store := st\<rparr>"
| "us_step api send (UsEdit u) s =
     (if us_admin s \<and> u \<in> set (user_rows (us_store s)) then s\<lparr>us_edit := fd_opened u (user_filled u) (us_edit s)\<rparr> else s)"
| "us_step api send (UsForm x) s = s\<lparr>us_edit := fd_changed (user_changed x) (us_edit s)\<rparr>"
| "us_step api send UsClosed s = s\<lparr>us_edit := fd_cancelled (us_edit s)\<rparr>"
| "us_step api send UsOk s = s\<lparr>us_edit := fd_confirmed False user_valid id (us_edit s)\<rparr>"
| "us_step api send (UsAnswered c) s = (if c \<in> set (fd_calls (us_edit s)) then user_answered api send c s else s)"

fun user_fills :: "users_event \<Rightarrow> users_page \<Rightarrow> (UserRecord \<times> user_form) option" where
  "user_fills (UsEdit u) s = (if us_admin s \<and> u \<in> set (user_rows (us_store s)) then Some (u, user_filled u) else None)"
| "user_fills _ s = None"

fun user_changes :: "users_event \<Rightarrow> user_form \<Rightarrow> user_form" where
  "user_changes (UsForm x) v = user_changed x v"
| "user_changes _ v = v"

interpretation us: form_saving "us_step api send" us_edit user_valid "\<lambda>s. id" user_fills user_changes
  for api send
proof unfold_locales
  fix e s
  show "fd_form (us_edit (us_step api send e s)) = None \<or>
      fd_form (us_edit (us_step api send e s)) = (case user_fills e s of Some p \<Rightarrow> Some p
        | None \<Rightarrow> map_option (\<lambda>(k, v). (k, user_changes e v)) (fd_form (us_edit s)))"
    by (cases e) (auto simp: user_answered_def fd_defs Let_def option.map_id split: prod.splits option.splits)
next
  fix e s and p :: "UserRecord \<times> user_form"
  show "p \<in> set (fd_calls (us_edit (us_step api send e s))) \<Longrightarrow> p \<in> set (fd_calls (us_edit s)) \<or>
      (\<exists>k v. fd_form (us_edit s) = Some (k, v) \<and> user_valid k v \<and> p = (id k, v))"
    by (cases e; cases p) (auto simp: user_answered_def fd_defs Let_def split: prod.splits option.splits if_splits
        dest: subsetD [OF set_remove1_subset])
qed

text \<open>
  Only a platform admin changes users: what is sent was filled from a row of the store and changed since, every
  membership names a namespace, and each namespace at most once, the last entry counting.
\<close>

lemma users_saved_as_edited:
  assumes "(u, v) \<in> set (fd_calls (us_edit (fold (us_step api send) es (us_mounted api cx st))))"
  shows "(\<exists>before changing later. es = before @ UsEdit u # changing @ later \<and>
      v = fold user_changes changing (user_filled u) \<and>
      u \<in> set (user_rows (us_store (fold (us_step api send) before (us_mounted api cx st))))) \<and>
    distinct (map fst (user_memberships v)) \<and>
    (\<forall>ns. map_of (user_memberships v) ns = (if ns = [] then None else map_of (rev (uf_entries v)) ns))"
proof -
  let ?s0 = "us_mounted api cx st"
  have "fd_form (us_edit ?s0) = None" "fd_calls (us_edit ?s0) = []" by (simp_all add: us_mounted_def fd_closed_def)
  from us.sent_as_filled [OF this assms] obtain before e changing later k v0 where
    *: "es = before @ e # changing @ later" "user_fills e (fold (us_step api send) before ?s0) = Some (k, v0)"
    "v = fold user_changes changing v0" "u = k" by (metis id_apply)
  have "map_of (rev (filter (\<lambda>(ns, _). ns \<noteq> []) xs)) ns = (if ns = [] then None else map_of (rev xs) ns)"
    for xs :: "(string \<times> NamespaceRole) list" and ns
    by (induction xs rule: rev_induct) auto
  then have "map_of (user_memberships v) ns = (if ns = [] then None else map_of (rev (uf_entries v)) ns)" for ns
    unfolding user_memberships_def map_of_collected by blast
  moreover have "\<exists>before changing later. es = before @ UsEdit u # changing @ later \<and>
      v = fold user_changes changing (user_filled u) \<and>
      u \<in> set (user_rows (us_store (fold (us_step api send) before ?s0)))"
    using * by (intro exI [of _ before] exI [of _ changing] exI [of _ later]) (auto elim!: user_fills.elims split: if_splits)
  ultimately show ?thesis by (simp add: user_memberships_def distinct_collected)
qed

definition user_ok :: "UserRecord \<Rightarrow> bool" where
  "user_ok u \<longleftrightarrow> u_memberships u \<noteq> None \<and> distinct (map fst (memberships u)) \<and> [] \<notin> fst ` set (memberships u)"

lemma untouched_memberships: "user_ok u \<Longrightarrow> user_memberships (user_filled u) = memberships u"
proof -
  assume "user_ok u"
  moreover from this have "filter (\<lambda>(ns, _). ns \<noteq> []) (memberships u) = memberships u"
    by (auto simp: user_ok_def filter_id_conv image_iff)
  ultimately show ?thesis
    by (simp add: user_memberships_def user_filled_def user_ok_def collected_entries)
qed

text \<open>In prototype mode an untouched edit leaves the store as it was.\<close>

lemma untouched_user_edit:
  assumes "user_ok u" "keys_ok u_id (user_rows st)" "u \<in> set (user_rows st)"
  shows "updateUser False send (u_id u) (uf_admin (user_filled u)) (user_memberships (user_filled u)) st = (Inr (), st)"
proof -
  have own: "w = u" if "w \<in> set (user_rows st)" "u_id w = u_id u" for w
    using assms(2,3) that by (metis keys_ok_def option.inject unique_key)
  let ?change = "\<lambda>w. w\<lparr>u_isPlatformAdmin := u_isPlatformAdmin u, u_memberships := Some (memberships u)\<rparr>"
  have "?change u = u" using assms(1) by (cases u) (auto simp: user_ok_def memberships_def)
  then have "?change w = w" if "w \<in> set (user_rows st)" "u_id w = u_id u" for w
    using own that by metis
  then have "map_where (\<lambda>w. u_id w = u_id u) ?change (user_rows st) = user_rows st"
    unfolding map_where_def by (intro map_idI) simp
  then show ?thesis
    by (simp add: updateUser_def untouched_memberships [OF assms(1)]) (simp add: user_filled_def)
qed

subsection \<open>Nodes\<close>

type_synonym node_labels = "(string \<times> string option) list"

text \<open>\<open>labels[e.key] = e.value ?? ''\<close>\<close>

definition labels_filled :: "NodeInfo \<Rightarrow> node_labels" where
  "labels_filled n = map (\<lambda>(k, v). (k, Some v)) (nd_labels n)"

definition labels_collected :: "node_labels \<Rightarrow> string js_map" where
  "labels_collected es = collected (map (\<lambda>(k, v). (k, nullish v [])) es)"

definition labels_valid :: "NodeInfo \<Rightarrow> node_labels \<Rightarrow> bool" where
  "labels_valid n es \<longleftrightarrow> list_all (\<lambda>(k, _). k \<noteq> []) es"

definition taints_valid :: "NodeInfo \<Rightarrow> Taint list \<Rightarrow> bool" where
  "taints_valid n ts \<longleftrightarrow> list_all (\<lambda>t. taint_key t \<noteq> []) ts"

definition no_node_patch :: node_patch where
  "no_node_patch = \<lparr>np_name = None, np_role = None, np_cpu = None, np_memory = None, np_gpu = None, np_status = None,
     np_kubelet = None, np_kernel = None, np_labels = None, np_taints = None\<rparr>"

datatype label_change = LabelAdded | LabelRemoved nat | LabelKey nat string | LabelValue nat string

fun labels_changed :: "label_change \<Rightarrow> node_labels \<Rightarrow> node_labels" where
  "labels_changed LabelAdded es = entry_added ([], Some []) es"
| "labels_changed (LabelRemoved i) es = entry_removed i es"
| "labels_changed (LabelKey i k) es = entry_changed i (\<lambda>(_, v). (k, v)) es"
| "labels_changed (LabelValue i v) es = entry_changed i (\<lambda>(k, _). (k, Some v)) es"

datatype taint_change = TaintAdded | TaintRemoved nat | TaintKey nat string | TaintValue nat string | TaintEffect nat taint_effect

fun taints_changed :: "taint_change \<Rightarrow> Taint list \<Rightarrow> Taint list" where
  "taints_changed TaintAdded ts = entry_added \<lparr>taint_key = [], taint_value = Some [], taint_effect = NoSchedule\<rparr> ts"
| "taints_changed (TaintRemoved i) ts = entry_removed i ts"
| "taints_changed (TaintKey i k) ts = entry_changed i (\<lambda>t. t\<lparr>taint_key := k\<rparr>) ts"
| "taints_changed (TaintValue i v) ts = entry_changed i (\<lambda>t. t\<lparr>taint_value := Some v\<rparr>) ts"
| "taints_changed (TaintEffect i e) ts = entry_changed i (\<lambda>t. t\<lparr>taint_effect := e\<rparr>) ts"

text \<open>The tag of a taint: its value only when it has one.\<close>

definition taint_tag :: "Taint \<Rightarrow> string" where
  "taint_tag t = taint_key t @ (if truthy_str (taint_value t) then ''='' @ nullish (taint_value t) [] else []) @
     '':'' @ taint_effect_text (taint_effect t)"

record nodes_page =
  no_store :: nodes
  no_labels :: "(NodeInfo, node_labels, NodeInfo) form_dialog"
  no_taints :: "(NodeInfo, Taint list, NodeInfo) form_dialog"
  no_notices :: "notice list"

definition no_mounted :: "bool \<Rightarrow> nodes \<Rightarrow> nodes_page" where
  "no_mounted api st =
     \<lparr>no_store = ensureNodesLoaded api st, no_labels = fd_closed, no_taints = fd_closed, no_notices = []\<rparr>"

definition labels_answered :: "bool \<Rightarrow> NodeInfo backend \<Rightarrow> NodeInfo \<times> node_labels \<Rightarrow> nodes_page \<Rightarrow> nodes_page" where
  "labels_answered api send c s =
     (let (r, st) = updateNode api send (nd_name (fst c)) (no_node_patch\<lparr>np_labels := Some (labels_collected (snd c))\<rparr>) (no_store s)
      in s\<lparr>no_store := st, no_labels := fd_answered c (settled r) (no_labels s),
           no_notices := no_notices s @ [outcome r (Success ''Labels updated'')]\<rparr>)"

definition taints_answered :: "bool \<Rightarrow> NodeInfo backend \<Rightarrow> NodeInfo \<times> Taint list \<Rightarrow> nodes_page \<Rightarrow> nodes_page" where
  "taints_answered api send c s =
     (let (r, st) = updateNode api send (nd_name (fst c)) (no_node_patch\<lparr>np_taints := Some (snd c)\<rparr>) (no_store s)
      in s\<lparr>no_store := st, no_taints := fd_answered c (settled r) (no_taints s),
           no_notices := no_notices s @ [outcome r (Success ''Taints updated'')]\<rparr>)"

datatype nodes_event =
    NoStore nodes
  | NoLabels NodeInfo | NoLabelForm label_change | NoLabelsClosed | NoLabelsOk | NoLabelsAnswered "NodeInfo \<times> node_labels"
  | NoTaints NodeInfo | NoTaintForm taint_change | NoTaintsClosed | NoTaintsOk | NoTaintsAnswered "NodeInfo \<times> Taint list"

fun no_step :: "bool \<Rightarrow> NodeInfo backend \<Rightarrow> nodes_event \<Rightarrow> nodes_page \<Rightarrow> nodes_page" where
  "no_step api send (NoStore st) s = s\<lparr>no_store := st\<rparr>"
| "no_step api send (NoLabels n) s =
     (if n \<in> set (node_rows (no_store s)) then s\<lparr>no_labels := fd_opened n (labels_filled n) (no_labels s)\<rparr> else s)"
| "no_step api send (NoLabelForm x) s = s\<lparr>no_labels := fd_changed (labels_changed x) (no_labels s)\<rparr>"
| "no_step api send NoLabelsClosed s = s\<lparr>no_labels := fd_cancelled (no_labels s)\<rparr>"
| "no_step api send NoLabelsOk s = s\<lparr>no_labels := fd_confirmed False labels_valid id (no_labels s)\<rparr>"
| "no_step api send (NoLabelsAnswered c) s =
     (if c \<in> set (fd_calls (no_labels s)) then labels_answered api send c s else s)"
| "no_step api send (NoTaints n) s =
     (if n \<in> set (node_rows (no_store s)) then s\<lparr>no_taints := fd_opened n (nd_taints n) (no_taints s)\<rparr> else s)"
| "no_step api send (NoTaintForm x) s = s\<lparr>no_taints := fd_changed (taints_changed x) (no_taints s)\<rparr>"
| "no_step api send NoTaintsClosed s = s\<lparr>no_taints := fd_cancelled (no_taints s)\<rparr>"
| "no_step api send NoTaintsOk s = s\<lparr>no_taints := fd_confirmed False taints_valid id (no_taints s)\<rparr>"
| "no_step api send (NoTaintsAnswered c) s =
     (if c \<in> set (fd_calls (no_taints s)) then taints_answered api send c s else s)"

lemmas no_defs = labels_answered_def taints_answered_def

fun label_fills :: "nodes_event \<Rightarrow> nodes_page \<Rightarrow> (NodeInfo \<times> node_labels) option" where
  "label_fills (NoLabels n) s = (if n \<in> set (node_rows (no_store s)) then Some (n, labels_filled n) else None)"
| "label_fills _ s = None"

fun label_changes :: "nodes_event \<Rightarrow> node_labels \<Rightarrow> node_labels" where
  "label_changes (NoLabelForm x) v = labels_changed x v"
| "label_changes _ v = v"

fun taint_fills :: "nodes_event \<Rightarrow> nodes_page \<Rightarrow> (NodeInfo \<times> Taint list) option" where
  "taint_fills (NoTaints n) s = (if n \<in> set (node_rows (no_store s)) then Some (n, nd_taints n) else None)"
| "taint_fills _ s = None"

fun taint_changes :: "nodes_event \<Rightarrow> Taint list \<Rightarrow> Taint list" where
  "taint_changes (NoTaintForm x) v = taints_changed x v"
| "taint_changes _ v = v"

interpretation nl: form_saving "no_step api send" no_labels labels_valid "\<lambda>s. id" label_fills label_changes
  for api send
proof unfold_locales
  fix e s
  show "fd_form (no_labels (no_step api send e s)) = None \<or>
      fd_form (no_labels (no_step api send e s)) = (case label_fills e s of Some p \<Rightarrow> Some p
        | None \<Rightarrow> map_option (\<lambda>(k, v). (k, label_changes e v)) (fd_form (no_labels s)))"
    by (cases e) (auto simp: no_defs fd_defs Let_def option.map_id split: prod.splits option.splits)
next
  fix e s and p :: "NodeInfo \<times> node_labels"
  show "p \<in> set (fd_calls (no_labels (no_step api send e s))) \<Longrightarrow> p \<in> set (fd_calls (no_labels s)) \<or>
      (\<exists>k v. fd_form (no_labels s) = Some (k, v) \<and> labels_valid k v \<and> p = (id k, v))"
    by (cases e; cases p) (auto simp: no_defs fd_defs Let_def split: prod.splits option.splits if_splits
        dest: subsetD [OF set_remove1_subset])
qed

interpretation nt: form_saving "no_step api send" no_taints taints_valid "\<lambda>s. id" taint_fills taint_changes
  for api send
proof unfold_locales
  fix e s
  show "fd_form (no_taints (no_step api send e s)) = None \<or>
      fd_form (no_taints (no_step api send e s)) = (case taint_fills e s of Some p \<Rightarrow> Some p
        | None \<Rightarrow> map_option (\<lambda>(k, v). (k, taint_changes e v)) (fd_form (no_taints s)))"
    by (cases e) (auto simp: no_defs fd_defs Let_def option.map_id split: prod.splits option.splits)
next
  fix e s and p :: "NodeInfo \<times> Taint list"
  show "p \<in> set (fd_calls (no_taints (no_step api send e s))) \<Longrightarrow> p \<in> set (fd_calls (no_taints s)) \<or>
      (\<exists>k v. fd_form (no_taints s) = Some (k, v) \<and> taints_valid k v \<and> p = (id k, v))"
    by (cases e; cases p) (auto simp: no_defs fd_defs Let_def split: prod.splits option.splits if_splits
        dest: subsetD [OF set_remove1_subset])
qed

lemma untouched_labels: "distinct (map fst (nd_labels n)) \<Longrightarrow> labels_collected (labels_filled n) = nd_labels n"
proof -
  have "map (\<lambda>(k, v). (k, nullish v [])) (labels_filled n) = nd_labels n"
    by (simp add: labels_filled_def case_prod_unfold o_def)
  moreover assume "distinct (map fst (nd_labels n))"
  ultimately show ?thesis by (simp add: labels_collected_def collected_entries)
qed

lemma same_node_kept:
  assumes "keys_ok nd_name (node_rows st)" "n \<in> set (node_rows st)" "apply_node_patch p n = n"
  shows "updateNode False send (nd_name n) p st = (Inr (), st)"
proof -
  have "w = n" if "w \<in> set (node_rows st)" "nd_name w = nd_name n" for w
    using assms(1,2) that by (metis keys_ok_def option.inject unique_key)
  then have "apply_node_patch p w = w" if "w \<in> set (node_rows st)" "nd_name w = nd_name n" for w
    using assms(3) that by metis
  then have "map_where (\<lambda>w. nd_name w = nd_name n) (apply_node_patch p) (node_rows st) = node_rows st"
    unfolding map_where_def by (intro map_idI) simp
  then show ?thesis by (simp add: updateNode_def)
qed

text \<open>
  Opening a user, the labels of a node or its taints and confirming without a change leaves the store as it was
  in prototype mode, and asks the backend for what it already has otherwise.
\<close>

theorem untouched_edits_keep:
  assumes "user_ok u" "keys_ok u_id (user_rows st)" "u \<in> set (user_rows st)"
    and "keys_ok nd_name (node_rows ns)" "n \<in> set (node_rows ns)" "distinct (map fst (nd_labels n))"
  shows "updateUser False send (u_id u) (uf_admin (user_filled u)) (user_memberships (user_filled u)) st = (Inr (), st) \<and>
    user_memberships (user_filled u) = memberships u \<and>
    updateNode False put (nd_name n) (no_node_patch\<lparr>np_labels := Some (labels_collected (labels_filled n))\<rparr>) ns = (Inr (), ns) \<and>
    updateNode False put (nd_name n) (no_node_patch\<lparr>np_taints := Some (nd_taints n)\<rparr>) ns = (Inr (), ns) \<and>
    labels_collected (labels_filled n) = nd_labels n"
  using untouched_user_edit [OF assms(1-3)] untouched_memberships [OF assms(1)] untouched_labels [OF assms(6)]
    same_node_kept [OF assms(4,5), of "no_node_patch\<lparr>np_labels := Some (nd_labels n)\<rparr>"]
    same_node_kept [OF assms(4,5), of "no_node_patch\<lparr>np_taints := Some (nd_taints n)\<rparr>"]
  by (simp add: apply_node_patch_def no_node_patch_def)

definition sample_carol :: UserRecord where
  "sample_carol = seed_user ''u-1'' ''carol'' ''d'' ''d'' False [(''team-a'', RoleAdmin), (''team-b'', RoleEditor)]"

definition sample_gpu_node :: NodeInfo where
  "sample_gpu_node = seed_node ''gpu-1'' GpuWorker ''64'' ''512Gi'' ''8'' NodeReady (gpu_labels ''A100'') [gpu_taint]"

theorem untouched_edits_keep_witness:
  "updateUser False (\<lambda>_. Inl (JsError [])) ''u-1'' False [(''team-a'', RoleAdmin), (''team-b'', RoleEditor)]
     (sample_rbac\<lparr>user_rows := [sample_carol]\<rparr>) = (Inr (), sample_rbac\<lparr>user_rows := [sample_carol]\<rparr>)"
proof -
  have u: "user_ok sample_carol" "memberships sample_carol = [(''team-a'', RoleAdmin), (''team-b'', RoleEditor)]"
    by (simp_all add: sample_carol_def seed_user_def user_ok_def memberships_def)
  have n: "distinct (map fst (nd_labels sample_gpu_node))"
    by (simp add: sample_gpu_node_def seed_node_def gpu_labels_def)
  have "uf_admin (user_filled sample_carol) = False" "u_id sample_carol = ''u-1''"
    by (simp_all add: sample_carol_def seed_user_def user_filled_def)
  then show ?thesis
    using untouched_edits_keep [where send = "\<lambda>_. Inl (JsError [])" and put = "\<lambda>_. Inl (JsError [])"
        and st = "sample_rbac\<lparr>user_rows := [sample_carol]\<rparr>"
        and ns = "\<lparr>is_loaded = True, pending_fetches = [], node_rows = [sample_gpu_node]\<rparr>" and n = sample_gpu_node, OF u(1) _ _ _ _ n] u(2)
    by (simp add: keys_ok_def) metis
qed

text \<open>Two entries with one key: the later one is sent.\<close>

lemma later_label_wins: "labels_collected [(''pool'', Some ''a''), (''pool'', Some ''b'')] = [(''pool'', ''b'')]"
  by (simp add: labels_collected_def collected_def)

subsection \<open>Namespaces\<close>

record NsQuota =
  nq_name :: string
  nq_quota :: Quota

definition quota_row :: "string \<Rightarrow> Quota \<Rightarrow> NsQuota" where
  "quota_row n q = \<lparr>nq_name = n, nq_quota = q\<rparr>"

definition quota_of :: "int \<Rightarrow> int \<Rightarrow> int \<Rightarrow> int \<Rightarrow> Quota" where
  "quota_of cpu mem gpu ps = \<lparr>quota_cpu = cpu, quota_memory = mem, quota_gpu = gpu, quota_pods = ps\<rparr>"

definition nsQuotasInitial :: "NsQuota js_map" where
  "nsQuotasInitial =
    [(''team-ml'', quota_row ''team-ml'' (quota_of 128 512 8 200)),
     (''team-vision'', quota_row ''team-vision'' (quota_of 64 256 4 100)),
     (''team-llm'', quota_row ''team-llm'' (quota_of 256 2048 16 300)),
     (''default'', quota_row ''default'' (quota_of 32 64 0 50))]"

record ns_form =
  nf_name :: string
  nf_quota :: Quota

record assign_form =
  af_user :: "string option"
  af_role :: NamespaceRole

text \<open>
  The page sees the context, the quotas and the users; \<open>na_updates\<close> are the calls of the members table, with
  the whole object of memberships each sends. The number inputs are taken to be filled in.
\<close>

type_synonym member_call = "string \<times> bool \<times> NamespaceRole js_map"

record namespaces_page =
  na_context :: app_context
  na_quotas :: "NsQuota js_map"
  na_users :: rbac
  na_create :: "(unit, ns_form, unit) form_dialog"
  na_drop :: "string confirm_dialog"
  na_members :: "string option"
  na_assign :: "(unit, assign_form, UserRecord \<times> string) form_dialog"
  na_updates :: "member_call list"
  na_notices :: "notice list"

definition ns_data :: "namespaces_page \<Rightarrow> NsQuota list" where
  "ns_data s = map (\<lambda>n. nullish (map_of (na_quotas s) n) (quota_row n (quota_of 0 0 0 0))) (cx_namespaces (na_context s))"

definition na_mounted :: "bool \<Rightarrow> app_context \<Rightarrow> NsQuota js_map \<Rightarrow> rbac \<Rightarrow> namespaces_page" where
  "na_mounted api cx qs st =
     \<lparr>na_context = cx, na_quotas = qs, na_users = ensureUsersLoaded api st, na_create = fd_closed, na_drop = cd_closed,
      na_members = None, na_assign = fd_closed, na_updates = [], na_notices = []\<rparr>"

text \<open>The listing asked for when the page mounts; a failed one is ignored.\<close>

definition quotas_listed :: "(string \<times> Quota) list promise \<Rightarrow> NsQuota js_map \<Rightarrow> NsQuota js_map" where
  "quotas_listed r qs =
     (case r of Inl e \<Rightarrow> qs | Inr remote \<Rightarrow> fold (\<lambda>(n, q). js_put n (quota_row n q)) remote qs)"

definition membersIn :: "namespaces_page \<Rightarrow> string \<Rightarrow> (UserRecord \<times> NamespaceRole) list" where
  "membersIn s ns = List.map_filter (\<lambda>u. map_option (Pair u) (map_of (memberships u) ns)) (user_rows (na_users s))"

definition new_ns_form :: ns_form where
  "new_ns_form = \<lparr>nf_name = [], nf_quota = quota_of 32 64 0 100\<rparr>"

definition ns_name_char :: "char \<Rightarrow> bool" where
  "ns_name_char c \<longleftrightarrow> c \<in> set (lower_letters @ ''0123456789-'')"

definition ns_valid :: "unit \<Rightarrow> ns_form \<Rightarrow> bool" where
  "ns_valid u v \<longleftrightarrow> nf_name v \<noteq> [] \<and> list_all ns_name_char (nf_name v)"

definition na_notify :: "notice \<Rightarrow> namespaces_page \<Rightarrow> namespaces_page" where
  "na_notify n s = s\<lparr>na_notices := na_notices s @ [n]\<rparr>"

text \<open>The namespace created has the name and the quota the backend answers with, else those of the form.\<close>

definition ns_created ::
  "bool \<Rightarrow> (string \<times> Quota) backend \<Rightarrow> unit \<times> ns_form \<Rightarrow> namespaces_page \<Rightarrow> namespaces_page" where
  "ns_created api send c s =
     (let v = snd c; r = (if api then send (createNamespace (nf_name v) None (nf_quota v)) else Inr (nf_name v, nf_quota v))
      in case r of
           Inl e \<Rightarrow> na_notify (Failure (js_message e)) (s\<lparr>na_create := fd_answered c False (na_create s)\<rparr>)
         | Inr (n, q) \<Rightarrow>
             na_notify (Success (''Namespace '' @ n @ '' created''))
               (s\<lparr>na_context := addNamespace n (na_context s), na_quotas := js_put n (quota_row n q) (na_quotas s),
                  na_create := fd_answered c True (na_create s)\<rparr>))"

definition ns_deleted :: "bool \<Rightarrow> unit backend \<Rightarrow> string \<Rightarrow> namespaces_page \<Rightarrow> namespaces_page" where
  "ns_deleted api send n s =
     (let r = (if api then send (deleteNamespace n) else Inr ())
      in case r of
           Inl e \<Rightarrow> na_notify (Failure (js_message e)) (s\<lparr>na_drop := cd_answered n False (na_drop s)\<rparr>)
         | Inr _ \<Rightarrow>
             na_notify (Success ''Namespace deleted'')
               (s\<lparr>na_context := removeNamespace n (na_context s), na_quotas := js_delete n (na_quotas s),
                  na_drop := cd_answered n True (na_drop s)\<rparr>))"

text \<open>Choosing a role and removing a member send the memberships of the row, changed at the namespace.\<close>

definition role_chosen :: "string \<Rightarrow> UserRecord \<Rightarrow> NamespaceRole \<Rightarrow> member_call" where
  "role_chosen ns u r = (u_id u, u_isPlatformAdmin u, js_put ns r (memberships u))"

definition member_removed :: "string \<Rightarrow> UserRecord \<Rightarrow> member_call" where
  "member_removed ns u = (u_id u, u_isPlatformAdmin u, js_delete ns (memberships u))"

definition member_answered ::
  "bool \<Rightarrow> UserRecord backend \<Rightarrow> member_call \<Rightarrow> namespaces_page \<Rightarrow> namespaces_page" where
  "member_answered api send c s =
     (let (r, st) = updateUser api send (fst c) (fst (snd c)) (snd (snd c)) (na_users s);
          s' = s\<lparr>na_users := st, na_updates := remove1 c (na_updates s)\<rparr>
      in case r of Inl e \<Rightarrow> na_notify (Failure (js_message e)) s' | Inr _ \<Rightarrow> s')"

text \<open>
  Adding a member looks the chosen name up among the users; a name that is not found is not sent. The
  namespace is the one whose members are open, \<open>null\<close> read as a key when there is none.
\<close>

definition assign_options :: "namespaces_page \<Rightarrow> UserRecord list" where
  "assign_options s =
     (case na_members s of None \<Rightarrow> []
      | Some ns \<Rightarrow> if ns = [] then [] else filter (\<lambda>u. map_of (memberships u) ns = None) (user_rows (na_users s)))"

definition assign_confirmed :: "namespaces_page \<Rightarrow> namespaces_page" where
  "assign_confirmed s =
     (case fd_form (na_assign s) of
        None \<Rightarrow> s
      | Some (k, v) \<Rightarrow>
          (case af_user v of
             None \<Rightarrow> s
           | Some n \<Rightarrow>
               (case find_key u_name n (user_rows (na_users s)) of
                  None \<Rightarrow> s
                | Some u \<Rightarrow> s\<lparr>na_assign :=
                    fd_confirmed False (\<lambda>_ _. True) (\<lambda>_. (u, nullish (na_members s) ''null'')) (na_assign s)\<rparr>)))"

definition assign_answered ::
  "bool \<Rightarrow> UserRecord backend \<Rightarrow> (UserRecord \<times> string) \<times> assign_form \<Rightarrow> namespaces_page \<Rightarrow> namespaces_page" where
  "assign_answered api send c s =
     (let (u, ns) = fst c; v = snd c;
          (r, st) = updateUser api send (u_id u) (u_isPlatformAdmin u) (js_put ns (af_role v) (memberships u)) (na_users s)
      in na_notify (outcome r (Success (nullish (af_user v) [] @ '' added as '' @ role_text (af_role v))))
           (s\<lparr>na_users := st, na_assign := fd_answered c (settled r) (na_assign s)\<rparr>))"

datatype ns_change = NsNamed string | NsQuotaSet "Quota \<Rightarrow> Quota"

fun ns_changed :: "ns_change \<Rightarrow> ns_form \<Rightarrow> ns_form" where
  "ns_changed (NsNamed n) v = v\<lparr>nf_name := n\<rparr>"
| "ns_changed (NsQuotaSet f) v = v\<lparr>nf_quota := f (nf_quota v)\<rparr>"

datatype namespaces_event =
    NaContext app_context | NaUsers rbac | NaListed "(string \<times> Quota) list promise"
  | NaNew | NaForm ns_change | NaClosed | NaOk | NaCreated "unit \<times> ns_form"
  | NaDrop string | NaDropOk | NaDropClosed | NaDropped string
  | NaMembers string | NaMembersClosed | NaRole UserRecord NamespaceRole | NaRemove UserRecord | NaMemberAnswered member_call
  | NaAssign | NaAssignUser string | NaAssignRole NamespaceRole | NaAssignClosed | NaAssignOk
  | NaAssigned "(UserRecord \<times> string) \<times> assign_form"

record ns_backend =
  nb_namespace :: "(string \<times> Quota) backend"
  nb_user :: "UserRecord backend"
  nb_unit :: "unit backend"

fun na_step :: "bool \<Rightarrow> ns_backend \<Rightarrow> namespaces_event \<Rightarrow> namespaces_page \<Rightarrow> namespaces_page" where
  "na_step api be (NaContext cx) s = s\<lparr>na_context := cx\<rparr>"
| "na_step api be (NaUsers st) s = s\<lparr>na_users := st\<rparr>"
| "na_step api be (NaListed r) s = (if api then s\<lparr>na_quotas := quotas_listed r (na_quotas s)\<rparr> else s)"
| "na_step api be NaNew s = s\<lparr>na_create := fd_opened () new_ns_form (na_create s)\<rparr>"
| "na_step api be (NaForm x) s = s\<lparr>na_create := fd_changed (ns_changed x) (na_create s)\<rparr>"
| "na_step api be NaClosed s = s\<lparr>na_create := fd_cancelled (na_create s)\<rparr>"
| "na_step api be NaOk s = s\<lparr>na_create := fd_confirmed False ns_valid id (na_create s)\<rparr>"
| "na_step api be (NaCreated c) s =
     (if c \<in> set (fd_calls (na_create s)) then ns_created api (nb_namespace be) c s else s)"
| "na_step api be (NaDrop n) s =
     (if n \<in> nq_name ` set (ns_data s) \<and> n \<noteq> ''default'' then s\<lparr>na_drop := cd_asking n (na_drop s)\<rparr> else s)"
| "na_step api be NaDropOk s = s\<lparr>na_drop := cd_confirmed (na_drop s)\<rparr>"
| "na_step api be NaDropClosed s = s\<lparr>na_drop := cd_cancelled (na_drop s)\<rparr>"
| "na_step api be (NaDropped n) s =
     (if n \<in> set (cd_calls (na_drop s)) then ns_deleted api (nb_unit be) n s else s)"
| "na_step api be (NaMembers n) s = (if n \<in> nq_name ` set (ns_data s) then s\<lparr>na_members := Some n\<rparr> else s)"
| "na_step api be NaMembersClosed s = s\<lparr>na_members := None\<rparr>"
| "na_step api be (NaRole u r) s =
     (case na_members s of None \<Rightarrow> s
      | Some ns \<Rightarrow> if u \<in> fst ` set (membersIn s ns) then s\<lparr>na_updates := na_updates s @ [role_chosen ns u r]\<rparr> else s)"
| "na_step api be (NaRemove u) s =
     (case na_members s of None \<Rightarrow> s
      | Some ns \<Rightarrow> if u \<in> fst ` set (membersIn s ns) then s\<lparr>na_updates := na_updates s @ [member_removed ns u]\<rparr> else s)"
| "na_step api be (NaMemberAnswered c) s =
     (if c \<in> set (na_updates s) then member_answered api (nb_user be) c s else s)"
| "na_step api be NaAssign s =
     (if na_members s = None then s
      else s\<lparr>na_assign := fd_opened () \<lparr>af_user = None, af_role = RoleEditor\<rparr> (na_assign s)\<rparr>)"
| "na_step api be (NaAssignUser n) s =
     (if n \<in> u_name ` set (assign_options s)
      then s\<lparr>na_assign := fd_changed (\<lambda>v. v\<lparr>af_user := Some n\<rparr>) (na_assign s)\<rparr> else s)"
| "na_step api be (NaAssignRole r) s = s\<lparr>na_assign := fd_changed (\<lambda>v. v\<lparr>af_role := r\<rparr>) (na_assign s)\<rparr>"
| "na_step api be NaAssignClosed s = s\<lparr>na_assign := fd_cancelled (na_assign s)\<rparr>"
| "na_step api be NaAssignOk s = assign_confirmed s"
| "na_step api be (NaAssigned c) s =
     (if c \<in> set (fd_calls (na_assign s)) then assign_answered api (nb_user be) c s else s)"

lemmas na_defs = na_notify_def ns_created_def ns_deleted_def member_answered_def assign_confirmed_def assign_answered_def

fun ns_asks :: "namespaces_event \<Rightarrow> namespaces_page \<Rightarrow> string option" where
  "ns_asks (NaDrop n) s = (if n \<in> nq_name ` set (ns_data s) \<and> n \<noteq> ''default'' then Some n else None)"
| "ns_asks _ s = None"

interpretation nd: asked_first "na_step api be" na_drop ns_asks
  for api be
proof unfold_locales
  fix e s x
  show "cd_asked (na_drop (na_step api be e s)) = Some x \<Longrightarrow> cd_asked (na_drop s) = Some x \<or> ns_asks e s = Some x"
    by (cases e) (auto simp: na_defs cd_defs Let_def split: sum.splits prod.splits option.splits if_splits)
  show "x \<in> set (cd_calls (na_drop (na_step api be e s))) \<Longrightarrow>
      x \<in> set (cd_calls (na_drop s)) \<or> cd_asked (na_drop s) = Some x"
    by (cases e) (auto simp: na_defs cd_defs Let_def split: sum.splits prod.splits option.splits if_splits
        dest: subsetD [OF set_remove1_subset])
qed

text \<open>The namespace \<open>default\<close> is never deleted.\<close>

lemma default_never_deleted:
  "''default'' \<notin> set (cd_calls (na_drop (fold (na_step api be) es (na_mounted api cx qs st))))"
proof
  assume a: "''default'' \<in> set (cd_calls (na_drop (fold (na_step api be) es (na_mounted api cx qs st))))"
  have "cd_asked (na_drop (na_mounted api cx qs st)) = None" "cd_calls (na_drop (na_mounted api cx qs st)) = []"
    by (simp_all add: na_mounted_def cd_closed_def)
  from nd.deleted_was_asked [OF this a] obtain before e where
    "ns_asks e (fold (na_step api be) before (na_mounted api cx qs st)) = Some ''default''" by blast
  then show False by (auto elim!: ns_asks.elims split: if_splits)
qed

text \<open>The quotas are kept under the name of their namespace, so every row is the one of its namespace.\<close>

definition quotas_named :: "NsQuota js_map \<Rightarrow> bool" where
  "quotas_named qs \<longleftrightarrow> (\<forall>(n, q) \<in> set qs. nq_name q = n)"

lemma quotas_named_put: "quotas_named qs \<Longrightarrow> quotas_named (js_put n (quota_row n q) qs)"
  by (induction n "quota_row n q" qs rule: js_put.induct) (auto simp: quotas_named_def quota_row_def)

lemma quotas_named_step: "quotas_named (na_quotas s) \<Longrightarrow> quotas_named (na_quotas (na_step api be e s))"
proof (cases e)
  case (NaListed r)
  have "quotas_named qs \<Longrightarrow> quotas_named (fold (\<lambda>(n, q). js_put n (quota_row n q)) remote qs)" for remote qs
    by (induction remote arbitrary: qs) (auto simp: quotas_named_put)
  then show "quotas_named (na_quotas s) \<Longrightarrow> quotas_named (na_quotas (na_step api be e s))"
    by (simp add: NaListed quotas_listed_def split: sum.splits)
qed (auto simp: na_defs Let_def quotas_named_put split: sum.splits prod.splits option.splits;
     simp add: quotas_named_def js_delete_def)+

lemma rows_of_namespaces:
  assumes "quotas_named qs"
  shows "map nq_name (ns_data (fold (na_step api be) es (na_mounted api cx qs st))) =
    cx_namespaces (na_context (fold (na_step api be) es (na_mounted api cx qs st)))"
proof -
  have "quotas_named (na_quotas (fold (na_step api be) es (na_mounted api cx qs st)))"
    using assms by (induction es rule: rev_induct) (simp_all add: na_mounted_def quotas_named_step)
  then have "nq_name (nullish (map_of (na_quotas (fold (na_step api be) es (na_mounted api cx qs st))) n)
      (quota_row n (quota_of 0 0 0 0))) = n" for n
    by (cases "map_of (na_quotas (fold (na_step api be) es (na_mounted api cx qs st))) n")
      (auto simp: quota_row_def quotas_named_def dest: map_of_SomeD)
  then show ?thesis by (simp add: ns_data_def o_def)
qed

text \<open>
  A creation answered puts the namespace on offer once, with the quota answered, and leaves the other rows as
  they were; a deletion answered takes its row away and no other; a failure leaves the table as it was.
\<close>

theorem namespace_table_follows:
  assumes "distinct (cx_namespaces (na_context s))" "quotas_named (na_quotas s)"
  shows "distinct (cx_namespaces (na_context (ns_created api send c s))) \<and>
    (\<forall>m. m \<in> set (ns_data (ns_created api send c s)) \<longleftrightarrow>
      (case (if api then send (createNamespace (nf_name (snd c)) None (nf_quota (snd c)))
             else Inr (nf_name (snd c), nf_quota (snd c))) of
         Inl e \<Rightarrow> m \<in> set (ns_data s)
       | Inr (n, q) \<Rightarrow> m = quota_row n q \<or> (m \<in> set (ns_data s) \<and> nq_name m \<noteq> n))) \<and>
    (\<forall>m. m \<in> set (ns_data (ns_deleted api put d s)) \<longleftrightarrow>
      m \<in> set (ns_data s) \<and> (nq_name m \<noteq> d \<or> (api \<and> (\<exists>e. put (deleteNamespace d) = Inl e))))"
proof -
  let ?row = "\<lambda>qs n. nullish (map_of qs n) (quota_row n (quota_of 0 0 0 0))"
  have named: "nq_name (?row (na_quotas s) n) = n" for n
    using assms(2) by (cases "map_of (na_quotas s) n") (auto simp: quota_row_def quotas_named_def dest: map_of_SomeD)
  have rows: "m \<in> set (ns_data s) \<longleftrightarrow> (\<exists>n \<in> set (cx_namespaces (na_context s)). m = ?row (na_quotas s) n)" for m
    by (auto simp: ns_data_def)
  have put_rows: "m \<in> ?row (js_put n (quota_row n q) (na_quotas s)) ` (insert n (set (cx_namespaces (na_context s)))) \<longleftrightarrow>
      m = quota_row n q \<or> (m \<in> set (ns_data s) \<and> nq_name m \<noteq> n)" for m n q
    using named by (auto simp: rows map_of_js_put image_iff)
  have offered: "set (cx_namespaces (addNamespace n cx)) = insert n (set (cx_namespaces cx))" for n cx
    by (auto simp: addNamespace_def)
  have created: "m \<in> set (ns_data (ns_created api send c s)) \<longleftrightarrow>
      (case (if api then send (createNamespace (nf_name (snd c)) None (nf_quota (snd c)))
             else Inr (nf_name (snd c), nf_quota (snd c))) of
         Inl e \<Rightarrow> m \<in> set (ns_data s)
       | Inr (n, q) \<Rightarrow> m = quota_row n q \<or> (m \<in> set (ns_data s) \<and> nq_name m \<noteq> n))" for m
  proof (cases "if api then send (createNamespace (nf_name (snd c)) None (nf_quota (snd c)))
      else Inr (nf_name (snd c), nf_quota (snd c))")
    case (Inl e)
    then show ?thesis by (simp add: ns_created_def Let_def na_notify_def ns_data_def)
  next
    case (Inr p)
    then show ?thesis using put_rows [of m "fst p" "snd p"]
      by (cases p) (simp add: ns_created_def Let_def na_notify_def ns_data_def offered)
  qed
  have deleted: "m \<in> set (ns_data (ns_deleted api put d s)) \<longleftrightarrow>
      m \<in> set (ns_data s) \<and> (nq_name m \<noteq> d \<or> (api \<and> (\<exists>e. put (deleteNamespace d) = Inl e)))" for m
  proof (cases "if api then put (deleteNamespace d) else Inr ()")
    case (Inl e)
    then show ?thesis by (auto simp: ns_deleted_def Let_def na_notify_def ns_data_def split: if_splits)
  next
    case (Inr u)
    have "m \<in> ?row (js_delete d (na_quotas s)) ` {n \<in> set (cx_namespaces (na_context s)). n \<noteq> d} \<longleftrightarrow>
        m \<in> set (ns_data s) \<and> nq_name m \<noteq> d"
      using named by (auto simp: rows map_of_js_delete image_iff)
    then show ?thesis using Inr
      by (simp add: ns_deleted_def Let_def na_notify_def ns_data_def removeNamespace_def split: if_splits)
  qed
  have "distinct (cx_namespaces (na_context (ns_created api send c s)))"
    using assms(1) by (auto simp: ns_created_def Let_def na_notify_def addNamespace_def split: sum.splits)
  then show ?thesis using created deleted by blast
qed

definition sample_namespaces :: namespaces_page where
  "sample_namespaces = na_mounted True ((AppProvider True None None False)\<lparr>cx_namespaces := [''default'', ''team-a'']\<rparr>)
     [(''default'', quota_row ''default'' (quota_of 32 64 0 50))] (sample_rbac\<lparr>user_rows := [sample_carol]\<rparr>)"

theorem namespace_table_follows_witness:
  "quota_row ''team-b'' (quota_of 1 2 3 4) \<in>
     set (ns_data (ns_created True (\<lambda>_. Inr (''team-b'', quota_of 1 2 3 4)) ((), new_ns_form) sample_namespaces)) \<and>
   quota_row ''team-a'' (quota_of 0 0 0 0) \<notin> set (ns_data (ns_deleted True (\<lambda>_. Inr ()) ''team-a'' sample_namespaces))"
proof -
  have "distinct (cx_namespaces (na_context sample_namespaces))" "quotas_named (na_quotas sample_namespaces)"
    by (simp_all add: sample_namespaces_def na_mounted_def quotas_named_def quota_row_def)
  note f = namespace_table_follows [OF this, where api = True and send = "\<lambda>_. Inr (''team-b'', quota_of 1 2 3 4)"
      and c = "((), new_ns_form)" and put = "\<lambda>_. Inr ()" and d = "''team-a''"]
  show ?thesis using f by (simp add: quota_row_def)
qed

text \<open>
  In prototype mode choosing a role, removing and adding a member change that user's role in that namespace and
  nothing else.
\<close>

lemma member_change_exact:
  assumes "keys_ok u_id (user_rows (na_users s))" "u \<in> set (user_rows (na_users s))" "w \<in> set (user_rows (na_users s))"
    "c = role_chosen ns u r \<and> new = Some r \<or> c = member_removed ns u \<and> new = None"
  shows "\<exists>w' \<in> set (user_rows (na_users (member_answered False send c s))). u_id w' = u_id w \<and>
    u_isPlatformAdmin w' = u_isPlatformAdmin w \<and>
    (\<forall>m. map_of (memberships w') m = (if w = u \<and> m = ns then new else map_of (memberships w) m))"
proof -
  have own: "x = u" if "x \<in> set (user_rows (na_users s))" "u_id x = u_id u" for x
    using assms(1,2) that by (metis keys_ok_def option.inject unique_key)
  have c: "fst c = u_id u" "fst (snd c) = u_isPlatformAdmin u"
    "map_of (snd (snd c)) m = (if m = ns then new else map_of (memberships u) m)" for m
    using assms(4) by (auto simp: role_chosen_def member_removed_def map_of_js_put map_of_js_delete)
  let ?f = "\<lambda>x. if u_id x = fst c then x\<lparr>u_isPlatformAdmin := fst (snd c), u_memberships := Some (snd (snd c))\<rparr> else x"
  have "user_rows (na_users (member_answered False send c s)) = map ?f (user_rows (na_users s))"
    by (simp add: member_answered_def updateUser_def Let_def map_where_def)
  then have "?f w \<in> set (user_rows (na_users (member_answered False send c s)))" using assms(3) by simp
  moreover have "u_id (?f w) = u_id w" "u_isPlatformAdmin (?f w) = u_isPlatformAdmin w"
    using own [OF assms(3)] by (auto simp: c)
  moreover have "map_of (memberships (?f w)) m = (if w = u \<and> m = ns then new else map_of (memberships w) m)" for m
    using own [OF assms(3)] by (auto simp: c memberships_def)
  ultimately show ?thesis by blast
qed

text \<open>
  What deleting does not detach: the users keep their role in the namespace deleted, and have it again in one
  created under its name.
\<close>

lemma recreated_namespace_keeps_members:
  "membersIn (ns_created False send' ((), \<lparr>nf_name = n, nf_quota = q\<rparr>) (ns_deleted False send n s)) n = membersIn s n"
  by (simp add: ns_created_def ns_deleted_def Let_def na_notify_def membersIn_def)

text \<open>
  Each change sends the whole object of memberships read from the row, so of two changes of one user asked for
  before the first is answered, the second is sent without the first.
\<close>

lemma second_change_drops_first:
  assumes "map_of (memberships u) a \<noteq> Some r" "a \<noteq> b" "s' = fold (na_step True be) [NaMembers a, NaRole u r, NaMembers b, NaRole u r'] s"
    "a \<in> nq_name ` set (ns_data s)" "b \<in> nq_name ` set (ns_data s)" "na_updates s = []"
    "u \<in> fst ` set (membersIn s a)" "u \<in> fst ` set (membersIn s b)"
  shows "\<exists>first second. na_updates s' = [first, second] \<and>
    map_of (snd (snd first)) a = Some r \<and> map_of (snd (snd second)) a \<noteq> Some r"
proof -
  have same: "ns_data (s\<lparr>na_members := m, na_updates := us\<rparr>) = ns_data s"
    "membersIn (s\<lparr>na_members := m, na_updates := us\<rparr>) n = membersIn s n" for m us n
    by (simp_all add: ns_data_def membersIn_def)
  have "na_updates s' = [role_chosen a u r, role_chosen b u r']"
    using assms(4-8) same same [where us = "na_updates s"] by (simp add: assms(3) ns_data_def membersIn_def)
  then show ?thesis using assms(1,2) by (simp add: role_chosen_def map_of_js_put)
qed

subsection \<open>GPU profiles\<close>

text \<open>
  The fields of the form; it has no input for the step. A number input emptied again is read as one never
  filled in.
\<close>

record gpu_field_form =
  ff_key :: string
  ff_label :: string
  ff_unit :: "string option"
  ff_default :: "(int \<times> int) option"
  ff_min :: "(int \<times> int) option"
  ff_max :: "(int \<times> int) option"

record profile_form =
  pf_name :: string
  pf_kind :: gpu_kind
  pf_description :: "string option"
  pf_fields :: "gpu_field_form list option"

definition new_profile_form :: profile_form where
  "new_profile_form = \<lparr>pf_name = [], pf_kind = GpuCustom, pf_description = None, pf_fields = None\<rparr>"

definition profile_valid :: "unit \<Rightarrow> profile_form \<Rightarrow> bool" where
  "profile_valid u v \<longleftrightarrow> pf_name v \<noteq> [] \<and>
     list_all (\<lambda>f. ff_key f \<noteq> [] \<and> ff_label f \<noteq> [] \<and> ff_default f \<noteq> None) (nullish (pf_fields v) [])"

definition profile_payload :: "profile_form \<Rightarrow> profile_input" where
  "profile_payload v =
     \<lparr>profile_input.pi_name = pf_name v, pi_kind = pf_kind v, pi_description = nullish (pf_description v) [],
      pi_fields = map (\<lambda>f. \<lparr>gf_key = ff_key f, gf_label = ff_label f, gf_unit = ff_unit f,
        gf_defaultValue = FieldNumber (nullish (ff_default f) (0, 0)), gf_step = None,
        gf_min = ff_min f, gf_max = ff_max f\<rparr>) (nullish (pf_fields v) [])\<rparr>"

record profiles_page =
  pp_canWrite :: bool
  pp_store :: gpu_profiles
  pp_add :: "(unit, profile_form, unit) form_dialog"
  pp_drop :: "GPUProfile confirm_dialog"
  pp_notices :: "notice list"

definition pp_mounted :: "bool \<Rightarrow> app_context \<Rightarrow> gpu_profiles \<Rightarrow> profiles_page" where
  "pp_mounted api cx st =
     \<lparr>pp_canWrite = usr_isPlatformAdmin (cx_user cx), pp_store = ensureGPUProfilesLoaded api st, pp_add = fd_closed,
      pp_drop = cd_closed, pp_notices = []\<rparr>"

definition profile_answered ::
  "bool \<Rightarrow> GPUProfileDTO backend \<Rightarrow> string \<Rightarrow> unit \<times> profile_form \<Rightarrow> profiles_page \<Rightarrow> profiles_page" where
  "profile_answered api send draw c s =
     (let (r, st) = addGPUProfile api send draw (profile_payload (snd c)) (pp_store s)
      in s\<lparr>pp_store := st, pp_add := fd_answered c (settled r) (pp_add s),
           pp_notices := pp_notices s @ [outcome r (Success (''Profile '' @ pf_name (snd c) @ '' added''))]\<rparr>)"

text \<open>The question closes with a failed deletion too, for the handler keeps the error to itself.\<close>

definition profile_dropped :: "bool \<Rightarrow> unit backend \<Rightarrow> GPUProfile \<Rightarrow> profiles_page \<Rightarrow> profiles_page" where
  "profile_dropped api send p s =
     (let (r, st) = removeGPUProfile api send (gp_id p) (pp_store s)
      in s\<lparr>pp_store := st, pp_drop := cd_answered p True (pp_drop s),
           pp_notices := pp_notices s @ [outcome r (Success ''Profile removed'')]\<rparr>)"

datatype profile_change =
    ProfileNamed string | ProfileKind gpu_kind | ProfileDescribed string | FieldAdded | FieldRemoved nat
  | FieldChanged nat "gpu_field_form \<Rightarrow> gpu_field_form"

fun profile_changed :: "profile_change \<Rightarrow> profile_form \<Rightarrow> profile_form" where
  "profile_changed (ProfileNamed n) v = v\<lparr>pf_name := n\<rparr>"
| "profile_changed (ProfileKind k) v = v\<lparr>pf_kind := k\<rparr>"
| "profile_changed (ProfileDescribed d) v = v\<lparr>pf_description := Some d\<rparr>"
| "profile_changed FieldAdded v = v\<lparr>pf_fields := Some (entry_added
     \<lparr>ff_key = [], ff_label = [], ff_unit = None, ff_default = Some (1, 0), ff_min = None, ff_max = None\<rparr>
     (nullish (pf_fields v) []))\<rparr>"
| "profile_changed (FieldRemoved i) v = v\<lparr>pf_fields := Some (entry_removed i (nullish (pf_fields v) []))\<rparr>"
| "profile_changed (FieldChanged i f) v = v\<lparr>pf_fields := Some (entry_changed i f (nullish (pf_fields v) []))\<rparr>"

datatype profiles_event =
    PpStore gpu_profiles | PpRefresh | PpNew | PpForm profile_change | PpClosed | PpOk | PpAnswered string "unit \<times> profile_form"
  | PpDrop GPUProfile | PpDropOk | PpDropClosed | PpDropped GPUProfile

fun pp_step ::
  "bool \<Rightarrow> GPUProfileDTO backend \<Rightarrow> unit backend \<Rightarrow> profiles_event \<Rightarrow> profiles_page \<Rightarrow> profiles_page" where
  "pp_step api send put (PpStore st) s = s\<lparr>pp_store := st\<rparr>"
| "pp_step api send put PpRefresh s = s\<lparr>pp_store := reloadGPUProfiles api (pp_store s)\<rparr>"
| "pp_step api send put PpNew s =
     (if pp_canWrite s then s\<lparr>pp_add := fd_opened () new_profile_form (pp_add s)\<rparr> else s)"
| "pp_step api send put (PpForm x) s = s\<lparr>pp_add := fd_changed (profile_changed x) (pp_add s)\<rparr>"
| "pp_step api send put PpClosed s = s\<lparr>pp_add := fd_cancelled (pp_add s)\<rparr>"
| "pp_step api send put PpOk s = s\<lparr>pp_add := fd_confirmed True profile_valid id (pp_add s)\<rparr>"
| "pp_step api send put (PpAnswered draw c) s =
     (if c \<in> set (fd_calls (pp_add s)) then profile_answered api send draw c s else s)"
| "pp_step api send put (PpDrop p) s =
     (if pp_canWrite s \<and> \<not> gp_builtin p \<and> p \<in> set (profile_rows (pp_store s))
      then s\<lparr>pp_drop := cd_asking p (pp_drop s)\<rparr> else s)"
| "pp_step api send put PpDropOk s = s\<lparr>pp_drop := cd_confirmed (pp_drop s)\<rparr>"
| "pp_step api send put PpDropClosed s = s\<lparr>pp_drop := cd_cancelled (pp_drop s)\<rparr>"
| "pp_step api send put (PpDropped p) s =
     (if p \<in> set (cd_calls (pp_drop s)) then profile_dropped api put p s else s)"

lemmas pp_defs = profile_answered_def profile_dropped_def

fun profile_fills :: "profiles_event \<Rightarrow> profiles_page \<Rightarrow> (unit \<times> profile_form) option" where
  "profile_fills PpNew s = (if pp_canWrite s then Some ((), new_profile_form) else None)"
| "profile_fills _ s = None"

fun profile_changes :: "profiles_event \<Rightarrow> profile_form \<Rightarrow> profile_form" where
  "profile_changes (PpForm x) v = profile_changed x v"
| "profile_changes _ v = v"

fun profile_asks :: "profiles_event \<Rightarrow> profiles_page \<Rightarrow> GPUProfile option" where
  "profile_asks (PpDrop p) s =
     (if pp_canWrite s \<and> \<not> gp_builtin p \<and> p \<in> set (profile_rows (pp_store s)) then Some p else None)"
| "profile_asks _ s = None"

interpretation pa: form_saving "pp_step api send put" pp_add profile_valid "\<lambda>s. id" profile_fills profile_changes
  for api send put
proof unfold_locales
  fix e s
  show "fd_form (pp_add (pp_step api send put e s)) = None \<or>
      fd_form (pp_add (pp_step api send put e s)) = (case profile_fills e s of Some p \<Rightarrow> Some p
        | None \<Rightarrow> map_option (\<lambda>(k, v). (k, profile_changes e v)) (fd_form (pp_add s)))"
    by (cases e) (auto simp: pp_defs fd_defs Let_def option.map_id split: prod.splits option.splits)
next
  fix e s and p :: "unit \<times> profile_form"
  show "p \<in> set (fd_calls (pp_add (pp_step api send put e s))) \<Longrightarrow> p \<in> set (fd_calls (pp_add s)) \<or>
      (\<exists>k v. fd_form (pp_add s) = Some (k, v) \<and> profile_valid k v \<and> p = (id k, v))"
    by (cases e; cases p) (auto simp: pp_defs fd_defs Let_def split: prod.splits option.splits if_splits
        dest: subsetD [OF set_remove1_subset])
qed

interpretation pd: asked_first "pp_step api send put" pp_drop profile_asks
  for api send put
proof unfold_locales
  fix e s x
  show "cd_asked (pp_drop (pp_step api send put e s)) = Some x \<Longrightarrow>
      cd_asked (pp_drop s) = Some x \<or> profile_asks e s = Some x"
    by (cases e) (auto simp: pp_defs cd_defs Let_def split: prod.splits option.splits if_splits)
  show "x \<in> set (cd_calls (pp_drop (pp_step api send put e s))) \<Longrightarrow>
      x \<in> set (cd_calls (pp_drop s)) \<or> cd_asked (pp_drop s) = Some x"
    by (cases e) (auto simp: pp_defs cd_defs Let_def split: prod.splits option.splits if_splits
        dest: subsetD [OF set_remove1_subset])
qed

lemma canWrite_kept: "pp_canWrite (fold (pp_step api send put) es s) = pp_canWrite s"
proof (induction es rule: rev_induct)
  case (snoc e es)
  then show ?case by (cases e) (simp_all add: pp_defs Let_def split: prod.splits)
qed simp

text \<open>Only a platform admin adds or deletes profiles, and no built-in profile is ever deleted.\<close>

lemma profiles_guarded:
  "(fd_calls (pp_add (fold (pp_step api send put) es (pp_mounted api cx st))) \<noteq> [] \<longrightarrow> usr_isPlatformAdmin (cx_user cx)) \<and>
   (\<forall>p \<in> set (cd_calls (pp_drop (fold (pp_step api send put) es (pp_mounted api cx st)))).
      usr_isPlatformAdmin (cx_user cx) \<and> \<not> gp_builtin p)"
proof -
  let ?s0 = "pp_mounted api cx st"
  have start: "fd_form (pp_add ?s0) = None" "fd_calls (pp_add ?s0) = []" "cd_asked (pp_drop ?s0) = None"
    "cd_calls (pp_drop ?s0) = []" "pp_canWrite ?s0 = usr_isPlatformAdmin (cx_user cx)"
    by (simp_all add: pp_mounted_def fd_closed_def cd_closed_def)
  have "usr_isPlatformAdmin (cx_user cx)" if c: "(u, v) \<in> set (fd_calls (pp_add (fold (pp_step api send put) es ?s0)))" for u v
  proof -
    from pa.sent_as_filled [OF start(1,2) c] obtain before e k v0 where
      "profile_fills e (fold (pp_step api send put) before ?s0) = Some (k, v0)" by blast
    then show ?thesis using start(5) by (auto simp: canWrite_kept elim!: profile_fills.elims split: if_splits)
  qed
  moreover have "usr_isPlatformAdmin (cx_user cx) \<and> \<not> gp_builtin p"
    if d: "p \<in> set (cd_calls (pp_drop (fold (pp_step api send put) es ?s0)))" for p
  proof -
    from pd.deleted_was_asked [OF start(3,4) d] obtain before e where
      "profile_asks e (fold (pp_step api send put) before ?s0) = Some p" by blast
    then show ?thesis using start(5) by (auto simp: canWrite_kept elim!: profile_asks.elims split: if_splits)
  qed
  ultimately show ?thesis by (metis list.set_intros(1) neq_Nil_conv surj_pair)
qed

text \<open>A profile added from the form has no step, and every field has its number.\<close>

lemma profile_fields_sent:
  "profile_valid u v \<Longrightarrow> list_all (\<lambda>f. gf_step f = None \<and> gf_key f \<noteq> [] \<and> gf_label f \<noteq> []) (pi_fields (profile_payload v))"
  by (simp add: profile_valid_def profile_payload_def list_all_iff)

subsection \<open>Tables and choices\<close>

text \<open>What the tables write: texts, with the middle dot and the dash of the pages in UTF-8.\<close>

definition middle_dot :: string where
  "middle_dot = '' '' @ [CHR 0xC2, CHR 0xB7] @ '' ''"

definition or_dash :: "string list \<Rightarrow> string list" where
  "or_dash tags = (if tags = [] then [em_dash] else tags)"

definition VERBS :: "string list" where
  "VERBS = [''get'', ''list'', ''watch'', ''create'', ''update'', ''patch'', ''delete'']"

definition GROUPS :: "string list" where
  "GROUPS = ['''', ''apps'', ''batch'', ''serving.kserve.io'', ''trainer.kubeflow.org'', ''kubeflow.org'', ''*'']"

text \<open>The label and the value of an option.\<close>

definition group_options :: "(string \<times> string) list" where
  "group_options = map (\<lambda>g. (or_str g [CHR 0x22, CHR 0x22], g)) GROUPS"

definition verb_options :: "(string \<times> string) list" where
  "verb_options = map (\<lambda>v. (v, v)) (VERBS @ [''*''])"

definition role_options :: "roles_page \<Rightarrow> (string \<times> string) list" where
  "role_options s = map (\<lambda>r. (role_kind_text (role_kind r) @ ''/'' @ role_name r, role_option (role_kind r) (role_name r))) (nsRoles s)"

definition binding_user_options :: "roles_page \<Rightarrow> (string \<times> string) list" where
  "binding_user_options s = map (\<lambda>u. (u_name u @ '' ('' @ u_email u @ '')'', u_name u)) (user_rows (ro_store s))"

definition role_cells :: "Role \<Rightarrow> string list" where
  "role_cells r = [role_name r, role_kind_text (role_kind r), show_nat (length (role_rules r))]"

definition rule_cells :: "role_rule \<Rightarrow> string list" where
  "rule_cells x = [or_str (join '','' (rule_apiGroups x)) [CHR 0x22, CHR 0x22], join '','' (rule_resources x), join '','' (rule_verbs x)]"

definition binding_cells :: "RoleBinding \<Rightarrow> string \<times> string \<times> string list" where
  "binding_cells b =
     (rb_name b, role_kind_text (fst (rb_roleRef b)) @ ''/'' @ snd (rb_roleRef b),
      map (\<lambda>(k, n). subject_text k @ '':'' @ n) (rb_subjects b))"

definition user_cells :: "UserRecord \<Rightarrow> string list \<times> string list" where
  "user_cells u =
     ([u_name u, u_email u, u_oidcSub u, u_firstSeen u, u_lastSeen u, if u_isPlatformAdmin u then ''Yes'' else ''No''],
      or_dash (map (\<lambda>(ns, r). ns @ middle_dot @ role_text r) (memberships u)))"

definition member_tag :: "UserRecord \<times> NamespaceRole \<Rightarrow> string" where
  "member_tag m = u_name (fst m) @ middle_dot @ role_text (snd m)"

definition member_tags :: "namespaces_page \<Rightarrow> string \<Rightarrow> string list" where
  "member_tags s ns =
     map member_tag (take 4 (membersIn s ns)) @
     (if length (membersIn s ns) > 4 then [''+'' @ show_nat (length (membersIn s ns) - 4)] else [])"

definition namespace_cells :: "namespaces_page \<Rightarrow> NsQuota \<Rightarrow> string list \<times> string list" where
  "namespace_cells s q =
     ([nq_name q, show_int (quota_cpu (nq_quota q)) @ '' cores'', show_int (quota_memory (nq_quota q)) @ '' Gi'',
       show_int (quota_gpu (nq_quota q)), show_int (quota_pods (nq_quota q))],
      member_tags s (nq_name q))"

fun node_role_text :: "node_role \<Rightarrow> string" where
  "node_role_text ControlPlane = ''control-plane''"
| "node_role_text Worker = ''worker''"
| "node_role_text GpuWorker = ''gpu-worker''"

fun node_status_text :: "node_status \<Rightarrow> string" where
  "node_status_text NodeReady = ''Ready''"
| "node_status_text NodeNotReady = ''NotReady''"

definition node_cells :: "NodeInfo \<Rightarrow> string list" where
  "node_cells n = [nd_name n, node_role_text (nd_role n), nd_cpu n, nd_memory n, nd_gpu n,
     node_status_text (nd_status n), nd_kubelet n]"

definition node_details :: "NodeInfo \<Rightarrow> string list \<times> string list" where
  "node_details n = (or_dash (map (\<lambda>(k, v). k @ ''='' @ v) (nd_labels n)), or_dash (map taint_tag (nd_taints n)))"

definition shown_value :: "field_value \<Rightarrow> string + (int \<times> int)" where
  "shown_value v = (case v of FieldText t \<Rightarrow> Inl t | FieldNumber d \<Rightarrow> Inr d)"

definition shown_bound :: "(int \<times> int) option \<Rightarrow> string + (int \<times> int)" where
  "shown_bound v = (case v of None \<Rightarrow> Inl em_dash | Some d \<Rightarrow> Inr d)"

definition profile_cells :: "GPUProfile \<Rightarrow> string list" where
  "profile_cells p = [gp_name p, gpu_kind_text (gp_kind p), gp_description p,
     if gp_builtin p then ''built-in'' else ''custom'']"

definition profile_field_cells :: "GPUProfileField \<Rightarrow> string list \<times> (string + (int \<times> int)) list" where
  "profile_field_cells f =
     ([gf_key f, gf_label f, nullish (gf_unit f) em_dash],
      [shown_value (gf_defaultValue f), shown_bound (gf_min f), shown_bound (gf_max f)])"

text \<open>
  At most five tags name the members of a namespace, and what the last counts is what is not named; the members
  shown for a namespace and the users offered to be added share no one.
\<close>

lemma member_tags_account:
  "length (member_tags s ns) \<le> 5 \<and>
   (length (membersIn s ns) > 4 \<longrightarrow>
      (\<exists>k. last (member_tags s ns) = ''+'' @ show_nat k \<and> k + 4 = length (membersIn s ns)))"
  by (auto simp: member_tags_def intro!: exI [of _ "length (membersIn s ns) - 4"])

lemma members_not_offered:
  assumes "na_members s = Some ns" "u \<in> set (assign_options s)"
  shows "u \<notin> fst ` set (membersIn s ns)"
  using assms by (auto simp: assign_options_def membersIn_def List.map_filter_def split: if_splits)

text \<open>A role is read back from the value its option has when its name has no colon.\<close>

lemma role_option_read: "CHR '':'' \<notin> set n \<Longrightarrow> read_role_option (role_option k n) = (k, n)"
  by (cases k) (simp_all add: read_role_option_def role_option_def split_on_free)

end
