(* ===== verification/Config_Pages.thy ===== *)
theory Config_Pages
  imports Form_Dialogs Ai_Storage App_Context Components Playground_Store Inference Event_Streams
begin

text \<open>
  The configuration pages: S3 secrets and GitLab configurations of a namespace (\<open>pages/admin/S3Secrets.tsx\<close>,
  \<open>pages/admin/GitLabConfigs.tsx\<close>), the image registry (\<open>pages/admin/Registry.tsx\<close>), the components
  (\<open>pages/admin/Components.tsx\<close>) and the registry of language models (\<open>pages/playground/Registry.tsx\<close>). The first two
  have one shape and are one machine over what differs.
\<close>

subsection \<open>Secrets and configurations of a namespace\<close>

text \<open>
  What differs between the two pages: their requests, their forms and their words. \<open>kk_filled\<close> is what the effect
  of an opened editor writes into its form, \<open>kk_patch\<close> the request its confirmation makes of it.
\<close>

record ('r, 'c, 'e) keyed_kind =
  kk_listing :: "string \<Rightarrow> http_request"
  kk_name :: "'r \<Rightarrow> string"
  kk_new :: 'c
  kk_newValid :: "'c \<Rightarrow> bool"
  kk_create :: "string \<Rightarrow> 'c \<Rightarrow> http_request"
  kk_filled :: "'r \<Rightarrow> 'e"
  kk_editValid :: "'e \<Rightarrow> bool"
  kk_patch :: "string \<Rightarrow> string \<Rightarrow> 'e \<Rightarrow> http_request"
  kk_delete :: "string \<Rightarrow> string \<Rightarrow> http_request"
  kk_label :: string

record ('r, 'c, 'e) keyed_page =
  kp_namespace :: string
  kp_store :: "'r ns_keyed"
  kp_create :: "(unit, 'c, string) form_dialog"
  kp_edit :: "('r, 'e, string \<times> 'r) form_dialog"
  kp_drop :: "(string \<times> 'r) confirm_dialog"
  kp_notices :: "notice list"

definition kp_items :: "('r, 'c, 'e) keyed_page \<Rightarrow> 'r list" where
  "kp_items s = use_keyed (kp_namespace s) (kp_store s)"

definition kp_mounted :: "('r, 'c, 'e) keyed_kind \<Rightarrow> bool \<Rightarrow> string \<Rightarrow> 'r ns_keyed \<Rightarrow> ('r, 'c, 'e) keyed_page" where
  "kp_mounted K api ns st =
     \<lparr>kp_namespace = ns, kp_store = ensure_keyed (kk_listing K) api ns st, kp_create = fd_closed, kp_edit = fd_closed,
      kp_drop = cd_closed, kp_notices = []\<rparr>"

definition kp_namespace_chosen ::
  "('r, 'c, 'e) keyed_kind \<Rightarrow> bool \<Rightarrow> string \<Rightarrow> ('r, 'c, 'e) keyed_page \<Rightarrow> ('r, 'c, 'e) keyed_page" where
  "kp_namespace_chosen K api ns s =
     (if ns = kp_namespace s then s
      else s\<lparr>kp_namespace := ns, kp_store := ensure_keyed (kk_listing K) api ns (kp_store s)\<rparr>)"

text \<open>A call that succeeds is reported and followed by a reload of the namespace it was made in.\<close>

definition kp_reported ::
  "('r, 'c, 'e) keyed_kind \<Rightarrow> bool \<Rightarrow> string \<Rightarrow> string \<Rightarrow> unit promise \<Rightarrow> ('r, 'c, 'e) keyed_page \<Rightarrow> ('r, 'c, 'e) keyed_page" where
  "kp_reported K api ns verb r s =
     (case r of
        Inl e \<Rightarrow> s\<lparr>kp_notices := kp_notices s @ [Failure (js_message e)]\<rparr>
      | Inr _ \<Rightarrow> s\<lparr>kp_notices := kp_notices s @ [Success (kk_label K @ verb)],
          kp_store := reload_keyed (kk_listing K) api ns (kp_store s)\<rparr>)"

definition succeeded :: "'r promise \<Rightarrow> bool" where
  "succeeded r = (case r of Inl e \<Rightarrow> False | Inr _ \<Rightarrow> True)"

definition kp_created ::
  "('r, 'c, 'e) keyed_kind \<Rightarrow> bool \<Rightarrow> unit backend \<Rightarrow> string \<times> 'c \<Rightarrow> ('r, 'c, 'e) keyed_page \<Rightarrow> ('r, 'c, 'e) keyed_page" where
  "kp_created K api send c s =
     (let r = send (kk_create K (fst c) (snd c))
      in kp_reported K api (fst c) '' created'' r (s\<lparr>kp_create := fd_answered c (succeeded r) (kp_create s)\<rparr>))"

definition kp_patched ::
  "('r, 'c, 'e) keyed_kind \<Rightarrow> bool \<Rightarrow> unit backend \<Rightarrow> (string \<times> 'r) \<times> 'e \<Rightarrow> ('r, 'c, 'e) keyed_page \<Rightarrow> ('r, 'c, 'e) keyed_page" where
  "kp_patched K api send c s =
     (let ns = fst (fst c); r = send (kk_patch K ns (kk_name K (snd (fst c))) (snd c))
      in kp_reported K api ns '' updated'' r (s\<lparr>kp_edit := fd_answered c (succeeded r) (kp_edit s)\<rparr>))"

text \<open>The question closes with a failed deletion too, for the handler keeps the error to itself.\<close>

definition kp_deleted ::
  "('r, 'c, 'e) keyed_kind \<Rightarrow> bool \<Rightarrow> unit backend \<Rightarrow> string \<times> 'r \<Rightarrow> ('r, 'c, 'e) keyed_page \<Rightarrow> ('r, 'c, 'e) keyed_page" where
  "kp_deleted K api send c s =
     kp_reported K api (fst c) '' deleted'' (send (kk_delete K (fst c) (kk_name K (snd c))))
       (s\<lparr>kp_drop := cd_answered c True (kp_drop s)\<rparr>)"

datatype ('r, 'c, 'e) keyed_event =
    KpNamespace string | KpStore "'r ns_keyed" | KpRefresh
  | KpNew | KpNewForm "'c \<Rightarrow> 'c" | KpNewClosed | KpNewOk | KpCreated "string \<times> 'c"
  | KpEdit 'r | KpForm "'e \<Rightarrow> 'e" | KpEditClosed | KpEditOk | KpPatched "(string \<times> 'r) \<times> 'e"
  | KpDrop 'r | KpDropOk | KpDropClosed | KpDeleted "string \<times> 'r"

fun kp_step ::
  "('r, 'c, 'e) keyed_kind \<Rightarrow> bool \<Rightarrow> unit backend \<Rightarrow> ('r, 'c, 'e) keyed_event \<Rightarrow> ('r, 'c, 'e) keyed_page \<Rightarrow>
     ('r, 'c, 'e) keyed_page" where
  "kp_step K api send (KpNamespace ns) s = kp_namespace_chosen K api ns s"
| "kp_step K api send (KpStore st) s = s\<lparr>kp_store := st\<rparr>"
| "kp_step K api send KpRefresh s = s\<lparr>kp_store := reload_keyed (kk_listing K) api (kp_namespace s) (kp_store s)\<rparr>"
| "kp_step K api send KpNew s = s\<lparr>kp_create := fd_opened () (kk_new K) (kp_create s)\<rparr>"
| "kp_step K api send (KpNewForm f) s = s\<lparr>kp_create := fd_changed f (kp_create s)\<rparr>"
| "kp_step K api send KpNewClosed s = s\<lparr>kp_create := fd_cancelled (kp_create s)\<rparr>"
| "kp_step K api send KpNewOk s =
     s\<lparr>kp_create := fd_confirmed False (\<lambda>_. kk_newValid K) (\<lambda>_. kp_namespace s) (kp_create s)\<rparr>"
| "kp_step K api send (KpCreated c) s =
     (if c \<in> set (fd_calls (kp_create s)) then kp_created K api send c s else s)"
| "kp_step K api send (KpEdit r) s =
     (if r \<in> set (kp_items s) then s\<lparr>kp_edit := fd_opened r (kk_filled K r) (kp_edit s)\<rparr> else s)"
| "kp_step K api send (KpForm f) s = s\<lparr>kp_edit := fd_changed f (kp_edit s)\<rparr>"
| "kp_step K api send KpEditClosed s = s\<lparr>kp_edit := fd_cancelled (kp_edit s)\<rparr>"
| "kp_step K api send KpEditOk s =
     s\<lparr>kp_edit := fd_confirmed False (\<lambda>_. kk_editValid K) (\<lambda>r. (kp_namespace s, r)) (kp_edit s)\<rparr>"
| "kp_step K api send (KpPatched c) s =
     (if c \<in> set (fd_calls (kp_edit s)) then kp_patched K api send c s else s)"
| "kp_step K api send (KpDrop r) s =
     (if r \<in> set (kp_items s) then s\<lparr>kp_drop := cd_asking (kp_namespace s, r) (kp_drop s)\<rparr> else s)"
| "kp_step K api send KpDropOk s = s\<lparr>kp_drop := cd_confirmed (kp_drop s)\<rparr>"
| "kp_step K api send KpDropClosed s = s\<lparr>kp_drop := cd_cancelled (kp_drop s)\<rparr>"
| "kp_step K api send (KpDeleted c) s =
     (if c \<in> set (cd_calls (kp_drop s)) then kp_deleted K api send c s else s)"

lemmas kp_defs = kp_namespace_chosen_def kp_reported_def kp_created_def kp_patched_def kp_deleted_def

fun kp_fills :: "('r, 'c, 'e) keyed_kind \<Rightarrow> ('r, 'c, 'e) keyed_event \<Rightarrow> ('r, 'c, 'e) keyed_page \<Rightarrow> ('r \<times> 'e) option" where
  "kp_fills K (KpEdit r) s = (if r \<in> set (kp_items s) then Some (r, kk_filled K r) else None)"
| "kp_fills K _ s = None"

fun kp_changes :: "('r, 'c, 'e) keyed_event \<Rightarrow> 'e \<Rightarrow> 'e" where
  "kp_changes (KpForm f) v = f v"
| "kp_changes _ v = v"

fun kp_asks :: "('r, 'c, 'e) keyed_event \<Rightarrow> ('r, 'c, 'e) keyed_page \<Rightarrow> (string \<times> 'r) option" where
  "kp_asks (KpDrop r) s = (if r \<in> set (kp_items s) then Some (kp_namespace s, r) else None)"
| "kp_asks _ s = None"

lemma pair_id [simp]: "(\<lambda>(k, v). (k, v)) = id"
  by auto

interpretation ke: form_saving "kp_step K api send" kp_edit "\<lambda>_. kk_editValid K" "\<lambda>s r. (kp_namespace s, r)"
    "kp_fills K" kp_changes
  for K api send
proof unfold_locales
  fix e s
  show "fd_form (kp_edit (kp_step K api send e s)) = None \<or>
      fd_form (kp_edit (kp_step K api send e s)) = (case kp_fills K e s of Some p \<Rightarrow> Some p
        | None \<Rightarrow> map_option (\<lambda>(k, v). (k, kp_changes e v)) (fd_form (kp_edit s)))"
    by (cases e) (auto simp: kp_defs fd_defs Let_def option.map_id split: sum.splits option.splits)
next
  fix e s p
  show "p \<in> set (fd_calls (kp_edit (kp_step K api send e s))) \<Longrightarrow> p \<in> set (fd_calls (kp_edit s)) \<or>
      (\<exists>k v. fd_form (kp_edit s) = Some (k, v) \<and> kk_editValid K v \<and> p = ((kp_namespace s, k), v))"
    by (cases e; cases p) (auto simp: kp_defs fd_defs Let_def split: sum.splits option.splits if_splits
        dest: subsetD [OF set_remove1_subset])
qed

interpretation kd: asked_first "kp_step K api send" kp_drop kp_asks
  for K api send
proof unfold_locales
  fix e s x
  show "cd_asked (kp_drop (kp_step K api send e s)) = Some x \<Longrightarrow> cd_asked (kp_drop s) = Some x \<or> kp_asks e s = Some x"
    by (cases e) (auto simp: kp_defs cd_defs Let_def split: sum.splits option.splits if_splits)
  show "x \<in> set (cd_calls (kp_drop (kp_step K api send e s))) \<Longrightarrow>
      x \<in> set (cd_calls (kp_drop s)) \<or> cd_asked (kp_drop s) = Some x"
    by (cases e) (auto simp: kp_defs cd_defs Let_def split: sum.splits option.splits if_splits
        dest: subsetD [OF set_remove1_subset])
qed

subsection \<open>S3 secrets\<close>

record s3_new =
  n3_name :: string
  n3_kind :: s3_kind
  n3_endpoint :: "string option"
  n3_region :: "string option"
  n3_useHttps :: "bool option"
  n3_bucket :: "string option"
  n3_accessKeyId :: string
  n3_secretAccessKey :: string
  n3_serviceAccount :: "string option"

record s3_edit =
  e3_endpoint :: "string option"
  e3_region :: "string option"
  e3_useHttps :: "bool option"
  e3_bucket :: "string option"
  e3_accessKeyId :: string
  e3_secretAccessKey :: string

definition new_s3 :: s3_new where
  "new_s3 = \<lparr>n3_name = [], n3_kind = S3Compatible, n3_endpoint = None, n3_region = None, n3_useHttps = Some True,
     n3_bucket = None, n3_accessKeyId = [], n3_secretAccessKey = [], n3_serviceAccount = None\<rparr>"

definition s3_new_valid :: "s3_new \<Rightarrow> bool" where
  "s3_new_valid v \<longleftrightarrow> n3_name v \<noteq> [] \<and> n3_accessKeyId v \<noteq> [] \<and> n3_secretAccessKey v \<noteq> []"

definition s3_create :: "string \<Rightarrow> s3_new \<Rightarrow> http_request" where
  "s3_create ns v = createS3Secret ns
     \<lparr>cs_name = n3_name v, cs_kind = n3_kind v, cs_endpoint = or_str (nullish (n3_endpoint v) []) [],
      cs_region = n3_region v, cs_useHttps = nullish (n3_useHttps v) True, cs_bucket = n3_bucket v,
      cs_accessKeyId = n3_accessKeyId v, cs_secretAccessKey = n3_secretAccessKey v,
      cs_serviceAccount = n3_serviceAccount v\<rparr>"

definition s3_filled :: "S3SecretDTO \<Rightarrow> s3_edit" where
  "s3_filled r =
     \<lparr>e3_endpoint = Some (s3_endpoint r), e3_region = s3_region r, e3_useHttps = Some (s3_useHttps r),
      e3_bucket = s3_bucket r, e3_accessKeyId = [], e3_secretAccessKey = []\<rparr>"

definition s3_patch_of :: "s3_edit \<Rightarrow> PatchS3SecretInput" where
  "s3_patch_of v =
     \<lparr>ps_endpoint = Some (nullish (e3_endpoint v) []), ps_region = Some (nullish (e3_region v) []),
      ps_useHttps = Some (nullish (e3_useHttps v) False), ps_bucket = Some (nullish (e3_bucket v) []),
      ps_accessKeyId = (if e3_accessKeyId v = [] then None else Some (e3_accessKeyId v)),
      ps_secretAccessKey = (if e3_secretAccessKey v = [] then None else Some (e3_secretAccessKey v))\<rparr>"

definition S3SecretsPage :: "(S3SecretDTO, s3_new, s3_edit) keyed_kind" where
  "S3SecretsPage =
     \<lparr>kk_listing = listS3Secrets, kk_name = s3_name, kk_new = new_s3, kk_newValid = s3_new_valid, kk_create = s3_create,
      kk_filled = s3_filled, kk_editValid = (\<lambda>_. True), kk_patch = (\<lambda>ns n v. patchS3Secret ns n (s3_patch_of v)),
      kk_delete = deleteS3Secret, kk_label = ''S3 secret''\<rparr>"

definition or_dashed :: "string option \<Rightarrow> string" where
  "or_dashed v = or_str (nullish v []) em_dash"

definition s3_type :: "s3_kind \<Rightarrow> string" where
  "s3_type k = (case k of S3Aws \<Rightarrow> ''AWS S3'' | S3Compatible \<Rightarrow> ''S3 Compatible'')"

definition s3_cells :: "S3SecretDTO \<Rightarrow> string list" where
  "s3_cells r =
     [s3_name r, s3_type (s3_kind r), or_dashed (Some (s3_endpoint r)), or_dashed (s3_region r), or_dashed (s3_bucket r),
      if s3_useHttps r then ''yes'' else ''no'', or_dashed (s3_serviceAccount r), nullish (s3_createdAt r) []]"

subsection \<open>GitLab configurations\<close>

record gitlab_new =
  gn_name :: string
  gn_url :: string
  gn_username :: "string option"
  gn_token :: string

record gitlab_edit =
  ge_url :: "string option"
  ge_username :: "string option"
  ge_token :: string

definition gitlab_patch_of :: "gitlab_edit \<Rightarrow> string option \<times> string option \<times> string option" where
  "gitlab_patch_of v =
     (Some (nullish (ge_url v) []), Some (nullish (ge_username v) []), if ge_token v = [] then None else Some (ge_token v))"

definition gitlab_filled :: "GitLabConfigDTO \<Rightarrow> gitlab_edit" where
  "gitlab_filled r =
     \<lparr>ge_url = Some (gd_url r), ge_username = Some (nullish (gd_username r) []), ge_token = []\<rparr>"

definition GitLabConfigsPage :: "(GitLabConfigDTO, gitlab_new, gitlab_edit) keyed_kind" where
  "GitLabConfigsPage =
     \<lparr>kk_listing = listGitLabConfigs, kk_name = gd_name,
      kk_new = \<lparr>gn_name = [], gn_url = [], gn_username = None, gn_token = []\<rparr>,
      kk_newValid = (\<lambda>v. gn_name v \<noteq> [] \<and> gn_url v \<noteq> [] \<and> gn_token v \<noteq> []),
      kk_create = (\<lambda>ns v. createGitLabConfig ns
        \<lparr>gc_name = gn_name v, gc_url = gn_url v, gc_username = gn_username v, gc_token = gn_token v\<rparr>),
      kk_filled = gitlab_filled, kk_editValid = (\<lambda>v. nullish (ge_url v) [] \<noteq> []),
      kk_patch = (\<lambda>ns n v. case gitlab_patch_of v of (url, username, token) \<Rightarrow> patchGitLabConfig ns n url username token),
      kk_delete = deleteGitLabConfig, kk_label = ''GitLab config''\<rparr>"

definition gitlab_cells :: "GitLabConfigDTO \<Rightarrow> string list" where
  "gitlab_cells r = [gd_name r, gd_url r, or_dashed (gd_username r), nullish (gd_createdAt r) []]"

text \<open>
  A change sent is one of a row that was shown: the request names that row in the namespace selected at the
  confirmation, and its body is what the form was filled with and changed to; a deletion is of a row shown, in
  the namespace it was shown in.
\<close>

lemma configs_patched_as_edited:
  assumes "((ns, r), v) \<in> set (fd_calls (kp_edit (fold (kp_step K api send) es (kp_mounted K api ns0 st))))"
  shows "\<exists>before changing later. es = before @ KpEdit r # changing @ later \<and>
    r \<in> set (kp_items (fold (kp_step K api send) before (kp_mounted K api ns0 st))) \<and>
    v = fold kp_changes changing (kk_filled K r) \<and> kk_editValid K v \<and>
    ns = kp_namespace (fold (kp_step K api send) (before @ KpEdit r # changing) (kp_mounted K api ns0 st))"
proof -
  let ?s0 = "kp_mounted K api ns0 st"
  have "fd_form (kp_edit ?s0) = None" "fd_calls (kp_edit ?s0) = []" by (simp_all add: kp_mounted_def fd_closed_def)
  from ke.sent_as_filled [OF this assms] obtain before e changing later k v0 where
    *: "es = before @ e # changing @ later" "kp_fills K e (fold (kp_step K api send) before ?s0) = Some (k, v0)"
    "v = fold kp_changes changing v0" "kk_editValid K v"
    "(ns, r) = (kp_namespace (fold (kp_step K api send) (before @ e # changing) ?s0), k)" by blast
  then have "e = KpEdit r" "v0 = kk_filled K r" "r \<in> set (kp_items (fold (kp_step K api send) before ?s0))"
    by (auto elim!: kp_fills.elims split: if_splits)
  then show ?thesis using * by blast
qed

lemma config_deletes_are_own:
  assumes "(ns, r) \<in> set (cd_calls (kp_drop (fold (kp_step K api send) es (kp_mounted K api ns0 st))))"
  shows "\<exists>before later. es = before @ KpDrop r # later \<and>
    r \<in> set (kp_items (fold (kp_step K api send) before (kp_mounted K api ns0 st))) \<and>
    ns = kp_namespace (fold (kp_step K api send) before (kp_mounted K api ns0 st))"
proof -
  let ?s0 = "kp_mounted K api ns0 st"
  have "cd_asked (kp_drop ?s0) = None" "cd_calls (kp_drop ?s0) = []" by (simp_all add: kp_mounted_def cd_closed_def)
  from kd.deleted_was_asked [OF this assms] obtain before e later where
    "es = before @ e # later" "kp_asks e (fold (kp_step K api send) before ?s0) = Some (ns, r)" by blast
  then show ?thesis
    by (intro exI [of _ before] exI [of _ later]) (auto elim!: kp_asks.elims split: if_splits)
qed

text \<open>
  Saving without typing a key is an edit of the metadata alone: the request carries no key and no token, and the
  metadata the row has.
\<close>

theorem untouched_secrets_stay:
  "kk_patch S3SecretsPage ns (s3_name r) (kk_filled S3SecretsPage r) =
     json_request PATCH (s3_secret ns (s3_name r)) (JObj
       [(''endpoint'', JStr (s3_endpoint r)), (''region'', JStr (nullish (s3_region r) [])),
        (''useHttps'', JBool (s3_useHttps r)), (''bucket'', JStr (nullish (s3_bucket r) []))]) \<and>
   kk_patch GitLabConfigsPage ns (gd_name g) (kk_filled GitLabConfigsPage g) =
     json_request PATCH (gitlab_config ns (gd_name g)) (JObj
       [(''url'', JStr (gd_url g)), (''username'', JStr (nullish (gd_username g) []))])"
  by (simp add: S3SecretsPage_def s3_filled_def s3_patch_of_def patchS3Secret_def GitLabConfigsPage_def gitlab_filled_def
      gitlab_patch_of_def patchGitLabConfig_def)

text \<open>A key typed in is sent, and nothing but its field changes in the request.\<close>

lemma typed_key_sent:
  "k \<noteq> [] \<Longrightarrow> s3_patch_of ((s3_filled r)\<lparr>e3_secretAccessKey := k\<rparr>) = (s3_patch_of (s3_filled r))\<lparr>ps_secretAccessKey := Some k\<rparr>"
  by (simp add: s3_patch_of_def s3_filled_def)

subsection \<open>Percentages\<close>

text \<open>
  \<open>Math.round((a / b) * 100)\<close> with the quotient and the product rounded to doubles: a double is \<open>m / 2 ^ s\<close> with
  a numerator of 53 bits, the nearest one, the even one of two. There is no percentage of nothing.
\<close>

fun bit_length :: "nat \<Rightarrow> nat" where
  "bit_length n = (if n = 0 then 0 else Suc (bit_length (n div 2)))"

declare bit_length.simps [simp del]

definition round_even :: "nat \<Rightarrow> nat \<Rightarrow> nat" where
  "round_even p q =
     (let d = p div q; r = p mod q in if 2 * r < q \<or> (2 * r = q \<and> even d) then d else d + 1)"

definition scaled :: "int \<Rightarrow> nat \<Rightarrow> nat \<Rightarrow> nat \<times> nat" where
  "scaled s p q = (if 0 \<le> s then (p * 2 ^ nat s, q) else (p, q * 2 ^ nat (- s)))"

definition double_ratio :: "nat \<Rightarrow> nat \<Rightarrow> nat \<times> int" where
  "double_ratio p q =
     (if p = 0 then (0, 0)
      else (let s = 53 - (int (bit_length p) - int (bit_length q));
                t = (case scaled s p q of (a, b) \<Rightarrow> if 2 ^ 53 \<le> a div b then s - 1 else s)
            in (case scaled t p q of (a, b) \<Rightarrow> (round_even a b, t))))"

definition round_percent :: "nat \<Rightarrow> nat \<Rightarrow> nat option" where
  "round_percent a b =
     (if b = 0 then None
      else (case double_ratio a b of (m, s) \<Rightarrow>
        (case double_ratio (100 * fst (scaled (- s) m 1)) (snd (scaled (- s) m 1)) of (m', s') \<Rightarrow>
          (case scaled (- s') m' 1 of (n, d) \<Rightarrow> Some ((2 * n + d) div (2 * d))))))"

subsection \<open>The image registry\<close>

text \<open>
  The form takes its initial values when it mounts and does not follow the store afterwards.
\<close>

record registry_form =
  ry_useBuiltin :: bool
  ry_endpoint :: string
  ry_project :: string
  ry_username :: string

definition registry_filled :: "RegistryConfig \<Rightarrow> registry_form" where
  "registry_filled r =
     \<lparr>ry_useBuiltin = rg_useBuiltin r, ry_endpoint = rg_endpoint r, ry_project = rg_project r,
      ry_username = rg_username r\<rparr>"

definition registry_patch_of :: "registry_form \<Rightarrow> registry_patch" where
  "registry_patch_of v =
     \<lparr>rp_endpoint = Some (ry_endpoint v), rp_username = Some (ry_username v), rp_project = Some (ry_project v),
      rp_useBuiltin = Some (ry_useBuiltin v), rp_totalImages = None, rp_syncedImages = None, rp_diskUsageGi = None,
      rp_capacityGi = None, rp_lastSyncedAt = None\<rparr>"

record registry_page =
  ry_store :: components
  ry_form :: registry_form
  ry_saves :: "registry_form list"
  ry_syncs :: nat
  ry_notices :: "notice list"

definition ry_mounted :: "bool \<Rightarrow> components \<Rightarrow> registry_page" where
  "ry_mounted api st =
     \<lparr>ry_store = ensureRegistryLoaded api (ensureInitialLoad api st), ry_form = registry_filled (registry st), ry_saves = [],
      ry_syncs = 0, ry_notices = []\<rparr>"

definition ry_reported :: "unit promise \<Rightarrow> string \<Rightarrow> registry_page \<Rightarrow> registry_page" where
  "ry_reported r done_text s =
     s\<lparr>ry_notices := ry_notices s @ [case r of Inl e \<Rightarrow> Failure (js_message e) | Inr _ \<Rightarrow> Success done_text]\<rparr>"

definition ry_saved :: "bool \<Rightarrow> RegistryConfig backend \<Rightarrow> registry_form \<Rightarrow> registry_page \<Rightarrow> registry_page" where
  "ry_saved api send v s =
     (let (r, st) = updateRegistry api send (registry_patch_of v) (ry_store s)
      in ry_reported r ''Registry config saved'' (s\<lparr>ry_store := st, ry_saves := remove1 v (ry_saves s)\<rparr>))"

definition ry_synced :: "bool \<Rightarrow> RegistryConfig backend \<Rightarrow> registry_page \<Rightarrow> registry_page" where
  "ry_synced api send s =
     (let (r, st) = syncAllImages api send (ry_store s)
      in ry_reported r ''Sync triggered'' (s\<lparr>ry_store := st, ry_syncs := ry_syncs s - 1\<rparr>))"

datatype registry_event =
    RyStore components | RyForm "registry_form \<Rightarrow> registry_form" | RySave | RySaved registry_form | RySync | RySynced

fun ry_step :: "bool \<Rightarrow> RegistryConfig backend \<Rightarrow> registry_event \<Rightarrow> registry_page \<Rightarrow> registry_page" where
  "ry_step api send (RyStore st) s = s\<lparr>ry_store := st\<rparr>"
| "ry_step api send (RyForm f) s = s\<lparr>ry_form := f (ry_form s)\<rparr>"
| "ry_step api send RySave s =
     (if ry_endpoint (ry_form s) = [] then s else s\<lparr>ry_saves := ry_saves s @ [ry_form s]\<rparr>)"
| "ry_step api send (RySaved v) s = (if v \<in> set (ry_saves s) then ry_saved api send v s else s)"
| "ry_step api send RySync s = s\<lparr>ry_syncs := Suc (ry_syncs s)\<rparr>"
| "ry_step api send RySynced s = (if 0 < ry_syncs s then ry_synced api send s else s)"

definition syncPct :: "RegistryConfig \<Rightarrow> nat option" where
  "syncPct r = round_percent (nat (rg_syncedImages r)) (nat (rg_totalImages r))"

definition diskPct :: "RegistryConfig \<Rightarrow> nat option" where
  "diskPct r = round_percent (nat (rg_diskUsageGi r)) (nat (rg_capacityGi r))"

datatype disk_status = DiskException | DiskActive | DiskNormal

definition disk_status :: "RegistryConfig \<Rightarrow> disk_status" where
  "disk_status r =
     (case diskPct r of
        None \<Rightarrow> if rg_diskUsageGi r > 0 then DiskException else DiskNormal
      | Some p \<Rightarrow> if p > 85 then DiskException else if p > 70 then DiskActive else DiskNormal)"

definition imageRows :: "components \<Rightarrow> (string \<times> string \<times> string \<times> image_sync) list" where
  "imageRows st = concat (map (\<lambda>c. map (\<lambda>i. (co_name c @ '':'' @ i, co_displayName c, i, co_imageSync c)) (co_images c))
     (catalog st))"

text \<open>
  Before the backend answers, the form holds what the store was created with; the answer does not reach it, so
  a click on save sends the demonstration endpoint, whatever the backend is configured to use.
\<close>

lemma registry_form_is_stale:
  "ry_saves (fold (ry_step True send) [RyStore (registry_arrived cfg (ry_store (ry_mounted True components_init))), RySave]
     (ry_mounted True components_init)) = [registry_filled registry_seed] \<and>
   rp_endpoint (registry_patch_of (registry_filled registry_seed)) = Some ''registry.knaic.local''"
  by (simp add: ry_mounted_def registry_filled_def components_init_def registry_seed_def registry_patch_of_def)

text \<open>A save sends what the form holds, and the answer is what the store then shows.\<close>

lemma registry_saved:
  "v \<in> set (ry_saves s) \<Longrightarrow> send (patchRegistry (registry_patch_of v)) = Inr cfg \<Longrightarrow>
   registry (ry_store (ry_step True send (RySaved v) s)) = cfg"
  by (simp add: ry_saved_def updateRegistry_def ry_reported_def)

text \<open>The two roundings show: of 57 in 200 it makes 28 percent, where 28.5 is rounded up.\<close>

lemma percent_examples:
  "round_percent 22 24 = Some 92" "round_percent 57 200 = Some 28" "round_percent 5 5 = Some 100"
  "round_percent 0 24 = Some 0" "round_percent 1 0 = None"
  by (simp_all add: round_percent_def double_ratio_def scaled_def bit_length.simps round_even_def Let_def)

subsection \<open>Components\<close>

fun status_name :: "component_status \<Rightarrow> string" where
  "status_name CsNotInstalled = ''NotInstalled''"
| "status_name CsInstalling = ''Installing''"
| "status_name CsInstalled = ''Installed''"
| "status_name CsFailed = ''Failed''"
| "status_name CsUnmanaged = ''Unmanaged''"

fun manager_text :: "manager \<Rightarrow> string" where
  "manager_text ByOLM = ''OLM''"
| "manager_text ByManual = ''manual''"
| "manager_text ByKnaic = ''knaic''"

definition filtered_components :: "string \<Rightarrow> components \<Rightarrow> ComponentItem list" where
  "filtered_components f st =
     filter (\<lambda>c. str_includes (toLowerCase (co_displayName c @ co_name c @ category_text (co_category c))) (toLowerCase f))
       (catalog st)"

text \<open>Installed by something else than knaic.\<close>

definition foreign :: "ComponentItem \<Rightarrow> bool" where
  "foreign r \<longleftrightarrow> co_status r = CsInstalled \<and> co_managedBy r \<noteq> None \<and> co_managedBy r \<noteq> Some ByKnaic"

text \<open>The buttons of a row; the install button does not react while it shows that it is installing.\<close>

datatype component_action = Install | Reconcile | Uninstall | Remove | RemoveNow

definition component_actions :: "ComponentItem \<Rightarrow> component_action list" where
  "component_actions r =
     (if co_status r = CsInstalled then
        (if foreign r then [] else [Reconcile, Uninstall] @ (if co_builtin r then [] else [Remove]))
      else (if co_status r = CsInstalling then [] else [Install]) @ (if co_builtin r then [] else [RemoveNow]))"

definition version_locked :: "ComponentItem \<Rightarrow> bool" where
  "version_locked r \<longleftrightarrow> co_status r = CsInstalled \<or> co_status r = CsInstalling"

definition component_tags :: "ComponentItem \<Rightarrow> string list" where
  "component_tags r = (if co_builtin r then [] else [''imported'']) @
     (case co_managedBy r of Some m \<Rightarrow> if foreign r then [''via '' @ manager_text m] else [] | None \<Rightarrow> [])"

record import_form =
  im_name :: string
  im_displayName :: "string option"
  im_version :: string
  im_category :: component_category
  im_namespace :: "string option"
  im_description :: "string option"
  im_images :: "string option"

definition new_import :: import_form where
  "new_import = \<lparr>im_name = [], im_displayName = None, im_version = [], im_category = CatInference,
     im_namespace = Some ''knaic-system'', im_description = None, im_images = None\<rparr>"

definition import_valid :: "unit \<Rightarrow> import_form \<Rightarrow> bool" where
  "import_valid u v \<longleftrightarrow> im_name v \<noteq> [] \<and> im_version v \<noteq> []"

text \<open>
  The item of a form; there is none when the images were never touched, for \<open>undefined\<close> cannot be split. The
  row the API adds is the backend's, and \<open>builtin\<close> is not part of the item.
\<close>

definition import_item :: "import_form \<Rightarrow> ComponentItem option" where
  "import_item v =
     map_option (\<lambda>images.
       \<lparr>co_name = im_name v, co_displayName = nullish (im_displayName v) (im_name v),
        co_description = nullish (im_description v) ''Imported Helm chart'', co_category = im_category v,
        co_versions = [im_version v], co_selectedVersion = im_version v, co_status = CsNotInstalled,
        co_namespace = nullish (im_namespace v) ''knaic-system'',
        co_images = filter (\<lambda>i. i \<noteq> []) (map trim (split_on (CHR 0x0A) images)), co_imageSync = SyncPending,
        co_notes = None, co_managedBy = None, co_builtin = False, co_embedded = None, co_lastError = None\<rparr>)
     (im_images v)"

definition split_undefined :: string where
  "split_undefined = ''Cannot read properties of undefined (reading '' @ [CHR 0x27] @ ''split'' @ [CHR 0x27] @ '')''"

datatype said = Told string | Said notice

record components_page =
  cq_store :: components
  cq_filter :: string
  cq_detail :: "ComponentItem option"
  cq_loadError :: "string option"
  cq_import :: "(unit, import_form, unit) form_dialog"
  cq_question :: "(component_action \<times> ComponentItem) confirm_dialog"
  cq_calls :: "(component_action \<times> string) list"
  cq_syncs :: nat
  cq_said :: "said list"

definition cq_mounted :: "bool \<Rightarrow> components \<Rightarrow> components_page" where
  "cq_mounted api st =
     \<lparr>cq_store = loadFromApi api (ensureRegistryLoaded api (ensureInitialLoad api st)), cq_filter = [], cq_detail = None,
      cq_loadError = None, cq_import = fd_closed, cq_question = cd_closed, cq_calls = [], cq_syncs = 0, cq_said = []\<rparr>"

definition cq_tell :: "said \<Rightarrow> components_page \<Rightarrow> components_page" where
  "cq_tell n s = s\<lparr>cq_said := cq_said s @ [n]\<rparr>"

text \<open>The listing of the mount effect; its failure is shown and stays shown.\<close>

definition cq_listed :: "ComponentItem list promise \<Rightarrow> components_page \<Rightarrow> components_page" where
  "cq_listed r s =
     (case r of
        Inl e \<Rightarrow> s\<lparr>cq_store := components_failed (cq_store s), cq_loadError := Some (js_message e)\<rparr>
      | Inr items \<Rightarrow> s\<lparr>cq_store := components_arrived items (cq_store s)\<rparr>)"

definition version_chosen :: "bool \<Rightarrow> ComponentItem \<Rightarrow> string \<Rightarrow> components_page \<Rightarrow> components_page" where
  "version_chosen api r v s =
     s\<lparr>cq_store := updateComponent api (co_name r) (no_patch\<lparr>cp_selectedVersion := Some v\<rparr>) (cq_store s)\<rparr>"

text \<open>A button of a row: two start at once, two ask first.\<close>

definition action_clicked :: "bool \<Rightarrow> component_action \<Rightarrow> ComponentItem \<Rightarrow> components_page \<Rightarrow> components_page" where
  "action_clicked api a r s =
     (case a of
        Install \<Rightarrow> (cq_tell (Told (''Installing '' @ co_displayName r @ '' '' @ co_selectedVersion r @ '' to '' @ co_namespace r)) s)
          \<lparr>cq_store := installComponent api (co_name r) (cq_store s), cq_calls := cq_calls s @ [(Install, co_name r)]\<rparr>
      | Reconcile \<Rightarrow> (cq_tell (Told (''Reconciling '' @ co_displayName r)) s)
          \<lparr>cq_store := reconcileComponent api (co_name r) (cq_store s), cq_calls := cq_calls s @ [(Reconcile, co_name r)]\<rparr>
      | RemoveNow \<Rightarrow> s\<lparr>cq_calls := cq_calls s @ [(RemoveNow, co_name r)]\<rparr>
      | _ \<Rightarrow> s\<lparr>cq_question := cd_asking (a, r) (cq_question s)\<rparr>)"

definition failure_told :: "unit promise \<Rightarrow> components_page \<Rightarrow> components_page" where
  "failure_told r s = (case r of Inl e \<Rightarrow> cq_tell (Said (Failure (js_message e))) s | Inr _ \<Rightarrow> s)"

definition action_answered ::
  "bool \<Rightarrow> ComponentItem backend \<Rightarrow> component_action \<times> string \<Rightarrow> components_page \<Rightarrow> components_page" where
  "action_answered api send c s =
     (let n = snd c;
          (r, st) = (if fst c = RemoveNow then removeComponent api send n (cq_store s)
            else if \<not> api then (Inr (), cq_store s)
            else if fst c = Install then install_answered n (send (installComponentApi n)) (cq_store s)
            else reconcile_answered n (send (reconcileComponentApi n)) (cq_store s))
      in failure_told r (s\<lparr>cq_store := st, cq_calls := remove1 c (cq_calls s)\<rparr>))"

text \<open>Confirmed questions: uninstalling is reported, removing is not; both close either way.\<close>

definition question_answered ::
  "bool \<Rightarrow> ComponentItem backend \<Rightarrow> component_action \<times> ComponentItem \<Rightarrow> components_page \<Rightarrow> components_page" where
  "question_answered api send c s =
     (let n = co_name (snd c);
          (r, st) = (if fst c = Uninstall then uninstallComponent api send n (cq_store s) else removeComponent api send n (cq_store s));
          s' = s\<lparr>cq_store := st, cq_question := cd_answered c True (cq_question s)\<rparr>
      in case r of
           Inl e \<Rightarrow> cq_tell (Said (Failure (js_message e))) s'
         | Inr _ \<Rightarrow> if fst c = Uninstall then cq_tell (Said (Success (co_displayName (snd c) @ '' uninstalled''))) s' else s')"

definition import_answered ::
  "bool \<Rightarrow> ComponentItem backend \<Rightarrow> unit \<times> import_form \<Rightarrow> components_page \<Rightarrow> components_page" where
  "import_answered api send c s =
     (case import_item (snd c) of
        None \<Rightarrow> cq_tell (Said (Failure split_undefined)) (s\<lparr>cq_import := fd_answered c False (cq_import s)\<rparr>)
      | Some item \<Rightarrow>
          (let (r, st) = addImportedComponent api send item (cq_store s);
               s' = s\<lparr>cq_store := st, cq_import := fd_answered c (succeeded r) (cq_import s)\<rparr>
           in case r of Inl e \<Rightarrow> cq_tell (Said (Failure (js_message e))) s'
              | Inr _ \<Rightarrow> cq_tell (Said (Success (''Imported chart '' @ im_name (snd c)))) s'))"

definition cq_synced :: "bool \<Rightarrow> RegistryConfig backend \<Rightarrow> components_page \<Rightarrow> components_page" where
  "cq_synced api send s =
     (let (r, st) = syncAllImages api send (cq_store s)
      in cq_tell (Said (case r of Inl e \<Rightarrow> Failure (js_message e) | Inr _ \<Rightarrow> Success ''Synced all images to registry''))
           (s\<lparr>cq_store := st, cq_syncs := cq_syncs s - 1\<rparr>))"

datatype components_event =
    CqStore components | CqListed "ComponentItem list promise" | CqFilter string | CqDetail "ComponentItem option"
  | CqVersion ComponentItem string | CqAction component_action ComponentItem | CqAnswered "component_action \<times> string"
  | CqOk | CqClosed | CqConfirmed "component_action \<times> ComponentItem"
  | CqImport | CqImportForm "import_form \<Rightarrow> import_form" | CqImportClosed | CqImportOk | CqImported "unit \<times> import_form"
  | CqSync | CqSynced

fun cq_step ::
  "bool \<Rightarrow> ComponentItem backend \<Rightarrow> RegistryConfig backend \<Rightarrow> components_event \<Rightarrow> components_page \<Rightarrow> components_page" where
  "cq_step api send reg (CqStore st) s = s\<lparr>cq_store := st\<rparr>"
| "cq_step api send reg (CqListed r) s = (if api then cq_listed r s else s)"
| "cq_step api send reg (CqFilter f) s = s\<lparr>cq_filter := f\<rparr>"
| "cq_step api send reg (CqDetail r) s = s\<lparr>cq_detail := r\<rparr>"
| "cq_step api send reg (CqVersion r v) s =
     (if r \<in> set (filtered_components (cq_filter s) (cq_store s)) \<and> \<not> version_locked r \<and> v \<in> set (co_versions r)
      then version_chosen api r v s else s)"
| "cq_step api send reg (CqAction a r) s =
     (if r \<in> set (filtered_components (cq_filter s) (cq_store s)) \<and> a \<in> set (component_actions r)
      then action_clicked api a r s else s)"
| "cq_step api send reg (CqAnswered c) s = (if c \<in> set (cq_calls s) then action_answered api send c s else s)"
| "cq_step api send reg CqOk s = s\<lparr>cq_question := cd_confirmed (cq_question s)\<rparr>"
| "cq_step api send reg CqClosed s = s\<lparr>cq_question := cd_cancelled (cq_question s)\<rparr>"
| "cq_step api send reg (CqConfirmed c) s =
     (if c \<in> set (cd_calls (cq_question s)) then question_answered api send c s else s)"
| "cq_step api send reg CqImport s = s\<lparr>cq_import := fd_opened () new_import (cq_import s)\<rparr>"
| "cq_step api send reg (CqImportForm f) s = s\<lparr>cq_import := fd_changed f (cq_import s)\<rparr>"
| "cq_step api send reg CqImportClosed s = s\<lparr>cq_import := fd_cancelled (cq_import s)\<rparr>"
| "cq_step api send reg CqImportOk s = s\<lparr>cq_import := fd_confirmed False import_valid id (cq_import s)\<rparr>"
| "cq_step api send reg (CqImported c) s =
     (if c \<in> set (fd_calls (cq_import s)) then import_answered api send c s else s)"
| "cq_step api send reg CqSync s = s\<lparr>cq_syncs := Suc (cq_syncs s)\<rparr>"
| "cq_step api send reg CqSynced s = (if 0 < cq_syncs s then cq_synced api reg s else s)"

lemmas cq_defs = cq_tell_def cq_listed_def version_chosen_def action_clicked_def failure_told_def action_answered_def
  question_answered_def import_answered_def cq_synced_def

fun cq_asks :: "components_event \<Rightarrow> components_page \<Rightarrow> (component_action \<times> ComponentItem) option" where
  "cq_asks (CqAction a r) s =
     (if r \<in> set (filtered_components (cq_filter s) (cq_store s)) \<and> a \<in> set (component_actions r) \<and> a \<in> {Uninstall, Remove}
      then Some (a, r) else None)"
| "cq_asks _ s = None"

interpretation cq: asked_first "cq_step api send reg" cq_question cq_asks
  for api send reg
proof unfold_locales
  fix e s x
  show "cd_asked (cq_question (cq_step api send reg e s)) = Some x \<Longrightarrow>
      cd_asked (cq_question s) = Some x \<or> cq_asks e s = Some x"
    by (cases e) (auto simp: cq_defs cd_defs Let_def
        split: sum.splits prod.splits option.splits if_splits component_action.splits)
  show "x \<in> set (cd_calls (cq_question (cq_step api send reg e s))) \<Longrightarrow>
      x \<in> set (cd_calls (cq_question s)) \<or> cd_asked (cq_question s) = Some x"
    by (cases e) (auto simp: cq_defs cd_defs Let_def
        split: sum.splits prod.splits option.splits if_splits component_action.splits dest: subsetD [OF set_remove1_subset])
qed

text \<open>
  What knaic did not install it does not touch: whatever is uninstalled or removed after a question was shown as
  installed by knaic when it was asked, and only an imported chart is removed.
\<close>

theorem foreign_components_left_alone:
  assumes "(a, r) \<in> set (cd_calls (cq_question (fold (cq_step api send reg) es (cq_mounted api st))))"
  shows "a \<in> {Uninstall, Remove} \<and> co_status r = CsInstalled \<and> \<not> foreign r \<and> (a = Remove \<longrightarrow> \<not> co_builtin r) \<and>
    (\<exists>before later. es = before @ CqAction a r # later \<and>
      r \<in> set (catalog (cq_store (fold (cq_step api send reg) before (cq_mounted api st)))))"
proof -
  let ?s0 = "cq_mounted api st"
  have "cd_asked (cq_question ?s0) = None" "cd_calls (cq_question ?s0) = []" by (simp_all add: cq_mounted_def cd_closed_def)
  from cq.deleted_was_asked [OF this assms] obtain before e later where
    *: "es = before @ e # later" "cq_asks e (fold (cq_step api send reg) before ?s0) = Some (a, r)" by blast
  from *(2) have "e = CqAction a r" "r \<in> set (catalog (cq_store (fold (cq_step api send reg) before ?s0)))"
    "a \<in> {Uninstall, Remove}" "a \<in> set (component_actions r)"
    by (auto elim!: cq_asks.elims split: if_splits simp: filtered_components_def)
  then show ?thesis using *(1) by (auto simp: component_actions_def split: if_splits)
qed

definition sample_chart :: ComponentItem where
  "sample_chart = (sampleImportedChart ''op'' ''1.0'')\<lparr>co_status := CsInstalled, co_managedBy := Some ByKnaic\<rparr>"

theorem foreign_components_left_alone_witness:
  "cd_calls (cq_question (fold (cq_step False (\<lambda>_. Inl (JsError [])) (\<lambda>_. Inl (JsError []))) [CqAction Remove sample_chart, CqOk]
     (cq_mounted False (components_init\<lparr>catalog := [sample_chart]\<rparr>)))) = [(Remove, sample_chart)] \<and>
   \<not> foreign sample_chart"
proof -
  let ?s = "fold (cq_step False (\<lambda>_. Inl (JsError [])) (\<lambda>_. Inl (JsError []))) [CqAction Remove sample_chart, CqOk]
     (cq_mounted False (components_init\<lparr>catalog := [sample_chart]\<rparr>))"
  have "Remove \<in> set (component_actions sample_chart)"
    by (simp add: component_actions_def sample_chart_def sampleImportedChart_def foreign_def)
  moreover have "str_includes t []" for t :: string by (cases t) simp_all
  then have "sample_chart \<in> set (filtered_components [] (components_init\<lparr>catalog := [sample_chart]\<rparr>))"
    by (simp add: filtered_components_def toLowerCase_def)
  ultimately have sent: "cd_calls (cq_question ?s) = [(Remove, sample_chart)]"
    by (simp add: cq_mounted_def loadFromApi_def ensureRegistryLoaded_def ensureInitialLoad_def action_clicked_def cd_defs)
  then have "(Remove, sample_chart) \<in> set (cd_calls (cq_question ?s))" by simp
  from foreign_components_left_alone [OF this] sent show ?thesis by blast
qed

text \<open>
  The first visit lists the components twice, for the initial load and the page's own run side by side; and an
  import whose images were left alone fails before any request, although they are not required.
\<close>

lemma first_visit_lists_twice:
  "map snd (in_flight (cq_store (cq_mounted True components_init))) = [[listComponents], [listComponents]]"
  by (simp add: cq_mounted_def loadFromApi_def ensureInitialLoad_def ensureRegistryLoaded_def components_init_def
      send_request_def)

lemma import_without_images_fails:
  assumes "im_images v = None" "c = ((), v)"
  shows "cq_store (import_answered api send c s) = cq_store s \<and>
    cq_said (import_answered api send c s) = cq_said s @ [Said (Failure split_undefined)]"
  using assms by (simp add: import_answered_def import_item_def cq_tell_def)

lemma import_valid_without_images: "import_valid () (new_import\<lparr>im_name := ''op'', im_version := ''1.0''\<rparr>) \<and>
   im_images (new_import\<lparr>im_name := ''op'', im_version := ''1.0''\<rparr>) = None"
  by (simp add: import_valid_def new_import_def)

text \<open>The failure of the first listing is still shown after a later one has succeeded.\<close>

lemma load_error_stays:
  "cq_loadError (fold (cq_step True send reg) [CqListed (Inl e), CqListed (Inr items)] s) = Some (js_message e)"
  by (simp add: cq_listed_def)

subsection \<open>The registry of language models\<close>

fun provider_status_of :: "service_status \<Rightarrow> provider_status" where
  "provider_status_of SvReady = LlmReady"
| "provider_status_of SvProgressing = LlmProgressing"
| "provider_status_of SvFailed = LlmFailed"
| "provider_status_of SvStopped = LlmStopped"

text \<open>What a service is offered as, when it has an endpoint, a model and a name.\<close>

definition discovered_model :: "InferenceService \<Rightarrow> string" where
  "discovered_model s = trim (or_str (nullish (is_modelName s) []) (obj_name s))"

definition discovered :: "InferenceService \<Rightarrow> LLMProvider option" where
  "discovered s =
     (let endpoint = openAIBaseURL (is_endpoint s); model = discovered_model s
      in if endpoint = [] \<or> model = [] \<or> obj_name s = [] then None
         else Some \<lparr>pv_id = [], pv_name = obj_name s @ '' (cluster)'', pv_source = FromCluster,
           pv_namespace = Some (obj_namespace s), pv_endpoint = endpoint, pv_apiKey = None, pv_model = model,
           pv_description = Some (''Auto-discovered from '' @ kind_text (is_kind s) @ '' '' @ obj_name s),
           pv_status = provider_status_of (is_status s)\<rparr>)"

definition candidates :: "ServingRuntime list \<Rightarrow> InferenceService list \<Rightarrow> InferenceService list" where
  "candidates rts svcs = filter (\<lambda>s. isOpenAICompatibleService s rts) svcs"

definition fresh_providers :: "ServingRuntime list \<Rightarrow> InferenceService list \<Rightarrow> LLMProvider list" where
  "fresh_providers rts svcs = List.map_filter discovered (candidates rts svcs)"

definition skipped_services :: "ServingRuntime list \<Rightarrow> InferenceService list \<Rightarrow> string list" where
  "skipped_services rts svcs =
     map (\<lambda>s. or_str (obj_name s) (obj_id s)) (filter (\<lambda>s. discovered s = None) (candidates rts svcs))"

definition sync_summary :: "nat \<Rightarrow> string list \<Rightarrow> notice" where
  "sync_summary n skipped =
     (if skipped \<noteq> [] then
        Warning (''Re-synced '' @ show_nat n @ '' services; skipped '' @ show_nat (length skipped) @
          '' with no endpoint/model yet ('' @ join '', '' (take 3 skipped) @ (if length skipped > 3 then ellipsis else []) @ '')'')
      else Success (''Re-synced '' @ show_nat n @ '' in-cluster LLM services''))"

record provider_form =
  vf_name :: string
  vf_endpoint :: string
  vf_apiKey :: "string option"
  vf_model :: string
  vf_description :: "string option"

definition provider_of :: "provider_form \<Rightarrow> LLMProvider" where
  "provider_of v =
     \<lparr>pv_id = [], pv_name = vf_name v, pv_source = External, pv_namespace = None, pv_endpoint = vf_endpoint v,
      pv_apiKey = vf_apiKey v, pv_model = vf_model v, pv_description = vf_description v, pv_status = LlmReady\<rparr>"

definition provider_valid :: "unit \<Rightarrow> provider_form \<Rightarrow> bool" where
  "provider_valid u v \<longleftrightarrow> vf_name v \<noteq> [] \<and> vf_endpoint v \<noteq> [] \<and> vf_model v \<noteq> []"

record llm_page =
  lr_namespace :: string
  lr_store :: providers
  lr_services :: "InferenceService list"
  lr_runtimes :: "ServingRuntime list"
  lr_syncs :: "(LLMProvider list \<times> string list \<times> string) list"
  lr_testing :: "string option"
  lr_tests :: "LLMProvider list"
  lr_add :: "(unit, provider_form, unit) form_dialog"
  lr_drop :: "LLMProvider confirm_dialog"
  lr_notices :: "notice list"

text \<open>The services and runtimes are the rows of their stores, which the effect of the namespace has loaded.\<close>

definition lr_mounted ::
  "bool \<Rightarrow> string \<Rightarrow> providers \<Rightarrow> InferenceService list \<Rightarrow> ServingRuntime list \<Rightarrow> llm_page" where
  "lr_mounted api ns st svcs rts =
     \<lparr>lr_namespace = ns, lr_store = ensureProvidersLoaded api (Some ns) st, lr_services = svcs, lr_runtimes = rts,
      lr_syncs = [], lr_testing = None, lr_tests = [], lr_add = fd_closed, lr_drop = cd_closed, lr_notices = []\<rparr>"

definition lr_namespace_chosen :: "bool \<Rightarrow> string \<Rightarrow> llm_page \<Rightarrow> llm_page" where
  "lr_namespace_chosen api ns s =
     (if ns = lr_namespace s then s
      else s\<lparr>lr_namespace := ns, lr_store := ensureProvidersLoaded api (Some ns) (lr_store s)\<rparr>)"

definition inScope :: "llm_page \<Rightarrow> LLMProvider list" where
  "inScope s = filter (\<lambda>p. pv_source p = External \<or> pv_namespace p = Some (lr_namespace s) \<or> pv_source p = FromCluster)
     (provider_rows (lr_store s))"

definition lr_notify :: "notice \<Rightarrow> llm_page \<Rightarrow> llm_page" where
  "lr_notify n s = s\<lparr>lr_notices := lr_notices s @ [n]\<rparr>"

definition discover :: "llm_page \<Rightarrow> llm_page" where
  "discover s = s\<lparr>lr_syncs := lr_syncs s @
     [(fresh_providers (lr_runtimes s) (lr_services s), skipped_services (lr_runtimes s) (lr_services s), lr_namespace s)]\<rparr>"

definition lr_discovered ::
  "bool \<Rightarrow> LLMProvider backend \<Rightarrow> (nat \<Rightarrow> string) \<Rightarrow> LLMProvider list \<times> string list \<times> string \<Rightarrow> llm_page \<Rightarrow> llm_page" where
  "lr_discovered api send draw c s =
     (let (sent, r, st) = replaceClusterProviders api send draw (fst c) (Some (snd (snd c))) (lr_store s)
      in lr_notify (case r of Inl e \<Rightarrow> Failure (js_message e) | Inr _ \<Rightarrow> sync_summary (length (fst c)) (fst (snd c)))
           (s\<lparr>lr_store := st, lr_syncs := remove1 c (lr_syncs s)\<rparr>))"

definition testProvider :: "bool \<Rightarrow> LLMProvider \<Rightarrow> llm_page \<Rightarrow> llm_page" where
  "testProvider api p s =
     (if pv_status p \<noteq> LlmReady then
        lr_notify (Warning (''Provider '' @ pv_name p @ '' is '' @ llm_status_text (pv_status p))) s
      else if \<not> api then lr_notify (Success ''Provider is available in prototype mode'') s
      else s\<lparr>lr_testing := Some (pv_id p), lr_tests := lr_tests s @ [p]\<rparr>)"

definition test_request :: "LLMProvider \<Rightarrow> http_request" where
  "test_request p = chat_request (pv_id p) [\<lparr>msg_role = MUser, msg_content = ''ping''\<rparr>] (Some (jint 0)) (Some 8)"

text \<open>The test passes no abort signal, so its stream is not aborted.\<close>

definition fault_text :: "fault \<Rightarrow> string" where
  "fault_text f = (case f of Fault e \<Rightarrow> js_message e | Aborted \<Rightarrow> ''Provider test failed'')"

definition test_ended :: "fault + stream_response \<Rightarrow> LLMProvider \<Rightarrow> llm_page \<Rightarrow> llm_page" where
  "test_ended r p s =
     (let (calls, ending) = streamChat r; gotChunk = (\<exists>c \<in> set calls. c \<noteq> OnDone)
      in lr_notify (case ending of Inl f \<Rightarrow> Failure (fault_text f)
           | Inr _ \<Rightarrow> Success (if gotChunk then ''Provider responded'' else ''Provider stream completed''))
           (s\<lparr>lr_testing := None, lr_tests := remove1 p (lr_tests s)\<rparr>))"

definition provider_added ::
  "bool \<Rightarrow> LLMProvider backend \<Rightarrow> string \<Rightarrow> unit \<times> provider_form \<Rightarrow> llm_page \<Rightarrow> llm_page" where
  "provider_added api send draw c s =
     (let (r, st) = addProvider api send draw (provider_of (snd c)) (lr_store s)
      in lr_notify (case r of Inl e \<Rightarrow> Failure (js_message e) | Inr _ \<Rightarrow> Success ''Provider added'')
           (s\<lparr>lr_store := st, lr_add := fd_answered c (succeeded r) (lr_add s)\<rparr>))"

definition provider_dropped :: "bool \<Rightarrow> unit backend \<Rightarrow> LLMProvider \<Rightarrow> llm_page \<Rightarrow> llm_page" where
  "provider_dropped api send p s =
     (let (r, st) = removeProvider api send (pv_id p) (lr_store s)
      in lr_notify (case r of Inl e \<Rightarrow> Failure (js_message e) | Inr _ \<Rightarrow> Success ''Provider removed'')
           (s\<lparr>lr_store := st, lr_drop := cd_answered p (succeeded r) (lr_drop s)\<rparr>))"

datatype llm_event =
    LrNamespace string | LrStore providers | LrRows "InferenceService list" "ServingRuntime list"
  | LrDiscover | LrDiscovered "nat \<Rightarrow> string" "LLMProvider list \<times> string list \<times> string"
  | LrTest LLMProvider | LrTested "fault + stream_response" LLMProvider
  | LrNew | LrForm "provider_form \<Rightarrow> provider_form" | LrClosed | LrOk | LrAdded string "unit \<times> provider_form"
  | LrDrop LLMProvider | LrDropOk | LrDropClosed | LrDropped LLMProvider

fun lr_step :: "bool \<Rightarrow> LLMProvider backend \<Rightarrow> unit backend \<Rightarrow> llm_event \<Rightarrow> llm_page \<Rightarrow> llm_page" where
  "lr_step api send put (LrNamespace ns) s = lr_namespace_chosen api ns s"
| "lr_step api send put (LrStore st) s = s\<lparr>lr_store := st\<rparr>"
| "lr_step api send put (LrRows svcs rts) s = s\<lparr>lr_services := svcs, lr_runtimes := rts\<rparr>"
| "lr_step api send put LrDiscover s = discover s"
| "lr_step api send put (LrDiscovered draw c) s = (if c \<in> set (lr_syncs s) then lr_discovered api send draw c s else s)"
| "lr_step api send put (LrTest p) s =
     (if p \<in> set (inScope s) \<and> lr_testing s \<noteq> Some (pv_id p) then testProvider api p s else s)"
| "lr_step api send put (LrTested r p) s = (if p \<in> set (lr_tests s) then test_ended r p s else s)"
| "lr_step api send put LrNew s =
     s\<lparr>lr_add := fd_opened () \<lparr>vf_name = [], vf_endpoint = [], vf_apiKey = None, vf_model = [], vf_description = None\<rparr> (lr_add s)\<rparr>"
| "lr_step api send put (LrForm f) s = s\<lparr>lr_add := fd_changed f (lr_add s)\<rparr>"
| "lr_step api send put LrClosed s = s\<lparr>lr_add := fd_cancelled (lr_add s)\<rparr>"
| "lr_step api send put LrOk s = s\<lparr>lr_add := fd_confirmed False provider_valid id (lr_add s)\<rparr>"
| "lr_step api send put (LrAdded draw c) s =
     (if c \<in> set (fd_calls (lr_add s)) then provider_added api send draw c s else s)"
| "lr_step api send put (LrDrop p) s =
     (if p \<in> set (inScope s) \<and> pv_source p = External then s\<lparr>lr_drop := cd_asking p (lr_drop s)\<rparr> else s)"
| "lr_step api send put LrDropOk s = s\<lparr>lr_drop := cd_confirmed (lr_drop s)\<rparr>"
| "lr_step api send put LrDropClosed s = s\<lparr>lr_drop := cd_cancelled (lr_drop s)\<rparr>"
| "lr_step api send put (LrDropped p) s = (if p \<in> set (cd_calls (lr_drop s)) then provider_dropped api put p s else s)"

lemmas lr_defs = lr_namespace_chosen_def lr_notify_def discover_def lr_discovered_def testProvider_def test_ended_def
  provider_added_def provider_dropped_def

fun lr_asks :: "llm_event \<Rightarrow> llm_page \<Rightarrow> LLMProvider option" where
  "lr_asks (LrDrop p) s = (if p \<in> set (inScope s) \<and> pv_source p = External then Some p else None)"
| "lr_asks _ s = None"

interpretation lr: asked_first "lr_step api send put" lr_drop lr_asks
  for api send put
proof unfold_locales
  fix e s x
  show "cd_asked (lr_drop (lr_step api send put e s)) = Some x \<Longrightarrow> cd_asked (lr_drop s) = Some x \<or> lr_asks e s = Some x"
    by (cases e) (auto simp: lr_defs cd_defs Let_def split: sum.splits prod.splits option.splits if_splits)
  show "x \<in> set (cd_calls (lr_drop (lr_step api send put e s))) \<Longrightarrow>
      x \<in> set (cd_calls (lr_drop s)) \<or> cd_asked (lr_drop s) = Some x"
    by (cases e) (auto simp: lr_defs cd_defs Let_def split: sum.splits prod.splits option.splits if_splits
        dest: subsetD [OF set_remove1_subset])
qed

lemma only_external_deleted:
  "\<forall>p \<in> set (cd_calls (lr_drop (fold (lr_step api send put) es (lr_mounted api ns st svcs rts)))). pv_source p = External"
proof
  fix p
  assume p: "p \<in> set (cd_calls (lr_drop (fold (lr_step api send put) es (lr_mounted api ns st svcs rts))))"
  have "cd_asked (lr_drop (lr_mounted api ns st svcs rts)) = None" "cd_calls (lr_drop (lr_mounted api ns st svcs rts)) = []"
    by (simp_all add: lr_mounted_def cd_closed_def)
  from lr.deleted_was_asked [OF this p] show "pv_source p = External" by (auto elim!: lr_asks.elims split: if_splits)
qed

text \<open>
  A re-sync offers every compatible service there is or says that it skipped it: what it offers has the name,
  the endpoint and the model the backend asks for, an endpoint with a version segment, and the status of its
  service; and in prototype mode the providers of the namespace are replaced by exactly those.
\<close>

theorem resync_accounts:
  assumes "s' = lr_step False send put (LrDiscovered draw (fresh, skipped, ns)) (discover s)"
    "fresh = fresh_providers (lr_runtimes s) (lr_services s)" "ns = lr_namespace s"
    "skipped = skipped_services (lr_runtimes s) (lr_services s)"
  shows "length fresh + length skipped = length (candidates (lr_runtimes s) (lr_services s)) \<and>
    (\<forall>p \<in> set fresh. pv_name p \<noteq> [] \<and> pv_model p \<noteq> [] \<and> has_version (pv_endpoint p) \<and>
      (\<exists>v \<in> set (lr_services s). isOpenAICompatibleService v (lr_runtimes s) \<and> pv_namespace p = Some (obj_namespace v) \<and>
         pv_name p = obj_name v @ '' (cluster)'' \<and> pv_status p = provider_status_of (is_status v))) \<and>
    map (\<lambda>p. p\<lparr>pv_id := []\<rparr>) (take (length fresh) (provider_rows (lr_store s'))) = fresh \<and>
    drop (length fresh) (provider_rows (lr_store s')) =
      filter (\<lambda>p. \<not> cluster_provider (Some ns) p) (provider_rows (lr_store s)) \<and>
    last (lr_notices s') = sync_summary (length fresh) skipped"
proof -
  have count: "length (List.map_filter discovered vs) + length (filter (\<lambda>v. discovered v = None) vs) = length vs" for vs
    by (induction vs) (auto simp: List.map_filter_simps split: option.splits)
  have usable: "pv_name p \<noteq> [] \<and> pv_model p \<noteq> [] \<and> has_version (pv_endpoint p) \<and> pv_id p = [] \<and>
      pv_namespace p = Some (obj_namespace v) \<and> pv_name p = obj_name v @ '' (cluster)'' \<and>
      pv_status p = provider_status_of (is_status v)" if "discovered v = Some p" for v p
    using that by (auto simp: discovered_def Let_def openAIBaseURL_def v1_versioned split: if_splits)
  have members: "\<exists>v \<in> set (lr_services s). isOpenAICompatibleService v (lr_runtimes s) \<and> discovered v = Some p"
    if "p \<in> set fresh" for p
    using that by (auto simp: assms(2) fresh_providers_def candidates_def List.map_filter_def)
  have step: "s' = lr_discovered False send draw (fresh, skipped, ns) (discover s)"
    by (simp add: assms(1) discover_def assms(2-4))
  have rows: "provider_rows (lr_store s') = map (\<lambda>(i, p). p\<lparr>pv_id := uid (draw i) ''llm''\<rparr>) (zip [0..<length fresh] fresh) @
      filter (\<lambda>p. \<not> cluster_provider (Some ns) p) (provider_rows (lr_store s))"
    by (simp add: step discover_def lr_discovered_def replaceClusterProviders_def lr_notify_def Let_def)
  have "map (\<lambda>p. p\<lparr>pv_id := []\<rparr>) (map (\<lambda>(i, p). p\<lparr>pv_id := uid (draw i) ''llm''\<rparr>) (zip [0..<length fresh] fresh)) =
      map (\<lambda>p. p\<lparr>pv_id := []\<rparr>) fresh"
    by (intro nth_equalityI) simp_all
  also have "\<dots> = fresh" using members usable by (intro map_idI) fastforce
  finally have ids: "map (\<lambda>p. p\<lparr>pv_id := []\<rparr>) (take (length fresh) (provider_rows (lr_store s'))) = fresh"
    by (simp add: rows)
  have "length fresh + length skipped = length (candidates (lr_runtimes s) (lr_services s))"
    using count [of "candidates (lr_runtimes s) (lr_services s)"] by (simp add: assms(2,4) fresh_providers_def skipped_services_def)
  moreover have "last (lr_notices s') = sync_summary (length fresh) skipped"
    by (simp add: step lr_discovered_def replaceClusterProviders_def lr_notify_def Let_def)
  moreover have "drop (length fresh) (provider_rows (lr_store s')) =
      filter (\<lambda>p. \<not> cluster_provider (Some ns) p) (provider_rows (lr_store s))" by (simp add: rows)
  moreover have "\<forall>p \<in> set fresh. pv_name p \<noteq> [] \<and> pv_model p \<noteq> [] \<and> has_version (pv_endpoint p) \<and>
      (\<exists>v \<in> set (lr_services s). isOpenAICompatibleService v (lr_runtimes s) \<and> pv_namespace p = Some (obj_namespace v) \<and>
         pv_name p = obj_name v @ '' (cluster)'' \<and> pv_status p = provider_status_of (is_status v))"
    using members usable by blast
  ultimately show ?thesis using ids by blast
qed

definition sample_llm_service :: InferenceService where
  "sample_llm_service = (hd (servicesInitial (\<lambda>_. ''1'') ''d''))\<lparr>obj_name := ''qwen'', obj_namespace := ''team-b'',
     is_kind := LLMInferenceServiceKind, is_endpoint := Some ''http://qwen/'', is_modelName := None, is_status := SvReady\<rparr>"

definition sample_llm_page :: llm_page where
  "sample_llm_page = lr_mounted False ''team-a'' \<lparr>loadedKey = None, provider_rows = [], listings = []\<rparr> [sample_llm_service] []"

lemma sample_discovered:
  "map (\<lambda>p. (pv_name p, pv_endpoint p, pv_namespace p)) (fresh_providers [] [sample_llm_service]) =
     [(''qwen (cluster)'', ''http://qwen/v1'', Some ''team-b'')]"
  "skipped_services [] [sample_llm_service] = []"
proof -
  have "trim ''qwen'' = ''qwen''" by (rule trim_visible) (simp_all add: visible_def is_space_def wide_spaces_def)
  moreover have "openAIBaseURL (Some ''http://qwen/'') = ''http://qwen/v1''"
    by (simp add: openAIBaseURL_def strip_trailing_def Let_def version_at_def)
  ultimately have d: "map_option (\<lambda>p. (pv_name p, pv_endpoint p, pv_namespace p)) (discovered sample_llm_service) =
      Some (''qwen (cluster)'', ''http://qwen/v1'', Some ''team-b'')"
    by (simp add: sample_llm_service_def discovered_def discovered_model_def Let_def)
  have c: "candidates [] [sample_llm_service] = [sample_llm_service]"
    by (simp add: candidates_def isOpenAICompatibleService_def sample_llm_service_def)
  show "map (\<lambda>p. (pv_name p, pv_endpoint p, pv_namespace p)) (fresh_providers [] [sample_llm_service]) =
      [(''qwen (cluster)'', ''http://qwen/v1'', Some ''team-b'')]"
    using d by (cases "discovered sample_llm_service") (simp_all add: fresh_providers_def c List.map_filter_simps)
  show "skipped_services [] [sample_llm_service] = []"
    using d by (cases "discovered sample_llm_service") (simp_all add: skipped_services_def c)
qed

theorem resync_accounts_witness:
  "\<exists>fresh. length fresh = 1 \<and> last (lr_notices (lr_step False (\<lambda>_. Inl (JsError [])) (\<lambda>_. Inl (JsError []))
     (LrDiscovered (\<lambda>_. []) (fresh, [], ''team-a'')) (discover sample_llm_page))) = sync_summary 1 []"
proof -
  have p: "lr_runtimes sample_llm_page = []" "lr_services sample_llm_page = [sample_llm_service]"
    "lr_namespace sample_llm_page = ''team-a''" by (simp_all add: sample_llm_page_def lr_mounted_def)
  let ?fresh = "fresh_providers [] [sample_llm_service]"
  have "length ?fresh = 1" using arg_cong [OF sample_discovered(1), of length] by simp
  moreover from resync_accounts [OF refl, where s = sample_llm_page and fresh = ?fresh and skipped = "[]" and ns = "''team-a''"
      and send = "\<lambda>_. Inl (JsError [])" and put = "\<lambda>_. Inl (JsError [])" and draw = "\<lambda>_. []"]
  have "last (lr_notices (lr_step False (\<lambda>_. Inl (JsError [])) (\<lambda>_. Inl (JsError [])) (LrDiscovered (\<lambda>_. []) (?fresh, [], ''team-a'')) (discover sample_llm_page))) =
      sync_summary (length ?fresh) []"
    by (simp add: p sample_discovered(2))
  ultimately show ?thesis by metis
qed

text \<open>
  But the services are those of every namespace whose rows the store holds, and only the providers of the
  namespace shown are replaced: a service of another namespace is registered once more at every re-sync.
\<close>

lemma resync_duplicates_others:
  assumes "p \<in> set fresh" "pv_id p = []" "pv_namespace p \<noteq> Some ns" "ns \<noteq> []"
  shows "length (filter (\<lambda>q. q\<lparr>pv_id := []\<rparr> = p) (provider_rows (lr_store (lr_discovered False send draw (fresh, skipped, ns) s)))) >
    length (filter (\<lambda>q. q\<lparr>pv_id := []\<rparr> = p) (provider_rows (lr_store s)))"
proof -
  let ?same = "\<lambda>q. q\<lparr>pv_id := []\<rparr> = p"
  let ?new = "map (\<lambda>(i, x). x\<lparr>pv_id := uid (draw i) ''llm''\<rparr>) (zip [0..<length fresh] fresh)"
  have "provider_rows (lr_store (lr_discovered False send draw (fresh, skipped, ns) s)) =
      ?new @ filter (\<lambda>p. \<not> cluster_provider (Some ns) p) (provider_rows (lr_store s))"
    by (simp add: lr_discovered_def replaceClusterProviders_def lr_notify_def Let_def)
  moreover have "filter ?same (filter (\<lambda>p. \<not> cluster_provider (Some ns) p) (provider_rows (lr_store s))) =
      filter ?same (provider_rows (lr_store s))"
    using assms(3,4) by (auto simp: cluster_provider_def intro!: filter_cong)
  moreover have "filter ?same ?new \<noteq> []"
  proof -
    from assms(1) obtain i where i: "i < length fresh" "fresh ! i = p" by (auto simp: in_set_conv_nth)
    then have "?new ! i = p\<lparr>pv_id := uid (draw i) ''llm''\<rparr>" by simp
    moreover have "i < length ?new" using i(1) by simp
    ultimately have "p\<lparr>pv_id := uid (draw i) ''llm''\<rparr> \<in> set ?new" by (metis nth_mem)
    moreover have "?same (p\<lparr>pv_id := uid (draw i) ''llm''\<rparr>)" using assms(2) by (cases p) simp
    ultimately show ?thesis by (metis (mono_tags, lifting) filter_empty_conv)
  qed
  ultimately show ?thesis by (simp add: length_greater_0_conv [symmetric] del: length_greater_0_conv)
qed

text \<open>The end of one test takes the mark off the row of another that is still running.\<close>

lemma ended_test_clears_other:
  assumes "pv_status a = LlmReady" "pv_status b = LlmReady"
  shows "lr_testing (fold (lr_step True send put) [LrTested r a] (testProvider True b (testProvider True a s))) = None \<and>
    b \<in> set (lr_tests (fold (lr_step True send put) [LrTested r a] (testProvider True b (testProvider True a s)))) \<or> a = b"
proof (cases "a = b")
  case False
  then show ?thesis using assms
    by (auto simp: testProvider_def test_ended_def lr_notify_def Let_def split: prod.splits sum.splits)
qed simp

end
