(* ===== verification/Job_Pages.thy ===== *)
theory Job_Pages
  imports Form_Dialogs Notebooks Training Training_Form Inference_Forms Workloads Models Log_Viewer App_Context
begin

text \<open>
  The pages of notebooks (\<open>pages/notebooks/Notebooks.tsx\<close>), train jobs (\<open>pages/training/TrainJobs.tsx\<close>) and training
  runtimes (\<open>pages/training/TrainingRuntimes.tsx\<close>): their tables, what their buttons do, and the forms of the first
  two with the effects that run while they are open.
\<close>

subsection \<open>Notebooks\<close>

record notebook_form =
  nm_name :: string
  nm_image :: string
  nm_cpuRequest :: string
  nm_cpuLimit :: string
  nm_memoryRequest :: string
  nm_memoryLimit :: string
  nm_gpuProfileId :: "string option"
  nm_gpuValues :: "int js_map option"
  nm_sharedMemory :: string
  nm_volumeKind :: volume_kind
  nm_pvcName :: "string option"
  nm_pvcCapacity :: "string option"
  nm_pvcStorageClass :: "string option"
  nm_mountPath :: "string option"

definition IMAGE_PRESETS :: "(string \<times> string) list" where
  "IMAGE_PRESETS =
    [(''jupyter-pytorch-cuda-full (v1.10.0)'', ''kubeflownotebookswg/jupyter-pytorch-cuda-full:v1.10.0''),
     (''jupyter-scipy (v1.10.0)'', ''kubeflownotebookswg/jupyter-scipy:v1.10.0''),
     (''jupyter-tensorflow-cuda (v1.10.0)'', ''kubeflownotebookswg/jupyter-tensorflow-cuda:v1.10.0''),
     (''vscode-python (v1.10.0)'', ''kubeflownotebookswg/codeserver-python:v1.10.0'')]"

definition new_notebook_form :: notebook_form where
  "new_notebook_form =
     \<lparr>nm_name = [], nm_image = snd (hd IMAGE_PRESETS), nm_cpuRequest = ''4'', nm_cpuLimit = ''4'',
      nm_memoryRequest = ''16Gi'', nm_memoryLimit = ''16Gi'', nm_gpuProfileId = None, nm_gpuValues = None,
      nm_sharedMemory = ''2Gi'', nm_volumeKind = VolNew, nm_pvcName = None, nm_pvcCapacity = Some ''20Gi'',
      nm_pvcStorageClass = Some ''standard'', nm_mountPath = Some ''/home/jovyan''\<rparr>"

text \<open>The effect of the requests watched: an empty limit takes the request.\<close>

definition limits_filled :: "notebook_form \<Rightarrow> notebook_form" where
  "limits_filled v = v\<lparr>nm_cpuLimit := or_str (nm_cpuLimit v) (nm_cpuRequest v),
     nm_memoryLimit := or_str (nm_memoryLimit v) (nm_memoryRequest v)\<rparr>"

text \<open>
  Another kind of volume unmounts the inputs of the old one, which are then back at their initial values; the
  name's input is another one for every kind.
\<close>

definition volume_reset :: "volume_kind \<Rightarrow> notebook_form \<Rightarrow> notebook_form" where
  "volume_reset old v =
     (if nm_volumeKind v = old then v
      else v\<lparr>nm_pvcName := None,
        nm_pvcCapacity := (if old = VolNew then Some ''20Gi'' else nm_pvcCapacity v),
        nm_pvcStorageClass := (if old = VolNew then Some ''standard'' else nm_pvcStorageClass v),
        nm_mountPath := (if nm_volumeKind v = VolNone then Some ''/home/jovyan'' else nm_mountPath v)\<rparr>)"

definition notebook_committed :: "(notebook_form \<Rightarrow> notebook_form) \<Rightarrow> notebook_form \<Rightarrow> notebook_form" where
  "notebook_committed f v =
     (let v' = volume_reset (nm_volumeKind v) (f v)
      in if (nm_cpuRequest v', nm_memoryRequest v') = (nm_cpuRequest v, nm_memoryRequest v) then v' else limits_filled v')"

definition name_char :: "char \<Rightarrow> bool" where
  "name_char c \<longleftrightarrow> c \<in> set (lower_letters @ ''0123456789-'')"

definition notebook_valid :: "unit \<Rightarrow> notebook_form \<Rightarrow> bool" where
  "notebook_valid u v \<longleftrightarrow> nm_name v \<noteq> [] \<and> list_all name_char (nm_name v) \<and> nm_image v \<noteq> [] \<and>
     nm_cpuRequest v \<noteq> [] \<and> nm_cpuLimit v \<noteq> [] \<and> nm_memoryRequest v \<noteq> [] \<and> nm_memoryLimit v \<noteq> [] \<and>
     nm_sharedMemory v \<noteq> [] \<and> (nm_volumeKind v = VolNew \<longrightarrow> truthy_str (nm_pvcCapacity v)) \<and>
     (nm_volumeKind v = VolExisting \<longrightarrow> truthy_str (nm_pvcName v)) \<and>
     (nm_volumeKind v \<noteq> VolNone \<longrightarrow> truthy_str (nm_mountPath v))"

definition notebook_volume :: "notebook_form \<Rightarrow> NotebookVolume" where
  "notebook_volume v =
     \<lparr>vol_kind = nm_volumeKind v,
      vol_pvcName = (case nm_volumeKind v of
          VolExisting \<Rightarrow> nm_pvcName v
        | VolNew \<Rightarrow> Some (or_str (nullish (nm_pvcName v) []) (''notebook-'' @ nm_name v @ ''-home''))
        | VolNone \<Rightarrow> None),
      vol_storageClass = (if nm_volumeKind v = VolNew then Some (nullish (nm_pvcStorageClass v) ''standard'') else None),
      vol_capacity = (if nm_volumeKind v = VolNew then Some (nullish (nm_pvcCapacity v) ''20Gi'') else None),
      vol_mountPath = (if nm_volumeKind v \<noteq> VolNone then Some (nullish (nm_mountPath v) ''/home/jovyan'') else None)\<rparr>"

definition notebook_payload :: "GPUProfile list \<Rightarrow> string \<Rightarrow> notebook_form \<Rightarrow> CreateNotebookRequest" where
  "notebook_payload profiles owner v =
     \<lparr>cn_name = nm_name v, cn_image = nm_image v, cn_cpuRequest = nm_cpuRequest v, cn_cpuLimit = Some (nm_cpuLimit v),
      cn_memoryRequest = nm_memoryRequest v, cn_memoryLimit = Some (nm_memoryLimit v),
      cn_gpuValues = chosen_gpuValues profiles (nm_gpuProfileId v) (nm_gpuValues v),
      cn_sharedMemory = Some (nm_sharedMemory v), cn_volume = notebook_volume v, cn_env = None, cn_owner = Some owner\<rparr>"

text \<open>\<open>np_calls\<close> are the starts (\<open>True\<close>) and stops in flight.\<close>

record notebooks_page =
  np_namespace :: string
  np_user :: User
  np_store :: notebooks
  np_pvcs :: "PVC list"
  np_profiles :: "GPUProfile list"
  np_create :: "(unit, notebook_form, string \<times> string \<times> GPUProfile list) form_dialog"
  np_drop :: "Notebook confirm_dialog"
  np_calls :: "(bool \<times> Notebook) list"
  np_notices :: "notice list"

definition np_mounted :: "bool \<Rightarrow> string \<Rightarrow> User \<Rightarrow> notebooks \<Rightarrow> PVC list \<Rightarrow> GPUProfile list \<Rightarrow> notebooks_page" where
  "np_mounted api ns u st cs ps =
     \<lparr>np_namespace = ns, np_user = u, np_store = ensureNotebooksLoaded api ns st, np_pvcs = cs, np_profiles = ps,
      np_create = fd_closed, np_drop = cd_closed, np_calls = [], np_notices = []\<rparr>"

definition np_namespace_chosen :: "bool \<Rightarrow> string \<Rightarrow> notebooks_page \<Rightarrow> notebooks_page" where
  "np_namespace_chosen api ns s =
     (if ns = np_namespace s then s
      else s\<lparr>np_namespace := ns, np_store := ensureNotebooksLoaded api ns (np_store s)\<rparr>)"

definition np_data :: "notebooks_page \<Rightarrow> Notebook list" where
  "np_data s = filter (\<lambda>n. obj_namespace n = np_namespace s) (notebook_rows (np_store s))"

definition nsPvcs :: "notebooks_page \<Rightarrow> PVC list" where
  "nsPvcs s = filter (\<lambda>p. obj_namespace p = np_namespace s) (np_pvcs s)"

definition pvc_choices :: "notebooks_page \<Rightarrow> (string \<times> string) list" where
  "pvc_choices s = map (\<lambda>p. (obj_name p @ '' '' @ [CHR 0xC2, CHR 0xB7] @ '' '' @ pvc_capacity p, obj_name p)) (nsPvcs s)"

datatype notebook_action = OpenNotebook | StopNotebook | StartNotebook | WaitNotebook

definition notebook_action :: "Notebook \<Rightarrow> notebook_action list" where
  "notebook_action n =
     (case nb_status n of NbRunning \<Rightarrow> [OpenNotebook, StopNotebook] | NbStopped \<Rightarrow> [StartNotebook] | _ \<Rightarrow> [WaitNotebook])"

definition may_delete :: "User \<Rightarrow> Notebook \<Rightarrow> bool" where
  "may_delete u n \<longleftrightarrow> usr_isPlatformAdmin u \<or> nb_owner n = usr_name u"

definition notebook_cells :: "Notebook \<Rightarrow> string list \<times> string list \<times> string list" where
  "notebook_cells n =
     ([obj_name n, nb_owner n, nb_image n],
      [nb_cpu n @ '' CPU'', nb_memory n] @ (if nb_gpu n > 0 then [show_int (nb_gpu n) @ '' GPU''] else []) @
        [''shm '' @ nullish (nb_sharedMemory n) []],
      case nb_volume n of
        None \<Rightarrow> [''none'']
      | Some v \<Rightarrow> if vol_kind v = VolNone then [''none''] else [volume_text (vol_kind v), nullish (vol_pvcName v) []])"

definition np_notify :: "notice \<Rightarrow> notebooks_page \<Rightarrow> notebooks_page" where
  "np_notify n s = s\<lparr>np_notices := np_notices s @ [n]\<rparr>"

definition fulfilled :: "'r promise \<Rightarrow> bool" where
  "fulfilled r = (case r of Inl e \<Rightarrow> False | Inr _ \<Rightarrow> True)"

definition told :: "'r promise \<Rightarrow> string \<Rightarrow> notice" where
  "told r text_done = (case r of Inl e \<Rightarrow> Failure (js_message e) | Inr _ \<Rightarrow> Success text_done)"

text \<open>A start or stop says nothing when it succeeds.\<close>

definition transition_answered ::
  "bool \<Rightarrow> unit backend \<Rightarrow> bool \<times> Notebook \<Rightarrow> notebooks_page \<Rightarrow> notebooks_page" where
  "transition_answered api send c s =
     (let n = snd c;
          (r, st) = (if fst c then startNotebook api send (obj_namespace n) (obj_name n) (np_store s)
            else stopNotebook api send (obj_namespace n) (obj_name n) (np_store s));
          s' = s\<lparr>np_store := st, np_calls := remove1 c (np_calls s)\<rparr>
      in case r of Inl e \<Rightarrow> np_notify (Failure (js_message e)) s' | Inr _ \<Rightarrow> s')"

definition notebook_created ::
  "bool \<Rightarrow> unit backend \<Rightarrow> string \<Rightarrow> (string \<times> string \<times> GPUProfile list) \<times> notebook_form \<Rightarrow> notebooks_page \<Rightarrow> notebooks_page" where
  "notebook_created api send today c s =
     (let (ns, owner, ps) = fst c;
          (r, st) = createNotebook api send today ns (notebook_payload ps owner (snd c)) (np_store s)
      in np_notify (told r ''Notebook created'') (s\<lparr>np_store := st, np_create := fd_answered c (fulfilled r) (np_create s)\<rparr>))"

text \<open>The question closes with a failed deletion too, for the handler keeps the error to itself.\<close>

definition notebook_dropped :: "bool \<Rightarrow> unit backend \<Rightarrow> Notebook \<Rightarrow> notebooks_page \<Rightarrow> notebooks_page" where
  "notebook_dropped api send n s =
     (let (r, st) = deleteNotebook api send (obj_namespace n) (obj_name n) (np_store s)
      in np_notify (told r ''Notebook deleted'') (s\<lparr>np_store := st, np_drop := cd_answered n True (np_drop s)\<rparr>))"

datatype notebooks_event =
    NpNamespace string | NpStore notebooks | NpRows "PVC list" "GPUProfile list" | NpRefresh
  | NpStart Notebook | NpStop Notebook | NpMoved "bool \<times> Notebook"
  | NpNew | NpForm "notebook_form \<Rightarrow> notebook_form" | NpClosed | NpOk
  | NpCreated string "(string \<times> string \<times> GPUProfile list) \<times> notebook_form"
  | NpDrop Notebook | NpDropOk | NpDropClosed | NpDropped Notebook

fun np_step :: "bool \<Rightarrow> unit backend \<Rightarrow> notebooks_event \<Rightarrow> notebooks_page \<Rightarrow> notebooks_page" where
  "np_step api send (NpNamespace ns) s = np_namespace_chosen api ns s"
| "np_step api send (NpStore st) s = s\<lparr>np_store := st\<rparr>"
| "np_step api send (NpRows cs ps) s = s\<lparr>np_pvcs := cs, np_profiles := ps\<rparr>"
| "np_step api send NpRefresh s = s\<lparr>np_store := reloadNotebooks api (np_namespace s) (np_store s)\<rparr>"
| "np_step api send (NpStart n) s =
     (if n \<in> set (np_data s) \<and> StartNotebook \<in> set (notebook_action n) then s\<lparr>np_calls := np_calls s @ [(True, n)]\<rparr> else s)"
| "np_step api send (NpStop n) s =
     (if n \<in> set (np_data s) \<and> StopNotebook \<in> set (notebook_action n) then s\<lparr>np_calls := np_calls s @ [(False, n)]\<rparr> else s)"
| "np_step api send (NpMoved c) s = (if c \<in> set (np_calls s) then transition_answered api send c s else s)"
| "np_step api send NpNew s = s\<lparr>np_create := fd_opened () new_notebook_form (np_create s)\<rparr>"
| "np_step api send (NpForm f) s = s\<lparr>np_create := fd_changed (notebook_committed f) (np_create s)\<rparr>"
| "np_step api send NpClosed s = s\<lparr>np_create := fd_cancelled (np_create s)\<rparr>"
| "np_step api send NpOk s = s\<lparr>np_create :=
     fd_confirmed True notebook_valid (\<lambda>_. (np_namespace s, usr_name (np_user s), np_profiles s)) (np_create s)\<rparr>"
| "np_step api send (NpCreated today c) s =
     (if c \<in> set (fd_calls (np_create s)) then notebook_created api send today c s else s)"
| "np_step api send (NpDrop n) s =
     (if n \<in> set (np_data s) \<and> may_delete (np_user s) n then s\<lparr>np_drop := cd_asking n (np_drop s)\<rparr> else s)"
| "np_step api send NpDropOk s = s\<lparr>np_drop := cd_confirmed (np_drop s)\<rparr>"
| "np_step api send NpDropClosed s = s\<lparr>np_drop := cd_cancelled (np_drop s)\<rparr>"
| "np_step api send (NpDropped n) s = (if n \<in> set (cd_calls (np_drop s)) then notebook_dropped api send n s else s)"

lemmas np_defs = np_namespace_chosen_def np_notify_def transition_answered_def notebook_created_def notebook_dropped_def

fun np_fills :: "notebooks_event \<Rightarrow> notebooks_page \<Rightarrow> (unit \<times> notebook_form) option" where
  "np_fills NpNew s = Some ((), new_notebook_form)"
| "np_fills _ s = None"

fun np_changes :: "notebooks_event \<Rightarrow> notebook_form \<Rightarrow> notebook_form" where
  "np_changes (NpForm f) v = notebook_committed f v"
| "np_changes _ v = v"

fun np_asks :: "notebooks_event \<Rightarrow> notebooks_page \<Rightarrow> Notebook option" where
  "np_asks (NpDrop n) s = (if n \<in> set (np_data s) \<and> may_delete (np_user s) n then Some n else None)"
| "np_asks _ s = None"

lemma pair_same [simp]: "(\<lambda>(k, v). (k, v)) = id"
  by auto

interpretation nc: form_saving "np_step api send" np_create notebook_valid
    "\<lambda>s _. (np_namespace s, usr_name (np_user s), np_profiles s)" np_fills np_changes
  for api send
proof unfold_locales
  fix e s
  show "fd_form (np_create (np_step api send e s)) = None \<or>
      fd_form (np_create (np_step api send e s)) = (case np_fills e s of Some p \<Rightarrow> Some p
        | None \<Rightarrow> map_option (\<lambda>(k, v). (k, np_changes e v)) (fd_form (np_create s)))"
    by (cases e) (auto simp: np_defs fd_defs Let_def option.map_id split: sum.splits prod.splits option.splits)
next
  fix e s and p :: "(string \<times> string \<times> GPUProfile list) \<times> notebook_form"
  show "p \<in> set (fd_calls (np_create (np_step api send e s))) \<Longrightarrow> p \<in> set (fd_calls (np_create s)) \<or>
      (\<exists>k v. fd_form (np_create s) = Some (k, v) \<and> notebook_valid k v \<and>
        p = ((np_namespace s, usr_name (np_user s), np_profiles s), v))"
    by (cases e; cases p) (auto simp: np_defs fd_defs Let_def split: sum.splits prod.splits option.splits if_splits
        dest: subsetD [OF set_remove1_subset])
qed

interpretation ndr: asked_first "np_step api send" np_drop np_asks
  for api send
proof unfold_locales
  fix e s x
  show "cd_asked (np_drop (np_step api send e s)) = Some x \<Longrightarrow> cd_asked (np_drop s) = Some x \<or> np_asks e s = Some x"
    by (cases e) (auto simp: np_defs cd_defs Let_def split: sum.splits prod.splits option.splits if_splits)
  show "x \<in> set (cd_calls (np_drop (np_step api send e s))) \<Longrightarrow>
      x \<in> set (cd_calls (np_drop s)) \<or> cd_asked (np_drop s) = Some x"
    by (cases e) (auto simp: np_defs cd_defs Let_def split: sum.splits prod.splits option.splits if_splits
        dest: subsetD [OF set_remove1_subset])
qed

text \<open>
  A notebook asked for is whole: the form was opened empty and changed, its requests have limits, its shared memory
  a size, and its volume what its kind needs and nothing else - a new one a name, a class, a size and a
  path, an existing one the claim chosen and a path, none nothing.
\<close>

theorem notebooks_asked_whole:
  assumes "((ns, owner, ps), v) \<in> set (fd_calls (np_create (fold (np_step api send) es (np_mounted api ns0 u st cs ps0))))"
    "req = notebook_payload ps owner v"
  shows "(\<exists>before changing later. es = before @ NpNew # changing @ later \<and> v = fold np_changes changing new_notebook_form) \<and>
    cn_name req \<noteq> [] \<and> truthy_str (cn_cpuLimit req) \<and> truthy_str (cn_memoryLimit req) \<and> truthy_str (cn_sharedMemory req) \<and>
    (case vol_kind (cn_volume req) of
       VolNew \<Rightarrow> truthy_str (vol_pvcName (cn_volume req)) \<and> vol_storageClass (cn_volume req) \<noteq> None \<and>
         truthy_str (vol_capacity (cn_volume req)) \<and> truthy_str (vol_mountPath (cn_volume req))
     | VolExisting \<Rightarrow> truthy_str (vol_pvcName (cn_volume req)) \<and> vol_storageClass (cn_volume req) = None \<and>
         vol_capacity (cn_volume req) = None \<and> truthy_str (vol_mountPath (cn_volume req))
     | VolNone \<Rightarrow> cn_volume req = plain_volume VolNone None None)"
proof -
  let ?s0 = "np_mounted api ns0 u st cs ps0"
  have "fd_form (np_create ?s0) = None" "fd_calls (np_create ?s0) = []" by (simp_all add: np_mounted_def fd_closed_def)
  from nc.sent_as_filled [OF this assms(1)] obtain before e changing later k v0 where
    *: "es = before @ e # changing @ later" "np_fills e (fold (np_step api send) before ?s0) = Some (k, v0)"
    "v = fold np_changes changing v0" "notebook_valid k v" by blast
  then have "e = NpNew" "v0 = new_notebook_form" by (auto elim!: np_fills.elims)
  then have "\<exists>before changing later. es = before @ NpNew # changing @ later \<and> v = fold np_changes changing new_notebook_form"
    using * by blast
  moreover have "or_str x (''notebook-'' @ n @ ''-home'') \<noteq> []" for x n by simp
  ultimately show ?thesis using *(4)
    by (auto simp: assms(2) notebook_payload_def notebook_valid_def notebook_volume_def plain_volume_def truthy_str_def
        split: volume_kind.splits option.splits)
qed

definition sample_namer :: "notebook_form \<Rightarrow> notebook_form" where
  "sample_namer v = v\<lparr>nm_name := ''nb''\<rparr>"

definition sample_ben :: User where
  "sample_ben = \<lparr>usr_name = ''ben'', usr_email = [], usr_isPlatformAdmin = False, usr_memberships = []\<rparr>"

definition no_notebooks :: notebooks where
  "no_notebooks = \<lparr>loaded = {}, in_flight = [], now = 0, timers = [], notebook_rows = []\<rparr>"

definition sample_notebook_form :: notebook_form where
  "sample_notebook_form = sample_namer new_notebook_form"

lemma sample_notebook_sent:
  "fd_calls (np_create (fold (np_step False send) [NpNew, NpForm sample_namer, NpOk]
     (np_mounted False ''team-a'' sample_ben no_notebooks [] []))) = [((''team-a'', ''ben'', []), sample_notebook_form)]"
  by (simp add: np_mounted_def fd_defs notebook_committed_def volume_reset_def sample_namer_def new_notebook_form_def
      notebook_valid_def name_char_def IMAGE_PRESETS_def lower_letters_def sample_ben_def sample_notebook_form_def)

theorem notebooks_asked_whole_witness:
  "vol_pvcName (notebook_volume sample_notebook_form) = Some ''notebook-nb-home'' \<and>
   truthy_str (cn_cpuLimit (notebook_payload [] ''ben'' sample_notebook_form))"
proof -
  have "((''team-a'', ''ben'', []), sample_notebook_form) \<in> set (fd_calls (np_create
      (fold (np_step False (\<lambda>_. Inr ())) [NpNew, NpForm sample_namer, NpOk] (np_mounted False ''team-a'' sample_ben no_notebooks [] []))))"
    using sample_notebook_sent by simp
  from notebooks_asked_whole [OF this refl] show ?thesis
    by (simp add: notebook_volume_def sample_notebook_form_def sample_namer_def new_notebook_form_def)
qed

text \<open>Only the owner of a notebook and a platform admin delete it.\<close>

lemma np_user_kept: "np_user (fold (np_step api send) es s) = np_user s"
proof (induction es rule: rev_induct)
  case (snoc e es)
  then show ?case by (cases e) (auto simp: np_defs Let_def split: sum.splits prod.splits)
qed simp

lemma notebook_deletes_are_own:
  assumes "n \<in> set (cd_calls (np_drop (fold (np_step api send) es (np_mounted api ns u st cs ps))))"
  shows "may_delete u n"
proof -
  let ?s0 = "np_mounted api ns u st cs ps"
  have "cd_asked (np_drop ?s0) = None" "cd_calls (np_drop ?s0) = []" by (simp_all add: np_mounted_def cd_closed_def)
  from ndr.deleted_was_asked [OF this assms] obtain before e where
    "np_asks e (fold (np_step api send) before ?s0) = Some n" by blast
  then have "may_delete (np_user (fold (np_step api send) before ?s0)) n" by (auto elim!: np_asks.elims split: if_splits)
  then show ?thesis by (simp add: np_user_kept) (simp add: np_mounted_def)
qed

text \<open>
  The limits follow the requests only while they are empty, and they start filled in: raising a request leaves
  its limit below it.
\<close>

lemma raised_request_keeps_limit:
  "nm_cpuRequest (notebook_committed (\<lambda>v. v\<lparr>nm_cpuRequest := ''8''\<rparr>) new_notebook_form) = ''8'' \<and>
   nm_cpuLimit (notebook_committed (\<lambda>v. v\<lparr>nm_cpuRequest := ''8''\<rparr>) new_notebook_form) = ''4''"
  by (simp add: notebook_committed_def volume_reset_def limits_filled_def new_notebook_form_def)

subsection \<open>Train jobs\<close>

record train_form =
  tf_name :: string
  tf_runtime :: "string option"
  tf_numNodes :: int
  tf_modelUri :: "string option"
  tf_datasetUri :: "string option"
  tf_command :: string
  tf_args :: "string option"
  tf_cpuRequest :: string
  tf_cpuLimit :: string
  tf_memoryRequest :: string
  tf_memoryLimit :: string
  tf_gpuProfileId :: "string option"
  tf_gpuValues :: "int js_map option"
  tf_env :: "(string \<times> string) list option"

definition new_train_form :: train_form where
  "new_train_form =
     \<lparr>tf_name = [], tf_runtime = None, tf_numNodes = 1, tf_modelUri = None, tf_datasetUri = None,
      tf_command = ''python sft.py'', tf_args = None, tf_cpuRequest = ''16'', tf_cpuLimit = ''16'',
      tf_memoryRequest = ''128Gi'', tf_memoryLimit = ''128Gi'', tf_gpuProfileId = None, tf_gpuValues = None, tf_env = None\<rparr>"

definition train_limits :: "train_form \<Rightarrow> train_form" where
  "train_limits v = v\<lparr>tf_cpuLimit := or_str (tf_cpuLimit v) (tf_cpuRequest v),
     tf_memoryLimit := or_str (tf_memoryLimit v) (tf_memoryRequest v)\<rparr>"

definition train_committed :: "(train_form \<Rightarrow> train_form) \<Rightarrow> train_form \<Rightarrow> train_form" where
  "train_committed f v =
     (let v' = f v
      in if (tf_cpuRequest v', tf_memoryRequest v') = (tf_cpuRequest v, tf_memoryRequest v) then v' else train_limits v')"

definition train_valid :: "unit \<Rightarrow> train_form \<Rightarrow> bool" where
  "train_valid u v \<longleftrightarrow> tf_name v \<noteq> [] \<and> list_all name_char (tf_name v) \<and> truthy_str (tf_runtime v) \<and> tf_command v \<noteq> [] \<and>
     tf_cpuRequest v \<noteq> [] \<and> tf_cpuLimit v \<noteq> [] \<and> tf_memoryRequest v \<noteq> [] \<and> tf_memoryLimit v \<noteq> [] \<and>
     list_all (\<lambda>(n, _). n \<noteq> []) (nullish (tf_env v) [])"

definition train_payload :: "GPUProfile list \<Rightarrow> train_form \<Rightarrow> CreateJobRequest" where
  "train_payload profiles v =
     \<lparr>tj_req_name = tf_name v, tj_req_runtime = nullish (tf_runtime v) [], tj_req_numNodes = tf_numNodes v,
      tj_req_command = Some (js_words (tf_command v)),
      tj_req_args = (if truthy_str (tf_args v) then Some (linesToArray (tf_args v)) else None), tj_req_env = tf_env v,
      tj_req_cpuRequest = tf_cpuRequest v, tj_req_cpuLimit = Some (tf_cpuLimit v),
      tj_req_memoryRequest = tf_memoryRequest v, tj_req_memoryLimit = Some (tf_memoryLimit v),
      tj_req_gpuValues = chosen_gpuValues profiles (tf_gpuProfileId v) (tf_gpuValues v), tj_req_modelUri = tf_modelUri v,
      tj_req_datasetUri = tf_datasetUri v, tj_req_mlflowTrackingUri = None, tj_req_mlflowExperiment = None\<rparr>"

record jobs_page =
  jp_namespace :: string
  jp_store :: training
  jp_pods :: "Pod list"
  jp_models :: "ModelItem list"
  jp_profiles :: "GPUProfile list"
  jp_create :: "(unit, train_form, string \<times> GPUProfile list) form_dialog"
  jp_drop :: "(string \<times> TrainJob) confirm_dialog"
  jp_log :: "(TrainJob \<times> Pod option) option"
  jp_compare :: "string list"
  jp_notices :: "notice list"

definition jp_data :: "jobs_page \<Rightarrow> TrainJob list" where
  "jp_data s = filter (\<lambda>j. obj_namespace j = jp_namespace s) (trainJobs (jp_store s))"

definition tracedJobs :: "jobs_page \<Rightarrow> TrainJob list" where
  "tracedJobs s = filter (\<lambda>j. tj_mlflow j \<noteq> None) (jp_data s)"

definition compared :: "jobs_page \<Rightarrow> TrainJob list" where
  "compared s = filter (\<lambda>j. obj_id j \<in> set (jp_compare s)) (tracedJobs s)"

text \<open>The effect of the number of traced jobs: with nothing chosen the first two are.\<close>

definition compare_effect :: "jobs_page \<Rightarrow> jobs_page" where
  "compare_effect s =
     (if jp_compare s = [] \<and> tracedJobs s \<noteq> [] then s\<lparr>jp_compare := map obj_id (take 2 (tracedJobs s))\<rparr> else s)"

definition jp_committed :: "jobs_page \<Rightarrow> jobs_page \<Rightarrow> jobs_page" where
  "jp_committed old s = (if length (tracedJobs s) = length (tracedJobs old) then s else compare_effect s)"

definition jobs_load :: "bool \<Rightarrow> string \<Rightarrow> training \<Rightarrow> training" where
  "jobs_load api ns st = ensureTrainJobsLoaded api ns (ensureTrainingRuntimesLoaded api ns st)"

definition jp_mounted ::
  "bool \<Rightarrow> string \<Rightarrow> training \<Rightarrow> Pod list \<Rightarrow> ModelItem list \<Rightarrow> GPUProfile list \<Rightarrow> jobs_page" where
  "jp_mounted api ns st ps ms gs = compare_effect
     \<lparr>jp_namespace = ns, jp_store = jobs_load api ns st, jp_pods = ps, jp_models = ms, jp_profiles = gs,
      jp_create = fd_closed, jp_drop = cd_closed, jp_log = None, jp_compare = [], jp_notices = []\<rparr>"

definition runtimeOpts :: "jobs_page \<Rightarrow> (string \<times> string) list" where
  "runtimeOpts s = map (\<lambda>r. (obj_name r @ '' '' @ [CHR 0xC2, CHR 0xB7] @ '' '' @ tr_framework r, obj_name r))
     (filter (\<lambda>r. tr_is_builtin r \<or> obj_namespace r = jp_namespace s) (trainingRuntimes (jp_store s)))"

definition modelOpts :: "jobs_page \<Rightarrow> (string \<times> string) list" where
  "modelOpts s = map (\<lambda>m. (m_name m @ '' '' @ em_dash @ '' '' @ m_uri m, m_uri m))
     (filter (\<lambda>m. m_scope m = Public \<or> (m_scope m = Private \<and> m_namespace m = Some (jp_namespace s))) (jp_models s))"

definition job_pod :: "Pod list \<Rightarrow> TrainJob \<Rightarrow> Pod option" where
  "job_pod ps j = find (\<lambda>p. obj_namespace p = obj_namespace j \<and> pod_ownerRef p = Some (''TrainJob/'' @ obj_name j)) ps"

text \<open>
  The rows of the two charts: one per step, with what each run compared has at it, under keys of its name.
\<close>

definition run_samples_of :: "TrainJob \<Rightarrow> MLflowSample list" where
  "run_samples_of j = (case tj_mlflow j of Some r \<Rightarrow> run_samples r | None \<Rightarrow> [])"

definition put_sample :: "nat \<Rightarrow> TrainJob \<Rightarrow> (int \<times> int) js_map \<Rightarrow> (int \<times> int) js_map" where
  "put_sample i j row =
     (if i < length (run_samples_of j) then
        (let x = run_samples_of j ! i; row' = js_put (obj_name j @ ''__loss'') (ml_loss x) row
         in case ml_accuracy x of None \<Rightarrow> row' | Some a \<Rightarrow> js_put (obj_name j @ ''__acc'') a row')
      else row)"

definition compareData :: "TrainJob list \<Rightarrow> (nat \<times> (int \<times> int) js_map) list" where
  "compareData js =
     (if js = [] then []
      else map (\<lambda>i. (Suc i, fold (put_sample i) js [])) [0..<Max (set (map (length \<circ> run_samples_of) js))])"

definition RUN_COLORS :: "string list" where
  "RUN_COLORS = [''#2468f2'', ''#e94f4f'', ''#10b981'', ''#f8b418'', ''#a855f7'', ''#0ea5e9'']"

definition run_color :: "nat \<Rightarrow> string" where
  "run_color i = RUN_COLORS ! (i mod length RUN_COLORS)"

definition job_resources :: "TrainJob \<Rightarrow> string list \<times> string list" where
  "job_resources j =
     ([nullish (tj_cpu j) [] @ '' CPU'', nullish (tj_memory j) []],
      case tj_gpuValues j of
        None \<Rightarrow> [em_dash]
      | Some m \<Rightarrow> map (\<lambda>(k, v). last (split_on CHR ''/'' k) @ ''='' @ show_int v) m)"

datatype progress_mark = MarkException | MarkSuccess | MarkActive

definition progress_mark :: "TrainJob \<Rightarrow> progress_mark" where
  "progress_mark j =
     (case tj_status j of Some JobFailed \<Rightarrow> MarkException | Some JobSucceeded \<Rightarrow> MarkSuccess | _ \<Rightarrow> MarkActive)"

definition jp_notify :: "notice \<Rightarrow> jobs_page \<Rightarrow> jobs_page" where
  "jp_notify n s = s\<lparr>jp_notices := jp_notices s @ [n]\<rparr>"

definition job_log_clicked :: "bool \<Rightarrow> TrainJob \<Rightarrow> jobs_page \<Rightarrow> jobs_page" where
  "job_log_clicked api j s =
     (let p = job_pod (jp_pods s) j
      in if api \<and> p = None then jp_notify (Warning ''No pod found for this TrainJob'') s else s\<lparr>jp_log := Some (j, p)\<rparr>)"

definition job_log_target :: "jobs_page \<Rightarrow> log_target" where
  "job_log_target s =
     \<lparr>lt_open = (jp_log s \<noteq> None),
      lt_containers = nullish (Option.bind (Option.bind (jp_log s) snd) pod_containers) [''trainer'', ''launcher''],
      lt_podRef = map_option (\<lambda>p. (obj_namespace p, obj_name p)) (Option.bind (jp_log s) snd), lt_inferenceRef = None\<rparr>"

text \<open>Cancelling is there in prototype mode only: the job is marked failed.\<close>

definition job_cancelled :: "TrainJob \<Rightarrow> jobs_page \<Rightarrow> jobs_page" where
  "job_cancelled j s = jp_notify (Warning ''Train job canceled'')
     (s\<lparr>jp_store := (jp_store s)\<lparr>trainJobs :=
        map_where (\<lambda>x. obj_id x = obj_id j) (\<lambda>x. x\<lparr>tj_status := Some JobFailed\<rparr>) (trainJobs (jp_store s))\<rparr>\<rparr>)"

definition job_created ::
  "bool \<Rightarrow> unit backend \<Rightarrow> string \<Rightarrow> string \<Rightarrow> (string \<times> GPUProfile list) \<times> train_form \<Rightarrow> jobs_page \<Rightarrow> jobs_page" where
  "job_created api send draw startTime c s =
     (let (r, st) = createTrainJob api send draw startTime (fst (fst c)) (train_payload (snd (fst c)) (snd c)) (jp_store s)
      in jp_notify (told r ''TrainJob submitted'') (s\<lparr>jp_store := st, jp_create := fd_answered c (fulfilled r) (jp_create s)\<rparr>))"

definition job_dropped :: "bool \<Rightarrow> unit backend \<Rightarrow> string \<times> TrainJob \<Rightarrow> jobs_page \<Rightarrow> jobs_page" where
  "job_dropped api send c s =
     (let (r, st) = deleteTrainJob api send (fst c) (snd c) (jp_store s)
      in jp_notify (told r ''Deleted'') (s\<lparr>jp_store := st, jp_drop := cd_answered c (fulfilled r) (jp_drop s)\<rparr>))"

datatype jobs_event =
    JpNamespace string | JpStore training | JpRows "Pod list" "ModelItem list" "GPUProfile list" | JpCompare "string list"
  | JpLogs TrainJob | JpLogsClosed | JpCancel TrainJob
  | JpNew | JpForm "train_form \<Rightarrow> train_form" | JpClosed | JpOk
  | JpCreated string string "(string \<times> GPUProfile list) \<times> train_form"
  | JpDrop TrainJob | JpDropOk | JpDropClosed | JpDropped "string \<times> TrainJob"

fun jp_act :: "bool \<Rightarrow> unit backend \<Rightarrow> jobs_event \<Rightarrow> jobs_page \<Rightarrow> jobs_page" where
  "jp_act api send (JpNamespace ns) s =
     (if ns = jp_namespace s then s else s\<lparr>jp_namespace := ns, jp_store := jobs_load api ns (jp_store s)\<rparr>)"
| "jp_act api send (JpStore st) s = s\<lparr>jp_store := st\<rparr>"
| "jp_act api send (JpRows ps ms gs) s = s\<lparr>jp_pods := ps, jp_models := ms, jp_profiles := gs\<rparr>"
| "jp_act api send (JpCompare ids) s = s\<lparr>jp_compare := ids\<rparr>"
| "jp_act api send (JpLogs j) s = (if j \<in> set (jp_data s) then job_log_clicked api j s else s)"
| "jp_act api send JpLogsClosed s = s\<lparr>jp_log := None\<rparr>"
| "jp_act api send (JpCancel j) s =
     (if j \<in> set (jp_data s) \<and> tj_status j = Some JobRunning \<and> \<not> api then job_cancelled j s else s)"
| "jp_act api send JpNew s = s\<lparr>jp_create := fd_opened () new_train_form (jp_create s)\<rparr>"
| "jp_act api send (JpForm f) s = s\<lparr>jp_create := fd_changed (train_committed f) (jp_create s)\<rparr>"
| "jp_act api send JpClosed s = s\<lparr>jp_create := fd_cancelled (jp_create s)\<rparr>"
| "jp_act api send JpOk s = s\<lparr>jp_create := fd_confirmed False train_valid (\<lambda>_. (jp_namespace s, jp_profiles s)) (jp_create s)\<rparr>"
| "jp_act api send (JpCreated draw startTime c) s =
     (if c \<in> set (fd_calls (jp_create s)) then job_created api send draw startTime c s else s)"
| "jp_act api send (JpDrop j) s =
     (if j \<in> set (jp_data s) then s\<lparr>jp_drop := cd_asking (jp_namespace s, j) (jp_drop s)\<rparr> else s)"
| "jp_act api send JpDropOk s = s\<lparr>jp_drop := cd_confirmed (jp_drop s)\<rparr>"
| "jp_act api send JpDropClosed s = s\<lparr>jp_drop := cd_cancelled (jp_drop s)\<rparr>"
| "jp_act api send (JpDropped c) s = (if c \<in> set (cd_calls (jp_drop s)) then job_dropped api send c s else s)"

definition jp_step :: "bool \<Rightarrow> unit backend \<Rightarrow> jobs_event \<Rightarrow> jobs_page \<Rightarrow> jobs_page" where
  "jp_step api send e s = jp_committed s (jp_act api send e s)"

text \<open>
  The charts show every run compared, whole: there is a row for each step up to the longest run, and the loss and
  the accuracy of a run at a step are what its row has under the run's keys, when the runs' names differ.
\<close>

lemma keys_differ: "x @ ''__loss'' \<noteq> y @ ''__acc''"
proof
  assume "x @ ''__loss'' = y @ ''__acc''"
  then have "rev (x @ ''__loss'') = rev (y @ ''__acc'')" by simp
  then show False by simp
qed

lemma map_of_put_sample:
  "map_of (put_sample i j row) (obj_name k @ ''__loss'') =
     (if i < length (run_samples_of j) \<and> obj_name j = obj_name k then Some (ml_loss (run_samples_of j ! i))
      else map_of row (obj_name k @ ''__loss''))"
  "map_of (put_sample i j row) (obj_name k @ ''__acc'') =
     (if i < length (run_samples_of j) \<and> obj_name j = obj_name k
      then nullish_opt (ml_accuracy (run_samples_of j ! i)) (map_of row (obj_name k @ ''__acc''))
      else map_of row (obj_name k @ ''__acc''))"
  using keys_differ keys_differ [symmetric]
  by (auto simp: put_sample_def Let_def map_of_js_put split: option.splits)

lemma map_of_samples:
  assumes "distinct (map obj_name js)" "k \<in> set js"
  shows "map_of (fold (put_sample i) js row) (obj_name k @ ''__loss'') =
      (if i < length (run_samples_of k) then Some (ml_loss (run_samples_of k ! i)) else map_of row (obj_name k @ ''__loss''))"
    "map_of (fold (put_sample i) js row) (obj_name k @ ''__acc'') =
      (if i < length (run_samples_of k)
       then nullish_opt (ml_accuracy (run_samples_of k ! i)) (map_of row (obj_name k @ ''__acc''))
       else map_of row (obj_name k @ ''__acc''))"
proof -
  have other: "map_of (fold (put_sample i) xs r) (obj_name k @ ''__loss'') = map_of r (obj_name k @ ''__loss'') \<and>
      map_of (fold (put_sample i) xs r) (obj_name k @ ''__acc'') = map_of r (obj_name k @ ''__acc'')"
    if "obj_name k \<notin> obj_name ` set xs" for xs :: "TrainJob list" and r
    using that by (induction xs arbitrary: r) (auto simp: map_of_put_sample)
  obtain before later where js: "js = before @ k # later" using assms(2) by (meson split_list)
  then have "obj_name k \<notin> obj_name ` set before" "obj_name k \<notin> obj_name ` set later" using assms(1) by auto
  then show "map_of (fold (put_sample i) js row) (obj_name k @ ''__loss'') =
      (if i < length (run_samples_of k) then Some (ml_loss (run_samples_of k ! i)) else map_of row (obj_name k @ ''__loss''))"
    "map_of (fold (put_sample i) js row) (obj_name k @ ''__acc'') =
      (if i < length (run_samples_of k)
       then nullish_opt (ml_accuracy (run_samples_of k ! i)) (map_of row (obj_name k @ ''__acc''))
       else map_of row (obj_name k @ ''__acc''))"
    using other by (simp_all add: js map_of_put_sample)
qed

theorem compared_runs_whole:
  assumes "distinct (map obj_name js)"
  shows "map fst (compareData js) = map Suc [0..<length (compareData js)] \<and>
    (\<forall>k \<in> set js. length (run_samples_of k) \<le> length (compareData js) \<and>
      (\<forall>i < length (compareData js).
        map_of (snd (compareData js ! i)) (obj_name k @ ''__loss'') =
          (if i < length (run_samples_of k) then Some (ml_loss (run_samples_of k ! i)) else None) \<and>
        map_of (snd (compareData js ! i)) (obj_name k @ ''__acc'') =
          (if i < length (run_samples_of k) then ml_accuracy (run_samples_of k ! i) else None)))"
proof (cases "js = []")
  case False
  let ?n = "Max (set (map (length \<circ> run_samples_of) js))"
  have rows: "compareData js = map (\<lambda>i. (Suc i, fold (put_sample i) js [])) [0..<?n]"
    using False by (simp add: compareData_def)
  have "map fst (compareData js) = map Suc [0..<length (compareData js)]" by (simp add: rows o_def)
  moreover have "length (run_samples_of k) \<le> length (compareData js)" if "k \<in> set js" for k
    using that by (simp add: rows)
  moreover have "map_of (snd (compareData js ! i)) (obj_name k @ ''__loss'') =
        (if i < length (run_samples_of k) then Some (ml_loss (run_samples_of k ! i)) else None) \<and>
      map_of (snd (compareData js ! i)) (obj_name k @ ''__acc'') =
        (if i < length (run_samples_of k) then ml_accuracy (run_samples_of k ! i) else None)"
    if "k \<in> set js" "i < length (compareData js)" for k i
  proof -
    have "snd (compareData js ! i) = fold (put_sample i) js []" using that(2) by (simp add: rows)
    then show ?thesis using map_of_samples [OF assms that(1), where i = i and row = "[]"]
      by (cases "ml_accuracy (run_samples_of k ! i)") simp_all
  qed
  ultimately show ?thesis by blast
qed (simp add: compareData_def)

definition sample_run :: "string \<Rightarrow> nat \<Rightarrow> TrainJob" where
  "sample_run n k =
     \<lparr>obj_id = n, obj_name = n, obj_namespace = ''team-a'', tj_runtime = ''torch'', tj_numNodes = 1, tj_command = None,
      tj_args = None, tj_env = None, tj_status = Some JobRunning, tj_progress = None, tj_startTime = [], tj_duration = None,
      tj_modelUri = None, tj_datasetUri = None, tj_cpu = None, tj_cpuLimit = None, tj_memory = None, tj_memoryLimit = None,
      tj_gpuProfileId = None, tj_gpuValues = None,
      tj_mlflow = Some \<lparr>run_trackingUri = [], run_experiment = [], run_runId = n,
        run_samples = replicate k \<lparr>ml_step = 1, ml_loss = (int k, 0), ml_accuracy = None\<rparr>, run_source = None\<rparr>\<rparr>"

theorem compared_runs_whole_witness:
  "map_of (snd (compareData [sample_run ''a'' 1, sample_run ''b'' 2] ! 1)) ''b__loss'' = Some (2, 0) \<and>
   map_of (snd (compareData [sample_run ''a'' 1, sample_run ''b'' 2] ! 1)) ''a__loss'' = None"
proof -
  let ?js = "[sample_run ''a'' 1, sample_run ''b'' 2]"
  have s: "run_samples_of (sample_run n k) = replicate k \<lparr>ml_step = 1, ml_loss = (int k, 0), ml_accuracy = None\<rparr>" for n k
    by (simp add: run_samples_of_def sample_run_def)
  have n: "obj_name (sample_run n k) = n" for n k by (simp add: sample_run_def)
  have "distinct (map obj_name ?js)" by (simp add: n)
  from compared_runs_whole [OF this] have all: "\<forall>k \<in> set ?js. length (run_samples_of k) \<le> length (compareData ?js) \<and>
      (\<forall>i < length (compareData ?js). map_of (snd (compareData ?js ! i)) (obj_name k @ ''__loss'') =
         (if i < length (run_samples_of k) then Some (ml_loss (run_samples_of k ! i)) else None))" by blast
  then have "2 \<le> length (compareData ?js)" by (simp add: s)
  then have "1 < length (compareData ?js)" by simp
  with all show ?thesis by (simp add: s n)
qed

fun jp_asks :: "jobs_event \<Rightarrow> jobs_page \<Rightarrow> (string \<times> TrainJob) option" where
  "jp_asks (JpDrop j) s = (if j \<in> set (jp_data s) then Some (jp_namespace s, j) else None)"
| "jp_asks _ s = None"

fun jp_fills :: "jobs_event \<Rightarrow> jobs_page \<Rightarrow> (unit \<times> train_form) option" where
  "jp_fills JpNew s = Some ((), new_train_form)"
| "jp_fills _ s = None"

fun jp_changes :: "jobs_event \<Rightarrow> train_form \<Rightarrow> train_form" where
  "jp_changes (JpForm f) v = train_committed f v"
| "jp_changes _ v = v"

lemma committed_frame:
  "jp_create (jp_committed old s) = jp_create s" "jp_drop (jp_committed old s) = jp_drop s"
  "jp_namespace (jp_committed old s) = jp_namespace s" "jp_log (jp_committed old s) = jp_log s"
  "jp_data (jp_committed old s) = jp_data s"
  by (simp_all add: jp_committed_def compare_effect_def jp_data_def)

lemmas jp_defs = jp_step_def committed_frame jp_notify_def job_log_clicked_def job_cancelled_def job_created_def job_dropped_def

interpretation jc: form_saving "jp_step api send" jp_create train_valid "\<lambda>s _. (jp_namespace s, jp_profiles s)" jp_fills jp_changes
  for api send
proof unfold_locales
  fix e s
  show "fd_form (jp_create (jp_step api send e s)) = None \<or>
      fd_form (jp_create (jp_step api send e s)) = (case jp_fills e s of Some p \<Rightarrow> Some p
        | None \<Rightarrow> map_option (\<lambda>(k, v). (k, jp_changes e v)) (fd_form (jp_create s)))"
    by (cases e) (auto simp: jp_defs fd_defs Let_def option.map_id split: sum.splits prod.splits option.splits)
next
  fix e s and p :: "(string \<times> GPUProfile list) \<times> train_form"
  show "p \<in> set (fd_calls (jp_create (jp_step api send e s))) \<Longrightarrow> p \<in> set (fd_calls (jp_create s)) \<or>
      (\<exists>k v. fd_form (jp_create s) = Some (k, v) \<and> train_valid k v \<and> p = ((jp_namespace s, jp_profiles s), v))"
    by (cases e; cases p) (auto simp: jp_defs fd_defs Let_def split: sum.splits prod.splits option.splits if_splits
        dest: subsetD [OF set_remove1_subset])
qed

interpretation jd: asked_first "jp_step api send" jp_drop jp_asks
  for api send
proof unfold_locales
  fix e s x
  show "cd_asked (jp_drop (jp_step api send e s)) = Some x \<Longrightarrow> cd_asked (jp_drop s) = Some x \<or> jp_asks e s = Some x"
    by (cases e) (auto simp: jp_defs cd_defs Let_def split: sum.splits prod.splits option.splits if_splits)
  show "x \<in> set (cd_calls (jp_drop (jp_step api send e s))) \<Longrightarrow>
      x \<in> set (cd_calls (jp_drop s)) \<or> cd_asked (jp_drop s) = Some x"
    by (cases e) (auto simp: jp_defs cd_defs Let_def split: sum.splits prod.splits option.splits if_splits
        dest: subsetD [OF set_remove1_subset])
qed

text \<open>A job submitted was filled in, and its command is not empty where one word of it is visible.\<close>

lemma jobs_submitted_as_filled:
  assumes "((ns, ps), v) \<in> set (fd_calls (jp_create (fold (jp_step api send) es (jp_mounted api ns0 st pds ms gs))))"
  shows "\<exists>before changing later. es = before @ JpNew # changing @ later \<and> v = fold jp_changes changing new_train_form \<and>
    train_valid () v"
proof -
  let ?s0 = "jp_mounted api ns0 st pds ms gs"
  have "fd_form (jp_create ?s0) = None" "fd_calls (jp_create ?s0) = []"
    by (simp_all add: jp_mounted_def compare_effect_def fd_closed_def)
  from jc.sent_as_filled [OF this assms] obtain before e changing later k v0 where
    *: "es = before @ e # changing @ later" "jp_fills e (fold (jp_step api send) before ?s0) = Some (k, v0)"
    "v = fold jp_changes changing v0" "train_valid k v" by blast
  then have "e = JpNew" "v0 = new_train_form" by (auto elim!: jp_fills.elims)
  then show ?thesis using * by (cases k) blast
qed

text \<open>A job deleted was shown in the namespace the request names.\<close>

lemma job_deletes_are_own:
  assumes "(ns, j) \<in> set (cd_calls (jp_drop (fold (jp_step api send) es (jp_mounted api ns0 st pds ms gs))))"
  shows "obj_namespace j = ns"
proof -
  let ?s0 = "jp_mounted api ns0 st pds ms gs"
  have "cd_asked (jp_drop ?s0) = None" "cd_calls (jp_drop ?s0) = []"
    by (simp_all add: jp_mounted_def compare_effect_def cd_closed_def)
  from jd.deleted_was_asked [OF this assms] show ?thesis by (auto elim!: jp_asks.elims split: if_splits simp: jp_data_def)
qed

text \<open>The log shown is of a pod the job owns, in its namespace.\<close>

lemma job_pod_own:
  "job_pod ps j = Some p \<Longrightarrow> p \<in> set ps \<and> obj_namespace p = obj_namespace j \<and> pod_ownerRef p = Some (''TrainJob/'' @ obj_name j)"
  by (auto simp: job_pod_def find_Some_iff)

text \<open>
  The runs chosen are kept when the namespace changes: none of them is of the new one, nothing else is chosen
  for them, and the charts are empty although there are runs to compare.
\<close>

lemma stale_choice_shows_nothing:
  assumes "jp_compare s \<noteq> []" "s' = jp_step api send (JpNamespace ns) s" "ns \<noteq> jp_namespace s"
    "set (jp_compare s) \<inter> obj_id ` {j \<in> set (trainJobs (jobs_load api ns (jp_store s))). obj_namespace j = ns} = {}"
  shows "compareData (compared s') = []"
proof -
  have "jp_compare s' = jp_compare s" "jp_data s' = filter (\<lambda>j. obj_namespace j = ns) (trainJobs (jobs_load api ns (jp_store s)))"
    using assms(1,3) by (simp_all add: assms(2) jp_step_def jp_committed_def compare_effect_def jp_data_def)
  then have "compared s' = []"
    using assms(4) by (auto simp: compared_def tracedJobs_def filter_empty_conv)
  then show ?thesis by (simp add: compareData_def)
qed

subsection \<open>Training runtimes\<close>

record runtimes_page =
  tp_namespace :: string
  tp_admin :: bool
  tp_store :: training
  tp_open :: bool
  tp_drop :: "(string \<times> TrainingRuntime) confirm_dialog"
  tp_notices :: "notice list"

definition tp_mounted :: "bool \<Rightarrow> string \<Rightarrow> User \<Rightarrow> training \<Rightarrow> runtimes_page" where
  "tp_mounted api ns u st =
     \<lparr>tp_namespace = ns, tp_admin = usr_isPlatformAdmin u, tp_store = ensureTrainingRuntimesLoaded api ns st,
      tp_open = False, tp_drop = cd_closed, tp_notices = []\<rparr>"

definition tp_data :: "runtimes_page \<Rightarrow> TrainingRuntime list" where
  "tp_data s = filter (\<lambda>r. tr_is_builtin r \<or> obj_namespace r = tp_namespace s) (trainingRuntimes (tp_store s))"

definition runtime_cells :: "TrainingRuntime \<Rightarrow> string list" where
  "runtime_cells r =
     (let res = nullish (tr_resourcesPerNode r) no_resources; dot = '' '' @ [CHR 0xC2, CHR 0xB7] @ '' ''
      in [obj_name r, if tr_is_builtin r then ''builtin'' else [], obj_namespace r, tr_framework r, tr_image r,
          show_int (tr_numNodes r),
          res_cpu res @ '' CPU'' @ dot @ res_memory res @ dot @ show_int (res_gpu res) @ '' GPU'', tr_createdAt r])"

definition runtime_question :: "TrainingRuntime \<Rightarrow> string \<times> string option" where
  "runtime_question r =
     (''Delete runtime '' @ obj_name r @ ''?'',
      if tr_is_builtin r
      then Some (''This is a builtin ClusterTrainingRuntime '' @ em_dash @ '' removing it will affect all namespaces.'')
      else None)"

definition runtime_dropped :: "bool \<Rightarrow> unit backend \<Rightarrow> string \<times> TrainingRuntime \<Rightarrow> runtimes_page \<Rightarrow> runtimes_page" where
  "runtime_dropped api send c s =
     (let (r, st) = deleteTrainingRuntime api send (fst c) (snd c) (tp_store s)
      in s\<lparr>tp_store := st, tp_drop := cd_answered c (fulfilled r) (tp_drop s),
           tp_notices := tp_notices s @ [told r ''Runtime deleted'']\<rparr>)"

datatype runtimes_event =
    TpNamespace string | TpStore training | TpNew | TpClosed
  | TpDrop TrainingRuntime | TpDropOk | TpDropClosed | TpDropped "string \<times> TrainingRuntime"

fun tp_step :: "bool \<Rightarrow> unit backend \<Rightarrow> runtimes_event \<Rightarrow> runtimes_page \<Rightarrow> runtimes_page" where
  "tp_step api send (TpNamespace ns) s =
     (if ns = tp_namespace s then s
      else s\<lparr>tp_namespace := ns, tp_store := ensureTrainingRuntimesLoaded api ns (tp_store s)\<rparr>)"
| "tp_step api send (TpStore st) s = s\<lparr>tp_store := st\<rparr>"
| "tp_step api send TpNew s = s\<lparr>tp_open := True\<rparr>"
| "tp_step api send TpClosed s = s\<lparr>tp_open := False\<rparr>"
| "tp_step api send (TpDrop r) s =
     (if r \<in> set (tp_data s) \<and> \<not> (tr_is_builtin r \<and> \<not> tp_admin s)
      then s\<lparr>tp_drop := cd_asking (tp_namespace s, r) (tp_drop s)\<rparr> else s)"
| "tp_step api send TpDropOk s = s\<lparr>tp_drop := cd_confirmed (tp_drop s)\<rparr>"
| "tp_step api send TpDropClosed s = s\<lparr>tp_drop := cd_cancelled (tp_drop s)\<rparr>"
| "tp_step api send (TpDropped c) s = (if c \<in> set (cd_calls (tp_drop s)) then runtime_dropped api send c s else s)"

fun tp_asks :: "runtimes_event \<Rightarrow> runtimes_page \<Rightarrow> (string \<times> TrainingRuntime) option" where
  "tp_asks (TpDrop r) s =
     (if r \<in> set (tp_data s) \<and> \<not> (tr_is_builtin r \<and> \<not> tp_admin s) then Some (tp_namespace s, r) else None)"
| "tp_asks _ s = None"

interpretation td: asked_first "tp_step api send" tp_drop tp_asks
  for api send
proof unfold_locales
  fix e s x
  show "cd_asked (tp_drop (tp_step api send e s)) = Some x \<Longrightarrow> cd_asked (tp_drop s) = Some x \<or> tp_asks e s = Some x"
    by (cases e) (auto simp: runtime_dropped_def cd_defs Let_def split: prod.splits option.splits if_splits)
  show "x \<in> set (cd_calls (tp_drop (tp_step api send e s))) \<Longrightarrow>
      x \<in> set (cd_calls (tp_drop s)) \<or> cd_asked (tp_drop s) = Some x"
    by (cases e) (auto simp: runtime_dropped_def cd_defs Let_def split: prod.splits option.splits if_splits
        dest: subsetD [OF set_remove1_subset])
qed

text \<open>
  Only a platform admin deletes a builtin runtime; any other is deleted in its own namespace, with the request
  that names it there.
\<close>

lemma builtin_runtime_needs_admin:
  assumes "(ns, r) \<in> set (cd_calls (tp_drop (fold (tp_step api send) es (tp_mounted api ns0 u st))))"
  shows "(tr_is_builtin r \<and> usr_isPlatformAdmin u) \<or> (\<not> tr_is_builtin r \<and> obj_namespace r = ns)"
proof -
  let ?s0 = "tp_mounted api ns0 u st"
  have kept: "tp_admin (fold (tp_step api send) es s) = tp_admin s" for es s
  proof (induction es rule: rev_induct)
    case (snoc e es)
    then show ?case by (cases e) (auto simp: runtime_dropped_def Let_def split: prod.splits)
  qed simp
  have "cd_asked (tp_drop ?s0) = None" "cd_calls (tp_drop ?s0) = []" by (simp_all add: tp_mounted_def cd_closed_def)
  from td.deleted_was_asked [OF this assms] obtain before e where
    "tp_asks e (fold (tp_step api send) before ?s0) = Some (ns, r)" by blast
  then have "r \<in> set (tp_data (fold (tp_step api send) before ?s0))" "ns = tp_namespace (fold (tp_step api send) before ?s0)"
    "\<not> (tr_is_builtin r \<and> \<not> tp_admin (fold (tp_step api send) before ?s0))"
    by (auto elim!: tp_asks.elims split: if_splits)
  then show ?thesis by (auto simp: kept tp_data_def tp_mounted_def)
qed

end
