(* ===== verification/Spec2Isabelle.thy ===== *)
theory Spec2Isabelle
  imports Store Cluster_Resources Training Components Models Users_Rbac Notebooks Oidc Catalogues Playground_Store Local_Model_Cache Ai_Storage Session
    App_Context Agent_Workspace Playground_Pages Gpu_Status Training_Form Log_Viewer Storage_Display S3_Browser GitLab_Browser Pvc_Manager Model_Hub App_Routes Model_Detail Inference_Forms Yaml_Pages Inference_Pages Monitoring_Pages Gateway_Pages Container_Pages Form_Dialogs Access_Pages Config_Pages Job_Pages
begin

text \<open>
  \<^bold>\<open>The program.\<close> knaic is a console for AI workloads on Kubernetes. This development models its frontend
  (\<open>frontend/src\<close>, TypeScript and React); the Go backend is the other side of the requests and enters as
  an argument. The frontend has four layers, and a call goes down through them and an answer up:
  the HTTP client and its bindings (\<open>api/\<close>) build requests and read answers and event streams;
  the stores (\<open>data/\<close>) cache rows per namespace in observable cells (\<open>data/store.ts\<close>), written by
  loaders and commands - without a backend the commands change seeded rows and set timers, the prototype
  mode; the session and the application context (\<open>auth/\<close>, \<open>context/\<close>) decide whether the application is
  shown, for whom and in which namespace; the pages (\<open>pages/\<close>, \<open>components/\<close>, \<open>layouts/\<close>) keep selections,
  forms and dialogs, and start loads in effects whose answers may be late.

  \<^bold>\<open>Conventions.\<close> A JavaScript string is its UTF-8 bytes; a plain object with fixed fields is a record, one
  used as a dictionary an association list in insertion order; an optional field is an option. A promise
  is a sum, the rejection on the left; \<open>api\<close> stands for \<open>apiEnabled\<close> and \<open>send\<close> (or \<open>get\<close>, \<open>put\<close>,
  \<open>respond\<close>) for the backend: what it answers. An operation that changes nothing before its \<open>await\<close> is one
  function of the answer; others are split where they wait, and the calls in flight are part of the state, so
  answers arrive in any order. React effects are functions of the states before and after a render; a
  cancelled effect is one whose run number is not the newest. Values a closure captured are arguments
  of the step that runs it later. Numbers are integers, decimals a mantissa and an exponent; only the
  generator of the demonstration series (\<open>Monitoring_Pages\<close>) depends on 32 bits and on the rounding of
  doubles, and has them. What is drawn by chance or read from the clock is an argument.

  \<^bold>\<open>Libraries.\<close> \<open>Knaic_Prelude\<close>: JSON, requests, rows and slots, list lemmas. \<open>Interfaces\<close>: the contracts
  shared by the stores as locales (a cache of rows per slot, a keyed collection, a loader), interpreted where a
  store provides them. \<open>Url_Encoding\<close>, \<open>Js_Text\<close>, \<open>Js_Json\<close>, \<open>Js_Number\<close>: what the code uses of JavaScript's
  library, with round trips. \<open>Event_Loop\<close>: fetches in flight behind a \<open>loaded\<close> set, and timers.

  \<^bold>\<open>Client and bindings.\<close> \<open>Api_Client\<close>: \<open>api/client.ts\<close> and \<open>api/k8sres.ts\<close> - modes, bearer token, outcomes of
  a request, resource paths. \<open>Event_Streams\<close>: the log, chat and agent streams - what is sent arrives, however it is
  cut into chunks. \<open>Oidc\<close>: \<open>auth/oidc.ts\<close> - the login round trip with PKCE. The bindings of a store are with it.

  \<^bold>\<open>Stores.\<close> \<open>Store\<close> (\<open>data/store.ts\<close>), \<open>Workloads\<close>, \<open>Cluster_Resources\<close>, \<open>Api_Inference\<close> and \<open>Inference\<close>, \<open>Training\<close>,
  \<open>Components\<close>, \<open>Models\<close>, \<open>Users_Rbac\<close>, \<open>Notebooks\<close>, \<open>Catalogues\<close> (nodes, GPU profiles, storage targets,
  collections), \<open>Playground_Store\<close>, \<open>Local_Model_Cache\<close>, \<open>Ai_Storage\<close>: each has its rows as records, one
  function per exported operation with both modes, and lemmas on every branch. Their groups of lemmas show that a
  history of listings refines a map from slots to rows, that commands refine updates of a map or fail
  without a change, that unsettled rows have their timers pending, and that what a builder or request
  writes is read back.

  \<^bold>\<open>Session and context.\<close> \<open>Session\<close> (\<open>auth/AuthContext.tsx\<close>, \<open>data/reset.ts\<close>): a state machine from the boot to
  the rejection of a session; its invariant is over the reachable states. \<open>App_Context\<close>
  (\<open>context/AppContext.tsx\<close>): user, roles, namespaces. \<open>App_Routes\<close> (\<open>App.tsx\<close>, \<open>layouts/MainLayout.tsx\<close>): routes,
  menu and links.

  \<^bold>\<open>Pages.\<close> \<open>Agent_Workspace\<close>, \<open>Playground_Pages\<close>, \<open>Gpu_Status\<close>, \<open>Training_Form\<close>, \<open>Log_Viewer\<close>, \<open>Storage_Display\<close>,
  \<open>S3_Browser\<close>, \<open>GitLab_Browser\<close>, \<open>Pvc_Manager\<close>, \<open>Model_Hub\<close>, \<open>Model_Detail\<close>, \<open>Inference_Forms\<close>, \<open>Yaml_Pages\<close>,
  \<open>Inference_Pages\<close>, \<open>Monitoring_Pages\<close>: the state of each page, its handlers and effects as steps, and what
  the user sees as a function of the state. Three contracts recur and are locales:
  \<open>reloading\<close> (\<open>S3_Browser\<close>): an answer replaces the listing, the last asked for wins when answers come in
  order; \<open>yaml_editing\<close> (\<open>Yaml_Pages\<close>): a save sends to the object opened what was opened or last typed;
  \<open>charting\<close> (\<open>Monitoring_Pages\<close>): a cancelled answer never shows, and with none in flight the chart is its
  subject's. Each page interprets them on its own step function.

  \<^bold>\<open>Bounds and fuel.\<close> The paged project listing reads fifty pages at most, as the code does, which is its
  measure; the parsers recurse on the text left; the stream loops recurse on the chunks. No definition
  runs out of fuel. Timers are kept in the state with their delays, and time passes as a step.

  \<^bold>\<open>Not modelled.\<close> Rendering, style and table layout: what they show is a function of the state modelled.
  The values of the demonstration series (sines and rounded decimals) and the seeded train jobs. The
  browser's own behaviour: clipboard, downloads, scrolling, collation, date parsing, which are
  arguments or events. The pages that only list and edit one store through its modelled operations (the
  administration pages, the dashboard). The backend.
\<close>

end
